(* ===== verification/PyBase.thy ===== *)
theory PyBase
  imports Main "HOL-Library.AList" "HOL-Library.Char_ord" "HOL-Library.List_Lexorder"
begin

text \<open>
  The prelude of the development: Python values as JSON can carry them, the string and
  dictionary operations of the Python standard library that the modelled code calls, and the
  lemmas every component shares.

  Python strings are lists of characters with code points 0 to 255 (Latin-1); the classification
  of characters (\<open>isalnum\<close>, \<open>isspace\<close>) and the case mappings below are Python's on that range.
  Python integers are \<open>int\<close>; floating point numbers are not represented.  A dictionary is an
  association list with distinct keys in insertion order: \<open>AList.update\<close> keeps the place of an
  existing key and appends a new one, as Python does.
\<close>

named_theorems py_simps \<open>evaluation of Python string and dictionary operations\<close>
named_theorems enum_values \<open>the string values of the enumerations\<close>

section \<open>Values\<close>

datatype pyval =
    PNone
  | PBool bool
  | PInt int
  | PStr string
  | PList "pyval list"
  | PDict "(string \<times> pyval) list"

type_synonym pydict = "(string \<times> pyval) list"

text \<open>\<open>bool(v)\<close>.\<close>

fun truthy :: "pyval \<Rightarrow> bool" where
  "truthy PNone = False"
| "truthy (PBool b) = b"
| "truthy (PInt i) = (i \<noteq> 0)"
| "truthy (PStr s) = (s \<noteq> [])"
| "truthy (PList xs) = (xs \<noteq> [])"
| "truthy (PDict d) = (d \<noteq> [])"

text \<open>\<open>v or w\<close>.\<close>

definition py_or :: "pyval \<Rightarrow> pyval \<Rightarrow> pyval" where
  "py_or v w = (if truthy v then v else w)"

text \<open>\<open>s or t\<close> for a string that may be absent: both \<open>None\<close> and the empty string are falsy.\<close>

fun str_or :: "string option \<Rightarrow> string \<Rightarrow> string" where
  "str_or None t = t"
| "str_or (Some s) t = (if s = [] then t else s)"

fun opt_str :: "string option \<Rightarrow> pyval" where
  "opt_str None = PNone"
| "opt_str (Some s) = PStr s"

section \<open>Dictionaries\<close>

definition dict_get :: "pydict \<Rightarrow> string \<Rightarrow> pyval" where
  \<comment> \<open>\<open>d.get(k)\<close>: \<open>None\<close> when the key is missing\<close>
  "dict_get d k = (case map_of d k of None \<Rightarrow> PNone | Some v \<Rightarrow> v)"

definition has_key :: "pydict \<Rightarrow> string \<Rightarrow> bool" where
  "has_key d k = (map_of d k \<noteq> None)"

definition dict_set :: "string \<Rightarrow> pyval \<Rightarrow> pydict \<Rightarrow> pydict" where
  "dict_set k v d = AList.update k v d"

definition opt_entry :: "bool \<Rightarrow> string \<Rightarrow> pyval \<Rightarrow> pydict" where
  "opt_entry c k v = (if c then [(k, v)] else [])"

fun dict_merge :: "pydict \<Rightarrow> pydict \<Rightarrow> pydict" where
  \<comment> \<open>\<open>{**d, **e}\<close> and \<open>d.update(e)\<close>\<close>
  "dict_merge d [] = d"
| "dict_merge d ((k, v) # e) = dict_merge (dict_set k v d) e"

lemma dict_get_set [simp]:
  "dict_get (dict_set k v d) k' = (if k = k' then v else dict_get d k')"
  by (simp add: dict_get_def dict_set_def update_conv)

lemma dict_get_Nil [simp]: "dict_get [] k = PNone" "\<not> has_key [] k"
  by (simp_all add: dict_get_def has_key_def)

lemma map_of_rev_distinct: "distinct (map fst xs) \<Longrightarrow> map_of (rev xs) = map_of xs"
proof (induction xs)
  case (Cons x xs)
  then have "map_of xs (fst x) = None" by (simp add: map_of_eq_None_iff)
  with Cons show ?case by (auto simp: fun_eq_iff map_add_def split: option.splits)
qed simp

lemma dict_get_Cons [simp]:
  "dict_get ((k, v) # d) k' = (if k = k' then v else dict_get d k')"
  "has_key ((k, v) # d) k' = (k = k' \<or> has_key d k')"
  by (auto simp: dict_get_def has_key_def)

lemma opt_entry_get [simp]:
  "dict_get (opt_entry c k v @ e) k' = (if c \<and> k = k' then v else dict_get e k')"
  "dict_get (opt_entry c k v) k' = (if c \<and> k = k' then v else PNone)"
  "has_key (opt_entry c k v @ e) k' = (c \<and> k = k' \<or> has_key e k')"
  "has_key (opt_entry c k v) k' = (c \<and> k = k')"
  by (auto simp: opt_entry_def dict_get_def has_key_def)

lemma map_of_dict_set [simp]: "map_of (dict_set k v d) = (map_of d)(k \<mapsto> v)"
  by (simp add: dict_set_def update_conv')

lemma has_key_set [simp]: "has_key (dict_set k v d) k' = (k = k' \<or> has_key d k')"
  by (auto simp: has_key_def)

definition set_default :: "string \<Rightarrow> pyval \<Rightarrow> pydict \<Rightarrow> pydict" where
  \<comment> \<open>\<open>d.setdefault(k, v)\<close>\<close>
  "set_default k v d = (if has_key d k then d else dict_set k v d)"

lemma set_default_get: "dict_get (set_default k v d) k' = (if k = k' \<and> \<not> has_key d k then v else dict_get d k')"
  by (auto simp: set_default_def)

lemma set_default_has: "has_key (set_default k v d) k' = (k = k' \<or> has_key d k')"
  by (auto simp: set_default_def)

lemma not_has_key: "\<not> has_key d k \<Longrightarrow> dict_get d k = PNone"
  by (simp add: has_key_def dict_get_def)

lemma map_of_dict_merge: "map_of (dict_merge d e) = map_of d ++ map_of (rev e)"
  by (induction d e rule: dict_merge.induct) (auto simp: map_add_def split: option.splits)

lemma distinct_dict_set [simp]:
  "distinct (map fst d) \<Longrightarrow> distinct (map fst (dict_set k v d))"
  by (simp add: dict_set_def distinct_update)

lemma distinct_dict_merge [simp]:
  "distinct (map fst d) \<Longrightarrow> distinct (map fst (dict_merge d e))"
  by (induction d e rule: dict_merge.induct) auto

section \<open>Characters and strings\<close>

definition code_point :: "char \<Rightarrow> nat" where
  "code_point c = of_char c"

definition is_space :: "char \<Rightarrow> bool" where
  "is_space c = (let n = code_point c in (9 \<le> n \<and> n \<le> 13) \<or> (28 \<le> n \<and> n \<le> 32) \<or> n = 133 \<or> n = 160)"

definition is_alnum :: "char \<Rightarrow> bool" where
  "is_alnum c = (let n = code_point c in
     (48 \<le> n \<and> n \<le> 57) \<or> (65 \<le> n \<and> n \<le> 90) \<or> (97 \<le> n \<and> n \<le> 122) \<or>
     n \<in> {170, 178, 179, 181, 185, 186, 188, 189, 190} \<or>
     (192 \<le> n \<and> n \<noteq> 215 \<and> n \<noteq> 247))"

definition lower_char :: "char \<Rightarrow> char" where
  "lower_char c = (let n = code_point c in
     if (65 \<le> n \<and> n \<le> 90) \<or> (192 \<le> n \<and> n \<le> 222 \<and> n \<noteq> 215) then char_of (n + 32) else c)"

definition upper_char :: "char \<Rightarrow> string" where
  \<comment> \<open>sharp s becomes two letters; micro and y with diaeresis leave the Latin-1 range and are kept\<close>
  "upper_char c = (let n = code_point c in
     if n = 223 then ''SS''
     else if (97 \<le> n \<and> n \<le> 122) \<or> (224 \<le> n \<and> n \<le> 254 \<and> n \<noteq> 247) then [char_of (n - 32)]
     else [c])"

definition py_lower :: "string \<Rightarrow> string" where
  "py_lower s = map lower_char s"

definition py_upper :: "string \<Rightarrow> string" where
  "py_upper s = concat (map upper_char s)"

definition strip_by :: "(char \<Rightarrow> bool) \<Rightarrow> string \<Rightarrow> string" where
  "strip_by p s = rev (dropWhile p (rev (dropWhile p s)))"

definition py_strip :: "string \<Rightarrow> string" where
  "py_strip s = strip_by is_space s"

fun py_prefix :: "string \<Rightarrow> string \<Rightarrow> bool" where
  \<comment> \<open>\<open>s.startswith(p)\<close>, prefix first\<close>
  "py_prefix [] s = True"
| "py_prefix (p # ps) [] = False"
| "py_prefix (p # ps) (c # s) = (p = c \<and> py_prefix ps s)"

fun py_contains :: "string \<Rightarrow> string \<Rightarrow> bool" where
  \<comment> \<open>\<open>t in s\<close>\<close>
  "py_contains t [] = (t = [])"
| "py_contains t (c # s) = (py_prefix t (c # s) \<or> py_contains t s)"

fun py_join :: "string \<Rightarrow> string list \<Rightarrow> string" where
  "py_join sep [] = []"
| "py_join sep [x] = x"
| "py_join sep (x # y # xs) = x @ sep @ py_join sep (y # xs)"

lemma strip_by_Nil_iff: "strip_by p s = [] \<longleftrightarrow> (\<forall>c \<in> set s. p c)"
proof
  assume "strip_by p s = []"
  then have all: "\<forall>c \<in> set (dropWhile p s). p c"
    by (simp add: strip_by_def)
  have "dropWhile p s = []"
    using all hd_dropWhile [of p s] list.set_sel(1) by blast
  then show "\<forall>c \<in> set s. p c" by simp
next
  assume "\<forall>c \<in> set s. p c"
  then have "dropWhile p s = []" by simp
  then show "strip_by p s = []" unfolding strip_by_def by (simp only: rev.simps dropWhile.simps)
qed

lemma strip_by_subset: "set (strip_by p s) \<subseteq> set s"
proof
  fix c
  assume "c \<in> set (strip_by p s)"
  then have "c \<in> set (dropWhile p s)"
    by (auto simp: strip_by_def dest: set_dropWhileD)
  then show "c \<in> set s" by (rule set_dropWhileD)
qed

lemma strip_by_last: "strip_by p s \<noteq> [] \<Longrightarrow> \<not> p (last (strip_by p s))"
  unfolding strip_by_def
  by (metis hd_dropWhile last_rev rev_is_Nil_conv)

lemma strip_by_id: "\<forall>c \<in> set s. \<not> p c \<Longrightarrow> strip_by p s = s"
proof -
  assume none: "\<forall>c \<in> set s. \<not> p c"
  have drop: "\<forall>c \<in> set t. \<not> p c \<Longrightarrow> dropWhile p t = t" for t by (cases t) auto
  from none show ?thesis by (simp add: strip_by_def drop)
qed

lemma strip_by_idem [simp]: "strip_by p (strip_by p s) = strip_by p s"
proof -
  let ?t = "dropWhile p s"
  let ?u = "dropWhile p (rev ?t)"
  have u: "dropWhile p ?u = ?u" by (simp add: dropWhile_eq_self_iff hd_dropWhile)
  have "dropWhile p (rev ?u) = rev ?u"
  proof (cases "rev ?u = []")
    case False
    obtain v where "rev ?t = v @ ?u" by (metis takeWhile_dropWhile_id)
    then have "?t = rev ?u @ rev v" by (metis rev_append rev_rev_ident)
    with False have "hd (rev ?u) = hd ?t" and "?t \<noteq> []" by (metis hd_append2, metis append_is_Nil_conv)
    then have "\<not> p (hd (rev ?u))" using hd_dropWhile by metis
    then show ?thesis by (simp add: dropWhile_eq_self_iff)
  next
    case True
    show ?thesis unfolding True by simp
  qed
  then show ?thesis using u by (simp add: strip_by_def)
qed

lemma py_strip_idem [simp]: "py_strip (py_strip s) = py_strip s"
  by (simp add: py_strip_def)

lemma py_strip_Nil [simp]: "py_strip [] = []"
  by (simp add: py_strip_def strip_by_def)

lemma py_prefix_iff: "py_prefix p s \<longleftrightarrow> (\<exists>t. s = p @ t)"
  by (induction p s rule: py_prefix.induct) auto

lemma py_contains_iff: "py_contains t s \<longleftrightarrow> (\<exists>u v. s = u @ t @ v)"
proof (induction t s rule: py_contains.induct)
  case (1 t)
  then show ?case by auto
next
  case (2 t c s)
  show ?case
  proof
    assume "py_contains t (c # s)"
    then show "\<exists>u v. c # s = u @ t @ v"
      using "2.IH" by (auto simp: py_prefix_iff) (metis append_Cons append_Nil)+
  next
    assume "\<exists>u v. c # s = u @ t @ v"
    then obtain u v where eq: "c # s = u @ t @ v" by blast
    show "py_contains t (c # s)"
    proof (cases u)
      case Nil
      with eq have "py_prefix t (c # s)" by (auto simp: py_prefix_iff)
      then show ?thesis by simp
    next
      case (Cons a w)
      with eq have "s = w @ t @ v" by simp
      then have "py_contains t s" using "2.IH" by blast
      then show ?thesis by simp
    qed
  qed
qed

text \<open>\<open>str(n)\<close> of an integer.\<close>

definition digit_char :: "nat \<Rightarrow> char" where
  "digit_char d = char_of (48 + d)"

fun show_nat :: "nat \<Rightarrow> string" where
  "show_nat n = (if n < 10 then [digit_char n] else show_nat (n div 10) @ [digit_char (n mod 10)])"

declare show_nat.simps [simp del]

definition show_int :: "int \<Rightarrow> string" where
  "show_int i = (if i < 0 then CHR ''-'' # show_nat (nat (- i)) else show_nat (nat i))"

text \<open>\<open>repr(v)\<close>, which \<open>str\<close> uses inside lists and dictionaries.\<close>

definition hex_char :: "nat \<Rightarrow> char" where
  "hex_char d = (if d < 10 then char_of (48 + d) else char_of (87 + d))"

definition printable :: "char \<Rightarrow> bool" where
  "printable c = (let n = code_point c in (32 \<le> n \<and> n \<le> 126) \<or> (161 \<le> n \<and> n \<noteq> 173))"

definition repr_char :: "char \<Rightarrow> char \<Rightarrow> string" where
  "repr_char q c =
     (if c = CHR 0x5C \<or> c = q then [CHR 0x5C, c]
      else if code_point c = 9 then [CHR 0x5C, CHR ''t'']
      else if code_point c = 10 then [CHR 0x5C, CHR ''n'']
      else if code_point c = 13 then [CHR 0x5C, CHR ''r'']
      else if printable c then [c]
      else [CHR 0x5C, CHR ''x'', hex_char (code_point c div 16), hex_char (code_point c mod 16)])"

definition repr_str :: "string \<Rightarrow> string" where
  "repr_str s =
     (let q = (if CHR 0x27 \<in> set s \<and> CHR 0x22 \<notin> set s then CHR 0x22 else CHR 0x27)
      in q # concat (map (repr_char q) s) @ [q])"

fun py_repr :: "pyval \<Rightarrow> string" where
  "py_repr PNone = ''None''"
| "py_repr (PBool b) = (if b then ''True'' else ''False'')"
| "py_repr (PInt i) = show_int i"
| "py_repr (PStr s) = repr_str s"
| "py_repr (PList xs) = ''['' @ py_join '', '' (map py_repr xs) @ '']''"
| "py_repr (PDict d) =
     ''{'' @ py_join '', '' (map (\<lambda>(k, v). repr_str k @ '': '' @ py_repr v) d) @ ''}''"

definition py_str :: "pyval \<Rightarrow> string" where
  "py_str v = (case v of PStr s \<Rightarrow> s | _ \<Rightarrow> py_repr v)"

lemma py_str_PStr [simp]: "py_str (PStr s) = s"
  by (simp add: py_str_def)

text \<open>\<open>str(d.get(k) or "")\<close>, the way the code reads a string field of a row.\<close>

definition get_str :: "pydict \<Rightarrow> string \<Rightarrow> string" where
  "get_str d k = py_str (py_or (dict_get d k) (PStr []))"

lemma get_str_set [simp]:
  "get_str (dict_set k v d) k' = (if k = k' then py_str (py_or v (PStr [])) else get_str d k')"
  by (simp add: get_str_def)

lemma py_or_PStr [simp]: "py_str (py_or (PStr s) (PStr [])) = s"
  by (simp add: py_or_def)

text \<open>The three copies of \<open>_safe_file_id\<close> differ in the fallback name only.\<close>

definition id_char :: "char \<Rightarrow> bool" where
  "id_char c = (is_alnum c \<or> c \<in> {CHR ''-'', CHR ''_'', CHR ''.''})"

definition safe_file_id :: "string \<Rightarrow> string \<Rightarrow> string" where
  "safe_file_id fallback s =
     (let safe = map (\<lambda>c. if id_char c then c else CHR ''_'') s;
          t = strip_by (\<lambda>c. c \<in> {CHR ''.'', CHR ''_''}) safe
      in if t = [] then fallback else t)"

lemma id_char_underscore [simp]: "id_char CHR ''_''"
  by (simp add: id_char_def)

lemma safe_file_id_chars:
  assumes "\<forall>c \<in> set fallback. id_char c"
  shows "\<forall>c \<in> set (safe_file_id fallback s). id_char c"
proof -
  let ?m = "map (\<lambda>c. if id_char c then c else CHR ''_'') s"
  have "\<forall>c \<in> set ?m. id_char c" by auto
  then have "\<forall>c \<in> set (strip_by (\<lambda>c. c \<in> {CHR ''.'', CHR ''_''}) ?m). id_char c"
    using strip_by_subset by blast
  with assms show ?thesis by (simp add: safe_file_id_def Let_def)
qed

lemma safe_file_id_nonempty: "fallback \<noteq> [] \<Longrightarrow> safe_file_id fallback s \<noteq> []"
  by (simp add: safe_file_id_def Let_def)

section \<open>Results\<close>

text \<open>
  A function that may raise returns \<open>'e + 'a\<close>, the exception on the left.  \<open>bindE\<close> runs the rest of
  the body when no exception was raised.
\<close>

definition bindE :: "'e + 'a \<Rightarrow> ('a \<Rightarrow> 'e + 'b) \<Rightarrow> 'e + 'b" where
  "bindE m f = (case m of Inl e \<Rightarrow> Inl e | Inr x \<Rightarrow> f x)"

lemma bindE_simps [simp]:
  "bindE (Inl e) f = Inl e"
  "bindE (Inr x) f = f x"
  by (simp_all add: bindE_def)

lemma bindE_Inr_iff: "bindE m f = Inr y \<longleftrightarrow> (\<exists>x. m = Inr x \<and> f x = Inr y)"
  by (cases m) auto

lemma bindE_Inl_iff: "bindE m f = Inl e \<longleftrightarrow> m = Inl e \<or> (\<exists>x. m = Inr x \<and> f x = Inl e)"
  by (cases m) auto

lemma map_sum_Inr_iff: "map_sum f h m = Inr y \<longleftrightarrow> (\<exists>x. m = Inr x \<and> y = h x)"
  by (cases m) auto

fun mapE :: "('a \<Rightarrow> 'e + 'b) \<Rightarrow> 'a list \<Rightarrow> 'e + 'b list" where
  "mapE f [] = Inr []"
| "mapE f (x # xs) = bindE (f x) (\<lambda>y. bindE (mapE f xs) (\<lambda>ys. Inr (y # ys)))"

text \<open>
  \<open>uuid4().hex\<close> is a supply of strings, indexed in the order the calls of one operation draw from
  it; \<open>skip_ids k\<close> is the supply that is left after \<open>k\<close> draws.
\<close>

type_synonym ids = "nat \<Rightarrow> string"

definition skip_ids :: "nat \<Rightarrow> ids \<Rightarrow> ids" where
  "skip_ids k u = (\<lambda>i. u (i + k))"

section \<open>Machines that may raise\<close>

text \<open>A run applies operations one after the other and stops at the first exception.\<close>

fun run_ops :: "('o \<Rightarrow> 's \<Rightarrow> 'e + 's) \<Rightarrow> 'o list \<Rightarrow> 's \<Rightarrow> 'e + 's" where
  "run_ops step [] s = Inr s"
| "run_ops step (a # as) s = bindE (step a s) (run_ops step as)"

lemma run_ops_append: "run_ops step (as @ bs) s = bindE (run_ops step as s) (run_ops step bs)"
proof (induction as arbitrary: s)
  case Nil
  then show ?case by simp
next
  case (Cons a as)
  then show ?case by (cases "step a s") simp_all
qed

text \<open>A machine whose operations, as long as they satisfy \<open>ok\<close>, keep an invariant.\<close>

locale guarded_machine =
  fixes ok :: "'o \<Rightarrow> bool"
    and step :: "'o \<Rightarrow> 's \<Rightarrow> 'e + 's"
    and inv :: "'s \<Rightarrow> bool"
  assumes ok_step_inv: "ok a \<Longrightarrow> inv s \<Longrightarrow> step a s = Inr t \<Longrightarrow> inv t"
begin

lemma ok_run_inv: "list_all ok as \<Longrightarrow> inv s \<Longrightarrow> run_ops step as s = Inr t \<Longrightarrow> inv t"
proof (induction as arbitrary: s)
  case Nil
  then show ?case by simp
next
  case (Cons a as)
  from Cons.prems(3) obtain s' where s': "step a s = Inr s'" and "run_ops step as s' = Inr t"
    by (auto simp: bindE_Inr_iff)
  moreover have "inv s'"
    using ok_step_inv [OF _ Cons.prems(2) s'] Cons.prems(1) by simp
  ultimately show ?case using Cons.IH Cons.prems(1) by simp
qed

end

text \<open>The same without a restriction on the operations.\<close>

locale invariant_machine =
  fixes step :: "'o \<Rightarrow> 's \<Rightarrow> 'e + 's"
    and inv :: "'s \<Rightarrow> bool"
  assumes step_inv: "inv s \<Longrightarrow> step a s = Inr t \<Longrightarrow> inv t"

sublocale invariant_machine \<subseteq> every_op: guarded_machine "\<lambda>_. True" step inv
  by unfold_locales (rule step_inv)

context invariant_machine
begin

lemma run_inv: "inv s \<Longrightarrow> run_ops step as s = Inr t \<Longrightarrow> inv t"
  by (rule every_op.ok_run_inv [of as]) (simp_all add: list_all_iff)

end

text \<open>
  A machine that validates every object it builds: whatever it returns is valid, also when it
  started from an invalid object.
\<close>

locale validating_machine =
  fixes step :: "'o \<Rightarrow> 's \<Rightarrow> 'e + 's"
    and valid :: "'s \<Rightarrow> bool"
  assumes step_valid: "step a s = Inr t \<Longrightarrow> valid t"
begin

lemma run_valid: "as \<noteq> [] \<Longrightarrow> run_ops step as s = Inr t \<Longrightarrow> valid t"
proof (induction as arbitrary: s)
  case Nil
  then show ?case by simp
next
  case (Cons a as)
  from Cons.prems(2) obtain s' where "step a s = Inr s'" and "run_ops step as s' = Inr t"
    by (auto simp: bindE_Inr_iff)
  then show ?case using Cons.IH step_valid by (cases "as = []") auto
qed

end

sublocale validating_machine \<subseteq> invariant_machine step valid
  by unfold_locales (rule step_valid)

end
