(* ===== verification/GlitchM1.thy ===== *)
theory GlitchM1
  imports PyBase
begin

text \<open>
  \<open>modules/glitch_stack/m1.py\<close>: the contracts of the glitch stack.  The enumerations and frozen
  dataclasses come first, then the validators, then the reducers, which build an object, validate
  it and raise \<open>GlitchValidationError\<close> when it is invalid.  The current time and \<open>uuid4().hex\<close> are
  arguments (\<open>tm\<close> and \<open>u\<close>).
\<close>

section \<open>Enumerations\<close>

datatype lane = Lane_RUNTIME | Lane_RESEARCH | Lane_WITNESS | Lane_HISTORICAL | Lane_CINEMATIC

datatype node_kind =
    Kind_EXECUTION_NODE | Kind_GLITCH_NODE | Kind_RESEARCH_NODE | Kind_BACKWARD_NODE
  | Kind_WITNESS_NODE | Kind_REVIEW_NODE | Kind_GRAPH_VIEW_NODE

datatype runtime_lock_type =
    ENERGY_LOCK | TIME_LOCK | THERMAL_LOCK | PRIVILEGE_LOCK | VOLITION_LOCK | INTEGRITY_LOCK
  | CONSENT_LOCK | CAUTION_LOCK | EVIDENCE_LOCK | CONTINUITY_LOCK | MAINTENANCE_LOCK
  | EMBODIMENT_LOCK | TRUST_LOCK

datatype evidence_state =
    Ev_ASSERTED | Ev_OBSERVED | Ev_WITNESSED | Ev_SIGNED | Ev_CHALLENGE_OPEN | Ev_SETTLED
  | Ev_EXPIRED | Ev_CINEMATIC_ONLY

datatype reopenability_state =
    NOT_REOPENABLE | EVIDENCE_REQUIRED | REVIEW_REQUIRED | REOPENABLE

datatype render_mode = Render_CANONICAL | Render_GRAPH | Render_CINEMATIC

fun lane_value :: "lane \<Rightarrow> string" where
  "lane_value Lane_RUNTIME = ''runtime''"
| "lane_value Lane_RESEARCH = ''research''"
| "lane_value Lane_WITNESS = ''witness''"
| "lane_value Lane_HISTORICAL = ''historical''"
| "lane_value Lane_CINEMATIC = ''cinematic''"

fun node_kind_value :: "node_kind \<Rightarrow> string" where
  "node_kind_value Kind_EXECUTION_NODE = ''ExecutionNode''"
| "node_kind_value Kind_GLITCH_NODE = ''GlitchNode''"
| "node_kind_value Kind_RESEARCH_NODE = ''ResearchNode''"
| "node_kind_value Kind_BACKWARD_NODE = ''BackwardNode''"
| "node_kind_value Kind_WITNESS_NODE = ''WitnessNode''"
| "node_kind_value Kind_REVIEW_NODE = ''ReviewNode''"
| "node_kind_value Kind_GRAPH_VIEW_NODE = ''GraphViewNode''"

fun lock_value :: "runtime_lock_type \<Rightarrow> string" where
  "lock_value ENERGY_LOCK = ''EnergyLock''"
| "lock_value TIME_LOCK = ''TimeLock''"
| "lock_value THERMAL_LOCK = ''ThermalLock''"
| "lock_value PRIVILEGE_LOCK = ''PrivilegeLock''"
| "lock_value VOLITION_LOCK = ''VolitionLock''"
| "lock_value INTEGRITY_LOCK = ''IntegrityLock''"
| "lock_value CONSENT_LOCK = ''ConsentLock''"
| "lock_value CAUTION_LOCK = ''CautionLock''"
| "lock_value EVIDENCE_LOCK = ''EvidenceLock''"
| "lock_value CONTINUITY_LOCK = ''ContinuityLock''"
| "lock_value MAINTENANCE_LOCK = ''MaintenanceLock''"
| "lock_value EMBODIMENT_LOCK = ''EmbodimentLock''"
| "lock_value TRUST_LOCK = ''TrustLock''"

fun evidence_value :: "evidence_state \<Rightarrow> string" where
  "evidence_value Ev_ASSERTED = ''asserted''"
| "evidence_value Ev_OBSERVED = ''observed''"
| "evidence_value Ev_WITNESSED = ''witnessed''"
| "evidence_value Ev_SIGNED = ''signed''"
| "evidence_value Ev_CHALLENGE_OPEN = ''challenge_open''"
| "evidence_value Ev_SETTLED = ''settled''"
| "evidence_value Ev_EXPIRED = ''expired''"
| "evidence_value Ev_CINEMATIC_ONLY = ''cinematic_only''"

fun reopenability_value :: "reopenability_state \<Rightarrow> string" where
  "reopenability_value NOT_REOPENABLE = ''not_reopenable''"
| "reopenability_value EVIDENCE_REQUIRED = ''evidence_required''"
| "reopenability_value REVIEW_REQUIRED = ''review_required''"
| "reopenability_value REOPENABLE = ''reopenable''"

fun render_value :: "render_mode \<Rightarrow> string" where
  "render_value Render_CANONICAL = ''canonical''"
| "render_value Render_GRAPH = ''graph''"
| "render_value Render_CINEMATIC = ''cinematic''"

section \<open>Dataclasses\<close>

record node_ref =
  nr_id :: string
  nr_kind :: node_kind
  nr_lane :: lane

record witness_ref =
  wr_witness_id :: string
  wr_witness_kind :: string
  wr_signature_ref :: "string option"

record time_window =
  tw_opened_at :: string
  tw_closes_at :: "string option"
  tw_policy :: string

record status_tuple =
  st_lane :: lane
  st_evidence_state :: evidence_state
  st_executable :: bool
  st_reopenability :: "reopenability_state option"
  st_render_mode :: render_mode

record evidence_record =
  er_evidence_id :: string
  er_state :: evidence_state
  er_witness_ref :: "witness_ref option"
  er_signer :: "string option"
  er_payload_hash :: "string option"
  er_details :: pydict

record validation_issue =
  vi_rule_code :: string
  vi_message :: string
  vi_severity :: string
  vi_layer :: string
  vi_details :: pydict

record guard_decision =
  gd_allowed :: bool
  gd_rule_code :: string
  gd_message :: string
  gd_severity :: string
  gd_details :: pydict

text \<open>The type hint of \<open>lock_type\<close> is not enforced by Python; the validator tests it for \<open>None\<close>.\<close>

record glitch_node =
  gn_node_ref :: node_ref
  gn_collision_id :: string
  gn_lock_type :: "runtime_lock_type option"
  gn_status :: status_tuple
  gn_evidence_records :: "evidence_record list"
  gn_witness_ref :: "witness_ref option"
  gn_challenge_window :: "time_window option"
  gn_summary :: string
  gn_metadata :: pydict

record research_node =
  rn_node_ref :: node_ref
  rn_source_glitch_ref :: node_ref
  rn_status :: status_tuple
  rn_summary :: string
  rn_evidence_refs :: "string list"
  rn_challenge_window :: "time_window option"
  rn_metadata :: pydict

record canonical_event =
  ce_event_type :: string
  ce_event_id :: string
  ce_occurred_at :: string
  ce_subject_ref :: node_ref
  ce_payload :: pydict

text \<open>
  \<open>AttributeError\<close> is what \<open>lock_type.value\<close> raises on \<open>None\<close>, \<open>DatetimeError\<close> what
  \<open>datetime.fromtimestamp\<close> raises on a time out of range.
\<close>

datatype glitch_error =
    GlitchValidationError "validation_issue list"
  | AttributeError
  | DatetimeError

definition mk_issue :: "string \<Rightarrow> string \<Rightarrow> validation_issue" where
  "mk_issue code message =
     \<lparr>vi_rule_code = code, vi_message = message, vi_severity = ''error'',
      vi_layer = ''glitch_m1'', vi_details = []\<rparr>"

definition gd_allow :: "string \<Rightarrow> string \<Rightarrow> pydict \<Rightarrow> guard_decision" where
  "gd_allow code message details =
     \<lparr>gd_allowed = True, gd_rule_code = code, gd_message = message, gd_severity = ''info'',
      gd_details = details\<rparr>"

definition gd_deny :: "string \<Rightarrow> string \<Rightarrow> pydict \<Rightarrow> guard_decision" where
  \<comment> \<open>no call of the repository overrides the default severity\<close>
  "gd_deny code message details =
     \<lparr>gd_allowed = False, gd_rule_code = code, gd_message = message, gd_severity = ''error'',
      gd_details = details\<rparr>"

definition default_status :: "lane \<Rightarrow> status_tuple" where
  \<comment> \<open>\<open>StatusTuple(lane=l, executable=False)\<close> with the dataclass defaults\<close>
  "default_status l =
     \<lparr>st_lane = l, st_evidence_state = Ev_ASSERTED, st_executable = False,
      st_reopenability = None, st_render_mode = Render_CANONICAL\<rparr>"

section \<open>Validators\<close>

definition validate_status_tuple :: "status_tuple \<Rightarrow> validation_issue list" where
  "validate_status_tuple status =
     (if st_lane status = Lane_CINEMATIC \<and> st_executable status then
        [mk_issue ''STATUS_CINEMATIC_EXECUTABLE''
           ''Cinematic lane objects cannot be executable.''] else [])
   @ (if st_evidence_state status = Ev_CINEMATIC_ONLY \<and> st_lane status \<noteq> Lane_CINEMATIC then
        [mk_issue ''STATUS_CINEMATIC_ONLY_LANE''
           ''cinematic_only evidence must remain on the cinematic lane.''] else [])
   @ (if st_executable status \<and> st_lane status \<noteq> Lane_RUNTIME then
        [mk_issue ''STATUS_EXECUTABLE_NOT_RUNTIME''
           ''Only runtime lane objects can be executable.''] else [])
   @ (if st_reopenability status \<noteq> None \<and> st_lane status \<notin> {Lane_RESEARCH, Lane_HISTORICAL} then
        [mk_issue ''STATUS_REOPENABILITY_LANE''
           ''Reopenability belongs to research or historical lanes.''] else [])"

definition witness_required_states :: "evidence_state set" where
  "witness_required_states = {Ev_WITNESSED, Ev_SIGNED, Ev_CHALLENGE_OPEN, Ev_SETTLED}"

definition validate_glitch_node :: "glitch_node \<Rightarrow> validation_issue list" where
  "validate_glitch_node glitch =
     validate_status_tuple (gn_status glitch)
   @ (if nr_kind (gn_node_ref glitch) \<noteq> Kind_GLITCH_NODE then
        [mk_issue ''GLITCH_KIND_INVALID'' ''GlitchNode has wrong node kind.''] else [])
   @ (if nr_lane (gn_node_ref glitch) \<noteq> Lane_RUNTIME \<or> st_lane (gn_status glitch) \<noteq> Lane_RUNTIME then
        [mk_issue ''GLITCH_LANE_NOT_RUNTIME'' ''GlitchNode must stay runtime-lane.''] else [])
   @ (if st_executable (gn_status glitch) then
        [mk_issue ''GLITCH_EXECUTABLE'' ''GlitchNode must never be executable.''] else [])
   @ (if gn_lock_type glitch = None then
        [mk_issue ''GLITCH_LOCK_REQUIRED'' ''GlitchNode requires a runtime lock type.''] else [])
   @ (if st_evidence_state (gn_status glitch) \<in> witness_required_states \<and> gn_witness_ref glitch = None then
        [mk_issue ''GLITCH_WITNESS_REQUIRED''
           ''Witnessed, signed, challenged, or settled GlitchNode evidence requires a witness.''] else [])
   @ (if st_evidence_state (gn_status glitch) = Ev_CHALLENGE_OPEN \<and> gn_challenge_window glitch = None then
        [mk_issue ''GLITCH_CHALLENGE_WINDOW_REQUIRED''
           ''challenge_open evidence requires a challenge window.''] else [])"

definition validate_research_node :: "research_node \<Rightarrow> validation_issue list" where
  "validate_research_node research =
     validate_status_tuple (rn_status research)
   @ (if nr_kind (rn_node_ref research) \<noteq> Kind_RESEARCH_NODE then
        [mk_issue ''RESEARCH_KIND_INVALID'' ''ResearchNode has wrong node kind.''] else [])
   @ (if nr_lane (rn_node_ref research) \<noteq> Lane_RESEARCH \<or> st_lane (rn_status research) \<noteq> Lane_RESEARCH then
        [mk_issue ''RESEARCH_LANE_NOT_RESEARCH'' ''ResearchNode must stay research-lane.''] else [])
   @ (if st_executable (rn_status research) then
        [mk_issue ''RESEARCH_EXECUTABLE'' ''ResearchNode must never be executable.''] else [])
   @ (if nr_kind (rn_source_glitch_ref research) \<noteq> Kind_GLITCH_NODE then
        [mk_issue ''RESEARCH_SOURCE_NOT_GLITCH''
           ''ResearchNode source must be a GlitchNode reference.''] else [])
   @ (if st_reopenability (rn_status research) = None then
        [mk_issue ''RESEARCH_REOPENABILITY_REQUIRED''
           ''ResearchNode must carry explicit reopenability state.''] else [])"

definition raise_if_invalid :: "validation_issue list \<Rightarrow> glitch_error + unit" where
  "raise_if_invalid issues = (if issues \<noteq> [] then Inl (GlitchValidationError issues) else Inr ())"

section \<open>Records written to JSON\<close>

definition node_ref_record :: "node_ref \<Rightarrow> pyval" where
  "node_ref_record r = PDict [(''id'', PStr (nr_id r)),
     (''kind'', PStr (node_kind_value (nr_kind r))), (''lane'', PStr (lane_value (nr_lane r)))]"

definition witness_ref_record :: "witness_ref option \<Rightarrow> pyval" where
  "witness_ref_record w = (case w of None \<Rightarrow> PNone
   | Some r \<Rightarrow> PDict [(''witness_id'', PStr (wr_witness_id r)),
       (''witness_kind'', PStr (wr_witness_kind r)), (''signature_ref'', opt_str (wr_signature_ref r))])"

definition time_window_record :: "time_window option \<Rightarrow> pyval" where
  "time_window_record w = (case w of None \<Rightarrow> PNone
   | Some r \<Rightarrow> PDict [(''opened_at'', PStr (tw_opened_at r)),
       (''closes_at'', opt_str (tw_closes_at r)), (''policy'', PStr (tw_policy r))])"

definition status_record :: "status_tuple \<Rightarrow> pyval" where
  "status_record s = PDict [(''lane'', PStr (lane_value (st_lane s))),
     (''evidence_state'', PStr (evidence_value (st_evidence_state s))),
     (''executable'', PBool (st_executable s)),
     (''reopenability'', opt_str (map_option reopenability_value (st_reopenability s))),
     (''render_mode'', PStr (render_value (st_render_mode s)))]"

definition evidence_record_record :: "evidence_record \<Rightarrow> pyval" where
  "evidence_record_record e = PDict [(''evidence_id'', PStr (er_evidence_id e)),
     (''state'', PStr (evidence_value (er_state e))),
     (''witness_ref'', witness_ref_record (er_witness_ref e)),
     (''signer'', opt_str (er_signer e)), (''payload_hash'', opt_str (er_payload_hash e)),
     (''details'', PDict (er_details e))]"

definition issue_record :: "validation_issue \<Rightarrow> pyval" where
  "issue_record i = PDict [(''rule_code'', PStr (vi_rule_code i)), (''message'', PStr (vi_message i)),
     (''severity'', PStr (vi_severity i)), (''layer'', PStr (vi_layer i)),
     (''details'', PDict (vi_details i))]"

definition glitch_record :: "glitch_node \<Rightarrow> pyval" where
  "glitch_record g = PDict [(''node_ref'', node_ref_record (gn_node_ref g)),
     (''collision_id'', PStr (gn_collision_id g)),
     (''lock_type'', opt_str (map_option lock_value (gn_lock_type g))),
     (''status'', status_record (gn_status g)),
     (''evidence_records'', PList (map evidence_record_record (gn_evidence_records g))),
     (''witness_ref'', witness_ref_record (gn_witness_ref g)),
     (''challenge_window'', time_window_record (gn_challenge_window g)),
     (''summary'', PStr (gn_summary g)), (''metadata'', PDict (gn_metadata g))]"

definition research_record :: "research_node \<Rightarrow> pyval" where
  "research_record r = PDict [(''node_ref'', node_ref_record (rn_node_ref r)),
     (''source_glitch_ref'', node_ref_record (rn_source_glitch_ref r)),
     (''status'', status_record (rn_status r)), (''summary'', PStr (rn_summary r)),
     (''evidence_refs'', PList (map PStr (rn_evidence_refs r))),
     (''challenge_window'', time_window_record (rn_challenge_window r)),
     (''metadata'', PDict (rn_metadata r))]"

definition event_record :: "canonical_event \<Rightarrow> pyval" where
  "event_record e = PDict [(''event_type'', PStr (ce_event_type e)),
     (''event_id'', PStr (ce_event_id e)), (''occurred_at'', PStr (ce_occurred_at e)),
     (''subject_ref'', node_ref_record (ce_subject_ref e)), (''payload'', PDict (ce_payload e))]"

definition event_id :: "string \<Rightarrow> string \<Rightarrow> string" where
  "event_id prefix u = prefix @ '':'' @ u"

section \<open>Reducers\<close>

definition register_runtime_collision ::
  "string \<Rightarrow> runtime_lock_type option \<Rightarrow> string \<Rightarrow> string option \<Rightarrow> string option \<Rightarrow> pydict \<Rightarrow>
   string \<Rightarrow> ids \<Rightarrow> glitch_error + glitch_node \<times> canonical_event list" where
  "register_runtime_collision collision_id lock_type summary node_id occurred_at metadata tm u =
     (let ts = str_or occurred_at tm;
          node_ref = \<lparr>nr_id = str_or node_id (''glitch:'' @ collision_id),
                      nr_kind = Kind_GLITCH_NODE, nr_lane = Lane_RUNTIME\<rparr>;
          glitch = \<lparr>gn_node_ref = node_ref, gn_collision_id = collision_id, gn_lock_type = lock_type,
                    gn_status = default_status Lane_RUNTIME, gn_evidence_records = [],
                    gn_witness_ref = None, gn_challenge_window = None, gn_summary = summary,
                    gn_metadata = metadata\<rparr>
      in bindE (raise_if_invalid (validate_glitch_node glitch)) (\<lambda>_.
         case lock_type of None \<Rightarrow> Inl AttributeError
         | Some lt \<Rightarrow> Inr (glitch,
             [\<lparr>ce_event_type = ''RuntimeCollisionRegistered'',
               ce_event_id = event_id ''runtime-collision'' (u 0), ce_occurred_at = ts,
               ce_subject_ref = node_ref,
               ce_payload = [(''collision_id'', PStr collision_id), (''lock_type'', PStr (lock_value lt))]\<rparr>,
              \<lparr>ce_event_type = ''GlitchNodeCreated'',
               ce_event_id = event_id ''glitch-node'' (u 1), ce_occurred_at = ts,
               ce_subject_ref = node_ref,
               ce_payload = [(''collision_id'', PStr collision_id)]\<rparr>])))"

definition attach_collision_witness ::
  "glitch_node \<Rightarrow> witness_ref \<Rightarrow> evidence_state \<Rightarrow> string option \<Rightarrow> string option \<Rightarrow> string option \<Rightarrow>
   string option \<Rightarrow> pydict \<Rightarrow> string \<Rightarrow> ids \<Rightarrow> glitch_error + glitch_node \<times> canonical_event" where
  "attach_collision_witness glitch witness evidence_state evidence_id signer payload_hash occurred_at
     details tm u =
     (let rec = \<lparr>er_evidence_id = str_or evidence_id (''evidence:'' @ u 0),
                 er_state = evidence_state, er_witness_ref = Some witness, er_signer = signer,
                 er_payload_hash = payload_hash, er_details = details\<rparr>;
          updated = glitch\<lparr>gn_witness_ref := Some witness,
                           gn_evidence_records := gn_evidence_records glitch @ [rec],
                           gn_status := (gn_status glitch)\<lparr>st_evidence_state := evidence_state\<rparr>\<rparr>
      in bindE (raise_if_invalid (validate_glitch_node updated)) (\<lambda>_.
         Inr (updated,
           \<lparr>ce_event_type = ''CollisionWitnessAttached'',
            ce_event_id = event_id ''collision-witness'' (u 1),
            ce_occurred_at = str_or occurred_at tm, ce_subject_ref = gn_node_ref updated,
            ce_payload = [(''evidence_id'', PStr (er_evidence_id rec)),
                          (''evidence_state'', PStr (evidence_value evidence_state)),
                          (''witness_id'', PStr (wr_witness_id witness))]\<rparr>)))"

definition open_collision_challenge_window ::
  "glitch_node \<Rightarrow> time_window \<Rightarrow> string option \<Rightarrow> string \<Rightarrow> ids \<Rightarrow>
   glitch_error + glitch_node \<times> canonical_event" where
  "open_collision_challenge_window glitch window occurred_at tm u =
     (let updated = glitch\<lparr>gn_challenge_window := Some window,
                           gn_status := (gn_status glitch)\<lparr>st_evidence_state := Ev_CHALLENGE_OPEN\<rparr>\<rparr>
      in bindE (raise_if_invalid (validate_glitch_node updated)) (\<lambda>_.
         Inr (updated,
           \<lparr>ce_event_type = ''ChallengeOpened'', ce_event_id = event_id ''challenge'' (u 0),
            ce_occurred_at = str_or occurred_at tm, ce_subject_ref = gn_node_ref updated,
            ce_payload = [(''opened_at'', PStr (tw_opened_at window)),
                          (''closes_at'', opt_str (tw_closes_at window))]\<rparr>)))"

definition derive_research_node ::
  "glitch_node \<Rightarrow> string \<Rightarrow> string option \<Rightarrow> reopenability_state \<Rightarrow> string option \<Rightarrow> pydict \<Rightarrow>
   string \<Rightarrow> ids \<Rightarrow> glitch_error + research_node \<times> canonical_event" where
  "derive_research_node glitch summary node_id reopenability occurred_at metadata tm u =
     bindE (raise_if_invalid (validate_glitch_node glitch)) (\<lambda>_.
     if gn_witness_ref glitch = None \<or> gn_evidence_records glitch = [] then
       Inl (GlitchValidationError [mk_issue ''RESEARCH_WITNESS_REQUIRED''
         ''A ResearchNode may only be derived from witnessed glitch evidence.''])
     else
       let node_ref = \<lparr>nr_id = str_or node_id (''research:'' @ gn_collision_id glitch),
                       nr_kind = Kind_RESEARCH_NODE, nr_lane = Lane_RESEARCH\<rparr>;
           research = \<lparr>rn_node_ref = node_ref, rn_source_glitch_ref = gn_node_ref glitch,
                       rn_status = \<lparr>st_lane = Lane_RESEARCH,
                                    st_evidence_state = st_evidence_state (gn_status glitch),
                                    st_executable = False, st_reopenability = Some reopenability,
                                    st_render_mode = Render_CANONICAL\<rparr>,
                       rn_summary = summary,
                       rn_evidence_refs = map er_evidence_id (gn_evidence_records glitch),
                       rn_challenge_window = gn_challenge_window glitch,
                       rn_metadata = dict_merge [(''source_collision_id'', PStr (gn_collision_id glitch))]
                                       metadata\<rparr>
       in bindE (raise_if_invalid (validate_research_node research)) (\<lambda>_.
          Inr (research,
            \<lparr>ce_event_type = ''ResearchNodeDerived'', ce_event_id = event_id ''research-node'' (u 0),
             ce_occurred_at = str_or occurred_at tm, ce_subject_ref = node_ref,
             ce_payload = [(''source_glitch_id'', PStr (nr_id (gn_node_ref glitch))),
                           (''evidence_refs'', PList (map PStr (rn_evidence_refs research)))]\<rparr>)))"

section \<open>Guards\<close>

definition validate_transition :: "status_tuple \<Rightarrow> status_tuple \<Rightarrow> guard_decision" where
  "validate_transition source target =
     (if st_lane source = Lane_RESEARCH \<and> st_lane target = Lane_RUNTIME then
        gd_deny ''TRANSITION_RESEARCH_TO_RUNTIME_FORBIDDEN''
          ''Research lane cannot become runtime truth by direct transition.'' []
      else if st_lane source = Lane_RESEARCH \<and> st_executable target then
        gd_deny ''TRANSITION_RESEARCH_EXECUTABLE_FORBIDDEN''
          ''Research lane cannot become executable by shortcut.'' []
      else if st_lane source = Lane_CINEMATIC \<and> st_lane target = Lane_RUNTIME then
        gd_deny ''TRANSITION_CINEMATIC_TO_RUNTIME_FORBIDDEN''
          ''Cinematic projection cannot create runtime authority.'' []
      else
        let source_issues = validate_status_tuple source;
            target_issues = validate_status_tuple target
        in if source_issues \<noteq> [] \<or> target_issues \<noteq> [] then
             gd_deny ''TRANSITION_STATUS_INVALID'' ''Transition includes invalid status tuple.''
               [(''issues'', PList (map issue_record (source_issues @ target_issues)))]
           else gd_allow ''allowed'' ''Transition allowed.'' [])"

definition authorize_runtime_from_evidence :: "evidence_record \<Rightarrow> guard_decision" where
  "authorize_runtime_from_evidence evidence =
     (if er_state evidence = Ev_SIGNED then
        gd_deny ''SIGNATURE_NOT_LEGITIMACY'' ''A signature is evidence, not runtime legitimacy.''
          [(''evidence_id'', PStr (er_evidence_id evidence))]
      else if er_state evidence = Ev_SETTLED \<and> er_witness_ref evidence \<noteq> None then
        gd_allow ''SETTLED_WITNESSED_EVIDENCE''
          ''Settled witnessed evidence may be considered by later runtime guards.''
          [(''evidence_id'', PStr (er_evidence_id evidence))]
      else
        gd_deny ''EVIDENCE_NOT_RUNTIME_AUTHORITY'' ''Evidence is not sufficient runtime authority.''
          [(''evidence_id'', PStr (er_evidence_id evidence)),
           (''evidence_state'', PStr (evidence_value (er_state evidence)))])"

section \<open>What the validators accept\<close>

lemma raise_if_invalid_Inr [simp]: "raise_if_invalid is = Inr x \<longleftrightarrow> is = []"
  by (simp add: raise_if_invalid_def)

lemma raise_if_invalid_Nil [simp]: "raise_if_invalid [] = Inr ()"
  by (simp add: raise_if_invalid_def)

lemma validate_status_ok:
  "validate_status_tuple s = [] \<longleftrightarrow>
     (st_executable s \<longrightarrow> st_lane s = Lane_RUNTIME)
   \<and> (st_evidence_state s = Ev_CINEMATIC_ONLY \<longrightarrow> st_lane s = Lane_CINEMATIC)
   \<and> (st_reopenability s \<noteq> None \<longrightarrow> st_lane s \<in> {Lane_RESEARCH, Lane_HISTORICAL})"
  by (auto simp: validate_status_tuple_def)

lemma validate_glitch_ok:
  "validate_glitch_node g = [] \<longleftrightarrow>
     nr_kind (gn_node_ref g) = Kind_GLITCH_NODE \<and> nr_lane (gn_node_ref g) = Lane_RUNTIME
   \<and> st_lane (gn_status g) = Lane_RUNTIME \<and> \<not> st_executable (gn_status g)
   \<and> st_evidence_state (gn_status g) \<noteq> Ev_CINEMATIC_ONLY \<and> st_reopenability (gn_status g) = None
   \<and> gn_lock_type g \<noteq> None
   \<and> (st_evidence_state (gn_status g) \<in> witness_required_states \<longrightarrow> gn_witness_ref g \<noteq> None)
   \<and> (st_evidence_state (gn_status g) = Ev_CHALLENGE_OPEN \<longrightarrow> gn_challenge_window g \<noteq> None)"
  by (auto simp: validate_glitch_node_def validate_status_ok)

lemma validate_research_ok:
  "validate_research_node r = [] \<longleftrightarrow>
     nr_kind (rn_node_ref r) = Kind_RESEARCH_NODE \<and> nr_lane (rn_node_ref r) = Lane_RESEARCH
   \<and> st_lane (rn_status r) = Lane_RESEARCH \<and> \<not> st_executable (rn_status r)
   \<and> st_evidence_state (rn_status r) \<noteq> Ev_CINEMATIC_ONLY
   \<and> nr_kind (rn_source_glitch_ref r) = Kind_GLITCH_NODE \<and> st_reopenability (rn_status r) \<noteq> None"
  by (auto simp: validate_research_node_def validate_status_ok)

section \<open>The reducers as a machine\<close>

text \<open>
  The two reducers that map a glitch node to a new one, with their arguments (the time and the
  identifiers they draw included), and the runs they form.
\<close>

datatype glitch_op =
    Attach witness_ref evidence_state "string option" "string option" "string option"
      "string option" pydict string ids
  | Open_Challenge time_window "string option" string ids

fun glitch_step :: "glitch_op \<Rightarrow> glitch_node \<Rightarrow> glitch_error + glitch_node" where
  "glitch_step (Attach w es eid sg ph occ d tm u) g =
     map_sum id fst (attach_collision_witness g w es eid sg ph occ d tm u)"
| "glitch_step (Open_Challenge win occ tm u) g =
     map_sum id fst (open_collision_challenge_window g win occ tm u)"

lemma attach_Inr:
  "attach_collision_witness g w es eid sg ph occ d tm u = Inr (g', e) \<Longrightarrow>
     validate_glitch_node g' = [] \<and> gn_node_ref g' = gn_node_ref g
   \<and> gn_witness_ref g' = Some w \<and> gn_lock_type g' = gn_lock_type g
   \<and> gn_collision_id g' = gn_collision_id g
   \<and> gn_evidence_records g' = gn_evidence_records g @
       [\<lparr>er_evidence_id = str_or eid (''evidence:'' @ u 0), er_state = es, er_witness_ref = Some w,
         er_signer = sg, er_payload_hash = ph, er_details = d\<rparr>]
   \<and> st_evidence_state (gn_status g') = es \<and> ce_event_type e = ''CollisionWitnessAttached''"
  by (auto simp: attach_collision_witness_def Let_def bindE_Inr_iff)

lemma open_challenge_Inr:
  "open_collision_challenge_window g win occ tm u = Inr (g', e) \<Longrightarrow>
     validate_glitch_node g' = [] \<and> gn_node_ref g' = gn_node_ref g
   \<and> gn_witness_ref g' = gn_witness_ref g \<and> gn_lock_type g' = gn_lock_type g
   \<and> gn_collision_id g' = gn_collision_id g
   \<and> gn_evidence_records g' = gn_evidence_records g
   \<and> st_evidence_state (gn_status g') = Ev_CHALLENGE_OPEN \<and> ce_event_type e = ''ChallengeOpened''"
  by (auto simp: open_collision_challenge_window_def Let_def bindE_Inr_iff)

interpretation glitch_machine: validating_machine glitch_step "\<lambda>g. validate_glitch_node g = []"
proof unfold_locales
  fix a s t
  assume "glitch_step a s = Inr t"
  then show "validate_glitch_node t = []"
    by (cases a) (auto simp: map_sum_Inr_iff dest: attach_Inr open_challenge_Inr)
qed

text \<open>What every node that the reducers build from a registered collision satisfies.\<close>

definition glitch_inv :: "glitch_node \<Rightarrow> bool" where
  "glitch_inv g =
     (validate_glitch_node g = [] \<and>
      (gn_witness_ref g = None \<longleftrightarrow> gn_evidence_records g = []) \<and>
      (\<forall>e \<in> set (gn_evidence_records g). er_witness_ref e \<noteq> None))"

lemma glitch_step_inv: "glitch_inv g \<Longrightarrow> glitch_step a g = Inr g' \<Longrightarrow> glitch_inv g'"
  by (cases a) (auto simp: glitch_inv_def map_sum_Inr_iff dest!: attach_Inr open_challenge_Inr)

interpretation glitch_evidence: invariant_machine glitch_step glitch_inv
  by unfold_locales (rule glitch_step_inv)

lemma glitch_step_frame:
  "glitch_step a g = Inr g' \<Longrightarrow> gn_node_ref g' = gn_node_ref g \<and> gn_lock_type g' = gn_lock_type g"
  by (cases a) (auto simp: map_sum_Inr_iff dest: attach_Inr open_challenge_Inr)

interpretation glitch_frame: invariant_machine glitch_step
    "\<lambda>g. gn_node_ref g = r \<and> gn_lock_type g = lt" for r lt
  by unfold_locales (auto dest: glitch_step_frame)

lemma register_Inr:
  "register_runtime_collision cid lt sm nid occ md tm u = Inr (g, evs) \<Longrightarrow>
     lt \<noteq> None \<and> glitch_inv g \<and> gn_lock_type g = lt
   \<and> gn_evidence_records g = [] \<and> gn_status g = default_status Lane_RUNTIME
   \<and> gn_collision_id g = cid \<and> gn_node_ref g = \<lparr>nr_id = str_or nid (''glitch:'' @ cid),
       nr_kind = Kind_GLITCH_NODE, nr_lane = Lane_RUNTIME\<rparr>
   \<and> map ce_event_type evs = [''RuntimeCollisionRegistered'', ''GlitchNodeCreated'']"
  by (auto simp: register_runtime_collision_def Let_def bindE_Inr_iff glitch_inv_def
        split: option.splits)

lemma register_Some:
  "\<exists>g evs. register_runtime_collision cid (Some lt) sm nid occ md tm u = Inr (g, evs)"
  by (auto simp: register_runtime_collision_def Let_def bindE_Inr_iff validate_glitch_ok
        default_status_def witness_required_states_def)

text \<open>When the reducers succeed on a valid node.\<close>

lemma attach_ok:
  assumes "validate_glitch_node g = []" and "es \<noteq> Ev_CINEMATIC_ONLY"
    and "es = Ev_CHALLENGE_OPEN \<longrightarrow> gn_challenge_window g \<noteq> None"
  shows "\<exists>g' e. attach_collision_witness g w es eid sg ph occ d tm u = Inr (g', e)"
  using assms by (auto simp: attach_collision_witness_def Let_def bindE_Inr_iff validate_glitch_ok)

lemma attach_ok_iff:
  assumes "validate_glitch_node g = []"
  shows "(\<exists>g' e. attach_collision_witness g w es eid sg ph occ d tm u = Inr (g', e)) \<longleftrightarrow>
         es \<noteq> Ev_CINEMATIC_ONLY \<and> (es = Ev_CHALLENGE_OPEN \<longrightarrow> gn_challenge_window g \<noteq> None)"
  using assms by (auto simp: attach_collision_witness_def Let_def bindE_Inr_iff validate_glitch_ok)

lemma open_challenge_ok_iff:
  assumes "validate_glitch_node g = []"
  shows "(\<exists>g' e. open_collision_challenge_window g win occ tm u = Inr (g', e)) \<longleftrightarrow>
         gn_witness_ref g \<noteq> None"
  using assms
  by (auto simp: open_collision_challenge_window_def Let_def bindE_Inr_iff validate_glitch_ok
        witness_required_states_def)

lemma register_None:
  "\<exists>is. register_runtime_collision cid None sm nid occ md tm u = Inl (GlitchValidationError is)
     \<and> is \<noteq> []"
  by (auto simp: register_runtime_collision_def Let_def raise_if_invalid_def
        validate_glitch_node_def)

lemma derive_Inr:
  "derive_research_node g sm nid ro occ md tm u = Inr (r, ev) \<Longrightarrow>
     validate_research_node r = [] \<and> rn_source_glitch_ref r = gn_node_ref g
   \<and> rn_evidence_refs r = map er_evidence_id (gn_evidence_records g)
   \<and> st_evidence_state (rn_status r) = st_evidence_state (gn_status g)
   \<and> st_reopenability (rn_status r) = Some ro \<and> ce_event_type ev = ''ResearchNodeDerived''"
  by (auto simp: derive_research_node_def Let_def bindE_Inr_iff split: if_splits)

lemma derive_ok_iff:
  assumes "validate_glitch_node g = []"
  shows "(\<exists>r ev. derive_research_node g sm nid ro occ md tm u = Inr (r, ev)) \<longleftrightarrow>
         gn_witness_ref g \<noteq> None \<and> gn_evidence_records g \<noteq> []"
  using assms
  by (auto simp: derive_research_node_def Let_def bindE_Inr_iff validate_glitch_ok
        validate_research_ok)

section \<open>Chains of allowed transitions\<close>

lemma transition_allowed_iff:
  "gd_allowed (validate_transition s t) \<longleftrightarrow>
     validate_status_tuple s = [] \<and> validate_status_tuple t = []
   \<and> \<not> (st_lane s = Lane_RESEARCH \<and> (st_lane t = Lane_RUNTIME \<or> st_executable t))
   \<and> \<not> (st_lane s = Lane_CINEMATIC \<and> st_lane t = Lane_RUNTIME)"
  by (auto simp: validate_transition_def Let_def gd_deny_def gd_allow_def)

fun allowed_chain :: "status_tuple \<Rightarrow> status_tuple list \<Rightarrow> bool" where
  "allowed_chain s [] = True"
| "allowed_chain s (t # ts) = (gd_allowed (validate_transition s t) \<and> allowed_chain t ts)"

lemma chain_stays_shadowed:
  assumes "st_lane s \<in> {Lane_RESEARCH, Lane_CINEMATIC}" and "allowed_chain s ts"
    and "\<forall>t \<in> set ts. st_lane t \<notin> {Lane_WITNESS, Lane_HISTORICAL}"
  shows "\<forall>t \<in> set ts. st_lane t \<in> {Lane_RESEARCH, Lane_CINEMATIC} \<and> \<not> st_executable t"
  using assms
proof (induction ts arbitrary: s)
  case Nil
  then show ?case by simp
next
  case (Cons t ts)
  from Cons.prems have lane: "st_lane t \<in> {Lane_RESEARCH, Lane_CINEMATIC}"
    by (cases "st_lane t") (auto simp: transition_allowed_iff)
  from Cons.prems lane have "\<not> st_executable t"
    by (auto simp: transition_allowed_iff validate_status_ok)
  with Cons lane show ?case by simp
qed

section \<open>Properties\<close>

text \<open>
  C1: whatever sequence of witness attachments and challenge openings follows the registration of a
  collision, every node on the way out of a reducer is valid: it stays on the runtime lane, is never
  executable, keeps its identity and its lock, and has a witness exactly when it has evidence.
\<close>

theorem glitch_run_safe:
  assumes "register_runtime_collision cid lt sm nid occ md tm u = Inr (g0, evs)"
    and "run_ops glitch_step as g0 = Inr g"
  shows "validate_glitch_node g = [] \<and> st_lane (gn_status g) = Lane_RUNTIME
       \<and> \<not> st_executable (gn_status g) \<and> gn_node_ref g = gn_node_ref g0 \<and> gn_lock_type g = lt
       \<and> (gn_witness_ref g = None \<longleftrightarrow> gn_evidence_records g = [])
       \<and> (\<forall>e \<in> set (gn_evidence_records g). er_witness_ref e \<noteq> None)"
proof -
  note R = register_Inr [OF assms(1)]
  from R have "glitch_inv g" using glitch_evidence.run_inv [OF _ assms(2)] by blast
  moreover have "gn_node_ref g = gn_node_ref g0 \<and> gn_lock_type g = lt"
    using R glitch_frame.run_inv [OF _ assms(2)] by blast
  ultimately show ?thesis by (auto simp: glitch_inv_def validate_glitch_ok)
qed

definition sample_witness :: witness_ref where
  "sample_witness = \<lparr>wr_witness_id = ''w1'', wr_witness_kind = ''human'', wr_signature_ref = None\<rparr>"

definition sample_window :: time_window where
  "sample_window = \<lparr>tw_opened_at = ''t1'', tw_closes_at = None, tw_policy = ''challenge''\<rparr>"

definition sample_ops :: "glitch_op list" where
  "sample_ops = [Attach sample_witness Ev_SETTLED None None None None [] ''t1'' (\<lambda>_. ''u''),
     Open_Challenge sample_window None ''t2'' (\<lambda>_. ''u'')]"

lemma sample_run:
  "\<exists>g0 evs g e. register_runtime_collision ''c1'' (Some TRUST_LOCK) ''s'' None None [] ''t0'' (\<lambda>_. ''u'') = Inr (g0, evs)
     \<and> run_ops glitch_step sample_ops g0 = Inr g \<and> gn_evidence_records g = [e] \<and> er_state e = Ev_SETTLED"
proof -
  obtain g0 evs where r: "register_runtime_collision ''c1'' (Some TRUST_LOCK) ''s'' None None [] ''t0'' (\<lambda>_. ''u'') = Inr (g0, evs)"
    using register_Some by blast
  note R = register_Inr [OF r]
  then have v0: "validate_glitch_node g0 = []" by (simp add: glitch_inv_def)
  obtain g1 e1 where a: "attach_collision_witness g0 sample_witness Ev_SETTLED None None None None [] ''t1'' (\<lambda>_. ''u'') = Inr (g1, e1)"
    using attach_ok [OF v0, of Ev_SETTLED] by fastforce
  note A = attach_Inr [OF a]
  obtain g2 e2 where o2: "open_collision_challenge_window g1 sample_window None ''t2'' (\<lambda>_. ''u'') = Inr (g2, e2)"
    using open_challenge_ok_iff [of g1 sample_window None "''t2''" "\<lambda>_. ''u''"] A by auto
  have "run_ops glitch_step sample_ops g0 = Inr g2" by (simp add: sample_ops_def a o2)
  with r R A open_challenge_Inr [OF o2] show ?thesis by auto
qed

theorem glitch_run_safe_witness:
  "\<exists>g. gn_evidence_records g \<noteq> [] \<and> validate_glitch_node g = [] \<and> \<not> st_executable (gn_status g)
     \<and> gn_lock_type g = Some TRUST_LOCK"
  using sample_run glitch_run_safe by (metis list.distinct(1))

text \<open>
  Deriving a research node from a valid glitch node succeeds exactly when the node is witnessed
  and has evidence, and what it returns is quarantined: on the research lane, not executable,
  pointing back to the glitch node and its evidence.
\<close>

theorem derive_research_quarantined:
  assumes "validate_glitch_node g = []"
  shows "case derive_research_node g sm nid ro occ md tm u of
           Inl e \<Rightarrow> (\<exists>is. e = GlitchValidationError is \<and> is \<noteq> []) \<and> (gn_witness_ref g = None \<or> gn_evidence_records g = [])
         | Inr (r, ev) \<Rightarrow> gn_witness_ref g \<noteq> None \<and> gn_evidence_records g \<noteq> []
             \<and> st_lane (rn_status r) = Lane_RESEARCH \<and> \<not> st_executable (rn_status r)
             \<and> st_reopenability (rn_status r) = Some ro \<and> rn_source_glitch_ref r = gn_node_ref g
             \<and> rn_evidence_refs r = map er_evidence_id (gn_evidence_records g)"
proof (cases "derive_research_node g sm nid ro occ md tm u")
  case (Inl e)
  with derive_ok_iff [OF assms, of sm nid ro occ md tm u]
  have un: "gn_witness_ref g = None \<or> gn_evidence_records g = []" by auto
  with Inl assms have "\<exists>is. e = GlitchValidationError is \<and> is \<noteq> []"
    by (auto simp: derive_research_node_def Let_def)
  with Inl un show ?thesis by simp
next
  case (Inr p)
  obtain r ev where p: "p = (r, ev)" by force
  with Inr have "gn_witness_ref g \<noteq> None \<and> gn_evidence_records g \<noteq> []"
    using derive_ok_iff [OF assms, of sm nid ro occ md tm u] by blast
  with derive_Inr [OF Inr [unfolded p]] show ?thesis by (simp add: Inr p validate_research_ok)
qed

theorem derive_research_quarantined_witness:
  "\<exists>g. validate_glitch_node g = [] \<and> (case derive_research_node g ''r'' None EVIDENCE_REQUIRED None [] ''t'' (\<lambda>_. ''u'') of
       Inl e \<Rightarrow> False
     | Inr (r, ev) \<Rightarrow> st_lane (rn_status r) = Lane_RESEARCH \<and> \<not> st_executable (rn_status r))"
proof -
  obtain g0 evs g e where r: "register_runtime_collision ''c1'' (Some TRUST_LOCK) ''s'' None None [] ''t0'' (\<lambda>_. ''u'') = Inr (g0, evs)"
    "run_ops glitch_step sample_ops g0 = Inr g" "gn_evidence_records g = [e]" using sample_run by blast
  have "glitch_inv g0" using register_Inr [OF r(1)] by simp
  then have "glitch_inv g" by (rule glitch_evidence.run_inv [OF _ r(2)])
  then have g: "validate_glitch_node g = []" "gn_witness_ref g \<noteq> None" using r(3) by (auto simp: glitch_inv_def)
  from derive_research_quarantined [OF g(1), where sm = "''r''" and nid = None and ro = EVIDENCE_REQUIRED
      and occ = None and md = "[]" and tm = "''t''" and u = "\<lambda>_. ''u''"] g r(3)
  show ?thesis by (intro exI [of _ g]) (auto split: sum.splits)
qed

text \<open>
  A chain of allowed transitions that starts on the research or the cinematic lane reaches the
  runtime lane, or an executable status, only after passing through the witness or historical lane.
\<close>

theorem runtime_only_through_witness:
  assumes "st_lane s \<in> {Lane_RESEARCH, Lane_CINEMATIC}" and "allowed_chain s ts" and "t \<in> set ts"
    and "st_lane t = Lane_RUNTIME \<or> st_executable t"
  shows "\<exists>t' \<in> set ts. st_lane t' \<in> {Lane_WITNESS, Lane_HISTORICAL}"
  using assms chain_stays_shadowed by fastforce

definition runtime_status :: status_tuple where
  "runtime_status = \<lparr>st_lane = Lane_RUNTIME, st_evidence_state = Ev_SETTLED, st_executable = True,
     st_reopenability = None, st_render_mode = Render_CANONICAL\<rparr>"

lemma laundering_chain: "allowed_chain (default_status Lane_RESEARCH) [default_status Lane_HISTORICAL, runtime_status]"
  by (simp add: transition_allowed_iff validate_status_ok default_status_def runtime_status_def)

theorem runtime_only_through_witness_witness:
  "\<exists>t' \<in> set [default_status Lane_HISTORICAL, runtime_status]. st_lane t' \<in> {Lane_WITNESS, Lane_HISTORICAL}"
  by (rule runtime_only_through_witness [OF _ laundering_chain, of runtime_status])
    (simp_all add: default_status_def runtime_status_def)

text \<open>
  The guard looks at one transition only: two allowed transitions take a research status through
  the historical (or the witness) lane to an executable runtime status, which the direct transition
  forbids.
\<close>

theorem research_laundering:
  "\<not> gd_allowed (validate_transition (default_status Lane_RESEARCH) runtime_status)
 \<and> (\<forall>l \<in> {Lane_HISTORICAL, Lane_WITNESS}.
      allowed_chain (default_status Lane_RESEARCH) [default_status l, runtime_status])
 \<and> st_executable runtime_status \<and> st_lane runtime_status = Lane_RUNTIME"
  by (simp add: transition_allowed_iff validate_status_ok default_status_def runtime_status_def)

theorem research_laundering_witness:
  "allowed_chain (default_status Lane_RESEARCH) [default_status Lane_WITNESS, runtime_status]
     \<and> st_executable runtime_status"
  using research_laundering by blast

text \<open>
  A piece of evidence that the reducers attached authorises the runtime exactly when it was
  attached as settled; a signature never does.
\<close>

theorem evidence_authority:
  assumes "register_runtime_collision cid lt sm nid occ md tm u = Inr (g0, evs)"
    and "run_ops glitch_step as g0 = Inr g" and "e \<in> set (gn_evidence_records g)"
  shows "gd_allowed (authorize_runtime_from_evidence e) \<longleftrightarrow> er_state e = Ev_SETTLED"
proof -
  have "glitch_inv g"
    using register_Inr [OF assms(1)] glitch_evidence.run_inv [OF _ assms(2)] by blast
  with assms(3) have "er_witness_ref e \<noteq> None" by (simp add: glitch_inv_def)
  then show ?thesis by (auto simp: authorize_runtime_from_evidence_def gd_allow_def gd_deny_def)
qed

theorem evidence_authority_witness: "\<exists>e. er_state e = Ev_SETTLED \<and> gd_allowed (authorize_runtime_from_evidence e)"
  using sample_run evidence_authority by (metis list.set_intros(1))

end
