(* ===== verification/GlitchAdapters.thy ===== *)
theory GlitchAdapters
  imports GlitchM1
begin

text \<open>
  \<open>modules/glitch_stack/adapters.py\<close>: from a drift quarantine row (a dictionary) to a bundle of a
  glitch node, its witness, its challenge window and a quarantined research node.

  \<open>float()\<close> and \<open>datetime.fromtimestamp(ts, utc).isoformat()\<close> are the parameters \<open>float_of\<close> (absent
  when the conversion raises) and \<open>iso_utc\<close> (absent when the time is out of range); the successive
  results of \<open>_now_iso()\<close> are \<open>tms 0\<close>, \<open>tms 1\<close>, and so on.
\<close>

record adapter_result =
  ar_ok :: bool
  ar_decision :: guard_decision
  ar_lock_type :: "runtime_lock_type option"
  ar_glitch :: "glitch_node option"
  ar_research :: "research_node option"
  ar_events :: "canonical_event list"

definition contains_any :: "string list \<Rightarrow> string \<Rightarrow> bool" where
  "contains_any markers text \<longleftrightarrow> list_ex (\<lambda>m. py_contains m text) markers"

definition quarantine_text :: "pydict \<Rightarrow> string" where
  "quarantine_text row = py_upper (py_join '' ''
     (map (get_str row) [''reason_code'', ''kind'', ''severity'', ''source'', ''template_id'']))"

definition lock_type_from_quarantine_row :: "pydict \<Rightarrow> runtime_lock_type" where
  "lock_type_from_quarantine_row row =
     (let text = quarantine_text row in
      if contains_any [''PRIVILEGE'', ''AUTH'', ''RBAC'', ''PERMISSION''] text then PRIVILEGE_LOCK
      else if py_contains ''VOLITION'' text then VOLITION_LOCK
      else if py_contains ''CONSENT'' text then CONSENT_LOCK
      else if contains_any [''TRUST'', ''TAMPER'', ''INTEGRITY'', ''SPEC_MISMATCH''] text then INTEGRITY_LOCK
      else if py_contains ''EVIDENCE'' text then EVIDENCE_LOCK
      else if contains_any [''CONTINUITY'', ''DRIFT'', ''ALLOWLIST_CHANGED''] text then CONTINUITY_LOCK
      else if py_contains ''MAINTENANCE'' text then MAINTENANCE_LOCK
      else CAUTION_LOCK)"

definition stripped_or :: "string \<Rightarrow> string \<Rightarrow> string" where
  "stripped_or s t = (if py_strip s = [] then t else py_strip s)"

definition get_str_or :: "pydict \<Rightarrow> string \<Rightarrow> string \<Rightarrow> string" where
  \<comment> \<open>\<open>str(row.get(k) or t).strip() or t\<close>\<close>
  "get_str_or row k t = stripped_or (py_str (py_or (dict_get row k) (PStr t))) t"

definition collision_id_of :: "pydict \<Rightarrow> string" where
  "collision_id_of row =
     (let eid = py_strip (get_str row ''event_id'') in
      if eid \<noteq> [] then eid
      else py_join '':'' [get_str_or row ''agent_id'' ''agent'', get_str_or row ''kind'' ''quarantine'',
                        get_str_or row ''reason_code'' ''reason''])"

definition summary_of :: "pydict \<Rightarrow> string" where
  "summary_of row =
     ''Quarantine collision for '' @ stripped_or (get_str row ''agent_id'') ''unknown-agent'' @ '': '' @
     stripped_or (get_str row ''kind'') ''quarantine'' @ ''/'' @
     stripped_or (get_str row ''reason_code'') ''unspecified''"

definition metadata_keys :: "string list" where
  "metadata_keys = [''agent_id'', ''kind'', ''severity'', ''reason_code'', ''template_id'',
     ''caps_hash'', ''computed_hash'', ''stored_hash'', ''added'', ''removed'', ''challenge_open_ts'',
     ''challenge_deadline_ts'', ''challenge_sec'', ''expired'', ''expired_ts'', ''source'']"

definition metadata_of :: "pydict \<Rightarrow> pydict" where
  "metadata_of row = map (\<lambda>k. (k, dict_get row k)) (filter (has_key row) metadata_keys)"

definition payload_hash_of :: "pydict \<Rightarrow> string option" where
  "payload_hash_of row =
     (case filter (\<lambda>v. v \<noteq> []) (map (\<lambda>k. py_strip (get_str row k))
             [''computed_hash'', ''stored_hash'', ''caps_hash'', ''event_id'']) of
        [] \<Rightarrow> None | v # _ \<Rightarrow> Some v)"

definition epoch_to_iso ::
  "(pyval \<Rightarrow> 'f::linordered_idom option) \<Rightarrow> ('f \<Rightarrow> string option) \<Rightarrow> pyval \<Rightarrow> glitch_error + string option" where
  "epoch_to_iso float_of iso_utc v =
     (case float_of v of
        None \<Rightarrow> Inr None
      | Some ts \<Rightarrow>
          if ts \<le> 0 then Inr None
          else case iso_utc ts of None \<Rightarrow> Inl DatetimeError | Some s \<Rightarrow> Inr (Some s))"

definition challenge_window_of ::
  "(pyval \<Rightarrow> 'f::linordered_idom option) \<Rightarrow> ('f \<Rightarrow> string option) \<Rightarrow> pydict \<Rightarrow> string \<Rightarrow>
   glitch_error + time_window" where
  "challenge_window_of float_of iso_utc row tm =
     bindE (epoch_to_iso float_of iso_utc (dict_get row ''challenge_open_ts'')) (\<lambda>o1.
     bindE (if str_or o1 [] \<noteq> [] then Inr o1
            else epoch_to_iso float_of iso_utc (dict_get row ''since_ts'')) (\<lambda>opened_at.
     bindE (epoch_to_iso float_of iso_utc (dict_get row ''challenge_deadline_ts'')) (\<lambda>closes_at.
     Inr \<lparr>tw_opened_at = str_or opened_at tm, tw_closes_at = closes_at, tw_policy = ''challenge''\<rparr>)))"

definition refused :: "guard_decision \<Rightarrow> runtime_lock_type option \<Rightarrow> adapter_result" where
  "refused d lt = \<lparr>ar_ok = False, ar_decision = d, ar_lock_type = lt, ar_glitch = None,
     ar_research = None, ar_events = []\<rparr>"

definition build_m1_bundle_from_quarantine_row ::
  "(pyval \<Rightarrow> 'f::linordered_idom option) \<Rightarrow> ('f \<Rightarrow> string option) \<Rightarrow> pydict \<Rightarrow> string \<Rightarrow> bool \<Rightarrow> bool \<Rightarrow>
   string option \<Rightarrow> (nat \<Rightarrow> string) \<Rightarrow> ids \<Rightarrow> glitch_error + adapter_result" where
  "build_m1_bundle_from_quarantine_row float_of iso_utc row witness_id derive_research open_challenge
     occurred_at tms u =
     (if \<not> truthy (dict_get row ''active'') then
        Inr (refused (gd_deny ''QUARANTINE_ROW_INACTIVE''
          ''Only active quarantine rows can produce Glitch M1 collision bundles.'' []) None)
      else if witness_id = [] \<and> (open_challenge \<or> derive_research) then
        Inr (refused (gd_deny ''QUARANTINE_ADAPTER_WITNESS_REQUIRED''
          ''Challenge and research derivation require an explicit witness.'' [])
          (Some (lock_type_from_quarantine_row row)))
      else
        let collision_id = collision_id_of row;
            lock_type = lock_type_from_quarantine_row row
        in bindE (register_runtime_collision collision_id (Some lock_type) (summary_of row) None
                    occurred_at (metadata_of row) (tms 0) u) (\<lambda>(glitch0, events0).
           bindE (if witness_id \<noteq> [] then
                    bindE (attach_collision_witness glitch0
                             \<lparr>wr_witness_id = witness_id, wr_witness_kind = ''runtime_signal'',
                              wr_signature_ref = (let e = get_str row ''event_id''
                                                  in if e = [] then None else Some e)\<rparr>
                             Ev_WITNESSED (Some (''evidence:'' @ collision_id)) None
                             (payload_hash_of row) occurred_at (metadata_of row) (tms 1) (skip_ids 2 u))
                      (\<lambda>(g, e). Inr (g, events0 @ [e]))
                  else Inr (glitch0, events0)) (\<lambda>(glitch1, events1).
           bindE (if open_challenge then
                    bindE (challenge_window_of float_of iso_utc row (tms 2)) (\<lambda>win.
                    bindE (open_collision_challenge_window glitch1 win occurred_at (tms 3) (skip_ids 4 u))
                      (\<lambda>(g, e). Inr (g, events1 @ [e])))
                  else Inr (glitch1, events1)) (\<lambda>(glitch2, events2).
           bindE (if derive_research then
                    bindE (derive_research_node glitch2 (''Quarantined research lane for '' @ collision_id)
                             None EVIDENCE_REQUIRED occurred_at (metadata_of row) (tms 4) (skip_ids 5 u))
                      (\<lambda>(r, e). Inr (Some r, events2 @ [e]))
                  else Inr (None, events2)) (\<lambda>(research, events3).
           Inr \<lparr>ar_ok = True,
                ar_decision = gd_allow ''QUARANTINE_ROW_ADAPTED''
                  ''Active quarantine row was adapted into a dry-run Glitch M1 bundle.''
                  [(''collision_id'', PStr collision_id)],
                ar_lock_type = Some lock_type, ar_glitch = Some glitch2, ar_research = research,
                ar_events = events3\<rparr>)))))"

section \<open>The pipeline\<close>

lemma epoch_to_iso_total:
  assumes "\<forall>ts. iso_utc ts \<noteq> None"
  shows "\<exists>s. epoch_to_iso float_of iso_utc v = Inr s"
proof (cases "float_of v")
  case None
  then show ?thesis by (simp add: epoch_to_iso_def)
next
  case (Some ts)
  moreover obtain s where "iso_utc ts = Some s" using assms by blast
  ultimately show ?thesis by (simp add: epoch_to_iso_def)
qed

lemma challenge_window_total:
  assumes "\<forall>ts. iso_utc ts \<noteq> None"
  shows "\<exists>w. challenge_window_of float_of iso_utc row tm = Inr w"
proof -
  obtain o1 where o1: "epoch_to_iso float_of iso_utc (dict_get row ''challenge_open_ts'') = Inr o1"
    using epoch_to_iso_total [OF assms] by blast
  obtain o2 where o2: "epoch_to_iso float_of iso_utc (dict_get row ''since_ts'') = Inr o2"
    using epoch_to_iso_total [OF assms] by blast
  obtain o3 where o3: "epoch_to_iso float_of iso_utc (dict_get row ''challenge_deadline_ts'') = Inr o3"
    using epoch_to_iso_total [OF assms] by blast
  show ?thesis by (simp add: challenge_window_of_def o1 o2 o3)
qed

text \<open>The stages of an accepted row, given the result of each stage.\<close>

lemma build_bundle_stages:
  assumes act: "truthy (dict_get row ''active'')" and wid: "wid \<noteq> []"
    and reg: "register_runtime_collision (collision_id_of row) (Some (lock_type_from_quarantine_row row))
      (summary_of row) None occ (metadata_of row) (tms 0) u = Inr (g0, evs0)"
    and att: "attach_collision_witness g0 \<lparr>wr_witness_id = wid, wr_witness_kind = ''runtime_signal'',
         wr_signature_ref = (let e = get_str row ''event_id'' in if e = [] then None else Some e)\<rparr>
         Ev_WITNESSED (Some (''evidence:'' @ collision_id_of row)) None (payload_hash_of row) occ
         (metadata_of row) (tms 1) (skip_ids 2 u) = Inr (g1, e1)"
    and win: "challenge_window_of float_of iso_utc row (tms 2) = Inr win"
    and opn: "opn \<Longrightarrow> open_collision_challenge_window g1 win occ (tms 3) (skip_ids 4 u) = Inr (g2, e2)"
    and der: "dr \<Longrightarrow> derive_research_node (if opn then g2 else g1)
       (''Quarantined research lane for '' @ collision_id_of row) None EVIDENCE_REQUIRED occ
       (metadata_of row) (tms 4) (skip_ids 5 u) = Inr (r, e3)"
  shows "build_m1_bundle_from_quarantine_row float_of iso_utc row wid dr opn occ tms u =
    Inr \<lparr>ar_ok = True,
         ar_decision = gd_allow ''QUARANTINE_ROW_ADAPTED''
           ''Active quarantine row was adapted into a dry-run Glitch M1 bundle.''
           [(''collision_id'', PStr (collision_id_of row))],
         ar_lock_type = Some (lock_type_from_quarantine_row row),
         ar_glitch = Some (if opn then g2 else g1),
         ar_research = (if dr then Some r else None),
         ar_events = evs0 @ [e1] @ (if opn then [e2] else []) @ (if dr then [e3] else [])\<rparr>"
  using act wid reg att win opn der
  by (cases opn; cases dr) (simp_all add: build_m1_bundle_from_quarantine_row_def Let_def)

lemma build_bundle_accepts:
  assumes act: "truthy (dict_get row ''active'')" and wid: "wid \<noteq> []"
    and iso: "\<forall>ts. iso_utc ts \<noteq> None"
  shows "\<exists>res g. build_m1_bundle_from_quarantine_row float_of iso_utc row wid dr opn occ tms u = Inr res
    \<and> ar_ok res \<and> gd_allowed (ar_decision res) \<and> ar_glitch res = Some g \<and> glitch_inv g
    \<and> gn_lock_type g = Some (lock_type_from_quarantine_row row)
    \<and> st_evidence_state (gn_status g) = (if opn then Ev_CHALLENGE_OPEN else Ev_WITNESSED)
    \<and> map ce_event_type (ar_events res) =
        [''RuntimeCollisionRegistered'', ''GlitchNodeCreated'', ''CollisionWitnessAttached'']
        @ (if opn then [''ChallengeOpened''] else []) @ (if dr then [''ResearchNodeDerived''] else [])
    \<and> (case ar_research res of None \<Rightarrow> \<not> dr
       | Some r \<Rightarrow> dr \<and> validate_research_node r = [] \<and> rn_source_glitch_ref r = gn_node_ref g
           \<and> rn_evidence_refs r = [''evidence:'' @ collision_id_of row])"
proof -
  obtain g0 evs0 where reg: "register_runtime_collision (collision_id_of row)
      (Some (lock_type_from_quarantine_row row)) (summary_of row) None occ (metadata_of row) (tms 0) u
      = Inr (g0, evs0)"
    using register_Some by blast
  note R = register_Inr [OF reg]
  then have v0: "validate_glitch_node g0 = []" by (simp add: glitch_inv_def)
  from attach_ok [OF v0, of Ev_WITNESSED] obtain g1 e1 where att:
    "attach_collision_witness g0 \<lparr>wr_witness_id = wid, wr_witness_kind = ''runtime_signal'',
       wr_signature_ref = (let e = get_str row ''event_id'' in if e = [] then None else Some e)\<rparr>
       Ev_WITNESSED (Some (''evidence:'' @ collision_id_of row)) None (payload_hash_of row) occ
       (metadata_of row) (tms 1) (skip_ids 2 u) = Inr (g1, e1)"
    by fastforce
  note A = attach_Inr [OF att]
  obtain win where win: "challenge_window_of float_of iso_utc row (tms 2) = Inr win"
    using challenge_window_total [OF iso] by blast
  from A have v1: "validate_glitch_node g1 = []" and w1: "gn_witness_ref g1 \<noteq> None" by simp_all
  obtain g2 e2 where opn: "open_collision_challenge_window g1 win occ (tms 3) (skip_ids 4 u) = Inr (g2, e2)"
    using open_challenge_ok_iff [OF v1] w1 by blast
  note P = open_challenge_Inr [OF opn]
  let ?g = "if opn then g2 else g1"
  have vg: "validate_glitch_node ?g = []" and wg: "gn_witness_ref ?g \<noteq> None \<and> gn_evidence_records ?g \<noteq> []"
    using A P by simp_all
  obtain r e3 where der: "derive_research_node ?g
       (''Quarantined research lane for '' @ collision_id_of row) None EVIDENCE_REQUIRED occ
       (metadata_of row) (tms 4) (skip_ids 5 u) = Inr (r, e3)"
    using derive_ok_iff [OF vg] wg by blast
  note D = derive_Inr [OF der]
  show ?thesis
    using build_bundle_stages [OF act wid reg att win opn der] A P D R
    by (cases opn; cases dr) (simp_all add: glitch_inv_def gd_allow_def str_or.simps)
qed

lemma build_bundle_refuses:
  assumes "\<not> truthy (dict_get row ''active'') \<or> (wid = [] \<and> (opn \<or> dr))"
  shows "\<exists>d lt. build_m1_bundle_from_quarantine_row float_of iso_utc row wid dr opn occ tms u =
           Inr (refused d lt) \<and> \<not> gd_allowed d"
  using assms by (auto simp: build_m1_bundle_from_quarantine_row_def gd_deny_def)

section \<open>Properties\<close>

text \<open>
  An active quarantine row with a witness id is always adapted: the bundle carries a valid
  glitch node with the row's lock, the events of every stage in order, and, when asked for, a
  quarantined research node that refers to the row's evidence.
\<close>

theorem adapter_bundle:
  assumes "truthy (dict_get row ''active'')" and "wid \<noteq> []" and "\<forall>ts. iso_utc ts \<noteq> None"
  shows "\<exists>res g. build_m1_bundle_from_quarantine_row float_of iso_utc row wid dr opn occ tms u = Inr res
    \<and> ar_ok res \<and> ar_glitch res = Some g \<and> glitch_inv g
    \<and> gn_lock_type g = Some (lock_type_from_quarantine_row row)
    \<and> st_evidence_state (gn_status g) = (if opn then Ev_CHALLENGE_OPEN else Ev_WITNESSED)
    \<and> map ce_event_type (ar_events res) =
        [''RuntimeCollisionRegistered'', ''GlitchNodeCreated'', ''CollisionWitnessAttached'']
        @ (if opn then [''ChallengeOpened''] else []) @ (if dr then [''ResearchNodeDerived''] else [])
    \<and> (case ar_research res of None \<Rightarrow> \<not> dr
       | Some r \<Rightarrow> dr \<and> validate_research_node r = [] \<and> rn_source_glitch_ref r = gn_node_ref g
           \<and> rn_evidence_refs r = [''evidence:'' @ collision_id_of row])"
  using build_bundle_accepts [OF assms, of float_of dr opn occ tms u] by blast

theorem adapter_bundle_witness:
  "\<exists>res g. build_m1_bundle_from_quarantine_row (\<lambda>_. Some (1 :: int)) (\<lambda>_. Some ''2024'')
       [(''active'', PBool True), (''kind'', PStr ''drift'')] ''w1'' True True None (\<lambda>_. ''t'') (\<lambda>_. ''u'') = Inr res
     \<and> ar_ok res \<and> ar_glitch res = Some g \<and> glitch_inv g
     \<and> gn_lock_type g = Some (lock_type_from_quarantine_row [(''active'', PBool True), (''kind'', PStr ''drift'')])"
  using adapter_bundle [where row = "[(''active'', PBool True), (''kind'', PStr ''drift'')]" and wid = "''w1''"
      and iso_utc = "\<lambda>_ :: int. Some ''2024''" and float_of = "\<lambda>_. Some 1" and dr = True and opn = True
      and occ = None and tms = "\<lambda>_. ''t''" and u = "\<lambda>_. ''u''"]
  by (auto simp: dict_get_def)

text \<open>
  The adapter accepts a row exactly when it is active and, if a challenge or a research node is
  asked for, a witness is given; a refused row yields no node and no event.
\<close>

theorem adapter_decision:
  assumes "\<forall>ts. iso_utc ts \<noteq> None"
  shows "\<exists>res. build_m1_bundle_from_quarantine_row float_of iso_utc row wid dr opn occ tms u = Inr res
    \<and> (ar_ok res \<longleftrightarrow> truthy (dict_get row ''active'') \<and> (wid = [] \<longrightarrow> \<not> opn \<and> \<not> dr))
    \<and> (ar_ok res \<longleftrightarrow> gd_allowed (ar_decision res))
    \<and> (if ar_ok res then ar_glitch res \<noteq> None else ar_glitch res = None \<and> ar_research res = None \<and> ar_events res = [])"
proof (cases "truthy (dict_get row ''active'') \<and> (wid = [] \<longrightarrow> \<not> opn \<and> \<not> dr)")
  case False
  then have "\<not> truthy (dict_get row ''active'') \<or> (wid = [] \<and> (opn \<or> dr))" by auto
  from build_bundle_refuses [OF this, of float_of iso_utc occ tms u] False show ?thesis
    by (auto simp: refused_def)
next
  case act: True
  show ?thesis
  proof (cases "wid = []")
    case False
    from act have "truthy (dict_get row ''active'')" by simp
    from build_bundle_accepts [OF this False assms, of float_of dr opn occ tms u] act False show ?thesis
      by fastforce
  next
    case True
    obtain g0 evs0 where "register_runtime_collision (collision_id_of row) (Some (lock_type_from_quarantine_row row))
        (summary_of row) None occ (metadata_of row) (tms 0) u = Inr (g0, evs0)"
      using register_Some by blast
    with act True show ?thesis
      by (simp add: build_m1_bundle_from_quarantine_row_def Let_def gd_allow_def)
  qed
qed

theorem adapter_decision_witness:
  "\<exists>res. build_m1_bundle_from_quarantine_row (\<lambda>_. Some (1 :: int)) (\<lambda>_. Some ''2024'')
       [(''active'', PBool True)] [] True False None (\<lambda>_. ''t'') (\<lambda>_. ''u'') = Inr res \<and> \<not> ar_ok res"
  using adapter_decision [where row = "[(''active'', PBool True)]" and wid = "[]"
      and iso_utc = "\<lambda>_ :: int. Some ''2024''" and float_of = "\<lambda>_. Some 1" and dr = True and opn = False
      and occ = None and tms = "\<lambda>_. ''t''" and u = "\<lambda>_. ''u''"]
  by (auto simp: dict_get_def)

end
