(* ===== verification/PyFiles.thy ===== *)
theory PyFiles
  imports PyBase
begin

text \<open>
  The files the sidecar stores keep.  A path is its list of components.  A \<open>.json\<close> file is written
  whole (through a temporary file and \<open>os.replace\<close>); a \<open>.jsonl\<close> file is only appended to.  The text of
  a JSON file or of one line of a \<open>.jsonl\<close> file is represented by what \<open>json.loads\<close> makes of it:
  a value, nothing (a blank line), or a decoding error.  Directories are not represented
  (\<open>mkdir(parents=True, exist_ok=True)\<close> makes them on demand).

  The two locales are the contracts of the stores: an append-only log and a document store.
\<close>

type_synonym path = "string list"

datatype jtext = JBlank | JBad | JVal pyval

record files =
  json_files :: "path \<Rightarrow> jtext option"
  jsonl_files :: "path \<Rightarrow> jtext list option"

datatype io_error = JSONDecodeError

definition path_str :: "path \<Rightarrow> string" where
  "path_str p = py_join ''/'' p"

definition tmp_path :: "path \<Rightarrow> string \<Rightarrow> path" where
  \<comment> \<open>\<open>path.with_name(f"{path.name}.{uuid4().hex}.tmp")\<close>\<close>
  "tmp_path p u = butlast p @ [last p @ ''.'' @ u @ ''.tmp'']"

definition write_text :: "path \<Rightarrow> pyval \<Rightarrow> files \<Rightarrow> files" where
  "write_text p v s = s\<lparr>json_files := (json_files s)(p \<mapsto> JVal v)\<rparr>"

definition os_replace :: "path \<Rightarrow> path \<Rightarrow> files \<Rightarrow> files" where
  "os_replace a b s = s\<lparr>json_files := (json_files s)(b := json_files s a, a := None)\<rparr>"

definition write_json :: "path \<Rightarrow> pyval \<Rightarrow> string \<Rightarrow> files \<Rightarrow> files" where
  "write_json p v u s = os_replace (tmp_path p u) p (write_text (tmp_path p u) v s)"

text \<open>
  The states a crash can leave behind.  Writing a text is not atomic: between creating the file and
  closing it, a part of the text is there, which does not parse.
\<close>

definition write_text_states :: "path \<Rightarrow> pyval \<Rightarrow> files \<Rightarrow> files list" where
  "write_text_states p v s = [s, s\<lparr>json_files := (json_files s)(p \<mapsto> JBad)\<rparr>, write_text p v s]"

definition write_json_states :: "path \<Rightarrow> pyval \<Rightarrow> string \<Rightarrow> files \<Rightarrow> files list" where
  "write_json_states p v u s =
     (let tmp = tmp_path p u
      in write_text_states tmp v s @ [os_replace tmp p (write_text tmp v s)])"

text \<open>
  The rows are written by \<open>json.dumps(..., ensure_ascii=False)\<close> and read back with \<open>str.splitlines\<close>, which cuts a
  line at more characters than the newline.  Of these, the control characters below 32 are escaped by \<open>json.dumps\<close>;
  U+0085 is written as it is (as are U+2028 and U+2029, which a \<open>char\<close> of the model cannot stand for).  A row that has one in a
  text is cut inside a string literal, so that its first piece does not parse; the readers stop at that piece, which
  is all the model keeps of such a row.
\<close>

definition next_line :: char where
  "next_line = CHR 0x85"

fun line_safe :: "pyval \<Rightarrow> bool" where
  "line_safe (PStr s) = (next_line \<notin> set s)"
| "line_safe (PList vs) = list_all line_safe vs"
| "line_safe (PDict d) = list_all (\<lambda>(k, v). next_line \<notin> set k \<and> line_safe v) d"
| "line_safe _ = True"

definition line_of :: "pyval \<Rightarrow> jtext" where
  "line_of v = (if line_safe v then JVal v else JBad)"

definition append_line :: "path \<Rightarrow> pyval \<Rightarrow> files \<Rightarrow> files" where
  "append_line p v s = s\<lparr>jsonl_files := (jsonl_files s)(p \<mapsto>
     (case jsonl_files s p of None \<Rightarrow> [] | Some ls \<Rightarrow> ls) @ [line_of v])\<rparr>"

definition touch :: "path \<Rightarrow> files \<Rightarrow> files" where
  \<comment> \<open>opening a file for append creates it\<close>
  "touch p s = (case jsonl_files s p of None \<Rightarrow> s\<lparr>jsonl_files := (jsonl_files s)(p \<mapsto> [])\<rparr> | Some _ \<Rightarrow> s)"

fun append_lines :: "path \<Rightarrow> pyval list \<Rightarrow> files \<Rightarrow> files" where
  "append_lines p [] s = touch p s"
| "append_lines p (v # vs) s = append_lines p vs (append_line p v s)"

fun rows_strict :: "jtext list \<Rightarrow> io_error + pydict list" where
  \<comment> \<open>blank lines are skipped, malformed ones raise, values that are not dictionaries are dropped\<close>
  "rows_strict [] = Inr []"
| "rows_strict (JBlank # ls) = rows_strict ls"
| "rows_strict (JBad # ls) = Inl JSONDecodeError"
| "rows_strict (JVal (PDict d) # ls) = bindE (rows_strict ls) (\<lambda>rs. Inr (d # rs))"
| "rows_strict (JVal _ # ls) = rows_strict ls"

fun rows_lenient :: "jtext list \<Rightarrow> pydict list" where
  \<comment> \<open>\<open>_read_jsonl\<close>: blank and malformed lines and values that are not dictionaries are skipped\<close>
  "rows_lenient [] = []"
| "rows_lenient (JVal (PDict d) # ls) = d # rows_lenient ls"
| "rows_lenient (_ # ls) = rows_lenient ls"

lemma rows_lenient_append: "rows_lenient (ls @ ms) = rows_lenient ls @ rows_lenient ms"
  by (induction ls rule: rows_lenient.induct) simp_all

definition load_rows :: "path \<Rightarrow> files \<Rightarrow> io_error + pydict list" where
  "load_rows p s = (case jsonl_files s p of None \<Rightarrow> Inr [] | Some ls \<Rightarrow> rows_strict ls)"

definition load_json :: "path \<Rightarrow> files \<Rightarrow> io_error + pydict option" where
  \<comment> \<open>\<open>None\<close> when the file is missing or holds a value that is not a dictionary\<close>
  "load_json p s = (case json_files s p of
     None \<Rightarrow> Inr None
   | Some (JVal (PDict d)) \<Rightarrow> Inr (Some d)
   | Some (JVal _) \<Rightarrow> Inr None
   | Some _ \<Rightarrow> Inl JSONDecodeError)"

section \<open>Laws of the file operations\<close>

lemma tmp_path_neq: "p \<noteq> [] \<Longrightarrow> tmp_path p u \<noteq> p"
  by (cases p rule: rev_cases) (auto simp: tmp_path_def)

lemma tmp_path_last: "last (tmp_path p u) = last p @ ''.'' @ u @ ''.tmp''"
  by (simp add: tmp_path_def)

text \<open>No temporary file is ever mistaken for a \<open>.json\<close> file.\<close>

lemma tmp_path_not_json: "last q = n @ ''.json'' \<Longrightarrow> tmp_path p u \<noteq> q"
proof
  assume "last q = n @ ''.json''" and "tmp_path p u = q"
  then have "last p @ ''.'' @ u @ ''.tmp'' = n @ ''.json''" by (metis tmp_path_last)
  then have "last (last p @ ''.'' @ u @ ''.tmp'') = last (n @ ''.json'')" by simp
  then show False by simp
qed

lemma write_json_same [simp]: "json_files (write_json p v u s) p = Some (JVal v)" if "p \<noteq> []"
  using that tmp_path_neq [of p u]
  by (simp add: write_json_def os_replace_def write_text_def)

lemma write_json_other:
  "q \<noteq> p \<Longrightarrow> q \<noteq> tmp_path p u \<Longrightarrow> json_files (write_json p v u s) q = json_files s q"
  by (simp add: write_json_def os_replace_def write_text_def)

lemma write_json_jsonl [simp]: "jsonl_files (write_json p v u s) = jsonl_files s"
  by (simp add: write_json_def os_replace_def write_text_def)

lemma append_line_json [simp]: "json_files (append_line p v s) = json_files s"
  by (simp add: append_line_def)

lemma touch_json [simp]: "json_files (touch p s) = json_files s"
  by (simp add: touch_def split: option.splits)

lemma append_lines_json [simp]: "json_files (append_lines p vs s) = json_files s"
  by (induction vs arbitrary: s) simp_all

lemma rows_strict_append:
  "rows_strict ls = Inr rs \<Longrightarrow> rows_strict ms = Inr ts \<Longrightarrow> rows_strict (ls @ ms) = Inr (rs @ ts)"
  by (induction ls arbitrary: rs rule: rows_strict.induct) (auto simp: bindE_Inr_iff)

lemma rows_strict_bad: "rows_strict ls = Inr rs \<Longrightarrow> rows_strict (ls @ JBad # ms) = Inl JSONDecodeError"
  by (induction ls arbitrary: rs rule: rows_strict.induct) (auto simp: bindE_Inr_iff)

lemma rows_strict_stuck: "rows_strict ls = Inl e \<Longrightarrow> rows_strict (ls @ ms) = Inl e"
  by (induction ls rule: rows_strict.induct) (auto simp: bindE_def split: sum.splits)

lemma load_rows_append_line:
  "load_rows p s = Inr rs \<Longrightarrow> line_safe (PDict d) \<Longrightarrow> load_rows p (append_line p (PDict d) s) = Inr (rs @ [d])"
  by (auto simp: load_rows_def append_line_def line_of_def intro!: rows_strict_append split: option.splits)

lemma load_rows_cut_line:
  "load_rows p s = Inr rs \<Longrightarrow> \<not> line_safe v \<Longrightarrow> load_rows p (append_line p v s) = Inl JSONDecodeError"
  by (auto simp: load_rows_def append_line_def line_of_def intro: rows_strict_bad split: option.splits)

lemma load_rows_stuck: "load_rows p s = Inl e \<Longrightarrow> load_rows p (append_line p v s) = Inl e"
  by (auto simp: load_rows_def append_line_def intro: rows_strict_stuck split: option.splits)

lemma load_rows_append_other: "q \<noteq> p \<Longrightarrow> load_rows q (append_line p v s) = load_rows q s"
  by (simp add: load_rows_def append_line_def)

lemma load_rows_touch [simp]: "load_rows q (touch p s) = load_rows q s"
  by (auto simp: load_rows_def touch_def split: option.splits)

lemma load_rows_append_lines:
  "load_rows p s = Inr rs \<Longrightarrow> list_all (\<lambda>d. line_safe (PDict d)) ds \<Longrightarrow> load_rows p (append_lines p (map PDict ds) s) = Inr (rs @ ds)"
proof (induction ds arbitrary: s rs)
  case Nil
  then show ?case by simp
next
  case (Cons d ds)
  from Cons.prems have "load_rows p (append_line p (PDict d) s) = Inr (rs @ [d])"
    by (intro load_rows_append_line) auto
  from Cons.IH [OF this] Cons.prems(2) show ?case by simp
qed

lemma load_rows_write_json [simp]: "load_rows q (write_json p v u s) = load_rows q s"
  by (simp add: load_rows_def)

lemma load_json_append_line [simp]: "load_json q (append_line p v s) = load_json q s"
  by (simp add: load_json_def)

lemma load_json_write_same [simp]: "p \<noteq> [] \<Longrightarrow> load_json p (write_json p (PDict d) u s) = Inr (Some d)"
  by (simp add: load_json_def)

lemma load_json_write_other:
  "q \<noteq> p \<Longrightarrow> last q = n @ ''.json'' \<Longrightarrow> load_json q (write_json p v u s) = load_json q s"
  by (simp add: load_json_def write_json_other tmp_path_not_json [THEN not_sym])

text \<open>
  A crash between the two system calls leaves the target either as it was or completely written.
\<close>

lemma write_json_atomic:
  assumes "p \<noteq> []" and "t \<in> set (write_json_states p v u s)"
  shows "json_files t p = json_files s p \<or> json_files t p = Some (JVal v)"
  using assms tmp_path_neq [of p u]
  by (auto simp: write_json_states_def write_text_states_def write_text_def os_replace_def Let_def)

lemma write_json_states_last: "last (write_json_states p v u s) = write_json p v u s"
  by (simp add: write_json_states_def write_json_def Let_def)

section \<open>The contracts of the stores\<close>

locale append_log =
  fixes append :: "'e \<Rightarrow> 's \<Rightarrow> 's"
    and load :: "'s \<Rightarrow> io_error + pydict list"
    and enc :: "'e \<Rightarrow> pydict"
    and whole :: "'e \<Rightarrow> bool"
  assumes load_append: "load s = Inr rows \<Longrightarrow> whole e \<Longrightarrow> load (append e s) = Inr (rows @ [enc e])"
    and load_cut: "load s = Inr rows \<Longrightarrow> \<not> whole e \<Longrightarrow> load (append e s) = Inl JSONDecodeError"
    and load_stuck: "load s = Inl x \<Longrightarrow> load (append e s) = Inl x"
begin

lemma fold_stuck: "load s = Inl x \<Longrightarrow> load (fold append es s) = Inl x"
  by (induction es arbitrary: s) (simp_all add: load_stuck)

text \<open>What was appended is read back, in its order, unless one of the rows was cut: then nothing is read again.\<close>

lemma load_fold:
  "load s = Inr rows \<Longrightarrow> load (fold append es s) = (if list_all whole es then Inr (rows @ map enc es) else Inl JSONDecodeError)"
proof (induction es arbitrary: s rows)
  case Nil
  then show ?case by simp
next
  case (Cons e es)
  show ?case
  proof (cases "whole e")
    case True
    from Cons.IH [OF load_append [OF Cons.prems True]] True show ?thesis by simp
  next
    case False
    from fold_stuck [OF load_cut [OF Cons.prems False]] False show ?thesis by simp
  qed
qed

end

locale document_store =
  fixes save :: "'d \<Rightarrow> ids \<Rightarrow> 's \<Rightarrow> 's"
    and load :: "string \<Rightarrow> 's \<Rightarrow> io_error + pydict option"
    and ident :: "'d \<Rightarrow> string"
    and file_of :: "string \<Rightarrow> string"
    and enc :: "'d \<Rightarrow> pydict"
  assumes load_save_same: "file_of i = file_of (ident d) \<Longrightarrow> load i (save d u s) = Inr (Some (enc d))"
    and load_save_other: "file_of i \<noteq> file_of (ident d) \<Longrightarrow> load i (save d u s) = load i s"
begin

text \<open>The last document saved under a file name is the one that is loaded.\<close>

lemma load_after_saves:
  "load i (fold (\<lambda>(d, u). save d u) ds s) =
     (case find (\<lambda>(d, u). file_of (ident d) = file_of i) (rev ds) of
        None \<Rightarrow> load i s | Some (d, u) \<Rightarrow> Inr (Some (enc d)))"
proof (induction ds rule: rev_induct)
  case Nil
  then show ?case by simp
next
  case (snoc x ds)
  obtain d u where x: "x = (d, u)" by force
  show ?case
  proof (cases "file_of (ident d) = file_of i")
    case True
    then show ?thesis using load_save_same [of i d u] by (simp add: x)
  next
    case False
    then show ?thesis using snoc.IH load_save_other [of i d u] by (simp add: x)
  qed
qed

lemma roundtrip: "load (ident d) (save d u s) = Inr (Some (enc d))"
  by (simp add: load_save_same)

lemma overwrite:
  "file_of (ident d) = file_of (ident e) \<Longrightarrow> load (ident d) (save e v (save d u s)) = Inr (Some (enc e))"
  by (simp add: load_save_same)

end

text \<open>A directory of JSON documents named by \<open>_safe_file_id\<close>, which is what every sidecar keeps.\<close>

definition doc_path :: "path \<Rightarrow> string \<Rightarrow> string \<Rightarrow> path" where
  "doc_path dir fallback i = dir @ [safe_file_id fallback i @ ''.json'']"

lemma doc_path_nonempty [simp]: "doc_path dir fb i \<noteq> []"
  by (simp add: doc_path_def)

lemma doc_path_eq_iff [simp]:
  "doc_path dir fb i = doc_path dir fb j \<longleftrightarrow> safe_file_id fb i = safe_file_id fb j"
  by (simp add: doc_path_def)

lemma last_doc_path: "last (doc_path dir fb i) = safe_file_id fb i @ ''.json''"
  by (simp add: doc_path_def)

fun dict_of :: "pyval \<Rightarrow> pydict" where
  "dict_of (PDict d) = d"
| "dict_of _ = []"

lemma load_doc_same:
  assumes "safe_file_id fb i = safe_file_id fb j" and "PDict (dict_of v) = v"
  shows "load_json (doc_path dir fb i) (write_json (doc_path dir fb j) v u s) = Inr (Some (dict_of v))"
proof -
  have same: "doc_path dir fb i = doc_path dir fb j" using assms(1) by simp
  show ?thesis
    unfolding same using assms(2) load_json_write_same [of "doc_path dir fb j" "dict_of v"] by simp
qed

lemma load_doc_other:
  assumes "safe_file_id fb i \<noteq> safe_file_id fb j"
  shows "load_json (doc_path dir fb i) (write_json (doc_path dir fb j) v u s) = load_json (doc_path dir fb i) s"
  using assms by (intro load_json_write_other [OF _ last_doc_path]) simp

lemma load_doc_other_file:
  assumes "doc_path dir fb i \<noteq> p"
  shows "load_json (doc_path dir fb i) (write_json p v u s) = load_json (doc_path dir fb i) s"
  using assms by (rule load_json_write_other [OF _ last_doc_path])

lemma doc_path_inside:
  assumes "\<forall>c \<in> set fb. id_char c"
  shows "CHR ''/'' \<notin> set (safe_file_id fb i)"
  using safe_file_id_chars [OF assms, of i]
  by (auto simp: id_char_def is_alnum_def code_point_def Let_def)

section \<open>Properties\<close>

text \<open>
  C2: a crash during \<open>_write_json\<close>, also in the middle of writing the text, leaves a reader of the
  target with the old content or the new one, never with a part of it; every other document is
  untouched; and a run that is not cut short is the last of these states.
\<close>

theorem write_json_crash_safe:
  assumes "p \<noteq> []" and "t \<in> set (write_json_states p (PDict d) u s)" and "last q = n @ ''.json''"
  shows "(load_json p t = load_json p s \<or> load_json p t = Inr (Some d)) \<and> (q \<noteq> p \<longrightarrow> load_json q t = load_json q s)
       \<and> write_json p (PDict d) u s = last (write_json_states p (PDict d) u s)"
proof (intro conjI impI)
  from write_json_atomic [OF assms(1,2)] show "load_json p t = load_json p s \<or> load_json p t = Inr (Some d)"
    by (auto simp: load_json_def)
  show "write_json p (PDict d) u s = last (write_json_states p (PDict d) u s)" by (simp add: write_json_states_last)
  assume "q \<noteq> p"
  then have "json_files t q = json_files s q"
    using assms(2,3) tmp_path_not_json [OF assms(3), of p u]
    by (auto simp: write_json_states_def write_text_states_def write_text_def os_replace_def Let_def)
  then show "load_json q t = load_json q s" by (simp add: load_json_def)
qed

theorem write_json_crash_safe_witness:
  "\<exists>t. t \<in> set (write_json_states [''a.json''] (PDict [(''k'', PInt 1)]) ''u'' \<lparr>json_files = (\<lambda>_. None), jsonl_files = (\<lambda>_. None)\<rparr>)
     \<and> load_json [''a.json''] t \<in> {Inr None, Inr (Some [(''k'', PInt 1)])}"
proof -
  let ?s = "\<lparr>json_files = (\<lambda>_. None), jsonl_files = (\<lambda>_. None)\<rparr>"
  let ?t = "write_json_states [''a.json''] (PDict [(''k'', PInt 1)]) ''u'' ?s ! 1"
  have t: "?t \<in> set (write_json_states [''a.json''] (PDict [(''k'', PInt 1)]) ''u'' ?s)"
    by (simp add: write_json_states_def write_text_states_def Let_def)
  have n: "[''a.json''] \<noteq> ([] :: path)" "last [''b.json''] = ''b'' @ ''.json''" by simp_all
  have "load_json [''a.json''] ?s = Inr None" by (simp add: load_json_def)
  with write_json_crash_safe [OF n(1) t n(2)] t show ?thesis by (intro exI [of _ ?t]) auto
qed

end
