(* ===== verification/GlitchStore.thy ===== *)
theory GlitchStore
  imports PyFiles GlitchM1
begin

text \<open>
  \<open>modules/glitch_stack/store.py\<close> and \<open>store_research_node\<close> of \<open>m1.py\<close>: the files of the glitch
  sidecar below a root that the caller provides.  Every store operation first writes the manifest
  (\<open>ensure_dirs\<close>); the identifiers \<open>u 0\<close>, \<open>u 1\<close> name the temporary files.
\<close>

definition gs_base_dir :: "path \<Rightarrow> path" where
  "gs_base_dir root = root @ [''glitch_m1'']"

definition gs_glitch_nodes_dir :: "path \<Rightarrow> path" where
  "gs_glitch_nodes_dir root = gs_base_dir root @ [''glitch_nodes'']"

definition gs_research_nodes_dir :: "path \<Rightarrow> path" where
  "gs_research_nodes_dir root = gs_base_dir root @ [''research_nodes'']"

definition gs_events_path :: "path \<Rightarrow> path" where
  "gs_events_path root = gs_base_dir root @ [''events.jsonl'']"

definition gs_manifest_path :: "path \<Rightarrow> path" where
  "gs_manifest_path root = gs_base_dir root @ [''manifest.json'']"

definition gs_manifest :: "path \<Rightarrow> pydict" where
  "gs_manifest root =
     [(''schema'', PStr ''ester.glitch_m1.store.v1''),
      (''runtime_glitch_nodes'', PStr (path_str (gs_glitch_nodes_dir root))),
      (''research_nodes'', PStr (path_str (gs_research_nodes_dir root))),
      (''events'', PStr (path_str (gs_events_path root))),
      (''research_lane_separate'', PBool True),
      (''runtime_memory_store'', PNone)]"

definition gs_write_manifest :: "path \<Rightarrow> string \<Rightarrow> files \<Rightarrow> files" where
  "gs_write_manifest root u s = write_json (gs_manifest_path root) (PDict (gs_manifest root)) u s"

definition gs_ensure_dirs :: "path \<Rightarrow> string \<Rightarrow> files \<Rightarrow> files" where
  "gs_ensure_dirs root u s = gs_write_manifest root u s"

definition gs_node_path :: "path \<Rightarrow> string \<Rightarrow> path" where
  "gs_node_path dir i = doc_path dir ''node'' i"

definition save_glitch_node :: "path \<Rightarrow> glitch_node \<Rightarrow> ids \<Rightarrow> files \<Rightarrow> files" where
  "save_glitch_node root g u s =
     write_json (gs_node_path (gs_glitch_nodes_dir root) (nr_id (gn_node_ref g))) (glitch_record g) (u 1)
       (gs_ensure_dirs root (u 0) s)"

definition save_research_node :: "path \<Rightarrow> research_node \<Rightarrow> ids \<Rightarrow> files \<Rightarrow> files" where
  "save_research_node root r u s =
     write_json (gs_node_path (gs_research_nodes_dir root) (nr_id (rn_node_ref r))) (research_record r) (u 1)
       (gs_ensure_dirs root (u 0) s)"

definition gs_append_event :: "path \<Rightarrow> string \<Rightarrow> canonical_event \<Rightarrow> files \<Rightarrow> files" where
  "gs_append_event root u e s =
     append_line (gs_events_path root) (event_record e) (gs_ensure_dirs root u s)"

definition gs_append_events :: "path \<Rightarrow> string \<Rightarrow> canonical_event list \<Rightarrow> files \<Rightarrow> files" where
  "gs_append_events root u es s =
     append_lines (gs_events_path root) (map event_record es) (gs_ensure_dirs root u s)"

definition gs_load_events :: "path \<Rightarrow> files \<Rightarrow> io_error + pydict list" where
  "gs_load_events root s = load_rows (gs_events_path root) s"

definition persist_m1_bundle ::
  "path \<Rightarrow> glitch_node option \<Rightarrow> research_node option \<Rightarrow> canonical_event list \<Rightarrow> ids \<Rightarrow> files \<Rightarrow>
   files \<times> (string \<times> pyval) list" where
  "persist_m1_bundle root glitch research events u s =
     (let s1 = (case glitch of None \<Rightarrow> s | Some g \<Rightarrow> save_glitch_node root g u s);
          s2 = (case research of None \<Rightarrow> s1 | Some r \<Rightarrow> save_research_node root r (skip_ids 2 u) s1);
          s3 = gs_append_events root (u 4) events s2
      in (s3,
          [(''glitch_path'', opt_str (map_option (\<lambda>g. path_str
              (gs_node_path (gs_glitch_nodes_dir root) (nr_id (gn_node_ref g)))) glitch)),
           (''research_path'', opt_str (map_option (\<lambda>r. path_str
              (gs_node_path (gs_research_nodes_dir root) (nr_id (rn_node_ref r)))) research)),
           (''events_path'', PStr (path_str (gs_events_path root))),
           (''manifest_path'', PStr (path_str (gs_manifest_path root)))]))"

text \<open>\<open>store_research_node\<close>, the function of \<open>m1.py\<close>: it validates and writes below \<open>research_nodes\<close>.\<close>

definition store_research_node ::
  "research_node \<Rightarrow> path \<Rightarrow> string \<Rightarrow> files \<Rightarrow> glitch_error + path \<times> files" where
  "store_research_node research root u s =
     bindE (raise_if_invalid (validate_research_node research)) (\<lambda>_.
       let target = doc_path (root @ [''research_nodes'']) ''research_node'' (nr_id (rn_node_ref research))
       in Inr (target, write_json target (research_record research) u s))"

definition gs_load_node :: "path \<Rightarrow> string \<Rightarrow> files \<Rightarrow> io_error + pydict option" where
  \<comment> \<open>what a reader finds in the file of a node\<close>
  "gs_load_node dir i s = load_json (gs_node_path dir i) s"

section \<open>The laws of the store\<close>

lemmas gs_paths = gs_base_dir_def gs_glitch_nodes_dir_def gs_research_nodes_dir_def
  gs_events_path_def gs_manifest_path_def gs_node_path_def

lemma gs_paths_distinct [simp]:
  "gs_node_path (gs_glitch_nodes_dir root) i \<noteq> gs_node_path (gs_research_nodes_dir root) j"
  "gs_node_path (gs_glitch_nodes_dir root) i \<noteq> gs_manifest_path root"
  "gs_node_path (gs_research_nodes_dir root) i \<noteq> gs_manifest_path root"
  by (simp_all add: gs_paths doc_path_def)

lemma gs_node_path_last: "last (gs_node_path dir i) = safe_file_id ''node'' i @ ''.json''"
  by (simp add: gs_node_path_def last_doc_path)

lemma load_node_ensure [simp]:
  "gs_load_node (gs_glitch_nodes_dir root) i (gs_ensure_dirs root v s) = gs_load_node (gs_glitch_nodes_dir root) i s"
  "gs_load_node (gs_research_nodes_dir root) i (gs_ensure_dirs root v s) = gs_load_node (gs_research_nodes_dir root) i s"
  by (simp_all add: gs_load_node_def gs_ensure_dirs_def gs_write_manifest_def
        load_json_write_other [OF _ gs_node_path_last])

lemma records_are_dicts [simp]:
  "PDict (dict_of (glitch_record g)) = glitch_record g"
  "PDict (dict_of (research_record r)) = research_record r"
  "PDict (dict_of (event_record e)) = event_record e"
  by (simp_all add: glitch_record_def research_record_def event_record_def)

interpretation glitch_docs: document_store "save_glitch_node root"
    "gs_load_node (gs_glitch_nodes_dir root)" "\<lambda>g. nr_id (gn_node_ref g)" "safe_file_id ''node''"
    "\<lambda>g. dict_of (glitch_record g)" for root
  using load_node_ensure(1)
  by unfold_locales
    (simp_all add: gs_load_node_def save_glitch_node_def gs_node_path_def load_doc_same load_doc_other)

interpretation research_docs: document_store "save_research_node root"
    "gs_load_node (gs_research_nodes_dir root)" "\<lambda>r. nr_id (rn_node_ref r)" "safe_file_id ''node''"
    "\<lambda>r. dict_of (research_record r)" for root
  using load_node_ensure(2)
  by unfold_locales
    (simp_all add: gs_load_node_def save_research_node_def gs_node_path_def load_doc_same load_doc_other)

text \<open>The two lanes do not touch each other's files.\<close>

lemma save_research_keeps_glitch:
  "gs_load_node (gs_glitch_nodes_dir root) i (save_research_node root r u s)
     = gs_load_node (gs_glitch_nodes_dir root) i s"
  using load_node_ensure(1)
  by (simp add: gs_load_node_def save_research_node_def load_json_write_other [OF _ gs_node_path_last])

lemma save_glitch_keeps_research:
  "gs_load_node (gs_research_nodes_dir root) i (save_glitch_node root g u s)
     = gs_load_node (gs_research_nodes_dir root) i s"
  using load_node_ensure(2)
  by (simp add: gs_load_node_def save_glitch_node_def gs_paths_distinct(1) [THEN not_sym]
        load_json_write_other [OF _ gs_node_path_last])

lemma gs_load_events_ensure [simp]: "gs_load_events root (gs_ensure_dirs root u s) = gs_load_events root s"
  by (simp add: gs_load_events_def gs_ensure_dirs_def gs_write_manifest_def)

interpretation glitch_events: append_log "gs_append_event root u" "gs_load_events root"
    "\<lambda>e. dict_of (event_record e)" "\<lambda>e. line_safe (event_record e)" for root u
proof unfold_locales
  fix s rows e x
  have ens: "gs_load_events root s = load_rows (gs_events_path root) (gs_ensure_dirs root u s)"
    by (simp add: gs_load_events_def gs_load_events_ensure [unfolded gs_load_events_def])
  have run: "gs_load_events root (gs_append_event root u e s) = load_rows (gs_events_path root) (append_line (gs_events_path root) (PDict (dict_of (event_record e))) (gs_ensure_dirs root u s))"
    by (simp add: gs_append_event_def gs_load_events_def)
  show "gs_load_events root s = Inr rows \<Longrightarrow> line_safe (event_record e) \<Longrightarrow> gs_load_events root (gs_append_event root u e s) = Inr (rows @ [dict_of (event_record e)])"
    unfolding run ens by (rule load_rows_append_line) simp_all
  show "gs_load_events root s = Inr rows \<Longrightarrow> \<not> line_safe (event_record e) \<Longrightarrow> gs_load_events root (gs_append_event root u e s) = Inl JSONDecodeError"
    unfolding run ens by (rule load_rows_cut_line) simp_all
  show "gs_load_events root s = Inl x \<Longrightarrow> gs_load_events root (gs_append_event root u e s) = Inl x"
    unfolding run ens by (rule load_rows_stuck)
qed

lemma gs_append_events_load:
  assumes "gs_load_events root s = Inr rows" "list_all (\<lambda>e. line_safe (event_record e)) es"
  shows "gs_load_events root (gs_append_events root u es s) = Inr (rows @ map (\<lambda>e. dict_of (event_record e)) es)"
proof -
  have "load_rows (gs_events_path root) (gs_ensure_dirs root u s) = Inr rows"
    using assms(1) gs_load_events_ensure by (simp add: gs_load_events_def)
  moreover have "list_all (\<lambda>d. line_safe (PDict d)) (map (\<lambda>e. dict_of (event_record e)) es)"
    using assms(2) by (simp add: list_all_iff del: line_safe.simps)
  ultimately have "load_rows (gs_events_path root) (append_lines (gs_events_path root)
      (map PDict (map (\<lambda>e. dict_of (event_record e)) es)) (gs_ensure_dirs root u s)) = Inr (rows @ map (\<lambda>e. dict_of (event_record e)) es)"
    by (rule load_rows_append_lines)
  then show ?thesis by (simp add: gs_append_events_def gs_load_events_def comp_def)
qed

lemma gs_load_node_append_events [simp]:
  "gs_load_node (gs_glitch_nodes_dir root) i (gs_append_events root v es s) = gs_load_node (gs_glitch_nodes_dir root) i s"
  "gs_load_node (gs_research_nodes_dir root) i (gs_append_events root v es s) = gs_load_node (gs_research_nodes_dir root) i s"
  using load_node_ensure
  by (simp_all add: gs_append_events_def gs_load_node_def load_json_def)

section \<open>Properties\<close>

text \<open>
  Persisting a bundle makes the glitch node, the research node and the events readable again,
  the events after those already in the log.
\<close>

theorem persist_bundle_roundtrip:
  assumes "gs_load_events root s = Inr rows" and "persist_m1_bundle root (Some g) (Some r) evs u s = (s', paths)"
    and "list_all (\<lambda>e. line_safe (event_record e)) evs"
  shows "gs_load_node (gs_glitch_nodes_dir root) (nr_id (gn_node_ref g)) s' = Inr (Some (dict_of (glitch_record g)))
       \<and> gs_load_node (gs_research_nodes_dir root) (nr_id (rn_node_ref r)) s' = Inr (Some (dict_of (research_record r)))
       \<and> gs_load_events root s' = Inr (rows @ map (\<lambda>e. dict_of (event_record e)) evs)"
proof -
  let ?s1 = "save_glitch_node root g u s"
  let ?s2 = "save_research_node root r (skip_ids 2 u) ?s1"
  have s': "s' = gs_append_events root (u 4) evs ?s2"
    using assms(2) by (simp add: persist_m1_bundle_def Let_def)
  have ev: "gs_load_events root ?s2 = Inr rows"
    using assms(1) gs_load_events_ensure
    by (simp add: save_glitch_node_def save_research_node_def gs_load_events_def)
  show ?thesis
    using gs_append_events_load [OF ev assms(3)] save_research_keeps_glitch glitch_docs.roundtrip research_docs.roundtrip
    by (simp add: s')
qed

definition no_files :: files where
  "no_files = \<lparr>json_files = (\<lambda>_. None), jsonl_files = (\<lambda>_. None)\<rparr>"

theorem persist_bundle_roundtrip_witness:
  "\<exists>g r s'. gs_load_node (gs_glitch_nodes_dir [''d'']) (nr_id (gn_node_ref g)) s' = Inr (Some (dict_of (glitch_record g)))
     \<and> gs_load_node (gs_research_nodes_dir [''d'']) (nr_id (rn_node_ref r)) s' = Inr (Some (dict_of (research_record r)))"
proof -
  fix g r
  have "gs_load_events [''d''] no_files = Inr []" by (simp add: gs_load_events_def load_rows_def no_files_def)
  moreover obtain s' paths where "persist_m1_bundle [''d''] (Some g) (Some r) [] (\<lambda>_. ''u'') no_files = (s', paths)"
    by force
  ultimately show ?thesis using persist_bundle_roundtrip [of "[''d'']" no_files "[]" g r "[]" "\<lambda>_. ''u''" s' paths] by fastforce
qed

text \<open>
  Two node ids that differ only in characters the file name replaces share a file: the second save
  destroys the first node.
\<close>

lemma node_files_collide:
  assumes "nr_id (gn_node_ref g) = ''glitch:a''" and "nr_id (gn_node_ref g') = ''glitch_a''"
  shows "gs_load_node (gs_glitch_nodes_dir root) ''glitch:a'' (save_glitch_node root g' v (save_glitch_node root g u s))
           = Inr (Some (dict_of (glitch_record g')))"
proof -
  have "safe_file_id ''node'' (nr_id (gn_node_ref g)) = safe_file_id ''node'' (nr_id (gn_node_ref g'))"
    by (simp add: assms safe_file_id_def id_char_def is_alnum_def code_point_def strip_by_def)
  from glitch_docs.overwrite [OF this] assms(1) show ?thesis by simp
qed

end
