(* ===== verification/ArlLayer.thy ===== *)
theory ArlLayer
  imports PyFiles
begin

text \<open>
  \<open>modules/arbitration_review/layer.py\<close>: the dispute records of the arbitration review layer, the
  operations that open, move, judge and route a dispute, their validators, and the store.  An
  operation builds the updated record, validates it and raises \<open>ArlValidationError\<close> when it is
  invalid; otherwise it returns the record and the events it emits.
\<close>

section \<open>Enumerations\<close>

datatype conflict_class =
    Conf_RUNTIME_COLLISION | Conf_PRIVILEGE_CONFLICT | Conf_EVIDENCE_CONFLICT | Conf_SOURCE_GROUNDING
  | Conf_ORACLE_BOUNDARY | Conf_UNKNOWN

fun conflict_value :: "conflict_class \<Rightarrow> string" where
  "conflict_value Conf_RUNTIME_COLLISION = ''runtime_collision''"
| "conflict_value Conf_PRIVILEGE_CONFLICT = ''privilege_conflict''"
| "conflict_value Conf_EVIDENCE_CONFLICT = ''evidence_conflict''"
| "conflict_value Conf_SOURCE_GROUNDING = ''source_grounding''"
| "conflict_value Conf_ORACLE_BOUNDARY = ''oracle_boundary''"
| "conflict_value Conf_UNKNOWN = ''unknown''"

datatype dispute_state =
    Ds_NORMAL | Ds_PRE_ADMISSIBILITY_HOLD | Ds_EVIDENTIARY_FREEZE | Ds_PRIVILEGE_FREEZE
  | Ds_QUARANTINE | Ds_REVIEW_ACTIVE | Ds_DELAYED_REENTRY | Ds_RESOLVED
  | Ds_DEADLOCKED | Ds_IRREVERSIBLE_LOSS_ACKNOWLEDGED

fun dispute_value :: "dispute_state \<Rightarrow> string" where
  "dispute_value Ds_NORMAL = ''NORMAL''"
| "dispute_value Ds_PRE_ADMISSIBILITY_HOLD = ''PRE_ADMISSIBILITY_HOLD''"
| "dispute_value Ds_EVIDENTIARY_FREEZE = ''EVIDENTIARY_FREEZE''"
| "dispute_value Ds_PRIVILEGE_FREEZE = ''PRIVILEGE_FREEZE''"
| "dispute_value Ds_QUARANTINE = ''QUARANTINE''"
| "dispute_value Ds_REVIEW_ACTIVE = ''REVIEW_ACTIVE''"
| "dispute_value Ds_DELAYED_REENTRY = ''DELAYED_REENTRY''"
| "dispute_value Ds_RESOLVED = ''RESOLVED''"
| "dispute_value Ds_DEADLOCKED = ''DEADLOCKED''"
| "dispute_value Ds_IRREVERSIBLE_LOSS_ACKNOWLEDGED = ''IRREVERSIBLE_LOSS_ACKNOWLEDGED''"

datatype standing_status =
    Standing_PENDING | Standing_ACCEPTED | Standing_REJECTED

fun standing_value :: "standing_status \<Rightarrow> string" where
  "standing_value Standing_PENDING = ''pending''"
| "standing_value Standing_ACCEPTED = ''accepted''"
| "standing_value Standing_REJECTED = ''rejected''"

datatype evidence_pool_status =
    Pool_PENDING | Pool_HELD | Pool_FROZEN | Pool_ADMITTED
  | Pool_REJECTED

fun pool_value :: "evidence_pool_status \<Rightarrow> string" where
  "pool_value Pool_PENDING = ''pending''"
| "pool_value Pool_HELD = ''held''"
| "pool_value Pool_FROZEN = ''frozen''"
| "pool_value Pool_ADMITTED = ''admitted''"
| "pool_value Pool_REJECTED = ''rejected''"

datatype review_mode =
    Review_NONE | Review_MANUAL | Review_TEMPLATE | Review_ORACLE_BOUNDED

fun review_value :: "review_mode \<Rightarrow> string" where
  "review_value Review_NONE = ''none''"
| "review_value Review_MANUAL = ''manual''"
| "review_value Review_TEMPLATE = ''template''"
| "review_value Review_ORACLE_BOUNDED = ''oracle_bounded''"

datatype outcome_code =
    Outcome_PENDING | Outcome_UPHELD | Outcome_REJECTED | Outcome_REMEDIATED
  | Outcome_DEADLOCKED | Outcome_IRREVERSIBLE_LOSS

fun outcome_value :: "outcome_code \<Rightarrow> string" where
  "outcome_value Outcome_PENDING = ''pending''"
| "outcome_value Outcome_UPHELD = ''upheld''"
| "outcome_value Outcome_REJECTED = ''rejected''"
| "outcome_value Outcome_REMEDIATED = ''remediated''"
| "outcome_value Outcome_DEADLOCKED = ''deadlocked''"
| "outcome_value Outcome_IRREVERSIBLE_LOSS = ''irreversible_loss''"

datatype authority_effect =
    Auth_NONE | Auth_HOLD | Auth_FREEZE | Auth_QUARANTINE
  | Auth_RESTORE_LIMITED | Auth_RESTORE

fun authority_value :: "authority_effect \<Rightarrow> string" where
  "authority_value Auth_NONE = ''none''"
| "authority_value Auth_HOLD = ''hold''"
| "authority_value Auth_FREEZE = ''freeze''"
| "authority_value Auth_QUARANTINE = ''quarantine''"
| "authority_value Auth_RESTORE_LIMITED = ''restore_limited''"
| "authority_value Auth_RESTORE = ''restore''"

datatype reentry_status =
    Reentry_NOT_REQUESTED | Reentry_DELAYED | Reentry_APPROVED | Reentry_DENIED

fun reentry_value :: "reentry_status \<Rightarrow> string" where
  "reentry_value Reentry_NOT_REQUESTED = ''not_requested''"
| "reentry_value Reentry_DELAYED = ''delayed''"
| "reentry_value Reentry_APPROVED = ''approved''"
| "reentry_value Reentry_DENIED = ''denied''"

datatype arl_event_type =
    Arl_DISPUTE_OPENED | Arl_STANDING_DECIDED | Arl_EVIDENCE_DECIDED | Arl_STATE_CHANGED
  | Arl_REVIEW_ROUTED | Arl_ORACLE_REVIEW_DECIDED | Arl_OUTCOME_ISSUED | Arl_APPEAL_DECIDED
  | Arl_REENTRY_DECIDED

fun arl_event_value :: "arl_event_type \<Rightarrow> string" where
  "arl_event_value Arl_DISPUTE_OPENED = ''arl.dispute_opened''"
| "arl_event_value Arl_STANDING_DECIDED = ''arl.standing_decided''"
| "arl_event_value Arl_EVIDENCE_DECIDED = ''arl.evidence_decided''"
| "arl_event_value Arl_STATE_CHANGED = ''arl.state_changed''"
| "arl_event_value Arl_REVIEW_ROUTED = ''arl.review_routed''"
| "arl_event_value Arl_ORACLE_REVIEW_DECIDED = ''arl.oracle_review_decided''"
| "arl_event_value Arl_OUTCOME_ISSUED = ''arl.outcome_issued''"
| "arl_event_value Arl_APPEAL_DECIDED = ''arl.appeal_decided''"
| "arl_event_value Arl_REENTRY_DECIDED = ''arl.reentry_decided''"

section \<open>Dataclasses\<close>

record scope_ref =
  sr_scope_id :: string
  sr_scope_kind :: string
  sr_lane :: string

record arl_issue =
  ai_rule_code :: string
  ai_message :: string
  ai_severity :: string
  ai_layer :: string
  ai_details :: pydict

record arl_event =
  ae_event_type :: arl_event_type
  ae_event_id :: string
  ae_dispute_id :: string
  ae_occurred_at :: string
  ae_payload :: pydict

record dispute =
  d_dispute_id :: string
  d_created_ts :: string
  d_updated_ts :: string
  d_conflict_class :: conflict_class
  d_scope_ref :: scope_ref
  d_state_current :: dispute_state
  d_state_prev :: dispute_state
  d_state_changed_ts :: string
  d_state_reason_code :: string
  d_standing_status :: standing_status
  d_standing_class :: string
  d_standing_reason_code :: string
  d_evidence_pool_status :: evidence_pool_status
  d_admitted_evidence_ids :: "string list"
  d_rejected_evidence_ids :: "string list"
  d_review_open :: bool
  d_review_mode :: review_mode
  d_plan_id :: string
  d_template_id :: string
  d_queue_ref :: string
  d_needs_oracle :: bool
  d_oracle_request_ids :: "string list"
  d_outcome_code :: outcome_code
  d_outcome_ts :: string
  d_authority_effect :: authority_effect
  d_reentry_status :: reentry_status
  d_reentry_window_ref :: string
  d_irreversible_flag :: bool
  d_appeal_open :: bool
  d_appeal_id :: string
  d_appeal_status :: string
  d_appeal_deadline_ts :: string
  d_appeal_new_basis_required :: bool
  d_scar_recorded :: bool
  d_scar_ref :: string
  d_precedent_ref :: string
  d_metadata :: pydict

datatype arl_error = ArlValidationError "arl_issue list"

definition arl_issue_of :: "string \<Rightarrow> string \<Rightarrow> pydict \<Rightarrow> arl_issue" where
  "arl_issue_of code message details =
     \<lparr>ai_rule_code = code, ai_message = message, ai_severity = ''error'', ai_layer = ''arl'',
      ai_details = details\<rparr>"

definition arl_raise_if_invalid :: "arl_issue list \<Rightarrow> arl_error + unit" where
  "arl_raise_if_invalid issues = (if issues \<noteq> [] then Inl (ArlValidationError issues) else Inr ())"

section \<open>Validators\<close>

definition validate_dispute_record :: "dispute \<Rightarrow> arl_issue list" where
  "validate_dispute_record rec =
     (if py_strip (d_dispute_id rec) = [] then
        [arl_issue_of ''ARL_DISPUTE_ID_REQUIRED'' ''dispute_id is required.'' []] else [])
   @ (if py_strip (d_state_reason_code rec) = [] then
        [arl_issue_of ''ARL_REASON_REQUIRED'' ''state_reason_code is required.'' []] else [])
   @ (if d_state_current rec = Ds_NORMAL \<and> d_authority_effect rec \<noteq> Auth_NONE then
        [arl_issue_of ''ARL_NORMAL_AUTHORITY_EFFECT''
           ''NORMAL state cannot carry hold/freeze/quarantine authority effect.'' []] else [])
   @ (if d_state_current rec = Ds_EVIDENTIARY_FREEZE
         \<and> d_evidence_pool_status rec \<notin> {Pool_HELD, Pool_FROZEN} then
        [arl_issue_of ''ARL_EVIDENTIARY_FREEZE_POOL''
           ''EVIDENTIARY_FREEZE requires held or frozen evidence pool status.'' []] else [])
   @ (if d_irreversible_flag rec \<and> d_state_current rec \<noteq> Ds_IRREVERSIBLE_LOSS_ACKNOWLEDGED then
        [arl_issue_of ''ARL_IRREVERSIBLE_STATE_REQUIRED''
           ''irreversible_flag requires IRREVERSIBLE_LOSS_ACKNOWLEDGED state.'' []] else [])"

definition terminal_states :: "dispute_state set" where
  "terminal_states = {Ds_RESOLVED, Ds_DEADLOCKED, Ds_IRREVERSIBLE_LOSS_ACKNOWLEDGED}"

definition routing_issues :: "dispute \<Rightarrow> review_mode \<Rightarrow> string \<Rightarrow> bool \<Rightarrow> arl_issue list" where
  "routing_issues rec review_mode template_id needs_oracle =
     (if d_standing_status rec = Standing_REJECTED then
        [arl_issue_of ''ARL_ROUTE_STANDING_REJECTED''
           ''Rejected standing cannot be routed to active review.'' []] else [])
   @ (if d_state_current rec \<in> terminal_states then
        [arl_issue_of ''ARL_ROUTE_TERMINAL_STATE''
           ''Terminal or memory-bearing ARL states cannot be routed to active review.''
           [(''state_current'', PStr (dispute_value (d_state_current rec)))]] else [])
   @ (if review_mode = Review_NONE then
        [arl_issue_of ''ARL_ROUTE_MODE_REQUIRED''
           ''Review routing requires a concrete review mode.'' []] else [])
   @ (if review_mode = Review_TEMPLATE \<and> py_strip template_id = [] then
        [arl_issue_of ''ARL_ROUTE_TEMPLATE_REQUIRED''
           ''Template review routing requires template_id.'' []] else [])
   @ (if review_mode = Review_ORACLE_BOUNDED \<and> \<not> needs_oracle then
        [arl_issue_of ''ARL_ROUTE_ORACLE_FLAG_REQUIRED''
           ''Oracle-bounded review routing must mark needs_oracle.'' []] else [])"

definition transition_issues :: "dispute \<Rightarrow> dispute_state \<Rightarrow> arl_issue list" where
  "transition_issues rec target =
     (if d_state_current rec \<in> terminal_states \<and> target = Ds_NORMAL then
        [arl_issue_of ''ARL_REENTRY_DECISION_REQUIRED''
           ''Terminal or memory-bearing ARL states cannot silently re-enter NORMAL.''
           [(''state_current'', PStr (dispute_value (d_state_current rec))),
            (''target'', PStr (dispute_value target))]]
      else [])"

definition authority_for_state :: "dispute_state \<Rightarrow> authority_effect \<Rightarrow> authority_effect" where
  "authority_for_state state current =
     (if state = Ds_NORMAL then Auth_NONE
      else if state \<in> {Ds_EVIDENTIARY_FREEZE, Ds_PRIVILEGE_FREEZE} then Auth_FREEZE
      else if state = Ds_QUARANTINE then Auth_QUARANTINE
      else if state = Ds_RESOLVED then Auth_RESTORE_LIMITED
      else if current \<noteq> Auth_NONE then current else Auth_HOLD)"

section \<open>Records written to JSON\<close>

definition scope_record :: "scope_ref \<Rightarrow> pyval" where
  "scope_record s = PDict [(''scope_id'', PStr (sr_scope_id s)), (''scope_kind'', PStr (sr_scope_kind s)),
     (''lane'', PStr (sr_lane s))]"

definition dispute_record :: "dispute \<Rightarrow> pyval" where
  "dispute_record r = PDict [
     (''dispute_id'', PStr (d_dispute_id r)), (''created_ts'', PStr (d_created_ts r)),
     (''updated_ts'', PStr (d_updated_ts r)),
     (''conflict_class'', PStr (conflict_value (d_conflict_class r))),
     (''scope_ref'', scope_record (d_scope_ref r)),
     (''state_current'', PStr (dispute_value (d_state_current r))),
     (''state_prev'', PStr (dispute_value (d_state_prev r))),
     (''state_changed_ts'', PStr (d_state_changed_ts r)),
     (''state_reason_code'', PStr (d_state_reason_code r)),
     (''standing_status'', PStr (standing_value (d_standing_status r))),
     (''standing_class'', PStr (d_standing_class r)),
     (''standing_reason_code'', PStr (d_standing_reason_code r)),
     (''evidence_pool_status'', PStr (pool_value (d_evidence_pool_status r))),
     (''admitted_evidence_ids'', PList (map PStr (d_admitted_evidence_ids r))),
     (''rejected_evidence_ids'', PList (map PStr (d_rejected_evidence_ids r))),
     (''review_open'', PBool (d_review_open r)),
     (''review_mode'', PStr (review_value (d_review_mode r))),
     (''plan_id'', PStr (d_plan_id r)), (''template_id'', PStr (d_template_id r)),
     (''queue_ref'', PStr (d_queue_ref r)), (''needs_oracle'', PBool (d_needs_oracle r)),
     (''oracle_request_ids'', PList (map PStr (d_oracle_request_ids r))),
     (''outcome_code'', PStr (outcome_value (d_outcome_code r))),
     (''outcome_ts'', PStr (d_outcome_ts r)),
     (''authority_effect'', PStr (authority_value (d_authority_effect r))),
     (''reentry_status'', PStr (reentry_value (d_reentry_status r))),
     (''reentry_window_ref'', PStr (d_reentry_window_ref r)),
     (''irreversible_flag'', PBool (d_irreversible_flag r)),
     (''appeal_open'', PBool (d_appeal_open r)), (''appeal_id'', PStr (d_appeal_id r)),
     (''appeal_status'', PStr (d_appeal_status r)),
     (''appeal_deadline_ts'', PStr (d_appeal_deadline_ts r)),
     (''appeal_new_basis_required'', PBool (d_appeal_new_basis_required r)),
     (''scar_recorded'', PBool (d_scar_recorded r)), (''scar_ref'', PStr (d_scar_ref r)),
     (''precedent_ref'', PStr (d_precedent_ref r)), (''metadata'', PDict (d_metadata r))]"

definition arl_event_record :: "arl_event \<Rightarrow> pyval" where
  "arl_event_record e = PDict [(''event_type'', PStr (arl_event_value (ae_event_type e))),
     (''event_id'', PStr (ae_event_id e)), (''dispute_id'', PStr (ae_dispute_id e)),
     (''occurred_at'', PStr (ae_occurred_at e)), (''payload'', PDict (ae_payload e))]"

definition arl_event_id :: "string \<Rightarrow> string \<Rightarrow> string" where
  "arl_event_id prefix u = prefix @ '':'' @ u"

definition nonempty_ids :: "string list \<Rightarrow> string list" where
  \<comment> \<open>\<open>tuple(str(item) for item in ids if str(item))\<close>\<close>
  "nonempty_ids xs = filter (\<lambda>x. x \<noteq> []) xs"

section \<open>Operations\<close>

definition state_changed_event ::
  "string \<Rightarrow> string \<Rightarrow> dispute_state \<Rightarrow> dispute_state \<Rightarrow> string \<Rightarrow> string \<Rightarrow> arl_event" where
  "state_changed_event did ts prev cur reason_code u =
     \<lparr>ae_event_type = Arl_STATE_CHANGED, ae_event_id = arl_event_id ''state-changed'' u,
      ae_dispute_id = did, ae_occurred_at = ts,
      ae_payload = [(''state_prev'', PStr (dispute_value prev)),
                    (''state_current'', PStr (dispute_value cur)),
                    (''reason_code'', PStr reason_code)]\<rparr>"

definition open_dispute ::
  "conflict_class \<Rightarrow> scope_ref \<Rightarrow> string \<Rightarrow> string option \<Rightarrow> string option \<Rightarrow> pydict \<Rightarrow> string \<Rightarrow> ids \<Rightarrow>
   arl_error + dispute \<times> arl_event list" where
  "open_dispute conflict scope reason_code dispute_id occurred_at metadata tm u =
     (let ts = str_or occurred_at tm;
          did = str_or dispute_id (''dispute:'' @ u 0);
          rec = \<lparr>d_dispute_id = did, d_created_ts = ts, d_updated_ts = ts,
                 d_conflict_class = conflict, d_scope_ref = scope,
                 d_state_current = Ds_PRE_ADMISSIBILITY_HOLD, d_state_prev = Ds_NORMAL,
                 d_state_changed_ts = ts, d_state_reason_code = reason_code,
                 d_standing_status = Standing_PENDING, d_standing_class = [],
                 d_standing_reason_code = [], d_evidence_pool_status = Pool_HELD,
                 d_admitted_evidence_ids = [], d_rejected_evidence_ids = [],
                 d_review_open = False, d_review_mode = Review_NONE, d_plan_id = [],
                 d_template_id = [], d_queue_ref = [], d_needs_oracle = False,
                 d_oracle_request_ids = [], d_outcome_code = Outcome_PENDING, d_outcome_ts = [],
                 d_authority_effect = Auth_HOLD, d_reentry_status = Reentry_NOT_REQUESTED,
                 d_reentry_window_ref = [], d_irreversible_flag = False, d_appeal_open = False,
                 d_appeal_id = [], d_appeal_status = [], d_appeal_deadline_ts = [],
                 d_appeal_new_basis_required = True, d_scar_recorded = False, d_scar_ref = [],
                 d_precedent_ref = [], d_metadata = metadata\<rparr>
      in bindE (arl_raise_if_invalid (validate_dispute_record rec)) (\<lambda>_.
         Inr (rec,
           [\<lparr>ae_event_type = Arl_DISPUTE_OPENED, ae_event_id = arl_event_id ''dispute-opened'' (u 1),
             ae_dispute_id = did, ae_occurred_at = ts,
             ae_payload = [(''conflict_class'', PStr (conflict_value conflict)),
                           (''scope_ref'', scope_record scope),
                           (''state_current'', PStr (dispute_value (d_state_current rec))),
                           (''reason_code'', PStr reason_code)]\<rparr>,
            state_changed_event did ts Ds_NORMAL Ds_PRE_ADMISSIBILITY_HOLD reason_code (u 2)])))"

definition transition_state ::
  "dispute \<Rightarrow> dispute_state \<Rightarrow> string \<Rightarrow> string option \<Rightarrow> authority_effect option \<Rightarrow> string \<Rightarrow> ids \<Rightarrow>
   arl_error + dispute \<times> arl_event" where
  "transition_state rec state reason_code occurred_at authority_effect tm u =
     bindE (arl_raise_if_invalid (transition_issues rec state)) (\<lambda>_.
     let ts = str_or occurred_at tm;
         updated = rec\<lparr>d_updated_ts := ts, d_state_prev := d_state_current rec,
                       d_state_current := state, d_state_changed_ts := ts,
                       d_state_reason_code := reason_code,
                       d_authority_effect := (case authority_effect of
                           None \<Rightarrow> authority_for_state state (d_authority_effect rec)
                         | Some a \<Rightarrow> a)\<rparr>
     in bindE (arl_raise_if_invalid (validate_dispute_record updated)) (\<lambda>_.
        Inr (updated, state_changed_event (d_dispute_id rec) ts (d_state_current rec) state reason_code (u 0))))"

definition decide_standing ::
  "dispute \<Rightarrow> standing_status \<Rightarrow> string \<Rightarrow> string \<Rightarrow> string option \<Rightarrow> string \<Rightarrow> ids \<Rightarrow>
   arl_error + dispute \<times> arl_event" where
  "decide_standing rec status cls reason_code occurred_at tm u =
     (let ts = str_or occurred_at tm;
          updated = rec\<lparr>d_updated_ts := ts, d_standing_status := status, d_standing_class := cls,
                        d_standing_reason_code := reason_code\<rparr>
      in bindE (arl_raise_if_invalid (validate_dispute_record updated)) (\<lambda>_.
         Inr (updated,
           \<lparr>ae_event_type = Arl_STANDING_DECIDED, ae_event_id = arl_event_id ''standing-decided'' (u 0),
            ae_dispute_id = d_dispute_id rec, ae_occurred_at = ts,
            ae_payload = [(''standing_status'', PStr (standing_value status)),
                          (''standing_class'', PStr cls), (''reason_code'', PStr reason_code)]\<rparr>)))"

definition decide_evidence ::
  "dispute \<Rightarrow> evidence_pool_status \<Rightarrow> string list \<Rightarrow> string list \<Rightarrow> string \<Rightarrow> string option \<Rightarrow> string \<Rightarrow> ids \<Rightarrow>
   arl_error + dispute \<times> arl_event" where
  "decide_evidence rec status admitted rejected reason_code occurred_at tm u =
     (let ts = str_or occurred_at tm;
          updated = rec\<lparr>d_updated_ts := ts, d_evidence_pool_status := status,
                        d_admitted_evidence_ids := nonempty_ids admitted,
                        d_rejected_evidence_ids := nonempty_ids rejected\<rparr>
      in bindE (arl_raise_if_invalid (validate_dispute_record updated)) (\<lambda>_.
         Inr (updated,
           \<lparr>ae_event_type = Arl_EVIDENCE_DECIDED, ae_event_id = arl_event_id ''evidence-decided'' (u 0),
            ae_dispute_id = d_dispute_id rec, ae_occurred_at = ts,
            ae_payload = [(''evidence_pool_status'', PStr (pool_value status)),
                          (''admitted_evidence_ids'', PList (map PStr (d_admitted_evidence_ids updated))),
                          (''rejected_evidence_ids'', PList (map PStr (d_rejected_evidence_ids updated))),
                          (''reason_code'', PStr reason_code)]\<rparr>)))"

definition route_review ::
  "dispute \<Rightarrow> review_mode \<Rightarrow> string \<Rightarrow> string \<Rightarrow> string \<Rightarrow> string \<Rightarrow> bool \<Rightarrow> string list \<Rightarrow> string option \<Rightarrow>
   string \<Rightarrow> ids \<Rightarrow> arl_error + dispute \<times> arl_event list" where
  "route_review rec mode reason_code plan_id template_id queue_ref needs_oracle oracle_ids occurred_at tm u =
     bindE (arl_raise_if_invalid (routing_issues rec mode template_id needs_oracle)) (\<lambda>_.
     let ts = str_or occurred_at tm;
         next_state = Ds_REVIEW_ACTIVE;
         updated = rec\<lparr>d_updated_ts := ts, d_state_prev := d_state_current rec,
                       d_state_current := next_state, d_state_changed_ts := ts,
                       d_state_reason_code := reason_code, d_review_open := True,
                       d_review_mode := mode, d_plan_id := plan_id, d_template_id := template_id,
                       d_queue_ref := queue_ref, d_needs_oracle := needs_oracle,
                       d_oracle_request_ids := nonempty_ids oracle_ids,
                       d_authority_effect := authority_for_state next_state (d_authority_effect rec)\<rparr>
     in bindE (arl_raise_if_invalid (validate_dispute_record updated)) (\<lambda>_.
        Inr (updated,
          [\<lparr>ae_event_type = Arl_REVIEW_ROUTED, ae_event_id = arl_event_id ''review-routed'' (u 0),
            ae_dispute_id = d_dispute_id rec, ae_occurred_at = ts,
            ae_payload = [(''review_mode'', PStr (review_value mode)), (''plan_id'', PStr (d_plan_id updated)),
                          (''template_id'', PStr (d_template_id updated)),
                          (''queue_ref'', PStr (d_queue_ref updated)),
                          (''needs_oracle'', PBool (d_needs_oracle updated)),
                          (''oracle_request_ids'', PList (map PStr (d_oracle_request_ids updated))),
                          (''reason_code'', PStr reason_code)]\<rparr>,
           state_changed_event (d_dispute_id rec) ts (d_state_current rec) next_state reason_code (u 1)])))"

section \<open>The operations as a machine\<close>

datatype arl_op =
    Transition dispute_state string "string option" "authority_effect option" string ids
  | Decide_Standing standing_status string string "string option" string ids
  | Decide_Evidence evidence_pool_status "string list" "string list" string "string option" string ids
  | Route_Review review_mode string string string string bool "string list" "string option" string ids

fun arl_apply :: "arl_op \<Rightarrow> dispute \<Rightarrow> arl_error + dispute \<times> arl_event list" where
  "arl_apply (Transition st rc occ ae tm u) r =
     map_sum id (\<lambda>(r', e). (r', [e])) (transition_state r st rc occ ae tm u)"
| "arl_apply (Decide_Standing st cls rc occ tm u) r =
     map_sum id (\<lambda>(r', e). (r', [e])) (decide_standing r st cls rc occ tm u)"
| "arl_apply (Decide_Evidence st adm rej rc occ tm u) r =
     map_sum id (\<lambda>(r', e). (r', [e])) (decide_evidence r st adm rej rc occ tm u)"
| "arl_apply (Route_Review mode rc pid tid qref needs oids occ tm u) r =
     route_review r mode rc pid tid qref needs oids occ tm u"

text \<open>The record alone, and the record together with the events emitted so far.\<close>

definition arl_step :: "arl_op \<Rightarrow> dispute \<Rightarrow> arl_error + dispute" where
  "arl_step a r = map_sum id fst (arl_apply a r)"

definition arl_log_step :: "arl_op \<Rightarrow> dispute \<times> arl_event list \<Rightarrow> arl_error + dispute \<times> arl_event list" where
  "arl_log_step a p = bindE (arl_apply a (fst p)) (\<lambda>(r', es). Inr (r', snd p @ es))"

section \<open>What the validators accept\<close>

lemma arl_raise_Inr [simp]: "arl_raise_if_invalid is = Inr x \<longleftrightarrow> is = []"
  by (simp add: arl_raise_if_invalid_def)

lemma arl_raise_Nil [simp]: "arl_raise_if_invalid [] = Inr ()"
  by (simp add: arl_raise_if_invalid_def)

lemma validate_dispute_ok:
  "validate_dispute_record r = [] \<longleftrightarrow>
     py_strip (d_dispute_id r) \<noteq> [] \<and> py_strip (d_state_reason_code r) \<noteq> []
   \<and> (d_state_current r = Ds_NORMAL \<longrightarrow> d_authority_effect r = Auth_NONE)
   \<and> (d_state_current r = Ds_EVIDENTIARY_FREEZE \<longrightarrow> d_evidence_pool_status r \<in> {Pool_HELD, Pool_FROZEN})
   \<and> (d_irreversible_flag r \<longrightarrow> d_state_current r = Ds_IRREVERSIBLE_LOSS_ACKNOWLEDGED)"
  by (auto simp: validate_dispute_record_def)

lemma transition_issues_ok:
  "transition_issues r t = [] \<longleftrightarrow> \<not> (d_state_current r \<in> terminal_states \<and> t = Ds_NORMAL)"
  by (auto simp: transition_issues_def)

lemma routing_issues_ok:
  "routing_issues r mode tid needs = [] \<longleftrightarrow>
     d_standing_status r \<noteq> Standing_REJECTED \<and> d_state_current r \<notin> terminal_states
   \<and> mode \<noteq> Review_NONE \<and> (mode = Review_TEMPLATE \<longrightarrow> py_strip tid \<noteq> [])
   \<and> (mode = Review_ORACLE_BOUNDED \<longrightarrow> needs)"
  by (auto simp: routing_issues_def)

lemma authority_for_state_none:
  "authority_for_state s c = Auth_NONE \<longleftrightarrow> s = Ds_NORMAL"
  "Auth_NONE = authority_for_state s c \<longleftrightarrow> s = Ds_NORMAL"
  by (cases s; auto simp: authority_for_state_def)+

section \<open>What each operation does\<close>

lemma open_dispute_Inr:
  "open_dispute cc sc rc did occ md tm u = Inr (r, evs) \<Longrightarrow>
     validate_dispute_record r = [] \<and> d_state_current r = Ds_PRE_ADMISSIBILITY_HOLD
   \<and> d_state_prev r = Ds_NORMAL \<and> d_authority_effect r = Auth_HOLD \<and> \<not> d_irreversible_flag r
   \<and> d_standing_status r = Standing_PENDING \<and> \<not> d_review_open r
   \<and> d_dispute_id r = str_or did (''dispute:'' @ u 0) \<and> d_state_reason_code r = rc
   \<and> map ae_event_type evs = [Arl_DISPUTE_OPENED, Arl_STATE_CHANGED]
   \<and> evs ! 1 = state_changed_event (d_dispute_id r) (str_or occ tm) Ds_NORMAL Ds_PRE_ADMISSIBILITY_HOLD rc (u 2)"
  by (auto simp: open_dispute_def Let_def bindE_Inr_iff state_changed_event_def)

lemma open_dispute_ok_iff:
  "(\<exists>r evs. open_dispute cc sc rc did occ md tm u = Inr (r, evs)) \<longleftrightarrow>
     py_strip (str_or did (''dispute:'' @ u 0)) \<noteq> [] \<and> py_strip rc \<noteq> []"
  by (auto simp: open_dispute_def Let_def bindE_Inr_iff validate_dispute_ok)

lemma transition_state_Inr:
  "transition_state r st rc occ ae tm u = Inr (r', e) \<Longrightarrow>
     validate_dispute_record r' = [] \<and> d_state_current r' = st \<and> d_state_prev r' = d_state_current r
   \<and> d_authority_effect r' = (case ae of None \<Rightarrow> authority_for_state st (d_authority_effect r) | Some a \<Rightarrow> a)
   \<and> \<not> (d_state_current r \<in> terminal_states \<and> st = Ds_NORMAL)
   \<and> d_irreversible_flag r' = d_irreversible_flag r \<and> d_dispute_id r' = d_dispute_id r
   \<and> e = state_changed_event (d_dispute_id r) (str_or occ tm) (d_state_current r) st rc (u 0)"
  by (auto simp: transition_state_def Let_def bindE_Inr_iff transition_issues_ok)

lemma decide_standing_Inr:
  "decide_standing r st cls rc occ tm u = Inr (r', e) \<Longrightarrow>
     validate_dispute_record r' = [] \<and> d_state_current r' = d_state_current r
   \<and> d_authority_effect r' = d_authority_effect r \<and> d_irreversible_flag r' = d_irreversible_flag r
   \<and> d_standing_status r' = st \<and> d_dispute_id r' = d_dispute_id r
   \<and> ae_event_type e = Arl_STANDING_DECIDED"
  by (auto simp: decide_standing_def Let_def bindE_Inr_iff)

lemma decide_evidence_Inr:
  "decide_evidence r st adm rej rc occ tm u = Inr (r', e) \<Longrightarrow>
     validate_dispute_record r' = [] \<and> d_state_current r' = d_state_current r
   \<and> d_authority_effect r' = d_authority_effect r \<and> d_irreversible_flag r' = d_irreversible_flag r
   \<and> d_evidence_pool_status r' = st \<and> d_dispute_id r' = d_dispute_id r
   \<and> ae_event_type e = Arl_EVIDENCE_DECIDED"
  by (auto simp: decide_evidence_def Let_def bindE_Inr_iff)

lemma route_review_Inr:
  "route_review r mode rc pid tid qref needs oids occ tm u = Inr (r', evs) \<Longrightarrow>
     validate_dispute_record r' = [] \<and> routing_issues r mode tid needs = []
   \<and> d_state_current r' = Ds_REVIEW_ACTIVE \<and> d_review_open r' \<and> d_review_mode r' = mode
   \<and> d_authority_effect r' = authority_for_state Ds_REVIEW_ACTIVE (d_authority_effect r)
   \<and> d_irreversible_flag r' = d_irreversible_flag r \<and> d_dispute_id r' = d_dispute_id r
   \<and> (\<exists>e. evs = [e, state_changed_event (d_dispute_id r) (str_or occ tm) (d_state_current r)
                     Ds_REVIEW_ACTIVE rc (u 1)] \<and> ae_event_type e = Arl_REVIEW_ROUTED)"
  by (auto simp: route_review_def Let_def bindE_Inr_iff)

lemma route_review_ok_iff:
  assumes "validate_dispute_record r = []"
  shows "(\<exists>r' evs. route_review r mode rc pid tid qref needs oids occ tm u = Inr (r', evs)) \<longleftrightarrow>
     routing_issues r mode tid needs = [] \<and> py_strip rc \<noteq> [] \<and> \<not> d_irreversible_flag r"
  using assms
  by (auto simp: route_review_def Let_def bindE_Inr_iff validate_dispute_ok routing_issues_ok
        terminal_states_def)

lemmas arl_op_results = transition_state_Inr decide_standing_Inr decide_evidence_Inr route_review_Inr

section \<open>Invariants of a dispute\<close>

lemma arl_step_Inr: "arl_step a r = Inr r' \<longleftrightarrow> (\<exists>es. arl_apply a r = Inr (r', es))"
  by (auto simp: arl_step_def map_sum_Inr_iff)

lemma arl_apply_valid: "arl_apply a r = Inr (r', es) \<Longrightarrow> validate_dispute_record r' = []"
  by (cases a) (auto simp: map_sum_Inr_iff dest: arl_op_results)

lemma arl_apply_frame:
  "arl_apply a r = Inr (r', es) \<Longrightarrow>
     d_irreversible_flag r' = d_irreversible_flag r \<and> d_dispute_id r' = d_dispute_id r"
  by (cases a) (auto simp: map_sum_Inr_iff dest: arl_op_results)

interpretation arl_machine: validating_machine arl_step "\<lambda>r. validate_dispute_record r = []"
  by unfold_locales (auto simp: arl_step_Inr dest: arl_apply_valid)

interpretation arl_frame: invariant_machine arl_step
    "\<lambda>r. d_dispute_id r = i \<and> d_irreversible_flag r = b" for i b
  by unfold_locales (auto simp: arl_step_Inr dest: arl_apply_frame)

text \<open>
  A hold is lifted by returning to \<open>NORMAL\<close> only, as long as no caller overrides the authority
  effect of a transition.
\<close>

fun no_override :: "arl_op \<Rightarrow> bool" where
  "no_override (Transition st rc occ ae tm u) = (ae = None)"
| "no_override _ = True"

definition hold_inv :: "dispute \<Rightarrow> bool" where
  "hold_inv r = (d_authority_effect r = Auth_NONE \<longleftrightarrow> d_state_current r = Ds_NORMAL)"

lemma arl_apply_hold:
  "no_override a \<Longrightarrow> hold_inv r \<Longrightarrow> arl_apply a r = Inr (r', es) \<Longrightarrow> hold_inv r'"
  by (cases a)
    (auto simp: map_sum_Inr_iff hold_inv_def authority_for_state_none dest!: arl_op_results)

interpretation arl_hold: guarded_machine no_override arl_step hold_inv
  by unfold_locales (auto simp: arl_step_Inr dest: arl_apply_hold)

section \<open>The event log\<close>

text \<open>
  Replaying a log: the \<open>STATE_CHANGED\<close> events must form a chain, each from the state where the one
  before it ended; the result is the value of the last state.
\<close>

fun replay_states :: "string \<Rightarrow> arl_event list \<Rightarrow> string option" where
  "replay_states cur [] = Some cur"
| "replay_states cur (e # es) =
     (if ae_event_type e \<noteq> Arl_STATE_CHANGED then replay_states cur es
      else if dict_get (ae_payload e) ''state_prev'' \<noteq> PStr cur then None
      else case dict_get (ae_payload e) ''state_current'' of
             PStr c \<Rightarrow> replay_states c es
           | _ \<Rightarrow> None)"

lemma replay_append:
  "replay_states cur (es @ fs) = Option.bind (replay_states cur es) (\<lambda>c. replay_states c fs)"
  by (induction cur es rule: replay_states.induct) (auto split: pyval.splits)

lemma state_changed_event_simps [simp]:
  "ae_event_type (state_changed_event did ts prev cur rc u) = Arl_STATE_CHANGED"
  "dict_get (ae_payload (state_changed_event did ts prev cur rc u)) ''state_prev'' = PStr (dispute_value prev)"
  "dict_get (ae_payload (state_changed_event did ts prev cur rc u)) ''state_current'' = PStr (dispute_value cur)"
  by (simp_all add: state_changed_event_def dict_get_def)

lemma arl_apply_replay:
  "arl_apply a r = Inr (r', es) \<Longrightarrow>
   replay_states (dispute_value (d_state_current r)) es = Some (dispute_value (d_state_current r'))"
  by (cases a) (auto simp: map_sum_Inr_iff dest!: arl_op_results)

definition log_inv :: "dispute \<times> arl_event list \<Rightarrow> bool" where
  "log_inv p = (replay_states (dispute_value Ds_NORMAL) (snd p) = Some (dispute_value (d_state_current (fst p))))"

interpretation arl_log: invariant_machine arl_log_step log_inv
proof unfold_locales
  fix s a t
  assume inv: "log_inv s" and step: "arl_log_step a s = Inr t"
  obtain r log where s: "s = (r, log)" by force
  from step obtain r' es where a: "arl_apply a r = Inr (r', es)" and t: "t = (r', log @ es)"
    by (auto simp: arl_log_step_def s bindE_Inr_iff)
  from arl_apply_replay [OF a] inv show "log_inv t"
    by (simp add: log_inv_def s t replay_append)
qed

lemma open_dispute_log_inv:
  "open_dispute cc sc rc did occ md tm u = Inr (r, evs) \<Longrightarrow> log_inv (r, evs)"
  by (auto simp: open_dispute_def Let_def bindE_Inr_iff log_inv_def simp del: dispute_value.simps)

section \<open>The store\<close>

definition arl_base_dir :: "path \<Rightarrow> path" where
  "arl_base_dir root = root @ [''arl'']"

definition arl_disputes_dir :: "path \<Rightarrow> path" where
  "arl_disputes_dir root = arl_base_dir root @ [''disputes'']"

definition arl_events_path :: "path \<Rightarrow> path" where
  "arl_events_path root = arl_base_dir root @ [''events.jsonl'']"

definition arl_manifest_path :: "path \<Rightarrow> path" where
  "arl_manifest_path root = arl_base_dir root @ [''manifest.json'']"

definition arl_manifest :: "path \<Rightarrow> pydict" where
  "arl_manifest root =
     [(''schema'', PStr ''ester.arl.store.v1''), (''purpose'', PStr ''stop_persist_sidecar''),
      (''disputes'', PStr (path_str (arl_disputes_dir root))),
      (''events'', PStr (path_str (arl_events_path root))),
      (''runtime_control_wired'', PBool False)]"

definition arl_ensure_dirs :: "path \<Rightarrow> string \<Rightarrow> files \<Rightarrow> files" where
  "arl_ensure_dirs root u s = write_json (arl_manifest_path root) (PDict (arl_manifest root)) u s"

definition save_dispute :: "path \<Rightarrow> dispute \<Rightarrow> ids \<Rightarrow> files \<Rightarrow> arl_error + path \<times> files" where
  "save_dispute root r u s =
     bindE (arl_raise_if_invalid (validate_dispute_record r)) (\<lambda>_.
       let target = doc_path (arl_disputes_dir root) ''dispute'' (d_dispute_id r)
       in Inr (target, write_json target (dispute_record r) (u 1) (arl_ensure_dirs root (u 0) s)))"

definition load_dispute :: "path \<Rightarrow> string \<Rightarrow> files \<Rightarrow> io_error + pydict option" where
  "load_dispute root i s = load_json (doc_path (arl_disputes_dir root) ''dispute'' i) s"

definition arl_append_event :: "path \<Rightarrow> string \<Rightarrow> arl_event \<Rightarrow> files \<Rightarrow> files" where
  "arl_append_event root u e s =
     append_line (arl_events_path root) (arl_event_record e) (arl_ensure_dirs root u s)"

definition arl_append_events :: "path \<Rightarrow> string \<Rightarrow> arl_event list \<Rightarrow> files \<Rightarrow> files" where
  "arl_append_events root u es s =
     append_lines (arl_events_path root) (map arl_event_record es) (arl_ensure_dirs root u s)"

definition arl_load_events :: "path \<Rightarrow> files \<Rightarrow> io_error + pydict list" where
  "arl_load_events root s = load_rows (arl_events_path root) s"

lemma load_dispute_ensure [simp]: "load_dispute root i (arl_ensure_dirs root u s) = load_dispute root i s"
  unfolding load_dispute_def arl_ensure_dirs_def
  by (rule load_doc_other_file)
    (simp add: doc_path_def arl_disputes_dir_def arl_manifest_path_def)

lemma arl_records_are_dicts [simp]:
  "PDict (dict_of (dispute_record r)) = dispute_record r"
  "PDict (dict_of (arl_event_record e)) = arl_event_record e"
  by (simp_all add: dispute_record_def arl_event_record_def)

text \<open>The state after a call, whether it raised or not: a refused record leaves the files alone.\<close>

definition save_dispute_state :: "path \<Rightarrow> dispute \<Rightarrow> ids \<Rightarrow> files \<Rightarrow> files" where
  "save_dispute_state root r u s = (case save_dispute root r u s of Inl _ \<Rightarrow> s | Inr (p, t) \<Rightarrow> t)"

lemma save_dispute_ok_iff:
  "(\<exists>p t. save_dispute root r u s = Inr (p, t)) \<longleftrightarrow> validate_dispute_record r = []"
  by (auto simp: save_dispute_def bindE_Inr_iff Let_def)

lemma load_save_dispute:
  "validate_dispute_record r = [] \<Longrightarrow> safe_file_id ''dispute'' i = safe_file_id ''dispute'' (d_dispute_id r) \<Longrightarrow>
   load_dispute root i (save_dispute_state root r u s) = Inr (Some (dict_of (dispute_record r)))"
  by (simp add: save_dispute_state_def save_dispute_def load_dispute_def Let_def load_doc_same)

lemma load_save_dispute_other:
  "validate_dispute_record r \<noteq> [] \<or> safe_file_id ''dispute'' i \<noteq> safe_file_id ''dispute'' (d_dispute_id r) \<Longrightarrow>
   load_dispute root i (save_dispute_state root r u s) = load_dispute root i s"
  using load_dispute_ensure [of root i]
  by (auto simp: save_dispute_state_def save_dispute_def load_dispute_def Let_def load_doc_other
        arl_raise_if_invalid_def)

text \<open>The contract holds for the records the store accepts.\<close>

typedef valid_dispute = "{r. validate_dispute_record r = []}"
proof -
  have "\<exists>r evs. open_dispute Conf_UNKNOWN \<lparr>sr_scope_id = [], sr_scope_kind = [], sr_lane = []\<rparr>
     ''r'' (Some ''d'') None [] [] (\<lambda>_. []) = Inr (r, evs)"
    by (simp add: open_dispute_ok_iff py_strip_def strip_by_def is_space_def code_point_def)
  then show ?thesis by (auto dest: open_dispute_Inr)
qed

interpretation dispute_docs: document_store "\<lambda>d. save_dispute_state root (Rep_valid_dispute d)"
    "load_dispute root" "\<lambda>d. d_dispute_id (Rep_valid_dispute d)" "safe_file_id ''dispute''"
    "\<lambda>d. dict_of (dispute_record (Rep_valid_dispute d))" for root
  using Rep_valid_dispute
  by unfold_locales (auto simp: load_save_dispute load_save_dispute_other)

lemma arl_load_events_ensure [simp]: "arl_load_events root (arl_ensure_dirs root u s) = arl_load_events root s"
  by (simp add: arl_load_events_def arl_ensure_dirs_def)

interpretation arl_events: append_log "arl_append_event root u" "arl_load_events root"
    "\<lambda>e. dict_of (arl_event_record e)" "\<lambda>e. line_safe (arl_event_record e)" for root u
proof unfold_locales
  fix s rows e x
  have ens: "arl_load_events root s = load_rows (arl_events_path root) (arl_ensure_dirs root u s)"
    by (simp add: arl_load_events_def arl_load_events_ensure [unfolded arl_load_events_def])
  have run: "arl_load_events root (arl_append_event root u e s) = load_rows (arl_events_path root) (append_line (arl_events_path root) (PDict (dict_of (arl_event_record e))) (arl_ensure_dirs root u s))"
    by (simp add: arl_append_event_def arl_load_events_def)
  show "arl_load_events root s = Inr rows \<Longrightarrow> line_safe (arl_event_record e) \<Longrightarrow> arl_load_events root (arl_append_event root u e s) = Inr (rows @ [dict_of (arl_event_record e)])"
    unfolding run ens by (rule load_rows_append_line) simp_all
  show "arl_load_events root s = Inr rows \<Longrightarrow> \<not> line_safe (arl_event_record e) \<Longrightarrow> arl_load_events root (arl_append_event root u e s) = Inl JSONDecodeError"
    unfolding run ens by (rule load_rows_cut_line) simp_all
  show "arl_load_events root s = Inl x \<Longrightarrow> arl_load_events root (arl_append_event root u e s) = Inl x"
    unfolding run ens by (rule load_rows_stuck)
qed

section \<open>Properties\<close>

lemma log_run_record:
  "run_ops arl_log_step as (r, log) = Inr (r', log') \<Longrightarrow> run_ops arl_step as r = Inr r'"
proof (induction as arbitrary: r log)
  case Nil
  then show ?case by simp
next
  case (Cons a as)
  then show ?case by (cases "arl_apply a r") (auto simp: arl_log_step_def arl_step_def bindE_Inr_iff)
qed

text \<open>
  C3: after opening a dispute and any run of operations, the record passes the validator, keeps its
  id, never acquires the irreversible flag, and replaying the emitted events from the normal state
  ends in the state of the record.
\<close>

theorem arl_run_consistent:
  assumes "open_dispute cc sc rc did occ md tm u = Inr (r0, evs)"
    and "run_ops arl_log_step as (r0, evs) = Inr (r, log)"
  shows "validate_dispute_record r = [] \<and> d_dispute_id r = d_dispute_id r0 \<and> \<not> d_irreversible_flag r
       \<and> replay_states ''NORMAL'' log = Some (dispute_value (d_state_current r))"
proof -
  note O = open_dispute_Inr [OF assms(1)]
  note run = log_run_record [OF assms(2)]
  have "validate_dispute_record r = []" using arl_machine.run_inv [OF _ run] O by blast
  moreover have "d_dispute_id r = d_dispute_id r0 \<and> d_irreversible_flag r = False"
    using arl_frame.run_inv [OF _ run] O by blast
  moreover have "log_inv (r, log)"
    by (rule arl_log.run_inv [OF open_dispute_log_inv [OF assms(1)] assms(2)])
  ultimately show ?thesis by (simp add: log_inv_def)
qed

definition sample_scope :: scope_ref where
  "sample_scope = \<lparr>sr_scope_id = ''s1'', sr_scope_kind = ''agent'', sr_lane = ''runtime''\<rparr>"

lemma strip_word [simp]: "py_strip ''d'' = ''d''" "py_strip ''r'' = ''r''"
  by (simp_all add: py_strip_def strip_by_def is_space_def code_point_def)

lemma sample_dispute:
  "\<exists>r evs. open_dispute Conf_UNKNOWN sample_scope ''r'' (Some ''d'') None [] ''t'' (\<lambda>_. ''u'') = Inr (r, evs)"
  by (simp add: open_dispute_ok_iff)

definition sample_route :: arl_op where
  "sample_route = Route_Review Review_MANUAL ''r'' [] [] [] False [] None ''t'' (\<lambda>_. ''u'')"

lemma sample_log_run:
  "\<exists>r0 evs r log. open_dispute Conf_UNKNOWN sample_scope ''r'' (Some ''d'') None [] ''t'' (\<lambda>_. ''u'') = Inr (r0, evs)
     \<and> run_ops arl_log_step [sample_route] (r0, evs) = Inr (r, log) \<and> d_state_current r = Ds_REVIEW_ACTIVE"
proof -
  obtain r0 evs where o1: "open_dispute Conf_UNKNOWN sample_scope ''r'' (Some ''d'') None [] ''t'' (\<lambda>_. ''u'') = Inr (r0, evs)"
    using sample_dispute by blast
  note O = open_dispute_Inr [OF o1]
  have "routing_issues r0 Review_MANUAL [] False = []" using O by (simp add: routing_issues_ok terminal_states_def)
  with route_review_ok_iff [of r0 Review_MANUAL "''r''" "[]" "[]" "[]" False "[]" None "''t''" "\<lambda>_. ''u''"] O
  obtain r es where rt: "route_review r0 Review_MANUAL ''r'' [] [] [] False [] None ''t'' (\<lambda>_. ''u'') = Inr (r, es)"
    by auto
  then have "run_ops arl_log_step [sample_route] (r0, evs) = Inr (r, evs @ es)"
    by (simp add: sample_route_def arl_log_step_def)
  with o1 route_review_Inr [OF rt] show ?thesis by blast
qed

theorem arl_run_consistent_witness:
  "\<exists>r log. d_state_current r = Ds_REVIEW_ACTIVE \<and> replay_states ''NORMAL'' log = Some ''REVIEW_ACTIVE''
     \<and> validate_dispute_record r = []"
  using sample_log_run arl_run_consistent by (metis dispute_value.simps(6))

text \<open>
  As long as no caller overrides the authority effect of a transition, a dispute carries a hold
  exactly when it is not in the normal state.
\<close>

theorem arl_hold_kept:
  assumes "open_dispute cc sc rc did occ md tm u = Inr (r0, evs)"
    and "list_all no_override as" and "run_ops arl_step as r0 = Inr r"
  shows "d_authority_effect r = Auth_NONE \<longleftrightarrow> d_state_current r = Ds_NORMAL"
proof -
  have "hold_inv r0" using open_dispute_Inr [OF assms(1)] by (simp add: hold_inv_def)
  from arl_hold.ok_run_inv [OF assms(2) this assms(3)] show ?thesis by (simp add: hold_inv_def)
qed

theorem arl_hold_kept_witness: "\<exists>r :: dispute. d_state_current r = Ds_REVIEW_ACTIVE \<and> d_authority_effect r \<noteq> Auth_NONE"
proof -
  obtain r0 evs r log where o1: "open_dispute Conf_UNKNOWN sample_scope ''r'' (Some ''d'') None [] ''t'' (\<lambda>_. ''u'') = Inr (r0, evs)"
    and run: "run_ops arl_log_step [sample_route] (r0, evs) = Inr (r, log)" and st: "d_state_current r = Ds_REVIEW_ACTIVE"
    using sample_log_run by blast
  have "d_authority_effect r = Auth_NONE \<longleftrightarrow> d_state_current r = Ds_NORMAL"
    by (rule arl_hold_kept [OF o1 _ log_run_record [OF run]]) (simp add: sample_route_def)
  with st have "d_authority_effect r \<noteq> Auth_NONE" by simp
  with st show ?thesis by blast
qed

definition routable :: "dispute \<Rightarrow> review_mode \<Rightarrow> string \<Rightarrow> bool \<Rightarrow> string \<Rightarrow> bool" where
  \<comment> \<open>what the routing of a review requires\<close>
  "routable r mode tid needs rc = (d_standing_status r \<noteq> Standing_REJECTED \<and> d_state_current r \<notin> terminal_states
     \<and> mode \<noteq> Review_NONE \<and> (mode = Review_TEMPLATE \<longrightarrow> py_strip tid \<noteq> []) \<and> (mode = Review_ORACLE_BOUNDED \<longrightarrow> needs)
     \<and> py_strip rc \<noteq> [] \<and> \<not> d_irreversible_flag r)"

text \<open>
  C4: a valid dispute can be routed to review exactly when its standing is not rejected, its state is
  not terminal, the mode is concrete (with its template or oracle flag), a reason is given and the
  loss is not irreversible; it is then in active review with the review open, its authority effect is
  the one it had (a hold when it had none), the routing fields are those given, everything else is as
  it was, and the two events that say so are emitted.
\<close>

theorem route_review_allowed_iff:
  assumes "validate_dispute_record r = []"
  shows "case route_review r mode rc pid tid qref needs oids occ tm u of
           Inl e \<Rightarrow> \<not> routable r mode tid needs rc
         | Inr (r', evs) \<Rightarrow> routable r mode tid needs rc
             \<and> r' = r\<lparr>d_updated_ts := str_or occ tm, d_state_prev := d_state_current r, d_state_current := Ds_REVIEW_ACTIVE,
                      d_state_changed_ts := str_or occ tm, d_state_reason_code := rc, d_review_open := True, d_review_mode := mode,
                      d_plan_id := pid, d_template_id := tid, d_queue_ref := qref, d_needs_oracle := needs,
                      d_oracle_request_ids := nonempty_ids oids,
                      d_authority_effect := (if d_authority_effect r = Auth_NONE then Auth_HOLD else d_authority_effect r)\<rparr>
             \<and> map ae_event_type evs = [Arl_REVIEW_ROUTED, Arl_STATE_CHANGED] \<and> validate_dispute_record r' = []"
proof -
  have "routable r mode tid needs rc \<longleftrightarrow> routing_issues r mode tid needs = [] \<and> py_strip rc \<noteq> [] \<and> \<not> d_irreversible_flag r"
    by (auto simp: routable_def routing_issues_ok)
  note ok = route_review_ok_iff [OF assms, of mode rc pid tid qref needs oids occ tm u, folded this]
  show ?thesis
  proof (cases "route_review r mode rc pid tid qref needs oids occ tm u")
    case (Inl e)
    then show ?thesis using ok by auto
  next
    case (Inr p)
    obtain r' evs where p: "p = (r', evs)" by force
    then show ?thesis using ok Inr
      by (auto simp: route_review_def Let_def bindE_Inr_iff authority_for_state_def state_changed_event_def)
  qed
qed

theorem route_review_allowed_iff_witness:
  "\<exists>r. validate_dispute_record r = [] \<and> (case route_review r Review_MANUAL ''r'' [] [] [] False [] None ''t'' (\<lambda>_. ''u'') of
       Inl e \<Rightarrow> False | Inr (r', evs) \<Rightarrow> d_state_current r' = Ds_REVIEW_ACTIVE \<and> d_review_open r')"
proof -
  obtain r evs where o1: "open_dispute Conf_UNKNOWN sample_scope ''r'' (Some ''d'') None [] ''t'' (\<lambda>_. ''u'') = Inr (r, evs)"
    using sample_dispute by blast
  note O = open_dispute_Inr [OF o1]
  then have "validate_dispute_record r = []" by blast
  from route_review_allowed_iff [OF this, where mode = Review_MANUAL and rc = "''r''" and pid = "[]" and tid = "[]"
      and qref = "[]" and needs = False and oids = "[]" and occ = None and tm = "''t''" and u = "\<lambda>_. ''u''"] O
  show ?thesis by (intro exI [of _ r]) (auto simp: terminal_states_def routable_def split: sum.splits)
qed

lemma transition_state_ok:
  assumes "validate_dispute_record r = []" and "py_strip rc \<noteq> []" and "\<not> d_irreversible_flag r"
    and "\<not> (d_state_current r \<in> terminal_states \<and> st = Ds_NORMAL)" and "st \<noteq> Ds_EVIDENTIARY_FREEZE"
    and "st = Ds_NORMAL \<longrightarrow> (case ae of None \<Rightarrow> True | Some a \<Rightarrow> a = Auth_NONE)"
  shows "\<exists>r' e. transition_state r st rc occ ae tm u = Inr (r', e)"
proof -
  define auth where "auth = (case ae of None \<Rightarrow> authority_for_state st (d_authority_effect r) | Some a \<Rightarrow> a)"
  have "transition_issues r st = []" using assms(4) by (simp add: transition_issues_ok)
  moreover have "st = Ds_NORMAL \<longrightarrow> auth = Auth_NONE"
    using assms(6) by (auto simp: auth_def authority_for_state_none split: option.splits)
  then have "validate_dispute_record (r\<lparr>d_updated_ts := ts, d_state_prev := d_state_current r, d_state_current := st,
      d_state_changed_ts := ts, d_state_reason_code := rc, d_authority_effect := auth\<rparr>) = []" for ts
    using assms(1,2,3,5) by (simp add: validate_dispute_ok)
  ultimately show ?thesis by (simp add: transition_state_def Let_def auth_def)
qed

definition moves_to :: "dispute \<Rightarrow> dispute_state \<Rightarrow> authority_effect option \<Rightarrow> dispute \<Rightarrow> bool" where
  "moves_to r st ae r' = (\<exists>e. transition_state r st ''r'' None ae ''t'' (\<lambda>_. ''u'') = Inr (r', e))"

lemma moves_to_ok:
  "validate_dispute_record s = [] \<Longrightarrow> \<not> d_irreversible_flag s \<Longrightarrow>
   \<not> (d_state_current s \<in> terminal_states \<and> st = Ds_NORMAL) \<Longrightarrow> st \<noteq> Ds_EVIDENTIARY_FREEZE \<Longrightarrow>
   (st = Ds_NORMAL \<longrightarrow> ae = None) \<Longrightarrow> \<exists>r'. moves_to s st ae r'"
  using transition_state_ok [of s "''r''" st ae None "''t''" "\<lambda>_. ''u''"] by (auto simp: moves_to_def)

lemma moves_to_result:
  "moves_to s st ae r' \<Longrightarrow>
     validate_dispute_record r' = [] \<and> d_state_current r' = st \<and> d_irreversible_flag r' = d_irreversible_flag s
   \<and> \<not> (d_state_current s \<in> terminal_states \<and> st = Ds_NORMAL)
   \<and> d_authority_effect r' = (case ae of None \<Rightarrow> authority_for_state st (d_authority_effect s) | Some a \<Rightarrow> a)"
  by (auto simp: moves_to_def dest: transition_state_Inr)

lemma terminal_detour:
  assumes "validate_dispute_record r = []" "\<not> d_irreversible_flag r"
  shows "\<exists>q n. moves_to r Ds_QUARANTINE None q \<and> moves_to q Ds_NORMAL None n"
proof -
  obtain q where q: "moves_to r Ds_QUARANTINE None q" using moves_to_ok [OF assms, of Ds_QUARANTINE None] by auto
  note Q = moves_to_result [OF q]
  with assms(2) moves_to_ok [of q Ds_NORMAL None] obtain n where "moves_to q Ds_NORMAL None n"
    by (auto simp: terminal_states_def)
  with q show ?thesis by blast
qed

text \<open>
  The guards can be walked around.  A terminal state may not return to the normal state
  directly, but it may through quarantine; an explicit authority effect drops the hold of a
  quarantined dispute; and a dispute with rejected standing, which cannot be routed to review, can be
  moved to active review by a plain transition.
\<close>

theorem arl_hold_evaded:
  assumes "validate_dispute_record r = []" and "\<not> d_irreversible_flag r"
  shows "(d_state_current r = Ds_RESOLVED \<longrightarrow> \<not> (\<exists>n. moves_to r Ds_NORMAL None n))
       \<and> (\<exists>q n. moves_to r Ds_QUARANTINE None q \<and> moves_to q Ds_NORMAL None n)
       \<and> (\<exists>q. moves_to r Ds_QUARANTINE (Some Auth_NONE) q \<and> d_state_current q = Ds_QUARANTINE \<and> d_authority_effect q = Auth_NONE)
       \<and> (d_standing_status r = Standing_REJECTED \<longrightarrow> routing_issues r mode tid needs \<noteq> [])
       \<and> (\<exists>v. moves_to r Ds_REVIEW_ACTIVE None v)"
proof (intro conjI impI)
  show "\<not> (\<exists>n. moves_to r Ds_NORMAL None n)" if "d_state_current r = Ds_RESOLVED"
    using that moves_to_result [of r Ds_NORMAL None] by (auto simp: terminal_states_def)
  show "\<exists>q n. moves_to r Ds_QUARANTINE None q \<and> moves_to q Ds_NORMAL None n"
    by (rule terminal_detour [OF assms])
  obtain q where "moves_to r Ds_QUARANTINE (Some Auth_NONE) q"
    using moves_to_ok [OF assms, of Ds_QUARANTINE "Some Auth_NONE"] by auto
  with moves_to_result [OF this]
  show "\<exists>q. moves_to r Ds_QUARANTINE (Some Auth_NONE) q \<and> d_state_current q = Ds_QUARANTINE \<and> d_authority_effect q = Auth_NONE"
    by auto
  show "routing_issues r mode tid needs \<noteq> []" if "d_standing_status r = Standing_REJECTED"
    using that by (simp add: routing_issues_ok)
  show "\<exists>v. moves_to r Ds_REVIEW_ACTIVE None v" using moves_to_ok [OF assms, of Ds_REVIEW_ACTIVE None] by auto
qed

theorem arl_hold_evaded_witness:
  "\<exists>r q. validate_dispute_record r = [] \<and> moves_to r Ds_QUARANTINE (Some Auth_NONE) q \<and> d_authority_effect q = Auth_NONE"
proof -
  obtain r evs where "open_dispute Conf_UNKNOWN sample_scope ''r'' (Some ''d'') None [] ''t'' (\<lambda>_. ''u'') = Inr (r, evs)"
    using sample_dispute by blast
  from open_dispute_Inr [OF this] arl_hold_evaded [of r] show ?thesis by blast
qed

text \<open>
  The store takes a dispute exactly when it passes the validator; a saved dispute is read back
  under its own id, and a refused one leaves every stored dispute as it was.
\<close>

theorem dispute_store_roundtrip:
  "(if validate_dispute_record r = []
    then (\<exists>s'. save_dispute root r u s = Inr (doc_path (arl_disputes_dir root) ''dispute'' (d_dispute_id r), s')
            \<and> load_dispute root (d_dispute_id r) s' = Inr (Some (dict_of (dispute_record r))))
    else (\<exists>is. save_dispute root r u s = Inl (ArlValidationError is) \<and> is \<noteq> []))
 \<and> (validate_dispute_record r \<noteq> [] \<or> safe_file_id ''dispute'' i \<noteq> safe_file_id ''dispute'' (d_dispute_id r) \<longrightarrow>
      load_dispute root i (save_dispute_state root r u s) = load_dispute root i s)"
proof (intro conjI impI)
  show "if validate_dispute_record r = []
    then (\<exists>s'. save_dispute root r u s = Inr (doc_path (arl_disputes_dir root) ''dispute'' (d_dispute_id r), s')
            \<and> load_dispute root (d_dispute_id r) s' = Inr (Some (dict_of (dispute_record r))))
    else (\<exists>is. save_dispute root r u s = Inl (ArlValidationError is) \<and> is \<noteq> [])"
    using load_save_dispute [of r "d_dispute_id r" root u s]
    by (auto simp: save_dispute_def Let_def save_dispute_state_def arl_raise_if_invalid_def)
qed (rule load_save_dispute_other)

theorem dispute_store_roundtrip_witness:
  "\<exists>r s'. load_dispute [''d''] (d_dispute_id r) s' = Inr (Some (dict_of (dispute_record r)))"
proof -
  obtain r evs where "open_dispute Conf_UNKNOWN sample_scope ''r'' (Some ''d'') None [] ''t'' (\<lambda>_. ''u'') = Inr (r, evs)"
    using sample_dispute by blast
  then have "validate_dispute_record r = []" by (simp add: open_dispute_Inr)
  with dispute_store_roundtrip [of r "[''d'']" "\<lambda>_. ''u''" "\<lparr>json_files = (\<lambda>_. None), jsonl_files = (\<lambda>_. None)\<rparr>" "''d''"]
  show ?thesis by auto
qed

end
