(* ===== verification/PyJson.thy ===== *)
theory PyJson
  imports PyBase "HOL-Library.Multiset"
begin

text \<open>
  \<open>json.dumps(v, ensure_ascii=False, sort_keys=True, separators=(",", ":")).encode("utf-8")\<close>, the
  canonical bytes the code hashes, and the proof that they determine the value up to the order of
  the dictionary keys.
\<close>

section \<open>Printing\<close>

definition esc_letter :: "char \<Rightarrow> char option" where
  "esc_letter c =
     (if c = CHR 0x22 then Some CHR 0x22
      else if c = CHR 0x5C then Some CHR 0x5C
      else if code_point c = 8 then Some CHR ''b''
      else if code_point c = 9 then Some CHR ''t''
      else if code_point c = 10 then Some CHR ''n''
      else if code_point c = 12 then Some CHR ''f''
      else if code_point c = 13 then Some CHR ''r''
      else None)"

definition json_esc :: "char \<Rightarrow> string" where
  "json_esc c = (case esc_letter c of
     Some l \<Rightarrow> [CHR 0x5C, l]
   | None \<Rightarrow>
       if code_point c < 32 then
         [CHR 0x5C, CHR ''u'', CHR ''0'', CHR ''0'',
          hex_char (code_point c div 16), hex_char (code_point c mod 16)]
       else [c])"

definition json_str :: "string \<Rightarrow> string" where
  "json_str s = CHR 0x22 # concat (map json_esc s) @ [CHR 0x22]"

fun json_text :: "pyval \<Rightarrow> string" where
  "json_text PNone = ''null''"
| "json_text (PBool b) = (if b then ''true'' else ''false'')"
| "json_text (PInt i) = show_int i"
| "json_text (PStr s) = json_str s"
| "json_text (PList xs) = ''['' @ py_join '','' (map json_text xs) @ '']''"
| "json_text (PDict d) =
     ''{'' @ py_join '','' (map (\<lambda>(k, v). json_str k @ '':'' @ json_text v) d) @ ''}''"

fun sort_dicts :: "pyval \<Rightarrow> pyval" where
  "sort_dicts (PList xs) = PList (map sort_dicts xs)"
| "sort_dicts (PDict d) = PDict (sort_key fst (map (\<lambda>(k, v). (k, sort_dicts v)) d))"
| "sort_dicts v = v"

definition utf8_char :: "char \<Rightarrow> string" where
  "utf8_char c = (let n = code_point c in
     if n < 128 then [c] else [char_of (192 + n div 64), char_of (128 + n mod 64)])"

definition utf8 :: "string \<Rightarrow> string" where
  "utf8 s = concat (map utf8_char s)"

definition canonical_bytes :: "pyval \<Rightarrow> string" where
  "canonical_bytes v = utf8 (json_text (sort_dicts v))"

section \<open>Codes that can be read back\<close>

text \<open>A character code is readable when equal concatenations come from equal strings.\<close>

definition readable :: "(char \<Rightarrow> string) \<Rightarrow> bool" where
  "readable f = (\<forall>c d xs ys. f c @ xs = f d @ ys \<longrightarrow> c = d \<and> xs = ys)"

lemma readable_concat:
  assumes "readable f" and "\<forall>c. f c \<noteq> []"
    and "concat (map f s) = concat (map f t)"
  shows "s = t"
  using assms(3)
proof (induction s arbitrary: t)
  case Nil
  with assms(2) show ?case by (cases t) auto
next
  case (Cons c s)
  with assms(2) obtain d t' where t: "t = d # t'" by (cases t) auto
  with Cons.prems have "f c @ concat (map f s) = f d @ concat (map f t')" by simp
  with assms(1) have "c = d" and "concat (map f s) = concat (map f t')"
    unfolding readable_def by blast+
  with Cons.IH t show ?case by simp
qed

lemma code_point_less [simp]: "code_point c < 256"
  by (simp add: code_point_def)

lemma code_point_inj: "code_point c = code_point d \<longleftrightarrow> c = d"
  by (simp add: code_point_def)

lemma code_point_char_of: "n < 256 \<Longrightarrow> code_point (char_of n) = n"
  by (simp add: code_point_def)

lemma char_of_inj: "m < 256 \<Longrightarrow> n < 256 \<Longrightarrow> char_of m = char_of n \<longleftrightarrow> m = n" for m n :: nat
  by (metis code_point_char_of)

lemma hex_char_inj: "m < 16 \<Longrightarrow> n < 16 \<Longrightarrow> hex_char m = hex_char n \<longleftrightarrow> m = n"
  by (auto simp: hex_char_def char_of_inj)

lemma utf8_readable: "readable utf8_char"
  unfolding readable_def
proof (intro allI impI)
  fix c d xs ys
  assume eq: "utf8_char c @ xs = utf8_char d @ ys"
  have big: "192 + code_point c div 64 < 256" "192 + code_point d div 64 < 256"
    using code_point_less [of c] code_point_less [of d] by linarith+
  have small: "128 + code_point c mod 64 < 256" "128 + code_point d mod 64 < 256"
    using mod_less_divisor [of 64 "code_point c"] mod_less_divisor [of 64 "code_point d"] by linarith+
  consider "code_point c < 128" "code_point d < 128" | "code_point c < 128" "\<not> code_point d < 128"
    | "\<not> code_point c < 128" "code_point d < 128" | "\<not> code_point c < 128" "\<not> code_point d < 128"
    by blast
  then show "c = d \<and> xs = ys"
  proof cases
    case 1
    with eq show ?thesis by (simp add: utf8_char_def Let_def)
  next
    case 2
    with eq have "c = char_of (192 + code_point d div 64)" by (simp add: utf8_char_def Let_def)
    with big(2) have "code_point c = 192 + code_point d div 64" by (simp add: code_point_char_of)
    with 2 show ?thesis by simp
  next
    case 3
    with eq have "d = char_of (192 + code_point c div 64)" by (auto simp: utf8_char_def Let_def)
    with big(1) have "code_point d = 192 + code_point c div 64" by (simp add: code_point_char_of)
    with 3 show ?thesis by simp
  next
    case 4
    with eq big small have "code_point c div 64 = code_point d div 64"
      and "code_point c mod 64 = code_point d mod 64" and "xs = ys"
      by (simp_all add: utf8_char_def Let_def char_of_inj)
    then show ?thesis by (metis code_point_inj div_mult_mod_eq)
  qed
qed

lemma utf8_inj: "utf8 s = utf8 t \<longleftrightarrow> s = t"
proof
  assume "utf8 s = utf8 t"
  moreover have "\<forall>c. utf8_char c \<noteq> []" by (simp add: utf8_char_def Let_def)
  ultimately show "s = t" unfolding utf8_def using readable_concat [OF utf8_readable] by blast
qed simp

section \<open>Strings and integers\<close>

lemma json_esc_nonempty [simp]: "json_esc c \<noteq> []"
  by (simp add: json_esc_def split: option.splits)

lemma esc_letter_inj: "esc_letter c = Some l \<Longrightarrow> esc_letter d = Some l \<Longrightarrow> c = d"
  by (rule code_point_inj [THEN iffD1]) (auto simp: esc_letter_def split: if_splits)

lemma esc_letter_not_u: "esc_letter c \<noteq> Some CHR ''u''"
  by (simp add: esc_letter_def)

lemma esc_letter_None: "esc_letter c = None \<Longrightarrow> c \<noteq> CHR 0x5C \<and> c \<noteq> CHR 0x22"
  by (auto simp: esc_letter_def)

lemma json_esc_not_quote: "json_esc c @ xs \<noteq> CHR 0x22 # ys"
  using esc_letter_None [of c] by (auto simp: json_esc_def split: option.splits)

lemma hex_pair_inj:
  assumes "code_point c < 32" and "code_point d < 32"
    and "hex_char (code_point c div 16) = hex_char (code_point d div 16)"
    and "hex_char (code_point c mod 16) = hex_char (code_point d mod 16)"
  shows "c = d"
proof -
  have "code_point c div 16 = code_point d div 16" and "code_point c mod 16 = code_point d mod 16"
    using assms by (simp_all add: hex_char_inj)
  then show ?thesis by (metis code_point_inj div_mult_mod_eq)
qed

lemma json_esc_readable: "readable json_esc"
  unfolding readable_def
proof (intro allI impI)
  fix c d xs ys
  assume eq: "json_esc c @ xs = json_esc d @ ys"
  show "c = d \<and> xs = ys"
  proof (cases "esc_letter c")
    case (Some l)
    note c = Some
    show ?thesis
    proof (cases "esc_letter d")
      case (Some m)
      with c eq show ?thesis by (auto simp: json_esc_def dest: esc_letter_inj)
    next
      case None
      with c eq show ?thesis
        using esc_letter_not_u [of c] esc_letter_None [OF None] by (auto simp: json_esc_def split: if_splits)
    qed
  next
    case None
    note c = None
    show ?thesis
    proof (cases "esc_letter d")
      case (Some m)
      with c eq show ?thesis
        using esc_letter_not_u [of d] esc_letter_None [OF c] by (auto simp: json_esc_def split: if_splits)
    next
      case None
      with c eq show ?thesis
        using esc_letter_None [OF c] esc_letter_None [OF None] hex_pair_inj [of c d]
        by (auto simp: json_esc_def split: if_splits)
    qed
  qed
qed

lemma json_str_unique: "json_str s @ xs = json_str t @ ys \<Longrightarrow> s = t \<and> xs = ys"
proof -
  have body: "concat (map json_esc s) @ CHR 0x22 # xs = concat (map json_esc t) @ CHR 0x22 # ys \<Longrightarrow>
     s = t \<and> xs = ys"
  proof (induction s arbitrary: t)
    case Nil
    then show ?case using json_esc_not_quote by (cases t) (auto, metis)
  next
    case (Cons c s)
    show ?case
    proof (cases t)
      case Nil
      with Cons.prems json_esc_not_quote show ?thesis by auto
    next
      case (Cons d t')
      with Cons.prems have "json_esc c @ (concat (map json_esc s) @ CHR 0x22 # xs)
          = json_esc d @ (concat (map json_esc t') @ CHR 0x22 # ys)" by simp
      with json_esc_readable have "c = d"
        and "concat (map json_esc s) @ CHR 0x22 # xs = concat (map json_esc t') @ CHR 0x22 # ys"
        unfolding readable_def by blast+
      with Cons.IH Cons show ?thesis by simp
    qed
  qed
  assume "json_str s @ xs = json_str t @ ys"
  then show ?thesis by (intro body) (simp add: json_str_def)
qed

definition is_digit :: "char \<Rightarrow> bool" where
  "is_digit c = (48 \<le> code_point c \<and> code_point c \<le> 57)"

definition read_digits :: "string \<Rightarrow> nat" where
  "read_digits s = foldl (\<lambda>a c. 10 * a + (code_point c - 48)) 0 s"

lemma code_digit_char: "d < 10 \<Longrightarrow> code_point (digit_char d) = 48 + d"
  by (simp add: digit_char_def code_point_char_of)

lemma show_nat_digits: "show_nat n \<noteq> [] \<and> (\<forall>c \<in> set (show_nat n). is_digit c) \<and> read_digits (show_nat n) = n"
proof (induction n rule: show_nat.induct)
  case (1 n)
  show ?case
  proof (cases "n < 10")
    case True
    then show ?thesis
      by (simp add: show_nat.simps [of n] is_digit_def code_digit_char read_digits_def)
  next
    case False
    with "1.IH" have ih: "show_nat (n div 10) \<noteq> []" "\<forall>c \<in> set (show_nat (n div 10)). is_digit c"
      "read_digits (show_nat (n div 10)) = n div 10" by simp_all
    have "read_digits (show_nat (n div 10) @ [digit_char (n mod 10)]) = 10 * (n div 10) + n mod 10"
      using ih(3) by (simp add: read_digits_def code_digit_char)
    with False ih show ?thesis
      by (simp add: show_nat.simps [of n] is_digit_def code_digit_char)
  qed
qed

text \<open>What may follow a value: the end of the text, a comma or a closing bracket.\<close>

definition delim :: "string \<Rightarrow> bool" where
  "delim r = (r = [] \<or> hd r \<in> {CHR '','', CHR '']'', CHR ''}''})"

lemma delim_not_digit: "delim r \<Longrightarrow> r \<noteq> [] \<Longrightarrow> \<not> is_digit (hd r)"
  by (auto simp: delim_def is_digit_def code_point_def)

lemma takeWhile_digits:
  assumes "\<forall>c \<in> set xs. is_digit c" and "delim r"
  shows "takeWhile is_digit (xs @ r) = xs"
  using assms delim_not_digit [OF assms(2)]
  by (cases r) (auto simp: takeWhile_append)

lemma show_nat_unique:
  assumes "show_nat m @ r = show_nat n @ s" and "delim r" and "delim s"
  shows "m = n \<and> r = s"
proof -
  have "show_nat m = show_nat n"
    using assms takeWhile_digits show_nat_digits by metis
  then show ?thesis using assms(1) show_nat_digits by (metis same_append_eq)
qed

lemma show_nat_no_minus: "show_nat n @ r \<noteq> CHR ''-'' # s"
proof
  assume "show_nat n @ r = CHR ''-'' # s"
  then have "hd (show_nat n) = CHR ''-''" using show_nat_digits [of n] by (metis hd_append2 list.sel(1))
  moreover have "is_digit (hd (show_nat n))" using show_nat_digits [of n] by simp
  ultimately show False by (simp add: is_digit_def code_point_def)
qed

lemma show_int_unique:
  assumes "show_int i @ r = show_int j @ s" and "delim r" and "delim s"
  shows "i = j \<and> r = s"
proof -
  consider "i < 0" "j < 0" | "i < 0" "\<not> j < 0" | "\<not> i < 0" "j < 0" | "\<not> i < 0" "\<not> j < 0" by blast
  then show ?thesis
  proof cases
    case 1
    with assms show_nat_unique [of "nat (- i)" r "nat (- j)" s] show ?thesis by (auto simp: show_int_def)
  next
    case 2
    with assms(1) show ?thesis using show_nat_no_minus by (simp add: show_int_def) metis
  next
    case 3
    with assms(1) show ?thesis using show_nat_no_minus by (simp add: show_int_def)
  next
    case 4
    with assms show_nat_unique [of "nat i" r "nat j" s] show ?thesis by (auto simp: show_int_def)
  qed
qed

section \<open>Values\<close>

text \<open>The first character tells which kind of value follows.\<close>

definition char_kind :: "char \<Rightarrow> nat" where
  "char_kind c =
     (if c = CHR ''n'' then 0 else if c = CHR ''t'' \<or> c = CHR ''f'' then 1
      else if c = CHR ''-'' \<or> is_digit c then 2 else if c = CHR 0x22 then 3
      else if c = CHR ''['' then 4 else if c = CHR ''{'' then 5 else 6)"

fun val_kind :: "pyval \<Rightarrow> nat" where
  "val_kind PNone = 0"
| "val_kind (PBool b) = 1"
| "val_kind (PInt i) = 2"
| "val_kind (PStr s) = 3"
| "val_kind (PList xs) = 4"
| "val_kind (PDict d) = 5"

lemma char_kind_digit: "is_digit c \<Longrightarrow> char_kind c = 2"
  by (auto simp: char_kind_def is_digit_def code_point_def)

lemma show_int_head: "show_int i \<noteq> [] \<and> char_kind (hd (show_int i)) = 2"
  using show_nat_digits [of "nat i"]
  by (auto simp: show_int_def char_kind_digit) (simp add: char_kind_def)

lemma json_text_head: "json_text v \<noteq> [] \<and> char_kind (hd (json_text v)) = val_kind v"
  using show_int_head
  by (cases v) (auto simp: json_str_def char_kind_def is_digit_def code_point_def)

lemma val_kind_less: "val_kind v < 6"
  by (cases v) auto

lemma py_join_Cons: "py_join sep (x # xs) = x @ concat (map (\<lambda>y. sep @ y) xs)"
  by (induction xs arbitrary: x) auto

definition unique_text :: "('a \<Rightarrow> string) \<Rightarrow> 'a \<Rightarrow> bool" where
  "unique_text f x = (\<forall>y r s. f x @ r = f y @ s \<longrightarrow> delim r \<longrightarrow> delim s \<longrightarrow> x = y \<and> r = s)"

lemma items_unique:
  assumes "\<forall>x \<in> set xs. unique_text f x" and "c \<in> {CHR '']'', CHR ''}''}"
    and "concat (map (\<lambda>x. CHR '','' # f x) xs) @ c # r = concat (map (\<lambda>x. CHR '','' # f x) ys) @ c # s"
  shows "xs = ys \<and> r = s"
  using assms
proof (induction xs arbitrary: ys)
  case Nil
  then show ?case by (cases ys) auto
next
  case (Cons x xs)
  then obtain y ys' where ys: "ys = y # ys'" by (cases ys) auto
  let ?t = "\<lambda>zs q. concat (map (\<lambda>x. CHR '','' # f x) zs) @ c # q"
  from Cons.prems(3) ys have "f x @ ?t xs r = f y @ ?t ys' s" by simp
  moreover have "delim (?t zs q)" for zs q
    using Cons.prems(2) by (cases zs) (auto simp: delim_def)
  ultimately have "x = y" and "?t xs r = ?t ys' s"
    using Cons.prems(1) unfolding unique_text_def by auto
  with Cons.IH Cons.prems(1,2) ys show ?case by simp
qed

lemma joined_unique:
  assumes "\<forall>x \<in> set xs. unique_text f x" and c: "c \<in> {CHR '']'', CHR ''}''}"
    and nonempty: "\<And>x. f x \<noteq> [] \<and> hd (f x) \<noteq> c"
    and eq: "py_join '','' (map f xs) @ c # r = py_join '','' (map f ys) @ c # s"
  shows "xs = ys \<and> r = s"
proof (cases xs)
  case Nil
  with eq nonempty show ?thesis by (cases ys) (auto simp: py_join_Cons, metis hd_append2 list.sel(1))
next
  case (Cons x xs')
  have "ys \<noteq> []"
    using eq nonempty [of x] Cons by (auto simp: py_join_Cons) (metis hd_append2 list.sel(1))
  then obtain y ys' where ys: "ys = y # ys'" by (cases ys) auto
  have "concat (map (\<lambda>x. CHR '','' # f x) xs) @ c # r = concat (map (\<lambda>x. CHR '','' # f x) ys) @ c # s"
    using eq Cons ys by (simp add: py_join_Cons comp_def)
  from items_unique [OF assms(1) c this] show ?thesis .
qed

lemma json_text_unique: "unique_text json_text v"
proof (induction v)
  case (PList xs)
  show ?case
    unfolding unique_text_def
  proof (intro allI impI)
    fix w r s
    assume eq: "json_text (PList xs) @ r = json_text w @ s" and "delim r" "delim s"
    then have "val_kind w = 4" using json_text_head by (metis hd_append2 val_kind.simps(5))
    then obtain ys where w: "w = PList ys" by (cases w) auto
    from eq w have "py_join '','' (map json_text xs) @ CHR '']'' # r = py_join '','' (map json_text ys) @ CHR '']'' # s"
      by simp
    moreover have "hd (json_text x) \<noteq> CHR '']''" for x
      using json_text_head [of x] val_kind_less [of x] by (auto simp: char_kind_def is_digit_def code_point_def)
    ultimately show "PList xs = w \<and> r = s"
      using joined_unique [of xs json_text "CHR '']''" r ys s] PList json_text_head w by auto
  qed
next
  case (PDict d)
  let ?f = "\<lambda>(k, v). json_str k @ '':'' @ json_text v"
  have item: "\<forall>x \<in> set d. unique_text ?f x"
  proof
    fix x assume x: "x \<in> set d"
    obtain k v where kv: "x = (k, v)" by force
    from PDict x kv have ih: "unique_text json_text v" by auto
    show "unique_text ?f x"
      unfolding unique_text_def
    proof (intro allI impI)
      fix y r s
      assume eq: "?f x @ r = ?f y @ s" and ds: "delim r" "delim s"
      obtain l w where y: "y = (l, w)" by force
      have "json_str k @ (CHR '':'' # json_text v @ r) = json_str l @ (CHR '':'' # json_text w @ s)"
        using eq kv y by simp
      from json_str_unique [OF this] have "k = l" and "json_text v @ r = json_text w @ s" by simp_all
      with ih ds kv y show "x = y \<and> r = s" unfolding unique_text_def by blast
    qed
  qed
  show ?case
    unfolding unique_text_def
  proof (intro allI impI)
    fix w r s
    assume eq: "json_text (PDict d) @ r = json_text w @ s" and "delim r" "delim s"
    then have "val_kind w = 5" using json_text_head by (metis hd_append2 val_kind.simps(6))
    then obtain e where w: "w = PDict e" by (cases w) auto
    from eq w have "py_join '','' (map ?f d) @ CHR ''}'' # r = py_join '','' (map ?f e) @ CHR ''}'' # s"
      by simp
    from joined_unique [OF item _ _ this] show "PDict d = w \<and> r = s"
      using w by (auto simp: json_str_def)
  qed
next
  case PNone
  show ?case unfolding unique_text_def
  proof (intro allI impI)
    fix w r s assume "json_text PNone @ r = json_text w @ s"
    moreover from this have "val_kind w = 0" using json_text_head by (metis hd_append2 val_kind.simps(1))
    ultimately show "PNone = w \<and> r = s" by (cases w) auto
  qed
next
  case (PBool b)
  show ?case unfolding unique_text_def
  proof (intro allI impI)
    fix w r s assume "json_text (PBool b) @ r = json_text w @ s"
    moreover from this have "val_kind w = 1" using json_text_head by (metis hd_append2 val_kind.simps(2))
    ultimately show "PBool b = w \<and> r = s" by (cases w) (auto split: if_splits)
  qed
next
  case (PInt i)
  show ?case unfolding unique_text_def
  proof (intro allI impI)
    fix w r s assume "json_text (PInt i) @ r = json_text w @ s" "delim r" "delim s"
    moreover from this have "val_kind w = 2" using json_text_head by (metis hd_append2 val_kind.simps(3))
    ultimately show "PInt i = w \<and> r = s" by (cases w) (auto dest: show_int_unique)
  qed
next
  case (PStr t)
  show ?case unfolding unique_text_def
  proof (intro allI impI)
    fix w r s assume "json_text (PStr t) @ r = json_text w @ s"
    moreover from this have "val_kind w = 3" using json_text_head by (metis hd_append2 val_kind.simps(4))
    ultimately show "PStr t = w \<and> r = s" by (cases w) (auto dest: json_str_unique)
  qed
qed

lemma json_text_inj: "json_text v = json_text w \<longleftrightarrow> v = w"
proof
  assume "json_text v = json_text w"
  then have "json_text v @ [] = json_text w @ []" by simp
  moreover have "delim []" by (simp add: delim_def)
  ultimately show "v = w" using json_text_unique [of v] unfolding unique_text_def by blast
qed simp

lemma canonical_bytes_inj: "canonical_bytes v = canonical_bytes w \<longleftrightarrow> sort_dicts v = sort_dicts w"
  by (simp add: canonical_bytes_def utf8_inj json_text_inj)

text \<open>The order of the keys of a dictionary does not matter.\<close>

lemma sort_dicts_perm:
  assumes "mset d = mset e" and "distinct (map fst d)"
  shows "sort_dicts (PDict d) = sort_dicts (PDict e)"
proof -
  let ?g = "\<lambda>(k, v). (k, sort_dicts v)"
  have keys: "map fst (map ?g d) = map fst d" for d by (induction d) auto
  have "mset (map ?g d) = mset (map ?g e)" using assms(1) by (simp only: mset_map)
  moreover have "inj_on fst (set (map ?g d))"
    using assms(2) keys [of d] by (metis distinct_map)
  ultimately have "sort_key fst (map ?g d) = sort_key fst (map ?g e)"
    by (rule sort_key_eq_sort_key)
  then show ?thesis by simp
qed

text \<open>Looking a key up after sorting: the sort is stable, so the first entry of a key stays first.\<close>

lemma map_of_filter: "map_of d k = (case filter (\<lambda>p. fst p = k) d of [] \<Rightarrow> None | p # _ \<Rightarrow> Some (snd p))"
  by (induction d) auto

lemma map_of_sort_key: "map_of (sort_key fst d) k = map_of d k"
  by (simp add: map_of_filter sort_key_stable)

lemma map_of_map_sort: "map_of (map (\<lambda>(k, v). (k, sort_dicts v)) d) k = map_option sort_dicts (map_of d k)"
  by (induction d) auto

lemma sort_dicts_get:
  assumes "sort_dicts (PDict d) = sort_dicts (PDict e)"
  shows "sort_dicts (dict_get d k) = sort_dicts (dict_get e k)"
proof -
  let ?g = "\<lambda>(k, v). (k, sort_dicts v)"
  from assms have "map_of (sort_key fst (map ?g d)) k = map_of (sort_key fst (map ?g e)) k"
    by (simp only: sort_dicts.simps pyval.inject)
  then have "map_option sort_dicts (map_of d k) = map_option sort_dicts (map_of e k)"
    by (simp only: map_of_sort_key map_of_map_sort)
  then show ?thesis
    by (cases "map_of d k"; cases "map_of e k") (simp_all add: dict_get_def)
qed

text \<open>Two values with the same sorted form are equal, or both non-empty containers of the same kind.\<close>

lemma sort_dicts_scalar:
  assumes "sort_dicts v = sort_dicts w"
  shows "v = w \<or> (\<exists>x xs y ys. v = PList (x # xs) \<and> w = PList (y # ys))
              \<or> (\<exists>x xs y ys. v = PDict (x # xs) \<and> w = PDict (y # ys))"
proof (cases v)
  case (PList xs)
  with assms obtain ys where w: "w = PList ys" by (cases w) auto
  with assms PList show ?thesis by (cases xs; cases ys) auto
next
  case (PDict d)
  with assms obtain e where w: "w = PDict e" by (cases w) auto
  with assms PDict have "sort_key fst (map (\<lambda>(k, v). (k, sort_dicts v)) d) = sort_key fst (map (\<lambda>(k, v). (k, sort_dicts v)) e)"
    by (simp only: sort_dicts.simps pyval.inject)
  from arg_cong [OF this, of length] have "length d = length e" by (simp only: length_sort length_map)
  then consider "d = []" "e = []" | x xs y ys where "d = x # xs" "e = y # ys"
    by (cases d; cases e) simp_all
  then show ?thesis using PDict w by cases blast+
next
  case PNone
  with assms show ?thesis by (cases w) simp_all
next
  case (PBool b)
  with assms show ?thesis by (cases w) simp_all
next
  case (PInt i)
  with assms show ?thesis by (cases w) simp_all
next
  case (PStr t)
  with assms show ?thesis by (cases w) simp_all
qed

section \<open>Properties\<close>

text \<open>
  The canonical bytes of two values are equal exactly when the values are equal up to the order
  of dictionary keys; in particular, permuting the keys of a dictionary does not change them.
\<close>

theorem canonical_bytes_order:
  assumes "distinct (map fst d)"
  shows "(mset d = mset e \<longrightarrow> canonical_bytes (PDict d) = canonical_bytes (PDict e))
       \<and> (canonical_bytes (PDict d) = canonical_bytes (PDict e) \<longrightarrow>
            (\<forall>k. sort_dicts (dict_get d k) = sort_dicts (dict_get e k)))"
  using sort_dicts_perm [of d e] sort_dicts_get [of d e] assms canonical_bytes_inj by blast

theorem canonical_bytes_order_witness:
  "canonical_bytes (PDict [(''a'', PInt 1), (''b'', PNone)]) = canonical_bytes (PDict [(''b'', PNone), (''a'', PInt 1)])"
  using canonical_bytes_order [of "[(''a'', PInt 1), (''b'', PNone)]" "[(''b'', PNone), (''a'', PInt 1)]"]
  by simp

end
