(* ===== verification/PyConv.thy ===== *)
theory PyConv
  imports PyBase
begin

text \<open>
  Conversions of JSON values that may raise: \<open>int\<close>, \<open>dict\<close>, subscripts, and the boolean reading of
  settings (\<open>_as_bool\<close>) that several components copy.
\<close>

datatype py_error = PyTypeError | PyValueError | PyKeyError | PyRecursionError | PyAttributeError | PyRuntimeError

text \<open>\<open>int(v)\<close> on the values JSON gives.  The digit limit of \<open>int\<close> on strings is not represented.\<close>

definition is_dec :: "char \<Rightarrow> bool" where
  "is_dec c = (48 \<le> code_point c \<and> code_point c \<le> 57)"

fun digits_value :: "int \<Rightarrow> bool \<Rightarrow> string \<Rightarrow> int option" where
  \<comment> \<open>one underscore may stand between two digits\<close>
  "digits_value acc prev [] = (if prev then Some acc else None)"
| "digits_value acc prev (c # cs) =
     (if is_dec c then digits_value (acc * 10 + int (code_point c) - 48) True cs
      else if c = CHR ''_'' \<and> prev then digits_value acc False cs
      else None)"

definition parse_int :: "string \<Rightarrow> int option" where
  "parse_int s = (case py_strip s of
     [] \<Rightarrow> None
   | c # cs \<Rightarrow> if c = CHR ''-'' then map_option uminus (digits_value 0 False cs)
              else if c = CHR ''+'' then digits_value 0 False cs
              else digits_value 0 False (c # cs))"

fun int_of :: "pyval \<Rightarrow> py_error + int" where
  "int_of (PInt i) = Inr i"
| "int_of (PBool b) = Inr (if b then 1 else 0)"
| "int_of (PStr s) = (case parse_int s of None \<Rightarrow> Inl PyValueError | Some i \<Rightarrow> Inr i)"
| "int_of _ = Inl PyTypeError"

definition get_int :: "pydict \<Rightarrow> string \<Rightarrow> int \<Rightarrow> py_error + int" where
  \<comment> \<open>\<open>int(raw.get(k) or default)\<close>\<close>
  "get_int d k dflt = int_of (py_or (dict_get d k) (PInt dflt))"

fun dict_arg :: "pyval \<Rightarrow> py_error + pydict" where
  \<comment> \<open>\<open>dict(v or {})\<close>; a list of pairs, of which \<open>dict\<close> makes a dictionary, is an error here\<close>
  "dict_arg (PDict d) = Inr d"
| "dict_arg (PStr s) = (if s = [] then Inr [] else Inl PyValueError)"
| "dict_arg v = (if truthy v then Inl PyTypeError else Inr [])"

fun list_arg :: "pyval \<Rightarrow> py_error + pyval list" where
  \<comment> \<open>\<open>list(v or [])\<close>\<close>
  "list_arg (PList xs) = Inr xs"
| "list_arg (PStr s) = Inr (map (\<lambda>c. PStr [c]) s)"
| "list_arg (PDict d) = Inr (map (\<lambda>(k, v). PStr k) d)"
| "list_arg v = (if truthy v then Inl PyTypeError else Inr [])"

definition as_bool :: "pyval \<Rightarrow> bool \<Rightarrow> bool" where
  "as_bool v dflt = (case v of
     PBool b \<Rightarrow> b
   | _ \<Rightarrow> let t = py_lower (py_strip (py_str (py_or v (PStr [])))) in
          if t \<in> {''1'', ''true'', ''yes'', ''on'', ''y''} then True
          else if t \<in> {''0'', ''false'', ''no'', ''off'', ''n''} then False
          else dflt)"

lemma as_bool_PBool [simp]: "as_bool (PBool b) d = b"
  by (simp add: as_bool_def)

text \<open>\<open>d[k]\<close>, and the values that must be dictionaries or strings for the next access to work.\<close>

definition subscript :: "pydict \<Rightarrow> string \<Rightarrow> py_error + pyval" where
  "subscript d k = (case map_of d k of None \<Rightarrow> Inl PyKeyError | Some v \<Rightarrow> Inr v)"

fun as_dict :: "pyval \<Rightarrow> py_error + pydict" where
  "as_dict (PDict d) = Inr d"
| "as_dict _ = Inl PyTypeError"

fun as_str :: "pyval \<Rightarrow> py_error + string" where
  "as_str (PStr s) = Inr s"
| "as_str _ = Inl PyTypeError"

lemma subscript_Cons [simp]:
  "subscript ((k, v) # d) k' = (if k = k' then Inr v else subscript d k')"
  by (simp add: subscript_def)

end
