(* ===== verification/PyCodec.thy ===== *)
theory PyCodec
  imports PyJson PyConv "HOL-Library.Sublist"
begin

text \<open>
  Encodings that several components share: \<open>json.dumps(..., ensure_ascii=True, sort_keys=True)\<close>, hexadecimal
  digests, \<open>base64\<close>, and paths below a root directory (\<open>Path.resolve\<close> on a file system without symbolic
  links).
\<close>

section \<open>ASCII texts\<close>

definition ascii_char :: "char \<Rightarrow> string" where
  \<comment> \<open>characters above tilde occur in JSON texts inside strings only\<close>
  "ascii_char c = (if code_point c \<le> 126 then [c]
     else [CHR 0x5C, CHR ''u'', CHR ''0'', CHR ''0'', hex_char (code_point c div 16), hex_char (code_point c mod 16)])"

definition to_ascii :: "string \<Rightarrow> string" where
  "to_ascii s = concat (map ascii_char s)"

definition ascii_text :: "pyval \<Rightarrow> string" where
  "ascii_text v = to_ascii (json_text (sort_dicts v))"

text \<open>The escapes that \<open>ensure_ascii\<close> adds can be taken back, so the text still determines the value.\<close>

definition hex_val :: "char \<Rightarrow> nat" where
  "hex_val c = (let n = code_point c in if n < 58 then n - 48 else n - 87)"

fun from_ascii :: "string \<Rightarrow> string" where
  "from_ascii [] = []"
| "from_ascii (c # cs) =
     (if c \<noteq> CHR 0x5C then c # from_ascii cs
      else case cs of
        [] \<Rightarrow> [c]
      | d # ds \<Rightarrow>
          if d = CHR ''u'' \<and> 4 \<le> length ds then
            (let n = 16 * hex_val (ds ! 2) + hex_val (ds ! 3) in
             if 126 < n then char_of n # from_ascii (drop 4 ds) else c # d # take 4 ds @ from_ascii (drop 4 ds))
          else c # d # from_ascii ds)"

definition transparent :: "string \<Rightarrow> bool" where
  "transparent t = (\<forall>r. from_ascii (to_ascii t @ r) = t @ from_ascii r)"

lemma to_ascii_simps [simp]:
  "to_ascii [] = []" "to_ascii (c # s) = ascii_char c @ to_ascii s" "to_ascii (s @ t) = to_ascii s @ to_ascii t"
  by (simp_all add: to_ascii_def)

lemma transparent_append: "transparent s \<Longrightarrow> transparent t \<Longrightarrow> transparent (s @ t)"
  by (simp add: transparent_def)

lemma transparent_concat: "\<forall>s \<in> set ss. transparent s \<Longrightarrow> transparent (concat ss)"
  by (induction ss) (auto simp: transparent_append, simp add: transparent_def)

lemma hex_val_char: "n < 16 \<Longrightarrow> hex_val (hex_char n) = n"
  by (auto simp: hex_val_def hex_char_def code_point_char_of Let_def)

lemma from_ascii_char: "c \<noteq> CHR 0x5C \<Longrightarrow> from_ascii (ascii_char c @ r) = c # from_ascii r"
proof (cases "code_point c \<le> 126")
  case True
  assume "c \<noteq> CHR 0x5C"
  with True show ?thesis by (simp add: ascii_char_def)
next
  case False
  have "code_point c div 16 < 16" using code_point_less [of c] by linarith
  then have "16 * hex_val (hex_char (code_point c div 16)) + hex_val (hex_char (code_point c mod 16)) = code_point c"
    by (simp add: hex_val_char)
  moreover have "char_of (code_point c) = c" by (simp add: code_point_def)
  ultimately show ?thesis using False by (simp add: ascii_char_def)
qed

lemma transparent_plain: "CHR 0x5C \<notin> set s \<Longrightarrow> transparent s"
  by (induction s) (auto simp: transparent_def from_ascii_char simp del: from_ascii.simps(2))

lemma transparent_esc: "transparent (json_esc c)"
proof (cases "esc_letter c")
  case (Some l)
  then have l: "l \<noteq> CHR ''u''" "code_point l \<le> 126"
    by (auto simp: esc_letter_def code_point_def split: if_splits)
  have "code_point (CHR 0x5C) = 92" by (simp add: code_point_def)
  with l Some show ?thesis by (simp add: transparent_def json_esc_def ascii_char_def)
next
  case None
  show ?thesis
  proof (cases "code_point c < 32")
    case True
    let ?a = "hex_char (code_point c div 16)" and ?b = "hex_char (code_point c mod 16)"
    have v: "16 * hex_val ?a + hex_val ?b = code_point c" using True by (simp add: hex_val_char)
    have small: "code_point (hex_char n) \<le> 126" if "n < 16" for n
      using that by (simp add: hex_char_def code_point_char_of)
    have "code_point c div 16 < 16" "code_point c mod 16 < 16" using True by simp_all
    note asc = small [OF this(1)] small [OF this(2)]
    have cp: "code_point (CHR 0x5C) = 92" "code_point (CHR ''u'') = 117" "code_point (CHR ''0'') = 48"
      by (simp_all add: code_point_def)
    show ?thesis using True None v asc by (simp add: transparent_def json_esc_def ascii_char_def cp Let_def)
  next
    case False
    then have "json_esc c = [c]" using None by (simp add: json_esc_def)
    moreover have "c \<noteq> CHR 0x5C" using esc_letter_None [OF None] by blast
    ultimately show ?thesis by (simp add: transparent_plain)
  qed
qed

lemma transparent_str: "transparent (json_str s)"
proof -
  have "transparent (concat (map json_esc s))" by (rule transparent_concat) (simp add: transparent_esc)
  moreover have "transparent [CHR 0x22]" by (simp add: transparent_plain)
  ultimately have "transparent ([CHR 0x22] @ concat (map json_esc s) @ [CHR 0x22])"
    by (intro transparent_append)
  then show ?thesis by (simp add: json_str_def)
qed

lemma transparent_join: "\<forall>s \<in> set ss. transparent s \<Longrightarrow> transparent sep \<Longrightarrow> transparent (py_join sep ss)"
  by (induction sep ss rule: py_join.induct) (auto simp: transparent_append, simp add: transparent_def)

lemma digit_plain: "CHR 0x5C \<notin> set (show_nat n)"
proof
  assume "CHR 0x5C \<in> set (show_nat n)"
  then have "is_digit (CHR 0x5C)" using show_nat_digits [of n] by blast
  then show False by (simp add: is_digit_def code_point_def)
qed

lemma transparent_json: "transparent (json_text v)"
proof (induction v)
  case (PInt i)
  show ?case by (rule transparent_plain) (auto simp: show_int_def digit_plain)
next
  case (PList xs)
  have "transparent (py_join '','' (map json_text xs))"
    by (rule transparent_join) (auto simp: PList transparent_plain)
  then have "transparent (''['' @ py_join '','' (map json_text xs) @ '']'')"
    by (intro transparent_append) (simp_all add: transparent_plain)
  then show ?case by simp
next
  case (PDict d)
  let ?f = "\<lambda>(k, v). json_str k @ '':'' @ json_text v"
  have "transparent (?f x)" if "x \<in> set d" for x
  proof -
    obtain k v where x: "x = (k, v)" by force
    have "transparent (json_text v)" using PDict that x by auto
    then have "transparent (json_str k @ '':'' @ json_text v)"
      by (intro transparent_append transparent_str) (simp_all add: transparent_plain)
    then show ?thesis by (simp add: x)
  qed
  then have "transparent (py_join '','' (map ?f d))"
    by (intro transparent_join) (auto simp: transparent_plain)
  then have "transparent (''{'' @ py_join '','' (map ?f d) @ ''}'')"
    by (intro transparent_append) (simp_all add: transparent_plain)
  then show ?case by simp
qed (auto simp: transparent_plain transparent_str)

lemma ascii_text_inj: "ascii_text v = ascii_text w \<longleftrightarrow> sort_dicts v = sort_dicts w"
proof
  assume eq: "ascii_text v = ascii_text w"
  have "from_ascii (ascii_text x) = json_text (sort_dicts x)" for x
  proof -
    have "from_ascii (to_ascii (json_text (sort_dicts x)) @ []) = json_text (sort_dicts x) @ from_ascii []"
      using transparent_json [of "sort_dicts x"] unfolding transparent_def by blast
    then show ?thesis by (simp add: ascii_text_def)
  qed
  with eq have "json_text (sort_dicts v) = json_text (sort_dicts w)" by metis
  then show "sort_dicts v = sort_dicts w" by (simp add: json_text_inj)
qed (simp add: ascii_text_def)

section \<open>Hexadecimal digests\<close>

definition hex64 :: "char set" where
  "hex64 = set ''0123456789abcdef''"

definition is_sha256_hex :: "string \<Rightarrow> bool" where
  "is_sha256_hex v = (length v = 64 \<and> list_all (\<lambda>c. c \<in> hex64) v)"

definition sha_digest :: "(string \<Rightarrow> string) \<Rightarrow> bool" where
  "sha_digest sha = (\<forall>b. is_sha256_hex (sha b))"

definition norm_hash :: "string \<Rightarrow> string" where
  \<comment> \<open>\<open>.strip().lower()\<close>\<close>
  "norm_hash s = py_lower (py_strip s)"

section \<open>Base 64\<close>

definition b64_char :: "nat \<Rightarrow> char" where
  "b64_char n = (if n < 26 then char_of (65 + n) else if n < 52 then char_of (71 + n) else if n < 62 then char_of (n - 4)
     else if n = 62 then CHR ''+'' else CHR ''/'')"

definition b64_val :: "char \<Rightarrow> nat option" where
  "b64_val c = (let n = code_point c in
     if 65 \<le> n \<and> n \<le> 90 then Some (n - 65) else if 97 \<le> n \<and> n \<le> 122 then Some (n - 71)
     else if 48 \<le> n \<and> n \<le> 57 then Some (n + 4)
     else if c = CHR ''+'' then Some 62 else if c = CHR ''/'' then Some 63 else None)"

fun b64_encode :: "string \<Rightarrow> string" where
  "b64_encode [] = []"
| "b64_encode [a] =
     (let x = code_point a in [b64_char (x div 4), b64_char (x mod 4 * 16), CHR ''='', CHR ''=''])"
| "b64_encode [a, b] =
     (let x = code_point a; y = code_point b in
      [b64_char (x div 4), b64_char (x mod 4 * 16 + y div 16), b64_char (y mod 16 * 4), CHR ''=''])"
| "b64_encode (a # b # c # s) =
     (let x = code_point a; y = code_point b; z = code_point c in
      [b64_char (x div 4), b64_char (x mod 4 * 16 + y div 16), b64_char (y mod 16 * 4 + z div 64), b64_char (z mod 64)]
      @ b64_encode s)"

fun b64_decode :: "string \<Rightarrow> string option" where
  \<comment> \<open>\<open>base64.b64decode(s, validate=True)\<close>; \<open>None\<close> when it raises\<close>
  "b64_decode [] = Some []"
| "b64_decode (a # b # c # d # s) = (case (b64_val a, b64_val b) of
     (Some x, Some y) \<Rightarrow>
       if c = CHR ''='' then (if d = CHR ''='' \<and> s = [] then Some [char_of (x * 4 + y div 16)] else None)
       else (case b64_val c of
         None \<Rightarrow> None
       | Some z \<Rightarrow>
           let two = [char_of (x * 4 + y div 16), char_of (y mod 16 * 16 + z div 4)] in
           if d = CHR ''='' then (if s = [] then Some two else None)
           else (case b64_val d of
             None \<Rightarrow> None
           | Some w \<Rightarrow> map_option (\<lambda>r. two @ char_of (z mod 4 * 64 + w) # r) (b64_decode s)))
   | _ \<Rightarrow> None)"
| "b64_decode _ = None"

lemma b64_val_char: "n < 64 \<Longrightarrow> b64_val (b64_char n) = Some n"
proof -
  assume "n < 64"
  then consider "n < 26" | "26 \<le> n" "n < 52" | "52 \<le> n" "n < 62" | "n = 62" | "n = 63" by linarith
  then show ?thesis
  proof cases
    case 3
    then have "b64_char n = char_of (n - 4)" "code_point (char_of (n - 4)) = n - 4" "48 \<le> n - 4" "n - 4 \<le> 57" "n - 4 + 4 = n"
      by (auto simp: b64_char_def code_point_char_of)
    then show ?thesis by (simp add: b64_val_def Let_def)
  qed (simp_all add: b64_val_def b64_char_def code_point_char_of Let_def, simp_all add: code_point_def)
qed

lemma b64_char_pad: "n < 64 \<Longrightarrow> b64_char n \<noteq> CHR ''=''"
  using b64_val_char [of n] by (auto simp: b64_val_def code_point_def)

lemma char_of_code [simp]: "char_of (code_point c) = c"
  by (simp add: code_point_def)

lemma pack:
  fixes a b m :: nat
  assumes "b < m"
  shows "(a * m + b) div m = a" "(a * m + b) mod m = b"
  using assms by simp_all

lemma b64_pack:
  fixes x y z :: nat
  assumes "x < 256" "y < 256" "z < 256"
  shows "x div 4 < 64" "x mod 4 * 16 + y div 16 < 64" "y mod 16 * 4 + z div 64 < 64"
    "x div 4 * 4 + (x mod 4 * 16 + y div 16) div 16 = x"
    "(x mod 4 * 16 + y div 16) mod 16 * 16 + (y mod 16 * 4 + z div 64) div 4 = y"
    "(y mod 16 * 4 + z div 64) mod 4 * 64 + z mod 64 = z"
proof -
  have y: "y div 16 < 16" using assms(2) by linarith
  have z: "z div 64 < 4" using assms(3) by linarith
  show "x div 4 < 64" using assms(1) by linarith
  have "x mod 4 < 4" "y mod 16 < 16" by simp_all
  with y z show "x mod 4 * 16 + y div 16 < 64" "y mod 16 * 4 + z div 64 < 64" by linarith+
  show "x div 4 * 4 + (x mod 4 * 16 + y div 16) div 16 = x"
    unfolding pack(1) [OF y] by (rule div_mult_mod_eq)
  show "(x mod 4 * 16 + y div 16) mod 16 * 16 + (y mod 16 * 4 + z div 64) div 4 = y"
    unfolding pack(2) [OF y] pack(1) [OF z] by (rule div_mult_mod_eq)
  show "(y mod 16 * 4 + z div 64) mod 4 * 64 + z mod 64 = z"
    unfolding pack(2) [OF z] by (rule div_mult_mod_eq)
qed

lemma b64_decode_encode: "b64_decode (b64_encode s) = Some s"
proof (induction s rule: b64_encode.induct)
  case (2 a)
  let ?x = "code_point a"
  have n: "?x div 4 < 64" using code_point_less [of a] by linarith
  have "?x mod 4 < 4" by simp
  then have m: "?x mod 4 * 16 < 64" by linarith
  have "char_of (?x div 4 * 4 + ?x mod 4 * 16 div 16) = a" by simp
  with n m show ?case by (simp add: b64_val_char Let_def)
next
  case (3 a b)
  let ?x = "code_point a" and ?y = "code_point b"
  note n = b64_pack [of ?x ?y 0, OF code_point_less code_point_less, simplified]
  have y: "?y div 16 < 16" using code_point_less [of b] by linarith
  have "char_of (?x div 4 * 4 + (?x mod 4 * 16 + ?y div 16) div 16) = a"
    "char_of ((?x mod 4 * 16 + ?y div 16) mod 16 * 16 + ?y mod 16 * 4 div 4) = b"
    using n(5) by (simp_all add: n(4))
  moreover have "?y mod 16 * 4 < 64" using n(3) by simp
  ultimately show ?case using n(1,2) by (simp add: b64_val_char b64_char_pad Let_def del: char_of_code)
next
  case (4 a b c s)
  let ?x = "code_point a" and ?y = "code_point b" and ?z = "code_point c"
  note n = b64_pack [of ?x ?y ?z, OF code_point_less code_point_less code_point_less]
  have "char_of (?x div 4 * 4 + (?x mod 4 * 16 + ?y div 16) div 16) = a"
    "char_of ((?x mod 4 * 16 + ?y div 16) mod 16 * 16 + (?y mod 16 * 4 + ?z div 64) div 4) = b"
    "char_of ((?y mod 16 * 4 + ?z div 64) mod 4 * 64 + ?z mod 64) = c" by (simp_all only: n char_of_code)
  with n(1-3) 4 show ?case by (simp add: b64_val_char b64_char_pad Let_def)
qed simp

section \<open>Paths below a directory\<close>

fun parts_at :: "char \<Rightarrow> string \<Rightarrow> string list" where
  "parts_at d [] = [[]]"
| "parts_at d (c # s) = (case parts_at d s of
     [] \<Rightarrow> []
   | p # ps \<Rightarrow> if c = d then [] # p # ps else (c # p) # ps)"

fun path_step :: "string list \<Rightarrow> string \<Rightarrow> string list" where
  "path_step p part =
     (if part = [] \<or> part = ''.'' then p else if part = ''..'' then butlast p else p @ [part])"

definition resolve_path :: "string list \<Rightarrow> string \<Rightarrow> string list" where
  \<comment> \<open>\<open>p.resolve() if p.is_absolute() else (root / p).resolve()\<close>\<close>
  "resolve_path root raw = foldl path_step (if py_prefix ''/'' raw then [] else root) (parts_at (CHR ''/'') raw)"

definition path_within :: "string list \<Rightarrow> string list \<Rightarrow> bool" where
  "path_within p root = prefix root p"

definition path_text :: "string list \<Rightarrow> string" where
  "path_text p = (if p = [] then ''/'' else concat (map (\<lambda>c. CHR ''/'' # c) p))"

definition slashes :: "string \<Rightarrow> string" where
  \<comment> \<open>the backslash replaced by the slash\<close>
  "slashes s = map (\<lambda>c. if c = CHR 0x5C then CHR ''/'' else c) s"

definition rel_text :: "string list \<Rightarrow> string list \<Rightarrow> string" where
  \<comment> \<open>\<open>str(p.relative_to(root))\<close> with slashes\<close>
  "rel_text root p = (if p = root then ''.'' else slashes (py_join ''/'' (drop (length root) p)))"

definition plain_part :: "string \<Rightarrow> bool" where
  "plain_part c = (c \<noteq> [] \<and> c \<noteq> ''.'' \<and> c \<noteq> ''..'' \<and> CHR ''/'' \<notin> set c)"

lemma parts_at_parts: "\<forall>c \<in> set (parts_at d s). d \<notin> set c"
proof (induction s)
  case (Cons a s)
  then show ?case by (cases "parts_at d s") auto
qed simp

lemma path_step_plain: "list_all plain_part p \<Longrightarrow> CHR ''/'' \<notin> set c \<Longrightarrow> list_all plain_part (path_step p c)"
  by (auto simp: list_all_iff plain_part_def dest: in_set_butlastD)

lemma resolve_path_plain:
  assumes "list_all plain_part root"
  shows "list_all plain_part (resolve_path root raw)"
proof -
  have "list_all plain_part p \<Longrightarrow> \<forall>c \<in> set cs. CHR ''/'' \<notin> set c \<Longrightarrow> list_all plain_part (foldl path_step p cs)" for p cs
    by (induction cs arbitrary: p) (simp_all add: path_step_plain del: path_step.simps)
  from this [OF _ parts_at_parts] assms show ?thesis by (simp add: resolve_path_def)
qed

end
