(* ===== verification/ArlWitness.thy ===== *)
theory ArlWitness
  imports PyCodec ArlLayer
begin

text \<open>
  \<open>modules/arbitration_review/witness.py\<close>: the hash-chained ledger of witness footprints.  SHA-256 in
  hexadecimal is the parameter \<open>sha\<close> (\<open>hashlib\<close>); what the code relies on is that it returns 64
  lower-case hexadecimal digits (\<open>sha_digest\<close>).  Nothing is assumed about collisions: the tamper
  theorem offers a collision as the other way out.
\<close>

type_synonym hash_fun = "string \<Rightarrow> string"

definition witness_schema :: string where
  "witness_schema = ''ester.arl.witness_footprint.v1''"

record footprint =
  fp_schema :: string
  fp_footprint_id :: string
  fp_witness_id :: string
  fp_witness_kind :: string
  fp_dispute_id :: string
  fp_event_id :: string
  fp_event_type :: arl_event_type
  fp_occurred_at :: string
  fp_recorded_at :: string
  fp_event_hash :: string
  fp_payload_hash :: string
  fp_prev_hash :: string
  fp_footprint_hash :: string
  fp_details :: pydict

datatype witness_error = Witness_ValueError string | Witness_DecodeError

definition footprint_record :: "footprint \<Rightarrow> pydict" where
  "footprint_record f =
     [(''schema'', PStr (fp_schema f)), (''footprint_id'', PStr (fp_footprint_id f)),
      (''witness_id'', PStr (fp_witness_id f)), (''witness_kind'', PStr (fp_witness_kind f)),
      (''dispute_id'', PStr (fp_dispute_id f)), (''event_id'', PStr (fp_event_id f)),
      (''event_type'', PStr (arl_event_value (fp_event_type f))),
      (''occurred_at'', PStr (fp_occurred_at f)), (''recorded_at'', PStr (fp_recorded_at f)),
      (''event_hash'', PStr (fp_event_hash f)), (''payload_hash'', PStr (fp_payload_hash f)),
      (''prev_hash'', PStr (fp_prev_hash f)), (''footprint_hash'', PStr (fp_footprint_hash f)),
      (''details'', PDict (fp_details f))]"

definition event_hash :: "hash_fun \<Rightarrow> arl_event \<Rightarrow> string" where
  "event_hash sha e = sha (canonical_bytes (arl_event_record e))"

definition payload_hash :: "hash_fun \<Rightarrow> arl_event \<Rightarrow> string" where
  "payload_hash sha e = sha (canonical_bytes (PDict (ae_payload e)))"

definition footprint_hash :: "hash_fun \<Rightarrow> pyval \<Rightarrow> string" where
  "footprint_hash sha row =
     sha (canonical_bytes (PDict (dict_set ''footprint_hash'' (PStr [])
       (case row of PDict d \<Rightarrow> d | _ \<Rightarrow> []))))"

definition with_footprint_hash :: "hash_fun \<Rightarrow> footprint \<Rightarrow> footprint" where
  "with_footprint_hash sha f = f\<lparr>fp_footprint_hash := footprint_hash sha (PDict (footprint_record f))\<rparr>"

definition build_witness_footprint ::
  "hash_fun \<Rightarrow> arl_event \<Rightarrow> string \<Rightarrow> string \<Rightarrow> string \<Rightarrow> string option \<Rightarrow> pydict \<Rightarrow> string \<Rightarrow> string \<Rightarrow>
   witness_error + footprint" where
  "build_witness_footprint sha event witness_id witness_kind prev_hash recorded_at details tm u =
     (let wid = py_strip witness_id;
          prev = norm_hash prev_hash
      in if wid = [] then Inl (Witness_ValueError ''witness_id_required'')
         else if prev \<noteq> [] \<and> \<not> is_sha256_hex prev then Inl (Witness_ValueError ''prev_hash_invalid'')
         else Inr (with_footprint_hash sha
           \<lparr>fp_schema = witness_schema, fp_footprint_id = ''arl_witness:'' @ u, fp_witness_id = wid,
            fp_witness_kind = str_or (Some (py_strip (str_or (Some witness_kind) ''arl_sidecar''))) ''arl_sidecar'',
            fp_dispute_id = ae_dispute_id event, fp_event_id = ae_event_id event,
            fp_event_type = ae_event_type event, fp_occurred_at = ae_occurred_at event,
            fp_recorded_at = str_or recorded_at tm, fp_event_hash = event_hash sha event,
            fp_payload_hash = payload_hash sha event, fp_prev_hash = prev,
            fp_footprint_hash = [], fp_details = details\<rparr>))"

definition rep_ok :: "pydict \<Rightarrow> bool" where
  \<comment> \<open>\<open>bool(rep.get("ok"))\<close>\<close>
  "rep_ok rep = truthy (dict_get rep ''ok'')"

definition verify_witness_footprint :: "hash_fun \<Rightarrow> pyval \<Rightarrow> pydict" where
  "verify_witness_footprint sha row =
     (case row of
        PDict payload \<Rightarrow>
          if dict_get payload ''schema'' \<noteq> PStr witness_schema then
            [(''ok'', PBool False), (''error_code'', PStr ''ARL_WITNESS_SCHEMA_INVALID''),
             (''schema'', dict_get payload ''schema'')]
          else
            let claimed = norm_hash (get_str payload ''footprint_hash'') in
            if \<not> is_sha256_hex claimed then
              [(''ok'', PBool False), (''error_code'', PStr ''ARL_WITNESS_HASH_INVALID''),
               (''footprint_hash'', PStr claimed)]
            else
              let prev = norm_hash (get_str payload ''prev_hash'') in
              if prev \<noteq> [] \<and> \<not> is_sha256_hex prev then
                [(''ok'', PBool False), (''error_code'', PStr ''ARL_WITNESS_PREV_HASH_INVALID''),
                 (''prev_hash'', PStr prev)]
              else
                let computed = footprint_hash sha row in
                if computed \<noteq> claimed then
                  [(''ok'', PBool False), (''error_code'', PStr ''ARL_WITNESS_FOOTPRINT_HASH_MISMATCH''),
                   (''claimed_hash'', PStr claimed), (''computed_hash'', PStr computed)]
                else
                  [(''ok'', PBool True), (''schema'', PStr witness_schema),
                   (''footprint_hash'', PStr claimed), (''prev_hash'', PStr prev)]
      | _ \<Rightarrow> [(''ok'', PBool False), (''error_code'', PStr ''ARL_WITNESS_INVALID''),
              (''error'', PStr ''invalid_payload'')])"

section \<open>The ledger\<close>

definition witness_path :: "path \<Rightarrow> path" where
  "witness_path root = root @ [''arl'', ''witness.jsonl'']"

definition append_footprint :: "path \<Rightarrow> footprint \<Rightarrow> files \<Rightarrow> files" where
  "append_footprint root f s = append_line (witness_path root) (PDict (footprint_record f)) s"

definition load_footprints :: "path \<Rightarrow> files \<Rightarrow> io_error + pydict list" where
  "load_footprints root s = load_rows (witness_path root) s"

definition rows_last_hash :: "pydict list \<Rightarrow> string" where
  "rows_last_hash rows = (if rows = [] then [] else norm_hash (get_str (last rows) ''footprint_hash''))"

definition last_hash :: "path \<Rightarrow> files \<Rightarrow> io_error + string" where
  "last_hash root s = map_sum id rows_last_hash (load_footprints root s)"

definition witness_append_event ::
  "hash_fun \<Rightarrow> path \<Rightarrow> arl_event \<Rightarrow> string \<Rightarrow> string \<Rightarrow> pydict \<Rightarrow> string \<Rightarrow> string \<Rightarrow> files \<Rightarrow>
   witness_error + footprint \<times> files" where
  "witness_append_event sha root event witness_id witness_kind details tm u s =
     (case last_hash root s of
        Inl _ \<Rightarrow> Inl Witness_DecodeError
      | Inr prev \<Rightarrow>
          bindE (build_witness_footprint sha event witness_id witness_kind prev None details tm u)
            (\<lambda>f. Inr (f, append_footprint root f s)))"


fun verify_rows :: "hash_fun \<Rightarrow> nat \<Rightarrow> string \<Rightarrow> pydict list \<Rightarrow> pydict + string" where
  \<comment> \<open>the loop of \<open>verify_chain\<close>: a report of the first failure, or the last hash\<close>
  "verify_rows sha index prev_hash [] = Inr prev_hash"
| "verify_rows sha index prev_hash (row # rows) =
     (let rep = verify_witness_footprint sha (PDict row) in
      if \<not> rep_ok rep then Inl (dict_set ''index'' (PInt (int index)) rep)
      else
        let row_prev = norm_hash (get_str row ''prev_hash'') in
        if row_prev \<noteq> prev_hash then
          Inl [(''ok'', PBool False), (''error_code'', PStr ''ARL_WITNESS_PREV_HASH_MISMATCH''),
               (''index'', PInt (int index)), (''expected_prev_hash'', PStr prev_hash),
               (''actual_prev_hash'', PStr row_prev)]
        else verify_rows sha (Suc index) (norm_hash (get_str row ''footprint_hash'')) rows)"

definition verify_chain_rows :: "hash_fun \<Rightarrow> pydict list \<Rightarrow> pydict" where
  "verify_chain_rows sha rows = (case verify_rows sha 0 [] rows of
     Inl rep \<Rightarrow> rep
   | Inr prev \<Rightarrow> [(''ok'', PBool True), (''schema'', PStr witness_schema),
       (''footprints'', PInt (int (length rows))), (''last_hash'', PStr prev)])"

definition verify_chain :: "hash_fun \<Rightarrow> path \<Rightarrow> files \<Rightarrow> io_error + pydict" where
  "verify_chain sha root s = map_sum id (verify_chain_rows sha) (load_footprints root s)"

section \<open>Hashes and their normal form\<close>

lemma hex64_code: "c \<in> hex64 \<Longrightarrow> (48 \<le> code_point c \<and> code_point c \<le> 57) \<or> (97 \<le> code_point c \<and> code_point c \<le> 102)"
  by (auto simp: hex64_def code_point_def)

lemma hex64_normal: "c \<in> hex64 \<Longrightarrow> \<not> is_space c \<and> lower_char c = c"
  using hex64_code [of c] by (auto simp: is_space_def lower_char_def Let_def)

lemma norm_hash_hex [simp]: "is_sha256_hex h \<Longrightarrow> norm_hash h = h"
  by (auto simp: is_sha256_hex_def list_all_iff norm_hash_def py_strip_def py_lower_def
        strip_by_id hex64_normal intro!: map_idI)

lemma norm_hash_Nil [simp]: "norm_hash [] = []"
  by (simp add: norm_hash_def py_strip_def py_lower_def strip_by_def)

lemma is_sha256_hex_nonempty: "is_sha256_hex h \<Longrightarrow> h \<noteq> []"
  by (auto simp: is_sha256_hex_def)

text \<open>The value that is hashed does not depend on the stored hash.\<close>

definition blanked :: "pydict \<Rightarrow> pydict" where
  "blanked row = dict_set ''footprint_hash'' (PStr []) row"

lemma footprint_hash_dict: "footprint_hash sha (PDict row) = sha (canonical_bytes (PDict (blanked row)))"
  by (simp add: footprint_hash_def blanked_def)

lemma blanked_with_hash [simp]:
  "blanked (footprint_record (f\<lparr>fp_footprint_hash := h\<rparr>)) = blanked (footprint_record f)"
  by (simp add: blanked_def footprint_record_def dict_set_def)

text \<open>When a row verifies.\<close>

lemma verify_footprint_ok_iff:
  "rep_ok (verify_witness_footprint sha (PDict row)) \<longleftrightarrow>
     dict_get row ''schema'' = PStr witness_schema
   \<and> is_sha256_hex (norm_hash (get_str row ''footprint_hash''))
   \<and> (norm_hash (get_str row ''prev_hash'') = [] \<or> is_sha256_hex (norm_hash (get_str row ''prev_hash'')))
   \<and> footprint_hash sha (PDict row) = norm_hash (get_str row ''footprint_hash'')"
  by (auto simp: verify_witness_footprint_def rep_ok_def Let_def dict_get_def)

section \<open>The chain\<close>

lemma build_footprint_Inr:
  assumes "build_witness_footprint sha e wid wk prev rec_at d tm u = Inr f" and "sha_digest sha"
  shows "rep_ok (verify_witness_footprint sha (PDict (footprint_record f)))
       \<and> norm_hash (get_str (footprint_record f) ''prev_hash'') = norm_hash prev
       \<and> norm_hash (get_str (footprint_record f) ''footprint_hash'') = fp_footprint_hash f
       \<and> is_sha256_hex (fp_footprint_hash f)
       \<and> fp_event_hash f = event_hash sha e \<and> fp_dispute_id f = ae_dispute_id e"
proof -
  from assms(1) obtain g where f: "f = with_footprint_hash sha g" and g: "fp_schema g = witness_schema"
      "fp_prev_hash g = norm_hash prev" "fp_event_hash g = event_hash sha e" "fp_dispute_id g = ae_dispute_id e"
    and prev: "norm_hash prev = [] \<or> is_sha256_hex (norm_hash prev)"
    by (auto simp: build_witness_footprint_def Let_def split: if_splits)
  let ?h = "footprint_hash sha (PDict (footprint_record g))"
  have h: "is_sha256_hex ?h" using assms(2) by (simp add: footprint_hash_dict sha_digest_def)
  have fields: "get_str (footprint_record f) ''footprint_hash'' = fp_footprint_hash f"
      "get_str (footprint_record f) ''prev_hash'' = fp_prev_hash f"
      "dict_get (footprint_record f) ''schema'' = PStr (fp_schema f)" for f
    by (simp_all add: footprint_record_def get_str_def dict_get_def)
  have fh: "fp_footprint_hash f = ?h" by (simp add: f with_footprint_hash_def)
  have "footprint_hash sha (PDict (footprint_record f)) = ?h"
    by (simp add: f with_footprint_hash_def footprint_hash_dict)
  then have "rep_ok (verify_witness_footprint sha (PDict (footprint_record f)))"
    using h prev g by (auto simp: verify_footprint_ok_iff fields f with_footprint_hash_def)
  then show ?thesis
    using h prev g fh by (auto simp: fields f with_footprint_hash_def)
qed

lemma build_footprint_ok_iff:
  "(\<exists>f. build_witness_footprint sha e wid wk prev rec_at d tm u = Inr f) \<longleftrightarrow>
     py_strip wid \<noteq> [] \<and> (norm_hash prev = [] \<or> is_sha256_hex (norm_hash prev))"
  by (auto simp: build_witness_footprint_def Let_def)

lemma verify_rows_append:
  "verify_rows sha i p (rows @ [r]) =
     bindE (verify_rows sha i p rows) (\<lambda>q. verify_rows sha (i + length rows) q [r])"
  by (induction sha i p rows rule: verify_rows.induct) (auto simp: Let_def)

lemma verify_rows_single:
  "verify_rows sha i q [r] = Inr h \<longleftrightarrow>
     rep_ok (verify_witness_footprint sha (PDict r)) \<and> norm_hash (get_str r ''prev_hash'') = q
   \<and> h = norm_hash (get_str r ''footprint_hash'')"
  by (auto simp: Let_def)

lemma verify_rows_last:
  assumes "verify_rows sha i [] rows = Inr q"
  shows "q = rows_last_hash rows \<and> (q = [] \<longleftrightarrow> rows = []) \<and> (q = [] \<or> is_sha256_hex q)"
  using assms
proof (cases rows rule: rev_cases)
  case Nil
  with assms show ?thesis by (simp add: rows_last_hash_def)
next
  case (snoc ys y)
  with assms obtain q' where "verify_rows sha (i + length ys) q' [y] = Inr q"
    by (auto simp: verify_rows_append bindE_Inr_iff simp del: verify_rows.simps)
  then have "q = norm_hash (get_str y ''footprint_hash'')" and "is_sha256_hex q"
    unfolding verify_rows_single by (auto simp: verify_footprint_ok_iff)
  with snoc show ?thesis by (auto simp: rows_last_hash_def dest: is_sha256_hex_nonempty)
qed

definition ledger_ok :: "hash_fun \<Rightarrow> path \<Rightarrow> files \<Rightarrow> bool" where
  "ledger_ok sha root s = (\<exists>rows q. load_footprints root s = Inr rows \<and> verify_rows sha 0 [] rows = Inr q)"

lemma ledger_ok_verify_chain:
  "ledger_ok sha root s \<longleftrightarrow> (\<exists>rep. verify_chain sha root s = Inr rep \<and> rep_ok rep)"
proof -
  have bad: "verify_rows sha i p rows = Inl rep \<Longrightarrow> \<not> rep_ok rep" for i p rows rep
    by (induction sha i p rows rule: verify_rows.induct)
      (auto simp: Let_def rep_ok_def dict_get_def split: if_splits)
  show ?thesis
    using bad
    by (cases "load_footprints root s")
      (auto simp: ledger_ok_def verify_chain_def verify_chain_rows_def rep_ok_def dict_get_def
        split: sum.splits)
qed

text \<open>The row of a footprint stays on one line exactly when the texts of the event and of the witness do.\<close>

definition row_plain :: "arl_event \<Rightarrow> string \<Rightarrow> string \<Rightarrow> pydict \<Rightarrow> string \<Rightarrow> string \<Rightarrow> bool" where
  "row_plain e wid wk d tm u = (next_line \<notin> set (u @ py_strip wid @ py_strip wk @ ae_dispute_id e @ ae_event_id e @ ae_occurred_at e @ tm)
     \<and> line_safe (PDict d))"

lemma plain_consts: "next_line \<notin> set witness_schema" "next_line \<notin> set ''arl_witness:''" "next_line \<notin> set ''arl_sidecar''"
  "next_line \<notin> set (arl_event_value ty)"
  by (simp_all add: next_line_def witness_schema_def) (cases ty; simp)

lemma plain_hex: "is_sha256_hex h \<Longrightarrow> next_line \<notin> set h"
  using hex64_code [of next_line] by (auto simp: is_sha256_hex_def list_all_iff next_line_def code_point_def)

lemma plain_kind: "next_line \<in> set (str_or (Some (py_strip (str_or (Some wk) ''arl_sidecar''))) ''arl_sidecar'') \<longleftrightarrow> next_line \<in> set (py_strip wk)"
proof -
  have "py_strip ''arl_sidecar'' = ''arl_sidecar''" by code_simp
  then show ?thesis using plain_consts(3) by auto
qed

lemma build_plain:
  assumes "build_witness_footprint sha e wid wk prev None d tm u = Inr f" "sha_digest sha"
  shows "line_safe (PDict (footprint_record f)) \<longleftrightarrow> row_plain e wid wk d tm u"
proof -
  have h: "next_line \<notin> set (sha b)" for b using assms(2) by (intro plain_hex) (simp add: sha_digest_def)
  have p: "next_line \<notin> set (norm_hash prev)" using assms(1) plain_hex by (auto simp: build_witness_footprint_def Let_def split: if_splits)
  have keys: "next_line \<notin> set k" if "k \<in> set (map fst (footprint_record f))" for k
    using that by (auto simp: footprint_record_def next_line_def)
  obtain g where f: "f = with_footprint_hash sha g" "g = \<lparr>fp_schema = witness_schema, fp_footprint_id = ''arl_witness:'' @ u, fp_witness_id = py_strip wid,
      fp_witness_kind = str_or (Some (py_strip (str_or (Some wk) ''arl_sidecar''))) ''arl_sidecar'', fp_dispute_id = ae_dispute_id e, fp_event_id = ae_event_id e,
      fp_event_type = ae_event_type e, fp_occurred_at = ae_occurred_at e, fp_recorded_at = tm, fp_event_hash = event_hash sha e,
      fp_payload_hash = payload_hash sha e, fp_prev_hash = norm_hash prev, fp_footprint_hash = [], fp_details = d\<rparr>"
    using assms(1) by (auto simp: build_witness_footprint_def Let_def split: if_splits)
  have "line_safe (PDict (footprint_record f)) \<longleftrightarrow> (\<forall>v \<in> snd ` set (footprint_record f). line_safe v)"
    using keys by (force simp: list_all_iff)
  also have "\<dots> \<longleftrightarrow> row_plain e wid wk d tm u"
    using h p plain_consts plain_kind [of wk]
    by (auto simp: footprint_record_def f with_footprint_hash_def row_plain_def event_hash_def payload_hash_def footprint_hash_def
        simp del: str_or.simps)
  finally show ?thesis .
qed

lemma witness_append_event_ok:
  assumes "sha_digest sha" and "load_footprints root s = Inr rows" and "verify_rows sha 0 [] rows = Inr q"
    and "witness_append_event sha root e wid wk d tm u s = Inr (f, s')" and "row_plain e wid wk d tm u"
  shows "load_footprints root s' = Inr (rows @ [footprint_record f])
       \<and> verify_rows sha 0 [] (rows @ [footprint_record f]) = Inr (fp_footprint_hash f)"
proof -
  have q: "q = rows_last_hash rows" and qn: "norm_hash q = q"
    using verify_rows_last [OF assms(3)] by auto
  from assms(2,4) have b: "build_witness_footprint sha e wid wk q None d tm u = Inr f"
    and s': "s' = append_footprint root f s"
    by (auto simp: witness_append_event_def last_hash_def bindE_Inr_iff q)
  note B = build_footprint_Inr [OF b assms(1)]
  have "load_footprints root s' = Inr (rows @ [footprint_record f])"
    using assms(2,5) build_plain [OF b assms(1)] load_rows_append_line by (simp add: s' append_footprint_def load_footprints_def)
  moreover have "verify_rows sha (0 + length rows) q [footprint_record f] = Inr (fp_footprint_hash f)"
    unfolding verify_rows_single using B qn by simp
  ultimately show ?thesis using assms(3) by (simp add: verify_rows_append del: verify_rows.simps)
qed



type_synonym ledger_op = "arl_event \<times> string \<times> string \<times> pydict \<times> string \<times> string"

fun ledger_step :: "hash_fun \<Rightarrow> path \<Rightarrow> ledger_op \<Rightarrow> files \<Rightarrow> witness_error + files" where
  "ledger_step sha root (e, wid, wk, d, tm, u) s = map_sum id snd (witness_append_event sha root e wid wk d tm u s)"

fun ledger_op_plain :: "ledger_op \<Rightarrow> bool" where
  "ledger_op_plain (e, wid, wk, d, tm, u) = row_plain e wid wk d tm u"

interpretation witness_chain: guarded_machine "\<lambda>a. sha_digest sha \<and> ledger_op_plain a" "ledger_step sha root" "ledger_ok sha root"
  for sha root
proof unfold_locales
  fix a s t
  assume sha: "sha_digest sha \<and> ledger_op_plain a" and ok: "ledger_ok sha root s" and step: "ledger_step sha root a s = Inr t"
  obtain e wid wk d tm u where a: "a = (e, wid, wk, d, tm, u)" by (cases a) auto
  from step a obtain f where "witness_append_event sha root e wid wk d tm u s = Inr (f, t)"
    by (auto simp: map_sum_Inr_iff)
  moreover have "row_plain e wid wk d tm u" using sha by (simp add: a)
  ultimately show "ledger_ok sha root t"
    using ok sha witness_append_event_ok unfolding ledger_ok_def by blast
qed

section \<open>Tampering\<close>

text \<open>Every prefix of a chain that verifies also verifies: cutting rows off the end goes unnoticed.\<close>

lemma verify_rows_prefix:
  assumes "verify_rows sha i p (xs @ ys) = Inr q"
  shows "\<exists>q'. verify_rows sha i p xs = Inr q'"
  using assms
proof (induction ys arbitrary: q rule: rev_induct)
  case Nil
  then show ?case by simp
next
  case (snoc y ys)
  from snoc.prems obtain q' where "verify_rows sha i p (xs @ ys) = Inr q'"
    unfolding append_assoc [symmetric] verify_rows_append by (auto simp: bindE_Inr_iff)
  then show ?case by (rule snoc.IH)
qed

lemma norm_hash_container:
  assumes "s = c # t" and "c \<in> {CHR ''['', CHR ''{''}"
  shows "norm_hash s \<noteq> [] \<and> \<not> is_sha256_hex (norm_hash s)"
proof -
  have nsp: "\<not> is_space c" and low: "lower_char c = c" and nhex: "c \<notin> hex64"
    using assms(2) by (auto simp: is_space_def lower_char_def code_point_def hex64_def)
  obtain r where "rev (dropWhile is_space (rev (c # t))) = c # r"
    using nsp by (simp add: dropWhile_append3)
  then have "norm_hash s = c # map lower_char r"
    using assms(1) nsp low by (simp add: norm_hash_def py_strip_def strip_by_def py_lower_def)
  with nhex show ?thesis by (simp add: is_sha256_hex_def)
qed

lemma norm_prev_determined:
  assumes "sort_dicts v = sort_dicts w"
    and "norm_hash (py_str (py_or v (PStr []))) = [] \<or> is_sha256_hex (norm_hash (py_str (py_or v (PStr []))))"
  shows "norm_hash (py_str (py_or v (PStr []))) = norm_hash (py_str (py_or w (PStr [])))"
proof -
  have list: "\<exists>t. py_str (py_or (PList (x # xs)) (PStr [])) = CHR ''['' # t" for x xs
    by (simp add: py_or_def py_str_def)
  have dict: "\<exists>t. py_str (py_or (PDict (x # xs)) (PStr [])) = CHR ''{'' # t" for x xs
    by (simp add: py_or_def py_str_def)
  have no: "s = c # t \<Longrightarrow> c \<in> {CHR ''['', CHR ''{''} \<Longrightarrow> \<not> (norm_hash s = [] \<or> is_sha256_hex (norm_hash s))" for s c t
    using norm_hash_container by blast
  from sort_dicts_scalar [OF assms(1)] consider "v = w" | x xs where "v = PList (x # xs)" | x xs where "v = PDict (x # xs)"
    by blast
  then show ?thesis
  proof cases
    case 1
    then show ?thesis by simp
  next
    case (2 x xs)
    with list [of x xs] no assms(2) show ?thesis by blast
  next
    case (3 x xs)
    with dict [of x xs] no assms(2) show ?thesis by blast
  qed
qed

definition canonical_rows :: "pydict list \<Rightarrow> pyval list" where
  "canonical_rows rows = map (\<lambda>r. sort_dicts (PDict (blanked r))) rows"

definition hashed_bytes :: "pydict \<Rightarrow> string" where
  \<comment> \<open>what the hash of a row is computed from\<close>
  "hashed_bytes row = canonical_bytes (PDict (blanked row))"

definition clash :: "hash_fun \<Rightarrow> pydict list \<Rightarrow> pydict list \<Rightarrow> bool" where
  \<comment> \<open>a row of one chain and a row of the other have the same hash for different contents\<close>
  "clash sha rows rows' = (\<exists>x \<in> set rows. \<exists>y \<in> set rows'. hashed_bytes x \<noteq> hashed_bytes y \<and> sha (hashed_bytes x) = sha (hashed_bytes y))"

lemma same_head_same_rows:
  assumes "verify_rows sha i [] rows = Inr q" and "verify_rows sha j [] rows' = Inr q"
  shows "canonical_rows rows = canonical_rows rows' \<or> clash sha rows rows'"
  using assms
proof (induction rows arbitrary: q rows' rule: rev_induct)
  case Nil
  then have "rows' = []" using verify_rows_last [OF Nil(2)] by auto
  then show ?case by simp
next
  case (snoc x xs)
  have "rows' \<noteq> []" using verify_rows_last [OF snoc.prems(1)] verify_rows_last [OF snoc.prems(2)] by auto
  then obtain ys y where rows': "rows' = ys @ [y]" by (metis rev_exhaust)
  from snoc.prems(1) obtain p where xs: "verify_rows sha i [] xs = Inr p"
    and x: "verify_rows sha (i + length xs) p [x] = Inr q"
    unfolding verify_rows_append by (auto simp: bindE_Inr_iff)
  from snoc.prems(2) rows' obtain p' where ys: "verify_rows sha j [] ys = Inr p'"
    and y: "verify_rows sha (j + length ys) p' [y] = Inr q"
    by (auto simp: verify_rows_append bindE_Inr_iff simp del: verify_rows.simps)
  have hash: "sha (canonical_bytes (PDict (blanked x))) = sha (canonical_bytes (PDict (blanked y)))"
    using x y unfolding verify_rows_single verify_footprint_ok_iff footprint_hash_dict by simp
  show ?case
  proof (cases "canonical_bytes (PDict (blanked x)) = canonical_bytes (PDict (blanked y))")
    case False
    with hash show ?thesis by (auto simp: rows' clash_def hashed_bytes_def)
  next
    case True
    then have eq: "sort_dicts (PDict (blanked x)) = sort_dicts (PDict (blanked y))"
      by (simp add: canonical_bytes_inj del: sort_dicts.simps)
    from sort_dicts_get [OF eq, of "''prev_hash''"]
    have "sort_dicts (dict_get x ''prev_hash'') = sort_dicts (dict_get y ''prev_hash'')"
      by (simp add: blanked_def del: sort_dicts.simps)
    from norm_prev_determined [OF this]
    have "p = p'"
      using x y unfolding verify_rows_single verify_footprint_ok_iff get_str_def by auto
    with snoc.IH [OF xs] ys have "canonical_rows xs = canonical_rows ys \<or> clash sha xs ys"
      by simp
    with eq rows' show ?thesis by (auto simp: canonical_rows_def clash_def simp del: sort_dicts.simps)
  qed
qed

section \<open>Properties\<close>







definition const_sha :: hash_fun where
  "const_sha b = replicate 64 CHR ''0''"

lemma const_sha_digest: "sha_digest const_sha"
  by (simp add: sha_digest_def is_sha256_hex_def const_sha_def hex64_def list_all_iff)

definition sample_event :: arl_event where
  "sample_event = \<lparr>ae_event_type = Arl_DISPUTE_OPENED, ae_event_id = ''e1'', ae_dispute_id = ''d'',
     ae_occurred_at = ''t'', ae_payload = []\<rparr>"


text \<open>
  C6: two chains that verify with the same last hash hold the same rows, up to the order of keys and
  the stored hash text, unless a row of the one and a row of the other are themselves a collision of
  SHA-256: different contents with the same hash.
\<close>

theorem ledger_same_head:
  assumes "verify_rows sha i [] rows = Inr q" and "verify_rows sha j [] rows' = Inr q"
  shows "canonical_rows rows = canonical_rows rows' \<or> clash sha rows rows'"
  using same_head_same_rows [OF assms] .

text \<open>A chain of one row, and the same row with its keys in reverse order.\<close>

definition sample_row :: pydict where
  "sample_row = (case build_witness_footprint const_sha sample_event ''d'' ''k'' [] None [] ''t'' ''u'' of
     Inl _ \<Rightarrow> [] | Inr f \<Rightarrow> footprint_record f)"

lemma record_keys: "distinct (map fst (footprint_record f))"
  by (simp add: footprint_record_def)

lemma reversed_get: "dict_get (rev (footprint_record f)) k = dict_get (footprint_record f) k"
  by (simp add: dict_get_def map_of_rev_distinct [OF record_keys])

lemma reversed_bytes: "hashed_bytes (rev (footprint_record f)) = hashed_bytes (footprint_record f)"
proof -
  let ?g = "\<lambda>(k :: string, v). (k, sort_dicts v)"
  let ?a = "map ?g (blanked (rev (footprint_record f)))" and ?b = "map ?g (blanked (footprint_record f))"
  have m: "mset ?a = mset (sort_key fst ?b)" by (simp add: blanked_def footprint_record_def dict_set_def)
  have "inj_on fst (set ?a)" by (auto simp: blanked_def footprint_record_def dict_set_def inj_on_def)
  then have "sort_key fst ?a = sort_key fst ?b" by (rule sort_key_inj_key_eq [OF m]) simp
  then show ?thesis by (simp add: hashed_bytes_def canonical_bytes_def)
qed

theorem ledger_same_head_witness:
  "\<exists>q. rev sample_row \<noteq> sample_row \<and> verify_rows const_sha 0 [] [sample_row] = Inr q \<and> verify_rows const_sha 0 [] [rev sample_row] = Inr q
     \<and> canonical_rows [sample_row] = canonical_rows [rev sample_row]"
proof -
  have "py_strip ''d'' \<noteq> []" by code_simp
  then obtain f where b: "build_witness_footprint const_sha sample_event ''d'' ''k'' [] None [] ''t'' ''u'' = Inr f"
    using build_footprint_ok_iff [of const_sha sample_event "''d''" "''k''" "[]" None "[]" "''t''" "''u''"] by auto
  then have r: "sample_row = footprint_record f" by (simp add: sample_row_def)
  note B = build_footprint_Inr [OF b const_sha_digest]
  have "verify_rows const_sha 0 [] [sample_row] = Inr (fp_footprint_hash f)"
    unfolding verify_rows_single using B by (simp add: r)
  moreover from this have "verify_rows const_sha 0 [] [rev sample_row] = Inr (fp_footprint_hash f)"
    unfolding verify_rows_single verify_footprint_ok_iff footprint_hash_dict hashed_bytes_def [symmetric]
    by (simp add: r get_str_def reversed_get reversed_bytes)
  ultimately have v: "verify_rows const_sha 0 [] [sample_row] = Inr (fp_footprint_hash f)"
    "verify_rows const_sha 0 [] [rev sample_row] = Inr (fp_footprint_hash f)" .
  have "\<not> clash const_sha [sample_row] [rev sample_row]" by (simp add: clash_def r reversed_bytes)
  with ledger_same_head [OF v] have "canonical_rows [sample_row] = canonical_rows [rev sample_row]" by blast
  moreover have "rev sample_row \<noteq> sample_row" by (simp add: r footprint_record_def)
  ultimately show ?thesis using v by blast
qed

text \<open>
  Verification does not notice rows cut off the end: every prefix of a chain that verifies
  verifies too.
\<close>

theorem ledger_truncation:
  assumes "rep_ok (verify_chain_rows sha (xs @ ys))"
  shows "rep_ok (verify_chain_rows sha xs)"
proof -
  have bad: "verify_rows sha i p rows = Inl rep \<Longrightarrow> \<not> rep_ok rep" for i p rows rep
    by (induction sha i p rows rule: verify_rows.induct)
      (auto simp: Let_def rep_ok_def dict_get_def split: if_splits)
  from assms bad obtain q where "verify_rows sha 0 [] (xs @ ys) = Inr q"
    by (auto simp: verify_chain_rows_def split: sum.splits)
  from verify_rows_prefix [OF this] show ?thesis
    by (auto simp: verify_chain_rows_def rep_ok_def dict_get_def)
qed

theorem ledger_truncation_witness: "\<exists>x. rep_ok (verify_chain_rows const_sha [x]) \<and> rep_ok (verify_chain_rows const_sha [])"
proof -
  obtain f where f: "build_witness_footprint const_sha sample_event ''d'' ''k'' [] None [] ''t'' ''u'' = Inr f"
    using build_footprint_ok_iff [of const_sha sample_event "''d''" "''k''" "[]" None "[]" "''t''" "''u''"] by auto
  note B = build_footprint_Inr [OF f const_sha_digest]
  then have "verify_rows const_sha 0 [] [footprint_record f] = Inr (fp_footprint_hash f)"
    unfolding verify_rows_single by simp
  then have "rep_ok (verify_chain_rows const_sha ([] @ [footprint_record f]))"
    by (simp add: verify_chain_rows_def rep_ok_def dict_get_def)
  from ledger_truncation [OF this] this show ?thesis by auto
qed

end
