(* ===== verification/AglLayer.thy ===== *)
theory AglLayer
  imports PyFiles
begin

text \<open>
  \<open>modules/actor_grounding/layer.py\<close>: the actor grounding layer.  A source is described by an
  \<open>ActorSourceState\<close>; \<open>evaluate_source_state\<close> turns it into a decision about how far the runtime may
  rely on it, \<open>validate_reliance_transition\<close> compares two decisions about the same source, and the
  store appends decisions to \<open>decisions.jsonl\<close>.  The two enumerations the code ranks are made linear
  orders by the code's own ranks.
\<close>

section \<open>Enumerations\<close>

datatype source_class =
    Src_HUMAN_OPERATOR | Src_LOCAL_ENTITY | Src_SENSOR_PERCEPTION | Src_DELEGATED_PROXY_EXTERNAL
  | Src_UNKNOWN

fun source_value :: "source_class \<Rightarrow> string" where
  "source_value Src_HUMAN_OPERATOR = ''human_operator''"
| "source_value Src_LOCAL_ENTITY = ''local_entity''"
| "source_value Src_SENSOR_PERCEPTION = ''sensor_perception''"
| "source_value Src_DELEGATED_PROXY_EXTERNAL = ''delegated_proxy_external''"
| "source_value Src_UNKNOWN = ''unknown''"

datatype grounding_state =
    Gs_GROUNDED | Gs_GROUNDED_WITH_CAUTION | Gs_HOLD_REQUIRED | Gs_RUNTIME_RELIANCE_DENIED
  | Gs_QUARANTINE_REQUIRED | Gs_REVALIDATE_AT_COMMIT

fun grounding_value :: "grounding_state \<Rightarrow> string" where
  "grounding_value Gs_GROUNDED = ''GROUNDED''"
| "grounding_value Gs_GROUNDED_WITH_CAUTION = ''GROUNDED_WITH_CAUTION''"
| "grounding_value Gs_HOLD_REQUIRED = ''HOLD_REQUIRED''"
| "grounding_value Gs_RUNTIME_RELIANCE_DENIED = ''RUNTIME_RELIANCE_DENIED''"
| "grounding_value Gs_QUARANTINE_REQUIRED = ''QUARANTINE_REQUIRED''"
| "grounding_value Gs_REVALIDATE_AT_COMMIT = ''REVALIDATE_AT_COMMIT''"

datatype runtime_reliance =
    Rel_RECORD_ONLY | Rel_VISIBLE_BUT_NON_AUTHORITATIVE | Rel_REVIEW_SUPPORT_ONLY
  | Rel_ESCALATION_ELIGIBLE | Rel_ACTION_ELIGIBLE_WITH_LIMITS | Rel_COMMIT_ELIGIBLE
  | Rel_RUNTIME_RELIANCE_DENIED

fun reliance_value :: "runtime_reliance \<Rightarrow> string" where
  "reliance_value Rel_RECORD_ONLY = ''RECORD_ONLY''"
| "reliance_value Rel_VISIBLE_BUT_NON_AUTHORITATIVE = ''VISIBLE_BUT_NON_AUTHORITATIVE''"
| "reliance_value Rel_REVIEW_SUPPORT_ONLY = ''REVIEW_SUPPORT_ONLY''"
| "reliance_value Rel_ESCALATION_ELIGIBLE = ''ESCALATION_ELIGIBLE''"
| "reliance_value Rel_ACTION_ELIGIBLE_WITH_LIMITS = ''ACTION_ELIGIBLE_WITH_LIMITS''"
| "reliance_value Rel_COMMIT_ELIGIBLE = ''COMMIT_ELIGIBLE''"
| "reliance_value Rel_RUNTIME_RELIANCE_DENIED = ''RUNTIME_RELIANCE_DENIED''"

datatype gate_outcome =
    Gate_OPEN | Gate_OPEN_WITH_LIMITS | Gate_HOLD | Gate_REROUTE_TO_REVIEW | Gate_DENY
  | Gate_QUARANTINE | Gate_REVALIDATE_AT_COMMIT

fun gate_value :: "gate_outcome \<Rightarrow> string" where
  "gate_value Gate_OPEN = ''OPEN''"
| "gate_value Gate_OPEN_WITH_LIMITS = ''OPEN_WITH_LIMITS''"
| "gate_value Gate_HOLD = ''HOLD''"
| "gate_value Gate_REROUTE_TO_REVIEW = ''REROUTE_TO_REVIEW''"
| "gate_value Gate_DENY = ''DENY''"
| "gate_value Gate_QUARANTINE = ''QUARANTINE''"
| "gate_value Gate_REVALIDATE_AT_COMMIT = ''REVALIDATE_AT_COMMIT''"

datatype degradation_level =
    Deg_NO_MATERIAL | Deg_CAUTIONARY | Deg_HOLD_TRIGGERING | Deg_FREEZE_TRIGGERING
  | Deg_QUARANTINE_TRIGGERING | Deg_COMMIT_BLOCKING

fun degradation_value :: "degradation_level \<Rightarrow> string" where
  "degradation_value Deg_NO_MATERIAL = ''NO_MATERIAL_DEGRADATION''"
| "degradation_value Deg_CAUTIONARY = ''CAUTIONARY_DEGRADATION''"
| "degradation_value Deg_HOLD_TRIGGERING = ''HOLD_TRIGGERING_DEGRADATION''"
| "degradation_value Deg_FREEZE_TRIGGERING = ''FREEZE_TRIGGERING_DEGRADATION''"
| "degradation_value Deg_QUARANTINE_TRIGGERING = ''QUARANTINE_TRIGGERING_DEGRADATION''"
| "degradation_value Deg_COMMIT_BLOCKING = ''COMMIT_BLOCKING_DEGRADATION''"

section \<open>The two orders\<close>

fun reliance_rank :: "runtime_reliance \<Rightarrow> int" where
  "reliance_rank Rel_RUNTIME_RELIANCE_DENIED = -1"
| "reliance_rank Rel_RECORD_ONLY = 0"
| "reliance_rank Rel_VISIBLE_BUT_NON_AUTHORITATIVE = 1"
| "reliance_rank Rel_REVIEW_SUPPORT_ONLY = 2"
| "reliance_rank Rel_ESCALATION_ELIGIBLE = 3"
| "reliance_rank Rel_ACTION_ELIGIBLE_WITH_LIMITS = 4"
| "reliance_rank Rel_COMMIT_ELIGIBLE = 5"

fun degradation_order :: "degradation_level \<Rightarrow> int" where
  "degradation_order Deg_NO_MATERIAL = 0"
| "degradation_order Deg_CAUTIONARY = 1"
| "degradation_order Deg_HOLD_TRIGGERING = 2"
| "degradation_order Deg_FREEZE_TRIGGERING = 3"
| "degradation_order Deg_QUARANTINE_TRIGGERING = 4"
| "degradation_order Deg_COMMIT_BLOCKING = 5"

lemma reliance_rank_inj: "reliance_rank a = reliance_rank b \<longleftrightarrow> a = b"
  by (cases a; cases b) simp_all

lemma degradation_order_inj: "degradation_order a = degradation_order b \<longleftrightarrow> a = b"
  by (cases a; cases b) simp_all

instantiation runtime_reliance :: linorder
begin

definition less_eq_runtime_reliance :: "runtime_reliance \<Rightarrow> runtime_reliance \<Rightarrow> bool" where
  "less_eq_runtime_reliance a b = (reliance_rank a \<le> reliance_rank b)"

definition less_runtime_reliance :: "runtime_reliance \<Rightarrow> runtime_reliance \<Rightarrow> bool" where
  "less_runtime_reliance a b = (reliance_rank a < reliance_rank b)"

instance
  by standard (auto simp: less_eq_runtime_reliance_def less_runtime_reliance_def reliance_rank_inj)

end

instantiation degradation_level :: linorder
begin

definition less_eq_degradation_level :: "degradation_level \<Rightarrow> degradation_level \<Rightarrow> bool" where
  "less_eq_degradation_level a b = (degradation_order a \<le> degradation_order b)"

definition less_degradation_level :: "degradation_level \<Rightarrow> degradation_level \<Rightarrow> bool" where
  "less_degradation_level a b = (degradation_order a < degradation_order b)"

instance
  by standard (auto simp: less_eq_degradation_level_def less_degradation_level_def degradation_order_inj)

end

lemmas reliance_order = less_eq_runtime_reliance_def less_runtime_reliance_def

definition min_reliance :: "runtime_reliance \<Rightarrow> runtime_reliance \<Rightarrow> runtime_reliance" where
  "min_reliance a b = (if reliance_rank a \<le> reliance_rank b then a else b)"

definition max_degradation :: "degradation_level \<Rightarrow> degradation_level \<Rightarrow> degradation_level" where
  "max_degradation a b = (if degradation_order a \<ge> degradation_order b then a else b)"

lemma min_reliance_min: "min_reliance a b = min a b"
  by (simp add: min_reliance_def min_def reliance_order)

lemma max_degradation_max: "max_degradation a b = max a b"
  using degradation_order_inj [of a b]
  by (auto simp: max_degradation_def max_def less_eq_degradation_level_def)

section \<open>Dataclasses\<close>

record actor_source =
  as_source_id :: string
  as_source_class :: source_class
  as_observed_at :: string
  as_present_at_boundary :: bool
  as_identity_continuity :: bool
  as_authority_continuity :: bool
  as_perceptual_integrity :: bool
  as_freshness_sec :: int
  as_max_freshness_sec :: int
  as_proxy_depth :: int
  as_degradation :: degradation_level
  as_requires_commit_revalidation :: bool
  as_evidence_refs :: "string list"
  as_metadata :: pydict

record transition_issue =
  ti_rule_code :: string
  ti_message :: string
  ti_severity :: string
  ti_layer :: string
  ti_details :: pydict

record grounding_decision =
  dc_decision_id :: string
  dc_created_at :: string
  dc_source_id :: string
  dc_source_class :: source_class
  dc_grounding_state :: grounding_state
  dc_runtime_reliance :: runtime_reliance
  dc_gate_outcome :: gate_outcome
  dc_degradation :: degradation_level
  dc_requested_reliance :: runtime_reliance
  dc_revalidate_at_commit :: bool
  dc_reason_codes :: "string list"
  dc_limits :: "string list"
  dc_evidence_refs :: "string list"
  dc_details :: pydict

datatype agl_error = AglValidationError "transition_issue list"

definition agl_issue :: "string \<Rightarrow> string \<Rightarrow> pydict \<Rightarrow> transition_issue" where
  "agl_issue code message details =
     \<lparr>ti_rule_code = code, ti_message = message, ti_severity = ''error'', ti_layer = ''agl'',
      ti_details = details\<rparr>"

definition agl_raise_if_invalid :: "transition_issue list \<Rightarrow> agl_error + unit" where
  "agl_raise_if_invalid issues = (if issues \<noteq> [] then Inl (AglValidationError issues) else Inr ())"

section \<open>Evaluation of a source\<close>

definition source_reason_codes :: "actor_source \<Rightarrow> string list" where
  "source_reason_codes source =
     (if py_strip (as_source_id source) = [] then [''SOURCE_ID_REQUIRED''] else [])
   @ (if \<not> as_present_at_boundary source then [''SOURCE_NOT_PRESENT_AT_BOUNDARY''] else [])
   @ (if \<not> as_identity_continuity source then [''IDENTITY_CONTINUITY_BROKEN''] else [])
   @ (if \<not> as_authority_continuity source then [''AUTHORITY_CONTINUITY_BROKEN''] else [])
   @ (if \<not> as_perceptual_integrity source then [''PERCEPTUAL_INTEGRITY_BROKEN''] else [])
   @ (if 0 \<le> as_max_freshness_sec source \<and> as_max_freshness_sec source < as_freshness_sec source
      then [''SOURCE_STALE_AT_BOUNDARY''] else [])
   @ (if as_source_class source = Src_DELEGATED_PROXY_EXTERNAL \<and> 3 \<le> as_proxy_depth source
      then [''PROXY_TOO_ABSTRACTED''] else [])"

definition effective_degradation ::
  "actor_source \<Rightarrow> runtime_reliance \<Rightarrow> string list \<Rightarrow> degradation_level" where
  "effective_degradation source requested reasons =
     (let degradation = as_degradation source in
      if ''SOURCE_ID_REQUIRED'' \<in> set reasons \<or> ''SOURCE_NOT_PRESENT_AT_BOUNDARY'' \<in> set reasons
      then Deg_QUARANTINE_TRIGGERING
      else if ''IDENTITY_CONTINUITY_BROKEN'' \<in> set reasons \<or> ''AUTHORITY_CONTINUITY_BROKEN'' \<in> set reasons
      then max_degradation degradation Deg_FREEZE_TRIGGERING
      else if ''PERCEPTUAL_INTEGRITY_BROKEN'' \<in> set reasons
      then max_degradation degradation Deg_HOLD_TRIGGERING
      else if ''PROXY_TOO_ABSTRACTED'' \<in> set reasons
      then max_degradation degradation Deg_HOLD_TRIGGERING
      else if ''SOURCE_STALE_AT_BOUNDARY'' \<in> set reasons
      then (if requested = Rel_COMMIT_ELIGIBLE then max_degradation degradation Deg_COMMIT_BLOCKING
            else max_degradation degradation Deg_HOLD_TRIGGERING)
      else degradation)"

definition map_degradation ::
  "degradation_level \<Rightarrow> runtime_reliance \<Rightarrow> bool \<Rightarrow> grounding_state \<times> runtime_reliance \<times> gate_outcome" where
  \<comment> \<open>the last return of the source is not reachable: the enumeration has six members\<close>
  "map_degradation degradation requested requires_commit_revalidation = (case degradation of
     Deg_NO_MATERIAL \<Rightarrow>
       (if requires_commit_revalidation
        then (Gs_REVALIDATE_AT_COMMIT, min_reliance requested Rel_ACTION_ELIGIBLE_WITH_LIMITS, Gate_REVALIDATE_AT_COMMIT)
        else (Gs_GROUNDED, requested, Gate_OPEN))
   | Deg_CAUTIONARY \<Rightarrow>
       (Gs_GROUNDED_WITH_CAUTION, min_reliance requested Rel_ACTION_ELIGIBLE_WITH_LIMITS, Gate_OPEN_WITH_LIMITS)
   | Deg_HOLD_TRIGGERING \<Rightarrow> (Gs_HOLD_REQUIRED, Rel_REVIEW_SUPPORT_ONLY, Gate_HOLD)
   | Deg_FREEZE_TRIGGERING \<Rightarrow> (Gs_HOLD_REQUIRED, Rel_REVIEW_SUPPORT_ONLY, Gate_REROUTE_TO_REVIEW)
   | Deg_QUARANTINE_TRIGGERING \<Rightarrow>
       (Gs_QUARANTINE_REQUIRED, Rel_RUNTIME_RELIANCE_DENIED, Gate_QUARANTINE)
   | Deg_COMMIT_BLOCKING \<Rightarrow>
       (Gs_REVALIDATE_AT_COMMIT, Rel_REVIEW_SUPPORT_ONLY,
        if requested = Rel_COMMIT_ELIGIBLE then Gate_DENY else Gate_REVALIDATE_AT_COMMIT))"

definition limits_for :: "actor_source \<Rightarrow> grounding_state \<Rightarrow> gate_outcome \<Rightarrow> string list" where
  "limits_for source grounding gate =
     (if grounding = Gs_GROUNDED_WITH_CAUTION
      then [''narrow_privilege'', ''stronger_logging'', ''shorter_window''] else [])
   @ (if grounding \<in> {Gs_HOLD_REQUIRED, Gs_REVALIDATE_AT_COMMIT} then [''fresh_grounding_required''] else [])
   @ (if gate = Gate_REROUTE_TO_REVIEW then [''review_route_required''] else [])
   @ (if gate = Gate_QUARANTINE then [''isolate_source_path''] else [])
   @ (if as_source_class source = Src_HUMAN_OPERATOR \<and> as_degradation source \<noteq> Deg_NO_MATERIAL
      then [''preserve_agency_without_full_runtime_force''] else [])"

definition commit_blocking_issue :: transition_issue where
  "commit_blocking_issue = agl_issue ''AGL_COMMIT_BLOCKING_RELIANCE''
     ''Commit-blocking degradation cannot produce COMMIT_ELIGIBLE reliance.'' []"

definition decision_issues :: "grounding_decision \<Rightarrow> transition_issue list" where
  "decision_issues decision =
     (if py_strip (dc_source_id decision) = [] then
        [agl_issue ''AGL_SOURCE_ID_REQUIRED'' ''source_id is required.'' []] else [])
   @ (if dc_degradation decision = Deg_COMMIT_BLOCKING \<and> dc_runtime_reliance decision = Rel_COMMIT_ELIGIBLE
      then [commit_blocking_issue] else [])
   @ (if dc_gate_outcome decision = Gate_QUARANTINE \<and> dc_grounding_state decision \<noteq> Gs_QUARANTINE_REQUIRED
      then [agl_issue ''AGL_QUARANTINE_STATE_REQUIRED''
              ''QUARANTINE gate requires QUARANTINE_REQUIRED grounding state.'' []] else [])"

definition evaluate_source_state ::
  "actor_source \<Rightarrow> runtime_reliance \<Rightarrow> string option \<Rightarrow> string option \<Rightarrow> string \<Rightarrow> string \<Rightarrow>
   agl_error + grounding_decision" where
  "evaluate_source_state source requested decision_id created_at tm u =
     (let reasons = source_reason_codes source;
          degradation = effective_degradation source requested reasons;
          (grounding, reliance, gate) =
            map_degradation degradation requested (as_requires_commit_revalidation source);
          limits = limits_for source grounding gate;
          decision =
            \<lparr>dc_decision_id = str_or decision_id (''agl:'' @ u),
             dc_created_at = str_or created_at tm,
             dc_source_id = as_source_id source,
             dc_source_class = as_source_class source,
             dc_grounding_state = grounding, dc_runtime_reliance = reliance,
             dc_gate_outcome = gate, dc_degradation = degradation,
             dc_requested_reliance = requested,
             dc_revalidate_at_commit = (as_requires_commit_revalidation source
                \<or> gate = Gate_REVALIDATE_AT_COMMIT \<or> grounding = Gs_REVALIDATE_AT_COMMIT),
             dc_reason_codes = reasons, dc_limits = limits,
             dc_evidence_refs = filter (\<lambda>x. x \<noteq> []) (as_evidence_refs source),
             dc_details = dict_merge
               [(''freshness_sec'', PInt (as_freshness_sec source)),
                (''max_freshness_sec'', PInt (as_max_freshness_sec source)),
                (''proxy_depth'', PInt (as_proxy_depth source)),
                (''identity_continuity'', PBool (as_identity_continuity source)),
                (''authority_continuity'', PBool (as_authority_continuity source)),
                (''perceptual_integrity'', PBool (as_perceptual_integrity source))]
               (as_metadata source)\<rparr>
      in bindE (agl_raise_if_invalid (decision_issues decision)) (\<lambda>_. Inr decision))"

definition validate_reliance_transition ::
  "grounding_decision \<Rightarrow> grounding_decision \<Rightarrow> bool \<Rightarrow> transition_issue list" where
  "validate_reliance_transition previous current fresh_grounding_basis =
     (let unresolved = (dc_degradation previous \<noteq> Deg_NO_MATERIAL);
          widened = (reliance_rank (dc_runtime_reliance current) > reliance_rank (dc_runtime_reliance previous))
      in (if unresolved \<and> widened \<and> \<not> fresh_grounding_basis then
            [agl_issue ''AGL_UNRESOLVED_DEGRADATION_WIDENING''
               ''Unresolved degradation may not widen runtime reliance without fresh grounding basis.''
               [(''previous_reliance'', PStr (reliance_value (dc_runtime_reliance previous))),
                (''current_reliance'', PStr (reliance_value (dc_runtime_reliance current)))]] else [])
       @ (if dc_degradation current = Deg_COMMIT_BLOCKING \<and> dc_runtime_reliance current = Rel_COMMIT_ELIGIBLE
          then [commit_blocking_issue] else []))"

section \<open>The store\<close>

definition decision_record :: "grounding_decision \<Rightarrow> pyval" where
  "decision_record d = PDict [
     (''decision_id'', PStr (dc_decision_id d)), (''created_at'', PStr (dc_created_at d)),
     (''source_id'', PStr (dc_source_id d)), (''source_class'', PStr (source_value (dc_source_class d))),
     (''grounding_state'', PStr (grounding_value (dc_grounding_state d))),
     (''runtime_reliance'', PStr (reliance_value (dc_runtime_reliance d))),
     (''gate_outcome'', PStr (gate_value (dc_gate_outcome d))),
     (''degradation'', PStr (degradation_value (dc_degradation d))),
     (''requested_reliance'', PStr (reliance_value (dc_requested_reliance d))),
     (''revalidate_at_commit'', PBool (dc_revalidate_at_commit d)),
     (''reason_codes'', PList (map PStr (dc_reason_codes d))),
     (''limits'', PList (map PStr (dc_limits d))),
     (''evidence_refs'', PList (map PStr (dc_evidence_refs d))),
     (''details'', PDict (dc_details d))]"

definition agl_base_dir :: "path \<Rightarrow> path" where
  "agl_base_dir root = root @ [''actor_grounding'']"

definition agl_decisions_path :: "path \<Rightarrow> path" where
  "agl_decisions_path root = agl_base_dir root @ [''decisions.jsonl'']"

definition agl_manifest_path :: "path \<Rightarrow> path" where
  "agl_manifest_path root = agl_base_dir root @ [''manifest.json'']"

definition agl_manifest :: "path \<Rightarrow> pydict" where
  "agl_manifest root =
     [(''schema'', PStr ''ester.agl.store.v1''), (''purpose'', PStr ''source_grounding_sidecar''),
      (''decisions'', PStr (path_str (agl_decisions_path root))),
      (''runtime_control_wired'', PBool False)]"

definition agl_ensure_dirs :: "path \<Rightarrow> string \<Rightarrow> files \<Rightarrow> files" where
  "agl_ensure_dirs root u s = write_json (agl_manifest_path root) (PDict (agl_manifest root)) u s"

definition append_decision :: "path \<Rightarrow> string \<Rightarrow> grounding_decision \<Rightarrow> files \<Rightarrow> files" where
  "append_decision root u d s =
     append_line (agl_decisions_path root) (decision_record d) (agl_ensure_dirs root u s)"

definition load_decisions :: "path \<Rightarrow> files \<Rightarrow> io_error + pydict list" where
  "load_decisions root s = load_rows (agl_decisions_path root) s"

lemma decision_record_dict [simp]: "PDict (dict_of (decision_record d)) = decision_record d"
  by (simp add: decision_record_def)

interpretation agl_log: append_log "append_decision root u" "load_decisions root"
    "\<lambda>e. dict_of (decision_record e)" "\<lambda>e. line_safe (decision_record e)" for root u
proof unfold_locales
  fix s rows e x
  have ens: "load_decisions root s = load_rows (agl_decisions_path root) (agl_ensure_dirs root u s)"
    by (simp add: load_decisions_def agl_ensure_dirs_def)
  have run: "load_decisions root (append_decision root u e s) = load_rows (agl_decisions_path root) (append_line (agl_decisions_path root) (PDict (dict_of (decision_record e))) (agl_ensure_dirs root u s))"
    by (simp add: append_decision_def load_decisions_def)
  show "load_decisions root s = Inr rows \<Longrightarrow> line_safe (decision_record e) \<Longrightarrow> load_decisions root (append_decision root u e s) = Inr (rows @ [dict_of (decision_record e)])"
    unfolding run ens by (rule load_rows_append_line) simp_all
  show "load_decisions root s = Inr rows \<Longrightarrow> \<not> line_safe (decision_record e) \<Longrightarrow> load_decisions root (append_decision root u e s) = Inl JSONDecodeError"
    unfolding run ens by (rule load_rows_cut_line) simp_all
  show "load_decisions root s = Inl x \<Longrightarrow> load_decisions root (append_decision root u e s) = Inl x"
    unfolding run ens by (rule load_rows_stuck)
qed

section \<open>What a decision grants\<close>

definition well_grounded :: "actor_source \<Rightarrow> bool" where
  \<comment> \<open>no reason code applies to the source\<close>
  "well_grounded s = (py_strip (as_source_id s) \<noteq> [] \<and> as_present_at_boundary s
     \<and> as_identity_continuity s \<and> as_authority_continuity s \<and> as_perceptual_integrity s
     \<and> \<not> (0 \<le> as_max_freshness_sec s \<and> as_max_freshness_sec s < as_freshness_sec s)
     \<and> \<not> (as_source_class s = Src_DELEGATED_PROXY_EXTERNAL \<and> 3 \<le> as_proxy_depth s))"

lemma reason_codes_empty: "source_reason_codes s = [] \<longleftrightarrow> well_grounded s"
  by (auto simp: source_reason_codes_def well_grounded_def)

lemma reason_code_in:
  "''SOURCE_ID_REQUIRED'' \<in> set (source_reason_codes s) \<longleftrightarrow> py_strip (as_source_id s) = []"
  "''SOURCE_NOT_PRESENT_AT_BOUNDARY'' \<in> set (source_reason_codes s) \<longleftrightarrow> \<not> as_present_at_boundary s"
  "''IDENTITY_CONTINUITY_BROKEN'' \<in> set (source_reason_codes s) \<longleftrightarrow> \<not> as_identity_continuity s"
  "''AUTHORITY_CONTINUITY_BROKEN'' \<in> set (source_reason_codes s) \<longleftrightarrow> \<not> as_authority_continuity s"
  "''PERCEPTUAL_INTEGRITY_BROKEN'' \<in> set (source_reason_codes s) \<longleftrightarrow> \<not> as_perceptual_integrity s"
  "''PROXY_TOO_ABSTRACTED'' \<in> set (source_reason_codes s) \<longleftrightarrow>
     as_source_class s = Src_DELEGATED_PROXY_EXTERNAL \<and> 3 \<le> as_proxy_depth s"
  "''SOURCE_STALE_AT_BOUNDARY'' \<in> set (source_reason_codes s) \<longleftrightarrow>
     0 \<le> as_max_freshness_sec s \<and> as_max_freshness_sec s < as_freshness_sec s"
  by (auto simp: source_reason_codes_def)

lemma evaluate_Inr:
  assumes "evaluate_source_state s req did ct tm u = Inr d"
  shows "map_degradation (dc_degradation d) req (as_requires_commit_revalidation s)
           = (dc_grounding_state d, dc_runtime_reliance d, dc_gate_outcome d)
       \<and> dc_degradation d = effective_degradation s req (source_reason_codes s)
       \<and> dc_source_id d = as_source_id s \<and> dc_requested_reliance d = req
       \<and> dc_reason_codes d = source_reason_codes s \<and> decision_issues d = []"
  using assms
  by (auto simp: evaluate_source_state_def Let_def bindE_Inr_iff agl_raise_if_invalid_def
        split: prod.splits if_splits)

lemma map_degradation_sound:
  assumes "map_degradation dg req b = (g, r, k)"
  shows "\<not> (dg = Deg_COMMIT_BLOCKING \<and> r = Rel_COMMIT_ELIGIBLE)"
    and "k = Gate_QUARANTINE \<Longrightarrow> g = Gs_QUARANTINE_REQUIRED"
    and "r \<le> max req Rel_REVIEW_SUPPORT_ONLY"
    and "dg \<le> Deg_CAUTIONARY \<Longrightarrow> r \<le> req"
    and "r = Rel_COMMIT_ELIGIBLE \<longleftrightarrow> req = Rel_COMMIT_ELIGIBLE \<and> dg = Deg_NO_MATERIAL \<and> \<not> b"
  using assms
  by (auto simp: map_degradation_def min_reliance_def max_def reliance_order
        less_eq_degradation_level_def split: degradation_level.splits if_splits)

text \<open>The only way to be refused is a blank source id: the other two issues cannot arise.\<close>

lemma evaluate_ok_iff:
  "(\<exists>d. evaluate_source_state s req did ct tm u = Inr d) \<longleftrightarrow> py_strip (as_source_id s) \<noteq> []"
proof -
  obtain g r k where m: "map_degradation (effective_degradation s req (source_reason_codes s)) req
      (as_requires_commit_revalidation s) = (g, r, k)"
    by (metis prod_cases3)
  show ?thesis
    using map_degradation_sound(1,2) [OF m]
    by (auto simp: evaluate_source_state_def Let_def m bindE_Inr_iff agl_raise_if_invalid_def
          decision_issues_def)
qed

lemma effective_none_iff:
  "effective_degradation s req (source_reason_codes s) = Deg_NO_MATERIAL \<longleftrightarrow>
     well_grounded s \<and> as_degradation s = Deg_NO_MATERIAL"
  by (auto simp: effective_degradation_def Let_def reason_code_in well_grounded_def max_degradation_def
        split: if_splits)

lemma effective_denied_iff:
  "effective_degradation s req (source_reason_codes s) = Deg_QUARANTINE_TRIGGERING \<longleftrightarrow>
     py_strip (as_source_id s) = [] \<or> \<not> as_present_at_boundary s
   \<or> (as_degradation s = Deg_QUARANTINE_TRIGGERING
       \<and> \<not> (req = Rel_COMMIT_ELIGIBLE \<and> as_identity_continuity s \<and> as_authority_continuity s
             \<and> as_perceptual_integrity s
             \<and> \<not> (as_source_class s = Src_DELEGATED_PROXY_EXTERNAL \<and> 3 \<le> as_proxy_depth s)
             \<and> 0 \<le> as_max_freshness_sec s \<and> as_max_freshness_sec s < as_freshness_sec s))"
  by (cases "as_degradation s")
    (auto simp: effective_degradation_def Let_def reason_code_in max_degradation_def)

lemma evaluate_commit_iff:
  assumes "evaluate_source_state s req did ct tm u = Inr d"
  shows "dc_runtime_reliance d = Rel_COMMIT_ELIGIBLE \<longleftrightarrow>
     req = Rel_COMMIT_ELIGIBLE \<and> well_grounded s \<and> as_degradation s = Deg_NO_MATERIAL
   \<and> \<not> as_requires_commit_revalidation s"
proof -
  note E = evaluate_Inr [OF assms]
  from E have "map_degradation (dc_degradation d) req (as_requires_commit_revalidation s)
      = (dc_grounding_state d, dc_runtime_reliance d, dc_gate_outcome d)" by blast
  from map_degradation_sound(5) [OF this] E effective_none_iff [of s req] show ?thesis by simp
qed

section \<open>Sequences of decisions\<close>

fun reliance_chain :: "grounding_decision \<Rightarrow> grounding_decision list \<Rightarrow> bool" where
  \<comment> \<open>every decision is accepted after the one before it, without a fresh grounding basis\<close>
  "reliance_chain d [] = True"
| "reliance_chain d (e # es) = (validate_reliance_transition d e False = [] \<and> reliance_chain e es)"

lemma transition_accepted_iff:
  "validate_reliance_transition p c fresh = [] \<longleftrightarrow>
     (dc_degradation p = Deg_NO_MATERIAL \<or> dc_runtime_reliance c \<le> dc_runtime_reliance p \<or> fresh)
   \<and> \<not> (dc_degradation c = Deg_COMMIT_BLOCKING \<and> dc_runtime_reliance c = Rel_COMMIT_ELIGIBLE)"
  by (auto simp: validate_reliance_transition_def Let_def reliance_order)

lemma chain_never_widens:
  assumes "reliance_chain d es" and "dc_degradation d \<noteq> Deg_NO_MATERIAL"
    and "\<forall>e \<in> set (butlast es). dc_degradation e \<noteq> Deg_NO_MATERIAL"
  shows "\<forall>e \<in> set es. dc_runtime_reliance e \<le> dc_runtime_reliance d"
  using assms
proof (induction es arbitrary: d)
  case Nil
  then show ?case by simp
next
  case (Cons e es)
  then have le: "dc_runtime_reliance e \<le> dc_runtime_reliance d"
    by (simp add: transition_accepted_iff)
  show ?case
  proof (cases es)
    case Nil
    with le show ?thesis by simp
  next
    case (Cons x xs)
    with Cons.prems have "reliance_chain e es" "dc_degradation e \<noteq> Deg_NO_MATERIAL"
      "\<forall>x \<in> set (butlast es). dc_degradation x \<noteq> Deg_NO_MATERIAL"
      by auto
    from Cons.IH [OF this] le show ?thesis by auto
  qed
qed

section \<open>Properties\<close>

definition sample_source :: actor_source where
  "sample_source = \<lparr>as_source_id = ''s1'', as_source_class = Src_LOCAL_ENTITY, as_observed_at = ''t'',
     as_present_at_boundary = True, as_identity_continuity = True, as_authority_continuity = True,
     as_perceptual_integrity = True, as_freshness_sec = 0, as_max_freshness_sec = 300,
     as_proxy_depth = 0, as_degradation = Deg_NO_MATERIAL, as_requires_commit_revalidation = False,
     as_evidence_refs = [], as_metadata = []\<rparr>"

lemma sample_source_id: "py_strip (as_source_id sample_source) \<noteq> []"
  by (simp add: sample_source_def py_strip_def strip_by_def is_space_def code_point_def)

text \<open>
  C7: a decision makes a source commit-eligible exactly when that was requested, no reason code
  applies to the source, its declared degradation is none, and no revalidation is required.
\<close>

theorem agl_commit_iff:
  assumes "evaluate_source_state s req did ct tm u = Inr d"
  shows "dc_runtime_reliance d = Rel_COMMIT_ELIGIBLE \<longleftrightarrow>
     req = Rel_COMMIT_ELIGIBLE \<and> dc_reason_codes d = [] \<and> as_degradation s = Deg_NO_MATERIAL
   \<and> \<not> as_requires_commit_revalidation s"
  using evaluate_commit_iff [OF assms] evaluate_Inr [OF assms] reason_codes_empty [of s] by simp

theorem agl_commit_iff_witness:
  "\<exists>d. evaluate_source_state sample_source Rel_COMMIT_ELIGIBLE None None ''t'' ''u'' = Inr d
     \<and> dc_runtime_reliance d = Rel_COMMIT_ELIGIBLE"
proof -
  obtain d where d: "evaluate_source_state sample_source Rel_COMMIT_ELIGIBLE None None ''t'' ''u'' = Inr d"
    using evaluate_ok_iff sample_source_id by blast
  have "dc_reason_codes d = []"
    using evaluate_Inr [OF d] reason_codes_empty [of sample_source] sample_source_id
    by (simp add: well_grounded_def sample_source_def)
  with agl_commit_iff [OF d] d show ?thesis by (simp add: sample_source_def)
qed

text \<open>
  An evaluation is refused only for a blank source id.  Otherwise the granted reliance is at
  most the requested one or review support, an open gate never grants more than was requested, and a
  source that is absent from the boundary is quarantined and denied.
\<close>

theorem agl_reliance_bound:
  "case evaluate_source_state s req did ct tm u of
     Inl e \<Rightarrow> py_strip (as_source_id s) = []
   | Inr d \<Rightarrow> py_strip (as_source_id s) \<noteq> []
       \<and> dc_runtime_reliance d \<le> max req Rel_REVIEW_SUPPORT_ONLY
       \<and> (dc_gate_outcome d \<in> {Gate_OPEN, Gate_OPEN_WITH_LIMITS} \<longrightarrow> dc_runtime_reliance d \<le> req)
       \<and> (\<not> as_present_at_boundary s \<longrightarrow>
            dc_runtime_reliance d = Rel_RUNTIME_RELIANCE_DENIED \<and> dc_gate_outcome d = Gate_QUARANTINE)"
proof (cases "evaluate_source_state s req did ct tm u")
  case (Inl e)
  with evaluate_ok_iff [of s req did ct tm u] show ?thesis by auto
next
  case (Inr d)
  note E = evaluate_Inr [OF Inr]
  then have m: "map_degradation (dc_degradation d) req (as_requires_commit_revalidation s)
      = (dc_grounding_state d, dc_runtime_reliance d, dc_gate_outcome d)" by blast
  have "dc_degradation d \<le> Deg_CAUTIONARY" if "dc_gate_outcome d \<in> {Gate_OPEN, Gate_OPEN_WITH_LIMITS}"
    using m that
    by (auto simp: map_degradation_def less_eq_degradation_level_def split: degradation_level.splits if_splits)
  moreover have "dc_runtime_reliance d = Rel_RUNTIME_RELIANCE_DENIED \<and> dc_gate_outcome d = Gate_QUARANTINE"
    if "\<not> as_present_at_boundary s"
    using m E that effective_denied_iff [of s req] by (simp add: map_degradation_def)
  ultimately show ?thesis
    using map_degradation_sound(3,4) [OF m] evaluate_ok_iff [of s req did ct tm u] Inr by auto
qed

theorem agl_reliance_bound_witness:
  "\<exists>d. evaluate_source_state (sample_source\<lparr>as_present_at_boundary := False\<rparr>) Rel_COMMIT_ELIGIBLE None None ''t'' ''u'' = Inr d
     \<and> dc_runtime_reliance d = Rel_RUNTIME_RELIANCE_DENIED"
proof -
  let ?s = "sample_source\<lparr>as_present_at_boundary := False\<rparr>"
  have "py_strip (as_source_id ?s) \<noteq> []" using sample_source_id by simp
  then obtain d where "evaluate_source_state ?s Rel_COMMIT_ELIGIBLE None None ''t'' ''u'' = Inr d"
    using evaluate_ok_iff by blast
  with agl_reliance_bound [of ?s Rel_COMMIT_ELIGIBLE None None "''t''" "''u''"] show ?thesis by simp
qed

text \<open>
  A hold widens what was asked for: a source with broken perception whose reliance was requested as
  record-only is granted review support.
\<close>

lemma hold_widens_record_only:
  "\<exists>d. evaluate_source_state (sample_source\<lparr>as_perceptual_integrity := False\<rparr>) Rel_RECORD_ONLY None None ''t'' ''u'' = Inr d
     \<and> dc_grounding_state d = Gs_HOLD_REQUIRED \<and> Rel_RECORD_ONLY < dc_runtime_reliance d"
proof -
  let ?s = "sample_source\<lparr>as_perceptual_integrity := False\<rparr>"
  have "py_strip (as_source_id ?s) \<noteq> []" using sample_source_id by simp
  then obtain d where d: "evaluate_source_state ?s Rel_RECORD_ONLY None None ''t'' ''u'' = Inr d"
    using evaluate_ok_iff by blast
  have "effective_degradation ?s Rel_RECORD_ONLY (source_reason_codes ?s) = Deg_HOLD_TRIGGERING"
    using sample_source_id
    by (simp add: effective_degradation_def Let_def reason_code_in max_degradation_def sample_source_def)
  with evaluate_Inr [OF d] have
    "map_degradation Deg_HOLD_TRIGGERING Rel_RECORD_ONLY (as_requires_commit_revalidation ?s)
     = (dc_grounding_state d, dc_runtime_reliance d, dc_gate_outcome d)"
    by (elim conjE) (simp only:)
  then have "dc_grounding_state d = Gs_HOLD_REQUIRED \<and> dc_runtime_reliance d = Rel_REVIEW_SUPPORT_ONLY"
    by (simp add: map_degradation_def)
  with d show ?thesis by (auto simp: reliance_order)
qed

text \<open>
  Along a sequence of decisions accepted without a fresh grounding basis, reliance never rises
  above that of the first decision while degradation stays unresolved.
\<close>

theorem agl_chain_never_widens:
  assumes "reliance_chain d es" and "dc_degradation d \<noteq> Deg_NO_MATERIAL"
    and "\<forall>e \<in> set (butlast es). dc_degradation e \<noteq> Deg_NO_MATERIAL" and "e \<in> set es"
  shows "dc_runtime_reliance e \<le> dc_runtime_reliance d"
  using chain_never_widens [OF assms(1-3)] assms(4) by blast

theorem agl_chain_never_widens_witness:
  "\<exists>d e. reliance_chain d [e] \<and> dc_degradation d = Deg_HOLD_TRIGGERING \<and> dc_runtime_reliance e \<le> dc_runtime_reliance d"
proof -
  let ?s = "sample_source\<lparr>as_perceptual_integrity := False\<rparr>"
  have "py_strip (as_source_id ?s) \<noteq> []" using sample_source_id by simp
  then obtain d where d: "evaluate_source_state ?s Rel_RECORD_ONLY None None ''t'' ''u'' = Inr d"
    using evaluate_ok_iff by blast
  have "effective_degradation ?s Rel_RECORD_ONLY (source_reason_codes ?s) = Deg_HOLD_TRIGGERING"
    using sample_source_id
    by (simp add: effective_degradation_def Let_def reason_code_in max_degradation_def sample_source_def)
  with evaluate_Inr [OF d] have dg: "dc_degradation d = Deg_HOLD_TRIGGERING" by simp
  have c: "reliance_chain d [d]" using dg by (simp add: transition_accepted_iff)
  have "dc_runtime_reliance d \<le> dc_runtime_reliance d"
    by (rule agl_chain_never_widens [OF c]) (simp_all add: dg)
  with c dg show ?thesis by blast
qed

end
