(* ===== verification/ArqSidecar.thy ===== *)
theory ArqSidecar
  imports PyFiles "HOL-Library.Word"
begin

text \<open>
  \<open>modules/arq/sidecar.py\<close>: the deviation capsules of the ARQ sidecar.  \<open>detect_deviation\<close> opens a
  capsule, \<open>classify_capsule\<close> decides its stage, \<open>request_promotion\<close> evaluates the promotion gates,
  and the store keeps capsules and events.  The two scores are only carried along: a float is its
  64-bit pattern (0.0 is the zero word), and what \<open>json.dumps\<close> writes for it is the parameter
  \<open>float_json\<close>.
\<close>

section \<open>Enumerations\<close>

datatype arq_profile_id =
    Prof_MEM | Prof_PLANNER | Prof_RAG | Prof_VISION

fun profile_id_value :: "arq_profile_id \<Rightarrow> string" where
  "profile_id_value Prof_MEM = ''ARQ-MEM''"
| "profile_id_value Prof_PLANNER = ''ARQ-PLANNER''"
| "profile_id_value Prof_RAG = ''ARQ-RAG''"
| "profile_id_value Prof_VISION = ''ARQ-VISION''"

datatype detector_layer =
    Det_L1 | Det_L2 | Det_L3

fun detector_value :: "detector_layer \<Rightarrow> string" where
  "detector_value Det_L1 = ''L1''"
| "detector_value Det_L2 = ''L2''"
| "detector_value Det_L3 = ''L3''"

datatype boundary_status =
    Bd_DECLARED | Bd_MISSING | Bd_INVALID

fun boundary_value :: "boundary_status \<Rightarrow> string" where
  "boundary_value Bd_DECLARED = ''declared''"
| "boundary_value Bd_MISSING = ''missing''"
| "boundary_value Bd_INVALID = ''invalid''"

datatype deviation_class =
    Dev_DESTRUCTIVE | Dev_EXPLORATORY | Dev_NEUTRAL | Dev_QUARANTINED

fun deviation_value :: "deviation_class \<Rightarrow> string" where
  "deviation_value Dev_DESTRUCTIVE = ''destructive''"
| "deviation_value Dev_EXPLORATORY = ''exploratory''"
| "deviation_value Dev_NEUTRAL = ''neutral''"
| "deviation_value Dev_QUARANTINED = ''quarantined''"

datatype recommendation =
    Rec_SUPPRESS | Rec_OBSERVE | Rec_CANDIDATE | Rec_LOG_ONLY
  | Rec_FAIL_CLOSED

fun recommendation_value :: "recommendation \<Rightarrow> string" where
  "recommendation_value Rec_SUPPRESS = ''suppress''"
| "recommendation_value Rec_OBSERVE = ''observe''"
| "recommendation_value Rec_CANDIDATE = ''candidate''"
| "recommendation_value Rec_LOG_ONLY = ''log_only''"
| "recommendation_value Rec_FAIL_CLOSED = ''fail_closed''"

datatype arq_stage =
    Stage_DETECTED | Stage_CLASSIFIED | Stage_SUPPRESSED | Stage_OBSERVED
  | Stage_LOG_ONLY | Stage_CANDIDATE_ARTIFACT | Stage_PROVISIONAL_ARTIFACT | Stage_CONFIRMED_EA
  | Stage_REJECTED | Stage_QUARANTINED | Stage_FAIL_CLOSED

fun stage_value :: "arq_stage \<Rightarrow> string" where
  "stage_value Stage_DETECTED = ''detected''"
| "stage_value Stage_CLASSIFIED = ''classified''"
| "stage_value Stage_SUPPRESSED = ''suppressed''"
| "stage_value Stage_OBSERVED = ''observed''"
| "stage_value Stage_LOG_ONLY = ''log_only''"
| "stage_value Stage_CANDIDATE_ARTIFACT = ''candidate_artifact''"
| "stage_value Stage_PROVISIONAL_ARTIFACT = ''provisional_artifact''"
| "stage_value Stage_CONFIRMED_EA = ''confirmed_EA''"
| "stage_value Stage_REJECTED = ''rejected''"
| "stage_value Stage_QUARANTINED = ''quarantined''"
| "stage_value Stage_FAIL_CLOSED = ''fail_closed''"

datatype arq_event_type =
    Arq_DETECTED | Arq_CLASSIFIED | Arq_SUPPRESSION_ATTEMPTED | Arq_SUPPRESSION_RESULT
  | Arq_OBSERVE_WINDOW_OPENED | Arq_CANDIDATE_CREATED | Arq_PROMOTION_REQUESTED | Arq_PROMOTION_APPROVED
  | Arq_PROMOTION_DENIED | Arq_EA_CONFIRMED | Arq_REJECTED | Arq_QUARANTINED
  | Arq_FAIL_CLOSED | Arq_EPOCH_INVALIDATED | Arq_ROLLBACK_EXECUTED

fun arq_event_value :: "arq_event_type \<Rightarrow> string" where
  "arq_event_value Arq_DETECTED = ''arq.detected''"
| "arq_event_value Arq_CLASSIFIED = ''arq.classified''"
| "arq_event_value Arq_SUPPRESSION_ATTEMPTED = ''arq.suppression_attempted''"
| "arq_event_value Arq_SUPPRESSION_RESULT = ''arq.suppression_result''"
| "arq_event_value Arq_OBSERVE_WINDOW_OPENED = ''arq.observe_window_opened''"
| "arq_event_value Arq_CANDIDATE_CREATED = ''arq.candidate_created''"
| "arq_event_value Arq_PROMOTION_REQUESTED = ''arq.promotion_requested''"
| "arq_event_value Arq_PROMOTION_APPROVED = ''arq.promotion_approved''"
| "arq_event_value Arq_PROMOTION_DENIED = ''arq.promotion_denied''"
| "arq_event_value Arq_EA_CONFIRMED = ''arq.ea_confirmed''"
| "arq_event_value Arq_REJECTED = ''arq.rejected''"
| "arq_event_value Arq_QUARANTINED = ''arq.quarantined''"
| "arq_event_value Arq_FAIL_CLOSED = ''arq.fail_closed''"
| "arq_event_value Arq_EPOCH_INVALIDATED = ''arq.epoch_invalidated''"
| "arq_event_value Arq_ROLLBACK_EXECUTED = ''arq.rollback_executed''"

datatype arq_slot =
    Slot_A | Slot_B

fun slot_value :: "arq_slot \<Rightarrow> string" where
  "slot_value Slot_A = ''A''"
| "slot_value Slot_B = ''B''"

section \<open>Dataclasses\<close>

record arq_profile =
  ap_profile_id :: arq_profile_id
  ap_direct_promotion_allowed :: bool
  ap_boundary_required :: bool
  ap_witness_required_for_candidate :: bool
  ap_review_required_for_promotion :: bool
  ap_anti_echo_required :: bool
  ap_strict_memory_promotion :: bool
  ap_requires_slot_a_valid :: bool

record arq_capsule =
  ac_capsule_id :: string
  ac_profile_id :: arq_profile_id
  ac_event_stage :: arq_stage
  ac_detected_by :: detector_layer
  ac_boundary_status :: boundary_status
  ac_boundary_id :: string
  ac_deviation_class :: deviation_class
  ac_recommended_action :: recommendation
  ac_value_score :: "64 word"
  ac_anomaly_score :: "64 word"
  ac_witness_refs :: "string list"
  ac_anti_echo_quarantine :: bool
  ac_trust_valid :: bool
  ac_budget_valid :: bool
  ac_slot :: arq_slot
  ac_slot_a_valid :: bool
  ac_payload_hash :: string
  ac_reason_codes :: "string list"
  ac_created_at :: string
  ac_updated_at :: string
  ac_metadata :: pydict

record arq_event =
  av_event_type :: arq_event_type
  av_event_id :: string
  av_capsule_id :: string
  av_occurred_at :: string
  av_payload :: pydict

record arq_decision =
  ad_allowed :: bool
  ad_target_stage :: arq_stage
  ad_event_type :: arq_event_type
  ad_reason_codes :: "string list"
  ad_message :: string
  ad_memory_promotion :: bool

section \<open>Profiles\<close>

definition plain_profile :: "arq_profile_id \<Rightarrow> arq_profile" where
  \<comment> \<open>\<open>ArqProfile(profile_id=p)\<close> with the dataclass defaults\<close>
  "plain_profile p =
     \<lparr>ap_profile_id = p, ap_direct_promotion_allowed = False, ap_boundary_required = True,
      ap_witness_required_for_candidate = True, ap_review_required_for_promotion = True,
      ap_anti_echo_required = True, ap_strict_memory_promotion = False,
      ap_requires_slot_a_valid = True\<rparr>"

definition default_profiles :: "(arq_profile_id \<times> arq_profile) list" where
  "default_profiles =
     [(Prof_MEM, (plain_profile Prof_MEM)\<lparr>ap_direct_promotion_allowed := False,
         ap_strict_memory_promotion := True\<rparr>),
      (Prof_PLANNER, plain_profile Prof_PLANNER),
      (Prof_RAG, plain_profile Prof_RAG),
      (Prof_VISION, plain_profile Prof_VISION)]"

definition get_profile :: "arq_profile_id \<Rightarrow> arq_profile" where
  "get_profile p = the (map_of default_profiles p)"

lemma get_profile_simps [simp]:
  "ap_boundary_required (get_profile p)" "ap_witness_required_for_candidate (get_profile p)"
  "ap_review_required_for_promotion (get_profile p)" "ap_requires_slot_a_valid (get_profile p)"
  "ap_strict_memory_promotion (get_profile p) \<longleftrightarrow> p = Prof_MEM"
  "\<not> ap_direct_promotion_allowed (get_profile p)" "ap_profile_id (get_profile p) = p"
  "p \<in> fst ` set default_profiles"
  by (cases p; simp add: get_profile_def default_profiles_def plain_profile_def)+

section \<open>Operations\<close>

definition arq_event_id :: "string \<Rightarrow> string \<Rightarrow> string" where
  "arq_event_id prefix u = ''arq-'' @ prefix @ '':'' @ u"

definition detect_deviation ::
  "arq_profile_id \<Rightarrow> detector_layer \<Rightarrow> string \<Rightarrow> boundary_status option \<Rightarrow> string option \<Rightarrow> string option \<Rightarrow>
   string \<Rightarrow> pydict \<Rightarrow> string \<Rightarrow> ids \<Rightarrow> arq_capsule \<times> arq_event" where
  "detect_deviation profile_id detected_by boundary_id boundary_st capsule_id occurred_at payload_hash
     metadata tm u =
     (let ts = str_or occurred_at tm;
          status = (case boundary_st of Some b \<Rightarrow> b
                    | None \<Rightarrow> if boundary_id \<noteq> [] then Bd_DECLARED else Bd_MISSING);
          capsule =
            \<lparr>ac_capsule_id = str_or capsule_id (''arq:'' @ u 0), ac_profile_id = profile_id,
             ac_event_stage = Stage_DETECTED, ac_detected_by = detected_by,
             ac_boundary_status = status, ac_boundary_id = boundary_id,
             ac_deviation_class = Dev_NEUTRAL, ac_recommended_action = Rec_LOG_ONLY,
             ac_value_score = 0, ac_anomaly_score = 0, ac_witness_refs = [],
             ac_anti_echo_quarantine = False, ac_trust_valid = True, ac_budget_valid = True,
             ac_slot = Slot_A, ac_slot_a_valid = True, ac_payload_hash = payload_hash,
             ac_reason_codes = [], ac_created_at = ts, ac_updated_at = ts, ac_metadata = metadata\<rparr>
      in (capsule,
          \<lparr>av_event_type = Arq_DETECTED, av_event_id = arq_event_id ''detected'' (u 1),
           av_capsule_id = ac_capsule_id capsule, av_occurred_at = ts,
           av_payload = [(''profile_id'', PStr (profile_id_value profile_id)),
             (''detected_by'', PStr (detector_value detected_by)),
             (''boundary_status'', PStr (boundary_value status)),
             (''boundary_id'', PStr (ac_boundary_id capsule))]\<rparr>))"

definition classification_stage ::
  "arq_capsule \<Rightarrow> recommendation \<Rightarrow> bool \<Rightarrow> bool \<Rightarrow> bool \<Rightarrow> arq_stage \<times> string list" where
  "classification_stage capsule recommended anti_echo trust_valid budget_valid =
     (if \<not> trust_valid then (Stage_FAIL_CLOSED, [''ARQ_TRUST_INVALID''])
      else if \<not> budget_valid then (Stage_FAIL_CLOSED, [''ARQ_BUDGET_INVALID''])
      else if ac_boundary_status capsule \<noteq> Bd_DECLARED then (Stage_LOG_ONLY, [''ARQ_BOUNDARY_REQUIRED''])
      else if anti_echo then (Stage_QUARANTINED, [''ARQ_ANTI_ECHO_QUARANTINE''])
      else if recommended = Rec_SUPPRESS then (Stage_SUPPRESSED, [])
      else if recommended = Rec_OBSERVE then (Stage_OBSERVED, [])
      else if recommended = Rec_CANDIDATE then (Stage_CANDIDATE_ARTIFACT, [])
      else if recommended = Rec_FAIL_CLOSED then (Stage_FAIL_CLOSED, [''ARQ_RECOMMENDED_FAIL_CLOSED''])
      else (Stage_LOG_ONLY, []))"

fun stage_event :: "arq_stage \<Rightarrow> arq_event_type option" where
  \<comment> \<open>the \<open>mapping\<close> of \<open>_event_for_stage\<close>\<close>
  "stage_event Stage_SUPPRESSED = Some Arq_SUPPRESSION_RESULT"
| "stage_event Stage_OBSERVED = Some Arq_OBSERVE_WINDOW_OPENED"
| "stage_event Stage_CANDIDATE_ARTIFACT = Some Arq_CANDIDATE_CREATED"
| "stage_event Stage_QUARANTINED = Some Arq_QUARANTINED"
| "stage_event Stage_FAIL_CLOSED = Some Arq_FAIL_CLOSED"
| "stage_event Stage_REJECTED = Some Arq_REJECTED"
| "stage_event _ = None"

definition event_for_stage :: "arq_capsule \<Rightarrow> string \<Rightarrow> string \<Rightarrow> arq_event option" where
  "event_for_stage capsule occurred_at u =
     map_option (\<lambda>event_type.
       \<lparr>av_event_type = event_type, av_event_id = arq_event_id (stage_value (ac_event_stage capsule)) u,
        av_capsule_id = ac_capsule_id capsule, av_occurred_at = occurred_at,
        av_payload = [(''event_stage'', PStr (stage_value (ac_event_stage capsule))),
          (''reason_codes'', PList (map PStr (ac_reason_codes capsule)))]\<rparr>)
       (stage_event (ac_event_stage capsule))"

definition classify_capsule ::
  "arq_capsule \<Rightarrow> deviation_class \<Rightarrow> recommendation \<Rightarrow> 64 word \<Rightarrow> 64 word \<Rightarrow> string list \<Rightarrow> bool \<Rightarrow> bool \<Rightarrow> bool \<Rightarrow>
   arq_slot option \<Rightarrow> bool option \<Rightarrow> string option \<Rightarrow> string \<Rightarrow> ids \<Rightarrow> arq_capsule \<times> arq_event list" where
  "classify_capsule capsule deviation recommended value_score anomaly_score witness_refs anti_echo
     trust_valid budget_valid slot slot_a_valid occurred_at tm u =
     (let ts = str_or occurred_at tm;
          (stage, reasons) = classification_stage capsule recommended anti_echo trust_valid budget_valid;
          updated = capsule\<lparr>ac_event_stage := stage, ac_deviation_class := deviation,
            ac_recommended_action := recommended, ac_value_score := value_score,
            ac_anomaly_score := anomaly_score,
            ac_witness_refs := filter (\<lambda>x. x \<noteq> []) witness_refs,
            ac_anti_echo_quarantine := anti_echo, ac_trust_valid := trust_valid,
            ac_budget_valid := budget_valid,
            ac_slot := (case slot of None \<Rightarrow> ac_slot capsule | Some x \<Rightarrow> x),
            ac_slot_a_valid := (case slot_a_valid of None \<Rightarrow> ac_slot_a_valid capsule | Some b \<Rightarrow> b),
            ac_reason_codes := reasons, ac_updated_at := ts\<rparr>;
          classified =
            \<lparr>av_event_type = Arq_CLASSIFIED, av_event_id = arq_event_id ''classified'' (u 0),
             av_capsule_id = ac_capsule_id updated, av_occurred_at = ts,
             av_payload = [(''deviation_class'', PStr (deviation_value deviation)),
               (''recommended_action'', PStr (recommendation_value recommended)),
               (''event_stage'', PStr (stage_value (ac_event_stage updated))),
               (''reason_codes'', PList (map PStr (ac_reason_codes updated)))]\<rparr>
      in (updated, case event_for_stage updated ts (u 1) of
                     Some extra \<Rightarrow> [classified, extra] | None \<Rightarrow> [classified]))"

definition dedup :: "'a list \<Rightarrow> 'a list" where
  \<comment> \<open>\<open>dict.fromkeys\<close> keeps the first occurrence\<close>
  "dedup xs = rev (remdups (rev xs))"

definition promotion_stages :: "arq_stage set" where
  "promotion_stages = {Stage_CANDIDATE_ARTIFACT, Stage_PROVISIONAL_ARTIFACT, Stage_OBSERVED}"

definition promotion_reasons :: "arq_capsule \<Rightarrow> bool \<Rightarrow> bool \<Rightarrow> bool \<Rightarrow> string list" where
  "promotion_reasons capsule review_approved anchor_approved high_value =
     (let profile = get_profile (ac_profile_id capsule) in
      (if ap_boundary_required profile \<and> ac_boundary_status capsule \<noteq> Bd_DECLARED
       then [''ARQ_BOUNDARY_REQUIRED''] else [])
    @ (if ap_requires_slot_a_valid profile \<and> ac_slot capsule = Slot_B \<and> \<not> ac_slot_a_valid capsule
       then [''ARQ_SLOT_A_FAILURE''] else [])
    @ (if ac_anti_echo_quarantine capsule then [''ARQ_ANTI_ECHO_QUARANTINE''] else [])
    @ (if \<not> ac_trust_valid capsule then [''ARQ_TRUST_INVALID''] else [])
    @ (if \<not> ac_budget_valid capsule then [''ARQ_BUDGET_INVALID''] else [])
    @ (if ap_witness_required_for_candidate profile \<and> ac_witness_refs capsule = []
       then [''ARQ_WITNESS_REQUIRED''] else [])
    @ (if ap_review_required_for_promotion profile \<and> \<not> review_approved
       then [''ARQ_REVIEW_REQUIRED''] else [])
    @ (if high_value \<and> \<not> anchor_approved then [''ARQ_ANCHOR_APPROVAL_REQUIRED''] else [])
    @ (if ap_strict_memory_promotion profile \<and> \<not> review_approved
       then [''ARQ_MEM_DIRECT_PROMOTION_DENIED''] else [])
    @ (if ac_event_stage capsule \<notin> promotion_stages then [''ARQ_STAGE_NOT_PROMOTION_ELIGIBLE''] else []))"

definition validate_promotion_request :: "arq_capsule \<Rightarrow> bool \<Rightarrow> bool \<Rightarrow> bool \<Rightarrow> arq_decision" where
  "validate_promotion_request capsule review_approved anchor_approved high_value =
     (let reasons = promotion_reasons capsule review_approved anchor_approved high_value;
          target = (if ''ARQ_ANTI_ECHO_QUARANTINE'' \<in> set reasons then Stage_QUARANTINED else Stage_LOG_ONLY);
          target = (if ''ARQ_TRUST_INVALID'' \<in> set reasons \<or> ''ARQ_BUDGET_INVALID'' \<in> set reasons
                    then Stage_FAIL_CLOSED else target)
      in if reasons \<noteq> [] then
           \<lparr>ad_allowed = False, ad_target_stage = target, ad_event_type = Arq_PROMOTION_DENIED,
            ad_reason_codes = dedup reasons, ad_message = ''promotion denied by ARQ sidecar gates'',
            ad_memory_promotion = False\<rparr>
         else
           \<lparr>ad_allowed = True, ad_target_stage = Stage_PROVISIONAL_ARTIFACT,
            ad_event_type = Arq_PROMOTION_APPROVED,
            ad_reason_codes = [''ARQ_PROMOTION_REVIEW_APPROVED''],
            ad_message = ''promotion may proceed to provisional artifact only'',
            ad_memory_promotion = False\<rparr>)"

definition request_promotion ::
  "arq_capsule \<Rightarrow> bool \<Rightarrow> bool \<Rightarrow> bool \<Rightarrow> string option \<Rightarrow> string \<Rightarrow> string \<Rightarrow> arq_decision \<times> arq_event" where
  "request_promotion capsule review_approved anchor_approved high_value occurred_at tm u =
     (let ts = str_or occurred_at tm;
          decision = validate_promotion_request capsule review_approved anchor_approved high_value
      in (decision,
          \<lparr>av_event_type = ad_event_type decision, av_event_id = arq_event_id ''promotion'' u,
           av_capsule_id = ac_capsule_id capsule, av_occurred_at = ts,
           av_payload = [(''allowed'', PBool (ad_allowed decision)),
             (''target_stage'', PStr (stage_value (ad_target_stage decision))),
             (''reason_codes'', PList (map PStr (ad_reason_codes decision))),
             (''memory_promotion'', PBool (ad_memory_promotion decision))]\<rparr>))"

section \<open>The store\<close>

definition capsule_record :: "(64 word \<Rightarrow> pyval) \<Rightarrow> arq_capsule \<Rightarrow> pyval" where
  "capsule_record float_json c = PDict [
     (''capsule_id'', PStr (ac_capsule_id c)),
     (''profile_id'', PStr (profile_id_value (ac_profile_id c))),
     (''event_stage'', PStr (stage_value (ac_event_stage c))),
     (''detected_by'', PStr (detector_value (ac_detected_by c))),
     (''boundary_status'', PStr (boundary_value (ac_boundary_status c))),
     (''boundary_id'', PStr (ac_boundary_id c)),
     (''deviation_class'', PStr (deviation_value (ac_deviation_class c))),
     (''recommended_action'', PStr (recommendation_value (ac_recommended_action c))),
     (''value_score'', float_json (ac_value_score c)),
     (''anomaly_score'', float_json (ac_anomaly_score c)),
     (''witness_refs'', PList (map PStr (ac_witness_refs c))),
     (''anti_echo_quarantine'', PBool (ac_anti_echo_quarantine c)),
     (''trust_valid'', PBool (ac_trust_valid c)), (''budget_valid'', PBool (ac_budget_valid c)),
     (''slot'', PStr (slot_value (ac_slot c))), (''slot_a_valid'', PBool (ac_slot_a_valid c)),
     (''payload_hash'', PStr (ac_payload_hash c)),
     (''reason_codes'', PList (map PStr (ac_reason_codes c))),
     (''created_at'', PStr (ac_created_at c)), (''updated_at'', PStr (ac_updated_at c)),
     (''metadata'', PDict (ac_metadata c))]"

definition arq_event_record :: "arq_event \<Rightarrow> pyval" where
  "arq_event_record e = PDict [(''event_type'', PStr (arq_event_value (av_event_type e))),
     (''event_id'', PStr (av_event_id e)), (''capsule_id'', PStr (av_capsule_id e)),
     (''occurred_at'', PStr (av_occurred_at e)), (''payload'', PDict (av_payload e))]"

definition arq_base_dir :: "path \<Rightarrow> path" where
  "arq_base_dir root = root @ [''arq'']"

definition arq_capsules_dir :: "path \<Rightarrow> path" where
  "arq_capsules_dir root = arq_base_dir root @ [''capsules'']"

definition arq_events_path :: "path \<Rightarrow> path" where
  "arq_events_path root = arq_base_dir root @ [''events.jsonl'']"

definition arq_manifest_path :: "path \<Rightarrow> path" where
  "arq_manifest_path root = arq_base_dir root @ [''manifest.json'']"

definition arq_manifest :: "path \<Rightarrow> pydict" where
  "arq_manifest root =
     [(''schema'', PStr ''ester.arq.store.v1''), (''purpose'', PStr ''profile_capsule_sidecar''),
      (''capsules'', PStr (path_str (arq_capsules_dir root))),
      (''events'', PStr (path_str (arq_events_path root))),
      (''memory_promotion_wired'', PBool False)]"

definition arq_ensure_dirs :: "path \<Rightarrow> string \<Rightarrow> files \<Rightarrow> files" where
  "arq_ensure_dirs root u s = write_json (arq_manifest_path root) (PDict (arq_manifest root)) u s"

definition save_capsule :: "(64 word \<Rightarrow> pyval) \<Rightarrow> path \<Rightarrow> arq_capsule \<Rightarrow> ids \<Rightarrow> files \<Rightarrow> files" where
  "save_capsule float_json root c u s =
     write_json (doc_path (arq_capsules_dir root) ''capsule'' (ac_capsule_id c)) (capsule_record float_json c) (u 1)
       (arq_ensure_dirs root (u 0) s)"

definition load_capsule :: "path \<Rightarrow> string \<Rightarrow> files \<Rightarrow> io_error + pydict option" where
  "load_capsule root i s = load_json (doc_path (arq_capsules_dir root) ''capsule'' i) s"

definition arq_append_event :: "path \<Rightarrow> string \<Rightarrow> arq_event \<Rightarrow> files \<Rightarrow> files" where
  "arq_append_event root u e s =
     append_line (arq_events_path root) (arq_event_record e) (arq_ensure_dirs root u s)"

definition arq_append_events :: "path \<Rightarrow> string \<Rightarrow> arq_event list \<Rightarrow> files \<Rightarrow> files" where
  "arq_append_events root u es s =
     append_lines (arq_events_path root) (map arq_event_record es) (arq_ensure_dirs root u s)"

definition arq_load_events :: "path \<Rightarrow> files \<Rightarrow> io_error + pydict list" where
  "arq_load_events root s = load_rows (arq_events_path root) s"

lemma load_capsule_ensure [simp]: "load_capsule root i (arq_ensure_dirs root u s) = load_capsule root i s"
  unfolding load_capsule_def arq_ensure_dirs_def
  by (rule load_doc_other_file) (simp add: doc_path_def arq_capsules_dir_def arq_manifest_path_def)

lemma arq_records_are_dicts [simp]:
  "PDict (dict_of (capsule_record fj c)) = capsule_record fj c"
  "PDict (dict_of (arq_event_record e)) = arq_event_record e"
  by (simp_all add: capsule_record_def arq_event_record_def)

interpretation capsule_docs: document_store "save_capsule fj root" "load_capsule root"
    ac_capsule_id "safe_file_id ''capsule''" "\<lambda>c. dict_of (capsule_record fj c)" for fj root
  using load_capsule_ensure
  by unfold_locales (simp_all add: load_capsule_def save_capsule_def load_doc_same load_doc_other)

interpretation arq_events: append_log "arq_append_event root u" "arq_load_events root"
    "\<lambda>e. dict_of (arq_event_record e)" "\<lambda>e. line_safe (arq_event_record e)" for root u
proof unfold_locales
  fix s rows e x
  have ens: "arq_load_events root s = load_rows (arq_events_path root) (arq_ensure_dirs root u s)"
    by (simp add: arq_load_events_def arq_ensure_dirs_def)
  have run: "arq_load_events root (arq_append_event root u e s) = load_rows (arq_events_path root) (append_line (arq_events_path root) (PDict (dict_of (arq_event_record e))) (arq_ensure_dirs root u s))"
    by (simp add: arq_append_event_def arq_load_events_def)
  show "arq_load_events root s = Inr rows \<Longrightarrow> line_safe (arq_event_record e) \<Longrightarrow> arq_load_events root (arq_append_event root u e s) = Inr (rows @ [dict_of (arq_event_record e)])"
    unfolding run ens by (rule load_rows_append_line) simp_all
  show "arq_load_events root s = Inr rows \<Longrightarrow> \<not> line_safe (arq_event_record e) \<Longrightarrow> arq_load_events root (arq_append_event root u e s) = Inl JSONDecodeError"
    unfolding run ens by (rule load_rows_cut_line) simp_all
  show "arq_load_events root s = Inl x \<Longrightarrow> arq_load_events root (arq_append_event root u e s) = Inl x"
    unfolding run ens by (rule load_rows_stuck)
qed

section \<open>The promotion gates\<close>

definition gates_open :: "arq_capsule \<Rightarrow> bool \<Rightarrow> bool \<Rightarrow> bool \<Rightarrow> bool" where
  "gates_open c review anchor high =
     (ac_boundary_status c = Bd_DECLARED \<and> (ac_slot c = Slot_A \<or> ac_slot_a_valid c)
    \<and> \<not> ac_anti_echo_quarantine c \<and> ac_trust_valid c \<and> ac_budget_valid c \<and> ac_witness_refs c \<noteq> []
    \<and> review \<and> (high \<longrightarrow> anchor) \<and> ac_event_stage c \<in> promotion_stages)"

lemma promotion_reasons_empty: "promotion_reasons c rv an hv = [] \<longleftrightarrow> gates_open c rv an hv"
  by (cases "ac_slot c") (auto simp: promotion_reasons_def gates_open_def Let_def)

lemma promotion_reason_in:
  "''ARQ_ANTI_ECHO_QUARANTINE'' \<in> set (promotion_reasons c rv an hv) \<longleftrightarrow> ac_anti_echo_quarantine c"
  "''ARQ_TRUST_INVALID'' \<in> set (promotion_reasons c rv an hv) \<longleftrightarrow> \<not> ac_trust_valid c"
  "''ARQ_BUDGET_INVALID'' \<in> set (promotion_reasons c rv an hv) \<longleftrightarrow> \<not> ac_budget_valid c"
  by (auto simp: promotion_reasons_def Let_def)

lemma promotion_decision:
  "ad_allowed (validate_promotion_request c rv an hv) \<longleftrightarrow> gates_open c rv an hv"
  "\<not> ad_memory_promotion (validate_promotion_request c rv an hv)"
  "ad_target_stage (validate_promotion_request c rv an hv) =
     (if gates_open c rv an hv then Stage_PROVISIONAL_ARTIFACT
      else if \<not> ac_trust_valid c \<or> \<not> ac_budget_valid c then Stage_FAIL_CLOSED
      else if ac_anti_echo_quarantine c then Stage_QUARANTINED else Stage_LOG_ONLY)"
  by (simp_all add: validate_promotion_request_def Let_def promotion_reasons_empty promotion_reason_in)

lemma classify_simps:
  assumes "classify_capsule c dv rc vs as ws ae tv bv sl sa occ tm u = (c', es)"
  shows "ac_event_stage c' = fst (classification_stage c rc ae tv bv)"
    and "ac_boundary_status c' = ac_boundary_status c" and "ac_capsule_id c' = ac_capsule_id c"
    and "ac_trust_valid c' = tv" and "ac_budget_valid c' = bv" and "ac_anti_echo_quarantine c' = ae"
    and "ac_witness_refs c' = filter (\<lambda>x. x \<noteq> []) ws" and "ac_profile_id c' = ac_profile_id c"
    and "ac_slot c' = (case sl of None \<Rightarrow> ac_slot c | Some x \<Rightarrow> x)"
    and "ac_slot_a_valid c' = (case sa of None \<Rightarrow> ac_slot_a_valid c | Some b \<Rightarrow> b)"
    and "\<exists>e. hd es = e \<and> av_event_type e = Arq_CLASSIFIED"
    and "map av_event_type es = Arq_CLASSIFIED # (case stage_event (ac_event_stage c') of None \<Rightarrow> [] | Some t \<Rightarrow> [t])"
    and "\<forall>e \<in> set es. av_capsule_id e = ac_capsule_id c"
  using assms
  by (auto simp: classify_capsule_def Let_def event_for_stage_def split: prod.splits option.splits)

lemma classification_eligible:
  "fst (classification_stage c rc ae tv bv) \<in> promotion_stages \<longleftrightarrow>
     tv \<and> bv \<and> ac_boundary_status c = Bd_DECLARED \<and> \<not> ae \<and> rc \<in> {Rec_OBSERVE, Rec_CANDIDATE}"
  by (auto simp: classification_stage_def promotion_stages_def)

lemma classify_then_promote:
  assumes "classify_capsule c dv rc vs as ws ae tv bv sl sa occ tm u = (c', es)"
  shows "ad_allowed (fst (request_promotion c' rv an hv occ' tm' u')) \<longleftrightarrow>
     ac_boundary_status c = Bd_DECLARED \<and> tv \<and> bv \<and> \<not> ae \<and> rc \<in> {Rec_OBSERVE, Rec_CANDIDATE}
   \<and> (\<exists>w \<in> set ws. w \<noteq> []) \<and> rv \<and> (hv \<longrightarrow> an)
   \<and> ((case sl of None \<Rightarrow> ac_slot c | Some x \<Rightarrow> x) = Slot_A
       \<or> (case sa of None \<Rightarrow> ac_slot_a_valid c | Some b \<Rightarrow> b))"
proof -
  have "filter (\<lambda>x. x \<noteq> []) ws \<noteq> [] \<longleftrightarrow> (\<exists>w \<in> set ws. w \<noteq> [])"
    by (auto simp: filter_empty_conv)
  then show ?thesis
    using classification_eligible [of c rc ae tv bv]
    by (simp add: request_promotion_def Let_def promotion_decision gates_open_def classify_simps [OF assms])
      blast
qed

section \<open>Properties\<close>

text \<open>
  C8: a promotion is allowed exactly when every gate is open, then to a provisional artifact only;
  a denial fails closed on invalid trust or budget and quarantines an echo; memory is never promoted.
\<close>

theorem arq_promotion_gates:
  "let D = fst (request_promotion c rv an hv occ tm u) in
     (ad_allowed D \<longleftrightarrow> ac_boundary_status c = Bd_DECLARED \<and> (ac_slot c = Slot_A \<or> ac_slot_a_valid c)
        \<and> \<not> ac_anti_echo_quarantine c \<and> ac_trust_valid c \<and> ac_budget_valid c \<and> ac_witness_refs c \<noteq> []
        \<and> rv \<and> (hv \<longrightarrow> an) \<and> ac_event_stage c \<in> promotion_stages)
   \<and> ad_target_stage D = (if ad_allowed D then Stage_PROVISIONAL_ARTIFACT
        else if \<not> ac_trust_valid c \<or> \<not> ac_budget_valid c then Stage_FAIL_CLOSED
        else if ac_anti_echo_quarantine c then Stage_QUARANTINED else Stage_LOG_ONLY)
   \<and> \<not> ad_memory_promotion D"
  by (simp add: request_promotion_def Let_def promotion_decision gates_open_def)

definition sample_capsule :: arq_capsule where
  "sample_capsule = fst (detect_deviation Prof_MEM Det_L1 ''b1'' None None None [] [] ''t'' (\<lambda>_. ''u''))"

theorem arq_promotion_gates_witness:
  "\<not> ad_allowed (fst (request_promotion sample_capsule True True True None ''t'' ''u''))"
  using arq_promotion_gates [of sample_capsule True True True None "''t''" "''u''"]
  by (simp add: Let_def sample_capsule_def detect_deviation_def promotion_stages_def)

text \<open>
  The whole pipeline.  A capsule that is detected with a boundary, then classified, is promoted
  exactly when it was classified as observed or candidate with trust, budget, no echo and a witness,
  and the request is reviewed (and anchored when of high value), whatever the profile.
\<close>

theorem arq_pipeline:
  assumes "detect_deviation pid det bid None cid occ ph md tm u = (c, e)"
    and "classify_capsule c dv rc vs as ws ae tv bv sl sa occ2 tm2 u2 = (c', es)"
  shows "ad_allowed (fst (request_promotion c' rv an hv occ3 tm3 u3)) \<longleftrightarrow>
     bid \<noteq> [] \<and> tv \<and> bv \<and> \<not> ae \<and> rc \<in> {Rec_OBSERVE, Rec_CANDIDATE} \<and> (\<exists>w \<in> set ws. w \<noteq> [])
   \<and> rv \<and> (hv \<longrightarrow> an) \<and> (sl = Some Slot_B \<longrightarrow> sa \<noteq> Some False)"
proof -
  have c: "ac_boundary_status c = (if bid \<noteq> [] then Bd_DECLARED else Bd_MISSING)" "ac_slot c = Slot_A" "ac_slot_a_valid c"
    using assms(1) by (auto simp: detect_deviation_def Let_def)
  have "((case sl of None \<Rightarrow> ac_slot c | Some x \<Rightarrow> x) = Slot_A \<or> (case sa of None \<Rightarrow> ac_slot_a_valid c | Some b \<Rightarrow> b))
      \<longleftrightarrow> (sl = Some Slot_B \<longrightarrow> sa \<noteq> Some False)"
    using c by (cases sl; cases sa) (auto intro: arq_slot.exhaust)
  then show ?thesis using classify_then_promote [OF assms(2), of rv an hv occ3 tm3 u3] c(1) by auto
qed

theorem arq_pipeline_witness:
  "\<exists>c es. classify_capsule sample_capsule Dev_EXPLORATORY Rec_CANDIDATE 0 0 [''w''] False True True None None None ''t'' (\<lambda>_. ''u'') = (c, es)
     \<and> ad_allowed (fst (request_promotion c True True True None ''t'' ''u''))"
proof -
  obtain e where d: "detect_deviation Prof_MEM Det_L1 ''b1'' None None None [] [] ''t'' (\<lambda>_. ''u'') = (sample_capsule, e)"
    by (metis prod.collapse sample_capsule_def)
  obtain c es where c: "classify_capsule sample_capsule Dev_EXPLORATORY Rec_CANDIDATE 0 0 [''w''] False True True None None None ''t'' (\<lambda>_. ''u'') = (c, es)"
    by force
  from arq_pipeline [OF d c, of True True True None "''t''" "''u''"] c show ?thesis by simp
qed

text \<open>The strict memory profile adds no gate: the decision does not depend on the profile.\<close>

lemma strict_profile_redundant:
  "ad_allowed (validate_promotion_request (c\<lparr>ac_profile_id := p\<rparr>) rv an hv)
     = ad_allowed (validate_promotion_request c rv an hv)"
  by (simp add: promotion_decision gates_open_def)

end
