(* ===== verification/AgentQueue.thy ===== *)
theory AgentQueue
  imports PyFiles PyConv "HOL-Library.Product_Lexorder"
begin

text \<open>
  \<open>modules/garage/agent_queue.py\<close>: the event-sourced queue of plans for agents.  The queue is the
  file \<open>queue.jsonl\<close>; its lines are the state \<open>jtext list\<close> of the operations, and \<open>fold_state\<close> replays
  them into items.  Reading skips lines that do not parse.  A row may still make the replay raise:
  \<open>int\<close> and \<open>dict\<close> raise on values they cannot convert (\<open>py_error\<close>).

  Parameters: the environment (\<open>getenv\<close>), the reply of \<open>agent_factory.get_agent\<close> (\<open>None\<close> when it
  raises), the template table of the plan templates, the reply of \<open>_normalize_validate_plan\<close>
  (\<open>prep\<close>), the current time in seconds and the random part of a fresh queue id.
\<close>

definition env_bool :: "(string \<Rightarrow> string option) \<Rightarrow> string \<Rightarrow> bool \<Rightarrow> bool" where
  "env_bool getenv name dflt =
     (let raw = (case getenv name of None \<Rightarrow> [] | Some s \<Rightarrow> s) in
      if py_strip raw = [] then dflt else as_bool (PStr raw) dflt)"

definition q_slot :: "(string \<Rightarrow> string option) \<Rightarrow> string" where
  "q_slot getenv =
     (let raw = py_upper (py_strip (str_or (getenv ''ESTER_VOLITION_SLOT'') ''A'')) in
      if raw = ''B'' then ''B'' else ''A'')"

definition plan_is_governed_mesh :: "pyval \<Rightarrow> bool" where
  "plan_is_governed_mesh plan = (case plan of
     PDict p \<Rightarrow> (case dict_get p ''meta'' of PDict m \<Rightarrow> truthy (dict_get m ''governed_mesh'') | _ \<Rightarrow> False)
   | _ \<Rightarrow> False)"

definition is_legacy_proactivity_enqueue :: "string \<Rightarrow> string \<Rightarrow> bool" where
  "is_legacy_proactivity_enqueue actor reason =
     (let a = py_lower (py_strip actor); r = py_lower (py_strip reason) in
      if \<not> (a = ''ester'' \<or> py_prefix ''ester:'' a) then False
      else py_prefix ''proactivity_enqueue:'' r)"

definition legacy_proactivity_queue_allowed :: "(string \<Rightarrow> string option) \<Rightarrow> bool" where
  "legacy_proactivity_queue_allowed getenv =
     env_bool getenv ''ESTER_PROACTIVITY_LEGACY_AGENT_QUEUE_ENABLED'' False"

section \<open>What the queue asks about an agent\<close>

record agent_env =
  env_get_agent :: "string \<Rightarrow> pydict option"
  env_templates :: "pydict option"
  env_getenv :: "string \<Rightarrow> string option"

definition template_requires_approval :: "agent_env \<Rightarrow> string \<Rightarrow> bool option" where
  "template_requires_approval E template_id =
     (let tid = py_strip template_id in
      if tid = [] then None
      else case env_templates E of
        None \<Rightarrow> None
      | Some table \<Rightarrow>
          (case dict_arg (dict_get table tid) of
             Inl _ \<Rightarrow> None
           | Inr tpl \<Rightarrow>
               if tpl = [] then None
               else (case dict_arg (dict_get tpl ''queue_policy'') of
                  Inl _ \<Rightarrow> None
                | Inr policy \<Rightarrow>
                    if \<not> has_key policy ''requires_approval'' then None
                    else Some (as_bool (dict_get policy ''requires_approval'') False))))"

definition agent_enabled_state :: "agent_env \<Rightarrow> string \<Rightarrow> py_error + bool option" where
  "agent_enabled_state E agent_id =
     (let aid = py_strip agent_id in
      if aid = [] then Inr None
      else case env_get_agent E aid of
        None \<Rightarrow> Inr None
      | Some rep \<Rightarrow>
          if \<not> truthy (dict_get rep ''ok'') then Inr None
          else bindE (dict_arg (dict_get rep ''agent'')) (\<lambda>row.
               bindE (dict_arg (dict_get row ''spec'')) (\<lambda>spec.
               Inr (Some (truthy
                 (if has_key spec ''enabled'' then dict_get spec ''enabled''
                  else if has_key row ''enabled'' then dict_get row ''enabled'' else PBool True))))))"

definition agent_requires_approval :: "agent_env \<Rightarrow> string \<Rightarrow> py_error + bool option" where
  "agent_requires_approval E agent_id =
     (let aid = py_strip agent_id in
      if aid = [] then Inr None
      else case env_get_agent E aid of
        None \<Rightarrow> Inr None
      | Some rep \<Rightarrow>
          if \<not> truthy (dict_get rep ''ok'') then Inr None
          else bindE (dict_arg (dict_get rep ''agent'')) (\<lambda>row.
               bindE (dict_arg (dict_get row ''spec'')) (\<lambda>spec.
               bindE (dict_arg (py_or (dict_get spec ''queue_policy'') (dict_get row ''queue_policy''))) (\<lambda>policy.
               if has_key policy ''requires_approval''
               then Inr (Some (as_bool (dict_get policy ''requires_approval'') False))
               else
                 let template_id = py_strip (py_str (py_or (dict_get spec ''template_id'')
                       (py_or (dict_get row ''template_id'') (PStr []))))
                 in if template_id = [] then Inr None
                    else Inr (template_requires_approval E template_id)))))"

section \<open>Events\<close>

definition event_types :: "string list" where
  "event_types = [''enqueue'', ''claim'', ''start'', ''done'', ''fail'', ''cancel'', ''expire'', ''approve'']"

record event_args =
  ea_priority :: "int option"
  ea_not_before_ts :: "int option"
  ea_plan :: pyval
  ea_plan_path :: string
  ea_agent_id :: string
  ea_requires_approval :: "bool option"
  ea_approved :: "bool option"
  ea_approved_ts :: "int option"
  ea_approved_by :: string
  ea_approved_reason :: string
  ea_run_id :: string
  ea_error :: string
  ea_extra :: pydict

definition no_args :: event_args where
  "no_args = \<lparr>ea_priority = None, ea_not_before_ts = None, ea_plan = PNone, ea_plan_path = [],
     ea_agent_id = [], ea_requires_approval = None, ea_approved = None, ea_approved_ts = None,
     ea_approved_by = [], ea_approved_reason = [], ea_run_id = [], ea_error = [], ea_extra = []\<rparr>"

fun opt_int :: "int option \<Rightarrow> pyval" where
  "opt_int None = PNone"
| "opt_int (Some i) = PInt i"

fun opt_bool :: "bool option \<Rightarrow> pyval" where
  "opt_bool None = PNone"
| "opt_bool (Some b) = PBool b"

definition queue_row :: "string \<Rightarrow> string \<Rightarrow> string \<Rightarrow> string \<Rightarrow> event_args \<Rightarrow> int \<Rightarrow> pydict" where
  "queue_row et qid actor reason a now =
     [(''ts'', PInt now), (''type'', PStr et), (''event'', PStr et), (''queue_id'', PStr qid),
      (''actor'', PStr (py_strip actor)), (''reason'', PStr (py_strip reason))]
   @ opt_entry (ea_priority a \<noteq> None) ''priority'' (opt_int (ea_priority a))
   @ opt_entry (ea_not_before_ts a \<noteq> None) ''not_before_ts'' (opt_int (ea_not_before_ts a))
   @ opt_entry (ea_plan a \<noteq> PNone) ''plan'' (ea_plan a)
   @ opt_entry (ea_plan_path a \<noteq> []) ''plan_path'' (PStr (ea_plan_path a))
   @ opt_entry (ea_agent_id a \<noteq> []) ''agent_id'' (PStr (ea_agent_id a))
   @ opt_entry (ea_requires_approval a \<noteq> None) ''requires_approval'' (opt_bool (ea_requires_approval a))
   @ opt_entry (ea_approved a \<noteq> None) ''approved'' (opt_bool (ea_approved a))
   @ opt_entry (ea_approved_ts a \<noteq> None) ''approved_ts'' (opt_int (ea_approved_ts a))
   @ opt_entry (ea_approved_by a \<noteq> []) ''approved_by'' (PStr (ea_approved_by a))
   @ opt_entry (ea_approved_reason a \<noteq> []) ''approved_reason'' (PStr (ea_approved_reason a))
   @ opt_entry (ea_run_id a \<noteq> []) ''run_id'' (PStr (ea_run_id a))
   @ opt_entry (ea_error a \<noteq> []) ''error'' (PStr (ea_error a))
   @ opt_entry (ea_extra a \<noteq> []) ''extra'' (PDict (ea_extra a))"

definition err_reply :: "string \<Rightarrow> pydict \<Rightarrow> pydict" where
  "err_reply code extra = [(''ok'', PBool False), (''error'', PStr code)] @ extra"

definition reply_ok :: "pydict \<Rightarrow> bool" where
  "reply_ok rep = truthy (dict_get rep ''ok'')"

type_synonym queue_lines = "jtext list"

definition q_append_event ::
  "string \<Rightarrow> string \<Rightarrow> string \<Rightarrow> string \<Rightarrow> event_args \<Rightarrow> int \<Rightarrow> queue_lines \<Rightarrow> pydict \<times> queue_lines" where
  "q_append_event event_type queue_id actor reason a now s =
     (let qid = py_strip queue_id; et = py_lower (py_strip event_type) in
      if qid = [] then (err_reply ''queue_id_required'' [], s)
      else if et \<notin> set event_types then (err_reply ''event_type_invalid'' [(''event_type'', PStr et)], s)
      else let row = queue_row et qid actor reason a now
           in ([(''ok'', PBool True), (''event'', PDict row)], s @ [JVal (PDict row)]))"

interpretation queue_log: append_log "\<lambda>d s. s @ [JVal (PDict d)]" "\<lambda>s. Inr (rows_lenient s)" "\<lambda>d. d" "\<lambda>_. True"
  by unfold_locales (simp_all add: rows_lenient_append)

section \<open>The replay\<close>

datatype queue_status = Q_enqueued | Q_claimed | Q_running | Q_done | Q_failed | Q_canceled | Q_expired

fun status_value :: "queue_status \<Rightarrow> string" where
  "status_value Q_enqueued = ''enqueued''"
| "status_value Q_claimed = ''claimed''"
| "status_value Q_running = ''running''"
| "status_value Q_done = ''done''"
| "status_value Q_failed = ''failed''"
| "status_value Q_canceled = ''canceled''"
| "status_value Q_expired = ''expired''"

definition live_statuses :: "queue_status set" where
  "live_statuses = {Q_enqueued, Q_claimed, Q_running}"

text \<open>The keys an item gets only in some statuses are options.\<close>

record queue_item =
  qi_queue_id :: string
  qi_status :: queue_status
  qi_enqueue_ts :: int
  qi_updated_ts :: int
  qi_priority :: int
  qi_not_before_ts :: int
  qi_plan :: pyval
  qi_plan_path :: string
  qi_agent_id :: string
  qi_actor :: string
  qi_reason :: string
  qi_requires_approval :: bool
  qi_approved :: bool
  qi_approved_ts :: int
  qi_approved_by :: string
  qi_approved_reason :: string
  qi_run_id :: string
  qi_error :: string
  qi_claim_ts :: "int option"
  qi_claim_actor :: "string option"
  qi_start_ts :: "int option"
  qi_finish_ts :: "int option"
  qi_done_reason :: "string option"
  qi_result :: "pydict option"
  qi_cancel_ts :: "int option"
  qi_expire_ts :: "int option"

type_synonym queue_items = "(string \<times> queue_item) list"

definition enqueued_item :: "pydict \<Rightarrow> string \<Rightarrow> int \<Rightarrow> py_error + queue_item" where
  "enqueued_item raw qid ts =
     bindE (get_int raw ''priority'' 50) (\<lambda>priority.
     bindE (get_int raw ''not_before_ts'' ts) (\<lambda>nb.
     bindE (get_int raw ''approved_ts'' 0) (\<lambda>ats.
     Inr \<lparr>qi_queue_id = qid, qi_status = Q_enqueued, qi_enqueue_ts = ts, qi_updated_ts = ts,
          qi_priority = priority, qi_not_before_ts = nb, qi_plan = dict_get raw ''plan'',
          qi_plan_path = get_str raw ''plan_path'', qi_agent_id = get_str raw ''agent_id'',
          qi_actor = get_str raw ''actor'', qi_reason = get_str raw ''reason'',
          qi_requires_approval = as_bool (dict_get raw ''requires_approval'') False,
          qi_approved = as_bool (dict_get raw ''approved'') False, qi_approved_ts = ats,
          qi_approved_by = get_str raw ''approved_by'',
          qi_approved_reason = get_str raw ''approved_reason'', qi_run_id = [], qi_error = [],
          qi_claim_ts = None, qi_claim_actor = None, qi_start_ts = None, qi_finish_ts = None,
          qi_done_reason = None, qi_result = None, qi_cancel_ts = None, qi_expire_ts = None\<rparr>)))"

definition str_update :: "pydict \<Rightarrow> string \<Rightarrow> string \<Rightarrow> string" where
  \<comment> \<open>\<open>if k in raw and str(raw.get(k) or "").strip(): item[k] = str(raw.get(k) or "")\<close>\<close>
  "str_update raw k old = (if has_key raw k \<and> py_strip (get_str raw k) \<noteq> [] then get_str raw k else old)"

definition touch_item :: "pydict \<Rightarrow> int \<Rightarrow> queue_item \<Rightarrow> py_error + queue_item" where
  "touch_item raw ts item =
     bindE (if has_key raw ''approved_ts'' then get_int raw ''approved_ts'' 0 else Inr (qi_approved_ts item)) (\<lambda>ats.
     Inr (item\<lparr>qi_updated_ts := ts,
       qi_agent_id := str_update raw ''agent_id'' (qi_agent_id item),
       qi_run_id := str_update raw ''run_id'' (qi_run_id item),
       qi_requires_approval :=
         (if has_key raw ''requires_approval''
          then as_bool (dict_get raw ''requires_approval'') (qi_requires_approval item)
          else qi_requires_approval item),
       qi_approved :=
         (if has_key raw ''approved'' then as_bool (dict_get raw ''approved'') (qi_approved item)
          else qi_approved item),
       qi_approved_ts := ats,
       qi_approved_by := str_update raw ''approved_by'' (qi_approved_by item),
       qi_approved_reason := str_update raw ''approved_reason'' (qi_approved_reason item)\<rparr>))"

definition event_effect :: "string \<Rightarrow> pydict \<Rightarrow> int \<Rightarrow> queue_item \<Rightarrow> py_error + queue_item" where
  "event_effect et raw ts item =
     (if et = ''claim'' then
        Inr (item\<lparr>qi_status := Q_claimed, qi_claim_ts := Some ts, qi_claim_actor := Some (get_str raw ''actor'')\<rparr>)
      else if et = ''start'' then Inr (item\<lparr>qi_status := Q_running, qi_start_ts := Some ts\<rparr>)
      else if et = ''done'' then
        bindE (dict_arg (dict_get raw ''extra'')) (\<lambda>result.
        Inr (item\<lparr>qi_status := Q_done, qi_finish_ts := Some ts, qi_done_reason := Some (get_str raw ''reason''),
                  qi_result := Some result\<rparr>))
      else if et = ''fail'' then
        bindE (dict_arg (dict_get raw ''extra'')) (\<lambda>result.
        Inr (item\<lparr>qi_status := Q_failed, qi_finish_ts := Some ts,
                  qi_error := py_str (py_or (dict_get raw ''error'')
                    (py_or (dict_get raw ''reason'') (PStr ''failed''))),
                  qi_result := Some result\<rparr>))
      else if et = ''cancel'' then Inr (item\<lparr>qi_status := Q_canceled, qi_cancel_ts := Some ts\<rparr>)
      else if et = ''expire'' then Inr (item\<lparr>qi_status := Q_expired, qi_expire_ts := Some ts\<rparr>)
      else if et = ''approve'' then
        Inr (item\<lparr>qi_approved := True, qi_approved_ts := ts, qi_approved_by := get_str raw ''actor'',
                  qi_approved_reason := get_str raw ''reason''\<rparr>)
      else Inr item)"

definition row_type :: "pydict \<Rightarrow> string" where
  "row_type raw = py_lower (py_strip (py_str (py_or (dict_get raw ''type'') (py_or (dict_get raw ''event'') (PStr [])))))"

definition fold_row :: "pydict \<Rightarrow> queue_items \<Rightarrow> py_error + queue_items" where
  "fold_row raw items =
     (let et = row_type raw; qid = py_strip (get_str raw ''queue_id'') in
      bindE (get_int raw ''ts'' 0) (\<lambda>ts.
      if qid = [] then Inr items
      else if et = ''enqueue'' then
        bindE (enqueued_item raw qid ts) (\<lambda>item. Inr (AList.update qid item items))
      else case map_of items qid of
        None \<Rightarrow> Inr items
      | Some item \<Rightarrow>
          bindE (touch_item raw ts item) (\<lambda>item'.
          bindE (event_effect et raw ts item') (\<lambda>item''.
          Inr (AList.update qid item'' items)))))"

fun fold_rows :: "pydict list \<Rightarrow> queue_items \<Rightarrow> py_error + queue_items" where
  "fold_rows [] items = Inr items"
| "fold_rows (r # rs) items = bindE (fold_row r items) (fold_rows rs)"

record queue_state =
  fs_events_total :: nat
  fs_items :: "queue_item list"
  fs_live :: "queue_item list"
  fs_stats :: "(queue_status \<times> nat) list"

definition queue_items_of :: "queue_lines \<Rightarrow> py_error + queue_items" where
  "queue_items_of s = fold_rows (rows_lenient s) []"

definition sorted_items :: "queue_items \<Rightarrow> queue_item list" where
  "sorted_items items = map snd (sort_key (\<lambda>(qid, it). (qi_enqueue_ts it, qid)) items)"

definition count_statuses :: "queue_item list \<Rightarrow> (queue_status \<times> nat) list" where
  "count_statuses rows = fold (\<lambda>r st.
     AList.update (qi_status r) (Suc (case map_of st (qi_status r) of None \<Rightarrow> 0 | Some n \<Rightarrow> n)) st) rows []"

definition fold_state :: "queue_lines \<Rightarrow> py_error + queue_state" where
  "fold_state s =
     bindE (queue_items_of s) (\<lambda>items.
       let rows = sorted_items items
       in Inr \<lparr>fs_events_total = length (rows_lenient s), fs_items = rows,
               fs_live = filter (\<lambda>r. qi_status r \<in> live_statuses) rows,
               fs_stats = count_statuses rows\<rparr>)"

definition items_by_id :: "queue_state \<Rightarrow> string \<Rightarrow> queue_item option" where
  "items_by_id st qid = map_of (rev (map (\<lambda>r. (qi_queue_id r, r)) (fs_items st))) qid"

definition load_item_for_transition :: "string \<Rightarrow> queue_lines \<Rightarrow> py_error + queue_item option" where
  "load_item_for_transition queue_id s =
     bindE (fold_state s) (\<lambda>st. Inr (items_by_id st (py_strip queue_id)))"

section \<open>Operations\<close>

text \<open>
  The shape of \<open>claim\<close>, \<open>start\<close>, \<open>done\<close>, \<open>fail\<close>, \<open>cancel\<close> and \<open>expire\<close>: replay, check the status,
  append the event.
\<close>

definition guarded_event ::
  "queue_status set \<Rightarrow> string \<Rightarrow> string \<Rightarrow> string \<Rightarrow> string \<Rightarrow> string \<Rightarrow> event_args \<Rightarrow> int \<Rightarrow> queue_lines \<Rightarrow>
   py_error + pydict \<times> queue_lines" where
  "guarded_event allowed err et queue_id actor reason a now s =
     bindE (load_item_for_transition queue_id s) (\<lambda>found. Inr (case found of
       None \<Rightarrow> (err_reply ''queue_not_found'' [(''queue_id'', PStr queue_id)], s)
     | Some item \<Rightarrow>
         if qi_status item \<notin> allowed then
           (err_reply err [(''queue_id'', PStr queue_id), (''status'', PStr (status_value (qi_status item)))], s)
         else q_append_event et queue_id actor reason a now s))"

definition q_claim ::
  "string \<Rightarrow> string \<Rightarrow> string \<Rightarrow> int \<Rightarrow> queue_lines \<Rightarrow> py_error + pydict \<times> queue_lines" where
  "q_claim queue_id actor reason now s =
     guarded_event {Q_enqueued} ''queue_not_enqueued'' ''claim'' queue_id actor reason no_args now s"

definition q_start ::
  "string \<Rightarrow> string \<Rightarrow> string \<Rightarrow> string \<Rightarrow> string \<Rightarrow> int \<Rightarrow> queue_lines \<Rightarrow> py_error + pydict \<times> queue_lines" where
  "q_start queue_id actor reason run_id agent_id now s =
     guarded_event {Q_claimed, Q_enqueued} ''queue_not_claimed'' ''start'' queue_id actor reason
       (no_args\<lparr>ea_run_id := run_id, ea_agent_id := agent_id\<rparr>) now s"

definition q_done ::
  "string \<Rightarrow> string \<Rightarrow> string \<Rightarrow> string \<Rightarrow> pydict \<Rightarrow> int \<Rightarrow> queue_lines \<Rightarrow> py_error + pydict \<times> queue_lines" where
  "q_done queue_id actor reason run_id extra now s =
     guarded_event {Q_running, Q_claimed} ''queue_not_running'' ''done'' queue_id actor reason
       (no_args\<lparr>ea_run_id := run_id, ea_extra := extra\<rparr>) now s"

definition q_fail ::
  "string \<Rightarrow> string \<Rightarrow> string \<Rightarrow> string \<Rightarrow> string \<Rightarrow> pydict \<Rightarrow> int \<Rightarrow> queue_lines \<Rightarrow>
   py_error + pydict \<times> queue_lines" where
  "q_fail queue_id actor reason run_id error extra now s =
     guarded_event {Q_running, Q_claimed, Q_enqueued} ''queue_not_active'' ''fail'' queue_id actor reason
       (no_args\<lparr>ea_run_id := run_id, ea_error := error, ea_extra := extra\<rparr>) now s"

definition q_cancel ::
  "string \<Rightarrow> string \<Rightarrow> string \<Rightarrow> int \<Rightarrow> queue_lines \<Rightarrow> py_error + pydict \<times> queue_lines" where
  "q_cancel queue_id actor reason now s =
     guarded_event {Q_enqueued, Q_claimed} ''queue_not_cancelable'' ''cancel'' queue_id actor reason no_args now s"

definition q_expire ::
  "string \<Rightarrow> string \<Rightarrow> string \<Rightarrow> int \<Rightarrow> queue_lines \<Rightarrow> py_error + pydict \<times> queue_lines" where
  "q_expire queue_id actor reason now s =
     guarded_event {Q_enqueued, Q_claimed} ''queue_not_expirable'' ''expire'' queue_id actor reason no_args now s"

definition q_approve ::
  "string \<Rightarrow> string \<Rightarrow> string \<Rightarrow> int \<Rightarrow> queue_lines \<Rightarrow> py_error + pydict \<times> queue_lines" where
  "q_approve queue_id actor reason now s =
     (let qid = py_strip queue_id in
      if qid = [] then Inr (err_reply ''queue_id_required'' [], s)
      else bindE (load_item_for_transition qid s) (\<lambda>found. Inr (case found of
        None \<Rightarrow> (err_reply ''queue_not_found'' [(''queue_id'', PStr qid)], s)
      | Some item \<Rightarrow>
          if qi_status item \<in> {Q_done, Q_failed, Q_canceled, Q_expired} then
            (err_reply ''not_approvable'' [(''queue_id'', PStr qid),
               (''status'', PStr (status_value (qi_status item)))], s)
          else if qi_approved item then
            ([(''ok'', PBool True), (''queue_id'', PStr qid), (''approved'', PBool True),
              (''approved_ts'', PInt (qi_approved_ts item)), (''approved_by'', PStr (qi_approved_by item)),
              (''approved_reason'', PStr (qi_approved_reason item)), (''idempotent'', PBool True)], s)
          else
            (let (rep, s') = q_append_event ''approve'' qid actor reason no_args now s in
             if \<not> reply_ok rep then (rep, s')
             else ([(''ok'', PBool True), (''queue_id'', PStr qid), (''approved'', PBool True),
                    (''approved_ts'', PInt now), (''approved_by'', PStr (py_strip actor)),
                    (''approved_reason'', PStr (py_strip reason))], s')))))"

fun cancel_each ::
  "string list \<Rightarrow> string \<Rightarrow> string \<Rightarrow> int \<Rightarrow> queue_lines \<Rightarrow> py_error + string list \<times> queue_lines" where
  \<comment> \<open>the loop of \<open>cancel_for_agent\<close>: the ids it canceled\<close>
  "cancel_each [] actor reason now s = Inr ([], s)"
| "cancel_each (q # qs) actor reason now s =
     (let qid = py_strip q in
      if qid = [] then cancel_each qs actor reason now s
      else bindE (q_cancel qid actor reason now s) (\<lambda>(rep, s').
           bindE (cancel_each qs actor reason now s') (\<lambda>(ids, s'').
           Inr (if reply_ok rep then qid # ids else ids, s''))))"

definition q_cancel_for_agent ::
  "string \<Rightarrow> string \<Rightarrow> string \<Rightarrow> int \<Rightarrow> queue_lines \<Rightarrow> py_error + pydict \<times> queue_lines" where
  "q_cancel_for_agent agent_id actor reason now s =
     (let aid = py_strip agent_id in
      if aid = [] then Inr (err_reply ''agent_id_required'' [], s)
      else bindE (fold_state s) (\<lambda>st.
        let targets = filter (\<lambda>r. py_strip (qi_agent_id r) = aid
                                \<and> qi_status r \<in> {Q_enqueued, Q_claimed}) (fs_items st)
        in bindE (cancel_each (map qi_queue_id targets) actor reason now s) (\<lambda>(ids, s').
           Inr ([(''ok'', PBool True), (''agent_id'', PStr aid), (''canceled'', PInt (int (length ids))),
                 (''queue_ids'', PList (map PStr ids))], s'))))"

definition enqueue_id :: "string \<Rightarrow> string \<Rightarrow> string" where
  "enqueue_id queue_id u = py_strip (str_or (Some queue_id) (''q_'' @ take 12 u))"

definition enqueue_write ::
  "agent_env \<Rightarrow> pydict \<Rightarrow> pyval \<Rightarrow> int \<Rightarrow> int \<Rightarrow> int option \<Rightarrow> string \<Rightarrow> string \<Rightarrow> string \<Rightarrow> string \<Rightarrow>
   bool \<Rightarrow> bool \<Rightarrow> string \<Rightarrow> int \<Rightarrow> string \<Rightarrow> queue_lines \<Rightarrow> pydict \<times> queue_lines" where
  \<comment> \<open>the end of \<open>enqueue\<close>, once the plan has passed: the event and the reply\<close>
  "enqueue_write E prep normalized priority challenge_sec not_before_ts actor reason plan_path aid
     requires_eff approved_eff queue_id now u s =
     (let qid = enqueue_id queue_id u;
          nb = (case not_before_ts of Some t \<Rightarrow> t | None \<Rightarrow> now + max 0 challenge_sec);
          (rep, s') = q_append_event ''enqueue'' qid actor reason
            (no_args\<lparr>ea_priority := Some (max 0 priority), ea_not_before_ts := Some nb,
               ea_plan := normalized, ea_plan_path := plan_path, ea_agent_id := aid,
               ea_requires_approval := Some requires_eff, ea_approved := Some approved_eff\<rparr>) now s
      in if \<not> reply_ok rep then (rep, s')
         else
           let ws = (case dict_get prep ''warnings'' of PList xs \<Rightarrow>
                       filter (\<lambda>x. py_strip x \<noteq> []) (map py_str xs) | _ \<Rightarrow> [])
           in ([(''ok'', PBool True), (''queue_id'', PStr qid), (''priority'', PInt (max 0 priority)),
                (''not_before_ts'', PInt nb), (''challenge_sec'', PInt (max 0 (nb - now))),
                (''slot'', PStr (q_slot (env_getenv E))), (''requires_approval'', PBool requires_eff),
                (''approved'', PBool approved_eff)]
              @ opt_entry (ws \<noteq> []) ''warnings'' (PList (map PStr ws))
              @ opt_entry (get_str prep ''plan_hash'' \<noteq> []) ''plan_hash'' (PStr (get_str prep ''plan_hash'')),
              s'))"

definition q_enqueue ::
  "agent_env \<Rightarrow> (pyval \<Rightarrow> string \<Rightarrow> pydict) \<Rightarrow> pyval \<Rightarrow> int \<Rightarrow> int \<Rightarrow> int option \<Rightarrow> string \<Rightarrow> string \<Rightarrow> string \<Rightarrow>
   string \<Rightarrow> bool option \<Rightarrow> bool option \<Rightarrow> string \<Rightarrow> int \<Rightarrow> string \<Rightarrow> queue_lines \<Rightarrow>
   py_error + pydict \<times> queue_lines" where
  "q_enqueue E prepare plan priority challenge_sec not_before_ts actor reason plan_path agent_id
     requires_approval approved queue_id now u s =
     (let aid = py_strip agent_id in
      bindE (if aid \<noteq> [] then agent_enabled_state E aid else Inr None) (\<lambda>enabled.
      if enabled = Some False then
        Inr (err_reply ''agent_disabled'' [(''agent_id'', PStr aid)], s)
      else
        bindE (if requires_approval = None \<and> aid \<noteq> [] then agent_requires_approval E aid else Inr None) (\<lambda>policy.
        let requires_eff = (case requires_approval of Some b \<Rightarrow> b | None \<Rightarrow> policy = Some True);
            approved_eff = (case approved of Some b \<Rightarrow> b | None \<Rightarrow> False);
            prep = prepare plan plan_path
        in if \<not> truthy (dict_get prep ''ok'') then
             Inr (err_reply ''plan_invalid'' [(''details'', py_or (dict_get prep ''details'') (PList [])),
                    (''warnings'', py_or (dict_get prep ''warnings'') (PList [])), (''slot'', PStr (q_slot (env_getenv E))),
                    (''strict_status'', py_or (dict_get prep ''strict_status'') (PDict []))], s)
           else
             let normalized = (case dict_get prep ''plan'' of PDict d \<Rightarrow> PDict d | _ \<Rightarrow> PDict [(''steps'', PList [])])
             in if is_legacy_proactivity_enqueue actor reason \<and> \<not> plan_is_governed_mesh normalized
                   \<and> \<not> legacy_proactivity_queue_allowed (env_getenv E) then
                  Inr (err_reply ''legacy_proactivity_queue_denied''
                         [(''error_code'', PStr ''LEGACY_PROACTIVITY_QUEUE_DENIED''),
                          (''reason'', PStr ''direct proactivity enqueue requires governed_mesh task contract''),
                          (''slot'', PStr (q_slot (env_getenv E))), (''plan_hash'', PStr (get_str prep ''plan_hash'')),
                          (''requires_governed_mesh'', PBool True)], s)
                else
                  Inr (enqueue_write E prep normalized priority challenge_sec not_before_ts actor reason
                         plan_path aid requires_eff approved_eff queue_id now u s))))"

section \<open>Selection\<close>

datatype select_reply =
    Sel_found queue_item
  | Sel_queue_empty
  | Sel_challenge_window int int string
  | Sel_agent_disabled_all nat

fun scan_ready ::
  "agent_env \<Rightarrow> int \<Rightarrow> queue_item list \<Rightarrow> nat \<Rightarrow> queue_lines \<Rightarrow> py_error + select_reply \<times> queue_lines" where
  \<comment> \<open>the loop of \<open>select_next\<close>: items of disabled agents are canceled on the way\<close>
  "scan_ready E clock [] canceled s =
     Inr (if 0 < canceled then Sel_agent_disabled_all canceled else Sel_queue_empty, s)"
| "scan_ready E clock (row # rows) canceled s =
     (let aid = py_strip (qi_agent_id row) in
      bindE (if aid \<noteq> [] then agent_enabled_state E aid else Inr None) (\<lambda>enabled.
      if enabled = Some False then
        (let qid = py_strip (qi_queue_id row) in
         if qid = [] then scan_ready E clock rows canceled s
         else bindE (q_cancel qid ''system'' ''agent_disabled'' clock s) (\<lambda>(rep, s').
              scan_ready E clock rows (if reply_ok rep then Suc canceled else canceled) s'))
      else Inr (Sel_found row, s)))"

definition ready_key :: "queue_item \<Rightarrow> int \<times> int \<times> string" where
  "ready_key r = (- qi_priority r, qi_enqueue_ts r, qi_queue_id r)"

definition q_select_next ::
  "agent_env \<Rightarrow> int option \<Rightarrow> queue_state option \<Rightarrow> int \<Rightarrow> queue_lines \<Rightarrow> py_error + select_reply \<times> queue_lines" where
  "q_select_next E now_ts state clock s =
     bindE (case state of Some st \<Rightarrow> Inr st | None \<Rightarrow> fold_state s) (\<lambda>st.
       let now = (case now_ts of Some t \<Rightarrow> t | None \<Rightarrow> clock);
           enqueued = filter (\<lambda>r. qi_status r = Q_enqueued) (fs_items st);
           ready = filter (\<lambda>r. qi_not_before_ts r \<le> now) enqueued;
           pending = filter (\<lambda>r. \<not> qi_not_before_ts r \<le> now) enqueued
       in if enqueued = [] then Inr (Sel_queue_empty, s)
          else if ready = [] then
            (let next_row = arg_min_list qi_not_before_ts pending
             in Inr (Sel_challenge_window (qi_not_before_ts next_row)
                       (max 0 (qi_not_before_ts next_row - now)) (qi_queue_id next_row), s))
          else scan_ready E clock (take (max 1 (min 50 (length ready))) (sort_key ready_key ready)) 0 s)"

definition q_list_queue ::
  "bool \<Rightarrow> queue_lines \<Rightarrow> py_error + queue_item list \<times> (queue_status \<times> nat) list" where
  "q_list_queue live_only s =
     bindE (fold_state s) (\<lambda>st. Inr (if live_only then fs_live st else fs_items st, fs_stats st))"

end
