(* ===== verification/AgentQueueLaws.thy ===== *)
theory AgentQueueLaws
  imports AgentQueue
begin

text \<open>
  The laws of the agent queue: what a written row does to the replayed items, the well-formedness
  of the items, the life cycle of an item under the operations, and the guarantees of
  \<open>select_next\<close>.
\<close>

section \<open>Written rows\<close>

lemma row_fields [simp]:
  "dict_get (queue_row et qid ac rs a now) ''ts'' = PInt now"
  "dict_get (queue_row et qid ac rs a now) ''type'' = PStr et"
  "dict_get (queue_row et qid ac rs a now) ''queue_id'' = PStr qid"
  "dict_get (queue_row et qid ac rs a now) ''actor'' = PStr (py_strip ac)"
  "dict_get (queue_row et qid ac rs a now) ''reason'' = PStr (py_strip rs)"
  by (simp_all add: queue_row_def)

lemma row_args [simp]:
  "dict_get (queue_row et qid ac rs a now) ''priority'' = opt_int (ea_priority a)"
  "dict_get (queue_row et qid ac rs a now) ''not_before_ts'' = opt_int (ea_not_before_ts a)"
  "dict_get (queue_row et qid ac rs a now) ''approved_ts'' = opt_int (ea_approved_ts a)"
  "dict_get (queue_row et qid ac rs a now) ''agent_id'' = (if ea_agent_id a \<noteq> [] then PStr (ea_agent_id a) else PNone)"
  "dict_get (queue_row et qid ac rs a now) ''extra'' = (if ea_extra a \<noteq> [] then PDict (ea_extra a) else PNone)"
  "dict_get (queue_row et qid ac rs a now) ''requires_approval'' = opt_bool (ea_requires_approval a)"
  "dict_get (queue_row et qid ac rs a now) ''approved'' = opt_bool (ea_approved a)"
  by (simp_all add: queue_row_def)

lemma get_int_opt [simp]:
  "dict_get r k = opt_int x \<Longrightarrow>
     get_int r k d = Inr (case x of None \<Rightarrow> d | Some i \<Rightarrow> if i = 0 then d else i)"
  by (cases x) (simp_all add: get_int_def py_or_def)

lemma get_int_PInt [simp]: "dict_get r k = PInt i \<Longrightarrow> get_int r k d = Inr (if i = 0 then d else i)"
  by (simp add: get_int_def py_or_def)

lemma get_int_PNone [simp]: "dict_get r k = PNone \<Longrightarrow> get_int r k d = Inr d"
  by (simp add: get_int_def py_or_def)

lemma event_type_normal: "et \<in> set event_types \<Longrightarrow> et \<noteq> [] \<and> py_lower (py_strip et) = et"
  by (auto simp: event_types_def py_strip_def strip_by_def is_space_def code_point_def py_lower_def
        lower_char_def)

lemma row_type_row [simp]: "et \<in> set event_types \<Longrightarrow> row_type (queue_row et qid ac rs a now) = et"
  using event_type_normal by (simp add: row_type_def py_or_def)

lemma row_id [simp]: "get_str (queue_row et qid ac rs a now) ''queue_id'' = qid"
  by (simp add: get_str_def)

lemma as_bool_opt: "as_bool (opt_bool x) False \<longleftrightarrow> x = Some True"
  by (cases x) (auto simp: as_bool_def py_or_def py_lower_def py_strip_def strip_by_def)

text \<open>The status an event leads to.\<close>

definition next_status :: "string \<Rightarrow> queue_status \<Rightarrow> queue_status" where
  "next_status et st =
     (if et = ''claim'' then Q_claimed else if et = ''start'' then Q_running
      else if et = ''done'' then Q_done else if et = ''fail'' then Q_failed
      else if et = ''cancel'' then Q_canceled else if et = ''expire'' then Q_expired else st)"

lemma touch_written:
  "\<exists>it'. touch_item (queue_row et qid ac rs a now) ts it = Inr it' \<and> qi_status it' = qi_status it
       \<and> qi_queue_id it' = qi_queue_id it \<and> qi_priority it' = qi_priority it
       \<and> qi_not_before_ts it' = qi_not_before_ts it \<and> qi_enqueue_ts it' = qi_enqueue_ts it"
  by (simp add: touch_item_def)

lemma dict_arg_extra [simp]: "dict_arg (if x \<noteq> [] then PDict x else PNone) = Inr x"
  by simp

lemma effect_written:
  "\<exists>it'. event_effect et (queue_row et' qid ac rs a now) ts it = Inr it' \<and> qi_status it' = next_status et (qi_status it)
       \<and> qi_queue_id it' = qi_queue_id it \<and> qi_priority it' = qi_priority it
       \<and> qi_not_before_ts it' = qi_not_before_ts it \<and> qi_enqueue_ts it' = qi_enqueue_ts it"
  by (auto simp: event_effect_def next_status_def)

text \<open>A written row never makes the replay raise; what it does to the items.\<close>

lemma fold_row_event:
  assumes "et \<in> set event_types" "et \<noteq> ''enqueue''" "py_strip qid = qid" "qid \<noteq> []"
  shows "\<exists>items'. fold_row (queue_row et qid ac rs a now) items = Inr items' \<and>
     (case map_of items qid of
        None \<Rightarrow> items' = items
      | Some it \<Rightarrow> \<exists>it'. items' = AList.update qid it' items \<and> qi_status it' = next_status et (qi_status it)
          \<and> qi_queue_id it' = qi_queue_id it \<and> qi_priority it' = qi_priority it
          \<and> qi_not_before_ts it' = qi_not_before_ts it \<and> qi_enqueue_ts it' = qi_enqueue_ts it)"
proof (cases "map_of items qid")
  case None
  with assms show ?thesis by (simp add: fold_row_def Let_def)
next
  case (Some it)
  obtain it1 where t: "touch_item (queue_row et qid ac rs a now) (if now = 0 then 0 else now) it = Inr it1"
    "qi_status it1 = qi_status it" "qi_queue_id it1 = qi_queue_id it" "qi_priority it1 = qi_priority it"
    "qi_not_before_ts it1 = qi_not_before_ts it" "qi_enqueue_ts it1 = qi_enqueue_ts it"
    using touch_written by meson
  obtain it2 where e: "event_effect et (queue_row et qid ac rs a now) (if now = 0 then 0 else now) it1 = Inr it2"
    "qi_status it2 = next_status et (qi_status it1)" "qi_queue_id it2 = qi_queue_id it1" "qi_priority it2 = qi_priority it1"
    "qi_not_before_ts it2 = qi_not_before_ts it1" "qi_enqueue_ts it2 = qi_enqueue_ts it1"
    using effect_written by meson
  from assms Some t e show ?thesis
    by (simp add: fold_row_def Let_def) (rule exI [of _ it2], simp)
qed

lemma enqueued_item_row:
  assumes "ea_approved_ts a = None"
  shows "\<exists>it. enqueued_item (queue_row et qid' ac rs a now) qid now = Inr it
     \<and> qi_status it = Q_enqueued \<and> qi_queue_id it = qid \<and> qi_enqueue_ts it = now
     \<and> qi_priority it = (case ea_priority a of None \<Rightarrow> 50 | Some p \<Rightarrow> if p = 0 then 50 else p)
     \<and> qi_not_before_ts it = (case ea_not_before_ts a of None \<Rightarrow> now | Some t \<Rightarrow> if t = 0 then now else t)
     \<and> qi_requires_approval it = (ea_requires_approval a = Some True)
     \<and> qi_approved it = (ea_approved a = Some True)"
  using assms by (simp add: enqueued_item_def as_bool_opt)

lemma fold_row_enqueue:
  assumes "py_strip qid = qid" "qid \<noteq> []" "ea_approved_ts a = None"
  shows "\<exists>it. fold_row (queue_row ''enqueue'' qid ac rs a now) items = Inr (AList.update qid it items)
     \<and> qi_status it = Q_enqueued \<and> qi_queue_id it = qid \<and> qi_enqueue_ts it = now
     \<and> qi_priority it = (case ea_priority a of None \<Rightarrow> 50 | Some p \<Rightarrow> if p = 0 then 50 else p)
     \<and> qi_not_before_ts it = (case ea_not_before_ts a of None \<Rightarrow> now | Some t \<Rightarrow> if t = 0 then now else t)
     \<and> qi_requires_approval it = (ea_requires_approval a = Some True)
     \<and> qi_approved it = (ea_approved a = Some True)"
proof -
  have et: "''enqueue'' \<in> set event_types" by (simp add: event_types_def)
  have "get_int (queue_row ''enqueue'' qid ac rs a now) ''ts'' 0 = Inr now" by simp
  with assms(1,2) have "fold_row (queue_row ''enqueue'' qid ac rs a now) items
      = bindE (enqueued_item (queue_row ''enqueue'' qid ac rs a now) qid now) (\<lambda>it. Inr (AList.update qid it items))"
    by (simp add: fold_row_def Let_def row_type_row [OF et])
  with enqueued_item_row [OF assms(3), of "''enqueue''" qid ac rs now qid] show ?thesis by fastforce
qed

section \<open>Well-formed items\<close>

definition items_wf :: "queue_items \<Rightarrow> bool" where
  "items_wf items = (distinct (map fst items)
     \<and> (\<forall>k it. map_of items k = Some it \<longrightarrow> qi_queue_id it = k \<and> py_strip k = k \<and> k \<noteq> []))"

lemma touch_item_id: "touch_item raw ts it = Inr it' \<Longrightarrow> qi_queue_id it' = qi_queue_id it"
  by (auto simp: touch_item_def bindE_Inr_iff)

lemma event_effect_id: "event_effect et raw ts it = Inr it' \<Longrightarrow> qi_queue_id it' = qi_queue_id it"
  by (auto simp: event_effect_def bindE_Inr_iff split: if_splits)

lemma items_wf_update:
  "items_wf items \<Longrightarrow> qi_queue_id it = k \<Longrightarrow> py_strip k = k \<Longrightarrow> k \<noteq> [] \<Longrightarrow> items_wf (AList.update k it items)"
  by (auto simp: items_wf_def update_conv' distinct_update)

lemma enqueued_item_id: "enqueued_item raw qid ts = Inr it \<Longrightarrow> qi_queue_id it = qid"
  by (auto simp: enqueued_item_def bindE_Inr_iff)

lemma fold_row_wf:
  assumes "fold_row raw items = Inr items'" and "items_wf items"
  shows "items_wf items'"
proof (cases "py_strip (get_str raw ''queue_id'') = []")
  case True
  with assms show ?thesis by (auto simp: fold_row_def Let_def bindE_Inr_iff)
next
  case False
  show ?thesis
  proof (cases "row_type raw = ''enqueue''")
    case True
    with False assms(1) obtain ts it where
      "enqueued_item raw (py_strip (get_str raw ''queue_id'')) ts = Inr it"
      "items' = AList.update (py_strip (get_str raw ''queue_id'')) it items"
      by (auto simp: fold_row_def Let_def bindE_Inr_iff)
    with items_wf_update [OF assms(2) enqueued_item_id py_strip_idem False] show ?thesis by simp
  next
    case type: False
    show ?thesis
    proof (cases "map_of items (py_strip (get_str raw ''queue_id''))")
      case None
      with type False assms show ?thesis by (auto simp: fold_row_def Let_def bindE_Inr_iff)
    next
      case (Some it)
      with type False assms(1) obtain ts it1 it2 where
        "touch_item raw ts it = Inr it1" "event_effect (row_type raw) raw ts it1 = Inr it2"
        and i: "items' = AList.update (py_strip (get_str raw ''queue_id'')) it2 items"
        by (auto simp: fold_row_def Let_def bindE_Inr_iff)
      then have "qi_queue_id it2 = qi_queue_id it" by (simp add: touch_item_id event_effect_id)
      with Some assms(2) have "qi_queue_id it2 = py_strip (get_str raw ''queue_id'')"
        by (simp add: items_wf_def)
      with items_wf_update [OF assms(2) this py_strip_idem False] i show ?thesis by simp
    qed
  qed
qed

lemma fold_rows_wf: "fold_rows rs items = Inr items' \<Longrightarrow> items_wf items \<Longrightarrow> items_wf items'"
  by (induction rs arbitrary: items) (auto simp: bindE_Inr_iff dest: fold_row_wf)

lemma fold_rows_append: "fold_rows (rs @ ts) items = bindE (fold_rows rs items) (fold_rows ts)"
proof (induction rs arbitrary: items)
  case (Cons r rs)
  then show ?case by (cases "fold_row r items") simp_all
qed simp

lemma queue_items_wf: "queue_items_of s = Inr items \<Longrightarrow> items_wf items"
  unfolding queue_items_of_def by (erule fold_rows_wf) (simp add: items_wf_def)

lemma queue_items_append:
  "queue_items_of (s @ [JVal (PDict row)]) = bindE (queue_items_of s) (fold_row row)"
proof -
  have "bindE m (fold_rows [row]) = bindE m (fold_row row)" for m
    by (cases m; cases "fold_row row (projr m)") simp_all
  then show ?thesis by (simp add: queue_items_of_def rows_lenient_append fold_rows_append)
qed

text \<open>The item an operation finds is the replayed one.\<close>

lemma wf_map_of_rev:
  assumes "items_wf items"
  shows "map_of (rev (map (\<lambda>r. (qi_queue_id r, r)) (map snd (sort_key f items)))) = map_of items"
proof -
  have d: "distinct (map fst items)" using assms by (simp add: items_wf_def)
  then have "distinct (map fst (sort_key f items))" by (simp add: distinct_map)
  then have ds: "distinct (map fst (rev (sort_key f items)))" by (simp add: rev_map [symmetric])
  have "map (\<lambda>r. (qi_queue_id r, r)) (map snd (sort_key f items)) = sort_key f items"
    using assms d by (auto simp: items_wf_def intro!: map_idI)
  then show ?thesis
    using map_of_inject_set [OF ds d] by simp
qed

lemma load_item:
  assumes "queue_items_of s = Inr items"
  shows "load_item_for_transition q s = Inr (map_of items (py_strip q))"
  using wf_map_of_rev [OF queue_items_wf [OF assms], where f = "\<lambda>(qid, it). (qi_enqueue_ts it, qid)"] assms
  by (simp add: load_item_for_transition_def fold_state_def Let_def items_by_id_def sorted_items_def)

lemma fold_state_items:
  "queue_items_of s = Inr items \<Longrightarrow> \<exists>st. fold_state s = Inr st \<and> fs_items st = sorted_items items
     \<and> fs_live st = filter (\<lambda>r. qi_status r \<in> live_statuses) (sorted_items items)"
  by (simp add: fold_state_def Let_def)

lemma sorted_items_set:
  assumes "items_wf items"
  shows "it \<in> set (sorted_items items) \<longleftrightarrow> map_of items (qi_queue_id it) = Some it"
proof -
  have d: "distinct (map fst items)" using assms by (simp add: items_wf_def)
  have "it \<in> set (sorted_items items) \<longleftrightarrow> (\<exists>k. (k, it) \<in> set items)"
    by (force simp: sorted_items_def)
  also have "\<dots> \<longleftrightarrow> (\<exists>k. map_of items k = Some it)" using d by simp
  also have "\<dots> \<longleftrightarrow> map_of items (qi_queue_id it) = Some it"
    using assms by (auto simp: items_wf_def)
  finally show ?thesis .
qed

section \<open>One event\<close>

definition item_moved :: "string \<Rightarrow> queue_item \<Rightarrow> queue_item \<Rightarrow> bool" where
  "item_moved et it it' = (qi_status it' = next_status et (qi_status it) \<and> qi_queue_id it' = qi_queue_id it
     \<and> qi_priority it' = qi_priority it \<and> qi_not_before_ts it' = qi_not_before_ts it
     \<and> qi_enqueue_ts it' = qi_enqueue_ts it)"

lemma append_event_effect:
  assumes "queue_items_of s = Inr items" and "map_of items (py_strip q) = Some it"
    and "et \<in> set event_types" "et \<noteq> ''enqueue''"
  shows "\<exists>rep it'. q_append_event et q ac rs a now s
            = (rep, s @ [JVal (PDict (queue_row et (py_strip q) ac rs a now))]) \<and> reply_ok rep
       \<and> queue_items_of (s @ [JVal (PDict (queue_row et (py_strip q) ac rs a now))])
           = Inr (AList.update (py_strip q) it' items)
       \<and> item_moved et it it'"
proof -
  have q: "py_strip q \<noteq> []" using queue_items_wf [OF assms(1)] assms(2) by (auto simp: items_wf_def)
  obtain it' where "fold_row (queue_row et (py_strip q) ac rs a now) items = Inr (AList.update (py_strip q) it' items)"
    and "item_moved et it it'"
    using fold_row_event [OF assms(3,4) py_strip_idem q, of ac rs a now items] assms(2)
    by (auto simp: item_moved_def)
  then show ?thesis
    using assms(1,3) q event_type_normal [OF assms(3)]
    by (auto simp: q_append_event_def Let_def queue_items_append reply_ok_def)
qed

lemma guarded_event_effect:
  assumes "queue_items_of s = Inr items" and "et \<in> set event_types" "et \<noteq> ''enqueue''"
  shows "\<exists>rep s' items'. guarded_event A err et q ac rs a now s = Inr (rep, s')
     \<and> queue_items_of s' = Inr items'
     \<and> (case map_of items (py_strip q) of
          None \<Rightarrow> \<not> reply_ok rep \<and> s' = s
        | Some it \<Rightarrow>
            if qi_status it \<in> A then reply_ok rep
               \<and> (\<exists>it'. items' = AList.update (py_strip q) it' items \<and> item_moved et it it')
            else \<not> reply_ok rep \<and> s' = s)"
proof (cases "map_of items (py_strip q)")
  case None
  with assms show ?thesis by (simp add: guarded_event_def load_item err_reply_def reply_ok_def)
next
  case (Some it)
  from append_event_effect [OF assms(1) Some assms(2,3), of ac rs a now] Some assms(1)
  show ?thesis by (auto simp: guarded_event_def load_item err_reply_def reply_ok_def)
qed

section \<open>The life cycle\<close>

inductive legal_step :: "queue_status \<Rightarrow> queue_status \<Rightarrow> bool" where
  claim_step: "legal_step Q_enqueued Q_claimed"
| start_step: "st \<in> {Q_enqueued, Q_claimed} \<Longrightarrow> legal_step st Q_running"
| done_step: "st \<in> {Q_claimed, Q_running} \<Longrightarrow> legal_step st Q_done"
| fail_step: "st \<in> {Q_enqueued, Q_claimed, Q_running} \<Longrightarrow> legal_step st Q_failed"
| cancel_step: "st \<in> {Q_enqueued, Q_claimed} \<Longrightarrow> legal_step st Q_canceled"
| expire_step: "st \<in> {Q_enqueued, Q_claimed} \<Longrightarrow> legal_step st Q_expired"

inductive_cases legal_step_from: "legal_step st st'"
inductive_simps legal_step_simps: "legal_step st st'"

definition terminal_statuses :: "queue_status set" where
  "terminal_statuses = {Q_done, Q_failed, Q_canceled, Q_expired}"

lemma legal_steps_terminal:
  assumes "legal_step\<^sup>*\<^sup>* st st'" and "st \<in> terminal_statuses"
  shows "st' = st"
  using assms by (induction rule: rtranclp_induct) (auto simp: terminal_statuses_def elim: legal_step_from)

text \<open>How far the items of two states of the queue may differ after one operation that is not an enqueue.\<close>

definition items_step :: "queue_items \<Rightarrow> queue_items \<Rightarrow> bool" where
  "items_step items items' = (dom (map_of items') = dom (map_of items) \<and>
     (\<forall>k it it'. map_of items k = Some it \<longrightarrow> map_of items' k = Some it' \<longrightarrow>
        legal_step\<^sup>*\<^sup>* (qi_status it) (qi_status it') \<and> qi_priority it' = qi_priority it
      \<and> qi_not_before_ts it' = qi_not_before_ts it \<and> qi_enqueue_ts it' = qi_enqueue_ts it))"

lemma items_step_refl [simp]: "items_step items items"
  by (auto simp: items_step_def)

lemma items_step_trans:
  assumes "items_step a b" and "items_step b c"
  shows "items_step a c"
  unfolding items_step_def
proof (intro conjI allI impI)
  show "dom (map_of c) = dom (map_of a)" using assms by (simp add: items_step_def)
  fix k x z
  assume x: "map_of a k = Some x" and z: "map_of c k = Some z"
  from x assms(1) obtain y where y: "map_of b k = Some y" unfolding items_step_def by blast
  from assms(1) x y have "legal_step\<^sup>*\<^sup>* (qi_status x) (qi_status y)" "qi_priority y = qi_priority x"
    "qi_not_before_ts y = qi_not_before_ts x" "qi_enqueue_ts y = qi_enqueue_ts x"
    unfolding items_step_def by blast+
  moreover from assms(2) y z have "legal_step\<^sup>*\<^sup>* (qi_status y) (qi_status z)" "qi_priority z = qi_priority y"
    "qi_not_before_ts z = qi_not_before_ts y" "qi_enqueue_ts z = qi_enqueue_ts y"
    unfolding items_step_def by blast+
  ultimately show "legal_step\<^sup>*\<^sup>* (qi_status x) (qi_status z)" "qi_priority z = qi_priority x"
    "qi_not_before_ts z = qi_not_before_ts x" "qi_enqueue_ts z = qi_enqueue_ts x"
    by (auto intro: rtranclp_trans)
qed

lemma items_step_update:
  assumes "map_of items k = Some it" and "item_moved et it it'"
    and "legal_step\<^sup>*\<^sup>* (qi_status it) (next_status et (qi_status it))"
  shows "items_step items (AList.update k it' items)"
  using assms by (auto simp: items_step_def item_moved_def update_conv')

text \<open>The result of an operation: it never raises on a queue that replays, and moves items legally.\<close>

definition steps_to :: "queue_lines \<Rightarrow> queue_lines \<Rightarrow> bool" where
  "steps_to s s' = (\<exists>items items'. queue_items_of s = Inr items \<and> queue_items_of s' = Inr items'
     \<and> items_step items items')"

lemma guarded_event_steps:
  assumes "queue_items_of s = Inr items" and "et \<in> set event_types" "et \<noteq> ''enqueue''"
    and "\<And>st. st \<in> A \<Longrightarrow> legal_step\<^sup>*\<^sup>* st (next_status et st)"
  shows "\<exists>rep s'. guarded_event A err et q ac rs a now s = Inr (rep, s') \<and> steps_to s s'"
proof -
  obtain rep s' items' where g: "guarded_event A err et q ac rs a now s = Inr (rep, s')"
    "queue_items_of s' = Inr items'"
    and c: "case map_of items (py_strip q) of
          None \<Rightarrow> \<not> reply_ok rep \<and> s' = s
        | Some it \<Rightarrow>
            if qi_status it \<in> A then reply_ok rep
               \<and> (\<exists>it'. items' = AList.update (py_strip q) it' items \<and> item_moved et it it')
            else \<not> reply_ok rep \<and> s' = s"
    using guarded_event_effect [OF assms(1-3)] by meson
  have "items_step items items'"
    using c g(2) assms(1,4) items_step_update
    by (auto split: option.splits if_splits)
  with g assms(1) show ?thesis by (auto simp: steps_to_def)
qed

text \<open>The events and the statuses each operation accepts lead along \<open>legal_step\<close>.\<close>

lemma known_events [simp]:
  "''claim'' \<in> set event_types" "''start'' \<in> set event_types" "''done'' \<in> set event_types"
  "''fail'' \<in> set event_types" "''cancel'' \<in> set event_types" "''expire'' \<in> set event_types"
  "''approve'' \<in> set event_types" "''enqueue'' \<in> set event_types"
  by (simp_all add: event_types_def)

lemma accepted_legal:
  "st \<in> {Q_enqueued} \<Longrightarrow> legal_step\<^sup>*\<^sup>* st (next_status ''claim'' st)"
  "st \<in> {Q_claimed, Q_enqueued} \<Longrightarrow> legal_step\<^sup>*\<^sup>* st (next_status ''start'' st)"
  "st \<in> {Q_running, Q_claimed} \<Longrightarrow> legal_step\<^sup>*\<^sup>* st (next_status ''done'' st)"
  "st \<in> {Q_running, Q_claimed, Q_enqueued} \<Longrightarrow> legal_step\<^sup>*\<^sup>* st (next_status ''fail'' st)"
  "st \<in> {Q_enqueued, Q_claimed} \<Longrightarrow> legal_step\<^sup>*\<^sup>* st (next_status ''cancel'' st)"
  "st \<in> {Q_enqueued, Q_claimed} \<Longrightarrow> legal_step\<^sup>*\<^sup>* st (next_status ''expire'' st)"
  by (auto simp: next_status_def legal_step_simps intro!: r_into_rtranclp)

lemma transition_steps:
  assumes "queue_items_of s = Inr items"
  shows "\<exists>rep s'. q_claim q ac rs now s = Inr (rep, s') \<and> steps_to s s'"
    and "\<exists>rep s'. q_start q ac rs rid aid now s = Inr (rep, s') \<and> steps_to s s'"
    and "\<exists>rep s'. q_done q ac rs rid ex now s = Inr (rep, s') \<and> steps_to s s'"
    and "\<exists>rep s'. q_fail q ac rs rid er ex now s = Inr (rep, s') \<and> steps_to s s'"
    and "\<exists>rep s'. q_cancel q ac rs now s = Inr (rep, s') \<and> steps_to s s'"
    and "\<exists>rep s'. q_expire q ac rs now s = Inr (rep, s') \<and> steps_to s s'"
  unfolding q_claim_def q_start_def q_done_def q_fail_def q_cancel_def q_expire_def
  by (rule guarded_event_steps [OF assms]; simp add: accepted_legal)+

lemma approve_steps:
  assumes "queue_items_of s = Inr items"
  shows "\<exists>rep s'. q_approve q ac rs now s = Inr (rep, s') \<and> steps_to s s'"
proof -
  have refl: "steps_to s s" using assms by (auto simp: steps_to_def)
  show ?thesis
  proof (cases "map_of items (py_strip q)")
    case None
    with refl assms show ?thesis by (simp add: q_approve_def Let_def load_item)
  next
    case (Some it)
    then have "map_of items (py_strip (py_strip q)) = Some it" by simp
    from append_event_effect [OF assms this, of "''approve''" ac rs no_args now]
    obtain rep s' it' where a: "q_append_event ''approve'' (py_strip q) ac rs no_args now s = (rep, s')"
      "queue_items_of s' = Inr (AList.update (py_strip q) it' items)" "item_moved ''approve'' it it'"
      by auto
    have "steps_to s s'"
      using items_step_update [OF Some a(3)] assms a(2)
      by (auto simp: steps_to_def next_status_def)
    with refl assms Some a show ?thesis
      by (simp add: q_approve_def Let_def load_item)
  qed
qed

lemma steps_to_trans: "steps_to s t \<Longrightarrow> steps_to t u \<Longrightarrow> steps_to s u"
  unfolding steps_to_def using items_step_trans by fastforce

lemma steps_to_refl: "queue_items_of s = Inr items \<Longrightarrow> steps_to s s"
  by (auto simp: steps_to_def)

lemma cancel_each_steps:
  "queue_items_of s = Inr items \<Longrightarrow> \<exists>ids s'. cancel_each qs ac rs now s = Inr (ids, s') \<and> steps_to s s'"
proof (induction qs arbitrary: s items)
  case Nil
  then show ?case by (auto intro: steps_to_refl)
next
  case (Cons q qs)
  show ?case
  proof (cases "py_strip q = []")
    case True
    with Cons show ?thesis by simp
  next
    case False
    obtain rep s1 where c: "q_cancel (py_strip q) ac rs now s = Inr (rep, s1)" and st: "steps_to s s1"
      using transition_steps(5) [OF Cons.prems] by blast
    then obtain items1 where "queue_items_of s1 = Inr items1" by (auto simp: steps_to_def)
    from Cons.IH [OF this] obtain ids s2 where "cancel_each qs ac rs now s1 = Inr (ids, s2)" "steps_to s1 s2"
      by blast
    with c st False show ?thesis by (auto simp: Let_def intro: steps_to_trans)
  qed
qed

lemma cancel_for_agent_steps:
  assumes "queue_items_of s = Inr items"
  shows "\<exists>rep s'. q_cancel_for_agent aid ac rs now s = Inr (rep, s') \<and> steps_to s s'"
proof -
  obtain st where st: "fold_state s = Inr st" using fold_state_items [OF assms] by blast
  let ?ids = "map qi_queue_id (filter (\<lambda>r. py_strip (qi_agent_id r) = py_strip aid
                \<and> qi_status r \<in> {Q_enqueued, Q_claimed}) (fs_items st))"
  obtain ids s' where "cancel_each ?ids ac rs now s = Inr (ids, s')" "steps_to s s'"
    using cancel_each_steps [OF assms] by blast
  with st steps_to_refl [OF assms] show ?thesis by (simp add: q_cancel_for_agent_def Let_def)
qed

lemma scan_ready_steps:
  "queue_items_of s = Inr items \<Longrightarrow> scan_ready E clock rows n s = Inr (rep, s') \<Longrightarrow> steps_to s s'"
proof (induction rows arbitrary: n s items)
  case Nil
  then show ?case by (auto intro: steps_to_refl)
next
  case (Cons row rows)
  obtain crep s1 where c: "q_cancel (py_strip (qi_queue_id row)) ''system'' ''agent_disabled'' clock s = Inr (crep, s1)"
    and st: "steps_to s s1"
    using transition_steps(5) [OF Cons.prems(1)] by blast
  then obtain items1 where i1: "queue_items_of s1 = Inr items1" by (auto simp: steps_to_def)
  show ?case
    using Cons.prems c Cons.IH [OF Cons.prems(1)] Cons.IH [OF i1] steps_to_trans [OF st]
      steps_to_refl [OF Cons.prems(1)]
    by (auto simp: Let_def bindE_Inr_iff split: if_splits)
qed

lemma select_next_steps:
  assumes "queue_items_of s = Inr items" and "q_select_next E nt so clock s = Inr (rep, s')"
  shows "steps_to s s'"
  using assms steps_to_refl [OF assms(1)] scan_ready_steps [OF assms(1)]
  by (auto simp: q_select_next_def Let_def bindE_Inr_iff split: if_splits)

section \<open>Enqueueing\<close>

definition fresh_item :: "string \<Rightarrow> int \<Rightarrow> int \<Rightarrow> int \<Rightarrow> int option \<Rightarrow> queue_item \<Rightarrow> bool" where
  \<comment> \<open>what the replay makes of an accepted enqueue\<close>
  "fresh_item k priority challenge_sec now not_before_ts it =
     (qi_queue_id it = k \<and> qi_status it = Q_enqueued \<and> qi_enqueue_ts it = now
    \<and> qi_priority it = (if priority \<le> 0 then 50 else priority)
    \<and> (let nb = (case not_before_ts of Some t \<Rightarrow> t | None \<Rightarrow> now + max 0 challenge_sec)
       in qi_not_before_ts it = (if nb = 0 then now else nb)))"

lemma append_enqueue_effect:
  assumes "queue_items_of s = Inr items" and "py_strip q \<noteq> []" and "ea_approved_ts a = None"
  shows "\<exists>rep s' it. q_append_event ''enqueue'' q ac rs a now s = (rep, s') \<and> reply_ok rep
       \<and> queue_items_of s' = Inr (AList.update (py_strip q) it items) \<and> qi_status it = Q_enqueued
       \<and> qi_queue_id it = py_strip q \<and> qi_enqueue_ts it = now
       \<and> qi_priority it = (case ea_priority a of None \<Rightarrow> 50 | Some p \<Rightarrow> if p = 0 then 50 else p)
       \<and> qi_not_before_ts it = (case ea_not_before_ts a of None \<Rightarrow> now | Some t \<Rightarrow> if t = 0 then now else t)
       \<and> qi_requires_approval it = (ea_requires_approval a = Some True)
       \<and> qi_approved it = (ea_approved a = Some True)"
proof -
  let ?row = "queue_row ''enqueue'' (py_strip q) ac rs a now"
  obtain it where it: "fold_row ?row items = Inr (AList.update (py_strip q) it items)"
    "qi_status it = Q_enqueued" "qi_queue_id it = py_strip q" "qi_enqueue_ts it = now"
    "qi_priority it = (case ea_priority a of None \<Rightarrow> 50 | Some p \<Rightarrow> if p = 0 then 50 else p)"
    "qi_not_before_ts it = (case ea_not_before_ts a of None \<Rightarrow> now | Some t \<Rightarrow> if t = 0 then now else t)"
    "qi_requires_approval it = (ea_requires_approval a = Some True)"
    "qi_approved it = (ea_approved a = Some True)"
    using fold_row_enqueue [OF py_strip_idem assms(2,3), of ac rs now items] by blast
  have et: "py_lower (py_strip ''enqueue'') = ''enqueue''" using event_type_normal [of "''enqueue''"] by simp
  have "q_append_event ''enqueue'' q ac rs a now s = ([(''ok'', PBool True), (''event'', PDict ?row)], s @ [JVal (PDict ?row)])"
    using assms(2) et by (simp add: q_append_event_def Let_def)
  with it assms(1) show ?thesis by (auto simp: reply_ok_def queue_items_append)
qed

lemma reply_ok_simps [simp]:
  "\<not> reply_ok (err_reply c x)" "reply_ok ((''ok'', v) # d) = truthy v"
  by (simp_all add: err_reply_def reply_ok_def)

lemma enqueue_write_effect:
  assumes "queue_items_of s = Inr items"
    and "enqueue_write E prep norm pr ch nb ac rs pp aid req appr qid now u s = (rep, s')"
  shows "if reply_ok rep
         then (\<exists>it. queue_items_of s' = Inr (AList.update (enqueue_id qid u) it items)
                  \<and> fresh_item (enqueue_id qid u) pr ch now nb it) \<and> enqueue_id qid u \<noteq> []
         else s' = s"
proof -
  have id: "py_strip (enqueue_id qid u) = enqueue_id qid u" by (simp add: enqueue_id_def)
  let ?a = "no_args\<lparr>ea_priority := Some (max 0 pr),
     ea_not_before_ts := Some (case nb of Some t \<Rightarrow> t | None \<Rightarrow> now + max 0 ch),
     ea_plan := norm, ea_plan_path := pp, ea_agent_id := aid,
     ea_requires_approval := Some req, ea_approved := Some appr\<rparr>"
  show ?thesis
  proof (cases "enqueue_id qid u = []")
    case True
    have "q_append_event ''enqueue'' (enqueue_id qid u) ac rs ?a now s = (err_reply ''queue_id_required'' [], s)"
      by (simp add: q_append_event_def True)
    with assms(2) show ?thesis by (auto simp: enqueue_write_def Let_def)
  next
    case False
    then have k: "py_strip (enqueue_id qid u) \<noteq> []" using id by simp
    have none: "ea_approved_ts ?a = None" by (simp add: no_args_def)
    obtain rep1 s1 it where e: "q_append_event ''enqueue'' (enqueue_id qid u) ac rs ?a now s = (rep1, s1)"
      "reply_ok rep1" and it: "queue_items_of s1 = Inr (AList.update (enqueue_id qid u) it items)"
      "fresh_item (enqueue_id qid u) pr ch now nb it"
      using append_enqueue_effect [OF assms(1) k none, of ac rs now] unfolding id fresh_item_def Let_def
      by auto
    from assms(2) e have "reply_ok rep \<and> s' = s1" by (auto simp: enqueue_write_def Let_def)
    with it False show ?thesis by auto
  qed
qed

lemma enqueue_outcome:
  assumes "q_enqueue E prepare plan pr ch nb ac rs pp ag ra ap qid now u s = Inr (rep, s')"
  shows "\<not> reply_ok rep \<and> s' = s
       \<or> (\<exists>norm aid req appr. enqueue_write E (prepare plan pp) norm pr ch nb ac rs pp aid req appr qid now u s = (rep, s'))"
  using assms by (auto simp: q_enqueue_def Let_def bindE_Inr_iff split: if_splits)

lemma enqueue_effect:
  assumes "queue_items_of s = Inr items"
    and "q_enqueue E prepare plan pr ch nb ac rs pp ag ra ap qid now u s = Inr (rep, s')"
  shows "if reply_ok rep
         then (\<exists>it. queue_items_of s' = Inr (AList.update (enqueue_id qid u) it items)
                  \<and> fresh_item (enqueue_id qid u) pr ch now nb it) \<and> enqueue_id qid u \<noteq> []
         else s' = s"
  using enqueue_outcome [OF assms(2)] enqueue_write_effect [OF assms(1)] by auto

section \<open>The machine\<close>

datatype queue_op =
    Enqueue pyval int int "int option" string string string string "bool option" "bool option" string int string
  | Claim string string string int
  | Start string string string string string int
  | Done string string string string pydict int
  | Fail string string string string string pydict int
  | Cancel string string string int
  | Expire string string string int
  | Approve string string string int
  | CancelForAgent string string string int
  | SelectNext "int option" int

fun q_step ::
  "agent_env \<Rightarrow> (pyval \<Rightarrow> string \<Rightarrow> pydict) \<Rightarrow> queue_op \<Rightarrow> queue_lines \<Rightarrow> py_error + queue_lines" where
  "q_step E prep (Enqueue plan pr ch nb ac rs pp ag ra ap qid now u) s =
     map_sum id snd (q_enqueue E prep plan pr ch nb ac rs pp ag ra ap qid now u s)"
| "q_step E prep (Claim q ac rs now) s = map_sum id snd (q_claim q ac rs now s)"
| "q_step E prep (Start q ac rs rid aid now) s = map_sum id snd (q_start q ac rs rid aid now s)"
| "q_step E prep (Done q ac rs rid ex now) s = map_sum id snd (q_done q ac rs rid ex now s)"
| "q_step E prep (Fail q ac rs rid er ex now) s = map_sum id snd (q_fail q ac rs rid er ex now s)"
| "q_step E prep (Cancel q ac rs now) s = map_sum id snd (q_cancel q ac rs now s)"
| "q_step E prep (Expire q ac rs now) s = map_sum id snd (q_expire q ac rs now s)"
| "q_step E prep (Approve q ac rs now) s = map_sum id snd (q_approve q ac rs now s)"
| "q_step E prep (CancelForAgent aid ac rs now) s = map_sum id snd (q_cancel_for_agent aid ac rs now s)"
| "q_step E prep (SelectNext nt clock) s = map_sum id snd (q_select_next E nt None clock s)"

fun enqueues :: "string \<Rightarrow> queue_op \<Rightarrow> bool" where
  \<comment> \<open>the operation enqueues under the id \<open>k\<close>\<close>
  "enqueues k (Enqueue plan pr ch nb ac rs pp ag ra ap qid now u) = (enqueue_id qid u = k)"
| "enqueues k _ = False"

lemma op_steps:
  assumes "queue_items_of s = Inr items" and "q_step E prep a s = Inr s'" and "\<And>k. \<not> enqueues k a"
  shows "steps_to s s'"
proof -
  have R: "\<exists>rep t. m = Inr (rep, t) \<and> steps_to s t \<Longrightarrow> map_sum id snd m = Inr s' \<Longrightarrow> steps_to s s'"
    for m :: "py_error + pydict \<times> queue_lines"
    by auto
  note T = transition_steps [OF assms(1)] approve_steps [OF assms(1)] cancel_for_agent_steps [OF assms(1)]
  show ?thesis
  proof (cases a)
    case (SelectNext nt clock)
    with assms select_next_steps [OF assms(1)] show ?thesis by (auto simp: map_sum_Inr_iff)
  next
    case (Enqueue plan pr ch nb ac rs pp ag ra ap qid now u)
    with assms(3) [of "enqueue_id qid u"] show ?thesis by simp
  next
    case (Claim q ac rs now)
    show ?thesis using assms(2) unfolding Claim q_step.simps by (rule R [OF T(1)])
  next
    case (Start q ac rs rid aid now)
    show ?thesis using assms(2) unfolding Start q_step.simps by (rule R [OF T(2)])
  next
    case (Done q ac rs rid ex now)
    show ?thesis using assms(2) unfolding Done q_step.simps by (rule R [OF T(3)])
  next
    case (Fail q ac rs rid er ex now)
    show ?thesis using assms(2) unfolding Fail q_step.simps by (rule R [OF T(4)])
  next
    case (Cancel q ac rs now)
    show ?thesis using assms(2) unfolding Cancel q_step.simps by (rule R [OF T(5)])
  next
    case (Expire q ac rs now)
    show ?thesis using assms(2) unfolding Expire q_step.simps by (rule R [OF T(6)])
  next
    case (Approve q ac rs now)
    show ?thesis using assms(2) unfolding Approve q_step.simps by (rule R [OF T(7)])
  next
    case (CancelForAgent aid ac rs now)
    show ?thesis using assms(2) unfolding CancelForAgent q_step.simps by (rule R [OF T(8)])
  qed
qed

text \<open>A queue that replays keeps doing so, whatever is called.\<close>

interpretation queue_machine: invariant_machine "q_step E prep" "\<lambda>s. \<exists>items. queue_items_of s = Inr items"
  for E prep
proof unfold_locales
  fix s a t
  assume "\<exists>items. queue_items_of s = Inr items" and step: "q_step E prep a s = Inr t"
  then obtain items where i: "queue_items_of s = Inr items" by blast
  show "\<exists>items. queue_items_of t = Inr items"
  proof (cases "\<exists>k. enqueues k a")
    case True
    then obtain k where "enqueues k a" by blast
    with step i enqueue_effect [OF i] show ?thesis
      by (cases a) (auto simp: map_sum_Inr_iff split: if_splits, metis+)
  next
    case False
    with op_steps [OF i step] show ?thesis by (auto simp: steps_to_def)
  qed
qed

text \<open>As long as nobody enqueues its id again, an item only moves along \<open>legal_step\<close>.\<close>

definition item_reached :: "string \<Rightarrow> queue_item \<Rightarrow> queue_lines \<Rightarrow> bool" where
  "item_reached k it0 s = (\<exists>items it. queue_items_of s = Inr items \<and> map_of items k = Some it
     \<and> legal_step\<^sup>*\<^sup>* (qi_status it0) (qi_status it) \<and> qi_priority it = qi_priority it0
     \<and> qi_not_before_ts it = qi_not_before_ts it0 \<and> qi_enqueue_ts it = qi_enqueue_ts it0)"

lemma item_reached_steps:
  assumes "item_reached k it0 s" and "steps_to s t"
  shows "item_reached k it0 t"
proof -
  from assms obtain items it items' where i: "queue_items_of s = Inr items" "map_of items k = Some it"
    and p: "legal_step\<^sup>*\<^sup>* (qi_status it0) (qi_status it)" "qi_priority it = qi_priority it0"
      "qi_not_before_ts it = qi_not_before_ts it0" "qi_enqueue_ts it = qi_enqueue_ts it0"
    and t: "queue_items_of t = Inr items'" "items_step items items'"
    by (auto simp: item_reached_def steps_to_def)
  from i(2) t(2) obtain it' where it': "map_of items' k = Some it'" unfolding items_step_def by blast
  with t(2) i(2) have "legal_step\<^sup>*\<^sup>* (qi_status it) (qi_status it')" "qi_priority it' = qi_priority it"
      "qi_not_before_ts it' = qi_not_before_ts it" "qi_enqueue_ts it' = qi_enqueue_ts it"
    unfolding items_step_def by blast+
  with p it' t(1) show ?thesis unfolding item_reached_def by (metis rtranclp_trans)
qed

interpretation item_life: guarded_machine "\<lambda>a. \<not> enqueues k a" "q_step E prep" "item_reached k it0"
  for k E prep it0
proof unfold_locales
  fix a s t
  assume a: "\<not> enqueues k a" and r: "item_reached k it0 s" and step: "q_step E prep a s = Inr t"
  from r obtain items where i: "queue_items_of s = Inr items" by (auto simp: item_reached_def)
  show "item_reached k it0 t"
  proof (cases "\<exists>k'. enqueues k' a")
    case True
    then obtain k' plan pr ch nb ac rs pp ag ra ap qid now u where
      a': "a = Enqueue plan pr ch nb ac rs pp ag ra ap qid now u" and k': "enqueue_id qid u = k'"
      by (cases a) auto
    with step obtain rep where "q_enqueue E prep plan pr ch nb ac rs pp ag ra ap qid now u s = Inr (rep, t)"
      by (auto simp: map_sum_Inr_iff)
    from enqueue_effect [OF i this] a a' k' r i show ?thesis
      by (auto simp: item_reached_def update_conv' split: if_splits)
  next
    case False
    with op_steps [OF i step] item_reached_steps [OF r] show ?thesis by blast
  qed
qed

section \<open>The abstract queue\<close>

text \<open>
  What the operations promise, over a map from ids to statuses: an operation succeeds on an item
  whose status it accepts, and then sets the status; otherwise nothing changes.
\<close>

type_synonym status_map = "string \<Rightarrow> queue_status option"

definition status_map :: "queue_lines \<Rightarrow> status_map" where
  "status_map s k = (case queue_items_of s of Inl _ \<Rightarrow> None | Inr items \<Rightarrow> map_option qi_status (map_of items k))"

definition spec_event :: "queue_status set \<Rightarrow> queue_status \<Rightarrow> string \<Rightarrow> status_map \<Rightarrow> bool \<times> status_map" where
  "spec_event A target k m = (case m k of
     None \<Rightarrow> (False, m)
   | Some st \<Rightarrow> if st \<in> A then (True, m(k \<mapsto> target)) else (False, m))"

definition abs_outcome :: "py_error + pydict \<times> queue_lines \<Rightarrow> (bool \<times> status_map) option" where
  "abs_outcome r = (case r of Inl _ \<Rightarrow> None | Inr (rep, s) \<Rightarrow> Some (reply_ok rep, status_map s))"

lemma guarded_event_refines:
  assumes "queue_items_of s = Inr items" and "et \<in> set event_types" "et \<noteq> ''enqueue''"
    and "\<And>st. next_status et st = target"
  shows "abs_outcome (guarded_event A err et q ac rs a now s) = Some (spec_event A target (py_strip q) (status_map s))"
proof -
  obtain rep s' items' where g: "guarded_event A err et q ac rs a now s = Inr (rep, s')"
    "queue_items_of s' = Inr items'"
    and c: "case map_of items (py_strip q) of
          None \<Rightarrow> \<not> reply_ok rep \<and> s' = s
        | Some it \<Rightarrow>
            if qi_status it \<in> A then reply_ok rep
               \<and> (\<exists>it'. items' = AList.update (py_strip q) it' items \<and> item_moved et it it')
            else \<not> reply_ok rep \<and> s' = s"
    using guarded_event_effect [OF assms(1-3)] by meson
  from c g assms(1,4) show ?thesis
    by (auto simp: abs_outcome_def spec_event_def status_map_def item_moved_def update_conv' fun_eq_iff
          split: option.splits if_splits)
qed

lemma transitions_refine:
  assumes "queue_items_of s = Inr items"
  shows "abs_outcome (q_claim q ac rs now s) = Some (spec_event {Q_enqueued} Q_claimed (py_strip q) (status_map s))"
    and "abs_outcome (q_start q ac rs rid aid now s)
           = Some (spec_event {Q_claimed, Q_enqueued} Q_running (py_strip q) (status_map s))"
    and "abs_outcome (q_done q ac rs rid ex now s)
           = Some (spec_event {Q_running, Q_claimed} Q_done (py_strip q) (status_map s))"
    and "abs_outcome (q_fail q ac rs rid er ex now s)
           = Some (spec_event {Q_running, Q_claimed, Q_enqueued} Q_failed (py_strip q) (status_map s))"
    and "abs_outcome (q_cancel q ac rs now s)
           = Some (spec_event {Q_enqueued, Q_claimed} Q_canceled (py_strip q) (status_map s))"
    and "abs_outcome (q_expire q ac rs now s)
           = Some (spec_event {Q_enqueued, Q_claimed} Q_expired (py_strip q) (status_map s))"
  unfolding q_claim_def q_start_def q_done_def q_fail_def q_cancel_def q_expire_def
  by (rule guarded_event_refines [OF assms]; simp add: next_status_def)+

lemma item_reached_status:
  "item_reached k it0 s \<Longrightarrow> \<exists>st. status_map s k = Some st \<and> legal_step\<^sup>*\<^sup>* (qi_status it0) st"
  by (auto simp: item_reached_def status_map_def)

lemma item_reached_start:
  "queue_items_of s = Inr items \<Longrightarrow> map_of items k = Some it \<Longrightarrow> item_reached k it s"
  by (auto simp: item_reached_def)

lemma legal_never_back: "legal_step\<^sup>*\<^sup>* st st' \<Longrightarrow> st \<noteq> Q_enqueued \<Longrightarrow> st' \<noteq> Q_enqueued"
  by (induction rule: rtranclp_induct) (auto elim: legal_step_from)

section \<open>Claims by several processes\<close>

text \<open>
  \<open>claim\<close> replays the file and then appends, each under the lock, but not both under one: other
  processes may run in between.  A process first checks (\<open>claim_check\<close>), and writes in a later step.
\<close>

definition claim_check :: "string \<Rightarrow> queue_lines \<Rightarrow> bool" where
  "claim_check q s = (case load_item_for_transition q s of
     Inr (Some item) \<Rightarrow> qi_status item = Q_enqueued | _ \<Rightarrow> False)"

definition claim_write :: "string \<Rightarrow> string \<Rightarrow> int \<Rightarrow> queue_lines \<Rightarrow> pydict \<times> queue_lines" where
  "claim_write q actor now s = q_append_event ''claim'' q actor [] no_args now s"

lemma q_claim_check_write:
  "claim_check q s \<Longrightarrow> q_claim q ac [] now s = Inr (claim_write q ac now s)"
  by (auto simp: claim_check_def claim_write_def q_claim_def guarded_event_def bindE_def
        split: sum.splits option.splits)

record claim_world =
  cw_lines :: queue_lines
  cw_checked :: "string set"
  cw_winners :: "string set"

inductive claim_step :: "string \<Rightarrow> int \<Rightarrow> claim_world \<Rightarrow> claim_world \<Rightarrow> bool" for q now where
  do_check: "claim_check q (cw_lines w) \<Longrightarrow> claim_step q now w (w\<lparr>cw_checked := insert p (cw_checked w)\<rparr>)"
| do_write: "p \<in> cw_checked w \<Longrightarrow> claim_write q p now (cw_lines w) = (rep, s') \<Longrightarrow> reply_ok rep \<Longrightarrow>
    claim_step q now w (w\<lparr>cw_lines := s', cw_checked := cw_checked w - {p}, cw_winners := insert p (cw_winners w)\<rparr>)"

definition claim_start :: "queue_lines \<Rightarrow> claim_world" where
  "claim_start s = \<lparr>cw_lines = s, cw_checked = {}, cw_winners = {}\<rparr>"

lemma claim_write_ok:
  assumes "queue_items_of s = Inr items" and "map_of items (py_strip q) = Some it"
  shows "\<exists>rep s' items' it'. claim_write q p now s = (rep, s') \<and> reply_ok rep \<and> queue_items_of s' = Inr items'
     \<and> map_of items' (py_strip q) = Some it' \<and> qi_status it' = Q_claimed"
  using append_event_effect [OF assms, of "''claim''" p "[]" no_args now]
  by (auto simp: claim_write_def update_conv' item_moved_def next_status_def)

lemma two_winners:
  assumes "queue_items_of s = Inr items" and "map_of items (py_strip q) = Some it" and "qi_status it = Q_enqueued"
  shows "\<exists>w. (claim_step q now)\<^sup>*\<^sup>* (claim_start s) w \<and> {p, p'} \<subseteq> cw_winners w"
proof -
  let ?R = "claim_step q now"
  let ?w1 = "(claim_start s)\<lparr>cw_checked := {p}\<rparr>"
  let ?w2 = "(claim_start s)\<lparr>cw_checked := {p', p}\<rparr>"
  have chk: "claim_check q s" using assms by (simp add: claim_check_def load_item)
  have s1: "?R (claim_start s) ?w1" using do_check [of q "claim_start s" now p] chk by (simp add: claim_start_def)
  have s2: "?R ?w1 ?w2" using do_check [of q ?w1 now p'] chk by (simp add: claim_start_def)
  obtain rep t items1 it1 where w: "claim_write q p now s = (rep, t)" "reply_ok rep"
    "queue_items_of t = Inr items1" "map_of items1 (py_strip q) = Some it1"
    using claim_write_ok [OF assms(1,2)] by meson
  let ?w3 = "?w2\<lparr>cw_lines := t, cw_checked := cw_checked ?w2 - {p}, cw_winners := {p}\<rparr>"
  have s3: "?R ?w2 ?w3" using do_write [of p ?w2 q now rep t] w(1,2) by (simp add: claim_start_def)
  show ?thesis
  proof (cases "p' = p")
    case True
    with s1 s2 s3 have "?R\<^sup>*\<^sup>* (claim_start s) ?w3" by (meson rtranclp.rtrancl_into_rtrancl rtranclp.rtrancl_refl)
    with True show ?thesis by (intro exI [of _ ?w3]) simp
  next
    case False
    obtain rep' t' where w': "claim_write q p' now t = (rep', t')" "reply_ok rep'"
      using claim_write_ok [OF w(3,4)] by meson
    let ?w4 = "?w3\<lparr>cw_lines := t', cw_checked := cw_checked ?w3 - {p'}, cw_winners := {p', p}\<rparr>"
    have "?R ?w3 ?w4" using do_write [of p' ?w3 q now rep' t'] w' False by (simp add: claim_start_def)
    with s1 s2 s3 have "?R\<^sup>*\<^sup>* (claim_start s) ?w4" by (meson rtranclp.rtrancl_into_rtrancl rtranclp.rtrancl_refl)
    then show ?thesis by (intro exI [of _ ?w4]) simp
  qed
qed

section \<open>What is selected\<close>

definition agent_disabled :: "agent_env \<Rightarrow> queue_item \<Rightarrow> bool" where
  "agent_disabled E r = (py_strip (qi_agent_id r) \<noteq> []
     \<and> agent_enabled_state E (py_strip (qi_agent_id r)) = Inr (Some False))"

lemma scan_ready_found:
  "scan_ready E clock rows n s = Inr (Sel_found it, s') \<Longrightarrow>
   \<exists>pre post. rows = pre @ it # post \<and> (\<forall>r \<in> set pre. agent_disabled E r) \<and> \<not> agent_disabled E it"
proof (induction rows arbitrary: n s)
  case Nil
  then show ?case by (simp split: if_splits)
next
  case (Cons row rows)
  show ?case
  proof (cases "agent_disabled E row")
    case True
    with Cons.prems obtain n' s1 where "scan_ready E clock rows n' s1 = Inr (Sel_found it, s')"
      by (auto simp: Let_def agent_disabled_def bindE_Inr_iff split: if_splits)
    from Cons.IH [OF this] obtain pre post where "rows = pre @ it # post"
      "\<forall>r \<in> set pre. agent_disabled E r" "\<not> agent_disabled E it" by blast
    with True show ?thesis by (intro exI [of _ "row # pre"] exI [of _ post]) simp
  next
    case False
    with Cons.prems have "row = it"
      by (auto simp: Let_def agent_disabled_def bindE_Inr_iff split: if_splits)
    with False show ?thesis by (intro exI [of _ "[]"] exI [of _ rows]) simp
  qed
qed

lemma ready_rows:
  "r \<in> set (filter (\<lambda>r. qi_not_before_ts r \<le> t) (filter (\<lambda>r. qi_status r = Q_enqueued) rows)) \<longleftrightarrow>
     r \<in> set rows \<and> qi_status r = Q_enqueued \<and> qi_not_before_ts r \<le> t"
  by auto

lemma select_next_found:
  assumes "fold_state s = Inr st" and "q_select_next E nt None clock s = Inr (Sel_found it, s')"
  defines "t \<equiv> (case nt of Some t \<Rightarrow> t | None \<Rightarrow> clock)"
  shows "it \<in> set (fs_items st) \<and> qi_status it = Q_enqueued \<and> qi_not_before_ts it \<le> t \<and> \<not> agent_disabled E it
     \<and> (\<forall>r \<in> set (fs_items st). qi_status r = Q_enqueued \<longrightarrow> qi_not_before_ts r \<le> t \<longrightarrow>
          \<not> agent_disabled E r \<longrightarrow> ready_key it \<le> ready_key r)"
proof -
  let ?ready = "filter (\<lambda>r. qi_not_before_ts r \<le> t) (filter (\<lambda>r. qi_status r = Q_enqueued) (fs_items st))"
  let ?sorted = "sort_key ready_key ?ready"
  let ?k = "max 1 (min 50 (length ?ready))"
  from assms(1,2) have "scan_ready E clock (take ?k ?sorted) 0 s = Inr (Sel_found it, s')"
    by (auto simp: q_select_next_def Let_def t_def split: if_splits)
  from scan_ready_found [OF this] obtain pre post where tk: "take ?k ?sorted = pre @ it # post"
    and b: "\<forall>r \<in> set pre. agent_disabled E r" "\<not> agent_disabled E it" by blast
  then have srt: "?sorted = pre @ it # post @ drop ?k ?sorted"
    by (metis append_Cons append_assoc append_take_drop_id)
  then have mem: "set ?ready = set (pre @ it # post @ drop ?k ?sorted)" by (metis set_sort)
  have "sorted (map ready_key ?sorted)" by simp
  then have le: "\<forall>r \<in> set (post @ drop ?k ?sorted). ready_key it \<le> ready_key r"
    by (subst (asm) srt) (auto simp: sorted_append)
  have "ready_key it \<le> ready_key r" if "r \<in> set ?ready" "\<not> agent_disabled E r" for r
    using that b(1) le unfolding mem by auto
  moreover have "it \<in> set ?ready" unfolding mem by simp
  ultimately show ?thesis using b(2) unfolding ready_rows by blast
qed

section \<open>Properties\<close>

definition sample_env :: agent_env where
  "sample_env = \<lparr>env_get_agent = (\<lambda>_. None), env_templates = None, env_getenv = (\<lambda>_. None)\<rparr>"

definition sample_prep :: "pyval \<Rightarrow> string \<Rightarrow> pydict" where
  "sample_prep plan path = [(''ok'', PBool True), (''plan'', PDict [])]"

definition sample_enqueue :: queue_op where
  "sample_enqueue = Enqueue (PDict []) 10 60 None ''user'' [] [] [] None None ''q1'' 100 []"

lemma strip_q1 [simp]: "py_strip ''q1'' = ''q1''"
  by (simp add: py_strip_def strip_by_def is_space_def code_point_def)

lemma enqueue_id_q1 [simp]: "enqueue_id ''q1'' u = ''q1''"
  by (simp add: enqueue_id_def)

lemma sample_not_legacy: "\<not> is_legacy_proactivity_enqueue ''user'' []"
  by (simp add: is_legacy_proactivity_enqueue_def py_strip_def strip_by_def is_space_def code_point_def
        py_lower_def lower_char_def)

lemma sample_reply:
  "\<exists>rep s'. q_enqueue sample_env sample_prep (PDict []) 10 60 None ''user'' [] [] [] None None ''q1'' 100 [] s = Inr (rep, s')
     \<and> reply_ok rep"
  using sample_not_legacy event_type_normal [of "''enqueue''"]
  by (simp add: q_enqueue_def Let_def sample_prep_def dict_get_def enqueue_write_def q_append_event_def split: prod.splits)

lemma sample_items:
  "\<exists>s it. q_step sample_env sample_prep sample_enqueue [] = Inr s \<and> queue_items_of s = Inr [(''q1'', it)]
     \<and> fresh_item ''q1'' 10 60 100 None it"
proof -
  obtain rep s where r: "q_enqueue sample_env sample_prep (PDict []) 10 60 None ''user'' [] [] [] None None ''q1'' 100 [] [] = Inr (rep, s)"
    "reply_ok rep" using sample_reply by blast
  have "queue_items_of [] = Inr []" by (simp add: queue_items_of_def)
  from enqueue_effect [OF this r(1)] r(2) obtain it where
    "queue_items_of s = Inr [(''q1'', it)]" "fresh_item ''q1'' 10 60 100 None it" by auto
  with r(1) show ?thesis by (auto simp: sample_enqueue_def)
qed

lemma sample_queue:
  "\<exists>s items it. q_step sample_env sample_prep sample_enqueue [] = Inr s \<and> queue_items_of s = Inr items
     \<and> map_of items ''q1'' = Some it \<and> fresh_item ''q1'' 10 60 100 None it"
  using sample_items by fastforce

text \<open>
  C9: on a queue that replays, the six transitions behave like the abstract queue over statuses: each
  succeeds exactly on the statuses it accepts, then sets its status, and otherwise changes nothing.
\<close>

theorem queue_transitions_refine:
  assumes "queue_items_of s = Inr items"
  shows "abs_outcome (q_claim q ac rs now s) = Some (spec_event {Q_enqueued} Q_claimed (py_strip q) (status_map s))
    \<and> abs_outcome (q_start q ac rs rid aid now s) = Some (spec_event {Q_claimed, Q_enqueued} Q_running (py_strip q) (status_map s))
    \<and> abs_outcome (q_done q ac rs rid ex now s) = Some (spec_event {Q_running, Q_claimed} Q_done (py_strip q) (status_map s))
    \<and> abs_outcome (q_fail q ac rs rid er ex now s) = Some (spec_event {Q_running, Q_claimed, Q_enqueued} Q_failed (py_strip q) (status_map s))
    \<and> abs_outcome (q_cancel q ac rs now s) = Some (spec_event {Q_enqueued, Q_claimed} Q_canceled (py_strip q) (status_map s))
    \<and> abs_outcome (q_expire q ac rs now s) = Some (spec_event {Q_enqueued, Q_claimed} Q_expired (py_strip q) (status_map s))"
  by (intro conjI; rule transitions_refine [OF assms])

theorem queue_transitions_refine_witness:
  "\<exists>s. status_map s ''q1'' = Some Q_enqueued
     \<and> abs_outcome (q_claim ''q1'' ''a'' [] 200 s) = Some (True, (status_map s)(''q1'' \<mapsto> Q_claimed))"
proof -
  obtain s items it where s: "queue_items_of s = Inr items" "map_of items ''q1'' = Some it" "fresh_item ''q1'' 10 60 100 None it"
    using sample_queue by blast
  then have "status_map s ''q1'' = Some Q_enqueued" by (simp add: status_map_def fresh_item_def)
  with queue_transitions_refine [OF s(1), of "''q1''" "''a''" "[]" 200] show ?thesis
    by (auto simp: spec_event_def)
qed

text \<open>
  Whatever operations are called, as long as none of them enqueues the item's id again, the item
  stays in the queue and its status only moves along the legal steps.
\<close>

theorem queue_item_life:
  assumes "queue_items_of s = Inr items" and "map_of items k = Some it"
    and "\<forall>a \<in> set as. \<not> enqueues k a" and "run_ops (q_step E prep) as s = Inr t"
  shows "\<exists>st. status_map t k = Some st \<and> legal_step\<^sup>*\<^sup>* (qi_status it) st"
proof -
  have "list_all (\<lambda>a. \<not> enqueues k a) as" using assms(3) by (simp add: list_all_iff)
  from item_life.ok_run_inv [OF this item_reached_start [OF assms(1,2)] assms(4)] item_reached_status
  show ?thesis by blast
qed

theorem queue_item_life_witness:
  "\<exists>s t st. run_ops (q_step sample_env sample_prep) [Claim ''q1'' ''a'' [] 200] s = Inr t
     \<and> status_map t ''q1'' = Some st \<and> legal_step\<^sup>*\<^sup>* Q_enqueued st"
proof -
  obtain s items it where s: "queue_items_of s = Inr items" "map_of items ''q1'' = Some it" "fresh_item ''q1'' 10 60 100 None it"
    using sample_queue by blast
  obtain rep t where "q_claim ''q1'' ''a'' [] 200 s = Inr (rep, t)" using transition_steps(1) [OF s(1)] by blast
  then have run: "run_ops (q_step sample_env sample_prep) [Claim ''q1'' ''a'' [] 200] s = Inr t" by simp
  from queue_item_life [OF s(1,2) _ run] run s(3) show ?thesis by (auto simp: fresh_item_def)
qed

text \<open>
  Done, failed, canceled and expired are final: no run of operations that does not enqueue the id
  again changes such a status.
\<close>

theorem queue_terminal_final:
  assumes "queue_items_of s = Inr items" and "map_of items k = Some it" and "qi_status it \<in> terminal_statuses"
    and "\<forall>a \<in> set as. \<not> enqueues k a" and "run_ops (q_step E prep) as s = Inr t"
  shows "status_map t k = Some (qi_status it)"
proof -
  have "list_all (\<lambda>a. \<not> enqueues k a) as" using assms(4) by (simp add: list_all_iff)
  from item_life.ok_run_inv [OF this item_reached_start [OF assms(1,2)] assms(5)] item_reached_status
  obtain st where "status_map t k = Some st" "legal_step\<^sup>*\<^sup>* (qi_status it) st" by blast
  with legal_steps_terminal [OF this(2) assms(3)] show ?thesis by simp
qed

lemma sample_canceled:
  "\<exists>s items it. queue_items_of s = Inr items \<and> map_of items ''q1'' = Some it \<and> qi_status it = Q_canceled"
proof -
  obtain s items it where s: "queue_items_of s = Inr items" "map_of items ''q1'' = Some it" "fresh_item ''q1'' 10 60 100 None it"
    using sample_queue by blast
  then have "map_of items (py_strip ''q1'') = Some it" by simp
  from append_event_effect [OF s(1) this, of "''cancel''" "''a''" "[]" no_args 200] obtain s' it' where
    "queue_items_of s' = Inr (AList.update ''q1'' it' items)" "qi_status it' = Q_canceled"
    by (auto simp: item_moved_def next_status_def)
  then have "queue_items_of s' = Inr (AList.update ''q1'' it' items)
      \<and> map_of (AList.update ''q1'' it' items) ''q1'' = Some it' \<and> qi_status it' = Q_canceled"
    by (simp add: update_conv')
  then show ?thesis by blast
qed

theorem queue_terminal_final_witness:
  "\<exists>s t. status_map s ''q1'' = Some Q_canceled
     \<and> run_ops (q_step sample_env sample_prep) [Start ''q1'' ''a'' [] [] [] 300] s = Inr t \<and> status_map t ''q1'' = Some Q_canceled"
proof -
  obtain s items it where s: "queue_items_of s = Inr items" "map_of items ''q1'' = Some it" "qi_status it = Q_canceled"
    using sample_canceled by blast
  obtain rep t where "q_start ''q1'' ''a'' [] [] [] 300 s = Inr (rep, t)" using transition_steps(2) [OF s(1)] by blast
  then have run: "run_ops (q_step sample_env sample_prep) [Start ''q1'' ''a'' [] [] [] 300] s = Inr t" by simp
  have "status_map t ''q1'' = Some (qi_status it)"
    by (rule queue_terminal_final [OF s(1,2) _ _ run]) (simp_all add: s(3) terminal_statuses_def)
  moreover have "status_map s ''q1'' = Some Q_canceled" using s by (simp add: status_map_def)
  ultimately show ?thesis using run s(3) by metis
qed

text \<open>
  C10: a log that was written by the operations never makes them raise: after any run from the empty
  queue the file replays, and every transition, approval and cancellation returns a reply.
\<close>

theorem queue_never_raises:
  assumes "run_ops (q_step E prep) as [] = Inr s"
  shows "(\<exists>st. fold_state s = Inr st) \<and> (\<exists>r. q_claim q ac rs now s = Inr r) \<and> (\<exists>r. q_start q ac rs rid aid now s = Inr r)
       \<and> (\<exists>r. q_done q ac rs rid ex now s = Inr r) \<and> (\<exists>r. q_fail q ac rs rid er ex now s = Inr r)
       \<and> (\<exists>r. q_cancel q ac rs now s = Inr r) \<and> (\<exists>r. q_expire q ac rs now s = Inr r)
       \<and> (\<exists>r. q_approve q ac rs now s = Inr r) \<and> (\<exists>r. q_cancel_for_agent aid ac rs now s = Inr r)"
proof -
  have "\<exists>items. queue_items_of [] = Inr items" by (simp add: queue_items_of_def)
  from queue_machine.run_inv [OF this assms] obtain items where i: "queue_items_of s = Inr items" by blast
  have f: "\<exists>st. fold_state s = Inr st" using fold_state_items [OF i] by blast
  have e: "\<exists>r. q_expire q ac rs now s = Inr r" using transition_steps(6) [OF i] by blast
  have c: "\<exists>r. q_cancel q ac rs now s = Inr r" using transition_steps(5) [OF i] by blast
  have l: "\<exists>r. q_fail q ac rs rid er ex now s = Inr r" using transition_steps(4) [OF i] by blast
  have d: "\<exists>r. q_done q ac rs rid ex now s = Inr r" using transition_steps(3) [OF i] by blast
  have r: "\<exists>r. q_start q ac rs rid aid now s = Inr r" using transition_steps(2) [OF i] by blast
  have m: "\<exists>r. q_claim q ac rs now s = Inr r" using transition_steps(1) [OF i] by blast
  have a: "\<exists>r. q_approve q ac rs now s = Inr r" using approve_steps [OF i] by blast
  have k: "\<exists>r. q_cancel_for_agent aid ac rs now s = Inr r" using cancel_for_agent_steps [OF i] by blast
  show ?thesis by (intro conjI f m r d l c e a k)
qed

theorem queue_never_raises_witness:
  "\<exists>s. run_ops (q_step sample_env sample_prep) [sample_enqueue] [] = Inr s \<and> (\<exists>r. q_claim ''q1'' ''a'' [] 200 s = Inr r)"
proof -
  obtain s where "q_step sample_env sample_prep sample_enqueue [] = Inr s" using sample_queue by blast
  then have "run_ops (q_step sample_env sample_prep) [sample_enqueue] [] = Inr s" by simp
  with queue_never_raises [OF this] show ?thesis by blast
qed

text \<open>
  What \<open>select_next\<close> finds is enqueued, out of its challenge window and not of a disabled agent,
  and comes first (by priority, then age, then id) among all items of which that is true.
\<close>

theorem select_next_best:
  assumes "fold_state s = Inr st" and "q_select_next E (Some t) None clock s = Inr (Sel_found it, s')"
  shows "it \<in> set (fs_items st) \<and> qi_status it = Q_enqueued \<and> qi_not_before_ts it \<le> t \<and> \<not> agent_disabled E it
     \<and> (\<forall>r \<in> set (fs_items st). qi_status r = Q_enqueued \<longrightarrow> qi_not_before_ts r \<le> t \<longrightarrow>
          \<not> agent_disabled E r \<longrightarrow> ready_key it \<le> ready_key r)"
  using select_next_found [OF assms] by simp

theorem select_next_best_witness:
  "\<exists>s st it. fold_state s = Inr st \<and> q_select_next sample_env (Some 200) None 300 s = Inr (Sel_found it, s)
     \<and> qi_queue_id it = ''q1'' \<and> qi_not_before_ts it \<le> 200"
proof -
  obtain s it where s: "queue_items_of s = Inr [(''q1'', it)]" "fresh_item ''q1'' 10 60 100 None it"
    using sample_items by blast
  obtain st where st: "fold_state s = Inr st" "fs_items st = [it]"
    using fold_state_items [OF s(1)] by (auto simp: sorted_items_def)
  have "q_select_next sample_env (Some 200) None 300 s = Inr (Sel_found it, s)"
    using s(2) st by (simp add: q_select_next_def fresh_item_def agent_enabled_state_def sample_env_def Let_def)
  with select_next_best [OF st(1) this] st s(2) show ?thesis by (auto simp: fresh_item_def)
qed

end
