(* ===== verification/AgentQueueClaims.thy ===== *)
theory AgentQueueClaims
  imports AgentQueueLaws
begin

text \<open>
  Claims on the agent queue: exclusive between whole operations, shared when the check and the
  append of two claims interleave, and given again once an id is enqueued a second time.  Also what
  an accepted enqueue leaves behind, and that it is not selected inside its challenge window.
\<close>

section \<open>What an operation leaves\<close>

lemma claim_outcome:
  assumes "queue_items_of s = Inr items" and "map_of items (py_strip q) = Some it"
    and "q_claim q ac rs now s = Inr (rep, t)"
  shows "if qi_status it = Q_enqueued then reply_ok rep \<and> status_map t (py_strip q) = Some Q_claimed
         else \<not> reply_ok rep \<and> t = s"
proof -
  from guarded_event_effect [OF assms(1), of "''claim''" "{Q_enqueued}" "''queue_not_enqueued''" q ac rs no_args now]
  obtain rep' s' items' where g: "q_claim q ac rs now s = Inr (rep', s')" "queue_items_of s' = Inr items'"
    and c: "if qi_status it \<in> {Q_enqueued} then reply_ok rep'
               \<and> (\<exists>it'. items' = AList.update (py_strip q) it' items \<and> item_moved ''claim'' it it')
            else \<not> reply_ok rep' \<and> s' = s"
    using assms(2) by (auto simp: q_claim_def event_types_def)
  from g(1) assms(3) have "rep' = rep" "s' = t" by auto
  with g(2) c show ?thesis
    by (auto simp: status_map_def item_moved_def next_status_def update_conv')
qed

lemma claim_not_found:
  assumes "queue_items_of s = Inr items" and "map_of items (py_strip q) = None"
    and "q_claim q ac rs now s = Inr (rep, t)"
  shows "\<not> reply_ok rep"
  using assms by (auto simp: q_claim_def guarded_event_def load_item err_reply_def reply_ok_def)

lemma status_map_SomeD:
  "status_map s k = Some st \<Longrightarrow> \<exists>items it. queue_items_of s = Inr items \<and> map_of items k = Some it \<and> qi_status it = st"
  by (auto simp: status_map_def split: sum.splits)

lemma claimed_reached:
  assumes "queue_items_of s = Inr items" and "q_claim q ac rs now s = Inr (rep, t)" and "reply_ok rep"
  shows "\<exists>it. item_reached (py_strip q) it t \<and> qi_status it = Q_claimed"
proof -
  obtain it where it: "map_of items (py_strip q) = Some it"
    using claim_not_found [OF assms(1) _ assms(2)] assms(3) by blast
  from claim_outcome [OF assms(1) it assms(2)] assms(3) have "status_map t (py_strip q) = Some Q_claimed"
    by (simp split: if_splits)
  then show ?thesis using item_reached_start by (meson status_map_SomeD)
qed

section \<open>Properties\<close>

text \<open>
  C11: a claim is exclusive between whole operations: once one has succeeded, no later claim of the id
  succeeds or changes the log, whatever is called in between, unless the id is enqueued again.
\<close>

theorem claim_exclusive:
  assumes "queue_items_of s = Inr items" and "q_claim q ac rs now s = Inr (rep, t)" and "reply_ok rep"
    and "\<forall>a \<in> set as. \<not> enqueues (py_strip q) a" and "run_ops (q_step E prep) as t = Inr u"
    and "py_strip q' = py_strip q" and "q_claim q' ac' rs' now' u = Inr (rep', v)"
  shows "\<not> reply_ok rep' \<and> v = u"
proof -
  obtain it where it: "item_reached (py_strip q) it t" "qi_status it = Q_claimed"
    using claimed_reached [OF assms(1-3)] by blast
  have "list_all (\<lambda>a. \<not> enqueues (py_strip q) a) as" using assms(4) by (simp add: list_all_iff)
  from item_life.ok_run_inv [OF this it(1) assms(5)] obtain items' it' where
    "queue_items_of u = Inr items'" "map_of items' (py_strip q) = Some it'"
    and "legal_step\<^sup>*\<^sup>* (qi_status it) (qi_status it')" by (auto simp: item_reached_def)
  with claim_outcome [of u items' q' it' ac' rs' now' rep' v] assms(6,7) it(2) legal_never_back show ?thesis by auto
qed

lemma sample_claimed:
  "\<exists>s items rep t. queue_items_of s = Inr items \<and> q_claim ''q1'' ''a'' [] 200 s = Inr (rep, t) \<and> reply_ok rep"
proof -
  obtain s items it where s: "queue_items_of s = Inr items" "map_of items ''q1'' = Some it" "fresh_item ''q1'' 10 60 100 None it"
    using sample_queue by blast
  obtain rep t where c: "q_claim ''q1'' ''a'' [] 200 s = Inr (rep, t)" using transition_steps(1) [OF s(1)] by blast
  have "map_of items (py_strip ''q1'') = Some it" using s(2) by simp
  from claim_outcome [OF s(1) this c] s(3) c s(1) show ?thesis by (auto simp: fresh_item_def)
qed

theorem claim_exclusive_witness:
  "\<exists>s t u rep rep'. q_claim ''q1'' ''a'' [] 200 s = Inr (rep, t) \<and> reply_ok rep
     \<and> run_ops (q_step sample_env sample_prep) [Start ''q1'' ''a'' [] [] [] 210] t = Inr u
     \<and> q_claim ''q1'' ''b'' [] 220 u = Inr (rep', u) \<and> \<not> reply_ok rep'"
proof -
  obtain s items rep t where s: "queue_items_of s = Inr items" "q_claim ''q1'' ''a'' [] 200 s = Inr (rep, t)" "reply_ok rep"
    using sample_claimed by blast
  then obtain items' where i: "queue_items_of t = Inr items'"
    using transition_steps(1) [OF s(1), of "''q1''" "''a''" "[]" 200] by (auto simp: steps_to_def)
  then obtain r u where st: "q_start ''q1'' ''a'' [] [] [] 210 t = Inr (r, u)" "steps_to t u"
    using transition_steps(2) by blast
  then have run: "run_ops (q_step sample_env sample_prep) [Start ''q1'' ''a'' [] [] [] 210] t = Inr u" by simp
  obtain items'' where "queue_items_of u = Inr items''" using st(2) by (auto simp: steps_to_def)
  then obtain rep' v where c: "q_claim ''q1'' ''b'' [] 220 u = Inr (rep', v)" using transition_steps(1) by blast
  have "\<not> reply_ok rep' \<and> v = u" by (rule claim_exclusive [OF s _ run _ c]) simp_all
  with s run c show ?thesis by blast
qed

text \<open>
  C12: the check and the append of a claim are two steps, and the lock covers each but not both: any two
  processes that both check an enqueued item before either appends both get it.
\<close>

theorem claim_shared:
  assumes "queue_items_of s = Inr items" and "map_of items (py_strip q) = Some it"
    and "qi_status it = Q_enqueued" and "p \<noteq> p'"
  shows "\<exists>w. (claim_step q now)\<^sup>*\<^sup>* (claim_start s) w \<and> {p, p'} \<subseteq> cw_winners w \<and> p \<noteq> p'"
  using two_winners [OF assms(1-3)] assms(4) by blast

theorem claim_shared_witness:
  "\<exists>s w. status_map s ''q1'' = Some Q_enqueued \<and> (claim_step ''q1'' 200)\<^sup>*\<^sup>* (claim_start s) w
     \<and> {''a'', ''b''} \<subseteq> cw_winners w"
proof -
  obtain s items it where s: "queue_items_of s = Inr items" "map_of items ''q1'' = Some it" "fresh_item ''q1'' 10 60 100 None it"
    using sample_queue by blast
  then have k: "map_of items (py_strip ''q1'') = Some it" "qi_status it = Q_enqueued" "''a'' \<noteq> (''b'' :: string)"
    by (simp_all add: fresh_item_def)
  have "status_map s ''q1'' = Some Q_enqueued" using s k(2) by (simp add: status_map_def)
  with claim_shared [OF s(1) k, of 200] show ?thesis by blast
qed

text \<open>
  Enqueueing under an id that is already in the queue is accepted and resets the item, whatever
  its status was: a finished task is enqueued again and can be claimed a second time.
\<close>

theorem reenqueue_resets:
  assumes "queue_items_of s = Inr items" and "map_of items (enqueue_id qid u) = Some it"
    and "q_enqueue E prep plan pr ch nb ac rs pp ag ra ap qid now u s = Inr (rep, t)" and "reply_ok rep"
  shows "status_map t (enqueue_id qid u) = Some Q_enqueued
       \<and> (\<exists>rep' v. q_claim (enqueue_id qid u) ac' rs' now' t = Inr (rep', v) \<and> reply_ok rep')"
proof -
  let ?k = "enqueue_id qid u"
  from enqueue_effect [OF assms(1,3)] assms(4) obtain it' where
    t: "queue_items_of t = Inr (AList.update ?k it' items)" and f: "fresh_item ?k pr ch now nb it'" by auto
  have m: "map_of (AList.update ?k it' items) ?k = Some it'" by (simp add: update_conv')
  have st: "py_strip ?k = ?k" by (simp add: enqueue_id_def)
  obtain rep' v where c: "q_claim ?k ac' rs' now' t = Inr (rep', v)" using transition_steps(1) [OF t] by blast
  have "map_of (AList.update ?k it' items) (py_strip ?k) = Some it'" using m st by simp
  from claim_outcome [OF t this c] f have "reply_ok rep'" by (simp add: fresh_item_def)
  moreover have "status_map t ?k = Some Q_enqueued" using t m f by (simp add: status_map_def fresh_item_def)
  ultimately show ?thesis using c by blast
qed

theorem reenqueue_resets_witness:
  "\<exists>s t rep rep' v. status_map s ''q1'' = Some Q_canceled
     \<and> q_enqueue sample_env sample_prep (PDict []) 10 60 None ''user'' [] [] [] None None ''q1'' 100 [] s = Inr (rep, t)
     \<and> status_map t ''q1'' = Some Q_enqueued \<and> q_claim ''q1'' ''a'' [] 300 t = Inr (rep', v) \<and> reply_ok rep'"
proof -
  obtain s items it where s: "queue_items_of s = Inr items" "map_of items ''q1'' = Some it" "qi_status it = Q_canceled"
    using sample_canceled by blast
  obtain rep t where e: "q_enqueue sample_env sample_prep (PDict []) 10 60 None ''user'' [] [] [] None None ''q1'' 100 [] s = Inr (rep, t)"
    "reply_ok rep" using sample_reply by blast
  have k: "map_of items (enqueue_id ''q1'' []) = Some it" using s(2) by simp
  from reenqueue_resets [OF s(1) k e, of "''a''" "[]" 300]
  have r: "status_map t ''q1'' = Some Q_enqueued"
    "\<exists>rep' v. q_claim ''q1'' ''a'' [] 300 t = Inr (rep', v) \<and> reply_ok rep'" by simp_all
  have "status_map s ''q1'' = Some Q_canceled" using s by (simp add: status_map_def)
  with e(1) r show ?thesis by blast
qed

text \<open>
  An accepted enqueue leaves the item enqueued under its id and every other item as it was, with
  the priority asked for (50 when it is zero or less) and the challenge window, and \<open>select_next\<close> does
  not return the id before that window is over.
\<close>

theorem enqueue_waits:
  assumes "queue_items_of s = Inr items"
    and "q_enqueue E prep plan pr ch nb ac rs pp ag ra ap qid now u s = Inr (rep, t)" and "reply_ok rep"
  shows "\<exists>items' it. queue_items_of t = Inr items' \<and> map_of items' (enqueue_id qid u) = Some it
       \<and> fresh_item (enqueue_id qid u) pr ch now nb it
       \<and> (\<forall>k. k \<noteq> enqueue_id qid u \<longrightarrow> map_of items' k = map_of items k)
       \<and> (\<forall>E T clock it' v. T < qi_not_before_ts it \<longrightarrow>
            q_select_next E (Some T) None clock t = Inr (Sel_found it', v) \<longrightarrow> qi_queue_id it' \<noteq> enqueue_id qid u)"
proof -
  let ?k = "enqueue_id qid u"
  from enqueue_effect [OF assms(1,2)] assms(3) obtain it where
    t: "queue_items_of t = Inr (AList.update ?k it items)" and f: "fresh_item ?k pr ch now nb it" by auto
  let ?items = "AList.update ?k it items"
  have m: "map_of ?items ?k = Some it" by (simp add: update_conv')
  have "qi_queue_id it' \<noteq> ?k"
    if T: "T < qi_not_before_ts it" and sel: "q_select_next E (Some T) None clock t = Inr (Sel_found it', v)" for E T clock it' v
  proof
    assume k: "qi_queue_id it' = ?k"
    obtain st where st: "fold_state t = Inr st" "fs_items st = sorted_items ?items"
      using fold_state_items [OF t] by blast
    from select_next_found [OF st(1) sel] have "it' \<in> set (sorted_items ?items)" "qi_not_before_ts it' \<le> T"
      by (simp_all add: st(2))
    with sorted_items_set [OF queue_items_wf [OF t]] k m T show False by simp
  qed
  then show ?thesis using t m f by (intro exI [of _ ?items] exI [of _ it]) (auto simp: update_conv')
qed

theorem enqueue_waits_witness:
  "\<exists>t it. q_step sample_env sample_prep sample_enqueue [] = Inr t \<and> fresh_item ''q1'' 10 60 100 None it
     \<and> qi_not_before_ts it = 160 \<and> status_map t ''q1'' = Some Q_enqueued"
proof -
  obtain rep t where e: "q_enqueue sample_env sample_prep (PDict []) 10 60 None ''user'' [] [] [] None None ''q1'' 100 [] [] = Inr (rep, t)"
    "reply_ok rep" using sample_reply by blast
  have "queue_items_of [] = Inr []" by (simp add: queue_items_of_def)
  from enqueue_waits [OF this e] obtain items' it where "queue_items_of t = Inr items'"
    "map_of items' ''q1'' = Some it" "fresh_item ''q1'' 10 60 100 None it" by auto
  with e(1) show ?thesis by (auto simp: sample_enqueue_def status_map_def fresh_item_def)
qed

end
