(* ===== verification/CrdtLww.thy ===== *)
theory CrdtLww
  imports PyConv
begin

text \<open>
  \<open>crdt/types.py\<close> and \<open>crdt/lww_set.py\<close>: the replicated last-writer-wins set.  \<open>LwwEntry\<close> objects are
  mutable and \<open>merge\<close> shares them between two sets, so entries live in an explicit heap and a set
  maps ids to addresses.  Peers and ids are strings, as the annotations say: a message whose peer is
  something else is an error here.
\<close>

section \<open>Data\<close>

text \<open>A dot is ordered by its counter first and its peer second.\<close>

datatype dot = Dot (dot_peer: string) (dot_ts: int)

instantiation dot :: linorder
begin

definition less_eq_dot :: "dot \<Rightarrow> dot \<Rightarrow> bool" where
  "less_eq_dot a b = (dot_ts a < dot_ts b \<or> (dot_ts a = dot_ts b \<and> dot_peer a \<le> dot_peer b))"

definition less_dot :: "dot \<Rightarrow> dot \<Rightarrow> bool" where
  "less_dot a b = (dot_ts a < dot_ts b \<or> (dot_ts a = dot_ts b \<and> dot_peer a < dot_peer b))"

instance
  by standard (auto simp: less_eq_dot_def less_dot_def dot.expand)

end

record item =
  it_id :: string
  it_payload :: pyval

record lww_entry =
  le_item :: item
  le_add :: "dot option"
  le_rem :: "dot option"

definition dot_newer :: "dot \<Rightarrow> dot option \<Rightarrow> bool" where
  \<comment> \<open>\<open>e.add is None or d.ts > e.add.ts or (d.ts == e.add.ts and d.peer > e.add.peer)\<close>\<close>
  "dot_newer d old = (case old of
     None \<Rightarrow> True
   | Some o' \<Rightarrow> dot_ts o' < dot_ts d \<or> (dot_ts d = dot_ts o' \<and> dot_peer o' < dot_peer d))"

definition entry_visible :: "lww_entry \<Rightarrow> bool" where
  "entry_visible e = (case le_add e of
     None \<Rightarrow> False
   | Some a \<Rightarrow> (case le_rem e of
       None \<Rightarrow> True
     | Some r \<Rightarrow> if dot_ts r < dot_ts a then True
                 else if dot_ts a < dot_ts r then False
                 else dot_peer r < dot_peer a))"

record entry_heap =
  eh_mem :: "nat \<Rightarrow> lww_entry"
  eh_next :: nat

record lww_set =
  ls_peer :: string
  ls_clock :: int
  ls_entries :: "(string \<times> nat) list"

definition eh_alloc :: "lww_entry \<Rightarrow> entry_heap \<Rightarrow> nat \<times> entry_heap" where
  "eh_alloc e h = (eh_next h, h\<lparr>eh_mem := (eh_mem h)(eh_next h := e), eh_next := Suc (eh_next h)\<rparr>)"

definition eh_write :: "nat \<Rightarrow> lww_entry \<Rightarrow> entry_heap \<Rightarrow> entry_heap" where
  "eh_write a e h = h\<lparr>eh_mem := (eh_mem h)(a := e)\<rparr>"

definition new_entry :: "item \<Rightarrow> lww_entry" where
  "new_entry it = \<lparr>le_item = it, le_add = None, le_rem = None\<rparr>"

definition entry_or_new :: "lww_set \<Rightarrow> string \<Rightarrow> item \<Rightarrow> entry_heap \<Rightarrow> nat \<times> entry_heap" where
  \<comment> \<open>\<open>self.entries.get(id) or LwwEntry(item=item)\<close>\<close>
  "entry_or_new S i it h = (case map_of (ls_entries S) i of
     Some a \<Rightarrow> (a, h)
   | None \<Rightarrow> eh_alloc (new_entry it) h)"

section \<open>Operations\<close>

definition lww_add :: "lww_set \<Rightarrow> item \<Rightarrow> entry_heap \<Rightarrow> dot \<times> lww_set \<times> entry_heap" where
  "lww_add S it h =
     (let clock = ls_clock S + 1;
          d = Dot (ls_peer S) clock;
          (a, h1) = entry_or_new S (it_id it) it h;
          e = eh_mem h1 a;
          e' = e\<lparr>le_item := it, le_add := (if dot_newer d (le_add e) then Some d else le_add e)\<rparr>
      in (d, S\<lparr>ls_clock := clock, ls_entries := AList.update (it_id it) a (ls_entries S)\<rparr>, eh_write a e' h1))"

definition lww_remove :: "lww_set \<Rightarrow> string \<Rightarrow> entry_heap \<Rightarrow> dot \<times> lww_set \<times> entry_heap" where
  "lww_remove S i h =
     (let clock = ls_clock S + 1;
          d = Dot (ls_peer S) clock;
          (a, h1) = entry_or_new S i \<lparr>it_id = i, it_payload = PDict []\<rparr> h;
          e = eh_mem h1 a;
          e' = e\<lparr>le_rem := (if dot_newer d (le_rem e) then Some d else le_rem e)\<rparr>
      in (d, S\<lparr>ls_clock := clock, ls_entries := AList.update i a (ls_entries S)\<rparr>, eh_write a e' h1))"

definition dot_record :: "dot \<Rightarrow> pyval" where
  "dot_record d = PDict [(''peer'', PStr (dot_peer d)), (''ts'', PInt (dot_ts d))]"

definition parse_dot :: "pyval \<Rightarrow> py_error + dot" where
  \<comment> \<open>\<open>Dot(v["peer"], int(v["ts"]))\<close>\<close>
  "parse_dot v =
     bindE (as_dict v) (\<lambda>d.
     bindE (bindE (subscript d ''peer'') as_str) (\<lambda>p.
     bindE (bindE (subscript d ''ts'') int_of) (\<lambda>t. Inr (Dot p t))))"

definition entry_ops :: "string \<Rightarrow> int option \<Rightarrow> string \<Rightarrow> lww_entry \<Rightarrow> (string \<times> string \<times> pydict) list" where
  "entry_ops peer since i e =
     (case le_add e of
        Some d \<Rightarrow> if since = None \<or> (dot_peer d = peer \<and> the since < dot_ts d)
                  then [(''add'', i, [(''dot'', dot_record d), (''payload'', it_payload (le_item e))])] else []
      | None \<Rightarrow> [])
   @ (case le_rem e of
        Some d \<Rightarrow> if since = None \<or> (dot_peer d = peer \<and> the since < dot_ts d)
                  then [(''rem'', i, [(''dot'', dot_record d)])] else []
      | None \<Rightarrow> [])"

definition export_ops :: "lww_set \<Rightarrow> int option \<Rightarrow> entry_heap \<Rightarrow> (string \<times> string \<times> pydict) list" where
  "export_ops S since h = concat (map (\<lambda>(i, a). entry_ops (ls_peer S) since i (eh_mem h a)) (ls_entries S))"

definition import_op ::
  "lww_set \<Rightarrow> string \<Rightarrow> string \<Rightarrow> pydict \<Rightarrow> entry_heap \<Rightarrow> py_error + lww_set \<times> entry_heap" where
  "import_op S kind i data h =
     (let (a, h1) = entry_or_new S i \<lparr>it_id = i, it_payload = py_or (dict_get data ''payload'') (PDict [])\<rparr> h;
          e = eh_mem h1 a;
          S' = S\<lparr>ls_entries := AList.update i a (ls_entries S)\<rparr>
      in if kind = ''add'' then
           bindE (bindE (subscript data ''dot'') parse_dot) (\<lambda>d.
             let e1 = (if truthy (dict_get data ''payload'')
                       then e\<lparr>le_item := \<lparr>it_id = i, it_payload = dict_get data ''payload''\<rparr>\<rparr> else e);
                 e2 = (if dot_newer d (le_add e1) then e1\<lparr>le_add := Some d\<rparr> else e1)
             in Inr (S', eh_write a e2 h1))
         else if kind = ''rem'' then
           bindE (bindE (subscript data ''dot'') parse_dot) (\<lambda>d.
             let e1 = (if dot_newer d (le_rem e) then e\<lparr>le_rem := Some d\<rparr> else e)
             in Inr (S', eh_write a e1 h1))
         else Inl PyValueError)"

definition merge_entry :: "lww_entry \<Rightarrow> lww_entry \<Rightarrow> lww_entry" where
  "merge_entry e1 e2 =
     (let e = (case le_add e2 of
                 None \<Rightarrow> e1
               | Some d \<Rightarrow> if dot_newer d (le_add e1) then e1\<lparr>le_add := Some d, le_item := le_item e2\<rparr> else e1)
      in case le_rem e2 of
           None \<Rightarrow> e
         | Some d \<Rightarrow> if dot_newer d (le_rem e) then e\<lparr>le_rem := Some d\<rparr> else e)"

fun merge_entries ::
  "(string \<times> nat) list \<Rightarrow> (string \<times> nat) list \<Rightarrow> entry_heap \<Rightarrow> (string \<times> nat) list \<times> entry_heap" where
  \<comment> \<open>the loop of \<open>merge\<close> over the other set's entries; an id that is missing shares the other's object\<close>
  "merge_entries [] mine h = (mine, h)"
| "merge_entries ((i, a2) # rest) mine h = (case map_of mine i of
     None \<Rightarrow> merge_entries rest (AList.update i a2 mine) h
   | Some a1 \<Rightarrow> merge_entries rest (AList.update i a1 mine)
                  (eh_write a1 (merge_entry (eh_mem h a1) (eh_mem h a2)) h))"

definition lww_merge :: "lww_set \<Rightarrow> lww_set \<Rightarrow> entry_heap \<Rightarrow> lww_set \<times> entry_heap" where
  "lww_merge S T h =
     (let (mine, h') = merge_entries (ls_entries T) (ls_entries S) h
      in (S\<lparr>ls_entries := mine, ls_clock := max (ls_clock S) (ls_clock T)\<rparr>, h'))"

definition visible_items :: "lww_set \<Rightarrow> entry_heap \<Rightarrow> (string \<times> item) list" where
  "visible_items S h =
     map (\<lambda>(i, a). (i, le_item (eh_mem h a))) (filter (\<lambda>(i, a). entry_visible (eh_mem h a)) (ls_entries S))"

definition opt_dot :: "dot option \<Rightarrow> pyval" where
  "opt_dot x = (case x of None \<Rightarrow> PNone | Some d \<Rightarrow> dot_record d)"

definition entry_snapshot :: "lww_entry \<Rightarrow> pyval" where
  "entry_snapshot e = PDict
     [(''item'', PDict [(''id'', PStr (it_id (le_item e))), (''payload'', it_payload (le_item e))]),
      (''add'', opt_dot (le_add e)), (''rem'', opt_dot (le_rem e))]"

definition snapshot :: "lww_set \<Rightarrow> entry_heap \<Rightarrow> pydict" where
  "snapshot S h = [(''peer'', PStr (ls_peer S)), (''clock'', PInt (ls_clock S)),
     (''entries'', PDict (map (\<lambda>(i, a). (i, entry_snapshot (eh_mem h a))) (ls_entries S)))]"

definition parse_opt_dot :: "pydict \<Rightarrow> string \<Rightarrow> py_error + dot option" where
  \<comment> \<open>\<open>Dot(...) if ed.get(k) else None\<close>\<close>
  "parse_opt_dot d k = (if truthy (dict_get d k)
     then bindE (parse_dot (dict_get d k)) (\<lambda>x. Inr (Some x)) else Inr None)"

definition parse_entry :: "pyval \<Rightarrow> py_error + lww_entry" where
  "parse_entry v =
     bindE (as_dict v) (\<lambda>ed.
     bindE (bindE (subscript ed ''item'') as_dict) (\<lambda>it.
     bindE (bindE (subscript it ''id'') as_str) (\<lambda>i.
     bindE (parse_opt_dot ed ''add'') (\<lambda>ad.
     bindE (parse_opt_dot ed ''rem'') (\<lambda>rm.
     Inr \<lparr>le_item = \<lparr>it_id = i, it_payload = py_or (dict_get it ''payload'') (PDict [])\<rparr>,
          le_add = ad, le_rem = rm\<rparr>)))))"

fun load_entries ::
  "pydict \<Rightarrow> (string \<times> nat) list \<Rightarrow> entry_heap \<Rightarrow> py_error + (string \<times> nat) list \<times> entry_heap" where
  "load_entries [] acc h = Inr (acc, h)"
| "load_entries ((i, v) # rest) acc h =
     bindE (parse_entry v) (\<lambda>e. let (a, h1) = eh_alloc e h in load_entries rest (AList.update i a acc) h1)"

definition from_snapshot :: "pydict \<Rightarrow> entry_heap \<Rightarrow> py_error + lww_set \<times> entry_heap" where
  "from_snapshot data h =
     bindE (as_str (py_or (dict_get data ''peer'') (PStr ''unknown''))) (\<lambda>peer.
     bindE (get_int data ''clock'' 0) (\<lambda>clock.
     bindE (as_dict (py_or (dict_get data ''entries'') (PDict []))) (\<lambda>entries.
     bindE (load_entries entries [] h) (\<lambda>(acc, h').
     Inr (\<lparr>ls_peer = peer, ls_clock = clock, ls_entries = acc\<rparr>, h')))))"

section \<open>What a set shows\<close>

definition lww_view :: "lww_set \<Rightarrow> entry_heap \<Rightarrow> string \<Rightarrow> lww_entry option" where
  "lww_view S h i = map_option (eh_mem h) (map_of (ls_entries S) i)"

definition lww_wf :: "lww_set \<Rightarrow> entry_heap \<Rightarrow> bool" where
  \<comment> \<open>one object per id, all allocated\<close>
  "lww_wf S h = (distinct (map fst (ls_entries S)) \<and> distinct (map snd (ls_entries S))
     \<and> (\<forall>a \<in> snd ` set (ls_entries S). a < eh_next h))"

definition separated :: "lww_set \<Rightarrow> lww_set \<Rightarrow> bool" where
  "separated S T = (snd ` set (ls_entries S) \<inter> snd ` set (ls_entries T) = {})"

definition join_view ::
  "(string \<Rightarrow> lww_entry option) \<Rightarrow> (string \<Rightarrow> lww_entry option) \<Rightarrow> string \<Rightarrow> lww_entry option" where
  "join_view v w i = (case (v i, w i) of
     (None, y) \<Rightarrow> y | (x, None) \<Rightarrow> x | (Some e1, Some e2) \<Rightarrow> Some (merge_entry e1 e2))"

text \<open>Two sets of entries agree on what an add with a given dot carried.\<close>

definition coherent :: "lww_entry \<Rightarrow> lww_entry \<Rightarrow> bool" where
  "coherent e1 e2 = ((le_add e1 = le_add e2 \<longrightarrow> le_item e1 = le_item e2))"

lemma dot_newer_simps [simp]:
  "dot_newer d None" "dot_newer d (Some d') \<longleftrightarrow> d' < d"
  by (auto simp: dot_newer_def less_dot_def)

lemma entry_visible_iff:
  "entry_visible e \<longleftrightarrow> (\<exists>a. le_add e = Some a \<and> (\<forall>r. le_rem e = Some r \<longrightarrow> r < a))"
  by (auto simp: entry_visible_def less_dot_def split: option.splits)

definition dot_max :: "dot option \<Rightarrow> dot option \<Rightarrow> dot option" where
  "dot_max x y = (case (x, y) of (None, _) \<Rightarrow> y | (_, None) \<Rightarrow> x | (Some a, Some b) \<Rightarrow> Some (max a b))"

lemma dot_max_idem [simp]: "dot_max x x = x"
  by (auto simp: dot_max_def split: option.splits)

lemma dot_max_comm: "dot_max x y = dot_max y x"
  by (cases x; cases y) (simp_all add: dot_max_def max.commute)

lemma dot_max_assoc: "dot_max (dot_max x y) z = dot_max x (dot_max y z)"
  by (cases x; cases y; cases z) (simp_all add: dot_max_def max.assoc)

lemma merge_entry_fields:
  "le_add (merge_entry e1 e2) = dot_max (le_add e1) (le_add e2)"
  "le_rem (merge_entry e1 e2) = dot_max (le_rem e1) (le_rem e2)"
  "le_item (merge_entry e1 e2) =
     (case le_add e2 of None \<Rightarrow> le_item e1
      | Some d \<Rightarrow> if dot_newer d (le_add e1) then le_item e2 else le_item e1)"
proof -
  show "le_add (merge_entry e1 e2) = dot_max (le_add e1) (le_add e2)"
    by (cases "le_add e1"; cases "le_add e2"; cases "le_rem e2") (auto simp: merge_entry_def Let_def dot_max_def max_def)
  show "le_rem (merge_entry e1 e2) = dot_max (le_rem e1) (le_rem e2)"
    by (cases "le_rem e1"; cases "le_add e2"; cases "le_rem e2") (auto simp: merge_entry_def Let_def dot_max_def max_def)
  show "le_item (merge_entry e1 e2) =
     (case le_add e2 of None \<Rightarrow> le_item e1
      | Some d \<Rightarrow> if dot_newer d (le_add e1) then le_item e2 else le_item e1)"
    by (cases "le_add e2"; cases "le_rem e2") (auto simp: merge_entry_def Let_def)
qed

lemma lww_entry_eqI:
  "le_item e = le_item f \<Longrightarrow> le_add e = le_add f \<Longrightarrow> le_rem e = le_rem f \<Longrightarrow> e = (f :: lww_entry)"
  by (cases e; cases f) simp

lemma merge_entry_idem: "merge_entry e e = e"
  by (rule lww_entry_eqI) (auto simp: merge_entry_fields split: option.splits)

lemma merge_entry_comm:
  assumes "coherent e1 e2"
  shows "merge_entry e1 e2 = merge_entry e2 e1"
proof (rule lww_entry_eqI)
  show "le_item (merge_entry e1 e2) = le_item (merge_entry e2 e1)"
    using assms
    by (cases "le_add e1"; cases "le_add e2") (auto simp: merge_entry_fields coherent_def)
qed (simp_all add: merge_entry_fields dot_max_comm)

lemma merge_entry_assoc:
  "merge_entry (merge_entry e1 e2) e3 = merge_entry e1 (merge_entry e2 e3)"
proof (rule lww_entry_eqI)
  show "le_item (merge_entry (merge_entry e1 e2) e3) = le_item (merge_entry e1 (merge_entry e2 e3))"
    by (cases "le_add e1"; cases "le_add e2"; cases "le_add e3")
      (auto simp: merge_entry_fields dot_max_def max_def)
qed (simp_all add: merge_entry_fields dot_max_assoc)

text \<open>An entry of the merge is visible iff the newest add beats the newest remove.\<close>

lemma merge_visible:
  "entry_visible (merge_entry e1 e2) \<longleftrightarrow>
     (\<exists>a. dot_max (le_add e1) (le_add e2) = Some a
        \<and> (\<forall>r. dot_max (le_rem e1) (le_rem e2) = Some r \<longrightarrow> r < a))"
  by (simp add: entry_visible_iff merge_entry_fields)

section \<open>Merging two sets\<close>

lemma view_update:
  "distinct (map fst xs) \<Longrightarrow> distinct (map snd xs) \<Longrightarrow> map_of xs i = Some a \<Longrightarrow>
   (\<lambda>j. map_option ((eh_mem h)(a := e)) (map_of xs j)) = (\<lambda>j. map_option (eh_mem h) (map_of xs j))(i \<mapsto> e)"
proof
  fix j
  assume d: "distinct (map fst xs)" "distinct (map snd xs)" "map_of xs i = Some a"
  show "map_option ((eh_mem h)(a := e)) (map_of xs j) = ((\<lambda>j. map_option (eh_mem h) (map_of xs j))(i \<mapsto> e)) j"
  proof (cases "j = i")
    case False
    have "b \<noteq> a" if "map_of xs j = Some b" for b
    proof
      assume "b = a"
      with that d(3) have "(j, a) \<in> set xs" "(i, a) \<in> set xs" by (simp_all add: map_of_SomeD)
      with d(2) False show False by (metis distinct_map inj_onD snd_conv prod.inject)
    qed
    with False show ?thesis by (cases "map_of xs j") auto
  qed (use d in simp)
qed

lemma update_new: "map_of xs i = None \<Longrightarrow> AList.update i a xs = xs @ [(i, a)]"
  by (induction xs) (auto split: if_splits)

lemma merge_entries_view:
  assumes "distinct (map fst ys)" "distinct (map fst xs)" "distinct (map snd (xs @ ys))"
    and "merge_entries ys xs h = (zs, h')"
  shows "(\<lambda>i. map_option (eh_mem h') (map_of zs i))
           = join_view (\<lambda>i. map_option (eh_mem h) (map_of xs i)) (\<lambda>i. map_option (eh_mem h) (map_of ys i))"
    and "distinct (map fst zs) \<and> distinct (map snd zs) \<and> set (map snd zs) \<subseteq> set (map snd (xs @ ys))
       \<and> eh_next h' = eh_next h \<and> (\<forall>b. b \<notin> set (map snd (xs @ ys)) \<longrightarrow> eh_mem h' b = eh_mem h b)"
  using assms
proof (induction ys xs h arbitrary: zs h' rule: merge_entries.induct)
  case (1 mine h)
  case 1
  then show ?case by (auto simp: join_view_def fun_eq_iff split: option.splits)
next
  case (1 mine h)
  case 2
  then show ?case by auto
next
  case (2 i a2 rest mine h)
  let ?v = "\<lambda>h xs i. map_option (eh_mem h) (map_of xs i)"
  {
    case 1
    then have rest_i: "map_of rest i = None" by (simp add: map_of_eq_None_iff)
    show ?case
    proof (cases "map_of mine i")
      case None
      have m: "merge_entries rest (mine @ [(i, a2)]) h = (zs, h')" using 1 None by (simp add: update_new)
      have "?v h' zs = join_view (?v h (mine @ [(i, a2)])) (?v h rest)"
        using "2.IH"(1) [OF None] 1 None m by (simp add: update_new map_of_eq_None_iff)
      also have "\<dots> = join_view (?v h mine) (?v h ((i, a2) # rest))"
        using None rest_i by (auto simp: join_view_def fun_eq_iff map_add_def split: option.splits)
      finally show ?thesis .
    next
      case (Some a1)
      let ?h = "eh_write a1 (merge_entry (eh_mem h a1) (eh_mem h a2)) h"
      have m: "merge_entries rest mine ?h = (zs, h')" using 1 Some by (simp add: update_triv)
      have a1: "a1 \<in> set (map snd mine)" using Some by (force dest: map_of_SomeD)
      have vm: "?v ?h mine = (?v h mine)(i \<mapsto> merge_entry (eh_mem h a1) (eh_mem h a2))"
        using view_update [of mine i a1 h] 1 Some by (simp add: eh_write_def)
      have "a1 \<notin> set (map snd rest)" using 1 a1 by auto
      then have vr: "?v ?h rest = ?v h rest"
        by (auto simp: eh_write_def fun_eq_iff dest: map_of_SomeD intro!: option.map_cong) (force dest: map_of_SomeD)
      have "?v h' zs = join_view (?v ?h mine) (?v ?h rest)"
        using "2.IH"(3) [OF Some] 1 Some m by (simp add: update_triv)
      also have "\<dots> = join_view (?v h mine) (?v h ((i, a2) # rest))"
        unfolding vm vr using Some rest_i by (auto simp: join_view_def fun_eq_iff split: option.splits)
      finally show ?thesis .
    qed
  next
    case 2
    show ?case
    proof (cases "map_of mine i")
      case None
      have "merge_entries rest (mine @ [(i, a2)]) h = (zs, h')" using 2 None by (simp add: update_new)
      then show ?thesis using "2.IH"(2) [OF None] 2 None by (auto simp: update_new map_of_eq_None_iff)
    next
      case (Some a1)
      define k where "k = eh_write a1 (merge_entry (eh_mem h a1) (eh_mem h a2)) h"
      have m: "merge_entries rest mine k = (zs, h')" using 2 Some by (simp add: update_triv k_def)
      have d: "distinct (map fst rest)" "distinct (map fst mine)" "distinct (map snd (mine @ rest))"
        using 2 by auto
      have "distinct (map fst zs) \<and> distinct (map snd zs) \<and> set (map snd zs) \<subseteq> set (map snd (mine @ rest))
          \<and> eh_next h' = eh_next k \<and> (\<forall>b. b \<notin> set (map snd (mine @ rest)) \<longrightarrow> eh_mem h' b = eh_mem k b)"
        by (rule "2.IH"(4) [OF Some, unfolded update_triv [OF Some], folded k_def, OF d m])
      moreover have "eh_next k = eh_next h" by (simp add: eh_write_def k_def)
      moreover have "eh_mem k b = eh_mem h b" if "b \<notin> set (map snd mine)" for b
        using that Some by (force simp: eh_write_def k_def dest: map_of_SomeD)
      ultimately show ?thesis by auto
    qed
  }
qed

lemma lww_view_fun: "lww_view S h = (\<lambda>i. map_option (eh_mem h) (map_of (ls_entries S) i))"
  by (simp add: lww_view_def fun_eq_iff)

lemma lww_merge_view:
  assumes "lww_wf S h" "lww_wf T h" "separated S T" "lww_merge S T h = (S', h')"
  shows "lww_view S' h' = join_view (lww_view S h) (lww_view T h)"
    and "lww_wf S' h'" and "snd ` set (ls_entries S') \<subseteq> snd ` set (ls_entries S) \<union> snd ` set (ls_entries T)"
    and "eh_next h' = eh_next h"
    and "b \<notin> snd ` set (ls_entries S) \<union> snd ` set (ls_entries T) \<Longrightarrow> eh_mem h' b = eh_mem h b"
    and "ls_clock S' = max (ls_clock S) (ls_clock T)" "ls_peer S' = ls_peer S"
proof -
  obtain zs where m: "merge_entries (ls_entries T) (ls_entries S) h = (zs, h')"
    and S': "S' = S\<lparr>ls_entries := zs, ls_clock := max (ls_clock S) (ls_clock T)\<rparr>"
    using assms(4) by (auto simp: lww_merge_def split: prod.splits)
  have d: "distinct (map fst (ls_entries T))" "distinct (map fst (ls_entries S))"
    "distinct (map snd (ls_entries S @ ls_entries T))"
    using assms(1-3) by (auto simp: lww_wf_def separated_def)
  note M = merge_entries_view [OF d m]
  show "lww_view S' h' = join_view (lww_view S h) (lww_view T h)"
    unfolding lww_view_fun using M(1) by (simp add: S')
  show sub: "snd ` set (ls_entries S') \<subseteq> snd ` set (ls_entries S) \<union> snd ` set (ls_entries T)"
    using M(2) by (simp add: S' image_Un)
  show "eh_next h' = eh_next h" using M(2) by simp
  show "b \<notin> snd ` set (ls_entries S) \<union> snd ` set (ls_entries T) \<Longrightarrow> eh_mem h' b = eh_mem h b"
    using M(2) by simp
  show "lww_wf S' h'" using M(2) sub assms(1,2) by (fastforce simp: lww_wf_def S')
  show "ls_clock S' = max (ls_clock S) (ls_clock T)" "ls_peer S' = ls_peer S" by (simp_all add: S')
qed

section \<open>Merging in any order\<close>

text \<open>
  What a state-based replica needs of its merge: it is associative, idempotent, and commutative on
  states that agree.  Then the result of merging a collection of states does not depend on their
  order or on repetitions.
\<close>

locale replica_merge =
  fixes join :: "'v \<Rightarrow> 'v \<Rightarrow> 'v"
    and coh :: "'v \<Rightarrow> 'v \<Rightarrow> bool"
  assumes assoc: "join (join x y) z = join x (join y z)"
    and idem: "join x x = x"
    and comm: "coh x y \<Longrightarrow> join x y = join y x"
begin

definition collect :: "'v list \<Rightarrow> 'v \<Rightarrow> 'v" where
  "collect vs x = fold (\<lambda>v acc. join acc v) vs x"

lemma collect_simps [simp]:
  "collect [] x = x" "collect (v # vs) x = collect vs (join x v)"
  by (simp_all add: collect_def)

lemma collect_join:
  "\<forall>v \<in> set vs. coh y v \<Longrightarrow> collect vs (join x y) = join (collect vs x) y"
proof (induction vs arbitrary: x)
  case (Cons v vs)
  have "join (join x y) v = join (join x v) y"
    using Cons.prems comm [of y v] assoc by simp
  with Cons show ?case by simp
qed simp

lemma collect_absorb:
  assumes "\<forall>v \<in> set vs. \<forall>w \<in> set vs. coh v w" and "y \<in> set vs"
  shows "join (collect vs x) y = collect vs x"
  using assms
proof (induction vs arbitrary: x)
  case (Cons v vs)
  show ?case
  proof (cases "y \<in> set vs")
    case True
    with Cons show ?thesis by simp
  next
    case False
    with Cons.prems have y: "y = v" by simp
    have "join (collect vs (join x v)) v = collect vs (join (join x v) v)"
      using Cons.prems by (subst collect_join) auto
    also have "join (join x v) v = join x v" using assoc idem by simp
    finally show ?thesis by (simp add: y)
  qed
qed simp

lemma collect_subset:
  "\<forall>v \<in> set vs. \<forall>w \<in> set vs. coh v w \<Longrightarrow> set ws \<subseteq> set vs \<Longrightarrow> collect ws (collect vs x) = collect vs x"
  by (induction ws) (auto simp: collect_absorb)

lemma collect_swap:
  "\<forall>v \<in> set vs. \<forall>w \<in> set ws. coh w v \<Longrightarrow> collect vs (collect ws x) = collect ws (collect vs x)"
  by (induction ws arbitrary: x) (auto simp: collect_join)

lemma collect_set:
  assumes "\<forall>v \<in> set vs. \<forall>w \<in> set vs. coh v w" and "set vs = set ws"
  shows "collect vs x = collect ws x"
proof -
  have "collect vs x = collect ws (collect vs x)" using assms by (simp add: collect_subset)
  also have "\<dots> = collect vs (collect ws x)" using assms by (simp add: collect_swap)
  also have "\<dots> = collect ws x" using assms collect_subset [of ws vs] by simp
  finally show ?thesis .
qed

end

definition coherent_views :: "(string \<Rightarrow> lww_entry option) \<Rightarrow> (string \<Rightarrow> lww_entry option) \<Rightarrow> bool" where
  "coherent_views v w = (\<forall>i e1 e2. v i = Some e1 \<longrightarrow> w i = Some e2 \<longrightarrow> coherent e1 e2)"

interpretation lww_replicas: replica_merge join_view coherent_views
proof unfold_locales
  show "join_view (join_view x y) z = join_view x (join_view y z)" for x y z
    by (auto simp: join_view_def fun_eq_iff merge_entry_assoc split: option.splits)
  show "join_view x x = x" for x
    by (auto simp: join_view_def fun_eq_iff merge_entry_idem split: option.splits)
  show "join_view x y = join_view y x" if "coherent_views x y" for x y
  proof
    fix i
    show "join_view x y i = join_view y x i"
    proof (cases "\<exists>e1 e2. x i = Some e1 \<and> y i = Some e2")
      case True
      then obtain e1 e2 where e: "x i = Some e1" "y i = Some e2" by blast
      with that have "merge_entry e1 e2 = merge_entry e2 e1"
        using merge_entry_comm unfolding coherent_views_def by blast
      with e show ?thesis by (simp add: join_view_def)
    next
      case False
      then show ?thesis by (cases "x i"; cases "y i") (simp_all add: join_view_def)
    qed
  qed
qed

fun merge_all :: "lww_set \<Rightarrow> lww_set list \<Rightarrow> entry_heap \<Rightarrow> lww_set \<times> entry_heap" where
  \<comment> \<open>one set merges others in turn\<close>
  "merge_all S [] h = (S, h)"
| "merge_all S (T # Ts) h = (let (S', h') = lww_merge S T h in merge_all S' Ts h')"

fun all_separated :: "lww_set list \<Rightarrow> bool" where
  "all_separated [] = True"
| "all_separated (S # Ss) = ((\<forall>T \<in> set Ss. separated S T) \<and> all_separated Ss)"

lemma view_frame:
  assumes "lww_wf T h" "\<And>b. b \<in> snd ` set (ls_entries T) \<Longrightarrow> eh_mem h' b = eh_mem h b" "eh_next h' = eh_next h"
  shows "lww_view T h' = lww_view T h" and "lww_wf T h'"
proof -
  show "lww_view T h' = lww_view T h"
  proof
    fix i
    show "lww_view T h' i = lww_view T h i"
    proof (cases "map_of (ls_entries T) i")
      case (Some a)
      then have "a \<in> snd ` set (ls_entries T)" by (force dest: map_of_SomeD)
      with assms(2) Some show ?thesis by (simp add: lww_view_def)
    qed (simp add: lww_view_def)
  qed
  show "lww_wf T h'" using assms(1,3) by (simp add: lww_wf_def)
qed

lemma merge_all_view:
  assumes "lww_wf S h" "\<forall>T \<in> set Ts. lww_wf T h" "all_separated (S # Ts)" "merge_all S Ts h = (S', h')"
  shows "lww_view S' h' = lww_replicas.collect (map (\<lambda>T. lww_view T h) Ts) (lww_view S h)"
  using assms
proof (induction Ts arbitrary: S h)
  case Nil
  then show ?case by simp
next
  case (Cons T Ts)
  obtain S1 h1 where m: "lww_merge S T h = (S1, h1)" by force
  have wf: "lww_wf S h" "lww_wf T h" "separated S T" using Cons.prems by auto
  note M = lww_merge_view [OF wf m]
  have frame: "lww_view U h1 = lww_view U h \<and> lww_wf U h1" if U: "U \<in> set Ts" for U
  proof -
    have "separated S U" "separated T U" "lww_wf U h" using Cons.prems U by auto
    then have "b \<in> snd ` set (ls_entries U) \<Longrightarrow> b \<notin> snd ` set (ls_entries S) \<union> snd ` set (ls_entries T)" for b
      unfolding separated_def by blast
    then have "b \<in> snd ` set (ls_entries U) \<Longrightarrow> eh_mem h1 b = eh_mem h b" for b
      using M(5) by blast
    with view_frame [OF \<open>lww_wf U h\<close> _ M(4)] show ?thesis by blast
  qed
  have "separated S1 U" if "U \<in> set Ts" for U
  proof -
    have "separated S U" "separated T U" using Cons.prems(3) that by auto
    with M(3) show ?thesis unfolding separated_def by blast
  qed
  then have "all_separated (S1 # Ts)" using Cons.prems(3) by simp
  with Cons.IH [OF M(2)] frame Cons.prems(4) m
  have "lww_view S' h' = lww_replicas.collect (map (\<lambda>T. lww_view T h1) Ts) (lww_view S1 h1)" by simp
  also have "map (\<lambda>T. lww_view T h1) Ts = map (\<lambda>T. lww_view T h) Ts" using frame by simp
  finally show ?case by (simp add: M(1))
qed

section \<open>Local operations\<close>

lemma write_entry_view:
  assumes "lww_wf S h" and "entry_or_new S i it h = (a, h1)"
    and "S' = S\<lparr>ls_entries := AList.update i a (ls_entries S), ls_clock := c\<rparr>"
  shows "lww_view S' (eh_write a e h1) = (lww_view S h)(i \<mapsto> e)" and "lww_wf S' (eh_write a e h1)"
    and "eh_mem h1 a = (case lww_view S h i of Some e' \<Rightarrow> e' | None \<Rightarrow> new_entry it)"
proof -
  have d: "distinct (map fst (ls_entries S))" "distinct (map snd (ls_entries S))"
    and below: "\<forall>a \<in> snd ` set (ls_entries S). a < eh_next h"
    using assms(1) by (simp_all add: lww_wf_def)
  show "eh_mem h1 a = (case lww_view S h i of Some e' \<Rightarrow> e' | None \<Rightarrow> new_entry it)"
    using assms(2) by (auto simp: entry_or_new_def eh_alloc_def lww_view_def split: option.splits)
  show "lww_view S' (eh_write a e h1) = (lww_view S h)(i \<mapsto> e)"
  proof (cases "map_of (ls_entries S) i")
    case (Some b)
    with assms(2,3) have "a = b" "h1 = h" "ls_entries S' = ls_entries S"
      by (simp_all add: entry_or_new_def update_triv)
    with view_update [OF d Some, of h e] show ?thesis by (simp add: lww_view_fun eh_write_def)
  next
    case None
    with assms(2) have a: "a = eh_next h" and h1: "eh_mem h1 = (eh_mem h)(a := new_entry it)"
      by (auto simp: entry_or_new_def eh_alloc_def)
    have "b \<noteq> a" if "map_of (ls_entries S) j = Some b" for j b
      using below that a by (force dest: map_of_SomeD)
    then show ?thesis
      by (auto simp: lww_view_fun assms(3) update_conv' eh_write_def h1 fun_eq_iff map_option_case
            split: option.splits)
  qed
  show "lww_wf S' (eh_write a e h1)"
  proof (cases "map_of (ls_entries S) i")
    case (Some b)
    with assms show ?thesis by (simp add: entry_or_new_def update_triv lww_wf_def eh_write_def)
  next
    case None
    then have "i \<notin> fst ` set (ls_entries S)" by (simp add: map_of_eq_None_iff)
    with None assms(2,3) d below show ?thesis
      by (auto simp: entry_or_new_def eh_alloc_def update_new lww_wf_def eh_write_def)
  qed
qed

definition clock_bound :: "lww_set \<Rightarrow> entry_heap \<Rightarrow> bool" where
  \<comment> \<open>no dot of the set is ahead of its clock\<close>
  "clock_bound S h = (\<forall>i e d. lww_view S h i = Some e \<longrightarrow> (le_add e = Some d \<or> le_rem e = Some d) \<longrightarrow>
     dot_ts d \<le> ls_clock S)"

definition view_entry :: "lww_set \<Rightarrow> entry_heap \<Rightarrow> string \<Rightarrow> item \<Rightarrow> lww_entry" where
  "view_entry S h i it = (case lww_view S h i of Some e \<Rightarrow> e | None \<Rightarrow> new_entry it)"

lemma lww_add_view:
  assumes "lww_wf S h" "lww_add S it h = (d, S', h')"
  shows "lww_wf S' h' \<and> ls_clock S' = ls_clock S + 1 \<and> d = Dot (ls_peer S) (ls_clock S + 1)
     \<and> lww_view S' h' = (lww_view S h)(it_id it \<mapsto>
         (view_entry S h (it_id it) it)\<lparr>le_item := it,
           le_add := (if dot_newer d (le_add (view_entry S h (it_id it) it)) then Some d
                      else le_add (view_entry S h (it_id it) it))\<rparr>)"
proof -
  obtain a h1 where a: "entry_or_new S (it_id it) it h = (a, h1)" by force
  have S': "S' = S\<lparr>ls_entries := AList.update (it_id it) a (ls_entries S), ls_clock := ls_clock S + 1\<rparr>"
    using assms(2) a by (auto simp: lww_add_def Let_def)
  note W = write_entry_view [OF assms(1) a S']
  from S' assms(2) a W show ?thesis by (auto simp: lww_add_def Let_def view_entry_def)
qed

lemma lww_remove_view:
  assumes "lww_wf S h" "lww_remove S i h = (d, S', h')"
  defines "e \<equiv> view_entry S h i \<lparr>it_id = i, it_payload = PDict []\<rparr>"
  shows "lww_wf S' h' \<and> ls_clock S' = ls_clock S + 1 \<and> d = Dot (ls_peer S) (ls_clock S + 1)
     \<and> lww_view S' h' = (lww_view S h)(i \<mapsto> e\<lparr>le_rem := (if dot_newer d (le_rem e) then Some d else le_rem e)\<rparr>)"
proof -
  obtain a h1 where a: "entry_or_new S i \<lparr>it_id = i, it_payload = PDict []\<rparr> h = (a, h1)" by force
  have S': "S' = S\<lparr>ls_entries := AList.update i a (ls_entries S), ls_clock := ls_clock S + 1\<rparr>"
    using assms(2) a by (auto simp: lww_remove_def Let_def)
  note W = write_entry_view [OF assms(1) a S']
  from S' assms(2) a W show ?thesis by (auto simp: lww_remove_def Let_def view_entry_def e_def)
qed

text \<open>With the clock ahead of every dot, the last local operation wins.\<close>

lemma clock_newer:
  "x = None \<or> (\<exists>d. x = Some d \<and> dot_ts d \<le> c) \<Longrightarrow> dot_newer (Dot p (c + 1)) x"
  by (auto simp: less_dot_def)

lemma bound_entry:
  assumes "clock_bound S h"
  shows "dot_newer (Dot p (ls_clock S + 1)) (le_add (view_entry S h i it))"
    and "dot_newer (Dot p (ls_clock S + 1)) (le_rem (view_entry S h i it))"
proof -
  have "le_add (view_entry S h i it) = Some d \<or> le_rem (view_entry S h i it) = Some d \<Longrightarrow> dot_ts d \<le> ls_clock S" for d
    using assms by (auto simp: view_entry_def clock_bound_def new_entry_def split: option.splits)
  then show "dot_newer (Dot p (ls_clock S + 1)) (le_add (view_entry S h i it))"
    "dot_newer (Dot p (ls_clock S + 1)) (le_rem (view_entry S h i it))"
    using clock_newer by (metis not_None_eq)+
qed

lemma add_then_visible:
  assumes "lww_wf S h" "clock_bound S h" "lww_add S it h = (d, S', h')"
  shows "\<exists>e. lww_view S' h' (it_id it) = Some e \<and> entry_visible e \<and> le_item e = it"
    and "clock_bound S' h'" and "lww_wf S' h'"
    and "j \<noteq> it_id it \<Longrightarrow> lww_view S' h' j = lww_view S h j"
proof -
  note V = lww_add_view [OF assms(1,3)] and B = bound_entry [OF assms(2)]
  let ?e = "view_entry S h (it_id it) it"
  have v: "lww_view S' h' = (lww_view S h)(it_id it \<mapsto> ?e\<lparr>le_item := it, le_add := Some d\<rparr>)"
    using V B(1) by auto
  have "r < d" if "le_rem ?e = Some r" for r
    using B(2) [of "ls_peer S" "it_id it" it] that V by (simp add: less_dot_def)
  then show "\<exists>e. lww_view S' h' (it_id it) = Some e \<and> entry_visible e \<and> le_item e = it"
    by (auto simp: v entry_visible_iff)
  have old: "le_rem ?e = Some r \<Longrightarrow> dot_ts r \<le> ls_clock S" for r
    using assms(2) by (auto simp: view_entry_def clock_bound_def new_entry_def split: option.splits)
  show "clock_bound S' h'"
    unfolding clock_bound_def
  proof (intro allI impI)
    fix i e r
    assume i: "lww_view S' h' i = Some e" and r: "le_add e = Some r \<or> le_rem e = Some r"
    show "dot_ts r \<le> ls_clock S'"
    proof (cases "i = it_id it")
      case True
      with i v have "e = ?e\<lparr>le_item := it, le_add := Some d\<rparr>" by simp
      with r V old show ?thesis by fastforce
    next
      case False
      with i v have "lww_view S h i = Some e" by simp
      with assms(2) r have "dot_ts r \<le> ls_clock S" unfolding clock_bound_def by blast
      with V show ?thesis by simp
    qed
  qed
  show "lww_wf S' h'" using V by simp
  show "j \<noteq> it_id it \<Longrightarrow> lww_view S' h' j = lww_view S h j" by (simp add: v)
qed

lemma remove_then_hidden:
  assumes "lww_wf S h" "clock_bound S h" "lww_remove S i h = (d, S', h')"
  shows "\<exists>e. lww_view S' h' i = Some e \<and> \<not> entry_visible e"
    and "clock_bound S' h'" and "lww_wf S' h'"
    and "j \<noteq> i \<Longrightarrow> lww_view S' h' j = lww_view S h j"
proof -
  let ?e = "view_entry S h i \<lparr>it_id = i, it_payload = PDict []\<rparr>"
  note V = lww_remove_view [OF assms(1,3)] and B = bound_entry [OF assms(2)]
  have v: "lww_view S' h' = (lww_view S h)(i \<mapsto> ?e\<lparr>le_rem := Some d\<rparr>)"
    using V B(2) by auto
  have old: "le_add ?e = Some r \<Longrightarrow> dot_ts r \<le> ls_clock S" for r
    using assms(2) by (auto simp: view_entry_def clock_bound_def new_entry_def split: option.splits)
  then have "\<not> d < a" if "le_add ?e = Some a" for a
    using that V by (fastforce simp: less_dot_def)
  then show "\<exists>e. lww_view S' h' i = Some e \<and> \<not> entry_visible e"
    by (auto simp: v entry_visible_iff)
  show "clock_bound S' h'"
    unfolding clock_bound_def
  proof (intro allI impI)
    fix j e r
    assume j: "lww_view S' h' j = Some e" and r: "le_add e = Some r \<or> le_rem e = Some r"
    show "dot_ts r \<le> ls_clock S'"
    proof (cases "j = i")
      case True
      with j v have "e = ?e\<lparr>le_rem := Some d\<rparr>" by simp
      with r V old show ?thesis by fastforce
    next
      case False
      with j v have "lww_view S h j = Some e" by simp
      with assms(2) r have "dot_ts r \<le> ls_clock S" unfolding clock_bound_def by blast
      with V show ?thesis by simp
    qed
  qed
  show "lww_wf S' h'" using V by simp
  show "j \<noteq> i \<Longrightarrow> lww_view S' h' j = lww_view S h j" by (simp add: v)
qed

lemma merge_clock_bound:
  assumes "lww_wf S h" "lww_wf T h" "separated S T" "lww_merge S T h = (S', h')"
    and "clock_bound S h" "clock_bound T h"
  shows "clock_bound S' h'"
proof -
  note M = lww_merge_view [OF assms(1-4)]
  have "dot_ts d \<le> max (ls_clock S) (ls_clock T)"
    if e: "join_view (lww_view S h) (lww_view T h) i = Some e" and d: "le_add e = Some d \<or> le_rem e = Some d"
    for i e d
  proof (cases "lww_view S h i"; cases "lww_view T h i")
    fix e1 e2
    assume v: "lww_view S h i = Some e1" "lww_view T h i = Some e2"
    then have "le_add e1 = Some d \<or> le_add e2 = Some d \<or> le_rem e1 = Some d \<or> le_rem e2 = Some d"
      using e d by (auto simp: join_view_def merge_entry_fields dot_max_def max_def split: option.splits if_splits)
    with v assms(5,6) show ?thesis unfolding clock_bound_def by (metis max.coboundedI1 max.coboundedI2)
  next
    fix e1
    assume v: "lww_view S h i = Some e1" "lww_view T h i = None"
    with e d assms(5) show ?thesis unfolding clock_bound_def by (fastforce simp: join_view_def)
  next
    fix e2
    assume v: "lww_view S h i = None" "lww_view T h i = Some e2"
    with e d assms(6) show ?thesis unfolding clock_bound_def by (fastforce simp: join_view_def)
  qed (use e in \<open>simp add: join_view_def\<close>)
  then show ?thesis using M(1,6) unfolding clock_bound_def by simp
qed

section \<open>Snapshots\<close>

lemma parse_dot_record [simp]: "parse_dot (dot_record d) = Inr d"
  by (cases d) (simp add: parse_dot_def dot_record_def)

definition entry_kept :: "lww_entry \<Rightarrow> bool" where
  \<comment> \<open>the payload is what \<open>or {}\<close> makes of it\<close>
  "entry_kept e = (py_or (it_payload (le_item e)) (PDict []) = it_payload (le_item e))"

lemma parse_entry_snapshot [simp]: "entry_kept e \<Longrightarrow> parse_entry (entry_snapshot e) = Inr e"
proof -
  assume k: "entry_kept e"
  have opt: "parse_opt_dot d k = Inr x" if "dict_get d k = opt_dot x" for d k x
    using that by (cases x) (simp_all add: parse_opt_dot_def opt_dot_def dot_record_def parse_dot_def)
  show ?thesis
    using k by (simp add: parse_entry_def entry_snapshot_def dict_get_def opt entry_kept_def)
qed

lemma load_entries_view:
  assumes "distinct (map fst xs)" and "\<forall>a \<in> snd ` set acc. a < eh_next h" and "\<forall>e \<in> snd ` set xs. entry_kept e"
  shows "\<exists>acc' h'. load_entries (map (\<lambda>(i, e). (i, entry_snapshot e)) xs) acc h = Inr (acc', h')
     \<and> (\<forall>i. map_option (eh_mem h') (map_of acc' i) = (case map_of xs i of
          Some e \<Rightarrow> Some e | None \<Rightarrow> map_option (eh_mem h) (map_of acc i)))"
  using assms
proof (induction xs arbitrary: acc h)
  case Nil
  then show ?case by simp
next
  case (Cons x xs)
  obtain i e where x: "x = (i, e)" by force
  let ?h = "snd (eh_alloc e h)"
  let ?acc = "AList.update i (eh_next h) acc"
  have "snd ` set ?acc \<subseteq> insert (eh_next h) (snd ` set acc)"
    by (induction acc) auto
  then have "\<forall>a \<in> snd ` set ?acc. a < eh_next ?h"
    using Cons.prems(2) by (fastforce simp: eh_alloc_def)
  with Cons.IH [of ?acc ?h] Cons.prems(1,3) obtain acc' h' where
    l: "load_entries (map (\<lambda>(i, e). (i, entry_snapshot e)) xs) ?acc ?h = Inr (acc', h')"
    and v: "\<forall>j. map_option (eh_mem h') (map_of acc' j) = (case map_of xs j of
          Some e \<Rightarrow> Some e | None \<Rightarrow> map_option (eh_mem ?h) (map_of ?acc j))"
    by auto
  have "load_entries (map (\<lambda>(i, e). (i, entry_snapshot e)) (x # xs)) acc h = Inr (acc', h')"
    using l Cons.prems(3) by (simp add: x eh_alloc_def)
  moreover have "map_option (eh_mem h') (map_of acc' j) = (case map_of (x # xs) j of
          Some e \<Rightarrow> Some e | None \<Rightarrow> map_option (eh_mem h) (map_of acc j))" for j
  proof (cases "j = i")
    case True
    then have "map_of xs j = None" using Cons.prems(1) by (simp add: x map_of_eq_None_iff)
    with True v show ?thesis by (simp add: x update_conv' eh_alloc_def)
  next
    case False
    have "map_option (eh_mem ?h) (map_of acc j) = map_option (eh_mem h) (map_of acc j)"
      using Cons.prems(2) by (cases "map_of acc j") (auto simp: eh_alloc_def dest!: map_of_SomeD)
    with False v show ?thesis by (simp add: x update_conv' split: option.splits)
  qed
  ultimately show ?case by blast
qed

lemma snapshot_roundtrip:
  assumes "distinct (map fst (ls_entries S))" and "ls_peer S \<noteq> []"
    and "\<forall>i e. lww_view S h i = Some e \<longrightarrow> entry_kept e"
  shows "\<exists>S' h'. from_snapshot (snapshot S h) h0 = Inr (S', h') \<and> ls_peer S' = ls_peer S
     \<and> ls_clock S' = ls_clock S \<and> lww_view S' h' = lww_view S h"
proof -
  let ?xs = "map (\<lambda>(i, a). (i, eh_mem h a)) (ls_entries S)"
  have ents: "map (\<lambda>(i, a). (i, entry_snapshot (eh_mem h a))) (ls_entries S)
      = map (\<lambda>(i, e). (i, entry_snapshot e)) ?xs" by auto
  have "distinct (map fst ?xs)" using assms(1) by (simp add: comp_def case_prod_beta)
  moreover have "\<forall>e \<in> snd ` set ?xs. entry_kept e"
    using assms(1,3) by (fastforce simp: lww_view_def)
  ultimately obtain acc h' where
    l: "load_entries (map (\<lambda>(i, e). (i, entry_snapshot e)) ?xs) [] h0 = Inr (acc, h')"
    and v: "\<forall>i. map_option (eh_mem h') (map_of acc i) = (case map_of ?xs i of
          Some e \<Rightarrow> Some e | None \<Rightarrow> map_option (eh_mem h0) (map_of [] i))"
    using load_entries_view [of ?xs "[]" h0] by auto
  have xs: "map_of ?xs i = map_option (eh_mem h) (map_of (ls_entries S) i)" for i
    by (simp add: map_of_map)
  have "from_snapshot (snapshot S h) h0 = Inr (\<lparr>ls_peer = ls_peer S, ls_clock = ls_clock S, ls_entries = acc\<rparr>, h')"
    using assms(2) l unfolding from_snapshot_def snapshot_def ents
    by (auto simp: dict_get_def py_or_def get_int_def)
  with v xs show ?thesis by (auto simp: lww_view_fun fun_eq_iff split: option.splits)
qed

end
