(* ===== verification/CrdtConvergence.thy ===== *)
theory CrdtConvergence
  imports CrdtLww "HOL-Library.Multiset"
begin

text \<open>
  What the users of the replicated set see: the map of visible items.  Local operations act on it like
  a plain map, merging replicas gives the same map in every order, an import that runs ahead of the
  clock hides later removals, and a snapshot restores it.
\<close>

section \<open>The visible map\<close>

definition visible_map :: "lww_set \<Rightarrow> entry_heap \<Rightarrow> string \<Rightarrow> item option" where
  "visible_map S h = map_of (visible_items S h)"

definition entry_item :: "lww_entry option \<Rightarrow> item option" where
  "entry_item x = (case x of Some e \<Rightarrow> if entry_visible e then Some (le_item e) else None | None \<Rightarrow> None)"

lemma map_of_filter_distinct:
  "distinct (map fst xs) \<Longrightarrow> map_of (map (\<lambda>(i, a). (i, f a)) (filter (\<lambda>(i, a). P a) xs)) i
     = (case map_of xs i of Some a \<Rightarrow> if P a then Some (f a) else None | None \<Rightarrow> None)"
proof (induction xs)
  case (Cons x xs)
  obtain j a where x: "x = (j, a)" by force
  have "i = j \<Longrightarrow> map_of xs i = None" using Cons.prems by (simp add: x map_of_eq_None_iff)
  with Cons show ?case by (auto simp: x split: option.splits)
qed simp

lemma visible_map_view:
  assumes "lww_wf S h"
  shows "visible_map S h = (\<lambda>i. entry_item (lww_view S h i))"
proof
  fix i
  show "visible_map S h i = entry_item (lww_view S h i)"
    using assms unfolding visible_map_def visible_items_def
    by (subst map_of_filter_distinct) (auto simp: lww_wf_def entry_item_def lww_view_def split: option.splits)
qed

section \<open>Local operations\<close>

datatype local_op = Local_add item | Local_remove string

fun run_local :: "local_op list \<Rightarrow> lww_set \<Rightarrow> entry_heap \<Rightarrow> lww_set \<times> entry_heap" where
  "run_local [] S h = (S, h)"
| "run_local (Local_add it # as) S h = (let (_, S', h') = lww_add S it h in run_local as S' h')"
| "run_local (Local_remove i # as) S h = (let (_, S', h') = lww_remove S i h in run_local as S' h')"

fun spec_local :: "local_op \<Rightarrow> (string \<Rightarrow> item option) \<Rightarrow> string \<Rightarrow> item option" where
  "spec_local (Local_add it) m = m(it_id it \<mapsto> it)"
| "spec_local (Local_remove i) m = m(i := None)"

lemma add_visible_map:
  assumes "lww_wf S h" "clock_bound S h" "lww_add S it h = (d, S', h')"
  shows "visible_map S' h' = (visible_map S h)(it_id it \<mapsto> it)"
proof -
  note A = add_then_visible [OF assms]
  show ?thesis
    using A(1) A(4) by (auto simp: visible_map_view [OF A(3)] visible_map_view [OF assms(1)] fun_eq_iff entry_item_def)
qed

lemma remove_visible_map:
  assumes "lww_wf S h" "clock_bound S h" "lww_remove S i h = (d, S', h')"
  shows "visible_map S' h' = (visible_map S h)(i := None)"
proof -
  note A = remove_then_hidden [OF assms]
  show ?thesis
    using A(1) A(4) by (auto simp: visible_map_view [OF A(3)] visible_map_view [OF assms(1)] fun_eq_iff entry_item_def)
qed

lemma run_local_refines:
  assumes "lww_wf S h" "clock_bound S h" "run_local as S h = (S', h')"
  shows "visible_map S' h' = fold spec_local as (visible_map S h) \<and> lww_wf S' h' \<and> clock_bound S' h'"
  using assms
proof (induction as arbitrary: S h)
  case Nil
  then show ?case by simp
next
  case (Cons a as)
  show ?case
  proof (cases a)
    case (Local_add it)
    obtain d S1 h1 where s: "lww_add S it h = (d, S1, h1)" by (cases "lww_add S it h")
    note A = add_then_visible [OF Cons.prems(1,2) s]
    have "run_local as S1 h1 = (S', h')" using Cons.prems(3) s by (simp add: Local_add)
    from Cons.IH [OF A(3) A(2) this] show ?thesis
      by (simp only: Local_add add_visible_map [OF Cons.prems(1,2) s] list.simps fold_simps spec_local.simps)
  next
    case (Local_remove i)
    obtain d S1 h1 where s: "lww_remove S i h = (d, S1, h1)" by (cases "lww_remove S i h")
    note A = remove_then_hidden [OF Cons.prems(1,2) s]
    have "run_local as S1 h1 = (S', h')" using Cons.prems(3) s by (simp add: Local_remove)
    from Cons.IH [OF A(3) A(2) this] show ?thesis
      by (simp only: Local_remove remove_visible_map [OF Cons.prems(1,2) s] list.simps fold_simps spec_local.simps)
  qed
qed

definition empty_heap :: entry_heap where
  "empty_heap = \<lparr>eh_mem = (\<lambda>_. new_entry \<lparr>it_id = [], it_payload = PNone\<rparr>), eh_next = 0\<rparr>"

definition empty_set :: "string \<Rightarrow> lww_set" where
  "empty_set p = \<lparr>ls_peer = p, ls_clock = 0, ls_entries = []\<rparr>"

lemma empty_ok [simp]: "lww_wf (empty_set p) h" "clock_bound (empty_set p) h" "visible_map (empty_set p) h = Map.empty"
  "lww_view (empty_set p) h = Map.empty"
  by (simp_all add: lww_wf_def empty_set_def clock_bound_def lww_view_fun visible_map_def visible_items_def)

section \<open>Merging\<close>

lemma all_separated_perm: "mset Us = mset Ts \<Longrightarrow> all_separated Us = all_separated Ts"
proof (induction Ts arbitrary: Us)
  case Nil
  then show ?case by simp
next
  case (Cons T Ts)
  then have "T \<in> set Us" by (metis list.set_intros(1) set_mset_mset)
  then obtain xs ys where U: "Us = xs @ T # ys" by (meson split_list)
  with Cons.prems have m: "mset (xs @ ys) = mset Ts" by simp
  then have st: "set (xs @ ys) = set Ts" by (metis set_mset_mset)
  have sym: "separated A B = separated B A" for A B by (auto simp: separated_def)
  have "all_separated (xs @ T # ys) = (all_separated (xs @ ys) \<and> (\<forall>V \<in> set (xs @ ys). separated T V))"
    by (induction xs) (auto simp: sym)
  then have "all_separated Us = (all_separated Ts \<and> (\<forall>V \<in> set Ts. separated T V))"
    by (simp only: U Cons.IH [OF m] st)
  then show ?case by auto
qed

lemma merge_all_order:
  assumes "lww_wf S h" and "\<forall>T \<in> set Ts. lww_wf T h" and "all_separated (S # Ts)"
    and "\<forall>T \<in> set Ts. \<forall>U \<in> set Ts. coherent_views (lww_view T h) (lww_view U h)"
    and "mset Us = mset Ts" and "merge_all S Ts h = (A, ha)" and "merge_all S Us h = (B, hb)"
  shows "lww_view A ha = lww_view B hb"
proof -
  have st: "set Us = set Ts" using assms(5) by (metis set_mset_mset)
  have "all_separated (S # Us)" using assms(3) all_separated_perm [OF assms(5)] st by simp
  with assms(1,2,7) st have B: "lww_view B hb = lww_replicas.collect (map (\<lambda>T. lww_view T h) Us) (lww_view S h)"
    by (intro merge_all_view) auto
  have A: "lww_view A ha = lww_replicas.collect (map (\<lambda>T. lww_view T h) Ts) (lww_view S h)"
    by (rule merge_all_view [OF assms(1-3,6)])
  show ?thesis
    unfolding A B by (rule lww_replicas.collect_set) (use assms(4) st in auto)
qed

section \<open>Properties\<close>

text \<open>
  C36: merging replicas in any order gives the same entries: for replicas that do not share entry
  objects and agree on what each add carried, the order in which a replica merges the others is irrelevant.
\<close>

theorem merge_order_irrelevant:
  assumes "lww_wf S h" and "\<forall>T \<in> set Ts. lww_wf T h" and "all_separated (S # Ts)"
    and "\<forall>T \<in> set Ts. \<forall>U \<in> set Ts. coherent_views (lww_view T h) (lww_view U h)"
    and "mset Us = mset Ts" and "merge_all S Ts h = (A, ha)" and "merge_all S Us h = (B, hb)"
  shows "\<forall>i. lww_view A ha i = lww_view B hb i"
  using merge_all_order [OF assms] by simp

definition two_heap :: entry_heap where
  "two_heap = \<lparr>eh_mem = (\<lambda>a. if a = 0
       then \<lparr>le_item = \<lparr>it_id = ''x'', it_payload = PInt 1\<rparr>, le_add = Some (Dot ''a'' 1), le_rem = None\<rparr>
       else \<lparr>le_item = \<lparr>it_id = ''x'', it_payload = PInt 2\<rparr>, le_add = Some (Dot ''b'' 2), le_rem = None\<rparr>), eh_next = 2\<rparr>"

definition replica_at :: "string \<Rightarrow> nat \<Rightarrow> lww_set" where
  "replica_at p a = \<lparr>ls_peer = p, ls_clock = 2, ls_entries = [(''x'', a)]\<rparr>"

lemma merge_into_empty:
  "\<exists>A ha B hb. merge_all (empty_set ''c'') [replica_at ''a'' 0, replica_at ''b'' 1] two_heap = (A, ha)
     \<and> merge_all (empty_set ''c'') [replica_at ''b'' 1, replica_at ''a'' 0] two_heap = (B, hb)"
  by (metis surj_pair)

theorem merge_order_irrelevant_witness:
  "\<exists>A ha B hb. merge_all (empty_set ''c'') [replica_at ''a'' 0, replica_at ''b'' 1] two_heap = (A, ha)
     \<and> merge_all (empty_set ''c'') [replica_at ''b'' 1, replica_at ''a'' 0] two_heap = (B, hb)
     \<and> lww_view A ha ''x'' = lww_view B hb ''x''"
proof -
  let ?Ts = "[replica_at ''a'' 0, replica_at ''b'' 1]" and ?Us = "[replica_at ''b'' 1, replica_at ''a'' 0]"
  obtain A ha B hb where m: "merge_all (empty_set ''c'') ?Ts two_heap = (A, ha)"
    "merge_all (empty_set ''c'') ?Us two_heap = (B, hb)" using merge_into_empty by blast
  have "\<forall>i. lww_view A ha i = lww_view B hb i"
  proof (rule merge_order_irrelevant [OF _ _ _ _ _ m])
    show "lww_wf (empty_set ''c'') two_heap" by simp
    show "\<forall>T \<in> set ?Ts. lww_wf T two_heap" by (simp add: lww_wf_def replica_at_def two_heap_def)
    show "all_separated (empty_set ''c'' # ?Ts)" by (simp add: separated_def empty_set_def replica_at_def)
    show "\<forall>T \<in> set ?Ts. \<forall>U \<in> set ?Ts. coherent_views (lww_view T two_heap) (lww_view U two_heap)"
      by (auto simp: coherent_views_def coherent_def lww_view_fun replica_at_def two_heap_def split: if_splits)
    show "mset ?Us = mset ?Ts" by simp
  qed
  with m show ?thesis by blast
qed

text \<open>
  C37: on one replica whose clock is ahead of its dots, any sequence of local adds and removes shows
  what a plain map would: the last operation on an id decides.
\<close>

theorem local_ops_refine_map:
  assumes "lww_wf S h" "clock_bound S h" "run_local as S h = (S', h')"
  shows "visible_map S' h' = fold spec_local as (visible_map S h) \<and> lww_wf S' h' \<and> clock_bound S' h'"
  by (rule run_local_refines [OF assms])

theorem local_ops_refine_map_witness:
  "\<exists>S h. run_local [Local_add \<lparr>it_id = ''x'', it_payload = PInt 1\<rparr>, Local_add \<lparr>it_id = ''y'', it_payload = PInt 2\<rparr>,
       Local_remove ''x''] (empty_set ''a'') empty_heap = (S, h)
     \<and> visible_map S h ''x'' = None \<and> visible_map S h ''y'' = Some \<lparr>it_id = ''y'', it_payload = PInt 2\<rparr>"
proof -
  obtain S h where r: "run_local [Local_add \<lparr>it_id = ''x'', it_payload = PInt 1\<rparr>, Local_add \<lparr>it_id = ''y'', it_payload = PInt 2\<rparr>,
       Local_remove ''x''] (empty_set ''a'') empty_heap = (S, h)" by (metis surj_pair)
  from local_ops_refine_map [OF empty_ok(1,2) r] r show ?thesis by auto
qed

lemma import_add_view:
  assumes "lww_wf S h" and "lww_view S h i = None" and "bindE (subscript data ''dot'') parse_dot = Inr d"
    and "import_op S ''add'' i data h = Inr (S1, h1)"
  shows "lww_wf S1 h1 \<and> ls_clock S1 = ls_clock S \<and> ls_peer S1 = ls_peer S
     \<and> (\<exists>e. lww_view S1 h1 i = Some e \<and> le_add e = Some d \<and> le_rem e = None
          \<and> le_item e = \<lparr>it_id = i, it_payload = py_or (dict_get data ''payload'') (PDict [])\<rparr>)"
proof -
  let ?it = "\<lparr>it_id = i, it_payload = py_or (dict_get data ''payload'') (PDict [])\<rparr>"
  obtain a k where a: "entry_or_new S i ?it h = (a, k)" by force
  have S1: "S1 = S\<lparr>ls_entries := AList.update i a (ls_entries S), ls_clock := ls_clock S\<rparr>"
    using assms(3,4) a by (auto simp: import_op_def Let_def)
  note W = write_entry_view [OF assms(1) a S1]
  let ?e = "(new_entry ?it)\<lparr>le_add := Some d\<rparr>"
  have e: "eh_mem k a = new_entry ?it" using W(3) assms(2) by simp
  have "h1 = eh_write a ?e k"
    using assms(3,4) a e by (auto simp: import_op_def Let_def new_entry_def py_or_def)
  with W S1 show ?thesis by (simp add: new_entry_def)
qed

text \<open>
  Importing an operation does not advance the clock, so after an import that runs ahead of it the
  next local removal of the same id loses: the item stays visible.
\<close>

theorem import_outruns_remove:
  assumes "lww_wf S h" and "lww_view S h i = None" and "bindE (subscript data ''dot'') parse_dot = Inr d"
    and "ls_clock S + 1 < dot_ts d" and "import_op S ''add'' i data h = Inr (S1, h1)"
    and "lww_remove S1 i h1 = (r, S2, h2)"
  shows "r < d \<and> visible_map S2 h2 i = Some \<lparr>it_id = i, it_payload = py_or (dict_get data ''payload'') (PDict [])\<rparr>"
proof -
  from import_add_view [OF assms(1-3,5)] obtain e where
    w: "lww_wf S1 h1" "ls_clock S1 = ls_clock S" "ls_peer S1 = ls_peer S" and e: "lww_view S1 h1 i = Some e"
    "le_add e = Some d" "le_rem e = None" "le_item e = \<lparr>it_id = i, it_payload = py_or (dict_get data ''payload'') (PDict [])\<rparr>"
    by blast
  note R = lww_remove_view [OF w(1) assms(6)]
  have r: "r < d" using R w(2) assms(4) by (simp add: less_dot_def)
  have "lww_view S2 h2 i = Some (e\<lparr>le_rem := Some r\<rparr>)" using R e by (simp add: view_entry_def)
  with R r e show ?thesis
    using visible_map_view [of S2 h2] by (auto simp: entry_item_def entry_visible_iff)
qed

theorem import_outruns_remove_witness:
  "\<exists>S1 h1 r S2 h2. import_op (empty_set ''a'') ''add'' ''x'' [(''dot'', dot_record (Dot ''b'' 5)), (''payload'', PInt 7)] empty_heap
       = Inr (S1, h1) \<and> lww_remove S1 ''x'' h1 = (r, S2, h2)
     \<and> visible_map S2 h2 ''x'' = Some \<lparr>it_id = ''x'', it_payload = PInt 7\<rparr>"
proof -
  let ?data = "[(''dot'', dot_record (Dot ''b'' 5)), (''payload'', PInt 7)]"
  have d: "bindE (subscript ?data ''dot'') parse_dot = Inr (Dot ''b'' 5)" by (simp add: subscript_def)
  have "\<exists>p. import_op (empty_set ''a'') ''add'' ''x'' ?data empty_heap = Inr p"
    by (simp add: import_op_def subscript_def Let_def split: prod.splits)
  then obtain S1 h1 where i: "import_op (empty_set ''a'') ''add'' ''x'' ?data empty_heap = Inr (S1, h1)" by force
  obtain r S2 h2 where "lww_remove S1 ''x'' h1 = (r, S2, h2)" by (cases "lww_remove S1 ''x'' h1")
  from import_outruns_remove [OF empty_ok(1) _ d _ i this] i this show ?thesis
    by (auto simp: empty_set_def py_or_def dict_get_def lww_view_def)
qed

text \<open>
  A set restored from its snapshot has the same peer, clock and entries, whatever the heap it is
  restored into, when its payloads are not falsy values other than the empty dictionary.
\<close>

theorem snapshot_restores:
  assumes "lww_wf S h" and "ls_peer S \<noteq> []" and "\<forall>i e. lww_view S h i = Some e \<longrightarrow> entry_kept e"
  shows "\<exists>S' h'. from_snapshot (snapshot S h) h0 = Inr (S', h') \<and> ls_peer S' = ls_peer S
     \<and> ls_clock S' = ls_clock S \<and> lww_view S' h' = lww_view S h"
  using snapshot_roundtrip [of S h h0] assms by (simp add: lww_wf_def)

theorem snapshot_restores_witness:
  "\<exists>S' h'. from_snapshot (snapshot (replica_at ''a'' 0) two_heap) empty_heap = Inr (S', h')
     \<and> lww_view S' h' = lww_view (replica_at ''a'' 0) two_heap"
proof -
  have "lww_wf (replica_at ''a'' 0) two_heap" by (simp add: lww_wf_def replica_at_def two_heap_def)
  moreover have "ls_peer (replica_at ''a'' 0) \<noteq> []" by (simp add: replica_at_def)
  moreover have "\<forall>i e. lww_view (replica_at ''a'' 0) two_heap i = Some e \<longrightarrow> entry_kept e"
    by (auto simp: replica_at_def lww_view_fun two_heap_def entry_kept_def py_or_def split: if_splits)
  ultimately show ?thesis using snapshot_restores [of "replica_at ''a'' 0" two_heap empty_heap] by blast
qed

end
