(* ===== verification/MerkleTree.thy ===== *)
theory MerkleTree
  imports PyJson
begin

text \<open>
  \<open>merkle/merkle_tree.py\<close> and \<open>merkle/cas.py\<close>: the hash tree over leaves and the content-addressed
  store.  \<open>hashlib.sha256(...).hexdigest()\<close> is the parameter \<open>digest\<close>; that its result has 64
  characters is the hypothesis \<open>digest_len\<close>.  Bytes are lists of characters.
\<close>

type_synonym digest_fun = "string \<Rightarrow> string"

definition digest_len :: "digest_fun \<Rightarrow> bool" where
  "digest_len digest = (\<forall>b. length (digest b) = 64)"

definition digest_clash :: "digest_fun \<Rightarrow> string list \<Rightarrow> string list \<Rightarrow> bool" where
  \<comment> \<open>two of the byte strings given have the same digest\<close>
  "digest_clash digest as bs = list_ex (\<lambda>a. list_ex (\<lambda>b. a \<noteq> b \<and> digest a = digest b) bs) as"

section \<open>The tree\<close>

fun pair_up :: "digest_fun \<Rightarrow> string list \<Rightarrow> string list" where
  \<comment> \<open>the loop over one level; the last hash of an odd level is paired with itself\<close>
  "pair_up digest [] = []"
| "pair_up digest [a] = [digest (utf8 (a @ a))]"
| "pair_up digest (a # b # rest) = digest (utf8 (a @ b)) # pair_up digest rest"

lemma length_pair_up: "length (pair_up digest xs) = (length xs + 1) div 2"
  by (induction digest xs rule: pair_up.induct) auto

lemma pair_up_Nil_iff: "pair_up digest xs = [] \<longleftrightarrow> xs = []"
  by (cases "(digest, xs)" rule: pair_up.cases) auto

function merkle_levels :: "digest_fun \<Rightarrow> string list \<Rightarrow> string list list" where
  "merkle_levels digest level =
     (if 1 < length level then level # merkle_levels digest (pair_up digest level) else [level])"
  by auto
termination by (relation "measure (\<lambda>(d, xs). length xs)") (auto simp: length_pair_up)

declare merkle_levels.simps [simp del]

definition merkle_build :: "digest_fun \<Rightarrow> string list \<Rightarrow> string \<times> string list list" where
  "merkle_build digest leaves =
     (if leaves = [] then (digest [], [])
      else let levels = merkle_levels digest (map digest leaves) in (hd (last levels), levels))"

text \<open>The loop as it is written, with fuel for its rounds.\<close>

fun merkle_loop :: "nat \<Rightarrow> digest_fun \<Rightarrow> string list \<Rightarrow> string list list \<Rightarrow> (string \<times> string list list) option" where
  "merkle_loop n digest level levels =
     (if length level \<le> 1 then Some (hd level, levels)
      else case n of 0 \<Rightarrow> None | Suc m \<Rightarrow> merkle_loop m digest (pair_up digest level) (levels @ [pair_up digest level]))"

declare merkle_loop.simps [simp del]

lemma merkle_loop_levels:
  "level \<noteq> [] \<Longrightarrow> merkle_loop n digest level (acc @ [level])
     = (if length level \<le> 2 ^ n then Some (hd (last (merkle_levels digest level)), acc @ merkle_levels digest level) else None)"
proof (induction n arbitrary: level acc)
  case 0
  then show ?case by (simp add: merkle_loop.simps [of 0] merkle_levels.simps [of _ level])
next
  case (Suc n)
  show ?case
  proof (cases "length level \<le> 1")
    case True
    moreover have "(1::nat) \<le> 2 ^ Suc n" by simp
    ultimately have "length level \<le> 2 ^ Suc n" by linarith
    with True show ?thesis by (simp add: merkle_loop.simps [of "Suc n"] merkle_levels.simps [of _ level])
  next
    case False
    let ?next = "pair_up digest level"
    have "?next \<noteq> []" using Suc.prems by (simp add: pair_up_Nil_iff)
    moreover have "merkle_levels digest level = level # merkle_levels digest ?next" using False by (simp add: merkle_levels.simps [of _ level])
    moreover have "merkle_levels digest ?next \<noteq> []" by (simp add: merkle_levels.simps [of _ ?next])
    moreover have "length ?next \<le> 2 ^ n \<longleftrightarrow> length level \<le> 2 ^ Suc n" by (auto simp: length_pair_up)
    ultimately show ?thesis using Suc.IH [of ?next "acc @ [level]"] False by (simp add: merkle_loop.simps [of "Suc n"])
  qed
qed

text \<open>
  C39: The loop of \<open>Merkle.build\<close> ends: on any leaves it needs as many rounds as the logarithm of their number, rounded
  up, and no fewer; with that many it returns the root and the levels of the recursive definition.\<close>

theorem merkle_loop_ends:
  "merkle_loop n digest (map digest (x # xs)) [map digest (x # xs)]
     = (if length (x # xs) \<le> 2 ^ n then Some (merkle_build digest (x # xs)) else None)"
  using merkle_loop_levels [of "map digest (x # xs)" n digest "[]"] by (simp add: merkle_build_def Let_def)

section \<open>The store\<close>

datatype blob_data = Blob_bytes string | Blob_text string | Blob_object pyval

definition cas_blob :: "blob_data \<Rightarrow> string" where
  "cas_blob d = (case d of
     Blob_bytes b \<Rightarrow> b | Blob_text s \<Rightarrow> utf8 s | Blob_object v \<Rightarrow> canonical_bytes v)"

type_synonym cas_files = "string list \<Rightarrow> string option"

definition cas_path :: "string \<Rightarrow> string list" where
  \<comment> \<open>below the base directory: \<open>h[:2] / h[2:]\<close>\<close>
  "cas_path h = [take 2 h, drop 2 h]"

definition cas_put :: "digest_fun \<Rightarrow> blob_data \<Rightarrow> cas_files \<Rightarrow> string \<times> cas_files" where
  "cas_put digest d s =
     (let blob = cas_blob d; h = digest blob; path = cas_path h
      in (h, if s path = None then s(path \<mapsto> blob) else s))"

definition cas_get :: "string \<Rightarrow> cas_files \<Rightarrow> string option" where
  "cas_get h s = s (cas_path h)"

section \<open>What the root determines\<close>

definition all64 :: "string list \<Rightarrow> bool" where
  "all64 xs = (\<forall>x \<in> set xs. length x = 64)"

lemma pair_up_64: "digest_len digest \<Longrightarrow> all64 (pair_up digest xs)"
  by (induction digest xs rule: pair_up.induct) (auto simp: all64_def digest_len_def)

lemma clash_mono: "digest_clash digest as bs \<Longrightarrow> set as \<subseteq> set as' \<Longrightarrow> set bs \<subseteq> set bs' \<Longrightarrow> digest_clash digest as' bs'"
  by (auto simp: digest_clash_def list_ex_iff)

lemma digests_equal: "map digest as = map digest bs \<Longrightarrow> as = bs \<or> digest_clash digest as bs"
proof (induction as arbitrary: bs)
  case (Cons a as)
  then obtain b bs' where bs: "bs = b # bs'" "digest a = digest b" "map digest as = map digest bs'" by (cases bs) auto
  show ?case
  proof (cases "a = b")
    case True
    have "digest_clash digest (a # as) (b # bs')" if "digest_clash digest as bs'" by (rule clash_mono [OF that]) auto
    with Cons.IH [OF bs(3)] True show ?thesis by (auto simp: bs(1))
  qed (use bs in \<open>auto simp: digest_clash_def\<close>)
qed simp

fun pair_bytes :: "string list \<Rightarrow> string list" where
  \<comment> \<open>the byte strings that \<open>pair_up\<close> hashes\<close>
  "pair_bytes [] = []"
| "pair_bytes [a] = [utf8 (a @ a)]"
| "pair_bytes (a # b # rest) = utf8 (a @ b) # pair_bytes rest"

lemma pair_up_bytes: "pair_up digest xs = map digest (pair_bytes xs)"
  by (induction xs rule: pair_bytes.induct) auto

lemma pair_bytes_inj: "pair_bytes xs = pair_bytes ys \<Longrightarrow> length xs = length ys \<Longrightarrow> all64 xs \<Longrightarrow> all64 ys \<Longrightarrow> xs = ys"
proof (induction xs arbitrary: ys rule: pair_bytes.induct)
  case (2 a)
  then obtain b where "ys = [b]" by (cases ys) auto
  with 2 show ?case by (simp add: utf8_inj all64_def)
next
  case (3 a b rest)
  then obtain c d ys' where ys: "ys = c # d # ys'" by (auto simp: length_Suc_conv Suc_length_conv)
  with 3 have "a @ b = c @ d" "length a = length c" by (simp_all add: utf8_inj all64_def)
  moreover have "rest = ys'" using 3 ys by (simp add: all64_def)
  ultimately show ?case by (simp add: ys)
qed simp

definition node_bytes :: "digest_fun \<Rightarrow> string list \<Rightarrow> string list" where
  \<comment> \<open>what is hashed above a level of hashes\<close>
  "node_bytes digest level = concat (map pair_bytes (butlast (merkle_levels digest level)))"

definition hashed_bytes_of :: "digest_fun \<Rightarrow> string list \<Rightarrow> string list" where
  \<comment> \<open>every byte string that building the tree of these leaves hashes: the leaves, and the pair of hashes of each node\<close>
  "hashed_bytes_of digest leaves = leaves @ node_bytes digest (map digest leaves)"

lemma levels_not_Nil [simp]: "merkle_levels digest xs \<noteq> []"
  by (subst merkle_levels.simps) simp

lemma node_bytes_step:
  "node_bytes digest xs = (if 1 < length xs then pair_bytes xs @ node_bytes digest (pair_up digest xs) else [])"
  unfolding node_bytes_def by (subst merkle_levels.simps) (simp add: merkle_levels.simps [of digest "pair_up digest xs"])

lemma last_levels: "last (merkle_levels digest xs) = (if 1 < length xs then last (merkle_levels digest (pair_up digest xs)) else xs)"
  by (subst merkle_levels.simps) (simp add: merkle_levels.simps [of digest "pair_up digest xs"])

lemma levels_root_inj:
  "digest_len digest \<Longrightarrow> length xs = length ys \<Longrightarrow> xs \<noteq> [] \<Longrightarrow> all64 xs \<Longrightarrow> all64 ys \<Longrightarrow>
   hd (last (merkle_levels digest xs)) = hd (last (merkle_levels digest ys)) \<Longrightarrow>
   xs = ys \<or> digest_clash digest (node_bytes digest xs) (node_bytes digest ys)"
proof (induction digest xs arbitrary: ys rule: merkle_levels.induct)
  case (1 digest xs)
  show ?case
  proof (cases "1 < length xs")
    case True
    have "pair_up digest xs \<noteq> []" using True by (auto simp: pair_up_Nil_iff)
    moreover have "hd (last (merkle_levels digest (pair_up digest xs))) = hd (last (merkle_levels digest (pair_up digest ys)))"
      using 1(7) True 1(3) by (simp add: last_levels [of digest xs] last_levels [of digest ys])
    ultimately have "pair_up digest xs = pair_up digest ys
        \<or> digest_clash digest (node_bytes digest (pair_up digest xs)) (node_bytes digest (pair_up digest ys))"
      using 1(1) [OF True 1(2)] 1(3) pair_up_64 [OF 1(2)] by (simp add: length_pair_up)
    moreover have "pair_bytes xs = pair_bytes ys \<or> digest_clash digest (pair_bytes xs) (pair_bytes ys)"
      if "pair_up digest xs = pair_up digest ys"
      using digests_equal that by (simp add: pair_up_bytes)
    moreover have "node_bytes digest xs = pair_bytes xs @ node_bytes digest (pair_up digest xs)"
      "node_bytes digest ys = pair_bytes ys @ node_bytes digest (pair_up digest ys)"
      using True 1(3) by (simp_all add: node_bytes_step [of digest xs] node_bytes_step [of digest ys])
    moreover have "digest_clash digest (as @ as') (bs @ bs')" if "digest_clash digest as bs \<or> digest_clash digest as' bs'" for as as' bs bs'
      using that by (auto intro: clash_mono)
    ultimately show ?thesis using pair_bytes_inj 1(3,5,6) by metis
  next
    case False
    with 1 obtain x y where "xs = [x]" "ys = [y]"
      by (cases xs; cases ys) auto
    with 1(7) show ?thesis by (simp add: last_levels)
  qed
qed

lemma merkle_root_inj:
  assumes "digest_len digest" "length xs = length ys"
    and "fst (merkle_build digest xs) = fst (merkle_build digest ys)"
  shows "xs = ys \<or> digest_clash digest (hashed_bytes_of digest xs) (hashed_bytes_of digest ys)"
proof (cases "xs = []")
  case False
  then have "ys \<noteq> []" using assms(2) by auto
  have "all64 (map digest zs)" for zs using assms(1) by (simp add: all64_def digest_len_def)
  with levels_root_inj [OF assms(1), of "map digest xs" "map digest ys"] False \<open>ys \<noteq> []\<close> assms(2,3)
  have "map digest xs = map digest ys \<or> digest_clash digest (node_bytes digest (map digest xs)) (node_bytes digest (map digest ys))"
    by (simp add: merkle_build_def Let_def)
  moreover note digests_equal [of digest xs ys]
  ultimately show ?thesis unfolding hashed_bytes_of_def by (auto intro: clash_mono)
qed (use assms(2) in simp)

text \<open>Repeating the last leaf of an odd number of leaves does not change the root.\<close>

lemma pair_up_repeat: "odd (length xs) \<Longrightarrow> pair_up digest (xs @ [last xs]) = pair_up digest xs"
  by (induction digest xs rule: pair_up.induct) auto

lemma merkle_root_repeat:
  assumes "odd (length xs)" "1 < length xs"
  shows "fst (merkle_build digest (xs @ [last xs])) = fst (merkle_build digest xs)"
proof -
  have ne: "xs \<noteq> []" using assms by auto
  have "map digest (xs @ [last xs]) = map digest xs @ [last (map digest xs)]"
    using ne by (simp add: last_map)
  then have "pair_up digest (map digest (xs @ [last xs])) = pair_up digest (map digest xs)"
    using pair_up_repeat [of "map digest xs" digest] assms(1) by (simp del: map_append)
  then show ?thesis
    using assms ne last_levels [of digest "map digest (xs @ [last xs])"] last_levels [of digest "map digest xs"]
    by (simp add: merkle_build_def Let_def del: map_append)
qed

text \<open>An inner node and a leaf are hashed alike: the bytes of a pair of leaf hashes, as a leaf, give the same root.\<close>

lemma merkle_leaf_is_node:
  "fst (merkle_build digest [a, b]) = fst (merkle_build digest [utf8 (digest a @ digest b)])"
  by (simp add: merkle_build_def Let_def merkle_levels.simps)

section \<open>The shape of the levels\<close>

fun levels_ok :: "digest_fun \<Rightarrow> string list list \<Rightarrow> bool" where
  "levels_ok digest [] = False"
| "levels_ok digest [l] = (length l = 1)"
| "levels_ok digest (l # m # ls) = (1 < length l \<and> m = pair_up digest l \<and> levels_ok digest (m # ls))"

lemma merkle_levels_ok: "xs \<noteq> [] \<Longrightarrow> levels_ok digest (merkle_levels digest xs) \<and> hd (merkle_levels digest xs) = xs"
proof (induction digest xs rule: merkle_levels.induct)
  case (1 digest xs)
  show ?case
  proof (cases "1 < length xs")
    case True
    have ne: "pair_up digest xs \<noteq> []" using True by (auto simp: pair_up_Nil_iff)
    have m: "merkle_levels digest xs = xs # merkle_levels digest (pair_up digest xs)"
      using True by (subst merkle_levels.simps) simp
    from 1(1) [OF True ne] True show ?thesis
      unfolding m by (cases "merkle_levels digest (pair_up digest xs)") auto
  next
    case False
    with 1 show ?thesis by (cases xs) (auto simp: merkle_levels.simps)
  qed
qed

section \<open>The store keeps what was put\<close>

definition cas_ok :: "digest_fun \<Rightarrow> cas_files \<Rightarrow> bool" where
  \<comment> \<open>every file lies at the path of its own digest\<close>
  "cas_ok digest s = (\<forall>p b. s p = Some b \<longrightarrow> p = cas_path (digest b))"

lemma cas_path_inj: "cas_path h = cas_path g \<longleftrightarrow> h = g"
proof
  assume "cas_path h = cas_path g"
  then have "take 2 h @ drop 2 h = take 2 g @ drop 2 g" by (simp only: cas_path_def list.inject)
  then show "h = g" by (simp only: append_take_drop_id)
qed simp

lemma cas_put_eq:
  "cas_put digest d s = (h, s') \<longleftrightarrow> h = digest (cas_blob d)
     \<and> s' = (if s (cas_path h) = None then s(cas_path h \<mapsto> cas_blob d) else s)"
  unfolding cas_put_def Let_def by blast

lemma cas_put_ok: "cas_ok digest s \<Longrightarrow> cas_put digest d s = (h, s') \<Longrightarrow> cas_ok digest s'"
  unfolding cas_put_eq cas_ok_def by simp

lemma cas_put_get:
  assumes "cas_ok digest s" and "cas_put digest d s = (h, s')"
  shows "\<exists>b. cas_get h s' = Some b \<and> digest b = h \<and> h = digest (cas_blob d) \<and> (b = cas_blob d \<or> cas_get h s = Some b)"
proof (cases "s (cas_path h)")
  case None
  with assms(2) show ?thesis by (simp add: cas_put_eq cas_get_def)
next
  case (Some b)
  with assms(1) have "cas_path h = cas_path (digest b)" unfolding cas_ok_def by blast
  then have b: "digest b = h" by (simp add: cas_path_inj)
  have h: "h = digest (cas_blob d)" and s': "s' = s"
    using assms(2) Some unfolding cas_put_eq by (blast, metis option.distinct(1))
  have "cas_get h s' = Some b" "cas_get h s = Some b" using Some s' by (simp_all only: cas_get_def)
  then show ?thesis using b h by blast
qed

lemma cas_put_keeps: "cas_put digest d s = (h, s') \<Longrightarrow> cas_get g s = Some b \<Longrightarrow> cas_get g s' = Some b"
  unfolding cas_put_eq cas_get_def by (auto split: if_splits)

text \<open>The store as a machine that never raises.\<close>

interpretation cas_machine: invariant_machine
    "\<lambda>d s. Inr (snd (cas_put digest d s)) :: unit + cas_files" "cas_ok digest" for digest
proof unfold_locales
  fix s d t
  assume "cas_ok digest s" and "Inr (snd (cas_put digest d s)) = (Inr t :: unit + cas_files)"
  then show "cas_ok digest t" using cas_put_ok [of digest s d] by (metis Inr_inject prod.collapse)
qed

lemma levels_ok_last: "levels_ok digest ls \<Longrightarrow> length (last ls) = 1"
  by (induction digest ls rule: levels_ok.induct) auto

lemma cas_run_keeps:
  "run_ops (\<lambda>d s. Inr (snd (cas_put digest d s)) :: unit + cas_files) ds s = Inr t \<Longrightarrow>
   cas_get g s = Some b \<Longrightarrow> cas_get g t = Some b"
proof (induction ds arbitrary: s)
  case (Cons d ds)
  obtain h s' where p: "cas_put digest d s = (h, s')" by force
  with Cons.prems(1) have "run_ops (\<lambda>d s. Inr (snd (cas_put digest d s)) :: unit + cas_files) ds s' = Inr t" by simp
  from Cons.IH [OF this] cas_put_keeps [OF p Cons.prems(2)] show ?case by simp
qed simp

section \<open>Properties\<close>

text \<open>
  C38: the root binds the leaves, for a digest of 64 characters and at least one leaf: the levels run from the leaf hashes to the root, each made of the one below, and
  two lists of as many leaves with the same root are equal, or two different ones among the byte strings that were
  hashed in building the two trees have the same digest.  The number of leaves is not bound: repeating the last of
  an odd number of them, more than one, leaves the root as it is.
\<close>

theorem merkle_root_binds:
  assumes "digest_len digest" and "xs \<noteq> []" and "length xs = length ys"
    and "merkle_build digest xs = (r, levels)" and "fst (merkle_build digest ys) = r"
  shows "levels_ok digest levels \<and> hd levels = map digest xs \<and> last levels = [r]
    \<and> (xs = ys \<or> digest_clash digest (hashed_bytes_of digest xs) (hashed_bytes_of digest ys))
    \<and> (odd (length xs) \<and> 1 < length xs \<longrightarrow> fst (merkle_build digest (xs @ [last xs])) = r)"
proof -
  have l: "levels = merkle_levels digest (map digest xs)" and r: "r = hd (last levels)"
    using assms(2,4) by (auto simp: merkle_build_def Let_def)
  have ok: "levels_ok digest levels \<and> hd levels = map digest xs"
    unfolding l by (rule merkle_levels_ok) (use assms(2) in simp)
  have "length (last levels) = 1" using ok levels_ok_last by blast
  then have "last levels = [r]" unfolding r by (cases "last levels") auto
  moreover have "fst (merkle_build digest (xs @ [last xs])) = r" if "odd (length xs)" "1 < length xs"
    using merkle_root_repeat [OF that, of digest] assms(4) by simp
  ultimately show ?thesis using ok merkle_root_inj [OF assms(1,3)] assms(4,5) by simp
qed

definition padded :: digest_fun where
  \<comment> \<open>a digest that two leaves share when one is the other with zeros behind it\<close>
  "padded b = take 64 (b @ replicate 64 CHR ''0'')"

theorem merkle_root_binds_witness:
  "fst (merkle_build padded [''a'', ''b'', ''c'']) = fst (merkle_build padded [''a0'', ''b'', ''c''])
   \<and> digest_clash padded (hashed_bytes_of padded [''a'', ''b'', ''c'']) (hashed_bytes_of padded [''a0'', ''b'', ''c''])
   \<and> fst (merkle_build padded [''a'', ''b'', ''c'', ''c'']) = fst (merkle_build padded [''a'', ''b'', ''c''])"
proof -
  have d: "digest_len padded" by (auto simp: digest_len_def padded_def min_def)
  obtain r levels where b: "merkle_build padded [''a'', ''b'', ''c''] = (r, levels)" by force
  have "padded ''a'' = padded ''a0''" by code_simp
  then have r: "fst (merkle_build padded [''a0'', ''b'', ''c'']) = r" using b by (auto simp: merkle_build_def Let_def)
  from merkle_root_binds [OF d _ _ b r] b r show ?thesis by simp
qed

text \<open>
  What was put into the content-addressed store comes back under its digest after any further
  puts, and what comes back has that digest: it is the blob itself, or what was stored under that digest before it.
\<close>

theorem cas_get_back:
  assumes "run_ops (\<lambda>d s. Inr (snd (cas_put digest d s)) :: unit + cas_files) ds (\<lambda>_. None) = Inr s"
    and "cas_put digest d s = (h, s')"
    and "run_ops (\<lambda>d s. Inr (snd (cas_put digest d s)) :: unit + cas_files) es s' = Inr t"
  shows "\<exists>b. cas_get h t = Some b \<and> digest b = h \<and> h = digest (cas_blob d) \<and> (b = cas_blob d \<or> cas_get h s = Some b)"
proof -
  have "cas_ok digest (\<lambda>_. None)" by (simp add: cas_ok_def)
  from cas_machine.run_inv [OF this assms(1)] have "cas_ok digest s" .
  from cas_put_get [OF this assms(2)] obtain b where b: "cas_get h s' = Some b" "digest b = h" "h = digest (cas_blob d)"
    "b = cas_blob d \<or> cas_get h s = Some b" by blast
  with cas_run_keeps [OF assms(3) b(1)] show ?thesis by blast
qed

theorem cas_get_back_witness:
  "\<exists>h s' t. cas_put (\<lambda>x. x) (Blob_text ''abc'') (\<lambda>_. None) = (h, s')
     \<and> run_ops (\<lambda>d s. Inr (snd (cas_put (\<lambda>x. x) d s)) :: unit + cas_files) [Blob_text ''de''] s' = Inr t
     \<and> cas_get h t = Some (cas_blob (Blob_text ''abc''))"
proof -
  let ?step = "\<lambda>d s. Inr (snd (cas_put (\<lambda>x. x) d s)) :: unit + cas_files"
  have start: "run_ops ?step [] (\<lambda>_. None) = Inr (\<lambda>_. None)" by simp
  obtain h s' where p: "cas_put (\<lambda>x. x) (Blob_text ''abc'') (\<lambda>_. None) = (h, s')" by force
  obtain t where t: "run_ops ?step [Blob_text ''de''] s' = Inr t" by simp
  from cas_get_back [OF start p t] have "cas_get h t = Some (cas_blob (Blob_text ''abc''))" by (auto simp: cas_get_def)
  with p t show ?thesis by blast
qed

end
