(* ===== verification/P2pSync.thy ===== *)
theory P2pSync
  imports MerkleTree CrdtLww
begin

text \<open>
  \<open>p2p/merkle_sync.py\<close>, \<open>p2p/merkle_branch.py\<close> and \<open>_build_levels\<close> of \<open>routes/p2p_crdt_routes.py\<close>:
  the leaves a replica hashes for its entries, the comparison with the leaves of a peer, and the
  slices of the hash tree that answer for a window of leaves.
\<close>

section \<open>Leaves\<close>









section \<open>Branches\<close>

definition slice_window :: "int \<Rightarrow> int \<Rightarrow> int \<Rightarrow> py_error + int \<times> int" where
  \<comment> \<open>every check raises \<open>ValueError\<close>\<close>
  "slice_window tot start end =
     (if tot < 0 then Inl PyValueError
      else if start < 0 \<or> end < 0 then Inl PyValueError
      else if start \<ge> end then Inl PyValueError
      else if end > tot then Inl PyValueError
      else Inr (start, end))"

definition downscale_range :: "int \<Rightarrow> int \<Rightarrow> int \<times> int" where
  "downscale_range lo hi =
     (let plo = lo div 2; span = max 0 (hi - lo); phi = plo + (span + 1) div 2 in (plo, phi))"

record branch_slice =
  bs_level :: nat
  bs_offset :: int
  bs_hashes :: "string list"

definition branch_cut :: "nat \<Rightarrow> string list \<Rightarrow> int \<Rightarrow> int \<Rightarrow> branch_slice" where
  \<comment> \<open>\<open>hashes[cur_lo:cur_hi]\<close> of one level, empty when the window is\<close>
  "branch_cut L hashes lo hi =
     (if lo \<ge> hi then \<lparr>bs_level = L, bs_offset = lo, bs_hashes = []\<rparr>
      else \<lparr>bs_level = L, bs_offset = lo, bs_hashes = take (nat (hi - lo)) (drop (nat lo) hashes)\<rparr>)"

fun branch_loop :: "nat \<Rightarrow> string list list \<Rightarrow> int \<Rightarrow> int \<Rightarrow> branch_slice list" where
  "branch_loop L [] lo hi = []"
| "branch_loop L (hashes # levels) lo hi =
     (let t = int (length hashes);
          cur_lo = min lo (max 0 t);
          cur_hi = min hi (max 0 t);
          parents = downscale_range cur_lo cur_hi
      in if t = 1 then [branch_cut L hashes cur_lo cur_hi]
         else branch_cut L hashes cur_lo cur_hi # branch_loop (Suc L) levels (fst parents) (snd parents))"

definition branch_slices :: "string list list \<Rightarrow> int \<Rightarrow> int \<Rightarrow> py_error + branch_slice list" where
  "branch_slices levels start end =
     (if levels = [] then Inr []
      else bindE (slice_window (int (length (hd levels))) start end) (\<lambda>(lo, hi).
           Inr (branch_loop 0 levels lo hi)))"

section \<open>A leaf determines the entry\<close>













section \<open>Comparing leaves\<close>



section \<open>Windows\<close>

lemma slice_window_Inr: "slice_window tot lo hi = Inr r \<longleftrightarrow> r = (lo, hi) \<and> 0 \<le> lo \<and> lo < hi \<and> hi \<le> tot"
  by (auto simp: slice_window_def)

text \<open>The parent window covers the parents of the window iff it starts at an even index or has odd width.\<close>

lemma downscale_covers_iff:
  assumes "0 \<le> lo" "lo < hi" and d: "downscale_range lo hi = (plo, phi)"
  shows "(\<forall>i. lo \<le> i \<and> i < hi \<longrightarrow> plo \<le> i div 2 \<and> i div 2 < phi) \<longleftrightarrow> even lo \<or> odd (hi - lo)"
proof -
  have p: "plo = lo div 2" "phi = lo div 2 + (hi - lo + 1) div 2"
    using d assms(1,2) by (auto simp: downscale_range_def Let_def)
  have "(\<forall>i. lo \<le> i \<and> i < hi \<longrightarrow> plo \<le> i div 2 \<and> i div 2 < phi) \<longleftrightarrow> (hi - 1) div 2 < phi"
  proof
    assume a: "(hi - 1) div 2 < phi"
    show "\<forall>i. lo \<le> i \<and> i < hi \<longrightarrow> plo \<le> i div 2 \<and> i div 2 < phi"
    proof (intro allI impI)
      fix i
      assume "lo \<le> i \<and> i < hi"
      then have "lo div 2 \<le> i div 2" "i div 2 \<le> (hi - 1) div 2" by (auto intro: zdiv_mono1)
      with a p(1) show "plo \<le> i div 2 \<and> i div 2 < phi" by simp
    qed
  qed (use assms(2) in auto)
  also have "\<dots> \<longleftrightarrow> even lo \<or> odd (hi - lo)"
    unfolding p by presburger
  finally show ?thesis .
qed

text \<open>Every slice is a contiguous part of its level.\<close>

lemma branch_cut_slice:
  "0 \<le> lo \<Longrightarrow> bs_level (branch_cut L hashes lo hi) = L \<and> 0 \<le> bs_offset (branch_cut L hashes lo hi)
     \<and> bs_hashes (branch_cut L hashes lo hi)
         = take (length (bs_hashes (branch_cut L hashes lo hi))) (drop (nat (bs_offset (branch_cut L hashes lo hi))) hashes)"
  by (simp add: branch_cut_def min_def)

lemma downscale_nonneg: "0 \<le> lo \<Longrightarrow> 0 \<le> fst (downscale_range lo hi)"
  by (simp add: downscale_range_def Let_def)

lemma branch_loop_slices:
  "0 \<le> lo \<Longrightarrow> s \<in> set (branch_loop L levels lo hi) \<Longrightarrow>
   L \<le> bs_level s \<and> bs_level s < L + length levels \<and> 0 \<le> bs_offset s
 \<and> bs_hashes s = take (length (bs_hashes s)) (drop (nat (bs_offset s)) (levels ! (bs_level s - L)))"
proof (induction levels arbitrary: L lo hi)
  case Nil
  then show ?case by simp
next
  case (Cons hashes levels)
  define lo' hi' where "lo' = min lo (max 0 (int (length hashes)))" and "hi' = min hi (max 0 (int (length hashes)))"
  have nonneg: "0 \<le> lo'" using Cons.prems(1) by (simp add: lo'_def)
  from Cons.prems(2) consider (cut) "s = branch_cut L hashes lo' hi'"
    | (up) "s \<in> set (branch_loop (Suc L) levels (fst (downscale_range lo' hi')) (snd (downscale_range lo' hi')))"
    by (auto simp: Let_def lo'_def hi'_def split: if_splits)
  then show ?case
  proof cases
    case cut
    with branch_cut_slice [OF nonneg, of L hashes hi'] show ?thesis by simp
  next
    case up
    from Cons.IH [OF downscale_nonneg [OF nonneg] up] show ?thesis
      by (auto simp: nth_Cons' Suc_diff_le)
  qed
qed

section \<open>Properties\<close>






text \<open>
  A branch answers for the window asked for: it starts with the window itself on the leaf level,
  every slice is a contiguous part of its level at its offset, and a window that is empty, negative or
  beyond the leaves is refused.
\<close>

theorem branch_answers_window:
  assumes "levels \<noteq> []"
  shows "case branch_slices levels lo hi of
       Inl e \<Rightarrow> e = PyValueError \<and> \<not> (0 \<le> lo \<and> lo < hi \<and> hi \<le> int (length (hd levels)))
     | Inr out \<Rightarrow> 0 \<le> lo \<and> lo < hi \<and> hi \<le> int (length (hd levels))
         \<and> out \<noteq> [] \<and> hd out = \<lparr>bs_level = 0, bs_offset = lo, bs_hashes = take (nat (hi - lo)) (drop (nat lo) (hd levels))\<rparr>
         \<and> (\<forall>s \<in> set out. bs_level s < length levels \<and> 0 \<le> bs_offset s
              \<and> bs_hashes s = take (length (bs_hashes s)) (drop (nat (bs_offset s)) (levels ! bs_level s)))"
proof (cases "slice_window (int (length (hd levels))) lo hi")
  case (Inl e)
  then show ?thesis using assms by (auto simp: branch_slices_def slice_window_def split: if_splits)
next
  case (Inr r)
  then have r: "r = (lo, hi)" and b: "0 \<le> lo" "lo < hi" "hi \<le> int (length (hd levels))"
    by (auto simp: slice_window_Inr)
  have out: "branch_slices levels lo hi = Inr (branch_loop 0 levels lo hi)"
    using Inr r assms by (simp add: branch_slices_def)
  let ?out = "branch_loop 0 levels lo hi"
  have "hd ?out = branch_cut 0 (hd levels) lo hi" "?out \<noteq> []"
    using b assms by (cases levels; simp add: Let_def min_absorb1)+
  moreover have "\<forall>s \<in> set ?out. bs_level s < length levels \<and> 0 \<le> bs_offset s
      \<and> bs_hashes s = take (length (bs_hashes s)) (drop (nat (bs_offset s)) (levels ! bs_level s))"
    using branch_loop_slices [OF b(1), of _ 0 levels hi] by simp
  ultimately show ?thesis using b unfolding out by (simp add: branch_cut_def)
qed

theorem branch_answers_window_witness:
  "\<exists>out. branch_slices [[''a'', ''b'', ''c''], [''d'', ''e''], [''f'']] 1 3 = Inr out
     \<and> hd out = \<lparr>bs_level = 0, bs_offset = 1, bs_hashes = [''b'', ''c'']\<rparr>"
proof -
  let ?ls = "[[''a'', ''b'', ''c''], [''d'', ''e''], [''f'']] :: string list list"
  have "\<exists>out. branch_slices ?ls 1 3 = Inr out" by (simp add: branch_slices_def slice_window_def)
  then obtain out where out: "branch_slices ?ls 1 3 = Inr out" by blast
  have "?ls \<noteq> []" by simp
  from branch_answers_window [OF this, of 1 3] out show ?thesis by (simp add: eval_nat_numeral)
qed

text \<open>
  The slice above a window that starts at an odd index and has even width misses the parent of its
  last leaf: in a tree of four leaves, the branch for the leaves 1 and 2 lacks the node above leaf 2.
\<close>

lemma branch_misses_parent:
  "branch_slices [[''a'', ''b'', ''c'', ''d''], [''ab'', ''cd''], [''r'']] 1 3
     = Inr [\<lparr>bs_level = 0, bs_offset = 1, bs_hashes = [''b'', ''c'']\<rparr>,
            \<lparr>bs_level = 1, bs_offset = 0, bs_hashes = [''ab'']\<rparr>,
            \<lparr>bs_level = 2, bs_offset = 0, bs_hashes = [''r'']\<rparr>]"
  by (simp add: branch_slices_def slice_window_def branch_cut_def downscale_range_def Let_def eval_nat_numeral)

end
