(* ===== verification/VolitionGate.thy ===== *)
theory VolitionGate
  imports PyConv
begin

text \<open>
  \<open>modules/volition/volition_gate.py\<close>: the gate every action of the runtime asks.  A decision reads the
  policy (hours, network, pause, budgets of the caller), rolls the counting bucket, checks, counts what
  it lets through and journals.  In slot B it enforces; in slot A it only observes, and too many
  exceptions in a row throw the gate back into slot A.

  Arguments of a decision (record \<open>gate_env\<close>): the environment, what the autonomy and control states
  answered (absent when the module is missing, on the left when it raised), the readiness of the memory
  (only journalled; its five second cache is not represented), the seconds and the minute of the day,
  fresh identifiers, and the estimated energy, a floating point value that is only carried along.
  A decision is one step of the model.  The code checks the budget and counts against it under two separate
  acquisitions of its lock, so the statements are about decisions that are taken one after the other; two threads
  that both check before either counts may both be let through.
  What \<open>_decide_core\<close> does is a further argument of \<open>decide_with\<close>, because the code guards against its
  exceptions; \<open>decide\<close> passes the code's own \<open>decide_core\<close>.
\<close>

section \<open>Text helpers\<close>

fun split_once :: "char \<Rightarrow> string \<Rightarrow> (string \<times> string) option" where
  \<comment> \<open>\<open>s.split(c, 1)\<close> when it gives two parts\<close>
  "split_once c [] = None"
| "split_once c (x # xs) =
     (if x = c then Some ([], xs) else map_option (\<lambda>(a, b). (x # a, b)) (split_once c xs))"

function split_on :: "char \<Rightarrow> string \<Rightarrow> string list" where
  "split_on c s = (case split_once c s of None \<Rightarrow> [s] | Some (a, b) \<Rightarrow> a # split_on c b)"
  by auto
termination
proof (relation "measure (\<lambda>(c, s). length s)")
  fix c s p a b
  have "split_once c s = Some (a, b) \<Longrightarrow> length b < length s"
    by (induction s arbitrary: a) (auto split: if_splits)
  then show "split_once c s = Some p \<Longrightarrow> (a, b) = p \<Longrightarrow> ((c, b), c, s) \<in> measure (\<lambda>(c, s). length s)"
    by simp
qed simp

declare split_on.simps [simp del]

definition env_truthy :: "string option \<Rightarrow> bool" where
  \<comment> \<open>\<open>_truthy\<close> of an environment value\<close>
  "env_truthy v = (py_lower (py_strip (str_or v [])) \<in> {''1'', ''true'', ''yes'', ''on'', ''y''})"

definition int_env :: "(string \<Rightarrow> string option) \<Rightarrow> string \<Rightarrow> int \<Rightarrow> int" where
  "int_env getenv name dflt =
     (case int_of (PStr (py_strip (str_or (getenv name) (show_int dflt)))) of Inr i \<Rightarrow> i | Inl _ \<Rightarrow> dflt)"

definition norm_step :: "string \<Rightarrow> string" where
  "norm_step step =
     (let s = py_lower (py_strip (if step = [] then ''action'' else step))
      in if s \<in> {''initiative'', ''plan'', ''agent'', ''action'', ''http_route''} then s else ''action'')"

section \<open>Contexts\<close>

record volition_ctx =
  vc_chain_id :: string
  vc_step :: string
  vc_actor :: string
  vc_intent :: string
  vc_action_kind :: pyval
  vc_route :: pyval
  vc_needs :: "pyval list"
  vc_budgets :: pydict
  vc_metadata :: pydict

definition blank_ctx :: volition_ctx where
  "blank_ctx = \<lparr>vc_chain_id = [], vc_step = ''action'', vc_actor = ''ester'', vc_intent = [],
     vc_action_kind = PNone, vc_route = PNone, vc_needs = [], vc_budgets = [], vc_metadata = []\<rparr>"

datatype raw_ctx = Raw_ctx volition_ctx | Raw_dict pydict | Raw_other

fun ctx_from_any :: "raw_ctx \<Rightarrow> py_error + volition_ctx" where
  "ctx_from_any (Raw_ctx c) = Inr c"
| "ctx_from_any (Raw_dict d) =
     bindE (list_arg (dict_get d ''needs'')) (\<lambda>needs.
     bindE (dict_arg (dict_get d ''budgets'')) (\<lambda>budgets.
     bindE (dict_arg (dict_get d ''metadata'')) (\<lambda>metadata.
     Inr \<lparr>vc_chain_id = get_str d ''chain_id'',
          vc_step = py_str (py_or (dict_get d ''step'') (PStr ''action'')),
          vc_actor = py_str (py_or (dict_get d ''actor'') (PStr ''ester'')),
          vc_intent = get_str d ''intent'', vc_action_kind = dict_get d ''action_kind'',
          vc_route = dict_get d ''route'', vc_needs = needs, vc_budgets = budgets, vc_metadata = metadata\<rparr>)))"
| "ctx_from_any Raw_other = Inr blank_ctx"

definition opt_text :: "pyval \<Rightarrow> pyval" where
  "opt_text v = (if v = PNone then PNone else PStr (py_str v))"

definition normalized_ctx :: "volition_ctx \<Rightarrow> string \<Rightarrow> volition_ctx" where
  "normalized_ctx c u =
     (let chain = py_strip (vc_chain_id c);
          actor = py_strip (if vc_actor c = [] then ''ester'' else vc_actor c)
      in \<lparr>vc_chain_id = (if chain = [] then ''chain_'' @ take 12 u else chain),
          vc_step = norm_step (vc_step c),
          vc_actor = (if actor = [] then ''ester'' else actor),
          vc_intent = py_strip (vc_intent c),
          vc_action_kind = opt_text (vc_action_kind c), vc_route = opt_text (vc_route c),
          vc_needs = map (\<lambda>x. PStr (py_str x)) (filter (\<lambda>x. py_strip (py_str x) \<noteq> []) (vc_needs c)),
          vc_budgets = vc_budgets c, vc_metadata = vc_metadata c\<rparr>)"

section \<open>The state of the gate\<close>

record gate =
  vg_bucket_ts :: int
  vg_window_sec :: int
  vg_work_ms_used :: int
  vg_actions_used :: int
  vg_network_calls_used :: int
  vg_error_streak :: int
  vg_force_slot_a :: bool
  vg_journal :: "pydict list"

definition new_gate :: gate where
  "new_gate = \<lparr>vg_bucket_ts = 0, vg_window_sec = 60, vg_work_ms_used = 0, vg_actions_used = 0,
     vg_network_calls_used = 0, vg_error_streak = 0, vg_force_slot_a = False, vg_journal = []\<rparr>"

record gate_env =
  ge_getenv :: "string \<Rightarrow> string option"
  ge_autonomy :: "(string + pyval) option"
  ge_control :: "(string + bool) option"
  ge_memory_ready :: pyval
  ge_energy :: "pyval \<Rightarrow> int \<Rightarrow> py_error + pyval"
  ge_now :: int
  ge_minute :: int
  ge_duration_ms :: int
  ge_uuid :: ids

record gate_counters =
  gc_bucket_ts :: int
  gc_window_sec :: int
  gc_work_ms_used :: int
  gc_actions_used :: int
  gc_network_calls_used :: int

definition gate_counters_of :: "gate \<Rightarrow> gate_counters" where
  "gate_counters_of g = \<lparr>gc_bucket_ts = vg_bucket_ts g, gc_window_sec = vg_window_sec g,
     gc_work_ms_used = vg_work_ms_used g, gc_actions_used = vg_actions_used g,
     gc_network_calls_used = vg_network_calls_used g\<rparr>"

record gate_policy =
  vp_proactive :: bool
  vp_needs_network :: bool
  vp_network_env :: bool
  vp_hours :: string
  vp_in_hours :: bool
  vp_paused :: bool
  vp_window :: int
  vp_max_work_ms :: int
  vp_max_actions :: int
  vp_est_work_ms :: int
  vp_energy :: pyval
  vp_would :: "(bool \<times> string \<times> string) option"
  vp_exception :: "(string \<times> bool) option"

datatype gate_slot = Gate_A | Gate_B

fun gate_slot_value :: "gate_slot \<Rightarrow> string" where
  "gate_slot_value Gate_A = ''A''"
| "gate_slot_value Gate_B = ''B''"

record volition_decision =
  vd_id :: string
  vd_allowed :: bool
  vd_reason_code :: string
  vd_reason :: string
  vd_slot :: gate_slot
  vd_policy :: gate_policy
  vd_ts :: int
  vd_duration_ms :: int
  vd_counters :: gate_counters

section \<open>The policy\<close>

definition slot_of :: "gate_env \<Rightarrow> gate \<Rightarrow> gate_slot" where
  "slot_of E g =
     (if vg_force_slot_a g then Gate_A
      else if py_upper (py_strip (str_or (ge_getenv E ''ESTER_VOLITION_SLOT'') ''A'')) = ''B'' then Gate_B
      else Gate_A)"

definition network_env_allowed :: "gate_env \<Rightarrow> bool" where
  "network_env_allowed E =
     (env_truthy (ge_getenv E ''ESTER_ALLOW_NETWORK'') \<or> env_truthy (ge_getenv E ''ESTER_ALLOW_OUTBOUND_NETWORK''))"

definition allowed_hours :: "gate_env \<Rightarrow> string" where
  "allowed_hours E = py_strip (str_or (ge_getenv E ''ESTER_VOLITION_ALLOWED_HOURS'') ''07:00-23:00'')"

definition hour_minute :: "string \<Rightarrow> (int \<times> int) option" where
  "hour_minute s = (case split_once CHR '':'' s of
     None \<Rightarrow> None
   | Some (a, b) \<Rightarrow> (case (int_of (PStr a), int_of (PStr b)) of
       (Inr h, Inr m) \<Rightarrow> Some (h, m) | _ \<Rightarrow> None))"

definition clamp :: "int \<Rightarrow> int \<Rightarrow> int \<Rightarrow> int" where
  "clamp lo hi x = max lo (min hi x)"

definition time_in_window :: "string \<Rightarrow> int \<Rightarrow> bool" where
  "time_in_window window cur =
     (case map py_strip (split_on CHR ''-'' window) of
        [a, b] \<Rightarrow>
          (case (hour_minute a, hour_minute b) of
             (Some (sh, sm), Some (eh, em)) \<Rightarrow>
               (let start = clamp 0 23 sh * 60 + clamp 0 59 sm;
                    end = clamp 0 23 eh * 60 + clamp 0 59 em
                in if start \<le> end then start \<le> cur \<and> cur \<le> end else start \<le> cur \<or> cur \<le> end)
           | _ \<Rightarrow> True)
      | _ \<Rightarrow> True)"

definition autonomy_snapshot :: "gate_env \<Rightarrow> pydict" where
  "autonomy_snapshot E =
     (let snap = (case ge_autonomy E of
            None \<Rightarrow> []
          | Some (Inl e) \<Rightarrow> [(''autonomy_error'', PStr e)]
          | Some (Inr (PDict d)) \<Rightarrow> dict_merge [] d
          | Some (Inr _) \<Rightarrow> [])
      in case ge_control E of
           None \<Rightarrow> snap
         | Some (Inl e) \<Rightarrow> dict_set ''control_state_error'' (PStr e) snap
         | Some (Inr b) \<Rightarrow> dict_set ''control_paused'' (PBool b) snap)"

definition network_hints :: "string list" where
  "network_hints = [''network'', ''http'', ''https'', ''telegram'', ''webhook'', ''peer'', ''serp'', ''outbound'']"

definition has_hint :: "string \<Rightarrow> bool" where
  "has_hint low = list_ex (\<lambda>tok. py_contains tok low) network_hints"

definition needs_network :: "volition_ctx \<Rightarrow> bool" where
  "needs_network ctx =
     (list_ex (\<lambda>item. has_hint (py_lower (py_str (py_or item (PStr []))))) (vc_needs ctx)
    \<or> has_hint (py_lower (py_join '' '' [py_str (py_or (vc_action_kind ctx) (PStr [])),
         py_str (py_or (vc_route ctx) (PStr [])), vc_intent ctx])))"

definition or_env :: "gate_env \<Rightarrow> pydict \<Rightarrow> string \<Rightarrow> string \<Rightarrow> int \<Rightarrow> py_error + int" where
  \<comment> \<open>\<open>int(ctx.budgets.get(k) or _int_env(name, dflt))\<close>\<close>
  "or_env E budgets k name dflt = get_int budgets k (int_env (ge_getenv E) name dflt)"

definition is_proactive :: "volition_ctx \<Rightarrow> bool" where
  "is_proactive ctx = (vc_step ctx \<in> {''initiative'', ''plan'', ''agent'', ''action''}
     \<and> (vc_actor ctx = ''ester'' \<or> py_prefix ''agent:'' (vc_actor ctx)))"

definition build_policy :: "gate_env \<Rightarrow> volition_ctx \<Rightarrow> py_error + gate_policy" where
  \<comment> \<open>\<open>_build_policy\<close> with \<open>_budget_defaults\<close>\<close>
  "build_policy E ctx =
     bindE (or_env E (vc_budgets ctx) ''window'' ''ESTER_VOLITION_WINDOW_SEC'' 60) (\<lambda>window.
     bindE (or_env E (vc_budgets ctx) ''max_work_ms'' ''ESTER_VOLITION_MAX_WORK_MS'' 2000) (\<lambda>max_work.
     bindE (or_env E (vc_budgets ctx) ''max_actions'' ''ESTER_VOLITION_MAX_ACTIONS'' 3) (\<lambda>max_actions.
     bindE (or_env E (vc_budgets ctx) ''est_work_ms'' ''ESTER_VOLITION_EST_WORK_MS'' (min 250 (max 1 max_work))) (\<lambda>est.
     bindE (ge_energy E (dict_get (vc_budgets ctx) ''est_energy_j'') est) (\<lambda>energy.
     let snap = autonomy_snapshot E;
         hours = allowed_hours E
     in Inr \<lparr>vp_proactive = is_proactive ctx, vp_needs_network = needs_network ctx,
          vp_network_env = network_env_allowed E, vp_hours = hours,
          vp_in_hours = time_in_window hours (ge_minute E),
          vp_paused = truthy (py_or (dict_get snap ''paused'') (dict_get snap ''control_paused'')),
          vp_window = max 1 window, vp_max_work_ms = max 1 max_work, vp_max_actions = max 1 max_actions,
          vp_est_work_ms = max 1 (min max_work est), vp_energy = energy,
          vp_would = None, vp_exception = None\<rparr>)))))"

section \<open>Counting\<close>

definition bucket_of :: "int \<Rightarrow> int \<Rightarrow> int" where
  "bucket_of window_sec now = now div max 1 window_sec * max 1 window_sec"

definition roll_bucket :: "int \<Rightarrow> int \<Rightarrow> gate \<Rightarrow> gate" where
  "roll_bucket window_sec now g =
     (let bucket = bucket_of window_sec now in
      if bucket \<noteq> vg_bucket_ts g \<or> window_sec \<noteq> vg_window_sec g then
        g\<lparr>vg_bucket_ts := bucket, vg_window_sec := window_sec, vg_work_ms_used := 0, vg_actions_used := 0,
          vg_network_calls_used := 0\<rparr>
      else g)"

definition consume :: "bool \<Rightarrow> int \<Rightarrow> bool \<Rightarrow> gate \<Rightarrow> gate" where
  "consume proactive est_work_ms needs_net g =
     (let g1 = (if proactive
                then g\<lparr>vg_work_ms_used := vg_work_ms_used g + max 0 est_work_ms,
                       vg_actions_used := vg_actions_used g + 1\<rparr>
                else g)
      in if needs_net then g1\<lparr>vg_network_calls_used := vg_network_calls_used g1 + 1\<rparr> else g1)"

definition budget_allows :: "bool \<Rightarrow> int \<Rightarrow> bool \<Rightarrow> int \<Rightarrow> int \<Rightarrow> gate \<Rightarrow> bool \<times> string \<times> string" where
  "budget_allows proactive est_work_ms needs_net max_work_ms max_actions g =
     (if \<not> proactive then (True, ''ALLOW'', ''non_proactive_step'')
      else if max_actions < vg_actions_used g + 1 then
        (False, ''DENY_BUDGET'',
         ''actions budget exceeded: '' @ show_int (vg_actions_used g) @ ''/'' @ show_int max_actions)
      else if max_work_ms < vg_work_ms_used g + est_work_ms then
        (False, ''DENY_BUDGET'',
         ''work budget exceeded: '' @ show_int (vg_work_ms_used g) @ ''/'' @ show_int max_work_ms @ '' ms'')
      else if needs_net \<and> max_actions < vg_network_calls_used g + 1 then
        (False, ''DENY_BUDGET'', ''network calls budget exceeded'')
      else (True, ''ALLOW'', ''budget_ok''))"

definition decide_core :: "gate_policy \<Rightarrow> gate \<Rightarrow> bool \<times> string \<times> string" where
  "decide_core p g =
     (if vp_paused p then (False, ''DENY_PAUSED'', ''autonomy paused'')
      else if vp_proactive p \<and> \<not> vp_in_hours p then (False, ''DENY_WINDOW'', ''outside allowed proactive hours'')
      else if vp_needs_network p \<and> \<not> vp_network_env p then (False, ''DENY_NETWORK'', ''network disabled by env'')
      else let (b_ok, b_code, b_reason) = budget_allows (vp_proactive p) (vp_est_work_ms p) (vp_needs_network p)
                 (vp_max_work_ms p) (vp_max_actions p) g
           in if \<not> b_ok then (False, b_code, b_reason) else (True, ''ALLOW'', ''policy_allow''))"

definition note_error :: "gate_env \<Rightarrow> gate \<Rightarrow> bool \<times> gate" where
  "note_error E g =
     (let limit = max 1 (int_env (ge_getenv E) ''ESTER_VOLITION_AUTO_ROLLBACK_N'' 3);
          streak = vg_error_streak g + 1
      in if limit \<le> streak then (True, g\<lparr>vg_error_streak := streak, vg_force_slot_a := True\<rparr>)
         else (False, g\<lparr>vg_error_streak := streak\<rparr>))"

section \<open>The journal\<close>

fun opt_entry_would :: "(bool \<times> string \<times> string) option \<Rightarrow> pydict" where
  "opt_entry_would None = []"
| "opt_entry_would (Some (b, code, reason)) =
     [(''would_allow'', PBool b), (''would_reason_code'', PStr code), (''would_reason'', PStr reason)]"

fun opt_entry_exception :: "(string \<times> bool) option \<Rightarrow> pydict" where
  "opt_entry_exception None = []"
| "opt_entry_exception (Some (err, rolled)) =
     [(''exception'', PStr err), (''auto_rollback_to_A'', PBool rolled)]"

definition policy_dict :: "gate_policy \<Rightarrow> pydict" where
  "policy_dict p =
     [(''proactive_step'', PBool (vp_proactive p)), (''needs_network'', PBool (vp_needs_network p)),
      (''network_env_allowed'', PBool (vp_network_env p)), (''allowed_hours'', PStr (vp_hours p)),
      (''in_allowed_hours'', PBool (vp_in_hours p)), (''autonomy_paused'', PBool (vp_paused p)),
      (''window'', PInt (vp_window p)), (''max_work_ms'', PInt (vp_max_work_ms p)),
      (''max_actions'', PInt (vp_max_actions p)), (''est_work_ms'', PInt (vp_est_work_ms p)),
      (''est_energy_j'', vp_energy p)]
   @ opt_entry_would (vp_would p) @ opt_entry_exception (vp_exception p)"

definition counters_dict :: "gate_counters \<Rightarrow> pydict" where
  "counters_dict c =
     [(''bucket_ts'', PInt (gc_bucket_ts c)), (''window_sec'', PInt (gc_window_sec c)),
      (''work_ms_used'', PInt (gc_work_ms_used c)), (''actions_used'', PInt (gc_actions_used c)),
      (''network_calls_used'', PInt (gc_network_calls_used c))]"

definition step_index_of :: "pydict \<Rightarrow> pyval" where
  "step_index_of metadata = (let raw = dict_get metadata ''step_index'' in
     if raw = PNone then PNone else (case int_of raw of Inr i \<Rightarrow> PInt i | Inl _ \<Rightarrow> PNone))"

definition budgets_snapshot_of :: "volition_ctx \<Rightarrow> gate_policy \<Rightarrow> pydict" where
  "budgets_snapshot_of ctx p =
     (let raw = (case dict_get (vc_metadata ctx) ''budgets_snapshot'' of PDict d \<Rightarrow> d | _ \<Rightarrow> [])
      in if raw \<noteq> [] then raw
         else [(''time_window'', PInt (vp_window p)), (''max_ms'', PInt (vp_max_work_ms p)),
               (''max_steps'', PInt (vp_max_actions p)),
               (''oracle_window'', PStr (py_str
                  (py_or (dict_get (vc_metadata ctx) ''oracle_window'')
                  (py_or (dict_get (vc_metadata ctx) ''window_id'')
                  (py_or (dict_get (vc_budgets ctx) ''oracle_window'') (PStr []))))))])"

definition journal_record :: "gate_env \<Rightarrow> volition_ctx \<Rightarrow> volition_decision \<Rightarrow> pydict" where
  "journal_record E ctx d =
     (let m = vc_metadata ctx in
      [(''id'', PStr (vd_id d)), (''ts'', PInt (vd_ts d)), (''chain_id'', PStr (vc_chain_id ctx)),
       (''step'', PStr (vc_step ctx)), (''actor'', PStr (vc_actor ctx)), (''intent'', PStr (vc_intent ctx)),
       (''action_kind'', vc_action_kind ctx), (''route'', vc_route ctx),
       (''allowed'', PBool (vd_allowed d)), (''reason_code'', PStr (vd_reason_code d)),
       (''reason'', PStr (vd_reason d)), (''budgets'', PDict (vc_budgets ctx)),
       (''counters'', PDict (counters_dict (vd_counters d))), (''slot'', PStr (gate_slot_value (vd_slot d))),
       (''needs'', PList (vc_needs ctx)), (''metadata'', PDict m),
       (''agent_id'', PStr (get_str m ''agent_id'')), (''plan_id'', PStr (get_str m ''plan_id'')),
       (''step_index'', step_index_of m),
       (''action_id'', PStr (py_str (py_or (dict_get m ''action_id'') (py_or (vc_action_kind ctx) (PStr []))))),
       (''args_digest'', PStr (get_str m ''args_digest'')),
       (''budgets_snapshot'', PDict (budgets_snapshot_of ctx (vd_policy d))),
       (''decision'', PStr (if vd_allowed d then ''allow'' else ''deny'')),
       (''policy_hit'', PStr (py_str (py_or (dict_get m ''policy_hit'') (PStr (vd_reason_code d))))),
       (''autonomy_state'', PDict (autonomy_snapshot E)), (''memory_ready'', ge_memory_ready E),
       (''policy_snapshot'', PDict (policy_dict (vd_policy d))), (''duration_ms'', PInt (vd_duration_ms d))])"

section \<open>Deciding\<close>

definition mk_decision ::
  "gate_env \<Rightarrow> bool \<Rightarrow> string \<Rightarrow> string \<Rightarrow> gate_slot \<Rightarrow> gate_policy \<Rightarrow> gate_counters \<Rightarrow> volition_decision" where
  "mk_decision E allowed code reason slot p counters =
     \<lparr>vd_id = ''vol_'' @ ge_uuid E 1, vd_allowed = allowed, vd_reason_code = code, vd_reason = reason,
      vd_slot = slot, vd_policy = p, vd_ts = ge_now E, vd_duration_ms = max 0 (ge_duration_ms E),
      vd_counters = counters\<rparr>"

definition settle :: "gate_env \<Rightarrow> gate_slot \<Rightarrow> gate_policy \<Rightarrow> bool \<times> string \<times> string \<Rightarrow> gate \<Rightarrow> volition_decision \<times> gate" where
  \<comment> \<open>the \<open>try\<close> block after \<open>_decide_core\<close> has answered\<close>
  "settle E slot p answer g =
     (let (would_allow, code, reason) = answer;
          allowed = (case slot of Gate_B \<Rightarrow> would_allow | Gate_A \<Rightarrow> True);
          reason_code = (case slot of Gate_B \<Rightarrow> (if allowed then ''ALLOW'' else code) | Gate_A \<Rightarrow> ''ALLOW_SLOT_A'');
          reason_text = (case slot of
             Gate_B \<Rightarrow> (if allowed then ''allowed by policy'' else reason)
           | Gate_A \<Rightarrow> (if would_allow then ''observe-only slot A''
                        else ''observe-only slot A (would deny: '' @ code @ '')''));
          p' = (case slot of Gate_B \<Rightarrow> p | Gate_A \<Rightarrow> p\<lparr>vp_would := Some (would_allow, code, reason)\<rparr>);
          g1 = (if allowed then consume (vp_proactive p) (vp_est_work_ms p) (vp_needs_network p) g else g)
      in (mk_decision E allowed reason_code reason_text slot p' (gate_counters_of g1), g1\<lparr>vg_error_streak := 0\<rparr>))"

definition settle_exception :: "gate_env \<Rightarrow> gate_slot \<Rightarrow> gate_policy \<Rightarrow> string \<Rightarrow> gate \<Rightarrow> volition_decision \<times> gate" where
  \<comment> \<open>the \<open>except\<close> block\<close>
  "settle_exception E slot p err g =
     (let (rolled, g1) = note_error E g;
          p' = p\<lparr>vp_exception := Some (err, rolled)\<rparr>
      in case slot of
           Gate_B \<Rightarrow> (mk_decision E False ''DENY_EXCEPTION'' ''gate exception in enforce mode'' slot p'
                       (gate_counters_of g1), g1)
         | Gate_A \<Rightarrow> (mk_decision E True ''ALLOW_SLOT_A'' ''gate exception in observe mode'' slot p'
                       (gate_counters_of g1), g1))"

definition try_core ::
  "(gate_policy \<Rightarrow> gate \<Rightarrow> string + bool \<times> string \<times> string) \<Rightarrow> gate_env \<Rightarrow> gate_slot \<Rightarrow> gate_policy \<Rightarrow> gate \<Rightarrow>
   volition_decision \<times> gate" where
  "try_core core E slot p g = (case core p g of
     Inr answer \<Rightarrow> settle E slot p answer g
   | Inl err \<Rightarrow> settle_exception E slot p err g)"

definition decide_with ::
  "(gate_policy \<Rightarrow> gate \<Rightarrow> string + bool \<times> string \<times> string) \<Rightarrow> gate_env \<Rightarrow> raw_ctx \<Rightarrow> gate \<Rightarrow>
   py_error + volition_decision \<times> gate" where
  "decide_with core E raw g =
     bindE (ctx_from_any raw) (\<lambda>c.
     let ctx = normalized_ctx c (ge_uuid E 0); slot = slot_of E g in
     bindE (build_policy E ctx) (\<lambda>p.
     let (d, g2) = try_core core E slot p (roll_bucket (vp_window p) (ge_now E) g)
     in Inr (d, g2\<lparr>vg_journal := vg_journal g2 @ [journal_record E ctx d]\<rparr>)))"

definition gate_decide :: "gate_env \<Rightarrow> raw_ctx \<Rightarrow> gate \<Rightarrow> py_error + volition_decision \<times> gate" where
  \<comment> \<open>one decision from start to end, without another one in between\<close>
  "gate_decide E raw g = decide_with (\<lambda>p g. Inr (decide_core p g)) E raw g"

datatype ensure_error = Ensure_error py_error | Ensure_warning string

definition gate_ensure :: "gate_env \<Rightarrow> raw_ctx \<Rightarrow> gate \<Rightarrow> (ensure_error + volition_decision) \<times> gate" where
  \<comment> \<open>the warning is raised after the decision was counted and journalled\<close>
  "gate_ensure E raw g = (case gate_decide E raw g of
     Inl e \<Rightarrow> (Inl (Ensure_error e), g)
   | Inr (d, g') \<Rightarrow>
       if vd_slot d = Gate_A \<and> env_truthy (ge_getenv E ''ESTER_VOLITION_SLOTA_RAISE'')
          \<and> (case vp_would (vd_policy d) of None \<Rightarrow> False | Some (b, _, _) \<Rightarrow> \<not> b)
       then (Inl (Ensure_warning (''volition observe warning: '' @ vd_reason_code d)), g')
       else (Inr d, g'))"

end
