(* ===== verification/VolitionLaws.thy ===== *)
theory VolitionLaws
  imports VolitionGate
begin

text \<open>
  What the volition gate guarantees: when it allows, that it never lets more through in one bucket than
  the budget, what exceptions of the core do to it, and that a caller who alternates the window length
  is never counted.
\<close>

section \<open>One decision\<close>

definition within_budget :: "gate_policy \<Rightarrow> gate \<Rightarrow> bool" where
  "within_budget p g =
     (vp_proactive p \<longrightarrow> vg_actions_used g + 1 \<le> vp_max_actions p
        \<and> vg_work_ms_used g + vp_est_work_ms p \<le> vp_max_work_ms p
        \<and> (vp_needs_network p \<longrightarrow> vg_network_calls_used g + 1 \<le> vp_max_actions p))"

definition within_policy :: "gate_policy \<Rightarrow> gate \<Rightarrow> bool" where
  "within_policy p g =
     (\<not> vp_paused p \<and> (vp_proactive p \<longrightarrow> vp_in_hours p) \<and> (vp_needs_network p \<longrightarrow> vp_network_env p)
      \<and> within_budget p g)"

lemma budget_allows_iff:
  "fst (budget_allows (vp_proactive p) (vp_est_work_ms p) (vp_needs_network p) (vp_max_work_ms p) (vp_max_actions p) g)
     \<longleftrightarrow> within_budget p g"
  by (auto simp: budget_allows_def within_budget_def)

lemma decide_core_iff: "fst (decide_core p g) \<longleftrightarrow> within_policy p g"
  using budget_allows_iff [of p g] by (auto simp: decide_core_def within_policy_def Let_def split: prod.splits)

definition ctx_of :: "gate_env \<Rightarrow> raw_ctx \<Rightarrow> py_error + volition_ctx" where
  "ctx_of E raw = map_sum id (\<lambda>c. normalized_ctx c (ge_uuid E 0)) (ctx_from_any raw)"

definition policy_of :: "gate_env \<Rightarrow> raw_ctx \<Rightarrow> py_error + gate_policy" where
  "policy_of E raw = bindE (ctx_of E raw) (build_policy E)"

lemma policy_of_Inr:
  "policy_of E raw = Inr p \<longleftrightarrow>
     (\<exists>c. ctx_from_any raw = Inr c \<and> build_policy E (normalized_ctx c (ge_uuid E 0)) = Inr p)"
  by (cases "ctx_from_any raw") (simp_all add: policy_of_def ctx_of_def)

lemma policy_pos:
  assumes "policy_of E raw = Inr p"
  shows "1 \<le> vp_window p" "1 \<le> vp_max_actions p" "1 \<le> vp_max_work_ms p" "1 \<le> vp_est_work_ms p"
    "vp_would p = None" "vp_exception p = None"
  using assms by (auto simp: policy_of_Inr build_policy_def bindE_Inr_iff Let_def)

lemma decide_with_Inr:
  assumes "decide_with core E raw g = Inr (d, g')"
  shows "\<exists>c p g2. ctx_from_any raw = Inr c \<and> policy_of E raw = Inr p
     \<and> try_core core E (slot_of E g) p (roll_bucket (vp_window p) (ge_now E) g) = (d, g2)
     \<and> g' = g2\<lparr>vg_journal := vg_journal g2 @ [journal_record E (normalized_ctx c (ge_uuid E 0)) d]\<rparr>"
proof -
  from assms obtain c p where c: "ctx_from_any raw = Inr c" "build_policy E (normalized_ctx c (ge_uuid E 0)) = Inr p"
    and r: "(let (d, g2) = try_core core E (slot_of E g) p (roll_bucket (vp_window p) (ge_now E) g)
             in Inr (d, g2\<lparr>vg_journal := vg_journal g2 @ [journal_record E (normalized_ctx c (ge_uuid E 0)) d]\<rparr>))
           = (Inr (d, g') :: py_error + volition_decision \<times> gate)"
    unfolding decide_with_def Let_def bindE_Inr_iff by blast
  obtain d2 g2 where t: "try_core core E (slot_of E g) p (roll_bucket (vp_window p) (ge_now E) g) = (d2, g2)" by force
  with r have "d2 = d" "g' = g2\<lparr>vg_journal := vg_journal g2 @ [journal_record E (normalized_ctx c (ge_uuid E 0)) d]\<rparr>"
    by (auto simp del: gate.ext_inject)
  with c t show ?thesis by (auto simp: policy_of_Inr)
qed

lemma roll_simps [simp]:
  "vg_error_streak (roll_bucket w now g) = vg_error_streak g"
  "vg_force_slot_a (roll_bucket w now g) = vg_force_slot_a g"
  "vg_journal (roll_bucket w now g) = vg_journal g"
  "vg_bucket_ts (roll_bucket w now g) = bucket_of w now"
  "vg_window_sec (roll_bucket w now g) = w"
  by (auto simp: roll_bucket_def Let_def)

lemma consume_simps [simp]:
  "vg_error_streak (consume b w n g) = vg_error_streak g"
  "vg_force_slot_a (consume b w n g) = vg_force_slot_a g"
  "vg_journal (consume b w n g) = vg_journal g"
  "vg_bucket_ts (consume b w n g) = vg_bucket_ts g"
  "vg_window_sec (consume b w n g) = vg_window_sec g"
  "vg_actions_used (consume b w n g) = vg_actions_used g + (if b then 1 else 0)"
  "vg_work_ms_used (consume b w n g) = vg_work_ms_used g + (if b then max 0 w else 0)"
  "vg_network_calls_used (consume b w n g) = vg_network_calls_used g + (if n then 1 else 0)"
  by (auto simp: consume_def Let_def)

lemma settle_A:
  "settle E Gate_A p (b, code, reason) g =
     (mk_decision E True ''ALLOW_SLOT_A''
        (if b then ''observe-only slot A'' else ''observe-only slot A (would deny: '' @ code @ '')'')
        Gate_A (p\<lparr>vp_would := Some (b, code, reason)\<rparr>)
        (gate_counters_of (consume (vp_proactive p) (vp_est_work_ms p) (vp_needs_network p) g)),
      (consume (vp_proactive p) (vp_est_work_ms p) (vp_needs_network p) g)\<lparr>vg_error_streak := 0\<rparr>)"
  by (simp add: settle_def Let_def)

lemma settle_B:
  "settle E Gate_B p (b, code, reason) g =
     (let g1 = (if b then consume (vp_proactive p) (vp_est_work_ms p) (vp_needs_network p) g else g)
      in (mk_decision E b (if b then ''ALLOW'' else code) (if b then ''allowed by policy'' else reason)
            Gate_B p (gate_counters_of g1), g1\<lparr>vg_error_streak := 0\<rparr>))"
  by (simp add: settle_def Let_def)

lemma mk_decision_simps [simp]:
  "vd_allowed (mk_decision E b code reason slot p c) = b"
  "vd_slot (mk_decision E b code reason slot p c) = slot"
  "vd_policy (mk_decision E b code reason slot p c) = p"
  "vd_reason_code (mk_decision E b code reason slot p c) = code"
  by (simp_all add: mk_decision_def)

lemma settle_effect:
  assumes "settle E slot p answer g = (d, g')"
  shows "vd_allowed d = (slot = Gate_A \<or> fst answer)" "vd_slot d = slot"
    "vp_proactive (vd_policy d) = vp_proactive p" "vp_est_work_ms (vd_policy d) = vp_est_work_ms p"
    "vp_would (vd_policy d) = (if slot = Gate_A then Some answer else vp_would p)"
    "vg_force_slot_a g' = vg_force_slot_a g" "vg_error_streak g' = 0" "vg_journal g' = vg_journal g"
    "vg_bucket_ts g' = vg_bucket_ts g" "vg_window_sec g' = vg_window_sec g"
    "vg_actions_used g' = vg_actions_used g + (if vd_allowed d \<and> vp_proactive p then 1 else 0)"
    "vg_work_ms_used g' = vg_work_ms_used g + (if vd_allowed d \<and> vp_proactive p then max 0 (vp_est_work_ms p) else 0)"
    "vg_network_calls_used g' = vg_network_calls_used g + (if vd_allowed d \<and> vp_needs_network p then 1 else 0)"
proof -
  obtain b code reason where a: "answer = (b, code, reason)" by (cases answer)
  let ?c = "consume (vp_proactive p) (vp_est_work_ms p) (vp_needs_network p) g"
  have "(slot = Gate_A \<and> vd_allowed d \<and> vd_policy d = p\<lparr>vp_would := Some answer\<rparr> \<and> g' = ?c\<lparr>vg_error_streak := 0\<rparr>)
      \<or> (slot = Gate_B \<and> vd_allowed d = b \<and> vd_policy d = p \<and> g' = (if b then ?c else g)\<lparr>vg_error_streak := 0\<rparr>)"
    and sl: "vd_slot d = slot"
    using assms by (cases slot; auto simp: a settle_A settle_B Let_def)+
  then have D: "(slot = Gate_A \<and> vd_allowed d \<and> vd_policy d = p\<lparr>vp_would := Some answer\<rparr> \<and> g' = ?c\<lparr>vg_error_streak := 0\<rparr>)
      \<or> (slot = Gate_B \<and> vd_allowed d \<and> b \<and> vd_policy d = p \<and> g' = ?c\<lparr>vg_error_streak := 0\<rparr>)
      \<or> (slot = Gate_B \<and> \<not> vd_allowed d \<and> \<not> b \<and> vd_policy d = p \<and> g' = g\<lparr>vg_error_streak := 0\<rparr>)"
    by (cases b) auto
  show "vd_slot d = slot" by (rule sl)
  show "vd_allowed d = (slot = Gate_A \<or> fst answer)" using D a by auto
  show "vp_proactive (vd_policy d) = vp_proactive p" "vp_est_work_ms (vd_policy d) = vp_est_work_ms p"
    "vp_would (vd_policy d) = (if slot = Gate_A then Some answer else vp_would p)"
    using D by auto
  show "vg_force_slot_a g' = vg_force_slot_a g" "vg_error_streak g' = 0" "vg_journal g' = vg_journal g"
    "vg_bucket_ts g' = vg_bucket_ts g" "vg_window_sec g' = vg_window_sec g"
    using D by auto
  show "vg_actions_used g' = vg_actions_used g + (if vd_allowed d \<and> vp_proactive p then 1 else 0)"
    "vg_work_ms_used g' = vg_work_ms_used g + (if vd_allowed d \<and> vp_proactive p then max 0 (vp_est_work_ms p) else 0)"
    "vg_network_calls_used g' = vg_network_calls_used g + (if vd_allowed d \<and> vp_needs_network p then 1 else 0)"
    using D by auto
qed

lemma gate_decide_effect:
  assumes "gate_decide E raw g = Inr (d, g')"
  shows "\<exists>p. policy_of E raw = Inr p
     \<and> (let r = roll_bucket (vp_window p) (ge_now E) g in
          vd_slot d = slot_of E g \<and> vd_allowed d = (slot_of E g = Gate_A \<or> within_policy p r)
        \<and> vp_proactive (vd_policy d) = vp_proactive p \<and> vp_est_work_ms (vd_policy d) = vp_est_work_ms p
        \<and> (slot_of E g = Gate_A \<longrightarrow> (\<exists>code reason. vp_would (vd_policy d) = Some (within_policy p r, code, reason)))
        \<and> vg_force_slot_a g' = vg_force_slot_a g
        \<and> vg_bucket_ts g' = bucket_of (vp_window p) (ge_now E) \<and> vg_window_sec g' = vp_window p
        \<and> vg_actions_used g' = vg_actions_used r + (if vd_allowed d \<and> vp_proactive p then 1 else 0)
        \<and> vg_work_ms_used g' = vg_work_ms_used r + (if vd_allowed d \<and> vp_proactive p then vp_est_work_ms p else 0)
        \<and> vg_network_calls_used g' = vg_network_calls_used r + (if vd_allowed d \<and> vp_needs_network p then 1 else 0)
        \<and> (\<exists>rec. vg_journal g' = vg_journal g @ [rec] \<and> dict_get rec ''allowed'' = PBool (vd_allowed d)))"
proof -
  from decide_with_Inr [OF assms [unfolded gate_decide_def]] obtain c p g2 where p: "policy_of E raw = Inr p"
    and s: "settle E (slot_of E g) p (decide_core p (roll_bucket (vp_window p) (ge_now E) g))
              (roll_bucket (vp_window p) (ge_now E) g) = (d, g2)"
    and g': "g' = g2\<lparr>vg_journal := vg_journal g2 @ [journal_record E (normalized_ctx c (ge_uuid E 0)) d]\<rparr>"
    by (auto simp: try_core_def)
  let ?r = "roll_bucket (vp_window p) (ge_now E) g"
  note S = settle_effect [OF s]
  have w: "\<exists>code reason. decide_core p ?r = (within_policy p ?r, code, reason)"
    using decide_core_iff [of p ?r] by (cases "decide_core p ?r") auto
  have pos: "max 0 (vp_est_work_ms p) = vp_est_work_ms p" using policy_pos(4) [OF p] by simp
  have j: "dict_get (journal_record E (normalized_ctx c (ge_uuid E 0)) d) ''allowed'' = PBool (vd_allowed d)"
    by (simp add: journal_record_def Let_def dict_get_def)
  show ?thesis
    unfolding Let_def
  proof (intro exI [of _ p] conjI)
    show "slot_of E g = Gate_A \<longrightarrow> (\<exists>code reason. vp_would (vd_policy d) = Some (within_policy p ?r, code, reason))"
      using S(5) w by simp
    show "\<exists>rec. vg_journal g' = vg_journal g @ [rec] \<and> dict_get rec ''allowed'' = PBool (vd_allowed d)"
      using S(8) j by (simp add: g')
  qed (use p S pos decide_core_iff [of p ?r] g' in \<open>simp_all\<close>)
qed

section \<open>Many decisions\<close>

type_synonym gate_request = "gate_env \<times> raw_ctx"

fun decide_all ::
  "(gate_policy \<Rightarrow> gate \<Rightarrow> string + bool \<times> string \<times> string) \<Rightarrow> gate_request list \<Rightarrow> gate \<Rightarrow>
   py_error + volition_decision list \<times> gate" where
  "decide_all core [] g = Inr ([], g)"
| "decide_all core ((E, raw) # reqs) g =
     bindE (decide_with core E raw g) (\<lambda>(d, g').
     bindE (decide_all core reqs g') (\<lambda>(ds, g''). Inr (d # ds, g'')))"

definition the_core :: "gate_policy \<Rightarrow> gate \<Rightarrow> string + bool \<times> string \<times> string" where
  "the_core p g = Inr (decide_core p g)"

lemma decide_with_the_core: "decide_with the_core E raw g = gate_decide E raw g"
  by (simp add: gate_decide_def the_core_def [abs_def])

text \<open>Requests that share a bucket and stay below two limits.\<close>

definition same_bucket :: "int \<Rightarrow> int \<Rightarrow> int \<Rightarrow> int \<Rightarrow> gate_request \<Rightarrow> bool" where
  "same_bucket w b M K req = (case req of (E, raw) \<Rightarrow>
     (\<exists>p. policy_of E raw = Inr p \<and> vp_window p = w \<and> bucket_of w (ge_now E) = b
        \<and> vp_max_actions p \<le> M \<and> vp_max_work_ms p \<le> K))"

definition spends :: "volition_decision \<Rightarrow> bool" where
  "spends d = (vd_allowed d \<and> vp_proactive (vd_policy d))"

definition spent_ms :: "volition_decision list \<Rightarrow> int" where
  "spent_ms ds = sum_list (map (\<lambda>d. vp_est_work_ms (vd_policy d)) (filter spends ds))"

definition enforcing :: "gate \<Rightarrow> gate_request \<Rightarrow> bool" where
  "enforcing g req = (slot_of (fst req) g = Gate_B)"

lemma slot_of_force: "vg_force_slot_a g' = vg_force_slot_a g \<Longrightarrow> slot_of E g' = slot_of E g"
  by (simp add: slot_of_def)

lemma budget_step:
  assumes "gate_decide E raw g = Inr (d, g')" and "slot_of E g = Gate_B" and "same_bucket w b M K (E, raw)"
    and "vg_bucket_ts g = b" "vg_window_sec g = w"
  shows "vg_bucket_ts g' = b" "vg_window_sec g' = w" "vg_force_slot_a g' = vg_force_slot_a g"
    "vg_actions_used g' = vg_actions_used g + (if spends d then 1 else 0)"
    "vg_work_ms_used g' = vg_work_ms_used g + (if spends d then vp_est_work_ms (vd_policy d) else 0)"
    "spends d \<Longrightarrow> vg_actions_used g' \<le> M \<and> vg_work_ms_used g' \<le> K \<and> 0 \<le> vp_est_work_ms (vd_policy d)"
proof -
  from assms(3) obtain p where p: "policy_of E raw = Inr p" "vp_window p = w" "bucket_of w (ge_now E) = b"
    "vp_max_actions p \<le> M" "vp_max_work_ms p \<le> K" by (auto simp: same_bucket_def)
  have roll: "roll_bucket (vp_window p) (ge_now E) g = g"
    using assms(4,5) p(2,3) by (simp add: roll_bucket_def)
  from gate_decide_effect [OF assms(1)] p(1) assms(2) have
    a: "vd_allowed d = within_policy p g" "vp_proactive (vd_policy d) = vp_proactive p"
       "vp_est_work_ms (vd_policy d) = vp_est_work_ms p"
    and f: "vg_force_slot_a g' = vg_force_slot_a g" "vg_bucket_ts g' = bucket_of (vp_window p) (ge_now E)"
       "vg_window_sec g' = vp_window p"
       "vg_actions_used g' = vg_actions_used g + (if vd_allowed d \<and> vp_proactive p then 1 else 0)"
       "vg_work_ms_used g' = vg_work_ms_used g + (if vd_allowed d \<and> vp_proactive p then vp_est_work_ms p else 0)"
    by (auto simp: Let_def roll)
  show "vg_bucket_ts g' = b" "vg_window_sec g' = w" "vg_force_slot_a g' = vg_force_slot_a g"
    using f p by simp_all
  show "vg_actions_used g' = vg_actions_used g + (if spends d then 1 else 0)"
    "vg_work_ms_used g' = vg_work_ms_used g + (if spends d then vp_est_work_ms (vd_policy d) else 0)"
    using f a by (simp_all add: spends_def)
  show "vg_actions_used g' \<le> M \<and> vg_work_ms_used g' \<le> K \<and> 0 \<le> vp_est_work_ms (vd_policy d)" if "spends d"
  proof -
    have "vp_proactive p" "within_policy p g" using that a by (simp_all add: spends_def)
    then have "vg_actions_used g + 1 \<le> vp_max_actions p" "vg_work_ms_used g + vp_est_work_ms p \<le> vp_max_work_ms p"
      by (simp_all add: within_policy_def within_budget_def)
    then show ?thesis using f a that p(4,5) policy_pos(4) [OF p(1)] by (simp add: spends_def)
  qed
qed

lemma slot_of_roll [simp]: "slot_of E (roll_bucket w now g) = slot_of E g"
  by (rule slot_of_force) simp

lemma roll_roll [simp]: "roll_bucket w now (roll_bucket w now g) = roll_bucket w now g"
proof -
  have "vg_bucket_ts (roll_bucket w now g) = bucket_of w now" "vg_window_sec (roll_bucket w now g) = w" by simp_all
  then show ?thesis by (simp add: roll_bucket_def [of w now "roll_bucket w now g"])
qed

lemma decide_rolled:
  assumes "policy_of E raw = Inr p"
  shows "decide_with core E raw (roll_bucket (vp_window p) (ge_now E) g) = decide_with core E raw g"
  using assms by (auto simp: policy_of_Inr decide_with_def Let_def)

lemma budget_run_in_bucket:
  assumes "decide_all the_core reqs g = Inr (ds, g')" and "\<forall>req \<in> set reqs. same_bucket w b M K req"
    and "\<forall>req \<in> set reqs. enforcing g req" and "vg_bucket_ts g = b" "vg_window_sec g = w"
  shows "int (length (filter spends ds)) \<le> max 0 (M - vg_actions_used g) \<and> spent_ms ds \<le> max 0 (K - vg_work_ms_used g)"
  using assms
proof (induction reqs arbitrary: g ds)
  case Nil
  then show ?case by (simp add: spent_ms_def)
next
  case (Cons req reqs)
  obtain E raw where req: "req = (E, raw)" by force
  from Cons.prems(1) obtain d g1 ds' where d: "gate_decide E raw g = Inr (d, g1)"
    and ds': "decide_all the_core reqs g1 = Inr (ds', g')" and ds: "ds = d # ds'"
    by (auto simp: req bindE_Inr_iff decide_with_the_core)
  have B: "slot_of E g = Gate_B" "same_bucket w b M K (E, raw)"
    using Cons.prems(2,3) by (simp_all add: req enforcing_def)
  note S = budget_step [OF d B Cons.prems(4,5)]
  have "\<forall>req \<in> set reqs. enforcing g1 req"
    using Cons.prems(3) slot_of_force [OF S(3)] by (simp add: enforcing_def)
  with Cons.IH [OF ds' _ _ S(1,2)] Cons.prems(2)
  have IH: "int (length (filter spends ds')) \<le> max 0 (M - vg_actions_used g1)"
    "spent_ms ds' \<le> max 0 (K - vg_work_ms_used g1)" by auto
  show ?case
  proof (cases "spends d")
    case True
    with IH S(4-6) show ?thesis by (auto simp: ds spent_ms_def max_def split: if_splits)
  next
    case False
    with IH S(4,5) show ?thesis by (simp add: ds spent_ms_def)
  qed
qed

definition gate_sane :: "gate \<Rightarrow> bool" where
  "gate_sane g = (0 \<le> vg_actions_used g \<and> 0 \<le> vg_work_ms_used g \<and> 0 \<le> vg_network_calls_used g \<and> 0 \<le> vg_error_streak g)"

lemma roll_sane: "gate_sane g \<Longrightarrow> gate_sane (roll_bucket w now g)"
  by (auto simp: gate_sane_def roll_bucket_def Let_def)

lemma exception_effect:
  assumes "settle_exception E slot p err g = (d, g')"
  shows "vd_allowed d = (slot = Gate_A)" "vd_slot d = slot" "vg_error_streak g' = vg_error_streak g + 1"
    "vg_force_slot_a g' = (vg_force_slot_a g \<or>
       max 1 (int_env (ge_getenv E) ''ESTER_VOLITION_AUTO_ROLLBACK_N'' 3) \<le> vg_error_streak g + 1)"
    "vg_actions_used g' = vg_actions_used g" "vg_work_ms_used g' = vg_work_ms_used g"
    "vg_network_calls_used g' = vg_network_calls_used g"
  using assms
  by (cases slot; auto simp: settle_exception_def note_error_def Let_def split: if_splits)+

lemma try_core_sane: "gate_sane g \<Longrightarrow> try_core core E slot p g = (d, g') \<Longrightarrow> gate_sane g'"
proof (cases "core p g")
  case (Inl err)
  assume "gate_sane g" "try_core core E slot p g = (d, g')"
  with Inl exception_effect [of E slot p err g d g'] show ?thesis by (simp add: try_core_def gate_sane_def)
next
  case (Inr answer)
  assume "gate_sane g" "try_core core E slot p g = (d, g')"
  with Inr settle_effect [of E slot p answer g d g'] show ?thesis by (simp add: try_core_def gate_sane_def)
qed

definition gate_step ::
  "(gate_policy \<Rightarrow> gate \<Rightarrow> string + bool \<times> string \<times> string) \<Rightarrow> gate_request \<Rightarrow> gate \<Rightarrow> py_error + gate" where
  "gate_step core req g = map_sum id snd (decide_with core (fst req) (snd req) g)"

interpretation gate_machine: invariant_machine "gate_step core" gate_sane for core
proof unfold_locales
  fix g a t
  assume s: "gate_sane g" and "gate_step core a g = Inr t"
  then obtain d where "decide_with core (fst a) (snd a) g = Inr (d, t)"
    by (auto simp: gate_step_def map_sum_Inr_iff)
  from decide_with_Inr [OF this] obtain p g2 rec where
    "try_core core (fst a) (slot_of (fst a) g) p (roll_bucket (vp_window p) (ge_now (fst a)) g) = (d, g2)"
    and t: "t = g2\<lparr>vg_journal := rec\<rparr>" by blast
  from try_core_sane [OF roll_sane [OF s] this(1)] show "gate_sane t" by (simp add: t gate_sane_def)
qed

lemma budget_run:
  assumes "decide_all the_core reqs g = Inr (ds, g')" and "\<forall>req \<in> set reqs. same_bucket w b M K req"
    and "\<forall>req \<in> set reqs. enforcing g req" and "gate_sane g" and "0 \<le> M" "0 \<le> K"
  shows "int (length (filter spends ds)) \<le> M \<and> spent_ms ds \<le> K"
proof (cases reqs)
  case Nil
  with assms show ?thesis by (simp add: spent_ms_def)
next
  case (Cons req reqs')
  obtain E raw where req: "req = (E, raw)" by force
  from assms(2) obtain p where p: "policy_of E raw = Inr p" "vp_window p = w" "bucket_of w (ge_now E) = b"
    by (auto simp: Cons req same_bucket_def)
  let ?r = "roll_bucket w (ge_now E) g"
  have "decide_all the_core reqs ?r = Inr (ds, g')"
    using assms(1) decide_rolled [OF p(1), of the_core g] p(2) by (simp add: Cons req)
  moreover have "\<forall>req \<in> set reqs. enforcing ?r req" using assms(3) by (simp add: enforcing_def)
  ultimately have "int (length (filter spends ds)) \<le> max 0 (M - vg_actions_used ?r) \<and> spent_ms ds \<le> max 0 (K - vg_work_ms_used ?r)"
    using budget_run_in_bucket [OF _ assms(2)] p(3) by simp
  moreover have "0 \<le> vg_actions_used ?r" "0 \<le> vg_work_ms_used ?r"
    using roll_sane [OF assms(4)] by (simp_all add: gate_sane_def)
  ultimately show ?thesis using assms(5,6) by linarith
qed

section \<open>Exceptions of the core\<close>

definition rollback_limit :: "gate_env \<Rightarrow> int" where
  "rollback_limit E = max 1 (int_env (ge_getenv E) ''ESTER_VOLITION_AUTO_ROLLBACK_N'' 3)"

definition faulty_core :: "string \<Rightarrow> gate_policy \<Rightarrow> gate \<Rightarrow> string + bool \<times> string \<times> string" where
  "faulty_core err p g = Inl err"

lemma faulty_step:
  assumes "decide_with (faulty_core err) E raw g = Inr (d, g')"
  shows "vd_allowed d = (slot_of E g = Gate_A)" "vd_slot d = slot_of E g"
    "vg_error_streak g' = vg_error_streak g + 1"
    "vg_force_slot_a g' = (vg_force_slot_a g \<or> rollback_limit E \<le> vg_error_streak g + 1)"
proof -
  from decide_with_Inr [OF assms] obtain p g2 rec where
    t: "settle_exception E (slot_of E g) p err (roll_bucket (vp_window p) (ge_now E) g) = (d, g2)"
    and g': "g' = g2\<lparr>vg_journal := rec\<rparr>" by (auto simp: try_core_def faulty_core_def)
  note X = exception_effect [OF t]
  show "vd_allowed d = (slot_of E g = Gate_A)" "vd_slot d = slot_of E g"
    "vg_error_streak g' = vg_error_streak g + 1"
    "vg_force_slot_a g' = (vg_force_slot_a g \<or> rollback_limit E \<le> vg_error_streak g + 1)"
    using X by (simp_all add: g' rollback_limit_def)
qed

lemma faulty_run:
  assumes "decide_all (faulty_core err) reqs g = Inr (ds, g')" and "\<forall>req \<in> set reqs. rollback_limit (fst req) \<le> N"
  shows "vg_error_streak g' = vg_error_streak g + int (length reqs)
    \<and> (\<forall>d \<in> set ds. vd_allowed d = (vd_slot d = Gate_A)) \<and> (vg_force_slot_a g \<longrightarrow> vg_force_slot_a g')
    \<and> (reqs \<noteq> [] \<longrightarrow> N \<le> vg_error_streak g + int (length reqs) \<longrightarrow> vg_force_slot_a g')"
  using assms
proof (induction reqs arbitrary: g ds)
  case Nil
  then show ?case by simp
next
  case (Cons req reqs)
  obtain E raw where req: "req = (E, raw)" by force
  from Cons.prems(1) obtain d g1 ds' where d: "decide_with (faulty_core err) E raw g = Inr (d, g1)"
    and r: "decide_all (faulty_core err) reqs g1 = Inr (ds', g')" and ds: "ds = d # ds'"
    by (auto simp: req bindE_Inr_iff)
  note F = faulty_step [OF d]
  have N': "\<forall>req \<in> set reqs. rollback_limit (fst req) \<le> N" "rollback_limit E \<le> N"
    using Cons.prems(2) by (auto simp: req)
  note IH = Cons.IH [OF r N'(1)]
  have "vg_force_slot_a g'" if le: "N \<le> vg_error_streak g + int (length (req # reqs))"
  proof (cases "reqs = []")
    case True
    with le N'(2) F(4) r show ?thesis by simp
  next
    case False
    with le F(3) IH show ?thesis by simp
  qed
  with IH F show ?case by (simp add: ds)
qed

text \<open>Nothing takes the gate out of slot A again, and in slot A it allows everything.\<close>

lemma forced_step:
  assumes "decide_with core E raw g = Inr (d, g')" and "vg_force_slot_a g"
  shows "vd_allowed d \<and> vd_slot d = Gate_A \<and> vg_force_slot_a g'"
proof -
  from decide_with_Inr [OF assms(1)] obtain p g2 rec where
    t: "try_core core E (slot_of E g) p (roll_bucket (vp_window p) (ge_now E) g) = (d, g2)"
    and g': "g' = g2\<lparr>vg_journal := rec\<rparr>" by blast
  have A: "slot_of E g = Gate_A" using assms(2) by (simp add: slot_of_def)
  let ?r = "roll_bucket (vp_window p) (ge_now E) g"
  show ?thesis
  proof (cases "core p ?r")
    case (Inl err)
    with t A have x: "settle_exception E Gate_A p err ?r = (d, g2)" by (simp add: try_core_def)
    note X = exception_effect [OF x]
    show ?thesis using X(1,2,4) assms(2) by (simp add: g')
  next
    case (Inr answer)
    with t A have x: "settle E Gate_A p answer ?r = (d, g2)" by (simp add: try_core_def)
    note X = settle_effect [OF x]
    show ?thesis using X(1,2,6) assms(2) by (simp add: g')
  qed
qed

lemma forced_run:
  "decide_all core reqs g = Inr (ds, g') \<Longrightarrow> vg_force_slot_a g \<Longrightarrow> \<forall>d \<in> set ds. vd_allowed d \<and> vd_slot d = Gate_A"
proof (induction reqs arbitrary: g ds)
  case (Cons req reqs)
  obtain E raw where req: "req = (E, raw)" by force
  from Cons.prems(1) obtain d g1 ds' where d: "decide_with core E raw g = Inr (d, g1)"
    and r: "decide_all core reqs g1 = Inr (ds', g')" and ds: "ds = d # ds'"
    by (auto simp: req bindE_Inr_iff)
  from forced_step [OF d Cons.prems(2)] Cons.IH [OF r] show ?case by (simp add: ds)
qed simp

section \<open>Samples\<close>

definition sample_gate_env :: gate_env where
  "sample_gate_env = \<lparr>ge_getenv = [''ESTER_VOLITION_SLOT'' \<mapsto> ''B'', ''ESTER_VOLITION_ALLOWED_HOURS'' \<mapsto> ''always'',
       ''ESTER_VOLITION_AUTO_ROLLBACK_N'' \<mapsto> ''1''],
     ge_autonomy = None, ge_control = None, ge_memory_ready = PNone, ge_energy = (\<lambda>_ _. Inr PNone),
     ge_now = 7, ge_minute = 720, ge_duration_ms = 0, ge_uuid = (\<lambda>_. ''u'')\<rparr>"

definition sample_request :: "int \<Rightarrow> raw_ctx" where
  "sample_request w = Raw_ctx (blank_ctx\<lparr>vc_chain_id := ''c'', vc_budgets :=
     [(''window'', PInt w), (''max_work_ms'', PInt 2000), (''max_actions'', PInt 1), (''est_work_ms'', PInt 100)]\<rparr>)"

lemma sample_slot: "\<not> vg_force_slot_a g \<Longrightarrow> slot_of sample_gate_env g = Gate_B"
  by (simp add: slot_of_def sample_gate_env_def py_upper_def upper_char_def py_strip_def strip_by_def is_space_def code_point_def)

lemma sample_policy:
  "1 \<le> w \<Longrightarrow> \<exists>p. policy_of sample_gate_env (sample_request w) = Inr p \<and> vp_window p = w \<and> vp_max_actions p = 1
     \<and> vp_max_work_ms p = 2000 \<and> vp_est_work_ms p = 100 \<and> vp_proactive p \<and> vp_in_hours p \<and> \<not> vp_needs_network p
     \<and> \<not> vp_paused p"
  by (simp add: policy_of_Inr sample_request_def build_policy_def or_env_def get_int_def dict_get_def py_or_def
        normalized_ctx_def blank_ctx_def sample_gate_env_def Let_def is_proactive_def norm_step_def
        needs_network_def has_hint_def network_hints_def time_in_window_def allowed_hours_def split_on.simps
        autonomy_snapshot_def py_strip_def strip_by_def is_space_def code_point_def py_lower_def lower_char_def opt_text_def
        py_str_def)

section \<open>Properties\<close>

text \<open>
  C13: In slot B the gate allows an action exactly when the runtime is not paused, a proactive step is
  inside the allowed hours and its budgets, and a network need is permitted by the environment; in
  slot A it allows everything and records what slot B would have said.  What is allowed is counted,
  and every decision is journalled as made.
\<close>

theorem gate_decision:
  assumes "gate_decide E raw g = Inr (d, g')"
  shows "\<exists>p r. policy_of E raw = Inr p \<and> r = roll_bucket (vp_window p) (ge_now E) g
     \<and> (slot_of E g = Gate_B \<longrightarrow> (vd_allowed d \<longleftrightarrow> within_policy p r))
     \<and> (slot_of E g = Gate_A \<longrightarrow> vd_allowed d \<and> (\<exists>code reason. vp_would (vd_policy d) = Some (within_policy p r, code, reason)))
     \<and> vg_actions_used g' = vg_actions_used r + (if vd_allowed d \<and> vp_proactive p then 1 else 0)
     \<and> vg_work_ms_used g' = vg_work_ms_used r + (if vd_allowed d \<and> vp_proactive p then vp_est_work_ms p else 0)
     \<and> vg_network_calls_used g' = vg_network_calls_used r + (if vd_allowed d \<and> vp_needs_network p then 1 else 0)
     \<and> (\<exists>rec. vg_journal g' = vg_journal g @ [rec] \<and> dict_get rec ''allowed'' = PBool (vd_allowed d))"
proof -
  from gate_decide_effect [OF assms] obtain p where p: "policy_of E raw = Inr p" and
    "let r = roll_bucket (vp_window p) (ge_now E) g in
          vd_slot d = slot_of E g \<and> vd_allowed d = (slot_of E g = Gate_A \<or> within_policy p r)
        \<and> vp_proactive (vd_policy d) = vp_proactive p \<and> vp_est_work_ms (vd_policy d) = vp_est_work_ms p
        \<and> (slot_of E g = Gate_A \<longrightarrow> (\<exists>code reason. vp_would (vd_policy d) = Some (within_policy p r, code, reason)))
        \<and> vg_force_slot_a g' = vg_force_slot_a g
        \<and> vg_bucket_ts g' = bucket_of (vp_window p) (ge_now E) \<and> vg_window_sec g' = vp_window p
        \<and> vg_actions_used g' = vg_actions_used r + (if vd_allowed d \<and> vp_proactive p then 1 else 0)
        \<and> vg_work_ms_used g' = vg_work_ms_used r + (if vd_allowed d \<and> vp_proactive p then vp_est_work_ms p else 0)
        \<and> vg_network_calls_used g' = vg_network_calls_used r + (if vd_allowed d \<and> vp_needs_network p then 1 else 0)
        \<and> (\<exists>rec. vg_journal g' = vg_journal g @ [rec] \<and> dict_get rec ''allowed'' = PBool (vd_allowed d))" by blast
  note e = this(2) [unfolded Let_def]
  have "slot_of E g = Gate_B \<Longrightarrow> slot_of E g \<noteq> Gate_A" by simp
  with p e show ?thesis
    by (intro exI [of _ p] exI [of _ "roll_bucket (vp_window p) (ge_now E) g"] conjI impI) blast+
qed

lemma sample_decision: "1 \<le> w \<Longrightarrow> \<exists>d g'. gate_decide sample_gate_env (sample_request w) g = Inr (d, g')"
  using sample_policy [of w]
  by (auto simp: gate_decide_def decide_with_def policy_of_Inr Let_def split: prod.splits)

lemma new_gate_simps [simp]: "gate_sane new_gate" "\<not> vg_force_slot_a new_gate" "vg_actions_used new_gate = 0"
  by (simp_all add: gate_sane_def new_gate_def)

theorem gate_decision_witness:
  "\<exists>d g'. gate_decide sample_gate_env (sample_request 60) new_gate = Inr (d, g') \<and> vd_allowed d \<and> vg_actions_used g' = 1"
proof -
  obtain d g' where d: "gate_decide sample_gate_env (sample_request 60) new_gate = Inr (d, g')"
    using sample_decision [of 60 new_gate] by auto
  obtain p where p: "policy_of sample_gate_env (sample_request 60) = Inr p" "vp_max_actions p = 1" "vp_max_work_ms p = 2000"
    "vp_est_work_ms p = 100" "vp_proactive p" "vp_in_hours p" "\<not> vp_needs_network p" "\<not> vp_paused p"
    using sample_policy [of 60] by auto
  have "slot_of sample_gate_env new_gate = Gate_B" by (rule sample_slot) simp
  moreover have "vg_actions_used (roll_bucket w t new_gate) = 0 \<and> vg_work_ms_used (roll_bucket w t new_gate) = 0" for w t
    by (simp add: roll_bucket_def new_gate_def Let_def)
  moreover from gate_decision [OF d] p(1) have
    "slot_of sample_gate_env new_gate = Gate_B \<longrightarrow>
       (vd_allowed d \<longleftrightarrow> within_policy p (roll_bucket (vp_window p) (ge_now sample_gate_env) new_gate))"
    "vg_actions_used g' = vg_actions_used (roll_bucket (vp_window p) (ge_now sample_gate_env) new_gate)
       + (if vd_allowed d \<and> vp_proactive p then 1 else 0)" by auto
  ultimately have "vd_allowed d" "vg_actions_used g' = 1"
    using p(2-) by (simp_all add: within_policy_def within_budget_def)
  with d show ?thesis by blast
qed

lemma decide_all_append:
  "decide_all core (xs @ ys) g = Inr (ds, g') \<longleftrightarrow>
     (\<exists>es fs h. decide_all core xs g = Inr (es, h) \<and> decide_all core ys h = Inr (fs, g') \<and> ds = es @ fs)"
  by (induction xs arbitrary: g ds) (auto simp: bindE_Inr_iff)

lemma decide_all_after:
  "decide_all the_core reqs g = Inr (ds, g') \<Longrightarrow> gate_sane g \<Longrightarrow>
     length ds = length reqs \<and> gate_sane g' \<and> vg_force_slot_a g' = vg_force_slot_a g"
proof (induction reqs arbitrary: g ds)
  case (Cons req reqs)
  obtain E raw where req: "req = (E, raw)" by force
  from Cons.prems(1) obtain d g1 ds' where d: "gate_decide E raw g = Inr (d, g1)"
    and ds': "decide_all the_core reqs g1 = Inr (ds', g')" and ds: "ds = d # ds'"
    by (auto simp: req bindE_Inr_iff decide_with_the_core)
  have "gate_step the_core req g = Inr g1" by (simp add: gate_step_def req decide_with_the_core d)
  then have "gate_sane g1" using gate_machine.step_inv Cons.prems(2) by blast
  from Cons.IH [OF ds' this] gate_decide_effect [OF d] show ?case by (auto simp: ds Let_def)
qed simp

text \<open>
  C14: in any run of decisions, taken one after the other, and for any stretch of it in which all requests use the
  same window length, fall into the same bucket and ask for at most \<open>M\<close> actions and \<open>K\<close> milliseconds: slot B lets at
  most \<open>M\<close> proactive ones of the stretch through, and their estimated work is at most \<open>K\<close> in all, whatever was decided
  before and after it.  (A request with another window length ends a stretch: \<open>gate_window_switch\<close>.)
\<close>

theorem gate_budget:
  assumes "decide_all the_core (before @ reqs @ after) g = Inr (ds, g')" and "\<forall>req \<in> set reqs. same_bucket w b M K req"
    and "\<forall>req \<in> set reqs. enforcing g req" and "gate_sane g" and "0 \<le> M" "0 \<le> K"
  defines "stretch \<equiv> take (length reqs) (drop (length before) ds)"
  shows "int (length (filter spends stretch)) \<le> M \<and> spent_ms stretch \<le> K"
proof -
  obtain es fs hs g1 g2 where r: "decide_all the_core before g = Inr (es, g1)" "decide_all the_core reqs g1 = Inr (fs, g2)"
    "ds = es @ fs @ hs" using assms(1) by (auto simp: decide_all_append)
  note b = decide_all_after [OF r(1) assms(4)]
  note m = decide_all_after [OF r(2)]
  have "stretch = fs" using b m by (simp add: stretch_def r(3))
  moreover have "\<forall>req \<in> set reqs. enforcing g1 req" using assms(3) slot_of_force [of g1 g] b by (simp add: enforcing_def)
  ultimately show ?thesis using budget_run [OF r(2) assms(2)] b assms(5,6) by blast
qed

lemma sample_gate_run: "1 \<le> w \<Longrightarrow> \<exists>ds g'. decide_all the_core (replicate n (sample_gate_env, sample_request w)) g = Inr (ds, g')"
proof (induction n arbitrary: g)
  case (Suc n)
  obtain d g1 where "gate_decide sample_gate_env (sample_request w) g = Inr (d, g1)"
    using sample_decision [OF Suc.prems] by blast
  with Suc.IH [OF Suc.prems, of g1] show ?case by (auto simp: decide_with_the_core)
qed simp

theorem gate_budget_witness:
  "\<exists>ds g'. decide_all the_core (replicate 1 (sample_gate_env, sample_request 61) @ replicate 5 (sample_gate_env, sample_request 60)
       @ replicate 1 (sample_gate_env, sample_request 61)) new_gate = Inr (ds, g')
     \<and> int (length (filter spends (take 5 (drop 1 ds)))) \<le> 1 \<and> spent_ms (take 5 (drop 1 ds)) \<le> 2000"
proof -
  let ?a = "replicate 1 (sample_gate_env, sample_request 61)" and ?m = "replicate 5 (sample_gate_env, sample_request 60)"
  obtain ds1 g1 where d1: "decide_all the_core ?a new_gate = Inr (ds1, g1)" using sample_gate_run [of 61 1 new_gate] by auto
  obtain ds2 g2 where d2: "decide_all the_core ?m g1 = Inr (ds2, g2)" using sample_gate_run [of 60 5 g1] by auto
  obtain ds3 g3 where d3: "decide_all the_core ?a g2 = Inr (ds3, g3)" using sample_gate_run [of 61 1 g2] by auto
  have d: "decide_all the_core (?a @ ?m @ ?a) new_gate = Inr (ds1 @ ds2 @ ds3, g3)"
    unfolding decide_all_append using d1 d2 d3 by blast
  have "same_bucket 60 (bucket_of 60 7) 1 2000 (sample_gate_env, sample_request 60)"
    using sample_policy [of 60] by (auto simp: same_bucket_def sample_gate_env_def)
  then have s: "\<forall>req \<in> set ?m. same_bucket 60 (bucket_of 60 7) 1 2000 req" by simp
  have e: "\<forall>req \<in> set ?m. enforcing new_gate req" using sample_slot by (simp add: enforcing_def)
  from gate_budget [OF d s e] d show ?thesis by (intro exI [of _ "ds1 @ ds2 @ ds3"] exI [of _ g3]) simp
qed

text \<open>
  When the core raises, slot B denies and slot A allows; after as many exceptions in a row as the
  environment allows, the gate is in slot A for good: from then on it allows every action, whatever the
  core says.
\<close>

theorem gate_rollback:
  assumes "decide_all (faulty_core err) reqs g = Inr (ds, g')" and "\<forall>req \<in> set reqs. rollback_limit (fst req) \<le> N"
    and "gate_sane g" and "reqs \<noteq> []" and "N \<le> int (length reqs)" and "decide_all core later g' = Inr (es, g'')"
  shows "(\<forall>d \<in> set ds. vd_allowed d = (vd_slot d = Gate_A)) \<and> (\<forall>d \<in> set es. vd_allowed d \<and> vd_slot d = Gate_A)"
proof -
  have "N \<le> vg_error_streak g + int (length reqs)" using assms(3,5) by (simp add: gate_sane_def)
  with faulty_run [OF assms(1,2)] assms(4) have "\<forall>d \<in> set ds. vd_allowed d = (vd_slot d = Gate_A)" "vg_force_slot_a g'"
    by simp_all
  with forced_run [OF assms(6)] show ?thesis by blast
qed

theorem gate_rollback_witness:
  "\<exists>d g' e g''. decide_with (faulty_core ''e'') sample_gate_env (sample_request 60) new_gate = Inr (d, g') \<and> \<not> vd_allowed d
     \<and> gate_decide sample_gate_env (sample_request 60) g' = Inr (e, g'') \<and> vd_slot e = Gate_A"
proof -
  obtain p where p: "policy_of sample_gate_env (sample_request 60) = Inr p" using sample_policy [of 60] by auto
  then have "\<exists>d g'. decide_with (faulty_core ''e'') sample_gate_env (sample_request 60) new_gate = Inr (d, g')"
    by (auto simp: decide_with_def policy_of_Inr Let_def split: prod.splits)
  then obtain d g' where d: "decide_with (faulty_core ''e'') sample_gate_env (sample_request 60) new_gate = Inr (d, g')" by blast
  then have ds: "decide_all (faulty_core ''e'') [(sample_gate_env, sample_request 60)] new_gate = Inr ([d], g')" by simp
  obtain e g'' where e: "gate_decide sample_gate_env (sample_request 60) g' = Inr (e, g'')"
    using sample_decision [of 60 g'] by auto
  then have es: "decide_all the_core [(sample_gate_env, sample_request 60)] g' = Inr ([e], g'')"
    by (simp add: decide_with_the_core)
  have "rollback_limit sample_gate_env \<le> 1"
    by (simp add: rollback_limit_def int_env_def sample_gate_env_def parse_int_def py_strip_def strip_by_def
          is_space_def code_point_def is_dec_def)
  then have "(\<forall>x \<in> set [d]. vd_allowed x = (vd_slot x = Gate_A)) \<and> (\<forall>x \<in> set [e]. vd_allowed x \<and> vd_slot x = Gate_A)"
    by (intro gate_rollback [OF ds _ _ _ _ es, of 1]) simp_all
  moreover have "vd_slot d = Gate_B" using faulty_step(2) [OF d] sample_slot [of new_gate] by simp
  ultimately show ?thesis using d e by auto
qed

fun alternating :: "nat \<Rightarrow> int \<Rightarrow> int \<Rightarrow> gate_request list" where
  "alternating 0 v w = []"
| "alternating (Suc n) v w = (sample_gate_env, sample_request v) # alternating n w v"

text \<open>
  The bucket belongs to the window length the caller names: callers that alternate between two
  lengths are counted from zero each time, so slot B lets any number of requests through in the same
  second although each asks for at most one action.
\<close>

theorem gate_window_switch:
  assumes "1 \<le> v" "1 \<le> w" "v \<noteq> w" and "vg_window_sec g \<noteq> v" and "\<not> vg_force_slot_a g"
  shows "\<exists>ds g'. decide_all the_core (alternating n v w) g = Inr (ds, g') \<and> length ds = n
     \<and> (\<forall>d \<in> set ds. vd_slot d = Gate_B \<and> spends d)"
  using assms
proof (induction n arbitrary: v w g)
  case (Suc n)
  obtain d g1 where d: "gate_decide sample_gate_env (sample_request v) g = Inr (d, g1)"
    using sample_decision [OF Suc.prems(1)] by blast
  obtain p where p: "policy_of sample_gate_env (sample_request v) = Inr p" "vp_window p = v" "vp_max_actions p = 1"
    "vp_max_work_ms p = 2000" "vp_est_work_ms p = 100" "vp_proactive p" "vp_in_hours p" "\<not> vp_needs_network p" "\<not> vp_paused p"
    using sample_policy [OF Suc.prems(1)] by auto
  have B: "slot_of sample_gate_env g = Gate_B" by (rule sample_slot [OF Suc.prems(5)])
  have "vg_actions_used (roll_bucket v t g) = 0 \<and> vg_work_ms_used (roll_bucket v t g) = 0" for t
    using Suc.prems(4) by (simp add: roll_bucket_def Let_def)
  then have "within_policy p (roll_bucket v t g)" for t using p by (simp add: within_policy_def within_budget_def)
  with gate_decide_effect [OF d] p B have
    "vd_slot d = Gate_B" "spends d" "vg_window_sec g1 = v" "vg_force_slot_a g1 = vg_force_slot_a g"
    by (auto simp: Let_def spends_def)
  moreover from this Suc.prems obtain ds g' where "decide_all the_core (alternating n w v) g1 = Inr (ds, g')"
    "length ds = n" "\<forall>d \<in> set ds. vd_slot d = Gate_B \<and> spends d"
    using Suc.IH [of w v g1] by auto
  ultimately show ?case using d by (auto simp: decide_with_the_core)
qed simp

theorem gate_window_switch_witness:
  "\<exists>ds g'. decide_all the_core (alternating 100 61 60) new_gate = Inr (ds, g') \<and> length ds = 100 \<and> (\<forall>d \<in> set ds. spends d)"
  using gate_window_switch [of 61 60 new_gate 100] by (auto simp: new_gate_def)

end
