(* ===== verification/PyState.thy ===== *)
theory PyState
  imports PyConv PyFiles
begin

text \<open>
  Operations that change a state and may raise half way: what was done before the exception stays done.
  An operation takes the state and returns the outcome beside the new state.
\<close>

type_synonym ('s, 'a) py_action = "'s \<Rightarrow> (py_error + 'a) \<times> 's"

definition retS :: "'a \<Rightarrow> ('s, 'a) py_action" where
  "retS x s = (Inr x, s)"

definition liftS :: "py_error + 'a \<Rightarrow> ('s, 'a) py_action" where
  \<comment> \<open>a computation that may raise but does not touch the state\<close>
  "liftS m s = (m, s)"

definition modifyS :: "('s \<Rightarrow> 's) \<Rightarrow> ('s, unit) py_action" where
  "modifyS f s = (Inr (), f s)"

definition readS :: "('s \<Rightarrow> py_error + 'a) \<Rightarrow> ('s, 'a) py_action" where
  "readS f s = (f s, s)"

definition bindS :: "('s, 'a) py_action \<Rightarrow> ('a \<Rightarrow> ('s, 'b) py_action) \<Rightarrow> ('s, 'b) py_action" where
  "bindS m f s = (case m s of (Inl e, s') \<Rightarrow> (Inl e, s') | (Inr x, s') \<Rightarrow> f x s')"

definition tryS :: "('s, 'a) py_action \<Rightarrow> (py_error \<Rightarrow> ('s, 'a) py_action) \<Rightarrow> ('s, 'a) py_action" where
  \<comment> \<open>\<open>try: m except Exception as e: h(e)\<close>\<close>
  "tryS m h s = (case m s of (Inl e, s') \<Rightarrow> h e s' | (Inr x, s') \<Rightarrow> (Inr x, s'))"

lemma bindS_simps [simp]:
  "bindS (retS x) f s = f x s"
  "bindS (modifyS h) g s = g () (h s)"
  "bindS (liftS (Inr x)) f s = f x s"
  "bindS (liftS (Inl e)) f s = (Inl e, s)"
  by (simp_all add: bindS_def retS_def modifyS_def liftS_def)

lemma bindS_readS [simp]:
  "bindS (readS r) f s = (case r s of Inl e \<Rightarrow> (Inl e, s) | Inr x \<Rightarrow> f x s)"
  by (simp add: bindS_def readS_def split: sum.splits)

lemma bindS_liftS: "bindS (liftS m) f s = (case m of Inl e \<Rightarrow> (Inl e, s) | Inr x \<Rightarrow> f x s)"
  by (simp add: bindS_def liftS_def split: sum.splits)

lemma bindS_ok: "m s = (Inr x, s') \<Longrightarrow> bindS m f s = f x s'"
  by (simp add: bindS_def)

lemma bindS_fail: "m s = (Inl e, s') \<Longrightarrow> bindS m f s = (Inl e, s')"
  by (simp add: bindS_def)

lemma retS_simp [simp]: "retS x s = (Inr x, s)"
  by (simp add: retS_def)

section \<open>Leases\<close>

text \<open>
  What a caller may rely on when it holds a time-boxed permission: it runs out by itself, and only an
  operation that grants it makes its holder live.
\<close>

locale lease =
  fixes ok :: "'o \<Rightarrow> bool"
    and at :: "'o \<Rightarrow> int"
    and grants :: "'o \<Rightarrow> string \<Rightarrow> bool"
    and step :: "'o \<Rightarrow> 's \<Rightarrow> 's"
    and inv :: "'s \<Rightarrow> bool"
    and holder :: "int \<Rightarrow> 's \<Rightarrow> string option"
  assumes step_inv: "ok a \<Longrightarrow> inv s \<Longrightarrow> inv (step a s)"
    and runs_out: "t \<le> t' \<Longrightarrow> holder t' s = Some i \<Longrightarrow> holder t s = Some i"
    and step_holder: "ok a \<Longrightarrow> inv s \<Longrightarrow> holder (at a) (step a s) = Some i \<Longrightarrow> grants a i \<or> holder (at a) s = Some i"
begin

lemma run_inv: "list_all ok as \<Longrightarrow> inv s \<Longrightarrow> inv (fold step as s)"
  by (induction as arbitrary: s) (auto intro: step_inv)

text \<open>A permission that is gone stays gone while nobody grants it again.\<close>

lemma gone:
  "list_all ok as \<Longrightarrow> inv s \<Longrightarrow> sorted (map at as) \<Longrightarrow> \<forall>a \<in> set as. t \<le> at a \<and> at a \<le> t' \<Longrightarrow> t \<le> t'
   \<Longrightarrow> \<forall>a \<in> set as. \<not> grants a i \<Longrightarrow> holder t s \<noteq> Some i \<Longrightarrow> holder t' (fold step as s) \<noteq> Some i"
proof (induction as arbitrary: s t)
  case Nil
  then show ?case using runs_out [of t t' s i] by auto
next
  case (Cons a as)
  have a: "ok a" "t \<le> at a" "at a \<le> t'" "\<not> grants a i" using Cons.prems by auto
  have "holder (at a) s \<noteq> Some i" using runs_out [OF a(2)] Cons.prems(7) by blast
  then have "holder (at a) (step a s) \<noteq> Some i" using step_holder [OF a(1) Cons.prems(2)] a(4) by blast
  moreover have "sorted (map at as)" "\<forall>b \<in> set as. at a \<le> at b \<and> at b \<le> t'" using Cons.prems(3,4) by auto
  ultimately have "holder t' (fold step as (step a s)) \<noteq> Some i"
    using Cons.prems(1,6) a(3) step_inv [OF a(1) Cons.prems(2)] by (intro Cons.IH [of "step a s" "at a"]) auto
  then show ?case by simp
qed

end

end
