(* ===== verification/ExecWindow.thy ===== *)
theory ExecWindow
  imports PyState
begin

text \<open>
  \<open>modules/runtime/execution_window.py\<close>: the time-boxed permission to execute.  The state file holds one
  window as a dictionary; every change appends an event.  Arguments (record \<open>window_env\<close>): the
  environment, the time \<open>we_now\<close> that an operation compares with the expiry, the time \<open>we_stamp\<close> it
  writes into records, a fresh identifier, and \<open>datetime.fromtimestamp(ts, utc).isoformat()\<close>.
  Writing the state file always succeeds here (the fall-back of \<open>_atomic_write_json\<close> is not represented).
\<close>

section \<open>State\<close>

record window_env =
  we_getenv :: "string \<Rightarrow> string option"
  we_now :: int
  we_stamp :: int
  we_uuid :: string
  we_iso :: "int \<Rightarrow> py_error + string"

record window_world =
  ww_file :: "jtext option"
  ww_events :: "pydict list"

type_synonym 'a window_action = "(window_world, 'a) py_action"

definition budgets_dict :: "int \<Rightarrow> int \<Rightarrow> int \<Rightarrow> pydict" where
  "budgets_dict ttl secs energy =
     [(''ttl_sec'', PInt ttl), (''budget_seconds'', PInt secs), (''budget_energy'', PInt energy)]"

definition usage_dict :: "int \<Rightarrow> int \<Rightarrow> int \<Rightarrow> pydict" where
  "usage_dict secs energy ticks =
     [(''seconds_used'', PInt secs), (''energy_used'', PInt energy), (''ticks_total'', PInt ticks)]"

definition env_int :: "window_env \<Rightarrow> string \<Rightarrow> string \<Rightarrow> py_error + int" where
  \<comment> \<open>\<open>int(os.getenv(name, dflt) or dflt)\<close>\<close>
  "env_int E name dflt = int_of (PStr (str_or (we_getenv E name) dflt))"

definition default_budgets :: "window_env \<Rightarrow> py_error + int \<times> int \<times> int" where
  "default_budgets E =
     bindE (env_int E ''ESTER_EXECUTION_TTL_SEC'' ''600'') (\<lambda>t. let ttl = max 1 t in
     bindE (env_int E ''ESTER_EXECUTION_BUDGET_SECONDS'' (show_int ttl)) (\<lambda>s.
     bindE (env_int E ''ESTER_EXECUTION_BUDGET_ENERGY'' ''100'') (\<lambda>e.
     Inr (ttl, max 1 s, max 1 e))))"

definition window_default_state :: "window_env \<Rightarrow> py_error + pydict" where
  "window_default_state E =
     bindE (default_budgets E) (\<lambda>(ttl, secs, energy).
     Inr [(''open'', PBool False), (''window_id'', PStr []), (''opened_ts'', PInt 0), (''expires_ts'', PInt 0),
          (''actor'', PStr []), (''reason'', PStr []), (''meta'', PDict []),
          (''budgets'', PDict (budgets_dict ttl secs energy)), (''usage'', PDict (usage_dict 0 0 0)),
          (''updated_ts'', PInt (we_stamp E))])"

fun set_opt :: "string \<Rightarrow> int option \<Rightarrow> pydict \<Rightarrow> pydict" where
  "set_opt k None d = d"
| "set_opt k (Some i) d = dict_set k (PInt i) d"

definition normalize_budgets ::
  "window_env \<Rightarrow> pyval \<Rightarrow> int option \<Rightarrow> int option \<Rightarrow> int option \<Rightarrow> py_error + int \<times> int \<times> int" where
  "normalize_budgets E raw ttl_sec budget_seconds budget_energy =
     bindE (dict_arg raw) (\<lambda>src0.
     let src = set_opt ''budget_energy'' budget_energy
                 (set_opt ''budget_seconds'' budget_seconds (set_opt ''ttl_sec'' ttl_sec src0))
     in bindE (default_budgets E) (\<lambda>(ttl, secs, energy).
        bindE (get_int src ''ttl_sec'' ttl) (\<lambda>t.
        bindE (get_int src ''budget_seconds'' secs) (\<lambda>s.
        bindE (get_int src ''budget_energy'' energy) (\<lambda>e.
        Inr (max 1 t, max 1 s, max 1 e))))))"

definition load_window_state :: "window_env \<Rightarrow> window_world \<Rightarrow> py_error + pydict" where
  "load_window_state E w = (case ww_file w of
     None \<Rightarrow> window_default_state E
   | Some text \<Rightarrow>
       bindE (case text of JVal (PDict d) \<Rightarrow> Inr d | _ \<Rightarrow> window_default_state E) (\<lambda>raw.
       bindE (window_default_state E) (\<lambda>st0.
       let st = dict_merge st0 raw in
       bindE (dict_arg (dict_get st ''meta'')) (\<lambda>meta.
       bindE (normalize_budgets E (dict_get st ''budgets'') None None None) (\<lambda>(ttl, secs, energy).
       bindE (dict_arg (dict_get st ''usage'')) (\<lambda>usage.
       bindE (get_int usage ''seconds_used'' 0) (\<lambda>us.
       bindE (get_int usage ''energy_used'' 0) (\<lambda>ue.
       bindE (get_int usage ''ticks_total'' 0) (\<lambda>ut.
       bindE (get_int st ''updated_ts'' (we_stamp E)) (\<lambda>upd.
       Inr (dict_set ''updated_ts'' (PInt upd)
           (dict_set ''usage'' (PDict (usage_dict (max 0 us) (max 0 ue) (max 0 ut)))
           (dict_set ''budgets'' (PDict (budgets_dict ttl secs energy))
           (dict_set ''meta'' (PDict meta) st))))))))))))))"

definition save_window_state :: "window_env \<Rightarrow> pydict \<Rightarrow> unit window_action" where
  "save_window_state E st =
     modifyS (\<lambda>w. w\<lparr>ww_file := Some (JVal (PDict (dict_set ''updated_ts'' (PInt (we_stamp E)) st)))\<rparr>)"

definition window_event ::
  "window_env \<Rightarrow> string \<Rightarrow> string \<Rightarrow> string \<Rightarrow> string \<Rightarrow> pydict \<Rightarrow> pydict \<Rightarrow> pydict \<Rightarrow> unit window_action" where
  "window_event E event window_id actor reason budgets usage meta =
     modifyS (\<lambda>w. w\<lparr>ww_events := ww_events w @
       [[(''ts'', PInt (we_stamp E)), (''event'', PStr (py_strip event)), (''window_id'', PStr (py_strip window_id)),
         (''actor'', PStr (py_strip actor)), (''reason'', PStr (py_strip reason)), (''budgets'', PDict budgets),
         (''usage'', PDict usage), (''meta'', PDict meta)]]\<rparr>)"

definition shut :: "pydict \<Rightarrow> pydict" where
  \<comment> \<open>the four assignments that close a window, in \<open>_refresh_expired_locked\<close> and \<open>close_window\<close>\<close>
  "shut st = dict_set ''reason'' (PStr []) (dict_set ''expires_ts'' (PInt 0)
               (dict_set ''window_id'' (PStr []) (dict_set ''open'' (PBool False) st)))"

definition refresh_expired :: "window_env \<Rightarrow> pydict \<Rightarrow> pydict window_action" where
  "refresh_expired E st =
     (if \<not> truthy (dict_get st ''open'') then retS st
      else bindS (liftS (get_int st ''expires_ts'' 0)) (\<lambda>expires.
        if we_now E < expires then retS st
        else
          bindS (liftS (dict_arg (dict_get st ''budgets''))) (\<lambda>budgets.
          bindS (liftS (dict_arg (dict_get st ''usage''))) (\<lambda>usage.
          bindS (liftS (dict_arg (dict_get st ''meta''))) (\<lambda>meta.
          bindS (window_event E ''expire'' (get_str st ''window_id'')
                   (py_str (py_or (dict_get st ''actor'') (PStr ''system''))) ''ttl_expired'' budgets usage meta) (\<lambda>_.
          retS (shut st)))))))"

definition load_refreshed :: "window_env \<Rightarrow> pydict window_action" where
  "load_refreshed E = bindS (readS (load_window_state E)) (refresh_expired E)"

definition budgets_left :: "pydict \<Rightarrow> int \<Rightarrow> py_error + pydict" where
  "budgets_left st now =
     bindE (dict_arg (dict_get st ''budgets'')) (\<lambda>budgets.
     bindE (dict_arg (dict_get st ''usage'')) (\<lambda>usage.
     bindE (get_int st ''expires_ts'' 0) (\<lambda>expires.
     bindE (get_int budgets ''budget_seconds'' 0) (\<lambda>bs.
     bindE (get_int usage ''seconds_used'' 0) (\<lambda>us.
     bindE (get_int budgets ''budget_energy'' 0) (\<lambda>be.
     bindE (get_int usage ''energy_used'' 0) (\<lambda>ue.
     Inr [(''ttl_remaining'', PInt (max 0 (expires - now))),
          (''budget_seconds_left'', PInt (max 0 (bs - us))),
          (''budget_energy_left'', PInt (max 0 (be - ue)))])))))))"

section \<open>Operations\<close>

definition fail_reply :: "string \<Rightarrow> pydict \<Rightarrow> pydict" where
  "fail_reply code extra = [(''ok'', PBool False), (''error'', PStr code)] @ extra"

definition is_agent_actor :: "string \<Rightarrow> bool" where
  "is_agent_actor actor = (let low = py_lower actor in low = ''agent'' \<or> py_prefix ''agent:'' low)"

definition clean_actor :: "string \<Rightarrow> string" where
  "clean_actor actor = (let a = py_strip (if actor = [] then ''ester'' else actor) in if a = [] then ''ester'' else a)"

definition open_window ::
  "window_env \<Rightarrow> string \<Rightarrow> string \<Rightarrow> int option \<Rightarrow> int option \<Rightarrow> int option \<Rightarrow> pydict \<Rightarrow> pydict window_action" where
  "open_window E actor reason ttl_sec budget_seconds budget_energy meta =
     (let now = we_now E; who = clean_actor actor; why = py_strip reason in
      bindS (liftS (normalize_budgets E (PDict []) ttl_sec budget_seconds budget_energy)) (\<lambda>(ttl, secs, energy).
      let budgets = budgets_dict ttl secs energy in
      if is_agent_actor who then
        bindS (window_event E ''deny_open'' [] who ''actor_forbidden'' budgets [] meta) (\<lambda>_.
        retS (fail_reply ''actor_forbidden'' []))
      else if why = [] then
        bindS (window_event E ''deny_open'' [] who ''reason_required'' budgets [] meta) (\<lambda>_.
        retS (fail_reply ''reason_required'' []))
      else
        let window_id = ''ew_'' @ take 12 (we_uuid E); expires = now + ttl in
        bindS (load_refreshed E) (\<lambda>st.
        bindS (save_window_state E
          (dict_set ''usage'' (PDict (usage_dict 0 0 0)) (dict_set ''budgets'' (PDict budgets)
          (dict_set ''meta'' (PDict meta) (dict_set ''reason'' (PStr why) (dict_set ''actor'' (PStr who)
          (dict_set ''expires_ts'' (PInt expires) (dict_set ''opened_ts'' (PInt now)
          (dict_set ''window_id'' (PStr window_id) (dict_set ''open'' (PBool True) st)))))))))) (\<lambda>_.
        bindS (window_event E ''open'' window_id who why budgets (usage_dict 0 0 0) meta) (\<lambda>_.
        bindS (liftS (we_iso E expires)) (\<lambda>at.
        retS [(''ok'', PBool True), (''window_id'', PStr window_id), (''expires_ts'', PInt expires),
              (''expires_at'', PStr at), (''budgets'', PDict budgets)]))))))"

definition close_window :: "window_env \<Rightarrow> string \<Rightarrow> string \<Rightarrow> string \<Rightarrow> pydict window_action" where
  "close_window E window_id actor reason =
     (let wid = py_strip window_id in
      if wid = [] then retS (fail_reply ''window_id_required'' [])
      else bindS (load_refreshed E) (\<lambda>st.
        if \<not> truthy (dict_get st ''open'') \<or> get_str st ''window_id'' \<noteq> wid then
          retS (fail_reply ''window_not_found'' [(''window_id'', PStr wid)])
        else
          bindS (liftS (dict_arg (dict_get st ''budgets''))) (\<lambda>budgets.
          bindS (liftS (dict_arg (dict_get st ''usage''))) (\<lambda>usage.
          bindS (liftS (dict_arg (dict_get st ''meta''))) (\<lambda>meta.
          bindS (save_window_state E (shut st)) (\<lambda>_.
          bindS (window_event E ''close'' wid (if actor = [] then ''ester'' else actor) reason budgets usage meta) (\<lambda>_.
          retS [(''ok'', PBool True), (''window_id'', PStr wid)])))))))"

definition note_usage :: "window_env \<Rightarrow> string \<Rightarrow> int \<Rightarrow> int \<Rightarrow> pydict window_action" where
  "note_usage E window_id used_seconds used_energy =
     (let wid = py_strip window_id in
      bindS (load_refreshed E) (\<lambda>st.
      if \<not> truthy (dict_get st ''open'') \<or> wid = [] \<or> wid \<noteq> get_str st ''window_id'' then
        bindS (liftS (budgets_left st (we_now E))) (\<lambda>left.
        retS (fail_reply ''window_not_open'' [(''window_id'', PStr wid), (''budgets_left'', PDict left)]))
      else
        bindS (liftS (dict_arg (dict_get st ''usage''))) (\<lambda>usage.
        bindS (liftS (get_int usage ''seconds_used'' 0)) (\<lambda>us.
        bindS (liftS (get_int usage ''energy_used'' 0)) (\<lambda>ue.
        bindS (liftS (get_int usage ''ticks_total'' 0)) (\<lambda>ut.
        let usage' = dict_set ''ticks_total'' (PInt (max 0 (ut + 1)))
                    (dict_set ''energy_used'' (PInt (max 0 (ue + max 0 used_energy)))
                    (dict_set ''seconds_used'' (PInt (max 0 (us + max 0 used_seconds))) usage));
            st' = dict_set ''usage'' (PDict usage') st
        in bindS (save_window_state E st') (\<lambda>_.
           bindS (liftS (budgets_left st' (we_now E))) (\<lambda>left.
           retS [(''ok'', PBool True), (''window_id'', PStr wid), (''usage'', PDict usage'),
                 (''budgets_left'', PDict left)]))))))))"

definition current_window :: "window_env \<Rightarrow> pydict window_action" where
  "current_window E =
     bindS (load_refreshed E) (\<lambda>st.
     bindS (save_window_state E st) (\<lambda>_.
     let open_now = truthy (dict_get st ''open'') in
     bindS (liftS (budgets_left st (we_now E))) (\<lambda>left.
     bindS (liftS (get_int left ''ttl_remaining'' 0)) (\<lambda>ttl.
     bindS (liftS (get_int st ''expires_ts'' 0)) (\<lambda>expires.
     bindS (liftS (if open_now then bindE (get_int st ''expires_ts'' (we_now E)) (\<lambda>x. map_sum id PStr (we_iso E x))
                   else Inr PNone)) (\<lambda>at.
     bindS (liftS (dict_arg (dict_get st ''budgets''))) (\<lambda>budgets.
     bindS (liftS (dict_arg (dict_get st ''usage''))) (\<lambda>usage.
     bindS (liftS (dict_arg (dict_get st ''meta''))) (\<lambda>meta.
     retS [(''ok'', PBool True), (''open'', PBool open_now),
           (''window_id'', PStr (if open_now then get_str st ''window_id'' else [])),
           (''remaining_sec'', PInt (if open_now then ttl else 0)), (''expires_ts'', PInt expires),
           (''expires_at'', at), (''actor'', PStr (get_str st ''actor'')), (''reason'', PStr (get_str st ''reason'')),
           (''budgets'', PDict budgets), (''budgets_left'', PDict left), (''usage'', PDict usage),
           (''meta'', PDict meta)])))))))))"

definition window_is_open :: "window_env \<Rightarrow> string \<Rightarrow> pydict window_action" where
  "window_is_open E window_id =
     (let wid = py_strip window_id in
      bindS (current_window E) (\<lambda>cur.
      let open_now = (truthy (dict_get cur ''open'') \<and> \<not> (wid \<noteq> [] \<and> get_str cur ''window_id'' \<noteq> wid));
          out = dict_set ''open'' (PBool open_now) cur
      in retS (if open_now then out else dict_set ''remaining_sec'' (PInt 0) out)))"

definition list_windows :: "window_env \<Rightarrow> pydict window_action" where
  "list_windows E =
     bindS (current_window E) (\<lambda>cur.
     if truthy (dict_get cur ''open'') then
       bindS (liftS (get_int cur ''expires_ts'' 0)) (\<lambda>expires.
       bindS (liftS (as_dict (py_or (dict_get cur ''budgets'') (PDict [])))) (\<lambda>b0.
       bindS (liftS (get_int b0 ''ttl_sec'' 0)) (\<lambda>ttl.
       bindS (liftS (get_int cur ''remaining_sec'' 0)) (\<lambda>remaining.
       bindS (liftS (dict_arg (dict_get cur ''budgets''))) (\<lambda>budgets.
       bindS (liftS (dict_arg (dict_get cur ''budgets_left''))) (\<lambda>left.
       bindS (liftS (dict_arg (dict_get cur ''usage''))) (\<lambda>usage.
       bindS (liftS (dict_arg (dict_get cur ''meta''))) (\<lambda>meta.
       retS [(''ok'', PBool True), (''count'', PInt 1), (''windows'', PList [PDict
         [(''id'', PStr (get_str cur ''window_id'')), (''window_id'', PStr (get_str cur ''window_id'')),
          (''created_ts'', PInt (expires - ttl)), (''expires_ts'', PInt expires), (''remaining_sec'', PInt remaining),
          (''reason'', PStr (get_str cur ''reason'')), (''actor'', PStr (get_str cur ''actor'')),
          (''budgets'', PDict budgets), (''budgets_left'', PDict left), (''usage'', PDict usage),
          (''meta'', PDict meta)]])]))))))))
     else retS [(''ok'', PBool True), (''count'', PInt 0), (''windows'', PList [])])"

end
