(* ===== verification/ExecWindowLaws.thy ===== *)
theory ExecWindowLaws
  imports ExecWindow
begin

text \<open>
  The execution window as a lease.  A state file written by the module is the dictionary of a record
  \<open>win\<close>; on such files every operation succeeds and acts on the window that is live at the time of the
  call as the specification \<open>spec_window\<close> says.
\<close>

section \<open>The record behind the state file\<close>

record win =
  wn_open :: bool
  wn_id :: string
  wn_opened :: int
  wn_expires :: int
  wn_actor :: string
  wn_reason :: string
  wn_meta :: pydict
  wn_budgets :: "int \<times> int \<times> int"
  wn_usage :: "int \<times> int \<times> int"
  wn_updated :: int

fun limits_dict :: "int \<times> int \<times> int \<Rightarrow> pydict" where
  "limits_dict (a, b, c) = budgets_dict a b c"

fun used_dict :: "int \<times> int \<times> int \<Rightarrow> pydict" where
  "used_dict (a, b, c) = usage_dict a b c"

definition win_dict :: "win \<Rightarrow> pydict" where
  "win_dict x =
     [(''open'', PBool (wn_open x)), (''window_id'', PStr (wn_id x)), (''opened_ts'', PInt (wn_opened x)),
      (''expires_ts'', PInt (wn_expires x)), (''actor'', PStr (wn_actor x)), (''reason'', PStr (wn_reason x)),
      (''meta'', PDict (wn_meta x)), (''budgets'', PDict (limits_dict (wn_budgets x))),
      (''usage'', PDict (used_dict (wn_usage x))), (''updated_ts'', PInt (wn_updated x))]"

fun all_ge :: "int \<Rightarrow> int \<times> int \<times> int \<Rightarrow> bool" where
  "all_ge m (a, b, c) = (m \<le> a \<and> m \<le> b \<and> m \<le> c)"

definition win_wf :: "win \<Rightarrow> bool" where
  "win_wf x = (all_ge 1 (wn_budgets x) \<and> all_ge 0 (wn_usage x))"

lemma win_dict_get [simp]:
  "dict_get (win_dict x) ''open'' = PBool (wn_open x)"
  "dict_get (win_dict x) ''window_id'' = PStr (wn_id x)"
  "dict_get (win_dict x) ''opened_ts'' = PInt (wn_opened x)"
  "dict_get (win_dict x) ''expires_ts'' = PInt (wn_expires x)"
  "dict_get (win_dict x) ''actor'' = PStr (wn_actor x)"
  "dict_get (win_dict x) ''reason'' = PStr (wn_reason x)"
  "dict_get (win_dict x) ''meta'' = PDict (wn_meta x)"
  "dict_get (win_dict x) ''budgets'' = PDict (limits_dict (wn_budgets x))"
  "dict_get (win_dict x) ''usage'' = PDict (used_dict (wn_usage x))"
  "dict_get (win_dict x) ''updated_ts'' = PInt (wn_updated x)"
  by (simp_all add: win_dict_def dict_get_def)

lemma win_dict_set [simp]:
  "dict_set ''open'' (PBool v) (win_dict x) = win_dict (x\<lparr>wn_open := v\<rparr>)"
  "dict_set ''window_id'' (PStr s) (win_dict x) = win_dict (x\<lparr>wn_id := s\<rparr>)"
  "dict_set ''opened_ts'' (PInt i) (win_dict x) = win_dict (x\<lparr>wn_opened := i\<rparr>)"
  "dict_set ''expires_ts'' (PInt i) (win_dict x) = win_dict (x\<lparr>wn_expires := i\<rparr>)"
  "dict_set ''actor'' (PStr s) (win_dict x) = win_dict (x\<lparr>wn_actor := s\<rparr>)"
  "dict_set ''reason'' (PStr s) (win_dict x) = win_dict (x\<lparr>wn_reason := s\<rparr>)"
  "dict_set ''meta'' (PDict d) (win_dict x) = win_dict (x\<lparr>wn_meta := d\<rparr>)"
  "dict_set ''budgets'' (PDict (budgets_dict a b c)) (win_dict x) = win_dict (x\<lparr>wn_budgets := (a, b, c)\<rparr>)"
  "dict_set ''usage'' (PDict (usage_dict a b c)) (win_dict x) = win_dict (x\<lparr>wn_usage := (a, b, c)\<rparr>)"
  "dict_set ''updated_ts'' (PInt i) (win_dict x) = win_dict (x\<lparr>wn_updated := i\<rparr>)"
  by (simp_all add: win_dict_def dict_set_def)

lemma int_fields [simp]:
  "get_int (win_dict x) ''expires_ts'' 0 = Inr (wn_expires x)"
  "get_int (usage_dict a b c) ''seconds_used'' 0 = Inr a"
  "get_int (usage_dict a b c) ''energy_used'' 0 = Inr b"
  "get_int (usage_dict a b c) ''ticks_total'' 0 = Inr c"
  "get_int (budgets_dict a b c) ''budget_seconds'' 0 = Inr b"
  "get_int (budgets_dict a b c) ''budget_energy'' 0 = Inr c"
  by (simp add: get_int_def py_or_def)
     (simp_all add: get_int_def py_or_def usage_dict_def budgets_dict_def dict_get_def)

lemma str_fields [simp]:
  "get_str (win_dict x) ''window_id'' = wn_id x"
  "get_str (win_dict x) ''actor'' = wn_actor x"
  "get_str (win_dict x) ''reason'' = wn_reason x"
  by (simp_all add: get_str_def)

section \<open>Loading and refreshing\<close>

definition env_ok :: "window_env \<Rightarrow> bool" where
  \<comment> \<open>the numeric environment variables are numbers\<close>
  "env_ok E = (case default_budgets E of Inl _ \<Rightarrow> False | Inr _ \<Rightarrow> True)"

definition default_win :: "window_env \<Rightarrow> win" where
  "default_win E =
     \<lparr>wn_open = False, wn_id = [], wn_opened = 0, wn_expires = 0, wn_actor = [], wn_reason = [], wn_meta = [],
      wn_budgets = (case default_budgets E of Inl _ \<Rightarrow> (1, 1, 1) | Inr b \<Rightarrow> b), wn_usage = (0, 0, 0),
      wn_updated = we_stamp E\<rparr>"

lemma env_okE:
  assumes "env_ok E"
  obtains a b c where "default_budgets E = Inr (a, b, c)" "1 \<le> a" "1 \<le> b" "1 \<le> c"
proof -
  from assms obtain p where p: "default_budgets E = Inr p" by (auto simp: env_ok_def split: sum.splits)
  obtain a b c where "p = (a, b, c)" by (cases p)
  moreover from p this have "1 \<le> a" "1 \<le> b" "1 \<le> c"
    by (auto simp: default_budgets_def bindE_Inr_iff Let_def)
  ultimately show ?thesis using that p by blast
qed

lemma default_state_ok: "env_ok E \<Longrightarrow> window_default_state E = Inr (win_dict (default_win E))"
  by (erule env_okE) (simp add: window_default_state_def default_win_def win_dict_def)

lemma default_win_wf: "env_ok E \<Longrightarrow> win_wf (default_win E)"
  by (erule env_okE) (simp add: default_win_def win_wf_def)

lemma merge_win_dict: "dict_merge (win_dict y) (win_dict x) = win_dict x"
proof -
  obtain a b c where l: "wn_budgets x = (a, b, c)" by (cases "wn_budgets x")
  obtain d e f where u: "wn_usage x = (d, e, f)" by (cases "wn_usage x")
  have "win_dict x = [(''open'', PBool (wn_open x)), (''window_id'', PStr (wn_id x)), (''opened_ts'', PInt (wn_opened x)),
      (''expires_ts'', PInt (wn_expires x)), (''actor'', PStr (wn_actor x)), (''reason'', PStr (wn_reason x)),
      (''meta'', PDict (wn_meta x)), (''budgets'', PDict (budgets_dict a b c)),
      (''usage'', PDict (usage_dict d e f)), (''updated_ts'', PInt (wn_updated x))]"
    by (simp add: win_dict_def l u)
  then have "dict_merge (win_dict y) (win_dict x) = win_dict (y\<lparr>wn_open := wn_open x, wn_id := wn_id x,
      wn_opened := wn_opened x, wn_expires := wn_expires x, wn_actor := wn_actor x, wn_reason := wn_reason x,
      wn_meta := wn_meta x, wn_budgets := (a, b, c), wn_usage := (d, e, f), wn_updated := wn_updated x\<rparr>)"
    by simp
  also have "\<dots> = win_dict x" by (rule arg_cong [of _ _ win_dict]) (simp add: l u)
  finally show ?thesis .
qed

lemma normalize_written:
  assumes "env_ok E" "1 \<le> a" "1 \<le> b" "1 \<le> c"
  shows "normalize_budgets E (PDict (budgets_dict a b c)) None None None = Inr (a, b, c)"
  using assms(1)
  by (rule env_okE)
     (use assms(2-) in \<open>simp add: normalize_budgets_def get_int_def budgets_dict_def dict_get_def py_or_def\<close>)

section \<open>The window behind a world\<close>

fun int_field :: "pyval \<Rightarrow> int" where
  "int_field (PInt i) = i"
| "int_field _ = 0"

definition decode_win :: "pydict \<Rightarrow> win" where
  "decode_win d =
     (let b = dict_of (dict_get d ''budgets''); u = dict_of (dict_get d ''usage''); num = (\<lambda>e k. int_field (dict_get e k)) in
      \<lparr>wn_open = truthy (dict_get d ''open''), wn_id = get_str d ''window_id'', wn_opened = num d ''opened_ts'',
       wn_expires = num d ''expires_ts'', wn_actor = get_str d ''actor'', wn_reason = get_str d ''reason'',
       wn_meta = dict_of (dict_get d ''meta''),
       wn_budgets = (num b ''ttl_sec'', num b ''budget_seconds'', num b ''budget_energy''),
       wn_usage = (num u ''seconds_used'', num u ''energy_used'', num u ''ticks_total''),
       wn_updated = num d ''updated_ts''\<rparr>)"

lemma decode_win_dict [simp]: "decode_win (win_dict x) = x"
proof -
  obtain a b c where l: "wn_budgets x = (a, b, c)" by (cases "wn_budgets x")
  obtain d e f where u: "wn_usage x = (d, e, f)" by (cases "wn_usage x")
  show ?thesis
    by (simp add: decode_win_def Let_def l u) (simp add: l u budgets_dict_def usage_dict_def dict_get_def)
qed

definition stored :: "window_world \<Rightarrow> win option" where
  "stored w = (case ww_file w of Some (JVal (PDict d)) \<Rightarrow> Some (decode_win d) | _ \<Rightarrow> None)"

definition world_ok :: "window_world \<Rightarrow> bool" where
  \<comment> \<open>there is no state file, or the module wrote it\<close>
  "world_ok w = (case ww_file w of
     None \<Rightarrow> True
   | Some (JVal (PDict d)) \<Rightarrow> d = win_dict (decode_win d) \<and> win_wf (decode_win d)
   | _ \<Rightarrow> False)"

definition put_win :: "win \<Rightarrow> window_world \<Rightarrow> window_world" where
  "put_win x w = w\<lparr>ww_file := Some (JVal (PDict (win_dict x)))\<rparr>"

lemma world_ok_cases:
  assumes "world_ok w"
  obtains "ww_file w = None" "stored w = None"
  | x where "ww_file w = Some (JVal (PDict (win_dict x)))" "stored w = Some x" "win_wf x"
proof (cases "ww_file w")
  case None
  then show ?thesis using that(1) by (simp add: stored_def)
next
  case (Some t)
  with assms obtain d where "t = JVal (PDict d)" "d = win_dict (decode_win d)" "win_wf (decode_win d)"
    by (auto simp: world_ok_def split: jtext.splits pyval.splits)
  with Some show ?thesis using that(2) [of "decode_win d"] by (simp add: stored_def)
qed

lemma put_win_simps [simp]:
  "stored (put_win x w) = Some x"
  "world_ok (put_win x w) = win_wf x"
  "ww_events (put_win x w) = ww_events w"
  by (simp_all add: stored_def put_win_def world_ok_def)

lemma events_simps [simp]:
  "stored (w\<lparr>ww_events := es\<rparr>) = stored w"
  "world_ok (w\<lparr>ww_events := es\<rparr>) = world_ok w"
  by (simp_all add: stored_def world_ok_def)

definition loaded :: "window_env \<Rightarrow> window_world \<Rightarrow> win" where
  "loaded E w = (case stored w of
     None \<Rightarrow> default_win E
   | Some x \<Rightarrow> x\<lparr>wn_updated := if wn_updated x = 0 then we_stamp E else wn_updated x\<rparr>)"

lemma loaded_wf: "env_ok E \<Longrightarrow> world_ok w \<Longrightarrow> win_wf (loaded E w)"
  by (erule world_ok_cases) (simp_all add: loaded_def default_win_wf, simp add: win_wf_def)

lemma load_written:
  assumes "env_ok E" "win_wf x" "ww_file w = Some (JVal (PDict (win_dict x)))"
  shows "load_window_state E w =
    Inr (win_dict (x\<lparr>wn_updated := if wn_updated x = 0 then we_stamp E else wn_updated x\<rparr>))"
proof -
  obtain a b c where l: "wn_budgets x = (a, b, c)" by (cases "wn_budgets x")
  obtain d e f where u: "wn_usage x = (d, e, f)" by (cases "wn_usage x")
  have ge: "1 \<le> a" "1 \<le> b" "1 \<le> c" "0 \<le> d" "0 \<le> e" "0 \<le> f" using assms(2) by (simp_all add: win_wf_def l u)
  have m: "dict_arg (PDict (wn_meta x)) = Inr (wn_meta x)" by simp
  have t: "get_int (win_dict x) ''updated_ts'' (we_stamp E) = Inr (if wn_updated x = 0 then we_stamp E else wn_updated x)"
    by (simp add: get_int_def py_or_def)
  let ?t = "if wn_updated x = 0 then we_stamp E else wn_updated x"
  have "load_window_state E w = Inr (win_dict (x\<lparr>wn_meta := wn_meta x, wn_budgets := (a, b, c), wn_usage := (d, e, f),
      wn_updated := ?t\<rparr>))"
    using normalize_written [OF assms(1) ge(1-3)] ge(4-)
    by (simp add: load_window_state_def assms(3) default_state_ok [OF assms(1)] merge_win_dict l u t)
  then show ?thesis by (simp add: l [symmetric] u [symmetric])
qed

lemma load_ok: "env_ok E \<Longrightarrow> world_ok w \<Longrightarrow> load_window_state E w = Inr (win_dict (loaded E w))"
  by (erule world_ok_cases) (simp_all add: loaded_def load_written, simp add: load_window_state_def default_state_ok)

definition stale :: "int \<Rightarrow> win \<Rightarrow> bool" where
  "stale now x = (wn_open x \<and> wn_expires x \<le> now)"

definition shut_win :: "win \<Rightarrow> win" where
  "shut_win x = x\<lparr>wn_open := False, wn_id := [], wn_expires := 0, wn_reason := []\<rparr>"

definition event_row :: "window_env \<Rightarrow> string \<Rightarrow> string \<Rightarrow> string \<Rightarrow> string \<Rightarrow> pydict \<Rightarrow> pydict \<Rightarrow> pydict \<Rightarrow> pydict" where
  "event_row E event i actor reason budgets usage meta =
     [(''ts'', PInt (we_stamp E)), (''event'', PStr (py_strip event)), (''window_id'', PStr (py_strip i)),
      (''actor'', PStr (py_strip actor)), (''reason'', PStr (py_strip reason)), (''budgets'', PDict budgets),
      (''usage'', PDict usage), (''meta'', PDict meta)]"

definition expire_row :: "window_env \<Rightarrow> win \<Rightarrow> pydict" where
  "expire_row E x = event_row E ''expire'' (wn_id x) (if wn_actor x = [] then ''system'' else wn_actor x) ''ttl_expired''
     (limits_dict (wn_budgets x)) (used_dict (wn_usage x)) (wn_meta x)"

definition log_event :: "pydict \<Rightarrow> window_world \<Rightarrow> window_world" where
  "log_event row w = w\<lparr>ww_events := ww_events w @ [row]\<rparr>"

lemma log_event_simps [simp]:
  "stored (log_event row w) = stored w" "world_ok (log_event row w) = world_ok w"
  "ww_file (log_event row w) = ww_file w" "ww_events (log_event row w) = ww_events w @ [row]"
  by (simp_all add: log_event_def)

lemma window_event_log: "window_event E ev i actor reason b u m w = (Inr (), log_event (event_row E ev i actor reason b u m) w)"
  by (simp add: window_event_def modifyS_def log_event_def event_row_def)

lemma save_put: "save_window_state E (win_dict x) w = (Inr (), put_win (x\<lparr>wn_updated := we_stamp E\<rparr>) w)"
  by (simp add: save_window_state_def modifyS_def put_win_def)

lemma event_bind: "bindS (window_event E ev i actor reason b u m) f w = f () (log_event (event_row E ev i actor reason b u m) w)"
  by (rule bindS_ok) (rule window_event_log)

lemma save_bind: "bindS (save_window_state E (win_dict x)) f w = f () (put_win (x\<lparr>wn_updated := we_stamp E\<rparr>) w)"
  by (rule bindS_ok) (rule save_put)

lemma shut_dict [simp]: "shut (win_dict x) = win_dict (shut_win x)"
  by (simp add: shut_def shut_win_def)

definition noticed :: "window_env \<Rightarrow> window_world \<Rightarrow> window_world" where
  \<comment> \<open>the log after the expiry of the window has been looked at\<close>
  "noticed E w = (if stale (we_now E) (loaded E w) then log_event (expire_row E (loaded E w)) w else w)"

definition seen :: "window_env \<Rightarrow> window_world \<Rightarrow> win" where
  "seen E w = (if stale (we_now E) (loaded E w) then shut_win (loaded E w) else loaded E w)"

lemma load_refreshed_ok:
  assumes "env_ok E" "world_ok w"
  shows "load_refreshed E w = (Inr (win_dict (seen E w)), noticed E w)"
proof -
  obtain x where x: "loaded E w = x" by simp
  have a: "py_str (py_or (PStr (wn_actor x)) (PStr ''system'')) = (if wn_actor x = [] then ''system'' else wn_actor x)"
    by (simp add: py_or_def)
  show ?thesis
    by (simp add: load_refreshed_def load_ok [OF assms] refresh_expired_def x noticed_def seen_def stale_def
          expire_row_def a event_bind not_le)
qed

lemmas load_bind = bindS_ok [of "load_refreshed E" w, OF load_refreshed_ok] for E w

lemma noticed_simps [simp]:
  "stored (noticed E w) = stored w" "world_ok (noticed E w) = world_ok w" "ww_file (noticed E w) = ww_file w"
  by (simp_all add: noticed_def)

lemma seen_wf: "env_ok E \<Longrightarrow> world_ok w \<Longrightarrow> win_wf (seen E w)"
  using loaded_wf [of E w] by (simp add: seen_def shut_win_def win_wf_def)

section \<open>The specification: at most one live window\<close>

definition live :: "int \<Rightarrow> window_world \<Rightarrow> win option" where
  "live t w = (case stored w of
     None \<Rightarrow> None
   | Some x \<Rightarrow> if wn_open x \<and> t < wn_expires x then Some (x\<lparr>wn_updated := 0\<rparr>) else None)"

datatype window_op =
    Win_open string string "int option" "int option" "int option" pydict
  | Win_close string string string
  | Win_note string int int
  | Win_current
  | Win_is_open string
  | Win_list

fun window_step :: "window_env \<Rightarrow> window_op \<Rightarrow> pydict window_action" where
  "window_step E (Win_open actor reason ttl secs energy meta) = open_window E actor reason ttl secs energy meta"
| "window_step E (Win_close i actor reason) = close_window E i actor reason"
| "window_step E (Win_note i secs energy) = note_usage E i secs energy"
| "window_step E Win_current = current_window E"
| "window_step E (Win_is_open i) = window_is_open E i"
| "window_step E Win_list = list_windows E"

fun int_or :: "int option \<Rightarrow> int \<Rightarrow> int" where
  "int_or None d = d"
| "int_or (Some i) d = (if i = 0 then d else i)"

definition granted_limits :: "window_env \<Rightarrow> int option \<Rightarrow> int option \<Rightarrow> int option \<Rightarrow> int \<times> int \<times> int" where
  "granted_limits E ttl secs energy = (case default_budgets E of
     Inl _ \<Rightarrow> (1, 1, 1)
   | Inr (a, b, c) \<Rightarrow> (max 1 (int_or ttl a), max 1 (int_or secs b), max 1 (int_or energy c)))"

definition may_open :: "string \<Rightarrow> string \<Rightarrow> bool" where
  "may_open actor reason = (\<not> is_agent_actor (clean_actor actor) \<and> py_strip reason \<noteq> [])"

definition granted_id :: "window_env \<Rightarrow> string" where
  "granted_id E = ''ew_'' @ take 12 (we_uuid E)"

definition granted :: "window_env \<Rightarrow> string \<Rightarrow> string \<Rightarrow> int option \<Rightarrow> int option \<Rightarrow> int option \<Rightarrow> pydict \<Rightarrow> win" where
  "granted E actor reason ttl secs energy meta =
     (let l = granted_limits E ttl secs energy in
      \<lparr>wn_open = True, wn_id = granted_id E, wn_opened = we_now E, wn_expires = we_now E + fst l,
       wn_actor = clean_actor actor, wn_reason = py_strip reason, wn_meta = meta, wn_budgets = l,
       wn_usage = (0, 0, 0), wn_updated = 0\<rparr>)"

fun add_usage :: "int \<Rightarrow> int \<Rightarrow> int \<times> int \<times> int \<Rightarrow> int \<times> int \<times> int" where
  "add_usage secs energy (a, b, c) = (a + max 0 secs, b + max 0 energy, c + 1)"

fun names_live :: "string \<Rightarrow> win option \<Rightarrow> bool" where
  "names_live i None = False"
| "names_live i (Some x) = (py_strip i \<noteq> [] \<and> py_strip i = wn_id x)"

fun spec_window :: "window_env \<Rightarrow> window_op \<Rightarrow> win option \<Rightarrow> win option" where
  "spec_window E (Win_open actor reason ttl secs energy meta) m =
     (if may_open actor reason then Some (granted E actor reason ttl secs energy meta) else m)"
| "spec_window E (Win_close i actor reason) m = (if names_live i m then None else m)"
| "spec_window E (Win_note i secs energy) m =
     (if names_live i m then map_option (wn_usage_update (add_usage secs energy)) m else m)"
| "spec_window E Win_current m = m"
| "spec_window E (Win_is_open i) m = m"
| "spec_window E Win_list m = m"

fun spec_answer :: "window_op \<Rightarrow> win option \<Rightarrow> bool" where
  "spec_answer (Win_open actor reason ttl secs energy meta) m = may_open actor reason"
| "spec_answer (Win_close i actor reason) m = names_live i m"
| "spec_answer (Win_note i secs energy) m = names_live i m"
| "spec_answer (Win_is_open i) m = (m \<noteq> None \<and> (py_strip i = [] \<or> names_live i m))"
| "spec_answer _ m = (m \<noteq> None)"

fun answer_of :: "window_op \<Rightarrow> pydict \<Rightarrow> pyval" where
  "answer_of Win_current r = dict_get r ''open''"
| "answer_of (Win_is_open i) r = dict_get r ''open''"
| "answer_of Win_list r = PBool (dict_get r ''count'' = PInt 1)"
| "answer_of _ r = dict_get r ''ok''"

lemma live_seen: "env_ok E \<Longrightarrow> world_ok w \<Longrightarrow>
  live (we_now E) w = (if wn_open (seen E w) then Some ((seen E w)\<lparr>wn_updated := 0\<rparr>) else None)"
  by (erule world_ok_cases)
     (auto simp: live_def seen_def loaded_def stale_def shut_win_def default_win_def)

lemma live_put: "live t (put_win x w) = (if wn_open x \<and> t < wn_expires x then Some (x\<lparr>wn_updated := 0\<rparr>) else None)"
  by (simp add: live_def)

lemma live_log [simp]: "live t (log_event r w) = live t w"
  by (simp add: live_def)

lemma live_noticed [simp]: "live t (noticed E w) = live t w"
  by (simp add: live_def)

lemma seen_live: "wn_open (seen E w) \<Longrightarrow> we_now E < wn_expires (seen E w)"
  by (auto simp: seen_def stale_def shut_win_def split: if_splits)

section \<open>What each operation does\<close>

lemma normalize_options:
  assumes "env_ok E"
  obtains a b c where "normalize_budgets E (PDict []) ttl secs energy = Inr (a, b, c)"
    "granted_limits E ttl secs energy = (a, b, c)" "1 \<le> a" "1 \<le> b" "1 \<le> c"
proof -
  from assms obtain a b c where d: "default_budgets E = Inr (a, b, c)" "1 \<le> a" "1 \<le> b" "1 \<le> c" by (rule env_okE)
  let ?a = "max 1 (int_or ttl a)" and ?b = "max 1 (int_or secs b)" and ?c = "max 1 (int_or energy c)"
  have n: "dict_get [] k = PNone" for k by (simp add: dict_get_def)
  have "normalize_budgets E (PDict []) ttl secs energy = Inr (?a, ?b, ?c)"
    by (cases ttl; cases secs; cases energy) (simp_all add: normalize_budgets_def d(1) get_int_def py_or_def n)
  then show ?thesis using that [of ?a ?b ?c] by (simp add: granted_limits_def d(1))
qed

lemma open_refused:
  assumes "env_ok E" "\<not> may_open actor reason"
  shows "\<exists>r row. open_window E actor reason ttl secs energy meta w = (Inr r, log_event row w) \<and> dict_get r ''ok'' = PBool False"
proof -
  from assms(1) obtain a b c where "normalize_budgets E (PDict []) ttl secs energy = Inr (a, b, c)"
    by (rule normalize_options)
  with assms(2) show ?thesis
    by (auto simp: open_window_def may_open_def Let_def event_bind fail_reply_def dict_get_def)
qed

definition open_row :: "window_env \<Rightarrow> win \<Rightarrow> pydict" where
  "open_row E x = event_row E ''open'' (wn_id x) (wn_actor x) (wn_reason x) (limits_dict (wn_budgets x))
     (used_dict (wn_usage x)) (wn_meta x)"

lemma win_rewritten: "(y :: win)\<lparr>wn_open := v, wn_id := i, wn_opened := t, wn_expires := e, wn_actor := a, wn_reason := r,
    wn_meta := m, wn_budgets := b, wn_usage := u, wn_updated := s\<rparr> =
  \<lparr>wn_open = v, wn_id = i, wn_opened = t, wn_expires = e, wn_actor = a, wn_reason = r, wn_meta = m, wn_budgets = b,
   wn_usage = u, wn_updated = s\<rparr>"
  by (cases y) simp

lemma open_granted:
  fixes E actor reason ttl secs energy meta
  defines "x \<equiv> granted E actor reason ttl secs energy meta"
  assumes "env_ok E" "world_ok w" "may_open actor reason"
  shows "open_window E actor reason ttl secs energy meta w =
     (map_sum id (\<lambda>at. [(''ok'', PBool True), (''window_id'', PStr (wn_id x)), (''expires_ts'', PInt (wn_expires x)),
         (''expires_at'', PStr at), (''budgets'', PDict (limits_dict (wn_budgets x)))]) (we_iso E (wn_expires x)),
      log_event (open_row E x) (put_win (x\<lparr>wn_updated := we_stamp E\<rparr>) (noticed E w)))"
proof -
  from assms(2) obtain a b c where n: "normalize_budgets E (PDict []) ttl secs energy = Inr (a, b, c)"
    "granted_limits E ttl secs energy = (a, b, c)" by (rule normalize_options)
  have x: "x = \<lparr>wn_open = True, wn_id = granted_id E, wn_opened = we_now E, wn_expires = we_now E + a,
       wn_actor = clean_actor actor, wn_reason = py_strip reason, wn_meta = meta, wn_budgets = (a, b, c),
       wn_usage = (0, 0, 0), wn_updated = 0\<rparr>"
    by (simp add: x_def granted_def n(2) Let_def)
  show ?thesis
    using assms(4)
    by (cases "we_iso E (we_now E + a)")
       (simp_all add: open_window_def may_open_def Let_def n(1) load_bind [OF assms(2,3)]
         save_bind event_bind x open_row_def granted_id_def win_rewritten)
qed

definition names_seen :: "window_env \<Rightarrow> window_world \<Rightarrow> string \<Rightarrow> bool" where
  "names_seen E w i = (wn_open (seen E w) \<and> py_strip i \<noteq> [] \<and> py_strip i = wn_id (seen E w))"

lemma names_live_seen: "env_ok E \<Longrightarrow> world_ok w \<Longrightarrow> names_live i (live (we_now E) w) = names_seen E w i"
  by (simp add: live_seen names_seen_def)

lemma close_refused:
  assumes "env_ok E" "world_ok w" "\<not> names_seen E w i"
  shows "\<exists>r. close_window E i actor reason w = (Inr r, if py_strip i = [] then w else noticed E w)
     \<and> dict_get r ''ok'' = PBool False"
proof -
  have f: "dict_get (fail_reply code d) ''ok'' = PBool False" for code d by (simp add: fail_reply_def dict_get_def)
  show ?thesis
  proof (cases "py_strip i = []")
    case True
    then show ?thesis by (simp add: close_window_def Let_def f)
  next
    case False
    with assms(3) have "\<not> wn_open (seen E w) \<or> wn_id (seen E w) \<noteq> py_strip i" by (auto simp: names_seen_def)
    with False show ?thesis by (auto simp: close_window_def Let_def load_bind [OF assms(1,2)] f)
  qed
qed

definition close_row :: "window_env \<Rightarrow> string \<Rightarrow> string \<Rightarrow> win \<Rightarrow> pydict" where
  "close_row E actor reason x = event_row E ''close'' (wn_id x) (if actor = [] then ''ester'' else actor) reason
     (limits_dict (wn_budgets x)) (used_dict (wn_usage x)) (wn_meta x)"

lemma close_granted:
  assumes "env_ok E" "world_ok w" "names_seen E w i"
  shows "close_window E i actor reason w =
     (Inr [(''ok'', PBool True), (''window_id'', PStr (wn_id (seen E w)))],
      log_event (close_row E actor reason (seen E w))
        (put_win ((shut_win (seen E w))\<lparr>wn_updated := we_stamp E\<rparr>) (noticed E w)))"
proof -
  from assms(3) have i: "wn_open (seen E w)" "py_strip i = wn_id (seen E w)" "wn_id (seen E w) \<noteq> []"
    by (auto simp: names_seen_def)
  show ?thesis
    by (simp add: close_window_def Let_def load_bind [OF assms(1,2)] i save_bind event_bind close_row_def)
qed

fun left_dict :: "int \<Rightarrow> win \<Rightarrow> pydict" where
  "left_dict now x = (case (wn_budgets x, wn_usage x) of ((_, bs, be), (us, ue, _)) \<Rightarrow>
     [(''ttl_remaining'', PInt (max 0 (wn_expires x - now))), (''budget_seconds_left'', PInt (max 0 (bs - us))),
      (''budget_energy_left'', PInt (max 0 (be - ue)))])"

declare left_dict.simps [simp del]

lemma budgets_left_win: "budgets_left (win_dict x) now = Inr (left_dict now x)"
proof -
  obtain a b c where l: "wn_budgets x = (a, b, c)" by (cases "wn_budgets x")
  obtain d e f where u: "wn_usage x = (d, e, f)" by (cases "wn_usage x")
  show ?thesis by (simp add: budgets_left_def left_dict.simps l u)
qed

lemma note_refused:
  assumes "env_ok E" "world_ok w" "\<not> names_seen E w i"
  shows "note_usage E i secs energy w =
     (Inr (fail_reply ''window_not_open'' [(''window_id'', PStr (py_strip i)), (''budgets_left'', PDict (left_dict (we_now E) (seen E w)))]),
      noticed E w)"
  using assms(3)
  by (auto simp: note_usage_def Let_def load_bind [OF assms(1,2)] names_seen_def budgets_left_win)

lemma set_usage:
  "dict_set ''ticks_total'' (PInt c') (dict_set ''energy_used'' (PInt b') (dict_set ''seconds_used'' (PInt a') (usage_dict a b c)))
     = usage_dict a' b' c'"
  by (simp add: usage_dict_def dict_set_def)

lemma note_granted:
  fixes E w secs energy
  defines "y \<equiv> (seen E w)\<lparr>wn_usage := add_usage secs energy (wn_usage (seen E w))\<rparr>"
  assumes "env_ok E" "world_ok w" "names_seen E w i"
  shows "note_usage E i secs energy w =
     (Inr [(''ok'', PBool True), (''window_id'', PStr (wn_id y)), (''usage'', PDict (used_dict (wn_usage y))),
           (''budgets_left'', PDict (left_dict (we_now E) y))],
      put_win (y\<lparr>wn_updated := we_stamp E\<rparr>) (noticed E w))"
proof -
  obtain a b c where u: "wn_usage (seen E w) = (a, b, c)" by (cases "wn_usage (seen E w)")
  have ge: "0 \<le> a" "0 \<le> b" "0 \<le> c" using seen_wf [OF assms(2,3)] by (simp_all add: win_wf_def u)
  have m: "max 0 (a + max 0 secs) = a + max 0 secs" "max 0 (b + max 0 energy) = b + max 0 energy" "max 0 (c + 1) = c + 1"
    using ge by linarith+
  from assms(4) have i: "wn_open (seen E w)" "py_strip i = wn_id (seen E w)" "wn_id (seen E w) \<noteq> []"
    by (auto simp: names_seen_def)
  show ?thesis
    by (simp add: note_usage_def Let_def load_bind [OF assms(2,3)] i u m set_usage save_bind budgets_left_win y_def)
qed

definition current_reply :: "window_env \<Rightarrow> win \<Rightarrow> pyval \<Rightarrow> pydict" where
  "current_reply E x at =
     [(''ok'', PBool True), (''open'', PBool (wn_open x)), (''window_id'', PStr (if wn_open x then wn_id x else [])),
      (''remaining_sec'', PInt (if wn_open x then max 0 (wn_expires x - we_now E) else 0)),
      (''expires_ts'', PInt (wn_expires x)), (''expires_at'', at), (''actor'', PStr (wn_actor x)),
      (''reason'', PStr (wn_reason x)), (''budgets'', PDict (limits_dict (wn_budgets x))),
      (''budgets_left'', PDict (left_dict (we_now E) x)), (''usage'', PDict (used_dict (wn_usage x))),
      (''meta'', PDict (wn_meta x))]"

definition shown_expiry :: "window_env \<Rightarrow> win \<Rightarrow> py_error + pyval" where
  "shown_expiry E x =
     (if wn_open x then map_sum id PStr (we_iso E (if wn_expires x = 0 then we_now E else wn_expires x)) else Inr PNone)"

lemma left_ttl: "get_int (left_dict now x) ''ttl_remaining'' 0 = Inr (max 0 (wn_expires x - now))"
  by (auto simp: get_int_def py_or_def left_dict.simps dict_get_def split: prod.splits)

lemma current_ok:
  assumes "env_ok E" "world_ok w"
  shows "current_window E w = (map_sum id (current_reply E (seen E w)) (shown_expiry E (seen E w)),
     put_win ((seen E w)\<lparr>wn_updated := we_stamp E\<rparr>) (noticed E w))"
proof -
  let ?x = "seen E w"
  have e: "get_int (win_dict ?x) ''expires_ts'' (we_now E) = Inr (if wn_expires ?x = 0 then we_now E else wn_expires ?x)"
    by (simp add: get_int_def py_or_def)
  have m: "dict_arg (dict_get (win_dict ?x) k) = Inr d" if "dict_get (win_dict ?x) k = PDict d" for k d
    using that by simp
  show ?thesis
    by (cases "we_iso E (if wn_expires ?x = 0 then we_now E else wn_expires ?x)")
       (simp_all add: current_window_def load_bind [OF assms] save_bind budgets_left_win left_ttl e
         current_reply_def shown_expiry_def Let_def)
qed

section \<open>The code refines the specification\<close>

fun shown_instant :: "window_env \<Rightarrow> window_op \<Rightarrow> win option \<Rightarrow> int option" where
  \<comment> \<open>the expiry that the reply shows as a date\<close>
  "shown_instant E (Win_open actor reason ttl secs energy meta) l =
     (if may_open actor reason then Some (wn_expires (granted E actor reason ttl secs energy meta)) else None)"
| "shown_instant E (Win_close i actor reason) l = None"
| "shown_instant E (Win_note i secs energy) l = None"
| "shown_instant E op l = map_option (\<lambda>x. if wn_expires x = 0 then we_now E else wn_expires x) l"

definition shown :: "window_env \<Rightarrow> int option \<Rightarrow> py_error option" where
  \<comment> \<open>what \<open>fromtimestamp\<close> raises for it, if it raises\<close>
  "shown E t = (case t of None \<Rightarrow> None | Some i \<Rightarrow> (case we_iso E i of Inl e \<Rightarrow> Some e | Inr _ \<Rightarrow> None))"

definition acts_as :: "window_env \<Rightarrow> window_op \<Rightarrow> window_world \<Rightarrow> py_error + pydict \<Rightarrow> window_world \<Rightarrow> bool" where
  "acts_as E op w out w' =
     (world_ok w' \<and> live (we_now E) w' = spec_window E op (live (we_now E) w)
      \<and> (case shown E (shown_instant E op (live (we_now E) w)) of Some e \<Rightarrow> out = Inl e
         | None \<Rightarrow> (\<exists>r. out = Inr r \<and> answer_of op r = PBool (spec_answer op (live (we_now E) w)))))"

lemma shown_None [simp]: "shown E None = None"
  by (simp add: shown_def)

declare shown_instant.simps(4-6) [simp del]

lemma shown_seen:
  assumes "env_ok E" "world_ok w"
  shows "shown E (shown_instant E Win_current (live (we_now E) w)) = (case shown_expiry E (seen E w) of Inl e \<Rightarrow> Some e | Inr _ \<Rightarrow> None)"
    "shown E (shown_instant E (Win_is_open i) (live (we_now E) w)) = (case shown_expiry E (seen E w) of Inl e \<Rightarrow> Some e | Inr _ \<Rightarrow> None)"
    "shown E (shown_instant E Win_list (live (we_now E) w)) = (case shown_expiry E (seen E w) of Inl e \<Rightarrow> Some e | Inr _ \<Rightarrow> None)"
  by (auto simp: shown_instant.simps live_seen [OF assms] shown_def shown_expiry_def split: sum.splits)

lemma all_ge_1_0: "all_ge 1 l \<Longrightarrow> all_ge 0 l"
  by (cases l) auto

lemma granted_wf: "env_ok E \<Longrightarrow> win_wf ((granted E actor reason ttl secs energy meta)\<lparr>wn_updated := t\<rparr>)"
  by (erule normalize_options [of E ttl secs energy]) (simp add: granted_def win_wf_def Let_def)

lemma granted_live:
  "env_ok E \<Longrightarrow> we_now E < wn_expires (granted E actor reason ttl secs energy meta)"
  by (erule normalize_options [of E ttl secs energy]) (simp add: granted_def Let_def)

lemma add_usage_ge: "all_ge 0 u \<Longrightarrow> all_ge 0 (add_usage secs energy u)"
  by (cases u) auto

lemma open_acts:
  assumes "env_ok E" "world_ok w"
  shows "\<exists>out w'. open_window E actor reason ttl secs energy meta w = (out, w')
     \<and> acts_as E (Win_open actor reason ttl secs energy meta) w out w'"
proof (cases "may_open actor reason")
  case False
  from open_refused [OF assms(1) this] obtain r row where
    "open_window E actor reason ttl secs energy meta w = (Inr r, log_event row w)" "dict_get r ''ok'' = PBool False"
    by blast
  with False assms show ?thesis by (simp add: acts_as_def)
next
  case True
  let ?x = "granted E actor reason ttl secs energy meta"
  have x: "wn_open ?x" "?x\<lparr>wn_updated := 0\<rparr> = ?x" by (simp_all add: granted_def Let_def)
  show ?thesis
    unfolding open_granted [OF assms True]
  proof (intro exI conjI, rule refl)
    show "acts_as E (Win_open actor reason ttl secs energy meta) w
      (map_sum id (\<lambda>at. [(''ok'', PBool True), (''window_id'', PStr (wn_id ?x)), (''expires_ts'', PInt (wn_expires ?x)),
         (''expires_at'', PStr at), (''budgets'', PDict (limits_dict (wn_budgets ?x)))]) (we_iso E (wn_expires ?x)))
      (log_event (open_row E ?x) (put_win (?x\<lparr>wn_updated := we_stamp E\<rparr>) (noticed E w)))"
      using True assms granted_wf [OF assms(1)] granted_live [OF assms(1)] x
      by (cases "we_iso E (wn_expires ?x)") (simp_all add: acts_as_def live_put dict_get_def shown_def)
  qed
qed

lemma close_acts:
  assumes "env_ok E" "world_ok w"
  shows "\<exists>out w'. close_window E i actor reason w = (out, w') \<and> acts_as E (Win_close i actor reason) w out w'"
proof (cases "names_seen E w i")
  case False
  from close_refused [OF assms this] obtain r where
    "close_window E i actor reason w = (Inr r, if py_strip i = [] then w else noticed E w)" "dict_get r ''ok'' = PBool False"
    by blast
  with False assms show ?thesis by (simp add: acts_as_def names_live_seen)
next
  case True
  have "\<not> wn_open (shut_win (seen E w))" "win_wf ((shut_win (seen E w))\<lparr>wn_updated := t\<rparr>)" for t
    using seen_wf [OF assms] by (simp_all add: shut_win_def win_wf_def)
  with True assms show ?thesis
    unfolding close_granted [OF assms True]
    by (simp add: acts_as_def names_live_seen live_put dict_get_def)
qed

lemma note_acts:
  assumes "env_ok E" "world_ok w"
  shows "\<exists>out w'. note_usage E i secs energy w = (out, w') \<and> acts_as E (Win_note i secs energy) w out w'"
proof (cases "names_seen E w i")
  case False
  then show ?thesis
    unfolding note_refused [OF assms False]
    using assms by (simp add: acts_as_def names_live_seen fail_reply_def dict_get_def)
next
  case True
  let ?x = "seen E w"
  from True have o: "wn_open ?x" and i: "py_strip i = wn_id ?x" "wn_id ?x \<noteq> []" by (auto simp: names_seen_def)
  have "all_ge 0 (add_usage secs energy (wn_usage ?x))" "all_ge 1 (wn_budgets ?x)"
    using seen_wf [OF assms] by (simp_all add: win_wf_def add_usage_ge)
  then show ?thesis
    unfolding note_granted [OF assms True]
    using assms True o seen_live [OF o] live_seen [OF assms]
    by (simp add: acts_as_def i live_put dict_get_def win_wf_def)
qed

lemma current_world:
  assumes "env_ok E" "world_ok w"
  defines "w' \<equiv> put_win ((seen E w)\<lparr>wn_updated := we_stamp E\<rparr>) (noticed E w)"
  shows "world_ok w'" "live (we_now E) w' = live (we_now E) w"
proof -
  show "world_ok w'" using seen_wf [OF assms(1,2)] by (simp add: w'_def win_wf_def)
  show "live (we_now E) w' = live (we_now E) w"
    using seen_live [of E w] by (auto simp: w'_def live_put live_seen [OF assms(1,2)])
qed

lemma current_get:
  "dict_get (current_reply E x at) ''open'' = PBool (wn_open x)"
  "dict_get (current_reply E x at) ''window_id'' = PStr (if wn_open x then wn_id x else [])"
  "get_str (current_reply E x at) ''window_id'' = (if wn_open x then wn_id x else [])"
  by (simp_all add: current_reply_def dict_get_def get_str_def)

lemma current_acts:
  assumes "env_ok E" "world_ok w"
  shows "\<exists>out w'. current_window E w = (out, w') \<and> acts_as E Win_current w out w'"
proof -
  have "spec_answer Win_current (live (we_now E) w) = wn_open (seen E w)" by (simp add: live_seen [OF assms])
  then show ?thesis
    unfolding current_ok [OF assms] using current_world [OF assms]
    by (cases "shown_expiry E (seen E w)") (simp_all add: acts_as_def current_get shown_seen [OF assms])
qed

lemma is_open_acts:
  assumes "env_ok E" "world_ok w"
  shows "\<exists>out w'. window_is_open E i w = (out, w') \<and> acts_as E (Win_is_open i) w out w'"
proof (cases "shown_expiry E (seen E w)")
  case (Inl e)
  then have "window_is_open E i w = (Inl e, put_win ((seen E w)\<lparr>wn_updated := we_stamp E\<rparr>) (noticed E w))"
    by (simp add: window_is_open_def Let_def bindS_def current_ok [OF assms] Inl)
  then show ?thesis using current_world [OF assms] Inl by (simp add: acts_as_def shown_seen [OF assms])
next
  case (Inr at)
  let ?b = "wn_open (seen E w) \<and> \<not> (py_strip i \<noteq> [] \<and> (if wn_open (seen E w) then wn_id (seen E w) else []) \<noteq> py_strip i)"
  have "\<exists>r. window_is_open E i w = (Inr r, put_win ((seen E w)\<lparr>wn_updated := we_stamp E\<rparr>) (noticed E w))
      \<and> dict_get r ''open'' = PBool ?b"
    by (simp add: window_is_open_def Let_def bindS_def current_ok [OF assms] Inr current_get)
  moreover have "?b \<longleftrightarrow> spec_answer (Win_is_open i) (live (we_now E) w)"
    using live_seen [OF assms] by (auto)
  ultimately show ?thesis using current_world [OF assms] Inr by (auto simp: acts_as_def shown_seen [OF assms])
qed

lemma list_acts:
  assumes "env_ok E" "world_ok w"
  shows "\<exists>out w'. list_windows E w = (out, w') \<and> acts_as E Win_list w out w'"
proof (cases "shown_expiry E (seen E w)")
  case (Inl e)
  then have "list_windows E w = (Inl e, put_win ((seen E w)\<lparr>wn_updated := we_stamp E\<rparr>) (noticed E w))"
    by (simp add: list_windows_def bindS_def current_ok [OF assms] Inl)
  then show ?thesis using current_world [OF assms] Inl by (simp add: acts_as_def shown_seen [OF assms])
next
  case (Inr at)
  let ?x = "seen E w"
  let ?r = "current_reply E ?x at"
  obtain a b c where l: "wn_budgets ?x = (a, b, c)" by (cases "wn_budgets ?x")
  have g: "get_int ?r ''expires_ts'' 0 = Inr (wn_expires ?x)"
    "get_int ?r ''remaining_sec'' 0 = Inr (if wn_open ?x then max 0 (wn_expires ?x - we_now E) else 0)"
    "as_dict (py_or (dict_get ?r ''budgets'') (PDict [])) = Inr (budgets_dict a b c)"
    "get_int (budgets_dict a b c) ''ttl_sec'' 0 = Inr a"
    "dict_arg (dict_get ?r ''budgets'') = Inr (budgets_dict a b c)"
    "dict_arg (dict_get ?r ''budgets_left'') = Inr (left_dict (we_now E) ?x)"
    "dict_arg (dict_get ?r ''usage'') = Inr (used_dict (wn_usage ?x))"
    "dict_arg (dict_get ?r ''meta'') = Inr (wn_meta ?x)"
    by (simp_all add: get_int_def py_or_def current_reply_def dict_get_def l budgets_dict_def)
  have "\<exists>r. list_windows E w = (Inr r, put_win (?x\<lparr>wn_updated := we_stamp E\<rparr>) (noticed E w))
      \<and> dict_get r ''count'' = PInt (if wn_open ?x then 1 else 0)"
    by (simp add: list_windows_def bindS_def current_ok [OF assms] Inr current_get g liftS_def)
  moreover have "spec_answer Win_list (live (we_now E) w) = wn_open ?x" by (simp add: live_seen [OF assms])
  ultimately show ?thesis using current_world [OF assms] Inr by (auto simp: acts_as_def shown_seen [OF assms])
qed

lemma step_acts:
  assumes "env_ok E" "world_ok w"
  shows "\<exists>out w'. window_step E op w = (out, w') \<and> acts_as E op w out w'"
  using open_acts [OF assms] close_acts [OF assms] note_acts [OF assms] current_acts [OF assms] is_open_acts [OF assms]
    list_acts [OF assms]
  by (cases op) simp_all

section \<open>The window is a lease\<close>

type_synonym timed_op = "window_env \<times> window_op"

definition timed_ok :: "timed_op \<Rightarrow> bool" where
  "timed_ok c = env_ok (fst c)"

definition timed_at :: "timed_op \<Rightarrow> int" where
  "timed_at c = we_now (fst c)"

definition timed_grants :: "timed_op \<Rightarrow> string \<Rightarrow> bool" where
  "timed_grants c i = (case snd c of
     Win_open actor reason _ _ _ _ \<Rightarrow> may_open actor reason \<and> i = granted_id (fst c)
   | _ \<Rightarrow> False)"

definition timed_step :: "timed_op \<Rightarrow> window_world \<Rightarrow> window_world" where
  "timed_step c w = snd (window_step (fst c) (snd c) w)"

definition holder :: "int \<Rightarrow> window_world \<Rightarrow> string option" where
  "holder t w = map_option wn_id (live t w)"

lemma timed_step_acts: "timed_ok c \<Longrightarrow> world_ok w \<Longrightarrow> \<exists>out. acts_as (fst c) (snd c) w out (timed_step c w)"
  using step_acts [of "fst c" w "snd c"] by (auto simp: timed_ok_def timed_step_def)

lemma holder_runs_out: "t \<le> t' \<Longrightarrow> holder t' w = Some i \<Longrightarrow> holder t w = Some i"
  by (auto simp: holder_def live_def split: option.splits if_splits)

lemma names_map: "map_option wn_id (map_option (wn_usage_update f) m) = map_option wn_id m"
  by (cases m) simp_all

lemma spec_holder:
  assumes "map_option wn_id (spec_window E op m) = Some i"
  shows "timed_grants (E, op) i \<or> map_option wn_id m = Some i"
  using assms by (cases op) (auto simp: timed_grants_def granted_def Let_def names_map simp del: names_live.simps split: if_splits)

interpretation window_lease: lease timed_ok timed_at timed_grants timed_step world_ok holder
proof
  show "world_ok (timed_step c w)" if "timed_ok c" "world_ok w" for c w
    using timed_step_acts [OF that] by (auto simp: acts_as_def)
  show "holder t w = Some i" if "t \<le> t'" "holder t' w = Some i" for t t' w i
    using that by (rule holder_runs_out)
  show "timed_grants c i \<or> holder (timed_at c) w = Some i"
    if "timed_ok c" "world_ok w" "holder (timed_at c) (timed_step c w) = Some i" for c w i
  proof -
    from timed_step_acts [OF that(1,2)] have
      "holder (timed_at c) (timed_step c w) = map_option wn_id (spec_window (fst c) (snd c) (live (timed_at c) w))"
      by (auto simp: acts_as_def holder_def timed_at_def)
    with that(3) have "map_option wn_id (spec_window (fst c) (snd c) (live (timed_at c) w)) = Some i" by simp
    from spec_holder [OF this] show ?thesis by (simp only: holder_def prod.collapse)
  qed
qed

section \<open>What the window does not do\<close>

lemma expired_seen:
  assumes "stored w = Some x" "stale (we_now E) x"
  shows "stale (we_now E) (loaded E w)" "expire_row E (loaded E w) = expire_row E x" "\<not> wn_open (seen E w)"
  using assms by (simp_all add: loaded_def stale_def expire_row_def seen_def shut_win_def)

lemma note_expired:
  assumes "env_ok E" "world_ok w" "stored w = Some x" "stale (we_now E) x"
  shows "snd (note_usage E i secs energy w) = log_event (expire_row E x) w"
proof -
  note e = expired_seen [OF assms(3,4)]
  from e(3) have "\<not> names_seen E w i" by (simp add: names_seen_def)
  from note_refused [OF assms(1,2) this] show ?thesis by (simp add: noticed_def e(1,2))
qed

lemma notes_expired:
  assumes "env_ok E" "world_ok w" "stored w = Some x" "stale (we_now E) x"
  shows "fold timed_step (replicate n (E, Win_note i secs energy)) w = w\<lparr>ww_events := ww_events w @ replicate n (expire_row E x)\<rparr>"
  using assms(2,3)
proof (induction n arbitrary: w)
  case (Suc n)
  let ?w = "log_event (expire_row E x) w"
  have "timed_step (E, Win_note i secs energy) w = ?w"
    using note_expired [OF assms(1) Suc.prems assms(4)] by (simp add: timed_step_def)
  then show ?case using Suc.IH [of ?w] Suc.prems by (simp add: log_event_def)
qed simp

lemma current_expired:
  assumes "env_ok E" "world_ok w" "stored w = Some x" "stale (we_now E) x"
  shows "ww_events (timed_step (E, Win_current) w) = ww_events w @ [expire_row E x]"
    "\<exists>y. stored (timed_step (E, Win_current) w) = Some y \<and> \<not> wn_open y"
  using expired_seen [OF assms(3,4)] by (simp_all add: timed_step_def current_ok [OF assms(1,2)] noticed_def)

definition note_op :: "string \<Rightarrow> window_env \<times> int \<times> int \<Rightarrow> timed_op" where
  "note_op i n = (case n of (E, secs, energy) \<Rightarrow> (E, Win_note i secs energy))"

lemma live_alive: "live t w = Some x \<Longrightarrow> t < wn_expires x"
  by (auto simp: live_def split: option.splits if_splits)

lemma live_before: "t \<le> t' \<Longrightarrow> t' < wn_expires x \<Longrightarrow> live t w = Some x \<Longrightarrow> live t' w = Some x"
  by (auto simp: live_def split: option.splits if_splits)

lemma live_later: "t \<le> t' \<Longrightarrow> live t' w = Some x \<Longrightarrow> live t w = Some x"
  by (auto simp: live_def split: option.splits if_splits)

lemma live_any: "t' < wn_expires x \<Longrightarrow> live t w = Some x \<Longrightarrow> live t' w = Some x"
  using live_before live_later linear by meson

lemma notes_run:
  assumes "py_strip i = wn_id x" "wn_id x \<noteq> []"
    and "\<forall>(E, s, e) \<in> set ns. env_ok E \<and> we_now E < wn_expires x" "world_ok w" "live t w = Some x" "t < wn_expires x"
  shows "world_ok (fold timed_step (map (note_op i) ns) w)
    \<and> live t (fold timed_step (map (note_op i) ns) w) =
        Some (x\<lparr>wn_usage := fold (\<lambda>(E, s, e). add_usage s e) ns (wn_usage x)\<rparr>)"
  using assms
proof (induction ns arbitrary: w x)
  case (Cons n ns)
  obtain E s e where n: "n = (E, s, e)" by (cases n)
  have E: "env_ok E" "we_now E < wn_expires x" using Cons.prems(3) by (auto simp: n)
  let ?w = "timed_step (E, Win_note i s e) w" and ?x = "x\<lparr>wn_usage := add_usage s e (wn_usage x)\<rparr>"
  have now: "live (we_now E) w = Some x" using live_any [OF E(2) Cons.prems(5)] .
  from timed_step_acts [of "(E, Win_note i s e)" w] E(1) Cons.prems(4) obtain out
    where "acts_as E (Win_note i s e) w out ?w" by (auto simp: timed_ok_def)
  then have w: "world_ok ?w" "live (we_now E) ?w = Some ?x"
    using Cons.prems(1,2) by (simp_all add: acts_as_def now)
  have "live t ?w = Some ?x" using live_any [of t ?x "we_now E" ?w] w(2) Cons.prems(6) by simp
  then show ?case using Cons.IH [of ?x ?w] Cons.prems(1-3,6) w(1) by (simp add: n note_op_def)
qed simp

lemma open_overflow:
  assumes "env_ok E" "world_ok w" "may_open actor reason" "0 \<le> we_now E"
    and "we_iso E (wn_expires (granted E actor reason ttl secs energy meta)) = Inl err"
  shows "\<exists>w'. open_window E actor reason ttl secs energy meta w = (Inl err, w')
    \<and> live (we_now E) w' = Some (granted E actor reason ttl secs energy meta)
    \<and> (\<exists>e. fst (current_window E w') = Inl e)"
proof -
  let ?x = "granted E actor reason ttl secs energy meta"
  let ?w = "log_event (open_row E ?x) (put_win (?x\<lparr>wn_updated := we_stamp E\<rparr>) (noticed E w))"
  have o: "open_window E actor reason ttl secs energy meta w = (Inl err, ?w)"
    using open_granted [OF assms(1-3)] assms(5) by simp
  have x: "wn_open ?x" "?x\<lparr>wn_updated := 0\<rparr> = ?x" "we_now E < wn_expires ?x"
    using granted_live [OF assms(1)] by (simp_all add: granted_def Let_def)
  have ok: "world_ok ?w" using granted_wf [OF assms(1)] by simp
  have l: "live (we_now E) ?w = Some ?x" by (simp add: live_put x)
  with live_seen [OF assms(1) ok] have s: "wn_open (seen E ?w)" "wn_expires (seen E ?w) = wn_expires ?x"
    by (auto split: if_splits dest: arg_cong [of _ _ wn_expires])
  have "wn_expires ?x \<noteq> 0" using x(3) assms(4) by simp
  then have "shown_expiry E (seen E ?w) = Inl err" using s assms(5) by (simp add: shown_expiry_def)
  with o l show ?thesis by (simp add: current_ok [OF assms(1) ok])
qed

section \<open>Properties\<close>

definition sample_clock :: "int \<Rightarrow> window_env" where
  "sample_clock t = \<lparr>we_getenv = (\<lambda>_. None), we_now = t, we_stamp = t, we_uuid = ''0123456789abcdef'',
     we_iso = (\<lambda>_. Inr ''then'')\<rparr>"

definition no_window :: window_world where
  "no_window = \<lparr>ww_file = None, ww_events = []\<rparr>"

lemma sample_budgets: "default_budgets (sample_clock t) = Inr (600, 600, 100)"
proof -
  have "show_int 600 = ''600''" by code_simp
  then show ?thesis
    by (simp add: default_budgets_def env_int_def sample_clock_def parse_int_def py_strip_def strip_by_def is_space_def
          code_point_def is_dec_def Let_def)
qed

lemma sample_clock_ok [simp]: "env_ok (sample_clock t)" "world_ok no_window" "live t no_window = None"
  by (simp_all add: env_ok_def sample_budgets world_ok_def no_window_def live_def stored_def)

definition sample_open :: "int \<Rightarrow> timed_op" where
  "sample_open t = (sample_clock t, Win_open ''ester'' ''task'' (Some 60) None None [])"

lemma sample_may_open: "may_open ''ester'' ''task''"
  by code_simp

lemma sample_granted: "granted (sample_clock t) ''ester'' ''task'' (Some 60) None None [] =
    \<lparr>wn_open = True, wn_id = ''ew_0123456789ab'', wn_opened = t, wn_expires = t + 60, wn_actor = ''ester'',
     wn_reason = ''task'', wn_meta = [], wn_budgets = (60, 600, 100), wn_usage = (0, 0, 0), wn_updated = 0\<rparr>"
proof -
  have "clean_actor ''ester'' = ''ester''" "py_strip ''task'' = ''task''" by code_simp+
  then show ?thesis
    by (simp add: granted_def granted_limits_def sample_budgets granted_id_def Let_def) (simp add: sample_clock_def)
qed

text \<open>
  C15: On a state file the module wrote, with environment variables that are numbers where they must be, every operation does to the live window what the specification says:
  opening needs an actor that is not an agent and a reason, and replaces whatever window was open; closing and
  reporting usage act only on the live window they name.  It raises exactly when the expiry it shows (of the window
  just opened, or of the live one) is one that \<open>fromtimestamp\<close> does not take; otherwise its reply says whether it was
  granted.
\<close>

theorem window_refines_spec:
  assumes "env_ok E" and "world_ok w" and "window_step E op w = (out, w')"
  shows "world_ok w' \<and> live (we_now E) w' = spec_window E op (live (we_now E) w)
    \<and> (case shown E (shown_instant E op (live (we_now E) w)) of Some e \<Rightarrow> out = Inl e
       | None \<Rightarrow> (\<exists>r. out = Inr r \<and> answer_of op r = PBool (spec_answer op (live (we_now E) w))))"
  using step_acts [OF assms(1,2), of op] assms(3) by (auto simp: acts_as_def)

theorem window_refines_spec_witness:
  "\<exists>r w'. window_step (sample_clock 5) (snd (sample_open 5)) no_window = (Inr r, w') \<and> dict_get r ''ok'' = PBool True
     \<and> holder 5 w' = Some ''ew_0123456789ab''"
proof -
  obtain out w' where o: "window_step (sample_clock 5) (snd (sample_open 5)) no_window = (out, w')" by force
  have l: "live 5 no_window = None" by simp
  have "shown (sample_clock 5) t = None" for t by (simp add: shown_def sample_clock_def split: option.splits)
  moreover have n: "we_now (sample_clock 5) = 5" by (simp add: sample_clock_def)
  moreover note window_refines_spec [OF sample_clock_ok(1,2) o]
  ultimately show ?thesis
    using o sample_may_open by (auto simp: sample_open_def l holder_def sample_granted split: sum.splits)
qed

text \<open>
  A window that is closed, replaced, expired or never existed does not become live again: as
  long as the clock does not go back and no later opening draws its identifier, no sequence of operations
  makes it the live window.
\<close>

theorem window_never_revives:
  assumes "world_ok w" and "\<forall>c \<in> set cs. env_ok (fst c)" and "sorted (map timed_at cs)"
    and "\<forall>c \<in> set cs. t \<le> timed_at c \<and> timed_at c \<le> t'" and "t \<le> t'" and "\<forall>c \<in> set cs. \<not> timed_grants c i"
    and "holder t w \<noteq> Some i"
  shows "holder t' (fold timed_step cs w) \<noteq> Some i"
proof -
  have "list_all timed_ok cs" using assms(2) by (simp add: list_all_iff timed_ok_def)
  with assms show ?thesis by (intro window_lease.gone)
qed

theorem window_never_revives_witness:
  "holder 99 (fold timed_step [(sample_clock 3, Win_note ''ew_1'' 1 1), sample_open 5, (sample_clock 7, Win_current)] no_window)
     \<noteq> Some ''ew_1''"
  by (rule window_never_revives [where t = 0])
     (auto simp: timed_at_def sample_open_def sample_clock_def timed_grants_def granted_id_def holder_def
       sample_clock_ok [unfolded sample_clock_def])

text \<open>
  Only \<open>current_window\<close> (and what calls it) stores that a window has expired: every refused
  \<open>note_usage\<close> on an expired window leaves the state file as it is and appends one more \<open>expire\<close> event,
  while one \<open>current_window\<close> appends one and ends it.
\<close>

theorem window_expires_again:
  assumes "env_ok E" and "world_ok w" and "stored w = Some x" and "stale (we_now E) x"
  shows "fold timed_step (replicate n (E, Win_note i secs energy)) w = w\<lparr>ww_events := ww_events w @ replicate n (expire_row E x)\<rparr>
    \<and> ww_events (timed_step (E, Win_current) w) = ww_events w @ [expire_row E x]
    \<and> (\<exists>y. stored (timed_step (E, Win_current) w) = Some y \<and> \<not> wn_open y)"
  using notes_expired [OF assms] current_expired [OF assms] by blast

theorem window_expires_again_witness:
  "\<exists>x w. length (ww_events (fold timed_step (replicate 3 (sample_clock 900, Win_note ''ew_0123456789ab'' 1 1)) w)) = 3 + length (ww_events w)
    \<and> stored w = Some x \<and> wn_id x = ''ew_0123456789ab''"
proof -
  let ?x = "granted (sample_clock 5) ''ester'' ''task'' (Some 60) None None []"
  let ?w = "put_win ?x no_window"
  have "world_ok ?w" "stored ?w = Some ?x" by (simp_all add: sample_granted win_wf_def)
  moreover have "stale (we_now (sample_clock 900)) ?x" by (simp add: sample_granted stale_def) (simp add: sample_clock_def)
  ultimately have "length (ww_events (fold timed_step (replicate 3 (sample_clock 900, Win_note ''ew_0123456789ab'' 1 1)) ?w))
      = 3 + length (ww_events ?w)"
    using window_expires_again [OF sample_clock_ok(1), of ?w ?x 900 3] by simp
  then show ?thesis using \<open>stored ?w = Some ?x\<close> by (intro exI [of _ ?x] exI [of _ ?w]) (simp add: sample_granted)
qed

text \<open>
  Budgets are counted, not enforced: while the window has not expired, any sequence of usage
  reports on it is accepted and added up (negative amounts count as zero), and the window stays live
  however far the sum exceeds the budgets it was opened with.
\<close>

theorem window_usage_unbounded:
  assumes "world_ok w" and "live t w = Some x" and "py_strip i = wn_id x" "wn_id x \<noteq> []"
    and "\<forall>(E, s, e) \<in> set ns. env_ok E \<and> we_now E < wn_expires x"
  shows "live t (fold timed_step (map (note_op i) ns) w) =
    Some (x\<lparr>wn_usage := fold (\<lambda>(E, s, e). add_usage s e) ns (wn_usage x)\<rparr>)"
  using notes_run [OF assms(3,4,5,1,2) live_alive [OF assms(2)]] by blast

theorem window_usage_unbounded_witness:
  "\<exists>x w. live 5 w = Some x \<and> fst (snd (wn_budgets x)) = 600
     \<and> holder 5 (fold timed_step (map (note_op '' ew_0123456789ab'') [(sample_clock 6, 1000000, 0), (sample_clock 7, -4, 7)]) w)
         = Some (wn_id x)"
proof -
  let ?x = "granted (sample_clock 5) ''ester'' ''task'' (Some 60) None None []"
  let ?w = "put_win ?x no_window"
  have "world_ok ?w" "live 5 ?w = Some ?x" by (simp_all add: sample_granted win_wf_def live_put)
  moreover have "py_strip '' ew_0123456789ab'' = wn_id ?x" "wn_id ?x \<noteq> []"
    by (simp_all add: sample_granted py_strip_def strip_by_def is_space_def code_point_def)
  moreover have "\<forall>(E, s, e) \<in> set [(sample_clock 6, 1000000, 0), (sample_clock 7, -4, 7)]. env_ok E \<and> we_now E < wn_expires ?x"
    by (simp add: sample_granted) (simp add: sample_clock_def)
  ultimately have l: "live 5 (fold timed_step (map (note_op '' ew_0123456789ab'') [(sample_clock 6, 1000000, 0), (sample_clock 7, -4, 7)]) ?w)
      = Some (?x\<lparr>wn_usage := fold (\<lambda>(E, s, e). add_usage s e) [(sample_clock 6, 1000000, 0), (sample_clock 7, -4, 7)] (wn_usage ?x)\<rparr>)"
    by (rule window_usage_unbounded)
  show ?thesis
    by (intro exI [of _ ?x] exI [of _ ?w] conjI)
      (simp_all only: holder_def l option.map(2) option.inject, simp_all add: sample_granted live_put)
qed

end
