(* ===== verification/PlanSchema.thy ===== *)
theory PlanSchema
  imports PyCodec PyState AgentQueue
begin

text \<open>
  \<open>modules/agents/plan_schema.py\<close>: normalisation and validation of plans, and
  \<open>_normalize_validate_plan\<close> of \<open>modules/garage/agent_queue.py\<close>, through which a plan enters the queue.
  A value nested deeper than the interpreter can follow makes \<open>json.dumps\<close> raise; the depth is the
  argument \<open>pn_dump_limit\<close>.  The other arguments (record \<open>plan_env\<close>) are the environment, the clock,
  SHA-256, the registry of actions, a fresh identifier, the text of an exception, and the outcome of
  resolving, reading and parsing a plan file.
\<close>

section \<open>Environment and strict mode\<close>

datatype plan_file =
    File_missing
  | File_not_regular
  | File_unreadable string
  | File_text string

record plan_env =
  pn_getenv :: "string \<Rightarrow> string option"
  pn_now :: int
  pn_dump_limit :: nat
  pn_error_text :: "py_error \<Rightarrow> string \<times> string"
  pn_digest :: "string \<Rightarrow> string"
  pn_has_action :: "string \<Rightarrow> bool"
  pn_uuid :: string
  pn_resolve :: "string \<Rightarrow> string"
  pn_file :: "string \<Rightarrow> plan_file"
  pn_parse_json :: "string \<Rightarrow> string + pyval"
  pn_parse_yaml :: "(string \<Rightarrow> string + pyval) option"

text \<open>
  The module variables; \<open>ss_rollback\<close> stands for the two environment variables the rollback sets, which
  the module never reads.
\<close>

record strict_state =
  ss_streak :: int
  ss_disabled :: bool
  ss_rollback :: "string option"

definition strict_fail_max :: "plan_env \<Rightarrow> int" where
  "strict_fail_max E = (case parse_int (str_or (pn_getenv E ''ESTER_PLAN_SCHEMA_STRICT_FAIL_MAX'') ''3'') of
     None \<Rightarrow> 3 | Some i \<Rightarrow> max 1 i)"

definition strict_enabled :: "plan_env \<Rightarrow> strict_state \<Rightarrow> bool" where
  "strict_enabled E S = (q_slot (pn_getenv E) = ''B'' \<and> \<not> ss_disabled S)"

definition strict_status :: "plan_env \<Rightarrow> strict_state \<Rightarrow> pyval" where
  "strict_status E S = PDict
     [(''slot'', PStr (q_slot (pn_getenv E))), (''strict_enabled'', PBool (strict_enabled E S)),
      (''strict_disabled'', PBool (ss_disabled S)), (''strict_err_streak'', PInt (ss_streak S)),
      (''strict_fail_max'', PInt (strict_fail_max E))]"

definition note_strict_success :: "strict_state \<Rightarrow> strict_state" where
  "note_strict_success S = S\<lparr>ss_streak := 0\<rparr>"

definition note_strict_exception :: "plan_env \<Rightarrow> string \<Rightarrow> py_error \<Rightarrow> strict_state \<Rightarrow> strict_state" where
  "note_strict_exception E place exc S =
     (let S1 = S\<lparr>ss_streak := ss_streak S + 1\<rparr> in
      if strict_fail_max E \<le> ss_streak S1 then
        S1\<lparr>ss_disabled := True, ss_rollback := Some (place @ '':'' @ fst (pn_error_text E exc))\<rparr>
      else S1)"

section \<open>Helpers\<close>

definition detail_row :: "string \<Rightarrow> string \<Rightarrow> string \<Rightarrow> pydict \<Rightarrow> pyval" where
  \<comment> \<open>no caller passes an extra key that is already there\<close>
  "detail_row level code message extra = PDict
     ([(''level'', PStr (if level = [] then ''error'' else level)),
       (''code'', PStr (if code = [] then ''invalid'' else code)), (''message'', PStr message)] @ extra)"

definition canonical_action :: "string \<Rightarrow> string" where
  "canonical_action action =
     (let a = py_strip action in if a = ''oracle.openai.call'' then ''llm.remote.call'' else a)"

definition safe_int :: "pyval \<Rightarrow> int \<Rightarrow> int" where
  "safe_int v dflt = (case int_of v of Inl _ \<Rightarrow> dflt | Inr i \<Rightarrow> i)"

definition max_from :: "nat \<Rightarrow> nat list \<Rightarrow> nat" where
  "max_from d xs = fold max xs d"

fun json_depth :: "pyval \<Rightarrow> nat \<Rightarrow> nat" where
  "json_depth (PDict d) depth =
     (if 64 < depth then depth
      else max_from depth (map (\<lambda>(k, v). max (Suc depth) (json_depth v (Suc depth))) d))"
| "json_depth (PList xs) depth =
     (if 64 < depth then depth else max_from depth (map (\<lambda>v. json_depth v (Suc depth)) xs))"
| "json_depth _ depth = depth"

fun meta_valid :: "nat \<Rightarrow> pyval \<Rightarrow> bool" where
  "meta_valid max_depth (PList xs) =
     (json_depth (PList xs) 0 \<le> max_depth \<and> list_all (meta_valid max_depth) xs)"
| "meta_valid max_depth (PDict d) =
     (json_depth (PDict d) 0 \<le> max_depth \<and> list_all (\<lambda>(k, v). meta_valid max_depth v) d)"
| "meta_valid max_depth _ = True"

text \<open>How deep a value is nested, and \<open>json.dumps(..., ensure_ascii=True, sort_keys=True)\<close>.\<close>

fun nesting :: "pyval \<Rightarrow> nat" where
  "nesting (PDict d) = (if d = [] then 0 else Suc (max_from 0 (map (\<lambda>(k, v). nesting v) d)))"
| "nesting (PList xs) = (if xs = [] then 0 else Suc (max_from 0 (map nesting xs)))"
| "nesting _ = 0"

definition dumps_ascii :: "plan_env \<Rightarrow> pyval \<Rightarrow> py_error + string" where
  "dumps_ascii E v =
     (if pn_dump_limit E < nesting v then Inl PyRecursionError
      else Inr (ascii_text v))"

definition hash_seed :: "plan_env \<Rightarrow> pydict \<Rightarrow> py_error + string" where
  "hash_seed E src =
     bindE (list_arg (dict_get src ''steps'')) (\<lambda>steps.
     map_sum id (pn_digest E) (dumps_ascii E (PDict
       [(''title'', PStr (get_str src ''title'')), (''intent'', PStr (get_str src ''intent'')),
        (''initiative_id'', PStr (get_str src ''initiative_id'')), (''agent_id'', PStr (get_str src ''agent_id'')),
        (''template_id'', PStr (get_str src ''template_id'')), (''steps'', PList steps)])))"

definition plan_keys :: "string list" where
  "plan_keys = [''schema'', ''plan_id'', ''steps'', ''created_ts'', ''title'', ''intent'', ''initiative_id'',
     ''agent_id'', ''template_id'', ''budgets'', ''meta'']"

definition step_keys :: "string list" where
  "step_keys = [''action'', ''action_id'', ''args'', ''why'']"

definition budget_keys :: "string list" where
  "budget_keys = [''max_ms'', ''max_steps'', ''window_sec'', ''oracle_window'']"

definition unknown_keys :: "string list \<Rightarrow> pydict \<Rightarrow> string list" where
  "unknown_keys allowed d = sort (filter (\<lambda>k. k \<notin> set allowed) (map fst d))"

definition key_warning :: "string \<Rightarrow> string \<Rightarrow> string \<Rightarrow> pydict \<Rightarrow> string list \<Rightarrow> pyval list" where
  "key_warning level code message extra ks =
     (if ks = [] then [] else [detail_row level code message (extra @ [(''keys'', PList (map PStr ks))])])"

definition index_entry :: "nat \<Rightarrow> string \<times> pyval" where
  "index_entry idx = (''step_index'', PInt (int idx))"

definition step_action :: "pydict \<Rightarrow> string" where
  "step_action row =
     (let raw = dict_get row ''action'';
          raw' = (if py_strip (py_str (py_or raw (PStr []))) = [] then dict_get row ''action_id'' else raw)
      in canonical_action (py_strip (py_str (py_or raw' (PStr [])))))"

definition step_args :: "pydict \<Rightarrow> pyval" where
  \<comment> \<open>\<open>row.get("args", {})\<close>, and \<open>None\<close> counts as missing\<close>
  "step_args row = (case dict_get row ''args'' of PNone \<Rightarrow> PDict [] | v \<Rightarrow> v)"

definition first_error :: "pyval list \<Rightarrow> string option" where
  "first_error details =
     (case filter (\<lambda>d. get_str (dict_of d) ''level'' = ''error'') details of
        [] \<Rightarrow> None
      | d # _ \<Rightarrow> Some (py_str (py_or (dict_get (dict_of d) ''code'') (PStr ''plan_invalid''))))"

section \<open>Normalisation\<close>

definition normalize_step :: "nat \<Rightarrow> pyval \<Rightarrow> pyval list \<times> pyval list" where
  \<comment> \<open>one round of the loop: the details it adds and the step it adds, if any\<close>
  "normalize_step idx v = (case v of
     PDict row \<Rightarrow>
       (let warn = key_warning ''warn'' ''unknown_step_keys'' ''step contains unknown keys'' [index_entry idx]
                     (unknown_keys step_keys row);
            action = step_action row
        in if action = [] then
             (warn @ [detail_row ''error'' ''step_action_required'' ''step.action is required'' [index_entry idx]], [])
           else case step_args row of
             PDict args \<Rightarrow>
               (let why_raw = dict_get row ''why'';
                    why = (if why_raw = PNone \<or> py_strip (py_str why_raw) = [] then ''agent_step:'' @ action
                           else py_str why_raw)
                in (warn, [PDict [(''action'', PStr action), (''args'', PDict args), (''why'', PStr why)]]))
           | _ \<Rightarrow>
               (warn @ [detail_row ''error'' ''step_args_type'' ''step.args must be an object'' [index_entry idx]], []))
   | _ \<Rightarrow> ([detail_row ''error'' ''step_not_object'' ''step must be an object'' [index_entry idx]], []))"

fun normalize_steps :: "nat \<Rightarrow> pyval list \<Rightarrow> pyval list \<times> pyval list" where
  "normalize_steps idx [] = ([], [])"
| "normalize_steps idx (v # vs) =
     (let (d, s) = normalize_step idx v; (ds, ss) = normalize_steps (Suc idx) vs in (d @ ds, s @ ss))"

definition text_entry :: "pydict \<Rightarrow> string \<Rightarrow> pydict" where
  "text_entry src k = opt_entry (dict_get src k \<noteq> PNone) k (PStr (py_str (dict_get src k)))"

definition limit_entry :: "pydict \<Rightarrow> string \<Rightarrow> pydict" where
  "limit_entry b k = opt_entry (has_key b k) k (PInt (max 1 (safe_int (dict_get b k) 0)))"

definition normal_budgets :: "pydict \<Rightarrow> pydict" where
  "normal_budgets b = limit_entry b ''max_ms'' @ limit_entry b ''max_steps'' @ limit_entry b ''window_sec''
     @ text_entry b ''oracle_window''"

definition budgets_part :: "pydict \<Rightarrow> pyval list \<times> pydict" where
  "budgets_part src = (case dict_get src ''budgets'' of
     PNone \<Rightarrow> ([], [])
   | PDict b \<Rightarrow> (key_warning ''warn'' ''unknown_budget_keys'' ''budgets contains unknown keys'' [] (unknown_keys budget_keys b),
                 [(''budgets'', PDict (normal_budgets b))])
   | _ \<Rightarrow> ([detail_row ''error'' ''budgets_type'' ''budgets must be an object'' []], []))"

definition meta_detail :: "pydict \<Rightarrow> pyval list" where
  \<comment> \<open>the same check in \<open>normalize_plan\<close> and \<open>validate_plan\<close>\<close>
  "meta_detail src = (case dict_get src ''meta'' of
     PNone \<Rightarrow> []
   | PDict m \<Rightarrow> (if meta_valid 8 (PDict m) then []
                 else [detail_row ''error'' ''meta_invalid'' ''meta must contain JSON-safe values within depth limits'' []])
   | _ \<Rightarrow> [detail_row ''error'' ''meta_type'' ''meta must be an object'' []])"

definition norm_reply :: "bool \<Rightarrow> pyval \<Rightarrow> string \<Rightarrow> pyval list \<Rightarrow> pydict" where
  "norm_reply ok plan error details =
     [(''ok'', PBool ok), (''plan'', plan), (''error'', PStr error), (''details'', PList details)]"

definition plan_id_of :: "plan_env \<Rightarrow> pyval list \<Rightarrow> pydict \<Rightarrow> py_error + string" where
  "plan_id_of E steps src =
     (let plan_id = py_strip (get_str src ''plan_id'') in
      if plan_id = [] then
        map_sum id (\<lambda>h. ''plan_'' @ take 12 h) (hash_seed E (dict_merge [(''steps'', PList steps)] src))
      else Inr plan_id)"

definition normal_plan :: "plan_env \<Rightarrow> string \<Rightarrow> pyval list \<Rightarrow> pydict \<Rightarrow> pydict" where
  "normal_plan E plan_id steps src =
     [(''schema'', PStr ''ester.plan.v1''), (''plan_id'', PStr plan_id), (''steps'', PList steps)]
     @ opt_entry (dict_get src ''created_ts'' \<noteq> PNone) ''created_ts'' (PInt (safe_int (dict_get src ''created_ts'') (pn_now E)))
     @ text_entry src ''title'' @ text_entry src ''intent'' @ text_entry src ''initiative_id''
     @ text_entry src ''agent_id'' @ text_entry src ''template_id'' @ snd (budgets_part src)
     @ opt_entry (dict_get src ''meta'' \<noteq> PNone \<and> meta_detail src = []) ''meta'' (dict_get src ''meta'')"

definition normalize_plan :: "plan_env \<Rightarrow> pyval \<Rightarrow> py_error + pydict" where
  "normalize_plan E obj = (case obj of
     PDict src \<Rightarrow>
       (let warn = key_warning ''warn'' ''unknown_plan_keys'' ''plan contains unknown top-level keys'' []
                     (unknown_keys plan_keys src)
        in case dict_get src ''steps'' of
             PList steps_raw \<Rightarrow>
               (let (step_details, steps) = normalize_steps 1 steps_raw in
                bindE (plan_id_of E steps src) (\<lambda>plan_id.
                let out = normal_plan E plan_id steps src;
                    details = warn @ step_details @ fst (budgets_part src) @ meta_detail src
                in Inr (case first_error details of
                          Some e \<Rightarrow> norm_reply False (PDict out) e details
                        | None \<Rightarrow> norm_reply True (PDict out) [] details)))
           | _ \<Rightarrow> Inr (norm_reply False PNone ''plan_steps_required''
                       (warn @ [detail_row ''error'' ''plan_steps_required'' ''steps must be a list'' []])))
   | _ \<Rightarrow> Inr (norm_reply False PNone ''plan_not_object'' [detail_row ''error'' ''plan_not_object'' ''plan must be a dict'' []]))"

section \<open>Validation\<close>

definition step_limit :: "pydict \<Rightarrow> int" where
  "step_limit src = (case dict_get src ''budgets'' of
     PDict b \<Rightarrow> if has_key b ''max_steps'' then min 64 (max 1 (safe_int (dict_get b ''max_steps'') 64)) else 64
   | _ \<Rightarrow> 64)"

definition err_if :: "bool \<Rightarrow> string \<Rightarrow> string \<Rightarrow> pydict \<Rightarrow> pyval list" where
  "err_if c code message extra = (if c then [detail_row ''error'' code message extra] else [])"

definition args_details :: "plan_env \<Rightarrow> nat \<Rightarrow> pydict \<Rightarrow> pyval list" where
  "args_details E idx args =
     (let depth = json_depth (PDict args) 0;
          crash = pn_dump_limit E < nesting (PDict args);
          size = (if crash then 32769 else length (canonical_bytes (PDict args)))
      in err_if (8 < depth) ''step_args_depth'' ''step.args depth exceeds limit''
           [index_entry idx, (''depth'', PInt (int depth)), (''limit'', PInt 8)]
         @ err_if crash ''step_args_json_invalid'' ''step.args must be JSON serializable''
           [index_entry idx, (''detail'', PStr (snd (pn_error_text E PyRecursionError)))]
         @ err_if (32768 < size) ''step_args_too_large'' ''step.args exceeds size limit''
           [index_entry idx, (''size'', PInt (int size)), (''limit'', PInt 32768)])"

definition validate_step :: "plan_env \<Rightarrow> nat \<Rightarrow> pyval \<Rightarrow> pyval list" where
  "validate_step E idx v = (case v of
     PDict row \<Rightarrow>
       (let keys = key_warning ''error'' ''unknown_step_keys'' ''unknown step keys are forbidden'' [index_entry idx]
                     (unknown_keys step_keys row);
            action = step_action row
        in if action = [] then
             keys @ [detail_row ''error'' ''step_action_required'' ''step.action is required'' [index_entry idx]]
           else
             keys
             @ err_if (120 < length action) ''step_action_too_long'' ''action length exceeds limit''
                 [index_entry idx, (''limit'', PInt 120)]
             @ err_if (\<not> pn_has_action E action) ''unknown_action'' ''action is not registered''
                 [index_entry idx, (''action'', PStr action)]
             @ err_if (500 < length (get_str row ''why'')) ''step_why_too_long'' ''why length exceeds limit''
                 [index_entry idx, (''limit'', PInt 500)]
             @ (case step_args row of
                  PDict args \<Rightarrow> args_details E idx args
                | _ \<Rightarrow> [detail_row ''error'' ''step_args_type'' ''step.args must be an object'' [index_entry idx]]))
   | _ \<Rightarrow> [detail_row ''error'' ''step_not_object'' ''step must be an object'' [index_entry idx]])"

fun validate_steps :: "plan_env \<Rightarrow> nat \<Rightarrow> pyval list \<Rightarrow> pyval list" where
  "validate_steps E idx [] = []"
| "validate_steps E idx (v # vs) = validate_step E idx v @ validate_steps E (Suc idx) vs"

fun is_str :: "pyval \<Rightarrow> bool" where
  "is_str (PStr s) = True"
| "is_str _ = False"

fun is_int :: "pyval \<Rightarrow> bool" where
  \<comment> \<open>\<open>isinstance(v, int)\<close> holds of booleans too\<close>
  "is_int (PInt i) = True"
| "is_int (PBool b) = True"
| "is_int _ = False"

definition str_field :: "pydict \<Rightarrow> string \<Rightarrow> pyval list" where
  "str_field src k = err_if (dict_get src k \<noteq> PNone \<and> \<not> is_str (dict_get src k)) (k @ ''_type'') (k @ '' must be a string'') []"

definition budget_int :: "pydict \<Rightarrow> string \<Rightarrow> pyval list" where
  "budget_int b k = err_if (has_key b k \<and> \<not> is_int (dict_get b k)) (''budget_'' @ k @ ''_type'') (''budgets.'' @ k @ '' must be int'') []"

definition budgets_details :: "pydict \<Rightarrow> pyval list" where
  "budgets_details src = (case dict_get src ''budgets'' of
     PNone \<Rightarrow> []
   | PDict b \<Rightarrow>
       key_warning ''error'' ''unknown_budget_keys'' ''unknown budgets keys are forbidden'' [] (unknown_keys budget_keys b)
       @ budget_int b ''max_ms'' @ budget_int b ''max_steps'' @ budget_int b ''window_sec''
       @ err_if (dict_get b ''oracle_window'' \<noteq> PNone \<and> \<not> is_str (dict_get b ''oracle_window''))
           ''budget_oracle_window_type'' ''budgets.oracle_window must be str'' []
   | _ \<Rightarrow> [detail_row ''error'' ''budgets_type'' ''budgets must be an object'' []])"

definition plan_hash :: "plan_env \<Rightarrow> pydict \<Rightarrow> py_error + string" where
  "plan_hash E plan = map_sum id (pn_digest E) (dumps_ascii E (PDict (AList.delete ''created_ts'' plan)))"

definition listed_steps :: "pydict \<Rightarrow> pyval list" where
  "listed_steps src = (case dict_get src ''steps'' of PList xs \<Rightarrow> xs | _ \<Rightarrow> [])"

definition not_list :: "pyval \<Rightarrow> bool" where
  "not_list v = (case v of PList _ \<Rightarrow> False | _ \<Rightarrow> True)"

definition plan_details :: "plan_env \<Rightarrow> pydict \<Rightarrow> pyval list" where
  "plan_details E src =
     (let schema = py_strip (get_str src ''schema''); steps = listed_steps src; max_steps = step_limit src in
      err_if (schema \<noteq> ''ester.plan.v1'') ''schema_invalid'' ''schema must be ester.plan.v1'' [(''schema'', PStr schema)]
      @ err_if (py_strip (get_str src ''plan_id'') = []) ''plan_id_required'' ''plan_id is required'' []
      @ err_if (not_list (dict_get src ''steps'')) ''plan_steps_required'' ''steps must be a list'' []
      @ err_if (steps = []) ''plan_steps_required'' ''steps must contain at least one step'' []
      @ err_if (max_steps < int (length steps)) ''plan_steps_limit'' ''steps exceed max_steps''
          [(''limit'', PInt max_steps), (''count'', PInt (int (length steps)))]
      @ validate_steps E 1 steps
      @ key_warning ''error'' ''unknown_plan_keys'' ''unknown top-level plan keys are forbidden'' [] (unknown_keys plan_keys src)
      @ str_field src ''title'' @ str_field src ''intent'' @ str_field src ''initiative_id''
      @ str_field src ''agent_id'' @ str_field src ''template_id''
      @ err_if (dict_get src ''created_ts'' \<noteq> PNone \<and> \<not> is_int (dict_get src ''created_ts''))
          ''created_ts_type'' ''created_ts must be an int'' []
      @ meta_detail src @ budgets_details src)"

definition val_reply :: "bool \<Rightarrow> string \<Rightarrow> pyval list \<Rightarrow> string \<Rightarrow> pydict" where
  "val_reply ok error details hash =
     [(''ok'', PBool ok), (''error'', PStr error), (''details'', PList details), (''plan_hash'', PStr hash)]"

definition validate_plan :: "plan_env \<Rightarrow> pyval \<Rightarrow> pydict" where
  "validate_plan E plan = (case plan of
     PDict src \<Rightarrow>
       (let details = plan_details E src;
            hash = (case plan_hash E src of Inr h \<Rightarrow> h | Inl _ \<Rightarrow> pn_digest E (pn_uuid E))
        in case first_error details of
             Some e \<Rightarrow> val_reply False e details hash
           | None \<Rightarrow> val_reply True [] details hash)
   | _ \<Rightarrow> val_reply False ''plan_not_object'' [detail_row ''error'' ''plan_not_object'' ''plan must be an object'' []] [])"

section \<open>Plan files\<close>

definition path_name :: "string \<Rightarrow> string" where
  \<comment> \<open>the last component of a resolved path\<close>
  "path_name p = rev (takeWhile (\<lambda>c. c \<noteq> CHR ''/'') (rev p))"

definition path_suffix :: "string \<Rightarrow> string" where
  \<comment> \<open>\<open>p.suffix\<close>: from the last dot, unless it is the first or the last character\<close>
  "path_suffix p =
     (let name = path_name p; ext = rev (takeWhile (\<lambda>c. c \<noteq> CHR ''.'') (rev name)) in
      if CHR ''.'' \<in> set name \<and> ext \<noteq> [] \<and> length ext + 1 < length name then CHR ''.'' # ext else [])"

definition load_fail :: "string \<Rightarrow> string \<Rightarrow> string \<Rightarrow> pydict" where
  "load_fail code message p = norm_reply False PNone code [detail_row ''error'' code message [(''path'', PStr p)]]"

definition plan_of_parsed :: "plan_env \<Rightarrow> string \<Rightarrow> pyval \<Rightarrow> py_error + pydict" where
  "plan_of_parsed E p parsed =
     (let obj = (case parsed of PList xs \<Rightarrow> PDict [(''steps'', PList xs)] | v \<Rightarrow> v) in
      case obj of
        PDict d \<Rightarrow> normalize_plan E (PDict d)
      | _ \<Rightarrow> Inr (load_fail ''plan_not_object'' ''loaded plan must be object'' p))"

definition load_plan_from_path :: "plan_env \<Rightarrow> string \<Rightarrow> py_error + pydict" where
  "load_plan_from_path E path =
     (let p = pn_resolve E path in
      if py_strip path = [] then
        Inr (norm_reply False PNone ''path_required'' [detail_row ''error'' ''path_required'' ''path is required'' []])
      else case pn_file E p of
        File_missing \<Rightarrow> Inr (load_fail ''path_not_found'' ''plan path does not exist'' p)
      | File_not_regular \<Rightarrow> Inr (load_fail ''path_not_file'' ''plan path must be a file'' p)
      | File_unreadable msg \<Rightarrow> Inr (load_fail ''path_read_failed'' msg p)
      | File_text text \<Rightarrow>
          (let suffix = py_lower (path_suffix p) in
           if suffix = ''.json'' then
             (case pn_parse_json E text of
                Inl msg \<Rightarrow> Inr (load_fail ''json_invalid'' msg p)
              | Inr v \<Rightarrow> plan_of_parsed E p v)
           else if suffix \<in> {''.yaml'', ''.yml''} then
             (case pn_parse_yaml E of
                None \<Rightarrow> Inr (load_fail ''yaml_not_supported_no_deps'' ''PyYAML is not installed'' p)
              | Some parse \<Rightarrow> (case parse text of
                  Inl msg \<Rightarrow> Inr (load_fail ''yaml_invalid'' msg p)
                | Inr v \<Rightarrow> plan_of_parsed E p v))
           else Inr (load_fail ''unsupported_extension'' ''use .json/.yaml/.yml'' p)))"

section \<open>The way into the queue\<close>

definition reply_details :: "pydict \<Rightarrow> pyval list" where
  "reply_details rep = (case dict_get rep ''details'' of PList xs \<Rightarrow> xs | _ \<Rightarrow> [])"

definition codes_of_level :: "string \<Rightarrow> pyval list \<Rightarrow> string list" where
  \<comment> \<open>\<open>_warnings_from_details\<close> and \<open>_error_codes\<close>: the codes, each once, in order\<close>
  "codes_of_level level details =
     fold (\<lambda>row out. let code = py_strip (get_str (dict_of row) ''code'') in
             if get_str (dict_of row) ''level'' \<noteq> level \<or> code = [] \<or> code \<in> set out then out else out @ [code])
       details []"

definition add_once :: "string \<Rightarrow> string list \<Rightarrow> string list" where
  "add_once x xs = (if x \<in> set xs then xs else xs @ [x])"

text \<open>What the \<open>try\<close> block has done so far when it raises.\<close>

record prep_state =
  pr_details :: "pyval list"
  pr_warnings :: "string list"
  pr_source :: pyval
  pr_strict :: strict_state

definition prep_reply :: "bool \<Rightarrow> pyval \<Rightarrow> string \<Rightarrow> bool \<Rightarrow> pyval \<Rightarrow> prep_state \<Rightarrow> pydict" where
  "prep_reply ok plan hash strict status s =
     [(''ok'', PBool ok), (''error'', PStr (if ok then [] else ''plan_invalid'')), (''details'', PList (pr_details s)),
      (''warnings'', PList (map PStr (pr_warnings s))), (''plan'', plan), (''plan_hash'', PStr hash),
      (''strict'', PBool strict), (''strict_status'', status)]"

definition steps_only :: "pyval \<Rightarrow> pyval" where
  "steps_only v = (case v of PList xs \<Rightarrow> PDict [(''steps'', PList xs)] | _ \<Rightarrow> v)"

definition note_details :: "pyval list \<Rightarrow> (prep_state, unit) py_action" where
  "note_details ds = modifyS (\<lambda>s. s\<lparr>pr_details := pr_details s @ ds\<rparr>)"

definition note_warnings :: "(string list \<Rightarrow> string list) \<Rightarrow> (prep_state, unit) py_action" where
  "note_warnings f = modifyS (\<lambda>s. s\<lparr>pr_warnings := f (pr_warnings s)\<rparr>)"

definition answer_prep :: "plan_env \<Rightarrow> bool \<Rightarrow> pyval \<Rightarrow> string \<Rightarrow> bool \<Rightarrow> (prep_state, pydict) py_action" where
  "answer_prep E ok plan hash strict s = (Inr (prep_reply ok plan hash strict (strict_status E (pr_strict s)) s), s)"

definition load_source :: "plan_env \<Rightarrow> bool \<Rightarrow> string \<Rightarrow> (prep_state, bool) py_action" where
  \<comment> \<open>the plan file, when a path is given; the result says whether a strict refusal follows\<close>
  "load_source E strict plan_path =
     (if py_strip plan_path = [] then retS False
      else
        bindS (liftS (load_plan_from_path E plan_path)) (\<lambda>rep.
        bindS (note_details (reply_details rep)) (\<lambda>_.
        bindS (note_warnings (\<lambda>ws. ws @ codes_of_level ''warn'' (reply_details rep))) (\<lambda>_.
        if truthy (dict_get rep ''ok'') then
          bindS (modifyS (\<lambda>s. s\<lparr>pr_source := dict_get rep ''plan''\<rparr>)) (\<lambda>_. retS False)
        else if strict then retS True
        else bindS (note_warnings (add_once ''plan_path_lenient_mode'')) (\<lambda>_. retS False)))))"

definition strict_forbidden :: "string list" where
  "strict_forbidden = [''unknown_step_keys'', ''unknown_plan_keys'', ''unknown_budget_keys'']"

definition check_valid :: "plan_env \<Rightarrow> bool \<Rightarrow> pydict \<Rightarrow> (prep_state, pydict) py_action" where
  \<comment> \<open>from \<open>validate_plan\<close> on\<close>
  "check_valid E strict normalized =
     (let val = validate_plan E (PDict normalized); ph = get_str val ''plan_hash'' in
      bindS (note_details (reply_details val)) (\<lambda>_.
      if \<not> truthy (dict_get val ''ok'') then
        (if strict then answer_prep E False (PDict normalized) ph strict
         else bindS (note_warnings (\<lambda>ws. fold (\<lambda>code. add_once (''lenient_'' @ code))
                       (codes_of_level ''error'' (reply_details val)) (add_once ''plan_lenient_mode'' ws))) (\<lambda>_.
              answer_prep E True (PDict normalized) ph strict))
      else
        bindS (modifyS (\<lambda>s. if strict then s\<lparr>pr_strict := note_strict_success (pr_strict s)\<rparr> else s)) (\<lambda>_.
        answer_prep E True (PDict normalized) ph strict)))"

definition check_normal :: "plan_env \<Rightarrow> bool \<Rightarrow> (prep_state, pydict) py_action" where
  \<comment> \<open>from \<open>normalize_plan\<close> on\<close>
  "check_normal E strict =
     bindS (readS (\<lambda>s. Inr (steps_only (pr_source s)))) (\<lambda>src_obj.
     bindS (liftS (normalize_plan E src_obj)) (\<lambda>norm.
     let norm_details = reply_details norm; normalized = dict_get norm ''plan'' in
     bindS (note_details norm_details) (\<lambda>_.
     bindS (note_warnings (\<lambda>ws. ws @ codes_of_level ''warn'' norm_details)) (\<lambda>_.
     if \<not> truthy (dict_get norm ''ok'') \<and> strict then answer_prep E False normalized [] strict
     else
       bindS (note_warnings (if \<not> truthy (dict_get norm ''ok'') then add_once ''plan_lenient_mode'' else id)) (\<lambda>_.
       let normalized' = (if normalized = PNone
                          then (case src_obj of PDict d \<Rightarrow> PDict d | _ \<Rightarrow> PDict [(''steps'', PList [])])
                          else normalized);
           forbidden = filter (\<lambda>c. c \<in> set strict_forbidden) (codes_of_level ''warn'' norm_details)
       in if strict \<and> forbidden \<noteq> [] then
            bindS (note_details (map (\<lambda>code. detail_row ''error'' code ''strict schema forbids unknown keys''
                      [(''strict'', PBool True)]) forbidden)) (\<lambda>_.
            answer_prep E False normalized' [] strict)
          else bindS (liftS (dict_arg normalized')) (check_valid E strict))))))"

definition prep_crash :: "plan_env \<Rightarrow> bool \<Rightarrow> py_error \<Rightarrow> prep_state \<Rightarrow> pydict \<times> prep_state" where
  \<comment> \<open>the \<open>except\<close> block\<close>
  "prep_crash E strict exc s =
     (let (name, msg) = pn_error_text E exc;
          s1 = (if strict then
                  s\<lparr>pr_strict := note_strict_exception E ''agent_queue.enqueue'' exc (pr_strict s),
                    pr_details := pr_details s @ [detail_row ''error'' ''plan_schema_exception'' ''strict plan schema crashed''
                      [(''where'', PStr ''agent_queue.enqueue''), (''detail'', PStr (name @ '': '' @ msg))]]\<rparr>
                else s)
      in if strict \<and> strict_enabled E (pr_strict s1) then
           (prep_reply False PNone [] True (strict_status E (pr_strict s1)) s1, s1)
         else
           let ws = (if strict then add_once ''plan_schema_auto_rollback'' (pr_warnings s1) else pr_warnings s1);
               s2 = s1\<lparr>pr_warnings := add_once ''plan_schema_exception'' (add_once ''plan_lenient_mode'' ws)\<rparr>;
               fallback = (case steps_only (pr_source s) of PDict d \<Rightarrow> PDict d | _ \<Rightarrow> PDict [(''steps'', PList [])])
           in (prep_reply True fallback [] False (strict_status E (pr_strict s2)) s2, s2))"

definition normalize_validate_plan :: "plan_env \<Rightarrow> strict_state \<Rightarrow> pyval \<Rightarrow> string \<Rightarrow> pydict \<times> strict_state" where
  "normalize_validate_plan E S plan plan_path =
     (let strict = strict_enabled E S;
          s0 = \<lparr>pr_details = [], pr_warnings = [], pr_source = plan, pr_strict = S\<rparr>
      in case bindS (load_source E strict plan_path) (\<lambda>refused.
                 if refused then answer_prep E False PNone [] strict else check_normal E strict) s0 of
           (Inr rep, s) \<Rightarrow> (rep, pr_strict s)
         | (Inl exc, s) \<Rightarrow> (let (rep, s') = prep_crash E strict exc s in (rep, pr_strict s')))"

definition plan_reached :: "agent_env \<Rightarrow> string \<Rightarrow> bool option \<Rightarrow> bool" where
  \<comment> \<open>whether \<open>enqueue\<close> comes as far as checking the plan\<close>
  "plan_reached A agent_id requires_approval =
     (let aid = py_strip agent_id in
      case (if aid \<noteq> [] then agent_enabled_state A aid else Inr None) of
        Inl _ \<Rightarrow> False
      | Inr enabled \<Rightarrow> enabled \<noteq> Some False \<and>
          (case (if requires_approval = None \<and> aid \<noteq> [] then agent_requires_approval A aid else Inr None) of
             Inl _ \<Rightarrow> False | Inr _ \<Rightarrow> True))"

definition enqueue_plan ::
  "agent_env \<Rightarrow> plan_env \<Rightarrow> strict_state \<Rightarrow> pyval \<Rightarrow> int \<Rightarrow> int \<Rightarrow> int option \<Rightarrow> string \<Rightarrow> string \<Rightarrow> string \<Rightarrow>
   string \<Rightarrow> bool option \<Rightarrow> bool option \<Rightarrow> string \<Rightarrow> int \<Rightarrow> string \<Rightarrow> queue_lines \<Rightarrow>
   (py_error + pydict \<times> queue_lines) \<times> strict_state" where
  \<comment> \<open>\<open>enqueue\<close> with its plan check, and the strict mode it leaves behind\<close>
  "enqueue_plan A E S plan priority challenge_sec not_before_ts actor reason plan_path agent_id
     requires_approval approved queue_id now u s =
     (q_enqueue A (\<lambda>plan plan_path. fst (normalize_validate_plan E S plan plan_path)) plan priority challenge_sec
        not_before_ts actor reason plan_path agent_id requires_approval approved queue_id now u s,
      if plan_reached A agent_id requires_approval then snd (normalize_validate_plan E S plan plan_path) else S)"

definition load_plan :: "plan_env \<Rightarrow> (string \<Rightarrow> string) \<Rightarrow> pydict \<Rightarrow> py_error + pydict" where
  \<comment> \<open>\<open>absolute\<close> is the path made absolute against the working directory\<close>
  "load_plan E absolute row =
     (let plan_path = py_strip (get_str row ''plan_path''); inline_plan = dict_get row ''plan'' in
      if plan_path \<noteq> [] then
        let p = absolute plan_path in
        if pn_file E p = File_missing then
          Inr [(''ok'', PBool False), (''error'', PStr ''plan_path_not_found''), (''plan_path'', PStr p)]
        else bindE (load_plan_from_path E p) (\<lambda>rep.
          if truthy (dict_get rep ''ok'') then
            Inr [(''ok'', PBool True), (''plan'', dict_get rep ''plan''), (''plan_path'', PStr p)]
          else Inr [(''ok'', PBool False), (''error'', PStr (py_str (py_or (dict_get rep ''error'') (PStr ''plan_path_invalid'')))),
                    (''detail'', PStr (case reply_details rep of [] \<Rightarrow> [] | d # _ \<Rightarrow> py_str (dict_get (dict_of d) ''message''))),
                    (''details'', PList (reply_details rep)), (''plan_path'', PStr p)])
      else if inline_plan = PNone then Inr [(''ok'', PBool False), (''error'', PStr ''plan_missing'')]
      else bindE (normalize_plan E (steps_only inline_plan)) (\<lambda>rep.
        if truthy (dict_get rep ''ok'') then
          Inr [(''ok'', PBool True), (''plan'', dict_get rep ''plan''), (''plan_path'', PStr [])]
        else Inr [(''ok'', PBool True), (''plan'', inline_plan), (''plan_path'', PStr []),
                  (''warnings'', PList [PStr ''plan_lenient_mode''])]))"

end
