(* ===== verification/PlanLaws.thy ===== *)
theory PlanLaws
  imports PlanSchema
begin

text \<open>
  What normalisation and validation of plans guarantee: a normalised plan is in normal form, validation
  decides a declarative notion of plan, what strict mode lets into the queue, and how it is lost.
\<close>

section \<open>Depth\<close>

lemma max_from_le: "max_from d xs \<le> m \<longleftrightarrow> d \<le> m \<and> (\<forall>x \<in> set xs. x \<le> m)"
  unfolding max_from_def by (induction xs arbitrary: d) auto

lemma max_from_Suc: "Suc (max_from d xs) = max_from (Suc d) (map Suc xs)"
  unfolding max_from_def by (induction xs arbitrary: d) (auto simp: max_def)

lemma json_depth_small:
  "m \<le> 64 \<Longrightarrow> d \<le> 64 \<Longrightarrow> json_depth v d \<le> m \<longleftrightarrow> d + nesting v \<le> m"
proof (induction v d rule: json_depth.induct)
  case (1 kvs d)
  have step: "json_depth v (Suc d) \<le> m \<longleftrightarrow> Suc d + nesting v \<le> m" if "(k, v) \<in> set kvs" for k v
  proof (cases "d = 64")
    case True
    then have "Suc d \<le> json_depth v (Suc d)" by (cases v) simp_all
    with True 1(2) show ?thesis by simp
  next
    case False
    with 1 that show ?thesis by auto
  qed
  show ?case
  proof (cases kvs)
    case Nil
    then show ?thesis by (simp add: max_from_def)
  next
    case (Cons kv rest)
    have "json_depth (PDict kvs) d \<le> m \<longleftrightarrow> d \<le> m \<and> (\<forall>(k, v) \<in> set kvs. Suc d \<le> m \<and> Suc d + nesting v \<le> m)"
      using step 1(3) by (auto simp: max_from_le)
    also have "\<dots> \<longleftrightarrow> Suc d \<le> m \<and> (\<forall>(k, v) \<in> set kvs. Suc d + nesting v \<le> m)"
      using Cons by auto
    also have "\<dots> \<longleftrightarrow> (\<forall>x \<in> set (map (\<lambda>(k, v). nesting v) kvs). x \<le> m - Suc d) \<and> Suc d \<le> m"
      by (auto simp: le_diff_conv2)
    also have "\<dots> \<longleftrightarrow> d + nesting (PDict kvs) \<le> m"
      using Cons max_from_le [of 0 "map (\<lambda>(k, v). nesting v) kvs" "m - Suc d"] by (simp only: nesting.simps) auto
    finally show ?thesis .
  qed
next
  case (2 xs d)
  have step: "json_depth v (Suc d) \<le> m \<longleftrightarrow> Suc d + nesting v \<le> m" if "v \<in> set xs" for v
  proof (cases "d = 64")
    case True
    then have "Suc d \<le> json_depth v (Suc d)" by (cases v) simp_all
    with True 2(2) show ?thesis by simp
  next
    case False
    with 2 that show ?thesis by auto
  qed
  show ?case
  proof (cases xs)
    case Nil
    then show ?thesis by (simp add: max_from_def)
  next
    case (Cons x rest)
    have "json_depth (PList xs) d \<le> m \<longleftrightarrow> d \<le> m \<and> (\<forall>v \<in> set xs. Suc d + nesting v \<le> m)"
      using step 2(3) by (auto simp: max_from_le)
    also have "\<dots> \<longleftrightarrow> (\<forall>x \<in> set (map nesting xs). x \<le> m - Suc d) \<and> Suc d \<le> m"
      using Cons by (auto simp: le_diff_conv2)
    also have "\<dots> \<longleftrightarrow> d + nesting (PList xs) \<le> m"
      using Cons max_from_le [of 0 "map nesting xs" "m - Suc d"] by (simp only: nesting.simps) auto
    finally show ?thesis .
  qed
qed simp_all

lemma nesting_child:
  "v \<in> set xs \<Longrightarrow> nesting v \<le> nesting (PList xs)" "(k, v) \<in> set d \<Longrightarrow> nesting v \<le> nesting (PDict d)"
  using max_from_le [of 0 "map nesting xs" "max_from 0 (map nesting xs)"]
    max_from_le [of 0 "map (\<lambda>(k, v). nesting v) d" "max_from 0 (map (\<lambda>(k, v). nesting v) d)"]
  by (fastforce simp: le_SucI)+

lemma meta_valid_nesting: "m \<le> 64 \<Longrightarrow> meta_valid m v \<longleftrightarrow> nesting v \<le> m"
proof (induction v rule: meta_valid.induct)
  case (1 m xs)
  have "json_depth (PList xs) 0 \<le> m \<longleftrightarrow> nesting (PList xs) \<le> m"
    using json_depth_small [of m 0 "PList xs"] 1(2) by simp
  moreover have "nesting (PList xs) \<le> m \<Longrightarrow> list_all (meta_valid m) xs"
    using 1 nesting_child(1) [of _ xs] by (fastforce simp: list_all_iff)
  ultimately show ?case by (simp only: meta_valid.simps) blast
next
  case (2 m d)
  have "json_depth (PDict d) 0 \<le> m \<longleftrightarrow> nesting (PDict d) \<le> m"
    using json_depth_small [of m 0 "PDict d"] 2(2) by simp
  moreover have "nesting (PDict d) \<le> m \<Longrightarrow> list_all (\<lambda>(k, v). meta_valid m v) d"
    using 2 nesting_child(2) [of _ _ d] by (fastforce simp: list_all_iff)
  ultimately show ?case by (simp only: meta_valid.simps) blast
qed simp_all

section \<open>Normal form\<close>

lemma canonical_action_idem [simp]:
  "py_strip (canonical_action a) = canonical_action a" "canonical_action (canonical_action a) = canonical_action a"
proof -
  have w: "py_strip ''llm.remote.call'' = ''llm.remote.call''"
    by (simp add: py_strip_def strip_by_def is_space_def code_point_def)
  then show "py_strip (canonical_action a) = canonical_action a" by (simp add: canonical_action_def Let_def)
  with w show "canonical_action (canonical_action a) = canonical_action a" by (simp add: canonical_action_def Let_def)
qed

definition step_row :: "string \<Rightarrow> pydict \<Rightarrow> string \<Rightarrow> pyval" where
  "step_row action args why = PDict [(''action'', PStr action), (''args'', PDict args), (''why'', PStr why)]"

definition normal_step :: "pyval \<Rightarrow> bool" where
  "normal_step v = (\<exists>action args why. v = step_row action args why \<and> canonical_action action = action \<and> action \<noteq> []
     \<and> py_strip why \<noteq> [])"

lemma step_row_action: "step_action [(''action'', PStr a), (''args'', PDict d), (''why'', PStr w)] = canonical_action a"
proof (cases "py_strip a = []")
  case True
  then show ?thesis by (cases "a = []") (simp_all add: step_action_def py_or_def canonical_action_def dict_get_def Let_def)
next
  case False
  then have "a \<noteq> []" by auto
  with False show ?thesis by (simp add: step_action_def py_or_def canonical_action_def Let_def)
qed

lemma normalize_normal_step:
  assumes "normal_step v"
  shows "normalize_step idx v = ([], [v])"
proof -
  from assms obtain a d w where v: "v = step_row a d w" "canonical_action a = a" "a \<noteq> []" "py_strip w \<noteq> []"
    by (auto simp: normal_step_def)
  have k: "unknown_keys step_keys [(''action'', PStr a), (''args'', PDict d), (''why'', PStr w)] = []"
    by (simp add: unknown_keys_def step_keys_def)
  show ?thesis
    using v(2-) unfolding v(1) step_row_def
    by (simp add: normalize_step_def Let_def k key_warning_def step_row_action step_args_def)
qed

lemma py_strip_nonblank: "\<not> is_space c \<Longrightarrow> c \<in> set s \<Longrightarrow> py_strip s \<noteq> []"
  by (auto simp: py_strip_def strip_by_Nil_iff)

lemma normalize_step_normal:
  assumes "normalize_step idx v = (ds, ss)" and "x \<in> set ss"
  shows "normal_step x"
proof -
  from assms obtain row args w where v: "v = PDict row" "step_action row \<noteq> []" "step_args row = PDict args"
    and x: "x = step_row (step_action row) args w"
    and w: "w = (if dict_get row ''why'' = PNone \<or> py_strip (py_str (dict_get row ''why'')) = []
                 then ''agent_step:'' @ step_action row else py_str (dict_get row ''why''))"
    by (auto simp: normalize_step_def step_row_def Let_def split: pyval.splits if_splits)
  have "py_strip (''agent_step:'' @ a) \<noteq> []" for a
    by (rule py_strip_nonblank [of "CHR ''a''"]) (simp_all add: is_space_def code_point_def)
  then have "py_strip w \<noteq> []" by (simp add: w)
  moreover have "canonical_action (step_action row) = step_action row" by (simp add: step_action_def Let_def)
  ultimately show ?thesis using v(2) x by (auto simp: normal_step_def)
qed

lemma normalize_steps_normal: "normalize_steps idx vs = (ds, ss) \<Longrightarrow> list_all normal_step ss"
proof (induction vs arbitrary: idx ds ss)
  case (Cons v vs)
  obtain d s where vs: "normalize_step idx v = (d, s)" by force
  obtain d' s' where vs': "normalize_steps (Suc idx) vs = (d', s')" by force
  show ?case using Cons.prems Cons.IH [OF vs'] normalize_step_normal [OF vs]
    by (auto simp: vs vs' list_all_iff)
qed simp

lemma normal_steps_kept: "list_all normal_step ss \<Longrightarrow> normalize_steps idx ss = ([], ss)"
  by (induction ss arbitrary: idx) (simp_all add: normalize_normal_step)

lemma text_entry_get [simp]:
  "dict_get (text_entry src k @ e) k' = (if k = k' \<and> dict_get src k \<noteq> PNone then PStr (py_str (dict_get src k)) else dict_get e k')"
  "dict_get (text_entry src k) k' = (if k = k' \<and> dict_get src k \<noteq> PNone then PStr (py_str (dict_get src k)) else PNone)"
  "has_key (text_entry src k @ e) k' = (k = k' \<and> dict_get src k \<noteq> PNone \<or> has_key e k')"
  "has_key (text_entry src k) k' = (k = k' \<and> dict_get src k \<noteq> PNone)"
  by (auto simp: text_entry_def)

lemma limit_entry_get [simp]:
  "dict_get (limit_entry b k @ e) k' = (if k = k' \<and> has_key b k then PInt (max 1 (safe_int (dict_get b k) 0)) else dict_get e k')"
  "dict_get (limit_entry b k) k' = (if k = k' \<and> has_key b k then PInt (max 1 (safe_int (dict_get b k) 0)) else PNone)"
  "has_key (limit_entry b k @ e) k' = (k = k' \<and> has_key b k \<or> has_key e k')"
  "has_key (limit_entry b k) k' = (k = k' \<and> has_key b k)"
  by (auto simp: limit_entry_def)

lemma safe_int_PInt [simp]: "safe_int (PInt i) d = i"
  by (simp add: safe_int_def)

lemma entry_normal:
  "dict_get e k = (if has_key b k then PInt (max 1 (safe_int (dict_get b k) 0)) else PNone) \<Longrightarrow> has_key e k = has_key b k
     \<Longrightarrow> limit_entry e k = limit_entry b k"
  "dict_get e k = (if dict_get b k \<noteq> PNone then PStr (py_str (dict_get b k)) else PNone) \<Longrightarrow> text_entry e k = text_entry b k"
  by (auto simp: limit_entry_def text_entry_def opt_entry_def)

lemma normal_budgets_idem: "normal_budgets (normal_budgets b) = normal_budgets b"
proof -
  let ?e = "normal_budgets b"
  have "limit_entry ?e ''max_ms'' = limit_entry b ''max_ms''" "limit_entry ?e ''max_steps'' = limit_entry b ''max_steps''"
    "limit_entry ?e ''window_sec'' = limit_entry b ''window_sec''"
    by (intro entry_normal(1); simp add: normal_budgets_def)+
  moreover have "text_entry ?e ''oracle_window'' = text_entry b ''oracle_window''"
    by (intro entry_normal(2)) (simp add: normal_budgets_def)
  ultimately show ?thesis unfolding normal_budgets_def [of "normal_budgets b"] by (simp add: normal_budgets_def [of b])
qed

lemma keys_of_entries:
  "set (map fst (text_entry src k)) \<subseteq> {k}" "set (map fst (limit_entry src k)) \<subseteq> {k}" "set (map fst (opt_entry c k v)) \<subseteq> {k}"
  by (auto simp: text_entry_def limit_entry_def opt_entry_def)

lemma unknown_keys_Nil: "unknown_keys allowed d = [] \<longleftrightarrow> set (map fst d) \<subseteq> set allowed"
proof -
  have "unknown_keys allowed d = [] \<longleftrightarrow> set (unknown_keys allowed d) = {}" by simp
  also have "\<dots> \<longleftrightarrow> set (map fst d) \<subseteq> set allowed" by (auto simp: unknown_keys_def)
  finally show ?thesis .
qed

lemma normal_budgets_keys: "unknown_keys budget_keys (normal_budgets b) = []"
  unfolding unknown_keys_Nil normal_budgets_def map_append set_append budget_keys_def
  by (intro Un_least; rule order_trans [OF keys_of_entries(1)] order_trans [OF keys_of_entries(2)]; simp)

lemma budgets_part_cases:
  "snd (budgets_part src) = [] \<or> (\<exists>b. snd (budgets_part src) = [(''budgets'', PDict (normal_budgets b))])"
  by (auto simp: budgets_part_def split: pyval.splits)

definition in_normal_form :: "pydict \<Rightarrow> bool" where
  "in_normal_form p = (\<exists>E src pid ss. p = normal_plan E pid ss src \<and> list_all normal_step ss \<and> py_strip pid = pid \<and> pid \<noteq> [])"

lemma meta_kept:
  "dict_get src ''meta'' \<noteq> PNone \<and> meta_detail src = [] \<Longrightarrow> dict_get p ''meta'' = dict_get src ''meta'' \<Longrightarrow> meta_detail p = []"
  "dict_get p ''meta'' = PNone \<Longrightarrow> meta_detail p = []"
  by (simp_all add: meta_detail_def)

lemma budgets_part_get:
  "dict_get (snd (budgets_part src) @ e) k =
     (if k = ''budgets'' \<and> snd (budgets_part src) \<noteq> [] then dict_get (snd (budgets_part src)) k else dict_get e k)"
  using budgets_part_cases [of src] by auto

lemma normal_plan_get:
  fixes E pid ss src
  defines "p \<equiv> normal_plan E pid ss src"
  shows "dict_get p ''plan_id'' = PStr pid" "dict_get p ''steps'' = PList ss" "dict_get p ''schema'' = PStr ''ester.plan.v1''"
    "dict_get p ''created_ts'' =
       (if dict_get src ''created_ts'' \<noteq> PNone then PInt (safe_int (dict_get src ''created_ts'') (pn_now E)) else PNone)"
    "k \<in> {''title'', ''intent'', ''initiative_id'', ''agent_id'', ''template_id''} \<Longrightarrow>
       dict_get p k = (if dict_get src k \<noteq> PNone then PStr (py_str (dict_get src k)) else PNone)"
    "dict_get p ''budgets'' = dict_get (snd (budgets_part src)) ''budgets''"
    "dict_get p ''meta'' = (if dict_get src ''meta'' \<noteq> PNone \<and> meta_detail src = [] then dict_get src ''meta'' else PNone)"
proof -
  show "dict_get p ''budgets'' = dict_get (snd (budgets_part src)) ''budgets''"
    by (simp add: p_def normal_plan_def budgets_part_get)
  show "dict_get p k = (if dict_get src k \<noteq> PNone then PStr (py_str (dict_get src k)) else PNone)"
    if "k \<in> {''title'', ''intent'', ''initiative_id'', ''agent_id'', ''template_id''}"
    using that by (elim insertE emptyE; hypsubst) (simp_all add: p_def normal_plan_def budgets_part_get)
qed (simp_all add: p_def normal_plan_def budgets_part_get)

lemma normal_plan_keys: "unknown_keys plan_keys (normal_plan E pid ss src) = []"
proof -
  have b: "set (map fst (snd (budgets_part src))) \<subseteq> {''budgets''}" using budgets_part_cases [of src] by auto
  show ?thesis
    unfolding unknown_keys_Nil normal_plan_def map_append set_append plan_keys_def
    by (intro Un_least; rule order_trans [OF keys_of_entries(1)] order_trans [OF keys_of_entries(3)] order_trans [OF b] subsetI;
        auto)
qed

lemma normal_plan_budgets: "budgets_part (normal_plan E pid ss src) = ([], snd (budgets_part src))"
proof -
  have "dict_get (snd (budgets_part src)) ''budgets'' = PNone \<and> snd (budgets_part src) = []
      \<or> (\<exists>b. dict_get (snd (budgets_part src)) ''budgets'' = PDict (normal_budgets b)
           \<and> snd (budgets_part src) = [(''budgets'', PDict (normal_budgets b))])"
    using budgets_part_cases [of src] by auto
  then show ?thesis
    by (auto simp: budgets_part_def [of "normal_plan E pid ss src"] normal_plan_get(6) key_warning_def
          normal_budgets_keys normal_budgets_idem)
qed

lemma normal_plan_meta: "meta_detail (normal_plan E pid ss src) = []"
proof (cases "dict_get src ''meta'' \<noteq> PNone \<and> meta_detail src = []")
  case True
  show ?thesis by (rule meta_kept(1) [OF True]) (use True in \<open>simp add: normal_plan_get(7)\<close>)
next
  case False
  show ?thesis by (rule meta_kept(2)) (use False in \<open>auto simp: normal_plan_get(7)\<close>)
qed

lemma normal_plan_again: "normal_plan E' pid ss (normal_plan E pid ss src) = normal_plan E pid ss src"
proof -
  let ?p = "normal_plan E pid ss src"
  have "text_entry ?p k = text_entry src k" if "k \<in> {''title'', ''intent'', ''initiative_id'', ''agent_id'', ''template_id''}" for k
    by (rule entry_normal(2)) (rule normal_plan_get(5) [OF that])
  then have t: "text_entry ?p ''title'' = text_entry src ''title''" "text_entry ?p ''intent'' = text_entry src ''intent''"
    "text_entry ?p ''initiative_id'' = text_entry src ''initiative_id''"
    "text_entry ?p ''agent_id'' = text_entry src ''agent_id''" "text_entry ?p ''template_id'' = text_entry src ''template_id''"
    by simp_all
  have m: "opt_entry (dict_get ?p ''meta'' \<noteq> PNone \<and> meta_detail ?p = []) ''meta'' (dict_get ?p ''meta'')
      = opt_entry (dict_get src ''meta'' \<noteq> PNone \<and> meta_detail src = []) ''meta'' (dict_get src ''meta'')"
    by (simp add: normal_plan_get(7) normal_plan_meta opt_entry_def)
  have c: "opt_entry (dict_get ?p ''created_ts'' \<noteq> PNone) ''created_ts'' (PInt (safe_int (dict_get ?p ''created_ts'') (pn_now E')))
      = opt_entry (dict_get src ''created_ts'' \<noteq> PNone) ''created_ts'' (PInt (safe_int (dict_get src ''created_ts'') (pn_now E)))"
    by (simp add: normal_plan_get(4) opt_entry_def)
  show ?thesis
    unfolding normal_plan_def [of E' pid ss ?p] t m c normal_plan_budgets
    by (simp add: normal_plan_def)
qed

lemma normal_form_fixed:
  assumes "in_normal_form p"
  shows "normalize_plan E (PDict p) = Inr (norm_reply True (PDict p) [] [])"
proof -
  from assms obtain E0 src pid ss where p: "p = normal_plan E0 pid ss src" and ss: "list_all normal_step ss"
    and pid: "py_strip pid = pid" "pid \<noteq> []" by (auto simp: in_normal_form_def)
  have "get_str p ''plan_id'' = pid" by (simp add: p get_str_def normal_plan_get(1))
  then have "plan_id_of E ss p = Inr pid" using pid by (simp add: plan_id_of_def)
  then show ?thesis
    using normal_steps_kept [OF ss]
    by (simp add: normalize_plan_def p normal_plan_get(2) normal_plan_keys key_warning_def normal_plan_budgets normal_plan_meta
          normal_plan_again first_error_def)
qed

definition digest_plain :: "plan_env \<Rightarrow> bool" where
  \<comment> \<open>the hexadecimal digest holds no white space\<close>
  "digest_plain E = (\<forall>x. \<forall>c \<in> set (pn_digest E x). \<not> is_space c)"

lemma plan_id_normal:
  assumes "digest_plain E" "plan_id_of E ss src = Inr pid"
  shows "py_strip pid = pid" "pid \<noteq> []"
proof -
  have "py_strip (''plan_'' @ take 12 (pn_digest E x)) = ''plan_'' @ take 12 (pn_digest E x)" for x
  proof -
    have "\<not> is_space c" if "c \<in> set (take 12 (pn_digest E x))" for c
      using that assms(1) by (auto simp: digest_plain_def dest: in_set_takeD)
    then have "\<forall>c \<in> set (''plan_'' @ take 12 (pn_digest E x)). \<not> is_space c"
      by (auto simp: is_space_def code_point_def)
    then show ?thesis unfolding py_strip_def by (rule strip_by_id)
  qed
  with assms(2) show "py_strip pid = pid" "pid \<noteq> []"
    by (auto simp: plan_id_of_def Let_def map_sum_Inr_iff hash_seed_def bindE_Inr_iff split: if_splits)
qed

lemma norm_reply_get [simp]:
  "dict_get (norm_reply ok plan err details) ''plan'' = plan" "dict_get (norm_reply ok plan err details) ''ok'' = PBool ok"
  "dict_get (norm_reply ok plan err details) ''details'' = PList details"
  "dict_get (norm_reply ok plan err details) ''error'' = PStr err"
  by (simp_all add: norm_reply_def)

lemma normalize_normal:
  assumes "digest_plain E" "normalize_plan E obj = Inr rep" "dict_get rep ''plan'' = PDict p"
  shows "in_normal_form p"
proof -
  from assms(2,3) obtain src where o1: "obj = PDict src" by (auto simp: normalize_plan_def split: pyval.splits)
  with assms(2,3) obtain raw where o2: "dict_get src ''steps'' = PList raw"
    by (auto simp: normalize_plan_def Let_def split: pyval.splits)
  note o = o1 o2
  obtain ds ss where n: "normalize_steps 1 raw = (ds, ss)" by force
  from assms(2) o n obtain pid where pid: "plan_id_of E ss src = Inr pid"
    by (auto simp: normalize_plan_def bindE_Inr_iff Let_def)
  with assms(2,3) o n have "p = normal_plan E pid ss src"
    by (auto simp: normalize_plan_def Let_def split: option.splits)
  then show ?thesis
    using normalize_steps_normal [OF n] plan_id_normal [OF assms(1) pid] by (auto simp: in_normal_form_def)
qed

section \<open>What validation decides\<close>

fun none_or :: "(pyval \<Rightarrow> bool) \<Rightarrow> pyval \<Rightarrow> bool" where
  "none_or P PNone = True"
| "none_or P v = P v"

fun dict_with :: "(pydict \<Rightarrow> bool) \<Rightarrow> pyval \<Rightarrow> bool" where
  "dict_with P (PDict d) = P d"
| "dict_with P _ = False"

fun list_with :: "(pyval list \<Rightarrow> bool) \<Rightarrow> pyval \<Rightarrow> bool" where
  "list_with P (PList xs) = P xs"
| "list_with P _ = False"

definition only_keys :: "string list \<Rightarrow> pydict \<Rightarrow> bool" where
  "only_keys allowed d = list_all (\<lambda>(k, v). k \<in> set allowed) d"

definition args_conform :: "plan_env \<Rightarrow> pydict \<Rightarrow> bool" where
  "args_conform E args = (nesting (PDict args) \<le> min 8 (pn_dump_limit E) \<and> length (canonical_bytes (PDict args)) \<le> 32768)"

definition step_conforms :: "plan_env \<Rightarrow> pydict \<Rightarrow> bool" where
  "step_conforms E row =
     (only_keys step_keys row \<and> step_action row \<noteq> [] \<and> length (step_action row) \<le> 120
      \<and> pn_has_action E (step_action row) \<and> length (get_str row ''why'') \<le> 500
      \<and> none_or (dict_with (args_conform E)) (dict_get row ''args''))"

definition budgets_conform :: "pydict \<Rightarrow> bool" where
  "budgets_conform b =
     (only_keys budget_keys b \<and> list_all (\<lambda>k. has_key b k \<longrightarrow> is_int (dict_get b k)) [''max_ms'', ''max_steps'', ''window_sec'']
      \<and> none_or is_str (dict_get b ''oracle_window''))"

definition plan_conforms :: "plan_env \<Rightarrow> pydict \<Rightarrow> bool" where
  "plan_conforms E src =
     (py_strip (get_str src ''schema'') = ''ester.plan.v1'' \<and> py_strip (get_str src ''plan_id'') \<noteq> []
      \<and> list_with (\<lambda>ss. ss \<noteq> [] \<and> int (length ss) \<le> step_limit src \<and> list_all (dict_with (step_conforms E)) ss)
          (dict_get src ''steps'')
      \<and> only_keys plan_keys src
      \<and> list_all (\<lambda>k. none_or is_str (dict_get src k)) [''title'', ''intent'', ''initiative_id'', ''agent_id'', ''template_id'']
      \<and> none_or is_int (dict_get src ''created_ts'')
      \<and> none_or (dict_with (\<lambda>m. nesting (PDict m) \<le> 8)) (dict_get src ''meta'')
      \<and> none_or (dict_with budgets_conform) (dict_get src ''budgets''))"

definition is_error_row :: "pyval \<Rightarrow> bool" where
  "is_error_row d = (get_str (dict_of d) ''level'' = ''error'')"

lemma error_row [simp]: "is_error_row (detail_row ''error'' code message extra)"
  by (simp add: is_error_row_def detail_row_def get_str_def)

lemma all_errors [simp]:
  "list_all is_error_row (err_if c code message extra)"
  "list_all is_error_row (key_warning ''error'' code message extra ks)"
  by (simp_all add: err_if_def key_warning_def)

lemma first_error_None: "list_all is_error_row ds \<Longrightarrow> first_error ds = None \<longleftrightarrow> ds = []"
  by (cases ds) (simp_all add: first_error_def is_error_row_def)

lemma err_if_Nil [simp]: "err_if c code message extra = [] \<longleftrightarrow> \<not> c"
  by (simp add: err_if_def)

lemma key_warning_Nil: "key_warning l c m e (unknown_keys allowed d) = [] \<longleftrightarrow> only_keys allowed d"
  using unknown_keys_Nil [of allowed d] by (auto simp: key_warning_def only_keys_def list_all_iff)

lemma args_details_Nil: "args_details E idx args = [] \<longleftrightarrow> args_conform E args"
  using json_depth_small [of 8 0 "PDict args"]
  by (auto simp: args_details_def args_conform_def Let_def not_less simp del: json_depth.simps nesting.simps)

lemma args_details_errors: "list_all is_error_row (args_details E idx args)"
  by (simp add: args_details_def Let_def)

lemma step_args_case:
  "(case step_args row of PDict args \<Rightarrow> P args | _ \<Rightarrow> False) \<longleftrightarrow> none_or (dict_with P) (dict_get row ''args'')"
  if "P []"
  using that by (cases "dict_get row ''args''") (simp_all add: step_args_def)

lemma no_args_conform: "args_conform E []"
  by (simp add: args_conform_def canonical_bytes_def utf8_def utf8_char_def code_point_def)

lemma validate_step_Nil: "validate_step E idx v = [] \<longleftrightarrow> dict_with (step_conforms E) v"
proof (cases v)
  case (PDict row)
  have "(case step_args row of PDict args \<Rightarrow> args_details E idx args
        | _ \<Rightarrow> [detail_row ''error'' ''step_args_type'' ''step.args must be an object'' [index_entry idx]]) = []
      \<longleftrightarrow> (case step_args row of PDict args \<Rightarrow> args_conform E args | _ \<Rightarrow> False)"
    by (simp add: args_details_Nil split: pyval.splits)
  also note step_args_case [where P = "args_conform E" and row = row, OF no_args_conform]
  finally show ?thesis
    by (auto simp: PDict validate_step_def Let_def step_conforms_def key_warning_Nil)
qed (simp_all add: validate_step_def)

lemma validate_step_errors: "list_all is_error_row (validate_step E idx v)"
  by (auto simp: validate_step_def Let_def args_details_errors split: pyval.splits)

lemma validate_steps_Nil: "validate_steps E idx vs = [] \<longleftrightarrow> list_all (dict_with (step_conforms E)) vs"
  by (induction vs arbitrary: idx) (simp_all add: validate_step_Nil)

lemma validate_steps_errors: "list_all is_error_row (validate_steps E idx vs)"
  by (induction vs arbitrary: idx) (simp_all add: validate_step_errors)

lemma str_field_Nil: "str_field src k = [] \<longleftrightarrow> none_or is_str (dict_get src k)"
  by (cases "dict_get src k") (simp_all add: str_field_def)

lemma meta_detail_Nil: "meta_detail src = [] \<longleftrightarrow> none_or (dict_with (\<lambda>m. nesting (PDict m) \<le> 8)) (dict_get src ''meta'')"
  by (cases "dict_get src ''meta''") (simp_all add: meta_detail_def meta_valid_nesting del: meta_valid.simps nesting.simps)

lemma budgets_details_Nil: "budgets_details src = [] \<longleftrightarrow> none_or (dict_with budgets_conform) (dict_get src ''budgets'')"
proof (cases "dict_get src ''budgets''")
  case (PDict b)
  have "dict_get b ''oracle_window'' \<noteq> PNone \<and> \<not> is_str (dict_get b ''oracle_window'') \<longleftrightarrow> \<not> none_or is_str (dict_get b ''oracle_window'')"
    by (cases "dict_get b ''oracle_window''") simp_all
  then show ?thesis
    by (auto simp: PDict budgets_details_def budgets_conform_def key_warning_Nil budget_int_def)
qed (simp_all add: budgets_details_def)

lemma created_Nil: "err_if (dict_get src k \<noteq> PNone \<and> \<not> is_int (dict_get src k)) c m e = [] \<longleftrightarrow> none_or is_int (dict_get src k)"
  by (cases "dict_get src k") simp_all

lemma plan_details_errors: "list_all is_error_row (plan_details E src)"
  by (auto simp: plan_details_def Let_def validate_steps_errors str_field_def meta_detail_def budgets_details_def
        budget_int_def split: pyval.splits)

lemma plan_details_Nil: "plan_details E src = [] \<longleftrightarrow> plan_conforms E src"
proof -
  have steps: "\<not> not_list (dict_get src ''steps'') \<and> listed_steps src \<noteq> [] \<and> int (length (listed_steps src)) \<le> step_limit src
      \<and> list_all (dict_with (step_conforms E)) (listed_steps src)
    \<longleftrightarrow> list_with (\<lambda>ss. ss \<noteq> [] \<and> int (length ss) \<le> step_limit src \<and> list_all (dict_with (step_conforms E)) ss)
          (dict_get src ''steps'')"
    by (cases "dict_get src ''steps''") (auto simp: listed_steps_def not_list_def)
  show ?thesis
    unfolding plan_details_def plan_conforms_def Let_def append_is_Nil_conv created_Nil steps [symmetric]
    by (simp add: validate_steps_Nil key_warning_Nil str_field_Nil meta_detail_Nil budgets_details_Nil not_less)
qed

lemma validate_plan_reply:
  "validate_plan E (PDict src) = val_reply (plan_conforms E src)
     (case first_error (plan_details E src) of None \<Rightarrow> [] | Some e \<Rightarrow> e) (plan_details E src)
     (case plan_hash E src of Inr h \<Rightarrow> h | Inl _ \<Rightarrow> pn_digest E (pn_uuid E))"
  using first_error_None [OF plan_details_errors, of E src] plan_details_Nil [of E src]
  by (auto simp: validate_plan_def Let_def split: option.splits)

section \<open>Admission\<close>

definition admit :: "plan_env \<Rightarrow> strict_state \<Rightarrow> pyval \<Rightarrow> string \<Rightarrow> (py_error + pydict) \<times> prep_state" where
  \<comment> \<open>the \<open>try\<close> block of \<open>_normalize_validate_plan\<close>\<close>
  "admit E S plan plan_path =
     bindS (load_source E (strict_enabled E S) plan_path) (\<lambda>refused.
       if refused then answer_prep E False PNone [] (strict_enabled E S) else check_normal E (strict_enabled E S))
     \<lparr>pr_details = [], pr_warnings = [], pr_source = plan, pr_strict = S\<rparr>"

lemma normalize_validate_admit:
  "normalize_validate_plan E S plan plan_path = (case admit E S plan plan_path of
     (Inr rep, s) \<Rightarrow> (rep, pr_strict s)
   | (Inl exc, s) \<Rightarrow> (fst (prep_crash E (strict_enabled E S) exc s), pr_strict (snd (prep_crash E (strict_enabled E S) exc s))))"
  by (simp add: normalize_validate_plan_def admit_def Let_def case_prod_beta split: sum.splits prod.splits)

lemma prep_reply_get [simp]:
  "dict_get (prep_reply ok plan hash strict status s) ''ok'' = PBool ok"
  "dict_get (prep_reply ok plan hash strict status s) ''plan'' = plan"
  "dict_get (prep_reply ok plan hash strict status s) ''strict'' = PBool strict"
  by (simp_all add: prep_reply_def)

lemma note_simps [simp]:
  "bindS (note_details ds) f s = f () (s\<lparr>pr_details := pr_details s @ ds\<rparr>)"
  "bindS (note_warnings g) f s = f () (s\<lparr>pr_warnings := g (pr_warnings s)\<rparr>)"
  by (simp_all add: note_details_def note_warnings_def)

lemma liftS_bind: "bindS (liftS m) f s = (case m of Inl e \<Rightarrow> (Inl e, s) | Inr x \<Rightarrow> f x s)"
  by (cases m) simp_all

lemma val_reply_get [simp]: "dict_get (val_reply ok err ds h) ''ok'' = PBool ok"
  by (simp add: val_reply_def)

text \<open>What an answered request says: the plan conforms when strict mode let it through.\<close>

definition answered :: "plan_env \<Rightarrow> bool \<Rightarrow> strict_state \<Rightarrow> (py_error + pydict) \<times> prep_state \<Rightarrow> bool" where
  "answered E strict S out = (case out of
     (Inl e, s) \<Rightarrow> pr_strict s = S
   | (Inr rep, s) \<Rightarrow>
       dict_get rep ''strict'' = PBool strict
       \<and> (\<not> strict \<longrightarrow> dict_get rep ''ok'' = PBool True \<and> pr_strict s = S)
       \<and> (strict \<longrightarrow>
            (dict_get rep ''ok'' = PBool True \<and> pr_strict s = note_strict_success S
               \<and> (\<exists>p obj rep'. dict_get rep ''plan'' = PDict p \<and> plan_conforms E p
                    \<and> normalize_plan E obj = Inr rep' \<and> dict_get rep' ''ok'' = PBool True \<and> dict_get rep' ''plan'' = PDict p))
          \<or> (dict_get rep ''ok'' = PBool False \<and> pr_strict s = S)))"

lemma check_valid_answered:
  assumes "strict \<longrightarrow> (\<exists>obj rep'. normalize_plan E obj = Inr rep' \<and> dict_get rep' ''ok'' = PBool True \<and> dict_get rep' ''plan'' = PDict p)"
  shows "answered E strict (pr_strict s) (check_valid E strict p s)"
proof (cases "plan_conforms E p")
  case True
  with assms show ?thesis
    by (auto simp: check_valid_def Let_def validate_plan_reply answered_def answer_prep_def)
next
  case False
  then show ?thesis
    by (auto simp: check_valid_def Let_def validate_plan_reply answered_def answer_prep_def)
qed

lemma norm_reply_inject [simp]:
  "norm_reply ok plan err ds = norm_reply ok' plan' err' ds' \<longleftrightarrow> ok = ok' \<and> plan = plan' \<and> err = err' \<and> ds = ds'"
  by (simp add: norm_reply_def)

lemma normalize_plan_shape:
  assumes "normalize_plan E obj = Inr rep"
  shows "\<exists>ok plan err ds. rep = norm_reply ok plan err ds \<and> (plan = PNone \<or> (\<exists>p. plan = PDict p)) \<and> (ok \<longrightarrow> plan \<noteq> PNone)"
  using assms
  by (auto simp: ex_bool_eq normalize_plan_def Let_def bindE_Inr_iff split: pyval.splits prod.splits option.splits)

lemma check_normal_answered: "answered E strict (pr_strict s) (check_normal E strict s)"
proof (cases "normalize_plan E (steps_only (pr_source s))")
  case (Inl e)
  then show ?thesis by (simp add: check_normal_def answered_def liftS_bind)
next
  case (Inr rep)
  from normalize_plan_shape [OF this] obtain ok plan err ds where rep: "rep = norm_reply ok plan err ds"
    and plan: "plan = PNone \<or> (\<exists>p. plan = PDict p)" "ok \<longrightarrow> plan \<noteq> PNone" by blast
  let ?s = "s\<lparr>pr_details := pr_details s @ reply_details rep,
    pr_warnings := (if \<not> ok then add_once ''plan_lenient_mode'' else id) (pr_warnings s @ codes_of_level ''warn'' (reply_details rep))\<rparr>"
  let ?plan = "if plan = PNone then (case steps_only (pr_source s) of PDict d \<Rightarrow> PDict d | _ \<Rightarrow> PDict [(''steps'', PList [])]) else plan"
  show ?thesis
  proof (cases "\<not> ok \<and> strict")
    case True
    then show ?thesis by (simp add: check_normal_def answered_def liftS_bind Inr rep Let_def answer_prep_def)
  next
    case nstrict: False
    show ?thesis
    proof (cases "strict \<and> filter (\<lambda>c. c \<in> set strict_forbidden) (codes_of_level ''warn'' (reply_details rep)) \<noteq> []")
      case True
      with nstrict show ?thesis
        by (simp add: check_normal_def answered_def liftS_bind Inr rep Let_def answer_prep_def)
    next
      case False
      obtain p where p: "?plan = PDict p" using plan by (cases "steps_only (pr_source s)") auto
      have "check_normal E strict s = check_valid E strict p ?s"
        using nstrict False p by (auto simp: check_normal_def liftS_bind Inr rep Let_def)
      moreover have "strict \<longrightarrow> (\<exists>obj rep'. normalize_plan E obj = Inr rep' \<and> dict_get rep' ''ok'' = PBool True
          \<and> dict_get rep' ''plan'' = PDict p)"
        using nstrict plan(2) p Inr by (auto simp: rep intro!: exI [of _ "steps_only (pr_source s)"])
      ultimately show ?thesis using check_valid_answered [of strict E p ?s] by simp
    qed
  qed
qed

lemma load_source_strict:
  "load_source E strict path s = (out, s') \<Longrightarrow> pr_strict s' = pr_strict s \<and> (out = Inr True \<longrightarrow> strict)"
  by (auto simp: load_source_def liftS_bind split: if_splits sum.splits)

lemma admit_answered: "answered E (strict_enabled E S) S (admit E S plan path)"
proof -
  let ?s0 = "\<lparr>pr_details = [], pr_warnings = [], pr_source = plan, pr_strict = S\<rparr>"
  obtain out s where l: "load_source E (strict_enabled E S) path ?s0 = (out, s)" by force
  from load_source_strict [OF l] have S: "pr_strict s = S" "out = Inr True \<longrightarrow> strict_enabled E S" by simp_all
  show ?thesis
  proof (cases out)
    case (Inl e)
    with l S show ?thesis by (simp add: admit_def bindS_def answered_def)
  next
    case (Inr refused)
    show ?thesis
    proof (cases refused)
      case True
      with Inr l S show ?thesis by (simp add: admit_def bindS_def answered_def answer_prep_def)
    next
      case False
      with Inr l have "admit E S plan path = check_normal E (strict_enabled E S) s" by (simp add: admit_def bindS_def)
      with check_normal_answered [of E "strict_enabled E S" s] S(1) show ?thesis by simp
    qed
  qed
qed

lemma prep_crash_simps:
  assumes "pr_strict s = S"
  shows "pr_strict (snd (prep_crash E strict exc s)) =
      (if strict then note_strict_exception E ''agent_queue.enqueue'' exc S else S)"
    "dict_get (fst (prep_crash E strict exc s)) ''ok'' =
      PBool (\<not> (strict \<and> strict_enabled E (note_strict_exception E ''agent_queue.enqueue'' exc S)))"
    "dict_get (fst (prep_crash E strict exc s)) ''strict'' =
      PBool (strict \<and> strict_enabled E (note_strict_exception E ''agent_queue.enqueue'' exc S))"
  using assms by (auto simp: prep_crash_def Let_def split: prod.splits)

lemma admission_cases:
  assumes "normalize_validate_plan E S plan path = (rep, S')"
  shows "(\<exists>s. admit E S plan path = (Inr rep, s) \<and> pr_strict s = S')
    \<or> (\<exists>exc s. admit E S plan path = (Inl exc, s) \<and> pr_strict s = S
         \<and> rep = fst (prep_crash E (strict_enabled E S) exc s)
         \<and> S' = (if strict_enabled E S then note_strict_exception E ''agent_queue.enqueue'' exc S else S))"
proof -
  obtain out s where a: "admit E S plan path = (out, s)" by force
  with admit_answered [of E S plan path] assms show ?thesis
    by (cases out) (auto simp: normalize_validate_admit answered_def prep_crash_simps(1))
qed

lemma lenient_admission:
  assumes "\<not> strict_enabled E S"
  shows "dict_get (fst (normalize_validate_plan E S plan path)) ''ok'' = PBool True
    \<and> snd (normalize_validate_plan E S plan path) = S"
proof -
  obtain rep S' where r: "normalize_validate_plan E S plan path = (rep, S')" by force
  from admission_cases [OF r] show ?thesis
    using admit_answered [of E S plan path] assms by (auto simp: r answered_def prep_crash_simps)
qed

lemma strict_admission:
  assumes "normalize_validate_plan E S plan path = (rep, S')" and "strict_enabled E S" and "dict_get rep ''ok'' = PBool True"
  shows "ss_disabled S' \<or>
    (S' = note_strict_success S \<and> (\<exists>p obj rep'. dict_get rep ''plan'' = PDict p \<and> plan_conforms E p
       \<and> normalize_plan E obj = Inr rep' \<and> dict_get rep' ''plan'' = PDict p))"
  using admission_cases [OF assms(1)]
proof (elim disjE exE conjE)
  fix s
  assume "admit E S plan path = (Inr rep, s)" "pr_strict s = S'"
  with admit_answered [of E S plan path] assms(2,3) show ?thesis by (auto simp: answered_def)
next
  fix exc s
  assume s: "pr_strict s = S" and r: "rep = fst (prep_crash E (strict_enabled E S) exc s)"
    and S': "S' = (if strict_enabled E S then note_strict_exception E ''agent_queue.enqueue'' exc S else S)"
  from assms(2,3) prep_crash_simps(2) [OF s, of E "strict_enabled E S" exc]
  have "\<not> strict_enabled E S'" by (simp add: r S')
  with assms(2) show ?thesis by (auto simp: strict_enabled_def S' note_strict_exception_def Let_def split: if_splits)
qed

text \<open>A plan that makes the schema raise.\<close>

lemma crash_effect:
  assumes "normalize_plan E (steps_only plan) = Inl exc"
  shows "snd (normalize_validate_plan E S plan []) =
    (if strict_enabled E S then note_strict_exception E ''agent_queue.enqueue'' exc S else S)"
proof -
  let ?s0 = "\<lparr>pr_details = [], pr_warnings = [], pr_source = plan, pr_strict = S\<rparr>"
  have "py_strip [] = []" by simp
  then have "admit E S plan [] = (Inl exc, ?s0)"
    by (simp add: admit_def load_source_def check_normal_def liftS_bind assms)
  then show ?thesis by (simp add: normalize_validate_admit prep_crash_simps)
qed

lemma crash_run:
  assumes "normalize_plan E (steps_only plan) = Inl exc"
  shows "0 \<le> ss_streak S \<Longrightarrow> strict_fail_max E \<le> ss_streak S + int n \<Longrightarrow> strict_enabled E S \<Longrightarrow> 0 < n \<Longrightarrow>
    ss_disabled (((\<lambda>S. snd (normalize_validate_plan E S plan [])) ^^ n) S)"
proof (induction n arbitrary: S)
  case (Suc n)
  let ?S = "snd (normalize_validate_plan E S plan [])"
  have S: "?S = note_strict_exception E ''agent_queue.enqueue'' exc S" using crash_effect [OF assms, of S] Suc.prems(3) by simp
  show ?case
  proof (cases "strict_enabled E ?S")
    case True
    then have "ss_streak ?S = ss_streak S + 1" "strict_fail_max E > ss_streak S + 1"
      using Suc.prems(3) by (auto simp: S note_strict_exception_def Let_def strict_enabled_def split: if_splits)
    with Suc.prems have "ss_disabled (((\<lambda>S. snd (normalize_validate_plan E S plan [])) ^^ n) ?S)"
      using True by (intro Suc.IH) auto
    then show ?thesis by (simp only: funpow_Suc_right o_def)
  next
    case False
    have keep: "((\<lambda>S. snd (normalize_validate_plan E S plan [])) ^^ m) ?S = ?S" for m
      using lenient_admission [OF False] by (induction m) simp_all
    have "ss_disabled ?S" using False Suc.prems(3) by (auto simp: S note_strict_exception_def Let_def strict_enabled_def split: if_splits)
    then show ?thesis by (simp only: funpow_Suc_right o_def keep)
  qed
qed simp

lemma admissions_keep_disabled:
  "ss_disabled S \<Longrightarrow> ss_disabled (fold (\<lambda>(E, plan, path) S. snd (normalize_validate_plan E S plan path)) later S)"
proof (induction later arbitrary: S)
  case (Cons c later)
  have "\<not> strict_enabled (fst c) S" using Cons.prems by (simp add: strict_enabled_def)
  from lenient_admission [OF this] Cons show ?case by (cases c) auto
qed simp

text \<open>The digest that names a plan is taken of the steps as they came, not of the normalised ones.\<close>

lemma plan_id_raw_steps:
  assumes "dict_get src ''steps'' = PList raw" "py_strip (get_str src ''plan_id'') = []" "distinct (map fst src)"
  shows "plan_id_of E steps src = map_sum id (\<lambda>h. ''plan_'' @ take 12 h) (hash_seed E src)"
proof -
  have m: "map_of (rev src) = map_of src" using assms(3) by (rule map_of_rev_distinct)
  have "dict_get (dict_merge [(''steps'', PList steps)] src) k = (if k = ''steps'' then PList raw else dict_get src k)" for k
    using assms(1) by (auto simp: dict_get_def map_of_dict_merge m map_add_def split: option.splits)
  then have "hash_seed E (dict_merge [(''steps'', PList steps)] src) = hash_seed E src"
    using assms(1) by (simp add: hash_seed_def get_str_def)
  with assms(2) show ?thesis by (simp add: plan_id_of_def)
qed

section \<open>Samples\<close>

definition sample_plan_env :: plan_env where
  "sample_plan_env = \<lparr>pn_getenv = [''ESTER_VOLITION_SLOT'' \<mapsto> ''B''], pn_now = 7, pn_dump_limit = 900,
     pn_error_text = (\<lambda>_. (''RecursionError'', ''too deep'')), pn_digest = (\<lambda>_. ''0123456789abcdef''),
     pn_has_action = (\<lambda>a. a = ''llm.remote.call''), pn_uuid = ''u'', pn_resolve = (\<lambda>p. p), pn_file = (\<lambda>_. File_missing),
     pn_parse_json = (\<lambda>_. Inl ''''), pn_parse_yaml = None\<rparr>"

definition fresh_strict :: strict_state where
  "fresh_strict = \<lparr>ss_streak = 0, ss_disabled = False, ss_rollback = None\<rparr>"

definition sample_raw_plan :: pyval where
  "sample_raw_plan = PDict [(''plan_id'', PStr '' p '')
    , (''steps'', PList [PDict [(''action_id'', PStr ''oracle.openai.call'')]]), (''budgets'', PDict [(''max_ms'', PInt 0)])]"

definition sample_normal_plan :: pydict where
  "sample_normal_plan = [(''schema'', PStr ''ester.plan.v1''), (''plan_id'', PStr ''p''),
     (''steps'', PList [step_row ''llm.remote.call'' [] ''agent_step:llm.remote.call'']),
     (''budgets'', PDict [(''max_ms'', PInt 1)])]"

lemma sample_plan_normalized:
  "normalize_plan sample_plan_env sample_raw_plan = Inr (norm_reply True (PDict sample_normal_plan) [] [])"
  by code_simp

lemma sample_strict: "strict_enabled sample_plan_env fresh_strict" "strict_fail_max sample_plan_env = 3"
  by code_simp+

lemma sample_conforms: "plan_conforms sample_plan_env sample_normal_plan"
proof -
  have strips: "py_strip ''ester.plan.v1'' = ''ester.plan.v1''" "py_strip ''p'' = ''p''"
    "canonical_action ''llm.remote.call'' = ''llm.remote.call''"
    by (simp_all add: canonical_action_def py_strip_def strip_by_def is_space_def code_point_def)
  show ?thesis
    by (simp add: plan_conforms_def sample_normal_plan_def step_row_def step_conforms_def only_keys_def plan_keys_def step_keys_def
          budget_keys_def budgets_conform_def no_args_conform get_str_def py_or_def step_limit_def step_row_action strips
          sample_plan_env_def)
qed

fun deep :: "nat \<Rightarrow> pyval" where
  "deep 0 = PNone"
| "deep (Suc n) = PList [deep n]"

lemma nesting_deep: "nesting (deep n) = n"
  by (induction n) (simp_all add: max_from_def)

definition deep_plan :: pyval where
  "deep_plan = PDict [(''steps'', PList [PDict [(''action'', PStr ''a''), (''args'', PDict [(''x'', deep 900)])]])]"

lemma nesting_over: "v \<in> set xs \<Longrightarrow> m < nesting v \<Longrightarrow> m < nesting (PList xs)"
  "(k, v) \<in> set d \<Longrightarrow> m < nesting v \<Longrightarrow> m < nesting (PDict d)"
  using nesting_child by (blast intro: less_le_trans)+

lemma deep_plan_crashes: "normalize_plan sample_plan_env (steps_only deep_plan) = Inl PyRecursionError"
proof -
  let ?args = "PDict [(''x'', deep 900)]"
  have "nesting ?args = 901" by (simp add: max_from_def nesting_deep)
  then have "900 < nesting (PDict [(''action'', PStr ''a''), (''args'', ?args)])"
    by (intro nesting_over(2) [of "''args''" "?args" "[(''action'', PStr ''a''), (''args'', ?args)]"]) simp_all
  then have s: "900 < nesting (PList [PDict [(''action'', PStr ''a''), (''args'', ?args)]])"
    by (rule nesting_over(1) [rotated]) simp
  have "normalize_steps (Suc 0) [PDict [(''action'', PStr ''a''), (''args'', ?args)]]
      = ([], [PDict [(''action'', PStr ''a''), (''args'', ?args), (''why'', PStr ''agent_step:a'')]])"
    by (simp add: normalize_step_def step_action_def step_args_def canonical_action_def py_or_def Let_def unknown_keys_def
          step_keys_def key_warning_def py_strip_def strip_by_def is_space_def code_point_def)
  moreover have "hash_seed sample_plan_env (dict_merge [(''steps'', PList ss)]
      [(''steps'', PList [PDict [(''action'', PStr ''a''), (''args'', ?args)]])]) = Inl PyRecursionError" for ss
  proof -
    have "900 < nesting (PDict
      [(''title'', PStr t), (''intent'', PStr i), (''initiative_id'', PStr n), (''agent_id'', PStr a), (''template_id'', PStr l),
       (''steps'', PList [PDict [(''action'', PStr ''a''), (''args'', ?args)]])])" for t i n a l
      by (rule nesting_over(2) [rotated, OF s]) simp
    then show ?thesis
      by (simp add: hash_seed_def dumps_ascii_def sample_plan_env_def dict_set_def del: nesting.simps)
  qed
  ultimately show ?thesis
    by (simp add: normalize_plan_def steps_only_def deep_plan_def plan_id_of_def get_str_def py_or_def Let_def del: dict_merge.simps)
qed

section \<open>Properties\<close>

text \<open>
  C17: Normalising is idempotent: the plan that \<open>normalize_plan\<close> returns, also beside an error, is in
  normal form; normalising it again, at any later time and in any environment, succeeds, reports nothing
  and returns it unchanged.
\<close>

theorem plan_normal_form:
  assumes "digest_plain E" and "normalize_plan E obj = Inr rep" and "dict_get rep ''plan'' = PDict p"
  shows "normalize_plan E' (PDict p) = Inr (norm_reply True (PDict p) [] [])"
  using normal_form_fixed [OF normalize_normal [OF assms]] .

theorem plan_normal_form_witness:
  "normalize_plan sample_plan_env sample_raw_plan = Inr (norm_reply True (PDict sample_normal_plan) [] [])
   \<and> normalize_plan (sample_plan_env\<lparr>pn_now := 99\<rparr>) (PDict sample_normal_plan) = Inr (norm_reply True (PDict sample_normal_plan) [] [])"
proof -
  have "digest_plain sample_plan_env" by (auto simp: digest_plain_def sample_plan_env_def is_space_def code_point_def)
  from plan_normal_form [OF this sample_plan_normalized, of sample_normal_plan] sample_plan_normalized show ?thesis by simp
qed

text \<open>
  C16: \<open>validate_plan\<close> decides the type of plans: it accepts an object exactly when the schema and
  identifier are there, the steps are between one and the limit, each with a registered action of at most
  120 characters, a reason of at most 500 and arguments nested at most 8 deep whose JSON text has at most
  32768 bytes, no unknown key occurs on any level, and every optional field has its type.
\<close>

theorem plan_validation_decides:
  "dict_get (validate_plan E v) ''ok'' = PBool (dict_with (plan_conforms E) v)"
  by (cases v) (simp_all add: validate_plan_reply, simp_all add: validate_plan_def)

text \<open>
  Strict mode lets a plan through only when it conforms and came out of normalisation, and
  clears the count of exceptions, or when this very request raised and disabled strict mode; outside
  strict mode every request is let through.
\<close>

theorem strict_mode_admits:
  assumes "normalize_validate_plan E S plan path = (rep, S')"
  shows "(strict_enabled E S \<and> dict_get rep ''ok'' = PBool True \<longrightarrow>
      ss_disabled S' \<or> (S' = note_strict_success S \<and> (\<exists>p obj rep'. dict_get rep ''plan'' = PDict p \<and> plan_conforms E p
        \<and> normalize_plan E obj = Inr rep' \<and> dict_get rep' ''plan'' = PDict p)))
    \<and> (\<not> strict_enabled E S \<longrightarrow> dict_get rep ''ok'' = PBool True \<and> S' = S)"
  using strict_admission [OF assms] lenient_admission [of E S plan path] assms by auto

theorem strict_mode_admits_witness:
  "\<exists>rep S'. normalize_validate_plan sample_plan_env fresh_strict sample_raw_plan [] = (rep, S')
    \<and> dict_get rep ''ok'' = PBool True \<and> S' = fresh_strict"
proof -
  obtain rep S' where r: "normalize_validate_plan sample_plan_env fresh_strict sample_raw_plan [] = (rep, S')" by force
  have n: "normalize_plan sample_plan_env (steps_only sample_raw_plan) = Inr (norm_reply True (PDict sample_normal_plan) [] [])"
    using sample_plan_normalized by (simp add: steps_only_def sample_raw_plan_def)
  have "\<exists>s. admit sample_plan_env fresh_strict sample_raw_plan [] = check_valid sample_plan_env True sample_normal_plan s
      \<and> pr_strict s = fresh_strict"
    by (simp add: admit_def load_source_def sample_strict(1) check_normal_def liftS_bind n reply_details_def codes_of_level_def Let_def)
      auto
  moreover have "plan_conforms sample_plan_env sample_normal_plan" by (rule sample_conforms)
  ultimately have "\<exists>rep s. admit sample_plan_env fresh_strict sample_raw_plan [] = (Inr rep, s) \<and> dict_get rep ''ok'' = PBool True
      \<and> \<not> ss_disabled (pr_strict s)"
    by (auto simp: check_valid_def Let_def validate_plan_reply answer_prep_def note_strict_success_def fresh_strict_def)
  with r have ok: "dict_get rep ''ok'' = PBool True" "\<not> ss_disabled S'" by (auto simp: normalize_validate_admit)
  with strict_mode_admits [OF r] sample_strict(1) have "S' = note_strict_success fresh_strict" by blast
  then have "S' = fresh_strict" by (simp add: note_strict_success_def fresh_strict_def)
  with r ok show ?thesis by blast
qed

text \<open>
  C18: Strict mode can be worn out: where it is on, a plan that makes normalisation raise, submitted as often in a
  row as the environment allows exceptions, disables it, and it stays disabled: whatever is submitted afterwards
  and whatever the environment says then, every plan is let through.
\<close>

theorem strict_mode_worn_out:
  assumes "normalize_plan E (steps_only bad) = Inl exc" and "strict_enabled E S" and "0 \<le> ss_streak S" and "0 < n"
    and "strict_fail_max E \<le> int n"
    and "S' = ((\<lambda>S. snd (normalize_validate_plan E S bad [])) ^^ n) S"
    and "S'' = fold (\<lambda>(E', plan, path) S. snd (normalize_validate_plan E' S plan path)) later S'"
  shows "ss_disabled S'' \<and> \<not> strict_enabled E'' S''
    \<and> dict_get (fst (normalize_validate_plan E'' S'' plan path)) ''ok'' = PBool True"
proof -
  have "strict_fail_max E \<le> ss_streak S + int n" using assms(3,5) by simp
  from crash_run [OF assms(1,3) this assms(2,4)] have "ss_disabled S'" by (simp add: assms(6))
  with admissions_keep_disabled [of S' later] have S: "ss_disabled S''" by (simp add: assms(7))
  then have "\<not> strict_enabled E'' S''" by (simp add: strict_enabled_def)
  with S lenient_admission [OF this, of plan path] show ?thesis by simp
qed

theorem strict_mode_worn_out_witness:
  "\<exists>S'. S' = ((\<lambda>S. snd (normalize_validate_plan sample_plan_env S deep_plan [])) ^^ 3) fresh_strict
     \<and> strict_enabled sample_plan_env fresh_strict
     \<and> dict_get (fst (normalize_validate_plan sample_plan_env
          (snd (normalize_validate_plan sample_plan_env S' sample_raw_plan [])) (PStr ''junk'') [])) ''ok'' = PBool True"
proof -
  have n: "0 \<le> ss_streak fresh_strict" "0 < (3::nat)" "strict_fail_max sample_plan_env \<le> int 3"
    by (simp_all add: fresh_strict_def sample_strict)
  note out = strict_mode_worn_out [OF deep_plan_crashes sample_strict(1) n refl refl]
  show ?thesis
    using out [of "[(sample_plan_env, sample_raw_plan, [])]" sample_plan_env "PStr ''junk''" "[]"] sample_strict(1)
    by (simp only: fold.simps case_prod_conv o_apply id_apply simp_thms ex_simps)
qed

end
