(* ===== verification/OracleWindow.thy ===== *)
theory OracleWindow
  imports ExecWindow PyJson
begin

text \<open>
  \<open>modules/runtime/oracle_window.py\<close>: the time-boxed permission to call a remote model, with budgets that
  \<open>authorize_call\<close> enforces.  The environment and the clock are those of \<open>ExecWindow\<close> (\<open>window_env\<close>); SHA-256
  is an argument.  The parts the two modules have word for word in common (the guard against agents, the
  assignments that close a window) are the definitions of \<open>ExecWindow\<close>.
\<close>

section \<open>State\<close>

record oracle_world =
  ow_file :: "jtext option"
  ow_events :: "pydict list"
  ow_calls :: "pydict list"

type_synonym 'a oracle_action = "(oracle_world, 'a) py_action"

record oracle_limits =
  ol_ttl :: int
  ol_calls :: int
  ol_in :: int
  ol_out :: int
  ol_wall :: int

definition oracle_limits_dict :: "oracle_limits \<Rightarrow> pydict" where
  "oracle_limits_dict l =
     [(''ttl_sec'', PInt (ol_ttl l)), (''max_calls'', PInt (ol_calls l)), (''max_est_tokens_in_total'', PInt (ol_in l)),
      (''max_tokens_out_total'', PInt (ol_out l)), (''max_wall_ms_per_call'', PInt (ol_wall l))]"

definition oracle_usage_dict :: "int \<Rightarrow> int \<Rightarrow> int \<Rightarrow> pydict" where
  "oracle_usage_dict calls tin tout =
     [(''calls_total'', PInt calls), (''est_tokens_in_total'', PInt tin), (''tokens_out_total'', PInt tout)]"

definition oracle_default_budgets :: "window_env \<Rightarrow> py_error + oracle_limits" where
  "oracle_default_budgets E =
     bindE (env_int E ''ESTER_ORACLE_TTL_SEC'' ''600'') (\<lambda>ttl.
     bindE (env_int E ''ESTER_ORACLE_MAX_CALLS'' ''3'') (\<lambda>calls.
     bindE (env_int E ''ESTER_ORACLE_MAX_TOKENS_IN'' ''8000'') (\<lambda>tin.
     bindE (env_int E ''ESTER_ORACLE_MAX_TOKENS_OUT'' ''2000'') (\<lambda>tout.
     bindE (env_int E ''ESTER_ORACLE_MAX_WALL_MS'' ''20000'') (\<lambda>wall.
     Inr \<lparr>ol_ttl = max 1 ttl, ol_calls = max 1 calls, ol_in = max 1 tin, ol_out = max 1 tout, ol_wall = max 100 wall\<rparr>)))))"

definition no_last_call :: pydict where
  "no_last_call = [(''ts'', PNone), (''ok'', PNone), (''error'', PStr []), (''window_id'', PStr [])]"

definition oracle_default_state :: "window_env \<Rightarrow> py_error + pydict" where
  "oracle_default_state E =
     bindE (oracle_default_budgets E) (\<lambda>l.
     Inr [(''open'', PBool False), (''window_id'', PStr []), (''opened_ts'', PInt 0), (''expires_ts'', PInt 0),
          (''actor'', PStr []), (''reason'', PStr []), (''allow_agents'', PBool False), (''meta'', PDict []),
          (''budgets'', PDict (oracle_limits_dict l)), (''usage'', PDict (oracle_usage_dict 0 0 0)),
          (''last_call'', PDict no_last_call), (''updated_ts'', PInt (we_stamp E))])"

definition oracle_normalize_budgets :: "window_env \<Rightarrow> pyval \<Rightarrow> int option \<Rightarrow> py_error + oracle_limits" where
  "oracle_normalize_budgets E raw ttl_sec =
     bindE (dict_arg raw) (\<lambda>src0.
     bindE (oracle_default_budgets E) (\<lambda>base.
     let src = set_opt ''ttl_sec'' ttl_sec src0;
         two_keys = (\<lambda>k k' dflt. int_of (py_or (py_or (dict_get src k) (dict_get src k')) (PInt dflt)))
     in bindE (get_int src ''ttl_sec'' (ol_ttl base)) (\<lambda>ttl.
        bindE (get_int src ''max_calls'' (ol_calls base)) (\<lambda>calls.
        bindE (two_keys ''max_est_tokens_in_total'' ''max_tokens_in'' (ol_in base)) (\<lambda>tin.
        bindE (two_keys ''max_tokens_out_total'' ''max_tokens_out'' (ol_out base)) (\<lambda>tout.
        bindE (get_int src ''max_wall_ms_per_call'' (ol_wall base)) (\<lambda>wall.
        Inr \<lparr>ol_ttl = max 1 ttl, ol_calls = max 1 calls, ol_in = max 1 tin, ol_out = max 1 tout,
             ol_wall = max 100 wall\<rparr>)))))))"

definition write_oracle_state :: "pydict \<Rightarrow> unit oracle_action" where
  "write_oracle_state st = modifyS (\<lambda>w. w\<lparr>ow_file := Some (JVal (PDict st))\<rparr>)"

definition load_oracle_state :: "window_env \<Rightarrow> pydict oracle_action" where
  "load_oracle_state E = bindS (readS (\<lambda>w. Inr (ow_file w))) (\<lambda>file. case file of
     None \<Rightarrow>
       bindS (liftS (oracle_default_state E)) (\<lambda>st. bindS (write_oracle_state st) (\<lambda>_. retS st))
   | Some text \<Rightarrow>
       bindS (liftS (case text of JVal (PDict d) \<Rightarrow> Inr d | _ \<Rightarrow> oracle_default_state E)) (\<lambda>raw.
       bindS (liftS (oracle_default_state E)) (\<lambda>st0.
       let st = dict_merge st0 raw in
       bindS (liftS (oracle_normalize_budgets E (dict_get st ''budgets'') None)) (\<lambda>l.
       bindS (liftS (dict_arg (dict_get st ''usage''))) (\<lambda>usage.
       bindS (liftS (get_int usage ''calls_total'' 0)) (\<lambda>calls.
       bindS (liftS (get_int usage ''est_tokens_in_total'' 0)) (\<lambda>tin.
       bindS (liftS (get_int usage ''tokens_out_total'' 0)) (\<lambda>tout.
       bindS (liftS (dict_arg (dict_get st ''meta''))) (\<lambda>meta.
       bindS (liftS (get_int st ''updated_ts'' (we_stamp E))) (\<lambda>upd.
       retS (dict_set ''updated_ts'' (PInt upd) (dict_set ''meta'' (PDict meta)
            (dict_set ''usage'' (PDict (oracle_usage_dict (max 0 calls) (max 0 tin) (max 0 tout)))
            (dict_set ''budgets'' (PDict (oracle_limits_dict l)) st))))))))))))))"

definition save_oracle_state :: "window_env \<Rightarrow> pydict \<Rightarrow> unit oracle_action" where
  "save_oracle_state E st = write_oracle_state (dict_set ''updated_ts'' (PInt (we_stamp E)) st)"

definition oracle_event ::
  "window_env \<Rightarrow> string \<Rightarrow> string \<Rightarrow> string \<Rightarrow> string \<Rightarrow> pydict \<Rightarrow> pyval \<Rightarrow> pydict \<Rightarrow> unit oracle_action" where
  "oracle_event E event window_id actor reason budgets allow_agents meta =
     modifyS (\<lambda>w. w\<lparr>ow_events := ow_events w @
       [[(''ts'', PInt (we_stamp E)), (''event'', PStr (py_strip event)), (''window_id'', PStr (py_strip window_id)),
         (''actor'', PStr (py_strip actor)), (''reason'', PStr (py_strip reason)), (''budgets'', PDict budgets),
         (''allow_agents'', allow_agents), (''meta'', PDict meta)]]\<rparr>)"

definition estimate_tokens_in :: "string \<Rightarrow> int" where
  "estimate_tokens_in prompt = max 1 ((int (length prompt) + 3) div 4)"

definition oracle_budgets_left :: "pydict \<Rightarrow> int \<Rightarrow> py_error + pydict" where
  "oracle_budgets_left st now =
     bindE (dict_arg (dict_get st ''budgets'')) (\<lambda>b.
     bindE (dict_arg (dict_get st ''usage'')) (\<lambda>u.
     bindE (get_int b ''max_calls'' 0) (\<lambda>mc. bindE (get_int u ''calls_total'' 0) (\<lambda>uc.
     bindE (get_int b ''max_est_tokens_in_total'' 0) (\<lambda>mi. bindE (get_int u ''est_tokens_in_total'' 0) (\<lambda>ui.
     bindE (get_int b ''max_tokens_out_total'' 0) (\<lambda>mo. bindE (get_int u ''tokens_out_total'' 0) (\<lambda>uo.
     bindE (get_int st ''expires_ts'' 0) (\<lambda>expires.
     Inr [(''remaining_calls'', PInt (max 0 (mc - uc))), (''token_left_in'', PInt (max 0 (mi - ui))),
          (''token_left_out'', PInt (max 0 (mo - uo))), (''ttl_remaining'', PInt (max 0 (expires - now)))])))))))))"

definition oracle_refresh_expired :: "window_env \<Rightarrow> pydict \<Rightarrow> pydict oracle_action" where
  "oracle_refresh_expired E st =
     (if \<not> truthy (dict_get st ''open'') then retS st
      else bindS (liftS (get_int st ''expires_ts'' 0)) (\<lambda>expires.
        if we_now E < expires then retS st
        else
          bindS (liftS (dict_arg (dict_get st ''budgets''))) (\<lambda>budgets.
          bindS (liftS (dict_arg (dict_get st ''meta''))) (\<lambda>meta.
          bindS (oracle_event E ''expire'' (get_str st ''window_id'')
                   (py_str (py_or (dict_get st ''actor'') (PStr ''system''))) ''ttl_expired'' budgets
                   (dict_get st ''allow_agents'') meta) (\<lambda>_.
          retS (shut st))))))"

definition oracle_load_refreshed :: "window_env \<Rightarrow> pydict oracle_action" where
  "oracle_load_refreshed E = bindS (load_oracle_state E) (oracle_refresh_expired E)"

definition env_flag :: "string option \<Rightarrow> bool" where
  \<comment> \<open>\<open>_truthy(os.getenv(name, "0"))\<close>\<close>
  "env_flag v = (py_lower (py_strip (case v of None \<Rightarrow> ''0'' | Some s \<Rightarrow> s)) \<in> {''1'', ''true'', ''yes'', ''on'', ''y''})"

definition oracle_enabled :: "window_env \<Rightarrow> bool" where
  "oracle_enabled E = env_flag (we_getenv E ''ESTER_ORACLE_ENABLE'')"

section \<open>Opening and closing\<close>

definition window_kind :: "string \<Rightarrow> string" where
  "window_kind kind =
     (let k = py_lower (py_strip (if kind = [] then ''openai'' else kind)) in if k = [] then ''openai'' else k)"

definition oracle_meta :: "pydict \<Rightarrow> string \<Rightarrow> string list option \<Rightarrow> pydict" where
  "oracle_meta meta kind allow_hosts =
     (let m = set_default ''kind'' (PStr (window_kind kind)) meta in
      case allow_hosts of
        None \<Rightarrow> m
      | Some hs \<Rightarrow> dict_set ''allow_hosts'' (PList (map PStr (filter (\<lambda>h. py_strip h \<noteq> []) hs))) m)"

definition deny_open ::
  "window_env \<Rightarrow> string \<Rightarrow> string \<Rightarrow> oracle_limits \<Rightarrow> pyval \<Rightarrow> pydict \<Rightarrow> pydict oracle_action" where
  "deny_open E actor code l allow_agents meta =
     bindS (oracle_event E ''deny_open'' [] actor code (oracle_limits_dict l) allow_agents meta) (\<lambda>_.
     retS (fail_reply code []))"

definition oracle_open_window ::
  "window_env \<Rightarrow> string \<Rightarrow> string \<Rightarrow> pyval \<Rightarrow> pyval \<Rightarrow> pydict \<Rightarrow> int option \<Rightarrow> string \<Rightarrow> string list option \<Rightarrow>
   pydict oracle_action" where
  "oracle_open_window E reason actor budgets allow_agents meta ttl_sec kind allow_hosts =
     (let now = we_now E; why = py_strip reason; who = clean_actor actor; m = oracle_meta meta kind allow_hosts in
      bindS (liftS (oracle_normalize_budgets E budgets ttl_sec)) (\<lambda>l.
      if is_agent_actor who then deny_open E who ''actor_forbidden'' l allow_agents m
      else if \<not> oracle_enabled E then deny_open E who ''oracle_disabled'' l allow_agents m
      else if why = [] then deny_open E who ''reason_required'' l allow_agents m
      else
        let window_id = ''ow_'' @ take 12 (we_uuid E); expires = now + ol_ttl l in
        bindS (oracle_load_refreshed E) (\<lambda>st.
        bindS (save_oracle_state E
          (dict_set ''usage'' (PDict (oracle_usage_dict 0 0 0)) (dict_set ''budgets'' (PDict (oracle_limits_dict l))
          (dict_set ''meta'' (PDict m) (dict_set ''allow_agents'' allow_agents (dict_set ''reason'' (PStr why)
          (dict_set ''actor'' (PStr who) (dict_set ''expires_ts'' (PInt expires) (dict_set ''opened_ts'' (PInt now)
          (dict_set ''window_id'' (PStr window_id) (dict_set ''open'' (PBool True) st))))))))))) (\<lambda>_.
        bindS (oracle_event E ''open'' window_id who why (oracle_limits_dict l) allow_agents m) (\<lambda>_.
        bindS (liftS (we_iso E expires)) (\<lambda>at.
        retS [(''ok'', PBool True), (''window_id'', PStr window_id), (''expires_ts'', PInt expires),
              (''expires_at'', PStr at), (''budgets'', PDict (oracle_limits_dict l))]))))))"

definition oracle_close_window :: "window_env \<Rightarrow> string \<Rightarrow> string \<Rightarrow> string \<Rightarrow> pydict oracle_action" where
  "oracle_close_window E window_id actor reason =
     (let wid = py_strip window_id in
      if wid = [] then retS (fail_reply ''window_id_required'' [])
      else bindS (oracle_load_refreshed E) (\<lambda>st.
        if \<not> truthy (dict_get st ''open'') \<or> get_str st ''window_id'' \<noteq> wid then
          retS (fail_reply ''window_not_found'' [(''window_id'', PStr wid)])
        else
          bindS (liftS (dict_arg (dict_get st ''budgets''))) (\<lambda>budgets.
          bindS (liftS (dict_arg (dict_get st ''meta''))) (\<lambda>meta.
          bindS (save_oracle_state E (shut st)) (\<lambda>_.
          bindS (oracle_event E ''close'' wid (if actor = [] then ''ester'' else actor) reason budgets
                   (dict_get st ''allow_agents'') meta) (\<lambda>_.
          retS [(''ok'', PBool True), (''window_id'', PStr wid)]))))))"

definition oracle_current_window :: "window_env \<Rightarrow> pydict oracle_action" where
  "oracle_current_window E =
     bindS (oracle_load_refreshed E) (\<lambda>st.
     bindS (save_oracle_state E st) (\<lambda>_.
     let open_now = truthy (dict_get st ''open'') in
     bindS (liftS (oracle_budgets_left st (we_now E))) (\<lambda>left.
     bindS (liftS (get_int left ''ttl_remaining'' 0)) (\<lambda>ttl.
     bindS (liftS (get_int st ''expires_ts'' 0)) (\<lambda>expires.
     bindS (liftS (if open_now then bindE (get_int st ''expires_ts'' (we_now E)) (\<lambda>x. map_sum id PStr (we_iso E x))
                   else Inr PNone)) (\<lambda>at.
     bindS (liftS (dict_arg (dict_get st ''budgets''))) (\<lambda>budgets.
     bindS (liftS (dict_arg (dict_get st ''usage''))) (\<lambda>usage.
     bindS (liftS (dict_arg (dict_get st ''meta''))) (\<lambda>meta.
     retS [(''ok'', PBool True), (''open'', PBool open_now),
           (''window_id'', PStr (if open_now then get_str st ''window_id'' else [])),
           (''remaining_sec'', PInt (if open_now then ttl else 0)), (''expires_ts'', PInt expires),
           (''expires_at'', at), (''actor'', PStr (get_str st ''actor'')), (''reason'', PStr (get_str st ''reason'')),
           (''allow_agents'', dict_get st ''allow_agents''), (''budgets'', PDict budgets),
           (''budgets_left'', PDict left), (''usage'', PDict usage), (''meta'', PDict meta)])))))))))"

definition oracle_is_open :: "window_env \<Rightarrow> string \<Rightarrow> pydict oracle_action" where
  "oracle_is_open E window_id =
     (let wid = py_strip window_id in
      bindS (oracle_current_window E) (\<lambda>cur.
      let open_now = (truthy (dict_get cur ''open'') \<and> \<not> (wid \<noteq> [] \<and> get_str cur ''window_id'' \<noteq> wid));
          out = dict_set ''open'' (PBool open_now) cur
      in retS (if open_now then out else dict_set ''remaining_sec'' (PInt 0) out)))"

definition oracle_list_windows :: "window_env \<Rightarrow> pydict oracle_action" where
  "oracle_list_windows E =
     bindS (oracle_current_window E) (\<lambda>cur.
     if truthy (dict_get cur ''open'') then
       bindS (liftS (get_int cur ''expires_ts'' 0)) (\<lambda>expires.
       bindS (liftS (as_dict (py_or (dict_get cur ''budgets'') (PDict [])))) (\<lambda>b0.
       bindS (liftS (get_int b0 ''ttl_sec'' 0)) (\<lambda>ttl.
       bindS (liftS (get_int cur ''remaining_sec'' 0)) (\<lambda>remaining.
       bindS (liftS (dict_arg (dict_get cur ''budgets''))) (\<lambda>budgets.
       bindS (liftS (dict_arg (dict_get cur ''budgets_left''))) (\<lambda>left.
       bindS (liftS (dict_arg (dict_get cur ''meta''))) (\<lambda>meta.
       retS [(''ok'', PBool True), (''count'', PInt 1), (''windows'', PList [PDict
         [(''id'', PStr (get_str cur ''window_id'')), (''window_id'', PStr (get_str cur ''window_id'')),
          (''created_ts'', PInt (expires - ttl)), (''expires_ts'', PInt expires), (''remaining_sec'', PInt remaining),
          (''reason'', PStr (get_str cur ''reason'')), (''actor'', PStr (get_str cur ''actor'')),
          (''budgets'', PDict budgets), (''budgets_left'', PDict left), (''allow_agents'', dict_get cur ''allow_agents''),
          (''meta'', PDict meta)]])])))))))
     else retS [(''ok'', PBool True), (''count'', PInt 0), (''windows'', PList [])])"

section \<open>Calls\<close>

record call_request =
  cq_window_id :: string
  cq_actor :: string
  cq_agent_id :: string
  cq_plan_id :: string
  cq_step_index :: "int option"
  cq_model :: string
  cq_prompt :: string
  cq_max_tokens :: int
  cq_purpose :: string
  cq_wall_ms :: int

definition fresh_call_id :: "window_env \<Rightarrow> string" where
  "fresh_call_id E = ''oc_'' @ take 12 (we_uuid E)"

definition wanted_tokens :: "call_request \<Rightarrow> int" where
  "wanted_tokens r = max 1 (if cq_max_tokens r = 0 then 256 else cq_max_tokens r)"

definition call_row :: "window_env \<Rightarrow> (string \<Rightarrow> string) \<Rightarrow> call_request \<Rightarrow> string \<Rightarrow> string \<Rightarrow> string \<Rightarrow> pydict" where
  \<comment> \<open>\<open>_deny_call_record\<close> with the arguments \<open>authorize_call\<close> gives it\<close>
  "call_row E sha r window_id err policy_hit =
     [(''ts'', PInt (we_stamp E)), (''window_id'', PStr window_id), (''call_id'', PStr (fresh_call_id E)),
      (''actor'', PStr (clean_actor (cq_actor r))), (''agent_id'', PStr (cq_agent_id r)), (''plan_id'', PStr (cq_plan_id r)),
      (''step_index'', (case cq_step_index r of None \<Rightarrow> PNone | Some i \<Rightarrow> PInt i)),
      (''model'', PStr (py_strip (cq_model r))), (''prompt_digest'', PStr (sha (utf8 (cq_prompt r)))),
      (''input_chars'', PInt (int (length (cq_prompt r)))), (''est_tokens_in'', PInt (estimate_tokens_in (cq_prompt r))),
      (''max_tokens'', PInt (wanted_tokens r)), (''ok'', PBool False), (''latency_ms'', PInt 0), (''tokens_out'', PInt 0),
      (''error'', PStr err), (''policy_hit'', PStr policy_hit)]"

definition deny_call ::
  "window_env \<Rightarrow> (string \<Rightarrow> string) \<Rightarrow> call_request \<Rightarrow> string \<Rightarrow> string \<Rightarrow> string \<Rightarrow> pydict \<Rightarrow> pydict oracle_action" where
  "deny_call E sha r window_id err policy_hit extra =
     bindS (modifyS (\<lambda>w. w\<lparr>ow_calls := ow_calls w @ [call_row E sha r window_id err policy_hit]\<rparr>)) (\<lambda>_.
     retS ([(''ok'', PBool False), (''error'', PStr err), (''policy_hit'', PStr policy_hit),
            (''call_id'', PStr (fresh_call_id E))] @ extra))"

definition authorize_call :: "window_env \<Rightarrow> (string \<Rightarrow> string) \<Rightarrow> call_request \<Rightarrow> pydict oracle_action" where
  "authorize_call E sha r =
     (let est_in = estimate_tokens_in (cq_prompt r); want_out = wanted_tokens r in
      bindS (oracle_load_refreshed E) (\<lambda>st.
      bindS (save_oracle_state E st) (\<lambda>_.
      let wid = get_str st ''window_id''; own = [(''window_id'', PStr wid)] in
      if \<not> truthy (dict_get st ''open'') then
        deny_call E sha r [] ''oracle_window_closed'' ''oracle_window_closed'' []
      else if py_strip (cq_window_id r) \<noteq> [] \<and> py_strip (cq_window_id r) \<noteq> wid then
        deny_call E sha r wid ''oracle_window_mismatch'' ''oracle_window_mismatch'' []
      else
        bindS (liftS (dict_arg (dict_get st ''budgets''))) (\<lambda>budgets.
        bindS (liftS (dict_arg (dict_get st ''usage''))) (\<lambda>usage.
        bindS (liftS (get_int budgets ''max_wall_ms_per_call'' 20000)) (\<lambda>max_wall.
        if max_wall < cq_wall_ms r then
          deny_call E sha r wid ''oracle_budget_exceeded'' ''oracle_budget_max_wall_ms_per_call'' own
        else
          bindS (liftS (get_int usage ''calls_total'' 0)) (\<lambda>c. let calls = c + 1 in
          bindS (liftS (get_int usage ''est_tokens_in_total'' 0)) (\<lambda>i. let tin = i + est_in in
          bindS (liftS (get_int usage ''tokens_out_total'' 0)) (\<lambda>out. let tout = out + want_out in
          bindS (liftS (get_int budgets ''max_calls'' 0)) (\<lambda>mc.
          bindS (liftS (get_int budgets ''max_est_tokens_in_total'' 0)) (\<lambda>mi.
          bindS (liftS (get_int budgets ''max_tokens_out_total'' 0)) (\<lambda>mo.
          let hit = (if mc < calls then ''oracle_budget_max_calls''
                     else if mi < tin then ''oracle_budget_max_est_tokens_in_total''
                     else if mo < tout then ''oracle_budget_max_tokens_out_total''
                     else [])
          in if hit \<noteq> [] then deny_call E sha r wid ''oracle_budget_exceeded'' hit own
             else
               let usage' = dict_set ''est_tokens_in_total'' (PInt tin) (dict_set ''calls_total'' (PInt calls) usage);
                   st' = dict_set ''usage'' (PDict usage') st
               in bindS (save_oracle_state E st') (\<lambda>_.
                  bindS (liftS (oracle_budgets_left st' (we_now E))) (\<lambda>left.
                  retS [(''ok'', PBool True), (''window_id'', PStr wid), (''call_id'', PStr (fresh_call_id E)),
                        (''prompt_digest'', PStr (sha (utf8 (cq_prompt r)))),
                        (''input_chars'', PInt (int (length (cq_prompt r)))), (''est_tokens_in'', PInt est_in),
                        (''max_tokens'', PInt want_out), (''purpose'', PStr (cq_purpose r)),
                        (''budgets_left'', PDict left), (''max_wall_ms_per_call'', PInt max_wall)]))))))))))))))"

definition note_call :: "window_env \<Rightarrow> string \<Rightarrow> pydict \<Rightarrow> pydict oracle_action" where
  "note_call E window_id call_record =
     (let wid = py_strip window_id;
          row = set_default ''tokens_out'' (PInt 0) (set_default ''latency_ms'' (PInt 0) (set_default ''ok'' (PBool False)
                (set_default ''call_id'' (PStr (fresh_call_id E)) (set_default ''window_id'' (PStr wid)
                (set_default ''ts'' (PInt (we_stamp E)) call_record)))))
      in bindS (oracle_load_refreshed E) (\<lambda>st.
         bindS (liftS (dict_arg (dict_get st ''usage''))) (\<lambda>usage.
         bindS (if truthy (dict_get row ''ok'') \<and> truthy (dict_get st ''open'') \<and> get_str st ''window_id'' = wid then
                  bindS (liftS (get_int usage ''tokens_out_total'' 0)) (\<lambda>total.
                  bindS (liftS (get_int row ''tokens_out'' 0)) (\<lambda>used.
                  let st1 = dict_set ''usage'' (PDict (dict_set ''tokens_out_total'' (PInt (max 0 (total + max 0 used))) usage)) st in
                  bindS (save_oracle_state E st1) (\<lambda>_. retS st1)))
                else retS st) (\<lambda>st1.
         bindS (liftS (get_int row ''ts'' (we_stamp E))) (\<lambda>ts.
         let st2 = dict_set ''last_call'' (PDict
                [(''ts'', PInt ts), (''ok'', PBool (truthy (dict_get row ''ok''))), (''error'', PStr (get_str row ''error'')),
                 (''window_id'', PStr (get_str row ''window_id'')), (''policy_hit'', PStr (get_str row ''policy_hit''))]) st1 in
         bindS (save_oracle_state E st2) (\<lambda>_.
         bindS (modifyS (\<lambda>w. w\<lparr>ow_calls := ow_calls w @ [row]\<rparr>)) (\<lambda>_.
         bindS (liftS (oracle_budgets_left st2 (we_stamp E))) (\<lambda>left.
         retS [(''ok'', PBool True), (''window_id'', PStr wid), (''budgets_left'', PDict left)]))))))))"

definition last_call_status :: "window_env \<Rightarrow> pydict oracle_action" where
  "last_call_status E =
     bindS (load_oracle_state E) (\<lambda>st. liftS (dict_arg (dict_get st ''last_call'')))"

end
