(* ===== verification/OracleRequests.thy ===== *)
theory OracleRequests
  imports OracleWindow
begin

text \<open>
  \<open>modules/runtime/oracle_requests.py\<close>: requests of agents for remote calls, an append-only log of request
  records of which the last one under an identifier counts, and their approval, which opens an oracle window.
  Environment, clock and \<open>uuid4\<close> are those of \<open>window_env\<close>: \<open>we_now\<close> is the reading that decides what has
  expired, \<open>we_stamp\<close> the one written into records.
\<close>

section \<open>State\<close>

record request_world =
  rq_log :: "jtext list"
  rq_state :: "jtext option"
  rq_window :: oracle_world

type_synonym 'a request_action = "(request_world, 'a) py_action"

type_synonym latest_map = "(string \<times> pydict) list"

definition in_window :: "'a oracle_action \<Rightarrow> 'a request_action" where
  \<comment> \<open>a call into \<open>oracle_window\<close>\<close>
  "in_window m w = (case m (rq_window w) of (out, ow) \<Rightarrow> (out, w\<lparr>rq_window := ow\<rparr>))"

definition request_ttl :: "window_env \<Rightarrow> int" where
  "request_ttl E = (case env_int E ''ESTER_ORACLE_REQUEST_TTL_SEC'' ''3600'' of Inl _ \<Rightarrow> 3600 | Inr t \<Rightarrow> max 60 t)"

definition latest_step :: "latest_map \<Rightarrow> pydict \<Rightarrow> latest_map" where
  "latest_step latest row =
     (let rid = py_strip (get_str row ''request_id'') in if rid = [] then latest else AList.update rid row latest)"

definition build_latest :: "pydict list \<Rightarrow> latest_map" where
  "build_latest rows = foldl latest_step [] rows"

definition save_requests :: "window_env \<Rightarrow> latest_map \<Rightarrow> unit request_action" where
  "save_requests E latest = modifyS (\<lambda>w. w\<lparr>rq_state := Some (JVal (PDict
     [(''updated_ts'', PInt (we_stamp E)), (''total'', PInt (int (length latest))),
      (''requests'', PDict (map (\<lambda>(rid, row). (rid, PDict row)) latest))]))\<rparr>)"

definition request_record ::
  "string \<Rightarrow> int \<Rightarrow> string \<Rightarrow> string \<Rightarrow> pyval \<Rightarrow> string \<Rightarrow> string \<Rightarrow> string \<Rightarrow> string \<Rightarrow> pydict \<Rightarrow> string \<Rightarrow> string \<Rightarrow>
   int option \<Rightarrow> string \<Rightarrow> string \<Rightarrow> py_error + pydict" where
  "request_record request_id ts agent_id plan_id step_index action_id model purpose prompt_hash budgets status approved_by
     approved_ts window_id deny_reason =
     bindE (case step_index of PNone \<Rightarrow> Inr PNone | v \<Rightarrow> map_sum id PInt (int_of v)) (\<lambda>step.
     Inr [(''request_id'', PStr (py_strip request_id)), (''ts'', PInt ts), (''agent_id'', PStr (py_strip agent_id)),
          (''plan_id'', PStr (py_strip plan_id)), (''step_index'', step), (''action_id'', PStr (py_strip action_id)),
          (''model'', PStr (py_strip model)), (''purpose'', PStr (py_strip purpose)),
          (''prompt_hash'', PStr (py_strip prompt_hash)), (''budgets_requested'', PDict budgets),
          (''status'', PStr (py_strip status)), (''approved_by'', PStr (py_strip approved_by)),
          (''approved_ts'', (case approved_ts of None \<Rightarrow> PNone | Some t \<Rightarrow> PInt t)),
          (''window_id'', PStr (py_strip window_id)), (''deny_reason'', PStr (py_strip deny_reason))])"

definition renewed_record ::
  "string \<Rightarrow> int \<Rightarrow> pydict \<Rightarrow> string \<Rightarrow> string \<Rightarrow> int option \<Rightarrow> string \<Rightarrow> string \<Rightarrow> py_error + pydict" where
  \<comment> \<open>the record of the same request with another status, as expiry, approval and denial build it\<close>
  "renewed_record rid ts req status approved_by approved_ts window_id deny_reason =
     bindE (dict_arg (dict_get req ''budgets_requested'')) (\<lambda>budgets.
     request_record rid ts (get_str req ''agent_id'') (get_str req ''plan_id'') (dict_get req ''step_index'')
       (get_str req ''action_id'') (get_str req ''model'') (get_str req ''purpose'') (get_str req ''prompt_hash'')
       budgets status approved_by approved_ts window_id deny_reason)"

definition append_request_row :: "pydict \<Rightarrow> unit request_action" where
  "append_request_row row = modifyS (\<lambda>w. w\<lparr>rq_log := rq_log w @ [JVal (PDict row)]\<rparr>)"

definition latest_of :: "request_world \<Rightarrow> latest_map" where
  "latest_of w = build_latest (rows_lenient (rq_log w))"

definition append_request :: "window_env \<Rightarrow> pydict \<Rightarrow> unit request_action" where
  "append_request E row =
     bindS (append_request_row row) (\<lambda>_.
     bindS (readS (\<lambda>w. Inr (latest_of w))) (save_requests E))"

section \<open>Operations\<close>

definition submit_request ::
  "window_env \<Rightarrow> string \<Rightarrow> string \<Rightarrow> int option \<Rightarrow> string \<Rightarrow> string \<Rightarrow> string \<Rightarrow> string \<Rightarrow> pydict \<Rightarrow> pydict request_action" where
  "submit_request E agent_id plan_id step_index action_id model purpose prompt_digest budgets =
     (let rid = ''orq_'' @ take 12 (we_uuid E) in
      bindS (liftS (request_record rid (we_stamp E) agent_id plan_id
               (case step_index of None \<Rightarrow> PNone | Some i \<Rightarrow> PInt i)
               (if action_id = [] then ''llm.remote.call'' else action_id) model purpose prompt_digest budgets
               ''pending'' [] None [] [])) (\<lambda>row.
      bindS (append_request E row) (\<lambda>_.
      retS [(''ok'', PBool True), (''request_id'', PStr rid), (''status'', PStr ''pending''), (''request'', PDict row)])))"

fun expire_pending ::
  "int \<Rightarrow> int \<Rightarrow> latest_map \<Rightarrow> latest_map \<Rightarrow> int \<Rightarrow> (latest_map \<times> int) request_action" where
  "expire_pending ttl now [] latest expired = retS (latest, expired)"
| "expire_pending ttl now ((rid, row) # items) latest expired =
     (if get_str row ''status'' \<noteq> ''pending'' then expire_pending ttl now items latest expired
      else bindS (liftS (get_int row ''ts'' 0)) (\<lambda>ts.
        if ts \<le> 0 \<or> now - ts < ttl then expire_pending ttl now items latest expired
        else
          bindS (liftS (renewed_record rid now row ''expired'' [] None (get_str row ''window_id'') ''request_ttl_expired''))
            (\<lambda>expired_row.
          bindS (append_request_row expired_row) (\<lambda>_.
          expire_pending ttl now items (AList.update rid expired_row latest) (expired + 1)))))"

definition expire_requests :: "window_env \<Rightarrow> int option \<Rightarrow> pydict request_action" where
  "expire_requests E now_ts =
     (let ts = (case now_ts of None \<Rightarrow> we_now E | Some t \<Rightarrow> t) in
      bindS (readS (\<lambda>w. Inr (latest_of w))) (\<lambda>latest.
      bindS (expire_pending (request_ttl E) ts latest latest 0) (\<lambda>(latest', expired).
      bindS (if expired \<noteq> 0 then save_requests E latest' else retS ()) (\<lambda>_.
      retS [(''ok'', PBool True), (''expired'', PInt expired)]))))"

definition refreshed_latest :: "window_env \<Rightarrow> latest_map request_action" where
  \<comment> \<open>\<open>_latest_map\<close>\<close>
  "refreshed_latest E = bindS (expire_requests E None) (\<lambda>_. readS (\<lambda>w. Inr (latest_of w)))"

definition get_request :: "window_env \<Rightarrow> string \<Rightarrow> pydict request_action" where
  "get_request E request_id =
     (let rid = py_strip request_id in
      if rid = [] then retS (fail_reply ''request_id_required'' [])
      else bindS (refreshed_latest E) (\<lambda>latest.
        case map_of latest rid of
          None \<Rightarrow> retS (fail_reply ''request_not_found'' [(''request_id'', PStr rid)])
        | Some [] \<Rightarrow> retS (fail_reply ''request_not_found'' [(''request_id'', PStr rid)])
        | Some row \<Rightarrow> retS [(''ok'', PBool True), (''request_id'', PStr rid), (''request'', PDict row)]))"

fun with_times :: "latest_map \<Rightarrow> py_error + (int \<times> pydict) list" where
  "with_times [] = Inr []"
| "with_times ((rid, row) # items) =
     bindE (get_int row ''ts'' 0) (\<lambda>ts. bindE (with_times items) (\<lambda>rest. Inr ((ts, row) # rest)))"

definition list_requests :: "window_env \<Rightarrow> string \<Rightarrow> int \<Rightarrow> pydict request_action" where
  \<comment> \<open>\<open>sorted(..., reverse=True)\<close> keeps the order of equal keys, as sorting by the negated key does\<close>
  "list_requests E status limit =
     (let wanted = py_strip status in
      bindS (refreshed_latest E) (\<lambda>latest.
      bindS (liftS (with_times latest)) (\<lambda>timed.
      let rows = map snd (sort_key (\<lambda>(ts, row). - ts) timed);
          kept = (if wanted = [] then rows else filter (\<lambda>r. get_str r ''status'' = wanted) rows);
          shown = take (nat (max 1 (if limit = 0 then 100 else limit))) kept
      in retS [(''ok'', PBool True), (''count'', PInt (int (length shown))), (''requests'', PList (map PDict shown))])))"

definition ester_actor :: "string \<Rightarrow> bool" where
  "ester_actor actor = (let clean = py_lower (py_strip actor) in clean = ''ester'' \<or> py_prefix ''ester:'' clean)"

definition approval_meta :: "string \<Rightarrow> pydict \<Rightarrow> pydict" where
  "approval_meta rid req =
     [(''approved_request_ids'', PList [PStr rid]),
      (''approved_agents'', PList (if py_strip (get_str req ''agent_id'') = [] then [] else [PStr (get_str req ''agent_id'')])),
      (''approved_plan_id'', PStr (get_str req ''plan_id'')), (''approved_step_index'', dict_get req ''step_index'')]"

definition approval_reason :: "string \<Rightarrow> pydict \<Rightarrow> string" where
  "approval_reason reason req =
     py_str (py_or (py_or (PStr reason) (dict_get req ''purpose'')) (PStr ''oracle_request_approved''))"

definition approve_request ::
  "window_env \<Rightarrow> string \<Rightarrow> string \<Rightarrow> string \<Rightarrow> int option \<Rightarrow> pydict \<Rightarrow> bool \<Rightarrow> pydict request_action" where
  "approve_request E request_id actor reason ttl_sec budgets allow_agents =
     (let rid = py_strip request_id in
      if rid = [] then retS (fail_reply ''request_id_required'' [])
      else if \<not> ester_actor actor then retS (fail_reply ''actor_forbidden'' [(''actor'', PStr actor)])
      else bindS (get_request E rid) (\<lambda>rep.
        if \<not> truthy (dict_get rep ''ok'') then retS rep
        else
          let req = dict_of (dict_get rep ''request''); status = get_str req ''status'' in
          if status \<noteq> ''pending'' then
            retS (fail_reply ''request_not_pending'' [(''request_id'', PStr rid), (''status'', PStr status)])
          else
            bindS (in_window (oracle_open_window E (approval_reason reason req) actor
              (PDict (set_opt ''ttl_sec'' ttl_sec budgets)) (PBool allow_agents) (approval_meta rid req) None ''openai'' None))
              (\<lambda>opened.
            if \<not> truthy (dict_get opened ''ok'') then retS (fail_reply ''window_open_failed'' [(''detail'', PDict opened)])
            else
              let wid = get_str opened ''window_id'' in
              bindS (liftS (renewed_record rid (we_stamp E) req ''approved'' actor (Some (we_stamp E)) wid [])) (\<lambda>row.
              bindS (append_request E row) (\<lambda>_.
              retS [(''ok'', PBool True), (''request_id'', PStr rid), (''window_id'', PStr wid),
                    (''approved_ts'', PInt (we_stamp E)), (''request'', PDict row), (''window'', PDict opened)])))))"

definition deny_request :: "window_env \<Rightarrow> string \<Rightarrow> string \<Rightarrow> string \<Rightarrow> pydict request_action" where
  "deny_request E request_id actor reason =
     (let rid = py_strip request_id in
      if rid = [] then retS (fail_reply ''request_id_required'' [])
      else if \<not> ester_actor actor then retS (fail_reply ''actor_forbidden'' [(''actor'', PStr actor)])
      else bindS (get_request E rid) (\<lambda>rep.
        if \<not> truthy (dict_get rep ''ok'') then retS rep
        else
          let req = dict_of (dict_get rep ''request'') in
          bindS (liftS (renewed_record rid (we_stamp E) req ''denied'' actor (Some (we_stamp E)) (get_str req ''window_id'')
                  (if reason = [] then ''denied_by_ester'' else reason))) (\<lambda>row.
          bindS (append_request E row) (\<lambda>_.
          retS [(''ok'', PBool True), (''request_id'', PStr rid), (''request'', PDict row)]))))"

definition mismatch :: "string \<Rightarrow> pydict" where
  "mismatch hit = fail_reply ''request_mismatch'' [(''policy_hit'', PStr hit)]"

definition step_mismatch :: "int option \<Rightarrow> pyval \<Rightarrow> bool" where
  "step_mismatch step_index req_step =
     (case step_index of None \<Rightarrow> False | Some i \<Rightarrow> req_step \<noteq> PNone \<and> int_of req_step \<noteq> Inr i)"

definition validate_approved_request ::
  "window_env \<Rightarrow> string \<Rightarrow> string \<Rightarrow> string \<Rightarrow> int option \<Rightarrow> string \<Rightarrow> string \<Rightarrow> pydict request_action" where
  "validate_approved_request E request_id agent_id plan_id step_index model window_id =
     bindS (get_request E request_id) (\<lambda>rep.
     if \<not> truthy (dict_get rep ''ok'') then
       retS (fail_reply ''oracle_not_approved'' [(''policy_hit'', PStr ''request_not_found'')])
     else
       let req = dict_of (dict_get rep ''request'');
           agent = py_strip agent_id; plan = py_strip plan_id; mdl = py_strip model; wid = py_strip window_id;
           req_model = py_strip (get_str req ''model''); req_window = py_strip (get_str req ''window_id'')
       in if get_str req ''status'' \<noteq> ''approved'' then
            retS (fail_reply ''oracle_not_approved'' [(''policy_hit'', PStr ''request_not_approved'')])
          else if agent \<noteq> [] \<and> py_strip (get_str req ''agent_id'') \<noteq> agent then retS (mismatch ''request_agent_mismatch'')
          else if plan \<noteq> [] \<and> py_strip (get_str req ''plan_id'') \<notin> {[], plan} then retS (mismatch ''request_plan_mismatch'')
          else if step_mismatch step_index (dict_get req ''step_index'') then retS (mismatch ''request_step_mismatch'')
          else if req_model \<noteq> [] \<and> mdl \<noteq> [] \<and> req_model \<noteq> mdl then retS (mismatch ''request_model_mismatch'')
          else if req_window \<noteq> [] \<and> wid \<noteq> [] \<and> req_window \<noteq> wid then retS (mismatch ''request_window_mismatch'')
          else retS [(''ok'', PBool True), (''request'', PDict req)])"

record request_summary =
  sm_pending :: int
  sm_recent :: int
  sm_last_id :: string
  sm_last_ts :: int
  sm_approved_id :: string
  sm_approved_ts :: int

fun summarize :: "int \<Rightarrow> latest_map \<Rightarrow> request_summary \<Rightarrow> py_error + request_summary" where
  "summarize now [] m = Inr m"
| "summarize now ((rid, row) # items) m =
     (let status = get_str row ''status'' in
      bindE (get_int row ''ts'' 0) (\<lambda>ts.
      let m1 = (if sm_last_ts m < ts then m\<lparr>sm_last_ts := ts, sm_last_id := rid\<rparr> else m);
          m2 = (if status = ''pending'' then m1\<lparr>sm_pending := sm_pending m1 + 1\<rparr> else m1)
      in if status = ''approved'' then
           bindE (get_int row ''approved_ts'' ts) (\<lambda>approved.
           let m3 = (if now - approved \<le> 3600 then m2\<lparr>sm_recent := sm_recent m2 + 1\<rparr> else m2);
               m4 = (if sm_approved_ts m3 < approved then m3\<lparr>sm_approved_ts := approved, sm_approved_id := rid\<rparr> else m3)
           in summarize now items m4)
         else summarize now items m2))"

definition requests_summary :: "window_env \<Rightarrow> pydict request_action" where
  "requests_summary E =
     bindS (refreshed_latest E) (\<lambda>latest.
     bindS (liftS (summarize (we_now E) latest
       \<lparr>sm_pending = 0, sm_recent = 0, sm_last_id = [], sm_last_ts = 0, sm_approved_id = [], sm_approved_ts = 0\<rparr>)) (\<lambda>m.
     retS [(''ok'', PBool True), (''pending_count'', PInt (sm_pending m)), (''approved_count_recent'', PInt (sm_recent m)),
           (''last_request_id'', PStr (sm_last_id m)), (''last_approved_id'', PStr (sm_approved_id m))]))"

end
