(* ===== verification/OracleProvider.thy ===== *)
theory OracleProvider
  imports OracleRequests
begin

text \<open>
  \<open>modules/llm/providers_openai_oracle.py\<close>: the one function through which the runtime calls a remote model.
  It asks the oracle window, for agents also the approved request, and only then posts.  The network is the field
  \<open>pe_http\<close> of the environment, \<open>json.loads\<close> the field \<open>pe_json\<close>; \<open>pe_error_text\<close> gives the class name and
  text of an exception, \<open>pe_vault\<close> what \<open>get_secret\<close> returns when the vault is available.  The bounded
  temperature, a float, is carried as its text.
\<close>

section \<open>State and environment\<close>

record http_request =
  ht_model :: string
  ht_prompt :: string
  ht_max_tokens :: int
  ht_temperature :: string
  ht_key :: string
  ht_timeout :: int

datatype http_outcome = Http_text string | Http_status int | Http_failed string string

record provider_env =
  pe_window :: window_env
  pe_vault :: "string option"
  pe_http :: "http_request \<Rightarrow> http_outcome"
  pe_json :: "string \<Rightarrow> py_error + pyval"
  pe_error_text :: "py_error \<Rightarrow> string \<times> string"
  pe_latency :: int

record provider_world =
  pw_requests :: request_world
  pw_posts :: "http_request list"

type_synonym 'a provider_action = "(provider_world, 'a) py_action"

definition in_requests :: "'a request_action \<Rightarrow> 'a provider_action" where
  "in_requests m w = (case m (pw_requests w) of (out, rw) \<Rightarrow> (out, w\<lparr>pw_requests := rw\<rparr>))"

definition on_window :: "'a oracle_action \<Rightarrow> 'a provider_action" where
  "on_window m = in_requests (in_window m)"

record call_args =
  ca_prompt :: string
  ca_model :: string
  ca_timeout :: int
  ca_window_id :: string
  ca_reason :: string
  ca_dry_run :: "bool option"
  ca_max_tokens :: int
  ca_temperature :: string
  ca_purpose :: string
  ca_actor :: string
  ca_agent_id :: string
  ca_plan_id :: string
  ca_step_index :: "int option"
  ca_request_id :: string

section \<open>Settings\<close>

definition pe_env :: "provider_env \<Rightarrow> string \<Rightarrow> string option" where
  "pe_env E = we_getenv (pe_window E)"

definition network_enabled :: "provider_env \<Rightarrow> bool" where
  "network_enabled E = (env_flag (pe_env E ''ESTER_ALLOW_OUTBOUND_NETWORK'') \<or> env_flag (pe_env E ''ESTER_ALLOW_NETWORK''))"

definition provider_slot_b :: "provider_env \<Rightarrow> bool" where
  "provider_slot_b E = (py_upper (py_strip (str_or (pe_env E ''ESTER_VOLITION_SLOT'') ''A'')) = ''B'')"

definition dry_run_default :: "provider_env \<Rightarrow> bool" where
  "dry_run_default E = (\<not> env_flag (pe_env E ''ESTER_ORACLE_DRY_RUN_DISABLE''))"

definition env_text :: "provider_env \<Rightarrow> string \<Rightarrow> string" where
  "env_text E name = py_strip (str_or (pe_env E name) [])"

definition resolve_model :: "provider_env \<Rightarrow> string \<Rightarrow> string" where
  "resolve_model E value = (let m = py_strip value in if m \<noteq> [] then m else env_text E ''ESTER_ORACLE_MODEL'')"

definition provider_key :: "provider_env \<Rightarrow> string \<Rightarrow> string" where
  \<comment> \<open>\<open>get_provider_key\<close>\<close>
  "provider_key E name =
     (let key_name = py_strip name in
      if key_name = [] then []
      else if env_text E key_name \<noteq> [] then env_text E key_name
      else case pe_vault E of None \<Rightarrow> [] | Some secret \<Rightarrow> py_strip secret)"

definition resolve_api_key :: "provider_env \<Rightarrow> string" where
  "resolve_api_key E =
     (let key = py_strip (provider_key E ''OPENAI_API_KEY'') in if key \<noteq> [] then key else env_text E ''ESTER_OPENAI_API_KEY'')"

definition bounded_max_tokens :: "int \<Rightarrow> int" where
  "bounded_max_tokens n = (if n < 1 then 1 else if 4096 < n then 4096 else n)"

section \<open>Rows and refusals\<close>

definition args_actor :: "call_args \<Rightarrow> string" where
  "args_actor a = (if ca_actor a = [] then ''ester'' else ca_actor a)"

definition provider_row ::
  "provider_env \<Rightarrow> (string \<Rightarrow> string) \<Rightarrow> call_args \<Rightarrow> string \<Rightarrow> string \<Rightarrow> bool \<Rightarrow> int \<Rightarrow> int \<Rightarrow> string \<Rightarrow> pydict \<Rightarrow> string \<Rightarrow> pydict" where
  \<comment> \<open>the row given to \<open>note_call\<close>; digest, length and estimate are what \<open>authorize_call\<close> reports, too\<close>
  "provider_row E sha a window_id call_id ok latency tokens_out err extra policy_hit =
     [(''window_id'', PStr window_id), (''call_id'', PStr call_id), (''request_id'', PStr (py_strip (ca_request_id a))),
      (''actor'', PStr (args_actor a)), (''agent_id'', PStr (ca_agent_id a)), (''plan_id'', PStr (ca_plan_id a)),
      (''step_index'', (case ca_step_index a of None \<Rightarrow> PNone | Some i \<Rightarrow> PInt i)),
      (''model'', PStr (let m = resolve_model E (ca_model a) in if m = [] then ''gpt-4o-mini'' else m)),
      (''prompt_digest'', PStr (sha (utf8 (ca_prompt a)))), (''input_chars'', PInt (int (length (ca_prompt a)))),
      (''est_tokens_in'', PInt (estimate_tokens_in (ca_prompt a))), (''max_tokens'', PInt (bounded_max_tokens (ca_max_tokens a))),
      (''ok'', PBool ok), (''latency_ms'', PInt latency), (''tokens_out'', PInt tokens_out), (''error'', PStr err)]
     @ extra @ [(''policy_hit'', PStr policy_hit)]"

definition provider_note :: "provider_env \<Rightarrow> string \<Rightarrow> pydict \<Rightarrow> pydict provider_action" where
  "provider_note E window_id row = on_window (note_call (pe_window E) window_id row)"

definition provider_reply :: "call_args \<Rightarrow> string \<Rightarrow> string \<Rightarrow> bool \<Rightarrow> pydict" where
  \<comment> \<open>the last entries of every reply\<close>
  "provider_reply a window_id call_id attempted =
     [(''window_id'', PStr window_id), (''call_id'', PStr call_id), (''request_id'', PStr (py_strip (ca_request_id a))),
      (''network_attempted'', PBool attempted)]"

definition deny_and_note ::
  "provider_env \<Rightarrow> (string \<Rightarrow> string) \<Rightarrow> call_args \<Rightarrow> string \<Rightarrow> string \<Rightarrow> string \<Rightarrow> string \<Rightarrow> pydict provider_action" where
  "deny_and_note E sha a window_id call_id err policy_hit =
     bindS (provider_note E window_id (provider_row E sha a window_id call_id False 0 0 err [] policy_hit)) (\<lambda>_.
     retS ([(''ok'', PBool False), (''error'', PStr err), (''policy_hit'', PStr policy_hit)]
       @ provider_reply a window_id call_id False))"

section \<open>What an agent needs\<close>

definition approved_ids :: "pydict \<Rightarrow> py_error + string list" where
  "approved_ids current =
     bindE (dict_arg (dict_get current ''meta'')) (\<lambda>meta.
     bindE (list_arg (dict_get meta ''approved_request_ids'')) (\<lambda>xs. Inr (map py_str xs)))"

definition agent_check ::
  "provider_env \<Rightarrow> call_args \<Rightarrow> pydict \<Rightarrow> string \<Rightarrow> string \<Rightarrow> (string \<times> string) option provider_action" where
  \<comment> \<open>the error and policy hit of a refusal\<close>
  "agent_check E a current active model =
     (let req_id = py_strip (ca_request_id a) in
      if py_strip (ca_agent_id a) = [] then retS None
      else if req_id = [] then retS (Some (''oracle_not_approved'', ''request_id_required''))
      else if \<not> ester_actor (get_str current ''actor'') then retS (Some (''actor_not_ester'', ''window_actor_not_ester''))
      else if \<not> truthy (dict_get current ''allow_agents'') then
        retS (Some (''oracle_not_approved'', ''window_allow_agents_false''))
      else
        bindS (in_requests (validate_approved_request (pe_window E) req_id (ca_agent_id a) (ca_plan_id a) (ca_step_index a)
                 model active)) (\<lambda>check.
        if \<not> truthy (dict_get check ''ok'') then
          retS (Some (py_str (py_or (dict_get check ''error'') (PStr ''request_mismatch'')),
                      py_str (py_or (dict_get check ''policy_hit'') (PStr ''request_mismatch''))))
        else
          bindS (liftS (approved_ids current)) (\<lambda>ids.
          retS (if ids \<noteq> [] \<and> req_id \<notin> set ids then Some (''request_mismatch'', ''window_request_binding'') else None))))"

section \<open>The post\<close>

fun get_attr :: "pyval \<Rightarrow> string \<Rightarrow> py_error + pyval" where
  \<comment> \<open>\<open>v.get(k)\<close>\<close>
  "get_attr (PDict d) k = Inr (dict_get d k)"
| "get_attr _ k = Inl PyAttributeError"

fun first_item :: "pyval \<Rightarrow> py_error + pyval" where
  \<comment> \<open>\<open>v[0]\<close> for a value that is not empty\<close>
  "first_item (PList (x # xs)) = Inr x"
| "first_item (PStr (c # cs)) = Inr (PStr [c])"
| "first_item (PDict d) = Inl PyKeyError"
| "first_item _ = Inl PyTypeError"

record completion =
  cm_text :: string
  cm_prompt :: int
  cm_completion :: int
  cm_total :: int

definition read_completion :: "provider_env \<Rightarrow> string \<Rightarrow> int \<Rightarrow> py_error + completion" where
  "read_completion E raw est_in =
     bindE (pe_json E raw) (\<lambda>parsed. let data = py_or parsed (PDict []) in
     bindE (get_attr data ''choices'') (\<lambda>choices.
     bindE (first_item (py_or choices (PList [PDict []]))) (\<lambda>first.
     bindE (get_attr first ''message'') (\<lambda>message.
     bindE (get_attr (py_or message (PDict [])) ''content'') (\<lambda>content.
     let text = py_str (py_or content (PStr [])) in
     bindE (get_attr data ''usage'') (\<lambda>usage0.
     bindE (dict_arg usage0) (\<lambda>usage.
     bindE (get_int usage ''prompt_tokens'' est_in) (\<lambda>p.
     bindE (get_int usage ''completion_tokens'' (max 0 (int (length text) div 4))) (\<lambda>c.
     bindE (get_int usage ''total_tokens'' (p + c)) (\<lambda>t.
     Inr \<lparr>cm_text = text, cm_prompt = p, cm_completion = c, cm_total = t\<rparr>))))))))))"

definition usage_counts :: "int \<Rightarrow> int \<Rightarrow> int \<Rightarrow> pydict" where
  "usage_counts p c t = [(''prompt_tokens'', PInt p), (''completion_tokens'', PInt c), (''total_tokens'', PInt t)]"

definition post_succeeded ::
  "provider_env \<Rightarrow> (string \<Rightarrow> string) \<Rightarrow> call_args \<Rightarrow> string \<Rightarrow> string \<Rightarrow> string \<Rightarrow> string \<Rightarrow> int \<Rightarrow> pydict provider_action" where
  "post_succeeded E sha a window_id call_id model raw est_in =
     bindS (liftS (read_completion E raw est_in)) (\<lambda>m.
     let row = provider_row E sha a window_id call_id True (pe_latency E) (cm_completion m) [] [] ''oracle_window'';
         row' = (if env_flag (pe_env E ''ESTER_ORACLE_LOG_PROMPTS'') then row @ [(''prompt_plaintext'', PStr (ca_prompt a))] else row)
     in bindS (provider_note E window_id row') (\<lambda>_.
        retS ([(''ok'', PBool True), (''provider'', PStr ''openai_oracle''), (''model'', PStr model), (''text'', PStr (cm_text m)),
               (''usage'', PDict (usage_counts (cm_prompt m) (cm_completion m) (cm_total m)))]
              @ provider_reply a window_id call_id True)))"

definition post_raised ::
  "provider_env \<Rightarrow> (string \<Rightarrow> string) \<Rightarrow> call_args \<Rightarrow> string \<Rightarrow> string \<Rightarrow> string \<times> string \<Rightarrow> pydict provider_action" where
  "post_raised E sha a window_id call_id exc =
     bindS (provider_note E window_id (provider_row E sha a window_id call_id False (pe_latency E) 0
              (''oracle_call_exception:'' @ fst exc) [] ''oracle_provider_exception'')) (\<lambda>_.
     retS ([(''ok'', PBool False), (''error'', PStr ''oracle_call_exception''), (''detail'', PStr (fst exc @ '': '' @ snd exc))]
       @ provider_reply a window_id call_id True))"

definition post_status ::
  "provider_env \<Rightarrow> (string \<Rightarrow> string) \<Rightarrow> call_args \<Rightarrow> string \<Rightarrow> string \<Rightarrow> int \<Rightarrow> pydict provider_action" where
  "post_status E sha a window_id call_id code =
     bindS (provider_note E window_id (provider_row E sha a window_id call_id False (pe_latency E) 0
              (''oracle_http_error:'' @ show_int code) [] ''oracle_provider_http_error'')) (\<lambda>_.
     retS ([(''ok'', PBool False), (''error'', PStr ''oracle_http_error''), (''status'', PInt code)]
       @ provider_reply a window_id call_id True))"

definition provider_post ::
  "provider_env \<Rightarrow> (string \<Rightarrow> string) \<Rightarrow> call_args \<Rightarrow> string \<Rightarrow> string \<Rightarrow> string \<Rightarrow> int \<Rightarrow> int \<Rightarrow> string \<Rightarrow> pydict provider_action" where
  "provider_post E sha a window_id call_id model est_in max_wall key =
     (let timeout = (if ca_timeout a = 0 then 20 else ca_timeout a);
          post = \<lparr>ht_model = model, ht_prompt = ca_prompt a, ht_max_tokens = bounded_max_tokens (ca_max_tokens a),
                  ht_temperature = ca_temperature a, ht_key = key, ht_timeout = max 1 (min timeout (max_wall div 1000))\<rparr>
      in bindS (modifyS (\<lambda>w. w\<lparr>pw_posts := pw_posts w @ [post]\<rparr>)) (\<lambda>_.
         case pe_http E post of
           Http_text raw \<Rightarrow> tryS (post_succeeded E sha a window_id call_id model raw est_in)
                              (\<lambda>exc. post_raised E sha a window_id call_id (pe_error_text E exc))
         | Http_status code \<Rightarrow> post_status E sha a window_id call_id code
         | Http_failed name txt \<Rightarrow> post_raised E sha a window_id call_id (name, txt)))"

section \<open>The call\<close>

definition provider_request :: "provider_env \<Rightarrow> call_args \<Rightarrow> string \<Rightarrow> call_request" where
  "provider_request E a active =
     \<lparr>cq_window_id = active, cq_actor = args_actor a, cq_agent_id = ca_agent_id a, cq_plan_id = ca_plan_id a,
      cq_step_index = ca_step_index a, cq_model = resolve_model E (ca_model a), cq_prompt = ca_prompt a,
      cq_max_tokens = bounded_max_tokens (ca_max_tokens a),
      cq_purpose = (let p = py_strip (if ca_purpose a \<noteq> [] then ca_purpose a else ca_reason a) in
                    if p = [] then ''oracle_call'' else p),
      cq_wall_ms = max 100 ((if ca_timeout a = 0 then 20 else ca_timeout a) * 1000)\<rparr>"

definition after_authorized ::
  "provider_env \<Rightarrow> (string \<Rightarrow> string) \<Rightarrow> call_args \<Rightarrow> string \<Rightarrow> string \<Rightarrow> pydict \<Rightarrow> pydict provider_action" where
  "after_authorized E sha a model active0 auth =
     (let call_id = get_str auth ''call_id'' in
      bindS (liftS (get_int auth ''est_tokens_in'' (estimate_tokens_in (ca_prompt a)))) (\<lambda>est_in.
      let active = py_str (py_or (dict_get auth ''window_id'') (PStr active0)) in
      if (case ca_dry_run a of None \<Rightarrow> dry_run_default E | Some b \<Rightarrow> b) then
        let row = provider_row E sha a active call_id True 0 0 [] [(''dry_run'', PBool True)] ''oracle_window'' in
        bindS (provider_note E active row) (\<lambda>_.
        retS ([(''ok'', PBool True), (''dry_run'', PBool True), (''provider'', PStr ''openai_oracle''), (''model'', PStr model),
               (''text'', PStr ''oracle_dry_run''), (''usage'', PDict (usage_counts est_in 0 est_in))]
              @ provider_reply a active call_id False))
      else if \<not> network_enabled E then
        deny_and_note E sha a active call_id ''outbound_network_disabled'' ''oracle_network_disabled''
      else
        let key = resolve_api_key E in
        if key = [] then deny_and_note E sha a active call_id ''openai_api_key_missing'' ''oracle_api_key_missing''
        else bindS (liftS (get_int auth ''max_wall_ms_per_call'' 20000)) (\<lambda>max_wall.
          provider_post E sha a active call_id model est_in max_wall key)))"

definition oracle_call :: "provider_env \<Rightarrow> (string \<Rightarrow> string) \<Rightarrow> call_args \<Rightarrow> pydict provider_action" where
  "oracle_call E sha a =
     (let W = pe_window E; clean_model = resolve_model E (ca_model a);
          model = (if clean_model = [] then ''gpt-4o-mini'' else clean_model);
          refuse = (\<lambda>window err hit. deny_and_note E sha a window (fresh_call_id W) err hit)
      in bindS (on_window (oracle_current_window W)) (\<lambda>current.
         if \<not> truthy (dict_get current ''open'') then refuse [] ''oracle_window_closed'' ''oracle_window_closed''
         else
           let active = get_str current ''window_id'' in
           if py_strip (ca_window_id a) \<noteq> [] \<and> py_strip (ca_window_id a) \<noteq> active then
             refuse active ''oracle_window_mismatch'' ''oracle_window_mismatch''
           else if \<not> provider_slot_b E then refuse active ''oracle_slot_closed'' ''slot_a''
           else if clean_model = [] then refuse active ''model_required'' ''oracle_model_required''
           else bindS (agent_check E a current active model) (\<lambda>refusal. case refusal of
             Some (err, hit) \<Rightarrow> refuse active err hit
           | None \<Rightarrow>
               bindS (on_window (authorize_call W sha (provider_request E a active))) (\<lambda>auth.
               if \<not> truthy (dict_get auth ''ok'') then
                 let err = py_str (py_or (dict_get auth ''error'') (PStr ''oracle_denied'')) in
                 retS ([(''ok'', PBool False),
                        (''error'', PStr (if err = ''oracle_budget_exceeded'' then ''budgets_exhausted'' else err)),
                        (''policy_hit'', PStr (get_str auth ''policy_hit''))]
                       @ provider_reply a (py_str (py_or (dict_get auth ''window_id'') (PStr active))) (get_str auth ''call_id'') False)
               else after_authorized E sha a model active auth))))"

end
