(* ===== verification/OracleLaws.thy ===== *)
theory OracleLaws
  imports OracleWindow ExecWindowLaws
begin

text \<open>
  The oracle window as a lease with budgets.  As in \<open>ExecWindowLaws\<close>, a state file the module wrote is the
  dictionary of a record (\<open>owin\<close>), and every operation acts on the live window as \<open>spec_oracle\<close> says.  The
  calls and input tokens granted under one window never exceed its budgets; output tokens can.
\<close>

section \<open>The record behind the state file\<close>

record owin =
  on_open :: bool
  on_id :: string
  on_opened :: int
  on_expires :: int
  on_actor :: string
  on_reason :: string
  on_agents :: pyval
  on_meta :: pydict
  on_limits :: oracle_limits
  on_usage :: "int \<times> int \<times> int"
  on_last :: pyval
  on_updated :: int

fun spent_dict :: "int \<times> int \<times> int \<Rightarrow> pydict" where
  "spent_dict (c, i, out) = oracle_usage_dict c i out"

definition owin_dict :: "owin \<Rightarrow> pydict" where
  "owin_dict x =
     [(''open'', PBool (on_open x)), (''window_id'', PStr (on_id x)), (''opened_ts'', PInt (on_opened x)),
      (''expires_ts'', PInt (on_expires x)), (''actor'', PStr (on_actor x)), (''reason'', PStr (on_reason x)),
      (''allow_agents'', on_agents x), (''meta'', PDict (on_meta x)), (''budgets'', PDict (oracle_limits_dict (on_limits x))),
      (''usage'', PDict (spent_dict (on_usage x))), (''last_call'', on_last x), (''updated_ts'', PInt (on_updated x))]"

definition limits_wf :: "oracle_limits \<Rightarrow> bool" where
  "limits_wf l = (1 \<le> ol_ttl l \<and> 1 \<le> ol_calls l \<and> 1 \<le> ol_in l \<and> 1 \<le> ol_out l \<and> 100 \<le> ol_wall l)"

definition owin_wf :: "owin \<Rightarrow> bool" where
  "owin_wf x = (limits_wf (on_limits x) \<and> all_ge 0 (on_usage x))"

lemma owin_dict_get [simp]:
  "dict_get (owin_dict x) ''open'' = PBool (on_open x)" "dict_get (owin_dict x) ''window_id'' = PStr (on_id x)"
  "dict_get (owin_dict x) ''opened_ts'' = PInt (on_opened x)" "dict_get (owin_dict x) ''expires_ts'' = PInt (on_expires x)"
  "dict_get (owin_dict x) ''actor'' = PStr (on_actor x)" "dict_get (owin_dict x) ''reason'' = PStr (on_reason x)"
  "dict_get (owin_dict x) ''allow_agents'' = on_agents x" "dict_get (owin_dict x) ''meta'' = PDict (on_meta x)"
  "dict_get (owin_dict x) ''budgets'' = PDict (oracle_limits_dict (on_limits x))"
  "dict_get (owin_dict x) ''usage'' = PDict (spent_dict (on_usage x))"
  "dict_get (owin_dict x) ''last_call'' = on_last x" "dict_get (owin_dict x) ''updated_ts'' = PInt (on_updated x)"
  by (simp_all add: owin_dict_def)

lemma owin_dict_set [simp]:
  "dict_set ''open'' (PBool v) (owin_dict x) = owin_dict (x\<lparr>on_open := v\<rparr>)"
  "dict_set ''window_id'' (PStr s) (owin_dict x) = owin_dict (x\<lparr>on_id := s\<rparr>)"
  "dict_set ''opened_ts'' (PInt i) (owin_dict x) = owin_dict (x\<lparr>on_opened := i\<rparr>)"
  "dict_set ''expires_ts'' (PInt i) (owin_dict x) = owin_dict (x\<lparr>on_expires := i\<rparr>)"
  "dict_set ''actor'' (PStr s) (owin_dict x) = owin_dict (x\<lparr>on_actor := s\<rparr>)"
  "dict_set ''reason'' (PStr s) (owin_dict x) = owin_dict (x\<lparr>on_reason := s\<rparr>)"
  "dict_set ''allow_agents'' a (owin_dict x) = owin_dict (x\<lparr>on_agents := a\<rparr>)"
  "dict_set ''meta'' (PDict d) (owin_dict x) = owin_dict (x\<lparr>on_meta := d\<rparr>)"
  "dict_set ''budgets'' (PDict (oracle_limits_dict l)) (owin_dict x) = owin_dict (x\<lparr>on_limits := l\<rparr>)"
  "dict_set ''usage'' (PDict (oracle_usage_dict a' b' c')) (owin_dict x) = owin_dict (x\<lparr>on_usage := (a', b', c')\<rparr>)"
  "dict_set ''last_call'' v' (owin_dict x) = owin_dict (x\<lparr>on_last := v'\<rparr>)"
  "dict_set ''updated_ts'' (PInt i) (owin_dict x) = owin_dict (x\<lparr>on_updated := i\<rparr>)"
  by (simp_all add: owin_dict_def dict_set_def)

lemma owin_ints [simp]:
  "get_int (owin_dict x) ''expires_ts'' 0 = Inr (on_expires x)"
  "get_int (oracle_usage_dict a b c) ''calls_total'' 0 = Inr a"
  "get_int (oracle_usage_dict a b c) ''est_tokens_in_total'' 0 = Inr b"
  "get_int (oracle_usage_dict a b c) ''tokens_out_total'' 0 = Inr c"
  "get_int (oracle_limits_dict l) ''max_calls'' 0 = Inr (ol_calls l)"
  "get_int (oracle_limits_dict l) ''max_est_tokens_in_total'' 0 = Inr (ol_in l)"
  "get_int (oracle_limits_dict l) ''max_tokens_out_total'' 0 = Inr (ol_out l)"
  by (simp_all add: get_int_def py_or_def oracle_usage_dict_def oracle_limits_dict_def)

lemma owin_strs [simp]:
  "get_str (owin_dict x) ''window_id'' = on_id x" "get_str (owin_dict x) ''actor'' = on_actor x"
  "get_str (owin_dict x) ''reason'' = on_reason x"
  by (simp_all add: get_str_def)

lemma set_spent [simp]:
  "dict_set ''calls_total'' (PInt i) (oracle_usage_dict a b c) = oracle_usage_dict i b c"
  "dict_set ''est_tokens_in_total'' (PInt i) (oracle_usage_dict a b c) = oracle_usage_dict a i c"
  "dict_set ''tokens_out_total'' (PInt i) (oracle_usage_dict a b c) = oracle_usage_dict a b i"
  by (simp_all add: oracle_usage_dict_def dict_set_def)

section \<open>Loading and refreshing\<close>

definition oracle_env_ok :: "window_env \<Rightarrow> bool" where
  "oracle_env_ok E = (case oracle_default_budgets E of Inl _ \<Rightarrow> False | Inr _ \<Rightarrow> True)"

definition base_limits :: "window_env \<Rightarrow> oracle_limits" where
  "base_limits E = (case oracle_default_budgets E of
     Inl _ \<Rightarrow> \<lparr>ol_ttl = 1, ol_calls = 1, ol_in = 1, ol_out = 1, ol_wall = 100\<rparr> | Inr l \<Rightarrow> l)"

definition default_owin :: "window_env \<Rightarrow> owin" where
  "default_owin E =
     \<lparr>on_open = False, on_id = [], on_opened = 0, on_expires = 0, on_actor = [], on_reason = [], on_agents = PBool False,
      on_meta = [], on_limits = base_limits E, on_usage = (0, 0, 0), on_last = PDict no_last_call, on_updated = we_stamp E\<rparr>"

lemma oracle_defaults: "oracle_env_ok E \<Longrightarrow> oracle_default_budgets E = Inr (base_limits E)"
  by (auto simp: oracle_env_ok_def base_limits_def split: sum.splits)

lemma base_limits_wf: "limits_wf (base_limits E)"
  by (auto simp: base_limits_def limits_wf_def oracle_default_budgets_def bindE_Inr_iff split: sum.splits)

lemma oracle_default_ok: "oracle_env_ok E \<Longrightarrow> oracle_default_state E = Inr (owin_dict (default_owin E))"
  by (simp add: oracle_default_state_def oracle_defaults default_owin_def owin_dict_def)

lemma default_owin_wf: "owin_wf (default_owin E)"
  by (simp add: default_owin_def owin_wf_def base_limits_wf)

lemma merge_owin_dict: "dict_merge (owin_dict y) (owin_dict x) = owin_dict x"
proof -
  obtain a b c where u: "on_usage x = (a, b, c)" by (cases "on_usage x")
  have "owin_dict x = [(''open'', PBool (on_open x)), (''window_id'', PStr (on_id x)), (''opened_ts'', PInt (on_opened x)),
      (''expires_ts'', PInt (on_expires x)), (''actor'', PStr (on_actor x)), (''reason'', PStr (on_reason x)),
      (''allow_agents'', on_agents x), (''meta'', PDict (on_meta x)), (''budgets'', PDict (oracle_limits_dict (on_limits x))),
      (''usage'', PDict (oracle_usage_dict a b c)), (''last_call'', on_last x), (''updated_ts'', PInt (on_updated x))]"
    by (simp add: owin_dict_def u)
  then have "dict_merge (owin_dict y) (owin_dict x) = owin_dict (y\<lparr>on_open := on_open x, on_id := on_id x,
      on_opened := on_opened x, on_expires := on_expires x, on_actor := on_actor x, on_reason := on_reason x,
      on_agents := on_agents x, on_meta := on_meta x, on_limits := on_limits x, on_usage := (a, b, c), on_last := on_last x,
      on_updated := on_updated x\<rparr>)"
    by simp
  also have "\<dots> = owin_dict x" by (rule arg_cong [of _ _ owin_dict]) (simp add: u)
  finally show ?thesis .
qed

lemma oracle_normalize_written:
  "oracle_env_ok E \<Longrightarrow> limits_wf l \<Longrightarrow> oracle_normalize_budgets E (PDict (oracle_limits_dict l)) None = Inr l"
  by (simp add: oracle_normalize_budgets_def oracle_defaults get_int_def oracle_limits_dict_def py_or_def limits_wf_def Let_def)

definition decode_owin :: "pydict \<Rightarrow> owin" where
  "decode_owin d =
     (let b = dict_of (dict_get d ''budgets''); u = dict_of (dict_get d ''usage''); num = (\<lambda>e k. int_field (dict_get e k)) in
      \<lparr>on_open = truthy (dict_get d ''open''), on_id = get_str d ''window_id'', on_opened = num d ''opened_ts'',
       on_expires = num d ''expires_ts'', on_actor = get_str d ''actor'', on_reason = get_str d ''reason'',
       on_agents = dict_get d ''allow_agents'', on_meta = dict_of (dict_get d ''meta''),
       on_limits = \<lparr>ol_ttl = num b ''ttl_sec'', ol_calls = num b ''max_calls'', ol_in = num b ''max_est_tokens_in_total'',
         ol_out = num b ''max_tokens_out_total'', ol_wall = num b ''max_wall_ms_per_call''\<rparr>,
       on_usage = (num u ''calls_total'', num u ''est_tokens_in_total'', num u ''tokens_out_total''),
       on_last = dict_get d ''last_call'', on_updated = num d ''updated_ts''\<rparr>)"

lemma decode_owin_dict [simp]: "decode_owin (owin_dict x) = x"
proof -
  obtain a b c where u: "on_usage x = (a, b, c)" by (cases "on_usage x")
  show ?thesis
    by (simp add: decode_owin_def Let_def u) (simp add: u oracle_limits_dict_def oracle_usage_dict_def)
qed

definition ostored :: "oracle_world \<Rightarrow> owin option" where
  "ostored w = (case ow_file w of Some (JVal (PDict d)) \<Rightarrow> Some (decode_owin d) | _ \<Rightarrow> None)"

definition oworld_ok :: "oracle_world \<Rightarrow> bool" where
  "oworld_ok w = (case ow_file w of
     None \<Rightarrow> True
   | Some (JVal (PDict d)) \<Rightarrow> d = owin_dict (decode_owin d) \<and> owin_wf (decode_owin d)
   | _ \<Rightarrow> False)"

definition oput :: "owin \<Rightarrow> oracle_world \<Rightarrow> oracle_world" where
  "oput x w = w\<lparr>ow_file := Some (JVal (PDict (owin_dict x)))\<rparr>"

lemma oput_simps [simp]:
  "ostored (oput x w) = Some x" "oworld_ok (oput x w) = owin_wf x" "oput x (oput y w) = oput x w"
  "ow_calls (oput x w) = ow_calls w" "ow_events (oput x w) = ow_events w"
  by (simp_all add: ostored_def oput_def oworld_ok_def)

lemma oworld_ok_cases:
  assumes "oworld_ok w"
  obtains "ow_file w = None" "ostored w = None"
  | x where "ow_file w = Some (JVal (PDict (owin_dict x)))" "ostored w = Some x" "owin_wf x"
proof (cases "ow_file w")
  case None
  then show ?thesis using that(1) by (simp add: ostored_def)
next
  case (Some t)
  with assms obtain d where "t = JVal (PDict d)" "d = owin_dict (decode_owin d)" "owin_wf (decode_owin d)"
    by (auto simp: oworld_ok_def split: jtext.splits pyval.splits)
  with Some show ?thesis using that(2) [of "decode_owin d"] by (simp add: ostored_def)
qed

definition oloaded :: "window_env \<Rightarrow> oracle_world \<Rightarrow> owin" where
  "oloaded E w = (case ostored w of
     None \<Rightarrow> default_owin E
   | Some x \<Rightarrow> x\<lparr>on_updated := if on_updated x = 0 then we_stamp E else on_updated x\<rparr>)"

definition ocreated :: "window_env \<Rightarrow> oracle_world \<Rightarrow> oracle_world" where
  \<comment> \<open>loading writes a missing file\<close>
  "ocreated E w = (if ow_file w = None then oput (default_owin E) w else w)"

lemma oload_ok:
  assumes "oracle_env_ok E" "oworld_ok w"
  shows "load_oracle_state E w = (Inr (owin_dict (oloaded E w)), ocreated E w)"
  using assms(2)
proof (cases rule: oworld_ok_cases)
  case 1
  then show ?thesis
    by (simp add: load_oracle_state_def oracle_default_ok [OF assms(1)] write_oracle_state_def ocreated_def oput_def oloaded_def)
next
  case (2 x)
  obtain a b c where u: "on_usage x = (a, b, c)" by (cases "on_usage x")
  have ge: "limits_wf (on_limits x)" "0 \<le> a" "0 \<le> b" "0 \<le> c" using 2(3) by (simp_all add: owin_wf_def u)
  let ?t = "if on_updated x = 0 then we_stamp E else on_updated x"
  have t: "get_int (owin_dict x) ''updated_ts'' (we_stamp E) = Inr ?t" by (simp add: get_int_def py_or_def)
  have "load_oracle_state E w = (Inr (owin_dict (x\<lparr>on_limits := on_limits x, on_usage := (a, b, c), on_meta := on_meta x,
      on_updated := ?t\<rparr>)), w)"
    using ge oracle_normalize_written [OF assms(1) ge(1)]
    by (simp add: load_oracle_state_def 2(1) oracle_default_ok [OF assms(1)] merge_owin_dict u t)
  then show ?thesis by (simp add: u [symmetric] oloaded_def 2(1,2) ocreated_def)
qed

definition oshut :: "owin \<Rightarrow> owin" where
  "oshut x = x\<lparr>on_open := False, on_id := [], on_expires := 0, on_reason := []\<rparr>"

lemma shut_odict [simp]: "shut (owin_dict x) = owin_dict (oshut x)"
  by (simp add: shut_def oshut_def)

definition olog :: "pydict \<Rightarrow> oracle_world \<Rightarrow> oracle_world" where
  "olog row w = w\<lparr>ow_events := ow_events w @ [row]\<rparr>"

definition olog_call :: "pydict \<Rightarrow> oracle_world \<Rightarrow> oracle_world" where
  "olog_call row w = w\<lparr>ow_calls := ow_calls w @ [row]\<rparr>"

lemma olog_simps [simp]:
  "ostored (olog row w) = ostored w" "oworld_ok (olog row w) = oworld_ok w" "ow_file (olog row w) = ow_file w"
  "ostored (olog_call row w) = ostored w" "oworld_ok (olog_call row w) = oworld_ok w" "ow_file (olog_call row w) = ow_file w"
  by (simp_all add: olog_def olog_call_def ostored_def oworld_ok_def)

definition oracle_event_row :: "window_env \<Rightarrow> string \<Rightarrow> string \<Rightarrow> string \<Rightarrow> string \<Rightarrow> pydict \<Rightarrow> pyval \<Rightarrow> pydict \<Rightarrow> pydict" where
  "oracle_event_row E event i actor reason budgets agents meta =
     [(''ts'', PInt (we_stamp E)), (''event'', PStr (py_strip event)), (''window_id'', PStr (py_strip i)),
      (''actor'', PStr (py_strip actor)), (''reason'', PStr (py_strip reason)), (''budgets'', PDict budgets),
      (''allow_agents'', agents), (''meta'', PDict meta)]"

lemma oevent_bind: "bindS (oracle_event E ev i a r b g m) f w = f () (olog (oracle_event_row E ev i a r b g m) w)"
  by (simp add: oracle_event_def olog_def oracle_event_row_def)

lemma osave_bind: "bindS (save_oracle_state E (owin_dict x)) f w = f () (oput (x\<lparr>on_updated := we_stamp E\<rparr>) w)"
  by (simp add: save_oracle_state_def write_oracle_state_def oput_def)

definition ostale :: "int \<Rightarrow> owin \<Rightarrow> bool" where
  "ostale now x = (on_open x \<and> on_expires x \<le> now)"

definition oexpire_row :: "window_env \<Rightarrow> owin \<Rightarrow> pydict" where
  "oexpire_row E x = oracle_event_row E ''expire'' (on_id x) (if on_actor x = [] then ''system'' else on_actor x) ''ttl_expired''
     (oracle_limits_dict (on_limits x)) (on_agents x) (on_meta x)"

definition onoticed :: "window_env \<Rightarrow> oracle_world \<Rightarrow> oracle_world" where
  "onoticed E w = (if ostale (we_now E) (oloaded E w) then olog (oexpire_row E (oloaded E w)) (ocreated E w) else ocreated E w)"

definition oseen :: "window_env \<Rightarrow> oracle_world \<Rightarrow> owin" where
  "oseen E w = (if ostale (we_now E) (oloaded E w) then oshut (oloaded E w) else oloaded E w)"

lemma oload_refreshed:
  assumes "oracle_env_ok E" "oworld_ok w"
  shows "bindS (oracle_load_refreshed E) f w = f (owin_dict (oseen E w)) (onoticed E w)"
proof -
  obtain x where x: "oloaded E w = x" by simp
  have a: "py_str (py_or (PStr (on_actor x)) (PStr ''system'')) = (if on_actor x = [] then ''system'' else on_actor x)"
    by (simp add: py_or_def)
  have "oracle_load_refreshed E w = (Inr (owin_dict (oseen E w)), onoticed E w)"
    unfolding oracle_load_refreshed_def bindS_ok [where m = "load_oracle_state E", OF oload_ok [OF assms]]
    by (simp add: oracle_refresh_expired_def x onoticed_def oseen_def ostale_def oexpire_row_def a oevent_bind not_le)
  then show ?thesis by (rule bindS_ok)
qed

lemma oloaded_wf: "oworld_ok w \<Longrightarrow> owin_wf (oloaded E w)"
  by (erule oworld_ok_cases) (simp_all add: oloaded_def default_owin_wf, simp add: owin_wf_def)

lemma oseen_wf: "oworld_ok w \<Longrightarrow> owin_wf (oseen E w)"
  using oloaded_wf [of w E] by (simp add: oseen_def oshut_def owin_wf_def)

lemma onoticed_ok [simp]: "oworld_ok w \<Longrightarrow> oworld_ok (onoticed E w)"
  by (simp add: onoticed_def ocreated_def default_owin_wf)

section \<open>The live window\<close>

definition olive :: "int \<Rightarrow> oracle_world \<Rightarrow> owin option" where
  \<comment> \<open>without the stamp of the last change and the report of the last call\<close>
  "olive t w = (case ostored w of
     None \<Rightarrow> None
   | Some x \<Rightarrow> if on_open x \<and> t < on_expires x then Some (x\<lparr>on_updated := 0, on_last := PNone\<rparr>) else None)"

definition bare :: "owin \<Rightarrow> owin" where
  "bare x = x\<lparr>on_updated := 0, on_last := PNone\<rparr>"

lemma bare_simps [simp]:
  "on_id (bare x) = on_id x" "on_limits (bare x) = on_limits x" "on_usage (bare x) = on_usage x"
  "on_expires (bare x) = on_expires x" "on_open (bare x) = on_open x"
  "bare (x\<lparr>on_updated := t\<rparr>) = bare x" "bare (x\<lparr>on_last := v\<rparr>) = bare x"
  by (simp_all add: bare_def)

lemma olive_put: "olive t (oput x w) = (if on_open x \<and> t < on_expires x then Some (bare x) else None)"
  by (simp add: olive_def bare_def)

lemma olive_log [simp]: "olive t (olog r w) = olive t w" "olive t (olog_call r w) = olive t w"
  by (simp_all add: olive_def)

lemma olive_created [simp]: "olive t (ocreated E w) = olive t w"
  by (simp add: ocreated_def olive_def ostored_def oput_def default_owin_def)

lemma olive_noticed [simp]: "olive t (onoticed E w) = olive t w"
  by (simp add: onoticed_def)

lemma olive_seen: "oworld_ok w \<Longrightarrow> olive (we_now E) w = (if on_open (oseen E w) then Some (bare (oseen E w)) else None)"
  by (erule oworld_ok_cases)
     (auto simp: olive_def oseen_def oloaded_def ostale_def oshut_def default_owin_def bare_def)

lemma oseen_live: "on_open (oseen E w) \<Longrightarrow> we_now E < on_expires (oseen E w)"
  by (auto simp: oseen_def ostale_def oshut_def split: if_splits)

section \<open>The specification\<close>

datatype oracle_op =
    Or_open string string pyval pyval pydict "int option" string "string list option"
  | Or_close string string string
  | Or_current
  | Or_is_open string
  | Or_list
  | Or_call call_request
  | Or_note string pydict

fun oracle_step :: "(string \<Rightarrow> string) \<Rightarrow> window_env \<Rightarrow> oracle_op \<Rightarrow> pydict oracle_action" where
  "oracle_step sha E (Or_open reason actor budgets agents meta ttl kind hosts) =
     oracle_open_window E reason actor budgets agents meta ttl kind hosts"
| "oracle_step sha E (Or_close i actor reason) = oracle_close_window E i actor reason"
| "oracle_step sha E Or_current = oracle_current_window E"
| "oracle_step sha E (Or_is_open i) = oracle_is_open E i"
| "oracle_step sha E Or_list = oracle_list_windows E"
| "oracle_step sha E (Or_call r) = authorize_call E sha r"
| "oracle_step sha E (Or_note i rec) = note_call E i rec"

definition may_open_oracle :: "window_env \<Rightarrow> string \<Rightarrow> string \<Rightarrow> bool" where
  "may_open_oracle E reason actor = (may_open actor reason \<and> oracle_enabled E)"

definition oracle_id :: "window_env \<Rightarrow> string" where
  "oracle_id E = ''ow_'' @ take 12 (we_uuid E)"

definition asked_limits :: "window_env \<Rightarrow> pyval \<Rightarrow> int option \<Rightarrow> oracle_limits" where
  "asked_limits E budgets ttl = (case oracle_normalize_budgets E budgets ttl of Inl _ \<Rightarrow> base_limits E | Inr l \<Rightarrow> l)"

definition opened :: "window_env \<Rightarrow> string \<Rightarrow> string \<Rightarrow> pyval \<Rightarrow> pyval \<Rightarrow> pydict \<Rightarrow> int option \<Rightarrow> string \<Rightarrow> string list option \<Rightarrow> owin" where
  "opened E reason actor budgets agents meta ttl kind hosts =
     (let l = asked_limits E budgets ttl in
      \<lparr>on_open = True, on_id = oracle_id E, on_opened = we_now E, on_expires = we_now E + ol_ttl l,
       on_actor = clean_actor actor, on_reason = py_strip reason, on_agents = agents, on_meta = oracle_meta meta kind hosts,
       on_limits = l, on_usage = (0, 0, 0), on_last = PNone, on_updated = 0\<rparr>)"

fun fits :: "call_request \<Rightarrow> oracle_limits \<Rightarrow> int \<times> int \<times> int \<Rightarrow> bool" where
  "fits r l (c, i, out) =
     (cq_wall_ms r \<le> ol_wall l \<and> c + 1 \<le> ol_calls l \<and> i + estimate_tokens_in (cq_prompt r) \<le> ol_in l
      \<and> out + wanted_tokens r \<le> ol_out l)"

fun may_call :: "call_request \<Rightarrow> owin option \<Rightarrow> bool" where
  "may_call r None = False"
| "may_call r (Some x) = ((py_strip (cq_window_id r) = [] \<or> py_strip (cq_window_id r) = on_id x) \<and> fits r (on_limits x) (on_usage x))"

fun add_call :: "call_request \<Rightarrow> int \<times> int \<times> int \<Rightarrow> int \<times> int \<times> int" where
  "add_call r (c, i, out) = (c + 1, i + estimate_tokens_in (cq_prompt r), out)"

fun add_out :: "int \<Rightarrow> int \<times> int \<times> int \<Rightarrow> int \<times> int \<times> int" where
  "add_out n (c, i, out) = (c, i, out + max 0 n)"

definition out_of :: "pydict \<Rightarrow> int" where
  "out_of rec = (case get_int rec ''tokens_out'' 0 of Inl _ \<Rightarrow> 0 | Inr n \<Rightarrow> n)"

definition names_oracle :: "string \<Rightarrow> owin option \<Rightarrow> bool" where
  "names_oracle i m = (\<exists>x. m = Some x \<and> py_strip i = on_id x)"

fun spec_oracle :: "window_env \<Rightarrow> oracle_op \<Rightarrow> owin option \<Rightarrow> owin option" where
  "spec_oracle E (Or_open reason actor budgets agents meta ttl kind hosts) m =
     (if may_open_oracle E reason actor then Some (opened E reason actor budgets agents meta ttl kind hosts) else m)"
| "spec_oracle E (Or_close i actor reason) m = (if py_strip i \<noteq> [] \<and> names_oracle i m then None else m)"
| "spec_oracle E (Or_call r) m = (if may_call r m then map_option (on_usage_update (add_call r)) m else m)"
| "spec_oracle E (Or_note i rec) m =
     (if truthy (dict_get rec ''ok'') \<and> names_oracle i m then map_option (on_usage_update (add_out (out_of rec))) m else m)"
| "spec_oracle E _ m = m"

fun spec_oracle_answer :: "window_env \<Rightarrow> oracle_op \<Rightarrow> owin option \<Rightarrow> bool" where
  "spec_oracle_answer E (Or_open reason actor budgets agents meta ttl kind hosts) m = may_open_oracle E reason actor"
| "spec_oracle_answer E (Or_close i actor reason) m = (py_strip i \<noteq> [] \<and> names_oracle i m)"
| "spec_oracle_answer E (Or_call r) m = may_call r m"
| "spec_oracle_answer E (Or_note i rec) m = True"
| "spec_oracle_answer E (Or_is_open i) m = (m \<noteq> None \<and> (py_strip i = [] \<or> names_oracle i m))"
| "spec_oracle_answer E _ m = (m \<noteq> None)"

fun oracle_answer :: "oracle_op \<Rightarrow> pydict \<Rightarrow> pyval" where
  "oracle_answer Or_current r = dict_get r ''open''"
| "oracle_answer (Or_is_open i) r = dict_get r ''open''"
| "oracle_answer Or_list r = PBool (dict_get r ''count'' = PInt 1)"
| "oracle_answer _ r = dict_get r ''ok''"

text \<open>Budgets an opening asks for, and numbers a call report holds, that \<open>int\<close> can read.\<close>

fun op_readable :: "window_env \<Rightarrow> oracle_op \<Rightarrow> bool" where
  "op_readable E (Or_open reason actor budgets agents meta ttl kind hosts) =
     (oracle_normalize_budgets E budgets ttl = Inr (asked_limits E budgets ttl))"
| "op_readable E (Or_note i rec) =
     (get_int rec ''tokens_out'' 0 = Inr (out_of rec) \<and> (\<exists>t. get_int rec ''ts'' (we_stamp E) = Inr t))"
| "op_readable E _ = True"

fun shows_instant :: "window_env \<Rightarrow> oracle_op \<Rightarrow> owin option \<Rightarrow> int option" where
  \<comment> \<open>the expiry that the reply shows as a date: of the window just opened, or of the live one\<close>
  "shows_instant E (Or_open reason actor budgets agents meta ttl kind hosts) m =
     (if may_open_oracle E reason actor then Some (on_expires (opened E reason actor budgets agents meta ttl kind hosts)) else None)"
| "shows_instant E (Or_close i actor reason) m = None"
| "shows_instant E (Or_call r) m = None"
| "shows_instant E (Or_note i rec) m = None"
| "shows_instant E op m = map_option (\<lambda>x. if on_expires x = 0 then we_now E else on_expires x) m"

declare shows_instant.simps(5-7) [simp del]

definition oracle_acts :: "window_env \<Rightarrow> oracle_op \<Rightarrow> oracle_world \<Rightarrow> py_error + pydict \<Rightarrow> oracle_world \<Rightarrow> bool" where
  "oracle_acts E op w out w' =
     (oworld_ok w' \<and> olive (we_now E) w' = spec_oracle E op (olive (we_now E) w)
      \<and> (case shown E (shows_instant E op (olive (we_now E) w)) of Some e \<Rightarrow> out = Inl e
         | None \<Rightarrow> (\<exists>r. out = Inr r \<and> oracle_answer op r = PBool (spec_oracle_answer E op (olive (we_now E) w)))))"

section \<open>The code refines the specification\<close>

lemma normalized_wf: "oracle_normalize_budgets E b ttl = Inr l \<Longrightarrow> limits_wf l"
  by (auto simp: oracle_normalize_budgets_def bindE_Inr_iff limits_wf_def Let_def)

lemma opened_simps [simp]:
  "on_open (opened E reason actor budgets agents meta ttl kind hosts)"
  "on_id (opened E reason actor budgets agents meta ttl kind hosts) = oracle_id E"
  "on_usage (opened E reason actor budgets agents meta ttl kind hosts) = (0, 0, 0)"
  "on_limits (opened E reason actor budgets agents meta ttl kind hosts) = asked_limits E budgets ttl"
  "bare (opened E reason actor budgets agents meta ttl kind hosts) = opened E reason actor budgets agents meta ttl kind hosts"
  by (simp_all add: opened_def Let_def bare_def)

lemma owin_rewritten: "(y :: owin)\<lparr>on_open := v, on_id := i, on_opened := t, on_expires := e, on_actor := a, on_reason := r,
    on_agents := g, on_meta := m, on_limits := b, on_usage := u, on_updated := s\<rparr> =
  \<lparr>on_open = v, on_id = i, on_opened = t, on_expires = e, on_actor = a, on_reason = r, on_agents = g, on_meta = m,
   on_limits = b, on_usage = u, on_last = on_last y, on_updated = s\<rparr>"
  by (cases y) simp

lemma oracle_open_denied:
  assumes "oworld_ok w" "oracle_normalize_budgets E budgets ttl = Inr (asked_limits E budgets ttl)" "\<not> may_open_oracle E reason actor"
  shows "\<exists>r w'. oracle_open_window E reason actor budgets agents meta ttl kind hosts w = (Inr r, w') \<and> dict_get r ''ok'' = PBool False
    \<and> oworld_ok w' \<and> olive t w' = olive t w"
proof -
  let ?l = "asked_limits E budgets ttl"
  have deny: "\<exists>r w'. deny_open E who code ?l agents m w = (Inr r, w') \<and> dict_get r ''ok'' = PBool False
      \<and> oworld_ok w' \<and> olive t w' = olive t w" for who code m
    using assms(1) by (simp add: deny_open_def oevent_bind fail_reply_def)
  have "oracle_open_window E reason actor budgets agents meta ttl kind hosts w \<in>
      {deny_open E (clean_actor actor) code ?l agents (oracle_meta meta kind hosts) w | code. True}"
    using assms(3) by (auto simp: oracle_open_window_def Let_def assms(2) may_open_oracle_def may_open_def)
  then obtain code where d: "oracle_open_window E reason actor budgets agents meta ttl kind hosts w =
      deny_open E (clean_actor actor) code ?l agents (oracle_meta meta kind hosts) w" by blast
  show ?thesis unfolding d by (rule deny)
qed

lemma oracle_open_granted:
  assumes "oracle_env_ok E" "oworld_ok w" "oracle_normalize_budgets E budgets ttl = Inr (asked_limits E budgets ttl)"
    and "may_open_oracle E reason actor" "x = opened E reason actor budgets agents meta ttl kind hosts"
  shows "\<exists>w'. oracle_open_window E reason actor budgets agents meta ttl kind hosts w =
       (map_sum id (\<lambda>at. [(''ok'', PBool True), (''window_id'', PStr (oracle_id E)), (''expires_ts'', PInt (on_expires x)),
          (''expires_at'', PStr at), (''budgets'', PDict (oracle_limits_dict (asked_limits E budgets ttl)))]) (we_iso E (on_expires x)), w')
     \<and> oworld_ok w' \<and> olive (we_now E) w' = Some x"
proof -
  let ?l = "asked_limits E budgets ttl"
  from assms(4) have m: "\<not> is_agent_actor (clean_actor actor)" "oracle_enabled E" "py_strip reason \<noteq> []"
    by (simp_all add: may_open_oracle_def may_open_def)
  let ?y = "x\<lparr>on_last := on_last (oseen E w), on_updated := we_stamp E\<rparr>"
  let ?w = "olog (oracle_event_row E ''open'' (oracle_id E) (clean_actor actor) (py_strip reason)
      (oracle_limits_dict ?l) agents (oracle_meta meta kind hosts)) (oput ?y (onoticed E w))"
  have run: "oracle_open_window E reason actor budgets agents meta ttl kind hosts w =
     (map_sum id (\<lambda>at. [(''ok'', PBool True), (''window_id'', PStr (oracle_id E)), (''expires_ts'', PInt (on_expires x)),
        (''expires_at'', PStr at), (''budgets'', PDict (oracle_limits_dict ?l))]) (we_iso E (on_expires x)), ?w)"
    using m
    by (cases "we_iso E (on_expires x)")
       (simp_all add: oracle_open_window_def Let_def assms(3) oload_refreshed [OF assms(1,2)] osave_bind oevent_bind
         owin_rewritten assms(5) opened_def oracle_id_def)
  have wf: "limits_wf ?l" using normalized_wf [OF assms(3)] .
  then have live: "we_now E < on_expires x" by (simp add: assms(5) opened_def Let_def limits_wf_def)
  have "oworld_ok ?w" using wf by (simp add: owin_wf_def assms(5))
  moreover have "olive (we_now E) ?w = Some x" using live by (simp add: olive_put assms(5))
  ultimately show ?thesis using run by blast
qed

lemma oracle_open_acts:
  assumes "oracle_env_ok E" "oworld_ok w" "oracle_normalize_budgets E budgets ttl = Inr (asked_limits E budgets ttl)"
  shows "\<exists>out w'. oracle_open_window E reason actor budgets agents meta ttl kind hosts w = (out, w')
     \<and> oracle_acts E (Or_open reason actor budgets agents meta ttl kind hosts) w out w'"
proof (cases "may_open_oracle E reason actor")
  case False
  from oracle_open_denied [OF assms(2,3) False, of agents meta kind hosts "we_now E"] False show ?thesis
    by (auto simp: oracle_acts_def)
next
  case True
  let ?x = "opened E reason actor budgets agents meta ttl kind hosts"
  from oracle_open_granted [OF assms True refl, of agents meta kind hosts] True show ?thesis
    by (cases "we_iso E (on_expires ?x)") (auto simp: oracle_acts_def shown_def)
qed

lemma oracle_close_acts:
  assumes "oracle_env_ok E" "oworld_ok w"
  shows "\<exists>out w'. oracle_close_window E i actor reason w = (out, w') \<and> oracle_acts E (Or_close i actor reason) w out w'"
proof -
  have f: "dict_get (fail_reply code d) ''ok'' = PBool False" for code d by (simp add: fail_reply_def)
  let ?x = "oseen E w"
  have names: "names_oracle i (olive (we_now E) w) \<longleftrightarrow> on_open ?x \<and> py_strip i = on_id ?x"
    using olive_seen [OF assms(2), of E] by (auto simp: names_oracle_def)
  show ?thesis
  proof (cases "py_strip i \<noteq> [] \<and> on_open ?x \<and> py_strip i = on_id ?x")
    case False
    then have "\<exists>r w'. oracle_close_window E i actor reason w = (Inr r, w') \<and> dict_get r ''ok'' = PBool False
        \<and> w' \<in> {w, onoticed E w}"
      by (cases "py_strip i = []") (auto simp: oracle_close_window_def Let_def oload_refreshed [OF assms] f)
    with False names assms(2) show ?thesis by (auto simp: oracle_acts_def)
  next
    case True
    have "owin_wf ((oshut ?x)\<lparr>on_updated := t\<rparr>)" "\<not> on_open (oshut ?x)" for t
      using oseen_wf [OF assms(2), of E] by (simp_all add: oshut_def owin_wf_def)
    with True names show ?thesis
      by (auto simp: oracle_close_window_def Let_def oload_refreshed [OF assms] osave_bind oevent_bind oracle_acts_def olive_put)
  qed
qed

fun oleft_dict :: "int \<Rightarrow> owin \<Rightarrow> pydict" where
  "oleft_dict now x = (case on_usage x of (c, i, out) \<Rightarrow>
     [(''remaining_calls'', PInt (max 0 (ol_calls (on_limits x) - c))), (''token_left_in'', PInt (max 0 (ol_in (on_limits x) - i))),
      (''token_left_out'', PInt (max 0 (ol_out (on_limits x) - out))), (''ttl_remaining'', PInt (max 0 (on_expires x - now)))])"

declare oleft_dict.simps [simp del]

lemma oleft_win: "oracle_budgets_left (owin_dict x) now = Inr (oleft_dict now x)"
  by (cases "on_usage x") (simp add: oracle_budgets_left_def oleft_dict.simps)

lemma oleft_ttl: "get_int (oleft_dict now x) ''ttl_remaining'' 0 = Inr (max 0 (on_expires x - now))"
  by (auto simp: get_int_def py_or_def oleft_dict.simps split: prod.splits)

definition ocurrent_reply :: "window_env \<Rightarrow> owin \<Rightarrow> pyval \<Rightarrow> pydict" where
  "ocurrent_reply E x at =
     [(''ok'', PBool True), (''open'', PBool (on_open x)), (''window_id'', PStr (if on_open x then on_id x else [])),
      (''remaining_sec'', PInt (if on_open x then max 0 (on_expires x - we_now E) else 0)),
      (''expires_ts'', PInt (on_expires x)), (''expires_at'', at), (''actor'', PStr (on_actor x)),
      (''reason'', PStr (on_reason x)), (''allow_agents'', on_agents x), (''budgets'', PDict (oracle_limits_dict (on_limits x))),
      (''budgets_left'', PDict (oleft_dict (we_now E) x)), (''usage'', PDict (spent_dict (on_usage x))),
      (''meta'', PDict (on_meta x))]"

definition oshown_expiry :: "window_env \<Rightarrow> owin \<Rightarrow> py_error + pyval" where
  "oshown_expiry E x =
     (if on_open x then map_sum id PStr (we_iso E (if on_expires x = 0 then we_now E else on_expires x)) else Inr PNone)"

lemma oshown_seen:
  assumes "oworld_ok w"
  shows "shown E (shows_instant E Or_current (olive (we_now E) w)) = (case oshown_expiry E (oseen E w) of Inl e \<Rightarrow> Some e | Inr _ \<Rightarrow> None)"
    "shown E (shows_instant E (Or_is_open i) (olive (we_now E) w)) = (case oshown_expiry E (oseen E w) of Inl e \<Rightarrow> Some e | Inr _ \<Rightarrow> None)"
    "shown E (shows_instant E Or_list (olive (we_now E) w)) = (case oshown_expiry E (oseen E w) of Inl e \<Rightarrow> Some e | Inr _ \<Rightarrow> None)"
  by (auto simp: shows_instant.simps olive_seen [OF assms] shown_def oshown_expiry_def bare_def split: sum.splits)

lemma ocurrent_ok:
  assumes "oracle_env_ok E" "oworld_ok w"
  shows "oracle_current_window E w = (map_sum id (ocurrent_reply E (oseen E w)) (oshown_expiry E (oseen E w)),
     oput ((oseen E w)\<lparr>on_updated := we_stamp E\<rparr>) (onoticed E w))"
proof -
  let ?x = "oseen E w"
  have e: "get_int (owin_dict ?x) ''expires_ts'' (we_now E) = Inr (if on_expires ?x = 0 then we_now E else on_expires ?x)"
    by (simp add: get_int_def py_or_def)
  show ?thesis
    by (cases "we_iso E (if on_expires ?x = 0 then we_now E else on_expires ?x)")
       (simp_all add: oracle_current_window_def oload_refreshed [OF assms] osave_bind oleft_win oleft_ttl e
         ocurrent_reply_def oshown_expiry_def Let_def)
qed

lemma oput_seen:
  assumes "oworld_ok w"
  shows "oworld_ok (oput ((oseen E w)\<lparr>on_updated := t\<rparr>) w')"
    "olive (we_now E) (oput ((oseen E w)\<lparr>on_updated := t\<rparr>) w') = olive (we_now E) w"
  using oseen_wf [OF assms, of E] oseen_live [of E w] by (auto simp: owin_wf_def olive_put olive_seen [OF assms])

lemma ocurrent_get:
  "dict_get (ocurrent_reply E x at) ''open'' = PBool (on_open x)"
  "get_str (ocurrent_reply E x at) ''window_id'' = (if on_open x then on_id x else [])"
  by (simp_all add: ocurrent_reply_def get_str_def)

lemma oracle_current_acts:
  assumes "oracle_env_ok E" "oworld_ok w"
  shows "\<exists>out w'. oracle_current_window E w = (out, w') \<and> oracle_acts E Or_current w out w'"
  unfolding ocurrent_ok [OF assms] oracle_acts_def oshown_seen [OF assms(2)]
  using oput_seen [OF assms(2)] olive_seen [OF assms(2), of E]
  by (cases "oshown_expiry E (oseen E w)") (auto simp: ocurrent_get)

lemma oracle_is_open_acts:
  assumes "oracle_env_ok E" "oworld_ok w"
  shows "\<exists>out w'. oracle_is_open E i w = (out, w') \<and> oracle_acts E (Or_is_open i) w out w'"
proof (cases "oshown_expiry E (oseen E w)")
  case (Inl e)
  then have "oracle_is_open E i w = (Inl e, oput ((oseen E w)\<lparr>on_updated := we_stamp E\<rparr>) (onoticed E w))"
    by (simp add: oracle_is_open_def Let_def bindS_def ocurrent_ok [OF assms] Inl)
  then show ?thesis using oput_seen [OF assms(2)] Inl by (simp add: oracle_acts_def oshown_seen [OF assms(2)])
next
  case (Inr at)
  let ?x = "oseen E w"
  let ?b = "on_open ?x \<and> \<not> (py_strip i \<noteq> [] \<and> (if on_open ?x then on_id ?x else []) \<noteq> py_strip i)"
  have "\<exists>r. oracle_is_open E i w = (Inr r, oput (?x\<lparr>on_updated := we_stamp E\<rparr>) (onoticed E w)) \<and> dict_get r ''open'' = PBool ?b"
    by (simp add: oracle_is_open_def Let_def bindS_def ocurrent_ok [OF assms] Inr ocurrent_get)
  moreover have "?b \<longleftrightarrow> spec_oracle_answer E (Or_is_open i) (olive (we_now E) w)"
    using olive_seen [OF assms(2), of E] by (auto simp: names_oracle_def)
  ultimately show ?thesis using oput_seen [OF assms(2)] Inr by (auto simp: oracle_acts_def oshown_seen [OF assms(2)])
qed

lemma oracle_list_acts:
  assumes "oracle_env_ok E" "oworld_ok w"
  shows "\<exists>out w'. oracle_list_windows E w = (out, w') \<and> oracle_acts E Or_list w out w'"
proof (cases "oshown_expiry E (oseen E w)")
  case (Inl e)
  then have "oracle_list_windows E w = (Inl e, oput ((oseen E w)\<lparr>on_updated := we_stamp E\<rparr>) (onoticed E w))"
    by (simp add: oracle_list_windows_def bindS_def ocurrent_ok [OF assms] Inl)
  then show ?thesis using oput_seen [OF assms(2)] Inl by (simp add: oracle_acts_def oshown_seen [OF assms(2)])
next
  case (Inr at)
  let ?x = "oseen E w"
  let ?r = "ocurrent_reply E ?x at"
  have g: "get_int ?r ''expires_ts'' 0 = Inr (on_expires ?x)"
    "get_int ?r ''remaining_sec'' 0 = Inr (if on_open ?x then max 0 (on_expires ?x - we_now E) else 0)"
    "as_dict (py_or (dict_get ?r ''budgets'') (PDict [])) = Inr (oracle_limits_dict (on_limits ?x))"
    "get_int (oracle_limits_dict l) ''ttl_sec'' 0 = Inr (ol_ttl l)"
    "dict_arg (dict_get ?r ''budgets'') = Inr (oracle_limits_dict (on_limits ?x))"
    "dict_arg (dict_get ?r ''budgets_left'') = Inr (oleft_dict (we_now E) ?x)"
    "dict_arg (dict_get ?r ''meta'') = Inr (on_meta ?x)" for l
    by (simp_all add: get_int_def py_or_def ocurrent_reply_def oracle_limits_dict_def)
  have "\<exists>r. oracle_list_windows E w = (Inr r, oput (?x\<lparr>on_updated := we_stamp E\<rparr>) (onoticed E w))
      \<and> dict_get r ''count'' = PInt (if on_open ?x then 1 else 0)"
    by (simp add: oracle_list_windows_def bindS_def ocurrent_ok [OF assms] Inr ocurrent_get g liftS_def)
  then show ?thesis using oput_seen [OF assms(2)] olive_seen [OF assms(2), of E] Inr
    unfolding oracle_acts_def oshown_seen [OF assms(2)] by auto
qed

section \<open>Calls\<close>

lemma deny_call_run:
  "\<exists>r. deny_call E sha q i err hit extra w = (Inr r, olog_call (call_row E sha q i err hit) w) \<and> dict_get r ''ok'' = PBool False"
  by (simp add: deny_call_def olog_call_def)

lemma call_acts:
  assumes "oracle_env_ok E" "oworld_ok w"
  shows "\<exists>out w'. authorize_call E sha r w = (out, w') \<and> oracle_acts E (Or_call r) w out w'"
proof -
  let ?x = "oseen E w" and ?wid = "py_strip (cq_window_id r)"
  let ?w = "oput (?x\<lparr>on_updated := we_stamp E\<rparr>) (onoticed E w)"
  obtain c i out where u: "on_usage ?x = (c, i, out)" by (cases "on_usage ?x")
  have wall: "get_int (oracle_limits_dict (on_limits ?x)) ''max_wall_ms_per_call'' 20000 = Inr (ol_wall (on_limits ?x))"
    using oseen_wf [OF assms(2), of E]
    by (auto simp: get_int_def py_or_def oracle_limits_dict_def owin_wf_def limits_wf_def)
  have may: "may_call r (olive (we_now E) w) \<longleftrightarrow>
      on_open ?x \<and> (?wid = [] \<or> ?wid = on_id ?x) \<and> fits r (on_limits ?x) (c, i, out)"
    using olive_seen [OF assms(2), of E] by (auto simp: u)
  show ?thesis
  proof (cases "may_call r (olive (we_now E) w)")
    case False
    then have "\<exists>i err hit extra. authorize_call E sha r w = deny_call E sha r i err hit extra ?w"
      unfolding may authorize_call_def Let_def oload_refreshed [OF assms] osave_bind
      by (auto simp: u wall not_le)
    then obtain j err hit extra where d: "authorize_call E sha r w = deny_call E sha r j err hit extra ?w" by blast
    from deny_call_run [of E sha r j err hit extra ?w] False oput_seen [OF assms(2)] show ?thesis
      unfolding d by (auto simp: oracle_acts_def)
  next
    case True
    with may have m: "on_open ?x" "?wid = [] \<or> ?wid = on_id ?x" "fits r (on_limits ?x) (c, i, out)" by simp_all
    let ?y = "?x\<lparr>on_usage := add_call r (c, i, out)\<rparr>"
    have run: "\<exists>rep. authorize_call E sha r w = (Inr rep, oput (?y\<lparr>on_updated := we_stamp E\<rparr>) (onoticed E w)) \<and> dict_get rep ''ok'' = PBool True"
      using m unfolding authorize_call_def Let_def oload_refreshed [OF assms] osave_bind
      by (auto simp: u wall not_le [symmetric] osave_bind oleft_win)
    have "all_ge 0 (add_call r (c, i, out))" "limits_wf (on_limits ?x)"
      using oseen_wf [OF assms(2), of E] by (simp_all add: u owin_wf_def estimate_tokens_in_def)
    then have "oworld_ok (oput (?y\<lparr>on_updated := we_stamp E\<rparr>) (onoticed E w))" by (simp add: owin_wf_def)
    moreover have "olive (we_now E) (oput (?y\<lparr>on_updated := we_stamp E\<rparr>) (onoticed E w)) = Some ((bare ?x)\<lparr>on_usage := add_call r (c, i, out)\<rparr>)"
      using m(1) oseen_live [of E w] by (simp add: olive_put bare_def)
    ultimately show ?thesis
      using run True olive_seen [OF assms(2), of E] m(1) by (auto simp: oracle_acts_def u bare_def)
  qed
qed

lemma note_acts_oracle:
  assumes "oracle_env_ok E" "oworld_ok w" "op_readable E (Or_note i rec)"
  shows "\<exists>out w'. note_call E i rec w = (out, w') \<and> oracle_acts E (Or_note i rec) w out w'"
proof -
  let ?x = "oseen E w"
  define row where "row = set_default ''tokens_out'' (PInt 0) (set_default ''latency_ms'' (PInt 0) (set_default ''ok'' (PBool False)
                (set_default ''call_id'' (PStr (fresh_call_id E)) (set_default ''window_id'' (PStr (py_strip i))
                (set_default ''ts'' (PInt (we_stamp E)) rec)))))"
  obtain c tin out where u: "on_usage ?x = (c, tin, out)" by (cases "on_usage ?x")
  have ok: "truthy (dict_get row ''ok'') = truthy (dict_get rec ''ok'')"
    by (auto simp: row_def set_default_get set_default_has not_has_key)
  have outs: "get_int row ''tokens_out'' 0 = Inr (out_of rec)"
    using assms(3) by (auto simp: row_def get_int_def set_default_get set_default_has not_has_key py_or_def)
  obtain t where ts: "get_int row ''ts'' (we_stamp E) = Inr t"
    using assms(3) by (cases "has_key rec ''ts''")
      (auto simp: row_def get_int_def set_default_get set_default_has not_has_key py_or_def)
  have names: "names_oracle i (olive (we_now E) w) \<longleftrightarrow> on_open ?x \<and> on_id ?x = py_strip i"
    using olive_seen [OF assms(2), of E] by (auto simp: names_oracle_def)
  define z where "z = (if truthy (dict_get rec ''ok'') \<and> on_open ?x \<and> on_id ?x = py_strip i
      then ?x\<lparr>on_usage := (c, tin, max 0 (out + max 0 (out_of rec)))\<rparr> else ?x)"
  have nn: "max 0 (out + max 0 (out_of rec)) = out + max 0 (out_of rec)"
    using oseen_wf [OF assms(2), of E] by (simp add: owin_wf_def u)
  define v where "v = PDict [(''ts'', PInt t), (''ok'', PBool (truthy (dict_get rec ''ok''))), (''error'', PStr (get_str row ''error'')),
      (''window_id'', PStr (get_str row ''window_id'')), (''policy_hit'', PStr (get_str row ''policy_hit''))]"
  have "\<exists>rep. note_call E i rec w = (Inr rep, olog_call row (oput (z\<lparr>on_last := v, on_updated := we_stamp E\<rparr>) (onoticed E w)))
      \<and> dict_get rep ''ok'' = PBool True"
    unfolding note_call_def Let_def oload_refreshed [OF assms(1,2)] row_def [symmetric]
    by (cases "truthy (dict_get rec ''ok'') \<and> on_open ?x \<and> on_id ?x = py_strip i")
      (auto simp: bindS_def u ok outs ts z_def v_def save_oracle_state_def write_oracle_state_def modifyS_def
        oput_def oleft_win liftS_def olog_call_def)
  then obtain rep where run:
    "note_call E i rec w = (Inr rep, olog_call row (oput (z\<lparr>on_last := v, on_updated := we_stamp E\<rparr>) (onoticed E w)))"
    "dict_get rep ''ok'' = PBool True" by blast
  have zwf: "owin_wf z" using oseen_wf [OF assms(2), of E] by (auto simp: z_def owin_wf_def u)
  have zl: "on_open z = on_open ?x" "on_expires z = on_expires ?x" by (simp_all add: z_def)
  have "bare (z\<lparr>on_last := v, on_updated := we_stamp E\<rparr>) = bare z" by (simp add: bare_def)
  then have "olive (we_now E) (olog_call row (oput (z\<lparr>on_last := v, on_updated := we_stamp E\<rparr>) (onoticed E w)))
      = (if on_open ?x then Some (bare z) else None)"
    using oseen_live [of E w] by (simp add: olive_put zl)
  moreover have "oworld_ok (olog_call row (oput (z\<lparr>on_last := v, on_updated := we_stamp E\<rparr>) (onoticed E w)))"
    using zwf by (simp add: owin_wf_def)
  ultimately show ?thesis
    using run olive_seen [OF assms(2), of E] names by (auto simp: oracle_acts_def z_def u bare_def nn)
qed

lemma oracle_step_acts:
  assumes "oracle_env_ok E" "oworld_ok w" "op_readable E op"
  shows "\<exists>out w'. oracle_step sha E op w = (out, w') \<and> oracle_acts E op w out w'"
proof (cases op)
  case (Or_open reason actor budgets agents meta ttl kind hosts)
  with assms(3) show ?thesis using oracle_open_acts [OF assms(1,2)] by simp
next
  case (Or_note i rec)
  with assms(3) show ?thesis using note_acts_oracle [OF assms(1,2)] by simp
qed (simp_all add: oracle_close_acts [OF assms(1,2)] oracle_current_acts [OF assms(1,2)] oracle_is_open_acts [OF assms(1,2)]
  oracle_list_acts [OF assms(1,2)] call_acts [OF assms(1,2)])

section \<open>Runs\<close>

type_synonym oracle_timed = "window_env \<times> oracle_op"

definition otimed_step :: "(string \<Rightarrow> string) \<Rightarrow> oracle_timed \<Rightarrow> oracle_world \<Rightarrow> oracle_world" where
  "otimed_step sha c w = snd (oracle_step sha (fst c) (snd c) w)"

definition otimed_ok :: "oracle_timed \<Rightarrow> bool" where
  "otimed_ok c = (oracle_env_ok (fst c) \<and> op_readable (fst c) (snd c))"

definition otimed_at :: "oracle_timed \<Rightarrow> int" where
  "otimed_at c = we_now (fst c)"

fun otimed_grants :: "oracle_timed \<Rightarrow> string \<Rightarrow> bool" where
  "otimed_grants (E, Or_open reason actor budgets agents meta ttl kind hosts) i = (oracle_id E = i)"
| "otimed_grants (E, _) i = False"

definition oholder :: "int \<Rightarrow> oracle_world \<Rightarrow> string option" where
  "oholder t w = map_option on_id (olive t w)"

lemma otimed_acts:
  assumes "otimed_ok c" "oworld_ok w"
  shows "oworld_ok (otimed_step sha c w)"
    "olive (otimed_at c) (otimed_step sha c w) = spec_oracle (fst c) (snd c) (olive (otimed_at c) w)"
  using oracle_step_acts [of "fst c" w "snd c" sha] assms
  by (auto simp: otimed_ok_def otimed_step_def otimed_at_def oracle_acts_def)

lemma olive_later: "t \<le> t' \<Longrightarrow> olive t' w = Some x \<Longrightarrow> olive t w = Some x"
  by (auto simp: olive_def split: option.splits if_splits)

lemma spec_oracle_holder:
  "map_option on_id (spec_oracle E op m) = Some i \<Longrightarrow> otimed_grants (E, op) i \<or> map_option on_id m = Some i"
  by (cases op; cases m) (auto split: if_splits)

interpretation oracle_lease: lease otimed_ok otimed_at otimed_grants "otimed_step sha" oworld_ok oholder for sha
proof
  show "oworld_ok (otimed_step sha c w)" if "otimed_ok c" "oworld_ok w" for c w
    using otimed_acts(1) [OF that] .
  show "oholder t w = Some i" if "t \<le> t'" "oholder t' w = Some i" for t t' w i
    using olive_later [OF that(1)] that(2) by (auto simp: oholder_def)
  show "otimed_grants c i \<or> oholder (otimed_at c) w = Some i"
    if "otimed_ok c" "oworld_ok w" "oholder (otimed_at c) (otimed_step sha c w) = Some i" for c w i
  proof -
    from that(3) have "map_option on_id (spec_oracle (fst c) (snd c) (olive (otimed_at c) w)) = Some i"
      by (simp add: oholder_def otimed_acts(2) [OF that(1,2)])
    from spec_oracle_holder [OF this] show ?thesis by (simp only: oholder_def prod.collapse)
  qed
qed

section \<open>Budgets\<close>

definition call_granted :: "string \<Rightarrow> py_error + pydict \<Rightarrow> bool" where
  "call_granted i out = (case out of Inl _ \<Rightarrow> False | Inr r \<Rightarrow> dict_get r ''ok'' = PBool True \<and> dict_get r ''window_id'' = PStr i)"

text \<open>The calls that a run grants under the window \<open>i\<close>, in order.\<close>

fun calls_under :: "(string \<Rightarrow> string) \<Rightarrow> string \<Rightarrow> oracle_timed list \<Rightarrow> oracle_world \<Rightarrow> call_request list" where
  "calls_under sha i [] w = []"
| "calls_under sha i ((E, Or_call r) # cs) w =
     (if call_granted i (fst (authorize_call E sha r w)) then [r] else []) @ calls_under sha i cs (otimed_step sha (E, Or_call r) w)"
| "calls_under sha i (c # cs) w = calls_under sha i cs (otimed_step sha c w)"

definition tokens_in :: "call_request list \<Rightarrow> int" where
  "tokens_in rs = sum_list (map (\<lambda>r. estimate_tokens_in (cq_prompt r)) rs)"

definition calls_room :: "string \<Rightarrow> owin option \<Rightarrow> int" where
  "calls_room i m = (case m of Some x \<Rightarrow> if on_id x = i then max 0 (ol_calls (on_limits x) - fst (on_usage x)) else 0 | None \<Rightarrow> 0)"

definition tokens_room :: "string \<Rightarrow> owin option \<Rightarrow> int" where
  "tokens_room i m = (case m of Some x \<Rightarrow> if on_id x = i then max 0 (ol_in (on_limits x) - fst (snd (on_usage x))) else 0 | None \<Rightarrow> 0)"

lemma call_reply:
  assumes "oracle_env_ok E" "oworld_ok w"
  shows "call_granted i (fst (authorize_call E sha r w)) \<longleftrightarrow>
    may_call r (olive (we_now E) w) \<and> map_option on_id (olive (we_now E) w) = Some i"
proof -
  let ?x = "oseen E w" and ?wid = "py_strip (cq_window_id r)"
  obtain c j out where u: "on_usage ?x = (c, j, out)" by (cases "on_usage ?x")
  have wall: "get_int (oracle_limits_dict (on_limits ?x)) ''max_wall_ms_per_call'' 20000 = Inr (ol_wall (on_limits ?x))"
    using oseen_wf [OF assms(2), of E]
    by (auto simp: get_int_def py_or_def oracle_limits_dict_def owin_wf_def limits_wf_def)
  have deny: "\<not> call_granted i (fst (deny_call E sha r k err hit extra w'))" for k err hit extra w'
    using deny_call_run [of E sha r k err hit extra w'] by (auto simp: call_granted_def)
  have may: "may_call r (olive (we_now E) w) \<longleftrightarrow>
      on_open ?x \<and> (?wid = [] \<or> ?wid = on_id ?x) \<and> fits r (on_limits ?x) (c, j, out)"
    using olive_seen [OF assms(2), of E] by (auto simp: u)
  have ident: "on_open ?x \<Longrightarrow> map_option on_id (olive (we_now E) w) = Some i \<longleftrightarrow> on_id ?x = i"
    using olive_seen [OF assms(2), of E] by simp
  show ?thesis
    unfolding may authorize_call_def Let_def oload_refreshed [OF assms] osave_bind
    using ident
    by (auto simp: u wall osave_bind oleft_win deny not_le) (auto simp: call_granted_def u wall osave_bind oleft_win)
qed

lemma estimate_pos: "1 \<le> estimate_tokens_in p" "0 \<le> estimate_tokens_in p"
  by (simp_all add: estimate_tokens_in_def)

lemma max_drop: "(0 :: int) \<le> e \<Longrightarrow> b + e \<le> l \<Longrightarrow> max 0 (l - b) = l - b"
  by simp

lemma rooms_shrink:
  assumes "\<not> otimed_grants (E, op) i"
  shows "calls_room i (spec_oracle E op m) \<le> calls_room i m" "tokens_room i (spec_oracle E op m) \<le> tokens_room i m"
proof -
  have "calls_room i (spec_oracle E op m) \<le> calls_room i m \<and> tokens_room i (spec_oracle E op m) \<le> tokens_room i m"
  proof (cases m)
    case None
    with assms show ?thesis by (cases op) (auto simp: calls_room_def tokens_room_def)
  next
    case (Some x)
    obtain a b c where "on_usage x = (a, b, c)" by (cases "on_usage x")
    with assms Some show ?thesis
      by (cases op) (auto simp: calls_room_def tokens_room_def max_drop [OF estimate_pos(2)] estimate_pos(2))
  qed
  then show "calls_room i (spec_oracle E op m) \<le> calls_room i m" "tokens_room i (spec_oracle E op m) \<le> tokens_room i m"
    by simp_all
qed

lemma rooms_call:
  assumes "may_call r m" "map_option on_id m = Some i"
  shows "calls_room i (spec_oracle E (Or_call r) m) + 1 = calls_room i m"
    "tokens_room i (spec_oracle E (Or_call r) m) + estimate_tokens_in (cq_prompt r) = tokens_room i m"
proof -
  from assms(2) obtain x where m: "m = Some x" "on_id x = i" by auto
  obtain a b c where u: "on_usage x = (a, b, c)" by (cases "on_usage x")
  show "calls_room i (spec_oracle E (Or_call r) m) + 1 = calls_room i m"
    "tokens_room i (spec_oracle E (Or_call r) m) + estimate_tokens_in (cq_prompt r) = tokens_room i m"
    using assms(1) by (auto simp: m u calls_room_def tokens_room_def max_drop [OF estimate_pos(2)])
qed

lemma rooms_later:
  assumes "t \<le> t'"
  shows "calls_room i (olive t' w) \<le> calls_room i (olive t w)" "tokens_room i (olive t' w) \<le> tokens_room i (olive t w)"
  using olive_later [OF assms, of w] by (cases "olive t' w"; auto simp: calls_room_def tokens_room_def split: option.splits)+

lemma under_room:
  assumes "list_all otimed_ok cs" "oworld_ok w" "sorted (map otimed_at cs)" "\<forall>c \<in> set cs. t \<le> otimed_at c"
    and "\<forall>c \<in> set cs. \<not> otimed_grants c i"
  shows "int (length (calls_under sha i cs w)) \<le> calls_room i (olive t w) \<and> tokens_in (calls_under sha i cs w) \<le> tokens_room i (olive t w)"
  using assms
proof (induction cs arbitrary: w t)
  case Nil
  then show ?case by (auto simp: calls_room_def tokens_room_def tokens_in_def split: option.splits)
next
  case (Cons c cs)
  obtain E op where c: "c = (E, op)" by (cases c)
  let ?w = "otimed_step sha c w" and ?m = "olive (we_now E) w"
  have ok: "otimed_ok c" "\<not> otimed_grants (E, op) i" "oracle_env_ok E" "t \<le> we_now E" and at: "otimed_at c = we_now E"
    using Cons.prems(1,4,5) by (auto simp: c otimed_ok_def otimed_at_def)
  note acts = otimed_acts [OF ok(1) Cons.prems(2), of sha]
  have IH: "int (length (calls_under sha i cs ?w)) \<le> calls_room i (spec_oracle E op ?m)
      \<and> tokens_in (calls_under sha i cs ?w) \<le> tokens_room i (spec_oracle E op ?m)"
    using Cons.IH [of ?w "we_now E"] Cons.prems(1,3,5) acts by (auto simp: c at [unfolded c])
  have later: "calls_room i ?m \<le> calls_room i (olive t w)" "tokens_room i ?m \<le> tokens_room i (olive t w)"
    using rooms_later [OF ok(4)] by blast+
  show ?case
  proof (cases "\<exists>r. op = Or_call r \<and> call_granted i (fst (authorize_call E sha r w))")
    case True
    then obtain r where r: "op = Or_call r" "call_granted i (fst (authorize_call E sha r w))" by blast
    with call_reply [OF ok(3) Cons.prems(2)] have "may_call r ?m" "map_option on_id ?m = Some i" by auto
    from rooms_call [OF this, of E] IH later r show ?thesis by (auto simp: c tokens_in_def)
  next
    case False
    then have "calls_under sha i (c # cs) w = calls_under sha i cs ?w" by (cases op) (auto simp: c)
    with IH later rooms_shrink [OF ok(2), of ?m] show ?thesis by auto
  qed
qed

definition as_call :: "window_env \<times> call_request \<Rightarrow> oracle_timed" where
  "as_call n = (fst n, Or_call (snd n))"

lemma olive_any:
  assumes "olive t w = Some x" "t' < on_expires x"
  shows "olive t' w = Some x"
  using assms by (auto simp: olive_def split: option.splits if_splits)

lemma olive_alive: "olive t w = Some x \<Longrightarrow> t < on_expires x"
  by (auto simp: olive_def split: option.splits if_splits)

lemma calls_all_granted:
  assumes "oworld_ok w" "olive t w = Some x" "on_usage x = (c, i, out)"
    and "\<forall>(E, r) \<in> set ns. oracle_env_ok E \<and> we_now E < on_expires x \<and> (py_strip (cq_window_id r) = [] \<or> py_strip (cq_window_id r) = on_id x)
        \<and> cq_wall_ms r \<le> ol_wall (on_limits x) \<and> out + wanted_tokens r \<le> ol_out (on_limits x)"
    and "c + int (length ns) \<le> ol_calls (on_limits x)" "i + tokens_in (map snd ns) \<le> ol_in (on_limits x)"
  shows "calls_under sha (on_id x) (map as_call ns) w = map snd ns"
  using assms
proof (induction ns arbitrary: w x c i)
  case (Cons n ns)
  obtain E r where n: "n = (E, r)" by (cases n)
  have pos: "0 \<le> tokens_in rs" for rs by (induction rs) (simp_all add: tokens_in_def add_nonneg_nonneg estimate_pos)
  have E: "oracle_env_ok E" "we_now E < on_expires x" using Cons.prems(4) by (auto simp: n)
  let ?w = "otimed_step sha (E, Or_call r) w" and ?x = "x\<lparr>on_usage := add_call r (on_usage x)\<rparr>"
  have now: "olive (we_now E) w = Some x" using olive_any [OF Cons.prems(2) E(2)] .
  have may: "may_call r (Some x)"
    using Cons.prems(4,5,6) pos [of "map snd ns"] by (auto simp: n Cons.prems(3) tokens_in_def)
  have w: "oworld_ok ?w" "olive (we_now E) ?w = Some ?x"
    using otimed_acts [of "(E, Or_call r)" w sha] E(1) Cons.prems(1) may by (auto simp: otimed_ok_def otimed_at_def now)
  have l: "olive t ?w = Some ?x" using olive_any [OF w(2), of t] olive_alive [OF Cons.prems(2)] by simp
  have "call_granted (on_id x) (fst (authorize_call E sha r w))"
    using call_reply [OF E(1) Cons.prems(1)] may by (simp add: now)
  then show ?case
    using Cons.IH [OF w(1) l, of "c + 1" "i + estimate_tokens_in (cq_prompt r)"] Cons.prems(3-6)
    by (simp add: n as_call_def tokens_in_def)
qed simp

section \<open>Properties\<close>

definition oracle_clock :: "int \<Rightarrow> window_env" where
  "oracle_clock t = (sample_clock t)\<lparr>we_getenv := (\<lambda>k. if k = ''ESTER_ORACLE_ENABLE'' then Some ''1'' else None)\<rparr>"

definition no_oracle :: oracle_world where
  "no_oracle = \<lparr>ow_file = None, ow_events = [], ow_calls = []\<rparr>"

definition first_limits :: oracle_limits where
  "first_limits = \<lparr>ol_ttl = 600, ol_calls = 3, ol_in = 8000, ol_out = 2000, ol_wall = 20000\<rparr>"

definition sample_oracle_open :: oracle_op where
  "sample_oracle_open = Or_open ''task'' ''ester'' PNone (PBool False) [] None ''openai'' None"

definition sample_call :: call_request where
  "sample_call = \<lparr>cq_window_id = [], cq_actor = ''ester'', cq_agent_id = [], cq_plan_id = [], cq_step_index = None,
     cq_model = ''m'', cq_prompt = ''hello'', cq_max_tokens = 2000, cq_purpose = [], cq_wall_ms = 20000\<rparr>"

lemma oracle_clock_now [simp]: "we_now (oracle_clock t) = t"
  by (simp add: oracle_clock_def sample_clock_def)

lemma sample_limits: "oracle_default_budgets (oracle_clock t) = Inr first_limits"
proof -
  have "env_int (oracle_clock t) ''ESTER_ORACLE_TTL_SEC'' ''600'' = Inr 600"
    "env_int (oracle_clock t) ''ESTER_ORACLE_MAX_CALLS'' ''3'' = Inr 3"
    "env_int (oracle_clock t) ''ESTER_ORACLE_MAX_TOKENS_IN'' ''8000'' = Inr 8000"
    "env_int (oracle_clock t) ''ESTER_ORACLE_MAX_TOKENS_OUT'' ''2000'' = Inr 2000"
    "env_int (oracle_clock t) ''ESTER_ORACLE_MAX_WALL_MS'' ''20000'' = Inr 20000"
    by (simp_all add: env_int_def oracle_clock_def sample_clock_def parse_int_def py_strip_def strip_by_def is_space_def
        code_point_def is_dec_def Let_def)
  then show ?thesis by (simp add: oracle_default_budgets_def first_limits_def)
qed

lemma oracle_clock_ok [simp]: "oracle_env_ok (oracle_clock t)" "oworld_ok no_oracle" "olive t no_oracle = None"
  by (simp_all add: oracle_env_ok_def sample_limits oworld_ok_def no_oracle_def olive_def ostored_def)

lemma sample_asked: "oracle_normalize_budgets (oracle_clock t) PNone None = Inr first_limits"
  "asked_limits (oracle_clock t) PNone None = first_limits"
  by (simp_all add: asked_limits_def oracle_normalize_budgets_def sample_limits get_int_def py_or_def Let_def)
     (simp_all add: first_limits_def)

lemma sample_may_oracle: "may_open_oracle (oracle_clock t) ''task'' ''ester''"
proof -
  have "env_flag (Some ''1'')" by code_simp
  then show ?thesis using sample_may_open by (simp add: may_open_oracle_def oracle_enabled_def oracle_clock_def)
qed

lemma sample_oracle_id: "oracle_id (oracle_clock t) = ''ow_0123456789ab''"
  by (simp add: oracle_id_def oracle_clock_def sample_clock_def)

text \<open>
  C19: On a state file the module wrote, with budgets, reports and environment variables that \<open>int\<close> can read, every operation on the
  oracle window does to the live window what the specification says: opening needs an actor that is not an agent,
  a reason and the enabling flag; a call is granted only while the window is live, is the one the caller names,
  and the call fits every budget; a report adds its output tokens only to the live window it names.  An operation
  raises exactly when the expiry it shows (of the window just opened, or of the live one) is one that
  \<open>fromtimestamp\<close> does not take; otherwise its reply says whether it was granted.
\<close>

theorem oracle_refines_spec:
  assumes "oracle_env_ok E" and "oworld_ok w" and "op_readable E op" and "oracle_step sha E op w = (out, w')"
  shows "oworld_ok w' \<and> olive (we_now E) w' = spec_oracle E op (olive (we_now E) w)
    \<and> (case shown E (shows_instant E op (olive (we_now E) w)) of Some e \<Rightarrow> out = Inl e
       | None \<Rightarrow> (\<exists>r. out = Inr r \<and> oracle_answer op r = PBool (spec_oracle_answer E op (olive (we_now E) w))))"
  using oracle_step_acts [OF assms(1-3), of sha] assms(4) by (auto simp: oracle_acts_def)

theorem oracle_refines_spec_witness:
  "\<exists>r w'. oracle_step id (oracle_clock 5) sample_oracle_open no_oracle = (Inr r, w') \<and> dict_get r ''ok'' = PBool True
     \<and> oholder 5 w' = Some ''ow_0123456789ab''"
proof -
  obtain out w' where o: "oracle_step id (oracle_clock 5) sample_oracle_open no_oracle = (out, w')" by force
  have "op_readable (oracle_clock 5) sample_oracle_open" by (simp add: sample_oracle_open_def sample_asked)
  moreover have "shown (oracle_clock 5) t = None" for t
    by (simp add: shown_def oracle_clock_def sample_clock_def split: option.splits)
  moreover note oracle_refines_spec [OF oracle_clock_ok(1,2) _ o]
  ultimately show ?thesis
    using o sample_may_oracle by (auto simp: sample_oracle_open_def oholder_def sample_oracle_id split: sum.splits)
qed

text \<open>
  However the operations are interleaved after a window was opened, the calls granted under it never exceed
  the number it was opened with, and the input tokens estimated for them never exceed its input budget, as
  long as the clock does not go back and no later opening draws the same identifier.
\<close>

theorem oracle_budget_kept:
  assumes "oracle_env_ok E" and "oworld_ok w" and "may_open_oracle E reason actor"
    and "oracle_normalize_budgets E budgets ttl = Inr l"
    and "\<forall>c \<in> set cs. oracle_env_ok (fst c) \<and> op_readable (fst c) (snd c)" and "sorted (map otimed_at cs)"
    and "\<forall>c \<in> set cs. we_now E \<le> otimed_at c" and "\<forall>c \<in> set cs. \<not> otimed_grants c (oracle_id E)"
    and "w' = otimed_step sha (E, Or_open reason actor budgets agents meta ttl kind hosts) w"
  shows "int (length (calls_under sha (oracle_id E) cs w')) \<le> ol_calls l \<and> tokens_in (calls_under sha (oracle_id E) cs w') \<le> ol_in l"
proof -
  let ?x = "opened E reason actor budgets agents meta ttl kind hosts"
  have l: "asked_limits E budgets ttl = l" "limits_wf l" by (simp_all add: asked_limits_def assms(4) normalized_wf [OF assms(4)])
  then have "otimed_ok (E, Or_open reason actor budgets agents meta ttl kind hosts)"
    using assms(1,4) by (simp add: otimed_ok_def)
  from otimed_acts [OF this assms(2), of sha] assms(3) have "oworld_ok w'" "olive (we_now E) w' = Some ?x"
    by (simp_all add: assms(9) otimed_at_def)
  moreover have "list_all otimed_ok cs" using assms(5) by (simp add: list_all_iff otimed_ok_def)
  moreover note under_room [of cs w' "we_now E" "oracle_id E" sha]
  ultimately show ?thesis using assms(6-8) l by (simp add: calls_room_def tokens_room_def limits_wf_def)
qed

theorem oracle_budget_kept_witness:
  "length (calls_under id ''ow_0123456789ab'' (replicate 4 (oracle_clock 7, Or_call sample_call))
     (otimed_step id (oracle_clock 5, sample_oracle_open) no_oracle)) \<le> 3"
proof -
  have i: "oracle_id (oracle_clock 5) = ''ow_0123456789ab''" by (rule sample_oracle_id)
  have o: "otimed_step id (oracle_clock 5, sample_oracle_open) no_oracle =
      otimed_step id (oracle_clock 5, Or_open ''task'' ''ester'' PNone (PBool False) [] None ''openai'' None) no_oracle"
    by (simp add: sample_oracle_open_def)
  have s: "sorted (map otimed_at (replicate 4 (oracle_clock 7, Or_call sample_call)))"
    by (simp add: eval_nat_numeral otimed_at_def)
  have "int (length (calls_under id ''ow_0123456789ab'' (replicate 4 (oracle_clock 7, Or_call sample_call))
     (otimed_step id (oracle_clock 5, sample_oracle_open) no_oracle))) \<le> ol_calls first_limits"
    using oracle_budget_kept [OF oracle_clock_ok(1,2) sample_may_oracle sample_asked(1) _ s _ _ o]
    by (simp add: i otimed_at_def)
  then show ?thesis by (simp add: first_limits_def)
qed

text \<open>
  The output budget is checked against the usage already reported, and an authorised call reserves nothing:
  calls that each ask for the whole remaining output budget are all granted when no report comes in between,
  up to the number of calls, so together they may exceed \<open>max_tokens_out_total\<close> by that factor.
\<close>

theorem oracle_output_overshoot:
  assumes "oworld_ok w" and "olive t w = Some x" and "on_usage x = (c, i, out)"
    and "\<forall>(E, r) \<in> set ns. oracle_env_ok E \<and> we_now E < on_expires x \<and> (py_strip (cq_window_id r) = [] \<or> py_strip (cq_window_id r) = on_id x)
        \<and> cq_wall_ms r \<le> ol_wall (on_limits x) \<and> out + wanted_tokens r \<le> ol_out (on_limits x)"
    and "c + int (length ns) \<le> ol_calls (on_limits x)" and "i + tokens_in (map snd ns) \<le> ol_in (on_limits x)"
  shows "calls_under sha (on_id x) (map as_call ns) w = map snd ns"
  by (rule calls_all_granted [OF assms])

theorem oracle_output_overshoot_witness:
  "\<exists>w x. olive 5 w = Some x \<and> ol_out (on_limits x) = 2000
     \<and> calls_under id (on_id x) (map as_call (replicate 3 (oracle_clock 7, sample_call))) w = replicate 3 sample_call
     \<and> sum_list (map wanted_tokens (replicate 3 sample_call)) = 6000"
proof -
  let ?x = "opened (oracle_clock 5) ''task'' ''ester'' PNone (PBool False) [] None ''openai'' None"
  let ?w = "oput ?x no_oracle"
  have lim: "on_limits ?x = first_limits" "on_expires ?x = 605" "on_usage ?x = (0, 0, 0)"
    by (simp_all add: sample_asked) (simp add: opened_def sample_asked first_limits_def)
  have est: "tokens_in (replicate 3 sample_call) = 6" "wanted_tokens sample_call = 2000"
    by (simp_all add: tokens_in_def sample_call_def estimate_tokens_in_def wanted_tokens_def eval_nat_numeral)
  have f: "py_strip (cq_window_id sample_call) = []" "cq_wall_ms sample_call = 20000"
    by (simp_all add: sample_call_def py_strip_def strip_by_def)
  have "oworld_ok ?w" "olive 5 ?w = Some ?x"
    by (simp_all add: owin_wf_def lim olive_put) (simp add: sample_asked first_limits_def limits_wf_def)
  from oracle_output_overshoot [OF this lim(3), of "replicate 3 (oracle_clock 7, sample_call)" id]
  have "calls_under id (on_id ?x) (map as_call (replicate 3 (oracle_clock 7, sample_call))) ?w = replicate 3 sample_call"
    by (simp add: lim est f sample_asked) (simp add: first_limits_def)
  moreover have "sum_list (map wanted_tokens (replicate 3 sample_call)) = 6000" by (simp add: est sum_list_replicate)
  ultimately show ?thesis using \<open>olive 5 ?w = Some ?x\<close> lim
    by (intro exI [of _ ?w] exI [of _ ?x]) (simp add: first_limits_def)
qed

end
