(* ===== verification/RequestLaws.thy ===== *)
theory RequestLaws
  imports OracleRequests OracleLaws
begin

text \<open>
  The log of oracle requests as a map from identifiers to requests, beside the live oracle window.  On a log
  the module wrote, every operation acts on the two as \<open>spec_requests\<close> says.  While openings draw distinct
  identifiers, at most one approved request names the live window.
\<close>

section \<open>The record behind a row of the log\<close>

record request =
  rr_id :: string
  rr_ts :: int
  rr_agent :: string
  rr_plan :: string
  rr_step :: "int option"
  rr_action :: string
  rr_model :: string
  rr_purpose :: string
  rr_hash :: string
  rr_budgets :: pydict
  rr_status :: string
  rr_by :: string
  rr_at :: "int option"
  rr_window :: string
  rr_deny :: string

fun opt_int :: "int option \<Rightarrow> pyval" where
  "opt_int None = PNone"
| "opt_int (Some i) = PInt i"

fun int_opt :: "pyval \<Rightarrow> int option" where
  "int_opt (PInt i) = Some i"
| "int_opt _ = None"

definition request_dict :: "request \<Rightarrow> pydict" where
  "request_dict r =
     [(''request_id'', PStr (rr_id r)), (''ts'', PInt (rr_ts r)), (''agent_id'', PStr (rr_agent r)),
      (''plan_id'', PStr (rr_plan r)), (''step_index'', opt_int (rr_step r)), (''action_id'', PStr (rr_action r)),
      (''model'', PStr (rr_model r)), (''purpose'', PStr (rr_purpose r)), (''prompt_hash'', PStr (rr_hash r)),
      (''budgets_requested'', PDict (rr_budgets r)), (''status'', PStr (rr_status r)), (''approved_by'', PStr (rr_by r)),
      (''approved_ts'', opt_int (rr_at r)), (''window_id'', PStr (rr_window r)), (''deny_reason'', PStr (rr_deny r))]"

definition decode_request :: "pydict \<Rightarrow> request" where
  "decode_request d =
     \<lparr>rr_id = get_str d ''request_id'', rr_ts = int_field (dict_get d ''ts''), rr_agent = get_str d ''agent_id'',
      rr_plan = get_str d ''plan_id'', rr_step = int_opt (dict_get d ''step_index''), rr_action = get_str d ''action_id'',
      rr_model = get_str d ''model'', rr_purpose = get_str d ''purpose'', rr_hash = get_str d ''prompt_hash'',
      rr_budgets = dict_of (dict_get d ''budgets_requested''), rr_status = get_str d ''status'',
      rr_by = get_str d ''approved_by'', rr_at = int_opt (dict_get d ''approved_ts''), rr_window = get_str d ''window_id'',
      rr_deny = get_str d ''deny_reason''\<rparr>"

lemma int_opt_inv [simp]: "int_opt (opt_int v) = v"
  by (cases v) simp_all

lemma request_dict_get [simp]:
  "dict_get (request_dict r) ''request_id'' = PStr (rr_id r)" "dict_get (request_dict r) ''ts'' = PInt (rr_ts r)"
  "dict_get (request_dict r) ''agent_id'' = PStr (rr_agent r)" "dict_get (request_dict r) ''plan_id'' = PStr (rr_plan r)"
  "dict_get (request_dict r) ''step_index'' = opt_int (rr_step r)"
  "dict_get (request_dict r) ''action_id'' = PStr (rr_action r)" "dict_get (request_dict r) ''model'' = PStr (rr_model r)"
  "dict_get (request_dict r) ''purpose'' = PStr (rr_purpose r)" "dict_get (request_dict r) ''prompt_hash'' = PStr (rr_hash r)"
  "dict_get (request_dict r) ''budgets_requested'' = PDict (rr_budgets r)"
  "dict_get (request_dict r) ''status'' = PStr (rr_status r)" "dict_get (request_dict r) ''approved_by'' = PStr (rr_by r)"
  "dict_get (request_dict r) ''approved_ts'' = opt_int (rr_at r)" "dict_get (request_dict r) ''window_id'' = PStr (rr_window r)"
  "dict_get (request_dict r) ''deny_reason'' = PStr (rr_deny r)"
  by (simp_all add: request_dict_def)

lemma request_strs [simp]:
  "get_str (request_dict r) ''request_id'' = rr_id r" "get_str (request_dict r) ''agent_id'' = rr_agent r"
  "get_str (request_dict r) ''plan_id'' = rr_plan r" "get_str (request_dict r) ''action_id'' = rr_action r"
  "get_str (request_dict r) ''model'' = rr_model r" "get_str (request_dict r) ''purpose'' = rr_purpose r"
  "get_str (request_dict r) ''prompt_hash'' = rr_hash r" "get_str (request_dict r) ''status'' = rr_status r"
  "get_str (request_dict r) ''approved_by'' = rr_by r" "get_str (request_dict r) ''window_id'' = rr_window r"
  "get_str (request_dict r) ''deny_reason'' = rr_deny r" "get_int (request_dict r) ''ts'' 0 = Inr (rr_ts r)"
  by (simp_all add: get_str_def get_int_def py_or_def)

lemma request_dict_neq [simp]: "request_dict r \<noteq> []"
  by (simp add: request_dict_def)

lemma decode_request_dict [simp]: "decode_request (request_dict r) = r"
  by (simp add: decode_request_def)

lemma request_dict_inject [simp]: "request_dict r = request_dict r' \<longleftrightarrow> r = r'"
  by (metis decode_request_dict)

lemma decode_comp [simp]: "decode_request \<circ> request_dict = id"
  by (simp add: fun_eq_iff)

abbreviation stripped :: "string \<Rightarrow> bool" where
  "stripped s \<equiv> py_strip s = s"

definition request_wf :: "request \<Rightarrow> bool" where
  "request_wf r = (rr_id r \<noteq> [] \<and> stripped (rr_id r) \<and> 0 < rr_ts r \<and> stripped (rr_agent r) \<and> stripped (rr_plan r)
     \<and> stripped (rr_action r) \<and> stripped (rr_model r) \<and> stripped (rr_purpose r) \<and> stripped (rr_hash r)
     \<and> stripped (rr_window r))"

section \<open>The log as a map\<close>

definition line :: "request \<Rightarrow> jtext" where
  "line r = JVal (PDict (request_dict r))"

definition logged :: "request_world \<Rightarrow> request list" where
  "logged w = map decode_request (rows_lenient (rq_log w))"

definition rworld_ok :: "request_world \<Rightarrow> bool" where
  "rworld_ok w = (rq_log w = map line (logged w) \<and> list_all request_wf (logged w) \<and> oworld_ok (rq_window w))"

definition requests :: "request_world \<Rightarrow> string \<rightharpoonup> request" where
  "requests w = map_of (rev (map (\<lambda>r. (rr_id r, r)) (logged w)))"

lemma rows_lines [simp]: "rows_lenient (map line rs) = map request_dict rs"
  by (induction rs) (simp_all add: line_def)

lemma rows_ok: "rworld_ok w \<Longrightarrow> rows_lenient (rq_log w) = map request_dict (logged w)"
  unfolding rworld_ok_def by (metis rows_lines)

definition typed_latest :: "request list \<Rightarrow> (string \<times> request) list" where
  "typed_latest rs = foldl (\<lambda>m r. AList.update (rr_id r) r m) [] rs"

lemma update_dicts: "AList.update k (f v) (map (\<lambda>(k, v). (k, f v)) m) = map (\<lambda>(k, v). (k, f v)) (AList.update k v m)"
  by (induction m) auto

abbreviation dicts :: "(string \<times> request) list \<Rightarrow> latest_map" where
  "dicts m \<equiv> map (\<lambda>(k, r). (k, request_dict r)) m"

lemma build_typed:
  "list_all request_wf rs \<Longrightarrow> foldl latest_step (dicts m) (map request_dict rs) = dicts (foldl (\<lambda>m r. AList.update (rr_id r) r m) m rs)"
  by (induction rs arbitrary: m) (auto simp: latest_step_def request_wf_def Let_def update_dicts)

lemma latest_ok: "rworld_ok w \<Longrightarrow> latest_of w = dicts (typed_latest (logged w))"
  using build_typed [of "logged w" "[]"] rows_ok [of w]
  by (simp add: latest_of_def build_latest_def typed_latest_def rworld_ok_def)

lemma typed_latest_snoc: "typed_latest (rs @ [r]) = AList.update (rr_id r) r (typed_latest rs)"
  by (simp add: typed_latest_def)

lemma typed_latest_map: "map_of (typed_latest rs) = map_of (rev (map (\<lambda>r. (rr_id r, r)) rs))"
proof (induction rs rule: rev_induct)
  case (snoc r rs)
  then show ?case by (simp add: typed_latest_snoc update_conv')
qed (simp add: typed_latest_def)

lemma typed_latest_distinct: "distinct (map fst (typed_latest rs))"
  by (induction rs rule: rev_induct) (simp_all add: typed_latest_snoc distinct_update, simp add: typed_latest_def)

lemma typed_latest_in: "(k, r) \<in> set (typed_latest rs) \<Longrightarrow> r \<in> set rs \<and> k = rr_id r"
proof -
  assume "(k, r) \<in> set (typed_latest rs)"
  then have "map_of (typed_latest rs) k = Some r" by (simp add: typed_latest_distinct)
  then have "map_of (rev (map (\<lambda>r. (rr_id r, r)) rs)) k = Some r" by (simp add: typed_latest_map)
  from map_of_SomeD [OF this] show ?thesis by auto
qed

lemma requests_typed: "requests w = map_of (typed_latest (logged w))"
  by (simp add: requests_def typed_latest_map)

lemma latest_get: "rworld_ok w \<Longrightarrow> map_of (latest_of w) k = map_option request_dict (requests w k)"
proof -
  have "map_of (dicts m) k = map_option request_dict (map_of m k)" for m by (induction m) auto
  then show "rworld_ok w \<Longrightarrow> ?thesis" by (simp add: latest_ok requests_typed)
qed

lemma requests_in: "requests w k = Some r \<Longrightarrow> r \<in> set (logged w) \<and> rr_id r = k"
  using typed_latest_in [OF map_of_SomeD, of "logged w" k r] by (simp add: requests_typed)

lemma requests_wf: "rworld_ok w \<Longrightarrow> requests w k = Some r \<Longrightarrow> request_wf r \<and> rr_id r = k"
  using requests_in [of w k r] by (auto simp: rworld_ok_def list_all_iff)

definition add_rows :: "request list \<Rightarrow> request_world \<Rightarrow> request_world" where
  "add_rows rs w = w\<lparr>rq_log := rq_log w @ map line rs\<rparr>"

lemma add_rows_simps [simp]:
  "rq_window (add_rows rs w) = rq_window w" "add_rows [] w = w" "add_rows ss (add_rows rs w) = add_rows (rs @ ss) w"
  by (simp_all add: add_rows_def)

lemma logged_add [simp]: "logged (add_rows rs w) = logged w @ rs"
  by (simp add: logged_def add_rows_def rows_lenient_append)

lemma add_rows_ok: "rworld_ok w \<Longrightarrow> list_all request_wf rs \<Longrightarrow> rworld_ok (add_rows rs w)"
  unfolding rworld_ok_def by (simp add: add_rows_def) (simp add: logged_def rows_lenient_append)

lemma requests_add: "requests (add_rows [r] w) = (requests w)(rr_id r \<mapsto> r)"
  by (simp add: requests_def)

lemma state_irrelevant [simp]:
  "logged (w\<lparr>rq_state := v\<rparr>) = logged w" "requests (w\<lparr>rq_state := v\<rparr>) = requests w" "rworld_ok (w\<lparr>rq_state := v\<rparr>) = rworld_ok w"
  "logged (w\<lparr>rq_window := v'\<rparr>) = logged w" "requests (w\<lparr>rq_window := v'\<rparr>) = requests w"
  by (simp_all add: logged_def requests_def rworld_ok_def)

lemma window_ok: "rworld_ok w \<Longrightarrow> oworld_ok v \<Longrightarrow> rworld_ok (w\<lparr>rq_window := v\<rparr>)"
  by (simp add: rworld_ok_def)

section \<open>Expiry\<close>

definition overdue :: "int \<Rightarrow> int \<Rightarrow> request \<Rightarrow> bool" where
  "overdue ttl now r = (rr_status r = ''pending'' \<and> ttl \<le> now - rr_ts r)"

definition expired_request :: "int \<Rightarrow> request \<Rightarrow> request" where
  "expired_request now r = r\<lparr>rr_ts := now, rr_status := ''expired'', rr_by := [], rr_at := None, rr_deny := ''request_ttl_expired''\<rparr>"

definition age :: "int \<Rightarrow> int \<Rightarrow> request \<Rightarrow> request" where
  "age ttl now r = (if overdue ttl now r then expired_request now r else r)"

definition renewed :: "int \<Rightarrow> request \<Rightarrow> string \<Rightarrow> string \<Rightarrow> int option \<Rightarrow> string \<Rightarrow> string \<Rightarrow> request" where
  "renewed ts r status approver at wid reason =
     r\<lparr>rr_ts := ts, rr_status := py_strip status, rr_by := py_strip approver, rr_at := at, rr_window := py_strip wid,
       rr_deny := py_strip reason\<rparr>"

lemma renewed_run:
  assumes "request_wf r"
  shows "renewed_record (rr_id r) ts (request_dict r) status approver at wid reason =
    Inr (request_dict (renewed ts r status approver at wid reason))"
proof -
  have "opt_int at = (case at of None \<Rightarrow> PNone | Some t \<Rightarrow> PInt t)" by (cases at) simp_all
  moreover have "(case opt_int (rr_step r) of PNone \<Rightarrow> Inr PNone | v \<Rightarrow> map_sum id PInt (int_of v)) = Inr (opt_int (rr_step r))"
    by (cases "rr_step r") simp_all
  ultimately show ?thesis
    using assms by (simp add: renewed_record_def request_record_def request_wf_def renewed_def) (simp add: request_dict_def)
qed

lemma renewed_wf: "request_wf r \<Longrightarrow> 0 < ts \<Longrightarrow> request_wf (renewed ts r status approver at wid reason)"
  by (simp add: request_wf_def renewed_def)

lemma expired_strings: "py_strip ''expired'' = ''expired''" "py_strip ''request_ttl_expired'' = ''request_ttl_expired''"
  "py_strip ''approved'' = ''approved''" "py_strip ''denied'' = ''denied''" "py_strip ''pending'' = ''pending''"
  by code_simp+

lemma expired_run:
  assumes "request_wf r"
  shows "renewed_record (rr_id r) now (request_dict r) ''expired'' [] None (rr_window r) ''request_ttl_expired'' =
    Inr (request_dict (expired_request now r))"
  using assms by (simp add: renewed_run renewed_def expired_request_def expired_strings request_wf_def)

lemma expired_wf: "request_wf r \<Longrightarrow> 0 < now \<Longrightarrow> request_wf (expired_request now r)"
  by (simp add: request_wf_def expired_request_def)

lemma expire_run:
  assumes "\<forall>(k, r) \<in> set items. request_wf r \<and> rr_id r = k"
  shows "\<exists>m n. expire_pending ttl now (dicts items) latest n0 w =
    (Inr (m, n), add_rows (map (expired_request now) (filter (overdue ttl now) (map snd items))) w)"
  using assms
proof (induction items arbitrary: latest n0 w)
  case (Cons item items)
  obtain k r where i: "item = (k, r)" by (cases item)
  have r: "request_wf r" "rr_id r = k" "0 < rr_ts r" using Cons.prems by (auto simp: i request_wf_def)
  have e: "renewed_record k now (request_dict r) ''expired'' [] None (rr_window r) ''request_ttl_expired'' =
      Inr (request_dict (expired_request now r))"
    using expired_run [OF r(1)] by (simp add: r(2))
  have a: "append_request_row (request_dict r') w = (Inr (), add_rows [r'] w)" for r' w
    by (simp add: append_request_row_def add_rows_def line_def modifyS_def)
  show ?case
  proof (cases "overdue ttl now r")
    case True
    then have "expire_pending ttl now (dicts (item # items)) latest n0 w =
        expire_pending ttl now (dicts items) (AList.update k (request_dict (expired_request now r)) latest) (n0 + 1)
          (add_rows [expired_request now r] w)"
      using r(3) by (simp add: i overdue_def e bindS_ok [OF a])
    moreover have "\<forall>(k, r) \<in> set items. request_wf r \<and> rr_id r = k" using Cons.prems by simp
    note Cons.IH [OF this, of "AList.update k (request_dict (expired_request now r)) latest" "n0 + 1" "add_rows [expired_request now r] w"]
    ultimately show ?thesis using True by (simp add: i)
  next
    case False
    then have "expire_pending ttl now (dicts (item # items)) latest n0 w = expire_pending ttl now (dicts items) latest n0 w"
      using r(3) by (auto simp: i overdue_def)
    moreover have "\<forall>(k, r) \<in> set items. request_wf r \<and> rr_id r = k" using Cons.prems by simp
    note Cons.IH [OF this, of latest n0 w]
    ultimately show ?thesis using False by (simp add: i)
  qed
qed (simp add: add_rows_def)

text \<open>The world after \<open>expire_requests\<close>, up to the copy of the map that \<open>_save_state\<close> writes.\<close>

definition aged_world :: "int \<Rightarrow> int \<Rightarrow> request_world \<Rightarrow> request_world" where
  "aged_world ttl now w =
     add_rows (map (expired_request now) (filter (overdue ttl now) (map snd (typed_latest (logged w))))) w"

lemma expire_requests_run:
  assumes "rworld_ok w" "t = (case at of None \<Rightarrow> we_now E | Some t \<Rightarrow> t)"
  shows "\<exists>n v. expire_requests E at w =
    (Inr [(''ok'', PBool True), (''expired'', PInt n)], (aged_world (request_ttl E) t w)\<lparr>rq_state := v\<rparr>)"
proof -
  let ?items = "typed_latest (logged w)"
  have "\<forall>(k, r) \<in> set ?items. request_wf r \<and> rr_id r = k"
    using assms(1) typed_latest_in [of _ _ "logged w"] by (fastforce simp: rworld_ok_def list_all_iff)
  from expire_run [OF this, of "request_ttl E" t "dicts ?items" 0 w] obtain m n where
    "expire_pending (request_ttl E) t (dicts ?items) (dicts ?items) 0 w = (Inr (m, n), aged_world (request_ttl E) t w)"
    unfolding aged_world_def by blast
  note run = bindS_ok [where m = "expire_pending (request_ttl E) t (dicts ?items) (dicts ?items) 0", OF this]
  have "x = x\<lparr>rq_state := rq_state x\<rparr>" for x :: request_world by simp
  then have s: "\<exists>v. x = x\<lparr>rq_state := v\<rparr>" for x :: request_world by blast
  show ?thesis
    unfolding expire_requests_def assms(2) [symmetric] Let_def
    by (auto simp: latest_ok [OF assms(1)] run save_requests_def intro: s)
qed

lemma map_of_aged:
  assumes "distinct (map fst m)" "\<forall>(k, r) \<in> set m. rr_id r = k"
  shows "map_of (rev (map (\<lambda>r. (rr_id r, r)) (map (expired_request now) (filter (overdue ttl now) (map snd m))))) k =
    (case map_of m k of None \<Rightarrow> None | Some r \<Rightarrow> if overdue ttl now r then Some (expired_request now r) else None)"
proof -
  let ?m = "map (\<lambda>(k, r). (k, expired_request now r)) (filter (\<lambda>(k, r). overdue ttl now r) m)"
  have i: "rr_id (expired_request now r) = rr_id r" for r by (simp add: expired_request_def)
  have "map (\<lambda>r. (rr_id r, r)) (map (expired_request now) (filter (overdue ttl now) (map snd m))) = ?m"
    using assms(2) by (induction m) (auto simp: i)
  moreover have "map fst ?m = map fst (filter (\<lambda>(k, r). overdue ttl now r) m)" by (simp add: case_prod_beta comp_def)
  then have "distinct (map fst ?m)" using assms(1) by (simp only: distinct_map_filter)
  ultimately have "map_of (rev (map (\<lambda>r. (rr_id r, r)) (map (expired_request now) (filter (overdue ttl now) (map snd m))))) k = map_of ?m k"
    by (simp add: map_of_rev_distinct)
  also have "\<dots> = (case map_of m k of None \<Rightarrow> None | Some r \<Rightarrow> if overdue ttl now r then Some (expired_request now r) else None)"
    using assms(1)
  proof (induction m)
    case (Cons x m)
    have "fst x \<notin> fst ` set m \<Longrightarrow> map_of m (fst x) = None" by (simp add: map_of_eq_None_iff)
    with Cons show ?case by (cases x) (auto split: option.splits)
  qed simp
  finally show ?thesis .
qed

lemma aged_requests: "requests (aged_world ttl now w) k = map_option (age ttl now) (requests w k)"
proof -
  let ?m = "typed_latest (logged w)"
  have "\<forall>(k, r) \<in> set ?m. rr_id r = k" using typed_latest_in [of _ _ "logged w"] by fastforce
  from map_of_aged [OF typed_latest_distinct this, of now ttl k] show ?thesis
    by (auto simp: aged_world_def requests_def map_add_def requests_typed typed_latest_map [symmetric] age_def
        split: option.splits)
qed

lemma aged_ok: "rworld_ok w \<Longrightarrow> 0 < now \<Longrightarrow> rworld_ok (aged_world ttl now w)"
  unfolding aged_world_def
  by (rule add_rows_ok) (use typed_latest_in [of _ _ "logged w"] in \<open>fastforce simp: rworld_ok_def list_all_iff expired_wf\<close>)+

lemma aged_window [simp]: "rq_window (aged_world ttl now w) = rq_window w"
  by (simp add: aged_world_def)

section \<open>The specification\<close>

datatype request_op =
    Rq_submit string string "int option" string string string string pydict
  | Rq_expire "int option"
  | Rq_get string
  | Rq_list string int
  | Rq_approve string string string "int option" pydict bool
  | Rq_deny string string string
  | Rq_validate string string string "int option" string string
  | Rq_summary
  | Rq_window oracle_op

fun request_step :: "(string \<Rightarrow> string) \<Rightarrow> window_env \<Rightarrow> request_op \<Rightarrow> pydict request_action" where
  "request_step sha E (Rq_submit agent plan step action model purpose digest budgets) =
     submit_request E agent plan step action model purpose digest budgets"
| "request_step sha E (Rq_expire at) = expire_requests E at"
| "request_step sha E (Rq_get i) = get_request E i"
| "request_step sha E (Rq_list status limit) = list_requests E status limit"
| "request_step sha E (Rq_approve i actor reason ttl budgets agents) = approve_request E i actor reason ttl budgets agents"
| "request_step sha E (Rq_deny i actor reason) = deny_request E i actor reason"
| "request_step sha E (Rq_validate i agent plan step model wid) = validate_approved_request E i agent plan step model wid"
| "request_step sha E Rq_summary = requests_summary E"
| "request_step sha E (Rq_window op) = in_window (oracle_step sha E op)"

type_synonym request_view = "(string \<rightharpoonup> request) \<times> owin option"

definition view :: "int \<Rightarrow> request_world \<Rightarrow> request_view" where
  "view t w = (requests w, olive t (rq_window w))"

definition aged :: "window_env \<Rightarrow> int \<Rightarrow> (string \<rightharpoonup> request) \<Rightarrow> (string \<rightharpoonup> request)" where
  "aged E now m = (\<lambda>k. map_option (age (request_ttl E) now) (m k))"

definition submitted :: "window_env \<Rightarrow> string \<Rightarrow> string \<Rightarrow> int option \<Rightarrow> string \<Rightarrow> string \<Rightarrow> string \<Rightarrow> string \<Rightarrow> pydict \<Rightarrow> request" where
  "submitted E agent plan step action model purpose digest budgets =
     \<lparr>rr_id = ''orq_'' @ take 12 (we_uuid E), rr_ts = we_stamp E, rr_agent = py_strip agent, rr_plan = py_strip plan,
      rr_step = step, rr_action = py_strip (if action = [] then ''llm.remote.call'' else action), rr_model = py_strip model,
      rr_purpose = py_strip purpose, rr_hash = py_strip digest, rr_budgets = budgets, rr_status = ''pending'', rr_by = [],
      rr_at = None, rr_window = [], rr_deny = []\<rparr>"

definition approval_window :: "window_env \<Rightarrow> string \<Rightarrow> string \<Rightarrow> int option \<Rightarrow> pydict \<Rightarrow> bool \<Rightarrow> request \<Rightarrow> owin" where
  "approval_window E actor reason ttl budgets agents r =
     opened E (approval_reason reason (request_dict r)) actor (PDict (set_opt ''ttl_sec'' ttl budgets)) (PBool agents)
       (approval_meta (rr_id r) (request_dict r)) None ''openai'' None"

definition approvable :: "window_env \<Rightarrow> string \<Rightarrow> string \<Rightarrow> request \<Rightarrow> bool" where
  "approvable E actor reason r =
     (rr_status r = ''pending'' \<and> may_open_oracle E (approval_reason reason (request_dict r)) actor)"

definition approved :: "window_env \<Rightarrow> string \<Rightarrow> request \<Rightarrow> request" where
  "approved E actor r = renewed (we_stamp E) r ''approved'' actor (Some (we_stamp E)) (oracle_id E) []"

definition denied :: "window_env \<Rightarrow> string \<Rightarrow> string \<Rightarrow> request \<Rightarrow> request" where
  "denied E actor reason r =
     renewed (we_stamp E) r ''denied'' actor (Some (we_stamp E)) (rr_window r) (if reason = [] then ''denied_by_ester'' else reason)"

text \<open>The flag says whether the operation raised: an approval that raises has opened its window already.\<close>

fun spec_requests :: "window_env \<Rightarrow> bool \<Rightarrow> request_op \<Rightarrow> request_view \<Rightarrow> request_view" where
  "spec_requests E raised (Rq_submit agent plan step action model purpose digest budgets) (m, x) =
     (let r = submitted E agent plan step action model purpose digest budgets in (m(rr_id r \<mapsto> r), x))"
| "spec_requests E raised (Rq_expire at) (m, x) = (aged E (case at of None \<Rightarrow> we_now E | Some t \<Rightarrow> t) m, x)"
| "spec_requests E raised (Rq_get i) (m, x) = (if py_strip i = [] then m else aged E (we_now E) m, x)"
| "spec_requests E raised (Rq_approve i actor reason ttl budgets agents) (m, x) =
     (if py_strip i = [] \<or> \<not> ester_actor actor then (m, x)
      else let m' = aged E (we_now E) m in case m' (py_strip i) of
        None \<Rightarrow> (m', x)
      | Some r \<Rightarrow> if approvable E actor reason r
                  then (if raised then m' else m'(py_strip i \<mapsto> approved E actor r),
                        Some (approval_window E actor reason ttl budgets agents r))
                  else (m', x))"
| "spec_requests E raised (Rq_deny i actor reason) (m, x) =
     (if py_strip i = [] \<or> \<not> ester_actor actor then (m, x)
      else let m' = aged E (we_now E) m in case m' (py_strip i) of
        None \<Rightarrow> (m', x)
      | Some r \<Rightarrow> (m'(py_strip i \<mapsto> denied E actor reason r), x))"
| "spec_requests E raised (Rq_validate i agent plan step model wid) (m, x) =
     (if py_strip i = [] then m else aged E (we_now E) m, x)"
| "spec_requests E raised (Rq_window op) (m, x) = (m, spec_oracle E op x)"
| "spec_requests E raised op (m, x) = (aged E (we_now E) m, x)"

text \<open>A blank argument of the caller, and a blank plan, model or missing step of the request, match anything.\<close>

definition matches :: "string \<Rightarrow> string \<Rightarrow> int option \<Rightarrow> string \<Rightarrow> string \<Rightarrow> request \<Rightarrow> bool" where
  "matches agent plan step model wid r =
     (rr_status r = ''approved''
      \<and> (py_strip agent = [] \<or> rr_agent r = py_strip agent)
      \<and> (py_strip plan = [] \<or> rr_plan r = [] \<or> rr_plan r = py_strip plan)
      \<and> (step = None \<or> rr_step r = None \<or> rr_step r = step)
      \<and> (py_strip model = [] \<or> rr_model r = [] \<or> rr_model r = py_strip model)
      \<and> (py_strip wid = [] \<or> rr_window r = [] \<or> rr_window r = py_strip wid))"

fun spec_granted :: "window_env \<Rightarrow> request_op \<Rightarrow> request_view \<Rightarrow> bool" where
  "spec_granted E (Rq_get i) (m, x) = (py_strip i \<noteq> [] \<and> m (py_strip i) \<noteq> None)"
| "spec_granted E (Rq_approve i actor reason ttl budgets agents) (m, x) =
     (py_strip i \<noteq> [] \<and> ester_actor actor \<and>
      (case aged E (we_now E) m (py_strip i) of None \<Rightarrow> False | Some r \<Rightarrow> approvable E actor reason r))"
| "spec_granted E (Rq_deny i actor reason) (m, x) = (py_strip i \<noteq> [] \<and> ester_actor actor \<and> m (py_strip i) \<noteq> None)"
| "spec_granted E (Rq_validate i agent plan step model wid) (m, x) =
     (py_strip i \<noteq> [] \<and> (case aged E (we_now E) m (py_strip i) of None \<Rightarrow> False | Some r \<Rightarrow> matches agent plan step model wid r))"
| "spec_granted E (Rq_window op) (m, x) = spec_oracle_answer E op x"
| "spec_granted E op (m, x) = True"

fun request_answer :: "request_op \<Rightarrow> pydict \<Rightarrow> pyval" where
  "request_answer (Rq_window op) r = oracle_answer op r"
| "request_answer op r = dict_get r ''ok''"

fun request_readable :: "window_env \<Rightarrow> request_op \<Rightarrow> bool" where
  "request_readable E (Rq_approve i actor reason ttl budgets agents) =
     (oracle_normalize_budgets E (PDict (set_opt ''ttl_sec'' ttl budgets)) None
        = Inr (asked_limits E (PDict (set_opt ''ttl_sec'' ttl budgets)) None))"
| "request_readable E (Rq_expire (Some t)) = (0 < t)"
| "request_readable E (Rq_window op) = op_readable E op"
| "request_readable E op = True"

definition request_env_ok :: "window_env \<Rightarrow> bool" where
  "request_env_ok E = (oracle_env_ok E \<and> 0 < we_now E \<and> 0 < we_stamp E \<and> list_all (\<lambda>c. \<not> is_space c) (we_uuid E))"

fun request_instant :: "window_env \<Rightarrow> request_op \<Rightarrow> request_view \<Rightarrow> int option" where
  \<comment> \<open>the expiry that the operation shows as a date\<close>
  "request_instant E (Rq_approve i actor reason ttl budgets agents) (m, x) =
     (if py_strip i = [] \<or> \<not> ester_actor actor then None
      else case aged E (we_now E) m (py_strip i) of
        None \<Rightarrow> None
      | Some r \<Rightarrow> if approvable E actor reason r then Some (on_expires (approval_window E actor reason ttl budgets agents r)) else None)"
| "request_instant E (Rq_window op) (m, x) = shows_instant E op x"
| "request_instant E op (m, x) = None"

definition request_acts :: "window_env \<Rightarrow> request_op \<Rightarrow> request_world \<Rightarrow> py_error + pydict \<Rightarrow> request_world \<Rightarrow> bool" where
  "request_acts E op w out w' =
     (rworld_ok w' \<and> view (we_now E) w' = spec_requests E (isl out) op (view (we_now E) w)
      \<and> (case shown E (request_instant E op (view (we_now E) w)) of Some e \<Rightarrow> out = Inl e
         | None \<Rightarrow> (\<exists>r. out = Inr r \<and> request_answer op r = PBool (spec_granted E op (view (we_now E) w)))))"

section \<open>The code refines the specification\<close>

lemma uuid_stripped:
  assumes "request_env_ok E"
  shows "stripped (''orq_'' @ take 12 (we_uuid E))" "stripped (oracle_id E)"
proof -
  have "\<not> is_space c" if "c \<in> set (take 12 (we_uuid E))" for c
    using assms that by (auto simp: request_env_ok_def list_all_iff dest: in_set_takeD)
  moreover have "\<not> is_space (CHR ''o'')" "\<not> is_space (CHR ''r'')" "\<not> is_space (CHR ''q'')" "\<not> is_space (CHR ''_'')" "\<not> is_space (CHR ''w'')"
    by (simp_all add: is_space_def code_point_def)
  ultimately show "stripped (''orq_'' @ take 12 (we_uuid E))" "stripped (oracle_id E)"
    unfolding py_strip_def oracle_id_def by (auto intro!: strip_by_id)
qed

lemma same_view:
  "rq_window w' = rq_window w \<Longrightarrow> view t w' = (requests w', olive t (rq_window w))"
  by (simp add: view_def)

lemma append_request_run:
  "\<exists>v. append_request E (request_dict r) w = (Inr (), (add_rows [r] w)\<lparr>rq_state := v\<rparr>)"
  by (simp add: append_request_def append_request_row_def add_rows_def line_def save_requests_def modifyS_def, rule exI, rule refl)

lemma append_request_bind:
  assumes "append_request E (request_dict r) w = (Inr (), w')"
  shows "bindS (append_request E (request_dict r)) f w = f () w'"
  using assms by (rule bindS_ok)

lemma submit_acts:
  assumes "request_env_ok E" "rworld_ok w"
  shows "\<exists>out w'. submit_request E agent plan step action model purpose digest budgets w = (out, w')
    \<and> request_acts E (Rq_submit agent plan step action model purpose digest budgets) w out w'"
proof -
  let ?r = "submitted E agent plan step action model purpose digest budgets"
  have step: "(case case step of None \<Rightarrow> PNone | Some i \<Rightarrow> PInt i of PNone \<Rightarrow> Inr PNone | v \<Rightarrow> map_sum id PInt (int_of v)) = Inr (opt_int step)"
    by (cases step) simp_all
  have rec: "request_record (''orq_'' @ take 12 (we_uuid E)) (we_stamp E) agent plan (case step of None \<Rightarrow> PNone | Some i \<Rightarrow> PInt i)
      (if action = [] then ''llm.remote.call'' else action) model purpose digest budgets ''pending'' [] None [] [] = Inr (request_dict ?r)"
    unfolding request_record_def step using uuid_stripped [OF assms(1)]
    by (simp add: request_dict_def submitted_def expired_strings)
  obtain v where a: "append_request E (request_dict ?r) w = (Inr (), (add_rows [?r] w)\<lparr>rq_state := v\<rparr>)"
    using append_request_run by blast
  have "request_wf ?r" using assms(1) uuid_stripped [OF assms(1)] by (simp add: request_wf_def submitted_def request_env_ok_def)
  then have "rworld_ok ((add_rows [?r] w)\<lparr>rq_state := v\<rparr>)" using add_rows_ok [OF assms(2), of "[?r]"] by simp
  then show ?thesis
    unfolding submit_request_def Let_def rec
    by (simp add: append_request_bind [OF a] request_acts_def view_def requests_add Let_def)
qed

lemma aged_view:
  assumes "request_env_ok E" "rworld_ok w" "0 < t"
  shows "rworld_ok (aged_world (request_ttl E) t w)" "requests (aged_world (request_ttl E) t w) = aged E t (requests w)"
  using assms aged_ok by (auto simp: fun_eq_iff aged_requests aged_def)

lemma expire_acts:
  assumes "request_env_ok E" "rworld_ok w" "request_readable E (Rq_expire at)"
  shows "\<exists>out w'. expire_requests E at w = (out, w') \<and> request_acts E (Rq_expire at) w out w'"
proof -
  let ?t = "case at of None \<Rightarrow> we_now E | Some t \<Rightarrow> t"
  have t: "0 < ?t" using assms(1,3) by (cases at) (simp_all add: request_env_ok_def)
  from expire_requests_run [OF assms(2) refl, where at = at and E = E] aged_view [OF assms(1,2) t] show ?thesis
    by (auto simp: request_acts_def view_def)
qed

definition now_world :: "window_env \<Rightarrow> request_world \<Rightarrow> request_world" where
  "now_world E w = aged_world (request_ttl E) (we_now E) w"

lemma now_world_view:
  assumes "request_env_ok E" "rworld_ok w"
  shows "rworld_ok (now_world E w)" "requests (now_world E w) = aged E (we_now E) (requests w)"
    "rq_window (now_world E w) = rq_window w"
  using assms aged_view [OF assms] by (simp_all add: now_world_def request_env_ok_def)

lemma refreshed_run:
  assumes "request_env_ok E" "rworld_ok w"
  shows "\<exists>v. refreshed_latest E w = (Inr (dicts (typed_latest (logged (now_world E w)))), (now_world E w)\<lparr>rq_state := v\<rparr>)"
proof -
  obtain n v where "expire_requests E None w =
      (Inr [(''ok'', PBool True), (''expired'', PInt n)], (now_world E w)\<lparr>rq_state := v\<rparr>)"
    using expire_requests_run [OF assms(2) refl, where at = None and E = E] by (auto simp: now_world_def)
  moreover have "rworld_ok ((now_world E w)\<lparr>rq_state := v\<rparr>)" using now_world_view [OF assms] by simp
  ultimately show ?thesis
    by (auto simp: refreshed_latest_def bindS_ok [where m = "expire_requests E None"] latest_ok readS_def)
qed

definition found :: "string \<Rightarrow> request option \<Rightarrow> pydict" where
  "found rid r = (case r of
     None \<Rightarrow> fail_reply ''request_not_found'' [(''request_id'', PStr rid)]
   | Some r \<Rightarrow> [(''ok'', PBool True), (''request_id'', PStr rid), (''request'', PDict (request_dict r))])"

lemma found_simps [simp]:
  "dict_get (found rid None) ''ok'' = PBool False" "dict_get (found rid (Some r)) ''ok'' = PBool True"
  "dict_get (found rid (Some r)) ''request'' = PDict (request_dict r)"
  by (simp_all add: found_def fail_reply_def)

lemma get_run:
  assumes "request_env_ok E" "rworld_ok w" "py_strip i \<noteq> []"
  shows "\<exists>v. get_request E i w =
    (Inr (found (py_strip i) (aged E (we_now E) (requests w) (py_strip i))), (now_world E w)\<lparr>rq_state := v\<rparr>)"
proof -
  let ?m = "typed_latest (logged (now_world E w))"
  obtain v where r: "refreshed_latest E w = (Inr (dicts ?m), (now_world E w)\<lparr>rq_state := v\<rparr>)"
    using refreshed_run [OF assms(1,2)] by blast
  have "map_of (dicts ?m) k = map_option request_dict (aged E (we_now E) (requests w) k)" for k
    using latest_get [OF now_world_view(1) [OF assms(1,2)]] latest_ok [OF now_world_view(1) [OF assms(1,2)]]
    by (simp add: now_world_view(2) [OF assms(1,2)])
  then show ?thesis
    using assms(3)
    by (cases "aged E (we_now E) (requests w) (py_strip i)")
       (auto simp: get_request_def Let_def bindS_ok [where m = "refreshed_latest E", OF r] found_def request_dict_def split: list.splits)
qed

lemma get_acts:
  assumes "request_env_ok E" "rworld_ok w"
  shows "\<exists>out w'. get_request E i w = (out, w') \<and> request_acts E (Rq_get i) w out w'"
proof (cases "py_strip i = []")
  case True
  then show ?thesis using assms(2) by (simp add: get_request_def request_acts_def view_def fail_reply_def)
next
  case False
  from get_run [OF assms False] now_world_view [OF assms] False show ?thesis
    by (cases "requests w (py_strip i)") (auto simp: request_acts_def view_def aged_def)
qed

lemma with_times_run: "with_times (dicts m) = Inr (map (\<lambda>(k, r). (rr_ts r, request_dict r)) m)"
  by (induction m) auto

lemma list_requests_acts:
  assumes "request_env_ok E" "rworld_ok w"
  shows "\<exists>out w'. list_requests E status limit w = (out, w') \<and> request_acts E (Rq_list status limit) w out w'"
proof -
  obtain v where r: "refreshed_latest E w = (Inr (dicts (typed_latest (logged (now_world E w)))), (now_world E w)\<lparr>rq_state := v\<rparr>)"
    using refreshed_run [OF assms] by blast
  show ?thesis
    using now_world_view [OF assms]
    by (simp add: list_requests_def Let_def bindS_ok [where m = "refreshed_latest E", OF r] with_times_run request_acts_def view_def)
qed

lemma summarize_run: "\<exists>m'. summarize now (dicts rs) m = Inr m'"
proof (induction rs arbitrary: m)
  case (Cons x rs)
  obtain k r where x: "x = (k, r)" by (cases x)
  have "\<exists>t. get_int (request_dict r) ''approved_ts'' (rr_ts r) = Inr t"
    by (cases "rr_at r") (simp_all add: get_int_def py_or_def)
  with Cons show ?case by (auto simp: x Let_def)
qed simp

lemma summary_acts:
  assumes "request_env_ok E" "rworld_ok w"
  shows "\<exists>out w'. requests_summary E w = (out, w') \<and> request_acts E Rq_summary w out w'"
proof -
  obtain v where r: "refreshed_latest E w = (Inr (dicts (typed_latest (logged (now_world E w)))), (now_world E w)\<lparr>rq_state := v\<rparr>)"
    using refreshed_run [OF assms] by blast
  obtain m where m: "summarize (we_now E) (dicts (typed_latest (logged (now_world E w))))
      \<lparr>sm_pending = 0, sm_recent = 0, sm_last_id = [], sm_last_ts = 0, sm_approved_id = [], sm_approved_ts = 0\<rparr> = Inr m"
    using summarize_run by blast
  show ?thesis
    using now_world_view [OF assms]
    by (simp add: requests_summary_def bindS_ok [where m = "refreshed_latest E", OF r] m request_acts_def view_def)
qed

lemma aged_wf:
  assumes "request_env_ok E" "rworld_ok w" "aged E (we_now E) (requests w) k = Some r"
  shows "request_wf r" "rr_id r = k"
  using requests_wf [OF now_world_view(1) [OF assms(1,2)], of k r] assms(3) by (simp_all add: now_world_view(2) [OF assms(1,2)])

lemma renew_acts:
  assumes "request_env_ok E" "rworld_ok w" "request_wf r"
    and "r' = renewed (we_stamp E) r status approver at wid reason"
  shows "\<exists>w'. bindS (liftS (renewed_record (rr_id r) (we_stamp E) (request_dict r) status approver at wid reason))
      (\<lambda>row. bindS (append_request E row) (\<lambda>_. f row)) w = f (request_dict r') w'
    \<and> rworld_ok w' \<and> rq_window w' = rq_window w \<and> requests w' = (requests w)(rr_id r \<mapsto> r')"
proof -
  obtain v where a: "append_request E (request_dict r') w = (Inr (), (add_rows [r'] w)\<lparr>rq_state := v\<rparr>)"
    using append_request_run by blast
  have "request_wf r'" using renewed_wf [OF assms(3)] assms(1) by (simp add: assms(4) request_env_ok_def)
  then have "rworld_ok ((add_rows [r'] w)\<lparr>rq_state := v\<rparr>)" using add_rows_ok [OF assms(2), of "[r']"] by simp
  moreover have "rr_id r' = rr_id r" by (simp add: assms(4) renewed_def)
  ultimately show ?thesis
    by (intro exI [of _ "(add_rows [r'] w)\<lparr>rq_state := v\<rparr>"])
       (simp add: renewed_run [OF assms(3)] append_request_bind [OF a] assms(4) [symmetric] requests_add)
qed

lemma deny_acts:
  assumes "request_env_ok E" "rworld_ok w"
  shows "\<exists>out w'. deny_request E i actor reason w = (out, w') \<and> request_acts E (Rq_deny i actor reason) w out w'"
proof (cases "py_strip i = [] \<or> \<not> ester_actor actor")
  case True
  then show ?thesis
    using assms(2) by (auto simp: deny_request_def Let_def request_acts_def view_def fail_reply_def)
next
  case False
  let ?i = "py_strip i"
  have si: "py_strip ?i \<noteq> []" using False by simp
  obtain v where "get_request E ?i w = (Inr (found ?i (aged E (we_now E) (requests w) ?i)), (now_world E w)\<lparr>rq_state := v\<rparr>)"
    using get_run [OF assms si] by auto
  note g = bindS_ok [where m = "get_request E ?i", OF this]
  let ?w = "(now_world E w)\<lparr>rq_state := v\<rparr>"
  have w: "rworld_ok ?w" "requests ?w = aged E (we_now E) (requests w)" "rq_window ?w = rq_window w"
    using now_world_view [OF assms] by simp_all
  have some: "(aged E t m k = None) = (m k = None)" for t m k by (simp add: aged_def)
  show ?thesis
  proof (cases "aged E (we_now E) (requests w) ?i")
    case None
    then show ?thesis
      using False w some [of "we_now E" "requests w" ?i]
      by (simp add: deny_request_def Let_def g request_acts_def view_def)
  next
    case (Some r)
    note r = aged_wf [OF assms Some]
    from renew_acts [OF assms(1) w(1) r(1) refl, of "''denied''" actor "Some (we_stamp E)" "rr_window r"
        "if reason = [] then ''denied_by_ester'' else reason"
        "\<lambda>row. retS [(''ok'', PBool True), (''request_id'', PStr ?i), (''request'', PDict row)]"]
    show ?thesis
      using False Some w some [of "we_now E" "requests w" ?i]
      by (auto simp: deny_request_def Let_def g r(2) request_acts_def view_def denied_def)
  qed
qed

lemma validate_acts:
  assumes "request_env_ok E" "rworld_ok w"
  shows "\<exists>out w'. validate_approved_request E i agent plan step model wid w = (out, w')
    \<and> request_acts E (Rq_validate i agent plan step model wid) w out w'"
proof (cases "py_strip i = []")
  case True
  then have "get_request E i w = (Inr (fail_reply ''request_id_required'' []), w)" by (simp add: get_request_def)
  note g = bindS_ok [where m = "get_request E i", OF this]
  show ?thesis
    using True assms(2) by (simp add: validate_approved_request_def g request_acts_def view_def fail_reply_def)
next
  case False
  obtain v where "get_request E i w =
      (Inr (found (py_strip i) (aged E (we_now E) (requests w) (py_strip i))), (now_world E w)\<lparr>rq_state := v\<rparr>)"
    using get_run [OF assms False] by auto
  note g = bindS_ok [where m = "get_request E i", OF this]
  have w: "rworld_ok ((now_world E w)\<lparr>rq_state := v\<rparr>)"
      "view (we_now E) ((now_world E w)\<lparr>rq_state := v\<rparr>) = (aged E (we_now E) (requests w), olive (we_now E) (rq_window w))"
    using now_world_view [OF assms] by (simp_all add: view_def)
  have fail: "dict_get (fail_reply c d) ''ok'' = PBool False" "dict_get (mismatch h) ''ok'' = PBool False" for c d h
    by (simp_all add: fail_reply_def mismatch_def)
  show ?thesis
  proof (cases "aged E (we_now E) (requests w) (py_strip i)")
    case None
    then show ?thesis using w False by (simp add: validate_approved_request_def g request_acts_def view_def fail)
  next
    case (Some r)
    have s: "stripped (rr_agent r)" "stripped (rr_plan r)" "stripped (rr_model r)" "stripped (rr_window r)"
      using aged_wf [OF assms Some] by (simp_all add: request_wf_def)
    have st: "step_mismatch step (opt_int (rr_step r)) \<longleftrightarrow> \<not> (step = None \<or> rr_step r = None \<or> rr_step r = step)"
      by (cases step; cases "rr_step r") (auto simp: step_mismatch_def)
    have "\<exists>rep. validate_approved_request E i agent plan step model wid w = (Inr rep, (now_world E w)\<lparr>rq_state := v\<rparr>)
        \<and> dict_get rep ''ok'' = PBool (matches agent plan step model wid r)"
      unfolding validate_approved_request_def g
      by (simp add: Some Let_def s st fail matches_def)
    then show ?thesis using w False Some by (auto simp: request_acts_def view_def)
  qed
qed

text \<open>An approval, once the request is found: the opening of a window, and the record written when it is open.\<close>

definition approval_opening :: "window_env \<Rightarrow> string \<Rightarrow> string \<Rightarrow> int option \<Rightarrow> pydict \<Rightarrow> bool \<Rightarrow> request \<Rightarrow> pydict oracle_action" where
  "approval_opening E actor reason ttl budgets agents r =
     oracle_open_window E (approval_reason reason (request_dict r)) actor (PDict (set_opt ''ttl_sec'' ttl budgets)) (PBool agents)
       (approval_meta (rr_id r) (request_dict r)) None ''openai'' None"

definition approval_reply :: "window_env \<Rightarrow> string \<Rightarrow> string \<Rightarrow> pydict \<Rightarrow> pydict \<Rightarrow> pydict" where
  "approval_reply E i wid rep row = [(''ok'', PBool True), (''request_id'', PStr i), (''window_id'', PStr wid),
     (''approved_ts'', PInt (we_stamp E)), (''request'', PDict row), (''window'', PDict rep)]"

definition approve_outcome :: "window_env \<Rightarrow> string \<Rightarrow> request \<Rightarrow> pydict oracle_action \<Rightarrow> pydict request_action" where
  "approve_outcome E actor r opening =
     (if rr_status r \<noteq> ''pending'' then
        retS (fail_reply ''request_not_pending'' [(''request_id'', PStr (rr_id r)), (''status'', PStr (rr_status r))])
      else bindS (in_window opening) (\<lambda>rep.
        if \<not> truthy (dict_get rep ''ok'') then retS (fail_reply ''window_open_failed'' [(''detail'', PDict rep)])
        else bindS (liftS (renewed_record (rr_id r) (we_stamp E) (request_dict r) ''approved'' actor (Some (we_stamp E))
                 (get_str rep ''window_id'') []))
          (\<lambda>row. bindS (append_request E row) (\<lambda>_. retS (approval_reply E (rr_id r) (get_str rep ''window_id'') rep row)))))"

lemma approve_found:
  assumes "request_env_ok E" "rworld_ok w" "py_strip i \<noteq> []" "ester_actor actor"
    and "aged E (we_now E) (requests w) (py_strip i) = Some r"
  shows "\<exists>v. approve_request E i actor reason ttl budgets agents w =
    approve_outcome E actor r (approval_opening E actor reason ttl budgets agents r) ((now_world E w)\<lparr>rq_state := v\<rparr>)"
proof -
  let ?i = "py_strip i"
  have "py_strip ?i \<noteq> []" using assms(3) by simp
  from get_run [OF assms(1,2) this] assms(5) obtain v where
    "get_request E ?i w = (Inr (found ?i (Some r)), (now_world E w)\<lparr>rq_state := v\<rparr>)" by auto
  note g = bindS_ok [where m = "get_request E ?i", OF this]
  have r: "?i = rr_id r" using aged_wf [OF assms(1,2,5)] by simp
  show ?thesis
    using assms(3,4) unfolding approve_request_def Let_def approval_opening_def approve_outcome_def approval_reply_def r
    by (intro exI [of _ v]) (simp add: g [unfolded r] cong: if_cong)
qed

lemma approve_refused:
  assumes "rworld_ok w" "\<not> approvable E actor reason r"
    and "oracle_normalize_budgets E (PDict (set_opt ''ttl_sec'' ttl budgets)) None = Inr (asked_limits E (PDict (set_opt ''ttl_sec'' ttl budgets)) None)"
  shows "\<exists>rep w'. approve_outcome E actor r (approval_opening E actor reason ttl budgets agents r) w = (Inr rep, w')
    \<and> dict_get rep ''ok'' = PBool False \<and> rworld_ok w' \<and> view t w' = view t w"
proof -
  have fail: "dict_get (fail_reply c d) ''ok'' = PBool False" for c d by (simp add: fail_reply_def)
  show ?thesis
  proof (cases "rr_status r = ''pending''")
    case True
    with assms(2) have may: "\<not> may_open_oracle E (approval_reason reason (request_dict r)) actor" by (simp add: approvable_def)
    have "oworld_ok (rq_window w)" using assms(1) by (simp add: rworld_ok_def)
    from oracle_open_denied [OF this assms(3) may, of "PBool agents" "approval_meta (rr_id r) (request_dict r)" "''openai''" None t]
    obtain rep ow where
      o: "approval_opening E actor reason ttl budgets agents r (rq_window w) = (Inr rep, ow)" "dict_get rep ''ok'' = PBool False"
        "oworld_ok ow" "olive t ow = olive t (rq_window w)"
      by (auto simp: approval_opening_def)
    have "in_window (approval_opening E actor reason ttl budgets agents r) w = (Inr rep, w\<lparr>rq_window := ow\<rparr>)"
      using o(1) by (simp add: in_window_def)
    note u = bindS_ok [where m = "in_window (approval_opening E actor reason ttl budgets agents r)", OF this]
    show ?thesis using True o window_ok [OF assms(1) o(3)] by (simp add: approve_outcome_def u fail view_def)
  next
    case False
    then show ?thesis using assms(1) by (simp add: approve_outcome_def fail)
  qed
qed

lemma approve_granted:
  assumes "request_env_ok E" "rworld_ok w" "approvable E actor reason r" "request_wf r"
    and "oracle_normalize_budgets E (PDict (set_opt ''ttl_sec'' ttl budgets)) None = Inr (asked_limits E (PDict (set_opt ''ttl_sec'' ttl budgets)) None)"
    and "x = approval_window E actor reason ttl budgets agents r"
  shows "\<exists>out w'. approve_outcome E actor r (approval_opening E actor reason ttl budgets agents r) w = (out, w')
    \<and> rworld_ok w' \<and> view (we_now E) w' = (if isl out then requests w else (requests w)(rr_id r \<mapsto> approved E actor r), Some x)
    \<and> (case shown E (Some (on_expires x)) of Some e \<Rightarrow> out = Inl e | None \<Rightarrow> (\<exists>rep. out = Inr rep \<and> dict_get rep ''ok'' = PBool True))"
proof -
  let ?open = "approval_opening E actor reason ttl budgets agents r"
  have m: "may_open_oracle E (approval_reason reason (request_dict r)) actor" "rr_status r = ''pending''"
    using assms(3) by (simp_all add: approvable_def)
  have env: "oracle_env_ok E" "oworld_ok (rq_window w)" using assms(1,2) by (simp_all add: request_env_ok_def rworld_ok_def)
  obtain ow l where o: "?open (rq_window w) = (map_sum id (\<lambda>at. [(''ok'', PBool True), (''window_id'', PStr (oracle_id E)),
        (''expires_ts'', PInt (on_expires x)), (''expires_at'', PStr at), (''budgets'', l)]) (we_iso E (on_expires x)), ow)"
      "oworld_ok ow" "olive (we_now E) ow = Some x"
    using oracle_open_granted [OF env assms(5) m(1) assms(6) [unfolded approval_window_def]] by (auto simp: approval_opening_def)
  let ?w = "w\<lparr>rq_window := ow\<rparr>"
  have w: "rworld_ok ?w" using window_ok [OF assms(2) o(2)] .
  have run: "in_window ?open w = (fst (?open (rq_window w)), ?w)" using o(1) by (simp add: in_window_def)
  show ?thesis
  proof (cases "we_iso E (on_expires x)")
    case (Inl e)
    then have "approve_outcome E actor r ?open w = (Inl e, ?w)"
      using run o(1) Inl m(2) by (simp add: approve_outcome_def bindS_def)
    then show ?thesis using w o(3) Inl by (simp add: view_def shown_def)
  next
    case (Inr at)
    let ?rep = "[(''ok'', PBool True), (''window_id'', PStr (oracle_id E)), (''expires_ts'', PInt (on_expires x)),
          (''expires_at'', PStr at), (''budgets'', l)]"
    have "in_window ?open w = (Inr ?rep, ?w)" using run o(1) Inr by simp
    note u = bindS_ok [where m = "in_window ?open", OF this]
    have rep: "truthy (dict_get ?rep ''ok'')" "get_str ?rep ''window_id'' = oracle_id E" by (simp_all add: get_str_def)
    have "rr_id (approved E actor r) = rr_id r" by (simp add: approved_def renewed_def)
    from renew_acts [OF assms(1) w assms(4) refl, of "''approved''" actor "Some (we_stamp E)" "oracle_id E" "[]"
        "\<lambda>row. retS (approval_reply E (rr_id r) (oracle_id E) ?rep row)"]
    obtain w' where "approve_outcome E actor r ?open w = (Inr (approval_reply E (rr_id r) (oracle_id E) ?rep (request_dict (approved E actor r))), w')"
      "rworld_ok w'" "rq_window w' = ow" "requests w' = (requests w)(rr_id r \<mapsto> approved E actor r)"
      using m(2) rep by (auto simp: approve_outcome_def u approved_def simp del: dict_get_Cons)
    then show ?thesis using o(3) Inr by (simp add: view_def approval_reply_def shown_def)
  qed
qed

lemma approve_acts:
  assumes "request_env_ok E" "rworld_ok w" "request_readable E (Rq_approve i actor reason ttl budgets agents)"
  shows "\<exists>out w'. approve_request E i actor reason ttl budgets agents w = (out, w')
    \<and> request_acts E (Rq_approve i actor reason ttl budgets agents) w out w'"
proof (cases "py_strip i = [] \<or> \<not> ester_actor actor")
  case True
  then show ?thesis
    using assms(2) by (auto simp: approve_request_def Let_def request_acts_def view_def fail_reply_def)
next
  case asked: False
  let ?i = "py_strip i"
  note w = now_world_view [OF assms(1,2)]
  show ?thesis
  proof (cases "aged E (we_now E) (requests w) ?i")
    case None
    have "py_strip ?i \<noteq> []" using asked by simp
    from get_run [OF assms(1,2) this] None obtain v where
      "get_request E ?i w = (Inr (found ?i None), (now_world E w)\<lparr>rq_state := v\<rparr>)" by auto
    note g = bindS_ok [where m = "get_request E ?i", OF this]
    show ?thesis using asked w None by (simp add: approve_request_def Let_def g request_acts_def view_def)
  next
    case (Some r)
    note r = aged_wf [OF assms(1,2) Some]
    obtain v where v: "approve_request E i actor reason ttl budgets agents w =
        approve_outcome E actor r (approval_opening E actor reason ttl budgets agents r) ((now_world E w)\<lparr>rq_state := v\<rparr>)"
      using approve_found [OF assms(1,2) _ _ Some] asked by blast
    let ?w = "(now_world E w)\<lparr>rq_state := v\<rparr>"
    have ok: "rworld_ok ?w" "view (we_now E) ?w = (aged E (we_now E) (requests w), olive (we_now E) (rq_window w))"
      using w by (simp_all add: view_def)
    show ?thesis
    proof (cases "approvable E actor reason r")
      case False
      from approve_refused [OF ok(1) this, of ttl budgets agents "we_now E"] assms(3) ok(2) asked Some False v show ?thesis
        by (auto simp: request_acts_def view_def)
    next
      case True
      from approve_granted [OF assms(1) ok(1) True r(1) _ refl, of ttl budgets agents] assms(3) v obtain out w' where
        "approve_request E i actor reason ttl budgets agents w = (out, w')" "rworld_ok w'"
        "view (we_now E) w' = (if isl out then requests ?w else (requests ?w)(rr_id r \<mapsto> approved E actor r),
          Some (approval_window E actor reason ttl budgets agents r))"
        "case shown E (Some (on_expires (approval_window E actor reason ttl budgets agents r))) of Some e \<Rightarrow> out = Inl e
         | None \<Rightarrow> (\<exists>rep. out = Inr rep \<and> dict_get rep ''ok'' = PBool True)"
        by auto
      then show ?thesis
        using ok(2) asked Some True r(2)
        by (cases "shown E (Some (on_expires (approval_window E actor reason ttl budgets agents r)))")
           (auto simp: request_acts_def view_def Let_def)
    qed
  qed
qed

lemma window_acts:
  assumes "request_env_ok E" "rworld_ok w" "request_readable E (Rq_window op)"
  shows "\<exists>out w'. in_window (oracle_step sha E op) w = (out, w') \<and> request_acts E (Rq_window op) w out w'"
proof -
  have "oracle_env_ok E" "oworld_ok (rq_window w)" "op_readable E op"
    using assms by (simp_all add: request_env_ok_def rworld_ok_def)
  from oracle_step_acts [OF this, of sha] obtain out ow where
    o: "oracle_step sha E op (rq_window w) = (out, ow)" "oracle_acts E op (rq_window w) out ow" by blast
  then show ?thesis
    using window_ok [OF assms(2), of ow]
    by (cases out) (auto simp: in_window_def request_acts_def oracle_acts_def view_def split: option.splits)
qed

lemma request_step_acts:
  assumes "request_env_ok E" "rworld_ok w" "request_readable E op"
  shows "\<exists>out w'. request_step sha E op w = (out, w') \<and> request_acts E op w out w'"
proof (cases op)
  case (Rq_approve i actor reason ttl budgets agents)
  with assms(3) show ?thesis using approve_acts [OF assms(1,2)] by simp
next
  case (Rq_window op')
  with assms(3) show ?thesis using window_acts [OF assms(1,2)] by simp
next
  case (Rq_expire at)
  with assms(3) show ?thesis using expire_acts [OF assms(1,2)] by simp
qed (simp_all add: submit_acts [OF assms(1,2)] get_acts [OF assms(1,2)] list_requests_acts [OF assms(1,2)] deny_acts [OF assms(1,2)]
  validate_acts [OF assms(1,2)] summary_acts [OF assms(1,2)])

section \<open>Approvals and the windows they open\<close>

text \<open>The approved requests name windows of the set \<open>S\<close>, and the live one was opened for the one request that names it.\<close>

definition bound :: "string set \<Rightarrow> request_view \<Rightarrow> bool" where
  "bound S v = (case v of (m, x) \<Rightarrow>
     (\<forall>k r. m k = Some r \<longrightarrow> rr_id r = k) \<and> (\<forall>k r. m k = Some r \<and> rr_status r = ''approved'' \<longrightarrow> rr_window r \<in> S)
     \<and> (\<forall>k r y. m k = Some r \<and> rr_status r = ''approved'' \<and> x = Some y \<and> on_id y = rr_window r
          \<longrightarrow> dict_get (on_meta y) ''approved_request_ids'' = PList [PStr k]))"

fun draws :: "window_env \<times> request_op \<Rightarrow> string list" where
  "draws (E, Rq_approve i actor reason ttl budgets agents) = [oracle_id E]"
| "draws (E, Rq_window (Or_open reason actor budgets agents meta ttl kind hosts)) = [oracle_id E]"
| "draws (E, _) = []"

lemma age_simps:
  "rr_id (age ttl now r) = rr_id r" "rr_status (age ttl now r) = ''approved'' \<longleftrightarrow> rr_status r = ''approved''"
  "rr_window (age ttl now r) = rr_window r"
  by (auto simp: age_def expired_request_def overdue_def)

lemma bound_aged: "bound S (m, x) \<Longrightarrow> bound S (aged E t m, x)"
  unfolding bound_def aged_def by (auto simp: age_simps)

lemma bound_mono: "bound S v \<Longrightarrow> S \<subseteq> S' \<Longrightarrow> bound S' v"
  by (auto simp: bound_def)

lemma bound_put: "bound S (m, x) \<Longrightarrow> rr_id r = k \<Longrightarrow> rr_status r \<noteq> ''approved'' \<Longrightarrow> bound S (m(k \<mapsto> r), x)"
  by (auto simp: bound_def)

lemma bound_fresh: "bound S (m, x) \<Longrightarrow> on_id y \<notin> S \<Longrightarrow> bound S (m, Some y)"
  by (auto simp: bound_def)

lemma bound_window:
  "bound S (m, x) \<Longrightarrow> (\<And>y'. y = Some y' \<Longrightarrow> \<exists>x'. x = Some x' \<and> on_id x' = on_id y' \<and> on_meta x' = on_meta y') \<Longrightarrow> bound S (m, y)"
  by (fastforce simp: bound_def)

lemma approval_window_meta:
  "dict_get (on_meta (approval_window E actor reason ttl budgets agents r)) ''approved_request_ids'' = PList [PStr (rr_id r)]"
  by (simp add: approval_window_def opened_def Let_def oracle_meta_def set_default_get approval_meta_def)

lemma bound_approve:
  assumes "bound S (m, x)" "oracle_id E \<notin> S" "stripped (oracle_id E)" "rr_id r = k"
    and "y = approval_window E actor reason ttl budgets agents r"
  shows "bound (insert (oracle_id E) S) (m(k \<mapsto> approved E actor r), Some y)"
proof -
  have r: "rr_id (approved E actor r) = k" "rr_window (approved E actor r) = oracle_id E"
    using assms(3,4) by (simp_all add: approved_def renewed_def)
  have y: "on_id y = oracle_id E" "dict_get (on_meta y) ''approved_request_ids'' = PList [PStr k]"
    by (simp_all add: assms(5) approval_window_meta assms(4)) (simp add: approval_window_def)
  show ?thesis using assms(1,2) r y by (auto simp: bound_def)
qed

lemma spec_bound:
  assumes "bound S v" "set (draws (E, op)) \<inter> S = {}" "request_env_ok E"
  shows "bound (S \<union> set (draws (E, op))) (spec_requests E raised op v)"
proof -
  obtain m x where v: "v = (m, x)" by (cases v)
  have b: "bound S (m, x)" "bound S (aged E t m, x)" for t using assms(1) bound_aged by (auto simp: v)
  have status: "rr_id (denied E actor reason r) = rr_id r" "rr_status (denied E actor reason r) \<noteq> ''approved''" for actor reason r
    by (simp_all add: denied_def renewed_def expired_strings)
  have ids: "aged E t m k = Some r \<Longrightarrow> rr_id r = k" for t k r using b(2) [of t] by (simp add: bound_def)
  show ?thesis
  proof (cases op)
    case (Rq_submit agent plan step action model purpose digest budgets)
    then show ?thesis
      using bound_put [OF b(1) refl, of "submitted E agent plan step action model purpose digest budgets"]
      by (simp add: v submitted_def Let_def)
  next
    case (Rq_approve i actor reason ttl budgets agents)
    have n: "oracle_id E \<notin> S" using assms(2) by (simp add: Rq_approve)
    have big: "bound (insert (oracle_id E) S) (m, x)" "bound (insert (oracle_id E) S) (aged E t m, x)" for t
      using b bound_mono by blast+
    have "bound (insert (oracle_id E) S) (aged E t m, Some (approval_window E actor reason ttl budgets agents r))" for t r
      by (rule bound_mono [OF bound_fresh [OF b(2)]]) (use n in \<open>auto simp: approval_window_def\<close>)
    then show ?thesis
      using big bound_approve [OF b(2) n uuid_stripped(2) [OF assms(3)] ids refl]
      by (auto simp: Rq_approve v Let_def split: option.splits)
  next
    case (Rq_deny i actor reason)
    then show ?thesis
      using b bound_put [OF b(2)] ids status by (auto simp: v Let_def split: option.splits)
  next
    case (Rq_window op')
    show ?thesis
    proof (cases "\<exists>reason actor budgets agents meta ttl kind hosts. op' = Or_open reason actor budgets agents meta ttl kind hosts")
      case True
      then obtain reason actor budgets agents meta ttl kind hosts where "op' = Or_open reason actor budgets agents meta ttl kind hosts"
        by blast
      moreover from this have n: "oracle_id E \<notin> S" using assms(2) by (simp add: Rq_window)
      moreover have "bound (insert (oracle_id E) S) (m, Some (opened E reason actor budgets agents meta ttl kind hosts))"
        by (rule bound_mono [OF bound_fresh [OF b(1)]]) (use n in auto)
      ultimately show ?thesis using bound_mono [OF b(1), of "insert (oracle_id E) S"] by (auto simp: Rq_window v)
    next
      case False
      then have "draws (E, op) = []" by (cases op') (auto simp: Rq_window)
      moreover have "bound S (m, spec_oracle E op' x)"
        by (rule bound_window [OF b(1)]) (use False in \<open>cases op'; cases x; auto split: if_splits\<close>)
      ultimately show ?thesis by (simp add: Rq_window v)
    qed
  qed (use b in \<open>auto simp: v\<close>)
qed

section \<open>Runs\<close>

type_synonym request_timed = "window_env \<times> request_op"

definition rtimed_step :: "(string \<Rightarrow> string) \<Rightarrow> request_timed \<Rightarrow> request_world \<Rightarrow> request_world" where
  "rtimed_step sha c w = snd (request_step sha (fst c) (snd c) w)"

definition rtimed_ok :: "request_timed \<Rightarrow> bool" where
  "rtimed_ok c = (request_env_ok (fst c) \<and> request_readable (fst c) (snd c))"

definition rtimed_at :: "request_timed \<Rightarrow> int" where
  "rtimed_at c = we_now (fst c)"

lemma rtimed_acts:
  assumes "rtimed_ok c" "rworld_ok w"
  shows "rworld_ok (rtimed_step sha c w)"
    "\<exists>raised. view (rtimed_at c) (rtimed_step sha c w) = spec_requests (fst c) raised (snd c) (view (rtimed_at c) w)"
  using request_step_acts [of "fst c" w "snd c" sha] assms
  by (auto simp: rtimed_ok_def rtimed_step_def rtimed_at_def request_acts_def)

lemma view_later:
  assumes "bound S (view t w)" "t \<le> t'"
  shows "bound S (view t' w)"
proof -
  have "\<exists>x'. olive t (rq_window w) = Some x' \<and> on_id x' = on_id y \<and> on_meta x' = on_meta y"
    if "olive t' (rq_window w) = Some y" for y
    using olive_later [OF assms(2) that] by blast
  then show ?thesis using assms(1) bound_window unfolding view_def by blast
qed

lemma run_bound:
  assumes "list_all rtimed_ok cs" "rworld_ok w" "bound S (view t w)" "sorted (map rtimed_at cs)"
    and "\<forall>c \<in> set cs. t \<le> rtimed_at c \<and> rtimed_at c \<le> t'" "t \<le> t'"
    and "distinct (concat (map draws cs))" "set (concat (map draws cs)) \<inter> S = {}"
  shows "rworld_ok (fold (rtimed_step sha) cs w) \<and> bound (S \<union> set (concat (map draws cs))) (view t' (fold (rtimed_step sha) cs w))"
  using assms
proof (induction cs arbitrary: w S t)
  case Nil
  then show ?case using view_later by simp
next
  case (Cons c cs)
  let ?w = "rtimed_step sha c w" and ?S = "S \<union> set (draws c)"
  have ok: "rtimed_ok c" "t \<le> rtimed_at c" "rtimed_at c \<le> t'" using Cons.prems by auto
  from rtimed_acts [OF ok(1) Cons.prems(2), of sha] obtain raised where
    w: "rworld_ok ?w" "view (rtimed_at c) ?w = spec_requests (fst c) raised (snd c) (view (rtimed_at c) w)" by blast
  have "bound ?S (view (rtimed_at c) ?w)"
    using spec_bound [OF view_later [OF Cons.prems(3) ok(2)], of "fst c" "snd c" raised] Cons.prems(8) ok(1) w(2)
    by (auto simp: rtimed_ok_def)
  note IH = Cons.IH [OF _ w(1) this]
  have "set (concat (map draws cs)) \<inter> ?S = {}" using Cons.prems(7,8) by auto
  moreover have "\<forall>d \<in> set cs. rtimed_at c \<le> rtimed_at d \<and> rtimed_at d \<le> t'" using Cons.prems(4,5) by simp
  ultimately show ?case using IH Cons.prems(1,4,7) ok(3) by (simp add: Un_assoc)
qed

lemma no_requests_bound: "rworld_ok w \<Longrightarrow> requests w = Map.empty \<Longrightarrow> bound {} (view t w)"
  by (simp add: bound_def view_def)

text \<open>What a successful validation says of the log.\<close>

lemma validated:
  assumes "request_env_ok E" "rworld_ok w"
    and "validate_approved_request E i agent plan step model wid w = (Inr rep, w')" "dict_get rep ''ok'' = PBool True"
  obtains r where "requests w (py_strip i) = Some r" "matches agent plan step model wid r" "py_strip i \<noteq> []"
proof -
  have "spec_granted E (Rq_validate i agent plan step model wid) (view (we_now E) w)"
    using validate_acts [OF assms(1,2), of i agent plan step model wid] assms(3,4)
    by (cases "view (we_now E) w") (auto simp: request_acts_def)
  then obtain r where r: "requests w (py_strip i) = Some r" "matches agent plan step model wid (age (request_ttl E) (we_now E) r)"
      "py_strip i \<noteq> []"
    by (auto simp: view_def aged_def split: option.splits)
  then have "rr_status r = ''approved''" by (simp add: matches_def age_simps)
  then have "age (request_ttl E) (we_now E) r = r" by (simp add: age_def overdue_def)
  with r that show thesis by simp
qed

lemma bound_validated:
  assumes "bound S (m, Some x)" "m k = Some r" "matches agent plan step model wid r" "py_strip wid = on_id x" "on_id x \<noteq> []" "[] \<notin> S"
  shows "dict_get (on_meta x) ''approved_request_ids'' = PList [PStr k]"
proof -
  have s: "rr_status r = ''approved''" using assms(3) by (simp add: matches_def)
  then have "rr_window r \<in> S" using assms(1,2) by (simp add: bound_def)
  then have "rr_window r \<noteq> []" using assms(6) by metis
  then have "on_id x = rr_window r" using assms(3-5) by (auto simp: matches_def)
  with assms(1,2) s show ?thesis unfolding bound_def by blast
qed

section \<open>A run\<close>

definition sample_submit :: request_op where
  "sample_submit = Rq_submit ''a'' ''p'' (Some 1) [] ''m'' ''task'' ''h'' []"

definition sample_approve :: request_op where
  "sample_approve = Rq_approve ''orq_0123456789ab'' ''ester'' [] None [] True"

definition no_world :: request_world where
  "no_world = \<lparr>rq_log = [], rq_state = None, rq_window = no_oracle\<rparr>"

definition sample_rid :: string where
  "sample_rid = ''orq_0123456789ab''"

lemma sample_request_env: "0 < t \<Longrightarrow> request_env_ok (oracle_clock t)"
  by (simp add: request_env_ok_def) (simp add: oracle_clock_def sample_clock_def is_space_def code_point_def)

lemma sample_no_world: "rworld_ok no_world" "requests no_world = Map.empty" "view t no_world = (Map.empty, None)"
  by (simp_all add: no_world_def rworld_ok_def logged_def requests_def view_def)

lemma ttl_pos: "60 \<le> request_ttl E"
  by (simp add: request_ttl_def split: sum.splits)

lemma sample_shown [simp]: "shown (oracle_clock t) i = None"
  by (simp add: shown_def oracle_clock_def sample_clock_def split: option.splits)

lemma sample_submitted:
  "\<exists>w rep. request_step sha (oracle_clock 5) sample_submit no_world = (Inr rep, w) \<and> rworld_ok w \<and> olive 5 (rq_window w) = None
    \<and> requests w = [sample_rid \<mapsto> submitted (oracle_clock 5) ''a'' ''p'' (Some 1) [] ''m'' ''task'' ''h'' []]"
proof -
  have "request_readable (oracle_clock 5) sample_submit" by (simp add: sample_submit_def)
  from request_step_acts [OF sample_request_env sample_no_world(1) this, of sha] obtain out w where
    o: "request_step sha (oracle_clock 5) sample_submit no_world = (out, w)" "request_acts (oracle_clock 5) sample_submit no_world out w"
    by auto
  then obtain rep where "out = Inr rep" by (auto simp: request_acts_def sample_submit_def view_def)
  moreover have "rr_id (submitted (oracle_clock 5) ''a'' ''p'' (Some 1) [] ''m'' ''task'' ''h'' []) = sample_rid"
    by (simp add: submitted_def sample_rid_def) (simp add: oracle_clock_def sample_clock_def)
  ultimately show ?thesis
    using o by (auto simp: request_acts_def view_def sample_submit_def Let_def sample_no_world(2)) (simp add: no_world_def)
qed

lemma sample_approved:
  "\<exists>w rep x r. rtimed_step sha (oracle_clock 5, sample_approve) (rtimed_step sha (oracle_clock 5, sample_submit) no_world) = w
    \<and> request_step sha (oracle_clock 5) sample_approve (rtimed_step sha (oracle_clock 5, sample_submit) no_world) = (Inr rep, w)
    \<and> dict_get rep ''ok'' = PBool True
    \<and> rworld_ok w \<and> olive 5 (rq_window w) = Some x \<and> on_id x = ''ow_0123456789ab'' \<and> on_expires x = 605
    \<and> requests w = [sample_rid \<mapsto> r] \<and> matches [] [] None [] ''ow_0123456789ab'' r"
proof -
  let ?E = "oracle_clock 5" and ?r = "submitted (oracle_clock 5) ''a'' ''p'' (Some 1) [] ''m'' ''task'' ''h'' []"
  obtain w rep0 where w: "request_step sha ?E sample_submit no_world = (Inr rep0, w)" "rworld_ok w" "olive 5 (rq_window w) = None"
      "requests w = [sample_rid \<mapsto> ?r]"
    using sample_submitted by blast
  have b: "oracle_normalize_budgets ?E (PDict []) None = Inr first_limits" "asked_limits ?E (PDict []) None = first_limits"
    by (simp_all add: asked_limits_def oracle_normalize_budgets_def sample_limits get_int_def py_or_def Let_def)
       (simp_all add: first_limits_def)
  then have "request_readable ?E sample_approve" by (simp add: sample_approve_def)
  from request_step_acts [OF sample_request_env w(2) this, of sha] obtain out w' where
    o: "request_step sha ?E sample_approve w = (out, w')" "request_acts ?E sample_approve w out w'" by auto
  then obtain rep where rep: "out = Inr rep" by (auto simp: request_acts_def)
  have s: "py_strip sample_rid = sample_rid" "sample_rid \<noteq> []" "ester_actor ''ester''" "py_strip ''task'' = ''task''"
    unfolding sample_rid_def by code_simp+
  have "we_stamp ?E = 5" by (simp add: oracle_clock_def sample_clock_def)
  with ttl_pos [of ?E] have "age (request_ttl ?E) 5 ?r = ?r" by (simp add: age_def overdue_def submitted_def)
  then have aged: "aged ?E 5 [sample_rid \<mapsto> ?r] = [sample_rid \<mapsto> ?r]" by (auto simp: aged_def fun_eq_iff)
  have may: "approvable ?E ''ester'' [] ?r"
    using sample_may_oracle [of 5] s(4)
    by (simp add: approvable_def approval_reason_def py_or_def) (simp add: submitted_def)
  have op: "sample_approve = Rq_approve sample_rid ''ester'' [] None [] True" by (simp add: sample_approve_def sample_rid_def)
  let ?x = "approval_window ?E ''ester'' [] None [] True ?r" and ?a = "approved ?E ''ester'' ?r"
  have v: "rworld_ok w'" "requests w' = [sample_rid \<mapsto> ?a]" "olive 5 (rq_window w') = Some ?x" "dict_get rep ''ok'' = PBool True"
    using o(2) rep w s aged may by (simp_all add: request_acts_def view_def op Let_def)
  have "on_id ?x = ''ow_0123456789ab''" by (simp add: approval_window_def sample_oracle_id)
  moreover have "on_expires ?x = 605"
    using b(2) by (simp add: approval_window_def opened_def Let_def) (simp add: first_limits_def)
  moreover have "py_strip ''ow_0123456789ab'' = ''ow_0123456789ab''" by code_simp
  then have "matches [] [] None [] ''ow_0123456789ab'' ?a"
    by (simp add: matches_def approved_def renewed_def expired_strings sample_oracle_id)
  ultimately show ?thesis
    using o(1) rep v w(1) by (auto simp: rtimed_step_def)
qed

section \<open>Properties\<close>

text \<open>
  C21: On a log the module wrote, with budgets and environment variables \<open>int\<close> can read, a clock after the epoch and
  drawn identifiers without blanks, every operation does to the map of requests and the
  live window what the specification says: pending requests expire when they are overdue; an approval needs an
  actor of Ester and a pending request that is not overdue, opens a window bound to that request and records it; a
  denial needs an actor of Ester and any request; validation accepts exactly an approved request that matches.
  An operation raises exactly when it shows an expiry (an approval that of the window it opened, an operation on
  the window as that one does) that \<open>fromtimestamp\<close> does not take; an approval that raises has opened its window
  without recording it.  Submissions, denials, queries and validations always return.
\<close>

theorem requests_refine_spec:
  assumes "request_env_ok E" and "rworld_ok w" and "request_readable E op" and "request_step sha E op w = (out, w')"
  shows "rworld_ok w' \<and> view (we_now E) w' = spec_requests E (isl out) op (view (we_now E) w)
    \<and> (case shown E (request_instant E op (view (we_now E) w)) of Some e \<Rightarrow> out = Inl e
       | None \<Rightarrow> (\<exists>r. out = Inr r \<and> request_answer op r = PBool (spec_granted E op (view (we_now E) w))))"
  using request_step_acts [OF assms(1-3), of sha] assms(4) by (auto simp: request_acts_def)

theorem requests_refine_spec_witness:
  "\<exists>rep w'. request_step id (oracle_clock 5) sample_submit no_world = (Inr rep, w') \<and> dict_get rep ''ok'' = PBool True
     \<and> requests w' \<noteq> Map.empty"
proof -
  obtain out w' where o: "request_step id (oracle_clock 5) sample_submit no_world = (out, w')" by force
  have "request_readable (oracle_clock 5) sample_submit" by (simp add: sample_submit_def)
  moreover note requests_refine_spec [OF sample_request_env sample_no_world(1) _ o]
  ultimately show ?thesis
    using o by (cases out) (auto simp: sample_submit_def Let_def view_def)
qed

text \<open>
  C22: A window speaks for one request: after any run from an empty log, with a clock after the epoch that does not go
  back, budgets and environment variables \<open>int\<close> can read and openings that draw distinct identifiers without blanks, two validations that succeed for the live window are
  validations of the same request, and it is the one the metadata of the window names.
\<close>

theorem approval_exclusive:
  assumes "list_all rtimed_ok cs" and "rworld_ok w" and "requests w = Map.empty" and "sorted (map rtimed_at cs)"
    and "\<forall>c \<in> set cs. t \<le> rtimed_at c \<and> rtimed_at c \<le> we_now E" and "t \<le> we_now E" and "distinct (concat (map draws cs))"
    and "w' = fold (rtimed_step sha) cs w" and "request_env_ok E" and "olive (we_now E) (rq_window w') = Some x"
    and "py_strip wid = on_id x" and "on_id x \<noteq> []"
    and "validate_approved_request E i agent plan step model wid w' = (Inr rep, w1)" and "dict_get rep ''ok'' = PBool True"
    and "validate_approved_request E j agent' plan' step' model' wid w' = (Inr rep', w2)" and "dict_get rep' ''ok'' = PBool True"
  shows "py_strip i = py_strip j \<and> dict_get (on_meta x) ''approved_request_ids'' = PList [PStr (py_strip i)]"
proof -
  let ?S = "set (concat (map draws cs))"
  have w': "rworld_ok w'" "bound ?S (requests w', Some x)"
    using run_bound [OF assms(1,2) no_requests_bound [OF assms(2,3)] assms(4-7), of sha] assms(10)
    unfolding assms(8) [symmetric] by (simp_all add: view_def)
  have "[] \<notin> set (draws c)" for c by (cases c rule: draws.cases) (simp_all add: oracle_id_def)
  then have "[] \<notin> ?S" by simp
  note one = bound_validated [OF w'(2) _ _ assms(11,12) this]
  obtain r where "requests w' (py_strip i) = Some r" "matches agent plan step model wid r"
    using validated [OF assms(9) w'(1) assms(13,14)] by blast
  from one [OF this] have i: "dict_get (on_meta x) ''approved_request_ids'' = PList [PStr (py_strip i)]" .
  obtain r' where "requests w' (py_strip j) = Some r'" "matches agent' plan' step' model' wid r'"
    using validated [OF assms(9) w'(1) assms(15,16)] by blast
  from one [OF this] i show ?thesis by simp
qed

theorem approval_exclusive_witness:
  "\<exists>w x. w = fold (rtimed_step id) [(oracle_clock 5, sample_submit), (oracle_clock 5, sample_approve)] no_world
     \<and> olive 7 (rq_window w) = Some x \<and> dict_get (on_meta x) ''approved_request_ids'' = PList [PStr ''orq_0123456789ab'']
     \<and> (\<exists>rep w1. validate_approved_request (oracle_clock 7) ''orq_0123456789ab'' [] [] None [] ''ow_0123456789ab'' w = (Inr rep, w1)
          \<and> dict_get rep ''ok'' = PBool True)"
proof -
  let ?cs = "[(oracle_clock 5, sample_submit), (oracle_clock 5, sample_approve)]" and ?E = "oracle_clock 7"
  obtain w x r where w: "w = fold (rtimed_step id) ?cs no_world" "rworld_ok w" "olive 5 (rq_window w) = Some x"
      "on_id x = ''ow_0123456789ab''" "on_expires x = 605" "requests w = [sample_rid \<mapsto> r]" "matches [] [] None [] ''ow_0123456789ab'' r"
    using sample_approved [of id] by auto
  have s: "py_strip ''ow_0123456789ab'' = ''ow_0123456789ab''" "py_strip sample_rid = sample_rid"
    unfolding sample_rid_def by code_simp+
  have "age (request_ttl ?E) 7 r = r" using w(7) by (simp add: age_def overdue_def matches_def)
  then have g: "spec_granted ?E (Rq_validate sample_rid [] [] None [] ''ow_0123456789ab'') (view 7 w)"
    using w(6,7) s by (simp add: view_def aged_def) (simp add: sample_rid_def)
  obtain out w1 where v: "validate_approved_request ?E sample_rid [] [] None [] ''ow_0123456789ab'' w = (out, w1)" by force
  from validate_acts [OF sample_request_env w(2), of 7 sample_rid "[]" "[]" None "[]" "''ow_0123456789ab''"] v g obtain rep where
    rep: "validate_approved_request ?E sample_rid [] [] None [] ''ow_0123456789ab'' w = (Inr rep, w1)" "dict_get rep ''ok'' = PBool True"
    by (cases out) (auto simp: request_acts_def)
  have live: "olive (we_now ?E) (rq_window w) = Some x" using olive_any [OF w(3)] w(5) by simp
  have ok: "list_all rtimed_ok ?cs"
    by (simp add: rtimed_ok_def sample_request_env sample_submit_def sample_approve_def)
       (simp add: asked_limits_def oracle_normalize_budgets_def sample_limits get_int_def py_or_def Let_def)
  have "dict_get (on_meta x) ''approved_request_ids'' = PList [PStr (py_strip sample_rid)]"
    using approval_exclusive [OF ok sample_no_world(1,2) _ _ _ _ w(1) sample_request_env live _ _ rep rep, of 5]
    by (simp add: rtimed_at_def w(4) s sample_submit_def sample_approve_def)
  then show ?thesis using w(1) live s rep by (intro exI [of _ w] exI [of _ x]) (simp add: sample_rid_def)
qed

end
