(* ===== verification/ProviderLaws.thy ===== *)
theory ProviderLaws
  imports OracleProvider RequestLaws
begin

text \<open>
  The provider of remote calls composed with the oracle window and the requests: what one call does to the three
  of them, when it may post, and how many posts one window can carry.
\<close>

section \<open>Actions that do not post\<close>

definition quiet :: "'a provider_action \<Rightarrow> bool" where
  "quiet m = (\<forall>w. pw_posts (snd (m w)) = pw_posts w)"

named_theorems quiet_intros \<open>actions that leave the posts alone\<close>

lemma quiet_basic [quiet_intros]: "quiet (retS x)" "quiet (liftS m)" "quiet (in_requests n)" "quiet (on_window k)"
  by (auto simp: quiet_def liftS_def in_requests_def on_window_def split: prod.splits)

lemma quiet_bind [quiet_intros]: "quiet m \<Longrightarrow> (\<And>x. quiet (f x)) \<Longrightarrow> quiet (bindS m f)"
  by (auto simp: quiet_def bindS_def split: prod.splits sum.splits) (metis snd_conv)+

lemma quiet_try [quiet_intros]: "quiet m \<Longrightarrow> (\<And>x. quiet (h x)) \<Longrightarrow> quiet (tryS m h)"
  by (auto simp: quiet_def tryS_def split: prod.splits sum.splits) (metis snd_conv)+

lemma quiet_if [quiet_intros]: "quiet m \<Longrightarrow> quiet n \<Longrightarrow> quiet (if c then m else n)"
  by simp

lemma quiet_parts [quiet_intros]:
  "quiet (provider_note E i row)" "quiet (deny_and_note E sha a i c err hit)" "quiet (agent_check E a current active model)"
  "quiet (post_succeeded E sha a i c model raw est)" "quiet (post_raised E sha a i c exc)" "quiet (post_status E sha a i c code)"
  unfolding provider_note_def deny_and_note_def agent_check_def post_succeeded_def post_raised_def post_status_def Let_def
  by (intro quiet_intros)+

section \<open>The window and the requests behind the provider\<close>

definition pworld_ok :: "provider_world \<Rightarrow> bool" where
  "pworld_ok w = rworld_ok (pw_requests w)"

definition pview :: "int \<Rightarrow> provider_world \<Rightarrow> request_view" where
  "pview t w = view t (pw_requests w)"

lemma on_window_acts:
  assumes "request_env_ok W" "pworld_ok w" "op_readable W op" "shows_instant W op x = None" "pview (we_now W) w = (m, x)"
  shows "\<exists>rep w'. on_window (oracle_step sha W op) w = (Inr rep, w') \<and> pworld_ok w' \<and> pw_posts w' = pw_posts w
    \<and> pview (we_now W) w' = (m, spec_oracle W op x) \<and> oracle_answer op rep = PBool (spec_oracle_answer W op x)"
proof -
  have w: "rworld_ok (pw_requests w)" using assms(2) by (simp add: pworld_ok_def)
  then have "oracle_env_ok W" "oworld_ok (rq_window (pw_requests w))"
    using assms(1) by (simp_all add: request_env_ok_def rworld_ok_def)
  from oracle_step_acts [OF this assms(3), of sha] obtain out ow where
    o: "oracle_step sha W op (rq_window (pw_requests w)) = (out, ow)" "oracle_acts W op (rq_window (pw_requests w)) out ow" by blast
  then obtain rep where "out = Inr rep" using assms(4,5) by (auto simp: oracle_acts_def pview_def view_def)
  with o show ?thesis
    using assms(4,5) window_ok [OF w, of ow]
    by (auto simp: on_window_def in_requests_def in_window_def oracle_acts_def pworld_ok_def pview_def view_def)
qed

text \<open>A report of the provider; only one that succeeded changes the usage.\<close>

definition used_out :: "int \<Rightarrow> owin option \<Rightarrow> owin option" where
  "used_out n x = map_option (on_usage_update (add_out n)) x"

lemma used_out_0: "x = Some y \<Longrightarrow> all_ge 0 (on_usage y) \<Longrightarrow> used_out 0 x = x"
  by (cases "on_usage y") (simp add: used_out_def)

lemma provider_row_get:
  assumes "extra \<in> {[], [(''dry_run'', PBool True)]}"
  shows "dict_get (provider_row E sha a i c ok lat n err extra hit) ''ok'' = PBool ok"
    "dict_get (provider_row E sha a i c ok lat n err extra hit) ''tokens_out'' = PInt n"
    "dict_get (provider_row E sha a i c ok lat n err extra hit) ''ts'' = PNone"
  using assms by (auto simp: provider_row_def)

lemma provider_note_acts:
  assumes "request_env_ok (pe_window E)" "pworld_ok w" "pview (we_now (pe_window E)) w = (m, x)"
    and "dict_get row ''ok'' = PBool ok" "dict_get row ''tokens_out'' = PInt n" "dict_get row ''ts'' = PNone"
  shows "\<exists>rep w'. provider_note E i row w = (Inr rep, w') \<and> pworld_ok w' \<and> pw_posts w' = pw_posts w
    \<and> pview (we_now (pe_window E)) w' = (m, if ok \<and> names_oracle i x then used_out n x else x)"
proof -
  let ?W = "pe_window E"
  have o: "out_of row = n" "get_int row ''tokens_out'' 0 = Inr n" "get_int row ''ts'' (we_stamp ?W) = Inr (we_stamp ?W)"
    using assms(5,6) by (auto simp: out_of_def get_int_def py_or_def)
  then have "op_readable ?W (Or_note i row)" by simp
  from on_window_acts [OF assms(1,2) this _ assms(3), of id] o assms(4) show ?thesis
    by (auto simp: provider_note_def used_out_def)
qed

lemma deny_and_note_acts:
  assumes "request_env_ok (pe_window E)" "pworld_ok w" "pview (we_now (pe_window E)) w = (m, x)"
  shows "\<exists>rep w'. deny_and_note E sha a i c err hit w = (Inr rep, w') \<and> pworld_ok w' \<and> pw_posts w' = pw_posts w
    \<and> pview (we_now (pe_window E)) w' = (m, x)"
proof -
  have get: "dict_get (provider_row E sha a i c False 0 0 err [] hit) ''ok'' = PBool False"
    "dict_get (provider_row E sha a i c False 0 0 err [] hit) ''tokens_out'' = PInt 0"
    "dict_get (provider_row E sha a i c False 0 0 err [] hit) ''ts'' = PNone"
    using provider_row_get by simp_all
  obtain rep w' where n: "provider_note E i (provider_row E sha a i c False 0 0 err [] hit) w = (Inr rep, w')"
      "pworld_ok w'" "pw_posts w' = pw_posts w" "pview (we_now (pe_window E)) w' = (m, x)"
    using provider_note_acts [OF assms get, of i] by auto
  note u = bindS_ok [where m = "provider_note E i (provider_row E sha a i c False 0 0 err [] hit)", OF n(1)]
  show ?thesis using n by (simp add: deny_and_note_def u)
qed

section \<open>The steps of a call\<close>

definition bad_date :: "window_env \<Rightarrow> owin option \<Rightarrow> py_error option" where
  \<comment> \<open>what showing the expiry of the live window raises, if it raises\<close>
  "bad_date W x = shown W (shows_instant W Or_current x)"

definition shows_window :: "pydict \<Rightarrow> owin option \<Rightarrow> bool" where
  "shows_window cur x =
     (dict_get cur ''open'' = PBool (x \<noteq> None)
      \<and> (\<forall>y. x = Some y \<longrightarrow> get_str cur ''window_id'' = on_id y \<and> get_str cur ''actor'' = on_actor y
           \<and> dict_get cur ''allow_agents'' = on_agents y \<and> dict_get cur ''meta'' = PDict (on_meta y)))"

lemma current_acts_provider:
  assumes "request_env_ok W" "pworld_ok w" "pview (we_now W) w = (m, x)"
  shows "\<exists>out w'. on_window (oracle_current_window W) w = (out, w') \<and> pworld_ok w' \<and> pw_posts w' = pw_posts w
    \<and> pview (we_now W) w' = (m, x) \<and> (case bad_date W x of Some e \<Rightarrow> out = Inl e | None \<Rightarrow> (\<exists>cur. out = Inr cur \<and> shows_window cur x))"
proof -
  have w: "rworld_ok (pw_requests w)" using assms(2) by (simp add: pworld_ok_def)
  let ?o = "rq_window (pw_requests w)"
  have o: "oracle_env_ok W" "oworld_ok ?o" using assms(1) w by (simp_all add: request_env_ok_def rworld_ok_def)
  let ?y = "oseen W ?o" and ?ow = "oput ((oseen W ?o)\<lparr>on_updated := we_stamp W\<rparr>) (onoticed W ?o)"
  have x: "x = (if on_open ?y then Some (bare ?y) else None)" using olive_seen [OF o(2), of W] assms(3) by (simp add: pview_def view_def)
  have b: "on_actor (bare z) = on_actor z" "on_agents (bare z) = on_agents z" "on_meta (bare z) = on_meta z" for z
    by (simp_all add: bare_def)
  have "shows_window (ocurrent_reply W ?y at) x" for at
    unfolding shows_window_def x by (auto simp: ocurrent_get b) (simp_all add: ocurrent_reply_def get_str_def)
  moreover have "rworld_ok ((pw_requests w)\<lparr>rq_window := ?ow\<rparr>)" "olive (we_now W) ?ow = x"
    using window_ok [OF w] oput_seen [OF o(2)] assms(3) by (simp_all add: pview_def view_def)
  moreover have "bad_date W x = (case oshown_expiry W ?y of Inl e \<Rightarrow> Some e | Inr _ \<Rightarrow> None)"
    using oshown_seen(1) [OF o(2), of W] assms(3) by (simp add: bad_date_def pview_def view_def)
  ultimately show ?thesis
    using assms(3)
    by (cases "oshown_expiry W ?y")
       (auto simp: on_window_def in_requests_def in_window_def ocurrent_ok [OF o] pworld_ok_def pview_def view_def)
qed

definition names_request :: "call_args \<Rightarrow> owin \<Rightarrow> bool" where
  \<comment> \<open>the metadata of the window names the request, or names none\<close>
  "names_request a y = (case approved_ids [(''meta'', PDict (on_meta y))] of
     Inl _ \<Rightarrow> False | Inr ids \<Rightarrow> ids = [] \<or> py_strip (ca_request_id a) \<in> set ids)"

definition agent_may :: "call_args \<Rightarrow> string \<Rightarrow> (string \<rightharpoonup> request) \<Rightarrow> owin \<Rightarrow> bool" where
  "agent_may a model m y =
     (py_strip (ca_agent_id a) = [] \<or>
      (py_strip (ca_request_id a) \<noteq> [] \<and> ester_actor (on_actor y) \<and> truthy (on_agents y) \<and> names_request a y
       \<and> (\<exists>r. m (py_strip (ca_request_id a)) = Some r
            \<and> matches (ca_agent_id a) (ca_plan_id a) (ca_step_index a) model (on_id y) r)))"

lemma granted_validation:
  "(case aged W t m i of None \<Rightarrow> False | Some r \<Rightarrow> matches agent plan step model wid r)
     \<longleftrightarrow> (\<exists>r. m i = Some r \<and> matches agent plan step model wid r)"
proof -
  have "matches agent plan step model wid (age ttl now r) \<longleftrightarrow> matches agent plan step model wid r" for ttl now r
    by (auto simp: matches_def age_def overdue_def expired_request_def)
  then show ?thesis by (auto simp: aged_def split: option.splits)
qed

lemma agent_check_acts:
  assumes "request_env_ok (pe_window E)" "pworld_ok w" "pview (we_now (pe_window E)) w = (m, Some y)" "shows_window cur (Some y)"
  shows "\<exists>out w' m'. agent_check E a cur (on_id y) model w = (out, w') \<and> pworld_ok w' \<and> pw_posts w' = pw_posts w
    \<and> pview (we_now (pe_window E)) w' = (m', Some y) \<and> m' \<in> {m, aged (pe_window E) (we_now (pe_window E)) m}
    \<and> (out = Inr None \<longleftrightarrow> agent_may a model m y)"
proof -
  let ?W = "pe_window E" and ?rid = "py_strip (ca_request_id a)"
  let ?val = "validate_approved_request ?W ?rid (ca_agent_id a) (ca_plan_id a) (ca_step_index a) model (on_id y)"
  have cur: "get_str cur ''actor'' = on_actor y" "dict_get cur ''allow_agents'' = on_agents y" "dict_get cur ''meta'' = PDict (on_meta y)"
    using assms(4) by (simp_all add: shows_window_def)
  have ids: "approved_ids cur = approved_ids [(''meta'', PDict (on_meta y))]" by (simp add: approved_ids_def cur(3))
  show ?thesis
  proof (cases "py_strip (ca_agent_id a) = [] \<or> ?rid = [] \<or> \<not> ester_actor (on_actor y) \<or> \<not> truthy (on_agents y)")
    case True
    then show ?thesis using assms(2,3) by (auto simp: agent_check_def Let_def cur agent_may_def)
  next
    case False
    have w: "rworld_ok (pw_requests w)" using assms(2) by (simp add: pworld_ok_def)
    obtain out rw where v: "?val (pw_requests w) = (out, rw)"
        "request_acts ?W (Rq_validate ?rid (ca_agent_id a) (ca_plan_id a) (ca_step_index a) model (on_id y)) (pw_requests w) out rw"
      using validate_acts [OF assms(1) w] by blast
    let ?w = "w\<lparr>pw_requests := rw\<rparr>"
    have run: "in_requests ?val w = (out, ?w)" using v(1) by (simp add: in_requests_def)
    have w': "pworld_ok ?w" "pview (we_now ?W) ?w = (if ?rid = [] then m else aged ?W (we_now ?W) m, Some y)"
      using v(2) assms(3) by (auto simp: request_acts_def pworld_ok_def pview_def)
    obtain rep where rep: "out = Inr rep"
      using v(2) assms(3) by (auto simp: request_acts_def pview_def)
    note u = bindS_ok [where m = "in_requests ?val", OF run [unfolded rep]]
    have "truthy (dict_get rep ''ok'') \<longleftrightarrow>
        (\<exists>r. m ?rid = Some r \<and> matches (ca_agent_id a) (ca_plan_id a) (ca_step_index a) model (on_id y) r)"
      using v(2) rep assms(3) False by (simp add: request_acts_def pview_def granted_validation)
    then show ?thesis
      using False w'
      by (cases "approved_ids [(''meta'', PDict (on_meta y))]")
         (auto simp: agent_check_def Let_def cur u ids agent_may_def names_request_def)
  qed
qed

definition shows_grant :: "pydict \<Rightarrow> call_request \<Rightarrow> owin \<Rightarrow> bool" where
  "shows_grant rep r y =
     (dict_get rep ''window_id'' = PStr (on_id y) \<and> dict_get rep ''est_tokens_in'' = PInt (estimate_tokens_in (cq_prompt r))
      \<and> dict_get rep ''max_wall_ms_per_call'' = PInt (ol_wall (on_limits y)))"

lemma authorize_reply:
  assumes "oracle_env_ok W" "oworld_ok ow" "authorize_call W sha r ow = (Inr rep, ow')" "may_call r (olive (we_now W) ow)"
    and "olive (we_now W) ow = Some y"
  shows "shows_grant rep r y"
proof -
  let ?x = "oseen W ow"
  obtain c j out where u: "on_usage ?x = (c, j, out)" by (cases "on_usage ?x")
  have wall: "get_int (oracle_limits_dict (on_limits ?x)) ''max_wall_ms_per_call'' 20000 = Inr (ol_wall (on_limits ?x))"
    using oseen_wf [OF assms(2), of W]
    by (auto simp: get_int_def py_or_def oracle_limits_dict_def owin_wf_def limits_wf_def)
  have x: "on_open ?x" "y = bare ?x" using olive_seen [OF assms(2), of W] assms(5) by (auto split: if_splits)
  then have may: "py_strip (cq_window_id r) = [] \<or> py_strip (cq_window_id r) = on_id ?x" "fits r (on_limits ?x) (c, j, out)"
    using assms(4,5) by (auto simp: u)
  show ?thesis
    using assms(3) may x unfolding authorize_call_def Let_def oload_refreshed [OF assms(1,2)] osave_bind
    by (auto simp: u wall not_le [symmetric] osave_bind oleft_win shows_grant_def)
qed

lemma authorize_acts:
  assumes "request_env_ok W" "pworld_ok w" "pview (we_now W) w = (m, x)"
  shows "\<exists>rep w'. on_window (authorize_call W sha r) w = (Inr rep, w') \<and> pworld_ok w' \<and> pw_posts w' = pw_posts w
    \<and> pview (we_now W) w' = (m, spec_oracle W (Or_call r) x) \<and> dict_get rep ''ok'' = PBool (may_call r x)
    \<and> (\<forall>y. x = Some y \<and> may_call r x \<longrightarrow> shows_grant rep r y)"
proof -
  let ?o = "rq_window (pw_requests w)"
  have o: "oracle_env_ok W" "oworld_ok ?o" "olive (we_now W) ?o = x"
    using assms by (simp_all add: request_env_ok_def rworld_ok_def pworld_ok_def pview_def view_def)
  from on_window_acts [OF assms(1,2) _ _ assms(3), of "Or_call r" sha] obtain rep w' where
    a: "on_window (authorize_call W sha r) w = (Inr rep, w')" "pworld_ok w'" "pw_posts w' = pw_posts w"
      "pview (we_now W) w' = (m, spec_oracle W (Or_call r) x)" "dict_get rep ''ok'' = PBool (may_call r x)"
    by auto
  moreover obtain ow where "authorize_call W sha r ?o = (Inr rep, ow)"
    using a(1) by (auto simp: on_window_def in_requests_def in_window_def split: prod.splits)
  then have "shows_grant rep r y" if "x = Some y" "may_call r x" for y
    using authorize_reply [OF o(1,2)] o(3) that by simp
  ultimately show ?thesis by blast
qed

definition post_of :: "provider_env \<Rightarrow> call_args \<Rightarrow> string \<Rightarrow> int \<Rightarrow> http_request" where
  "post_of E a model max_wall =
     \<lparr>ht_model = model, ht_prompt = ca_prompt a, ht_max_tokens = bounded_max_tokens (ca_max_tokens a),
      ht_temperature = ca_temperature a, ht_key = resolve_api_key E,
      ht_timeout = max 1 (min (if ca_timeout a = 0 then 20 else ca_timeout a) (max_wall div 1000))\<rparr>"

definition outbound :: "provider_env \<Rightarrow> call_args \<Rightarrow> bool" where
  \<comment> \<open>an authorised call is posted\<close>
  "outbound E a = (\<not> (case ca_dry_run a of None \<Rightarrow> dry_run_default E | Some b \<Rightarrow> b) \<and> network_enabled E \<and> resolve_api_key E \<noteq> [])"

text \<open>The usage may have grown by the output tokens of one report.\<close>

definition after_note :: "owin option \<Rightarrow> owin option \<Rightarrow> bool" where
  "after_note x x' = (x' = x \<or> (\<exists>n. x' = used_out n x))"

lemma after_note_simps [simp]: "after_note x x" "after_note x (used_out n x)"
  by (auto simp: after_note_def)

lemma note_branch:
  assumes "request_env_ok (pe_window E)" "pworld_ok w" "pview (we_now (pe_window E)) w = (m, x)"
    and "dict_get row ''ok'' = PBool ok" "dict_get row ''tokens_out'' = PInt n" "dict_get row ''ts'' = PNone"
  shows "\<exists>r w' x'. bindS (provider_note E i row) (\<lambda>_. retS rep) w = (Inr r, w') \<and> pworld_ok w' \<and> pw_posts w' = pw_posts w
    \<and> pview (we_now (pe_window E)) w' = (m, x') \<and> after_note x x'"
proof -
  obtain r w' where n: "provider_note E i row w = (Inr r, w')" "pworld_ok w'" "pw_posts w' = pw_posts w"
      "pview (we_now (pe_window E)) w' = (m, if ok \<and> names_oracle i x then used_out n x else x)"
    using provider_note_acts [OF assms, of i] by auto
  show ?thesis using n by (auto simp: bindS_ok [where m = "provider_note E i row", OF n(1)])
qed

lemma provider_row_log:
  assumes "row = provider_row E sha a i c ok lat n err [] hit"
  shows "dict_get (row @ [(''prompt_plaintext'', v)]) ''ok'' = PBool ok"
    "dict_get (row @ [(''prompt_plaintext'', v)]) ''tokens_out'' = PInt n"
    "dict_get (row @ [(''prompt_plaintext'', v)]) ''ts'' = PNone"
  by (simp_all add: assms provider_row_def)

lemma post_acts:
  assumes "request_env_ok (pe_window E)" "pworld_ok w" "pview (we_now (pe_window E)) w = (m, x)"
  shows "\<exists>rep w' x'. provider_post E sha a i c model est max_wall (resolve_api_key E) w = (Inr rep, w') \<and> pworld_ok w'
    \<and> pw_posts w' = pw_posts w @ [post_of E a model max_wall] \<and> pview (we_now (pe_window E)) w' = (m, x') \<and> after_note x x'"
proof -
  let ?p = "post_of E a model max_wall"
  define v where "v = w\<lparr>pw_posts := pw_posts w @ [?p]\<rparr>"
  have v: "pworld_ok v" "pview (we_now (pe_window E)) v = (m, x)" "pw_posts v = pw_posts w @ [?p]"
    using assms(2,3) by (simp_all add: v_def pworld_ok_def pview_def)
  note branch = note_branch [OF assms(1) v(1,2)]
  have get: "dict_get (provider_row E sha a i c ok lat n err [] hit) ''ok'' = PBool ok"
    "dict_get (provider_row E sha a i c ok lat n err [] hit) ''tokens_out'' = PInt n"
    "dict_get (provider_row E sha a i c ok lat n err [] hit) ''ts'' = PNone" for ok lat n err hit
    using provider_row_get by simp_all
  have raised: "\<exists>rep w' x'. post_raised E sha a i c exc v = (Inr rep, w') \<and> pworld_ok w' \<and> pw_posts w' = pw_posts v
      \<and> pview (we_now (pe_window E)) w' = (m, x') \<and> after_note x x'" for exc
    unfolding post_raised_def by (rule branch [OF get])
  have status: "\<exists>rep w' x'. post_status E sha a i c n v = (Inr rep, w') \<and> pworld_ok w' \<and> pw_posts w' = pw_posts v
      \<and> pview (we_now (pe_window E)) w' = (m, x') \<and> after_note x x'" for n
    unfolding post_status_def by (rule branch [OF get])
  have body: "\<exists>rep w' x'. tryS (post_succeeded E sha a i c model raw est) (\<lambda>exc. post_raised E sha a i c (pe_error_text E exc)) v = (Inr rep, w')
      \<and> pworld_ok w' \<and> pw_posts w' = pw_posts v \<and> pview (we_now (pe_window E)) w' = (m, x') \<and> after_note x x'" for raw
  proof (cases "read_completion E raw est")
    case (Inl e)
    then have "post_succeeded E sha a i c model raw est v = (Inl e, v)" by (simp add: post_succeeded_def)
    then show ?thesis using raised [of "pe_error_text E e"] by (simp add: tryS_def)
  next
    case (Inr cm)
    let ?row = "provider_row E sha a i c True (pe_latency E) (cm_completion cm) [] [] ''oracle_window''"
    define row where "row = (if env_flag (pe_env E ''ESTER_ORACLE_LOG_PROMPTS'') then ?row @ [(''prompt_plaintext'', PStr (ca_prompt a))] else ?row)"
    have g: "dict_get row ''ok'' = PBool True" "dict_get row ''tokens_out'' = PInt (cm_completion cm)" "dict_get row ''ts'' = PNone"
      by (simp_all add: row_def get provider_row_log [OF refl])
    have "\<exists>rep w' x'. post_succeeded E sha a i c model raw est v = (Inr rep, w') \<and> pworld_ok w' \<and> pw_posts w' = pw_posts v
        \<and> pview (we_now (pe_window E)) w' = (m, x') \<and> after_note x x'"
      unfolding post_succeeded_def Let_def Inr bindS_simps row_def [symmetric] by (rule branch [OF g])
    then show ?thesis by (auto simp: tryS_def)
  qed
  have "provider_post E sha a i c model est max_wall (resolve_api_key E) w =
      (case pe_http E ?p of Http_text raw \<Rightarrow> tryS (post_succeeded E sha a i c model raw est) (\<lambda>exc. post_raised E sha a i c (pe_error_text E exc))
       | Http_status n \<Rightarrow> post_status E sha a i c n | Http_failed name txt \<Rightarrow> post_raised E sha a i c (name, txt)) v"
    by (simp add: provider_post_def Let_def post_of_def v_def)
  then show ?thesis using raised status body v(3) by (cases "pe_http E ?p") auto
qed

lemma live_wf:
  assumes "pworld_ok w" "pview t w = (m, Some y)"
  shows "limits_wf (on_limits y)"
proof -
  have "oworld_ok (rq_window (pw_requests w))" using assms(1) by (simp add: pworld_ok_def rworld_ok_def)
  then show ?thesis using assms(2)
    by (cases rule: oworld_ok_cases) (auto simp: pview_def view_def olive_def owin_wf_def split: if_splits)
qed

lemma after_authorized_acts:
  assumes "request_env_ok (pe_window E)" "pworld_ok w" "pview (we_now (pe_window E)) w = (m, x)"
    and "shows_grant auth r y" "cq_prompt r = ca_prompt a" "limits_wf (on_limits y)"
  shows "\<exists>rep w' x'. after_authorized E sha a model active auth w = (Inr rep, w') \<and> pworld_ok w'
    \<and> pw_posts w' = pw_posts w @ (if outbound E a then [post_of E a model (ol_wall (on_limits y))] else [])
    \<and> pview (we_now (pe_window E)) w' = (m, x') \<and> after_note x x'"
proof -
  have auth: "get_int auth ''est_tokens_in'' (estimate_tokens_in (ca_prompt a)) = Inr (estimate_tokens_in (ca_prompt a))"
    "get_int auth ''max_wall_ms_per_call'' 20000 = Inr (ol_wall (on_limits y))"
    using assms(4-6) by (auto simp: shows_grant_def get_int_def py_or_def limits_wf_def)
  let ?c = "get_str auth ''call_id''" and ?i = "py_str (py_or (dict_get auth ''window_id'') (PStr active))"
  let ?row = "provider_row E sha a ?i ?c True 0 0 [] [(''dry_run'', PBool True)] ''oracle_window''"
  have row: "dict_get ?row ''ok'' = PBool True" "dict_get ?row ''tokens_out'' = PInt 0" "dict_get ?row ''ts'' = PNone"
    by (simp_all add: provider_row_get)
  show ?thesis
  proof (cases "case ca_dry_run a of None \<Rightarrow> dry_run_default E | Some b \<Rightarrow> b")
    case True
    then show ?thesis
      using note_branch [OF assms(1-3) row] by (simp add: after_authorized_def Let_def auth outbound_def)
  next
    case dry: False
    show ?thesis
    proof (cases "network_enabled E \<and> resolve_api_key E \<noteq> []")
      case True
      with dry show ?thesis
        using post_acts [OF assms(1-3), of sha a ?i ?c model "estimate_tokens_in (ca_prompt a)" "ol_wall (on_limits y)"]
        by (simp add: after_authorized_def Let_def auth outbound_def)
    next
      case False
      have "\<exists>err hit. after_authorized E sha a model active auth w = deny_and_note E sha a ?i ?c err hit w"
        using dry False by (auto simp: after_authorized_def Let_def auth)
      then obtain err hit where "after_authorized E sha a model active auth w = deny_and_note E sha a ?i ?c err hit w" by blast
      moreover note deny_and_note_acts [OF assms(1-3), of sha a ?i ?c err hit]
      ultimately show ?thesis using False by (auto simp: outbound_def intro!: exI [of _ x])
    qed
  qed
qed

definition call_may :: "provider_env \<Rightarrow> call_args \<Rightarrow> (string \<rightharpoonup> request) \<Rightarrow> owin \<Rightarrow> bool" where
  "call_may E a m y =
     ((py_strip (ca_window_id a) = [] \<or> py_strip (ca_window_id a) = on_id y) \<and> provider_slot_b E
      \<and> resolve_model E (ca_model a) \<noteq> [] \<and> agent_may a (resolve_model E (ca_model a)) m y
      \<and> may_call (provider_request E a (on_id y)) (Some y))"

definition called :: "provider_env \<Rightarrow> call_args \<Rightarrow> owin \<Rightarrow> owin option" where
  "called E a y = Some (y\<lparr>on_usage := add_call (provider_request E a (on_id y)) (on_usage y)\<rparr>)"

definition call_effect :: "provider_env \<Rightarrow> call_args \<Rightarrow> provider_world \<Rightarrow> provider_world \<Rightarrow> bool" where
  "call_effect E a w w' = (case pview (we_now (pe_window E)) w of (m, x) \<Rightarrow>
     pworld_ok w'
     \<and> (\<exists>m' x'. pview (we_now (pe_window E)) w' = (m', x') \<and> m' \<in> {m, aged (pe_window E) (we_now (pe_window E)) m}
       \<and> (pw_posts w' = pw_posts w \<and> x' = x \<and> (bad_date (pe_window E) x \<noteq> None \<or> (\<forall>y. x = Some y \<longrightarrow> \<not> call_may E a m y))
          \<or> (\<exists>y. x = Some y \<and> call_may E a m y \<and> after_note (called E a y) x'
               \<and> pw_posts w' = pw_posts w @
                  (if outbound E a then [post_of E a (resolve_model E (ca_model a)) (ol_wall (on_limits y))] else [])))))"

lemma refused_effect:
  assumes "request_env_ok (pe_window E)" "pworld_ok v" "pview (we_now (pe_window E)) v = (m', x)" "pw_posts v = pw_posts w"
    and "pview (we_now (pe_window E)) w = (m, x)" "m' \<in> {m, aged (pe_window E) (we_now (pe_window E)) m}"
    and "bad_date (pe_window E) x \<noteq> None \<or> (\<forall>y. x = Some y \<longrightarrow> \<not> call_may E a m y)"
  shows "\<exists>rep w'. deny_and_note E sha a i c err hit v = (Inr rep, w') \<and> call_effect E a w w'"
  using deny_and_note_acts [OF assms(1-3), of sha a i c err hit] assms(4-7) by (auto simp: call_effect_def)

lemma authorized_effect:
  assumes "request_env_ok (pe_window E)" "pworld_ok v" "pview (we_now (pe_window E)) v = (m', Some y)" "pw_posts v = pw_posts w"
    and "pview (we_now (pe_window E)) w = (m, Some y)" "m' \<in> {m, aged (pe_window E) (we_now (pe_window E)) m}"
    and "call_may E a m y \<or> \<not> may_call (provider_request E a (on_id y)) (Some y)"
    and "r = provider_request E a (on_id y)" "model = resolve_model E (ca_model a)"
  shows "\<exists>rep w'. bindS (on_window (authorize_call (pe_window E) sha r))
      (\<lambda>auth. if \<not> truthy (dict_get auth ''ok'') then retS (f auth) else after_authorized E sha a model active auth) v = (Inr rep, w')
    \<and> call_effect E a w w'"
proof -
  let ?W = "pe_window E"
  obtain rep v' where a: "on_window (authorize_call ?W sha r) v = (Inr rep, v')" "pworld_ok v'" "pw_posts v' = pw_posts v"
      "pview (we_now ?W) v' = (m', spec_oracle ?W (Or_call r) (Some y))" "dict_get rep ''ok'' = PBool (may_call r (Some y))"
      "may_call r (Some y) \<Longrightarrow> shows_grant rep r y"
    using authorize_acts [OF assms(1-3), of sha r] by blast
  note u = bindS_ok [where m = "on_window (authorize_call ?W sha r)", OF a(1)]
  show ?thesis
  proof (cases "may_call r (Some y)")
    case False
    then have "pview (we_now ?W) v' = (m', Some y)" using a(4) by (simp del: may_call.simps)
    moreover have "\<not> call_may E a m y" using False assms(8) by (simp add: call_may_def del: may_call.simps)
    ultimately show ?thesis using False a(2,3,5) assms(4-6) by (auto simp: u call_effect_def simp del: may_call.simps)
  next
    case True
    then have x: "spec_oracle ?W (Or_call r) (Some y) = called E a y" "call_may E a m y"
      using assms(7) by (simp_all add: called_def assms(8) del: may_call.simps)
    have p: "cq_prompt r = ca_prompt a" by (simp add: assms(8) provider_request_def)
    have v: "pview (we_now ?W) v' = (m', called E a y)" using a(4) x(1) by simp
    have "limits_wf (on_limits y)" using live_wf [OF assms(2,3)] .
    from after_authorized_acts [OF assms(1) a(2) v a(6) [OF True] p this, of sha model active] obtain out w' x' where
      "after_authorized E sha a model active rep v' = (Inr out, w')" "pworld_ok w'"
      "pw_posts w' = pw_posts v' @ (if outbound E a then [post_of E a model (ol_wall (on_limits y))] else [])"
      "pview (we_now ?W) w' = (m', x')" "after_note (called E a y) x'"
      by blast
    with True show ?thesis
      using x(2) a(3,5) assms(4-6,9) by (auto simp: u call_effect_def simp del: may_call.simps)
  qed
qed

section \<open>The whole call\<close>

lemma call_effect_same:
  assumes "pworld_ok w'" "pview (we_now (pe_window E)) w' = (m', x)" "pw_posts w' = pw_posts w"
    and "pview (we_now (pe_window E)) w = (m, x)" "m' \<in> {m, aged (pe_window E) (we_now (pe_window E)) m}"
    and "bad_date (pe_window E) x \<noteq> None \<or> (\<forall>y. x = Some y \<longrightarrow> \<not> call_may E a m y)"
  shows "call_effect E a w w'"
  using assms by (auto simp: call_effect_def)

lemma checked_effect:
  assumes "request_env_ok (pe_window E)" "pworld_ok v" "pview (we_now (pe_window E)) v = (m, Some y)" "pw_posts v = pw_posts w"
    and "pview (we_now (pe_window E)) w = (m, Some y)" "shows_window cur (Some y)" "model = resolve_model E (ca_model a)"
    and "py_strip (ca_window_id a) = [] \<or> py_strip (ca_window_id a) = on_id y" "provider_slot_b E" "model \<noteq> []"
  shows "\<exists>out w'. bindS (agent_check E a cur (on_id y) model) (\<lambda>refusal. case refusal of
       Some (err, hit) \<Rightarrow> deny_and_note E sha a (on_id y) c err hit
     | None \<Rightarrow> bindS (on_window (authorize_call (pe_window E) sha (provider_request E a (on_id y))))
         (\<lambda>auth. if \<not> truthy (dict_get auth ''ok'') then retS (f auth) else after_authorized E sha a model (on_id y) auth)) v = (out, w')
     \<and> call_effect E a w w' \<and> (call_may E a m y \<longrightarrow> (\<exists>rep. out = Inr rep))"
proof -
  let ?check = "agent_check E a cur (on_id y) model"
  obtain out v' m' where g: "?check v = (out, v')" "pworld_ok v'" "pw_posts v' = pw_posts v"
      "pview (we_now (pe_window E)) v' = (m', Some y)" "m' \<in> {m, aged (pe_window E) (we_now (pe_window E)) m}"
      "out = Inr None \<longleftrightarrow> agent_may a model m y"
    using agent_check_acts [OF assms(1-3,6), of a model] by blast
  have posts: "pw_posts v' = pw_posts w" using g(3) assms(4) by simp
  have no: "\<not> call_may E a m y" if "out \<noteq> Inr None"
    using g(6) that by (auto simp: call_may_def assms(7) simp del: may_call.simps)
  show ?thesis
  proof (cases out)
    case (Inl e)
    note u = bindS_fail [where m = ?check, OF g(1) [unfolded Inl]]
    have "\<not> call_may E a m y" using no Inl by simp
    then show ?thesis using call_effect_same [OF g(2,4) posts assms(5) g(5)] by (simp add: u)
  next
    case (Inr refusal)
    note u = bindS_ok [where m = ?check, OF g(1) [unfolded Inr]]
    show ?thesis
    proof (cases refusal)
      case None
      have "call_may E a m y \<or> \<not> may_call (provider_request E a (on_id y)) (Some y)"
        using g(6) Inr None assms(7-10) by (auto simp: call_may_def)
      from authorized_effect [OF assms(1) g(2,4) posts assms(5) g(5) this refl assms(7), of sha f "on_id y"] show ?thesis
        by (auto simp: u None)
    next
      case (Some r)
      then have "\<not> call_may E a m y" using no Inr by simp
      then show ?thesis
        using refused_effect [OF assms(1) g(2,4) posts assms(5) g(5), of a sha "on_id y" c "fst r" "snd r"] Some
        by (cases r) (auto simp: u)
    qed
  qed
qed

lemma oracle_call_effect:
  assumes "request_env_ok (pe_window E)" "pworld_ok w"
  shows "\<exists>out w'. oracle_call E sha a w = (out, w') \<and> call_effect E a w w'
    \<and> (case pview (we_now (pe_window E)) w of (m, x) \<Rightarrow> case bad_date (pe_window E) x of
         Some e \<Rightarrow> out = Inl e \<and> pw_posts w' = pw_posts w \<and> pview (we_now (pe_window E)) w' = (m, x)
       | None \<Rightarrow> (\<forall>y. x = Some y \<and> call_may E a m y \<longrightarrow> (\<exists>rep. out = Inr rep)))"
proof -
  let ?W = "pe_window E"
  obtain m x where view: "pview (we_now ?W) w = (m, x)" by force
  obtain out v where c: "on_window (oracle_current_window ?W) w = (out, v)" "pworld_ok v" "pw_posts v = pw_posts w"
      "pview (we_now ?W) v = (m, x)" "case bad_date ?W x of Some e \<Rightarrow> out = Inl e | None \<Rightarrow> (\<exists>cur. out = Inr cur \<and> shows_window cur x)"
    using current_acts_provider [OF assms view] by blast
  have m: "m \<in> {m, aged ?W (we_now ?W) m}" by simp
  note deny = refused_effect [OF assms(1) c(2,4,3) view m]
  show ?thesis
  proof (cases "bad_date ?W x")
    case (Some e)
    then have "out = Inl e" using c(5) by simp
    note u = bindS_fail [where m = "on_window (oracle_current_window ?W)", OF c(1) [unfolded this]]
    from Some show ?thesis using call_effect_same [OF c(2,4,3) view m] c(3,4) view by (simp add: oracle_call_def Let_def u)
  next
    case fine: None
    then obtain cur where cur: "out = Inr cur" and shown: "shows_window cur x" using c(5) by auto
    note u = bindS_ok [where m = "on_window (oracle_current_window ?W)", OF c(1) [unfolded cur]]
    show ?thesis
    proof (cases x)
      case None
      with shown have "\<not> truthy (dict_get cur ''open'')" by (simp add: shows_window_def)
      then show ?thesis
        using deny [of a sha "[]" "fresh_call_id ?W" "''oracle_window_closed''" "''oracle_window_closed''"] None fine view
        by (auto simp: oracle_call_def Let_def u)
    next
      case (Some y)
      have open_now: "truthy (dict_get cur ''open'')" "get_str cur ''window_id'' = on_id y"
        using shown Some by (simp_all add: shows_window_def)
      show ?thesis
      proof (cases "(py_strip (ca_window_id a) = [] \<or> py_strip (ca_window_id a) = on_id y) \<and> provider_slot_b E \<and> resolve_model E (ca_model a) \<noteq> []")
        case False
        have "\<exists>i c err hit. oracle_call E sha a w = deny_and_note E sha a i c err hit v"
          using open_now False by (auto simp: oracle_call_def Let_def u)
        moreover have "\<forall>z. x = Some z \<longrightarrow> \<not> call_may E a m z" using False Some by (auto simp: call_may_def)
        ultimately obtain i c err hit rep w' where "oracle_call E sha a w = (Inr rep, w')" "call_effect E a w w'"
          using deny by metis
        then show ?thesis using fine view by auto
      next
        case True
        let ?model = "resolve_model E (ca_model a)"
        have "oracle_call E sha a w = bindS (agent_check E a cur (on_id y) ?model) (\<lambda>refusal. case refusal of
             Some (err, hit) \<Rightarrow> deny_and_note E sha a (on_id y) (fresh_call_id ?W) err hit
           | None \<Rightarrow> bindS (on_window (authorize_call ?W sha (provider_request E a (on_id y)))) (\<lambda>auth.
               if \<not> truthy (dict_get auth ''ok'') then
                 retS (let err = py_str (py_or (dict_get auth ''error'') (PStr ''oracle_denied'')) in
                       [(''ok'', PBool False),
                        (''error'', PStr (if err = ''oracle_budget_exceeded'' then ''budgets_exhausted'' else err)),
                        (''policy_hit'', PStr (get_str auth ''policy_hit''))]
                       @ provider_reply a (py_str (py_or (dict_get auth ''window_id'') (PStr (on_id y)))) (get_str auth ''call_id'') False)
               else after_authorized E sha a ?model (on_id y) auth)) v"
          using True open_now(1) unfolding oracle_call_def Let_def u open_now(2) by auto
        then show ?thesis
          using checked_effect [OF assms(1) c(2) _ c(3) _ _ refl, of m y cur a sha] True c(4) view shown Some fine by (simp add: Let_def)
      qed
    qed
  qed
qed

section \<open>Runs\<close>

datatype provider_op = Pv_call call_args | Pv_request request_op

type_synonym provider_timed = "provider_env \<times> provider_op"

fun ptimed_step :: "(string \<Rightarrow> string) \<Rightarrow> provider_timed \<Rightarrow> provider_world \<Rightarrow> provider_world" where
  "ptimed_step sha (E, Pv_call a) w = snd (oracle_call E sha a w)"
| "ptimed_step sha (E, Pv_request op) w = snd (in_requests (request_step sha (pe_window E) op) w)"

fun ptimed_ok :: "provider_timed \<Rightarrow> bool" where
  "ptimed_ok (E, Pv_call a) = request_env_ok (pe_window E)"
| "ptimed_ok (E, Pv_request op) = (request_env_ok (pe_window E) \<and> request_readable (pe_window E) op)"

definition ptimed_at :: "provider_timed \<Rightarrow> int" where
  "ptimed_at c = we_now (pe_window (fst c))"

fun pdraws :: "provider_timed \<Rightarrow> string list" where
  "pdraws (E, Pv_call a) = []"
| "pdraws (E, Pv_request op) = draws (pe_window E, op)"

text \<open>The posts a run makes while the window \<open>i\<close> is live.\<close>

fun posts_under :: "(string \<Rightarrow> string) \<Rightarrow> string \<Rightarrow> provider_timed list \<Rightarrow> provider_world \<Rightarrow> http_request list" where
  "posts_under sha i [] w = []"
| "posts_under sha i (c # cs) w =
     (let w' = ptimed_step sha c w in
      (if map_option on_id (snd (pview (ptimed_at c) w)) = Some i then drop (length (pw_posts w)) (pw_posts w') else [])
      @ posts_under sha i cs w')"

definition prompt_tokens :: "http_request list \<Rightarrow> int" where
  "prompt_tokens ps = sum_list (map (\<lambda>p. estimate_tokens_in (ht_prompt p)) ps)"

lemma rooms_note: "after_note x x' \<Longrightarrow> calls_room i x' = calls_room i x \<and> tokens_room i x' = tokens_room i x"
proof -
  have "calls_room i (used_out n x) = calls_room i x \<and> tokens_room i (used_out n x) = tokens_room i x" for n
  proof (cases x)
    case (Some y)
    obtain a b c where "on_usage y = (a, b, c)" by (cases "on_usage y")
    with Some show ?thesis by (simp add: used_out_def calls_room_def tokens_room_def)
  qed (simp add: used_out_def)
  then show "after_note x x' \<Longrightarrow> ?thesis" by (auto simp: after_note_def)
qed

lemma rooms_other: "on_id y \<noteq> i \<Longrightarrow> calls_room i (Some y) = 0 \<and> tokens_room i (Some y) = 0"
  by (simp add: calls_room_def tokens_room_def)

lemma rooms_nonneg: "0 \<le> calls_room i x" "0 \<le> tokens_room i x"
  by (auto simp: calls_room_def tokens_room_def split: option.splits)

lemma rooms_request:
  assumes "i \<notin> set (draws (E, op))"
  shows "calls_room i (snd (spec_requests E raised op v)) \<le> calls_room i (snd v)
    \<and> tokens_room i (snd (spec_requests E raised op v)) \<le> tokens_room i (snd v)"
proof -
  obtain m x where v: "v = (m, x)" by (cases v)
  show ?thesis
  proof (cases op)
    case (Rq_approve j actor reason ttl budgets agents)
    then have "on_id (approval_window E actor reason ttl budgets agents r) \<noteq> i" for r
      using assms by (simp add: approval_window_def)
    then show ?thesis using rooms_nonneg [of i x] rooms_other
      by (auto simp: v Rq_approve Let_def split: option.splits)
  next
    case (Rq_window op')
    then have "\<not> otimed_grants (E, op') i" using assms by (cases op') auto
    from rooms_shrink [OF this] show ?thesis by (simp add: v Rq_window)
  next
    case (Rq_deny j actor reason)
    then show ?thesis by (auto simp: v Let_def split: option.splits)
  qed (simp_all add: v Let_def)
qed

lemma rooms_call_effect:
  assumes "call_effect E a w w'" "now = we_now (pe_window E)"
    and "ps = (if map_option on_id (snd (pview now w)) = Some i then drop (length (pw_posts w)) (pw_posts w') else [])"
  shows "int (length ps) + calls_room i (snd (pview now w')) \<le> calls_room i (snd (pview now w))
    \<and> prompt_tokens ps + tokens_room i (snd (pview now w')) \<le> tokens_room i (snd (pview now w))"
proof -
  obtain m x where view: "pview now w = (m, x)" by force
  obtain m' x' where view': "pview now w' = (m', x')" by force
  have "pw_posts w' = pw_posts w \<and> x' = x \<or> (\<exists>y. x = Some y \<and> call_may E a m y \<and> after_note (called E a y) x'
      \<and> pw_posts w' = pw_posts w @ (if outbound E a then [post_of E a (resolve_model E (ca_model a)) (ol_wall (on_limits y))] else []))"
    using assms(1) view view' by (auto simp: call_effect_def assms(2) simp del: may_call.simps)
  then show ?thesis
  proof
    assume "pw_posts w' = pw_posts w \<and> x' = x"
    then show ?thesis by (simp add: assms(3) view view' prompt_tokens_def)
  next
    assume "\<exists>y. x = Some y \<and> call_may E a m y \<and> after_note (called E a y) x'
      \<and> pw_posts w' = pw_posts w @ (if outbound E a then [post_of E a (resolve_model E (ca_model a)) (ol_wall (on_limits y))] else [])"
    then obtain y where y: "x = Some y" "call_may E a m y" "after_note (called E a y) x'"
        "pw_posts w' = pw_posts w @ (if outbound E a then [post_of E a (resolve_model E (ca_model a)) (ol_wall (on_limits y))] else [])"
      by blast
    let ?r = "provider_request E a (on_id y)"
    have may: "may_call ?r (Some y)" using y(2) by (simp add: call_may_def del: may_call.simps)
    have c: "called E a y = spec_oracle (pe_window E) (Or_call ?r) (Some y)" using may by (simp add: called_def)
    have p: "cq_prompt ?r = ca_prompt a" by (simp add: provider_request_def)
    show ?thesis
    proof (cases "on_id y = i")
      case True
      then have "map_option on_id (Some y) = Some i" by simp
      from rooms_call [OF may this, of "pe_window E", folded c] rooms_note [OF y(3), of i] estimate_pos [of "ca_prompt a"] show ?thesis
        by (simp add: assms(3) view view' y(1,4) True p [unfolded True] prompt_tokens_def post_of_def)
    next
      case False
      then have "calls_room i (called E a y) = 0" "tokens_room i (called E a y) = 0"
        using rooms_other by (simp_all add: called_def)
      with rooms_note [OF y(3), of i] rooms_other [OF False] False show ?thesis
        by (simp add: assms(3) view view' y(1) prompt_tokens_def)
    qed
  qed
qed

lemma later_rooms:
  assumes "t \<le> t'"
  shows "calls_room i (snd (pview t' w)) \<le> calls_room i (snd (pview t w)) \<and> tokens_room i (snd (pview t' w)) \<le> tokens_room i (snd (pview t w))"
  using rooms_later [OF assms, of i "rq_window (pw_requests w)"] by (simp add: pview_def view_def)

lemma ptimed_effect:
  assumes "ptimed_ok c" "pworld_ok w" "i \<notin> set (pdraws c)"
    and "ps = (if map_option on_id (snd (pview (ptimed_at c) w)) = Some i then drop (length (pw_posts w)) (pw_posts (ptimed_step sha c w)) else [])"
  shows "pworld_ok (ptimed_step sha c w)
    \<and> int (length ps) + calls_room i (snd (pview (ptimed_at c) (ptimed_step sha c w))) \<le> calls_room i (snd (pview (ptimed_at c) w))
    \<and> prompt_tokens ps + tokens_room i (snd (pview (ptimed_at c) (ptimed_step sha c w))) \<le> tokens_room i (snd (pview (ptimed_at c) w))"
proof (cases c rule: ptimed_ok.cases)
  case (1 E a)
  then have "request_env_ok (pe_window E)" using assms(1) by simp
  from oracle_call_effect [OF this assms(2), of sha a] have e: "call_effect E a w (ptimed_step sha c w)" by (auto simp: 1)
  moreover from this have "pworld_ok (ptimed_step sha c w)" by (auto simp: call_effect_def split: prod.splits)
  ultimately show ?thesis using rooms_call_effect [OF e refl assms(4) [unfolded 1 ptimed_at_def fst_conv, folded 1]] by (simp add: 1 ptimed_at_def)
next
  case (2 E op)
  let ?w = "ptimed_step sha c w" and ?now = "we_now (pe_window E)"
  have "request_env_ok (pe_window E)" "rworld_ok (pw_requests w)" "request_readable (pe_window E) op"
    using assms(1,2) by (simp_all add: 2 pworld_ok_def)
  from request_step_acts [OF this, of sha] obtain out rw where r: "request_step sha (pe_window E) op (pw_requests w) = (out, rw)"
      "request_acts (pe_window E) op (pw_requests w) out rw" by blast
  then have w: "?w = w\<lparr>pw_requests := rw\<rparr>" by (simp add: 2 in_requests_def)
  have "ps = []" using assms(4) by (simp add: w)
  moreover have "pworld_ok ?w" "pview ?now ?w = spec_requests (pe_window E) (isl out) op (pview ?now w)"
    using r(2) by (simp_all add: w request_acts_def pworld_ok_def pview_def)
  moreover have "i \<notin> set (draws (pe_window E, op))" using assms(3) by (simp add: 2)
  ultimately show ?thesis
    using rooms_request [of i "pe_window E" op "isl out" "pview ?now w"] by (simp add: 2 ptimed_at_def prompt_tokens_def)
qed

lemma posts_room:
  assumes "list_all ptimed_ok cs" "pworld_ok w" "sorted (map ptimed_at cs)" "\<forall>c \<in> set cs. t \<le> ptimed_at c" "\<forall>c \<in> set cs. i \<notin> set (pdraws c)"
  shows "int (length (posts_under sha i cs w)) \<le> calls_room i (snd (pview t w))
    \<and> prompt_tokens (posts_under sha i cs w) \<le> tokens_room i (snd (pview t w))"
  using assms
proof (induction cs arbitrary: w t)
  case Nil
  then show ?case using rooms_nonneg by (simp add: prompt_tokens_def)
next
  case (Cons c cs)
  let ?w = "ptimed_step sha c w" and ?at = "ptimed_at c"
  define ps where "ps = (if map_option on_id (snd (pview ?at w)) = Some i then drop (length (pw_posts w)) (pw_posts ?w) else [])"
  have e: "pworld_ok ?w \<and> int (length ps) + calls_room i (snd (pview ?at ?w)) \<le> calls_room i (snd (pview ?at w))
      \<and> prompt_tokens ps + tokens_room i (snd (pview ?at ?w)) \<le> tokens_room i (snd (pview ?at w))"
    using ptimed_effect [of c w i ps sha] Cons.prems by (simp add: ps_def)
  have "int (length (posts_under sha i cs ?w)) \<le> calls_room i (snd (pview ?at ?w))
      \<and> prompt_tokens (posts_under sha i cs ?w) \<le> tokens_room i (snd (pview ?at ?w))"
    using Cons.IH [of ?w ?at] Cons.prems e by simp
  moreover have "posts_under sha i (c # cs) w = ps @ posts_under sha i cs ?w" by (simp add: ps_def Let_def)
  moreover have "calls_room i (snd (pview ?at w)) \<le> calls_room i (snd (pview t w)) \<and> tokens_room i (snd (pview ?at w)) \<le> tokens_room i (snd (pview t w))"
    using later_rooms Cons.prems(4) by simp
  ultimately show ?case using e by (simp add: prompt_tokens_def)
qed

text \<open>The approved request does not bind the prompt: only its length counts, through the estimate.\<close>

lemma prompt_not_bound:
  assumes "call_may E a m y" "estimate_tokens_in p \<le> estimate_tokens_in (ca_prompt a)"
  shows "call_may E (a\<lparr>ca_prompt := p\<rparr>) m y"
proof -
  obtain c i out where "on_usage y = (c, i, out)" by (cases "on_usage y")
  moreover have "names_request (a\<lparr>ca_prompt := p\<rparr>) y = names_request a y"
    unfolding names_request_def by (rule sum.case_cong) simp_all
  moreover have "provider_request E (a\<lparr>ca_prompt := p\<rparr>) i = (provider_request E a i)\<lparr>cq_prompt := p\<rparr>" for i
    by (simp add: provider_request_def args_actor_def)
  moreover have "wanted_tokens (r\<lparr>cq_prompt := p\<rparr>) = wanted_tokens r" for r by (simp add: wanted_tokens_def)
  moreover have "cq_prompt (provider_request E a i) = ca_prompt a" for i by (simp add: provider_request_def)
  ultimately show ?thesis using assms by (simp add: call_may_def agent_may_def)
qed

section \<open>A call\<close>

definition provider_clock :: "int \<Rightarrow> provider_env" where
  "provider_clock t =
     \<lparr>pe_window = (oracle_clock t)\<lparr>we_getenv := (\<lambda>k. if k \<in> {''ESTER_ALLOW_NETWORK'', ''ESTER_ORACLE_DRY_RUN_DISABLE''} then Some ''1''
        else if k = ''ESTER_VOLITION_SLOT'' then Some ''b'' else if k = ''OPENAI_API_KEY'' then Some ''k'' else None)\<rparr>,
      pe_vault = None, pe_http = (\<lambda>_. Http_status 500), pe_json = (\<lambda>_. Inl PyValueError), pe_error_text = (\<lambda>_. ([], [])),
      pe_latency = 0\<rparr>"

definition sample_args :: call_args where
  "sample_args = \<lparr>ca_prompt = ''hello'', ca_model = ''m'', ca_timeout = 20, ca_window_id = [], ca_reason = [], ca_dry_run = None,
     ca_max_tokens = 100, ca_temperature = ''0.2'', ca_purpose = [], ca_actor = [], ca_agent_id = [], ca_plan_id = [],
     ca_step_index = None, ca_request_id = []\<rparr>"

definition sample_owin :: owin where
  "sample_owin = opened (oracle_clock 5) ''task'' ''ester'' PNone (PBool False) [] None ''openai'' None"

definition sample_provider :: provider_world where
  "sample_provider = \<lparr>pw_requests = no_world\<lparr>rq_window := oput sample_owin no_oracle\<rparr>, pw_posts = []\<rparr>"

lemma sample_owin_simps: "on_open sample_owin" "on_id sample_owin = ''ow_0123456789ab''" "on_limits sample_owin = first_limits"
  "on_usage sample_owin = (0, 0, 0)" "on_expires sample_owin = 605" "bare sample_owin = sample_owin"
  by (simp_all add: sample_owin_def sample_asked sample_oracle_id) (simp add: opened_def sample_asked first_limits_def)

lemma provider_clock_now [simp]: "we_now (pe_window (provider_clock t)) = t"
  by (simp add: provider_clock_def)

lemma sample_provider_ok:
  "0 < t \<Longrightarrow> request_env_ok (pe_window (provider_clock t))" "pworld_ok sample_provider" "bad_date (pe_window (provider_clock t)) x = None"
  "t < 605 \<Longrightarrow> pview t sample_provider = (Map.empty, Some sample_owin)"
proof -
  have d: "oracle_default_budgets (pe_window (provider_clock t)) = oracle_default_budgets (oracle_clock t)"
    by (simp add: oracle_default_budgets_def env_int_def) (simp add: provider_clock_def oracle_clock_def sample_clock_def)
  show "0 < t \<Longrightarrow> request_env_ok (pe_window (provider_clock t))"
    using sample_request_env [of t] by (simp add: request_env_ok_def oracle_env_ok_def d) (simp add: provider_clock_def)
  have "owin_wf sample_owin" by (simp add: owin_wf_def sample_owin_simps limits_wf_def) (simp add: first_limits_def)
  then show "pworld_ok sample_provider"
    using window_ok [OF sample_no_world(1)] by (simp add: pworld_ok_def sample_provider_def)
  show "bad_date (pe_window (provider_clock t)) x = None"
    by (simp add: bad_date_def shown_def provider_clock_def oracle_clock_def sample_clock_def split: option.splits)
  show "t < 605 \<Longrightarrow> pview t sample_provider = (Map.empty, Some sample_owin)"
    by (simp add: pview_def view_def sample_provider_def sample_no_world olive_put sample_owin_simps)
qed

lemma sample_call_may: "call_may (provider_clock t) sample_args m sample_owin" "outbound (provider_clock t) sample_args"
  "post_of (provider_clock t) sample_args ''m'' 20000 =
     \<lparr>ht_model = ''m'', ht_prompt = ''hello'', ht_max_tokens = 100, ht_temperature = ''0.2'', ht_key = ''k'', ht_timeout = 20\<rparr>"
  "resolve_model (provider_clock t) ''m'' = ''m''"
proof -
  have env: "pe_env (provider_clock t) ''ESTER_ALLOW_NETWORK'' = Some ''1''" "pe_env (provider_clock t) ''ESTER_ORACLE_DRY_RUN_DISABLE'' = Some ''1''"
    "pe_env (provider_clock t) ''ESTER_VOLITION_SLOT'' = Some ''b''" "pe_env (provider_clock t) ''OPENAI_API_KEY'' = Some ''k''"
    by (simp_all add: pe_env_def provider_clock_def)
  have s: "env_flag (Some ''1'')" "py_upper (py_strip ''b'') = ''B''" "py_strip ''k'' = ''k''" "py_strip ''m'' = ''m''"
    "py_strip ''OPENAI_API_KEY'' = ''OPENAI_API_KEY''" "py_strip ''ow_0123456789ab'' = ''ow_0123456789ab''"
    by code_simp+
  show m: "resolve_model (provider_clock t) ''m'' = ''m''" by (simp add: resolve_model_def Let_def s)
  have b: "provider_slot_b (provider_clock t)" by (simp add: provider_slot_b_def env s)
  have k: "resolve_api_key (provider_clock t) = ''k''"
    by (simp add: resolve_api_key_def Let_def provider_key_def env_text_def env s)
  show "outbound (provider_clock t) sample_args"
    by (simp add: outbound_def k network_enabled_def env s) (simp add: sample_args_def dry_run_default_def env s)
  show "post_of (provider_clock t) sample_args ''m'' 20000 =
     \<lparr>ht_model = ''m'', ht_prompt = ''hello'', ht_max_tokens = 100, ht_temperature = ''0.2'', ht_key = ''k'', ht_timeout = 20\<rparr>"
    by (simp add: post_of_def k) (simp add: sample_args_def bounded_max_tokens_def)
  have "fits (provider_request (provider_clock t) sample_args ''ow_0123456789ab'') first_limits (0, 0, 0)"
    by (simp add: provider_request_def sample_args_def first_limits_def estimate_tokens_in_def wanted_tokens_def bounded_max_tokens_def)
  then show "call_may (provider_clock t) sample_args m sample_owin"
    by (simp add: call_may_def sample_owin_simps b agent_may_def del: fits.simps)
       (simp add: sample_args_def provider_request_def m s del: fits.simps)
qed

section \<open>Properties\<close>

text \<open>
  C23: The network is reached exactly through an open window; this is on files the modules wrote, with environment
  variables \<open>int\<close> can read, a clock after the epoch and drawn identifiers without blanks.  Where the expiry of the live window is one that
  \<open>fromtimestamp\<close> does not take, a call raises its error, posts nothing and changes nothing of the window.  Otherwise
  it posts, and posts once, the prompt it was given and the model it resolves to, if and only if slot B, the network
  switch, a key and no dry run are set; a model is named by the caller or the environment; a window is live, is the
  one the caller names, and the call fits every budget of it; and, for a call in the name of an agent, the window
  was opened by Ester and allows agents, and the request is approved, matches agent, plan, step, model and window,
  and is named by the window.  An authorised call returns and is counted, posted or not; a refused one changes
  nothing of the live window.
\<close>

theorem post_exactly_when_granted:
  assumes "request_env_ok (pe_window E)" and "pworld_ok w" and "oracle_call E sha a w = (out, w')"
    and "pview (we_now (pe_window E)) w = (m, x)" and "pview (we_now (pe_window E)) w' = (m', x')"
  shows "case bad_date (pe_window E) x of
      Some e \<Rightarrow> out = Inl e \<and> pw_posts w' = pw_posts w \<and> x' = x
    | None \<Rightarrow>
        (case x of
           Some y \<Rightarrow>
             (if call_may E a m y then
                (\<exists>rep. out = Inr rep) \<and>
                pw_posts w' = pw_posts w @ (if outbound E a then [post_of E a (resolve_model E (ca_model a)) (ol_wall (on_limits y))] else [])
                \<and> after_note (called E a y) x'
              else pw_posts w' = pw_posts w \<and> x' = x)
         | None \<Rightarrow> pw_posts w' = pw_posts w \<and> x' = x)"
  using oracle_call_effect [OF assms(1,2), of sha a] assms(3-5)
  by (cases "bad_date (pe_window E) x"; cases x) (auto simp: call_effect_def)

theorem post_exactly_when_granted_witness:
  "pw_posts (snd (oracle_call (provider_clock 7) id sample_args sample_provider)) =
     [\<lparr>ht_model = ''m'', ht_prompt = ''hello'', ht_max_tokens = 100, ht_temperature = ''0.2'', ht_key = ''k'', ht_timeout = 20\<rparr>]"
proof -
  obtain out w' where c: "oracle_call (provider_clock 7) id sample_args sample_provider = (out, w')" by force
  obtain m' x' where v': "pview (we_now (pe_window (provider_clock 7))) w' = (m', x')" by force
  have v: "pview (we_now (pe_window (provider_clock 7))) sample_provider = (Map.empty, Some sample_owin)"
    using sample_provider_ok(4) [of 7] by simp
  have e: "request_env_ok (pe_window (provider_clock 7))" using sample_provider_ok(1) by simp
  have "ca_model sample_args = ''m''" by (simp add: sample_args_def)
  with post_exactly_when_granted [OF e sample_provider_ok(2) c v v'] show ?thesis
    using c by (simp add: sample_call_may sample_owin_simps sample_provider_ok(3))
      (simp add: first_limits_def sample_call_may sample_provider_def)
qed

text \<open>
  C24: The budgets of a window bound the traffic on the network: however calls of the provider, requests, approvals
  and other uses of the window are interleaved, the posts made while a window is live are at most the calls its
  budget still has, and the input tokens estimated for them at most the tokens it still has, as long as the clock
  does not go back and no opening draws the identifier of the window.
\<close>

theorem posts_within_budget:
  assumes "list_all ptimed_ok cs" and "pworld_ok w" and "sorted (map ptimed_at cs)" and "\<forall>c \<in> set cs. t \<le> ptimed_at c"
    and "\<forall>c \<in> set cs. i \<notin> set (pdraws c)" and "snd (pview t w) = Some y" and "on_id y = i"
  shows "int (length (posts_under sha i cs w)) \<le> max 0 (ol_calls (on_limits y) - fst (on_usage y))
    \<and> prompt_tokens (posts_under sha i cs w) \<le> max 0 (ol_in (on_limits y) - fst (snd (on_usage y)))"
  using posts_room [OF assms(1-5), of sha] assms(6,7) by (simp add: calls_room_def tokens_room_def)

theorem posts_within_budget_witness:
  "length (posts_under id ''ow_0123456789ab'' (replicate 4 (provider_clock 7, Pv_call sample_args)) sample_provider) \<le> 3"
proof -
  let ?cs = "replicate 4 (provider_clock 7, Pv_call sample_args)"
  have "list_all ptimed_ok ?cs" using sample_provider_ok(1) [of 7] by (simp add: list_all_iff)
  moreover have "sorted (map ptimed_at ?cs)" by (simp add: eval_nat_numeral ptimed_at_def)
  moreover have "snd (pview 7 sample_provider) = Some sample_owin" using sample_provider_ok(4) [of 7] by simp
  ultimately have "int (length (posts_under id ''ow_0123456789ab'' ?cs sample_provider)) \<le> max 0 (ol_calls first_limits - 0)"
    using posts_within_budget [of ?cs sample_provider 7 "''ow_0123456789ab''" sample_owin id] sample_provider_ok(2)
    by (simp add: ptimed_at_def sample_owin_simps)
  then show ?thesis by (simp add: first_limits_def)
qed

end
