(* ===== verification/CommWindow.thy ===== *)
theory CommWindow
  imports ExecWindow
begin

text \<open>
  \<open>modules/runtime/comm_window.py\<close>: the time-boxed permissions to talk to the network.  Unlike the execution
  and the oracle window there may be several at a time, kept in one dictionary by identifier, each with the
  hosts it is for.  Environment and clock are those of \<open>window_env\<close>: \<open>we_now\<close> is the reading of the clock an
  operation makes, \<open>we_stamp\<close> the one for a state that is missing or broken.
\<close>

section \<open>State\<close>

record comm_world =
  cw_file :: "jtext option"

type_synonym 'a comm_action = "(comm_world, 'a) py_action"

definition default_hosts :: "string list" where
  "default_hosts = [''api.telegram.org'']"

definition comm_default :: "window_env \<Rightarrow> pydict" where
  "comm_default E = [(''windows'', PDict []), (''updated_ts'', PInt (we_stamp E))]"

definition write_comm :: "pydict \<Rightarrow> unit comm_action" where
  "write_comm st = modifyS (\<lambda>w. w\<lparr>cw_file := Some (JVal (PDict st))\<rparr>)"

definition comm_state_file :: "window_env \<Rightarrow> unit comm_action" where
  \<comment> \<open>\<open>_state_path\<close> creates the file\<close>
  "comm_state_file E = bindS (readS (\<lambda>w. Inr (cw_file w))) (\<lambda>file.
     case file of None \<Rightarrow> write_comm (comm_default E) | Some _ \<Rightarrow> retS ())"

definition read_comm :: "window_env \<Rightarrow> jtext option \<Rightarrow> pydict" where
  "read_comm E file =
     (let raw0 = (case file of Some (JVal (PDict d)) \<Rightarrow> d | _ \<Rightarrow> comm_default E);
          raw1 = set_default ''windows'' (PDict []) raw0;
          raw2 = (case dict_get raw1 ''windows'' of PDict _ \<Rightarrow> raw1 | _ \<Rightarrow> dict_set ''windows'' (PDict []) raw1)
      in set_default ''updated_ts'' (PInt (we_stamp E)) raw2)"

definition load_comm :: "window_env \<Rightarrow> pydict comm_action" where
  "load_comm E = bindS (comm_state_file E) (\<lambda>_. readS (\<lambda>w. Inr (read_comm E (cw_file w))))"

definition save_comm :: "window_env \<Rightarrow> pydict \<Rightarrow> unit comm_action" where
  "save_comm E st = bindS (comm_state_file E) (\<lambda>_. write_comm st)"

fun add_host :: "string list \<Rightarrow> string \<Rightarrow> string list" where
  "add_host out h =
     (let s = py_lower (py_strip h) in
      if s = [] \<or> CHR ''/'' \<in> set s \<or> CHR '':'' \<in> set s then out
      else if s \<in> set out then out
      else out @ [s])"

definition clean_hosts :: "string list option \<Rightarrow> string list" where
  "clean_hosts hosts = (case hosts of None \<Rightarrow> [] | Some hs \<Rightarrow> foldl add_host [] hs)"

fun attr_dict :: "pyval \<Rightarrow> py_error + pydict" where
  \<comment> \<open>\<open>(row or {}).get\<close>\<close>
  "attr_dict (PDict d) = Inr d"
| "attr_dict v = (if truthy v then Inl PyAttributeError else Inr [])"

fun unexpired :: "int \<Rightarrow> pydict \<Rightarrow> py_error + pydict" where
  "unexpired now [] = Inr []"
| "unexpired now ((wid, v) # wins) =
     bindE (attr_dict v) (\<lambda>row.
     bindE (get_int row ''expires_ts'' 0) (\<lambda>expires.
     bindE (unexpired now wins) (\<lambda>keep.
     Inr (if now < expires \<and> \<not> truthy (dict_get row ''closed'') then (wid, PDict row) # keep else keep))))"

definition cleanup_expired :: "int \<Rightarrow> pydict \<Rightarrow> py_error + pydict" where
  "cleanup_expired now st =
     bindE (dict_arg (dict_get st ''windows'')) (\<lambda>wins.
     bindE (unexpired now wins) (\<lambda>keep.
     Inr (dict_set ''updated_ts'' (PInt now) (dict_set ''windows'' (PDict keep) st))))"

definition load_unexpired :: "window_env \<Rightarrow> pydict comm_action" where
  "load_unexpired E = bindS (load_comm E) (\<lambda>st. liftS (cleanup_expired (we_now E) st))"

section \<open>Operations\<close>

definition comm_row ::
  "window_env \<Rightarrow> string \<Rightarrow> string \<Rightarrow> int \<Rightarrow> string \<Rightarrow> string list option \<Rightarrow> pydict" where
  "comm_row E wid kind ttl_sec reason allow_hosts =
     (let now = we_now E;
          ttl = max 1 (if ttl_sec = 0 then 60 else ttl_sec);
          cleaned = clean_hosts allow_hosts;
          hosts = (if cleaned = [] then default_hosts else cleaned);
          k = py_lower (py_strip (if kind = [] then ''telegram'' else kind))
      in [(''id'', PStr wid), (''kind'', PStr (if k = [] then ''telegram'' else k)), (''created_ts'', PInt now),
          (''expires_ts'', PInt (now + ttl)), (''ttl_sec'', PInt ttl), (''reason'', PStr (py_strip reason)),
          (''allow_hosts'', PList (map PStr hosts)), (''closed'', PBool False)])"

definition comm_open_window ::
  "window_env \<Rightarrow> string \<Rightarrow> int \<Rightarrow> string \<Rightarrow> string list option \<Rightarrow> pydict comm_action" where
  "comm_open_window E kind ttl_sec reason allow_hosts =
     (let wid = ''cw_'' @ take 12 (we_uuid E); row = comm_row E wid kind ttl_sec reason allow_hosts in
      bindS (load_unexpired E) (\<lambda>st.
      bindS (liftS (dict_arg (dict_get st ''windows''))) (\<lambda>win.
      bindS (save_comm E (dict_set ''updated_ts'' (PInt (we_now E))
               (dict_set ''windows'' (PDict (dict_set wid (PDict row) win)) st))) (\<lambda>_.
      retS [(''ok'', PBool True), (''window_id'', PStr wid), (''window'', PDict row)]))))"

definition comm_is_open :: "window_env \<Rightarrow> string \<Rightarrow> pydict comm_action" where
  "comm_is_open E window_id =
     (let wid = py_strip window_id in
      if wid = [] then
        retS [(''ok'', PBool False), (''open'', PBool False), (''error'', PStr ''window_id_required'')]
      else
        bindS (load_unexpired E) (\<lambda>st.
        bindS (save_comm E st) (\<lambda>_.
        bindS (liftS (attr_dict (dict_get st ''windows''))) (\<lambda>win.
        bindS (liftS (dict_arg (dict_get win wid))) (\<lambda>row.
        if row = [] then
          retS [(''ok'', PBool True), (''open'', PBool False), (''remaining'', PInt 0), (''window_id'', PStr wid)]
        else
          bindS (liftS (get_int row ''expires_ts'' 0)) (\<lambda>expires.
          let rem = max 0 (expires - we_now E) in
          retS [(''ok'', PBool True), (''open'', PBool (0 < rem)), (''remaining'', PInt rem), (''window_id'', PStr wid),
                (''window'', PDict row)]))))))"

definition comm_close_window :: "window_env \<Rightarrow> string \<Rightarrow> pydict comm_action" where
  "comm_close_window E window_id =
     (let wid = py_strip window_id in
      if wid = [] then retS (fail_reply ''window_id_required'' [])
      else
        bindS (load_comm E) (\<lambda>st.
        bindS (liftS (dict_arg (dict_get st ''windows''))) (\<lambda>win.
        bindS (liftS (dict_arg (dict_get win wid))) (\<lambda>row.
        if row = [] then retS (fail_reply ''window_not_found'' [(''window_id'', PStr wid)])
        else
          let row' = dict_set ''closed_ts'' (PInt (we_now E)) (dict_set ''closed'' (PBool True) row) in
          bindS (save_comm E (dict_set ''updated_ts'' (PInt (we_now E))
                   (dict_set ''windows'' (PDict (dict_set wid (PDict row') win)) st))) (\<lambda>_.
          retS [(''ok'', PBool True), (''window_id'', PStr wid), (''closed'', PBool True)])))))"

fun row_copies :: "pydict \<Rightarrow> py_error + pyval list" where
  "row_copies [] = Inr []"
| "row_copies ((k, v) # d) = bindE (as_dict v) (\<lambda>row. bindE (row_copies d) (\<lambda>rows. Inr (PDict row # rows)))"

definition comm_list_windows :: "window_env \<Rightarrow> pydict comm_action" where
  "comm_list_windows E =
     bindS (load_unexpired E) (\<lambda>st.
     bindS (save_comm E st) (\<lambda>_.
     bindS (liftS (attr_dict (dict_get st ''windows''))) (\<lambda>win.
     bindS (liftS (row_copies (sort_key fst win))) (\<lambda>rows.
     retS [(''ok'', PBool True), (''count'', PInt (int (length rows))), (''windows'', PList rows)]))))"

end
