(* ===== verification/CommLaws.thy ===== *)
theory CommLaws
  imports CommWindow
begin

text \<open>
  The communication windows as a map from identifiers to live windows.  Every operation acts on the map as
  \<open>spec_comm\<close> says, also when the state file is missing or broken; each window is a lease of its own.
\<close>

section \<open>The live windows\<close>

definition wins_of :: "jtext option \<Rightarrow> pydict" where
  "wins_of file = (case file of
     Some (JVal (PDict d)) \<Rightarrow> (case dict_get d ''windows'' of PDict wins \<Rightarrow> wins | _ \<Rightarrow> [])
   | _ \<Rightarrow> [])"

definition expiry_of :: "pyval \<Rightarrow> int option" where
  "expiry_of v = (case attr_dict v of
     Inl _ \<Rightarrow> None
   | Inr row \<Rightarrow> (case get_int row ''expires_ts'' 0 of Inl _ \<Rightarrow> None | Inr e \<Rightarrow> Some e))"

definition comm_ok :: "comm_world \<Rightarrow> bool" where
  \<comment> \<open>the file is missing, or broken, or its windows are dictionaries with a readable expiry\<close>
  "comm_ok w = (distinct (map fst (wins_of (cw_file w))) \<and>
     list_all (\<lambda>(k, v). expiry_of v \<noteq> None) (wins_of (cw_file w)))"

definition alive :: "int \<Rightarrow> string \<times> pyval \<Rightarrow> bool" where
  "alive t x = ((case expiry_of (snd x) of None \<Rightarrow> False | Some e \<Rightarrow> t < e) \<and> \<not> truthy (dict_get (dict_of (snd x)) ''closed''))"

definition rows_of :: "pydict \<Rightarrow> (string \<times> pydict) list" where
  "rows_of d = map (\<lambda>(k, v). (k, dict_of v)) d"

definition comm_live :: "int \<Rightarrow> comm_world \<Rightarrow> string \<rightharpoonup> pydict" where
  "comm_live t w = map_of (rows_of (filter (alive t) (wins_of (cw_file w))))"

lemma attr_dict_cases: "attr_dict v = Inr r \<Longrightarrow> v = PDict r \<or> \<not> truthy v \<and> r = []"
  by (cases v) (auto split: if_splits)

lemma alive_dict: "0 \<le> t \<Longrightarrow> alive t (k, v) \<Longrightarrow> \<exists>r. v = PDict r \<and> r \<noteq> [] \<and> (\<exists>e. get_int r ''expires_ts'' 0 = Inr e \<and> t < e)"
proof -
  assume t: "0 \<le> t" and a: "alive t (k, v)"
  then obtain r e where r: "attr_dict v = Inr r" "get_int r ''expires_ts'' 0 = Inr e" "t < e"
    by (auto simp: alive_def expiry_of_def split: sum.splits option.splits)
  have "r \<noteq> []"
  proof
    assume "r = []"
    with r(2) have "e = 0" by (simp add: get_int_def py_or_def)
    with r(3) t show False by simp
  qed
  with attr_dict_cases [OF r(1)] r show ?thesis by auto
qed

lemma alive_later: "t \<le> t' \<Longrightarrow> alive t' x \<Longrightarrow> alive t x"
  by (auto simp: alive_def split: option.splits)

lemma windows_repaired:
  "dict_get (case dict_get (set_default ''windows'' (PDict []) raw) ''windows'' of
       PDict _ \<Rightarrow> set_default ''windows'' (PDict []) raw
     | _ \<Rightarrow> dict_set ''windows'' (PDict []) (set_default ''windows'' (PDict []) raw)) ''windows''
   = PDict (case dict_get raw ''windows'' of PDict wins \<Rightarrow> wins | _ \<Rightarrow> [])"
  using not_has_key [of raw "''windows''"]
  by (cases "dict_get raw ''windows''") (auto simp: set_default_get split: pyval.splits)

lemma read_comm_windows: "dict_get (read_comm E file) ''windows'' = PDict (wins_of file)"
proof -
  define raw where "raw = (case file of Some (JVal (PDict d)) \<Rightarrow> d | _ \<Rightarrow> comm_default E)"
  have w: "wins_of file = (case dict_get raw ''windows'' of PDict wins \<Rightarrow> wins | _ \<Rightarrow> [])"
    by (auto simp: wins_of_def raw_def comm_default_def split: option.splits jtext.splits pyval.splits)
  have "read_comm E file = set_default ''updated_ts'' (PInt (we_stamp E))
      (case dict_get (set_default ''windows'' (PDict []) raw) ''windows'' of
       PDict _ \<Rightarrow> set_default ''windows'' (PDict []) raw
     | _ \<Rightarrow> dict_set ''windows'' (PDict []) (set_default ''windows'' (PDict []) raw))"
    unfolding read_comm_def raw_def Let_def ..
  moreover have "dict_get (set_default ''updated_ts'' v d) ''windows'' = dict_get d ''windows''" for v d
    by (simp add: set_default_get)
  ultimately show ?thesis by (simp only: windows_repaired w)
qed

lemma unexpired_filter:
  "0 \<le> now \<Longrightarrow> list_all (\<lambda>(k, v). expiry_of v \<noteq> None) wins \<Longrightarrow> unexpired now wins = Inr (filter (alive now) wins)"
proof (induction wins)
  case (Cons x wins)
  obtain k v where x: "x = (k, v)" by force
  from Cons.prems(2) obtain r e where r: "attr_dict v = Inr r" "get_int r ''expires_ts'' 0 = Inr e"
    by (auto simp: x expiry_of_def split: sum.splits)
  from attr_dict_cases [OF r(1)] have d: "dict_of v = r" by (cases v) auto
  have a: "alive now (k, v) = (now < e \<and> \<not> truthy (dict_get r ''closed''))"
    by (simp add: alive_def expiry_of_def r d)
  have v: "PDict r = v" if "alive now (k, v)"
    using alive_dict [of now k v] that r(1) Cons.prems(1) by auto
  have rest: "unexpired now wins = Inr (filter (alive now) wins)" using Cons by simp
  show ?case
    by (cases "alive now (k, v)") (use v a in \<open>simp_all add: x r rest\<close>)
qed simp

section \<open>The specification\<close>

datatype comm_op =
    Comm_open string int string "string list option"
  | Comm_is_open string
  | Comm_close string
  | Comm_list

fun comm_step :: "window_env \<Rightarrow> comm_op \<Rightarrow> pydict comm_action" where
  "comm_step E (Comm_open kind ttl reason hosts) = comm_open_window E kind ttl reason hosts"
| "comm_step E (Comm_is_open i) = comm_is_open E i"
| "comm_step E (Comm_close i) = comm_close_window E i"
| "comm_step E Comm_list = comm_list_windows E"

definition comm_id :: "window_env \<Rightarrow> string" where
  "comm_id E = ''cw_'' @ take 12 (we_uuid E)"

fun spec_comm :: "window_env \<Rightarrow> comm_op \<Rightarrow> (string \<rightharpoonup> pydict) \<Rightarrow> string \<rightharpoonup> pydict" where
  "spec_comm E (Comm_open kind ttl reason hosts) m = m(comm_id E \<mapsto> comm_row E (comm_id E) kind ttl reason hosts)"
| "spec_comm E (Comm_close i) m = (if py_strip i = [] then m else m(py_strip i := None))"
| "spec_comm E _ m = m"

fun comm_answer :: "window_env \<Rightarrow> comm_op \<Rightarrow> (string \<rightharpoonup> pydict) \<Rightarrow> pydict \<Rightarrow> bool" where
  "comm_answer E (Comm_open kind ttl reason hosts) m r =
     (r = [(''ok'', PBool True), (''window_id'', PStr (comm_id E)),
           (''window'', PDict (comm_row E (comm_id E) kind ttl reason hosts))])"
| "comm_answer E (Comm_is_open i) m r =
     (dict_get r ''open'' = PBool (py_strip i \<noteq> [] \<and> m (py_strip i) \<noteq> None) \<and>
      (py_strip i \<noteq> [] \<longrightarrow> (case m (py_strip i) of None \<Rightarrow> True | Some row \<Rightarrow>
         dict_get r ''window'' = PDict row \<and> dict_get r ''remaining'' = PInt (projr (get_int row ''expires_ts'' 0) - we_now E))))"
| "comm_answer E (Comm_close i) m r =
     (py_strip i \<noteq> [] \<and> m (py_strip i) \<noteq> None \<longrightarrow> dict_get r ''ok'' = PBool True)"
| "comm_answer E Comm_list m r =
     (\<exists>ids. sorted ids \<and> distinct ids \<and> set ids = dom m \<and> dict_get r ''windows'' = PList (map (\<lambda>i. PDict (the (m i))) ids))"

definition comm_acts :: "window_env \<Rightarrow> comm_op \<Rightarrow> comm_world \<Rightarrow> bool" where
  "comm_acts E a w = (case comm_step E a w of
     (Inl _, _) \<Rightarrow> False
   | (Inr r, w') \<Rightarrow> comm_ok w' \<and> comm_live (we_now E) w' = spec_comm E a (comm_live (we_now E) w)
                  \<and> comm_answer E a (comm_live (we_now E) w) r)"

section \<open>What each operation does\<close>

definition comm_seen :: "window_env \<Rightarrow> comm_world \<Rightarrow> pydict" where
  \<comment> \<open>the windows an operation sees\<close>
  "comm_seen E w = filter (alive (we_now E)) (wins_of (cw_file w))"

lemma load_comm_run:
  obtains w' where "load_comm E w = (Inr (read_comm E (cw_file w')), w')" "wins_of (cw_file w') = wins_of (cw_file w)"
    "cw_file w' \<noteq> None"
proof (cases "cw_file w")
  case None
  let ?w = "w\<lparr>cw_file := Some (JVal (PDict (comm_default E)))\<rparr>"
  have "load_comm E w = (Inr (read_comm E (cw_file ?w)), ?w)"
    by (simp add: load_comm_def comm_state_file_def bindS_def readS_def None write_comm_def modifyS_def)
  then show ?thesis by (rule that) (simp_all add: None wins_of_def comm_default_def)
next
  case (Some t)
  have "load_comm E w = (Inr (read_comm E (cw_file w)), w)"
    by (simp add: load_comm_def comm_state_file_def bindS_def readS_def Some)
  then show ?thesis by (rule that) (simp_all add: Some)
qed

lemma load_unexpired_run:
  assumes "comm_ok w" "0 \<le> we_now E"
  obtains st w' where "load_unexpired E w = (Inr st, w')" "dict_get st ''windows'' = PDict (comm_seen E w)"
    "wins_of (cw_file w') = wins_of (cw_file w)" "cw_file w' \<noteq> None"
proof -
  obtain w' where w': "load_comm E w = (Inr (read_comm E (cw_file w')), w')" "wins_of (cw_file w') = wins_of (cw_file w)"
    "cw_file w' \<noteq> None" by (rule load_comm_run)
  from unexpired_filter [OF assms(2)] assms(1)
  have "unexpired (we_now E) (wins_of (cw_file w)) = Inr (comm_seen E w)" by (auto simp: comm_ok_def comm_seen_def)
  then have "cleanup_expired (we_now E) (read_comm E (cw_file w')) = Inr (dict_set ''updated_ts'' (PInt (we_now E))
      (dict_set ''windows'' (PDict (comm_seen E w)) (read_comm E (cw_file w'))))"
    by (simp add: cleanup_expired_def read_comm_windows w'(2))
  then show ?thesis using w'
    by (intro that) (auto simp: load_unexpired_def bindS_def liftS_def)
qed



lemma save_comm_run: "cw_file w \<noteq> None \<Longrightarrow> save_comm E st w = (Inr (), w\<lparr>cw_file := Some (JVal (PDict st))\<rparr>)"
  by (auto simp: save_comm_def comm_state_file_def bindS_def readS_def write_comm_def modifyS_def)

lemma wins_of_saved: "dict_get st ''windows'' = PDict wins \<Longrightarrow> wins_of (Some (JVal (PDict st))) = wins"
  by (simp add: wins_of_def)

lemma seen_rows: "comm_live (we_now E) w = map_of (rows_of (comm_seen E w))"
  by (simp add: comm_live_def comm_seen_def)

lemma seen_ok: "comm_ok w \<Longrightarrow> distinct (map fst (comm_seen E w)) \<and> list_all (\<lambda>(k, v). expiry_of v \<noteq> None) (comm_seen E w)"
  by (auto simp: comm_ok_def comm_seen_def list_all_iff distinct_map_filter)

lemma seen_dict:
  assumes "0 \<le> we_now E" "map_of (comm_seen E w) k = Some v"
  obtains r e where "v = PDict r" "r \<noteq> []" "get_int r ''expires_ts'' 0 = Inr e" "we_now E < e" "alive (we_now E) (k, v)"
proof -
  from map_of_SomeD [OF assms(2)] have "alive (we_now E) (k, v)" by (simp add: comm_seen_def)
  from alive_dict [OF assms(1) this] this that show ?thesis by auto
qed

lemma map_of_rows: "map_of (rows_of d) k = map_option dict_of (map_of d k)"
  by (induction d) (auto simp: rows_of_def)

lemma filter_seen: "filter (alive (we_now E)) (comm_seen E w) = comm_seen E w"
  by (simp add: comm_seen_def)

lemma comm_ok_saved: "wins_of (cw_file w) = wins \<Longrightarrow> distinct (map fst wins) \<Longrightarrow> list_all (\<lambda>(k, v). expiry_of v \<noteq> None) wins \<Longrightarrow> comm_ok w"
  by (simp add: comm_ok_def)

lemma live_saved: "wins_of (cw_file w) = wins \<Longrightarrow> comm_live t w = map_of (rows_of (filter (alive t) wins))"
  by (simp add: comm_live_def)

lemma comm_row_alive:
  assumes "0 \<le> we_now E"
  shows "alive (we_now E) (wid, PDict (comm_row E i kind ttl reason hosts))"
    "expiry_of (PDict (comm_row E i kind ttl reason hosts)) \<noteq> None"
proof -
  define e where "e = we_now E + max 1 (if ttl = 0 then 60 else ttl)"
  have "dict_get (comm_row E i kind ttl reason hosts) ''expires_ts'' = PInt e"
    "dict_get (comm_row E i kind ttl reason hosts) ''closed'' = PBool False"
    by (simp_all add: comm_row_def e_def Let_def)
  moreover have "we_now E < e" "e \<noteq> 0" using assms by (auto simp: e_def)
  ultimately show "alive (we_now E) (wid, PDict (comm_row E i kind ttl reason hosts))"
    "expiry_of (PDict (comm_row E i kind ttl reason hosts)) \<noteq> None"
    by (simp_all add: alive_def expiry_of_def get_int_def py_or_def)
qed

lemma update_all: "list_all P d \<Longrightarrow> P (k, v) \<Longrightarrow> list_all P (AList.update k v d)"
  by (induction d) auto

lemma rows_update: "map_of (rows_of (AList.update k v d)) = (map_of (rows_of d))(k \<mapsto> dict_of v)"
  by (simp add: fun_eq_iff map_of_rows update_conv)

lemma filter_update: "(\<forall>x \<in> set d. p x) \<Longrightarrow> p (k, v) \<Longrightarrow> filter p (AList.update k v d) = AList.update k v d"
proof -
  assume "\<forall>x \<in> set d. p x" "p (k, v)"
  then have "list_all p (AList.update k v d)" by (intro update_all) (simp_all add: list_all_iff)
  then show ?thesis by (simp add: list_all_iff)
qed

lemma comm_open_acts:
  assumes "comm_ok w" "0 \<le> we_now E"
  shows "comm_acts E (Comm_open kind ttl reason hosts) w"
proof -
  obtain st w' where st: "load_unexpired E w = (Inr st, w')" "dict_get st ''windows'' = PDict (comm_seen E w)"
    "wins_of (cw_file w') = wins_of (cw_file w)" "cw_file w' \<noteq> None" using assms by (rule load_unexpired_run)
  define row where "row = comm_row E (comm_id E) kind ttl reason hosts"
  define wins where "wins = dict_set (comm_id E) (PDict row) (comm_seen E w)"
  define out where "out = dict_set ''updated_ts'' (PInt (we_now E)) (dict_set ''windows'' (PDict wins) st)"
  have run: "comm_open_window E kind ttl reason hosts w =
      (Inr [(''ok'', PBool True), (''window_id'', PStr (comm_id E)), (''window'', PDict row)], w'\<lparr>cw_file := Some (JVal (PDict out))\<rparr>)"
    by (simp add: comm_open_window_def comm_id_def row_def Let_def bindS_ok [of "load_unexpired E", OF st(1)] st(2)
        bindS_ok [of "save_comm E _", OF save_comm_run [OF st(4)]] out_def wins_def)
  have o: "wins_of (cw_file (w'\<lparr>cw_file := Some (JVal (PDict out))\<rparr>)) = wins"
    by (simp add: wins_of_def out_def)
  have a: "alive (we_now E) (comm_id E, PDict row)" "expiry_of (PDict row) \<noteq> None"
    unfolding row_def using comm_row_alive [OF assms(2)] by simp_all
  have f: "filter (alive (we_now E)) wins = wins"
    unfolding wins_def dict_set_def by (rule filter_update) (use a in \<open>simp_all add: comm_seen_def\<close>)
  have "distinct (map fst wins)" "list_all (\<lambda>(k, v). expiry_of v \<noteq> None) wins"
    using seen_ok [OF assms(1), of E] a(2) by (auto simp: wins_def dict_set_def distinct_update intro!: update_all)
  from comm_ok_saved [OF o this] live_saved [OF o, of "we_now E"] show ?thesis
    unfolding comm_acts_def comm_step.simps run
    by (simp add: f) (simp add: seen_rows row_def wins_def dict_set_def rows_update)
qed

lemma comm_is_open_acts:
  assumes "comm_ok w" "0 \<le> we_now E"
  shows "comm_acts E (Comm_is_open i) w"
proof (cases "py_strip i = []")
  case True
  with assms(1) show ?thesis by (simp add: comm_acts_def comm_is_open_def)
next
  case False
  obtain st w' where st: "load_unexpired E w = (Inr st, w')" "dict_get st ''windows'' = PDict (comm_seen E w)"
    "wins_of (cw_file w') = wins_of (cw_file w)" "cw_file w' \<noteq> None" using assms by (rule load_unexpired_run)
  let ?w = "w'\<lparr>cw_file := Some (JVal (PDict st))\<rparr>"
  have o: "wins_of (cw_file ?w) = comm_seen E w" using st(2) by (simp add: wins_of_def)
  have ok: "comm_ok ?w" using seen_ok [OF assms(1), of E] by (intro comm_ok_saved [OF o]) auto
  have live: "comm_live (we_now E) ?w = comm_live (we_now E) w"
    by (simp add: live_saved [OF o] filter_seen seen_rows)
  note run = comm_is_open_def Let_def bindS_ok [of "load_unexpired E", OF st(1)] st(2) bindS_ok [of "save_comm E _", OF save_comm_run [OF st(4)]]
  show ?thesis
  proof (cases "map_of (comm_seen E w) (py_strip i)")
    case None
    then show ?thesis using False ok live
      by (simp add: comm_acts_def run dict_get_def [of "comm_seen E w"]) (simp add: seen_rows map_of_rows)
  next
    case (Some v)
    obtain r e where r: "v = PDict r" "r \<noteq> []" "get_int r ''expires_ts'' 0 = Inr e" "we_now E < e" "alive (we_now E) (py_strip i, v)"
      using assms(2) Some by (rule seen_dict)
    then show ?thesis using False ok live Some
      by (simp add: comm_acts_def run dict_get_def [of "comm_seen E w"]) (simp add: seen_rows map_of_rows)
  qed
qed

lemma comm_ok_distinct: "comm_ok w \<Longrightarrow> distinct (map fst (wins_of (cw_file w)))"
  by (simp add: comm_ok_def)

lemma filter_get:
  "distinct (map fst d) \<Longrightarrow>
   map_of (filter p d) k = (case map_of d k of None \<Rightarrow> None | Some v \<Rightarrow> if p (k, v) then Some v else None)"
  by (induction d) (auto simp: map_of_eq_None_iff split: option.splits)

lemma live_get:
  "distinct (map fst (wins_of (cw_file w))) \<Longrightarrow> comm_live t w k = (case map_of (wins_of (cw_file w)) k of
     None \<Rightarrow> None | Some v \<Rightarrow> if alive t (k, v) then Some (dict_of v) else None)"
  by (auto simp: comm_live_def map_of_rows filter_get split: option.splits)


lemma comm_close_acts:
  assumes "comm_ok w" "0 \<le> we_now E"
  shows "comm_acts E (Comm_close i) w"
proof (cases "py_strip i = []")
  case True
  with assms(1) show ?thesis by (simp add: comm_acts_def comm_close_window_def)
next
  case False
  let ?i = "py_strip i"
  obtain w' where w': "load_comm E w = (Inr (read_comm E (cw_file w')), w')" "wins_of (cw_file w') = wins_of (cw_file w)"
    "cw_file w' \<noteq> None" by (rule load_comm_run)
  define wins where "wins = wins_of (cw_file w)"
  have same: "comm_ok w'" "comm_live t w' = comm_live t w" for t using assms(1) w'(2) by (simp_all add: comm_ok_def comm_live_def)
  have good: "list_all (\<lambda>(k, v). expiry_of v \<noteq> None) wins" "distinct (map fst wins)"
    using assms(1) by (simp_all add: comm_ok_def wins_def)
  note run = comm_close_window_def Let_def bindS_ok [of "load_comm E", OF w'(1)] read_comm_windows w'(2) wins_def [symmetric]
    bindS_ok [of "save_comm E _", OF save_comm_run [OF w'(3)]]
  obtain row where row: "dict_arg (dict_get wins ?i) = Inr row" "\<And>v. map_of wins ?i = Some v \<Longrightarrow> attr_dict v = Inr row"
  proof (cases "map_of wins ?i")
    case None
    then show ?thesis by (intro that [of "[]"]) (simp_all add: dict_get_def)
  next
    case (Some v)
    with map_of_SomeD [OF Some] good(1) have "expiry_of v \<noteq> None" by (auto simp: list_all_iff)
    then obtain r where r: "attr_dict v = Inr r" by (auto simp: expiry_of_def split: sum.splits)
    have "dict_arg v = Inr r" using r by (cases v) (auto split: if_splits)
    with r Some show ?thesis by (intro that [of r]) (simp_all add: dict_get_def)
  qed
  show ?thesis
  proof (cases "row = []")
    case True
    have "comm_live (we_now E) w ?i = None"
      using row(2) True
      by (auto simp: live_get [OF good(2) [unfolded wins_def]] wins_def [symmetric] dest!: alive_dict [OF assms(2)] split: option.splits)
    then have "(comm_live (we_now E) w)(?i := None) = comm_live (we_now E) w" by (simp add: fun_eq_iff)
    moreover have "comm_close_window E i w = (Inr (fail_reply ''window_not_found'' [(''window_id'', PStr ?i)]), w')"
      using False True row(1) by (simp add: run)
    ultimately show ?thesis using False same \<open>comm_live (we_now E) w ?i = None\<close> by (simp add: comm_acts_def)
  next
    case False': False
    define row' where "row' = dict_set ''closed_ts'' (PInt (we_now E)) (dict_set ''closed'' (PBool True) row)"
    define wins' where "wins' = dict_set ?i (PDict row') wins"
    define st where "st = dict_set ''updated_ts'' (PInt (we_now E)) (dict_set ''windows'' (PDict wins') (read_comm E (cw_file w')))"
    let ?w = "w'\<lparr>cw_file := Some (JVal (PDict st))\<rparr>"
    have step: "comm_close_window E i w = (Inr [(''ok'', PBool True), (''window_id'', PStr ?i), (''closed'', PBool True)], ?w)"
      using False False' row(1) by (simp add: run row'_def st_def wins'_def)
    have dead: "\<not> alive t (?i, PDict row')" for t by (simp add: alive_def row'_def)
    have o: "wins_of (cw_file ?w) = wins'" by (simp add: wins_of_def st_def)
    obtain v where v: "map_of wins ?i = Some v"
      using row(1) False' by (cases "map_of wins ?i") (auto simp: dict_get_def)
    from good(1) map_of_SomeD [OF v] have "expiry_of v \<noteq> None" by (auto simp: list_all_iff)
    then have "expiry_of (PDict row') \<noteq> None"
      by (simp add: expiry_of_def row(2) [OF v] row'_def get_int_def split: sum.splits)
    with good have ok: "comm_ok ?w"
      by (intro comm_ok_saved [OF o]) (auto simp: wins'_def dict_set_def distinct_update intro!: update_all)
    have "comm_live (we_now E) ?w k = ((comm_live (we_now E) w)(?i := None)) k" for k
      unfolding live_get [OF ok [THEN comm_ok_distinct]] o
      by (simp add: live_get [OF good(2) [unfolded wins_def]] wins_def [symmetric] wins'_def dead)
    then have "comm_live (we_now E) ?w = (comm_live (we_now E) w)(?i := None)" ..
    with ok False show ?thesis unfolding comm_acts_def comm_step.simps step by simp
  qed
qed

lemma row_copies_dicts: "\<forall>(k, v) \<in> set d. \<exists>r. v = PDict r \<Longrightarrow> row_copies d = Inr (map snd d)"
  by (induction d) auto

lemma comm_list_acts:
  assumes "comm_ok w" "0 \<le> we_now E"
  shows "comm_acts E Comm_list w"
proof -
  obtain st w' where st: "load_unexpired E w = (Inr st, w')" "dict_get st ''windows'' = PDict (comm_seen E w)"
    "wins_of (cw_file w') = wins_of (cw_file w)" "cw_file w' \<noteq> None" using assms by (rule load_unexpired_run)
  let ?w = "w'\<lparr>cw_file := Some (JVal (PDict st))\<rparr>" and ?seen = "comm_seen E w"
  have o: "wins_of (cw_file ?w) = ?seen" using st(2) by (simp add: wins_of_def)
  have ok: "comm_ok ?w" using seen_ok [OF assms(1), of E] by (intro comm_ok_saved [OF o]) auto
  have live: "comm_live (we_now E) ?w = comm_live (we_now E) w"
    by (simp add: live_saved [OF o] filter_seen seen_rows)
  define s where "s = sort_key fst ?seen"
  have d: "distinct (map fst ?seen)" using seen_ok [OF assms(1)] by blast
  have s: "distinct (map fst s)" "set s = set ?seen" "sorted (map fst s)"
    using d by (simp_all add: s_def distinct_map)
  have dicts: "\<forall>(k, v) \<in> set s. \<exists>r. v = PDict r"
    using alive_dict [OF assms(2)] unfolding s(2) by (fastforce simp: comm_seen_def)
  have rows: "comm_list_windows E w =
      (Inr [(''ok'', PBool True), (''count'', PInt (int (length (map snd s)))), (''windows'', PList (map snd s))], ?w)"
    using row_copies_dicts [OF dicts]
    by (simp add: comm_list_windows_def s_def bindS_ok [of "load_unexpired E", OF st(1)]
        bindS_ok [of "save_comm E _", OF save_comm_run [OF st(4)]] st(2))
  have get: "comm_live (we_now E) w k = Some r \<longleftrightarrow> (k, PDict r) \<in> set s" for k r
  proof -
    have "map_of ?seen k = Some (PDict r) \<longleftrightarrow> (k, PDict r) \<in> set s" using d s(2) by simp
    moreover have "map_option dict_of (map_of ?seen k) = Some r \<longleftrightarrow> map_of ?seen k = Some (PDict r)"
      using dicts s(2) map_of_SomeD [of ?seen k] by fastforce
    ultimately show ?thesis by (simp add: seen_rows map_of_rows)
  qed
  have row: "comm_live (we_now E) w (fst x) = Some (dict_of (snd x)) \<and> PDict (dict_of (snd x)) = snd x" if "x \<in> set s" for x
  proof -
    from dicts that have "\<exists>r. snd x = PDict r" by auto
    then obtain r where r: "snd x = PDict r" ..
    with that have "(fst x, PDict r) \<in> set s" by (metis prod.collapse)
    with get r show ?thesis by simp
  qed
  have "set (map fst s) = dom (comm_live (we_now E) w)"
    using row get by (force simp: dom_def)
  moreover have "map snd s = map (\<lambda>i. PDict (the (comm_live (we_now E) w i))) (map fst s)"
    by (simp add: comp_def row)
  ultimately have "comm_answer E Comm_list (comm_live (we_now E) w)
      [(''ok'', PBool True), (''count'', PInt (int (length (map snd s)))), (''windows'', PList (map snd s))]"
    using s(1,3) by (auto intro!: exI [of _ "map fst s"])
  with ok live show ?thesis unfolding comm_acts_def comm_step.simps rows by simp
qed

lemma comm_all_act: "comm_ok w \<Longrightarrow> 0 \<le> we_now E \<Longrightarrow> comm_acts E a w"
  by (cases a) (auto intro: comm_open_acts comm_is_open_acts comm_close_acts comm_list_acts)

section \<open>Each window is a lease\<close>

type_synonym timed_comm = "window_env \<times> comm_op"

definition ctimed_step :: "timed_comm \<Rightarrow> comm_world \<Rightarrow> comm_world" where
  "ctimed_step c w = snd (comm_step (fst c) (snd c) w)"

definition ctimed_at :: "timed_comm \<Rightarrow> int" where
  "ctimed_at c = we_now (fst c)"

fun ctimed_grants :: "timed_comm \<Rightarrow> string \<Rightarrow> bool" where
  "ctimed_grants (E, Comm_open kind ttl reason hosts) i = (i = comm_id E)"
| "ctimed_grants _ i = False"

definition cholder :: "string \<Rightarrow> int \<Rightarrow> comm_world \<Rightarrow> string option" where
  "cholder i t w = (if comm_live t w i = None then None else Some i)"

lemma live_None_iff: "comm_live t w i = None \<longleftrightarrow> (\<forall>v. (i, v) \<in> set (wins_of (cw_file w)) \<longrightarrow> \<not> alive t (i, v))"
  by (force simp: comm_live_def rows_of_def map_of_eq_None_iff)

lemma ctimed_acts:
  assumes "0 \<le> ctimed_at c" "comm_ok w"
  shows "comm_ok (ctimed_step c w)" "comm_live (ctimed_at c) (ctimed_step c w) = spec_comm (fst c) (snd c) (comm_live (ctimed_at c) w)"
  using comm_all_act [OF assms(2), of "fst c" "snd c"] assms(1)
  by (auto simp: ctimed_at_def ctimed_step_def comm_acts_def split: prod.splits sum.splits)

interpretation comm_lease: lease "\<lambda>c. 0 \<le> ctimed_at c" ctimed_at ctimed_grants ctimed_step comm_ok "cholder i" for i
proof
  show "comm_ok (ctimed_step c w)" if "0 \<le> ctimed_at c" "comm_ok w" for c w
    using ctimed_acts(1) [OF that] .
  show "cholder i t w = Some j" if "t \<le> t'" "cholder i t' w = Some j" for t t' w j
    using that alive_later [OF that(1)] by (auto simp: cholder_def live_None_iff split: if_splits)
  show "ctimed_grants c j \<or> cholder i (ctimed_at c) w = Some j"
    if "0 \<le> ctimed_at c" "comm_ok w" "cholder i (ctimed_at c) (ctimed_step c w) = Some j" for c w j
  proof -
    obtain E a where c: "c = (E, a)" by force
    note step = ctimed_acts(2) [OF that(1,2)]
    from that(3) have j: "j = i" "spec_comm E a (comm_live (ctimed_at c) w) i \<noteq> None"
      unfolding cholder_def step by (auto simp: c split: if_splits)
    then show ?thesis by (cases a) (auto simp: c cholder_def split: if_splits)
  qed
qed

text \<open>A window that was closed, or ran out, stays so while no opening draws its identifier again.\<close>

lemma comm_closed_for_good:
  assumes "list_all (\<lambda>c. 0 \<le> ctimed_at c) cs" "comm_ok w" "sorted (map ctimed_at cs)"
    "\<forall>c \<in> set cs. t \<le> ctimed_at c \<and> ctimed_at c \<le> t'" "t \<le> t'" "\<forall>c \<in> set cs. \<not> ctimed_grants c i"
    "comm_live t w i = None"
  shows "comm_live t' (fold ctimed_step cs w) i = None"
proof -
  have "cholder i t w \<noteq> Some i" using assms(7) by (simp add: cholder_def)
  from comm_lease.gone [OF assms(1-6) this] show ?thesis by (auto simp: cholder_def split: if_splits)
qed

section \<open>Hosts\<close>




section \<open>Property\<close>



end
