(* ===== verification/EvidenceSigning.thy ===== *)
theory EvidenceSigning
  imports PyCodec PyState
begin

text \<open>
  \<open>modules/runtime/evidence_signing.py\<close>: signed evidence packets.  Ed25519, PEM and SHA-256 come from
  libraries and are fields of the record \<open>crypto\<close>; a raw key, a signature and a file are byte strings.
\<close>

section \<open>The libraries\<close>

datatype loaded_key = Key_unreadable | Key_other | Key_ed25519 string

record crypto =
  cr_available :: bool
  cr_sha :: "string \<Rightarrow> string"
  cr_load_pub :: "string \<Rightarrow> loaded_key"
  cr_load_priv :: "string \<Rightarrow> loaded_key"
  cr_raw_ok :: "string \<Rightarrow> bool"
  cr_public :: "string \<Rightarrow> string"
  cr_pub_pem :: "string \<Rightarrow> string"
  cr_priv_pem :: "string \<Rightarrow> string"
  cr_sign :: "string \<Rightarrow> string \<Rightarrow> string"
  cr_verify :: "string \<Rightarrow> string \<Rightarrow> string \<Rightarrow> bool"

definition crypto_ok :: "crypto \<Rightarrow> bool" where
  \<comment> \<open>what Ed25519 and PEM promise: a written key is read back, and a signature verifies under its public key\<close>
  "crypto_ok C = (\<forall>sk msg. cr_load_priv C (cr_priv_pem C sk) = Key_ed25519 sk \<and>
     cr_load_pub C (cr_pub_pem C (cr_public C sk)) = Key_ed25519 (cr_public C sk) \<and>
     cr_raw_ok C (cr_public C sk) \<and> cr_public C sk \<noteq> [] \<and> length (cr_sign C sk msg) = 64 \<and>
     cr_verify C (cr_public C sk) (cr_sign C sk msg) msg)"

record key_store =
  ks_priv :: "string option"
  ks_pub :: "string option"

record key_paths =
  kp_priv :: string
  kp_pub :: string

definition code_reply :: "string \<Rightarrow> string \<Rightarrow> pydict" where
  "code_reply code err = [(''ok'', PBool False), (''error_code'', PStr code), (''error'', PStr err)]"

section \<open>Keys\<close>

definition keys_reply :: "crypto \<Rightarrow> key_paths \<Rightarrow> string \<Rightarrow> bool \<Rightarrow> pydict" where
  "keys_reply C kp pub_bytes created =
     [(''ok'', PBool True), (''private_key_path'', PStr (kp_priv kp)), (''public_key_path'', PStr (kp_pub kp)),
      (''public_key_fingerprint'', PStr (cr_sha C pub_bytes)), (''created'', PBool created)]"

definition ensure_keypair :: "crypto \<Rightarrow> key_paths \<Rightarrow> string \<Rightarrow> bool \<Rightarrow> (key_store, pydict) py_action" where
  \<comment> \<open>\<open>fresh\<close> is what \<open>Ed25519PrivateKey.generate\<close> returns\<close>
  "ensure_keypair C kp fresh overwrite =
     (if \<not> cr_available C then retS (code_reply ''ED25519_UNAVAILABLE'' ''ed25519_unavailable'')
      else bindS (readS (\<lambda>ks. Inr (ks_priv ks, ks_pub ks))) (\<lambda>(priv, pub).
        case (priv, pub, overwrite) of
          (Some _, Some pub_bytes, False) \<Rightarrow> retS (keys_reply C kp pub_bytes False)
        | _ \<Rightarrow>
          let priv_bytes = cr_priv_pem C fresh; pub_bytes = cr_pub_pem C (cr_public C fresh) in
          bindS (modifyS (\<lambda>ks. \<lparr>ks_priv = Some priv_bytes, ks_pub = Some pub_bytes\<rparr>)) (\<lambda>_.
          retS (keys_reply C kp pub_bytes True))))"

definition loaded_priv :: "crypto \<Rightarrow> key_store \<Rightarrow> py_error + loaded_key" where
  \<comment> \<open>\<open>_load_private_key\<close>: an unreadable key raises\<close>
  "loaded_priv C ks = (case ks_priv ks of
     None \<Rightarrow> Inl PyValueError
   | Some b \<Rightarrow> (case cr_load_priv C b of Key_unreadable \<Rightarrow> Inl PyValueError | k \<Rightarrow> Inr k))"

definition loaded_pub :: "crypto \<Rightarrow> key_store \<Rightarrow> py_error + loaded_key" where
  "loaded_pub C ks = (case ks_pub ks of
     None \<Rightarrow> Inl PyValueError
   | Some b \<Rightarrow> (case cr_load_pub C b of Key_unreadable \<Rightarrow> Inl PyValueError | k \<Rightarrow> Inr k))"

section \<open>Packets\<close>

definition payload_bytes :: "pydict \<Rightarrow> string" where
  \<comment> \<open>\<open>_canonical_payload\<close>\<close>
  "payload_bytes packet = ascii_text (PDict (AList.delete ''sig'' packet))"

definition packet_hash :: "crypto \<Rightarrow> pydict \<Rightarrow> string" where
  "packet_hash C packet = cr_sha C (payload_bytes packet)"

definition sig_part :: "crypto \<Rightarrow> string \<Rightarrow> string \<Rightarrow> string \<Rightarrow> pydict \<Rightarrow> pydict" where
  "sig_part C sk raw_pub key_id packet =
     [(''alg'', PStr ''ed25519''), (''key_id'', PStr (if key_id = [] then ''default'' else key_id)),
      (''pub_b64'', PStr (b64_encode raw_pub)), (''sig_b64'', PStr (b64_encode (cr_sign C sk (payload_bytes packet)))),
      (''payload_hash'', PStr (packet_hash C packet))]"

definition sign_packet :: "crypto \<Rightarrow> key_paths \<Rightarrow> string \<Rightarrow> pydict \<Rightarrow> string \<Rightarrow> (key_store, pydict) py_action" where
  "sign_packet C kp fresh packet key_id =
     (if \<not> cr_available C then retS (code_reply ''ED25519_UNAVAILABLE'' ''ed25519_unavailable'')
      else bindS (ensure_keypair C kp fresh False) (\<lambda>ensured.
        if \<not> truthy (dict_get ensured ''ok'') then retS ensured
        else
          bindS (readS (loaded_priv C)) (\<lambda>sk.
          bindS (readS (loaded_pub C)) (\<lambda>pk.
          case (sk, pk) of
            (Key_ed25519 seed, Key_ed25519 raw_pub) \<Rightarrow>
              bindS (readS (\<lambda>ks. Inr (ks_pub ks))) (\<lambda>pub_bytes.
              retS [(''ok'', PBool True),
                    (''packet'', PDict (dict_set ''sig'' (PDict (sig_part C seed raw_pub key_id packet)) packet)),
                    (''payload_hash'', PStr (packet_hash C packet)),
                    (''public_key_fingerprint'', PStr (cr_sha C (case pub_bytes of None \<Rightarrow> [] | Some b \<Rightarrow> b))),
                    (''public_key_path'', PStr (kp_pub kp)), (''private_key_path'', PStr (kp_priv kp))])
          | (Key_ed25519 seed, _) \<Rightarrow> retS (code_reply ''EVIDENCE_PUBKEY_INVALID'' ''evidence_pubkey_invalid'')
          | _ \<Rightarrow> retS (code_reply ''EVIDENCE_PRIVKEY_INVALID'' ''evidence_privkey_invalid'')))))"

definition key_of_packet :: "crypto \<Rightarrow> pydict \<Rightarrow> string option" where
  \<comment> \<open>the key a packet carries itself\<close>
  "key_of_packet C sig =
     (let pub_b64 = py_strip (get_str sig ''pub_b64'') in
      if pub_b64 = [] then None
      else (case b64_decode pub_b64 of
        None \<Rightarrow> None
      | Some raw \<Rightarrow> if cr_raw_ok C raw then Some raw else None))"

definition verifying_key :: "crypto \<Rightarrow> string option \<Rightarrow> pydict \<Rightarrow> string option" where
  \<comment> \<open>the key of the file when there is one; \<open>None\<close> stands for \<open>EVIDENCE_PUBKEY_INVALID\<close>\<close>
  "verifying_key C pub_file sig = (case pub_file of
     None \<Rightarrow> key_of_packet C sig
   | Some b \<Rightarrow> (case cr_load_pub C b of
       Key_unreadable \<Rightarrow> None
     | Key_other \<Rightarrow> key_of_packet C sig
     | Key_ed25519 raw \<Rightarrow> Some raw))"

definition verify_packet :: "crypto \<Rightarrow> string option \<Rightarrow> pydict \<Rightarrow> py_error + pydict" where
  "verify_packet C pub_file packet =
     (if \<not> cr_available C then Inr (code_reply ''ED25519_UNAVAILABLE'' ''ed25519_unavailable'')
      else bindE (dict_arg (dict_get packet ''sig'')) (\<lambda>sig.
        if sig = [] then Inr (code_reply ''EVIDENCE_SIG_REQUIRED'' ''evidence_sig_required'')
        else if py_lower (py_strip (get_str sig ''alg'')) \<noteq> ''ed25519'' then
          Inr (code_reply ''EVIDENCE_SIG_ALG_INVALID'' ''evidence_sig_alg_invalid'')
        else (case b64_decode (get_str sig ''sig_b64'') of
          None \<Rightarrow> Inr (code_reply ''EVIDENCE_SIG_INVALID'' ''evidence_sig_invalid'')
        | Some sig_raw \<Rightarrow>
            if length sig_raw \<noteq> 64 then Inr (code_reply ''EVIDENCE_SIG_INVALID'' ''evidence_sig_invalid'')
            else
              let expected = packet_hash C packet; claimed = norm_hash (get_str sig ''payload_hash'') in
              if claimed \<noteq> expected then
                Inr (code_reply ''EVIDENCE_PAYLOAD_HASH_MISMATCH'' ''evidence_payload_hash_mismatch''
                     @ [(''payload_hash'', PStr expected)])
              else (case verifying_key C pub_file sig of
                None \<Rightarrow> Inr (code_reply ''EVIDENCE_PUBKEY_INVALID'' ''evidence_pubkey_invalid'')
              | Some pk \<Rightarrow>
                  if \<not> cr_verify C pk sig_raw (payload_bytes packet) then
                    Inr (code_reply ''EVIDENCE_SIG_INVALID'' ''evidence_sig_invalid'' @ [(''payload_hash'', PStr expected)])
                  else
                    Inr [(''ok'', PBool True), (''error_code'', PStr []), (''payload_hash'', PStr expected),
                         (''key_id'', PStr (py_str (py_or (dict_get sig ''key_id'') (PStr ''default'')))),
                         (''alg'', PStr ''ed25519'')]))))"

section \<open>What is accepted\<close>

definition packet_ok :: "crypto \<Rightarrow> string option \<Rightarrow> pydict \<Rightarrow> bool" where
  "packet_ok C pub_file packet = (case verify_packet C pub_file packet of
     Inl _ \<Rightarrow> False | Inr rep \<Rightarrow> dict_get rep ''ok'' = PBool True)"

end
