(* ===== verification/L4wWitness.thy ===== *)
theory L4wWitness
  imports EvidenceSigning
begin

text \<open>
  \<open>modules/runtime/l4w_witness.py\<close>: signed envelopes that witness the clearing of a quarantine, commitments to
  what the reviewer wrote with their later disclosure, and the hash chain of envelopes per agent.  Ed25519, PEM
  and SHA-256 are the record \<open>crypto\<close> of \<open>EvidenceSigning\<close>; \<open>pub_file\<close> is the content of the public key file.
\<close>

section \<open>Hashes and paths\<close>

definition l4w_hex :: "string \<Rightarrow> bool" where
  \<comment> \<open>\<open>_is_sha256_hex\<close>\<close>
  "l4w_hex v = is_sha256_hex (norm_hash v)"

fun drop_dot_slash :: "string \<Rightarrow> string" where
  "drop_dot_slash (a # b # s) = (if a = CHR ''.'' \<and> b = CHR ''/'' then drop_dot_slash s else a # b # s)"
| "drop_dot_slash s = s"

definition normalize_rel_path :: "string \<Rightarrow> string" where
  "normalize_rel_path raw = drop_dot_slash (slashes (py_strip raw))"

definition envelope_hash_input :: "pydict \<Rightarrow> py_error + pydict" where
  "envelope_hash_input env =
     bindE (dict_arg (dict_get env ''chain'')) (\<lambda>ch.
     Inr (dict_set ''chain'' (PDict (AList.delete ''envelope_hash'' ch)) (AList.delete ''sig'' env)))"

definition envelope_sig_input :: "pydict \<Rightarrow> pydict" where
  "envelope_sig_input env = AList.delete ''sig'' env"

definition compute_envelope_hash :: "crypto \<Rightarrow> pydict \<Rightarrow> py_error + string" where
  "compute_envelope_hash C env = bindE (envelope_hash_input env) (\<lambda>src. Inr (cr_sha C (ascii_text (PDict src))))"

section \<open>Commitments\<close>

definition commit_hash :: "crypto \<Rightarrow> string \<Rightarrow> pyval \<Rightarrow> py_error + string" where
  "commit_hash C salt_b64 v = (case b64_decode (py_strip salt_b64) of
     None \<Rightarrow> Inl PyValueError
   | Some salt \<Rightarrow> Inr (cr_sha C (salt @ ascii_text v)))"

definition mk_commit :: "crypto \<Rightarrow> string \<Rightarrow> pyval \<Rightarrow> py_error + string \<times> string" where
  \<comment> \<open>\<open>salt\<close> is \<open>os.urandom(16)\<close>; the salt in base 64 and the hash\<close>
  "mk_commit C salt v = (let s = b64_encode salt in bindE (commit_hash C s v) (\<lambda>h. Inr (s, h)))"

definition read_commit_hash :: "pydict \<Rightarrow> string \<Rightarrow> bool \<Rightarrow> py_error + pydict" where
  "read_commit_hash claim key required =
     bindE (dict_arg (dict_get claim key)) (\<lambda>node.
     if node = [] \<and> \<not> required then Inr [(''ok'', PBool True), (''hash'', PStr [])]
     else if node = [] then Inr (code_reply ''L4W_SCHEMA_INVALID'' (key @ ''_required''))
     else
       let alg = norm_hash (get_str node ''alg''); hval = norm_hash (get_str node ''hash'') in
       if alg \<noteq> ''sha256'' \<or> \<not> l4w_hex hval then Inr (code_reply ''L4W_SCHEMA_INVALID'' (key @ ''_invalid''))
       else Inr [(''ok'', PBool True), (''hash'', PStr hval)])"

section \<open>The shape of an envelope\<close>

definition envelope_schema :: string where
  "envelope_schema = ''ester.l4w.envelope.v1''"

definition anchor_schema :: string where
  "anchor_schema = ''ester.publisher.roster_anchor_ref.v1''"

definition bad_shape :: "string \<Rightarrow> pydict" where
  "bad_shape err = code_reply ''L4W_SCHEMA_INVALID'' err"

definition str_value :: "pyval \<Rightarrow> bool" where
  "str_value v = (case v of PStr _ \<Rightarrow> True | _ \<Rightarrow> False)"

definition anchor_issue :: "pydict \<Rightarrow> pydict option" where
  "anchor_issue anchor =
     (if anchor = [] then None
      else if get_str anchor ''schema'' \<noteq> anchor_schema then Some (bad_shape ''l4w_roster_anchor_schema_invalid'')
      else if \<not> l4w_hex (get_str anchor ''entry_hash'') \<or> \<not> l4w_hex (get_str anchor ''body_sha256'') then
        Some (bad_shape ''l4w_roster_anchor_invalid'')
      else if \<not> str_value (dict_get anchor ''roster_id'') then Some (bad_shape ''l4w_roster_anchor_invalid'')
      else None)"

definition sig_issue :: "pydict \<Rightarrow> pydict option" where
  "sig_issue sig =
     (if sig = [] then Some (code_reply ''L4W_SIG_INVALID'' ''l4w_sig_required'')
      else if norm_hash (get_str sig ''alg'') \<noteq> ''ed25519'' then Some (code_reply ''L4W_SIG_INVALID'' ''l4w_sig_alg_invalid'')
      else (case b64_decode (py_strip (get_str sig ''sig_b64'')) of
        None \<Rightarrow> Some (code_reply ''L4W_SIG_INVALID'' ''l4w_sig_invalid'')
      | Some raw \<Rightarrow> if length raw \<noteq> 64 then Some (code_reply ''L4W_SIG_INVALID'' ''l4w_sig_invalid'') else None))"

definition validate_envelope_shape :: "pydict \<Rightarrow> bool \<Rightarrow> py_error + pydict" where
  "validate_envelope_shape env require_sig =
     (if get_str env ''schema'' \<noteq> envelope_schema then Inr (bad_shape ''l4w_schema_invalid'')
      else if get_str env ''kind'' \<noteq> ''quarantine.clear'' then Inr (bad_shape ''l4w_kind_invalid'')
      else
        bindE (dict_arg (dict_get env ''subject'')) (\<lambda>subj.
        if py_strip (get_str subj ''agent_id'') = [] \<or> py_strip (get_str subj ''quarantine_event_id'') = [] then
          Inr (bad_shape ''l4w_subject_invalid'')
        else
        bindE (dict_arg (dict_get env ''evidence_ref'')) (\<lambda>eref.
        if py_strip (get_str eref ''path'') = [] \<or> \<not> l4w_hex (get_str eref ''sha256'')
           \<or> py_strip (get_str eref ''evidence_schema'') = [] then
          Inr (bad_shape ''l4w_evidence_ref_invalid'')
        else
        bindE (dict_arg (dict_get env ''claim'')) (\<lambda>claim.
        if get_str claim ''decision'' \<noteq> ''CLEAR_QUARANTINE'' then Inr (bad_shape ''l4w_claim_decision_invalid'')
        else
        bindE (read_commit_hash claim ''reviewer_commit'' True) (\<lambda>rc. if \<not> truthy (dict_get rc ''ok'') then Inr rc else
        bindE (read_commit_hash claim ''summary_commit'' True) (\<lambda>sc. if \<not> truthy (dict_get sc ''ok'') then Inr sc else
        bindE (read_commit_hash claim ''notes_commit'' False) (\<lambda>nc. if \<not> truthy (dict_get nc ''ok'') then Inr nc else
        bindE (dict_arg (dict_get env ''roster_anchor'')) (\<lambda>anchor.
        case anchor_issue anchor of Some issue \<Rightarrow> Inr issue | None \<Rightarrow>
        bindE (dict_arg (dict_get env ''chain'')) (\<lambda>chain.
        if \<not> str_value (dict_get chain ''prev_hash'') then Inr (bad_shape ''l4w_prev_hash_invalid'')
        else
          let c_hash = norm_hash (get_str chain ''envelope_hash'') in
          if c_hash \<noteq> [] \<and> \<not> l4w_hex c_hash then Inr (bad_shape ''l4w_envelope_hash_invalid'')
          else
            bindE (if require_sig then map_sum id sig_issue (dict_arg (dict_get env ''sig'')) else Inr None) (\<lambda>issue.
            case issue of Some rep \<Rightarrow> Inr rep | None \<Rightarrow>
              (case envelope_hash_input env of
                 Inl _ \<Rightarrow> Inr (bad_shape ''l4w_canonicalization_invalid'')
               | Inr _ \<Rightarrow> Inr [(''ok'', PBool True)])))))))))))"

section \<open>Building an envelope\<close>

record clear_claim =
  cc_agent :: string
  cc_event :: string
  cc_reviewer :: string
  cc_summary :: string
  cc_notes :: "string option"
  cc_path :: string
  cc_sha :: string
  cc_schema :: string
  cc_sig_ok :: bool
  cc_payload :: string
  cc_prev :: string
  cc_on_time :: bool
  cc_late :: bool
  cc_id :: string
  cc_ts :: int

record build_env =
  be_now :: int
  be_random :: string
  be_salts :: "string \<times> string \<times> string"
  be_slot :: string
  be_roster_log :: bool
  be_anchor_enable :: bool
  be_anchor_required :: bool
  be_anchor :: pydict

definition fresh_envelope_id :: "crypto \<Rightarrow> build_env \<Rightarrow> clear_claim \<Rightarrow> int \<Rightarrow> string" where
  \<comment> \<open>\<open>be_random\<close> is \<open>os.urandom(8).hex()\<close>\<close>
  "fresh_envelope_id C B q now =
     (let ent = py_strip (cc_id q) in
      if ent \<noteq> [] then ent
      else ''l4w_'' @ take 16 (cr_sha C (utf8 (py_strip (cc_agent q) @ ''|'' @ py_strip (cc_event q) @ ''|''
             @ show_int now @ ''|'' @ be_random B))))"

definition given_anchor :: "pydict \<Rightarrow> pydict" where
  "given_anchor raw =
     [(''schema'', PStr anchor_schema), (''entry_hash'', PStr (norm_hash (get_str raw ''entry_hash''))),
      (''body_sha256'', PStr (norm_hash (get_str raw ''body_sha256''))), (''roster_id'', PStr (get_str raw ''roster_id''))]"

definition chosen_anchor :: "build_env \<Rightarrow> pydict \<Rightarrow> py_error + pydict + pydict" where
  \<comment> \<open>the anchor given, or the one of the roster log (\<open>be_anchor\<close>, the reply of \<open>_resolve_roster_anchor_from_log\<close>); the
     inner left side is the refusal\<close>
  "chosen_anchor B given =
     (if given \<noteq> [] then Inr (Inr (given_anchor given))
      else
        let required = (be_anchor_required B \<or> be_slot B = ''B'' \<and> be_roster_log B);
            rep = (if be_anchor_enable B \<or> required then be_anchor B
                   else code_reply ''ROSTER_LOG_REQUIRED'' ''roster_anchor_missing'')
        in bindE (if truthy (dict_get rep ''ok'') then dict_arg (dict_get rep ''anchor'') else Inr []) (\<lambda>anchor.
           if required \<and> anchor = [] then
             Inr (Inl (code_reply (py_str (py_or (dict_get rep ''error_code'') (PStr ''ROSTER_LOG_REQUIRED'')))
                                  (py_str (py_or (dict_get rep ''error'') (PStr ''roster_anchor_required'')))))
           else Inr (Inr anchor)))"

definition checked_anchor :: "pydict \<Rightarrow> pydict option" where
  "checked_anchor anchor =
     (if anchor = [] then None
      else if get_str anchor ''schema'' \<noteq> anchor_schema then Some (bad_shape ''l4w_roster_anchor_schema_invalid'')
      else if \<not> l4w_hex (get_str anchor ''entry_hash'') \<or> \<not> l4w_hex (get_str anchor ''body_sha256'') then
        Some (bad_shape ''l4w_roster_anchor_invalid'')
      else None)"

definition commit_dict :: "string \<Rightarrow> pyval" where
  "commit_dict h = PDict [(''alg'', PStr ''sha256''), (''hash'', PStr h)]"

definition reveal_row :: "string \<Rightarrow> string \<Rightarrow> string \<Rightarrow> pyval" where
  "reveal_row p salt v = PDict [(''path'', PStr p), (''salt_b64'', PStr salt), (''value'', PStr v)]"

definition envelope_body ::
  "clear_claim \<Rightarrow> string \<Rightarrow> int \<Rightarrow> string \<Rightarrow> string \<Rightarrow> string option \<Rightarrow> string \<Rightarrow> pydict \<Rightarrow> pydict" where
  "envelope_body q ent now rh sh nh env_hash anchor =
     [(''schema'', PStr envelope_schema), (''envelope_id'', PStr ent), (''ts'', PInt now), (''kind'', PStr ''quarantine.clear''),
      (''subject'', PDict [(''agent_id'', PStr (py_strip (cc_agent q))), (''quarantine_event_id'', PStr (py_strip (cc_event q)))]),
      (''evidence_ref'', PDict [(''path'', PStr (normalize_rel_path (cc_path q))), (''sha256'', PStr (norm_hash (cc_sha q))),
         (''evidence_schema'', PStr (if cc_schema q = [] then ''ester.evidence.v1'' else cc_schema q)),
         (''evidence_sig_ok'', PBool (cc_sig_ok q)), (''evidence_payload_hash'', PStr (cc_payload q))]),
      (''claim'', PDict ([(''decision'', PStr ''CLEAR_QUARANTINE''), (''on_time'', PBool (cc_on_time q)), (''late'', PBool (cc_late q)),
         (''reviewer_commit'', commit_dict rh), (''summary_commit'', commit_dict sh)]
         @ (case nh of None \<Rightarrow> [] | Some h \<Rightarrow> [(''notes_commit'', commit_dict h)]))),
      (''chain'', PDict [(''prev_hash'', PStr (norm_hash (cc_prev q))), (''envelope_hash'', PStr env_hash)])]
     @ opt_entry (anchor \<noteq> []) ''roster_anchor'' (PDict anchor)"

definition build_envelope_for_clear :: "crypto \<Rightarrow> build_env \<Rightarrow> clear_claim \<Rightarrow> pydict \<Rightarrow> py_error + pydict" where
  "build_envelope_for_clear C B q roster_anchor =
     (let now = (if cc_ts q = 0 then be_now B else cc_ts q); ent = fresh_envelope_id C B q now;
          (salt1, salt2, salt3) = be_salts B
      in bindE (mk_commit C salt1 (PStr (cc_reviewer q))) (\<lambda>(rs, rh).
         bindE (mk_commit C salt2 (PStr (cc_summary q))) (\<lambda>(ss, sh).
         bindE (case cc_notes q of None \<Rightarrow> Inr None | Some n \<Rightarrow> map_sum id Some (mk_commit C salt3 (PStr n))) (\<lambda>notes.
         bindE (chosen_anchor B roster_anchor) (\<lambda>choice. case choice of Inl refusal \<Rightarrow> Inr refusal | Inr anchor \<Rightarrow>
         (case checked_anchor anchor of Some issue \<Rightarrow> Inr issue | None \<Rightarrow>
            let body = (\<lambda>h. envelope_body q ent now rh sh (map_option snd notes) h anchor) in
            bindE (compute_envelope_hash C (body [])) (\<lambda>env_hash.
            Inr [(''ok'', PBool True), (''envelope'', PDict (body env_hash)), (''envelope_hash'', PStr env_hash),
                 (''prev_hash'', PStr (norm_hash (cc_prev q))),
                 (''disclosure_template'', PDict [(''schema'', PStr ''ester.l4w.disclosure.v1''), (''ts'', PInt now),
                    (''envelope_hash'', PStr env_hash),
                    (''reveals'', PList ([reveal_row ''claim.reviewer'' rs (cc_reviewer q), reveal_row ''claim.summary'' ss (cc_summary q)]
                       @ (case (notes, cc_notes q) of (Some (ns, _), Some n) \<Rightarrow> [reveal_row ''claim.notes'' ns n] | _ \<Rightarrow> [])))])])))))))"

section \<open>Signing and verifying envelopes\<close>

definition raw_pub_of :: "crypto \<Rightarrow> string \<Rightarrow> string" where
  \<comment> \<open>the raw key of a key file, or its bytes when it holds none\<close>
  "raw_pub_of C b = (case cr_load_pub C b of Key_ed25519 raw \<Rightarrow> raw | _ \<Rightarrow> b)"

definition l4w_ensure_keypair :: "crypto \<Rightarrow> key_paths \<Rightarrow> string \<Rightarrow> bool \<Rightarrow> (key_store, pydict) py_action" where
  "l4w_ensure_keypair C kp fresh overwrite =
     (if \<not> cr_available C then retS (code_reply ''ED25519_UNAVAILABLE'' ''ed25519_unavailable'')
      else bindS (readS (\<lambda>ks. Inr (ks_priv ks, ks_pub ks))) (\<lambda>(priv, pub).
        case (priv, pub, overwrite) of
          (Some _, Some pub_bytes, False) \<Rightarrow> retS (keys_reply C kp (raw_pub_of C pub_bytes) False)
        | _ \<Rightarrow>
          bindS (modifyS (\<lambda>ks. \<lparr>ks_priv = Some (cr_priv_pem C fresh), ks_pub = Some (cr_pub_pem C (cr_public C fresh))\<rparr>)) (\<lambda>_.
          retS (keys_reply C kp (cr_public C fresh) True))))"

definition sign_envelope :: "crypto \<Rightarrow> key_paths \<Rightarrow> string \<Rightarrow> pydict \<Rightarrow> string \<Rightarrow> (key_store, pydict) py_action" where
  "sign_envelope C kp fresh env key_id =
     (if \<not> cr_available C then retS (code_reply ''ED25519_UNAVAILABLE'' ''ed25519_unavailable'')
      else bindS (liftS (validate_envelope_shape env False)) (\<lambda>shape.
        if \<not> truthy (dict_get shape ''ok'') then retS shape
        else
          bindS (liftS (compute_envelope_hash C env)) (\<lambda>env_hash.
          bindS (liftS (dict_arg (dict_get env ''chain''))) (\<lambda>chain.
          let src = AList.delete ''sig'' (dict_set ''chain'' (PDict (dict_set ''envelope_hash'' (PStr env_hash) chain)) env) in
          bindS (l4w_ensure_keypair C kp fresh False) (\<lambda>ensured.
          if \<not> truthy (dict_get ensured ''ok'') then retS ensured
          else bindS (readS (\<lambda>ks. Inr (loaded_priv C ks, loaded_pub C ks))) (\<lambda>keys.
            case keys of
              (Inr (Key_ed25519 sk), Inr (Key_ed25519 raw_pub)) \<Rightarrow>
                let fp = cr_sha C raw_pub; kid = (if key_id = [] then ''default'' else key_id);
                    sig = [(''alg'', PStr ''ed25519''), (''key_id'', PStr kid), (''pub_fingerprint'', PStr fp),
                           (''sig_b64'', PStr (b64_encode (cr_sign C sk (ascii_text (PDict (envelope_sig_input src))))))]
                in retS [(''ok'', PBool True), (''envelope'', PDict (dict_set ''sig'' (PDict sig) src)),
                         (''envelope_hash'', PStr env_hash), (''pub_fingerprint'', PStr fp), (''key_id'', PStr kid)]
            | (Inr _, Inr _) \<Rightarrow> retS (code_reply ''L4W_SIG_INVALID'' ''l4w_key_invalid'')
            | _ \<Rightarrow> retS (code_reply ''L4W_SIG_INVALID'' ''l4w_key_load_failed'')))))))"

definition sig_refused :: "string \<Rightarrow> string \<Rightarrow> pydict" where
  "sig_refused err env_hash = code_reply ''L4W_SIG_INVALID'' err @ [(''envelope_hash'', PStr env_hash)]"

definition verify_envelope :: "crypto \<Rightarrow> string option \<Rightarrow> pydict \<Rightarrow> py_error + pydict" where
  "verify_envelope C pub_file env =
     (if \<not> cr_available C then Inr (code_reply ''ED25519_UNAVAILABLE'' ''ed25519_unavailable'')
      else bindE (validate_envelope_shape env True) (\<lambda>shape.
        if \<not> truthy (dict_get shape ''ok'') then Inr shape
        else
          bindE (compute_envelope_hash C env) (\<lambda>env_hash.
          bindE (dict_arg (dict_get env ''chain'')) (\<lambda>chain.
          let claimed = norm_hash (get_str chain ''envelope_hash'') in
          if claimed \<noteq> env_hash then
            Inr (code_reply ''L4W_HASH_MISMATCH'' ''l4w_hash_mismatch''
                 @ [(''envelope_hash'', PStr env_hash), (''claimed_hash'', PStr claimed)])
          else
            bindE (dict_arg (dict_get env ''sig'')) (\<lambda>sig.
            case b64_decode (get_str sig ''sig_b64'') of None \<Rightarrow> Inr (sig_refused ''l4w_sig_invalid'' env_hash) | Some sig_raw \<Rightarrow>
            (case pub_file of None \<Rightarrow> Inr (sig_refused ''l4w_pubkey_missing'' env_hash) | Some b \<Rightarrow>
            (case cr_load_pub C b of
               Key_ed25519 pk \<Rightarrow>
                 if \<not> cr_verify C pk sig_raw (ascii_text (PDict (envelope_sig_input env))) then
                   Inr (sig_refused ''l4w_sig_invalid'' env_hash)
                 else
                   let fp = cr_sha C pk; claimed_fp = norm_hash (get_str sig ''pub_fingerprint'') in
                   if claimed_fp \<noteq> [] \<and> claimed_fp \<noteq> fp then
                     Inr (sig_refused ''l4w_pub_fingerprint_mismatch'' env_hash @ [(''pub_fingerprint'', PStr fp)])
                   else
                     Inr [(''ok'', PBool True), (''error_code'', PStr []), (''envelope_hash'', PStr env_hash),
                          (''pub_fingerprint'', PStr fp),
                          (''key_id'', PStr (py_str (py_or (dict_get sig ''key_id'') (PStr ''default'')))),
                          (''alg'', PStr ''ed25519'')]
             | _ \<Rightarrow> Inr (sig_refused ''l4w_pubkey_invalid'' env_hash))))))))"

end
