(* ===== verification/L4wChain.thy ===== *)
theory L4wChain
  imports L4wWitness
begin

text \<open>
  \<open>modules/runtime/l4w_witness.py\<close>, second part: disclosures of what an envelope commits to, the paths of
  envelopes, the chain of envelope hashes kept per agent (one file of JSON lines each), and its status.
\<close>

section \<open>Disclosures\<close>

definition expected_hash :: "pydict \<Rightarrow> string \<Rightarrow> py_error + string" where
  "expected_hash claim key = map_sum id (\<lambda>d. norm_hash (get_str d ''hash'')) (dict_arg (dict_get claim key))"

definition expected_hashes :: "pydict \<Rightarrow> py_error + (string \<times> string) list" where
  "expected_hashes claim =
     bindE (expected_hash claim ''reviewer_commit'') (\<lambda>r.
     bindE (expected_hash claim ''summary_commit'') (\<lambda>s.
     bindE (expected_hash claim ''notes_commit'') (\<lambda>n.
     Inr [(''claim.reviewer'', r), (''claim.summary'', s), (''claim.notes'', n)])))"

definition check_reveal :: "crypto \<Rightarrow> (string \<times> string) list \<Rightarrow> pydict \<Rightarrow> string \<times> bool" where
  \<comment> \<open>the path, and whether value and salt hash to what the envelope holds\<close>
  "check_reveal C expected row =
     (let p = py_strip (get_str row ''path''); salt = py_strip (get_str row ''salt_b64'');
          e = norm_hash (case map_of expected p of None \<Rightarrow> [] | Some h \<Rightarrow> h)
      in (p, e \<noteq> [] \<and> commit_hash C salt (dict_get row ''value'') = Inr e))"

fun check_reveals :: "crypto \<Rightarrow> (string \<times> string) list \<Rightarrow> pyval list \<Rightarrow> bool \<Rightarrow> pydict \<Rightarrow> bool \<times> pydict" where
  "check_reveals C expected [] ok which = (ok, which)"
| "check_reveals C expected (PDict row # rows) ok which =
     (case check_reveal C expected row of
       (p, hit) \<Rightarrow> check_reveals C expected rows (ok \<and> hit) (dict_set p (PBool hit) which))"
| "check_reveals C expected (_ # rows) ok which = check_reveals C expected rows False which"

definition disclosure_refused :: "string \<Rightarrow> string \<Rightarrow> pydict \<Rightarrow> pydict" where
  "disclosure_refused code err which = code_reply code err @ [(''which_paths_ok'', PDict which)]"

definition verify_disclosure_sig :: "crypto \<Rightarrow> string option \<Rightarrow> pydict \<Rightarrow> py_error + pydict" where
  "verify_disclosure_sig C pub_file disclosure =
     bindE (dict_arg (dict_get disclosure ''sig'')) (\<lambda>sig.
     let bad = (\<lambda>err. Inr (code_reply ''L4W_SCHEMA_INVALID'' err)) in
     if sig = [] then Inr [(''ok'', PBool True), (''sig_present'', PBool False)]
     else if \<not> cr_available C then Inr (code_reply ''ED25519_UNAVAILABLE'' ''ed25519_unavailable'')
     else if norm_hash (get_str sig ''alg'') \<noteq> ''ed25519'' then bad ''disclosure_sig_alg_invalid''
     else (case b64_decode (py_strip (get_str sig ''sig_b64'')) of None \<Rightarrow> bad ''disclosure_sig_invalid'' | Some raw \<Rightarrow>
       if length raw \<noteq> 64 then bad ''disclosure_sig_invalid''
       else (case pub_file of None \<Rightarrow> bad ''disclosure_pubkey_missing'' | Some b \<Rightarrow>
         (case cr_load_pub C b of
            Key_ed25519 pk \<Rightarrow>
              if cr_verify C pk raw (ascii_text (PDict (AList.delete ''sig'' disclosure))) then
                Inr [(''ok'', PBool True), (''sig_present'', PBool True)]
              else bad ''disclosure_sig_invalid''
          | _ \<Rightarrow> bad ''disclosure_pubkey_invalid''))))"

fun reveal_copies :: "pyval list \<Rightarrow> pyval list" where
  "reveal_copies [] = []"
| "reveal_copies (PDict row # rows) =
     PDict [(''path'', PStr (get_str row ''path'')), (''salt_b64'', PStr (get_str row ''salt_b64'')),
            (''value'', dict_get row ''value'')] # reveal_copies rows"
| "reveal_copies (_ # rows) = reveal_copies rows"

definition build_disclosure ::
  "crypto \<Rightarrow> key_paths \<Rightarrow> string \<Rightarrow> int \<Rightarrow> string \<Rightarrow> pyval list \<Rightarrow> int \<Rightarrow> bool \<Rightarrow> string \<Rightarrow> (key_store, pydict) py_action" where
  "build_disclosure C kp fresh now envelope_hash reveals ts sign key_id =
     (let out = [(''schema'', PStr ''ester.l4w.disclosure.v1''), (''ts'', PInt (if ts = 0 then now else ts)),
                 (''envelope_hash'', PStr (norm_hash envelope_hash)), (''reveals'', PList (reveal_copies reveals))];
          unsigned = (\<lambda>code. retS (out @ [(''sig_error_code'', PStr code)]))
      in if \<not> sign then retS out
         else if \<not> cr_available C then unsigned ''ED25519_UNAVAILABLE''
         else
           bindS (l4w_ensure_keypair C kp fresh False) (\<lambda>ensured.
           if \<not> truthy (dict_get ensured ''ok'') then
             unsigned (py_str (py_or (dict_get ensured ''error_code'') (PStr ''ED25519_UNAVAILABLE'')))
           else bindS (readS (\<lambda>ks. Inr (loaded_priv C ks, loaded_pub C ks))) (\<lambda>keys.
             case keys of
               (Inr (Key_ed25519 sk), Inr (Key_ed25519 raw_pub)) \<Rightarrow>
                 retS (out @ [(''sig'', PDict [(''alg'', PStr ''ed25519''),
                   (''key_id'', PStr (if key_id = [] then ''default'' else key_id)),
                   (''sig_b64'', PStr (b64_encode (cr_sign C sk (ascii_text (PDict out))))),
                   (''pub_fingerprint'', PStr (cr_sha C raw_pub))])])
             | _ \<Rightarrow> unsigned ''L4W_SCHEMA_INVALID'')))"

definition verify_disclosure :: "crypto \<Rightarrow> string option \<Rightarrow> pydict \<Rightarrow> pydict \<Rightarrow> py_error + pydict" where
  "verify_disclosure C pub_file env disclosure =
     bindE (verify_envelope C pub_file env) (\<lambda>rep.
     let bad = (\<lambda>err. Inr (disclosure_refused ''L4W_SCHEMA_INVALID'' err [])) in
     if \<not> truthy (dict_get rep ''ok'') then
       Inr (disclosure_refused (py_str (py_or (dict_get rep ''error_code'') (PStr ''L4W_SIG_INVALID'')))
              (py_str (py_or (dict_get rep ''error'') (PStr ''envelope_invalid''))) [])
     else if get_str disclosure ''schema'' \<noteq> ''ester.l4w.disclosure.v1'' then bad ''disclosure_schema_invalid''
     else if norm_hash (get_str disclosure ''envelope_hash'') \<noteq> get_str rep ''envelope_hash'' then
       bad ''disclosure_envelope_hash_mismatch''
     else
       bindE (list_arg (dict_get disclosure ''reveals'')) (\<lambda>reveals.
       if reveals = [] then bad ''disclosure_reveals_required''
       else
         bindE (dict_arg (dict_get env ''claim'')) (\<lambda>claim.
         bindE (expected_hashes claim) (\<lambda>expected.
         case check_reveals C expected reveals True [] of (ok, which) \<Rightarrow>
           bindE (verify_disclosure_sig C pub_file disclosure) (\<lambda>sv.
           if \<not> truthy (dict_get sv ''ok'') then
             Inr (disclosure_refused (py_str (py_or (dict_get sv ''error_code'') (PStr ''L4W_SCHEMA_INVALID'')))
                    (py_str (py_or (dict_get sv ''error'') (PStr ''disclosure_sig_invalid''))) which)
           else
             Inr [(''ok'', PBool ok), (''error_code'', PStr (if ok then [] else ''L4W_SCHEMA_INVALID'')),
                  (''which_paths_ok'', PDict which), (''envelope_hash'', PStr (get_str rep ''envelope_hash'')),
                  (''sig_present'', PBool (truthy (dict_get sv ''sig_present'')))])))))"

section \<open>Paths of envelopes\<close>

definition resolve_envelope_path :: "string list \<Rightarrow> string \<Rightarrow> pydict + (string list \<times> string)" where
  \<comment> \<open>the refusal, or the resolved path and its name below the root\<close>
  "resolve_envelope_path root envelope_path =
     (let raw = py_strip envelope_path; p = resolve_path root raw in
      if raw = [] then Inl (code_reply ''L4W_REQUIRED'' ''l4w_required'')
      else if \<not> path_within p root then
        Inl (code_reply ''L4W_PATH_FORBIDDEN'' ''l4w_path_forbidden''
             @ [(''l4w_root'', PStr (path_text root)), (''envelope_path'', PStr (path_text p))])
      else Inr (p, rel_text root p))"

section \<open>The chain of an agent\<close>

type_synonym chain_store = "string \<Rightarrow> jtext list option"

definition safe_agent_file :: "string \<Rightarrow> string" where
  "safe_agent_file agent_id =
     (let raw = py_strip agent_id in
      map (\<lambda>c. if id_char c then c else CHR ''_'') (if raw = [] then ''unknown'' else raw))"

definition read_chain_records :: "string \<Rightarrow> chain_store \<Rightarrow> pydict list" where
  "read_chain_records agent_id s = (case s (safe_agent_file agent_id) of None \<Rightarrow> [] | Some ls \<Rightarrow> rows_lenient ls)"

definition chain_head :: "string \<Rightarrow> chain_store \<Rightarrow> py_error + pydict" where
  "chain_head agent_id s =
     (let rows = read_chain_records agent_id s in
      if rows = [] then
        Inr [(''ok'', PBool True), (''has_head'', PBool False), (''envelope_hash'', PStr []), (''prev_hash'', PStr []), (''ts'', PInt 0)]
      else
        let last_row = last rows in
        bindE (get_int last_row ''ts'' 0) (\<lambda>ts.
        Inr [(''ok'', PBool True), (''has_head'', PBool True),
             (''envelope_hash'', PStr (norm_hash (get_str last_row ''envelope_hash''))),
             (''prev_hash'', PStr (norm_hash (get_str last_row ''prev_hash''))), (''ts'', PInt ts), (''record'', PDict last_row)]))"

definition hash_pair :: "string \<Rightarrow> string \<Rightarrow> pydict" where
  "hash_pair expected provided = [(''expected_prev_hash'', PStr expected), (''provided_prev_hash'', PStr provided)]"

definition verify_chain_prev_hash :: "string \<Rightarrow> string \<Rightarrow> chain_store \<Rightarrow> py_error + pydict" where
  "verify_chain_prev_hash agent_id prev_hash s =
     bindE (chain_head agent_id s) (\<lambda>hd.
     let prev = norm_hash prev_hash; expected = norm_hash (get_str hd ''envelope_hash'') in
     if \<not> truthy (dict_get hd ''ok'') then Inr (code_reply ''L4W_CHAIN_BROKEN'' ''l4w_chain_head_error'')
     else if \<not> truthy (dict_get hd ''has_head'') then
       (if prev \<noteq> [] then
          Inr (code_reply ''L4W_CHAIN_BROKEN'' ''l4w_chain_genesis_prev_hash_required_empty'' @ hash_pair [] prev)
        else Inr ((''ok'', PBool True) # hash_pair [] prev))
     else if prev \<noteq> expected then
       Inr (code_reply ''L4W_CHAIN_BROKEN'' ''l4w_chain_prev_hash_mismatch'' @ hash_pair expected prev)
     else Inr ((''ok'', PBool True) # hash_pair expected prev))"

definition append_chain_line :: "string \<Rightarrow> pydict \<Rightarrow> chain_store \<Rightarrow> chain_store" where
  "append_chain_line name row s =
     s(name \<mapsto> (case s name of None \<Rightarrow> [] | Some ls \<Rightarrow> ls) @ [JVal (PDict row)])"

record chain_entry =
  ce_event :: string
  ce_envelope_id :: string
  ce_envelope_hash :: string
  ce_prev_hash :: string
  ce_path :: string
  ce_sha :: string
  ce_ts :: int

definition chain_row :: "string \<Rightarrow> int \<Rightarrow> chain_entry \<Rightarrow> pydict" where
  "chain_row aid now e =
     [(''ts'', PInt (if ce_ts e = 0 then now else ce_ts e)), (''agent_id'', PStr aid), (''quarantine_event_id'', PStr (ce_event e)),
      (''envelope_id'', PStr (ce_envelope_id e)), (''envelope_hash'', PStr (norm_hash (ce_envelope_hash e))),
      (''prev_hash'', PStr (norm_hash (ce_prev_hash e))), (''envelope_path'', PStr (ce_path e)),
      (''envelope_sha256'', PStr (norm_hash (ce_sha e)))]"

definition append_chain_record :: "string \<Rightarrow> int \<Rightarrow> string \<Rightarrow> chain_entry \<Rightarrow> (chain_store, pydict) py_action" where
  "append_chain_record chain_dir now agent_id e =
     (let aid = py_strip agent_id; broken = (\<lambda>err. retS (code_reply ''L4W_CHAIN_BROKEN'' err)) in
      if aid = [] then broken ''agent_id_required''
      else if \<not> l4w_hex (ce_envelope_hash e) then broken ''envelope_hash_invalid''
      else if norm_hash (ce_prev_hash e) \<noteq> [] \<and> \<not> l4w_hex (ce_prev_hash e) then broken ''prev_hash_invalid''
      else
        let row = chain_row aid now e in
        bindS (readS (verify_chain_prev_hash aid (ce_prev_hash e))) (\<lambda>chk.
        if \<not> truthy (dict_get chk ''ok'') then retS chk
        else
          bindS (modifyS (append_chain_line (safe_agent_file aid) row)) (\<lambda>_.
          retS [(''ok'', PBool True), (''record'', PDict row),
                (''chain_path'', PStr (chain_dir @ ''/'' @ safe_agent_file aid @ ''.jsonl''))])))"

section \<open>Status\<close>

record chain_totals =
  ct_agents :: nat
  ct_records :: nat
  ct_last_ts :: int
  ct_last_hash :: string
  ct_last_prev :: string

definition no_totals :: chain_totals where
  "no_totals = \<lparr>ct_agents = 0, ct_records = 0, ct_last_ts = 0, ct_last_hash = [], ct_last_prev = []\<rparr>"

fun add_chains :: "jtext list list \<Rightarrow> chain_totals \<Rightarrow> py_error + chain_totals" where
  "add_chains [] t = Inr t"
| "add_chains (ls # logs) t =
     (let rows = rows_lenient ls in
      if rows = [] then add_chains logs t
      else
        let t' = t\<lparr>ct_agents := ct_agents t + 1, ct_records := ct_records t + length rows\<rparr>; tail = last rows in
        bindE (get_int tail ''ts'' 0) (\<lambda>ts.
        add_chains logs (if ct_last_ts t \<le> ts then
            t'\<lparr>ct_last_ts := ts, ct_last_hash := get_str tail ''envelope_hash'', ct_last_prev := get_str tail ''prev_hash''\<rparr>
          else t')))"

definition chain_totals_dict :: "chain_totals \<Rightarrow> string \<Rightarrow> pydict" where
  "chain_totals_dict t err =
     [(''agents_tracked'', PInt (int (ct_agents t))), (''total_records'', PInt (int (ct_records t))),
      (''last_envelope_ts'', PInt (ct_last_ts t)), (''last_envelope_hash'', PStr (ct_last_hash t)),
      (''last_prev_hash'', PStr (ct_last_prev t)), (''last_error'', PStr err)]"

definition build_chain_status :: "string list \<Rightarrow> chain_store \<Rightarrow> py_error + pydict" where
  \<comment> \<open>\<open>names\<close> are the chain files of the directory, sorted\<close>
  "build_chain_status names s =
     bindE (add_chains (map (\<lambda>n. case s n of None \<Rightarrow> [] | Some ls \<Rightarrow> ls) names) no_totals) (\<lambda>t. Inr (chain_totals_dict t []))"

end
