(* ===== verification/QuarState.thy ===== *)
theory QuarState
  imports L4wChain
begin

text \<open>
  \<open>modules/runtime/drift_quarantine.py\<close>, first part: the settings, the rows of \<open>quarantine_state.json\<close> with their
  normalisation, the state file and its cache, the event log, and the count of failures that switches the
  enforcing slot off.  One operation sees one instant (\<open>qe_now\<close>, \<open>qe_mono\<close> in nanoseconds).  Keys of a stored row
  that the program does not know are dropped when it is read; a save that fails is not represented.
\<close>

section \<open>Environment and world\<close>

record audit_info =
  au_ts :: int
  au_profile :: string
  au_ok :: bool
  au_error :: string

record quar_env =
  qe_getenv :: "string \<Rightarrow> string option"
  qe_now :: int
  qe_mono :: int
  qe_crypto :: crypto
  qe_json :: "string \<Rightarrow> pyval option"
  qe_files :: "string list \<Rightarrow> string option"
  qe_evidence_root :: "string list"
  qe_envelope_root :: "string list"
  qe_chain_dir :: string
  qe_evidence_pub :: "string option"
  qe_l4w_pub :: "string option"
  qe_last_seen :: "jtext option"
  qe_get_agent :: "string \<Rightarrow> py_error + pydict"
  qe_resolve_allowlist :: "pydict \<Rightarrow> py_error + pydict"
  qe_list_agents :: "py_error + pydict"
  qe_chain_names :: "string list"
  qe_audit :: audit_info
  qe_exc_text :: "py_error \<Rightarrow> string"
  qe_elapsed :: int

definition q_env_int :: "quar_env \<Rightarrow> string \<Rightarrow> int \<Rightarrow> int \<Rightarrow> int" where
  \<comment> \<open>\<open>_env_int\<close>\<close>
  "q_env_int E name dflt min_value =
     max min_value (case parse_int (str_or (qe_getenv E name) (show_int dflt)) of None \<Rightarrow> dflt | Some i \<Rightarrow> i)"

definition q_env_bool :: "quar_env \<Rightarrow> string \<Rightarrow> bool \<Rightarrow> bool" where
  \<comment> \<open>\<open>_env_bool\<close>\<close>
  "q_env_bool E name dflt =
     (py_lower (py_strip (str_or (qe_getenv E name) (if dflt then ''1'' else ''0''))) \<in> {''1'', ''true'', ''yes'', ''on'', ''y''})"

definition raw_slot :: "quar_env \<Rightarrow> string" where
  "raw_slot E = (if py_upper (py_strip (str_or (qe_getenv E ''ESTER_VOLITION_SLOT'') ''A'')) = ''B'' then ''B'' else ''A'')"

definition fail_max :: "quar_env \<Rightarrow> int" where
  "fail_max E = q_env_int E ''ESTER_QUARANTINE_FAIL_MAX'' 3 1"

definition challenge_sec :: "quar_env \<Rightarrow> int" where
  "challenge_sec E =
     (let v = (case parse_int (str_or (qe_getenv E ''ESTER_QUARANTINE_CHALLENGE_SEC'') ''3600'') of None \<Rightarrow> 3600 | Some i \<Rightarrow> i)
      in max 60 (if v \<le> 0 then 3600 else v))"

definition slot_default :: "quar_env \<Rightarrow> string \<Rightarrow> string \<Rightarrow> bool" where
  \<comment> \<open>a switch that is on in slot B unless the environment says otherwise\<close>
  "slot_default E name slot =
     (if py_strip (str_or (qe_getenv E name) []) \<noteq> [] then q_env_bool E name (slot = ''B'') else slot = ''B'')"

definition evidence_sig_required :: "quar_env \<Rightarrow> string \<Rightarrow> bool" where
  "evidence_sig_required E slot = slot_default E ''ESTER_EVIDENCE_SIG_REQUIRED'' slot"

definition l4w_required :: "quar_env \<Rightarrow> string \<Rightarrow> bool" where
  "l4w_required E slot = slot_default E ''ESTER_L4W_REQUIRED'' slot"

definition l4w_chain_enforced :: "quar_env \<Rightarrow> string \<Rightarrow> bool" where
  "l4w_chain_enforced E slot =
     (if q_env_bool E ''ESTER_L4W_CHAIN_DISABLED'' False then False else slot_default E ''ESTER_L4W_CHAIN_REQUIRED'' slot)"

section \<open>Rows\<close>

record evidence_info =
  ev_path :: string
  ev_sha :: string
  ev_schema :: string
  ev_created :: int
  ev_reviewer :: string
  ev_summary :: string
  ev_note :: string
  ev_sig_ok :: bool
  ev_sig_alg :: string
  ev_sig_key :: string
  ev_sig_error :: string
  ev_payload :: string

record l4w_info =
  lw_path :: string
  lw_sha :: string
  lw_hash :: string
  lw_prev :: string
  lw_fingerprint :: string

record cleared_info =
  cl_ts :: int
  cl_event :: string
  cl_chain :: string
  cl_by :: string
  cl_reason :: string
  cl_on_time :: bool
  cl_late :: bool
  cl_deadline :: int
  cl_cleared_ts :: int
  cl_evidence :: evidence_info
  cl_l4w :: l4w_info

record quar_row =
  qr_agent :: string
  qr_active :: bool
  qr_since :: int
  qr_event :: string
  qr_kind :: string
  qr_severity :: string
  qr_reason :: string
  qr_template :: string
  qr_caps :: string
  qr_computed :: string
  qr_stored :: string
  qr_added :: "string list"
  qr_removed :: "string list"
  qr_last_seen :: int
  qr_open :: int
  qr_deadline :: int
  qr_sec :: int
  qr_expired :: bool
  qr_expired_ts :: int
  qr_expired_event :: string
  qr_cleared :: cleared_info

definition no_evidence :: evidence_info where
  "no_evidence = \<lparr>ev_path = [], ev_sha = [], ev_schema = [], ev_created = 0, ev_reviewer = [], ev_summary = [], ev_note = [],
     ev_sig_ok = False, ev_sig_alg = [], ev_sig_key = [], ev_sig_error = [], ev_payload = []\<rparr>"

definition no_l4w :: l4w_info where
  "no_l4w = \<lparr>lw_path = [], lw_sha = [], lw_hash = [], lw_prev = [], lw_fingerprint = []\<rparr>"

definition not_cleared :: cleared_info where
  "not_cleared = \<lparr>cl_ts = 0, cl_event = [], cl_chain = [], cl_by = [], cl_reason = [], cl_on_time = False, cl_late = False,
     cl_deadline = 0, cl_cleared_ts = 0, cl_evidence = no_evidence, cl_l4w = no_l4w\<rparr>"

definition row_defaults :: "quar_env \<Rightarrow> string \<Rightarrow> quar_row" where
  "row_defaults E aid = \<lparr>qr_agent = aid, qr_active = False, qr_since = 0, qr_event = [], qr_kind = [], qr_severity = [],
     qr_reason = [], qr_template = [], qr_caps = [], qr_computed = [], qr_stored = [], qr_added = [], qr_removed = [],
     qr_last_seen = 0, qr_open = 0, qr_deadline = 0, qr_sec = challenge_sec E, qr_expired = False, qr_expired_ts = 0,
     qr_expired_event = [], qr_cleared = not_cleared\<rparr>"

definition evidence_dict :: "evidence_info \<Rightarrow> pydict" where
  "evidence_dict e =
     [(''evidence_path'', PStr (ev_path e)), (''evidence_sha256'', PStr (ev_sha e)), (''evidence_schema'', PStr (ev_schema e)),
      (''evidence_created_ts'', PInt (ev_created e)), (''reviewer'', PStr (ev_reviewer e)),
      (''evidence_summary'', PStr (take 200 (ev_summary e))), (''evidence_note'', PStr (take 200 (ev_note e))),
      (''evidence_sig_ok'', PBool (ev_sig_ok e)), (''evidence_sig_alg'', PStr (ev_sig_alg e)),
      (''evidence_sig_key_id'', PStr (ev_sig_key e)), (''evidence_sig_error_code'', PStr (ev_sig_error e)),
      (''evidence_payload_hash'', PStr (ev_payload e))]"

definition l4w_dict :: "l4w_info \<Rightarrow> pydict" where
  "l4w_dict l =
     [(''l4w_envelope_path'', PStr (lw_path l)), (''l4w_envelope_sha256'', PStr (lw_sha l)), (''l4w_envelope_hash'', PStr (lw_hash l)),
      (''l4w_prev_hash'', PStr (lw_prev l)), (''l4w_pub_fingerprint'', PStr (lw_fingerprint l))]"

definition cleared_dict :: "cleared_info \<Rightarrow> pydict" where
  "cleared_dict c =
     [(''ts'', PInt (cl_ts c)), (''event_id'', PStr (cl_event c)), (''chain_id'', PStr (cl_chain c)), (''by'', PStr (cl_by c)),
      (''reason'', PStr (cl_reason c)), (''on_time'', PBool (cl_on_time c)), (''late'', PBool (cl_late c)),
      (''deadline_ts'', PInt (cl_deadline c)), (''cleared_ts'', PInt (cl_cleared_ts c))]
     @ evidence_dict (cl_evidence c) @ l4w_dict (cl_l4w c)"

definition str_list :: "string list \<Rightarrow> pyval" where
  "str_list xs = PList (map PStr xs)"

definition row_dict :: "quar_row \<Rightarrow> pydict" where
  "row_dict r =
     [(''agent_id'', PStr (qr_agent r)), (''active'', PBool (qr_active r)), (''since_ts'', PInt (qr_since r)),
      (''event_id'', PStr (qr_event r)), (''kind'', PStr (qr_kind r)), (''severity'', PStr (qr_severity r)),
      (''reason_code'', PStr (qr_reason r)), (''template_id'', PStr (qr_template r)), (''caps_hash'', PStr (qr_caps r)),
      (''computed_hash'', PStr (qr_computed r)), (''stored_hash'', PStr (qr_stored r)), (''added'', str_list (qr_added r)),
      (''removed'', str_list (qr_removed r)), (''last_seen_ts'', PInt (qr_last_seen r)), (''challenge_open_ts'', PInt (qr_open r)),
      (''challenge_deadline_ts'', PInt (qr_deadline r)), (''challenge_sec'', PInt (qr_sec r)), (''expired'', PBool (qr_expired r)),
      (''expired_ts'', PInt (qr_expired_ts r)), (''expired_event_id'', PStr (qr_expired_event r)),
      (''cleared'', PDict (cleared_dict (qr_cleared r)))]"

section \<open>Normalisation\<close>

definition settle_evidence :: "evidence_info \<Rightarrow> evidence_info" where
  "settle_evidence e = e\<lparr>ev_sha := py_lower (ev_sha e), ev_created := max 0 (ev_created e),
     ev_summary := take 200 (ev_summary e), ev_note := take 200 (ev_note e)\<rparr>"

definition settle_l4w :: "l4w_info \<Rightarrow> l4w_info" where
  "settle_l4w l = l\<lparr>lw_sha := py_lower (lw_sha l), lw_hash := py_lower (lw_hash l), lw_prev := py_lower (lw_prev l),
     lw_fingerprint := py_lower (lw_fingerprint l)\<rparr>"

definition settle_cleared :: "cleared_info \<Rightarrow> cleared_info" where
  "settle_cleared c = c\<lparr>cl_ts := max 0 (cl_ts c), cl_deadline := max 0 (cl_deadline c), cl_cleared_ts := max 0 (cl_cleared_ts c),
     cl_evidence := settle_evidence (cl_evidence c), cl_l4w := settle_l4w (cl_l4w c)\<rparr>"

definition short_list :: "string list \<Rightarrow> string list" where
  "short_list xs = filter (\<lambda>s. py_strip s \<noteq> []) (take 10 xs)"

definition settled_sec :: "quar_env \<Rightarrow> quar_row \<Rightarrow> int" where
  "settled_sec E r = max 60 (if qr_sec r = 0 then challenge_sec E else qr_sec r)"

definition settled_open :: "quar_env \<Rightarrow> quar_row \<Rightarrow> int" where
  "settled_open E r =
     (let since = max 0 (qr_since r); op = max 0 (qr_open r) in
      if qr_active r \<and> op \<le> 0 then (if since = 0 then qe_now E else since) else op)"

definition settled_deadline :: "quar_env \<Rightarrow> quar_row \<Rightarrow> int" where
  "settled_deadline E r =
     (let dl = max 0 (qr_deadline r); op = settled_open E r in
      if qr_active r \<and> dl \<le> 0 then (if op = 0 then qe_now E else op) + settled_sec E r else dl)"

definition settle_row :: "quar_env \<Rightarrow> string \<Rightarrow> quar_row \<Rightarrow> quar_row" where
  \<comment> \<open>\<open>_normalize_state_entry\<close> once every field has its type\<close>
  "settle_row E aid r =
     r\<lparr>qr_agent := (if qr_agent r = [] then aid else qr_agent r), qr_since := max 0 (qr_since r),
       qr_added := short_list (qr_added r), qr_removed := short_list (qr_removed r),
       qr_last_seen := max 0 (qr_last_seen r), qr_open := settled_open E r, qr_deadline := settled_deadline E r,
       qr_sec := settled_sec E r, qr_expired_ts := max 0 (qr_expired_ts r), qr_cleared := settle_cleared (qr_cleared r)\<rparr>"

definition get_strs :: "pydict \<Rightarrow> string \<Rightarrow> py_error + string list" where
  "get_strs d k = map_sum id (map py_str) (list_arg (dict_get d k))"

definition read_evidence :: "pydict \<Rightarrow> py_error + evidence_info" where
  "read_evidence d =
     bindE (get_int d ''evidence_created_ts'' 0) (\<lambda>created.
     Inr \<lparr>ev_path = get_str d ''evidence_path'', ev_sha = get_str d ''evidence_sha256'', ev_schema = get_str d ''evidence_schema'',
       ev_created = created, ev_reviewer = get_str d ''reviewer'', ev_summary = get_str d ''evidence_summary'',
       ev_note = get_str d ''evidence_note'', ev_sig_ok = truthy (dict_get d ''evidence_sig_ok''),
       ev_sig_alg = get_str d ''evidence_sig_alg'', ev_sig_key = get_str d ''evidence_sig_key_id'',
       ev_sig_error = get_str d ''evidence_sig_error_code'', ev_payload = get_str d ''evidence_payload_hash''\<rparr>)"

definition read_l4w :: "pydict \<Rightarrow> l4w_info" where
  "read_l4w d = \<lparr>lw_path = get_str d ''l4w_envelope_path'', lw_sha = get_str d ''l4w_envelope_sha256'',
     lw_hash = get_str d ''l4w_envelope_hash'', lw_prev = get_str d ''l4w_prev_hash'', lw_fingerprint = get_str d ''l4w_pub_fingerprint''\<rparr>"

definition read_cleared :: "pydict \<Rightarrow> py_error + cleared_info" where
  "read_cleared d =
     bindE (get_int d ''ts'' 0) (\<lambda>ts.
     bindE (get_int d ''deadline_ts'' 0) (\<lambda>deadline.
     bindE (get_int d ''cleared_ts'' 0) (\<lambda>cleared_ts.
     bindE (read_evidence d) (\<lambda>ev.
     Inr \<lparr>cl_ts = ts, cl_event = get_str d ''event_id'', cl_chain = get_str d ''chain_id'', cl_by = get_str d ''by'',
       cl_reason = get_str d ''reason'', cl_on_time = truthy (dict_get d ''on_time''), cl_late = truthy (dict_get d ''late''),
       cl_deadline = deadline, cl_cleared_ts = cleared_ts, cl_evidence = ev, cl_l4w = read_l4w d\<rparr>))))"

definition read_row :: "quar_env \<Rightarrow> pydict \<Rightarrow> py_error + quar_row" where
  \<comment> \<open>the conversions of \<open>_normalize_state_entry\<close>, in its order\<close>
  "read_row E d =
     bindE (get_int d ''since_ts'' 0) (\<lambda>since.
     bindE (get_strs d ''added'') (\<lambda>added.
     bindE (get_strs d ''removed'') (\<lambda>removed.
     bindE (get_int d ''last_seen_ts'' 0) (\<lambda>last_seen.
     bindE (get_int d ''challenge_open_ts'' 0) (\<lambda>op.
     bindE (get_int d ''challenge_sec'' (challenge_sec E)) (\<lambda>sec.
     bindE (get_int d ''challenge_deadline_ts'' 0) (\<lambda>deadline.
     bindE (get_int d ''expired_ts'' 0) (\<lambda>expired_ts.
     bindE (bindE (dict_arg (dict_get d ''cleared'')) read_cleared) (\<lambda>cleared.
     Inr \<lparr>qr_agent = get_str d ''agent_id'', qr_active = truthy (dict_get d ''active''), qr_since = since,
       qr_event = get_str d ''event_id'', qr_kind = get_str d ''kind'', qr_severity = get_str d ''severity'',
       qr_reason = get_str d ''reason_code'', qr_template = get_str d ''template_id'', qr_caps = get_str d ''caps_hash'',
       qr_computed = get_str d ''computed_hash'', qr_stored = get_str d ''stored_hash'', qr_added = added, qr_removed = removed,
       qr_last_seen = last_seen, qr_open = op, qr_deadline = deadline, qr_sec = max 60 sec, qr_expired = truthy (dict_get d ''expired''),
       qr_expired_ts = expired_ts, qr_expired_event = get_str d ''expired_event_id'', qr_cleared = cleared\<rparr>)))))))))"

definition normalize_state_entry :: "quar_env \<Rightarrow> string \<Rightarrow> pydict \<Rightarrow> py_error + quar_row" where
  "normalize_state_entry E aid d = bindE (read_row E d) (\<lambda>r. Inr (settle_row E aid r))"

section \<open>The state file and its cache\<close>

type_synonym quar_state = "(string \<times> quar_row) list"

record quar_world =
  qw_file :: "jtext option"
  qw_events :: "jtext list"
  qw_cache :: "(quar_state \<times> int) option"
  qw_streak :: int
  qw_forced :: string
  qw_rollback :: string
  qw_chains :: chain_store
  qw_status :: "(pydict \<times> string \<times> int) option"

type_synonym 'a quar_action = "(quar_world, 'a) py_action"

fun read_state_rows :: "quar_env \<Rightarrow> pydict \<Rightarrow> quar_state \<Rightarrow> py_error + quar_state" where
  "read_state_rows E [] acc = Inr acc"
| "read_state_rows E ((aid, PDict d) # rows) acc =
     (let key = py_strip aid in
      if key = [] then read_state_rows E rows acc
      else bindE (normalize_state_entry E key d) (\<lambda>r. read_state_rows E rows (AList.update key r acc)))"
| "read_state_rows E (_ # rows) acc = read_state_rows E rows acc"

fun parse_state :: "quar_env \<Rightarrow> jtext option \<Rightarrow> py_error + quar_state" where
  "parse_state E None = Inr []"
| "parse_state E (Some (JVal (PDict d))) = read_state_rows E d []"
| "parse_state E (Some _) = Inl PyRuntimeError"

definition ttl_ns :: "quar_env \<Rightarrow> int" where
  "ttl_ns E = q_env_int E ''ESTER_QUARANTINE_TTL_SEC'' 5 1 * 1000000000"

definition load_state :: "quar_env \<Rightarrow> bool \<Rightarrow> quar_state quar_action" where
  "load_state E use_cache w =
     (let from_file = bindS (readS (\<lambda>w. parse_state E (qw_file w))) (\<lambda>st.
            bindS (modifyS (\<lambda>w. w\<lparr>qw_cache := Some (st, qe_mono E)\<rparr>)) (\<lambda>_. retS st))
      in (case (use_cache, qw_cache w) of
            (True, Some (st, t)) \<Rightarrow> if qe_mono E - t \<le> ttl_ns E then retS st w else from_file w
          | _ \<Rightarrow> from_file w))"

definition compact_state :: "quar_state \<Rightarrow> int \<Rightarrow> quar_state" where
  "compact_state st max_items =
     (if int (length st) \<le> max_items then st else take (nat max_items) (sort_key (\<lambda>(aid, r). - qr_since r) st))"

fun normal_state :: "quar_env \<Rightarrow> quar_state \<Rightarrow> quar_state \<Rightarrow> quar_state" where
  "normal_state E [] acc = acc"
| "normal_state E ((aid, r) # st) acc =
     (let key = py_strip aid in
      normal_state E st (if key = [] then acc else AList.update key (settle_row E key r) acc))"

definition max_state_items :: "quar_env \<Rightarrow> int" where
  "max_state_items E = q_env_int E ''ESTER_QUARANTINE_MAX_STATE'' 5000 1"

definition state_json :: "quar_state \<Rightarrow> pyval" where
  "state_json st = PDict (map (\<lambda>(aid, r). (aid, PDict (row_dict r))) st)"

definition save_state :: "quar_env \<Rightarrow> quar_state \<Rightarrow> nat quar_action" where
  "save_state E st =
     (let data = compact_state (normal_state E st []) (max_state_items E)
      in bindS (modifyS (\<lambda>w. w\<lparr>qw_file := Some (JVal (state_json data)), qw_cache := Some (data, qe_mono E)\<rparr>)) (\<lambda>_.
         retS (length data)))"

definition row_of :: "quar_env \<Rightarrow> string \<Rightarrow> quar_state \<Rightarrow> quar_row" where
  \<comment> \<open>\<open>state.get(aid) or _state_row_defaults(aid)\<close>\<close>
  "row_of E aid st = (case map_of st aid of None \<Rightarrow> row_defaults E aid | Some r \<Rightarrow> r)"

section \<open>Events and failures\<close>

definition append_event :: "pydict \<Rightarrow> unit quar_action" where
  "append_event row = modifyS (\<lambda>w. w\<lparr>qw_events := qw_events w @ [JVal (PDict row)]\<rparr>)"

definition quar_event_row ::
  "quar_env \<Rightarrow> string \<Rightarrow> string \<Rightarrow> string \<Rightarrow> string \<Rightarrow> string \<Rightarrow> string \<Rightarrow> pydict \<Rightarrow> pydict" where
  \<comment> \<open>\<open>_set_event_row\<close>\<close>
  "quar_event_row E event_type aid eid severity reason step details =
     [(''ts'', PInt (qe_now E)), (''type'', PStr event_type), (''agent_id'', PStr aid), (''event_id'', PStr eid),
      (''severity'', PStr severity), (''reason_code'', PStr reason), (''step'', PStr step), (''details'', PDict details)]"

definition effective_slot :: "quar_env \<Rightarrow> quar_world \<Rightarrow> string" where
  "effective_slot E w = (if qw_forced w = ''A'' then ''A'' else raw_slot E)"

definition note_success :: "unit quar_action" where
  "note_success = modifyS (\<lambda>w. if qw_forced w = [] then w\<lparr>qw_streak := 0\<rparr> else w)"

definition note_failure :: "string \<Rightarrow> int \<Rightarrow> unit quar_action" where
  "note_failure reason limit = modifyS (\<lambda>w.
     let n = qw_streak w + 1 in
     if limit \<le> n then
       w\<lparr>qw_streak := n, qw_forced := ''A'', qw_rollback := (if reason = [] then ''quarantine_failure'' else reason)\<rparr>
     else w\<lparr>qw_streak := n\<rparr>)"

fun error_name :: "py_error \<Rightarrow> string" where
  \<comment> \<open>\<open>exc.__class__.__name__\<close>\<close>
  "error_name PyTypeError = ''TypeError''"
| "error_name PyValueError = ''ValueError''"
| "error_name PyKeyError = ''KeyError''"
| "error_name PyRecursionError = ''RecursionError''"
| "error_name PyAttributeError = ''AttributeError''"
| "error_name PyRuntimeError = ''RuntimeError''"

end
