(* ===== verification/QuarDrift.thy ===== *)
theory QuarDrift
  imports QuarState
begin

text \<open>
  \<open>modules/runtime/drift_quarantine.py\<close>, second part: what counts as a drift of an agent's capabilities, setting a
  quarantine (from a drift or by hand), its expiry, and the queries.  The agent registry (\<open>agent_factory\<close>) is a
  parameter: the record of an agent, the list of agents, and the allowlist a specification resolves to in slot B.
\<close>

section \<open>Allowlists\<close>

fun clean_list :: "pyval list \<Rightarrow> string list \<Rightarrow> string list" where
  "clean_list [] out = out"
| "clean_list (v # vs) out =
     (let s = py_strip (py_str (py_or v (PStr []))) in clean_list vs (if s \<noteq> [] \<and> s \<notin> set out then out @ [s] else out))"

definition normalize_allowlist :: "pyval \<Rightarrow> py_error + string list" where
  "normalize_allowlist raw = bindE (list_arg raw) (\<lambda>vs. Inr (sort (clean_list vs [])))"

definition list_hash :: "crypto \<Rightarrow> string list \<Rightarrow> string" where
  \<comment> \<open>of a list that is normalised already\<close>
  "list_hash C xs = cr_sha C (ascii_text (str_list xs))"

definition quar_event_id :: "crypto \<Rightarrow> string \<Rightarrow> string \<Rightarrow> string \<Rightarrow> string \<Rightarrow> string \<Rightarrow> string" where
  \<comment> \<open>\<open>_event_id\<close>\<close>
  "quar_event_id C aid kind reason computed stored = cr_sha C (utf8 (py_join ''|'' [aid, kind, reason, computed, stored]))"

definition minus_list :: "string list \<Rightarrow> string list \<Rightarrow> string list" where
  \<comment> \<open>\<open>sorted(set(a) - set(b))[:10]\<close> for a sorted list without repetitions\<close>
  "minus_list a b = take 10 (filter (\<lambda>x. x \<notin> set b) a)"

section \<open>Drift\<close>

record drift =
  dr_active :: bool
  dr_event :: string
  dr_kind :: string
  dr_severity :: string
  dr_reason :: string
  dr_template :: string
  dr_caps :: string
  dr_computed :: string
  dr_stored :: string
  dr_added :: "string list"
  dr_removed :: "string list"
  dr_last_seen :: int

definition high_drift :: "crypto \<Rightarrow> string \<Rightarrow> string \<Rightarrow> string \<Rightarrow> string list \<Rightarrow> string list \<Rightarrow> drift \<Rightarrow> drift" where
  "high_drift C aid kind reason added removed d =
     d\<lparr>dr_active := True, dr_event := quar_event_id C aid kind reason (dr_computed d) (dr_stored d), dr_kind := kind,
       dr_severity := ''HIGH'', dr_reason := reason, dr_added := added, dr_removed := removed\<rparr>"

definition evaluate_high_drift :: "quar_env \<Rightarrow> string \<Rightarrow> pydict \<Rightarrow> pydict \<Rightarrow> py_error + drift" where
  "evaluate_high_drift E aid spec last_seen =
     (let C = qe_crypto E in
      bindE (normalize_allowlist (dict_get spec ''capabilities_effective'')) (\<lambda>caps.
      bindE (normalize_allowlist (dict_get spec ''allowed_actions'')) (\<lambda>stored_allow.
      let claimed = py_strip (get_str spec ''allowed_actions_hash'');
          stored_hash = (if claimed = [] then list_hash C stored_allow else claimed) in
      bindE (qe_resolve_allowlist E spec) (\<lambda>rep.
      if \<not> truthy (dict_get rep ''ok'') then Inl PyRuntimeError
      else
        bindE (normalize_allowlist (dict_get rep ''allowed_actions'')) (\<lambda>computed_allow.
        let computed_hash = list_hash C computed_allow;
            quiet = (\<lambda>ts. \<lparr>dr_active = False, dr_event = [], dr_kind = [], dr_severity = [], dr_reason = [],
              dr_template = py_strip (get_str spec ''template_id''), dr_caps = (if caps = [] then [] else list_hash C caps),
              dr_computed = computed_hash, dr_stored = stored_hash, dr_added = [], dr_removed = [], dr_last_seen = ts\<rparr>);
            extra = minus_list stored_allow computed_allow; missing = minus_list computed_allow stored_allow in
        if extra \<noteq> [] then
          bindE (get_int last_seen ''ts'' 0) (\<lambda>ts. Inr (high_drift C aid ''SPEC_MISMATCH'' ''TAMPER_SUSPECT'' extra missing (quiet ts)))
        else
          bindE (normalize_allowlist (dict_get last_seen ''allowlist'')) (\<lambda>prev_allow.
          let prev_hash = py_strip (get_str last_seen ''allowlist_hash'');
              added = minus_list computed_allow prev_allow; removed = minus_list prev_allow computed_allow in
          bindE (get_int last_seen ''ts'' 0) (\<lambda>ts.
          Inr (if prev_hash \<noteq> [] \<and> prev_hash \<noteq> computed_hash \<and> added \<noteq> [] then
                 high_drift C aid ''ALLOWLIST_CHANGED'' ''ESCALATION'' added removed (quiet ts)
               else quiet ts))))))))"

fun seen_row :: "pydict \<Rightarrow> string \<Rightarrow> pydict \<Rightarrow> pydict" where
  \<comment> \<open>the row of an agent in \<open>last_seen.json\<close>; of several the last\<close>
  "seen_row [] aid found = found"
| "seen_row ((k, PDict d) # rows) aid found = seen_row rows aid (if py_strip k = aid \<and> aid \<noteq> [] then d else found)"
| "seen_row (_ # rows) aid found = seen_row rows aid found"

fun last_seen_of :: "jtext option \<Rightarrow> string \<Rightarrow> pydict" where
  "last_seen_of (Some (JVal (PDict d))) aid = seen_row d aid []"
| "last_seen_of _ aid = []"

section \<open>Expiry\<close>

definition remaining_overdue :: "quar_row \<Rightarrow> int \<Rightarrow> int \<times> int" where
  "remaining_overdue r now =
     (if qr_deadline r \<le> 0 then (0, 0)
      else let diff = qr_deadline r - now in if 0 \<le> diff then (diff, 0) else (0, \<bar>diff\<bar>))"

definition expiry_reply :: "bool \<Rightarrow> bool \<Rightarrow> string \<Rightarrow> int \<Rightarrow> int \<Rightarrow> int \<Rightarrow> pydict" where
  "expiry_reply changed expired eid deadline remaining overdue =
     [(''ok'', PBool True), (''changed'', PBool changed), (''active'', PBool True), (''expired'', PBool expired),
      (''event_id'', PStr eid), (''deadline_ts'', PInt deadline), (''remaining_sec'', PInt remaining), (''overdue_sec'', PInt overdue)]"

definition maybe_mark_expired :: "quar_env \<Rightarrow> string \<Rightarrow> int option \<Rightarrow> pydict quar_action" where
  "maybe_mark_expired E agent_id now_ts =
     (let aid = py_strip agent_id in
      if aid = [] then
        retS [(''ok'', PBool False), (''error'', PStr ''agent_id_required''), (''error_code'', PStr ''AGENT_ID_REQUIRED'')]
      else
        let ts = (case now_ts of None \<Rightarrow> qe_now E | Some t \<Rightarrow> t) in
        bindS (load_state E False) (\<lambda>state.
        let r0 = settle_row E aid (row_of E aid state) in
        if \<not> qr_active r0 then
          retS [(''ok'', PBool True), (''changed'', PBool False), (''active'', PBool False), (''expired'', PBool (qr_expired r0)),
                (''event_id'', PStr (qr_event r0))]
        else
          let deadline = (if qr_deadline r0 \<le> 0 then
                (if qr_open r0 = 0 then ts else qr_open r0) + (if qr_sec r0 = 0 then challenge_sec E else qr_sec r0)
              else qr_deadline r0);
              r = r0\<lparr>qr_deadline := deadline\<rparr>; eid = qr_event r;
              put = (\<lambda>r'. save_state E (AList.update aid r' state)) in
          if ts \<le> deadline then
            (if qr_expired r \<and> qr_expired_event r \<noteq> eid then
               bindS (put (r\<lparr>qr_expired := False, qr_expired_ts := 0, qr_expired_event := []\<rparr>)) (\<lambda>_.
               retS (expiry_reply True False eid deadline (max 0 (deadline - ts)) 0))
             else retS (expiry_reply False (qr_expired r) eid deadline (max 0 (deadline - ts)) 0))
          else
            let overdue = max 0 (ts - deadline) in
            if qr_expired_event r = eid then
              (if \<not> qr_expired r then
                 bindS (put (r\<lparr>qr_expired := True, qr_expired_ts := (if qr_expired_ts r = 0 then ts else qr_expired_ts r)\<rparr>)) (\<lambda>_.
                 retS (expiry_reply True True eid deadline 0 overdue))
               else retS (expiry_reply False True eid deadline 0 overdue))
            else
              bindS (put (r\<lparr>qr_expired := True, qr_expired_ts := ts, qr_expired_event := eid\<rparr>)) (\<lambda>_.
              bindS (append_event (quar_event_row E ''QUARANTINE_EXPIRED'' aid eid
                       (if qr_severity r = [] then ''HIGH'' else qr_severity r) ''CHALLENGE_WINDOW_EXPIRED'' ''quarantine.challenge''
                       [(''deadline_ts'', PInt deadline), (''overdue_sec'', PInt overdue)])) (\<lambda>_.
              retS (expiry_reply True True eid deadline 0 overdue)))))"

section \<open>Replies\<close>

record quar_modes =
  qm_slot :: string
  qm_forced :: string
  qm_rollback :: string

definition modes_of :: "quar_env \<Rightarrow> quar_world \<Rightarrow> quar_modes" where
  "modes_of E w = \<lparr>qm_slot = effective_slot E w, qm_forced = qw_forced w, qm_rollback = qw_rollback w\<rparr>"

definition enforced_slot :: "string \<Rightarrow> bool" where
  "enforced_slot slot = (slot = ''B'')"

definition details_dict :: "quar_row \<Rightarrow> pydict" where
  "details_dict r = [(''template_id'', PStr (qr_template r)), (''added'', str_list (qr_added r)), (''removed'', str_list (qr_removed r))]"

definition challenge_dict :: "quar_env \<Rightarrow> quar_row \<Rightarrow> pydict" where
  "challenge_dict E r =
     (case remaining_overdue r (qe_now E) of (remaining, overdue) \<Rightarrow>
      [(''challenge_open_ts'', PInt (qr_open r)), (''challenge_deadline_ts'', PInt (qr_deadline r)),
       (''challenge_sec'', PInt (if qr_sec r = 0 then challenge_sec E else qr_sec r)), (''expired'', PBool (qr_expired r)),
       (''expired_ts'', PInt (qr_expired_ts r)), (''expired_event_id'', PStr (qr_expired_event r)),
       (''challenge_remaining_sec'', PInt remaining), (''overdue_sec'', PInt overdue)])"

definition quarantine_dict :: "quar_env \<Rightarrow> quar_modes \<Rightarrow> bool \<Rightarrow> string \<Rightarrow> string \<Rightarrow> string \<Rightarrow> string \<Rightarrow> pydict \<Rightarrow> pydict" where
  \<comment> \<open>the part that every reply of \<open>ensure_quarantine_for_agent\<close> has\<close>
  "quarantine_dict E m active eid reason severity kind between =
     [(''ok'', PBool True), (''active'', PBool active), (''enforced'', PBool (enforced_slot (qm_slot m))), (''slot'', PStr (qm_slot m)),
      (''event_id'', PStr eid), (''reason_code'', PStr reason), (''severity'', PStr severity), (''kind'', PStr kind)]
     @ between @ [(''degraded'', PBool (qm_slot m \<noteq> raw_slot E)), (''mode_forced'', PStr (qm_forced m))]"

definition row_reply :: "quar_env \<Rightarrow> quar_modes \<Rightarrow> quar_row \<Rightarrow> pydict" where
  "row_reply E m r = quarantine_dict E m True (qr_event r) (qr_reason r) (qr_severity r) (qr_kind r) [] @ challenge_dict E r"

definition unavailable :: "quar_env \<Rightarrow> quar_modes \<Rightarrow> string \<Rightarrow> pydict quar_action" where
  \<comment> \<open>the \<open>except\<close> branch of \<open>ensure_quarantine_for_agent\<close> and \<open>set_manual_quarantine\<close>\<close>
  "unavailable E m err =
     (if raw_slot E = ''B'' then
        bindS (note_failure err (fail_max E)) (\<lambda>_.
        bindS (readS (\<lambda>w. Inr (modes_of E w))) (\<lambda>m'.
        let on = enforced_slot (qm_slot m') in
        retS [(''ok'', PBool False), (''active'', PBool on), (''enforced'', PBool on), (''slot'', PStr (qm_slot m')), (''event_id'', PStr []),
              (''reason_code'', PStr (if on then ''QUARANTINE_UNAVAILABLE'' else [])), (''severity'', PStr (if on then ''HIGH'' else [])),
              (''kind'', PStr ''QUARANTINE_SYSTEM''), (''error_code'', PStr ''QUARANTINE_UNAVAILABLE''), (''error'', PStr err),
              (''degraded'', PBool (qm_slot m' \<noteq> raw_slot E)), (''mode_forced'', PStr (qm_forced m')),
              (''last_rollback_reason'', PStr (qm_rollback m'))]))
      else
        retS [(''ok'', PBool False), (''active'', PBool False), (''enforced'', PBool False), (''slot'', PStr (qm_slot m)), (''event_id'', PStr []),
              (''reason_code'', PStr []), (''severity'', PStr []), (''kind'', PStr []), (''error_code'', PStr ''QUARANTINE_UNAVAILABLE''),
              (''error'', PStr err), (''degraded'', PBool False), (''mode_forced'', PStr (qm_forced m)),
              (''last_rollback_reason'', PStr (qm_rollback m))])"

section \<open>Setting a quarantine from a drift\<close>

definition drift_row :: "quar_env \<Rightarrow> string \<Rightarrow> drift \<Rightarrow> quar_row \<Rightarrow> quar_row" where
  "drift_row E aid d old =
     (row_defaults E aid)\<lparr>qr_active := True, qr_since := qe_now E, qr_event := dr_event d, qr_kind := dr_kind d,
       qr_severity := (if dr_severity d = [] then ''HIGH'' else dr_severity d), qr_reason := dr_reason d, qr_template := dr_template d,
       qr_caps := dr_caps d, qr_computed := dr_computed d, qr_stored := dr_stored d, qr_added := short_list (dr_added d),
       qr_removed := short_list (dr_removed d), qr_last_seen := dr_last_seen d, qr_open := qe_now E,
       qr_deadline := qe_now E + challenge_sec E, qr_sec := challenge_sec E, qr_cleared := qr_cleared old\<rparr>"

definition set_event :: "quar_env \<Rightarrow> quar_row \<Rightarrow> string \<Rightarrow> pydict \<Rightarrow> pydict" where
  "set_event E r step extra =
     quar_event_row E ''QUARANTINE_SET'' (qr_agent r) (qr_event r) (qr_severity r) (qr_reason r) step
       ((''kind'', PStr (qr_kind r)) # details_dict r @ extra)"

definition active_reply :: "quar_env \<Rightarrow> quar_modes \<Rightarrow> string \<Rightarrow> quar_row \<Rightarrow> pydict quar_action" where
  \<comment> \<open>the agent is in quarantine already\<close>
  "active_reply E m aid r =
     bindS (maybe_mark_expired E aid None) (\<lambda>exp_rep.
     bindS (load_state E False) (\<lambda>state.
     let r' = settle_row E aid (case map_of state aid of None \<Rightarrow> r | Some x \<Rightarrow> x) in
     bindS note_success (\<lambda>_.
     retS (row_reply E m r' @ [(''expire_changed'', PBool (truthy (dict_get exp_rep ''changed''))), (''details'', PDict (details_dict r'))]))))"

definition agent_spec :: "quar_env \<Rightarrow> string \<Rightarrow> py_error + pydict" where
  "agent_spec E aid =
     bindE (qe_get_agent E aid) (\<lambda>rep.
     if \<not> truthy (dict_get rep ''ok'') then Inl PyRuntimeError
     else
       bindE (case py_or (dict_get rep ''agent'') (PDict []) of PDict d \<Rightarrow> Inr d | _ \<Rightarrow> Inl PyAttributeError) (\<lambda>agent.
       bindE (dict_arg (dict_get agent ''spec'')) (\<lambda>spec. if spec = [] then Inl PyRuntimeError else Inr spec)))"

definition drift_step :: "quar_env \<Rightarrow> quar_modes \<Rightarrow> string \<Rightarrow> string \<Rightarrow> quar_state \<Rightarrow> quar_row \<Rightarrow> drift \<Rightarrow> pydict quar_action" where
  "drift_step E m aid source state r d =
     (if dr_active d then
        let ack = cl_event (qr_cleared r) in
        if \<not> qr_active r \<and> ack \<noteq> [] \<and> ack = dr_event d then
          bindS note_success (\<lambda>_.
          retS (quarantine_dict E m False (dr_event d) (dr_reason d) (dr_severity d) (dr_kind d) [(''acknowledged'', PBool True)]))
        else
          let next_row = drift_row E aid d r;
              changed = (\<not> qr_active r \<or> qr_event r \<noteq> qr_event next_row \<or> qr_reason r \<noteq> qr_reason next_row) in
          bindS (if changed then
                   bindS (save_state E (AList.update aid next_row state)) (\<lambda>_.
                   append_event (set_event E next_row (if source = [] then ''ensure'' else source) []))
                 else retS ()) (\<lambda>_.
          bindS note_success (\<lambda>_.
          retS (row_reply E m next_row @ [(''details'', PDict (details_dict next_row))])))
      else bindS note_success (\<lambda>_. retS (quarantine_dict E m False [] [] [] [] [])))"

definition ensure_core :: "quar_env \<Rightarrow> quar_modes \<Rightarrow> string \<Rightarrow> string \<Rightarrow> pydict quar_action" where
  "ensure_core E m aid source =
     bindS (load_state E False) (\<lambda>state.
     let r = settle_row E aid (row_of E aid state) in
     if qr_active r then active_reply E m aid r
     else
       bindS (liftS (agent_spec E aid)) (\<lambda>spec.
       bindS (liftS (evaluate_high_drift E aid spec (last_seen_of (qe_last_seen E) aid))) (\<lambda>d.
       drift_step E m aid source state r d)))"

definition ensure_quarantine_for_agent :: "quar_env \<Rightarrow> string \<Rightarrow> string \<Rightarrow> pydict quar_action" where
  "ensure_quarantine_for_agent E agent_id source =
     bindS (readS (\<lambda>w. Inr (modes_of E w))) (\<lambda>m.
     let aid = py_strip agent_id; on = enforced_slot (qm_slot m) in
     if aid = [] then
       retS [(''ok'', PBool False), (''active'', PBool on), (''enforced'', PBool on), (''slot'', PStr (qm_slot m)),
             (''error_code'', PStr ''AGENT_ID_REQUIRED''), (''error'', PStr ''agent_id_required''), (''event_id'', PStr []),
             (''reason_code'', PStr (if on then ''QUARANTINE_UNAVAILABLE'' else ''AGENT_ID_REQUIRED'')),
             (''severity'', PStr (if on then ''HIGH'' else []))]
     else tryS (ensure_core E m aid source) (\<lambda>e. unavailable E m (''quarantine_error:'' @ error_name e)))"

section \<open>Queries\<close>

definition query_core :: "quar_env \<Rightarrow> quar_modes \<Rightarrow> string \<Rightarrow> pydict quar_action" where
  "query_core E m aid =
     bindS (maybe_mark_expired E aid None) (\<lambda>_.
     bindS (load_state E True) (\<lambda>state.
     let r = settle_row E aid (row_of E aid state) in
     retS ([(''ok'', PBool True), (''active'', PBool (qr_active r)), (''slot'', PStr (qm_slot m)),
            (''enforced'', PBool (enforced_slot (qm_slot m))), (''event_id'', PStr (qr_event r)), (''reason_code'', PStr (qr_reason r)),
            (''severity'', PStr (qr_severity r)), (''kind'', PStr (qr_kind r)), (''since_ts'', PInt (qr_since r))]
           @ challenge_dict E r
           @ [(''degraded'', PBool (qm_slot m \<noteq> raw_slot E)), (''mode_forced'', PStr (qm_forced m))])))"

definition query_unavailable :: "quar_env \<Rightarrow> string \<Rightarrow> pydict quar_action" where
  "query_unavailable E err =
     bindS (if raw_slot E = ''B'' then note_failure err (fail_max E) else retS ()) (\<lambda>_.
     bindS (readS (\<lambda>w. Inr (modes_of E w))) (\<lambda>m.
     if raw_slot E = ''B'' \<and> qm_slot m = ''B'' then
       retS [(''ok'', PBool False), (''active'', PBool True), (''slot'', PStr ''B''), (''enforced'', PBool True), (''event_id'', PStr []),
             (''reason_code'', PStr ''QUARANTINE_UNAVAILABLE''), (''severity'', PStr ''HIGH''), (''kind'', PStr ''QUARANTINE_SYSTEM''),
             (''error_code'', PStr ''QUARANTINE_UNAVAILABLE''), (''error'', PStr err), (''mode_forced'', PStr (qm_forced m))]
     else
       retS [(''ok'', PBool False), (''active'', PBool False), (''slot'', PStr (qm_slot m)), (''enforced'', PBool (enforced_slot (qm_slot m))),
             (''event_id'', PStr []), (''reason_code'', PStr []), (''severity'', PStr []), (''kind'', PStr []),
             (''error_code'', PStr ''QUARANTINE_UNAVAILABLE''), (''error'', PStr err)]))"

definition is_quarantined :: "quar_env \<Rightarrow> string \<Rightarrow> pydict quar_action" where
  "is_quarantined E agent_id =
     bindS (readS (\<lambda>w. Inr (modes_of E w))) (\<lambda>m.
     let aid = py_strip agent_id in
     if aid = [] then
       retS [(''ok'', PBool False), (''active'', PBool False), (''slot'', PStr (qm_slot m)), (''enforced'', PBool (enforced_slot (qm_slot m))),
             (''error_code'', PStr ''AGENT_ID_REQUIRED''), (''error'', PStr ''agent_id_required'')]
     else tryS (query_core E m aid) (\<lambda>e. query_unavailable E (''quarantine_state_error:'' @ error_name e)))"

section \<open>Setting a quarantine by hand\<close>

record manual_req =
  mq_agent :: string
  mq_reason :: string
  mq_severity :: string
  mq_kind :: string
  mq_source :: string
  mq_template :: string
  mq_computed :: string
  mq_stored :: string
  mq_added :: "string list"
  mq_removed :: "string list"
  mq_challenge :: "int option"
  mq_details :: pydict

definition text_or :: "string \<Rightarrow> string \<Rightarrow> string" where
  "text_or s t = (if s = [] then t else s)"

definition manual_severity :: "manual_req \<Rightarrow> string" where
  "manual_severity q = text_or (py_upper (py_strip (text_or (mq_severity q) ''HIGH''))) ''HIGH''"

definition manual_kind :: "manual_req \<Rightarrow> string" where
  "manual_kind q = text_or (py_strip (text_or (mq_kind q) ''integrity_tamper'')) ''integrity_tamper''"

definition manual_event :: "quar_env \<Rightarrow> manual_req \<Rightarrow> string" where
  \<comment> \<open>a hash that is not given is one of the whole request and the time\<close>
  "manual_event E q =
     (let C = qe_crypto E; aid = py_strip (mq_agent q); kind = manual_kind q; reason = py_strip (mq_reason q);
          seed = py_join ''|'' [aid, kind, reason, mq_computed q, mq_stored q, show_int (qe_now E)]
      in quar_event_id C aid kind reason (text_or (mq_computed q) (cr_sha C (utf8 seed)))
           (text_or (mq_stored q) (cr_sha C (utf8 (seed @ ''|stored'')))))"

definition manual_row :: "quar_env \<Rightarrow> manual_req \<Rightarrow> quar_row \<Rightarrow> quar_row" where
  "manual_row E q current =
     (let aid = py_strip (mq_agent q); sec = max 60 (case mq_challenge q of None \<Rightarrow> challenge_sec E | Some c \<Rightarrow> c)
      in (row_defaults E aid)\<lparr>qr_active := True, qr_since := qe_now E, qr_event := manual_event E q, qr_kind := manual_kind q,
           qr_severity := manual_severity q, qr_reason := py_strip (mq_reason q), qr_template := text_or (mq_template q) (qr_template current),
           qr_caps := qr_caps current, qr_computed := text_or (mq_computed q) (qr_computed current),
           qr_stored := text_or (mq_stored q) (qr_stored current), qr_added := short_list (mq_added q),
           qr_removed := short_list (mq_removed q), qr_last_seen := qe_now E, qr_open := qe_now E, qr_deadline := qe_now E + sec,
           qr_sec := sec, qr_cleared := qr_cleared current\<rparr>)"

definition manual_write :: "quar_env \<Rightarrow> quar_modes \<Rightarrow> manual_req \<Rightarrow> quar_state \<Rightarrow> pydict quar_action" where
  \<comment> \<open>from the state that was read to the reply\<close>
  "manual_write E m q state =
     (let aid = py_strip (mq_agent q); current = settle_row E aid (row_of E aid state); next_row = manual_row E q current;
          changed = (\<not> qr_active current \<or> qr_event current \<noteq> qr_event next_row \<or> qr_reason current \<noteq> qr_reason next_row
            \<or> qr_kind current \<noteq> qr_kind next_row)
      in bindS (save_state E (AList.update aid next_row state)) (\<lambda>_.
         bindS (if changed then
                  append_event (set_event E next_row (text_or (mq_source q) ''manual'')
                    (opt_entry (mq_details q \<noteq> []) ''details'' (PDict (mq_details q))))
                else retS ()) (\<lambda>_.
         bindS note_success (\<lambda>_.
         retS (row_reply E m next_row @ [(''details'', PDict (details_dict next_row))])))))"

definition set_manual_quarantine :: "quar_env \<Rightarrow> manual_req \<Rightarrow> pydict quar_action" where
  "set_manual_quarantine E q =
     (if py_strip (mq_agent q) = [] then
        retS [(''ok'', PBool False), (''error'', PStr ''agent_id_required''), (''error_code'', PStr ''AGENT_ID_REQUIRED'')]
      else if py_strip (mq_reason q) = [] then
        retS [(''ok'', PBool False), (''error'', PStr ''reason_code_required''), (''error_code'', PStr ''REASON_CODE_REQUIRED'')]
      else
        bindS (readS (\<lambda>w. Inr (modes_of E w))) (\<lambda>m.
        tryS (bindS (load_state E False) (manual_write E m q))
          (\<lambda>e. unavailable E m (''manual_quarantine_error:'' @ error_name e))))"

section \<open>Blocks and refresh\<close>

definition note_quarantine_block :: "quar_env \<Rightarrow> string \<Rightarrow> string \<Rightarrow> string \<Rightarrow> string \<Rightarrow> string \<Rightarrow> pydict \<Rightarrow> pydict quar_action" where
  "note_quarantine_block E agent_id eid reason severity step details =
     (let aid = py_strip agent_id in
      if aid = [] then
        retS [(''ok'', PBool False), (''error'', PStr ''agent_id_required''), (''error_code'', PStr ''AGENT_ID_REQUIRED'')]
      else
        let row = quar_event_row E ''QUARANTINE_BLOCK'' aid eid (text_or severity ''HIGH'') (text_or reason ''DRIFT_QUARANTINED'') step details in
        bindS (append_event row) (\<lambda>_. retS [(''ok'', PBool True), (''event'', PDict row)]))"

fun agent_rows :: "pyval list \<Rightarrow> pydict list" where
  "agent_rows [] = []"
| "agent_rows (PDict d # vs) = d # agent_rows vs"
| "agent_rows (_ # vs) = agent_rows vs"

fun ensure_each :: "quar_env \<Rightarrow> pydict list \<Rightarrow> int \<Rightarrow> int \<Rightarrow> (int \<times> int) quar_action" where
  "ensure_each E [] active failed = retS (active, failed)"
| "ensure_each E (row # rows) active failed =
     (let aid = py_strip (get_str row ''agent_id'') in
      if aid = [] then ensure_each E rows active failed
      else bindS (ensure_quarantine_for_agent E aid ''refresh'') (\<lambda>q.
        ensure_each E rows (active + (if truthy (dict_get q ''active'') then 1 else 0))
          (failed + (if truthy (dict_get q ''ok'') then 0 else 1))))"

definition refresh_quarantine_from_drift :: "quar_env \<Rightarrow> int \<Rightarrow> pydict quar_action" where
  "refresh_quarantine_from_drift E max_agents =
     (let limit = max 1 (if max_agents = 0 then q_env_int E ''ESTER_DRIFT_MAX_AGENTS_SCAN'' 2000 1 else max_agents) in
      bindS (liftS (qe_list_agents E)) (\<lambda>rep.
      bindS (liftS (list_arg (dict_get rep ''agents''))) (\<lambda>agents.
      let rows = sort_key (\<lambda>d. get_str d ''agent_id'') (agent_rows agents); scan = take (nat limit) rows in
      bindS (ensure_each E scan 0 0) (\<lambda>(active, failed).
      bindS (readS (\<lambda>w. Inr (effective_slot E w))) (\<lambda>slot.
      retS [(''ok'', PBool True), (''slot'', PStr slot), (''scanned_agents'', PInt (int (length scan))),
            (''scan_limited'', PBool (limit < int (length rows))), (''active'', PInt active), (''failed'', PInt failed)])))))"

end
