(* ===== verification/GarageTemplates.thy ===== *)
theory GarageTemplates
  imports QuarDrift
begin

text \<open>
  \<open>modules/garage/templates/registry.py\<close>: from the capabilities of an agent template to the actions an agent may
  take, and the rendering of the specification and the plan of a template.  The table of templates (\<open>pack_v1.py\<close>) and the
  identifiers of the registered actions are parameters.
\<close>

section \<open>Tables\<close>

record template_env =
  te_template :: "string \<Rightarrow> pydict"
  te_ids :: "string list"
  te_exc_text :: "py_error \<Rightarrow> string"
  te_sha :: "string \<Rightarrow> string"

text \<open>A \<open>ValueError\<close> that the module raises itself has its own text; other exceptions have the library's.\<close>

datatype garage_error = Refused string | Broken py_error

fun garage_error_text :: "template_env \<Rightarrow> garage_error \<Rightarrow> string" where
  "garage_error_text T (Refused msg) = msg"
| "garage_error_text T (Broken e) = te_exc_text T e"

definition broken :: "py_error + 'a \<Rightarrow> garage_error + 'a" where
  "broken m = map_sum Broken id m"

definition capability_table :: "(string \<times> string list) list" where
  "capability_table =
     [(''cap.memory.note'', [''memory.add_note'']), (''cap.fs.sandbox.write'', [''files.sandbox_write'']),
      (''cap.fs.sha256.verify'', [''files.sha256_verify'']), (''cap.proactivity.queue.add'', [''proactivity.queue.add'']),
      (''cap.initiative.mark_done'', [''initiative.mark_done'']), (''cap.messages.outbox'', [''messages.outbox.enqueue'']),
      (''cap.messages.telegram'', [''messages.telegram.send'']), (''cap.oracle.remote.call'', [''llm.remote.call'']),
      (''cap.governed_mesh.role_report'', [''governed_mesh.role_report''])]"

definition capability_actions :: "string \<Rightarrow> string list" where
  "capability_actions cap = (case map_of capability_table cap of None \<Rightarrow> [] | Some xs \<Rightarrow> xs)"

definition alias_candidates :: "string \<Rightarrow> string list" where
  "alias_candidates sid =
     (case map_of
       [(''fs.list'', [''files.list'', ''fs.list'']), (''fs.read'', [''files.read'', ''fs.read'']),
        (''memory.ingest'', [''memory.ingest'']), (''memory.add_note'', [''memory.add_note'']),
        (''messages.outbox.enqueue'', [''messages.outbox.enqueue'']), (''messages.telegram.send'', [''messages.telegram.send'']),
        (''dreams.run_once'', [''dreams.run_once'', ''dreams.generate'']),
        (''dreams.generate'', [''dreams.generate'', ''dreams.run_once'']),
        (''initiatives.run_once'', [''initiatives.run_once'', ''initiative.run_once'']),
        (''proactivity.queue.add'', [''proactivity.queue.add'']), (''initiative.mark_done'', [''initiative.mark_done'']),
        (''plan.build'', [''plan.build'', ''planner.build'']),
        (''fs.write'', [''files.sandbox_write'', ''files.write'', ''fs.write'']),
        (''fs.patch'', [''files.patch'', ''files.sandbox_write'', ''fs.patch'']),
        (''fs.hash'', [''files.sha256_verify'', ''files.hash'', ''fs.hash'']),
        (''run_checks_offline'', [''tools.run_checks_offline'', ''checks.run_offline'', ''run_checks_offline'']),
        (''route_registry_check'', [''tools.route_registry_check'', ''checks.route_registry_check'', ''route_registry_check'']),
        (''route_return_lint'', [''tools.route_return_lint'', ''checks.route_return_lint'', ''route_return_lint'']),
        (''agent.run_once'', [''agent.run_once'']), (''llm.remote.call'', [''oracle.openai.call'', ''llm.remote.call'']),
        (''governed_mesh.role_report'', [''governed_mesh.role_report''])] sid of
        None \<Rightarrow> [sid] | Some xs \<Rightarrow> xs)"

definition direct_actions :: "string list" where
  "direct_actions =
     [''files.sandbox_write'', ''files.sha256_verify'', ''plan.build'', ''memory.add_note'', ''initiative.mark_done'',
      ''proactivity.queue.add'', ''messages.outbox.enqueue'', ''messages.telegram.send'', ''oracle.openai.call'',
      ''governed_mesh.role_report'']"

definition truthy_text :: "pyval \<Rightarrow> bool" where
  \<comment> \<open>\<open>_as_bool\<close>\<close>
  "truthy_text v = (case v of PBool b \<Rightarrow> b
     | _ \<Rightarrow> py_lower (py_strip (py_str (py_or v (PStr [])))) \<in> {''1'', ''true'', ''yes'', ''on'', ''y''})"

definition dedupe :: "string list \<Rightarrow> string list" where
  "dedupe xs = clean_list (map PStr xs) []"

definition non_blank :: "pyval \<Rightarrow> py_error + string list" where
  \<comment> \<open>\<open>[str(x) for x in list(raw or []) if str(x).strip()]\<close>\<close>
  "non_blank raw = bindE (list_arg raw) (\<lambda>vs. Inr (filter (\<lambda>s. py_strip s \<noteq> []) (map py_str vs)))"

definition capabilities_list :: "pyval \<Rightarrow> py_error + string list" where
  "capabilities_list raw = bindE (non_blank raw) (\<lambda>xs. Inr (dedupe xs))"

definition available_actions :: "template_env \<Rightarrow> string list" where
  "available_actions T = direct_actions @ filter (\<lambda>s. s \<noteq> []) (map py_strip (te_ids T))"

definition action_known :: "template_env \<Rightarrow> bool \<Rightarrow> string \<Rightarrow> bool" where
  \<comment> \<open>\<open>registry\<close>: whether the registry is asked (\<open>has_action\<close>) or the list of available actions\<close>
  "action_known T registry action_id =
     (let aid = py_strip action_id in
      aid \<noteq> [] \<and> (if registry then aid \<in> set (te_ids T) else aid \<in> set (available_actions T)))"

section \<open>Capabilities\<close>

fun known_actions :: "template_env \<Rightarrow> bool \<Rightarrow> string \<Rightarrow> string list \<Rightarrow> garage_error + string list" where
  "known_actions T registry cap [] = Inr []"
| "known_actions T registry cap (a # as) =
     (let aid = py_strip a in
      if aid = [] then known_actions T registry cap as
      else if \<not> action_known T registry aid then Inl (Refused (''unknown_action_for_capability:'' @ cap @ '':'' @ aid))
      else bindE (known_actions T registry cap as) (\<lambda>rest. Inr (aid # rest)))"

fun mapped_actions :: "template_env \<Rightarrow> bool \<Rightarrow> string list \<Rightarrow> garage_error + string list" where
  "mapped_actions T registry [] = Inr []"
| "mapped_actions T registry (cap # caps) =
     (if capability_actions cap = [] then Inl (Refused (''unknown_capability:'' @ cap))
      else bindE (known_actions T registry cap (capability_actions cap)) (\<lambda>as.
           bindE (mapped_actions T registry caps) (\<lambda>rest. Inr (as @ rest))))"

definition resolve_allowed_actions :: "template_env \<Rightarrow> bool \<Rightarrow> string list \<Rightarrow> garage_error + string list" where
  "resolve_allowed_actions T registry capabilities =
     bindE (mapped_actions T registry (dedupe (filter (\<lambda>s. py_strip s \<noteq> []) capabilities))) (\<lambda>as. Inr (sort (dedupe as)))"

definition policy_allows :: "bool \<Rightarrow> bool \<Rightarrow> string \<Rightarrow> bool" where
  "policy_allows enable_oracle enable_comm cap =
     (\<not> (cap = ''cap.oracle.remote.call'' \<and> \<not> enable_oracle) \<and> \<not> (cap = ''cap.messages.telegram'' \<and> \<not> enable_comm))"

definition capability_policy_filter :: "string list \<Rightarrow> bool \<Rightarrow> bool \<Rightarrow> string list \<times> string list" where
  "capability_policy_filter capabilities enable_oracle enable_comm =
     (let caps = dedupe (filter (\<lambda>s. py_strip s \<noteq> []) capabilities) in
      (dedupe (filter (policy_allows enable_oracle enable_comm) caps),
       dedupe (filter (\<lambda>c. \<not> policy_allows enable_oracle enable_comm c) caps)))"

section \<open>Templates without capabilities\<close>

definition resolve_alias :: "string list \<Rightarrow> string \<Rightarrow> string" where
  "resolve_alias available stable_action_id =
     (let sid = py_strip stable_action_id in
      if sid = [] then []
      else (case filter (\<lambda>c. py_strip c \<noteq> [] \<and> py_strip c \<in> set available) (alias_candidates sid) of
              [] \<Rightarrow> [] | c # _ \<Rightarrow> py_strip c))"

definition preferred_fallback :: "string list \<Rightarrow> string" where
  "preferred_fallback available =
     (case filter (\<lambda>a. a \<in> set available) [''messages.outbox.enqueue'', ''memory.add_note'', ''files.sandbox_write''] of
        [] \<Rightarrow> [] | a # _ \<Rightarrow> a)"

record legacy_actions =
  la_resolved :: "string list"
  la_missing :: "string list"
  la_disabled :: "string list"
  la_aliases :: "(string \<times> string) list"
  la_fallback :: string

definition legacy_disabled :: "bool \<Rightarrow> bool \<Rightarrow> string \<Rightarrow> bool" where
  "legacy_disabled enable_oracle enable_comm sid =
     (sid = ''llm.remote.call'' \<and> \<not> enable_oracle \<or> sid = ''messages.telegram.send'' \<and> \<not> enable_comm)"

definition resolve_legacy_actions :: "pydict \<Rightarrow> bool \<Rightarrow> bool \<Rightarrow> string list \<Rightarrow> py_error + legacy_actions" where
  \<comment> \<open>\<open>_resolve_allowed_actions\<close>\<close>
  "resolve_legacy_actions template enable_oracle enable_comm available =
     bindE (list_arg (dict_get template ''default_allowed_actions'')) (\<lambda>vs.
     let sid = dedupe (map py_str vs); off = legacy_disabled enable_oracle enable_comm;
         tried = filter (\<lambda>s. \<not> off s) sid; fallback = preferred_fallback available;
         resolved = dedupe (filter (\<lambda>a. a \<noteq> []) (map (resolve_alias available) tried));
         missing = dedupe (filter (\<lambda>s. resolve_alias available s = []) tried)
     in Inr \<lparr>la_resolved = (if fallback \<noteq> [] \<and> (resolved = [] \<or> missing \<noteq> []) \<and> fallback \<notin> set resolved
                            then resolved @ [fallback] else resolved),
             la_missing = missing, la_disabled = dedupe (filter off sid),
             la_aliases = map (\<lambda>s. (s, resolve_alias available s)) (filter (\<lambda>s. resolve_alias available s \<noteq> []) tried),
             la_fallback = fallback\<rparr>)"

section \<open>Views and specifications\<close>

definition template_of :: "template_env \<Rightarrow> string \<Rightarrow> pydict" where
  "template_of T template_id = te_template T (py_strip template_id)"

definition prefixed :: "string \<Rightarrow> string list \<Rightarrow> string list" where
  "prefixed p xs = map (\<lambda>x. p @ x) xs"

record template_actions =
  ta_caps :: "string list"
  ta_resolved :: "string list"
  ta_missing :: "string list"
  ta_disabled :: "string list"
  ta_aliases :: "(string \<times> string) list"

definition view_actions :: "template_env \<Rightarrow> pydict \<Rightarrow> string list \<Rightarrow> py_error + template_actions" where
  \<comment> \<open>the actions a template shows when nothing is overridden\<close>
  "view_actions T template base =
     (if base = [] then
        bindE (resolve_legacy_actions template False False (available_actions T)) (\<lambda>l.
        Inr \<lparr>ta_caps = [], ta_resolved = la_resolved l, ta_missing = la_missing l, ta_disabled = la_disabled l, ta_aliases = la_aliases l\<rparr>)
      else
        let (caps, off) = capability_policy_filter base False False in
        Inr (case resolve_allowed_actions T False caps of
               Inr as \<Rightarrow> \<lparr>ta_caps = caps, ta_resolved = as, ta_missing = [], ta_disabled = prefixed ''capability:'' off, ta_aliases = []\<rparr>
             | Inl e \<Rightarrow> \<lparr>ta_caps = caps, ta_resolved = [], ta_missing = [''capabilities_resolve_failed:'' @ garage_error_text T e],
                         ta_disabled = prefixed ''capability:'' off, ta_aliases = []\<rparr>))"

definition alias_dict :: "(string \<times> string) list \<Rightarrow> pydict" where
  "alias_dict xs = map (\<lambda>(k, v). (k, PStr v)) xs"

definition template_view :: "template_env \<Rightarrow> pydict \<Rightarrow> py_error + pydict" where
  "template_view T template =
     bindE (capabilities_list (dict_get template ''capabilities'')) (\<lambda>base.
     bindE (view_actions T template base) (\<lambda>a.
     bindE (list_arg (dict_get template ''default_allowed_actions'')) (\<lambda>defaults.
     bindE (dict_arg (dict_get template ''default_budgets'')) (\<lambda>budgets.
     bindE (dict_arg (dict_get template ''default_scopes'')) (\<lambda>scopes.
     bindE (dict_arg (dict_get template ''oracle_policy'')) (\<lambda>oracle.
     bindE (dict_arg (dict_get template ''comm_policy'')) (\<lambda>comm.
     Inr (map (\<lambda>k. (k, PStr (get_str template k))) [''id'', ''title'', ''description'', ''default_name'', ''default_goal'']
       @ [(''capabilities'', str_list base), (''capabilities_effective'', str_list (ta_caps a)), (''capability_warnings'', PList []),
          (''default_allowed_actions'', str_list (dedupe (map py_str defaults))), (''available_actions'', str_list (ta_resolved a)),
          (''missing_actions'', str_list (ta_missing a)), (''disabled_by_policy'', str_list (ta_disabled a)),
          (''partially_available'', PBool (ta_missing a \<noteq> [] \<or> ta_disabled a \<noteq> [])), (''alias_table'', PDict (alias_dict (ta_aliases a))),
          (''default_budgets'', PDict budgets), (''default_scopes'', PDict scopes), (''oracle_policy'', PDict oracle),
          (''comm_policy'', PDict comm)]))))))))"

definition get_template :: "template_env \<Rightarrow> string \<Rightarrow> py_error + pydict" where
  "get_template T template_id =
     (let tpl = template_of T template_id in
      if tpl = [] then Inr []
      else
        bindE (template_view T tpl) (\<lambda>view.
        bindE (list_arg (dict_get tpl ''default_plan'')) (\<lambda>steps.
        Inr (dict_merge view ((''default_plan'', PList steps)
          # (case dict_get tpl ''plan_when_oracle_enabled'' of PList xs \<Rightarrow> [(''plan_when_oracle_enabled'', PList xs)] | _ \<Rightarrow> []))))))"

definition first_int :: "pydict \<Rightarrow> string list \<Rightarrow> int \<Rightarrow> py_error + int" where
  \<comment> \<open>\<open>int(src.get(k) or ... or dflt)\<close>\<close>
  "first_int d ks dflt = int_of (foldr (\<lambda>k v. py_or (dict_get d k) v) ks (PInt dflt))"

definition template_budgets :: "pydict \<Rightarrow> py_error + pydict" where
  \<comment> \<open>\<open>_normalize_budgets\<close>\<close>
  "template_budgets src =
     bindE (first_int src [''max_steps'', ''max_actions''] 4) (\<lambda>steps.
     bindE (first_int src [''max_work_ms''] 2000) (\<lambda>work.
     bindE (first_int src [''window_sec'', ''window''] 60) (\<lambda>window.
     bindE (first_int src [''est_work_ms''] (min work 250)) (\<lambda>est.
     Inr [(''max_actions'', PInt (max 1 steps)), (''max_work_ms'', PInt (max 1 work)), (''window'', PInt (max 1 window)),
          (''est_work_ms'', PInt (max 1 (min (max 1 work) est)))]))))"

fun py_replace :: "string \<Rightarrow> string \<Rightarrow> string \<Rightarrow> string" where
  \<comment> \<open>\<open>s.replace(old, new)\<close> for an \<open>old\<close> that is not empty\<close>
  "py_replace old new [] = []"
| "py_replace old new (c # s) =
     (if old \<noteq> [] \<and> take (length old) (c # s) = old then new @ py_replace old new (drop (length old - 1) s)
      else c # py_replace old new s)"

definition render_text :: "(string \<times> string) list \<Rightarrow> string \<Rightarrow> string" where
  "render_text values s = fold (\<lambda>(k, v). py_replace (''{'' @ k @ ''}'') v) values s"

fun fill_value :: "(string \<times> string) list \<Rightarrow> pyval \<Rightarrow> pyval" where
  "fill_value values (PStr s) = PStr (render_text values s)"
| "fill_value values (PList xs) = PList (map (fill_value values) xs)"
| "fill_value values (PDict d) = PDict (map (\<lambda>(k, v). (k, fill_value values v)) d)"
| "fill_value values v = v"

definition requested_caps :: "pydict \<Rightarrow> py_error + string list" where
  "requested_caps over =
     (if truthy (dict_get over ''capabilities'') then capabilities_list (dict_get over ''capabilities'')
      else bindE (dict_arg (dict_get over ''overrides'')) (\<lambda>o2. capabilities_list (dict_get o2 ''capabilities'')))"

definition spec_actions :: "template_env \<Rightarrow> pydict \<Rightarrow> string list \<Rightarrow> string list \<Rightarrow> bool \<Rightarrow> bool \<Rightarrow> garage_error + template_actions" where
  "spec_actions T tpl base requested enable_oracle enable_comm =
     (if base = [] then
        bindE (broken (resolve_legacy_actions tpl enable_oracle enable_comm (available_actions T))) (\<lambda>l.
        Inr \<lparr>ta_caps = [], ta_resolved = la_resolved l, ta_missing = la_missing l, ta_disabled = la_disabled l, ta_aliases = la_aliases l\<rparr>)
      else if filter (\<lambda>c. c \<notin> set base) requested \<noteq> [] then Inl (Refused ''capabilities_not_subset_template'')
      else
        let (caps, off) = capability_policy_filter (if requested = [] then base else requested) enable_oracle enable_comm in
        bindE (resolve_allowed_actions T False caps) (\<lambda>as.
        Inr \<lparr>ta_caps = caps, ta_resolved = as, ta_missing = [], ta_disabled = prefixed ''capability:'' off, ta_aliases = []\<rparr>))"

definition pick_text :: "pydict \<Rightarrow> string \<Rightarrow> string list \<Rightarrow> pydict \<Rightarrow> string \<Rightarrow> string" where
  \<comment> \<open>\<open>str(over.get(k) or tpl.get(k1) or ... or dflt)\<close>\<close>
  "pick_text over k ks tpl dflt = py_str (py_or (dict_get over k) (foldr (\<lambda>k v. py_or (dict_get tpl k) v) ks (PStr dflt)))"

definition render_spec :: "template_env \<Rightarrow> string \<Rightarrow> pydict \<Rightarrow> garage_error + pydict" where
  "render_spec T template_id over =
     (let tpl = template_of T template_id; enable_oracle = truthy_text (dict_get over ''enable_oracle'');
          enable_comm = truthy_text (dict_get over ''enable_comm''); window_id = py_strip (get_str over ''window_id'');
          tid = get_str tpl ''id'' in
      if tpl = [] then Inl (Refused ''template_not_found'')
      else if enable_comm \<and> window_id = [] then Inl (Refused ''window_id_required_for_comm'')
      else
        bindE (broken (capabilities_list (dict_get tpl ''capabilities''))) (\<lambda>base.
        bindE (broken (requested_caps over)) (\<lambda>requested.
        bindE (spec_actions T tpl base requested enable_oracle enable_comm) (\<lambda>a.
        let name = pick_text over ''name'' [''default_name'', ''id''] tpl ''garage.agent'';
            goal = pick_text over ''goal'' [''default_goal''] tpl (''Run template '' @ py_str (dict_get tpl ''id''));
            owner = py_str (py_or (dict_get over ''owner'') (PStr ''ester''));
            values = [(''name'', name), (''goal'', goal), (''owner'', owner), (''template_id'', tid), (''window_id'', window_id)] in
        bindE (broken (dict_arg (dict_get tpl ''default_budgets''))) (\<lambda>tpl_budgets.
        bindE (broken (dict_arg (dict_get over ''budgets''))) (\<lambda>over_budgets.
        bindE (broken (template_budgets (dict_merge tpl_budgets over_budgets))) (\<lambda>budgets.
        bindE (broken (dict_arg (dict_get tpl ''oracle_policy''))) (\<lambda>oracle.
        bindE (broken (dict_arg (dict_get tpl ''comm_policy''))) (\<lambda>comm.
        bindE (broken (dict_arg (dict_get tpl ''default_scopes''))) (\<lambda>scopes.
        Inr [(''name'', fill_value values (PStr name)), (''goal'', fill_value values (PStr goal)),
             (''allowed_actions'', str_list (dedupe (ta_resolved a))), (''budgets'', PDict budgets), (''owner'', PStr owner),
             (''oracle_policy'', PDict (dict_set ''enabled'' (PBool enable_oracle) oracle)),
             (''comm_policy'', PDict (dict_set ''enabled'' (PBool enable_comm) comm)), (''scopes'', PDict scopes),
             (''template_id'', PStr tid), (''capabilities'', str_list (ta_caps a)), (''capabilities_effective'', str_list (ta_caps a)),
             (''capabilities_base'', str_list base), (''template_aliases'', PDict (alias_dict (ta_aliases a))),
             (''template_missing_actions'', str_list (ta_missing a)), (''template_disabled_by_policy'', str_list (ta_disabled a)),
             (''template_fallback_action'', PStr (preferred_fallback (available_actions T)))]))))))))))"

section \<open>Plans\<close>

definition fallback_step :: "string \<Rightarrow> string \<Rightarrow> string \<Rightarrow> pydict" where
  "fallback_step template_id sid fallback =
     (let text = template_id @ '': action '' @ [CHR 0x27] @ sid @ [CHR 0x27] @ '' unavailable, skipped.'' in
      if fallback = ''messages.outbox.enqueue'' then
        [(''action_id'', PStr fallback), (''args'', PDict [(''kind'', PStr ''garage.agent.partial''), (''text'', PStr text),
          (''meta'', PDict [(''template_id'', PStr template_id), (''skipped_action'', PStr sid)])])]
      else if fallback = ''memory.add_note'' then
        [(''action_id'', PStr fallback), (''args'', PDict [(''text'', PStr text), (''tags'', str_list [''garage'', ''template'', ''partial'']),
          (''source'', PStr ''garage.templates.registry'')])]
      else if fallback = ''files.sandbox_write'' then
        [(''action_id'', PStr fallback), (''args'', PDict [(''relpath'', PStr ''template/partial_availability.txt''), (''content'', PStr text)])]
      else [])"

definition auto_hash :: "template_env \<Rightarrow> string \<Rightarrow> pydict \<Rightarrow> (string \<times> string) list \<Rightarrow> pydict" where
  \<comment> \<open>the hash of what an earlier step writes (with the line separator of Unix)\<close>
  "auto_hash T actual args written =
     (let rel = py_strip (get_str args ''relpath''); want = py_strip (get_str args ''expected_sha256'') in
      if actual = ''files.sha256_verify'' \<and> want \<in> {''__AUTO_FROM_WRITE__'', ''__AUTO_SHA256__''} then
        (case map_of written rel of None \<Rightarrow> args | Some content \<Rightarrow> dict_set ''expected_sha256'' (PStr (te_sha T (utf8 content))) args)
      else args)"

definition plan_step ::
  "template_env \<Rightarrow> string \<Rightarrow> pydict \<Rightarrow> string \<Rightarrow> (string \<times> string) list \<Rightarrow> pydict \<Rightarrow> (string \<times> string) list \<Rightarrow>
   py_error + pydict list \<times> (string \<times> string) list" where
  "plan_step T tid aliases fallback values src written =
     (let sid = py_strip (py_str (py_or (dict_get src ''action_id'') (py_or (dict_get src ''action'') (PStr [])))) in
      if sid = [] then Inr ([], written)
      else
        let actual = py_strip (py_str (py_or (dict_get aliases sid) (PStr (resolve_alias (available_actions T) sid)))) in
        if actual = [] then Inr (let fb = fallback_step tid sid fallback in if fb = [] then [] else [fb], written)
        else
          bindE (dict_arg (dict_get src ''args'')) (\<lambda>raw_args.
          let args = map (\<lambda>(k, v). (k, fill_value values v)) raw_args in
          bindE (if truthy (dict_get src ''budgets'') then bindE (dict_arg (dict_get src ''budgets'')) template_budgets else Inr []) (\<lambda>budgets.
          let rel = py_strip (get_str args ''relpath'');
              written' = (if actual = ''files.sandbox_write'' \<and> rel \<noteq> [] then AList.update rel (get_str args ''content'') written else written)
          in Inr ([[(''action_id'', PStr actual), (''args'', PDict (auto_hash T actual args written'))]
                   @ opt_entry (budgets \<noteq> []) ''budgets'' (PDict budgets)], written'))))"

fun plan_steps ::
  "template_env \<Rightarrow> string \<Rightarrow> pydict \<Rightarrow> string \<Rightarrow> (string \<times> string) list \<Rightarrow> pyval list \<Rightarrow> (string \<times> string) list \<Rightarrow> py_error + pydict list" where
  "plan_steps T tid aliases fallback values [] written = Inr []"
| "plan_steps T tid aliases fallback values (row # rows) written =
     bindE (dict_arg row) (\<lambda>src.
     bindE (plan_step T tid aliases fallback values src written) (\<lambda>(steps, written').
     bindE (plan_steps T tid aliases fallback values rows written') (\<lambda>rest. Inr (steps @ rest))))"

definition render_plan :: "template_env \<Rightarrow> string \<Rightarrow> pydict \<Rightarrow> garage_error + pydict" where
  "render_plan T template_id over =
     (let tpl = template_of T template_id; tid = get_str tpl ''id'' in
      if tpl = [] then Inl (Refused ''template_not_found'')
      else
        bindE (render_spec T template_id over) (\<lambda>spec.
        bindE (broken (dict_arg (dict_get spec ''template_aliases''))) (\<lambda>aliases.
        let fallback = get_str spec ''template_fallback_action'';
            oracle_steps = (case dict_get tpl ''plan_when_oracle_enabled'' of PList xs \<Rightarrow> Some xs | _ \<Rightarrow> None);
            values = [(''name'', get_str spec ''name''), (''goal'', get_str spec ''goal''), (''owner'', get_str spec ''owner''),
                      (''template_id'', tid), (''window_id'', get_str over ''window_id'')] in
        bindE (broken (if truthy_text (dict_get over ''enable_oracle'') \<and> oracle_steps \<noteq> None then Inr (the oracle_steps)
                       else list_arg (dict_get tpl ''default_plan''))) (\<lambda>rows.
        bindE (broken (plan_steps T tid aliases fallback values rows [])) (\<lambda>steps.
        let fb = fallback_step tid ''no_steps_available'' fallback;
            all = (if steps = [] \<and> fb \<noteq> [] then [fb] else steps)
        in Inr [(''steps'', PList (map PDict all))])))))"

end
