(* ===== verification/GarageFactory.thy ===== *)
theory GarageFactory
  imports GarageTemplates AgentQueue
begin

text \<open>
  \<open>modules/garage/agent_factory.py\<close> and \<open>agent_spec.py\<close>: the authority of a specification, and the registry of agents
  (creating, listing, reading, disabling).  The integrity guard is a parameter: its reply to the check before a
  creation, and its reply to a write of a specification together with whether the file was written.
  The periodic \<open>garage_maintenance\<close>, which runs agents, is not modelled.
\<close>

section \<open>Authority\<close>

record authority =
  at_source :: string
  at_base :: "string list"
  at_effective :: "string list"
  at_computed :: "string list"
  at_warnings :: "string list"

definition authority_refused :: "string \<Rightarrow> string \<Rightarrow> pydict \<Rightarrow> pydict" where
  "authority_refused err code more_fields = [(''ok'', PBool False), (''error'', PStr err), (''error_code'', PStr code)] @ more_fields"

definition detail_entry :: "string \<Rightarrow> pyval \<Rightarrow> pydict" where
  "detail_entry k v = [(''details'', PDict [(k, v)])]"

definition cleaned :: "pyval \<Rightarrow> py_error + string list" where
  \<comment> \<open>\<open>_clean_list(raw or [])\<close>\<close>
  "cleaned raw = bindE (list_arg raw) (\<lambda>vs. Inr (clean_list vs []))"

definition policy_switches :: "pydict \<Rightarrow> py_error + bool \<times> bool" where
  \<comment> \<open>whether the specification lets remote models and messages to people be used\<close>
  "policy_switches src =
     bindE (dict_arg (dict_get src ''oracle_policy'')) (\<lambda>oracle.
     bindE (dict_arg (dict_get src ''comm_policy'')) (\<lambda>comm.
     Inr (truthy (dict_get oracle ''enabled'') \<or> truthy (dict_get oracle ''allow_remote''), truthy (dict_get comm ''enabled''))))"

definition clamp_caps :: "bool \<Rightarrow> string list \<Rightarrow> string list \<Rightarrow> pydict + string list \<times> string list" where
  \<comment> \<open>the requested capabilities against those of the template, with the warnings\<close>
  "clamp_caps strict base requested =
     (let invalid = filter (\<lambda>c. c \<notin> set base) requested; kept = filter (\<lambda>c. c \<in> set base) requested in
      if requested = [] then Inr (base, [])
      else if invalid = [] then Inr (requested, [])
      else if strict then
        Inl (authority_refused ''capability_escalation'' ''CAPABILITY_ESCALATION'' (detail_entry ''invalid_capabilities'' (str_list invalid)))
      else Inr (if kept = [] then base else kept, [''capabilities_clamped'']))"

definition resolved_or :: "template_env \<Rightarrow> bool \<Rightarrow> string list \<Rightarrow> pydict + string list \<times> string list" where
  "resolved_or T strict caps =
     (case resolve_allowed_actions T True caps of
        Inr as \<Rightarrow> Inr (as, [])
      | Inl e \<Rightarrow>
          if strict then Inl (authority_refused ''capabilities_invalid'' ''CAPABILITIES_INVALID''
                                (detail_entry ''detail'' (PStr (garage_error_text T e))))
          else Inr ([], [''capabilities_invalid_slot_a'']))"

definition switched_authority :: "template_env \<Rightarrow> bool \<Rightarrow> string list \<Rightarrow> string list \<Rightarrow> string list \<Rightarrow> bool \<times> bool \<Rightarrow> pydict + authority" where
  \<comment> \<open>after the policy of the specification has switched capabilities off\<close>
  "switched_authority T strict base caps w on =
     (let (kept, off) = capability_policy_filter caps (fst on) (snd on) in
      bindE (resolved_or T strict kept) (\<lambda>(computed, w').
      Inr \<lparr>at_source = ''template.capabilities'', at_base = base, at_effective = kept, at_computed = computed,
           at_warnings = w @ (if off = [] then [] else [''capabilities_disabled_by_policy'']) @ w'\<rparr>))"

definition template_caps_authority :: "template_env \<Rightarrow> bool \<Rightarrow> pydict \<Rightarrow> string list \<Rightarrow> string list \<Rightarrow> py_error + pydict + authority" where
  "template_caps_authority T strict src base requested =
     (case clamp_caps strict base requested of
        Inl rep \<Rightarrow> Inr (Inl rep)
      | Inr (caps, w) \<Rightarrow> bindE (policy_switches src) (\<lambda>on. Inr (switched_authority T strict base caps w on)))"

definition legacy_authority :: "template_env \<Rightarrow> string \<Rightarrow> bool \<times> bool \<Rightarrow> pydict + authority" where
  "legacy_authority T template_id on =
     (case bindE (render_spec T template_id [(''enable_oracle'', PBool (fst on)), (''enable_comm'', PBool (snd on))]) (\<lambda>spec.
             broken (cleaned (dict_get spec ''allowed_actions''))) of
        Inl e \<Rightarrow> Inl (authority_refused ''template_resolve_failed'' ''TEMPLATE_RESOLVE_FAILED''
                        (detail_entry ''detail'' (PStr (garage_error_text T e))))
      | Inr as \<Rightarrow> Inr \<lparr>at_source = ''template.legacy'', at_base = [], at_effective = [], at_computed = as, at_warnings = []\<rparr>)"

definition template_authority :: "template_env \<Rightarrow> bool \<Rightarrow> pydict \<Rightarrow> string \<Rightarrow> string list \<Rightarrow> py_error + pydict + authority" where
  \<comment> \<open>the branch of a specification with a template\<close>
  "template_authority T strict src template_id requested =
     bindE (get_template T template_id) (\<lambda>tpl.
     if tpl = [] then Inr (Inl (authority_refused ''template_not_found'' ''TEMPLATE_NOT_FOUND'' []))
     else
       bindE (cleaned (dict_get tpl ''capabilities'')) (\<lambda>base.
       if base \<noteq> [] then template_caps_authority T strict src base requested
       else
         Inr (case policy_switches src of
                Inl e \<Rightarrow> Inl (authority_refused ''template_resolve_failed'' ''TEMPLATE_RESOLVE_FAILED''
                                (detail_entry ''detail'' (PStr (te_exc_text T e))))
              | Inr on \<Rightarrow> legacy_authority T template_id on)))"

definition raw_authority :: "template_env \<Rightarrow> bool \<Rightarrow> string list \<Rightarrow> pydict + authority" where
  "raw_authority T strict requested =
     (if requested = [] then
        Inr \<lparr>at_source = ''legacy'', at_base = [], at_effective = [], at_computed = [], at_warnings = []\<rparr>
      else
        bindE (resolved_or T strict requested) (\<lambda>(computed, w).
        Inr \<lparr>at_source = ''raw.capabilities'', at_base = [], at_effective = (if w = [] then requested else []), at_computed = computed,
             at_warnings = w\<rparr>))"

definition spec_authority :: "template_env \<Rightarrow> bool \<Rightarrow> pydict \<Rightarrow> py_error + pydict + authority" where
  "spec_authority T strict src =
     (let template_id = py_strip (get_str src ''template_id'') in
      bindE (cleaned (py_or (dict_get src ''capabilities_effective'') (dict_get src ''capabilities''))) (\<lambda>requested.
      if template_id \<noteq> [] then template_authority T strict src template_id requested
      else Inr (raw_authority T strict requested)))"

definition final_actions :: "template_env \<Rightarrow> bool \<Rightarrow> string list \<Rightarrow> authority \<Rightarrow> string list \<times> string list" where
  \<comment> \<open>the allowlist and one more warning; outside slot B what the specification names may narrow it\<close>
  "final_actions T strict given a =
     (let computed = at_computed a; clamped = filter (\<lambda>x. x \<in> set computed) given;
          known = filter (\<lambda>x. x \<in> set (map py_strip (te_ids T))) given in
      if strict then (computed, if given = [] then [] else [''allowed_actions_ignored_slot_b''])
      else if computed \<noteq> [] then
        (if given = [] then (computed, [])
         else (if clamped = [] then computed else clamped, if length clamped = length given then [] else [''allowed_actions_clamped'']))
      else (known, if length known = length given then [] else [''allowed_actions_unknown_clamped'']))"

definition settle_authority :: "template_env \<Rightarrow> string \<Rightarrow> string \<Rightarrow> string list \<Rightarrow> authority \<Rightarrow> pydict" where
  "settle_authority T slot template_id given a =
     (let strict = (slot = ''B''); (allow, w) = final_actions T strict given a; final = dedupe allow; warnings = at_warnings a @ w in
      if strict \<and> template_id = [] \<and> at_effective a = [] then authority_refused ''authority_missing'' ''AUTHORITY_MISSING'' []
      else if final = [] then
        authority_refused ''allowlist_empty'' ''ALLOWLIST_EMPTY'' [(''warnings'', str_list warnings)]
      else
        [(''ok'', PBool True), (''slot'', PStr slot), (''source'', PStr (at_source a)), (''template_id'', PStr template_id),
         (''capabilities_base'', str_list (at_base a)), (''capabilities_effective'', str_list (at_effective a)),
         (''allowed_actions'', str_list final), (''warnings'', str_list (dedupe warnings))])"

definition resolve_allowlist :: "template_env \<Rightarrow> string \<Rightarrow> pydict \<Rightarrow> py_error + pydict" where
  \<comment> \<open>\<open>resolve_allowlist_for_spec\<close> for the slot in force\<close>
  "resolve_allowlist T slot_text src =
     (let slot = py_upper (py_strip slot_text); template_id = py_strip (get_str src ''template_id'') in
      bindE (cleaned (dict_get src ''allowed_actions'')) (\<lambda>given.
      bindE (spec_authority T (slot = ''B'') src) (\<lambda>r.
      Inr (case r of Inl rep \<Rightarrow> rep | Inr a \<Rightarrow> settle_authority T slot template_id given a))))"

section \<open>Specifications\<close>

record agent_spec_rec =
  as_name :: string
  as_goal :: string
  as_actions :: "string list"
  as_budgets :: pydict
  as_owner :: string
  as_oracle :: pydict

definition ensure_budget :: "pyval \<Rightarrow> py_error + pydict" where
  "ensure_budget raw =
     bindE (dict_arg raw) (\<lambda>src.
     bindE (get_int src ''max_actions'' 4) (\<lambda>actions.
     bindE (get_int src ''max_work_ms'' 2000) (\<lambda>work.
     bindE (get_int src ''window'' 60) (\<lambda>window.
     bindE (get_int src ''est_work_ms'' 250) (\<lambda>est.
     Inr [(''max_actions'', PInt (max 1 actions)), (''max_work_ms'', PInt (max 1 work)), (''window'', PInt (max 1 window)),
          (''est_work_ms'', PInt (max 1 (min (max 1 work) est)))])))))"

definition clean_text :: "pyval \<Rightarrow> string" where
  "clean_text v = py_strip (py_str (py_or v (PStr [])))"

definition spec_from_any :: "pydict \<Rightarrow> py_error + agent_spec_rec" where
  "spec_from_any src =
     bindE (list_arg (dict_get src ''allowed_actions'')) (\<lambda>actions.
     bindE (ensure_budget (dict_get src ''budgets'')) (\<lambda>budgets.
     bindE (dict_arg (dict_get src ''oracle_policy'')) (\<lambda>oracle.
     Inr \<lparr>as_name = clean_text (dict_get src ''name''), as_goal = clean_text (dict_get src ''goal''),
          as_actions = filter (\<lambda>s. s \<noteq> []) (map clean_text actions), as_budgets = budgets,
          as_owner = clean_text (py_or (dict_get src ''owner'') (PStr ''unknown'')), as_oracle = oracle\<rparr>)))"

definition spec_errors :: "agent_spec_rec \<Rightarrow> string list" where
  "spec_errors s =
     (if as_name s = [] then [''name_required''] else []) @ (if as_goal s = [] then [''goal_required''] else [])
     @ (if as_actions s = [] then [''allowed_actions_required''] else [])
     @ (if list_ex (\<lambda>a. py_strip a = []) (as_actions s) then [''allowed_actions_invalid''] else [])
     @ (if as_owner s = [] then [''owner_required''] else [])"

definition spec_dict :: "agent_spec_rec \<Rightarrow> pydict" where
  \<comment> \<open>\<open>to_dict\<close>, with budgets that are normal already\<close>
  "spec_dict s = [(''name'', PStr (as_name s)), (''goal'', PStr (as_goal s)), (''allowed_actions'', str_list (as_actions s)),
     (''budgets'', PDict (as_budgets s)), (''owner'', PStr (as_owner s)), (''oracle_policy'', PDict (as_oracle s))]"

section \<open>The registry\<close>

record garage_env =
  gv_getenv :: "string \<Rightarrow> string option"
  gv_now :: int
  gv_ids :: ids
  gv_templates :: template_env
  gv_precheck :: "string \<Rightarrow> py_error + pydict"
  gv_guard :: "string \<Rightarrow> pydict \<Rightarrow> bool \<times> (py_error + pydict)"
  gv_folder :: "string \<Rightarrow> string"
  gv_spec_path :: "string \<Rightarrow> string"
  gv_root :: string

record garage_world =
  gw_index :: "jtext option"
  gw_specs :: "string \<Rightarrow> jtext option"
  gw_events :: "pydict list"
  gw_journal :: "pydict list"
  gw_streak :: int
  gw_disabled :: bool
  gw_rollback :: "string option"
  gw_queue :: queue_lines

type_synonym 'a garage_action = "(garage_world, 'a) py_action"

definition caps_fail_max :: "garage_env \<Rightarrow> int" where
  "caps_fail_max E = (case parse_int (str_or (gv_getenv E ''ESTER_CAPS_STRICT_FAIL_MAX'') ''3'') of None \<Rightarrow> 3 | Some i \<Rightarrow> max 1 i)"

definition caps_strict :: "garage_env \<Rightarrow> garage_world \<Rightarrow> bool" where
  "caps_strict E w = (q_slot (gv_getenv E) = ''B'' \<and> \<not> gw_disabled w)"

definition note_caps_exception :: "garage_env \<Rightarrow> string \<Rightarrow> py_error \<Rightarrow> unit garage_action" where
  "note_caps_exception E place e = modifyS (\<lambda>w.
     let n = gw_streak w + 1 in
     if caps_fail_max E \<le> n then w\<lparr>gw_streak := n, gw_disabled := True, gw_rollback := Some (place @ '':'' @ error_name e)\<rparr>
     else w\<lparr>gw_streak := n\<rparr>)"

definition caps_status :: "garage_env \<Rightarrow> garage_world \<Rightarrow> pydict" where
  "caps_status E w =
     [(''slot'', PStr (q_slot (gv_getenv E))), (''strict_enabled'', PBool (caps_strict E w)), (''strict_disabled'', PBool (gw_disabled w)),
      (''strict_err_streak'', PInt (gw_streak w)), (''strict_fail_max'', PInt (caps_fail_max E))]"

definition policy_row :: "garage_env \<Rightarrow> bool \<Rightarrow> string \<Rightarrow> string \<Rightarrow> pydict \<Rightarrow> pydict" where
  \<comment> \<open>\<open>_journal_policy\<close>\<close>
  "policy_row E allowed code reason metadata =
     [(''id'', PStr (''vol_manual_'' @ gv_ids E 1)), (''ts'', PInt (gv_now E)), (''chain_id'', PStr (get_str metadata ''chain_id'')),
      (''step'', PStr ''agent.create''), (''actor'', PStr (py_str (py_or (dict_get metadata ''actor'') (PStr ''ester'')))),
      (''intent'', PStr ''agent_create''), (''action_kind'', PStr ''agent.create''), (''needs'', str_list [''agent.create'']),
      (''allowed'', PBool allowed), (''reason_code'', PStr (text_or code (if allowed then ''ALLOW'' else ''DENY''))),
      (''reason'', PStr reason), (''slot'', PStr (q_slot (gv_getenv E))), (''metadata'', PDict metadata), (''action_id'', PStr ''agent.create''),
      (''decision'', PStr (if allowed then ''allow'' else ''deny'')), (''policy_hit'', PStr ''agent.create''), (''duration_ms'', PInt 0)]"

definition journal_policy :: "garage_env \<Rightarrow> bool \<Rightarrow> string \<Rightarrow> string \<Rightarrow> pydict \<Rightarrow> unit garage_action" where
  "journal_policy E allowed code reason metadata = modifyS (\<lambda>w. w\<lparr>gw_journal := gw_journal w @ [policy_row E allowed code reason metadata]\<rparr>)"

definition blank_index :: "garage_env \<Rightarrow> pydict" where
  "blank_index E = [(''agents'', PDict []), (''updated_ts'', PInt (gv_now E))]"

definition read_index :: "garage_env \<Rightarrow> jtext option \<Rightarrow> pydict" where
  "read_index E f =
     (let raw = (case f of Some (JVal (PDict d)) \<Rightarrow> d | _ \<Rightarrow> blank_index E);
          d = set_default ''agents'' (PDict []) raw;
          d' = (case dict_get d ''agents'' of PDict _ \<Rightarrow> d | _ \<Rightarrow> dict_set ''agents'' (PDict []) d)
      in set_default ''updated_ts'' (PInt (gv_now E)) d')"

definition load_index :: "garage_env \<Rightarrow> pydict garage_action" where
  \<comment> \<open>an index that is missing is written first\<close>
  "load_index E =
     bindS (modifyS (\<lambda>w. if gw_index w = None then w\<lparr>gw_index := Some (JVal (PDict (blank_index E)))\<rparr> else w)) (\<lambda>_.
     readS (\<lambda>w. Inr (read_index E (gw_index w))))"

definition index_agents :: "pydict \<Rightarrow> pydict" where
  "index_agents idx = dict_of (dict_get idx ''agents'')"

definition save_agents :: "garage_env \<Rightarrow> pydict \<Rightarrow> pydict \<Rightarrow> unit garage_action" where
  "save_agents E idx agents = modifyS (\<lambda>w. w\<lparr>gw_index :=
     Some (JVal (PDict (dict_set ''updated_ts'' (PInt (gv_now E)) (dict_set ''agents'' (PDict agents) idx))))\<rparr>)"

definition garage_event :: "pydict \<Rightarrow> unit garage_action" where
  "garage_event row = modifyS (\<lambda>w. w\<lparr>gw_events := gw_events w @ [row]\<rparr>)"

definition load_spec :: "string \<Rightarrow> garage_world \<Rightarrow> pydict" where
  "load_spec aid w = (case gw_specs w aid of Some (JVal (PDict d)) \<Rightarrow> d | _ \<Rightarrow> [])"

definition write_spec :: "garage_env \<Rightarrow> string \<Rightarrow> pydict \<Rightarrow> pydict garage_action" where
  \<comment> \<open>\<open>_write_spec_trusted\<close> with the integrity guard at hand\<close>
  "write_spec E aid payload =
     (let (written, rep) = gv_guard E aid payload in
      bindS (modifyS (\<lambda>w. if written then w\<lparr>gw_specs := (gw_specs w)(aid \<mapsto> JVal (PDict payload))\<rparr> else w)) (\<lambda>_.
      retS (case rep of Inr d \<Rightarrow> d
            | Inl e \<Rightarrow> authority_refused ''spec_write_failed'' ''SPEC_WRITE_FAILED''
                [(''detail'', PStr (te_exc_text (gv_templates E) e))])))"

section \<open>Creating an agent\<close>

definition py_text :: "pydict \<Rightarrow> string \<Rightarrow> string \<Rightarrow> string" where
  \<comment> \<open>\<open>str(d.get(k) or dflt)\<close>\<close>
  "py_text d k dflt = py_str (py_or (dict_get d k) (PStr dflt))"

definition integrity_check :: "garage_env \<Rightarrow> pydict \<Rightarrow> pydict + string list" where
  \<comment> \<open>a refusal, or the warnings of the integrity guard; an exception in it is swallowed\<close>
  "integrity_check E raw_spec =
     (case gv_precheck E (get_str raw_spec ''template_id'') of
        Inl e \<Rightarrow> Inr []
      | Inr rep \<Rightarrow>
          if \<not> truthy (dict_get rep ''ok'') then
            (case dict_arg (dict_get rep ''integrity'') of
               Inl e \<Rightarrow> Inr []
             | Inr d \<Rightarrow> Inl ([(''ok'', PBool False), (''error'', PStr (py_text rep ''error'' ''integrity_tamper'')),
                 (''error_code'', PStr (py_text rep ''error_code'' ''INTEGRITY_TAMPER'')), (''reason_code'', PStr (get_str rep ''reason_code'')),
                 (''details'', PDict [(''integrity'', PDict d), (''slot'', PStr (get_str rep ''slot'')),
                    (''enforced'', PBool (truthy (dict_get rep ''enforced'')))])]))
          else (case non_blank (dict_get rep ''warnings'') of Inl e \<Rightarrow> Inr [] | Inr ws \<Rightarrow> Inr ws))"

definition created_authority :: "garage_env \<Rightarrow> bool \<Rightarrow> pydict \<Rightarrow> (pydict + pydict) garage_action" where
  \<comment> \<open>the authority of a new agent; in strict mode an exception counts, and may end strict mode\<close>
  "created_authority E strict raw_spec w =
     (let T = gv_templates E;
          failed = (\<lambda>e more_fields. [(''ok'', PBool False), (''error'', PStr ''authority_resolve_failed''), (''detail'', PStr (te_exc_text T e))]
                      @ more_fields) in
      case resolve_allowlist T (if strict then ''B'' else ''A'') raw_spec of
        Inr auth \<Rightarrow> (Inr (Inr auth), w)
      | Inl e \<Rightarrow>
          if \<not> strict then (Inr (Inl (failed e [])), w)
          else
            bindS (note_caps_exception E ''agent_factory.create_agent'' e) (\<lambda>_.
            bindS (readS (\<lambda>w. Inr (caps_strict E w, caps_status E w))) (\<lambda>(still, status).
            if still then retS (Inl (failed e [(''strict_status'', PDict status)]))
            else
              bindS (liftS (resolve_allowlist T ''A'' raw_spec)) (\<lambda>auth.
              bindS (liftS (list_arg (dict_get auth ''warnings''))) (\<lambda>ws.
              retS (Inr (dict_set ''warnings'' (str_list (clean_list (ws @ [PStr ''slot_b_auto_rollback'']) [])) auth)))))) w)"

definition extra_fields :: "pydict \<Rightarrow> pydict" where
  \<comment> \<open>\<open>_safe_extra_spec_fields\<close>\<close>
  "extra_fields raw = map (\<lambda>k. (k, dict_get raw k)) (filter (has_key raw)
     [''cli_agent_handshake_profile'', ''governed_mesh_profile'', ''governed_mesh_role'', ''security_policy'', ''task_contract_template''])"

definition hash_list :: "template_env \<Rightarrow> string list \<Rightarrow> string" where
  "hash_list T xs = te_sha T (ascii_text (str_list (sort (dedupe xs))))"

definition agent_payload :: "garage_env \<Rightarrow> string \<Rightarrow> pydict \<Rightarrow> agent_spec_rec \<Rightarrow> pydict \<Rightarrow> string list \<Rightarrow> string list \<Rightarrow> string list \<Rightarrow> string list \<Rightarrow> pydict" where
  "agent_payload E aid raw_spec spec auth actions effective base warnings =
     dict_merge (dict_merge (spec_dict spec) (extra_fields raw_spec))
       [(''agent_id'', PStr aid), (''enabled'', PBool True), (''created_ts'', PInt (gv_now E)), (''updated_ts'', PInt (gv_now E)),
        (''folder'', PStr (gv_folder E aid)),
        (''template_id'', PStr (py_str (py_or (dict_get auth ''template_id'') (py_or (dict_get raw_spec ''template_id'') (PStr []))))),
        (''capabilities_effective'', str_list effective), (''capabilities_base'', str_list base),
        (''allowed_actions_hash'', PStr (hash_list (gv_templates E) actions)), (''capabilities_hash'', PStr (hash_list (gv_templates E) effective)),
        (''authority_source'', PStr (get_str auth ''source'')), (''authority_warnings'', str_list warnings)]"

definition index_row :: "garage_env \<Rightarrow> string \<Rightarrow> pydict \<Rightarrow> pydict" where
  "index_row E aid payload =
     [(''agent_id'', PStr aid), (''name'', dict_get payload ''name''), (''owner'', dict_get payload ''owner''), (''goal'', dict_get payload ''goal''),
      (''enabled'', PBool True), (''folder'', PStr (gv_folder E aid)), (''spec_path'', PStr (gv_spec_path E aid)),
      (''template_id'', dict_get payload ''template_id''), (''capabilities_effective'', dict_get payload ''capabilities_effective''),
      (''allowed_actions_hash'', dict_get payload ''allowed_actions_hash''), (''created_ts'', PInt (gv_now E)), (''updated_ts'', PInt (gv_now E))]"

definition register_agent :: "garage_env \<Rightarrow> string \<Rightarrow> pydict \<Rightarrow> string list \<Rightarrow> pydict garage_action" where
  \<comment> \<open>from the write of the specification to the reply\<close>
  "register_agent E aid payload warnings =
     bindS (write_spec E aid payload) (\<lambda>rep.
     if \<not> truthy (dict_get rep ''ok'') then
       retS (authority_refused (py_text rep ''error'' ''spec_write_failed'') (py_text rep ''error_code'' ''SPEC_WRITE_FAILED'')
         [(''detail'', PStr (get_str rep ''detail''))])
     else
       bindS (load_index E) (\<lambda>idx.
       bindS (save_agents E idx (dict_set aid (PDict (index_row E aid payload)) (index_agents idx))) (\<lambda>_.
       bindS (garage_event [(''ts'', PInt (gv_now E)), (''event'', PStr ''create''), (''agent_id'', PStr aid), (''name'', dict_get payload ''name'')]) (\<lambda>_.
       bindS (journal_policy E True (if warnings = [] then ''ALLOW'' else ''ALLOW_CLAMP'') (if warnings = [] then ''created'' else ''created_with_clamp'')
                [(''policy_hit'', PStr ''agent.create''), (''agent_id'', PStr aid), (''template_id'', dict_get payload ''template_id''),
                 (''capabilities_effective'', dict_get payload ''capabilities_effective''), (''allowed_actions'', dict_get payload ''allowed_actions''),
                 (''allowed_actions_hash'', dict_get payload ''allowed_actions_hash''), (''warnings'', str_list warnings),
                 (''slot'', PStr (q_slot (gv_getenv E)))]) (\<lambda>_.
       retS [(''ok'', PBool True), (''agent_id'', PStr aid), (''folder'', PStr (gv_folder E aid)), (''spec_path'', PStr (gv_spec_path E aid)),
             (''spec'', PDict payload), (''warnings'', str_list warnings)])))))"

definition authority_denied :: "garage_env \<Rightarrow> pydict \<Rightarrow> pydict \<Rightarrow> pydict garage_action" where
  "authority_denied E raw_spec auth =
     bindS (liftS (cleaned (dict_get raw_spec ''capabilities''))) (\<lambda>caps.
     bindS (liftS (dict_arg (dict_get auth ''details''))) (\<lambda>details.
     bindS (journal_policy E False (py_text auth ''error_code'' ''DENY'') (py_text auth ''error'' ''authority_invalid'')
              [(''policy_hit'', PStr ''agent.create''), (''template_id'', PStr (get_str raw_spec ''template_id'')), (''capabilities'', str_list caps),
               (''slot'', PStr (q_slot (gv_getenv E))), (''details'', PDict details)]) (\<lambda>_.
     bindS (liftS (list_arg (dict_get auth ''warnings''))) (\<lambda>ws.
     retS (authority_refused (py_text auth ''error'' ''authority_invalid'') (py_text auth ''error_code'' ''AUTHORITY_INVALID'')
             [(''details'', PDict details), (''warnings'', PList ws)])))))"

definition create_with :: "garage_env \<Rightarrow> pydict \<Rightarrow> bool \<Rightarrow> string list \<Rightarrow> pydict \<Rightarrow> pydict garage_action" where
  \<comment> \<open>from an authority that was resolved\<close>
  "create_with E raw_spec strict guard_warnings auth =
     bindS (modifyS (\<lambda>w. if strict then w\<lparr>gw_streak := 0\<rparr> else w)) (\<lambda>_.
     bindS (liftS (list_arg (dict_get auth ''allowed_actions''))) (\<lambda>actions.
     bindS (liftS (spec_from_any (dict_set ''allowed_actions'' (PList actions) raw_spec))) (\<lambda>spec.
     let errs = spec_errors spec in
     if errs \<noteq> [] then
       bindS (journal_policy E False ''INVALID_SPEC'' ''invalid_spec''
                [(''policy_hit'', PStr ''agent.create''), (''reasons'', str_list errs), (''slot'', PStr (q_slot (gv_getenv E)))]) (\<lambda>_.
       retS [(''ok'', PBool False), (''error'', PStr ''invalid_spec''), (''reasons'', str_list errs)])
     else
       bindS (liftS (list_arg (dict_get auth ''capabilities_effective''))) (\<lambda>effective.
       bindS (liftS (list_arg (dict_get auth ''capabilities_base''))) (\<lambda>base.
       bindS (liftS (list_arg (dict_get auth ''warnings''))) (\<lambda>ws.
       let aid = ''agent_'' @ take 12 (gv_ids E 0);
           payload = agent_payload E aid raw_spec spec auth (map py_str actions) (map py_str effective) (map py_str base) (map py_str ws);
           kept = filter (\<lambda>s. py_strip s \<noteq> []) (map py_str ws) in
       register_agent E aid payload (fold (\<lambda>x out. if x \<in> set out then out else out @ [x]) guard_warnings kept)))))))"

definition create_agent :: "garage_env \<Rightarrow> pydict \<Rightarrow> pydict garage_action" where
  "create_agent E raw_spec =
     bindS (readS (\<lambda>w. Inr (caps_strict E w))) (\<lambda>strict.
     case integrity_check E raw_spec of
       Inl rep \<Rightarrow> retS rep
     | Inr guard_warnings \<Rightarrow>
         bindS (created_authority E strict raw_spec) (\<lambda>r.
         case r of Inl rep \<Rightarrow> retS rep
         | Inr auth \<Rightarrow>
             if \<not> truthy (dict_get auth ''ok'') then authority_denied E raw_spec auth
             else create_with E raw_spec strict guard_warnings auth))"

section \<open>Listing, reading, disabling\<close>

fun listed_rows :: "garage_env \<Rightarrow> pydict \<Rightarrow> py_error + pyval list" where
  "listed_rows E [] = Inr []"
| "listed_rows E ((aid, v) # rows) =
     bindE (dict_arg v) (\<lambda>d. bindE (listed_rows E rows) (\<lambda>rest.
     Inr (PDict (if truthy (dict_get d ''spec_path'') then d else dict_set ''spec_path'' (PStr (gv_spec_path E aid)) d) # rest)))"

definition list_agents :: "garage_env \<Rightarrow> pydict garage_action" where
  "list_agents E =
     bindS (load_index E) (\<lambda>idx.
     bindS (liftS (listed_rows E (sort_key fst (index_agents idx)))) (\<lambda>rows.
     retS [(''ok'', PBool True), (''total'', PInt (int (length rows))), (''agents'', PList rows), (''root'', PStr (gv_root E))]))"

definition get_agent :: "garage_env \<Rightarrow> string \<Rightarrow> pydict garage_action" where
  "get_agent E agent_id =
     (let aid = py_strip agent_id in
      if aid = [] then retS [(''ok'', PBool False), (''error'', PStr ''agent_id_required'')]
      else
        bindS (load_index E) (\<lambda>idx.
        bindS (liftS (dict_arg (dict_get (index_agents idx) aid))) (\<lambda>row.
        if row = [] then retS [(''ok'', PBool False), (''error'', PStr ''agent_not_found''), (''agent_id'', PStr aid)]
        else
          bindS (readS (\<lambda>w. Inr (load_spec aid w))) (\<lambda>spec.
          retS [(''ok'', PBool True), (''agent'', PDict (dict_set ''spec'' (PDict spec) row))]))))"

definition cancel_queued :: "garage_env \<Rightarrow> string \<Rightarrow> int garage_action" where
  \<comment> \<open>the items of a disabled agent leave the queue; an exception there is swallowed\<close>
  "cancel_queued E aid w =
     (case bindE (q_cancel_for_agent aid ''system'' ''agent_disabled'' (gv_now E) (gw_queue w)) (\<lambda>(rep, q).
             bindE (if reply_ok rep then get_int rep ''canceled'' 0 else Inr 0) (\<lambda>n. Inr (n, q))) of
        Inl e \<Rightarrow> (Inr 0, w) | Inr (n, q) \<Rightarrow> (Inr n, w\<lparr>gw_queue := q\<rparr>))"

definition disable_agent :: "garage_env \<Rightarrow> string \<Rightarrow> string \<Rightarrow> pydict garage_action" where
  "disable_agent E agent_id reason =
     (let aid = py_strip agent_id in
      if aid = [] then retS [(''ok'', PBool False), (''error'', PStr ''agent_id_required'')]
      else
        bindS (load_index E) (\<lambda>idx.
        bindS (liftS (dict_arg (dict_get (index_agents idx) aid))) (\<lambda>row.
        if row = [] then retS [(''ok'', PBool False), (''error'', PStr ''agent_not_found''), (''agent_id'', PStr aid)]
        else
          let off = dict_set ''updated_ts'' (PInt (gv_now E)) (dict_set ''enabled'' (PBool False) row) in
          bindS (save_agents E idx (dict_set aid (PDict off) (index_agents idx))) (\<lambda>_.
          bindS (readS (\<lambda>w. Inr (load_spec aid w))) (\<lambda>spec.
          bindS (if spec = [] then retS []
                 else write_spec E aid (dict_set ''disabled_reason'' (PStr reason) (dict_set ''updated_ts'' (PInt (gv_now E))
                        (dict_set ''enabled'' (PBool False) spec)))) (\<lambda>_.
          bindS (garage_event [(''ts'', PInt (gv_now E)), (''event'', PStr ''disable''), (''agent_id'', PStr aid),
                   (''reason'', PStr (text_or reason ''manual_disable''))]) (\<lambda>_.
          bindS (cancel_queued E aid) (\<lambda>n.
          retS [(''ok'', PBool True), (''agent_id'', PStr aid), (''enabled'', PBool False), (''canceled'', PInt n)]))))))))"

end
