(* ===== verification/GarageLaws.thy ===== *)
theory GarageLaws
  imports GarageFactory
begin

text \<open>
  Lemmas on \<open>GarageTemplates\<close> and \<open>GarageFactory\<close>: what the authority of a specification is bounded by, and what the
  drift check of \<open>QuarDrift\<close> says of an agent that the registry created.
\<close>

section \<open>Normal lists\<close>

definition normal_str :: "string \<Rightarrow> bool" where
  "normal_str x = (x \<noteq> [] \<and> py_strip x = x)"

definition normal_list :: "string list \<Rightarrow> bool" where
  "normal_list xs = (distinct xs \<and> list_all normal_str xs)"

lemma normal_strip [simp]: "normal_str (py_strip x) = (py_strip x \<noteq> [])"
  by (simp add: normal_str_def)

lemma normal_strD: "normal_str x \<Longrightarrow> py_strip x = x" "normal_str x \<Longrightarrow> x \<noteq> []"
  by (simp_all add: normal_str_def)

lemma normal_Nil [simp]: "normal_list []"
  by (simp add: normal_list_def)

lemma normal_snoc: "normal_list (xs @ [y]) \<longleftrightarrow> normal_list xs \<and> normal_str y \<and> y \<notin> set xs"
  by (auto simp: normal_list_def)

lemma normal_mem: "normal_list xs \<Longrightarrow> x \<in> set xs \<Longrightarrow> normal_str x"
  by (simp add: normal_list_def list_all_iff)

lemma py_or_str [simp]: "py_str (py_or (PStr s) (PStr [])) = s"
  by (cases s) (simp_all add: py_or_def)

lemma clean_step:
  "clean_list (map PStr (x # xs)) out = clean_list (map PStr xs) (if py_strip x \<noteq> [] \<and> py_strip x \<notin> set out then out @ [py_strip x] else out)"
  by (simp add: Let_def)

lemma clean_strs:
  "normal_list out \<Longrightarrow> set (clean_list (map PStr xs) out) = set out \<union> (py_strip ` set xs - {[]}) \<and> normal_list (clean_list (map PStr xs) out)"
proof (induction xs arbitrary: out)
  case (Cons x xs)
  show ?case
  proof (cases "py_strip x \<noteq> [] \<and> py_strip x \<notin> set out")
    case True
    then have "normal_list (out @ [py_strip x])" using Cons.prems by (simp add: normal_snoc)
    from Cons.IH [OF this] True show ?thesis unfolding clean_step by auto
  next
    case False
    from Cons.IH [OF Cons.prems] False show ?thesis unfolding clean_step by auto
  qed
qed simp

lemma set_dedupe: "set (dedupe xs) = py_strip ` set xs - {[]}"
  and normal_dedupe: "normal_list (dedupe xs)"
  using clean_strs [of "[]" xs] by (simp_all add: dedupe_def)

lemma clean_normal: "normal_list (out @ xs) \<Longrightarrow> clean_list (map PStr xs) out = out @ xs"
proof (induction xs arbitrary: out)
  case (Cons x xs)
  then have "normal_str x" "x \<notin> set out" by (auto simp: normal_list_def)
  moreover from Cons have "clean_list (map PStr xs) (out @ [x]) = (out @ [x]) @ xs" by simp
  ultimately show ?case unfolding clean_step by (simp add: normal_strD)
qed simp

lemma dedupe_normal: "normal_list xs \<Longrightarrow> dedupe xs = xs"
  using clean_normal [of "[]" xs] by (simp add: dedupe_def)

lemma normal_filter: "normal_list xs \<Longrightarrow> normal_list (filter p xs)"
  by (auto simp: normal_list_def list_all_iff)

lemma normal_sort [simp]: "normal_list (sort xs) = normal_list xs"
  by (simp add: normal_list_def list_all_iff)

lemma normal_not_blank: "normal_list xs \<Longrightarrow> filter (\<lambda>s. py_strip s \<noteq> []) xs = xs"
  by (rule filter_True) (simp add: normal_list_def list_all_iff normal_str_def)

lemma normal_set_eq: "normal_list xs \<Longrightarrow> normal_list ys \<Longrightarrow> set xs = set ys \<Longrightarrow> sort xs = sort ys"
  by (rule sorted_distinct_set_unique) (simp_all add: normal_list_def)

lemma cleaned_strs: "cleaned (str_list xs) = Inr (dedupe xs)"
  by (simp add: cleaned_def str_list_def dedupe_def)

lemma normalize_strs: "normalize_allowlist (str_list xs) = Inr (sort (dedupe xs))"
  by (simp add: normalize_allowlist_def str_list_def dedupe_def)

lemma clean_any: "normal_list out \<Longrightarrow> normal_list (clean_list vs out)"
proof (induction vs arbitrary: out)
  case (Cons v vs)
  show ?case unfolding clean_list.simps Let_def
    by (rule Cons.IH) (use Cons.prems in \<open>simp add: normal_snoc\<close>)
qed simp

lemma cleaned_normal: "cleaned v = Inr xs \<Longrightarrow> normal_list xs"
  using clean_any [of "[]"] by (auto simp: cleaned_def bindE_Inr_iff)

section \<open>Capabilities and actions\<close>

lemma table_actions:
  "a \<in> set (capability_actions cap) \<Longrightarrow> normal_str a"
  "''messages.telegram.send'' \<in> set (capability_actions cap) \<longleftrightarrow> cap = ''cap.messages.telegram''"
  "''llm.remote.call'' \<in> set (capability_actions cap) \<longleftrightarrow> cap = ''cap.oracle.remote.call''"
proof -
  have *: "list_all (\<lambda>(cap, as). list_all normal_str as) capability_table" by code_simp
  assume "a \<in> set (capability_actions cap)"
  then obtain as where "map_of capability_table cap = Some as" "a \<in> set as"
    by (cases "map_of capability_table cap") (simp_all add: capability_actions_def)
  with * show "normal_str a" by (auto simp: list_all_iff dest!: map_of_SomeD)
qed (auto simp: capability_actions_def capability_table_def split: option.splits)

lemma known_actions_ok:
  "known_actions T reg cap as = Inr ys \<Longrightarrow> (\<And>a. a \<in> set as \<Longrightarrow> normal_str a) \<Longrightarrow> ys = as \<and> (\<forall>a \<in> set as. action_known T reg a)"
  by (induction as arbitrary: ys) (auto simp: Let_def bindE_Inr_iff normal_strD split: if_splits)

lemma known_actions_intro:
  "(\<And>a. a \<in> set as \<Longrightarrow> normal_str a \<and> action_known T reg a) \<Longrightarrow> known_actions T reg cap as = Inr as"
  by (induction as) (auto simp: Let_def normal_strD)

definition caps_known :: "template_env \<Rightarrow> bool \<Rightarrow> string \<Rightarrow> bool" where
  "caps_known T reg cap = (capability_actions cap \<noteq> [] \<and> (\<forall>a \<in> set (capability_actions cap). action_known T reg a))"

lemma mapped_iff:
  "mapped_actions T reg caps = Inr ys \<longleftrightarrow> (\<forall>cap \<in> set caps. caps_known T reg cap) \<and> ys = concat (map capability_actions caps)"
proof (induction caps arbitrary: ys)
  case (Cons cap caps)
  show ?case
  proof (cases "caps_known T reg cap")
    case True
    then have "known_actions T reg cap (capability_actions cap) = Inr (capability_actions cap)"
      using table_actions(1) by (auto simp: caps_known_def intro!: known_actions_intro)
    with True show ?thesis using Cons.IH by (auto simp: caps_known_def bindE_Inr_iff)
  next
    case False
    then have "mapped_actions T reg (cap # caps) \<noteq> Inr ys"
      using known_actions_ok [of T reg cap "capability_actions cap"] table_actions(1) [of _ cap]
      by (auto simp: caps_known_def bindE_Inr_iff)
    with False show ?thesis by auto
  qed
qed auto

lemma resolved_iff:
  assumes "normal_list caps"
  shows "resolve_allowed_actions T reg caps = Inr ys
    \<longleftrightarrow> (\<forall>cap \<in> set caps. caps_known T reg cap) \<and> ys = sort (dedupe (concat (map capability_actions caps)))"
  unfolding resolve_allowed_actions_def normal_not_blank [OF assms] dedupe_normal [OF assms]
  by (auto simp: bindE_Inr_iff mapped_iff)

lemma resolved_set:
  "normal_list caps \<Longrightarrow> resolve_allowed_actions T reg caps = Inr ys \<Longrightarrow> set ys = (\<Union>cap \<in> set caps. set (capability_actions cap))"
  using table_actions(1) by (force simp: resolved_iff set_dedupe normal_str_def)

lemma filter_normal:
  assumes "normal_list caps"
  shows "capability_policy_filter caps o1 c1 = (filter (policy_allows o1 c1) caps, filter (\<lambda>c. \<not> policy_allows o1 c1 c) caps)"
  unfolding capability_policy_filter_def normal_not_blank [OF assms] dedupe_normal [OF assms] Let_def
  using assms by (simp add: dedupe_normal normal_filter)

section \<open>The allowlist in slot B\<close>

definition switched_caps :: "bool \<times> bool \<Rightarrow> string list \<Rightarrow> string list" where
  \<comment> \<open>the capabilities that the policy of a specification leaves on\<close>
  "switched_caps on caps = filter (policy_allows (fst on) (snd on)) caps"

definition asked_caps :: "string list \<Rightarrow> string list \<Rightarrow> string list" where
  "asked_caps base requested = (if requested = [] then base else requested)"

definition caps_of_template :: "template_env \<Rightarrow> string \<Rightarrow> py_error + string list" where
  \<comment> \<open>the capabilities of a template that the table has; none of them for one without capabilities\<close>
  "caps_of_template T template_id =
     bindE (get_template T template_id) (\<lambda>tpl. if tpl = [] then Inl PyRuntimeError else cleaned (dict_get tpl ''capabilities''))"

definition requested_of :: "pydict \<Rightarrow> py_error + string list" where
  "requested_of src = cleaned (py_or (dict_get src ''capabilities_effective'') (dict_get src ''capabilities''))"

definition granted_actions :: "string list \<Rightarrow> string list" where
  "granted_actions caps = sort (dedupe (concat (map capability_actions caps)))"

lemma granted_set: "set (granted_actions caps) = (\<Union>cap \<in> set caps. set (capability_actions cap))"
  using table_actions(1) by (force simp: granted_actions_def set_dedupe normal_str_def)

lemma granted_normal [simp]: "normal_list (granted_actions caps)"
  by (simp add: granted_actions_def normal_dedupe)

lemma granted_Nil: "granted_actions [] = []"
  by (simp add: granted_actions_def dedupe_def)

lemma granted_none:
  assumes "\<forall>cap \<in> set caps. caps_known T reg cap"
  shows "granted_actions caps = [] \<longleftrightarrow> caps = []"
proof
  assume "granted_actions caps = []"
  then have "(\<Union>cap \<in> set caps. set (capability_actions cap)) = {}" using granted_set [of caps] by simp
  with assms show "caps = []" by (cases caps) (auto simp: caps_known_def)
qed (simp add: granted_Nil)

lemma normal_switched: "normal_list caps \<Longrightarrow> normal_list (switched_caps on caps)"
  by (simp add: switched_caps_def normal_filter)

lemma resolved_known:
  "normal_list caps \<Longrightarrow> \<forall>cap \<in> set caps. caps_known T reg cap \<Longrightarrow> resolve_allowed_actions T reg caps = Inr (granted_actions caps)"
  by (simp add: resolved_iff granted_actions_def)

lemma resolved_strict:
  "normal_list caps \<Longrightarrow> resolved_or T True caps = Inr r \<longleftrightarrow> (\<forall>cap \<in> set caps. caps_known T True cap) \<and> r = (granted_actions caps, [])"
  by (auto simp: resolved_or_def resolved_iff resolved_known simp flip: granted_actions_def split: sum.splits)

lemma refused_not_ok [simp]: "dict_get (authority_refused err code xs) ''ok'' = PBool False"
  by (simp add: authority_refused_def)

lemma resolved_strict_refuses: "resolved_or T True caps = Inl rep \<Longrightarrow> dict_get rep ''ok'' = PBool False"
  by (auto simp: resolved_or_def split: sum.splits)

lemma clamp_strict:
  "set requested \<subseteq> set base \<Longrightarrow> clamp_caps True base requested = Inr (asked_caps base requested, [])"
  "\<not> set requested \<subseteq> set base \<Longrightarrow> \<exists>rep. clamp_caps True base requested = Inl rep"
  by (auto simp: clamp_caps_def asked_caps_def Let_def filter_empty_conv)

lemma clamp_refuses: "clamp_caps strict base requested = Inl rep \<Longrightarrow> dict_get rep ''ok'' = PBool False"
  by (auto simp: clamp_caps_def Let_def split: if_splits)

text \<open>The authority of a specification whose template has capabilities.\<close>

lemma caps_authority_strict:
  assumes "normal_list base" "normal_list requested" "policy_switches src = Inr on"
  defines "left_on \<equiv> switched_caps on (asked_caps base requested)"
  shows "template_caps_authority T True src base requested = Inr (Inr a) \<longleftrightarrow>
    set requested \<subseteq> set base \<and> (\<forall>cap \<in> set left_on. caps_known T True cap)
    \<and> a = \<lparr>at_source = ''template.capabilities'', at_base = base, at_effective = left_on, at_computed = granted_actions left_on,
          at_warnings = (if left_on = asked_caps base requested then [] else [''capabilities_disabled_by_policy''])\<rparr>"
proof -
  have n: "normal_list (asked_caps base requested)" using assms by (simp add: asked_caps_def)
  have off: "filter (\<lambda>c. \<not> policy_allows (fst on) (snd on) c) (asked_caps base requested) = [] \<longleftrightarrow> left_on = asked_caps base requested"
    by (auto simp: left_on_def switched_caps_def filter_empty_conv filter_id_conv)
  have k: "normal_list left_on" using n by (simp add: left_on_def normal_switched)
  show ?thesis
  proof (cases "set requested \<subseteq> set base")
    case True
    show ?thesis using resolved_strict [OF k, of T]
      by (auto simp: template_caps_authority_def clamp_strict(1) [OF True] switched_authority_def assms(3) filter_normal [OF n] bindE_Inr_iff off True
          simp flip: left_on_def switched_caps_def)
  next
    case False
    with clamp_strict(2) [OF False] show ?thesis by (auto simp: template_caps_authority_def)
  qed
qed

lemma switched_refuses: "switched_authority T True base caps w on = Inl rep \<Longrightarrow> dict_get rep ''ok'' = PBool False"
  by (auto simp: switched_authority_def bindE_def dest: resolved_strict_refuses split: sum.splits prod.splits)

lemma caps_authority_refuses: "template_caps_authority T True src base requested = Inr (Inl rep) \<Longrightarrow> dict_get rep ''ok'' = PBool False"
  by (auto simp: template_caps_authority_def bindE_Inr_iff dest: clamp_refuses switched_refuses split: sum.splits)

lemma legacy_refuses: "legacy_authority T template_id on = Inl rep \<Longrightarrow> dict_get rep ''ok'' = PBool False"
  by (auto simp: legacy_authority_def split: sum.splits)

lemma template_refuses: "template_authority T True src template_id requested = Inr (Inl rep) \<Longrightarrow> dict_get rep ''ok'' = PBool False"
  by (auto simp: template_authority_def bindE_Inr_iff split: if_splits sum.splits dest: caps_authority_refuses legacy_refuses)

lemma raw_refuses: "raw_authority T True requested = Inl rep \<Longrightarrow> dict_get rep ''ok'' = PBool False"
  by (auto simp: raw_authority_def bindE_def split: if_splits sum.splits dest: resolved_strict_refuses)

lemma authority_refuses: "spec_authority T True src = Inr (Inl rep) \<Longrightarrow> dict_get rep ''ok'' = PBool False"
  by (auto simp: spec_authority_def Let_def bindE_Inr_iff split: if_splits dest: template_refuses raw_refuses)

definition accepted :: "string \<Rightarrow> authority \<Rightarrow> string list \<Rightarrow> pydict" where
  "accepted template_id a warnings =
     [(''ok'', PBool True), (''slot'', PStr ''B''), (''source'', PStr (at_source a)), (''template_id'', PStr template_id),
      (''capabilities_base'', str_list (at_base a)), (''capabilities_effective'', str_list (at_effective a)),
      (''allowed_actions'', str_list (at_computed a)), (''warnings'', str_list warnings)]"

lemma settle_strict:
  assumes "normal_list (at_computed a)"
  shows "(template_id \<noteq> [] \<or> at_effective a \<noteq> []) \<and> at_computed a \<noteq> [] \<Longrightarrow> \<exists>ws. settle_authority T ''B'' template_id given a = accepted template_id a ws"
    and "\<not> ((template_id \<noteq> [] \<or> at_effective a \<noteq> []) \<and> at_computed a \<noteq> [])
      \<Longrightarrow> dict_get (settle_authority T ''B'' template_id given a) ''ok'' = PBool False"
  using assms by (auto simp: settle_authority_def final_actions_def Let_def accepted_def dedupe_normal)

definition template_id_of :: "pydict \<Rightarrow> string" where
  "template_id_of src = py_strip (get_str src ''template_id'')"

lemma slot_B [simp]: "py_upper (py_strip ''B'') = ''B''"
  by code_simp

lemma slot_A [simp]: "py_upper (py_strip ''A'') = ''A''"
  by code_simp

lemma resolve_strict:
  "resolve_allowlist T ''B'' src = bindE (cleaned (dict_get src ''allowed_actions'')) (\<lambda>given.
     bindE (spec_authority T True src) (\<lambda>r. Inr (case r of Inl rep \<Rightarrow> rep | Inr a \<Rightarrow> settle_authority T ''B'' (template_id_of src) given a)))"
  unfolding resolve_allowlist_def template_id_of_def Let_def slot_B by simp

lemma authority_of_caps:
  assumes "template_id_of src \<noteq> []" "caps_of_template T (template_id_of src) = Inr base" "base \<noteq> []" "requested_of src = Inr requested"
  shows "spec_authority T strict src = template_caps_authority T strict src base requested"
  using assms by (auto simp: spec_authority_def template_authority_def caps_of_template_def requested_of_def template_id_of_def Let_def
      bindE_Inr_iff split: if_splits)

text \<open>
  C33: In slot B the allowlist of a specification with a template that has capabilities is decided by the template: a
  requested capability that the template does not have is refused, otherwise exactly the actions of the capabilities
  that are asked for and that the policy switches leave on are granted (and nothing the specification lists itself),
  unless one of them is not registered or none is left.\<close>

theorem slot_b_allowlist:
  assumes "template_id_of src \<noteq> []" "caps_of_template T (template_id_of src) = Inr base" "base \<noteq> []"
    and "requested_of src = Inr requested" "policy_switches src = Inr on" "cleaned (dict_get src ''allowed_actions'') = Inr given"
  shows "\<exists>rep. resolve_allowlist T ''B'' src = Inr rep \<and>
    (let left_on = switched_caps on (asked_caps base requested) in
     if set requested \<subseteq> set base \<and> (\<forall>cap \<in> set left_on. caps_known T True cap) \<and> left_on \<noteq> []
     then dict_get rep ''ok'' = PBool True \<and> dict_get rep ''allowed_actions'' = str_list (granted_actions left_on)
       \<and> dict_get rep ''capabilities_effective'' = str_list left_on
     else dict_get rep ''ok'' = PBool False)"
proof -
  let ?left_on = "switched_caps on (asked_caps base requested)"
  have n: "normal_list base" "normal_list requested"
    using assms by (auto simp: caps_of_template_def requested_of_def bindE_Inr_iff split: if_splits dest: cleaned_normal)
  note iff = caps_authority_strict [OF n assms(5), of T]
  have auth: "spec_authority T True src = template_caps_authority T True src base requested" using assms by (intro authority_of_caps)
  obtain r where r: "template_caps_authority T True src base requested = Inr r"
    by (cases "clamp_caps True base requested") (auto simp: template_caps_authority_def assms(5))
  show ?thesis
  proof (cases r)
    case (Inl rep)
    then have "dict_get rep ''ok'' = PBool False" using caps_authority_refuses r by simp
    moreover from Inl r have "\<not> (set requested \<subseteq> set base \<and> (\<forall>cap \<in> set ?left_on. caps_known T True cap))" using iff by (metis Inl_Inr_False sum.inject(2))
    ultimately show ?thesis using Inl r auth assms(6) by (simp add: resolve_strict)
  next
    case (Inr a)
    have "template_caps_authority T True src base requested = Inr (Inr a)" using r Inr by simp
    note shape = this [unfolded iff]
    then have a: "set requested \<subseteq> set base" "\<forall>cap \<in> set ?left_on. caps_known T True cap" "at_effective a = ?left_on"
      "at_computed a = granted_actions ?left_on" by simp_all
    have red: "resolve_allowlist T ''B'' src = Inr (settle_authority T ''B'' (template_id_of src) given a)"
      using Inr r auth assms(6) by (simp add: resolve_strict)
    have n: "normal_list (at_computed a)" using a(4) by simp
    show ?thesis
    proof (cases "?left_on = []")
      case True
      then have "dict_get (settle_authority T ''B'' (template_id_of src) given a) ''ok'' = PBool False"
        using settle_strict(2) [OF n] a(4) by (simp add: granted_Nil)
      with True red show ?thesis by simp
    next
      case False
      then obtain ws where "settle_authority T ''B'' (template_id_of src) given a = accepted (template_id_of src) a ws"
        using settle_strict(1) [OF n, of "template_id_of src" T given] a(4) assms(1) granted_none [OF a(2)] by auto
      with False red a show ?thesis by (simp add: accepted_def Let_def)
    qed
  qed
qed

section \<open>Resolving what was stored\<close>

text \<open>
  The specification that is stored carries the granted capabilities and the oracle policy, not the communication
  policy.
\<close>

definition stores :: "pydict \<Rightarrow> authority \<Rightarrow> pydict \<Rightarrow> bool" where
  "stores src a p =
     (template_id_of p = template_id_of src \<and> dict_get p ''capabilities_effective'' = str_list (at_effective a) \<and> dict_get p ''capabilities'' = PNone
      \<and> (\<exists>oracle. dict_arg (dict_get src ''oracle_policy'') = Inr oracle \<and> dict_get p ''oracle_policy'' = PDict oracle)
      \<and> dict_get p ''comm_policy'' = PNone)"

definition telegram_cap :: string where "telegram_cap = ''cap.messages.telegram''"

lemma or_str_list: "py_or (str_list xs) PNone = (if xs = [] then PNone else str_list xs)"
  by (cases xs) (simp_all add: py_or_def str_list_def)

lemma cleaned_None [simp]: "cleaned PNone = Inr []"
  by (simp add: cleaned_def)

lemma stored_requested: "stores src a p \<Longrightarrow> normal_list (at_effective a) \<Longrightarrow> requested_of p = Inr (at_effective a)"
  by (simp add: stores_def requested_of_def or_str_list cleaned_strs dedupe_normal)

lemma stored_switches: "stores src a p \<Longrightarrow> policy_switches src = Inr on \<Longrightarrow> policy_switches p = Inr (fst on, False)"
  by (auto simp: stores_def policy_switches_def bindE_Inr_iff)

lemma switched_again: "switched_caps (fst on, False) (switched_caps on caps) = filter (\<lambda>c. c \<noteq> telegram_cap) (switched_caps on caps)"
  by (auto simp: switched_caps_def policy_allows_def telegram_cap_def intro: filter_cong)

lemma broken_Inr [simp]: "broken m = Inr x \<longleftrightarrow> m = Inr x"
  by (cases m) (simp_all add: broken_def)

lemma strict_normal:
  assumes "spec_authority T True src = Inr (Inr a)"
  shows "normal_list (at_effective a)" "normal_list (at_computed a)"
proof -
  obtain requested where r: "requested_of src = Inr requested" "normal_list requested"
    using assms cleaned_normal by (auto simp: spec_authority_def requested_of_def Let_def bindE_Inr_iff)
  have raw: "raw_authority T True requested = Inr a \<Longrightarrow> normal_list (at_effective a) \<and> normal_list (at_computed a)"
    using r(2) by (auto simp: raw_authority_def bindE_Inr_iff resolved_strict split: if_splits)
  have legacy: "legacy_authority T tid on = Inr a \<Longrightarrow> normal_list (at_effective a) \<and> normal_list (at_computed a)" for tid on
    by (auto simp: legacy_authority_def bindE_Inr_iff dest: cleaned_normal split: sum.splits)
  have caps: "template_caps_authority T True src base requested = Inr (Inr a) \<Longrightarrow> normal_list base
    \<Longrightarrow> normal_list (at_effective a) \<and> normal_list (at_computed a)" for base
    using r(2) by (cases "policy_switches src")
      (auto simp: caps_authority_strict normal_switched asked_caps_def, auto simp: template_caps_authority_def split: sum.splits)
  show "normal_list (at_effective a)" "normal_list (at_computed a)"
    using assms r raw legacy caps
    by (auto simp: spec_authority_def requested_of_def template_authority_def Let_def bindE_Inr_iff split: if_splits sum.splits dest: cleaned_normal)
qed

text \<open>A template with capabilities, when its kept capabilities are requested again.\<close>

lemma caps_again:
  assumes "normal_list base" "normal_list requested" "policy_switches src = Inr on"
    and "template_caps_authority T True src base requested = Inr (Inr a)" "at_computed a \<noteq> []" "policy_switches p = Inr (fst on, False)"
  defines "left_on \<equiv> filter (\<lambda>c. c \<noteq> telegram_cap) (at_effective a)"
  shows "\<exists>a'. template_caps_authority T True p base (at_effective a) = Inr (Inr a') \<and> at_effective a' = left_on
    \<and> at_computed a' = granted_actions left_on \<and> at_computed a = granted_actions (at_effective a)"
proof -
  let ?caps = "switched_caps on (asked_caps base requested)"
  have a: "set requested \<subseteq> set base" "\<forall>cap \<in> set ?caps. caps_known T True cap" "at_effective a = ?caps" "at_computed a = granted_actions ?caps"
    using assms(4) unfolding caps_authority_strict [OF assms(1-3)] by simp_all
  have "normal_list ?caps" using assms(1,2) by (simp add: asked_caps_def normal_switched)
  note iff = caps_authority_strict [OF assms(1) this assms(6), of T]
  have "?caps \<noteq> []" using a(4) assms(5) by (auto simp: granted_Nil)
  then have "asked_caps base ?caps = ?caps" by (simp add: asked_caps_def)
  moreover have "set ?caps \<subseteq> set base" using a(1) by (auto simp: switched_caps_def asked_caps_def split: if_splits)
  moreover have "\<forall>cap \<in> set left_on. caps_known T True cap" using a(2) by (simp add: left_on_def a(3))
  ultimately show ?thesis by (simp add: iff a(3,4) left_on_def switched_again)
qed

text \<open>A template without capabilities is refused when messages to people are on: no window is named.\<close>

lemma legacy_no_comm: "legacy_authority T template_id on = Inr a \<Longrightarrow> \<not> snd on"
  by (auto simp: legacy_authority_def render_spec_def Let_def truthy_text_def get_str_def py_or_def bindE_Inr_iff split: sum.splits if_splits)

lemma stored_again:
  assumes run: "spec_authority T True src = Inr (Inr a)" "at_computed a \<noteq> []" "template_id_of src \<noteq> [] \<or> at_effective a \<noteq> []" and p: "stores src a p"
  shows "\<exists>a'. spec_authority T True p = Inr (Inr a') \<and>
    (if template_id_of src \<noteq> [] \<and> telegram_cap \<in> set (at_effective a)
     then at_computed a' = granted_actions (filter (\<lambda>c. c \<noteq> telegram_cap) (at_effective a)) \<and> at_computed a = granted_actions (at_effective a)
     else at_effective a' = at_effective a \<and> at_computed a' = at_computed a)"
proof -
  have tid: "template_id_of p = template_id_of src" using p by (simp add: stores_def)
  have req: "requested_of p = Inr (at_effective a)" by (rule stored_requested [OF p strict_normal(1) [OF run(1)]])
  obtain requested where r: "requested_of src = Inr requested" "normal_list requested"
    using run cleaned_normal by (auto simp: spec_authority_def requested_of_def Let_def bindE_Inr_iff)
  show ?thesis
  proof (cases "template_id_of src = []")
    case True
    then have "raw_authority T True requested = Inr a" using run(1) r(1) by (auto simp: spec_authority_def template_id_of_def requested_of_def Let_def)
    moreover have "requested \<noteq> []" using calculation run(2) by (auto simp: raw_authority_def)
    ultimately have "at_effective a = requested" using r(2) by (auto simp: raw_authority_def bindE_Inr_iff resolved_strict)
    then have "spec_authority T True p = Inr (Inr a)"
      using True tid req \<open>raw_authority T True requested = Inr a\<close> by (simp add: spec_authority_def template_id_of_def requested_of_def Let_def)
    with True show ?thesis by simp
  next
    case False
    then obtain tpl base where t: "get_template T (template_id_of src) = Inr tpl" "tpl \<noteq> []" "cleaned (dict_get tpl ''capabilities'') = Inr base"
      using run(1) r(1)
      by (auto simp: spec_authority_def template_authority_def template_id_of_def requested_of_def Let_def bindE_Inr_iff split: if_splits)
    have ta: "template_authority T True src (template_id_of src) requested = Inr (Inr a)"
      using run(1) r(1) False by (simp add: spec_authority_def template_id_of_def requested_of_def Let_def)
    have pa: "spec_authority T True p = template_authority T True p (template_id_of src) (at_effective a)"
      using req False tid by (simp add: spec_authority_def template_id_of_def requested_of_def Let_def)
    obtain on where on: "policy_switches src = Inr on"
      using ta t by (cases "policy_switches src") (auto simp: template_authority_def template_caps_authority_def split: if_splits sum.splits)
    note pon = stored_switches [OF p on]
    show ?thesis
    proof (cases "base = []")
      case True
      have "legacy_authority T (template_id_of src) on = Inr a" using ta t True on by (auto simp: template_authority_def)
      from legacy_no_comm [OF this] have "on = (fst on, False)" by (cases on) simp
      with \<open>legacy_authority T (template_id_of src) on = Inr a\<close> have "spec_authority T True p = Inr (Inr a)" using pa pon t True by (simp add: template_authority_def)
      moreover have "at_effective a = []" using \<open>legacy_authority T (template_id_of src) on = Inr a\<close>
        by (auto simp: legacy_authority_def split: sum.splits)
      ultimately show ?thesis by simp
    next
      case False
      have "template_caps_authority T True src base requested = Inr (Inr a)" using ta t False by (simp add: template_authority_def)
      from caps_again [OF cleaned_normal [OF t(3)] r(2) on this run(2) pon] obtain a' where a':
        "template_caps_authority T True p base (at_effective a) = Inr (Inr a')"
        "at_effective a' = filter (\<lambda>c. c \<noteq> telegram_cap) (at_effective a)"
        "at_computed a' = granted_actions (filter (\<lambda>c. c \<noteq> telegram_cap) (at_effective a))"
        "at_computed a = granted_actions (at_effective a)" by blast
      have "spec_authority T True p = Inr (Inr a')" using pa a'(1) t False by (simp add: template_authority_def)
      moreover have "telegram_cap \<notin> set (at_effective a) \<Longrightarrow> filter (\<lambda>c. c \<noteq> telegram_cap) (at_effective a) = at_effective a"
        by (auto simp: filter_id_conv)
      ultimately show ?thesis using a'(2-4) \<open>template_id_of src \<noteq> []\<close> by auto
    qed
  qed
qed

section \<open>The drift check of a stored specification\<close>

definition granted_again :: "pydict \<Rightarrow> authority \<Rightarrow> bool" where
  \<comment> \<open>whether the stored specification resolves to what was granted\<close>
  "granted_again src a = (\<not> (template_id_of src \<noteq> [] \<and> telegram_cap \<in> set (at_effective a)))"

lemma resolve_accepted:
  assumes "resolve_allowlist T ''B'' src = Inr rep" "truthy (dict_get rep ''ok'')"
  shows "\<exists>a ws. spec_authority T True src = Inr (Inr a) \<and> rep = accepted (template_id_of src) a ws \<and> at_computed a \<noteq> []
    \<and> (template_id_of src \<noteq> [] \<or> at_effective a \<noteq> [])"
proof -
  obtain given r where r: "spec_authority T True src = Inr r"
    "rep = (case r of Inl rep \<Rightarrow> rep | Inr a \<Rightarrow> settle_authority T ''B'' (template_id_of src) given a)"
    using assms(1) by (auto simp: resolve_strict bindE_Inr_iff)
  then obtain a where a: "r = Inr a" using authority_refuses [of T src] assms(2) by (cases r) fastforce+
  note n = strict_normal(2) [OF r(1) [unfolded a]]
  have "(template_id_of src \<noteq> [] \<or> at_effective a \<noteq> []) \<and> at_computed a \<noteq> []"
    using settle_strict(2) [OF n, of "template_id_of src" T given] r(2) a assms(2) by fastforce
  with settle_strict(1) [OF n, of "template_id_of src" T given] r a show ?thesis by auto
qed

lemma stored_resolves:
  assumes "spec_authority T True src = Inr (Inr a)" "at_computed a \<noteq> []" "template_id_of src \<noteq> [] \<or> at_effective a \<noteq> []" "stores src a p"
    and "granted_again src a" "cleaned (dict_get p ''allowed_actions'') = Inr given"
  shows "\<exists>rep. resolve_allowlist T ''B'' p = Inr rep \<and> dict_get rep ''ok'' = PBool True \<and> dict_get rep ''allowed_actions'' = str_list (at_computed a)"
proof -
  obtain a' where a': "spec_authority T True p = Inr (Inr a')" "at_effective a' = at_effective a" "at_computed a' = at_computed a"
    using stored_again [OF assms(1-4)] assms(5) by (auto simp: granted_again_def split: if_splits)
  have "template_id_of p = template_id_of src" using assms(4) by (simp add: stores_def)
  with settle_strict(1) [OF strict_normal(2) [OF a'(1)], of "template_id_of p" T given] a' assms(2,3)
  show ?thesis using assms(6) by (auto simp: resolve_strict accepted_def)
qed

lemma minus_list_Nil: "minus_list xs ys = [] \<longleftrightarrow> set xs \<subseteq> set ys"
  by (auto simp: minus_list_def filter_empty_conv)

lemma set_strs_again: "set (sort (dedupe xs)) = py_strip ` set xs - {[]}"
  by (simp add: set_dedupe)

lemma not_Inl: "(\<forall>x. m \<noteq> Inl x) \<longleftrightarrow> (\<exists>y. m = Inr y)"
  by (cases m) auto

lemma no_row: "get_str [] k = []" "get_int [] k n = Inr n" "normalize_allowlist PNone = Inr []"
  by (simp_all add: get_str_def get_int_def py_or_def normalize_allowlist_def)

definition seen_granted :: "crypto \<Rightarrow> pydict \<Rightarrow> string list \<Rightarrow> bool" where
  \<comment> \<open>the row of the last audit can be read, and saw the granted list, or none\<close>
  "seen_granted C row granted =
     (\<not> isl (get_int row ''ts'' 0) \<and> \<not> isl (normalize_allowlist (dict_get row ''allowlist''))
      \<and> py_strip (get_str row ''allowlist_hash'') \<in> {[], list_hash C (sort granted)})"

definition tamper_event :: "crypto \<Rightarrow> string \<Rightarrow> string list \<Rightarrow> string \<Rightarrow> string" where
  \<comment> \<open>the event of a tampered list: of the agent, of what was granted and of the hash the specification claims\<close>
  "tamper_event C aid granted claimed = quar_event_id C aid ''SPEC_MISMATCH'' ''TAMPER_SUSPECT'' (list_hash C (sort granted)) claimed"

lemma drift_of_seen:
  assumes a: "spec_authority T True src = Inr (Inr a)" "at_computed a \<noteq> []" "template_id_of src \<noteq> [] \<or> at_effective a \<noteq> []" "stores src a p"
      "granted_again src a"
    and Q: "qe_resolve_allowlist Q = resolve_allowlist T ''B''" and xs: "dict_get p ''allowed_actions'' = str_list xs"
    and seen: "seen_granted (qe_crypto Q) ls (at_computed a)"
  shows "\<exists>d. evaluate_high_drift Q aid p ls = Inr d \<and> dr_active d = (\<not> set (dedupe xs) \<subseteq> set (at_computed a))
    \<and> (dr_active d \<longrightarrow> dr_reason d = ''TAMPER_SUSPECT''
        \<and> (py_strip (get_str p ''allowed_actions_hash'') \<noteq> [] \<longrightarrow>
             dr_event d = tamper_event (qe_crypto Q) aid (at_computed a) (py_strip (get_str p ''allowed_actions_hash''))))"
proof -
  obtain rep where rep: "resolve_allowlist T ''B'' p = Inr rep" "dict_get rep ''ok'' = PBool True" "dict_get rep ''allowed_actions'' = str_list (at_computed a)"
    using stored_resolves [OF a, of "dedupe xs"] xs by (auto simp: cleaned_strs)
  have caps: "dict_get p ''capabilities_effective'' = str_list (at_effective a)" using a(4) by (simp add: stores_def)
  have n: "dedupe (at_computed a) = at_computed a" using strict_normal(2) [OF a(1)] by (simp add: dedupe_normal)
  have sub: "minus_list (sort (dedupe xs)) (sort (at_computed a)) = [] \<longleftrightarrow> set (dedupe xs) \<subseteq> set (at_computed a)"
    by (simp add: minus_list_Nil)
  obtain ts prev where ls: "get_int ls ''ts'' 0 = Inr ts" "normalize_allowlist (dict_get ls ''allowlist'') = Inr prev"
    "py_strip (get_str ls ''allowlist_hash'') = [] \<or> py_strip (get_str ls ''allowlist_hash'') = list_hash (qe_crypto Q) (sort (at_computed a))"
    using seen by (auto simp: seen_granted_def isl_def not_Inl)
  show ?thesis
  proof (cases "set (dedupe xs) \<subseteq> set (at_computed a)")
    case True
    with sub ls show ?thesis unfolding evaluate_high_drift_def Let_def by (auto simp: caps xs normalize_strs n rep Q)
  next
    case False
    with sub ls show ?thesis unfolding evaluate_high_drift_def Let_def
      by (auto simp: caps xs normalize_strs n rep Q high_drift_def tamper_event_def)
  qed
qed

section \<open>An agent that was created\<close>

lemma spec_dict_get:
  "dict_get (spec_dict s) k =
    (if k = ''name'' then PStr (as_name s) else if k = ''goal'' then PStr (as_goal s) else if k = ''allowed_actions'' then str_list (as_actions s)
     else if k = ''budgets'' then PDict (as_budgets s) else if k = ''owner'' then PStr (as_owner s)
     else if k = ''oracle_policy'' then PDict (as_oracle s) else PNone)"
  by (simp add: spec_dict_def)

lemma dict_merge_get: "dict_get (dict_merge d e) k = (case map_of (rev e) k of None \<Rightarrow> dict_get d k | Some v \<Rightarrow> v)"
  by (simp add: dict_get_def map_of_dict_merge map_add_def split: option.splits)

lemma extra_keys:
  "map_of (rev (extra_fields raw)) k = None" if "k \<notin> {''cli_agent_handshake_profile'', ''governed_mesh_profile'', ''governed_mesh_role'',
     ''security_policy'', ''task_contract_template''}"
  using that by (auto simp: extra_fields_def map_of_eq_None_iff)

lemma payload_get:
  "dict_get (agent_payload E aid raw spec auth actions effective base ws) ''allowed_actions'' = str_list (as_actions spec)"
  "dict_get (agent_payload E aid raw spec auth actions effective base ws) ''capabilities_effective'' = str_list effective"
  "dict_get (agent_payload E aid raw spec auth actions effective base ws) ''capabilities'' = PNone"
  "dict_get (agent_payload E aid raw spec auth actions effective base ws) ''comm_policy'' = PNone"
  "dict_get (agent_payload E aid raw spec auth actions effective base ws) ''oracle_policy'' = PDict (as_oracle spec)"
  "dict_get (agent_payload E aid raw spec auth actions effective base ws) ''template_id''
     = PStr (py_str (py_or (dict_get auth ''template_id'') (py_or (dict_get raw ''template_id'') (PStr []))))"
  by (simp_all add: agent_payload_def dict_merge_get extra_keys spec_dict_get)

lemma spec_of_strs:
  assumes "spec_from_any (dict_set ''allowed_actions'' (PList (map PStr xs)) raw) = Inr spec" "normal_list xs"
  shows "as_actions spec = xs" "dict_arg (dict_get raw ''oracle_policy'') = Inr (as_oracle spec)"
proof -
  have "map clean_text (map PStr xs) = xs" using assms(2)
    by (auto simp: clean_text_def map_idI normal_list_def list_all_iff normal_str_def)
  moreover have "filter (\<lambda>s. s \<noteq> []) xs = xs" using assms(2) by (auto simp: filter_id_conv normal_list_def list_all_iff normal_str_def)
  ultimately show "as_actions spec = xs" "dict_arg (dict_get raw ''oracle_policy'') = Inr (as_oracle spec)"
    using assms(1) by (auto simp: spec_from_any_def bindE_Inr_iff simp del: map_map)
qed

lemma payload_stores:
  assumes a: "spec_authority T True raw = Inr (Inr a)"
    and s: "spec_from_any (dict_set ''allowed_actions'' (PList (map PStr (at_computed a))) raw) = Inr spec"
  shows "stores raw a (agent_payload E aid raw spec (accepted (template_id_of raw) a ws) actions (at_effective a) base ws')"
proof -
  have t: "template_id_of raw = py_strip (get_str raw ''template_id'')" by (simp add: template_id_of_def)
  then have "py_strip (template_id_of raw) = template_id_of raw" by simp
  then have "template_id_of (agent_payload E aid raw spec (accepted (template_id_of raw) a ws) actions (at_effective a) base ws') = template_id_of raw"
    by (cases "template_id_of raw = []") (use t in \<open>simp_all add: template_id_of_def [of "agent_payload _ _ _ _ _ _ _ _ _"] get_str_def payload_get
        accepted_def py_or_def\<close>)
  with spec_of_strs [OF s strict_normal(2) [OF a]] show ?thesis by (simp add: stores_def payload_get)
qed

text \<open>An exception in resolving the allowlist in slot B is one in slot A too.\<close>

lemma authority_raises:
  assumes "spec_authority T True src = Inl e"
  shows "spec_authority T False src = Inl e"
proof -
  have clamp: "\<exists>r. clamp_caps False base requested = Inr r" for base requested by (simp add: clamp_caps_def Let_def)
  have "template_caps_authority T True src base requested = Inl e \<Longrightarrow> template_caps_authority T False src base requested = Inl e" for base requested
    using clamp [of base requested] by (auto simp: template_caps_authority_def bindE_def split: sum.splits)
  then show ?thesis using assms by (auto simp: spec_authority_def template_authority_def Let_def bindE_def split: sum.splits if_splits)
qed

lemma resolve_raises: "resolve_allowlist T ''B'' src = Inl e \<Longrightarrow> resolve_allowlist T ''A'' src = Inl e"
  by (auto simp: resolve_allowlist_def bindE_def Let_def dest: authority_raises split: sum.splits)

definition honest_guard :: "garage_env \<Rightarrow> bool" where
  \<comment> \<open>a guard that reports a write has written\<close>
  "honest_guard E = (\<forall>aid p d. snd (gv_guard E aid p) = Inr d \<longrightarrow> truthy (dict_get d ''ok'') \<longrightarrow> fst (gv_guard E aid p))"

lemma write_spec_run:
  assumes "write_spec E aid p w = (r, w1)" "honest_guard E"
  shows "\<exists>rep. r = Inr rep \<and> (truthy (dict_get rep ''ok'') \<longrightarrow> w1 = w\<lparr>gw_specs := (gw_specs w)(aid \<mapsto> JVal (PDict p))\<rparr>)"
proof -
  obtain written rep where g: "gv_guard E aid p = (written, rep)" by (cases "gv_guard E aid p")
  with assms(2) have "\<And>d. rep = Inr d \<Longrightarrow> truthy (dict_get d ''ok'') \<Longrightarrow> written" unfolding honest_guard_def by (metis fst_conv snd_conv)
  with g assms(1) show ?thesis by (auto simp: write_spec_def authority_refused_def split: sum.splits)
qed

lemma index_agents_read: "read_index E (Some (JVal (PDict (dict_set ''updated_ts'' v (dict_set ''agents'' (PDict agents) idx)))))
   = dict_set ''updated_ts'' v (dict_set ''agents'' (PDict agents) idx)"
  by (simp add: read_index_def set_default_def Let_def)

lemma load_index_run: "\<exists>idx w1. load_index E w = (Inr idx, w1) \<and> gw_specs w1 = gw_specs w"
  by (simp add: load_index_def readS_def)

lemma register_run:
  assumes run: "register_agent E aid p ws w = (Inr rep, w')" and ok: "truthy (dict_get rep ''ok'')" and g: "honest_guard E"
  shows "gw_specs w' = (gw_specs w)(aid \<mapsto> JVal (PDict p)) \<and> dict_get rep ''agent_id'' = PStr aid \<and> dict_get rep ''spec'' = PDict p
    \<and> (\<exists>agents idx. gw_index w' = Some (JVal (PDict (dict_set ''updated_ts'' (PInt (gv_now E)) (dict_set ''agents''
           (PDict (dict_set aid (PDict (index_row E aid p)) agents)) idx)))))"
proof -
  obtain r w1 where w: "write_spec E aid p w = (r, w1)" by (cases "write_spec E aid p w")
  obtain rep1 where r: "r = Inr rep1" "truthy (dict_get rep1 ''ok'') \<Longrightarrow> w1 = w\<lparr>gw_specs := (gw_specs w)(aid \<mapsto> JVal (PDict p))\<rparr>"
    using write_spec_run [OF w g] by blast
  obtain idx w2 where l: "load_index E w1 = (Inr idx, w2)" "gw_specs w2 = gw_specs w1" using load_index_run by blast
  show ?thesis
  proof (cases "truthy (dict_get rep1 ''ok'')")
    case True
    with run have "gw_specs w' = gw_specs w2 \<and> dict_get rep ''agent_id'' = PStr aid \<and> dict_get rep ''spec'' = PDict p
      \<and> gw_index w' = Some (JVal (PDict (dict_set ''updated_ts'' (PInt (gv_now E)) (dict_set ''agents''
           (PDict (dict_set aid (PDict (index_row E aid p)) (index_agents idx))) idx))))" unfolding register_agent_def
      by (auto simp: bindS_ok [of "write_spec E aid p", OF w [unfolded r(1)]] bindS_ok [of "load_index E", OF l(1)]
          save_agents_def garage_event_def journal_policy_def)
    with r(2) [OF True] l(2) show ?thesis by auto
  next
    case False
    with run ok show ?thesis unfolding register_agent_def
      by (auto simp: bindS_ok [of "write_spec E aid p", OF w [unfolded r(1)]] authority_refused_def)
  qed
qed

lemma load_index_there: "gw_index w = Some f \<Longrightarrow> load_index E w = (Inr (read_index E (Some f)), w)"
  by (simp add: load_index_def readS_def)

lemma get_agent_run:
  assumes "gw_specs w aid = Some (JVal (PDict p))" "py_strip aid = aid" "aid \<noteq> []"
    and "gw_index w = Some (JVal (PDict (dict_set ''updated_ts'' v (dict_set ''agents'' (PDict (dict_set aid (PDict row) agents)) idx))))" "row \<noteq> []"
  shows "get_agent E aid w = (Inr [(''ok'', PBool True), (''agent'', PDict (dict_set ''spec'' (PDict p) row))], w)"
  using assms(1-3,5)
  by (simp add: get_agent_def Let_def bindS_ok [of "load_index E", OF load_index_there [OF assms(4)]] index_agents_read index_agents_def load_spec_def)

lemma created_authority_run:
  assumes "created_authority E True raw w = (Inr (Inr auth), w1)"
  shows "resolve_allowlist (gv_templates E) ''B'' raw = Inr auth" "w1 = w"
  using assms resolve_raises [of "gv_templates E" raw]
  by (cases "resolve_allowlist (gv_templates E) ''B'' raw";
      auto simp: created_authority_def Let_def note_caps_exception_def split: if_splits)+

lemma accepted_lists:
  "list_arg (dict_get (accepted tid a ws) ''allowed_actions'') = Inr (map PStr (at_computed a))"
  "list_arg (dict_get (accepted tid a ws) ''capabilities_effective'') = Inr (map PStr (at_effective a))"
  "list_arg (dict_get (accepted tid a ws) ''capabilities_base'') = Inr (map PStr (at_base a))"
  "list_arg (dict_get (accepted tid a ws) ''warnings'') = Inr (map PStr ws)"
  by (simp_all add: accepted_def str_list_def)

lemma str_PStr [simp]: "map (py_str \<circ> PStr) xs = xs"
  by (simp add: comp_def)

definition filed :: "string \<Rightarrow> pydict \<Rightarrow> garage_world \<Rightarrow> bool" where
  \<comment> \<open>the agent is in the registry with this specification\<close>
  "filed aid p w = (gw_specs w aid = Some (JVal (PDict p)) \<and>
     (\<exists>v row agents idx. gw_index w = Some (JVal (PDict (dict_set ''updated_ts'' v (dict_set ''agents'' (PDict (dict_set aid (PDict row) agents)) idx)))) \<and> row \<noteq> []))"

definition settled :: "template_env \<Rightarrow> pydict \<Rightarrow> authority \<Rightarrow> bool" where
  "settled T raw a = (spec_authority T True raw = Inr (Inr a) \<and> at_computed a \<noteq> [] \<and> (template_id_of raw \<noteq> [] \<or> at_effective a \<noteq> []))"

lemma created_run:
  assumes strict: "caps_strict E w" and run: "create_agent E raw w = (Inr rep, w')" and ok: "truthy (dict_get rep ''ok'')" and g: "honest_guard E"
  shows "\<exists>a p aid. settled (gv_templates E) raw a \<and> stores raw a p \<and> dict_get p ''allowed_actions'' = str_list (at_computed a)
    \<and> dict_get rep ''agent_id'' = PStr aid \<and> dict_get rep ''spec'' = PDict p \<and> filed aid p w'"
proof -
  have no_refusal: "integrity_check E raw = Inl r \<Longrightarrow> \<not> truthy (dict_get r ''ok'')" for r
    by (auto simp: integrity_check_def split: sum.splits if_splits)
  obtain gws where gws: "integrity_check E raw = Inr gws"
    using run ok no_refusal strict by (cases "integrity_check E raw") (auto simp: create_agent_def)
  obtain r1 w1 where ca: "created_authority E True raw w = (r1, w1)" by (cases "created_authority E True raw w")
  have failed: "r1 \<noteq> Inr (Inl r) \<or> \<not> truthy (dict_get r ''ok'')" for r
    using ca by (auto simp: created_authority_def Let_def note_caps_exception_def bindS_liftS split: sum.splits if_splits)
  have rest: "(case r1 of Inl e \<Rightarrow> (Inl e, w1) | Inr (Inl r) \<Rightarrow> (Inr r, w1)
      | Inr (Inr auth) \<Rightarrow> (if \<not> truthy (dict_get auth ''ok'') then authority_denied E raw auth else create_with E raw True gws auth) w1)
    = (Inr rep, w')"
    using run gws strict ca by (cases r1) (auto simp: create_agent_def bindS_def readS_def split: sum.splits)
  obtain auth where auth: "r1 = Inr (Inr auth)" "truthy (dict_get auth ''ok'')"
    using rest failed ok by (cases r1) (auto simp: authority_denied_def bindS_liftS journal_policy_def split: sum.splits if_splits)
  note res = created_authority_run [OF ca [unfolded auth(1)]]
  obtain a ws where a: "spec_authority (gv_templates E) True raw = Inr (Inr a)" "auth = accepted (template_id_of raw) a ws" "at_computed a \<noteq> []"
    "template_id_of raw \<noteq> [] \<or> at_effective a \<noteq> []"
    using resolve_accepted [OF res(1) auth(2)] by blast
  have cw: "create_with E raw True gws (accepted (template_id_of raw) a ws) w = (Inr rep, w')" using rest auth res(2) a(2) by simp
  obtain spec where spec: "spec_from_any (dict_set ''allowed_actions'' (PList (map PStr (at_computed a))) raw) = Inr spec"
    using cw by (cases "spec_from_any (dict_set ''allowed_actions'' (PList (map PStr (at_computed a))) raw)")
      (auto simp: create_with_def accepted_lists)
  define aid where "aid = ''agent_'' @ take 12 (gv_ids E 0)"
  define p where "p = agent_payload E aid raw spec (accepted (template_id_of raw) a ws) (at_computed a) (at_effective a) (at_base a) ws"
  have "spec_errors spec = []" using cw ok by (auto simp: create_with_def accepted_lists spec Let_def journal_policy_def split: if_splits)
  with cw obtain xs where "register_agent E aid p xs (w\<lparr>gw_streak := 0\<rparr>) = (Inr rep, w')"
    by (auto simp: create_with_def accepted_lists spec Let_def p_def aid_def)
  from register_run [OF this ok g] have "filed aid p w'" "dict_get rep ''agent_id'' = PStr aid" "dict_get rep ''spec'' = PDict p"
    by (auto simp: filed_def index_row_def)
  moreover have "stores raw a p" unfolding p_def by (rule payload_stores [OF a(1) spec])
  moreover have "dict_get p ''allowed_actions'' = str_list (at_computed a)"
    using spec_of_strs(1) [OF spec strict_normal(2) [OF a(1)]] by (simp add: p_def payload_get)
  ultimately show ?thesis using a by (auto simp: settled_def)
qed

section \<open>An agent of the registry\<close>

definition templates0 :: template_env where
  "templates0 = \<lparr>te_template = (\<lambda>t. if t = ''t1''
       then [(''id'', PStr ''t1''), (''capabilities'', str_list [''cap.memory.note'', ''cap.messages.telegram'', ''cap.oracle.remote.call''])] else []),
     te_ids = [''memory.add_note'', ''messages.telegram.send'', ''llm.remote.call'', ''files.sandbox_write''], te_exc_text = (\<lambda>_. []), te_sha = (\<lambda>s. s)\<rparr>"

definition garage_env0 :: garage_env where
  "garage_env0 = \<lparr>gv_getenv = (\<lambda>k. if k = ''ESTER_VOLITION_SLOT'' then Some ''B'' else None), gv_now = 100, gv_ids = (\<lambda>_. ''0123456789ab''),
     gv_templates = templates0, gv_precheck = (\<lambda>_. Inr [(''ok'', PBool True)]), gv_guard = (\<lambda>_ _. (True, Inr [(''ok'', PBool True)])),
     gv_folder = (\<lambda>aid. aid), gv_spec_path = (\<lambda>aid. aid @ ''/spec.json''), gv_root = []\<rparr>"

definition garage_world0 :: garage_world where
  "garage_world0 = \<lparr>gw_index = None, gw_specs = Map.empty, gw_events = [], gw_journal = [], gw_streak = 0, gw_disabled = False,
     gw_rollback = None, gw_queue = []\<rparr>"

definition raw0 :: pydict where
  "raw0 = [(''name'', PStr ''n''), (''goal'', PStr ''g''), (''owner'', PStr ''o''), (''capabilities'', str_list [''cap.memory.note''])]"

definition authority0 :: authority where
  "authority0 = \<lparr>at_source = ''raw.capabilities'', at_base = [], at_effective = [''cap.memory.note''], at_computed = [''memory.add_note''], at_warnings = []\<rparr>"

definition spec0 :: agent_spec_rec where
  "spec0 = \<lparr>as_name = ''n'', as_goal = ''g'', as_actions = [''memory.add_note''],
     as_budgets = [(''max_actions'', PInt 4), (''max_work_ms'', PInt 2000), (''window'', PInt 60), (''est_work_ms'', PInt 250)],
     as_owner = ''o'', as_oracle = []\<rparr>"

definition payload0 :: pydict where
  "payload0 = agent_payload garage_env0 ''agent_0123456789ab'' raw0 spec0 (accepted [] authority0 []) [''memory.add_note''] [''cap.memory.note''] [] []"

definition reply0 :: pydict where
  "reply0 = [(''ok'', PBool True), (''agent_id'', PStr ''agent_0123456789ab''), (''folder'', PStr ''agent_0123456789ab''),
     (''spec_path'', PStr ''agent_0123456789ab/spec.json''), (''spec'', PDict payload0), (''warnings'', str_list [])]"

lemma create0: "\<exists>w. create_agent garage_env0 raw0 garage_world0 = (Inr reply0, w)"
proof -
  have strict: "caps_strict garage_env0 garage_world0" by code_simp
  have auth: "resolve_allowlist templates0 ''B'' raw0 = Inr (accepted [] authority0 [])" by code_simp
  have spec: "spec_from_any (dict_set ''allowed_actions'' (PList [PStr ''memory.add_note'']) raw0) = Inr spec0" by code_simp
  have ok: "integrity_check garage_env0 raw0 = Inr []" "spec_errors spec0 = []" by code_simp+
  have env: "gv_templates garage_env0 = templates0" "gv_ids garage_env0 0 = ''0123456789ab''" "gv_folder garage_env0 aid = aid"
    "gv_spec_path garage_env0 aid = aid @ ''/spec.json''" "gv_guard garage_env0 aid p = (True, Inr [(''ok'', PBool True)])" for aid p
    by (simp_all add: garage_env0_def)
  have acc: "truthy (dict_get (accepted [] authority0 []) ''ok'')" "map PStr (at_computed authority0) = [PStr ''memory.add_note'']"
    "at_effective authority0 = [''cap.memory.note'']" "at_base authority0 = []"
    by (simp_all add: accepted_def authority0_def)
  have ca: "created_authority garage_env0 True raw0 garage_world0 = (Inr (Inr (accepted [] authority0 [])), garage_world0)"
    by (simp add: created_authority_def Let_def env auth)
  have reg: "\<exists>w'. register_agent garage_env0 ''agent_0123456789ab'' payload0 [] w = (Inr reply0, w')" for w
  proof -
    define aid where "aid = ''agent_0123456789ab''"
    obtain w1 where wr: "write_spec garage_env0 aid payload0 w = (Inr [(''ok'', PBool True)], w1)" by (simp add: write_spec_def env)
    obtain idx w2 where "load_index garage_env0 w1 = (Inr idx, w2)" using load_index_run by blast
    note steps = bindS_ok [of "load_index garage_env0", OF this] bindS_ok [of "write_spec garage_env0 aid payload0", OF wr]
    show ?thesis unfolding register_agent_def aid_def [symmetric]
      by (simp add: steps env save_agents_def garage_event_def journal_policy_def reply0_def) (simp add: aid_def)
  qed
  have "\<exists>w'. create_with garage_env0 raw0 True [] (accepted [] authority0 []) garage_world0 = (Inr reply0, w')"
    using reg by (simp add: create_with_def accepted_lists acc spec ok Let_def env payload0_def)
  then show ?thesis
    by (simp add: create_agent_def strict ok bindS_ok [of "created_authority garage_env0 True raw0", OF ca] acc)
qed

definition asking0 :: pydict where
  "asking0 = [(''template_id'', PStr ''t1''), (''capabilities'', str_list [''cap.memory.note'', ''cap.oracle.remote.call'']), (''allowed_actions'', str_list [''x''])]"

theorem slot_b_allowlist_witness:
  "\<exists>rep. resolve_allowlist templates0 ''B'' asking0 = Inr rep \<and> dict_get rep ''ok'' = PBool True
     \<and> dict_get rep ''allowed_actions'' = str_list [''memory.add_note'']"
proof -
  have h: "template_id_of asking0 \<noteq> []" "caps_of_template templates0 (template_id_of asking0)
      = Inr [''cap.memory.note'', ''cap.messages.telegram'', ''cap.oracle.remote.call'']"
    "requested_of asking0 = Inr [''cap.memory.note'', ''cap.oracle.remote.call'']" "policy_switches asking0 = Inr (False, False)"
    "cleaned (dict_get asking0 ''allowed_actions'') = Inr [''x'']"
    by code_simp+
  have k: "switched_caps (False, False) (asked_caps [''cap.memory.note'', ''cap.messages.telegram'', ''cap.oracle.remote.call'']
      [''cap.memory.note'', ''cap.oracle.remote.call'']) = [''cap.memory.note'']" by code_simp
  have "list_all (\<lambda>cap. capability_actions cap \<noteq> [] \<and> list_all (action_known templates0 True) (capability_actions cap)) [''cap.memory.note'']"
    "granted_actions [''cap.memory.note''] = [''memory.add_note'']"
    by code_simp+
  with slot_b_allowlist [OF h(1,2) _ h(3,4,5)] show ?thesis unfolding k by (auto simp: caps_known_def list_all_iff Let_def)
qed

end
