(* ===== verification/GarageRegistry.thy ===== *)
theory GarageRegistry
  imports GarageLaws
begin

text \<open>
  The agent registry of \<open>agent_factory.py\<close> as a map: for each agent its row in the index and its specification.  Every
  operation of the registry acts on the map as its contract says.
\<close>

section \<open>The map\<close>

type_synonym registry_view = "string \<Rightarrow> pyval \<times> pydict"

definition registry_rows :: "garage_env \<Rightarrow> garage_world \<Rightarrow> pydict" where
  "registry_rows E w = index_agents (read_index E (gw_index w))"

definition registry_view :: "garage_env \<Rightarrow> garage_world \<Rightarrow> registry_view" where
  "registry_view E w aid = (dict_get (registry_rows E w) aid, load_spec aid w)"

datatype garage_op = G_create pydict | G_disable string string | G_get string | G_list

fun garage_step :: "garage_env \<Rightarrow> garage_op \<Rightarrow> pydict garage_action" where
  "garage_step E (G_create raw) = create_agent E raw"
| "garage_step E (G_disable a reason) = disable_agent E a reason"
| "garage_step E (G_get a) = get_agent E a"
| "garage_step E G_list = list_agents E"

definition disabled_row :: "garage_env \<Rightarrow> pydict \<Rightarrow> pydict" where
  "disabled_row E row = dict_set ''updated_ts'' (PInt (gv_now E)) (dict_set ''enabled'' (PBool False) row)"

definition disabled_spec :: "garage_env \<Rightarrow> string \<Rightarrow> string \<Rightarrow> pydict \<Rightarrow> pydict" where
  \<comment> \<open>what the guard lets be written\<close>
  "disabled_spec E aid reason spec =
     (let p = dict_set ''disabled_reason'' (PStr reason) (disabled_row E spec) in if spec \<noteq> [] \<and> fst (gv_guard E aid p) then p else spec)"

definition made :: "py_error + pydict \<Rightarrow> (string \<times> pydict) option" where
  \<comment> \<open>the agent that a reply says was created\<close>
  "made out = (case out of Inl _ \<Rightarrow> None | Inr rep \<Rightarrow>
     if truthy (dict_get rep ''ok'') then Some (get_str rep ''agent_id'', case dict_get rep ''spec'' of PDict p \<Rightarrow> p | _ \<Rightarrow> []) else None)"

definition after_made :: "garage_env \<Rightarrow> py_error + pydict \<Rightarrow> registry_view \<Rightarrow> registry_view" where
  "after_made E out v = (case made out of None \<Rightarrow> v | Some (aid, p) \<Rightarrow> v(aid := (PDict (index_row E aid p), p)))"

fun registry_spec :: "garage_env \<Rightarrow> garage_op \<Rightarrow> py_error + pydict \<Rightarrow> registry_view \<Rightarrow> registry_view" where
  "registry_spec E (G_create raw) out v = after_made E out v"
| "registry_spec E (G_disable a reason) out v =
     (let aid = py_strip a in case v aid of
        (PDict row, spec) \<Rightarrow> if aid = [] \<or> row = [] then v else v(aid := (PDict (disabled_row E row), disabled_spec E aid reason spec))
      | _ \<Rightarrow> v)"
| "registry_spec E _ out v = v"

definition shown :: "string \<Rightarrow> pyval \<times> pydict \<Rightarrow> py_error + pydict" where
  \<comment> \<open>what \<open>get_agent\<close> replies for an entry of the map\<close>
  "shown a entry =
     (let aid = py_strip a in
      if aid = [] then Inr [(''ok'', PBool False), (''error'', PStr ''agent_id_required'')]
      else bindE (dict_arg (fst entry)) (\<lambda>row.
        Inr (if row = [] then [(''ok'', PBool False), (''error'', PStr ''agent_not_found''), (''agent_id'', PStr aid)]
             else [(''ok'', PBool True), (''agent'', PDict (dict_set ''spec'' (PDict (snd entry)) row))])))"

definition exact_guard :: "garage_env \<Rightarrow> bool" where
  \<comment> \<open>the guard writes exactly when it says so\<close>
  "exact_guard E = (\<forall>aid p. fst (gv_guard E aid p) = (case snd (gv_guard E aid p) of Inl _ \<Rightarrow> False | Inr d \<Rightarrow> truthy (dict_get d ''ok'')))"

section \<open>What keeps the map\<close>

definition same_view :: "garage_env \<Rightarrow> 'a garage_action \<Rightarrow> bool" where
  "same_view E m = (\<forall>w. registry_view E (snd (m w)) = registry_view E w)"

lemma read_blank: "read_index E (Some (JVal (PDict (blank_index E)))) = read_index E None"
  by (simp add: read_index_def)

lemma load_index_view: "\<exists>w1. load_index E w = (Inr (read_index E (gw_index w)), w1) \<and> gw_specs w1 = gw_specs w
    \<and> read_index E (gw_index w1) = read_index E (gw_index w) \<and> gw_queue w1 = gw_queue w"
  by (cases "gw_index w") (auto simp: load_index_def readS_def read_blank)

lemma view_eq: "gw_specs w1 = gw_specs w \<Longrightarrow> read_index E (gw_index w1) = read_index E (gw_index w) \<Longrightarrow> registry_view E w1 = registry_view E w"
  by (simp add: registry_view_def registry_rows_def load_spec_def fun_eq_iff)

lemma same_view_bind: "same_view E m \<Longrightarrow> (\<And>x. same_view E (f x)) \<Longrightarrow> same_view E (bindS m f)"
  unfolding same_view_def bindS_def by (auto split: sum.splits prod.splits) (metis snd_conv)+

lemma same_view_base [simp]:
  "same_view E (retS x)" "same_view E (liftS r)" "same_view E (readS g)" "same_view E (garage_event row)"
  "same_view E (journal_policy E' allowed code reason md)" "same_view E (note_caps_exception E' place e)"
  by (auto simp: same_view_def retS_def liftS_def readS_def garage_event_def journal_policy_def note_caps_exception_def modifyS_def Let_def intro!: view_eq)

lemma same_view_load [simp]: "same_view E (load_index E)"
  unfolding same_view_def using load_index_view view_eq by (metis snd_conv)

lemma same_view_if: "(b \<Longrightarrow> same_view E m) \<Longrightarrow> (\<not> b \<Longrightarrow> same_view E n) \<Longrightarrow> same_view E (if b then m else n)"
  by simp

lemma same_view_denied [simp]: "same_view E (authority_denied E' raw auth)"
  unfolding authority_denied_def by (intro same_view_bind) simp_all

lemma same_view_authority [simp]: "same_view E (created_authority E' strict raw)"
  unfolding same_view_def
  by (auto simp: created_authority_def Let_def note_caps_exception_def bindS_liftS intro!: view_eq split: sum.splits)

section \<open>Every operation\<close>

lemma view_set:
  assumes "gw_index w' = Some (JVal (PDict (dict_set ''updated_ts'' t (dict_set ''agents'' (PDict (dict_set aid row (registry_rows E w))) idx))))"
    and "\<And>a. load_spec a w' = (if a = aid then p else load_spec a w)"
  shows "registry_view E w' = (registry_view E w)(aid := (row, p))"
  using assms by (auto simp: registry_view_def registry_rows_def [of E w'] index_agents_read index_agents_def fun_eq_iff)

lemma register_view:
  assumes g: "exact_guard E" and run: "register_agent E aid p ws w = (out, w')"
  shows "registry_view E w' = after_made E out (registry_view E w)"
proof -
  obtain written r where gd: "gv_guard E aid p = (written, r)" by (cases "gv_guard E aid p")
  let ?rep = "case r of Inr d \<Rightarrow> d | Inl e \<Rightarrow> authority_refused ''spec_write_failed'' ''SPEC_WRITE_FAILED'' [(''detail'', PStr (te_exc_text (gv_templates E) e))]"
  have wr: "written = truthy (dict_get ?rep ''ok'')" using g [unfolded exact_guard_def, rule_format, of aid p] gd
    by (cases r) (simp_all add: authority_refused_def)
  define w1 where "w1 = (if written then w\<lparr>gw_specs := (gw_specs w)(aid \<mapsto> JVal (PDict p))\<rparr> else w)"
  have step: "write_spec E aid p w = (Inr ?rep, w1)" by (simp add: write_spec_def gd w1_def)
  show ?thesis
  proof (cases written)
    case True
    obtain w2 where l: "load_index E w1 = (Inr (read_index E (gw_index w1)), w2)" "gw_specs w2 = gw_specs w1" using load_index_view by blast
    have "made out = Some (aid, p) \<and> gw_specs w' = gw_specs w2 \<and> gw_index w' = Some (JVal (PDict (dict_set ''updated_ts'' (PInt (gv_now E))
        (dict_set ''agents'' (PDict (dict_set aid (PDict (index_row E aid p)) (registry_rows E w1))) (read_index E (gw_index w1))))))"
      using run True wr unfolding register_agent_def
      by (auto simp: bindS_ok [of "write_spec E aid p", OF step] bindS_ok [of "load_index E", OF l(1)] save_agents_def garage_event_def
          journal_policy_def made_def get_str_def py_or_def registry_rows_def)
    moreover have "registry_rows E w1 = registry_rows E w" using True by (simp add: w1_def registry_rows_def)
    moreover have "gw_specs w2 = (gw_specs w)(aid \<mapsto> JVal (PDict p))" using True l(2) by (simp add: w1_def)
    ultimately show ?thesis by (auto simp: after_made_def load_spec_def intro!: view_set)
  next
    case False
    with run wr have "made out = None \<and> w' = w" unfolding register_agent_def
      by (auto simp: bindS_ok [of "write_spec E aid p", OF step] w1_def made_def authority_refused_def)
    then show ?thesis by (simp add: after_made_def)
  qed
qed

text \<open>What comes before the registration keeps the map and creates nothing.\<close>

definition acts_like :: "garage_env \<Rightarrow> garage_world \<Rightarrow> (py_error + pydict) \<times> garage_world \<Rightarrow> bool" where
  "acts_like E w r = (registry_view E (snd r) = after_made E (fst r) (registry_view E w))"

lemma acts_bind:
  assumes "same_view E m" "\<And>x s. m w = (Inr x, s) \<Longrightarrow> acts_like E s (f x s)"
  shows "acts_like E w (bindS m f w)"
proof (cases "m w")
  case (Pair r s)
  then have v: "registry_view E s = registry_view E w" using assms(1) unfolding same_view_def by (metis snd_conv)
  show ?thesis
  proof (cases r)
    case (Inl e)
    with Pair v show ?thesis by (simp add: acts_like_def bindS_def made_def after_made_def)
  next
    case (Inr x)
    with assms(2) Pair have "acts_like E s (f x s)" by simp
    with Pair Inr v show ?thesis by (simp add: acts_like_def bindS_def)
  qed
qed

lemma acts_ret: "\<not> truthy (dict_get rep ''ok'') \<Longrightarrow> acts_like E w (retS rep w)" "\<not> truthy (dict_get rep ''ok'') \<Longrightarrow> acts_like E w (Inr rep, w)"
  by (simp_all add: acts_like_def made_def after_made_def)

lemma acts_register: "exact_guard E \<Longrightarrow> acts_like E w (register_agent E aid p ws w)"
  unfolding acts_like_def using register_view by (metis prod.collapse)

lemma same_view_streak [simp]: "same_view E (modifyS (\<lambda>w. if b then w\<lparr>gw_streak := n\<rparr> else w))"
  by (auto simp: same_view_def modifyS_def intro!: view_eq)

lemma acts_create_with: "exact_guard E \<Longrightarrow> acts_like E w (create_with E raw strict gws auth w)"
  unfolding create_with_def Let_def
  by (intro acts_bind) (auto intro!: acts_bind acts_ret acts_register)

lemma acts_denied: "acts_like E w (authority_denied E raw auth w)"
  unfolding authority_denied_def by (intro acts_bind acts_ret) (simp_all add: authority_refused_def)

lemma integrity_refuses: "integrity_check E raw = Inl rep \<Longrightarrow> \<not> truthy (dict_get rep ''ok'')"
  by (auto simp: integrity_check_def split: sum.splits if_splits)

lemma authority_fails: "created_authority E strict raw w = (Inr (Inl rep), w1) \<Longrightarrow> \<not> truthy (dict_get rep ''ok'')"
  by (auto simp: created_authority_def Let_def note_caps_exception_def bindS_liftS split: sum.splits if_splits)

lemma acts_create:
  assumes "exact_guard E"
  shows "acts_like E w (create_agent E raw w)"
  unfolding create_agent_def
proof (intro acts_bind same_view_base)
  fix strict s
  show "acts_like E s ((case integrity_check E raw of Inl rep \<Rightarrow> retS rep | Inr guard_warnings \<Rightarrow>
      bindS (created_authority E strict raw) (\<lambda>r. case r of Inl rep \<Rightarrow> retS rep | Inr auth \<Rightarrow>
        if \<not> truthy (dict_get auth ''ok'') then authority_denied E raw auth else create_with E raw strict guard_warnings auth)) s)"
    using integrity_refuses authority_fails acts_denied acts_create_with [OF assms]
    by (auto intro!: acts_bind acts_ret split: sum.splits)
qed

section \<open>Refinement\<close>

lemma same_view_list [simp]: "same_view E (list_agents E)"
  unfolding list_agents_def by (intro same_view_bind) simp_all

lemma same_view_get [simp]: "same_view E (get_agent E a)"
  unfolding get_agent_def Let_def by (intro same_view_if same_view_bind) simp_all

lemma get_shown: "fst (get_agent E a w) = shown a (registry_view E w (py_strip a))"
proof -
  obtain w1 where l: "load_index E w = (Inr (read_index E (gw_index w)), w1)" "gw_specs w1 = gw_specs w" using load_index_view by blast
  have "load_spec x w1 = load_spec x w" for x using l(2) by (simp add: load_spec_def)
  then show ?thesis
    by (cases "dict_arg (dict_get (registry_rows E w) (py_strip a))")
      (simp_all add: get_agent_def Let_def shown_def bindS_ok [of "load_index E", OF l(1)] bindS_liftS registry_view_def registry_rows_def)
qed

lemma same_view_cancel [simp]: "same_view E (cancel_queued E' aid)"
  unfolding same_view_def cancel_queued_def by (auto intro!: view_eq split: sum.splits prod.splits)

lemma write_spec_exact:
  assumes "exact_guard E"
  shows "\<exists>rep. write_spec E aid p w = (Inr rep, if fst (gv_guard E aid p) then w\<lparr>gw_specs := (gw_specs w)(aid \<mapsto> JVal (PDict p))\<rparr> else w)"
  by (simp add: write_spec_def split: prod.splits)

lemma load_spec_put: "load_spec x (w\<lparr>gw_specs := (gw_specs w)(aid \<mapsto> JVal (PDict p))\<rparr>) = (if x = aid then p else load_spec x w)"
  by (simp add: load_spec_def)

lemma dict_arg_rows: "dict_arg v = Inr row \<Longrightarrow> row \<noteq> [] \<Longrightarrow> v = PDict row"
  by (cases v) (auto split: if_splits)

lemma disable_view:
  assumes g: "exact_guard E"
  shows "registry_view E (snd (disable_agent E a reason w)) = registry_spec E (G_disable a reason) out (registry_view E w)"
proof -
  define aid where "aid = py_strip a"
  let ?rows = "registry_rows E w" and ?idx = "read_index E (gw_index w)" and ?spec = "load_spec aid w"
  have v: "registry_view E w aid = (dict_get ?rows aid, ?spec)" by (simp add: registry_view_def)
  have rows: "index_agents ?idx = ?rows" by (simp add: registry_rows_def)
  obtain w1 where l: "load_index E w = (Inr ?idx, w1)" "registry_view E w1 = registry_view E w" "gw_specs w1 = gw_specs w"
    using load_index_view view_eq by metis
  note step = bindS_ok [of "load_index E", OF l(1)]
  show ?thesis
  proof (cases "aid \<noteq> [] \<and> (\<exists>row. dict_get ?rows aid = PDict row \<and> row \<noteq> [])")
    case False
    then have "snd (disable_agent E a reason w) \<in> {w, w1}"
      using dict_arg_rows unfolding disable_agent_def Let_def aid_def [symmetric]
      by (cases "dict_arg (dict_get ?rows aid)") (auto simp: step rows)
    with False l(2) v show ?thesis by (auto simp: aid_def [symmetric] Let_def split: pyval.splits)
  next
    case True
    then obtain row where row: "dict_get ?rows aid = PDict row" "row \<noteq> []" "aid \<noteq> []" by blast
    let ?off = "disabled_row E row" and ?new = "disabled_spec E aid reason ?spec"
    have "same_view E (bindS (garage_event ev) (\<lambda>_. bindS (cancel_queued E aid) f))" if "\<And>n. same_view E (f n)" for ev and f :: "int \<Rightarrow> pydict garage_action"
      using that by (intro same_view_bind) simp_all
    note tail = this
    let ?off_spec = "dict_set ''disabled_reason'' (PStr reason) (disabled_row E ?spec)"
    define w2 where "w2 = snd (save_agents E ?idx (dict_set aid (PDict ?off) ?rows) w1)"
    have save: "save_agents E ?idx (dict_set aid (PDict ?off) ?rows) w1 = (Inr (), w2)" by (simp add: w2_def save_agents_def modifyS_def)
    have w2: "gw_specs w2 = gw_specs w" "gw_index w2 = Some (JVal (PDict (dict_set ''updated_ts'' (PInt (gv_now E)) (dict_set ''agents'' (PDict (dict_set aid (PDict ?off) ?rows)) ?idx))))"
      using l(3) by (simp_all add: w2_def save_agents_def modifyS_def)
    have sp: "load_spec x w2 = load_spec x w" for x using w2(1) by (simp add: load_spec_def)
    define w3 where "w3 = (if ?spec \<noteq> [] \<and> fst (gv_guard E aid ?off_spec) then w2\<lparr>gw_specs := (gw_specs w2)(aid \<mapsto> JVal (PDict ?off_spec))\<rparr> else w2)"
    obtain rep where wr: "(if ?spec = [] then retS [] else write_spec E aid ?off_spec) w2 = (Inr rep, w3)"
      using write_spec_exact [OF g, of aid ?off_spec w2] that by (cases "?spec = []") (auto simp: w3_def)
    obtain ev where run: "disable_agent E a reason w = bindS (garage_event ev) (\<lambda>_. bindS (cancel_queued E aid) (\<lambda>n.
        retS [(''ok'', PBool True), (''agent_id'', PStr aid), (''enabled'', PBool False), (''canceled'', PInt n)])) w3"
      using row unfolding disable_agent_def Let_def aid_def [symmetric] disabled_row_def [symmetric]
      by (simp add: step rows bindS_ok [of "save_agents E ?idx _", OF save] sp bindS_ok [of "if ?spec = [] then retS [] else write_spec E aid ?off_spec", OF wr])
    have "load_spec x w3 = (if x = aid then ?new else load_spec x w)" for x
    proof (cases "?spec \<noteq> [] \<and> fst (gv_guard E aid ?off_spec)")
      case True
      then have "?new = ?off_spec" "w3 = w2\<lparr>gw_specs := (gw_specs w2)(aid \<mapsto> JVal (PDict ?off_spec))\<rparr>" by (simp_all add: disabled_spec_def w3_def)
      then show ?thesis by (simp add: load_spec_put sp)
    next
      case False
      then have "?new = ?spec" "w3 = w2" by (auto simp: disabled_spec_def w3_def Let_def)
      then show ?thesis by (simp add: sp)
    qed
    moreover have "gw_index w3 = gw_index w2" by (simp add: w3_def)
    ultimately have "registry_view E w3 = (registry_view E w)(aid := (PDict ?off, ?new))" using w2(2) by (intro view_set) simp_all
    moreover have "registry_view E (snd (disable_agent E a reason w)) = registry_view E w3"
      unfolding run using tail unfolding same_view_def by simp
    ultimately show ?thesis using row v by (simp add: aid_def [symmetric] Let_def)
  qed
qed

text \<open>
  C35: With a guard that writes exactly when it says so, the registry is a map from agents to rows and specifications:
  creating an agent sets its entry (or changes nothing when the reply is no success, or an exception), disabling one marks its
  row, and its specification when the guard lets it be written, and nothing else changes any entry; \<open>get_agent\<close>
  replies what the map holds.\<close>

theorem registry_refines_spec:
  assumes "exact_guard E"
  shows "\<exists>out w'. garage_step E op w = (out, w') \<and> registry_view E w' = registry_spec E op out (registry_view E w)
    \<and> (\<forall>a. op = G_get a \<longrightarrow> out = shown a (registry_view E w (py_strip a)))"
proof -
  have "registry_view E (snd (garage_step E op w)) = registry_spec E op (fst (garage_step E op w)) (registry_view E w)"
    using acts_create [OF assms, of w] disable_view [OF assms] same_view_get same_view_list
    unfolding acts_like_def same_view_def by (cases op) simp_all
  then show ?thesis using get_shown by (intro exI [of _ "fst (garage_step E op w)"] exI [of _ "snd (garage_step E op w)"]) auto
qed

theorem registry_refines_spec_witness:
  "\<exists>out w'. garage_step garage_env0 (G_create raw0) garage_world0 = (out, w')
     \<and> registry_view garage_env0 w' ''agent_0123456789ab'' = (PDict (index_row garage_env0 ''agent_0123456789ab'' payload0), payload0)"
proof -
  obtain w' where run: "create_agent garage_env0 raw0 garage_world0 = (Inr reply0, w')" using create0 by blast
  have "exact_guard garage_env0" by (simp add: exact_guard_def garage_env0_def)
  from registry_refines_spec [OF this, of "G_create raw0" garage_world0] run
  have "registry_view garage_env0 w' = after_made garage_env0 (Inr reply0) (registry_view garage_env0 garage_world0)" by simp
  moreover have "made (Inr reply0) = Some (''agent_0123456789ab'', payload0)" by (simp add: made_def reply0_def get_str_def py_or_def)
  ultimately show ?thesis using run by (simp add: after_made_def)
qed

end
