(* ===== verification/QuarClear.thy ===== *)
theory QuarClear
  imports QuarDrift
begin

text \<open>
  \<open>modules/runtime/drift_quarantine.py\<close>, third part: the evidence packet and the envelope that clearing a
  quarantine asks for in slot B, and the clearing itself.  Both signature modules are taken to be importable.
\<close>

section \<open>Evidence\<close>

definition resolve_evidence_path :: "quar_env \<Rightarrow> string \<Rightarrow> pydict + (string list \<times> string)" where
  "resolve_evidence_path E evidence_path =
     (let raw = py_strip evidence_path; root = qe_evidence_root E; p = resolve_path root raw in
      if raw = [] then Inl (code_reply ''EVIDENCE_PATH_REQUIRED'' ''evidence_path_required'')
      else if \<not> path_within p root then
        Inl (code_reply ''EVIDENCE_PATH_FORBIDDEN'' ''evidence_path_forbidden''
             @ [(''evidence_root'', PStr (path_text root)), (''evidence_path'', PStr (path_text p))])
      else Inr (p, rel_text root p))"

definition place_dict :: "string list \<Rightarrow> string \<Rightarrow> pydict" where
  "place_dict p rel = [(''evidence_path'', PStr (path_text p)), (''evidence_rel_path'', PStr rel)]"

record sig_report =
  sr_ok :: bool
  sr_alg :: string
  sr_key :: string
  sr_error :: string
  sr_payload :: string

definition signature_report :: "quar_env \<Rightarrow> pydict \<Rightarrow> py_error + sig_report" where
  "signature_report E packet =
     (if \<not> cr_available (qe_crypto E) then
        Inr \<lparr>sr_ok = False, sr_alg = [], sr_key = [], sr_error = ''ED25519_UNAVAILABLE'', sr_payload = []\<rparr>
      else
        bindE (verify_packet (qe_crypto E) (qe_evidence_pub E) packet) (\<lambda>rep.
        let good = truthy (dict_get rep ''ok'') in
        Inr \<lparr>sr_ok = good, sr_alg = py_str (py_or (dict_get rep ''alg'') (PStr ''ed25519'')),
              sr_key = py_str (py_or (dict_get rep ''key_id'') (PStr (if good then ''default'' else []))),
              sr_error = (if good then [] else py_str (py_or (dict_get rep ''error_code'') (PStr ''EVIDENCE_SIG_INVALID''))),
              sr_payload = get_str rep ''payload_hash''\<rparr>))"

definition packet_issue :: "string \<Rightarrow> string \<Rightarrow> pydict \<Rightarrow> (string \<times> string) option" where
  \<comment> \<open>what a packet of the right schema lacks\<close>
  "packet_issue aid eid packet =
     (if get_str packet ''agent_id'' \<noteq> aid then Some (''EVIDENCE_AGENT_MISMATCH'', ''evidence_agent_mismatch'')
      else if get_str packet ''quarantine_event_id'' \<noteq> eid then Some (''EVIDENCE_EVENT_MISMATCH'', ''evidence_event_mismatch'')
      else if get_str packet ''decision'' \<noteq> ''CLEAR_QUARANTINE'' then
        Some (''EVIDENCE_DECISION_INVALID'', ''evidence_decision_invalid'')
      else None)"

definition evidence_schema :: string where
  "evidence_schema = ''ester.evidence.v1''"

definition checked_packet :: "quar_env \<Rightarrow> bool \<Rightarrow> pydict \<Rightarrow> pydict \<Rightarrow> py_error + pydict" where
  \<comment> \<open>from the signature to the reply; \<open>place\<close> are the paths, the file's hash and the schema\<close>
  "checked_packet E required place packet =
     (let created = (case get_int packet ''created_ts'' 0 of Inl _ \<Rightarrow> 0 | Inr i \<Rightarrow> max 0 i) in
      bindE (signature_report E packet) (\<lambda>s.
      let code = text_or (sr_error s) ''EVIDENCE_SIG_REQUIRED'' in
      if required \<and> \<not> sr_ok s then
        Inr (code_reply code (py_lower code) @ place
             @ [(''sig_ok'', PBool False), (''sig_required'', PBool True), (''sig_alg'', PStr (text_or (sr_alg s) ''ed25519'')),
                (''sig_key_id'', PStr (sr_key s)), (''sig_error_code'', PStr code), (''payload_hash'', PStr (sr_payload s))])
      else
        let warning = (if sr_ok s then [] else if code = ''EVIDENCE_SIG_REQUIRED'' then ''evidence_sig_missing''
              else if code = ''ED25519_UNAVAILABLE'' then ''evidence_sig_unavailable'' else ''evidence_sig_invalid'') in
        Inr ([(''ok'', PBool True), (''error_code'', PStr [])] @ place
             @ [(''created_ts'', PInt created), (''reviewer'', PStr (py_strip (get_str packet ''reviewer''))),
                (''summary'', PStr (take 200 (py_strip (get_str packet ''summary'')))), (''sig_ok'', PBool (sr_ok s)),
                (''sig_required'', PBool required), (''sig_alg'', PStr (text_or (sr_alg s) (if sr_ok s then ''ed25519'' else []))),
                (''sig_key_id'', PStr (sr_key s)), (''sig_error_code'', PStr (sr_error s)), (''sig_warning'', PStr warning),
                (''payload_hash'', PStr (sr_payload s))])))"

definition verify_evidence_file ::
  "quar_env \<Rightarrow> bool \<Rightarrow> string \<Rightarrow> string \<Rightarrow> string list \<Rightarrow> string \<Rightarrow> string \<Rightarrow> py_error + pydict" where
  "verify_evidence_file E required aid eid p rel claimed =
     (let place = place_dict p rel in
      case qe_files E p of None \<Rightarrow> Inr (code_reply ''EVIDENCE_NOT_FOUND'' ''evidence_not_found'' @ place)
      | Some blob \<Rightarrow>
        let actual = py_lower (cr_sha (qe_crypto E) blob); place = place @ [(''evidence_sha256'', PStr actual)] in
        if actual \<noteq> claimed then Inr (code_reply ''EVIDENCE_HASH_MISMATCH'' ''evidence_hash_mismatch'' @ place)
        else (case qe_json E blob of
            None \<Rightarrow> Inr (code_reply ''EVIDENCE_JSON_INVALID'' ''evidence_json_invalid'' @ place)
          | Some (PDict packet) \<Rightarrow>
              let schema = get_str packet ''schema''; place = place @ [(''evidence_schema'', PStr schema)] in
              if schema \<noteq> evidence_schema then Inr (code_reply ''EVIDENCE_SCHEMA_INVALID'' ''evidence_schema_invalid'' @ place)
              else (case packet_issue aid eid packet of
                  Some (code, err) \<Rightarrow> Inr (code_reply code err @ place)
                | None \<Rightarrow> checked_packet E required place packet)
          | Some _ \<Rightarrow> Inr (code_reply ''EVIDENCE_SCHEMA_INVALID'' ''evidence_schema_invalid'' @ place)))"

definition verify_evidence_packet ::
  "quar_env \<Rightarrow> string \<Rightarrow> string \<Rightarrow> string \<Rightarrow> string \<Rightarrow> bool option \<Rightarrow> quar_world \<Rightarrow> py_error + pydict" where
  "verify_evidence_packet E agent_id event_id path sha sig_required w =
     (let aid = py_strip agent_id; eid = py_strip event_id; claimed = norm_hash sha;
          required = (case sig_required of Some b \<Rightarrow> b | None \<Rightarrow> evidence_sig_required E (effective_slot E w)) in
      if aid = [] then Inr (code_reply ''AGENT_ID_REQUIRED'' ''agent_id_required'')
      else if eid = [] then Inr (code_reply ''EVENT_ID_REQUIRED'' ''event_id_required'')
      else if claimed = [] then Inr (code_reply ''EVIDENCE_HASH_REQUIRED'' ''evidence_hash_required'')
      else if \<not> is_sha256_hex claimed then Inr (code_reply ''EVIDENCE_HASH_INVALID'' ''evidence_hash_invalid'')
      else (case resolve_evidence_path E path of
          Inl rep \<Rightarrow> Inr rep
        | Inr (p, rel) \<Rightarrow> verify_evidence_file E required aid eid p rel claimed))"

section \<open>The request and its context\<close>

record clear_req =
  qc_agent :: string
  qc_event :: string
  qc_chain :: string
  qc_by :: string
  qc_reason :: string
  qc_evidence :: pydict
  qc_note :: string
  qc_l4w :: pydict

record clear_ctx =
  cx_agent :: string
  cx_event :: string
  cx_modes :: quar_modes
  cx_ev_path :: string
  cx_ev_sha :: string
  cx_note :: string
  cx_lw_path :: string
  cx_lw_sha :: string

definition clear_context :: "clear_req \<Rightarrow> quar_modes \<Rightarrow> clear_ctx" where
  "clear_context q m = \<lparr>cx_agent = py_strip (qc_agent q), cx_event = py_strip (qc_event q), cx_modes = m,
     cx_ev_path = py_strip (get_str (qc_evidence q) ''path''), cx_ev_sha = norm_hash (get_str (qc_evidence q) ''sha256''),
     cx_note = take 200 (py_strip (qc_note q)), cx_lw_path = py_strip (get_str (qc_l4w q) ''envelope_path''),
     cx_lw_sha = norm_hash (get_str (qc_l4w q) ''envelope_sha256'')\<rparr>"

definition cx_enforced :: "clear_ctx \<Rightarrow> bool" where
  "cx_enforced X = enforced_slot (qm_slot (cx_modes X))"

definition failure_head :: "clear_ctx \<Rightarrow> string \<Rightarrow> string \<Rightarrow> pydict" where
  "failure_head X err code =
     [(''ok'', PBool False), (''error'', PStr err), (''error_code'', PStr code), (''agent_id'', PStr (cx_agent X)),
      (''event_id'', PStr (cx_event X))]"

definition modes_dict :: "quar_env \<Rightarrow> quar_modes \<Rightarrow> pydict" where
  "modes_dict E m =
     [(''slot'', PStr (qm_slot m)), (''enforced'', PBool (enforced_slot (qm_slot m))), (''degraded'', PBool (qm_slot m \<noteq> raw_slot E)),
      (''mode_forced'', PStr (qm_forced m)), (''last_rollback_reason'', PStr (qm_rollback m))]"

definition counted_failure :: "quar_env \<Rightarrow> clear_ctx \<Rightarrow> string \<Rightarrow> string \<Rightarrow> quar_modes quar_action" where
  \<comment> \<open>a refusal in slot B counts as a failure; without Ed25519 one is enough\<close>
  "counted_failure E X kind code =
     (if raw_slot E = ''B'' \<and> cx_enforced X then
        bindS (note_failure (kind @ code) (if code = ''ED25519_UNAVAILABLE'' then 1 else fail_max E)) (\<lambda>_.
        readS (\<lambda>w. Inr (modes_of E w)))
      else retS (cx_modes X))"

definition first_str :: "pydict \<Rightarrow> string list \<Rightarrow> string \<Rightarrow> string" where
  \<comment> \<open>\<open>str(d.get(k) or ... or dflt)\<close>\<close>
  "first_str d ks dflt = py_str (foldr (\<lambda>k v. py_or (dict_get d k) v) ks (PStr dflt))"

definition evidence_failure :: "quar_env \<Rightarrow> clear_ctx \<Rightarrow> pydict \<Rightarrow> pydict quar_action" where
  "evidence_failure E X rep =
     (let code = first_str rep [''error_code''] ''EVIDENCE_INVALID''; err = first_str rep [''error''] ''evidence_invalid'' in
      bindS (counted_failure E X ''evidence_verify_error:'' code) (\<lambda>m.
      retS (failure_head X err code @ modes_dict E m
        @ [(''evidence_path'', PStr (first_str rep [''evidence_rel_path'', ''evidence_path''] (cx_ev_path X))),
           (''evidence_sha256'', PStr (text_or (cx_ev_sha X) (get_str rep ''evidence_sha256''))),
           (''evidence_sig_ok'', PBool (truthy (dict_get rep ''sig_ok''))), (''evidence_sig_alg'', PStr (get_str rep ''sig_alg'')),
           (''evidence_sig_key_id'', PStr (get_str rep ''sig_key_id'')),
           (''evidence_sig_error_code'', PStr (first_str rep [''sig_error_code'', ''error_code''] [])),
           (''evidence_payload_hash'', PStr (get_str rep ''payload_hash''))]
        @ l4w_dict (no_l4w\<lparr>lw_path := cx_lw_path X, lw_sha := cx_lw_sha X\<rparr>))))"

definition l4w_failure :: "quar_env \<Rightarrow> clear_ctx \<Rightarrow> evidence_info \<Rightarrow> pydict \<Rightarrow> pydict quar_action" where
  "l4w_failure E X ev rep =
     (let code = first_str rep [''error_code''] ''L4W_SCHEMA_INVALID''; err = first_str rep [''error''] ''l4w_invalid'' in
      bindS (counted_failure E X ''l4w_verify_error:'' code) (\<lambda>m.
      retS (failure_head X err code @ modes_dict E m
        @ [(''evidence_path'', PStr (text_or (ev_path ev) (cx_ev_path X))), (''evidence_sha256'', PStr (text_or (ev_sha ev) (cx_ev_sha X))),
           (''l4w_envelope_path'', PStr (first_str rep [''l4w_envelope_path''] (cx_lw_path X))),
           (''l4w_envelope_sha256'', PStr (first_str rep [''l4w_envelope_sha256''] (cx_lw_sha X))),
           (''l4w_envelope_hash'', PStr (get_str rep ''l4w_envelope_hash'')), (''l4w_prev_hash'', PStr (get_str rep ''l4w_prev_hash'')),
           (''l4w_pub_fingerprint'', PStr (get_str rep ''l4w_pub_fingerprint''))])))"

definition info_of :: "clear_ctx \<Rightarrow> pydict \<Rightarrow> py_error + evidence_info" where
  \<comment> \<open>what an accepted packet leaves in the row\<close>
  "info_of X rep =
     bindE (get_int rep ''created_ts'' 0) (\<lambda>created.
     Inr \<lparr>ev_path = first_str rep [''evidence_rel_path'', ''evidence_path''] [], ev_sha = get_str rep ''evidence_sha256'',
       ev_schema = get_str rep ''evidence_schema'', ev_created = created, ev_reviewer = get_str rep ''reviewer'',
       ev_summary = take 200 (get_str rep ''summary''), ev_note = cx_note X, ev_sig_ok = truthy (dict_get rep ''sig_ok''),
       ev_sig_alg = get_str rep ''sig_alg'', ev_sig_key = get_str rep ''sig_key_id'', ev_sig_error = get_str rep ''sig_error_code'',
       ev_payload = get_str rep ''payload_hash''\<rparr>)"

definition noted_only :: "clear_ctx \<Rightarrow> evidence_info" where
  "noted_only X = no_evidence\<lparr>ev_note := cx_note X\<rparr>"

definition check_evidence :: "quar_env \<Rightarrow> clear_ctx \<Rightarrow> (pydict + (evidence_info \<times> string list)) quar_action" where
  \<comment> \<open>a refusal, or what is known about the evidence and the warnings\<close>
  "check_evidence E X =
     (let missing = (cx_ev_path X = [] \<or> cx_ev_sha X = []); enforced = cx_enforced X in
      if missing then
        (if enforced then
           bindS (evidence_failure E X [(''error_code'', PStr ''EVIDENCE_REQUIRED''), (''error'', PStr ''evidence_required'')]) (\<lambda>rep. retS (Inl rep))
         else retS (Inr (noted_only X, [''evidence_missing''])))
      else
        bindS (readS (verify_evidence_packet E (cx_agent X) (cx_event X) (cx_ev_path X) (cx_ev_sha X) (Some enforced))) (\<lambda>rep.
        if truthy (dict_get rep ''ok'') then
          bindS (liftS (info_of X rep)) (\<lambda>ev.
          let warning = get_str rep ''sig_warning'' in
          retS (Inr (ev, if \<not> enforced \<and> py_strip warning \<noteq> [] then [warning] else [])))
        else if enforced then bindS (evidence_failure E X rep) (\<lambda>r. retS (Inl r))
        else
          retS (Inr ((noted_only X)\<lparr>ev_path := first_str rep [''evidence_rel_path''] (cx_ev_path X), ev_sha := cx_ev_sha X\<rparr>,
                     [''evidence_invalid:'' @ first_str rep [''error_code''] ''EVIDENCE_INVALID'']))))"

section \<open>The envelope\<close>

definition lw_refused :: "string \<Rightarrow> string \<Rightarrow> pydict \<Rightarrow> pydict quar_action" where
  "lw_refused code err more_fields = retS (code_reply code err @ more_fields)"

definition lw_place :: "string \<Rightarrow> string \<Rightarrow> pydict" where
  "lw_place rel sha = [(''l4w_envelope_path'', PStr rel), (''l4w_envelope_sha256'', PStr sha)]"

definition chain_step :: "quar_env \<Rightarrow> clear_ctx \<Rightarrow> bool \<Rightarrow> string \<Rightarrow> string \<Rightarrow> pydict \<Rightarrow> pydict \<Rightarrow> string \<Rightarrow> pydict quar_action" where
  \<comment> \<open>the envelope's predecessor is checked and its record appended; a broken chain is only a warning when chains
     are not enforced\<close>
  "chain_step E X chain_enforced rel sha env verified prev =
     (let hash = get_str verified ''envelope_hash'';
          here = lw_place rel sha @ [(''l4w_envelope_hash'', PStr hash), (''l4w_prev_hash'', PStr prev)];
          warn = opt_entry (\<not> chain_enforced) ''warn_only'' (PBool True) in
      bindS (readS (\<lambda>w. verify_chain_prev_hash (cx_agent X) prev (qw_chains w))) (\<lambda>chk.
      if \<not> truthy (dict_get chk ''ok'') then lw_refused ''L4W_CHAIN_BROKEN'' ''l4w_chain_broken'' (here @ warn)
      else
        bindS (liftS (get_int env ''ts'' (qe_now E))) (\<lambda>ts.
        bindS (\<lambda>w. case append_chain_record (qe_chain_dir E) (qe_now E) (cx_agent X)
                   \<lparr>ce_event = cx_event X, ce_envelope_id = get_str env ''envelope_id'', ce_envelope_hash = hash, ce_prev_hash = prev,
                    ce_path = rel, ce_sha = sha, ce_ts = ts\<rparr> (qw_chains w) of
                 (r, cs) \<Rightarrow> (r, w\<lparr>qw_chains := cs\<rparr>)) (\<lambda>app.
        if \<not> truthy (dict_get app ''ok'') then
          lw_refused (first_str app [''error_code''] ''L4W_CHAIN_BROKEN'') (first_str app [''error''] ''l4w_chain_broken'') (here @ warn)
        else
          retS ((''ok'', PBool True) # here @ [(''l4w_pub_fingerprint'', PStr (get_str verified ''pub_fingerprint''))])))))"

definition envelope_step :: "quar_env \<Rightarrow> clear_ctx \<Rightarrow> evidence_info \<Rightarrow> bool \<Rightarrow> string \<Rightarrow> string \<Rightarrow> pydict \<Rightarrow> pydict quar_action" where
  \<comment> \<open>the envelope must verify, name this quarantine and name the evidence that was accepted\<close>
  "envelope_step E X ev chain_enforced rel sha env =
     bindS (liftS (verify_envelope (qe_crypto E) (qe_l4w_pub E) env)) (\<lambda>verified.
     let hash = (''l4w_envelope_hash'', PStr (get_str verified ''envelope_hash'')); at = lw_place rel sha in
     if \<not> truthy (dict_get verified ''ok'') then
       lw_refused (first_str verified [''error_code''] ''L4W_SIG_INVALID'') (first_str verified [''error''] ''l4w_sig_invalid'') (at @ [hash])
     else
       bindS (liftS (dict_arg (dict_get env ''subject''))) (\<lambda>subj.
       let env_agent = py_strip (get_str subj ''agent_id''); env_event = py_strip (get_str subj ''quarantine_event_id'') in
       if env_agent \<noteq> cx_agent X \<or> env_event \<noteq> cx_event X then
         lw_refused ''L4W_SUBJECT_MISMATCH'' ''l4w_subject_mismatch''
           (at @ [hash, (''subject_agent_id'', PStr env_agent), (''subject_event_id'', PStr env_event)])
       else
         bindS (liftS (dict_arg (dict_get env ''evidence_ref''))) (\<lambda>eref.
         bindS (liftS (dict_arg (dict_get env ''chain''))) (\<lambda>chain.
         let prev = norm_hash (get_str chain ''prev_hash'') in
         if slashes (py_strip (get_str eref ''path'')) \<noteq> slashes (py_strip (ev_path ev))
            \<or> norm_hash (get_str eref ''sha256'') \<noteq> norm_hash (ev_sha ev) then
           lw_refused ''L4W_EVIDENCE_REF_MISMATCH'' ''l4w_evidence_ref_mismatch'' (at @ [hash, (''l4w_prev_hash'', PStr prev)])
         else chain_step E X chain_enforced rel sha env verified prev))))"

definition verify_l4w_once :: "quar_env \<Rightarrow> clear_ctx \<Rightarrow> evidence_info \<Rightarrow> bool \<Rightarrow> pydict quar_action" where
  "verify_l4w_once E X ev chain_enforced =
     (if cx_lw_path X = [] \<or> cx_lw_sha X = [] then lw_refused ''L4W_REQUIRED'' ''l4w_required'' []
      else if length (cx_lw_sha X) \<noteq> 64 then lw_refused ''L4W_HASH_MISMATCH'' ''l4w_hash_invalid'' []
      else (case resolve_envelope_path (qe_envelope_root E) (cx_lw_path X) of
        Inl rep \<Rightarrow> lw_refused (first_str rep [''error_code''] ''L4W_PATH_FORBIDDEN'') (first_str rep [''error''] ''l4w_path_forbidden'')
                     [(''l4w_envelope_path'', PStr (first_str rep [''envelope_rel_path''] (cx_lw_path X)))]
      | Inr (p, rel) \<Rightarrow>
        (case qe_files E p of
          None \<Rightarrow> lw_refused ''L4W_SCHEMA_INVALID'' ''l4w_not_found'' [(''l4w_envelope_path'', PStr rel)]
        | Some blob \<Rightarrow>
          let sha = norm_hash (cr_sha (qe_crypto E) blob); at = lw_place rel sha in
          if sha \<noteq> cx_lw_sha X then lw_refused ''L4W_HASH_MISMATCH'' ''l4w_hash_mismatch'' at
          else (case qe_json E blob of
              None \<Rightarrow> lw_refused ''L4W_SCHEMA_INVALID'' ''l4w_json_invalid'' at
            | Some (PDict env) \<Rightarrow>
                if get_str env ''schema'' \<noteq> envelope_schema then lw_refused ''L4W_SCHEMA_INVALID'' ''l4w_schema_invalid'' at
                else envelope_step E X ev chain_enforced rel sha env
            | Some _ \<Rightarrow> lw_refused ''L4W_SCHEMA_INVALID'' ''l4w_schema_invalid'' at))))"

definition check_l4w :: "quar_env \<Rightarrow> clear_ctx \<Rightarrow> evidence_info \<Rightarrow> (pydict + (l4w_info \<times> string list)) quar_action" where
  "check_l4w E X ev =
     (let enforced = cx_enforced X; slot = qm_slot (cx_modes X); required = l4w_required E slot;
          chain_required = l4w_chain_enforced E slot in
      if enforced \<and> required then
        bindS (verify_l4w_once E X ev chain_required) (\<lambda>rep.
        if truthy (dict_get rep ''ok'') then retS (Inr (read_l4w rep, []))
        else if \<not> chain_required \<and> truthy (dict_get rep ''warn_only'') then retS (Inr (no_l4w, [''chain_disabled'']))
        else bindS (l4w_failure E X ev rep) (\<lambda>r. retS (Inl r)))
      else if enforced then retS (Inr (no_l4w, [''l4w_disabled'']))
      else if cx_lw_path X = [] \<or> cx_lw_sha X = [] then retS (Inr (no_l4w, [''l4w_missing'']))
      else
        bindS (verify_l4w_once E X ev False) (\<lambda>rep.
        if truthy (dict_get rep ''ok'') then retS (Inr (read_l4w rep, []))
        else if truthy (dict_get rep ''warn_only'') then retS (Inr (no_l4w, [''l4w_chain_broken_observe_only'']))
        else retS (Inr (no_l4w, [''l4w_invalid:'' @ first_str rep [''error_code''] ''L4W_SCHEMA_INVALID'']))))"

section \<open>Clearing\<close>

definition clear_info_of :: "quar_env \<Rightarrow> clear_req \<Rightarrow> clear_ctx \<Rightarrow> quar_row \<Rightarrow> evidence_info \<Rightarrow> l4w_info \<Rightarrow> cleared_info" where
  "clear_info_of E q X r ev lw =
     \<lparr>cl_ts = qe_now E, cl_event = cx_event X, cl_chain = py_strip (qc_chain q), cl_by = py_strip (qc_by q), cl_reason = py_strip (qc_reason q),
      cl_on_time = (0 < qr_deadline r \<and> qe_now E \<le> qr_deadline r), cl_late = (0 < qr_deadline r \<and> qr_deadline r < qe_now E),
      cl_deadline = qr_deadline r, cl_cleared_ts = qe_now E, cl_evidence = ev, cl_l4w = lw\<rparr>"

definition times_dict :: "cleared_info \<Rightarrow> pydict" where
  "times_dict c = [(''on_time'', PBool (cl_on_time c)), (''late'', PBool (cl_late c)), (''deadline_ts'', PInt (cl_deadline c)),
     (''cleared_ts'', PInt (cl_cleared_ts c))]"

definition clear_commit ::
  "quar_env \<Rightarrow> clear_req \<Rightarrow> clear_ctx \<Rightarrow> quar_state \<Rightarrow> quar_row \<Rightarrow> evidence_info \<Rightarrow> l4w_info \<Rightarrow> string list \<Rightarrow> pydict quar_action" where
  "clear_commit E q X state r ev lw warnings =
     (let c = clear_info_of E q X r ev lw; r' = r\<lparr>qr_active := False, qr_cleared := c\<rparr>; m = cx_modes X;
          warned = opt_entry (warnings \<noteq> []) ''warnings'' (str_list warnings) in
      bindS (save_state E (AList.update (cx_agent X) r' state)) (\<lambda>_.
      bindS (append_event (quar_event_row E ''QUARANTINE_CLEAR'' (cx_agent X) (cx_event X) (qr_severity r) (qr_reason r) ''drift.quarantine.clear''
               ([(''chain_id'', PStr (cl_chain c)), (''by'', PStr (cl_by c)), (''reason'', PStr (cl_reason c))] @ times_dict c
                @ evidence_dict ev @ l4w_dict lw @ warned))) (\<lambda>_.
      bindS note_success (\<lambda>_.
      bindS (readS (\<lambda>w. Inr (qw_forced w))) (\<lambda>forced.
      retS ([(''ok'', PBool True), (''cleared'', PBool True), (''agent_id'', PStr (cx_agent X)), (''event_id'', PStr (cx_event X)),
             (''prev_active'', PBool (qr_active r)), (''now_active'', PBool False)] @ times_dict c @ evidence_dict ev @ l4w_dict lw
            @ [(''slot'', PStr (qm_slot m)), (''enforced'', PBool (enforced_slot (qm_slot m))),
               (''degraded'', PBool (qm_slot m \<noteq> raw_slot E)), (''mode_forced'', PStr forced)] @ warned))))))"

definition clear_checked :: "quar_env \<Rightarrow> clear_req \<Rightarrow> clear_ctx \<Rightarrow> quar_state \<Rightarrow> quar_row \<Rightarrow> pydict quar_action" where
  \<comment> \<open>the row is active and holds the event that was named\<close>
  "clear_checked E q X state r =
     bindS (check_evidence E X) (\<lambda>e. case e of Inl rep \<Rightarrow> retS rep | Inr (ev, warnings) \<Rightarrow>
     bindS (check_l4w E X ev) (\<lambda>l. case l of Inl rep \<Rightarrow> retS rep | Inr (lw, more_warnings) \<Rightarrow>
     clear_commit E q X state r ev lw (warnings @ more_warnings)))"

definition clear_quarantine :: "quar_env \<Rightarrow> clear_req \<Rightarrow> pydict quar_action" where
  "clear_quarantine E q =
     bindS (readS (\<lambda>w. Inr (modes_of E w))) (\<lambda>m.
     let X = clear_context q m; aid = cx_agent X; eid = cx_event X;
         required = (\<lambda>err code. retS [(''ok'', PBool False), (''error'', PStr err), (''error_code'', PStr code)]) in
     if aid = [] then required ''agent_id_required'' ''AGENT_ID_REQUIRED''
     else if eid = [] then required ''event_id_required'' ''EVENT_ID_REQUIRED''
     else if py_strip (qc_reason q) = [] then required ''reason_required'' ''REASON_REQUIRED''
     else
       bindS (load_state E False) (\<lambda>state.
       let r = row_of E aid state in
       if \<not> qr_active r then
         retS [(''ok'', PBool False), (''error'', PStr ''not_quarantined''), (''error_code'', PStr ''NOT_QUARANTINED''),
               (''agent_id'', PStr aid), (''event_id'', PStr (qr_event r))]
       else if qr_event r \<noteq> eid then
         retS [(''ok'', PBool False), (''error'', PStr ''event_mismatch''), (''error_code'', PStr ''EVENT_MISMATCH''), (''agent_id'', PStr aid),
               (''event_id'', PStr (qr_event r)), (''expected_event_id'', PStr (qr_event r)), (''provided_event_id'', PStr eid)]
       else clear_checked E q X state r))"

end
