(* ===== verification/QuarStatus.thy ===== *)
theory QuarStatus
  imports QuarClear
begin

text \<open>
  \<open>build_drift_quarantine_status\<close> of \<open>modules/runtime/drift_quarantine.py\<close> with \<open>build_l4w_status\<close> of
  \<open>modules/runtime/l4w_witness.py\<close>.  The report is filled step by step, and an exception leaves it as far as it was
  filled, so the steps act on the report beside the world.  Parameters: the sorted names of the chain files, the
  last audit, the text of an exception, and the milliseconds measured.  Blank lines of the event log, which nobody
  writes, do not count for its tail.
\<close>

section \<open>The status of the envelopes\<close>

definition default_profile :: "quar_env \<Rightarrow> string" where
  "default_profile E =
     (let raw = py_upper (py_strip (str_or (qe_getenv E ''ESTER_L4W_PROFILE_DEFAULT'') ''HRO'')) in
      if raw \<in> {''BASE'', ''HRO'', ''FULL''} then raw else ''HRO'')"

definition l4w_clear_dict :: "int \<Rightarrow> string \<Rightarrow> string \<Rightarrow> l4w_info \<Rightarrow> pydict" where
  "l4w_clear_dict ts aid eid l =
     [(''ts'', PInt ts), (''agent_id'', PStr aid), (''quarantine_event_id'', PStr eid), (''envelope_hash'', PStr (lw_hash l)),
      (''prev_hash'', PStr (lw_prev l)), (''envelope_path'', PStr (lw_path l)), (''envelope_sha256'', PStr (lw_sha l)),
      (''pub_fingerprint'', PStr (lw_fingerprint l))]"

definition l4w_error :: "quar_env \<Rightarrow> bool \<Rightarrow> string" where
  "l4w_error E enforced =
     (if q_env_bool E ''ESTER_L4W_CHAIN_DISABLED'' False then ''chain_disabled''
      else if \<not> cr_available (qe_crypto E) \<and> enforced then ''ED25519_UNAVAILABLE'' else [])"

definition build_l4w_status :: "quar_env \<Rightarrow> string \<Rightarrow> pydict \<Rightarrow> chain_store \<Rightarrow> py_error + pydict" where
  "build_l4w_status E slot last_clear chains_now =
     bindE (add_chains (map (\<lambda>n. case chains_now n of None \<Rightarrow> [] | Some ls \<Rightarrow> ls) (qe_chain_names E)) no_totals) (\<lambda>t.
     let enforced = enforced_slot slot; err = l4w_error E enforced; audit = qe_audit E in
     Inr [(''ok'', PBool (py_strip err = [])), (''slot'', PStr (if py_upper (py_strip slot) = ''B'' then ''B'' else ''A'')),
          (''enforced'', PBool enforced), (''degraded'', PBool (slot \<noteq> raw_slot E)),
          (''conformance'', PDict [(''supported'', str_list [''BASE'', ''HRO'', ''FULL'']), (''default_profile'', PStr (default_profile E)),
             (''last_audit_ts'', PInt (au_ts audit)), (''last_audit_profile'', PStr (au_profile audit)),
             (''last_audit_ok'', PBool (au_ok audit)), (''last_audit_error'', PStr (au_error audit))]),
          (''chain'', PDict (chain_totals_dict t err)), (''last_clear_l4w'', PDict last_clear)])"

section \<open>The report\<close>

record quar_report =
  rp_ok :: bool
  rp_slot :: string
  rp_degraded :: bool
  rp_error :: string
  rp_active :: nat
  rp_open :: nat
  rp_expired :: nat
  rp_on_time :: nat
  rp_late :: nat
  rp_set :: nat
  rp_block :: nat
  rp_last_set :: int
  rp_last_block :: int
  rp_last_expired :: int
  rp_last_event :: pydict
  rp_clear_ts :: int
  rp_clear_agent :: string
  rp_clear_event :: string
  rp_clear :: cleared_info
  rp_l4w :: pydict
  rp_sample :: "pyval list"
  rp_state_size :: nat
  rp_tail_lines :: nat

definition last_event_dict :: "int \<Rightarrow> pydict \<Rightarrow> pydict" where
  "last_event_dict ts row =
     [(''ts'', PInt ts), (''type'', PStr (get_str row ''type'')), (''agent_id'', PStr (get_str row ''agent_id'')),
      (''event_id'', PStr (get_str row ''event_id'')), (''reason_code'', PStr (get_str row ''reason_code'')),
      (''severity'', PStr (get_str row ''severity'')), (''step'', PStr (get_str row ''step''))]"

definition build_last_event :: "pydict \<Rightarrow> py_error + pydict" where
  "build_last_event row = bindE (get_int row ''ts'' 0) (\<lambda>ts. Inr (last_event_dict ts row))"

definition l4w_unknown :: "string \<Rightarrow> bool \<Rightarrow> string \<Rightarrow> pydict" where
  "l4w_unknown slot degraded err =
     [(''ok'', PBool False), (''slot'', PStr slot), (''enforced'', PBool (enforced_slot slot)), (''degraded'', PBool degraded),
      (''chain'', PDict (chain_totals_dict no_totals err)), (''last_clear_l4w'', PDict (l4w_clear_dict 0 [] [] no_l4w))]"

definition empty_report :: "quar_env \<Rightarrow> string \<Rightarrow> quar_report" where
  "empty_report E slot =
     \<lparr>rp_ok = True, rp_slot = slot, rp_degraded = (slot \<noteq> raw_slot E), rp_error = [], rp_active = 0, rp_open = 0, rp_expired = 0,
      rp_on_time = 0, rp_late = 0, rp_set = 0, rp_block = 0, rp_last_set = 0, rp_last_block = 0, rp_last_expired = 0,
      rp_last_event = last_event_dict 0 [], rp_clear_ts = 0, rp_clear_agent = [], rp_clear_event = [], rp_clear = not_cleared,
      rp_l4w = l4w_unknown slot (slot \<noteq> raw_slot E) ''l4w_unavailable'', rp_sample = [], rp_state_size = 0, rp_tail_lines = 0\<rparr>"

definition last_clear_dict :: "quar_report \<Rightarrow> pydict" where
  "last_clear_dict R =
     (let c = rp_clear R; e = cl_evidence c in
      [(''ts'', PInt (rp_clear_ts R)), (''agent_id'', PStr (rp_clear_agent R)), (''event_id'', PStr (rp_clear_event R)),
       (''on_time'', PBool (cl_on_time c)), (''late'', PBool (cl_late c)), (''evidence_sha256'', PStr (ev_sha e)),
       (''evidence_path'', PStr (ev_path e)), (''reviewer'', PStr (ev_reviewer e)), (''evidence_sig_ok'', PBool (ev_sig_ok e)),
       (''evidence_sig_alg'', PStr (ev_sig_alg e)), (''evidence_sig_key_id'', PStr (ev_sig_key e)),
       (''evidence_sig_error_code'', PStr (ev_sig_error e))] @ l4w_dict (cl_l4w c))"

definition nat_entry :: "string \<Rightarrow> nat \<Rightarrow> string \<times> pyval" where
  "nat_entry k n = (k, PInt (int n))"

definition report_dict :: "quar_env \<Rightarrow> quar_report \<Rightarrow> quar_world \<Rightarrow> pydict" where
  "report_dict E R w =
     [(''ok'', PBool (rp_ok R)), (''slot'', PStr (rp_slot R)), (''enforced'', PBool (enforced_slot (rp_slot R))),
      (''degraded'', PBool (rp_degraded R)), (''error'', PStr (rp_error R)),
      (''summary'', PDict [nat_entry ''active'' (rp_active R), nat_entry ''active_open'' (rp_open R),
         nat_entry ''active_expired'' (rp_expired R), nat_entry ''cleared_on_time'' (rp_on_time R), nat_entry ''cleared_late'' (rp_late R),
         nat_entry ''set_recent'' (rp_set R), nat_entry ''block_recent'' (rp_block R), (''last_set_ts'', PInt (rp_last_set R)),
         (''last_block_ts'', PInt (rp_last_block R)), (''last_expired_ts'', PInt (rp_last_expired R))]),
      (''last_event'', PDict (rp_last_event R)), (''last_clear'', PDict (last_clear_dict R)), (''l4w'', PDict (rp_l4w R)),
      (''active_agents_sample'', PList (rp_sample R)),
      (''perf'', PDict [(''cache_ttl_sec'', PInt (q_env_int E ''ESTER_QUARANTINE_TTL_SEC'' 5 1)), (''build_ms'', PInt (max 0 (qe_elapsed E))),
         nat_entry ''state_size'' (rp_state_size R), nat_entry ''tail_lines'' (rp_tail_lines R), (''fail_streak'', PInt (qw_streak w)),
         (''fail_max'', PInt (fail_max E)), (''mode_forced'', PStr (qw_forced w)), (''last_rollback_reason'', PStr (qw_rollback w))])]"

section \<open>Filling it\<close>

type_synonym 'a report_action = "(quar_report \<times> quar_world, 'a) py_action"

definition on_world :: "'a quar_action \<Rightarrow> 'a report_action" where
  "on_world m s = (case m (snd s) of (r, w) \<Rightarrow> (r, (fst s, w)))"

definition fill :: "(quar_report \<Rightarrow> quar_report) \<Rightarrow> unit report_action" where
  "fill f = modifyS (\<lambda>(R, w). (f R, w))"

fun note_clears :: "quar_env \<Rightarrow> quar_state \<Rightarrow> quar_report \<Rightarrow> quar_report \<times> nat \<times> nat" where
  \<comment> \<open>the last clear goes into the report at once, the counts are kept for later\<close>
  "note_clears E [] R = (R, 0, 0)"
| "note_clears E ((aid, row) # st) R =
     (let r = settle_row E aid row; c = qr_cleared r in
      if qr_active r \<or> cl_ts c \<le> 0 then note_clears E st R
      else
        let R' = (if rp_clear_ts R \<le> cl_ts c then
                    R\<lparr>rp_clear_ts := cl_ts c, rp_clear_agent := qr_agent r, rp_clear_event := text_or (cl_event c) (qr_event r), rp_clear := c\<rparr>
                  else R)
        in (case note_clears E st R' of (R'', on_time, late) \<Rightarrow>
              (R'', if cl_late c then (on_time, late + 1) else (on_time + 1, late))))"

definition active_rows :: "quar_env \<Rightarrow> quar_state \<Rightarrow> quar_row list" where
  "active_rows E st = filter qr_active (map (\<lambda>(aid, r). settle_row E aid r) st)"

definition newest_first :: "quar_row list \<Rightarrow> quar_row list" where
  "newest_first rs = sort_key (\<lambda>r. - qr_since r) rs"

fun expire_each :: "quar_env \<Rightarrow> quar_row list \<Rightarrow> unit quar_action" where
  "expire_each E [] = retS ()"
| "expire_each E (r # rs) =
     bindS (tryS (bindS (maybe_mark_expired E (qr_agent r) None) (\<lambda>_. retS ())) (\<lambda>_. retS ())) (\<lambda>_. expire_each E rs)"

definition sample_row :: "quar_env \<Rightarrow> quar_row \<Rightarrow> pyval" where
  "sample_row E row =
     (let r = settle_row E (qr_agent row) row in
      case remaining_overdue r (qe_now E) of (remaining, overdue) \<Rightarrow>
      PDict [(''agent_id'', PStr (qr_agent r)), (''event_id'', PStr (qr_event r)), (''reason_code'', PStr (qr_reason r)),
             (''severity'', PStr (qr_severity r)), (''since_ts'', PInt (qr_since r)), (''challenge_deadline_ts'', PInt (qr_deadline r)),
             (''challenge_remaining_sec'', PInt remaining), (''expired'', PBool (qr_expired r)), (''overdue_sec'', PInt overdue)])"

definition last_n :: "nat \<Rightarrow> 'a list \<Rightarrow> 'a list" where
  "last_n n xs = drop (length xs - n) xs"

definition read_events_tail :: "quar_env \<Rightarrow> jtext list \<Rightarrow> py_error + pydict list \<times> nat" where
  \<comment> \<open>\<open>_read_events_tail(100, _expire_tail_lines())\<close>\<close>
  "read_events_tail E ls =
     (let tail = last_n (nat (q_env_int E ''ESTER_QUARANTINE_EXPIRE_TAIL_LINES'' 200 1)) (filter (\<lambda>l. l \<noteq> JBlank) ls) in
      bindE (mapE (\<lambda>row. bindE (get_int row ''ts'' 0) (\<lambda>ts. Inr (ts, row))) (rows_lenient tail)) (\<lambda>rows.
      Inr (last_n 100 (map snd (sort_key fst rows)), length tail)))"

definition count_event :: "pydict \<Rightarrow> unit report_action" where
  "count_event row =
     bindS (liftS (get_int row ''ts'' 0)) (\<lambda>ts.
     let et = get_str row ''type'' in
     fill (\<lambda>R.
       if et = ''QUARANTINE_SET'' then R\<lparr>rp_set := rp_set R + 1, rp_last_set := max ts (rp_last_set R)\<rparr>
       else if et = ''QUARANTINE_BLOCK'' then R\<lparr>rp_block := rp_block R + 1, rp_last_block := max ts (rp_last_block R)\<rparr>
       else if et = ''QUARANTINE_EXPIRED'' then R\<lparr>rp_last_expired := max ts (rp_last_expired R)\<rparr>
       else R))"

fun count_events :: "pydict list \<Rightarrow> unit report_action" where
  "count_events [] = retS ()"
| "count_events (row # rows) = bindS (count_event row) (\<lambda>_. count_events rows)"

definition fill_l4w :: "quar_env \<Rightarrow> string \<Rightarrow> unit report_action" where
  "fill_l4w E slot =
     bindS (readS (\<lambda>(R, w). Inr (build_l4w_status E slot
         (l4w_clear_dict (rp_clear_ts R) (rp_clear_agent R) (rp_clear_event R) (cl_l4w (rp_clear R))) (qw_chains w)))) (\<lambda>rep.
     fill (\<lambda>R. R\<lparr>rp_l4w := (case rep of Inr d \<Rightarrow> d | Inl e \<Rightarrow> l4w_unknown slot (slot \<noteq> raw_slot E) (qe_exc_text E e))\<rparr>))"

definition fill_report :: "quar_env \<Rightarrow> string \<Rightarrow> unit report_action" where
  "fill_report E slot =
     bindS (on_world (load_state E True)) (\<lambda>state.
     bindS (readS (\<lambda>(R, w). Inr (note_clears E state R))) (\<lambda>(R', on_time, late).
     bindS (fill (\<lambda>_. R')) (\<lambda>_.
     bindS (on_world (expire_each E (take 50 (newest_first (active_rows E state))))) (\<lambda>_.
     bindS (on_world (load_state E True)) (\<lambda>state.
     let rows = newest_first (active_rows E state) in
     bindS (fill (\<lambda>R. R\<lparr>rp_active := length rows, rp_open := length (filter (\<lambda>r. \<not> qr_expired r) rows),
         rp_expired := length (filter qr_expired rows), rp_on_time := on_time, rp_late := late,
         rp_sample := map (sample_row E) (take 20 rows), rp_state_size := length state\<rparr>)) (\<lambda>_.
     bindS (readS (\<lambda>(R, w). read_events_tail E (qw_events w))) (\<lambda>(events, n).
     bindS (fill (\<lambda>R. R\<lparr>rp_tail_lines := n\<rparr>)) (\<lambda>_.
     bindS (if events = [] then retS ()
            else bindS (liftS (build_last_event (last events))) (\<lambda>d. fill (\<lambda>R. R\<lparr>rp_last_event := d\<rparr>))) (\<lambda>_.
     bindS (count_events events) (\<lambda>_.
     bindS (fill_l4w E slot) (\<lambda>_.
     on_world (if slot = ''B'' then note_success else retS ()))))))))))))"

definition report_failed :: "quar_env \<Rightarrow> py_error \<Rightarrow> unit report_action" where
  "report_failed E e =
     (let err = ''quarantine_status_error:'' @ error_name e in
      bindS (fill (\<lambda>R. R\<lparr>rp_ok := False, rp_degraded := True, rp_error := err\<rparr>)) (\<lambda>_.
      if raw_slot E = ''B'' then
        bindS (on_world (note_failure err (fail_max E))) (\<lambda>_.
        bindS (readS (\<lambda>(R, w). Inr (effective_slot E w))) (\<lambda>slot.
        fill (\<lambda>R. R\<lparr>rp_slot := slot\<rparr>)))
      else retS ()))"

definition build_drift_quarantine_status :: "quar_env \<Rightarrow> pydict quar_action" where
  "build_drift_quarantine_status E w =
     (let slot = effective_slot E w; key = slot @ ''|'' @ show_int (fail_max E);
          build = (case tryS (fill_report E slot) (report_failed E) (empty_report E slot, w) of
              (_, (R, w')) \<Rightarrow> let rep = report_dict E R w' in (Inr rep, w'\<lparr>qw_status := Some (rep, key, qe_mono E)\<rparr>))
      in (case qw_status w of
            Some (rep, k, t) \<Rightarrow> if k = key \<and> qe_mono E - t \<le> ttl_ns E then (Inr rep, w) else build
          | None \<Rightarrow> build))"

end
