(* ===== verification/QuarStore.thy ===== *)
theory QuarStore
  imports QuarStatus
begin

text \<open>
  The state file of \<open>drift_quarantine.py\<close>: a stored row is in normal form, what was saved is read back, and what
  loading and saving do to a world whose file holds a state.
\<close>

section \<open>Normal forms\<close>

lemma lower_char_idem: "lower_char (lower_char c) = lower_char c"
proof -
  have "code_point (char_of (code_point c + 32)) = code_point c + 32" if "code_point c \<le> 222"
    using that by (intro code_point_char_of) simp
  then show ?thesis by (auto simp: lower_char_def Let_def)
qed

lemma py_lower_idem [simp]: "py_lower (py_lower s) = py_lower s"
  by (simp add: py_lower_def lower_char_idem)

definition evidence_ok :: "evidence_info \<Rightarrow> bool" where
  "evidence_ok e = (py_lower (ev_sha e) = ev_sha e \<and> 0 \<le> ev_created e \<and> length (ev_summary e) \<le> 200 \<and> length (ev_note e) \<le> 200)"

definition l4w_ok :: "l4w_info \<Rightarrow> bool" where
  "l4w_ok l = (py_lower (lw_sha l) = lw_sha l \<and> py_lower (lw_hash l) = lw_hash l \<and> py_lower (lw_prev l) = lw_prev l
     \<and> py_lower (lw_fingerprint l) = lw_fingerprint l)"

definition cleared_ok :: "cleared_info \<Rightarrow> bool" where
  "cleared_ok c = (0 \<le> cl_ts c \<and> 0 \<le> cl_deadline c \<and> 0 \<le> cl_cleared_ts c \<and> evidence_ok (cl_evidence c) \<and> l4w_ok (cl_l4w c))"

definition row_ok :: "quar_row \<Rightarrow> bool" where
  "row_ok r = (qr_agent r \<noteq> [] \<and> 0 \<le> qr_since r \<and> 60 \<le> qr_sec r \<and> 0 \<le> qr_open r \<and> 0 \<le> qr_deadline r \<and> 0 \<le> qr_last_seen r
     \<and> 0 \<le> qr_expired_ts r \<and> short_list (qr_added r) = qr_added r \<and> short_list (qr_removed r) = qr_removed r
     \<and> (qr_active r \<longrightarrow> 0 < qr_open r \<and> 0 < qr_deadline r) \<and> cleared_ok (qr_cleared r))"

lemma short_list_idem [simp]: "short_list (short_list xs) = short_list xs"
proof -
  have "take 10 (filter P (take 10 xs)) = filter P (take 10 xs)" for P :: "string \<Rightarrow> bool"
    by (rule take_all) (metis length_filter_le length_take min.cobounded2 order_trans)
  then show ?thesis by (simp add: short_list_def)
qed

lemma settle_cleared_ok: "cleared_ok (settle_cleared c)"
  by (simp add: cleared_ok_def settle_cleared_def evidence_ok_def settle_evidence_def l4w_ok_def settle_l4w_def)

lemma settle_cleared_id: "cleared_ok c \<Longrightarrow> settle_cleared c = c"
  by (simp add: cleared_ok_def settle_cleared_def evidence_ok_def settle_evidence_def l4w_ok_def settle_l4w_def)

lemma settled_sec_ge: "60 \<le> settled_sec E r"
  by (simp add: settled_sec_def)

lemma settled_open_ok: "0 < qe_now E \<Longrightarrow> 0 \<le> settled_open E r \<and> (qr_active r \<longrightarrow> 0 < settled_open E r)"
  by (auto simp: settled_open_def Let_def max_def)

lemma settled_deadline_ok: "0 < qe_now E \<Longrightarrow> 0 \<le> settled_deadline E r \<and> (qr_active r \<longrightarrow> 0 < settled_deadline E r)"
  using settled_open_ok [of E r] settled_sec_ge [of E r] by (auto simp: settled_deadline_def Let_def max_def)

lemma settle_ok: "0 < qe_now E \<Longrightarrow> aid \<noteq> [] \<Longrightarrow> row_ok (settle_row E aid r)"
  using settled_open_ok [of E r] settled_deadline_ok [of E r] settled_sec_ge [of E r]
  by (simp add: row_ok_def settle_row_def settle_cleared_ok)

lemma settled_id:
  assumes "row_ok r"
  shows "settled_sec E r = qr_sec r" "settled_open E r = qr_open r" "settled_deadline E r = qr_deadline r"
proof -
  show "settled_sec E r = qr_sec r" using assms by (auto simp: settled_sec_def row_ok_def)
  show o: "settled_open E r = qr_open r" using assms by (auto simp: settled_open_def row_ok_def Let_def)
  show "settled_deadline E r = qr_deadline r" using assms by (auto simp: settled_deadline_def row_ok_def Let_def)
qed

lemma settle_id: "row_ok r \<Longrightarrow> settle_row E aid r = r"
  by (rule quar_row.equality) (auto simp: settle_row_def settled_id settle_cleared_id, simp_all add: row_ok_def settle_cleared_id)

lemma settle_fields [simp]:
  "qr_active (settle_row E aid r) = qr_active r" "qr_event (settle_row E aid r) = qr_event r"
  "qr_reason (settle_row E aid r) = qr_reason r" "qr_kind (settle_row E aid r) = qr_kind r"
  "qr_severity (settle_row E aid r) = qr_severity r" "qr_expired (settle_row E aid r) = qr_expired r"
  "qr_expired_event (settle_row E aid r) = qr_expired_event r" "cl_event (qr_cleared (settle_row E aid r)) = cl_event (qr_cleared r)"
  by (simp_all add: settle_row_def settle_cleared_def)

section \<open>What is written is read back\<close>

lemma int_back [simp]: "int_of (py_or (PInt i) (PInt 0)) = Inr i"
  by (simp add: py_or_def)

lemma strs_back [simp]: "dict_get d k = str_list xs \<Longrightarrow> get_strs d k = Inr xs"
  by (simp add: get_strs_def str_list_def comp_def)

lemma read_cleared_dict:
  assumes "cleared_ok c"
  shows "read_cleared (cleared_dict c) = Inr c"
proof -
  have len: "take 200 (ev_summary (cl_evidence c)) = ev_summary (cl_evidence c)" "take 200 (ev_note (cl_evidence c)) = ev_note (cl_evidence c)"
    using assms by (simp_all add: cleared_ok_def evidence_ok_def)
  have l: "read_l4w (cleared_dict c) = cl_l4w c"
    by (simp add: read_l4w_def cleared_dict_def evidence_dict_def l4w_dict_def get_str_def)
  have e: "read_evidence (cleared_dict c) = Inr (cl_evidence c)"
    by (simp add: read_evidence_def cleared_dict_def evidence_dict_def get_str_def get_int_def len)
  show ?thesis
    by (simp add: read_cleared_def l e) (simp add: cleared_dict_def get_str_def get_int_def)
qed

lemma read_row_dict:
  assumes "row_ok r"
  shows "read_row E (row_dict r) = Inr r"
proof -
  have c: "read_cleared (cleared_dict (qr_cleared r)) = Inr (qr_cleared r)"
    using assms by (intro read_cleared_dict) (simp add: row_ok_def)
  have s: "get_int (row_dict r) ''challenge_sec'' d = Inr (qr_sec r)" "max 60 (qr_sec r) = qr_sec r" for d
    using assms by (simp_all add: row_ok_def get_int_def row_dict_def py_or_def)
  have ints: "get_int (row_dict r) ''since_ts'' 0 = Inr (qr_since r)" "get_int (row_dict r) ''last_seen_ts'' 0 = Inr (qr_last_seen r)"
    "get_int (row_dict r) ''challenge_open_ts'' 0 = Inr (qr_open r)" "get_int (row_dict r) ''challenge_deadline_ts'' 0 = Inr (qr_deadline r)"
    "get_int (row_dict r) ''expired_ts'' 0 = Inr (qr_expired_ts r)"
    by (simp_all add: get_int_def row_dict_def)
  have lists: "get_strs (row_dict r) ''added'' = Inr (qr_added r)" "get_strs (row_dict r) ''removed'' = Inr (qr_removed r)"
    "dict_arg (dict_get (row_dict r) ''cleared'') = Inr (cleared_dict (qr_cleared r))"
    by (simp_all add: row_dict_def)
  show ?thesis
    by (simp add: read_row_def ints lists c s) (simp add: row_dict_def get_str_def)
qed

lemma normalize_row_dict: "row_ok r \<Longrightarrow> normalize_state_entry E aid (row_dict r) = Inr r"
  by (simp add: normalize_state_entry_def read_row_dict settle_id)

definition keys_ok :: "quar_state \<Rightarrow> bool" where
  "keys_ok st = (distinct (map fst st) \<and> (\<forall>k \<in> fst ` set st. k \<noteq> [] \<and> py_strip k = k))"

definition state_ok :: "quar_state \<Rightarrow> bool" where
  "state_ok st = (keys_ok st \<and> (\<forall>r \<in> snd ` set st. row_ok r))"

lemma update_at_end: "k \<notin> fst ` set al \<Longrightarrow> AList.update k v al = al @ [(k, v)]"
  by (induction al) auto

lemma read_state_back:
  "state_ok st \<Longrightarrow> \<forall>k \<in> fst ` set st. k \<notin> fst ` set acc \<Longrightarrow>
   read_state_rows E (map (\<lambda>(aid, r). (aid, PDict (row_dict r))) st) acc = Inr (acc @ st)"
proof (induction st arbitrary: acc)
  case (Cons kr st)
  obtain k r where kr: "kr = (k, r)" by (cases kr)
  have "state_ok st" "k \<noteq> []" "py_strip k = k" "row_ok r" "k \<notin> fst ` set acc" "k \<notin> fst ` set st"
    using Cons.prems by (auto simp: state_ok_def keys_ok_def kr)
  moreover have "\<forall>k' \<in> fst ` set st. k' \<notin> fst ` set (acc @ [(k, r)])" using Cons.prems calculation by (auto simp: kr)
  ultimately show ?case using Cons.IH [of "acc @ [(k, r)]"] by (simp add: kr normalize_row_dict update_at_end)
qed simp

lemma parse_state_json: "state_ok st \<Longrightarrow> parse_state E (Some (JVal (state_json st))) = Inr st"
  using read_state_back [of st "[]" E] by (simp add: state_json_def)

section \<open>Saving\<close>

definition settle_all :: "quar_env \<Rightarrow> quar_state \<Rightarrow> quar_state" where
  "settle_all E st = map (\<lambda>(aid, r). (aid, settle_row E aid r)) st"

lemma settle_all_keys [simp]: "map fst (settle_all E st) = map fst st" "fst ` set (settle_all E st) = fst ` set st"
  "keys_ok (settle_all E st) = keys_ok st"
proof -
  show m: "map fst (settle_all E st) = map fst st" by (simp add: settle_all_def comp_def case_prod_unfold)
  then show s: "fst ` set (settle_all E st) = fst ` set st" by (metis list.set_map)
  show "keys_ok (settle_all E st) = keys_ok st" by (simp add: keys_ok_def m s)
qed

lemma normal_state_settle:
  "keys_ok st \<Longrightarrow> \<forall>k \<in> fst ` set st. k \<notin> fst ` set acc \<Longrightarrow> normal_state E st acc = acc @ settle_all E st"
proof (induction st arbitrary: acc)
  case (Cons kr st)
  obtain k r where kr: "kr = (k, r)" by (cases kr)
  have "keys_ok st" "k \<noteq> []" "py_strip k = k" "k \<notin> fst ` set acc" "k \<notin> fst ` set st"
    using Cons.prems by (auto simp: keys_ok_def kr)
  moreover have "\<forall>k' \<in> fst ` set st. k' \<notin> fst ` set (acc @ [(k, settle_row E k r)])" using Cons.prems calculation by (auto simp: kr)
  ultimately show ?case using Cons.IH [of "acc @ [(k, settle_row E k r)]"] by (simp add: kr update_at_end settle_all_def)
qed (simp add: settle_all_def)

lemma settle_all_ok: "0 < qe_now E \<Longrightarrow> keys_ok st \<Longrightarrow> state_ok (settle_all E st)"
  using settle_all_keys(3) [of E st] by (auto simp: state_ok_def settle_all_def keys_ok_def settle_ok)

lemma settle_all_id: "state_ok st \<Longrightarrow> settle_all E st = st"
  unfolding state_ok_def settle_all_def by (intro map_idI) (auto simp: settle_id)

lemma settle_all_update: "settle_all E (AList.update k r st) = AList.update k (settle_row E k r) (settle_all E st)"
  by (induction st) (auto simp: settle_all_def)

lemma keys_ok_update: "keys_ok st \<Longrightarrow> k \<noteq> [] \<Longrightarrow> py_strip k = k \<Longrightarrow> keys_ok (AList.update k r st)"
  by (auto simp: keys_ok_def distinct_update dom_update)

lemma compact_ok: "state_ok st \<Longrightarrow> state_ok (compact_state st n)"
proof -
  assume ok: "state_ok st"
  let ?s = "sort_key (\<lambda>(aid, r). - qr_since r) st"
  have "distinct (map fst st)" using ok by (simp add: state_ok_def keys_ok_def)
  then have "distinct (map fst ?s)" using mset_eq_imp_distinct_iff [of "map fst ?s" "map fst st"] by simp
  then have "distinct (map fst (take (nat n) ?s))" by (simp add: distinct_take flip: take_map)
  moreover have "set (take (nat n) ?s) \<subseteq> set st" using set_take_subset [of "nat n" ?s] by simp
  ultimately show ?thesis using ok by (auto simp: compact_state_def state_ok_def keys_ok_def)
qed

definition saved :: "quar_env \<Rightarrow> quar_state \<Rightarrow> quar_state" where
  \<comment> \<open>what a save leaves in the file\<close>
  "saved E st = compact_state (settle_all E st) (max_state_items E)"

definition put_state :: "quar_env \<Rightarrow> quar_state \<Rightarrow> quar_world \<Rightarrow> quar_world" where
  "put_state E st w = w\<lparr>qw_file := Some (JVal (state_json st)), qw_cache := Some (st, qe_mono E)\<rparr>"

lemma save_run: "keys_ok st \<Longrightarrow> save_state E st w = (Inr (length (saved E st)), put_state E (saved E st) w)"
  by (simp add: save_state_def saved_def put_state_def normal_state_settle Let_def)

lemma saved_ok: "0 < qe_now E \<Longrightarrow> keys_ok st \<Longrightarrow> state_ok (saved E st)"
  by (simp add: saved_def compact_ok settle_all_ok)

section \<open>Worlds that hold a state\<close>

definition holds :: "quar_world \<Rightarrow> quar_state \<Rightarrow> bool" where
  \<comment> \<open>the file holds the state, and the cache, where there is one, holds the same\<close>
  "holds w st = (state_ok st \<and> (qw_file w = None \<and> st = [] \<or> qw_file w = Some (JVal (state_json st)))
     \<and> (\<forall>c t. qw_cache w = Some (c, t) \<longrightarrow> c = st))"

lemma put_holds: "state_ok st \<Longrightarrow> holds (put_state E st w) st"
  by (simp add: holds_def put_state_def)

lemma holds_parse: "holds w st \<Longrightarrow> parse_state E (qw_file w) = Inr st"
  using parse_state_json [of st E] by (auto simp: holds_def)

lemma load_file: "holds w st \<Longrightarrow> load_state E False w = (Inr st, w\<lparr>qw_cache := Some (st, qe_mono E)\<rparr>)"
  by (simp add: load_state_def holds_parse modifyS_def bindS_def readS_def)

lemma load_any:
  assumes "holds w st"
  obtains t where "load_state E b w = (Inr st, w\<lparr>qw_cache := Some (st, t)\<rparr>)"
proof (cases "b \<and> (\<exists>c t. qw_cache w = Some (c, t) \<and> qe_mono E - t \<le> ttl_ns E)")
  case True
  then obtain c t where "b" "qw_cache w = Some (c, t)" "qe_mono E - t \<le> ttl_ns E" by blast
  moreover have "c = st" using assms calculation by (simp add: holds_def)
  moreover have "w = w\<lparr>qw_cache := qw_cache w\<rparr>" by simp
  ultimately have "load_state E b w = (Inr st, w\<lparr>qw_cache := Some (st, t)\<rparr>)" by (simp add: load_state_def)
  then show ?thesis by (rule that)
next
  case False
  then have "load_state E b w = load_state E False w"
    by (cases b; cases "qw_cache w") (auto simp: load_state_def)
  then show ?thesis using that load_file [OF assms] by simp
qed

lemma holds_cache [simp]: "holds w st \<Longrightarrow> holds (w\<lparr>qw_cache := Some (st, t)\<rparr>) st"
  by (simp add: holds_def)

lemma holds_fields [simp]:
  "holds (w\<lparr>qw_events := v\<rparr>) st = holds w st" "holds (w\<lparr>qw_streak := n\<rparr>) st = holds w st"
  "holds (w\<lparr>qw_forced := f\<rparr>) st = holds w st" "holds (w\<lparr>qw_rollback := f\<rparr>) st = holds w st"
  "holds (w\<lparr>qw_chains := cs\<rparr>) st = holds w st" "holds (w\<lparr>qw_status := x\<rparr>) st = holds w st"
  by (simp_all add: holds_def)

end
