(* ===== verification/QuarSpec.thy ===== *)
theory QuarSpec
  imports QuarStore
begin

text \<open>
  What the operations of \<open>drift_quarantine.py\<close> do to the quarantines, abstractly: an agent has an active event or
  none, and the event that was cleared last.  Every operation on a world that holds a state refines this machine.
\<close>

section \<open>The abstract state_view\<close>

type_synonym quar_view = "string \<Rightarrow> string option \<times> string"

definition row_view :: "quar_row \<Rightarrow> string option \<times> string" where
  "row_view r = (if qr_active r then Some (qr_event r) else None, cl_event (qr_cleared r))"

definition state_view :: "quar_state \<Rightarrow> quar_view" where
  "state_view st aid = (case map_of st aid of None \<Rightarrow> (None, []) | Some r \<Rightarrow> row_view r)"

lemma state_view_update: "state_view (AList.update k r st) = (state_view st)(k := row_view r)"
  by (auto simp: state_view_def fun_eq_iff update_conv')

lemma row_view_settle [simp]: "row_view (settle_row E aid r) = row_view r"
  by (simp add: row_view_def)

lemma view_row_of: "row_view (row_of E aid st) = state_view st aid"
  by (simp add: state_view_def row_of_def row_view_def row_defaults_def not_cleared_def split: option.splits)

lemma ack_row: "cl_event (qr_cleared (row_of E aid st)) = snd (state_view st aid)"
  by (metis view_row_of row_view_def snd_conv)

lemma active_row: "fst (state_view st aid) = (if qr_active (row_of E aid st) then Some (qr_event (row_of E aid st)) else None)"
  by (metis view_row_of row_view_def fst_conv)

definition room :: "quar_env \<Rightarrow> nat \<Rightarrow> bool" where
  "room E n = (0 < qe_now E \<and> int n \<le> max_state_items E)"

lemma length_update: "length (AList.update k r st) = (if k \<in> fst ` set st then length st else Suc (length st))"
  by (induction st) auto

lemma saved_update:
  assumes "state_ok st" "room E (length (AList.update k r st))"
  shows "saved E (AList.update k r st) = AList.update k (settle_row E k r) st"
proof -
  have "length (AList.update k (settle_row E k r) st) = length (AList.update k r st)" by (simp add: length_update)
  then show ?thesis using assms(2)
    by (simp add: saved_def settle_all_update settle_all_id [OF assms(1)] compact_state_def room_def)
qed

lemma put_update:
  assumes "holds w st" "aid \<noteq> []" "py_strip aid = aid" "room E (length (AList.update aid r st))"
  shows "save_state E (AList.update aid r st) v =
      (Inr (length (AList.update aid r st)), put_state E (AList.update aid (settle_row E aid r) st) v)"
    "holds (put_state E (AList.update aid (settle_row E aid r) st) v) (AList.update aid (settle_row E aid r) st)"
proof -
  have k: "keys_ok (AList.update aid r st)" using assms by (intro keys_ok_update) (auto simp: holds_def state_ok_def)
  have s: "saved E (AList.update aid r st) = AList.update aid (settle_row E aid r) st"
    using assms by (intro saved_update) (auto simp: holds_def)
  show "save_state E (AList.update aid r st) v =
      (Inr (length (AList.update aid r st)), put_state E (AList.update aid (settle_row E aid r) st) v)"
    by (simp add: save_run [OF k] s length_update)
  show "holds (put_state E (AList.update aid (settle_row E aid r) st) v) (AList.update aid (settle_row E aid r) st)"
    using saved_ok [OF _ k, of E] assms(4) by (intro put_holds) (simp add: s room_def)
qed

section \<open>Operations that leave the state_view alone\<close>

definition kept :: "('s \<Rightarrow> quar_world) \<Rightarrow> quar_env \<Rightarrow> ('s, 'a) py_action \<Rightarrow> bool" where
  \<comment> \<open>\<open>p\<close> finds the world in the state the action works on\<close>
  "kept p E m = (\<forall>s st. holds (p s) st \<longrightarrow> room E (length st) \<longrightarrow>
     (\<exists>st'. holds (p (snd (m s))) st' \<and> state_view st' = state_view st \<and> length st' = length st))"

abbreviation keeps :: "quar_env \<Rightarrow> 'a quar_action \<Rightarrow> bool" where
  "keeps \<equiv> kept (\<lambda>w. w)"

abbreviation keeps_report :: "quar_env \<Rightarrow> 'a report_action \<Rightarrow> bool" where
  "keeps_report \<equiv> kept snd"

lemma keptI: "(\<And>s st. holds (p s) st \<Longrightarrow> room E (length st) \<Longrightarrow> \<exists>st'. holds (p (snd (m s))) st' \<and> state_view st' = state_view st \<and> length st' = length st)
  \<Longrightarrow> kept p E m"
  by (simp add: kept_def)

lemma keptD:
  assumes "kept p E m" "holds (p s) st" "room E (length st)"
  obtains st' where "holds (p (snd (m s))) st'" "state_view st' = state_view st" "length st' = length st"
  using assms unfolding kept_def by blast

lemma kept_bind: "kept p E m \<Longrightarrow> (\<And>x. kept p E (f x)) \<Longrightarrow> kept p E (bindS m f)"
proof (rule keptI)
  fix s st assume m: "kept p E m" and f: "\<And>x. kept p E (f x)" and w: "holds (p s) st" "room E (length st)"
  obtain st1 where st1: "holds (p (snd (m s))) st1" "state_view st1 = state_view st" "length st1 = length st" by (rule keptD [OF m w])
  then have r1: "room E (length st1)" using w(2) by simp
  show "\<exists>st'. holds (p (snd (bindS m f s))) st' \<and> state_view st' = state_view st \<and> length st' = length st"
  proof (cases "fst (m s)")
    case (Inl e)
    then have "bindS m f s = (Inl e, snd (m s))" by (cases "m s") (simp add: bindS_def)
    with st1 show ?thesis by auto
  next
    case (Inr x)
    then have b: "bindS m f s = f x (snd (m s))" by (cases "m s") (simp add: bindS_def)
    obtain st2 where "holds (p (snd (f x (snd (m s))))) st2" "state_view st2 = state_view st1" "length st2 = length st1"
      by (rule keptD [OF f st1(1) r1])
    with st1 b show ?thesis by auto
  qed
qed

lemma kept_try: "kept p E m \<Longrightarrow> (\<And>e. kept p E (h e)) \<Longrightarrow> kept p E (tryS m h)"
proof (rule keptI)
  fix s st assume m: "kept p E m" and h: "\<And>e. kept p E (h e)" and w: "holds (p s) st" "room E (length st)"
  obtain st1 where st1: "holds (p (snd (m s))) st1" "state_view st1 = state_view st" "length st1 = length st" by (rule keptD [OF m w])
  then have r1: "room E (length st1)" using w(2) by simp
  show "\<exists>st'. holds (p (snd (tryS m h s))) st' \<and> state_view st' = state_view st \<and> length st' = length st"
  proof (cases "fst (m s)")
    case (Inl e)
    then have b: "tryS m h s = h e (snd (m s))" by (cases "m s") (simp add: tryS_def)
    obtain st2 where "holds (p (snd (h e (snd (m s))))) st2" "state_view st2 = state_view st1" "length st2 = length st1"
      by (rule keptD [OF h st1(1) r1])
    with st1 b show ?thesis by auto
  next
    case (Inr x)
    then have "tryS m h s = (Inr x, snd (m s))" by (cases "m s") (simp add: tryS_def)
    with st1 show ?thesis by auto
  qed
qed

lemma kept_ret [intro, simp]: "kept p E (retS x)" "kept p E (liftS r)" "kept p E (readS g)"
  by (auto simp: kept_def retS_def liftS_def readS_def)

lemma kept_if [intro]: "kept p E m \<Longrightarrow> kept p E n \<Longrightarrow> kept p E (if b then m else n)"
  by simp

lemma keeps_notes [intro, simp]: "keeps E (append_event row)" "keeps E note_success" "keeps E (note_failure reason n)"
  by (auto simp: kept_def append_event_def note_success_def note_failure_def modifyS_def Let_def)

lemma keeps_load [intro, simp]: "keeps E (load_state E' b)"
proof (rule keptI)
  fix w st assume w: "holds w st"
  then obtain t where "load_state E' b w = (Inr st, w\<lparr>qw_cache := Some (st, t)\<rparr>)" by (rule load_any)
  with w show "\<exists>st'. holds (snd (load_state E' b w)) st' \<and> state_view st' = state_view st \<and> length st' = length st"
    by (intro exI [of _ st]) simp
qed

lemma view_active: "fst (state_view st aid) = Some e \<Longrightarrow> aid \<in> fst ` set st"
  by (auto simp: state_view_def row_view_def split: option.splits dest!: map_of_SomeD) (metis fst_conv image_eqI)

lemma keeps_update:
  assumes "holds w st" "room E (length st)" "aid \<noteq> []" "py_strip aid = aid" "row_view r = state_view st aid" "aid \<in> fst ` set st"
  shows "\<exists>n st'. save_state E (AList.update aid r st) v = (Inr n, put_state E st' v) \<and> holds (put_state E st' v) st'
    \<and> state_view st' = state_view st \<and> length st' = length st"
proof -
  have "room E (length (AList.update aid r st))" using assms(2,6) by (simp add: length_update)
  from put_update [OF assms(1,3,4) this] show ?thesis using assms(5,6)
    by (intro exI conjI) (assumption+, simp_all add: state_view_update length_update)
qed

definition ends_like :: "quar_state \<Rightarrow> 'a quar_action \<Rightarrow> quar_world \<Rightarrow> bool" where
  "ends_like st m w = (\<exists>st'. holds (snd (m w)) st' \<and> state_view st' = state_view st \<and> length st' = length st)"

lemma ends_if: "(b \<Longrightarrow> ends_like st m w) \<Longrightarrow> (\<not> b \<Longrightarrow> ends_like st n w) \<Longrightarrow> ends_like st (if b then m else n) w"
  by simp

lemma ends_keeps: "keeps E m \<Longrightarrow> holds w st \<Longrightarrow> room E (length st) \<Longrightarrow> ends_like st m w"
  by (simp add: kept_def ends_like_def)

lemma ends_put:
  assumes "holds w st" "room E (length st)" "aid \<noteq> []" "py_strip aid = aid" "row_view r = state_view st aid" "aid \<in> fst ` set st"
    and k: "\<And>x. keeps E (k x)"
  shows "ends_like st (bindS (save_state E (AList.update aid r st)) k) v"
proof -
  obtain n st' where s: "save_state E (AList.update aid r st) v = (Inr n, put_state E st' v)" "holds (put_state E st' v) st'"
    "state_view st' = state_view st" "length st' = length st"
    using keeps_update [OF assms(1-6)] by blast
  have "ends_like st' (k n) (put_state E st' v)" using ends_keeps [OF k s(2)] assms(2) s(4) by simp
  then show ?thesis by (simp add: ends_like_def bindS_ok [of "save_state E (AList.update aid r st)", OF s(1)] s(3,4))
qed

lemma keeps_ends: "(\<And>w st. holds w st \<Longrightarrow> room E (length st) \<Longrightarrow> ends_like st m w) \<Longrightarrow> keeps E m"
  by (simp add: kept_def ends_like_def)

lemma ends_after_load:
  assumes "holds w st" "ends_like st (f st) (w\<lparr>qw_cache := Some (st, qe_mono E)\<rparr>)"
  shows "ends_like st (bindS (load_state E False) f) w"
  using assms by (simp add: ends_like_def bindS_ok [of "load_state E False", OF load_file])

lemma keeps_expired [intro, simp]: "keeps E (maybe_mark_expired E a t)"
proof (rule keeps_ends)
  fix w st
  assume w: "holds w st" "room E (length st)"
  define aid where "aid = py_strip a"
  let ?w = "w\<lparr>qw_cache := Some (st, qe_mono E)\<rparr>" and ?r = "settle_row E aid (row_of E aid st)"
  have w1: "holds ?w st" using w(1) by simp
  show "ends_like st (maybe_mark_expired E a t) w"
  proof (cases "aid = []")
    case True
    then show ?thesis using ends_keeps [OF kept_ret(1) w] by (simp add: maybe_mark_expired_def Let_def aid_def)
  next
    case False
    have strip: "py_strip aid = aid" by (simp add: aid_def)
    have put: "ends_like st (bindS (save_state E (AList.update aid r st)) k) ?w"
      if "qr_active ?r" "row_view r = row_view ?r" "\<And>x. keeps E (k x)" for r and k :: "nat \<Rightarrow> pydict quar_action"
    proof (rule ends_put [OF w1 w(2) False strip])
      show rv: "row_view r = state_view st aid" using that(2) view_row_of by simp
      have "fst (state_view st aid) = Some (qr_event ?r)" unfolding rv [symmetric] that(2) using that(1) by (simp add: row_view_def)
      then show "aid \<in> fst ` set st" by (rule view_active)
    qed (rule that(3))
    note ret = ends_keeps [OF _ w1 w(2)]
    show ?thesis
      unfolding maybe_mark_expired_def Let_def aid_def [symmetric]
      by (rule ends_if, simp add: False, rule ends_after_load [OF w(1)],
          (rule ends_if | rule put | rule ret | rule kept_bind | rule keeps_notes | rule kept_ret | simp add: row_view_def)+)
  qed
qed

lemma keeps_unavailable [intro, simp]: "keeps E (unavailable E m err)"
  unfolding unavailable_def Let_def by (intro kept_if kept_bind keeps_notes kept_ret)

lemma keeps_query [intro, simp]: "keeps E (is_quarantined E a)"
  unfolding is_quarantined_def query_core_def query_unavailable_def Let_def
  by (intro kept_bind kept_if kept_try kept_ret keeps_notes keeps_expired keeps_load)

lemma keeps_block [intro, simp]: "keeps E (note_quarantine_block E a eid reason severity step details)"
  unfolding note_quarantine_block_def Let_def by (intro kept_bind kept_if kept_ret keeps_notes)

lemma keeps_active_reply [intro, simp]: "keeps E (active_reply E m aid r)"
  unfolding active_reply_def Let_def by (intro kept_bind kept_ret keeps_notes keeps_expired keeps_load)

section \<open>The status report\<close>

lemma kept_fill [intro, simp]: "keeps_report E (fill h)"
  by (auto simp: kept_def fill_def modifyS_def)

lemma report_world [intro]: "keeps E m \<Longrightarrow> keeps_report E (on_world m)"
proof (rule keptI)
  fix s :: "quar_report \<times> quar_world" and st
  assume m: "keeps E m" and s: "holds (snd s) st" "room E (length st)"
  obtain st' where "holds (snd (m (snd s))) st'" "state_view st' = state_view st" "length st' = length st" by (rule keptD [OF m s])
  moreover have "snd (snd (on_world m s)) = snd (m (snd s))" by (simp add: on_world_def split: prod.splits)
  ultimately show "\<exists>st'. holds (snd (snd (on_world m s))) st' \<and> state_view st' = state_view st \<and> length st' = length st" by auto
qed

lemma report_counts [intro, simp]: "keeps_report E (count_events rows)"
proof (induction rows)
  case (Cons row rows)
  show ?case unfolding count_events.simps count_event_def Let_def by (intro kept_bind kept_fill kept_ret Cons.IH)
qed (simp only: count_events.simps kept_ret)

lemma keeps_expire_each [intro, simp]: "keeps E (expire_each E rs)"
proof (induction rs)
  case (Cons r rs)
  show ?case unfolding expire_each.simps by (intro kept_bind kept_try keeps_expired kept_ret Cons.IH)
qed (simp only: expire_each.simps kept_ret)

lemma report_fill [intro, simp]: "keeps_report E (fill_report E slot)"
  unfolding fill_report_def fill_l4w_def Let_def case_prod_unfold
  by (intro kept_bind kept_if report_world kept_fill kept_ret report_counts keeps_load keeps_expire_each keeps_notes)

lemma report_failed_keeps [intro, simp]: "keeps_report E (report_failed E e)"
  unfolding report_failed_def Let_def
  by (intro kept_bind kept_if report_world kept_fill kept_ret keeps_notes)

lemma keeps_status [intro, simp]: "keeps E (build_drift_quarantine_status E)"
proof (rule keeps_ends)
  fix w st
  assume w: "holds w st" "room E (length st)"
  define slot where "slot = effective_slot E w"
  obtain r R w' where run: "tryS (fill_report E slot) (report_failed E) (empty_report E slot, w) = (r, (R, w'))"
    by (cases "tryS (fill_report E slot) (report_failed E) (empty_report E slot, w)") auto
  have k: "keeps_report E (tryS (fill_report E slot) (report_failed E))" by (intro kept_try report_fill report_failed_keeps)
  have "holds (snd (empty_report E slot, w)) st" using w(1) by simp
  then obtain st' where st': "holds w' st'" "state_view st' = state_view st" "length st' = length st"
    using keptD [OF k _ w(2)] run by (metis snd_conv)
  have "snd (build_drift_quarantine_status E w) = w \<or> (\<exists>x. snd (build_drift_quarantine_status E w) = w'\<lparr>qw_status := x\<rparr>)"
    unfolding build_drift_quarantine_status_def slot_def [symmetric] Let_def run by (auto split: option.splits)
  then show "ends_like st (build_drift_quarantine_status E) w"
    using w st' by (auto simp: ends_like_def)
qed

section \<open>Refusals\<close>

definition gives :: "('a \<Rightarrow> bool) \<Rightarrow> ('s, 'a) py_action \<Rightarrow> bool" where
  "gives P m = (\<forall>s x. fst (m s) = Inr x \<longrightarrow> P x)"

lemma gives_bind: "(\<And>x. gives P (f x)) \<Longrightarrow> gives P (bindS m f)"
  by (auto simp: gives_def bindS_def split: prod.splits sum.splits)

lemma gives_ret: "P x \<Longrightarrow> gives P (retS x)"
  by (simp add: gives_def)

lemma gives_if: "(b \<Longrightarrow> gives P m) \<Longrightarrow> (\<not> b \<Longrightarrow> gives P n) \<Longrightarrow> gives P (if b then m else n)"
  by simp

lemma gives_then: "gives P m \<Longrightarrow> (\<And>x. P x \<Longrightarrow> gives Q (f x)) \<Longrightarrow> gives Q (bindS m f)"
  unfolding gives_def bindS_def by (auto split: prod.splits sum.splits) (metis fst_conv)

definition refusal :: "pydict \<Rightarrow> bool" where
  "refusal rep = (dict_get rep ''ok'' = PBool False)"

fun refusal_or :: "pydict + 'a \<Rightarrow> bool" where
  "refusal_or (Inl rep) = refusal rep"
| "refusal_or (Inr x) = True"

lemma failure_refuses: "gives refusal (evidence_failure E X rep)" "gives refusal (l4w_failure E X ev rep)"
  unfolding evidence_failure_def l4w_failure_def Let_def
  by (rule gives_bind, rule gives_ret, simp add: refusal_def failure_head_def)+

lemma check_evidence_refuses: "gives refusal_or (check_evidence E X)"
  unfolding check_evidence_def Let_def
  by (rule gives_if | rule gives_then [OF failure_refuses(1)] | rule gives_bind | rule gives_ret | simp)+

lemma check_l4w_refuses: "gives refusal_or (check_l4w E X ev)"
  unfolding check_l4w_def Let_def
  by (rule gives_if | rule gives_then [OF failure_refuses(2)] | rule gives_bind | rule gives_ret | simp)+

section \<open>The abstract machine\<close>

datatype quar_op =
    Q_ensure string string
  | Q_manual manual_req
  | Q_clear clear_req
  | Q_expire string "int option"
  | Q_query string
  | Q_block string string string string string pydict
  | Q_status

fun quar_step :: "quar_env \<Rightarrow> quar_op \<Rightarrow> pydict quar_action" where
  "quar_step E (Q_ensure a source) = ensure_quarantine_for_agent E a source"
| "quar_step E (Q_manual q) = set_manual_quarantine E q"
| "quar_step E (Q_clear q) = clear_quarantine E q"
| "quar_step E (Q_expire a t) = maybe_mark_expired E a t"
| "quar_step E (Q_query a) = is_quarantined E a"
| "quar_step E (Q_block a eid reason severity step details) = note_quarantine_block E a eid reason severity step details"
| "quar_step E Q_status = build_drift_quarantine_status E"

definition clear_ok :: "py_error + pydict \<Rightarrow> bool" where
  "clear_ok out = (case out of Inl _ \<Rightarrow> False | Inr rep \<Rightarrow> dict_get rep ''ok'' = PBool True)"

definition drift_of :: "quar_env \<Rightarrow> string \<Rightarrow> py_error + drift" where
  "drift_of E aid = bindE (agent_spec E aid) (\<lambda>spec. evaluate_high_drift E aid spec (last_seen_of (qe_last_seen E) aid))"

definition new_drift :: "quar_env \<Rightarrow> string \<Rightarrow> string \<Rightarrow> string option" where
  \<comment> \<open>the event of a drift that was not acknowledged by the last clear\<close>
  "new_drift E aid ack = (case drift_of E aid of
     Inl _ \<Rightarrow> None
   | Inr d \<Rightarrow> if dr_active d \<and> (ack = [] \<or> ack \<noteq> dr_event d) then Some (dr_event d) else None)"

fun quar_spec :: "quar_env \<Rightarrow> quar_op \<Rightarrow> bool \<Rightarrow> quar_view \<Rightarrow> quar_view" where
  "quar_spec E (Q_ensure a source) ok v =
     (let aid = py_strip a in case v aid of
        (None, ack) \<Rightarrow> if aid = [] then v else (case new_drift E aid ack of None \<Rightarrow> v | Some e \<Rightarrow> v(aid := (Some e, ack)))
      | (Some _, _) \<Rightarrow> v)"
| "quar_spec E (Q_manual q) ok v =
     (let aid = py_strip (mq_agent q) in
      if aid = [] \<or> py_strip (mq_reason q) = [] then v else v(aid := (Some (manual_event E q), snd (v aid))))"
| "quar_spec E (Q_clear q) ok v = (if ok then v(py_strip (qc_agent q) := (None, py_strip (qc_event q))) else v)"
| "quar_spec E _ ok v = v"

definition simulates :: "quar_env \<Rightarrow> quar_op \<Rightarrow> quar_world \<Rightarrow> quar_state \<Rightarrow> bool" where
  "simulates E op w st = (\<exists>out w' st'. quar_step E op w = (out, w') \<and> holds w' st' \<and> length st' \<le> Suc (length st)
     \<and> state_view st' = quar_spec E op (clear_ok out) (state_view st)
     \<and> (\<forall>q. op = Q_clear q \<longrightarrow> clear_ok out \<longrightarrow> fst (state_view st (py_strip (qc_agent q))) = Some (py_strip (qc_event q))))"

lemma kept_simulates:
  assumes "kept (\<lambda>w. w) E (quar_step E op)" "holds w st" "room E (length st)" "\<And>ok. quar_spec E op ok (state_view st) = state_view st"
    "\<And>q. op \<noteq> Q_clear q"
  shows "simulates E op w st"
proof -
  obtain st' where "holds (snd (quar_step E op w)) st'" "state_view st' = state_view st" "length st' = length st"
    by (rule keptD [OF assms(1-3)])
  then show ?thesis unfolding simulates_def
    by (intro exI [of _ "fst (quar_step E op w)"] exI [of _ "snd (quar_step E op w)"] exI [of _ st']) (simp add: assms(4,5))
qed

section \<open>The operations refine it\<close>

lemma room_less: "room E (Suc n) \<Longrightarrow> room E n"
  by (simp add: room_def)

lemma replaced:
  \<comment> \<open>a row that is put in place of the agent's\<close>
  assumes "holds w st" "room E (Suc (length st))" "aid \<noteq> []" "py_strip aid = aid" "\<And>x. kept (\<lambda>w. w) E (k x)"
  shows "\<exists>st'. holds (snd (bindS (save_state E (AList.update aid r st)) k v)) st' \<and> length st' \<le> Suc (length st)
    \<and> state_view st' = (state_view st)(aid := row_view r)"
proof -
  let ?st = "AList.update aid (settle_row E aid r) st"
  have len: "length ?st \<le> Suc (length st)" by (simp add: length_update)
  have rm: "room E (length (AList.update aid r st))" using assms(2) by (auto simp: length_update room_def)
  note put = put_update [OF assms(1,3,4) rm]
  have "room E (length ?st)" using rm by (simp add: length_update)
  then obtain st' where "holds (snd (k (length (AList.update aid r st)) (put_state E ?st v))) st'" "state_view st' = state_view ?st" "length st' = length ?st"
    using keptD [OF assms(5) put(2)] by metis
  then show ?thesis using len
    by (intro exI [of _ st']) (simp add: bindS_ok [of "save_state E (AList.update aid r st)", OF put(1)] state_view_update)
qed

lemma bind_state: "m w = (Inr x, w1) \<Longrightarrow> snd (bindS m f w) = snd (f x w1)" "m w = (Inr x, w1) \<Longrightarrow> fst (bindS m f w) = fst (f x w1)"
  by (simp_all add: bindS_def)

lemma keeps_counted [intro, simp]: "keeps E (counted_failure E X kind code)"
  unfolding counted_failure_def by (intro kept_bind kept_if keeps_notes kept_ret)

lemma keeps_failures [intro, simp]: "keeps E (evidence_failure E X rep)" "keeps E (l4w_failure E X ev rep)"
  unfolding evidence_failure_def l4w_failure_def Let_def by (intro kept_bind kept_ret keeps_counted)+

lemma keeps_chains [intro, simp]:
  "keeps E (\<lambda>w. case f w of (r, cs) \<Rightarrow> (r, w\<lparr>qw_chains := cs\<rparr>))"
  by (auto simp: kept_def split: prod.splits)

lemma keeps_l4w_once [intro, simp]: "keeps E (verify_l4w_once E X ev b)"
  unfolding verify_l4w_once_def envelope_step_def chain_step_def lw_refused_def Let_def
  by (intro kept_if kept_ret) (auto split: sum.splits option.splits pyval.splits intro!: kept_bind kept_if kept_ret keeps_chains)

lemma keeps_checks: "keeps E (check_evidence E X)" "keeps E (check_l4w E X ev)"
  unfolding check_evidence_def check_l4w_def Let_def by (intro kept_if kept_bind kept_ret keeps_failures keeps_l4w_once)+

lemma simulates_manual:
  assumes "holds w st" "room E (Suc (length st))"
  shows "simulates E (Q_manual q) w st"
proof (cases "py_strip (mq_agent q) = [] \<or> py_strip (mq_reason q) = []")
  case True
  then have "kept (\<lambda>w. w) E (set_manual_quarantine E q)" by (auto simp: set_manual_quarantine_def kept_def)
  then show ?thesis using True room_less [OF assms(2)] assms(1) by (intro kept_simulates) (auto simp: Let_def)
next
  case False
  define aid where "aid = py_strip (mq_agent q)"
  have aid: "aid \<noteq> []" "py_strip aid = aid" "py_strip (mq_reason q) \<noteq> []" using False by (auto simp: aid_def)
  let ?m = "modes_of E w" and ?w = "w\<lparr>qw_cache := Some (st, qe_mono E)\<rparr>"
  let ?core = "bindS (load_state E False) (manual_write E ?m q)"
  define cur where "cur = settle_row E aid (row_of E aid st)"
  define r where "r = manual_row E q cur"
  have rv: "row_view r = (Some (manual_event E q), snd (state_view st aid))"
    by (simp add: r_def manual_row_def Let_def row_view_def cur_def ack_row)
  obtain st' where st': "holds (snd (?core w)) st'" "length st' \<le> Suc (length st)" "state_view st' = (state_view st)(aid := row_view r)"
  proof -
    have "\<exists>st'. holds (snd (manual_write E ?m q st ?w)) st' \<and> length st' \<le> Suc (length st) \<and> state_view st' = (state_view st)(aid := row_view r)"
      unfolding manual_write_def Let_def aid_def [symmetric] cur_def [symmetric] r_def [symmetric]
      by (rule replaced [OF assms aid(1,2)]) (intro kept_bind kept_if keeps_notes kept_ret)
    moreover have eq: "snd (?core w) = snd (manual_write E ?m q st ?w)"
      by (rule bind_state [of "load_state E False", OF load_file [OF assms(1)]])
    ultimately show ?thesis using that unfolding eq by blast
  qed
  have noexn: "\<exists>rep. fst (?core w) = Inr rep"
    unfolding bind_state(2) [of "load_state E False", OF load_file [OF assms(1)]]
    unfolding manual_write_def Let_def
    by (simp add: save_state_def Let_def note_success_def append_event_def bindS_def modifyS_def retS_def)
  then have run: "set_manual_quarantine E q w = ?core w"
    using aid by (cases "?core w") (auto simp: set_manual_quarantine_def aid_def [symmetric] tryS_def)
  show ?thesis unfolding simulates_def
  proof (intro exI conjI)
    show "quar_step E (Q_manual q) w = (fst (?core w), snd (?core w))" by (simp add: run)
    show "state_view st' = quar_spec E (Q_manual q) (clear_ok (fst (?core w))) (state_view st)"
      using aid st'(3) rv by (simp add: aid_def [symmetric])
  qed (use st' in auto)
qed

lemma simulates_clear:
  assumes "holds w st" "room E (Suc (length st))"
  shows "simulates E (Q_clear q) w st"
proof -
  define X where "X = clear_context q (modes_of E w)"
  define aid where "aid = cx_agent X"
  define r where "r = row_of E aid st"
  let ?w = "w\<lparr>qw_cache := Some (st, qe_mono E)\<rparr>" and ?chk = "clear_checked E q X st r"
  have aid: "py_strip aid = aid" "aid = py_strip (qc_agent q)" "cx_event X = py_strip (qc_event q)"
    by (simp_all add: aid_def X_def clear_context_def)
  have refuse: "simulates E (Q_clear q) w st"
    if "clear_quarantine E q w = (out, w')" "\<not> clear_ok out" "holds w' st'" "state_view st' = state_view st" "length st' \<le> Suc (length st)" for out w' st'
    unfolding simulates_def using that by (intro exI [of _ out] exI [of _ w'] exI [of _ st']) simp
  consider (bad) rep where "refusal rep" "clear_quarantine E q w = (Inr rep, w)"
    | (missing) rep where "refusal rep" "clear_quarantine E q w = (Inr rep, ?w)"
    | (found) "aid \<noteq> []" "qr_active r" "qr_event r = cx_event X" "clear_quarantine E q w = ?chk ?w"
  proof -
    have run: "clear_quarantine E q w = (if aid = [] then (Inr [(''ok'', PBool False), (''error'', PStr ''agent_id_required''), (''error_code'', PStr ''AGENT_ID_REQUIRED'')], w)
      else if cx_event X = [] then (Inr [(''ok'', PBool False), (''error'', PStr ''event_id_required''), (''error_code'', PStr ''EVENT_ID_REQUIRED'')], w)
      else if py_strip (qc_reason q) = [] then (Inr [(''ok'', PBool False), (''error'', PStr ''reason_required''), (''error_code'', PStr ''REASON_REQUIRED'')], w)
      else if \<not> qr_active r then (Inr [(''ok'', PBool False), (''error'', PStr ''not_quarantined''), (''error_code'', PStr ''NOT_QUARANTINED''),
               (''agent_id'', PStr aid), (''event_id'', PStr (qr_event r))], ?w)
       else if qr_event r \<noteq> cx_event X then
         (Inr [(''ok'', PBool False), (''error'', PStr ''event_mismatch''), (''error_code'', PStr ''EVENT_MISMATCH''), (''agent_id'', PStr aid),
               (''event_id'', PStr (qr_event r)), (''expected_event_id'', PStr (qr_event r)), (''provided_event_id'', PStr (cx_event X))], ?w)
       else ?chk ?w)"
      unfolding clear_quarantine_def Let_def
      by (simp add: X_def [symmetric] aid_def [symmetric] bindS_ok [of "load_state E False", OF load_file [OF assms(1)]] r_def [symmetric])
    let ?bad = "aid = [] \<or> cx_event X = [] \<or> py_strip (qc_reason q) = []"
    have "\<exists>rep. refusal rep \<and> clear_quarantine E q w = (Inr rep, w)" if ?bad
      unfolding run using that by (auto simp: refusal_def)
    moreover have "\<exists>rep. refusal rep \<and> clear_quarantine E q w = (Inr rep, ?w)" if "\<not> ?bad" "\<not> (qr_active r \<and> qr_event r = cx_event X)"
      unfolding run using that by (auto simp: refusal_def)
    moreover have "clear_quarantine E q w = ?chk ?w" if "\<not> ?bad" "qr_active r \<and> qr_event r = cx_event X"
      unfolding run using that by simp
    ultimately show ?thesis using that by blast
  qed
  then show ?thesis
  proof cases
    case bad
    then show ?thesis using assms(1) by (intro refuse [of "Inr rep" w st]) (auto simp: clear_ok_def refusal_def)
  next
    case missing
    then show ?thesis using assms(1) by (intro refuse [of "Inr rep" ?w st]) (auto simp: clear_ok_def refusal_def)
  next
    case found
    have keep: "kept (\<lambda>w. w) E (check_evidence E X)" "kept (\<lambda>w. w) E (check_l4w E X ev)" for ev
      by (auto simp: keeps_checks)
    have w1: "holds ?w st" and rm: "room E (length st)" using assms room_less by auto
    obtain e we where e: "check_evidence E X ?w = (e, we)" by (cases "check_evidence E X ?w")
    obtain ste where ste: "holds we ste" "state_view ste = state_view st" "length ste = length st"
      using keptD [OF keep(1) w1 rm] e by (metis snd_conv)
    show ?thesis
    proof (cases "\<exists>ev warnings. e = Inr (Inr (ev, warnings))")
      case False
      then have "\<not> clear_ok (fst (?chk ?w)) \<and> snd (?chk ?w) = we"
        using check_evidence_refuses [of E X] e
        by (cases e) (auto simp: clear_checked_def bindS_def clear_ok_def gives_def refusal_def split: sum.splits dest!: spec [of _ ?w])
      then show ?thesis using found ste by (intro refuse [of "fst (?chk ?w)" we ste]) auto
    next
      case True
      then obtain ev warnings where ev: "e = Inr (Inr (ev, warnings))" by blast
      obtain l wl where l: "check_l4w E X ev we = (l, wl)" by (cases "check_l4w E X ev we")
      have rme: "room E (length ste)" using rm ste(3) by simp
      obtain stl where stl: "holds wl stl" "state_view stl = state_view st" "length stl = length st"
        using keptD [OF keep(2) ste(1) rme] l ste(2,3) by (metis snd_conv)
      show ?thesis
      proof (cases "\<exists>lw more_warnings. l = Inr (Inr (lw, more_warnings))")
        case False
        then have "\<not> clear_ok (fst (?chk ?w)) \<and> snd (?chk ?w) = wl"
          using check_l4w_refuses [of E X ev] l
          by (cases l) (auto simp: clear_checked_def bindS_def e ev clear_ok_def gives_def refusal_def split: sum.splits dest!: spec [of _ we])
        then show ?thesis using found stl by (intro refuse [of "fst (?chk ?w)" wl stl]) auto
      next
        case True
        then obtain lw more_warnings where lw: "l = Inr (Inr (lw, more_warnings))" by blast
        let ?c = "clear_commit E q X st r ev lw (warnings @ more_warnings)"
        have run: "?chk ?w = ?c wl" by (simp add: clear_checked_def bindS_def e ev l lw)
        obtain st' where st': "holds (snd (?c wl)) st'" "length st' \<le> Suc (length st)"
          "state_view st' = (state_view st)(aid := (None, cx_event X))"
        proof -
          have "\<exists>st'. holds (snd (?c wl)) st' \<and> length st' \<le> Suc (length st)
              \<and> state_view st' = (state_view st)(aid := row_view (r\<lparr>qr_active := False, qr_cleared := clear_info_of E q X r ev lw\<rparr>))"
            unfolding clear_commit_def Let_def aid_def [symmetric]
            by (rule replaced [OF assms found(1) aid(1)]) (intro kept_bind keeps_notes kept_ret)
          then show ?thesis using that by (auto simp: row_view_def clear_info_of_def)
        qed
        have ok: "clear_ok (fst (?c wl))"
          by (simp add: clear_commit_def Let_def save_state_def note_success_def append_event_def bindS_def modifyS_def retS_def readS_def clear_ok_def)
        have act: "fst (state_view st aid) = Some (cx_event X)" using found by (simp add: active_row [of _ _ E] r_def)
        show ?thesis unfolding simulates_def using found run st' ok act aid
          by (intro exI [of _ "fst (?c wl)"] exI [of _ "snd (?c wl)"] exI [of _ st']) simp
      qed
    qed
  qed
qed

lemma simulates_same:
  assumes "quar_step E op w = (out, w')" "holds w' st'" "state_view st' = state_view st" "length st' \<le> Suc (length st)"
    "quar_spec E op (clear_ok out) (state_view st) = state_view st" "\<And>q. op \<noteq> Q_clear q"
  shows "simulates E op w st"
  unfolding simulates_def using assms by (intro exI [of _ out] exI [of _ w'] exI [of _ st']) simp

lemma bindS_assoc: "bindS (bindS m f) g s = bindS m (\<lambda>x. bindS (f x) g) s"
  by (simp add: bindS_def split: prod.splits sum.splits)

lemma drift_step_new:
  assumes "holds w st" "room E (Suc (length st))" "aid \<noteq> []" "py_strip aid = aid" "\<not> qr_active r" "qr_cleared r = c" "cl_event c = ack"
    and d: "dr_active d" "ack = [] \<or> ack \<noteq> dr_event d"
  shows "\<exists>st'. holds (snd (drift_step E m aid source st r d v)) st' \<and> length st' \<le> Suc (length st)
    \<and> state_view st' = (state_view st)(aid := (Some (dr_event d), ack))"
proof -
  have rv: "row_view (drift_row E aid d r) = (Some (dr_event d), ack)" using assms(6,7) by (simp add: drift_row_def row_view_def)
  have "\<exists>st'. holds (snd (bindS (save_state E (AList.update aid (drift_row E aid d r) st))
      (\<lambda>x. bindS (append_event (set_event E (drift_row E aid d r) (if source = [] then ''ensure'' else source) [])) (\<lambda>_.
        bindS note_success (\<lambda>_. retS (row_reply E m (drift_row E aid d r) @ [(''details'', PDict (details_dict (drift_row E aid d r)))])))) v)) st'
    \<and> length st' \<le> Suc (length st) \<and> state_view st' = (state_view st)(aid := row_view (drift_row E aid d r))"
    by (rule replaced [OF assms(1-4)]) (intro kept_bind keeps_notes kept_ret)
  moreover have "drift_step E m aid source st r d v = bindS (save_state E (AList.update aid (drift_row E aid d r) st))
      (\<lambda>x. bindS (append_event (set_event E (drift_row E aid d r) (if source = [] then ''ensure'' else source) [])) (\<lambda>_.
        bindS note_success (\<lambda>_. retS (row_reply E m (drift_row E aid d r) @ [(''details'', PDict (details_dict (drift_row E aid d r)))])))) v"
  proof -
    have "\<not> (\<not> qr_active r \<and> cl_event (qr_cleared r) \<noteq> [] \<and> cl_event (qr_cleared r) = dr_event d)" using assms(6,7) d(2) by auto
    then show ?thesis unfolding drift_step_def Let_def
      by (simp only: d(1) if_True if_False assms(5) not_False_eq_True simp_thms bindS_assoc)
  qed
  ultimately show ?thesis unfolding rv by simp
qed

lemma drift_step_same:
  assumes "\<not> qr_active r" "\<not> (dr_active d \<and> (cl_event (qr_cleared r) = [] \<or> cl_event (qr_cleared r) \<noteq> dr_event d))"
  shows "keeps E (drift_step E m aid source st r d)"
  using assms unfolding drift_step_def Let_def by (auto intro!: kept_bind keeps_notes)

lemma simulates_ensure:
  assumes "holds w st" "room E (Suc (length st))"
  shows "simulates E (Q_ensure a source) w st"
proof -
  define m where "m = modes_of E w"
  define aid where "aid = py_strip a"
  have aid: "py_strip aid = aid" by (simp add: aid_def)
  let ?w = "w\<lparr>qw_cache := Some (st, qe_mono E)\<rparr>"
  have w1: "holds ?w st" and rm: "room E (length st)" using assms room_less by auto
  show ?thesis
  proof (cases "aid = []")
    case True
    then have "\<exists>rep. ensure_quarantine_for_agent E a source w = (Inr rep, w)"
      by (simp add: ensure_quarantine_for_agent_def Let_def aid_def [symmetric])
    then show ?thesis using assms(1) True
      by (auto intro!: simulates_same simp: aid_def [symmetric] Let_def split: prod.splits option.splits)
  next
    case False
    define r where "r = settle_row E aid (row_of E aid st)"
    let ?core = "ensure_core E m aid source" and ?handler = "\<lambda>e. unavailable E m (''quarantine_error:'' @ error_name e)"
    have step: "quar_step E (Q_ensure a source) w = tryS ?core ?handler w"
      using False by (simp add: ensure_quarantine_for_agent_def Let_def aid_def [symmetric] m_def)
    let ?go = "bindS (liftS (agent_spec E aid)) (\<lambda>spec.
       bindS (liftS (evaluate_high_drift E aid spec (last_seen_of (qe_last_seen E) aid))) (\<lambda>d. drift_step E m aid source st r d))"
    have core: "?core w = (if qr_active r then active_reply E m aid r ?w else ?go ?w)"
      unfolding ensure_core_def Let_def
      by (simp add: bindS_ok [of "load_state E False", OF load_file [OF assms(1)]] r_def)
    have same: "simulates E (Q_ensure a source) w st"
      if c: "?core w = act ?w" and k: "keeps E act" and s: "\<And>ok. quar_spec E (Q_ensure a source) ok (state_view st) = state_view st" for act
    proof -
      have "keeps E (tryS act ?handler)" by (intro kept_try k keeps_unavailable)
      from keptD [OF this w1 rm] obtain st' where "holds (snd (tryS act ?handler ?w)) st'" "state_view st' = state_view st" "length st' = length st" .
      moreover have "tryS ?core ?handler w = tryS act ?handler ?w" by (simp add: tryS_def c)
      ultimately show ?thesis using s step by (intro simulates_same [of E _ w "fst (tryS act ?handler ?w)" "snd (tryS act ?handler ?w)" st']) simp_all
    qed
    show ?thesis
    proof (cases "qr_active r")
      case True
      then have "fst (state_view st aid) = Some (qr_event (row_of E aid st))" by (simp add: active_row [of _ _ E] r_def)
      then show ?thesis using True core
        by (intro same [of "active_reply E m aid r"]) (auto simp: aid_def [symmetric] Let_def split: prod.splits option.splits)
    next
      case False
      define ack where "ack = cl_event (qr_cleared r)"
      have v: "state_view st aid = (None, ack)"
        using False by (simp add: prod_eq_iff active_row [of _ _ E] ack_row [of E, symmetric] r_def ack_def)
      have go: "?go ?w = (case drift_of E aid of Inl e \<Rightarrow> (Inl e, ?w) | Inr d \<Rightarrow> drift_step E m aid source st r d ?w)"
        by (cases "agent_spec E aid") (auto simp: drift_of_def liftS_def bindS_def split: sum.splits)
      show ?thesis
      proof (cases "new_drift E aid ack")
        case None
        have "keeps E (case drift_of E aid of Inl e \<Rightarrow> liftS (Inl e) | Inr d \<Rightarrow> drift_step E m aid source st r d)"
          using None False drift_step_same [of r] unfolding new_drift_def ack_def
          by (auto split: sum.splits if_splits)
        moreover have "?core w = (case drift_of E aid of Inl e \<Rightarrow> liftS (Inl e) | Inr d \<Rightarrow> drift_step E m aid source st r d) ?w"
          using core False go by (auto simp: liftS_def split: sum.splits)
        ultimately show ?thesis using None v by (intro same) (auto simp: aid_def [symmetric] Let_def)
      next
        case (Some e)
        then obtain d where d: "drift_of E aid = Inr d" "dr_active d" "ack = [] \<or> ack \<noteq> dr_event d" "e = dr_event d"
          by (auto simp: new_drift_def split: sum.splits if_splits)
        let ?step = "drift_step E m aid source st r d"
        have "\<exists>st'. holds (snd (?step ?w)) st' \<and> length st' \<le> Suc (length st) \<and> state_view st' = (state_view st)(aid := (Some (dr_event d), ack))"
          by (rule drift_step_new [OF assms(1,2) _ aid False refl ack_def [symmetric] d(2,3)]) (use \<open>aid \<noteq> []\<close> in simp)
        then obtain st' where st': "holds (snd (?step ?w)) st'" "length st' \<le> Suc (length st)"
          "state_view st' = (state_view st)(aid := (Some (dr_event d), ack))" by blast
        have "\<exists>rep. fst (?step ?w) = Inr rep"
          using False d(2,3) by (auto simp: drift_step_def Let_def ack_def [symmetric] save_state_def note_success_def append_event_def
              bindS_def modifyS_def retS_def)
        moreover have c: "?core w = ?step ?w" using core False go d(1) by simp
        ultimately have "quar_step E (Q_ensure a source) w = ?step ?w" unfolding step by (cases "?step ?w") (auto simp: tryS_def c)
        then show ?thesis unfolding simulates_def using st' \<open>aid \<noteq> []\<close> v Some d(4)
          by (intro exI [of _ "fst (?step ?w)"] exI [of _ "snd (?step ?w)"] exI [of _ st']) (simp add: aid_def [symmetric] Let_def)
      qed
    qed
  qed
qed

lemma simulates_all: "holds w st \<Longrightarrow> room E (Suc (length st)) \<Longrightarrow> simulates E op w st"
proof (cases op)
  assume w: "holds w st" "room E (Suc (length st))"
  note keep = kept_simulates [OF _ w(1) room_less [OF w(2)]]
  {
    case (Q_ensure a source)
    then show ?thesis using simulates_ensure [OF w] by simp
  next
    case (Q_manual q)
    then show ?thesis using simulates_manual [OF w] by simp
  next
    case (Q_clear q)
    then show ?thesis using simulates_clear [OF w] by simp
  next
    case (Q_expire a t)
    then show ?thesis by (intro keep) auto
  next
    case (Q_query a)
    then show ?thesis by (intro keep) auto
  next
    case (Q_block a eid reason severity step details)
    then show ?thesis by (intro keep) auto
  next
    case Q_status
    then show ?thesis by (intro keep) auto
  }
qed

end
