(* ===== verification/EvidenceLaws.thy ===== *)
theory EvidenceLaws
  imports EvidenceSigning
begin

text \<open>
  What a verified evidence packet shows: a key signed its payload.  Which key that is depends on the public
  key file: with one, only its key counts; without one, the key the packet itself brings.
\<close>

lemma strip_hex: "list_all (\<lambda>c. c \<in> hex64) s \<Longrightarrow> py_strip s = s"
proof -
  assume h: "list_all (\<lambda>c. c \<in> hex64) s"
  have "\<forall>c \<in> hex64. \<not> is_space c" by (simp add: hex64_def is_space_def code_point_def Let_def)
  with h have "\<forall>c \<in> set s. \<not> is_space c" by (auto simp: list_all_iff)
  then show ?thesis unfolding py_strip_def by (rule strip_by_id)
qed

lemma lower_hex: "list_all (\<lambda>c. c \<in> hex64) s \<Longrightarrow> py_lower s = s"
proof -
  have "\<forall>c \<in> hex64. lower_char c = c" by (simp add: hex64_def lower_char_def code_point_def Let_def)
  then show "list_all (\<lambda>c. c \<in> hex64) s \<Longrightarrow> py_lower s = s" unfolding py_lower_def by (induction s) auto
qed

lemma norm_digest: "sha_digest sha \<Longrightarrow> norm_hash (sha b) = sha b"
  unfolding sha_digest_def is_sha256_hex_def norm_hash_def using strip_hex lower_hex by metis

lemma payload_bytes_set [simp]: "payload_bytes (dict_set ''sig'' v packet) = payload_bytes packet"
  by (simp add: payload_bytes_def dict_set_def delete_update_same)

lemma packet_ok_iff:
  "packet_ok C pub_file packet \<longleftrightarrow> cr_available C \<and> (\<exists>sig raw pk. dict_get packet ''sig'' = PDict sig \<and> sig \<noteq> []
     \<and> py_lower (py_strip (get_str sig ''alg'')) = ''ed25519'' \<and> b64_decode (get_str sig ''sig_b64'') = Some raw
     \<and> length raw = 64 \<and> norm_hash (get_str sig ''payload_hash'') = packet_hash C packet
     \<and> verifying_key C pub_file sig = Some pk \<and> cr_verify C pk raw (payload_bytes packet))"
proof -
  have d: "dict_arg v = Inr sig \<Longrightarrow> sig \<noteq> [] \<Longrightarrow> v = PDict sig" for v sig
    by (cases v) (auto split: if_splits)
  show ?thesis
  proof
    assume "packet_ok C pub_file packet"
    then show "cr_available C \<and> (\<exists>sig raw pk. dict_get packet ''sig'' = PDict sig \<and> sig \<noteq> []
     \<and> py_lower (py_strip (get_str sig ''alg'')) = ''ed25519'' \<and> b64_decode (get_str sig ''sig_b64'') = Some raw
     \<and> length raw = 64 \<and> norm_hash (get_str sig ''payload_hash'') = packet_hash C packet
     \<and> verifying_key C pub_file sig = Some pk \<and> cr_verify C pk raw (payload_bytes packet))"
      unfolding packet_ok_def verify_packet_def Let_def bindE_def
      by (auto simp: code_reply_def dest!: d split: if_splits sum.splits option.splits)
  next
    assume "cr_available C \<and> (\<exists>sig raw pk. dict_get packet ''sig'' = PDict sig \<and> sig \<noteq> []
     \<and> py_lower (py_strip (get_str sig ''alg'')) = ''ed25519'' \<and> b64_decode (get_str sig ''sig_b64'') = Some raw
     \<and> length raw = 64 \<and> norm_hash (get_str sig ''payload_hash'') = packet_hash C packet
     \<and> verifying_key C pub_file sig = Some pk \<and> cr_verify C pk raw (payload_bytes packet))"
    then show "packet_ok C pub_file packet" by (auto simp: packet_ok_def verify_packet_def)
  qed
qed

lemma pack_chars: "b64_char n \<noteq> CHR '' ''"
proof -
  have "b64_val (CHR '' '') = None" by (simp add: b64_val_def code_point_def Let_def)
  moreover have "n \<ge> 64 \<Longrightarrow> b64_char n = CHR ''/''" by (simp add: b64_char_def)
  ultimately show ?thesis using b64_val_char [of n] by (cases "n < 64") auto
qed

lemma b64_char_no_space: "\<not> is_space (b64_char n)"
proof -
  consider "n < 26" | "26 \<le> n" "n < 52" | "52 \<le> n" "n < 62" | "62 \<le> n" by linarith
  then show ?thesis
    by cases (simp_all add: b64_char_def is_space_def code_point_char_of Let_def, auto simp: code_point_def)
qed

lemma b64_no_space: "\<forall>c \<in> set (b64_encode s). \<not> is_space c"
proof -
  have "\<not> is_space (CHR ''='')" by (simp add: is_space_def code_point_def Let_def)
  then show ?thesis by (induction s rule: b64_encode.induct) (auto simp: b64_char_no_space Let_def)
qed

lemma b64_strip: "py_strip (b64_encode s) = b64_encode s"
  unfolding py_strip_def by (rule strip_by_id [OF b64_no_space])

lemma b64_encode_Nil: "b64_encode s = [] \<longleftrightarrow> s = []"
  by (cases s rule: b64_encode.cases) (auto simp: Let_def)

lemma key_of_own:
  assumes "cr_raw_ok C raw" "raw \<noteq> []"
  shows "key_of_packet C (sig_part C sk raw key_id packet) = Some raw"
  using assms by (simp add: key_of_packet_def sig_part_def get_str_def b64_strip b64_encode_Nil b64_decode_encode Let_def)

lemma signed_ok:
  assumes "crypto_ok C" "cr_available C" "sha_digest (cr_sha C)"
    "verifying_key C pub_file (sig_part C sk raw key_id packet) = Some (cr_public C sk)"
  shows "packet_ok C pub_file (dict_set ''sig'' (PDict (sig_part C sk raw key_id packet)) packet)"
proof -
  let ?sig = "sig_part C sk raw key_id packet" and ?p = "dict_set ''sig'' (PDict (sig_part C sk raw key_id packet)) packet"
  have h: "packet_hash C ?p = packet_hash C packet" by (simp add: packet_hash_def)
  have g: "get_str ?sig ''alg'' = ''ed25519''" "get_str ?sig ''sig_b64'' = b64_encode (cr_sign C sk (payload_bytes packet))"
    "get_str ?sig ''payload_hash'' = packet_hash C packet" "?sig \<noteq> []"
    by (simp_all add: sig_part_def get_str_def)
  have a: "py_lower (py_strip ''ed25519'') = ''ed25519''" by code_simp
  have "length (cr_sign C sk (payload_bytes packet)) = 64" "cr_verify C (cr_public C sk) (cr_sign C sk (payload_bytes packet)) (payload_bytes packet)"
    using assms(1) by (auto simp: crypto_ok_def)
  moreover have "norm_hash (packet_hash C packet) = packet_hash C packet"
    unfolding packet_hash_def by (rule norm_digest [OF assms(3)])
  ultimately show ?thesis
    unfolding packet_ok_iff h using assms(2,4) g a by (intro conjI exI [of _ ?sig] exI) (auto simp: b64_decode_encode)
qed

section \<open>Signing and verifying\<close>

definition keys_match :: "crypto \<Rightarrow> key_store \<Rightarrow> bool" where
  \<comment> \<open>one of the two key files is missing, or they hold the two halves of a pair\<close>
  "keys_match C ks = (ks_priv ks = None \<or> ks_pub ks = None \<or>
     (\<exists>sk. ks_priv ks = Some (cr_priv_pem C sk) \<and> ks_pub ks = Some (cr_pub_pem C (cr_public C sk))))"

lemma keys_reply_ok [simp]: "dict_get (keys_reply C kp b created) ''ok'' = PBool True"
  by (simp add: keys_reply_def)

lemma ensured_pair:
  assumes "cr_available C" "keys_match C ks"
  obtains sk rep ks' where "ensure_keypair C kp fresh False ks = (Inr rep, ks')" "dict_get rep ''ok'' = PBool True"
    "ks_priv ks' = Some (cr_priv_pem C sk)" "ks_pub ks' = Some (cr_pub_pem C (cr_public C sk))"
proof (cases "ks_priv ks = None \<or> ks_pub ks = None")
  case True
  let ?ks = "\<lparr>ks_priv = Some (cr_priv_pem C fresh), ks_pub = Some (cr_pub_pem C (cr_public C fresh))\<rparr>"
  have "ensure_keypair C kp fresh False ks = (Inr (keys_reply C kp (cr_pub_pem C (cr_public C fresh)) True), ?ks)"
    using True assms(1) by (auto simp: ensure_keypair_def Let_def split: option.splits)
  then show ?thesis by (rule that) simp_all
next
  case False
  with assms(2) obtain sk where sk: "ks_priv ks = Some (cr_priv_pem C sk)" "ks_pub ks = Some (cr_pub_pem C (cr_public C sk))"
    by (auto simp: keys_match_def)
  then have "ensure_keypair C kp fresh False ks = (Inr (keys_reply C kp (cr_pub_pem C (cr_public C sk)) False), ks)"
    using assms(1) by (simp add: ensure_keypair_def)
  then show ?thesis by (rule that [OF _ keys_reply_ok sk])
qed

text \<open>
  A packet that \<open>sign_packet\<close> signs, whatever it holds and whether or not the key files were there
  before, passes \<open>verify_packet\<close> against the public key file afterwards, with the payload hash that was
  reported; and the signature leaves everything but the field \<open>sig\<close> as it was.
\<close>

theorem sign_then_verify:
  assumes "crypto_ok C" "cr_available C" "sha_digest (cr_sha C)" "keys_match C ks"
  shows "\<exists>rep ks' signed. sign_packet C kp fresh packet key_id ks = (Inr rep, ks') \<and> dict_get rep ''ok'' = PBool True
     \<and> dict_get rep ''packet'' = PDict signed \<and> dict_get rep ''payload_hash'' = PStr (packet_hash C signed)
     \<and> packet_ok C (ks_pub ks') signed \<and> (\<forall>k. k \<noteq> ''sig'' \<longrightarrow> dict_get signed k = dict_get packet k)"
proof -
  obtain sk rep ks' where e: "ensure_keypair C kp fresh False ks = (Inr rep, ks')" "dict_get rep ''ok'' = PBool True"
    "ks_priv ks' = Some (cr_priv_pem C sk)" "ks_pub ks' = Some (cr_pub_pem C (cr_public C sk))"
    using assms(2,4) by (rule ensured_pair)
  define signed where "signed = dict_set ''sig'' (PDict (sig_part C sk (cr_public C sk) key_id packet)) packet"
  have l: "loaded_priv C ks' = Inr (Key_ed25519 sk)" "loaded_pub C ks' = Inr (Key_ed25519 (cr_public C sk))"
    using assms(1) e(3,4) by (simp_all add: loaded_priv_def loaded_pub_def crypto_ok_def)
  have "verifying_key C (ks_pub ks') (sig_part C sk (cr_public C sk) key_id packet) = Some (cr_public C sk)"
    using assms(1) by (simp add: verifying_key_def e(4) crypto_ok_def)
  from signed_ok [OF assms(1-3) this] have ok: "packet_ok C (ks_pub ks') signed" by (simp add: signed_def)
  have "packet_hash C signed = packet_hash C packet" by (simp add: packet_hash_def signed_def)
  moreover have "\<exists>rep. sign_packet C kp fresh packet key_id ks = (Inr rep, ks') \<and> dict_get rep ''ok'' = PBool True
      \<and> dict_get rep ''packet'' = PDict signed \<and> dict_get rep ''payload_hash'' = PStr (packet_hash C packet)"
    using assms(2) by (simp add: sign_packet_def bindS_ok [of "ensure_keypair C kp fresh False", OF e(1)] e(2,4) l signed_def)
  ultimately show ?thesis using ok by (auto simp: signed_def)
qed

definition toy_crypto :: crypto where
  \<comment> \<open>an instance of the promises of \<open>crypto_ok\<close>: the signature is 64 times the same letter\<close>
  "toy_crypto = \<lparr>cr_available = True, cr_sha = (\<lambda>_. replicate 64 (CHR ''0'')), cr_load_pub = Key_ed25519,
     cr_load_priv = Key_ed25519, cr_raw_ok = (\<lambda>_. True), cr_public = (\<lambda>sk. CHR ''p'' # sk), cr_pub_pem = id, cr_priv_pem = id,
     cr_sign = (\<lambda>_ _. replicate 64 (CHR ''s'')), cr_verify = (\<lambda>_ s _. s = replicate 64 (CHR ''s''))\<rparr>"

lemma toy_crypto_ok: "crypto_ok toy_crypto" "cr_available toy_crypto" "sha_digest (cr_sha toy_crypto)"
  by (simp_all add: toy_crypto_def crypto_ok_def sha_digest_def is_sha256_hex_def hex64_def list_all_iff)

theorem sign_then_verify_witness:
  "\<exists>rep ks' signed. sign_packet toy_crypto \<lparr>kp_priv = ''a'', kp_pub = ''b''\<rparr> ''k'' [(''x'', PInt 1)] ''id''
       \<lparr>ks_priv = None, ks_pub = None\<rparr> = (Inr rep, ks')
     \<and> dict_get rep ''packet'' = PDict signed \<and> packet_ok toy_crypto (ks_pub ks') signed \<and> dict_get signed ''x'' = PInt 1"
proof -
  have m: "keys_match toy_crypto \<lparr>ks_priv = None, ks_pub = None\<rparr>" by (simp add: keys_match_def)
  from sign_then_verify [OF toy_crypto_ok m, of "\<lparr>kp_priv = ''a'', kp_pub = ''b''\<rparr>" "''k''" "[(''x'', PInt 1)]" "''id''"]
  show ?thesis by auto
qed

text \<open>
  C28: with a public key file that holds a key, a packet passes only with a signature of its payload under that
  key.  Without the file, anybody's packet passes: whatever the packet says, any key at all can sign it, for
  the key that counts is the one the packet brings.
\<close>

theorem packet_authority:
  assumes "crypto_ok C" "cr_available C" "sha_digest (cr_sha C)"
  shows "(\<forall>b k. cr_load_pub C b = Key_ed25519 k \<longrightarrow> packet_ok C (Some b) packet \<longrightarrow>
           (\<exists>sig raw. dict_get packet ''sig'' = PDict sig \<and> b64_decode (get_str sig ''sig_b64'') = Some raw
              \<and> cr_verify C k raw (payload_bytes packet)))
       \<and> packet_ok C None (dict_set ''sig'' (PDict (sig_part C sk (cr_public C sk) key_id packet)) packet)"
proof (intro conjI allI impI)
  fix b k
  assume "cr_load_pub C b = Key_ed25519 k" and "packet_ok C (Some b) packet"
  then show "\<exists>sig raw. dict_get packet ''sig'' = PDict sig \<and> b64_decode (get_str sig ''sig_b64'') = Some raw
      \<and> cr_verify C k raw (payload_bytes packet)"
    unfolding packet_ok_iff by (auto simp: verifying_key_def)
next
  have "verifying_key C None (sig_part C sk (cr_public C sk) key_id packet) = Some (cr_public C sk)"
    using assms(1) key_of_own [of C "cr_public C sk"] by (auto simp: verifying_key_def crypto_ok_def)
  from signed_ok [OF assms this]
  show "packet_ok C None (dict_set ''sig'' (PDict (sig_part C sk (cr_public C sk) key_id packet)) packet)" .
qed

theorem packet_authority_witness:
  "packet_ok toy_crypto None (dict_set ''sig'' (PDict (sig_part toy_crypto ''mallory'' (cr_public toy_crypto ''mallory'') ''id''
     [(''decision'', PStr ''CLEAR_QUARANTINE'')])) [(''decision'', PStr ''CLEAR_QUARANTINE'')])"
  using packet_authority [OF toy_crypto_ok] by blast

end
