(* ===== verification/L4wLaws.thy ===== *)
theory L4wLaws
  imports L4wChain EvidenceLaws
begin

text \<open>
  What envelopes, commitments and chains guarantee: an accepted envelope is fixed by its hash up to the
  signature, a commitment by its hash and the length of its salt, and the records of a chain are linked.
\<close>

section \<open>Commitments\<close>

abbreviation collision :: "crypto \<Rightarrow> bool" where
  "collision C \<equiv> \<exists>x y. x \<noteq> y \<and> cr_sha C x = cr_sha C y"

lemma commit_hash_salt: "commit_hash C (b64_encode salt) v = Inr (cr_sha C (salt @ ascii_text v))"
  by (simp add: commit_hash_def b64_strip b64_decode_encode)

lemma json_str_tail:
  "json_str (s @ CHR 0x22 # t) = (CHR 0x22 # concat (map json_esc s) @ [CHR 0x5C]) @ json_str t"
  by (simp add: json_str_def json_esc_def esc_letter_def)

lemma commit_tail:
  "commit_hash C (b64_encode salt) (PStr (s @ CHR 0x22 # t))
   = commit_hash C (b64_encode (salt @ to_ascii (CHR 0x22 # concat (map json_esc s) @ [CHR 0x5C]))) (PStr t)"
  unfolding commit_hash_salt ascii_text_def sort_dicts.simps json_text.simps json_str_tail
  by (simp only: to_ascii_simps(3) append_assoc)

text \<open>
  Two openings of one commitment with salts of the same length open it to the same value, or SHA-256 has a
  collision.  But the length of the salt is not checked: a text with a quotation mark in it can be opened as the
  part after the mark alone, with another salt.
\<close>

theorem commit_opening:
  shows "(commit_hash C (b64_encode salt) v = commit_hash C (b64_encode salt') w \<longrightarrow> length salt = length salt' \<longrightarrow>
            sort_dicts v = sort_dicts w \<or> collision C)
       \<and> (\<exists>salt'. commit_hash C (b64_encode salt) (PStr (s @ CHR 0x22 # t)) = commit_hash C (b64_encode salt') (PStr t))"
proof (intro conjI impI)
  assume "commit_hash C (b64_encode salt) v = commit_hash C (b64_encode salt') w" and len: "length salt = length salt'"
  then have h: "cr_sha C (salt @ ascii_text v) = cr_sha C (salt' @ ascii_text w)" by (simp add: commit_hash_salt)
  show "sort_dicts v = sort_dicts w \<or> collision C"
  proof (cases "salt @ ascii_text v = salt' @ ascii_text w")
    case True
    with len have "ascii_text v = ascii_text w" by (simp add: append_eq_append_conv)
    then show ?thesis by (simp add: ascii_text_inj)
  next
    case False
    with h show ?thesis by blast
  qed
qed (use commit_tail in blast)

theorem commit_opening_witness:
  "(\<exists>salt'. commit_hash toy_crypto (b64_encode ''0123456789abcdef'') (PStr (''not fit: '' @ CHR 0x22 # ''cleared''))
          = commit_hash toy_crypto (b64_encode salt') (PStr ''cleared''))
   \<and> (sort_dicts (PDict [(''a'', PNone), (''b'', PBool True)]) = sort_dicts (PDict [(''b'', PBool True), (''a'', PNone)])
       \<or> collision toy_crypto)"
proof (rule conjI)
  show "\<exists>salt'. commit_hash toy_crypto (b64_encode ''0123456789abcdef'') (PStr (''not fit: '' @ CHR 0x22 # ''cleared''))
          = commit_hash toy_crypto (b64_encode salt') (PStr ''cleared'')"
    by (rule conjunct2 [OF commit_opening])
  have "commit_hash toy_crypto (b64_encode ''salt'') (PDict [(''a'', PNone), (''b'', PBool True)])
      = commit_hash toy_crypto (b64_encode ''salt'') (PDict [(''b'', PBool True), (''a'', PNone)])"
    unfolding commit_hash_salt ascii_text_def by code_simp
  then show "sort_dicts (PDict [(''a'', PNone), (''b'', PBool True)]) = sort_dicts (PDict [(''b'', PBool True), (''a'', PNone)])
      \<or> collision toy_crypto"
    by (rule mp [OF mp [OF conjunct1 [OF commit_opening]]]) simp
qed

section \<open>Accepted envelopes\<close>

definition envelope_ok :: "crypto \<Rightarrow> string option \<Rightarrow> pydict \<Rightarrow> bool" where
  "envelope_ok C pub_file env = (case verify_envelope C pub_file env of
     Inl _ \<Rightarrow> False | Inr rep \<Rightarrow> dict_get rep ''ok'' = PBool True)"

lemma refusals [simp]:
  "dict_get (code_reply c e) ''ok'' = PBool False" "dict_get (code_reply c e @ d) ''ok'' = PBool False"
  "dict_get (bad_shape e) ''ok'' = PBool False" "dict_get (sig_refused e h) ''ok'' = PBool False"
  "dict_get (sig_refused e h @ d) ''ok'' = PBool False"
  by (simp_all add: code_reply_def bad_shape_def sig_refused_def)

lemma envelope_ok_cases:
  assumes "envelope_ok C pub_file env"
  obtains b pk sig raw chain shape where "pub_file = Some b" "cr_load_pub C b = Key_ed25519 pk"
    "dict_arg (dict_get env ''sig'') = Inr sig" "b64_decode (get_str sig ''sig_b64'') = Some raw"
    "cr_verify C pk raw (ascii_text (PDict (envelope_sig_input env)))"
    "dict_arg (dict_get env ''chain'') = Inr chain" "compute_envelope_hash C env = Inr (norm_hash (get_str chain ''envelope_hash''))"
    "validate_envelope_shape env True = Inr shape" "truthy (dict_get shape ''ok'')" "cr_available C"
  using assms unfolding envelope_ok_def verify_envelope_def Let_def bindE_def
  by (auto split: if_splits sum.splits option.splits loaded_key.splits)

lemma delete_get: "k \<noteq> k' \<Longrightarrow> dict_get (AList.delete k' d) k = dict_get d k"
  by (simp add: dict_get_def AList.delete_conv')

definition hash_clash :: "crypto \<Rightarrow> pydict \<Rightarrow> pydict \<Rightarrow> bool" where
  \<comment> \<open>the two texts hashed for two envelopes differ and have the same digest\<close>
  "hash_clash C e f = (case (envelope_hash_input e, envelope_hash_input f) of
     (Inr d, Inr d') \<Rightarrow> ascii_text (PDict d) \<noteq> ascii_text (PDict d') \<and> cr_sha C (ascii_text (PDict d)) = cr_sha C (ascii_text (PDict d'))
   | _ \<Rightarrow> False)"

lemma hash_binds:
  assumes "compute_envelope_hash C e = Inr h" "compute_envelope_hash C f = Inr h"
    "k \<noteq> ''sig''" "k \<noteq> ''chain''"
  shows "sort_dicts (dict_get e k) = sort_dicts (dict_get f k) \<or> hash_clash C e f"
proof -
  from assms(1,2) obtain d d' where d: "envelope_hash_input e = Inr d" "envelope_hash_input f = Inr d'"
    "cr_sha C (ascii_text (PDict d)) = cr_sha C (ascii_text (PDict d'))"
    by (auto simp: compute_envelope_hash_def bindE_Inr_iff)
  show ?thesis
  proof (cases "ascii_text (PDict d) = ascii_text (PDict d')")
    case True
    then have "sort_dicts (dict_get d k) = sort_dicts (dict_get d' k)" by (intro sort_dicts_get) (simp only: ascii_text_inj)
    moreover have "dict_get d k = dict_get e k" "dict_get d' k = dict_get f k"
      using d(1,2) assms(3,4) by (auto simp: envelope_hash_input_def bindE_Inr_iff delete_get)
    ultimately show ?thesis by simp
  next
    case False
    with d show ?thesis by (simp add: hash_clash_def)
  qed
qed

definition claimed_hash :: "pydict \<Rightarrow> string" where
  "claimed_hash env = (case dict_arg (dict_get env ''chain'') of
     Inl _ \<Rightarrow> [] | Inr chain \<Rightarrow> norm_hash (get_str chain ''envelope_hash''))"

lemma claimed_hash_ok: "envelope_ok C pub_file e \<Longrightarrow> compute_envelope_hash C e = Inr (claimed_hash e)"
  by (erule envelope_ok_cases) (simp add: claimed_hash_def)

text \<open>
  C26: an accepted envelope carries a signature of everything but the field \<open>sig\<close> under the key of the public
  key file, which must exist, and two accepted envelopes that claim one hash agree, up to the order of
  dictionary keys, in every field outside \<open>sig\<close> and \<open>chain\<close> (agent, event, evidence, commitments, roster
  anchor, time), or the two texts that were hashed for them differ and have the same digest.
\<close>

theorem envelope_binds:
  assumes "envelope_ok C pub_file e" "envelope_ok C pub_file f" "claimed_hash e = claimed_hash f"
  shows "(\<exists>b pk raw. pub_file = Some b \<and> cr_load_pub C b = Key_ed25519 pk
           \<and> cr_verify C pk raw (ascii_text (PDict (AList.delete ''sig'' e))))
       \<and> ((\<forall>k. k \<noteq> ''sig'' \<longrightarrow> k \<noteq> ''chain'' \<longrightarrow> sort_dicts (dict_get e k) = sort_dicts (dict_get f k)) \<or> hash_clash C e f)"
proof (intro conjI)
  show "\<exists>b pk raw. pub_file = Some b \<and> cr_load_pub C b = Key_ed25519 pk
     \<and> cr_verify C pk raw (ascii_text (PDict (AList.delete ''sig'' e)))"
    using assms(1) by (rule envelope_ok_cases) (auto simp: envelope_sig_input_def)
  from claimed_hash_ok [OF assms(1)] claimed_hash_ok [OF assms(2)] show "(\<forall>k. k \<noteq> ''sig'' \<longrightarrow> k \<noteq> ''chain'' \<longrightarrow> sort_dicts (dict_get e k) = sort_dicts (dict_get f k)) \<or> hash_clash C e f"
    unfolding assms(3) using hash_binds by blast
qed

section \<open>Building, signing, verifying\<close>

lemma norm_hex: "is_sha256_hex h \<Longrightarrow> norm_hash h = h"
  by (simp add: is_sha256_hex_def norm_hash_def strip_hex lower_hex)

lemma digest_hex: "sha_digest sha \<Longrightarrow> is_sha256_hex (sha b)"
  by (simp add: sha_digest_def)

lemma hex_nonempty: "is_sha256_hex h \<Longrightarrow> h \<noteq> []"
  by (auto simp: is_sha256_hex_def)

lemma digest_l4w_hex: "sha_digest sha \<Longrightarrow> l4w_hex (sha b)"
  by (simp add: l4w_hex_def norm_hex digest_hex)

lemma norm_l4w_hex: "l4w_hex h \<Longrightarrow> l4w_hex (norm_hash h)"
  by (simp add: l4w_hex_def norm_hex)

definition claim_ok :: "clear_claim \<Rightarrow> bool" where
  \<comment> \<open>agent, event and evidence are named, and the evidence hash is one\<close>
  "claim_ok q = (py_strip (cc_agent q) \<noteq> [] \<and> py_strip (cc_event q) \<noteq> [] \<and> py_strip (normalize_rel_path (cc_path q)) \<noteq> []
     \<and> l4w_hex (cc_sha q) \<and> (cc_schema q = [] \<or> py_strip (cc_schema q) \<noteq> []))"

lemma body_get [simp]:
  "dict_get (envelope_body q ent now rh sh nh h anchor) ''chain''
     = PDict [(''prev_hash'', PStr (norm_hash (cc_prev q))), (''envelope_hash'', PStr h)]"
  "get_str (envelope_body q ent now rh sh nh h anchor) ''schema'' = envelope_schema"
  "get_str (envelope_body q ent now rh sh nh h anchor) ''kind'' = ''quarantine.clear''"
  "dict_get (envelope_body q ent now rh sh nh h anchor) ''subject''
     = PDict [(''agent_id'', PStr (py_strip (cc_agent q))), (''quarantine_event_id'', PStr (py_strip (cc_event q)))]"
  "dict_get (envelope_body q ent now rh sh nh h anchor) ''roster_anchor'' = (if anchor = [] then PNone else PDict anchor)"
  "dict_get (envelope_body q ent now rh sh nh h anchor) ''sig'' = PNone"
  by (simp_all add: envelope_body_def get_str_def py_or_def envelope_schema_def)

lemma body_no_sig: "AList.delete ''sig'' (envelope_body q ent now rh sh nh h anchor) = envelope_body q ent now rh sh nh h anchor"
  by (simp add: envelope_body_def opt_entry_def AList.delete_eq)

definition body_core :: "clear_claim \<Rightarrow> string \<Rightarrow> int \<Rightarrow> string \<Rightarrow> string \<Rightarrow> string option \<Rightarrow> pydict \<Rightarrow> pydict" where
  "body_core q ent now rh sh nh anchor =
     dict_set ''chain'' (PDict [(''prev_hash'', PStr (norm_hash (cc_prev q)))]) (envelope_body q ent now rh sh nh [] anchor)"

lemma set_chain: "dict_set ''chain'' v (envelope_body q ent now rh sh nh h anchor) = dict_set ''chain'' v (envelope_body q ent now rh sh nh h' anchor)"
  by (simp add: envelope_body_def dict_set_def)

lemma same_chain:
  "dict_set ''chain'' (PDict [(''prev_hash'', PStr (norm_hash (cc_prev q))), (''envelope_hash'', PStr h)]) (envelope_body q ent now rh sh nh h' anchor)
   = envelope_body q ent now rh sh nh h anchor"
  by (simp add: envelope_body_def dict_set_def)

lemma delete_chain_hash [simp]:
  "AList.delete ''envelope_hash'' [(''prev_hash'', v), (''envelope_hash'', w)] = [(''prev_hash'', v)]"
  by (simp add: AList.delete_eq)

lemma body_input: "envelope_hash_input (envelope_body q ent now rh sh nh h anchor) = Inr (body_core q ent now rh sh nh anchor)"
  by (simp add: envelope_hash_input_def body_no_sig body_core_def set_chain [of _ q ent now rh sh nh h anchor "[]"])

lemma delete_set: "AList.delete k (dict_set k v d) = AList.delete k d"
  by (simp add: dict_set_def delete_update_same)

lemma signed_input:
  "envelope_hash_input (dict_set ''sig'' v (envelope_body q ent now rh sh nh h anchor)) = Inr (body_core q ent now rh sh nh anchor)"
  by (simp add: envelope_hash_input_def delete_set body_no_sig body_core_def set_chain [of _ q ent now rh sh nh h anchor "[]"])

lemma sha256_name: "norm_hash ''sha256'' = ''sha256''" "norm_hash ''ed25519'' = ''ed25519''"
  by code_simp+

lemma read_commit_dict: "dict_get claim key = commit_dict h \<Longrightarrow> l4w_hex h \<Longrightarrow> read_commit_hash claim key req = Inr [(''ok'', PBool True), (''hash'', PStr (norm_hash h))]"
  by (simp add: read_commit_hash_def commit_dict_def get_str_def sha256_name norm_l4w_hex Let_def)

lemma body_evidence:
  "\<exists>eref. dict_get (envelope_body q ent now rh sh nh h anchor) ''evidence_ref'' = PDict eref
     \<and> get_str eref ''path'' = normalize_rel_path (cc_path q) \<and> get_str eref ''sha256'' = norm_hash (cc_sha q)
     \<and> get_str eref ''evidence_schema'' = (if cc_schema q = [] then ''ester.evidence.v1'' else cc_schema q)"
  by (simp add: envelope_body_def get_str_def)

lemma body_claim:
  "\<exists>claim. dict_get (envelope_body q ent now rh sh nh h anchor) ''claim'' = PDict claim
     \<and> get_str claim ''decision'' = ''CLEAR_QUARANTINE'' \<and> dict_get claim ''reviewer_commit'' = commit_dict rh
     \<and> dict_get claim ''summary_commit'' = commit_dict sh
     \<and> dict_get claim ''notes_commit'' = (case nh of None \<Rightarrow> PNone | Some n \<Rightarrow> commit_dict n)"
  by (simp add: envelope_body_def get_str_def split: option.splits)

lemma no_commit: "dict_get claim key = PNone \<Longrightarrow> read_commit_hash claim key False = Inr [(''ok'', PBool True), (''hash'', PStr [])]"
  by (simp add: read_commit_hash_def)

lemma shape_ok:
  assumes "claim_ok q" "l4w_hex rh" "l4w_hex sh" "\<forall>n. nh = Some n \<longrightarrow> l4w_hex n" "anchor_issue anchor = None"
    "h = [] \<or> is_sha256_hex h"
    and env: "env = envelope_body q ent now rh sh nh h anchor \<or>
      env = dict_set ''sig'' (PDict sig) (envelope_body q ent now rh sh nh h anchor)"
    and sig: "need \<longrightarrow> dict_get env ''sig'' = PDict sig \<and> sig_issue sig = None"
  shows "validate_envelope_shape env need = Inr [(''ok'', PBool True)]"
proof -
  let ?b = "envelope_body q ent now rh sh nh h anchor"
  have get: "dict_get env k = dict_get ?b k" if "k \<noteq> ''sig''" for k using env that by auto
  have gets: "get_str env k = get_str ?b k" if "k \<noteq> ''sig''" for k using get [OF that] by (simp add: get_str_def)
  obtain eref where e: "dict_get env ''evidence_ref'' = PDict eref" "get_str eref ''path'' = normalize_rel_path (cc_path q)"
    "get_str eref ''sha256'' = norm_hash (cc_sha q)"
    "get_str eref ''evidence_schema'' = (if cc_schema q = [] then ''ester.evidence.v1'' else cc_schema q)"
    using body_evidence [of q ent now rh sh nh h anchor] get [of "''evidence_ref''"] by auto
  obtain claim where c: "dict_get env ''claim'' = PDict claim" "get_str claim ''decision'' = ''CLEAR_QUARANTINE''"
    "dict_get claim ''reviewer_commit'' = commit_dict rh" "dict_get claim ''summary_commit'' = commit_dict sh"
    "dict_get claim ''notes_commit'' = (case nh of None \<Rightarrow> PNone | Some n \<Rightarrow> commit_dict n)"
    using body_claim [of q ent now rh sh nh h anchor] get [of "''claim''"] by auto
  obtain nr where nr: "read_commit_hash claim ''notes_commit'' False = Inr nr" "dict_get nr ''ok'' = PBool True"
    using that c(5) assms(4) read_commit_dict [of claim "''notes_commit''"] no_commit [of claim "''notes_commit''"]
    by (cases nh) auto
  have schema: "py_strip (if cc_schema q = [] then ''ester.evidence.v1'' else cc_schema q) \<noteq> []"
  proof -
    have "py_strip ''ester.evidence.v1'' \<noteq> []" by code_simp
    then show ?thesis using assms(1) by (auto simp: claim_ok_def)
  qed
  obtain core where input: "envelope_hash_input env = Inr core" using env body_input signed_input that by auto
  have hash: "norm_hash h = [] \<or> l4w_hex (norm_hash h)"
    using assms(6) norm_hex [of h] by (auto simp: l4w_hex_def norm_hash_def py_lower_def)
  have an: "dict_arg (dict_get env ''roster_anchor'') = Inr anchor" by (simp add: get)
  have ch: "dict_arg (dict_get env ''chain'') = Inr [(''prev_hash'', PStr (norm_hash (cc_prev q))), (''envelope_hash'', PStr h)]"
    and su: "dict_arg (dict_get env ''subject'') = Inr [(''agent_id'', PStr (py_strip (cc_agent q))),
      (''quarantine_event_id'', PStr (py_strip (cc_event q)))]" by (simp_all add: get)
  have strs: "get_str env ''schema'' = envelope_schema" "get_str env ''kind'' = ''quarantine.clear''"
    "get_str [(''prev_hash'', PStr (norm_hash (cc_prev q))), (''envelope_hash'', PStr h)] ''envelope_hash'' = h"
    "str_value (dict_get [(''prev_hash'', PStr (norm_hash (cc_prev q))), (''envelope_hash'', PStr h)] ''prev_hash'')"
    "get_str [(''agent_id'', PStr (py_strip (cc_agent q))), (''quarantine_event_id'', PStr (py_strip (cc_event q)))] ''agent_id'' = py_strip (cc_agent q)"
    "get_str [(''agent_id'', PStr (py_strip (cc_agent q))), (''quarantine_event_id'', PStr (py_strip (cc_event q)))] ''quarantine_event_id'' = py_strip (cc_event q)"
    by (simp_all add: gets) (simp_all add: get_str_def str_value_def)
  have ed: "dict_arg (dict_get env ''evidence_ref'') = Inr eref" "dict_arg (dict_get env ''claim'') = Inr claim"
    by (simp_all add: e c)
  have ids: "py_strip (py_strip (cc_agent q)) \<noteq> []" "py_strip (py_strip (cc_event q)) \<noteq> []"
    "py_strip (normalize_rel_path (cc_path q)) \<noteq> []" "l4w_hex (norm_hash (cc_sha q))"
    using assms(1) by (simp_all add: claim_ok_def norm_l4w_hex)
  have sc: "(if need then map_sum id sig_issue (dict_arg (dict_get env ''sig'')) else Inr None) = Inr None"
    using sig by auto
  note rc = read_commit_dict [OF c(3) assms(2)] read_commit_dict [OF c(4) assms(3)]
  show ?thesis
    unfolding validate_envelope_shape_def Let_def strs su ed bindE_simps sc an ch input assms(5) e c(2) rc nr
    using schema hash ids by (simp add: nr e(2-4) str_value_def) blast
qed

lemma mk_commit_run: "mk_commit C salt v = Inr (b64_encode salt, cr_sha C (salt @ ascii_text v))"
  by (simp add: mk_commit_def commit_hash_salt Let_def)

lemma body_hash:
  "compute_envelope_hash C (envelope_body q ent now rh sh nh h anchor) = Inr (cr_sha C (ascii_text (PDict (body_core q ent now rh sh nh anchor))))"
  "compute_envelope_hash C (dict_set ''sig'' v (envelope_body q ent now rh sh nh h anchor))
     = Inr (cr_sha C (ascii_text (PDict (body_core q ent now rh sh nh anchor))))"
  by (simp_all add: compute_envelope_hash_def body_input signed_input)

lemma anchor_checked: "anchor_issue anchor = None \<Longrightarrow> checked_anchor anchor = None"
  by (auto simp: anchor_issue_def checked_anchor_def split: if_splits)

lemma built:
  assumes "chosen_anchor B given = Inr (Inr anchor)" "anchor_issue anchor = None"
  obtains rep ent now rh sh nh h rs ss nts where "build_envelope_for_clear C B q given = Inr rep" "dict_get rep ''ok'' = PBool True"
    "dict_get rep ''envelope'' = PDict (envelope_body q ent now rh sh nh h anchor)" "dict_get rep ''envelope_hash'' = PStr h"
    "h = cr_sha C (ascii_text (PDict (body_core q ent now rh sh nh anchor)))"
    "commit_hash C rs (PStr (cc_reviewer q)) = Inr rh" "commit_hash C ss (PStr (cc_summary q)) = Inr sh"
    "\<exists>x. rh = cr_sha C x" "\<exists>x. sh = cr_sha C x" "\<forall>n. nh = Some n \<longrightarrow> (\<exists>x. n = cr_sha C x)"
    "py_strip rs = rs" "py_strip ss = ss"
    "dict_get rep ''disclosure_template'' = PDict [(''schema'', PStr ''ester.l4w.disclosure.v1''), (''ts'', PInt now),
       (''envelope_hash'', PStr h), (''reveals'', PList ([reveal_row ''claim.reviewer'' rs (cc_reviewer q),
          reveal_row ''claim.summary'' ss (cc_summary q)] @ nts))]"
    "nts = [] \<or> (\<exists>ns n m. nh = Some m \<and> nts = [reveal_row ''claim.notes'' ns n] \<and> commit_hash C ns (PStr n) = Inr m \<and> py_strip ns = ns)"
proof -
  obtain s1 s2 s3 where salts: "be_salts B = (s1, s2, s3)" by (cases "be_salts B")
  define now where "now = (if cc_ts q = 0 then be_now B else cc_ts q)"
  define ent where "ent = fresh_envelope_id C B q now"
  define rh where "rh = cr_sha C (s1 @ ascii_text (PStr (cc_reviewer q)))"
  define sh where "sh = cr_sha C (s2 @ ascii_text (PStr (cc_summary q)))"
  define nh where "nh = map_option (\<lambda>n. cr_sha C (s3 @ ascii_text (PStr n))) (cc_notes q)"
  define h where "h = cr_sha C (ascii_text (PDict (body_core q ent now rh sh nh anchor)))"
  define nts where "nts = (case cc_notes q of None \<Rightarrow> [] | Some n \<Rightarrow> [reveal_row ''claim.notes'' (b64_encode s3) n])"
  have run: "build_envelope_for_clear C B q given = Inr [(''ok'', PBool True), (''envelope'', PDict (envelope_body q ent now rh sh nh h anchor)),
      (''envelope_hash'', PStr h), (''prev_hash'', PStr (norm_hash (cc_prev q))),
      (''disclosure_template'', PDict [(''schema'', PStr ''ester.l4w.disclosure.v1''), (''ts'', PInt now),
       (''envelope_hash'', PStr h), (''reveals'', PList ([reveal_row ''claim.reviewer'' (b64_encode s1) (cc_reviewer q),
          reveal_row ''claim.summary'' (b64_encode s2) (cc_summary q)] @ nts))])]"
    by (cases "cc_notes q")
       (simp_all add: build_envelope_for_clear_def salts mk_commit_run assms(1) anchor_checked [OF assms(2)] body_hash
          now_def [symmetric] ent_def [symmetric] rh_def [symmetric] sh_def [symmetric] nh_def [symmetric] h_def nts_def Let_def, simp_all add: nh_def rh_def sh_def ent_def now_def)
  have nts: "nts = [] \<or> (\<exists>ns n m. nh = Some m \<and> nts = [reveal_row ''claim.notes'' ns n] \<and> commit_hash C ns (PStr n) = Inr m \<and> py_strip ns = ns)"
  proof (cases "cc_notes q")
    case (Some n)
    then show ?thesis
      by (intro disjI2 exI [of _ "b64_encode s3"] exI [of _ n] exI [of _ "cr_sha C (s3 @ ascii_text (PStr n))"])
         (simp add: nts_def nh_def commit_hash_salt b64_strip)
  qed (simp add: nts_def)
  show ?thesis
    by (rule that [OF run _ _ _ _ _ _ _ _ _ _ _ _ nts]) (auto simp: h_def rh_def sh_def nh_def commit_hash_salt b64_strip)
qed

lemma l4w_ensured_pair:
  assumes "cr_available C" "keys_match C ks"
  obtains sk rep ks' where "l4w_ensure_keypair C kp fresh False ks = (Inr rep, ks')" "dict_get rep ''ok'' = PBool True"
    "ks_priv ks' = Some (cr_priv_pem C sk)" "ks_pub ks' = Some (cr_pub_pem C (cr_public C sk))"
proof (cases "ks_priv ks = None \<or> ks_pub ks = None")
  case True
  let ?ks = "\<lparr>ks_priv = Some (cr_priv_pem C fresh), ks_pub = Some (cr_pub_pem C (cr_public C fresh))\<rparr>"
  have "l4w_ensure_keypair C kp fresh False ks = (Inr (keys_reply C kp (cr_public C fresh) True), ?ks)"
    using True assms(1) by (auto simp: l4w_ensure_keypair_def split: option.splits)
  then show ?thesis by (rule that) simp_all
next
  case False
  with assms(2) obtain sk where sk: "ks_priv ks = Some (cr_priv_pem C sk)" "ks_pub ks = Some (cr_pub_pem C (cr_public C sk))"
    by (auto simp: keys_match_def)
  then have "l4w_ensure_keypair C kp fresh False ks = (Inr (keys_reply C kp (raw_pub_of C (cr_pub_pem C (cr_public C sk))) False), ks)"
    using assms(1) by (simp add: l4w_ensure_keypair_def)
  then show ?thesis by (rule that [OF _ keys_reply_ok sk])
qed

lemma signed_envelope_ok:
  assumes "crypto_ok C" "cr_available C" "sha_digest (cr_sha C)" "keys_match C ks" "claim_ok q"
    "l4w_hex rh" "l4w_hex sh" "\<forall>n. nh = Some n \<longrightarrow> l4w_hex n" "anchor_issue anchor = None"
    and h: "h = cr_sha C (ascii_text (PDict (body_core q ent now rh sh nh anchor)))"
  obtains rep ks' sig where "sign_envelope C kp fresh (envelope_body q ent now rh sh nh h anchor) key_id ks = (Inr rep, ks')"
    "dict_get rep ''ok'' = PBool True" "dict_get rep ''envelope'' = PDict (dict_set ''sig'' (PDict sig) (envelope_body q ent now rh sh nh h anchor))"
    "\<exists>rep. verify_envelope C (ks_pub ks') (dict_set ''sig'' (PDict sig) (envelope_body q ent now rh sh nh h anchor)) = Inr rep
       \<and> dict_get rep ''ok'' = PBool True \<and> dict_get rep ''envelope_hash'' = PStr h"
proof -
  let ?env = "envelope_body q ent now rh sh nh h anchor"
  obtain sk er ks' where e: "l4w_ensure_keypair C kp fresh False ks = (Inr er, ks')" "dict_get er ''ok'' = PBool True"
    "ks_priv ks' = Some (cr_priv_pem C sk)" "ks_pub ks' = Some (cr_pub_pem C (cr_public C sk))"
    using assms(2,4) by (rule l4w_ensured_pair)
  define msg where "msg = ascii_text (PDict ?env)"
  define sig where "sig = [(''alg'', PStr ''ed25519''), (''key_id'', PStr (if key_id = [] then ''default'' else key_id)),
     (''pub_fingerprint'', PStr (cr_sha C (cr_public C sk))), (''sig_b64'', PStr (b64_encode (cr_sign C sk msg)))]"
  let ?signed = "dict_set ''sig'' (PDict sig) ?env"
  have hex: "is_sha256_hex h" unfolding h by (rule digest_hex [OF assms(3)])
  have key: "cr_load_priv C (cr_priv_pem C sk) = Key_ed25519 sk" "cr_load_pub C (cr_pub_pem C (cr_public C sk)) = Key_ed25519 (cr_public C sk)"
    "length (cr_sign C sk msg) = 64" "cr_verify C (cr_public C sk) (cr_sign C sk msg) msg"
    using assms(1) by (auto simp: crypto_ok_def)
  have shape: "validate_envelope_shape ?env False = Inr [(''ok'', PBool True)]"
    by (rule shape_ok [OF assms(5-9), where ent = ent and now = now and h = h and sig = sig]) (simp_all add: hex)
  have same: "AList.delete ''sig'' (dict_set ''chain'' (PDict (dict_set ''envelope_hash'' (PStr h)
      [(''prev_hash'', PStr (norm_hash (cc_prev q))), (''envelope_hash'', PStr h)])) ?env) = ?env"
    by (simp add: dict_set_def [of "''envelope_hash''"] same_chain body_no_sig)
  have msg: "ascii_text (PDict (envelope_sig_input ?env)) = msg" "ascii_text (PDict (envelope_sig_input ?signed)) = msg"
    by (simp_all add: msg_def envelope_sig_input_def delete_set body_no_sig)
  have sign: "\<exists>rep. sign_envelope C kp fresh ?env key_id ks = (Inr rep, ks') \<and> dict_get rep ''ok'' = PBool True
      \<and> dict_get rep ''envelope'' = PDict ?signed"
    using assms(2)
    by (simp add: sign_envelope_def shape body_hash(1) h [symmetric] same bindS_ok [of "l4w_ensure_keypair C kp fresh False", OF e(1)]
        e(2-4) loaded_priv_def loaded_pub_def key(1,2) msg sig_def Let_def)
  have s: "get_str sig ''alg'' = ''ed25519''" "get_str sig ''sig_b64'' = b64_encode (cr_sign C sk msg)"
    "get_str sig ''pub_fingerprint'' = cr_sha C (cr_public C sk)" "sig \<noteq> []"
    by (simp_all add: sig_def get_str_def)
  have "sig_issue sig = None"
    by (simp add: sig_issue_def s sha256_name b64_strip b64_decode_encode key(3))
  then have shape': "validate_envelope_shape ?signed True = Inr [(''ok'', PBool True)]"
    by (intro shape_ok [OF assms(5-9), where ent = ent and now = now and h = h and sig = sig]) (simp_all add: hex)
  have ch: "get_str [(''prev_hash'', PStr (norm_hash (cc_prev q))), (''envelope_hash'', PStr h)] ''envelope_hash'' = h"
    by (simp add: get_str_def)
  have "\<exists>rep. verify_envelope C (ks_pub ks') ?signed = Inr rep \<and> dict_get rep ''ok'' = PBool True \<and> dict_get rep ''envelope_hash'' = PStr h"
    using assms(2) hex
    by (simp add: verify_envelope_def shape' body_hash(2) h [symmetric] ch norm_hex s b64_decode_encode e(4) key(2,4) msg(2)
        norm_digest [OF assms(3)] Let_def)
  with sign that show ?thesis by blast
qed

section \<open>Disclosures of built envelopes\<close>

lemma norm_digest_commit: "commit_hash C s v = Inr h \<Longrightarrow> sha_digest (cr_sha C) \<Longrightarrow> norm_hash h = h"
  by (auto simp: commit_hash_def norm_digest split: option.splits)

lemma reveal_hit:
  assumes "map_of expected p = Some h" "py_strip p = p" "py_strip s = s" "commit_hash C s (PStr v) = Inr h" "sha_digest (cr_sha C)"
  shows "check_reveal C expected [(''path'', PStr p), (''salt_b64'', PStr s), (''value'', PStr v)] = (p, True)"
proof -
  have "\<exists>x. h = cr_sha C x" using assms(4) by (auto simp: commit_hash_def split: option.splits)
  then have h: "norm_hash h = h" "h \<noteq> []" using norm_digest [OF assms(5)] hex_nonempty digest_hex [OF assms(5)] by auto
  with assms show ?thesis by (simp add: check_reveal_def get_str_def Let_def)
qed

lemma expected_commit: "dict_get claim key = commit_dict h \<Longrightarrow> expected_hash claim key = Inr (norm_hash h)"
  by (simp add: expected_hash_def commit_dict_def get_str_def)

text \<open>
  C25: an envelope that \<open>build_envelope_for_clear\<close> builds for a claim naming agent, event and evidence, with an
  anchor that is usable or not asked for, and that \<open>sign_envelope\<close> signs, is accepted by \<open>verify_envelope\<close> under the
  hash that was computed when it was built, and the disclosure template handed out with it is accepted for it;
  this is where the library of keys is available and accepts what it signed, and a key file is missing (then a fresh pair is written) or the
  public key file is that of the private one: \<open>sign_envelope\<close> does not check that the two belong together.
\<close>

theorem built_envelope_accepted:
  assumes "crypto_ok C" "cr_available C" "sha_digest (cr_sha C)" "keys_match C ks" "claim_ok q"
    "chosen_anchor B given = Inr (Inr anchor)" "anchor_issue anchor = None"
  shows "\<exists>rep env tmpl rep' signed ks' drep. build_envelope_for_clear C B q given = Inr rep \<and> dict_get rep ''envelope'' = PDict env
     \<and> dict_get rep ''disclosure_template'' = PDict tmpl
     \<and> sign_envelope C kp fresh env key_id ks = (Inr rep', ks') \<and> dict_get rep' ''envelope'' = PDict signed
     \<and> envelope_ok C (ks_pub ks') signed \<and> PStr (claimed_hash signed) = dict_get rep ''envelope_hash''
     \<and> verify_disclosure C (ks_pub ks') signed tmpl = Inr drep \<and> dict_get drep ''ok'' = PBool True"
proof -
  obtain rep ent now rh sh nh h rs ss nts where b: "build_envelope_for_clear C B q given = Inr rep" "dict_get rep ''ok'' = PBool True"
    "dict_get rep ''envelope'' = PDict (envelope_body q ent now rh sh nh h anchor)" "dict_get rep ''envelope_hash'' = PStr h"
    "h = cr_sha C (ascii_text (PDict (body_core q ent now rh sh nh anchor)))"
    "commit_hash C rs (PStr (cc_reviewer q)) = Inr rh" "commit_hash C ss (PStr (cc_summary q)) = Inr sh"
    "\<exists>x. rh = cr_sha C x" "\<exists>x. sh = cr_sha C x" "\<forall>n. nh = Some n \<longrightarrow> (\<exists>x. n = cr_sha C x)"
    "py_strip rs = rs" "py_strip ss = ss"
    "dict_get rep ''disclosure_template'' = PDict [(''schema'', PStr ''ester.l4w.disclosure.v1''), (''ts'', PInt now),
       (''envelope_hash'', PStr h), (''reveals'', PList ([reveal_row ''claim.reviewer'' rs (cc_reviewer q),
          reveal_row ''claim.summary'' ss (cc_summary q)] @ nts))]"
    "nts = [] \<or> (\<exists>ns n m. nh = Some m \<and> nts = [reveal_row ''claim.notes'' ns n] \<and> commit_hash C ns (PStr n) = Inr m \<and> py_strip ns = ns)"
    using assms(6,7) by (rule built)
  have hexes: "l4w_hex rh" "l4w_hex sh" "\<forall>n. nh = Some n \<longrightarrow> l4w_hex n" using b(8-10) digest_l4w_hex [OF assms(3)] by auto
  let ?env = "envelope_body q ent now rh sh nh h anchor"
  obtain rep' ks' sig where s: "sign_envelope C kp fresh ?env key_id ks = (Inr rep', ks')" "dict_get rep' ''ok'' = PBool True"
    "dict_get rep' ''envelope'' = PDict (dict_set ''sig'' (PDict sig) ?env)"
    "\<exists>rep. verify_envelope C (ks_pub ks') (dict_set ''sig'' (PDict sig) ?env) = Inr rep
       \<and> dict_get rep ''ok'' = PBool True \<and> dict_get rep ''envelope_hash'' = PStr h"
    using assms(1-5) hexes assms(7) b(5) by (rule signed_envelope_ok)
  let ?signed = "dict_set ''sig'' (PDict sig) ?env"
  from s(4) obtain vr where vr: "verify_envelope C (ks_pub ks') ?signed = Inr vr" "dict_get vr ''ok'' = PBool True"
    "dict_get vr ''envelope_hash'' = PStr h" by blast
  then have vh: "get_str vr ''envelope_hash'' = h" by (simp add: get_str_def)
  have nh: "norm_hash h = h" unfolding b(5) by (rule norm_digest [OF assms(3)])
  have ok: "envelope_ok C (ks_pub ks') ?signed" by (simp add: envelope_ok_def vr)
  have ch: "claimed_hash ?signed = h" by (simp add: claimed_hash_def get_str_def nh)
  obtain claim where c: "dict_get ?signed ''claim'' = PDict claim" "dict_get claim ''reviewer_commit'' = commit_dict rh"
    "dict_get claim ''summary_commit'' = commit_dict sh"
    "dict_get claim ''notes_commit'' = (case nh of None \<Rightarrow> PNone | Some n \<Rightarrow> commit_dict n)"
    using body_claim [of q ent now rh sh nh h anchor] by auto
  obtain n' where ex: "expected_hashes claim = Inr [(''claim.reviewer'', rh), (''claim.summary'', sh), (''claim.notes'', n')]"
    "\<forall>m. nh = Some m \<longrightarrow> n' = norm_hash m"
  proof -
    have "norm_hash rh = rh" "norm_hash sh = sh" using norm_digest_commit b(6,7) assms(3) by blast+
    then show ?thesis
      using that [of "case nh of None \<Rightarrow> [] | Some m \<Rightarrow> norm_hash m"] c(4)
      by (cases nh) (simp_all add: expected_hashes_def expected_commit [OF c(2)] expected_commit [OF c(3)] expected_commit,
          simp add: expected_hash_def get_str_def py_or_def norm_hash_def py_lower_def)
  qed
  have strip: "py_strip ''claim.reviewer'' = ''claim.reviewer''" "py_strip ''claim.summary'' = ''claim.summary''"
    "py_strip ''claim.notes'' = ''claim.notes''" by code_simp+
  let ?ex = "[(''claim.reviewer'', rh), (''claim.summary'', sh), (''claim.notes'', n')]"
  have r1: "check_reveal C ?ex [(''path'', PStr ''claim.reviewer''), (''salt_b64'', PStr rs), (''value'', PStr (cc_reviewer q))] = (''claim.reviewer'', True)"
    by (rule reveal_hit [OF _ strip(1) b(11) b(6) assms(3)]) simp
  have r2: "check_reveal C ?ex [(''path'', PStr ''claim.summary''), (''salt_b64'', PStr ss), (''value'', PStr (cc_summary q))] = (''claim.summary'', True)"
    by (rule reveal_hit [OF _ strip(2) b(12) b(7) assms(3)]) simp
  obtain which where which: "check_reveals C ?ex ([reveal_row ''claim.reviewer'' rs (cc_reviewer q), reveal_row ''claim.summary'' ss (cc_summary q)] @ nts)
      True [] = (True, which)"
    using b(14)
  proof (elim disjE exE conjE)
    assume "nts = []"
    then show ?thesis using that by (simp add: reveal_row_def r1 r2)
  next
    fix ns n m
    assume n: "nh = Some m" "nts = [reveal_row ''claim.notes'' ns n]" "commit_hash C ns (PStr n) = Inr m" "py_strip ns = ns"
    then have "n' = m" using ex(2) norm_digest_commit [OF n(3) assms(3)] by simp
    then have "check_reveal C ?ex [(''path'', PStr ''claim.notes''), (''salt_b64'', PStr ns), (''value'', PStr n)] = (''claim.notes'', True)"
      by (intro reveal_hit [OF _ strip(3) n(4) n(3) assms(3)]) simp
    then show ?thesis using that by (simp add: n(2) reveal_row_def r1 r2)
  qed
  have "\<exists>drep. verify_disclosure C (ks_pub ks') ?signed [(''schema'', PStr ''ester.l4w.disclosure.v1''), (''ts'', PInt now),
       (''envelope_hash'', PStr h), (''reveals'', PList ([reveal_row ''claim.reviewer'' rs (cc_reviewer q),
          reveal_row ''claim.summary'' ss (cc_summary q)] @ nts))] = Inr drep \<and> dict_get drep ''ok'' = PBool True"
    using which
    by (simp add: verify_disclosure_def vr vh c(1) [simplified] ex(1) nh get_str_def [of "_ # _"] verify_disclosure_sig_def Let_def)
  with b(1,3,4,13) s(1,3) ok ch show ?thesis by metis
qed

definition toy_claim :: clear_claim where
  "toy_claim = \<lparr>cc_agent = ''a1'', cc_event = ''e1'', cc_reviewer = ''rita'', cc_summary = ''fine'', cc_notes = None, cc_path = ''p.json'',
     cc_sha = replicate 64 (CHR ''0''), cc_schema = [], cc_sig_ok = True, cc_payload = [], cc_prev = [], cc_on_time = True,
     cc_late = False, cc_id = ''l4w_1'', cc_ts = 7\<rparr>"

definition toy_build :: build_env where
  "toy_build = \<lparr>be_now = 7, be_random = [], be_salts = (''s1'', ''s2'', ''s3''), be_slot = ''A'', be_roster_log = False,
     be_anchor_enable = False, be_anchor_required = False, be_anchor = []\<rparr>"

lemma zeros_hex: "is_sha256_hex (replicate 64 (CHR ''0''))"
  by (simp add: is_sha256_hex_def hex64_def list_all_iff)

lemma toy_claim_ok: "claim_ok toy_claim"
proof -
  define z where "z = replicate 64 (CHR ''0'')"
  have "py_strip ''a1'' \<noteq> []" "py_strip ''e1'' \<noteq> []" "py_strip (normalize_rel_path ''p.json'') \<noteq> []" by code_simp+
  moreover have "l4w_hex z" by (simp add: z_def l4w_hex_def norm_hex zeros_hex)
  ultimately show ?thesis unfolding claim_ok_def toy_claim_def z_def [symmetric] by simp
qed

lemma toy_anchor: "chosen_anchor toy_build [] = Inr (Inr [])" "anchor_issue [] = None"
  by (simp_all add: chosen_anchor_def toy_build_def code_reply_def anchor_issue_def)

theorem built_envelope_accepted_witness:
  "\<exists>rep tmpl signed pub drep. build_envelope_for_clear toy_crypto toy_build toy_claim [] = Inr rep
     \<and> dict_get rep ''disclosure_template'' = PDict tmpl \<and> envelope_ok toy_crypto pub signed
     \<and> verify_disclosure toy_crypto pub signed tmpl = Inr drep \<and> dict_get drep ''ok'' = PBool True"
proof -
  have m: "keys_match toy_crypto \<lparr>ks_priv = None, ks_pub = None\<rparr>" by (simp add: keys_match_def)
  from built_envelope_accepted [OF toy_crypto_ok m toy_claim_ok toy_anchor, of "\<lparr>kp_priv = ''a'', kp_pub = ''b''\<rparr>" "''k''" "''id''"]
  show ?thesis by blast
qed

lemma envelope_okI: "verify_envelope C pub e = Inr rep \<Longrightarrow> dict_get rep ''ok'' = PBool True \<Longrightarrow> envelope_ok C pub e"
  by (simp add: envelope_ok_def)

lemma toy_envelope: "\<exists>pub e. envelope_ok toy_crypto pub e"
proof -
  have m: "keys_match toy_crypto \<lparr>ks_priv = None, ks_pub = None\<rparr>" by (simp add: keys_match_def)
  have z: "l4w_hex (cr_sha toy_crypto [])" by (rule digest_l4w_hex [OF toy_crypto_ok(3)])
  have n: "\<forall>n. None = Some n \<longrightarrow> l4w_hex n" by simp
  show ?thesis
    by (rule signed_envelope_ok [OF toy_crypto_ok m toy_claim_ok z z n toy_anchor(2) refl, where ent = "''l4w_1''" and now = 7
          and kp = "\<lparr>kp_priv = ''a'', kp_pub = ''b''\<rparr>" and fresh = "''k''" and key_id = "''id''"])
      (elim exE conjE, intro exI, erule envelope_okI, assumption)
qed

theorem envelope_binds_witness:
  "\<exists>pub e b pk raw. envelope_ok toy_crypto pub e \<and> pub = Some b \<and> cr_load_pub toy_crypto b = Key_ed25519 pk
     \<and> cr_verify toy_crypto pk raw (ascii_text (PDict (AList.delete ''sig'' e)))"
proof -
  obtain pub e where e: "envelope_ok toy_crypto pub e" using toy_envelope by (elim exE)
  from conjunct1 [OF envelope_binds [OF e e refl]] show ?thesis
    by (elim exE conjE) (intro exI conjI, rule e, assumption+)
qed

section \<open>Chains\<close>

fun chain_links :: "string \<Rightarrow> pydict list \<Rightarrow> bool" where
  \<comment> \<open>each record names the hash of the one before it\<close>
  "chain_links prev [] = True"
| "chain_links prev (r # rs) = (get_str r ''prev_hash'' = prev \<and> chain_links (get_str r ''envelope_hash'') rs)"

definition record_ok :: "pydict \<Rightarrow> bool" where
  "record_ok r = (is_sha256_hex (get_str r ''envelope_hash'') \<and> (case get_int r ''ts'' 0 of Inl _ \<Rightarrow> False | Inr _ \<Rightarrow> True))"

definition file_rows :: "chain_store \<Rightarrow> string \<Rightarrow> pydict list" where
  "file_rows s name = (case s name of None \<Rightarrow> [] | Some ls \<Rightarrow> rows_lenient ls)"

definition chain_ok :: "chain_store \<Rightarrow> bool" where
  "chain_ok s = (\<forall>name. list_all record_ok (file_rows s name) \<and> chain_links [] (file_rows s name))"

definition tip :: "pydict list \<Rightarrow> string" where
  "tip rows = (if rows = [] then [] else get_str (last rows) ''envelope_hash'')"

lemma chain_links_snoc: "chain_links p (rs @ [r]) \<longleftrightarrow> chain_links p rs \<and> get_str r ''prev_hash'' = (if rs = [] then p else get_str (last rs) ''envelope_hash'')"
  by (induction rs arbitrary: p) auto

lemma read_file_rows: "read_chain_records a s = file_rows s (safe_agent_file a)"
  by (simp add: read_chain_records_def file_rows_def)

lemma norm_tip: "list_all record_ok rows \<Longrightarrow> norm_hash (tip rows) = tip rows"
  using norm_hex by (cases rows rule: rev_cases) (auto simp: tip_def record_ok_def norm_hash_def py_lower_def)

lemma verify_prev:
  assumes "chain_ok s"
  shows "\<exists>rep. verify_chain_prev_hash a prev s = Inr rep
     \<and> dict_get rep ''ok'' = PBool (norm_hash prev = tip (file_rows s (safe_agent_file a)))"
proof (cases "file_rows s (safe_agent_file a)" rule: rev_cases)
  case Nil
  then show ?thesis
    by (auto simp: verify_chain_prev_hash_def chain_head_def read_file_rows Let_def tip_def code_reply_def)
next
  case (snoc rs r)
  let ?rows = "file_rows s (safe_agent_file a)"
  have ok: "list_all record_ok ?rows" using assms by (simp add: chain_ok_def)
  then obtain ts where r: "is_sha256_hex (get_str r ''envelope_hash'')" "get_int r ''ts'' 0 = Inr ts"
    by (auto simp: snoc record_ok_def split: sum.splits)
  have t: "tip ?rows = get_str r ''envelope_hash''" by (simp add: tip_def snoc)
  have n: "norm_hash (norm_hash (get_str r ''envelope_hash'')) = get_str r ''envelope_hash''" using norm_hex [OF r(1)] by simp
  show ?thesis
    unfolding t verify_chain_prev_hash_def chain_head_def read_file_rows Let_def
    by (simp add: snoc r(2) get_str_def [of "_ # _"] n code_reply_def)
qed

definition chain_accepts :: "chain_store \<Rightarrow> string \<Rightarrow> chain_entry \<Rightarrow> bool" where
  "chain_accepts s agent_id e =
     (py_strip agent_id \<noteq> [] \<and> l4w_hex (ce_envelope_hash e)
      \<and> norm_hash (ce_prev_hash e) = tip (file_rows s (safe_agent_file (py_strip agent_id))))"

lemma file_rows_append:
  "file_rows (append_chain_line f row s) name = file_rows s name @ (if name = f then [row] else [])"
  by (simp add: file_rows_def append_chain_line_def rows_lenient_append split: option.splits)

lemma chain_row_fields [simp]:
  "get_str (chain_row aid now e) ''envelope_hash'' = norm_hash (ce_envelope_hash e)"
  "get_str (chain_row aid now e) ''prev_hash'' = norm_hash (ce_prev_hash e)"
  "get_str (chain_row aid now e) ''agent_id'' = aid"
  by (simp_all add: chain_row_def get_str_def)

lemma row_ok: "l4w_hex (ce_envelope_hash e) \<Longrightarrow> record_ok (chain_row aid now e)"
  by (simp add: record_ok_def l4w_hex_def) (simp add: chain_row_def get_int_def py_or_def)

lemma append_outcome:
  assumes "chain_ok s"
  shows "\<exists>rep s'. append_chain_record dir now a e s = (Inr rep, s') \<and> dict_get rep ''ok'' = PBool (chain_accepts s a e)
     \<and> (\<not> chain_accepts s a e \<longrightarrow> s' = s)
     \<and> (chain_accepts s a e \<longrightarrow> s' = append_chain_line (safe_agent_file (py_strip a)) (chain_row (py_strip a) now e) s)"
proof -
  let ?f = "safe_agent_file (py_strip a)"
  obtain rep where v: "verify_chain_prev_hash (py_strip a) (ce_prev_hash e) s = Inr rep"
    "dict_get rep ''ok'' = PBool (norm_hash (ce_prev_hash e) = tip (file_rows s ?f))"
    using verify_prev [OF assms] by blast
  have "list_all record_ok (file_rows s ?f)" using assms by (simp add: chain_ok_def)
  then have t: "tip (file_rows s ?f) = [] \<or> is_sha256_hex (tip (file_rows s ?f))"
    by (cases "file_rows s ?f" rule: rev_cases) (auto simp: tip_def record_ok_def)
  then have h: "norm_hash (ce_prev_hash e) = tip (file_rows s ?f) \<Longrightarrow> norm_hash (ce_prev_hash e) = [] \<or> l4w_hex (ce_prev_hash e)"
    by (auto simp: l4w_hex_def)
  note r = append_chain_record_def [of dir now a e] Let_def
  consider "py_strip a = [] \<or> \<not> l4w_hex (ce_envelope_hash e)" | "py_strip a \<noteq> []" "l4w_hex (ce_envelope_hash e)" by blast
  then show ?thesis
  proof cases
    case 1
    then show ?thesis unfolding r by (auto simp: chain_accepts_def code_reply_def retS_def)
  next
    case 2
    note run = bindS_ok [of "readS (verify_chain_prev_hash (py_strip a) (ce_prev_hash e))" s rep s]
    show ?thesis
    proof (cases "norm_hash (ce_prev_hash e) = tip (file_rows s ?f)")
      case True
      have "norm_hash (ce_prev_hash e) = [] \<or> l4w_hex (ce_prev_hash e)" using h True by blast
      then show ?thesis unfolding r using 2 True v(2)
        by (auto simp: chain_accepts_def run v(1) retS_def modifyS_def bindS_def readS_def)
    next
      case False
      have rej: "\<not> chain_accepts s a e" using False by (simp add: chain_accepts_def)
      show ?thesis
      proof (cases "norm_hash (ce_prev_hash e) \<noteq> [] \<and> \<not> l4w_hex (ce_prev_hash e)")
        case True
        then show ?thesis unfolding r using 2 rej by (auto simp: code_reply_def retS_def)
      next
        case okp: False
        have "append_chain_record dir now a e s = (Inr rep, s)" unfolding r using 2 okp v(2) False
          by (auto simp: run v(1) retS_def bindS_def readS_def)
        then show ?thesis using rej v(2) False by simp
      qed
    qed
  qed
qed

lemma accepted_chain_ok:
  assumes "chain_ok s" "chain_accepts s a e"
  shows "chain_ok (append_chain_line (safe_agent_file (py_strip a)) (chain_row (py_strip a) now e) s)"
  using assms by (simp add: chain_ok_def file_rows_append chain_links_snoc chain_accepts_def row_ok tip_def)

fun append_all :: "string \<Rightarrow> (int \<times> string \<times> chain_entry) list \<Rightarrow> chain_store \<Rightarrow> chain_store" where
  "append_all dir [] s = s"
| "append_all dir ((now, a, e) # ops) s = append_all dir ops (snd (append_chain_record dir now a e s))"

lemma append_step:
  assumes "chain_ok s"
  shows "chain_ok (snd (append_chain_record dir now a e s))"
    "prefix (file_rows s name) (file_rows (snd (append_chain_record dir now a e s)) name)"
proof -
  show "chain_ok (snd (append_chain_record dir now a e s))"
    using append_outcome [OF assms, of dir now a e] accepted_chain_ok [OF assms, of a e now] assms
    by (cases "chain_accepts s a e") auto
  show "prefix (file_rows s name) (file_rows (snd (append_chain_record dir now a e s)) name)"
    using append_outcome [OF assms, of dir now a e]
    by (cases "chain_accepts s a e") (auto simp: file_rows_append)
qed

lemma append_all_ok:
  "chain_ok s \<Longrightarrow> chain_ok (append_all dir ops s) \<and> prefix (file_rows s name) (file_rows (append_all dir ops s) name)"
proof (induction ops arbitrary: s)
  case (Cons op ops)
  obtain now a e where op: "op = (now, a, e)" by (cases op)
  from Cons.IH [OF append_step(1) [OF Cons.prems, of dir now a e]] append_step(2) [OF Cons.prems, of name dir now a e]
  show ?case by (auto simp: op intro: prefix_order.trans)
qed simp

text \<open>
  C27: over any sequence of \<open>append_chain_record\<close> calls the chain files stay linked (the first record names
  no predecessor, each later one the hash of the one before it, every hash is a SHA-256 name) and are only
  extended; and in such a store a call is accepted just when the agent is named, the hash is one and the
  previous hash given is the chain's tip (none at the start), appends just its row then, and changes nothing
  when it is refused.
\<close>

theorem chain_stays_linked:
  assumes "chain_ok s"
  shows "chain_ok (append_all dir ops s) \<and> prefix (file_rows s name) (file_rows (append_all dir ops s) name)
     \<and> (\<exists>rep s'. append_chain_record dir now a e (append_all dir ops s) = (Inr rep, s')
          \<and> dict_get rep ''ok'' = PBool (chain_accepts (append_all dir ops s) a e)
          \<and> (if chain_accepts (append_all dir ops s) a e
             then s' = append_chain_line (safe_agent_file (py_strip a)) (chain_row (py_strip a) now e) (append_all dir ops s)
             else s' = append_all dir ops s))"
proof -
  have ok: "chain_ok (append_all dir ops s)" using append_all_ok [OF assms] by blast
  obtain rep s' where o1: "append_chain_record dir now a e (append_all dir ops s) = (Inr rep, s')"
    "dict_get rep ''ok'' = PBool (chain_accepts (append_all dir ops s) a e)"
    "\<not> chain_accepts (append_all dir ops s) a e \<longrightarrow> s' = append_all dir ops s"
    "chain_accepts (append_all dir ops s) a e \<longrightarrow>
       s' = append_chain_line (safe_agent_file (py_strip a)) (chain_row (py_strip a) now e) (append_all dir ops s)"
    using append_outcome [OF ok, of dir now a e] by blast
  show ?thesis using append_all_ok [OF assms] o1 by (intro conjI exI [of _ rep] exI [of _ s']) simp_all
qed

definition toy_entry :: chain_entry where
  "toy_entry = \<lparr>ce_event = ''e1'', ce_envelope_id = ''l4w_1'', ce_envelope_hash = replicate 64 (CHR ''0''), ce_prev_hash = [],
     ce_path = ''p.json'', ce_sha = [], ce_ts = 0\<rparr>"

theorem chain_stays_linked_witness: "chain_ok (append_all ''d'' [(7, ''a1'', toy_entry), (8, ''a1'', toy_entry)] Map.empty)"
proof -
  have "chain_ok Map.empty" by (simp add: chain_ok_def file_rows_def)
  from chain_stays_linked [OF this, of "''d''" "[(7, ''a1'', toy_entry), (8, ''a1'', toy_entry)]"] show ?thesis by blast
qed

lemma agents_share_chain:
  \<comment> \<open>two agents whose names differ only in characters outside the file alphabet have one chain\<close>
  "safe_agent_file ''a/b'' = safe_agent_file ''a_b''" "read_chain_records ''a/b'' s = read_chain_records ''a_b'' s"
proof -
  show e: "safe_agent_file ''a/b'' = safe_agent_file ''a_b''" by code_simp
  show "read_chain_records ''a/b'' s = read_chain_records ''a_b'' s" by (simp add: read_chain_records_def e)
qed

end
