(* ===== verification/QuarLaws.thy ===== *)
theory QuarLaws
  imports QuarSpec L4wLaws
begin

text \<open>
  The properties of \<open>drift_quarantine.py\<close>: every operation refines the machine of \<open>QuarSpec\<close>, an active quarantine
  ends by a clear only, what a clear in slot B needs, how often an expiry is logged, and where the guard gives way:
  repeated failures switch enforcement off, and a write from a stale read drops the quarantine of another agent.
\<close>

section \<open>Refinement\<close>

definition total :: "('s, 'a) py_action \<Rightarrow> 's \<Rightarrow> bool" where
  "total m s = (\<exists>x. fst (m s) = Inr x)"

lemma total_ret [simp]: "total (retS x) s"
  by (simp add: total_def)

lemma total_bind: "m s = (Inr x, s') \<Longrightarrow> total (f x) s' \<Longrightarrow> total (bindS m f) s"
  by (simp add: total_def bindS_def)

lemma total_steps [simp]: "total (bindS (save_state E st) f) w = total (f (length (compact_state (normal_state E st []) (max_state_items E))))
    (w\<lparr>qw_file := Some (JVal (state_json (compact_state (normal_state E st []) (max_state_items E)))),
       qw_cache := Some (compact_state (normal_state E st []) (max_state_items E), qe_mono E)\<rparr>)"
  "total (bindS (append_event row) h) w = total (h ()) (w\<lparr>qw_events := qw_events w @ [JVal (PDict row)]\<rparr>)"
  by (simp_all add: total_def save_state_def append_event_def bindS_def modifyS_def retS_def Let_def)

lemma expired_total: "holds w st \<Longrightarrow> total (maybe_mark_expired E a t) w"
proof -
  assume w: "holds w st"
  let ?w = "w\<lparr>qw_cache := Some (st, qe_mono E)\<rparr>"
  have load: "total (bindS (load_state E False) f) w = total (f st) ?w" for f :: "quar_state \<Rightarrow> pydict quar_action"
    by (simp add: total_def bindS_ok [of "load_state E False", OF load_file [OF w]])
  have split: "total (if b then m else n) v \<longleftrightarrow> (if b then total m v else total n v)" for b v and m n :: "pydict quar_action"
    by simp
  show ?thesis unfolding maybe_mark_expired_def Let_def by (simp add: load split)
qed

lemma query_answer:
  assumes "holds w st" "room E (length st)" "py_strip a \<noteq> []"
  shows "\<exists>rep. fst (is_quarantined E a w) = Inr rep \<and> dict_get rep ''ok'' = PBool True
     \<and> dict_get rep ''active'' = PBool (fst (state_view st (py_strip a)) \<noteq> None)"
proof -
  obtain x where x: "fst (maybe_mark_expired E (py_strip a) None w) = Inr x"
    using expired_total [OF assms(1)] unfolding total_def by blast
  obtain st' where st': "holds (snd (maybe_mark_expired E (py_strip a) None w)) st'" "state_view st' = state_view st"
    using keptD [OF keeps_expired assms(1,2)] by metis
  obtain t where l: "load_state E True (snd (maybe_mark_expired E (py_strip a) None w))
      = (Inr st', (snd (maybe_mark_expired E (py_strip a) None w))\<lparr>qw_cache := Some (st', t)\<rparr>)"
    using load_any [OF st'(1)] by blast
  have m: "maybe_mark_expired E (py_strip a) None w = (Inr x, snd (maybe_mark_expired E (py_strip a) None w))" by (simp add: x prod_eq_iff)
  have act: "qr_active (row_of E (py_strip a) st') = (\<exists>y. fst (state_view st (py_strip a)) = Some y)"
    by (simp add: st'(2) [symmetric] active_row [of _ _ E])
  show ?thesis using assms(3)
    by (simp add: is_quarantined_def query_core_def Let_def tryS_def act
        bindS_ok [of "maybe_mark_expired E (py_strip a) None", OF m] bindS_ok [of "load_state E True", OF l])
qed

text \<open>
  C29: on a world whose file holds a state with room for one more agent, every operation acts on the quarantines as
  the abstract machine does: a drift that the last clear did not acknowledge or a manual request sets the agent's
  event, a clear that is granted named the active event and ends it, and nothing else changes anything; the state
  stays well formed, and \<open>is_quarantined\<close> answers what the machine holds.
\<close>

theorem quarantine_refines_spec:
  assumes "holds w st" "room E (Suc (length st))"
  shows "\<exists>out w' st'. quar_step E op w = (out, w') \<and> holds w' st' \<and> length st' \<le> Suc (length st)
     \<and> state_view st' = quar_spec E op (clear_ok out) (state_view st)
     \<and> (\<forall>q. op = Q_clear q \<longrightarrow> clear_ok out \<longrightarrow> fst (state_view st (py_strip (qc_agent q))) = Some (py_strip (qc_event q)))
     \<and> (\<forall>a. op = Q_query a \<longrightarrow> py_strip a \<noteq> [] \<longrightarrow> clear_ok out
          \<and> (\<exists>rep. out = Inr rep \<and> dict_get rep ''active'' = PBool (fst (state_view st (py_strip a)) \<noteq> None)))"
proof -
  obtain out w' st' where o1: "quar_step E op w = (out, w')" "holds w' st'" "length st' \<le> Suc (length st)"
    "state_view st' = quar_spec E op (clear_ok out) (state_view st)"
    "\<forall>q. op = Q_clear q \<longrightarrow> clear_ok out \<longrightarrow> fst (state_view st (py_strip (qc_agent q))) = Some (py_strip (qc_event q))"
    using simulates_all [OF assms, of op] unfolding simulates_def by blast
  have "clear_ok out \<and> (\<exists>rep. out = Inr rep \<and> dict_get rep ''active'' = PBool (fst (state_view st (py_strip a)) \<noteq> None))"
    if "op = Q_query a" "py_strip a \<noteq> []" for a
    using query_answer [OF assms(1) room_less [OF assms(2)] that(2)] o1(1) that(1) by (auto simp: clear_ok_def)
  with o1 show ?thesis by blast
qed

definition quar_env0 :: quar_env where
  "quar_env0 = \<lparr>qe_getenv = (\<lambda>k. if k = ''ESTER_VOLITION_SLOT'' then Some ''B''
       else if k = ''ESTER_QUARANTINE_MAX_STATE'' then Some ''90'' else if k = ''ESTER_QUARANTINE_FAIL_MAX'' then Some ''3'' else None), qe_now = 100, qe_mono = 0, qe_crypto = toy_crypto,
     qe_json = (\<lambda>_. None), qe_files = (\<lambda>_. None), qe_evidence_root = [''e''], qe_envelope_root = [''l''], qe_chain_dir = [],
     qe_evidence_pub = None, qe_l4w_pub = None, qe_last_seen = None, qe_get_agent = (\<lambda>_. Inr []),
     qe_resolve_allowlist = (\<lambda>_. Inr []), qe_list_agents = Inr [], qe_chain_names = [],
     qe_audit = \<lparr>au_ts = 0, au_profile = [], au_ok = False, au_error = ''not_run''\<rparr>, qe_exc_text = (\<lambda>_. []), qe_elapsed = 0\<rparr>"

definition quar_world0 :: quar_world where
  "quar_world0 = \<lparr>qw_file = None, qw_events = [], qw_cache = None, qw_streak = 0, qw_forced = [], qw_rollback = [],
     qw_chains = Map.empty, qw_status = None\<rparr>"

lemma world0: "holds quar_world0 []"
  by (simp add: holds_def quar_world0_def state_ok_def keys_ok_def)

lemma env0: "max_state_items quar_env0 = 90" "raw_slot quar_env0 = ''B''" "fail_max quar_env0 = 3" "qe_now quar_env0 = 100"
proof -
  have p: "parse_int ''90'' = Some 90" "parse_int ''3'' = Some 3"
    by (simp_all add: parse_int_def py_strip_def strip_by_def is_space_def code_point_def is_dec_def)
  show "max_state_items quar_env0 = 90" by (simp add: max_state_items_def q_env_int_def quar_env0_def p)
  show "fail_max quar_env0 = 3" by (simp add: fail_max_def q_env_int_def quar_env0_def p)
  have "py_upper (py_strip ''B'') = ''B''" by code_simp
  then show "raw_slot quar_env0 = ''B''" by (simp add: raw_slot_def quar_env0_def)
  show "qe_now quar_env0 = 100" by (simp add: quar_env0_def)
qed

lemma room0: "n \<le> 90 \<Longrightarrow> room quar_env0 n"
  by (simp add: room_def env0)

theorem quarantine_refines_spec_witness:
  "\<exists>out w' st'. quar_step quar_env0 (Q_query ''a1'') quar_world0 = (out, w') \<and> holds w' st' \<and> clear_ok out"
proof -
  have s: "py_strip ''a1'' \<noteq> []" by code_simp
  have r: "room quar_env0 (Suc (length []))" by (rule room0) simp
  note ref = quarantine_refines_spec [OF world0 r, of "Q_query ''a1''"]
  from ref show ?thesis
  proof (elim exE conjE, intro exI conjI)
    fix out w' st'
    assume q: "\<forall>a. Q_query ''a1'' = Q_query a \<longrightarrow> py_strip a \<noteq> [] \<longrightarrow> clear_ok out \<and>
      (\<exists>rep. out = Inr rep \<and> dict_get rep ''active'' = PBool (fst (state_view [] (py_strip a)) \<noteq> None))"
    show "clear_ok out" by (rule conjunct1 [OF mp [OF mp [OF spec [OF q] refl] s]])
  qed assumption+
qed

section \<open>Only a clear ends a quarantine\<close>

fun quar_run :: "(quar_env \<times> quar_op) list \<Rightarrow> quar_world \<Rightarrow> (py_error + pydict) list \<times> quar_world" where
  "quar_run [] w = ([], w)"
| "quar_run ((E, op) # ops) w =
     (case quar_step E op w of (out, w1) \<Rightarrow> case quar_run ops w1 of (outs, w2) \<Rightarrow> (out # outs, w2))"

fun clears :: "string \<Rightarrow> quar_op \<times> (py_error + pydict) \<Rightarrow> bool" where
  "clears aid (Q_clear q, out) = (clear_ok out \<and> py_strip (qc_agent q) = aid)"
| "clears aid (_, out) = False"

lemma spec_keeps_active: "fst (v aid) \<noteq> None \<Longrightarrow> \<not> clears aid (op, out) \<Longrightarrow> fst (quar_spec E op (clear_ok out) v aid) \<noteq> None"
  by (cases op) (auto simp: Let_def split: prod.splits option.splits)

fun roomy :: "(quar_env \<times> quar_op) list \<Rightarrow> quar_world \<Rightarrow> bool" where
  \<comment> \<open>each operation finds a state file with room for one more agent, and a clock after the epoch\<close>
  "roomy [] w = True"
| "roomy ((E, op) # ops) w =
     ((case fst (load_state E False w) of Inl _ \<Rightarrow> False | Inr st \<Rightarrow> room E (Suc (length st))) \<and> roomy ops (snd (quar_step E op w)))"

lemma run_keeps_active:
  "holds w st \<Longrightarrow> roomy ops w \<Longrightarrow> fst (state_view st aid) \<noteq> None
   \<Longrightarrow> quar_run ops w = (outs, w') \<Longrightarrow> \<not> (\<exists>x \<in> set (zip (map snd ops) outs). clears aid x)
   \<Longrightarrow> \<exists>st'. holds w' st' \<and> fst (state_view st' aid) \<noteq> None"
proof (induction ops arbitrary: w st outs)
  case Nil
  then show ?case by auto
next
  case (Cons Eop ops)
  obtain E op where Eop: "Eop = (E, op)" by (cases Eop)
  obtain out w1 outs1 where run: "quar_step E op w = (out, w1)" "quar_run ops w1 = (outs1, w')" "outs = out # outs1"
    using Cons.prems(4) by (auto simp: Eop split: prod.splits)
  have rm: "room E (Suc (length st))" "roomy ops w1"
    using Cons.prems(2) run(1) by (simp_all add: Eop load_file [OF Cons.prems(1)])
  obtain st1 where st1: "holds w1 st1" "length st1 \<le> Suc (length st)" "state_view st1 = quar_spec E op (clear_ok out) (state_view st)"
    using simulates_all [OF Cons.prems(1) rm(1), of op] run(1) by (auto simp: simulates_def)
  have "fst (state_view st1 aid) \<noteq> None"
    unfolding st1(3) using Cons.prems(3,5) run(3) by (intro spec_keeps_active) (auto simp: Eop)
  then show ?case using Cons.IH [OF st1(1) rm(2) _ run(2)] Cons.prems(5) run(3) by (auto simp: Eop)
qed

text \<open>
  C30: from a state file the module wrote, and over any sequence of operations, however long, each of which finds room
  for one more agent in the state file and a clock after the epoch,
  an agent in quarantine stays in quarantine unless a clear for this agent is granted: drift checks, expiry, queries,
  blocks, reports, manual requests and everything done to other agents, in whatever order, leave it there.
\<close>

theorem quarantine_only_cleared:
  assumes "holds w st" "roomy ops w" "fst (state_view st aid) \<noteq> None"
    "quar_run ops w = (outs, w')" "\<not> (\<exists>x \<in> set (zip (map snd ops) outs). clears aid x)"
  shows "\<exists>st'. holds w' st' \<and> fst (state_view st' aid) \<noteq> None"
  using assms by (rule run_keeps_active)

definition manual0 :: manual_req where
  "manual0 = \<lparr>mq_agent = ''a1'', mq_reason = ''tamper'', mq_severity = [], mq_kind = [], mq_source = [], mq_template = [], mq_computed = [],
     mq_stored = [], mq_added = [], mq_removed = [], mq_challenge = None, mq_details = []\<rparr>"

lemma manual0_fields: "py_strip (mq_agent manual0) = ''a1''" "py_strip (mq_reason manual0) \<noteq> []" "state_view [] = (\<lambda>_. (None, []))"
proof -
  have "py_strip ''a1'' = ''a1''" "py_strip ''tamper'' \<noteq> []" by code_simp+
  then show "py_strip (mq_agent manual0) = ''a1''" "py_strip (mq_reason manual0) \<noteq> []" by (simp_all add: manual0_def)
qed (simp add: state_view_def fun_eq_iff)

lemma quarantined0:
  obtains st where "holds (snd (set_manual_quarantine quar_env0 manual0 quar_world0)) st" "length st \<le> 1"
    "state_view st ''a1'' = (Some (manual_event quar_env0 manual0), [])"
proof -
  have r: "room quar_env0 (Suc (length []))" by (rule room0) simp
  show ?thesis
    using simulates_all [OF world0 r, of "Q_manual manual0"] that
    unfolding simulates_def by (auto simp: manual0_fields Let_def)
qed

lemma queries_roomy:
  "holds w st \<Longrightarrow> room E (Suc (length st)) \<Longrightarrow> roomy (replicate n (E, Q_query a)) w"
proof (induction n arbitrary: w st)
  case (Suc n)
  obtain st' where "holds (snd (is_quarantined E a w)) st'" "length st' = length st"
    by (rule keptD [OF keeps_query Suc.prems(1) room_less [OF Suc.prems(2)]])
  then have "roomy (replicate n (E, Q_query a)) (snd (is_quarantined E a w))" using Suc.prems(2) by (auto intro: Suc.IH)
  then show ?case using Suc.prems(2) by (simp add: load_file [OF Suc.prems(1)])
qed simp

lemma queries_clear_nothing: "\<not> (\<exists>x \<in> set (zip (map snd (replicate n (E, Q_query a))) outs). clears aid x)"
  by (auto dest!: set_zip_leftD)

theorem quarantine_only_cleared_witness:
  "\<exists>w w' outs st'. quar_run (replicate 500 (quar_env0, Q_query ''a1'')) w = (outs, w') \<and> holds w' st' \<and> fst (state_view st' ''a1'') \<noteq> None"
proof -
  let ?ops = "replicate 500 (quar_env0, Q_query ''a1'')"
  obtain st where st: "holds (snd (set_manual_quarantine quar_env0 manual0 quar_world0)) st" "length st \<le> 1"
    "state_view st ''a1'' = (Some (manual_event quar_env0 manual0), [])" by (rule quarantined0)
  let ?w = "snd (set_manual_quarantine quar_env0 manual0 quar_world0)"
  have rm: "roomy ?ops ?w" using st(2) by (intro queries_roomy [OF st(1)] room0) simp
  obtain outs w' where run: "quar_run ?ops ?w = (outs, w')" by (cases "quar_run ?ops ?w")
  have "fst (state_view st ''a1'') \<noteq> None" by (simp add: st(3))
  from quarantine_only_cleared [OF st(1) rm this run queries_clear_nothing] run show ?thesis by blast
qed

section \<open>What a clear needs\<close>

lemma clear_granted:
  assumes "clear_quarantine E q w = (Inr rep, w')" "dict_get rep ''ok'' = PBool True"
  defines "X \<equiv> clear_context q (modes_of E w)"
  obtains state w1 ev ws we lw ws' wl where "load_state E False w = (Inr state, w1)" "qr_active (row_of E (cx_agent X) state)"
    "check_evidence E X w1 = (Inr (Inr (ev, ws)), we)" "check_l4w E X ev we = (Inr (Inr (lw, ws')), wl)"
    "clear_commit E q X state (row_of E (cx_agent X) state) ev lw (ws @ ws') wl = (Inr rep, w')" "cx_agent X \<noteq> []"
proof -
  obtain l w1 where load: "load_state E False w = (l, w1)" by (cases "load_state E False w")
  have run: "clear_quarantine E q w =
     (if cx_agent X = [] then retS [(''ok'', PBool False), (''error'', PStr ''agent_id_required''), (''error_code'', PStr ''AGENT_ID_REQUIRED'')] w
      else if cx_event X = [] then retS [(''ok'', PBool False), (''error'', PStr ''event_id_required''), (''error_code'', PStr ''EVENT_ID_REQUIRED'')] w
      else if py_strip (qc_reason q) = [] then retS [(''ok'', PBool False), (''error'', PStr ''reason_required''), (''error_code'', PStr ''REASON_REQUIRED'')] w
      else (case l of Inl e \<Rightarrow> (Inl e, w1) | Inr state \<Rightarrow>
        let r = row_of E (cx_agent X) state in
        if \<not> qr_active r then
          retS [(''ok'', PBool False), (''error'', PStr ''not_quarantined''), (''error_code'', PStr ''NOT_QUARANTINED''),
               (''agent_id'', PStr (cx_agent X)), (''event_id'', PStr (qr_event r))] w1
        else if qr_event r \<noteq> cx_event X then
          retS [(''ok'', PBool False), (''error'', PStr ''event_mismatch''), (''error_code'', PStr ''EVENT_MISMATCH''), (''agent_id'', PStr (cx_agent X)),
               (''event_id'', PStr (qr_event r)), (''expected_event_id'', PStr (qr_event r)), (''provided_event_id'', PStr (cx_event X))] w1
        else clear_checked E q X state r w1))"
  proof (cases l)
    case (Inl e)
    then have "bindS (load_state E False) f w = (Inl e, w1)" for f :: "quar_state \<Rightarrow> pydict quar_action"
      by (intro bindS_fail) (simp add: load)
    then show ?thesis unfolding clear_quarantine_def X_def Let_def by (simp add: Inl)
  next
    case (Inr state)
    then have "bindS (load_state E False) f w = f state w1" for f :: "quar_state \<Rightarrow> pydict quar_action"
      by (intro bindS_ok) (simp add: load)
    then show ?thesis unfolding clear_quarantine_def X_def Let_def by (simp add: Inr)
  qed
  from run assms(1,2) obtain state where s: "l = Inr state" "cx_agent X \<noteq> []" "qr_active (row_of E (cx_agent X) state)"
    "clear_checked E q X state (row_of E (cx_agent X) state) w1 = (Inr rep, w')"
    by (auto simp: Let_def split: if_splits sum.splits)
  obtain e we where e: "check_evidence E X w1 = (e, we)" by (cases "check_evidence E X w1")
  have "\<exists>ev ws. e = Inr (Inr (ev, ws))"
    using s(4) assms(2) check_evidence_refuses [of E X] e
    by (cases e) (auto simp: clear_checked_def bindS_def gives_def refusal_def split: sum.splits dest!: spec [of _ w1])
  then obtain ev ws where ev: "e = Inr (Inr (ev, ws))" by blast
  obtain k wl where k: "check_l4w E X ev we = (k, wl)" by (cases "check_l4w E X ev we")
  have "\<exists>lw ws'. k = Inr (Inr (lw, ws'))"
    using s(4) assms(2) check_l4w_refuses [of E X ev] k
    by (cases k) (auto simp: clear_checked_def bindS_def e ev gives_def refusal_def split: sum.splits dest!: spec [of _ we])
  then obtain lw ws' where lw: "k = Inr (Inr (lw, ws'))" by blast
  have "clear_commit E q X state (row_of E (cx_agent X) state) ev lw (ws @ ws') wl = (Inr rep, w')"
    using s(4) by (simp add: clear_checked_def bindS_def e ev k lw)
  then show ?thesis using that load s e ev k lw by blast
qed

lemma verify_packet_bool: "verify_packet C pub packet = Inr rep \<Longrightarrow> truthy (dict_get rep ''ok'') \<Longrightarrow> packet_ok C pub packet"
  unfolding packet_ok_def
  by (auto simp: verify_packet_def code_reply_def bindE_Inr_iff Let_def split: if_splits option.splits)

definition givesE :: "('a \<Rightarrow> bool) \<Rightarrow> py_error + 'a \<Rightarrow> bool" where
  "givesE P m = (\<forall>x. m = Inr x \<longrightarrow> P x)"

lemma givesE_rules:
  "(\<And>x. givesE P (f x)) \<Longrightarrow> givesE P (bindE r f)"
  "(b \<Longrightarrow> givesE P m) \<Longrightarrow> (\<not> b \<Longrightarrow> givesE P n) \<Longrightarrow> givesE P (if b then m else n)"
  "P z \<Longrightarrow> givesE P (Inr z)"
  "givesE P n \<Longrightarrow> (\<And>y. givesE P (h y)) \<Longrightarrow> givesE P (case v of None \<Rightarrow> n | Some y \<Rightarrow> h y)"
  "(\<And>y. givesE P (h y)) \<Longrightarrow> givesE P n \<Longrightarrow> givesE P n' \<Longrightarrow>
     givesE P (case k of Key_unreadable \<Rightarrow> n | Key_other \<Rightarrow> n' | Key_ed25519 y \<Rightarrow> h y)"
  by (auto simp: givesE_def bindE_Inr_iff split: option.splits loaded_key.splits)

lemma verify_envelope_bool:
  assumes "verify_envelope C pub env = Inr rep" "truthy (dict_get rep ''ok'')"
  shows "envelope_ok C pub env"
proof -
  have "givesE (\<lambda>rep. truthy (dict_get rep ''ok'') \<longrightarrow> dict_get rep ''ok'' = PBool True) (verify_envelope C pub env)"
    unfolding verify_envelope_def Let_def by (rule givesE_rules | simp add: code_reply_def sig_refused_def)+
  then show ?thesis using assms by (simp add: givesE_def envelope_ok_def)
qed

definition good_evidence :: "quar_env \<Rightarrow> string \<Rightarrow> string \<Rightarrow> string \<Rightarrow> string \<Rightarrow> bool" where
  \<comment> \<open>the file named, below the evidence root and of the hash named, is a signed decision to clear this quarantine\<close>
  "good_evidence E aid eid path sha = (\<exists>p blob packet. p = resolve_path (qe_evidence_root E) (py_strip path) \<and> path_within p (qe_evidence_root E)
     \<and> qe_files E p = Some blob \<and> py_lower (cr_sha (qe_crypto E) blob) = norm_hash sha \<and> qe_json E blob = Some (PDict packet)
     \<and> get_str packet ''agent_id'' = aid \<and> get_str packet ''quarantine_event_id'' = eid
     \<and> get_str packet ''decision'' = ''CLEAR_QUARANTINE'' \<and> packet_ok (qe_crypto E) (qe_evidence_pub E) packet)"

lemma evidence_accepted:
  assumes "verify_evidence_packet E aid eid path sha (Some True) w = Inr rep" "truthy (dict_get rep ''ok'')"
  shows "good_evidence E (py_strip aid) (py_strip eid) path sha \<and> get_str rep ''evidence_sha256'' = norm_hash sha
    \<and> is_sha256_hex (norm_hash sha)"
proof -
  obtain p rel where p: "resolve_evidence_path E path = Inr (p, rel)"
    "verify_evidence_file E True (py_strip aid) (py_strip eid) p rel (norm_hash sha) = Inr rep" "is_sha256_hex (norm_hash sha)"
    using assms by (auto simp: verify_evidence_packet_def resolve_evidence_path_def code_reply_def Let_def split: if_splits sum.splits)
  define place where "place = place_dict p rel @ [(''evidence_sha256'', PStr (norm_hash sha)), (''evidence_schema'', PStr evidence_schema)]"
  obtain blob packet where b: "qe_files E p = Some blob" "py_lower (cr_sha (qe_crypto E) blob) = norm_hash sha"
    "qe_json E blob = Some (PDict packet)" "packet_issue (py_strip aid) (py_strip eid) packet = None" "checked_packet E True place packet = Inr rep"
    using p(2) assms(2)
    by (auto simp: verify_evidence_file_def code_reply_def place_def Let_def split: if_splits option.splits pyval.splits)
  obtain s where s: "signature_report E packet = Inr s" "sr_ok s" "get_str rep ''evidence_sha256'' = norm_hash sha"
    using b(5) assms(2)
    by (auto simp: checked_packet_def place_def place_dict_def code_reply_def bindE_Inr_iff get_str_def Let_def split: if_splits)
  then have "packet_ok (qe_crypto E) (qe_evidence_pub E) packet"
    by (auto simp: signature_report_def bindE_Inr_iff Let_def split: if_splits intro: verify_packet_bool)
  with p b(1-4) s(3) show ?thesis
    by (auto simp: good_evidence_def resolve_evidence_path_def packet_issue_def Let_def split: if_splits)
qed

lemma space_lower: "is_space (lower_char c) = is_space c"
proof -
  have "code_point (char_of (code_point c + 32)) = code_point c + 32" if "code_point c \<le> 222"
    using that by (intro code_point_char_of) simp
  then show ?thesis by (auto simp: lower_char_def is_space_def Let_def)
qed

lemma norm_hash_idem: "norm_hash (norm_hash s) = norm_hash s"
proof -
  have "py_strip (map lower_char t) = map lower_char (py_strip t)" for t
    by (simp add: py_strip_def strip_by_def dropWhile_map rev_map comp_def space_lower)
  then show ?thesis unfolding norm_hash_def by (simp add: py_lower_def lower_char_idem)
qed

definition good_envelope :: "quar_env \<Rightarrow> string \<Rightarrow> string \<Rightarrow> string \<Rightarrow> string \<Rightarrow> string \<Rightarrow> pydict \<Rightarrow> bool" where
  \<comment> \<open>the envelope in the file named is signed, names this quarantine, and names the evidence by its hash\<close>
  "good_envelope E aid eid path sha ev_hash env = (\<exists>p blob subj eref. p = resolve_path (qe_envelope_root E) path
     \<and> path_within p (qe_envelope_root E) \<and> qe_files E p = Some blob \<and> norm_hash (cr_sha (qe_crypto E) blob) = sha
     \<and> qe_json E blob = Some (PDict env) \<and> envelope_ok (qe_crypto E) (qe_l4w_pub E) env
     \<and> dict_arg (dict_get env ''subject'') = Inr subj \<and> py_strip (get_str subj ''agent_id'') = aid
     \<and> py_strip (get_str subj ''quarantine_event_id'') = eid
     \<and> dict_arg (dict_get env ''evidence_ref'') = Inr eref \<and> norm_hash (get_str eref ''sha256'') = ev_hash)"

definition chain_grew :: "string \<Rightarrow> string \<Rightarrow> string \<Rightarrow> pydict \<Rightarrow> chain_store \<Rightarrow> chain_store \<Rightarrow> bool" where
  \<comment> \<open>one record went to the agent's chain, of this quarantine, of this envelope with the hash it carries, and of its file\<close>
  "chain_grew aid eid sha env s s' = (\<exists>row. s' = append_chain_line (safe_agent_file aid) row s \<and> get_str row ''agent_id'' = aid
     \<and> get_str row ''quarantine_event_id'' = eid \<and> get_str row ''envelope_id'' = get_str env ''envelope_id''
     \<and> get_str row ''envelope_hash'' = claimed_hash env \<and> get_str row ''envelope_sha256'' = sha)"

lemma append_grows:
  assumes "append_chain_record dir now a e s = (Inr rep, s')" "truthy (dict_get rep ''ok'')" "py_strip a = a"
    and "ce_envelope_id e = get_str env ''envelope_id''" "norm_hash (ce_envelope_hash e) = claimed_hash env"
  shows "chain_grew a (ce_event e) (norm_hash (ce_sha e)) env s s'"
proof -
  have "\<exists>now. s' = append_chain_line (safe_agent_file a) (chain_row a now e) s"
    using assms(1-3) by (auto simp: append_chain_record_def code_reply_def Let_def split: if_splits sum.splits)
  then obtain now where "s' = append_chain_line (safe_agent_file a) (chain_row a now e) s" ..
  with assms(4,5) show ?thesis unfolding chain_grew_def by (intro exI [of _ "chain_row a now e"]) (simp add: chain_row_def get_str_def)
qed

lemma verified_hash:
  assumes "verify_envelope C pub env = Inr rep" "truthy (dict_get rep ''ok'')"
  shows "get_str rep ''envelope_hash'' = claimed_hash env" "norm_hash (claimed_hash env) = claimed_hash env"
proof -
  show "get_str rep ''envelope_hash'' = claimed_hash env"
  proof (rule envelope_ok_cases [OF verify_envelope_bool [OF assms]])
    fix b pk sig raw chain shape
    assume "pub = Some b" "cr_load_pub C b = Key_ed25519 pk" "dict_arg (dict_get env ''sig'') = Inr sig"
      "b64_decode (get_str sig ''sig_b64'') = Some raw" "cr_verify C pk raw (ascii_text (PDict (envelope_sig_input env)))"
      "dict_arg (dict_get env ''chain'') = Inr chain" "compute_envelope_hash C env = Inr (norm_hash (get_str chain ''envelope_hash''))"
      "validate_envelope_shape env True = Inr shape" "truthy (dict_get shape ''ok'')" "cr_available C"
    then show ?thesis
      using assms by (auto simp: verify_envelope_def claimed_hash_def sig_refused_def code_reply_def get_str_def [of "_ # _"] Let_def split: if_splits)
  qed
  show "norm_hash (claimed_hash env) = claimed_hash env"
    by (simp add: claimed_hash_def norm_hash_idem norm_hash_def [of "[]"] py_lower_def split: sum.splits)
qed

lemma chain_step_grows:
  assumes "chain_step E X ce rel sha env verified prev w = (Inr rep, w')" "py_strip (cx_agent X) = cx_agent X"
    and "verify_envelope C pub env = Inr verified" "truthy (dict_get verified ''ok'')"
  shows "(truthy (dict_get rep ''ok'') \<longrightarrow> chain_grew (cx_agent X) (cx_event X) (norm_hash sha) env (qw_chains w) (qw_chains w'))
    \<and> (truthy (dict_get rep ''warn_only'') \<longrightarrow> \<not> ce \<and> \<not> truthy (dict_get rep ''ok''))"
proof -
  note rules = lw_refused_def code_reply_def lw_place_def
  obtain chk where chk: "verify_chain_prev_hash (cx_agent X) prev (qw_chains w) = Inr chk"
    using assms(1) by (auto simp: chain_step_def Let_def split: sum.splits)
  show ?thesis
  proof (cases "truthy (dict_get chk ''ok'')")
    case False
    then show ?thesis using assms(1) by (auto simp: chain_step_def Let_def chk rules)
  next
    case True
    obtain ts where ts: "get_int env ''ts'' (qe_now E) = Inr ts"
      using assms(1) True by (auto simp: chain_step_def Let_def chk bindS_liftS split: sum.splits)
    let ?e = "\<lparr>ce_event = cx_event X, ce_envelope_id = get_str env ''envelope_id'', ce_envelope_hash = get_str verified ''envelope_hash'',
      ce_prev_hash = prev, ce_path = rel, ce_sha = sha, ce_ts = ts\<rparr>"
    obtain r cs where r: "append_chain_record (qe_chain_dir E) (qe_now E) (cx_agent X) ?e (qw_chains w) = (r, cs)"
      by (cases "append_chain_record (qe_chain_dir E) (qe_now E) (cx_agent X) ?e (qw_chains w)")
    have b: "bindS (\<lambda>w. case append_chain_record (qe_chain_dir E) (qe_now E) (cx_agent X) ?e (qw_chains w) of
        (r, cs) \<Rightarrow> (r, w\<lparr>qw_chains := cs\<rparr>)) f w = (case r of Inl e \<Rightarrow> (Inl e, w\<lparr>qw_chains := cs\<rparr>) | Inr app \<Rightarrow> f app (w\<lparr>qw_chains := cs\<rparr>))"
      for f :: "pydict \<Rightarrow> pydict quar_action"
      by (simp add: bindS_def r)
    obtain app where app: "append_chain_record (qe_chain_dir E) (qe_now E) (cx_agent X) ?e (qw_chains w) = (Inr app, cs)" "r = Inr app"
      using assms(1) True r by (auto simp: chain_step_def Let_def chk ts bindS_liftS b split: sum.splits)
    have "norm_hash (get_str verified ''envelope_hash'') = claimed_hash env" using verified_hash [OF assms(3,4)] by simp
    then show ?thesis using assms(1) True append_grows [OF app(1) _ assms(2), of env]
      by (auto simp: chain_step_def Let_def chk ts bindS_liftS b app(2) rules split: if_splits)
  qed
qed

lemma envelope_accepted:
  assumes "verify_l4w_once E X ev ce w = (Inr rep, w')" "truthy (dict_get rep ''ok'') \<or> truthy (dict_get rep ''warn_only'')"
    "py_strip (cx_agent X) = cx_agent X"
  shows "(\<exists>env. good_envelope E (cx_agent X) (cx_event X) (py_strip (cx_lw_path X)) (cx_lw_sha X) (norm_hash (ev_sha ev)) env
       \<and> (truthy (dict_get rep ''ok'') \<longrightarrow> chain_grew (cx_agent X) (cx_event X) (cx_lw_sha X) env (qw_chains w) (qw_chains w')))
     \<and> (truthy (dict_get rep ''warn_only'') \<longrightarrow> \<not> ce \<and> \<not> truthy (dict_get rep ''ok''))"
proof -
  note rules = lw_refused_def code_reply_def lw_place_def
  obtain p rel where p: "resolve_envelope_path (qe_envelope_root E) (cx_lw_path X) = Inr (p, rel)"
    using assms(1,2) by (auto simp: verify_l4w_once_def rules split: if_splits sum.splits)
  obtain blob env where b: "qe_files E p = Some blob" "norm_hash (cr_sha (qe_crypto E) blob) = cx_lw_sha X" "qe_json E blob = Some (PDict env)"
    "envelope_step E X ev ce rel (norm_hash (cr_sha (qe_crypto E) blob)) env w = (Inr rep, w')"
    using assms(1,2) by (auto simp: verify_l4w_once_def p Let_def rules split: if_splits option.splits pyval.splits)
  obtain verified where v: "verify_envelope (qe_crypto E) (qe_l4w_pub E) env = Inr verified" "truthy (dict_get verified ''ok'')"
    using b(4) assms(2) by (auto simp: envelope_step_def Let_def bindS_liftS rules split: sum.splits if_splits)
  obtain subj eref chain prev where c: "dict_arg (dict_get env ''subject'') = Inr subj" "py_strip (get_str subj ''agent_id'') = cx_agent X"
    "py_strip (get_str subj ''quarantine_event_id'') = cx_event X" "dict_arg (dict_get env ''evidence_ref'') = Inr eref"
    "norm_hash (get_str eref ''sha256'') = norm_hash (ev_sha ev)"
    "chain_step E X ce rel (norm_hash (cr_sha (qe_crypto E) blob)) env verified prev w = (Inr rep, w')"
    using b(4) assms(2) v by (auto simp: envelope_step_def Let_def bindS_liftS rules split: sum.splits if_splits)
  have "good_envelope E (cx_agent X) (cx_event X) (py_strip (cx_lw_path X)) (cx_lw_sha X) (norm_hash (ev_sha ev)) env"
    unfolding good_envelope_def using p b(1-3) c(1-5) verify_envelope_bool [OF v]
    by (intro exI [of _ p] exI [of _ blob] exI [of _ subj] exI [of _ eref])
      (auto simp: resolve_envelope_path_def Let_def split: if_splits)
  moreover have "norm_hash (norm_hash (cr_sha (qe_crypto E) blob)) = cx_lw_sha X" 
    unfolding norm_hash_idem by (rule b(2))
  ultimately show ?thesis using chain_step_grows [OF c(6) assms(3) v] by auto
qed

definition same_chains :: "'a quar_action \<Rightarrow> bool" where
  "same_chains m = (\<forall>w. qw_chains (snd (m w)) = qw_chains w)"

lemma same_chains_bind: "same_chains m \<Longrightarrow> (\<And>x. same_chains (f x)) \<Longrightarrow> same_chains (bindS m f)"
  unfolding same_chains_def
proof
  fix w
  assume m: "\<forall>w. qw_chains (snd (m w)) = qw_chains w" and f: "\<And>x. \<forall>w. qw_chains (snd (f x w)) = qw_chains w"
  obtain r w' where r: "m w = (r, w')" by (cases "m w")
  with m have "qw_chains w' = qw_chains w" by (metis snd_conv)
  then show "qw_chains (snd (bindS m f w)) = qw_chains w" using f by (cases r) (simp_all add: bindS_def r)
qed

lemma same_chains_rules:
  "same_chains m \<Longrightarrow> (\<And>x. same_chains (f x)) \<Longrightarrow> same_chains (bindS m f)"
  "same_chains n \<Longrightarrow> same_chains n' \<Longrightarrow> same_chains (if b then n else n')"
  "same_chains (retS x)" "same_chains (readS g)" "same_chains (liftS l)" "same_chains note_success" "same_chains (note_failure reason limit)"
  "same_chains (append_event row)" "same_chains (save_state E st)" "same_chains (load_state E c)"
  by (auto intro: same_chains_bind)
    (auto simp: same_chains_def retS_def readS_def liftS_def note_success_def note_failure_def append_event_def save_state_def
      load_state_def modifyS_def bindS_def Let_def split: sum.splits option.splits bool.splits if_splits)

lemma never_more: "bindS m (\<lambda>r. retS (Inl r)) s \<noteq> (Inr (Inr y), s')"
  by (simp add: bindS_def split: prod.splits sum.splits)

lemma same_chains_evidence: "same_chains (check_evidence E X)"
  unfolding check_evidence_def evidence_failure_def counted_failure_def Let_def by (intro same_chains_rules)

lemma same_chains_commit: "same_chains (clear_commit E q X state r ev lw ws)"
  unfolding clear_commit_def Let_def by (intro same_chains_rules)

text \<open>
  C31: in slot B a clear is granted only with evidence: the file named lies below the evidence root, has the hash
  named, and is a signed decision to clear this agent's quarantine; and, unless the environment switches envelopes
  off, only with an envelope that is signed, names the same quarantine and the hash of that evidence, and, where
  chains are enforced, a record was added to the agent's chain that holds the quarantine, the identifier and the
  hash of this envelope, and the hash of its file.
\<close>

theorem clear_needs_evidence:
  assumes "clear_quarantine E q w = (Inr rep, w')" "dict_get rep ''ok'' = PBool True" "effective_slot E w = ''B''"
  shows "good_evidence E (py_strip (qc_agent q)) (py_strip (qc_event q)) (get_str (qc_evidence q) ''path'') (get_str (qc_evidence q) ''sha256'')
     \<and> (l4w_required E ''B'' \<longrightarrow>
          (\<exists>env. good_envelope E (py_strip (qc_agent q)) (py_strip (qc_event q)) (py_strip (get_str (qc_l4w q) ''envelope_path''))
               (norm_hash (get_str (qc_l4w q) ''envelope_sha256'')) (norm_hash (get_str (qc_evidence q) ''sha256'')) env
             \<and> (l4w_chain_enforced E ''B'' \<longrightarrow> chain_grew (py_strip (qc_agent q)) (py_strip (qc_event q))
                  (norm_hash (get_str (qc_l4w q) ''envelope_sha256'')) env (qw_chains w) (qw_chains w'))))"
proof -
  define X where "X = clear_context q (modes_of E w)"
  have X: "cx_agent X = py_strip (qc_agent q)" "cx_event X = py_strip (qc_event q)" "cx_ev_path X = py_strip (get_str (qc_evidence q) ''path'')"
    "cx_ev_sha X = norm_hash (get_str (qc_evidence q) ''sha256'')" "cx_lw_path X = py_strip (get_str (qc_l4w q) ''envelope_path'')"
    "cx_lw_sha X = norm_hash (get_str (qc_l4w q) ''envelope_sha256'')" "qm_slot (cx_modes X) = ''B''" "cx_enforced X"
    using assms(3) by (simp_all add: X_def clear_context_def modes_of_def cx_enforced_def enforced_slot_def)
  obtain state w1 ev ws we lw ws' wl where c: "load_state E False w = (Inr state, w1)"
    "check_evidence E X w1 = (Inr (Inr (ev, ws)), we)" "check_l4w E X ev we = (Inr (Inr (lw, ws')), wl)"
    "clear_commit E q X state (row_of E (cx_agent X) state) ev lw (ws @ ws') wl = (Inr rep, w')"
    using clear_granted [OF assms(1,2)] unfolding X_def by metis
  have chains: "qw_chains w1 = qw_chains w" "qw_chains we = qw_chains w1" "qw_chains w' = qw_chains wl"
    using same_chains_rules(10) [of E False] same_chains_evidence [of E X] same_chains_commit [of E q X state] c
    unfolding same_chains_def by (metis snd_conv)+
  obtain vrep where v: "verify_evidence_packet E (cx_agent X) (cx_event X) (cx_ev_path X) (cx_ev_sha X) (Some True) w1 = Inr vrep"
    "truthy (dict_get vrep ''ok'')" "info_of X vrep = Inr ev"
    using c(2) X(8) by (auto simp: check_evidence_def Let_def bindS_liftS never_more split: if_splits sum.splits)
  note acc = evidence_accepted [OF v(1,2)]
  have ev: "ev_sha ev = norm_hash (get_str (qc_evidence q) ''sha256'')"
    using v(3) acc by (auto simp: info_of_def bindE_Inr_iff X norm_hash_idem)
  have good: "good_evidence E (py_strip (qc_agent q)) (py_strip (qc_event q)) (get_str (qc_evidence q) ''path'') (get_str (qc_evidence q) ''sha256'')"
    using acc by (simp add: X good_evidence_def norm_hash_idem)
  have "\<exists>env. good_envelope E (py_strip (qc_agent q)) (py_strip (qc_event q)) (py_strip (get_str (qc_l4w q) ''envelope_path''))
               (norm_hash (get_str (qc_l4w q) ''envelope_sha256'')) (norm_hash (get_str (qc_evidence q) ''sha256'')) env
             \<and> (l4w_chain_enforced E ''B'' \<longrightarrow> chain_grew (py_strip (qc_agent q)) (py_strip (qc_event q))
                  (norm_hash (get_str (qc_l4w q) ''envelope_sha256'')) env (qw_chains w) (qw_chains w'))"
    if req: "l4w_required E ''B''"
  proof -
    let ?once = "verify_l4w_once E X ev (l4w_chain_enforced E ''B'')"
    obtain lrep wl' where l: "?once we = (Inr lrep, wl')" "truthy (dict_get lrep ''ok'') \<or> truthy (dict_get lrep ''warn_only'')" "wl' = wl"
    proof (cases "?once we")
      case (Pair r wl')
      then have run: "bindS ?once f we = (case r of Inl e \<Rightarrow> (Inl e, wl') | Inr x \<Rightarrow> f x wl')" for f :: "pydict \<Rightarrow> (pydict + (l4w_info \<times> string list)) quar_action"
        by (simp add: bindS_def split: sum.splits)
      have "\<exists>lrep. r = Inr lrep \<and> (truthy (dict_get lrep ''ok'') \<or> truthy (dict_get lrep ''warn_only'')) \<and> wl' = wl"
        using c(3) req X(7,8)
        by (auto simp: check_l4w_def Let_def run never_more split: if_splits sum.splits)
      then show ?thesis using that Pair by blast
    qed
    have strip: "py_strip (cx_agent X) = cx_agent X" by (simp add: X)
    from envelope_accepted [OF l(1,2) strip] l(2,3) chains show ?thesis by (auto simp: X ev norm_hash_idem)
  qed
  with good show ?thesis by blast
qed

section \<open>Enforcement is worn out\<close>

definition clear_try :: "quar_env \<Rightarrow> clear_req \<Rightarrow> quar_world \<Rightarrow> quar_world" where
  "clear_try E q w = snd (clear_quarantine E q w)"

definition bare_clear :: "clear_req \<Rightarrow> bool" where
  \<comment> \<open>a clear that names agent, event and reason, and neither evidence nor envelope\<close>
  "bare_clear q = (py_strip (qc_agent q) \<noteq> [] \<and> py_strip (qc_event q) \<noteq> [] \<and> py_strip (qc_reason q) \<noteq> []
     \<and> py_strip (get_str (qc_evidence q) ''path'') = [] \<and> qc_l4w q = [])"

lemma clear_run:
  assumes "holds w st" "bare_clear q" "fst (state_view st (py_strip (qc_agent q))) = Some (py_strip (qc_event q))"
  shows "clear_quarantine E q w = clear_checked E q (clear_context q (modes_of E w)) st (row_of E (py_strip (qc_agent q)) st)
    (w\<lparr>qw_cache := Some (st, qe_mono E)\<rparr>)"
  using assms(2,3) by (auto simp: clear_quarantine_def bindS_ok [of "load_state E False", OF load_file [OF assms(1)]] Let_def
      clear_context_def bare_clear_def active_row [of _ _ E] split: if_splits)

lemma bare_refused:
  assumes "holds w st" "bare_clear q" "fst (state_view st (py_strip (qc_agent q))) = Some (py_strip (qc_event q))"
    "raw_slot E = ''B''" "qw_forced w = []"
  shows "\<not> clear_ok (fst (clear_quarantine E q w)) \<and> holds (clear_try E q w) st \<and> qw_streak (clear_try E q w) = qw_streak w + 1
    \<and> qw_forced (clear_try E q w) = (if fail_max E \<le> qw_streak w + 1 then ''A'' else [])"
proof -
  define X where "X = clear_context q (modes_of E w)"
  let ?w = "w\<lparr>qw_cache := Some (st, qe_mono E)\<rparr>"
  have enf: "cx_enforced X" "cx_ev_path X = []" using assms(2,4,5)
    by (auto simp: X_def clear_context_def modes_of_def cx_enforced_def enforced_slot_def effective_slot_def bare_clear_def)
  let ?rep = "[(''error_code'', PStr ''EVIDENCE_REQUIRED''), (''error'', PStr ''evidence_required'')]"
  let ?v = "snd (note_failure (''evidence_verify_error:'' @ ''EVIDENCE_REQUIRED'') (fail_max E) ?w)"
  have count: "counted_failure E X ''evidence_verify_error:'' ''EVIDENCE_REQUIRED'' ?w = (Inr (modes_of E ?v), ?v)"
    by (simp add: counted_failure_def enf(1) assms(4) note_failure_def readS_def modifyS_def)
  have code: "first_str ?rep [''error_code''] ''EVIDENCE_INVALID'' = ''EVIDENCE_REQUIRED''" by (simp add: first_str_def py_or_def)
  obtain r where f: "evidence_failure E X ?rep ?w = (Inr r, ?v)" "refusal r"
    unfolding evidence_failure_def Let_def code
    by (simp add: bindS_ok [of "counted_failure E X ''evidence_verify_error:'' ''EVIDENCE_REQUIRED''", OF count])
      (simp add: refusal_def failure_head_def)
  have chk: "check_evidence E X ?w = (Inr (Inl r), snd (note_failure (''evidence_verify_error:'' @ ''EVIDENCE_REQUIRED'') (fail_max E) ?w))"
    by (simp add: check_evidence_def Let_def enf bindS_ok [of "evidence_failure E X ?rep", OF f(1)])
  have run: "clear_quarantine E q w = (Inr r, snd (note_failure (''evidence_verify_error:'' @ ''EVIDENCE_REQUIRED'') (fail_max E) ?w))"
    unfolding clear_run [OF assms(1-3)] clear_checked_def X_def [symmetric] by (simp add: bindS_ok [of "check_evidence E X", OF chk])
  show ?thesis unfolding clear_try_def run using f(2) assms(1,5)
    by (auto simp: clear_ok_def refusal_def note_failure_def modifyS_def Let_def)
qed

lemma bare_granted:
  assumes "holds w st" "bare_clear q" "fst (state_view st (py_strip (qc_agent q))) = Some (py_strip (qc_event q))" "qw_forced w = ''A''"
  shows "clear_ok (fst (clear_quarantine E q w))"
proof -
  define X where "X = clear_context q (modes_of E w)"
  have off: "\<not> cx_enforced X" "cx_ev_path X = []" "cx_lw_path X = []"
    using assms(2,4) by (auto simp: X_def clear_context_def modes_of_def cx_enforced_def enforced_slot_def effective_slot_def bare_clear_def get_str_def py_or_def)
  then show ?thesis
    unfolding clear_run [OF assms(1-3)] clear_checked_def X_def [symmetric]
    by (simp add: check_evidence_def check_l4w_def Let_def clear_commit_def save_state_def note_success_def append_event_def
        bindS_def modifyS_def retS_def readS_def clear_ok_def)
qed

text \<open>
  C32: in slot B a clear without evidence is refused, but each refusal counts as a failure of the system, and after
  \<open>ESTER_QUARANTINE_FAIL_MAX\<close> of them enforcement is switched off for the process: the same request, repeated that
  often, is clear_ok then and ends the quarantine.
\<close>

theorem enforcement_worn_out:
  assumes "holds w st" "room E (Suc (length st))" "bare_clear q" "fst (state_view st (py_strip (qc_agent q))) = Some (py_strip (qc_event q))"
    "raw_slot E = ''B''" "qw_forced w = []" "qw_streak w < fail_max E"
  shows "(\<forall>k < nat (fail_max E - qw_streak w). \<not> clear_ok (fst (clear_quarantine E q ((clear_try E q ^^ k) w))))
     \<and> clear_ok (fst (clear_quarantine E q ((clear_try E q ^^ nat (fail_max E - qw_streak w)) w)))
     \<and> (\<exists>st'. holds ((clear_try E q ^^ Suc (nat (fail_max E - qw_streak w))) w) st' \<and> fst (state_view st' (py_strip (qc_agent q))) = None)"
proof -
  let ?n = "nat (fail_max E - qw_streak w)" and ?w = "\<lambda>k. (clear_try E q ^^ k) w"
  have inv: "k \<le> ?n \<Longrightarrow> holds (?w k) st \<and> qw_streak (?w k) = qw_streak w + int k \<and> qw_forced (?w k) = (if k < ?n then [] else ''A'')" for k
  proof (induction k)
    case 0
    then show ?case using assms(1,6,7) by simp
  next
    case (Suc k)
    then have IH: "holds (?w k) st" "qw_streak (?w k) = qw_streak w + int k" "qw_forced (?w k) = []" by auto
    from bare_refused [OF IH(1) assms(3,4,5) IH(3)] IH(2) Suc.prems show ?case by auto
  qed
  have "\<not> clear_ok (fst (clear_quarantine E q (?w k)))" if "k < ?n" for k
    using inv [of k] that bare_refused [OF _ assms(3,4,5), of "?w k"] by auto
  moreover have last: "holds (?w ?n) st" "qw_forced (?w ?n) = ''A''" using inv [of ?n] by auto
  have g: "clear_ok (fst (clear_quarantine E q (?w ?n)))" by (rule bare_granted [OF last(1) assms(3,4) last(2)])
  moreover have "\<exists>st'. holds (?w (Suc ?n)) st' \<and> fst (state_view st' (py_strip (qc_agent q))) = None"
    using simulates_clear [OF last(1) assms(2), of q] g unfolding simulates_def by (auto simp: clear_try_def)
  ultimately show ?thesis by blast
qed

definition row0 :: quar_row where
  "row0 = (row_defaults quar_env0 ''a1'')\<lparr>qr_active := True, qr_event := ''e1'', qr_open := 50, qr_deadline := 90\<rparr>"

definition held0 :: quar_world where
  "held0 = put_state quar_env0 [(''a1'', row0)] quar_world0"

lemma challenge_floor: "60 \<le> challenge_sec E"
  by (simp add: challenge_sec_def Let_def)

lemma state0: "state_ok [(''a1'', row0)]"
proof -
  have "py_strip ''a1'' = ''a1''" by code_simp
  then show ?thesis using challenge_floor
    by (simp add: state_ok_def keys_ok_def row_ok_def row0_def row_defaults_def short_list_def cleared_ok_def not_cleared_def evidence_ok_def
        no_evidence_def l4w_ok_def no_l4w_def py_lower_def)
qed

lemma held0: "holds held0 [(''a1'', row0)]" "qw_forced held0 = []" "qw_streak held0 = 0" "qw_chains held0 = Map.empty"
proof -
  show "holds held0 [(''a1'', row0)]" unfolding held0_def by (rule put_holds [OF state0])
qed (simp_all add: held0_def put_state_def quar_world0_def)

lemma view0: "state_view [(''a1'', row0)] ''a1'' = (Some ''e1'', [])"
  by (simp add: state_view_def row_view_def row0_def row_defaults_def not_cleared_def)

definition clear0 :: clear_req where
  "clear0 = \<lparr>qc_agent = ''a1'', qc_event = ''e1'', qc_chain = [], qc_by = [], qc_reason = ''ok'', qc_evidence = [], qc_note = [], qc_l4w = []\<rparr>"

lemma strips0: "py_strip ''a1'' = ''a1''" "py_strip ''e1'' = ''e1''" "py_strip ''ok'' = ''ok''" "py_strip ''p'' = ''p''"
  by code_simp+

theorem enforcement_worn_out_witness:
  "\<not> clear_ok (fst (clear_quarantine quar_env0 clear0 held0)) \<and> clear_ok (fst (clear_quarantine quar_env0 clear0 ((clear_try quar_env0 clear0 ^^ 3) held0)))"
proof -
  have r: "room quar_env0 (Suc (length [(''a1'', row0)]))" by (rule room0) simp
  have b: "bare_clear clear0" by (simp add: bare_clear_def clear0_def strips0 get_str_def py_or_def)
  have v: "fst (state_view [(''a1'', row0)] (py_strip (qc_agent clear0))) = Some (py_strip (qc_event clear0))"
    by (simp add: clear0_def strips0 view0)
  have f: "qw_streak held0 < fail_max quar_env0" by (simp add: held0 env0)
  note worn = enforcement_worn_out [OF held0(1) r b v env0(2) held0(2) f]
  have "nat (fail_max quar_env0 - qw_streak held0) = 3" by (simp add: held0 env0)
  with worn show ?thesis by (metis (no_types, lifting) funpow_0 zero_less_numeral)
qed

definition packet0 :: pydict where
  "packet0 = [(''schema'', PStr ''ester.evidence.v1''), (''agent_id'', PStr ''a1''), (''quarantine_event_id'', PStr ''e1''),
     (''decision'', PStr ''CLEAR_QUARANTINE'')]"

definition signed0 :: pydict where
  "signed0 = dict_set ''sig'' (PDict (sig_part toy_crypto ''k'' (cr_public toy_crypto ''k'') ''id'' packet0)) packet0"

definition zeros :: string where
  "zeros = replicate 64 (CHR ''0'')"

lemma zeros_facts: "is_sha256_hex zeros" "norm_hash zeros = zeros" "py_lower zeros = zeros" "l4w_hex zeros" "zeros \<noteq> []" "length zeros = 64"
  "cr_sha toy_crypto b = zeros"
proof -
  show h: "is_sha256_hex zeros" unfolding zeros_def by (rule zeros_hex)
  then show n: "norm_hash zeros = zeros" by (rule norm_hex)
  show "py_lower zeros = zeros" using h lower_hex by (simp add: is_sha256_hex_def)
  show "l4w_hex zeros" using h n by (simp add: l4w_hex_def)
qed (simp_all add: zeros_def toy_crypto_def)

definition body0 :: pydict where
  "body0 = envelope_body toy_claim ''l4w_1'' 7 zeros zeros None zeros []"

definition envelope_env :: "string option \<Rightarrow> pydict \<Rightarrow> quar_env" where
  \<comment> \<open>evidence and envelope are on disk, and the public key of the envelopes is the one given\<close>
  "envelope_env pub env = quar_env0\<lparr>qe_files := (\<lambda>p. Some (if p = [''l'', ''l.json''] then ''envelope'' else ''packet'')),
     qe_json := (\<lambda>b. Some (PDict (if b = ''envelope'' then env else signed0))), qe_l4w_pub := pub\<rparr>"

definition clear1 :: clear_req where
  "clear1 = clear0\<lparr>qc_evidence := [(''path'', PStr ''p.json''), (''sha256'', PStr zeros)],
     qc_l4w := [(''envelope_path'', PStr ''l.json''), (''envelope_sha256'', PStr zeros)]\<rparr>"

lemma envelope0:
  obtains pub sig rep where "verify_envelope toy_crypto pub (dict_set ''sig'' (PDict sig) body0) = Inr rep" "truthy (dict_get rep ''ok'')"
    "get_str rep ''envelope_hash'' = zeros"
proof -
  have m: "keys_match toy_crypto \<lparr>ks_priv = None, ks_pub = None\<rparr>" by (simp add: keys_match_def)
  have n: "\<forall>n. None = Some n \<longrightarrow> l4w_hex n" by simp
  have h: "zeros = cr_sha toy_crypto (ascii_text (PDict (body_core toy_claim ''l4w_1'' 7 zeros zeros None [])))" by (simp add: zeros_facts)
  show ?thesis
    by (rule signed_envelope_ok [OF toy_crypto_ok m toy_claim_ok zeros_facts(4) zeros_facts(4) n toy_anchor(2) h,
          where kp = "\<lparr>kp_priv = ''a'', kp_pub = ''b''\<rparr>" and fresh = "''k''" and key_id = "''id''"])
      (elim exE conjE, rule that, unfold body0_def, assumption, simp_all add: get_str_def)
qed

lemma signed0_ok: "packet_ok toy_crypto None signed0"
  unfolding signed0_def
proof (rule signed_ok [OF toy_crypto_ok])
  show "verifying_key toy_crypto None (sig_part toy_crypto ''k'' (cr_public toy_crypto ''k'') ''id'' packet0) = Some (cr_public toy_crypto ''k'')"
    using toy_crypto_ok(1) key_of_own [of toy_crypto "cr_public toy_crypto ''k''"] by (auto simp: verifying_key_def crypto_ok_def)
qed

lemma digit0: "py_lower (py_strip ''0'') = ''0''"
  by code_simp

lemma envelope_env_simps:
  "qe_crypto (envelope_env pub env) = toy_crypto" "qe_evidence_root (envelope_env pub env) = [''e'']" "qe_evidence_pub (envelope_env pub env) = None"
  "qe_envelope_root (envelope_env pub env) = [''l'']" "qe_l4w_pub (envelope_env pub env) = pub"
  "qe_files (envelope_env pub env) p = Some (if p = [''l'', ''l.json''] then ''envelope'' else ''packet'')"
  "qe_json (envelope_env pub env) b = Some (PDict (if b = ''envelope'' then env else signed0))"
  "raw_slot (envelope_env pub env) = ''B''" "l4w_required (envelope_env pub env) ''B''" "l4w_chain_enforced (envelope_env pub env) ''B''"
  using env0(2) digit0
  by (simp_all add: envelope_env_def quar_env0_def raw_slot_def l4w_required_def l4w_chain_enforced_def slot_default_def q_env_bool_def)

lemma evidence0:
  obtains rep where "verify_evidence_packet (envelope_env pub env) ''a1'' ''e1'' ''p.json'' zeros (Some True) w = Inr rep" "truthy (dict_get rep ''ok'')"
    "get_int rep ''created_ts'' 0 = Inr 0" "first_str rep [''evidence_rel_path'', ''evidence_path''] [] = ''p.json''"
    "get_str rep ''evidence_sha256'' = zeros"
proof -
  have path: "resolve_path [''e''] ''p.json'' = [''e'', ''p.json'']" "rel_text [''e''] [''e'', ''p.json''] = ''p.json''" "py_strip ''p.json'' = ''p.json''"
    by code_simp+
  have fields: "get_str signed0 ''schema'' = evidence_schema" "packet_issue ''a1'' ''e1'' signed0 = None" "dict_get signed0 ''created_ts'' = PNone"
    by (simp_all add: signed0_def packet0_def get_str_def packet_issue_def evidence_schema_def)
  obtain v where v: "verify_packet toy_crypto None signed0 = Inr v" "dict_get v ''ok'' = PBool True"
    using signed0_ok by (auto simp: packet_ok_def split: sum.splits)
  have sig: "signature_report (envelope_env pub env) signed0 = Inr \<lparr>sr_ok = True, sr_alg = py_str (py_or (dict_get v ''alg'') (PStr ''ed25519'')),
      sr_key = py_str (py_or (dict_get v ''key_id'') (PStr ''default'')), sr_error = [], sr_payload = get_str v ''payload_hash''\<rparr>"
    by (simp add: signature_report_def envelope_env_simps toy_crypto_ok(2) v)
  have created: "get_int signed0 ''created_ts'' 0 = Inr 0" using fields(3) by (simp add: get_int_def py_or_def)
  have "\<exists>rep. verify_evidence_packet (envelope_env pub env) ''a1'' ''e1'' ''p.json'' zeros (Some True) w = Inr rep \<and> truthy (dict_get rep ''ok'')
    \<and> get_int rep ''created_ts'' 0 = Inr 0 \<and> first_str rep [''evidence_rel_path'', ''evidence_path''] [] = ''p.json''
    \<and> get_str rep ''evidence_sha256'' = zeros"
    by (simp add: verify_evidence_packet_def resolve_evidence_path_def path_within_def verify_evidence_file_def checked_packet_def
        strips0 zeros_facts envelope_env_simps path fields sig place_dict_def created Let_def)
       (simp add: get_int_def py_or_def first_str_def get_str_def)
  then show ?thesis using that by blast
qed

lemma chain0: "append_chain_record dir now ''a1'' \<lparr>ce_event = eid, ce_envelope_id = i, ce_envelope_hash = zeros, ce_prev_hash = [], ce_path = p,
     ce_sha = zeros, ce_ts = t\<rparr> Map.empty = (r, cs) \<Longrightarrow> \<exists>rep. r = Inr rep \<and> truthy (dict_get rep ''ok'')"
  "verify_chain_prev_hash ''a1'' [] Map.empty = Inr [(''ok'', PBool True), (''expected_prev_hash'', PStr []), (''provided_prev_hash'', PStr [])]"
proof -
  have n: "norm_hash [] = []" by code_simp
  show v: "verify_chain_prev_hash ''a1'' [] Map.empty = Inr [(''ok'', PBool True), (''expected_prev_hash'', PStr []), (''provided_prev_hash'', PStr [])]"
    by (simp add: verify_chain_prev_hash_def chain_head_def read_chain_records_def hash_pair_def n)
  show "append_chain_record dir now ''a1'' \<lparr>ce_event = eid, ce_envelope_id = i, ce_envelope_hash = zeros, ce_prev_hash = [], ce_path = p,
     ce_sha = zeros, ce_ts = t\<rparr> Map.empty = (r, cs) \<Longrightarrow> \<exists>rep. r = Inr rep \<and> truthy (dict_get rep ''ok'')"
    by (auto simp: append_chain_record_def strips0 zeros_facts n v Let_def bindS_def readS_def modifyS_def retS_def)
qed

lemma envelope_fields:
  assumes "env = dict_set ''sig'' (PDict sig) body0"
  shows "get_str env ''schema'' = envelope_schema" "get_str env ''envelope_id'' = ''l4w_1''" "get_int env ''ts'' now = Inr 7"
    "dict_get env ''subject'' = PDict [(''agent_id'', PStr ''a1''), (''quarantine_event_id'', PStr ''e1'')]"
    "\<exists>more. dict_get env ''evidence_ref'' = PDict ([(''path'', PStr ''p.json''), (''sha256'', PStr zeros)] @ more)"
    "dict_get env ''chain'' = PDict [(''prev_hash'', PStr []), (''envelope_hash'', PStr zeros)]"
proof -
  have s: "py_strip ''a1'' = ''a1''" "py_strip ''e1'' = ''e1''" "normalize_rel_path ''p.json'' = ''p.json''" "norm_hash [] = []" by code_simp+
  note body = assms body0_def envelope_body_def toy_claim_def get_str_def get_int_def py_or_def s zeros_def [symmetric] zeros_facts(2)
  show "get_str env ''schema'' = envelope_schema" "get_str env ''envelope_id'' = ''l4w_1''" "get_int env ''ts'' now = Inr 7"
    "dict_get env ''subject'' = PDict [(''agent_id'', PStr ''a1''), (''quarantine_event_id'', PStr ''e1'')]"
    "\<exists>more. dict_get env ''evidence_ref'' = PDict ([(''path'', PStr ''p.json''), (''sha256'', PStr zeros)] @ more)"
    "dict_get env ''chain'' = PDict [(''prev_hash'', PStr []), (''envelope_hash'', PStr zeros)]"
    by (simp_all add: body)
qed

lemma envelope_run:
  assumes "env = dict_set ''sig'' (PDict sig) body0" "verify_envelope toy_crypto pub env = Inr verified" "truthy (dict_get verified ''ok'')"
    "get_str verified ''envelope_hash'' = zeros" "cx_agent X = ''a1''" "cx_event X = ''e1''" "ev_path ev = ''p.json''" "ev_sha ev = zeros"
    "cx_lw_path X = ''l.json''" "cx_lw_sha X = zeros" "qw_chains w = Map.empty"
  shows "\<exists>rep w'. verify_l4w_once (envelope_env pub env) X ev True w = (Inr rep, w') \<and> truthy (dict_get rep ''ok'')"
proof -
  let ?E = "envelope_env pub env"
  obtain more where f: "dict_get env ''evidence_ref'' = PDict ([(''path'', PStr ''p.json''), (''sha256'', PStr zeros)] @ more)"
    using envelope_fields(5) [OF assms(1)] ..
  note fields = envelope_fields(1,2,3,4,6) [OF assms(1)] f
  have s: "norm_hash [] = []" "py_strip ''a1'' = ''a1''" "py_strip ''e1'' = ''e1''" by code_simp+
  have path: "resolve_envelope_path [''l''] ''l.json'' = Inr ([''l'', ''l.json''], ''l.json'')" by code_simp
  let ?e = "\<lparr>ce_event = ''e1'', ce_envelope_id = ''l4w_1'', ce_envelope_hash = zeros, ce_prev_hash = [], ce_path = ''l.json'', ce_sha = zeros, ce_ts = 7\<rparr>"
  obtain app cs where app: "append_chain_record (qe_chain_dir ?E) (qe_now ?E) ''a1'' ?e Map.empty = (Inr app, cs)" "truthy (dict_get app ''ok'')"
    using chain0(1) by (cases "append_chain_record (qe_chain_dir ?E) (qe_now ?E) ''a1'' ?e Map.empty") blast
  have chain: "\<exists>rep w'. chain_step ?E X True ''l.json'' zeros env verified [] w = (Inr rep, w') \<and> truthy (dict_get rep ''ok'')"
    by (simp add: chain_step_def Let_def bindS_def readS_def liftS_def assms(4-6,11) chain0(2) fields(2,3) app retS_def)
  have "envelope_step ?E X ev True ''l.json'' zeros env w = chain_step ?E X True ''l.json'' zeros env verified [] w"
    by (simp add: envelope_step_def Let_def bindS_liftS envelope_env_simps assms(2,3,5-8) fields(4-6) s get_str_def [of "_ # _"] zeros_facts(2))
  with chain show ?thesis
    by (simp add: verify_l4w_once_def assms(9,10) zeros_facts envelope_env_simps path fields(1) Let_def)
qed

theorem clear_needs_evidence_witness:
  "\<exists>pub env rep w' env'. clear_quarantine (envelope_env pub env) clear1 held0 = (Inr rep, w') \<and> l4w_required (envelope_env pub env) ''B''
     \<and> good_evidence (envelope_env pub env) ''a1'' ''e1'' ''p.json'' zeros \<and> good_envelope (envelope_env pub env) ''a1'' ''e1'' ''l.json'' zeros zeros env'
     \<and> chain_grew ''a1'' ''e1'' zeros env' Map.empty (qw_chains w')"
proof -
  obtain pub sig verified where v: "verify_envelope toy_crypto pub (dict_set ''sig'' (PDict sig) body0) = Inr verified"
    "truthy (dict_get verified ''ok'')" "get_str verified ''envelope_hash'' = zeros" by (rule envelope0)
  define env where "env = dict_set ''sig'' (PDict sig) body0"
  let ?E = "envelope_env pub env"
  define X where "X = clear_context clear1 (modes_of ?E held0)"
  let ?w = "held0\<lparr>qw_cache := Some ([(''a1'', row0)], qe_mono ?E)\<rparr>"
  have eff: "effective_slot ?E held0 = ''B''" by (simp add: effective_slot_def held0 envelope_env_simps)
  have s: "py_strip ''p.json'' = ''p.json''" "py_strip ''l.json'' = ''l.json''" by code_simp+
  have c1: "qc_agent clear1 = ''a1''" "qc_event clear1 = ''e1''" "get_str (qc_evidence clear1) ''path'' = ''p.json''"
    "get_str (qc_evidence clear1) ''sha256'' = zeros" "qc_reason clear1 = ''ok''" "get_str (qc_l4w clear1) ''envelope_path'' = ''l.json''"
    "get_str (qc_l4w clear1) ''envelope_sha256'' = zeros"
    by (simp_all add: clear1_def clear0_def get_str_def)
  have X: "cx_agent X = ''a1''" "cx_event X = ''e1''" "cx_ev_path X = ''p.json''" "cx_ev_sha X = zeros" "cx_enforced X" "qm_slot (cx_modes X) = ''B''"
    "cx_lw_path X = ''l.json''" "cx_lw_sha X = zeros"
    by (simp_all add: X_def clear_context_def c1 strips0 s zeros_facts(2) cx_enforced_def enforced_slot_def modes_of_def eff)
  obtain rep where r: "verify_evidence_packet ?E ''a1'' ''e1'' ''p.json'' zeros (Some True) ?w = Inr rep" "truthy (dict_get rep ''ok'')"
    "get_int rep ''created_ts'' 0 = Inr 0" "first_str rep [''evidence_rel_path'', ''evidence_path''] [] = ''p.json''"
    "get_str rep ''evidence_sha256'' = zeros" by (rule evidence0)
  then obtain ev where ev: "check_evidence ?E X ?w = (Inr (Inr (ev, [])), ?w)" "ev_path ev = ''p.json''" "ev_sha ev = zeros"
    by (simp add: check_evidence_def Let_def X zeros_facts info_of_def bindS_def readS_def liftS_def retS_def)
  obtain lrep wl where l: "verify_l4w_once ?E X ev True ?w = (Inr lrep, wl)" "truthy (dict_get lrep ''ok'')"
    using envelope_run [OF env_def v [folded env_def] X(1,2) ev(2,3) X(7,8), of ?w] by (auto simp: held0)
  have lw: "check_l4w ?E X ev ?w = (Inr (Inr (read_l4w lrep, [])), wl)"
    by (simp add: check_l4w_def X envelope_env_simps Let_def bindS_ok [of "verify_l4w_once ?E X ev True", OF l(1)] l(2))
  have load: "load_state ?E False held0 = (Inr [(''a1'', row0)], ?w)" by (rule load_file [OF held0(1)])
  have row: "row_of ?E ''a1'' [(''a1'', row0)] = row0" "qr_active row0" "qr_event row0 = ''e1''"
    by (simp_all add: row_of_def row0_def)
  have run: "clear_quarantine ?E clear1 held0 = clear_commit ?E clear1 X [(''a1'', row0)] row0 ev (read_l4w lrep) [] wl"
    by (simp add: clear_quarantine_def X_def [symmetric] X c1 strips0 Let_def bindS_ok [of "load_state ?E False", OF load] row clear_checked_def
        bindS_ok [of "check_evidence ?E X", OF ev(1)] bindS_ok [of "check_l4w ?E X ev", OF lw])
  obtain out w' where o1: "clear_quarantine ?E clear1 held0 = (Inr out, w')" "dict_get out ''ok'' = PBool True"
    unfolding run by (simp add: clear_commit_def Let_def save_state_def note_success_def append_event_def bindS_def modifyS_def retS_def readS_def)
  from clear_needs_evidence [OF o1 eff]
  have "good_evidence ?E ''a1'' ''e1'' ''p.json'' zeros"
    "\<exists>env'. good_envelope ?E ''a1'' ''e1'' ''l.json'' zeros zeros env' \<and> chain_grew ''a1'' ''e1'' zeros env' Map.empty (qw_chains w')"
    by (simp_all add: c1 strips0 s envelope_env_simps(9,10) zeros_facts(2) held0)
  with o1(1) envelope_env_simps(9) show ?thesis by blast
qed

end
