(* ===== verification/GarageClaims.thy ===== *)
theory GarageClaims
  imports GarageLaws QuarLaws
begin

text \<open>
  The agent registry and the drift guard together: what becomes of an agent that \<open>create_agent\<close> made when the drift
  guard looks at it.
\<close>

section \<open>Creating, tampering, checking\<close>

definition reaches_people :: "pydict \<Rightarrow> bool" where
  \<comment> \<open>a specification that a template lets send messages to people\<close>
  "reaches_people p = (template_id_of p \<noteq> [] \<and> (case dict_get p ''capabilities_effective'' of PList vs \<Rightarrow> PStr telegram_cap \<in> set vs | _ \<Rightarrow> False))"

definition with_actions :: "string list \<Rightarrow> pydict \<Rightarrow> pydict" where
  "with_actions xs p = dict_set ''allowed_actions'' (str_list xs) p"

definition tampered :: "string \<Rightarrow> string list \<Rightarrow> pydict \<Rightarrow> garage_world \<Rightarrow> garage_world" where
  \<comment> \<open>somebody writes another list of actions into the file of the specification\<close>
  "tampered aid xs p w = w\<lparr>gw_specs := (gw_specs w)(aid \<mapsto> JVal (PDict (with_actions xs p)))\<rparr>"

definition guarding :: "garage_env \<Rightarrow> garage_world \<Rightarrow> quar_env \<Rightarrow> quar_env" where
  \<comment> \<open>the drift guard over this registry\<close>
  "guarding E w Q = Q\<lparr>qe_get_agent := (\<lambda>aid. fst (get_agent E aid w)), qe_resolve_allowlist := resolve_allowlist (gv_templates E) ''B''\<rparr>"

lemma guarding_simps [simp]:
  "qe_resolve_allowlist (guarding E w Q) = resolve_allowlist (gv_templates E) ''B''" "qe_last_seen (guarding E w Q) = qe_last_seen Q"
  "room (guarding E w Q) n = room Q n" "qe_crypto (guarding E w Q) = qe_crypto Q"
  by (simp_all add: guarding_def room_def max_state_items_def q_env_int_def)

lemma reaches_granted: "stores raw a p \<Longrightarrow> reaches_people p \<longleftrightarrow> \<not> granted_again raw a"
  by (auto simp: reaches_people_def granted_again_def stores_def str_list_def)

lemma stores_with: "stores raw a p \<Longrightarrow> stores raw a (with_actions xs p)"
  by (simp add: stores_def with_actions_def template_id_of_def)

lemma or_dict: "py_or (PDict d) (PDict []) = PDict d"
  by (cases d) (simp_all add: py_or_def)

lemma guarding_spec:
  assumes "filed aid p w" "py_strip aid = aid" "aid \<noteq> []" "p \<noteq> []"
  shows "agent_spec (guarding E w Q) aid = Inr p"
proof -
  obtain row where "fst (get_agent E aid w) = Inr [(''ok'', PBool True), (''agent'', PDict (dict_set ''spec'' (PDict p) row))]"
    using assms(1) get_agent_run [OF _ assms(2,3)] unfolding filed_def by (metis fst_conv)
  then show ?thesis using assms(4) by (simp add: agent_spec_def guarding_def or_dict)
qed

lemma filed_tampered: "filed aid p w \<Longrightarrow> filed aid (with_actions xs p) (tampered aid xs p w)"
  by (auto simp: filed_def tampered_def)

lemma with_actions_some: "with_actions xs p \<noteq> []"
  by (cases p) (auto simp: with_actions_def dict_set_def)

lemma str_list_inj: "str_list xs = str_list ys \<longleftrightarrow> xs = ys"
  by (simp add: str_list_def inj_map_eq_map [of PStr] inj_def)

lemma ensure_view:
  assumes "holds w st" "room Q (Suc (length st))" "state_view st aid = (None, ack)" "py_strip aid = aid" "aid \<noteq> []"
    and "agent_spec Q aid = Inr p" "evaluate_high_drift Q aid p (last_seen_of (qe_last_seen Q) aid) = Inr d"
  shows "\<exists>out w' st'. ensure_quarantine_for_agent Q aid source w = (out, w') \<and> holds w' st'
    \<and> fst (state_view st' aid) = (if dr_active d \<and> (ack = [] \<or> ack \<noteq> dr_event d) then Some (dr_event d) else None)"
proof -
  have "new_drift Q aid ack = (if dr_active d \<and> (ack = [] \<or> ack \<noteq> dr_event d) then Some (dr_event d) else None)"
    using assms(6,7) by (simp add: new_drift_def drift_of_def)
  then show ?thesis using simulates_ensure [OF assms(1,2), of aid source] assms(3-5)
    by (fastforce simp: simulates_def Let_def split: if_splits)
qed

text \<open>
  C34: An agent that \<open>create_agent\<close> made in slot B under strict capabilities, unless it may send messages to people
  through a template, that has an identifier without blanks around it and a hash beside its list, that is not in
  quarantine, and whose last audit, if there was one, saw the list it was granted, with room for one more agent in
  the state file and a guard of the files that reports a write only when it has written: whatever list of actions
  is written over the one in its specification file, with the hash beside it left alone, the drift guard finds the
  agent out of quarantine exactly when that list stays within what was granted, or when the last clear of the agent
  acknowledged the event of a tampered list.  That event is made of the agent, the granted list and the hash the
  specification claims, and not of the list that was written: one clear acknowledges every later tampering too.\<close>

theorem tampering_quarantined:
  assumes "caps_strict E w" "honest_guard E" "create_agent E raw w = (Inr rep, w')" "truthy (dict_get rep ''ok'')"
    and "dict_get rep ''spec'' = PDict p" "dict_get rep ''agent_id'' = PStr aid" "py_strip aid = aid" "aid \<noteq> []" "\<not> reaches_people p"
    and "dict_get p ''allowed_actions'' = str_list granted" "py_strip (get_str p ''allowed_actions_hash'') \<noteq> []"
    and "holds v st" "room Q (Suc (length st))" "state_view st aid = (None, ack)"
    and "seen_granted (qe_crypto Q) (last_seen_of (qe_last_seen Q) aid) granted"
    and "e = tamper_event (qe_crypto Q) aid granted (py_strip (get_str p ''allowed_actions_hash''))"
  shows "\<exists>out v' st'. ensure_quarantine_for_agent (guarding E (tampered aid xs p w') Q) aid source v = (out, v') \<and> holds v' st'
    \<and> fst (state_view st' aid) = (if \<not> set (dedupe xs) \<subseteq> set granted \<and> (ack = [] \<or> ack \<noteq> e) then Some e else None)"
proof -
  obtain a where a: "settled (gv_templates E) raw a" "stores raw a p" "dict_get p ''allowed_actions'' = str_list (at_computed a)" "filed aid p w'"
    using created_run [OF assms(1,3,4,2)] assms(5,6) by auto
  have g: "at_computed a = granted" using a(3) assms(10) str_list_inj by simp
  let ?Q = "guarding E (tampered aid xs p w') Q" and ?p = "with_actions xs p"
  have again: "granted_again raw a" using reaches_granted [OF a(2)] assms(9) by simp
  have p: "dict_get ?p ''allowed_actions'' = str_list xs" "get_str ?p ''allowed_actions_hash'' = get_str p ''allowed_actions_hash''"
    by (simp_all add: with_actions_def get_str_def)
  have seen: "seen_granted (qe_crypto ?Q) (last_seen_of (qe_last_seen ?Q) aid) (at_computed a)" using assms(15) by (simp add: g)
  obtain d where d: "evaluate_high_drift ?Q aid ?p (last_seen_of (qe_last_seen ?Q) aid) = Inr d"
    "dr_active d = (\<not> set (dedupe xs) \<subseteq> set granted)" "dr_active d \<longrightarrow> dr_event d = e"
    using drift_of_seen [OF _ _ _ stores_with [OF a(2)] again _ p(1) seen, where T = "gv_templates E" and aid = aid] a(1) assms(11,16)
    by (auto simp: settled_def p(2) g)
  have "agent_spec ?Q aid = Inr ?p" by (rule guarding_spec [OF filed_tampered [OF a(4)] assms(7,8) with_actions_some])
  note view = ensure_view [OF assms(12) _ assms(14,7,8) this d(1), of source]
  have "(if dr_active d \<and> (ack = [] \<or> ack \<noteq> dr_event d) then Some (dr_event d) else None)
      = (if \<not> set (dedupe xs) \<subseteq> set granted \<and> (ack = [] \<or> ack \<noteq> e) then Some e else None)"
    using d(2,3) by (cases "set (dedupe xs) \<subseteq> set granted") auto
  with view assms(13) show ?thesis by simp
qed

definition acked0 :: quar_state where
  \<comment> \<open>the agent was cleared once, of the event that every digest of the toy crypto gives\<close>
  "acked0 = [(''agent_0123456789ab'', (row_defaults quar_env0 ''agent_0123456789ab'')\<lparr>qr_cleared := not_cleared\<lparr>cl_event := zeros\<rparr>\<rparr>)]"

lemma acked0: "state_ok acked0" "state_view acked0 ''agent_0123456789ab'' = (None, zeros)" "length acked0 = 1"
proof -
  have "py_strip ''agent_0123456789ab'' = ''agent_0123456789ab''" by code_simp
  then show "state_ok acked0" using challenge_floor
    by (simp add: acked0_def state_ok_def keys_ok_def row_ok_def row_defaults_def short_list_def cleared_ok_def not_cleared_def evidence_ok_def
        no_evidence_def l4w_ok_def no_l4w_def py_lower_def)
qed (simp_all add: acked0_def state_view_def row_view_def row_defaults_def)

lemma unseen0: "seen_granted C (last_seen_of (qe_last_seen quar_env0) aid) granted"
  by (simp add: seen_granted_def quar_env0_def no_row)

text \<open>A tampered list is caught: an action that was not granted.  After one clear of that event it is not.\<close>

theorem tampering_quarantined_witness:
  "\<exists>rep p w' out v' st' out2 v2 st2. create_agent garage_env0 raw0 garage_world0 = (Inr rep, w') \<and> dict_get rep ''spec'' = PDict p
     \<and> ensure_quarantine_for_agent (guarding garage_env0 (tampered ''agent_0123456789ab'' [''files.sandbox_write''] p w') quar_env0)
         ''agent_0123456789ab'' [] quar_world0 = (out, v')
     \<and> holds v' st' \<and> fst (state_view st' ''agent_0123456789ab'') = Some zeros
     \<and> ensure_quarantine_for_agent (guarding garage_env0 (tampered ''agent_0123456789ab'' [''llm.remote.call''] p w') quar_env0)
         ''agent_0123456789ab'' [] (put_state quar_env0 acked0 quar_world0) = (out2, v2)
     \<and> holds v2 st2 \<and> fst (state_view st2 ''agent_0123456789ab'') = None"
proof -
  obtain w' where run: "create_agent garage_env0 raw0 garage_world0 = (Inr reply0, w')" using create0 by blast
  have h: "caps_strict garage_env0 garage_world0" "honest_guard garage_env0"
    by (code_simp, simp add: honest_guard_def garage_env0_def)
  have r: "truthy (dict_get reply0 ''ok'')" "dict_get reply0 ''spec'' = PDict payload0" "dict_get reply0 ''agent_id'' = PStr ''agent_0123456789ab''"
    by (simp_all add: reply0_def)
  have i: "py_strip ''agent_0123456789ab'' = ''agent_0123456789ab''" "''agent_0123456789ab'' \<noteq> []" by code_simp+
  have p: "\<not> reaches_people payload0" "py_strip (get_str payload0 ''allowed_actions_hash'') \<noteq> []" by code_simp+
  have act: "dict_get payload0 ''allowed_actions'' = str_list [''memory.add_note'']" by (simp add: payload0_def payload_get spec0_def)
  have q: "room quar_env0 (Suc (length []))" "room quar_env0 (Suc (length acked0))" "state_view [] ''agent_0123456789ab'' = (None, [])"
    by (rule room0, simp, rule room0, simp add: acked0(3), simp add: state_view_def)
  have e: "zeros = tamper_event (qe_crypto quar_env0) aid granted claimed" for aid granted claimed
    by (simp add: tamper_event_def quar_event_id_def quar_env0_def zeros_facts)
  have sets: "\<not> set (dedupe [''files.sandbox_write'']) \<subseteq> set [''memory.add_note'']" by code_simp
  note t = tampering_quarantined [OF h run r i p(1) act p(2)]
  let ?guard = "\<lambda>x. guarding garage_env0 (tampered ''agent_0123456789ab'' [x] payload0 w') quar_env0"
  obtain out v' st' where caught: "ensure_quarantine_for_agent (?guard ''files.sandbox_write'') ''agent_0123456789ab'' [] quar_world0 = (out, v')"
    "holds v' st'" "fst (state_view st' ''agent_0123456789ab'') = Some zeros"
    using t [OF world0 q(1,3) unseen0 e, of "[''files.sandbox_write'']" "[]"] sets by (simp only: simp_thms if_True) blast
  obtain out2 v2 st2 where passed: "ensure_quarantine_for_agent (?guard ''llm.remote.call'') ''agent_0123456789ab'' []
      (put_state quar_env0 acked0 quar_world0) = (out2, v2)" "holds v2 st2" "fst (state_view st2 ''agent_0123456789ab'') = None"
    using t [OF put_holds [OF acked0(1)] q(2) acked0(2) unseen0 e, of "[''llm.remote.call'']" "[]" quar_env0 quar_world0] zeros_facts(5)
    by (simp only: simp_thms if_False) blast
  from run r(2) caught passed show ?thesis by blast
qed

text \<open>
  The stored specification has no communication policy, so resolving it again grants no messages to people: an agent
  that was granted them through its template is taken for a tampered one as it stands.
\<close>

theorem telegram_agent_suspect:
  assumes "caps_strict E w" "honest_guard E" "create_agent E raw w = (Inr rep, w')" "truthy (dict_get rep ''ok'')"
    and p: "dict_get rep ''spec'' = PDict p" "reaches_people p"
  shows "evaluate_high_drift (guarding E w' Q) aid p [] = Inl PyRuntimeError
    \<or> (\<exists>d. evaluate_high_drift (guarding E w' Q) aid p [] = Inr d \<and> dr_active d \<and> dr_reason d = ''TAMPER_SUSPECT'')"
proof -
  obtain a where a: "settled (gv_templates E) raw a" "stores raw a p" "dict_get p ''allowed_actions'' = str_list (at_computed a)"
    using created_run [OF assms(1,3,4,2)] p(1) by auto
  have drop: "template_id_of raw \<noteq> []" "telegram_cap \<in> set (at_effective a)" using reaches_granted [OF a(2)] p(2) by (auto simp: granted_again_def)
  let ?rest = "filter (\<lambda>c. c \<noteq> telegram_cap) (at_effective a)" and ?T = "gv_templates E"
  obtain a' where a': "spec_authority ?T True p = Inr (Inr a')" "at_computed a' = granted_actions ?rest" "at_computed a = granted_actions (at_effective a)"
    using stored_again [OF _ _ _ a(2), of ?T] a(1) drop by (auto simp: settled_def)
  have given: "cleaned (dict_get p ''allowed_actions'') = Inr (at_computed a)" using a(3) a'(3) by (simp add: cleaned_strs dedupe_normal)
  let ?rep = "settle_authority ?T ''B'' (template_id_of p) (at_computed a) a'"
  have res: "resolve_allowlist ?T ''B'' p = Inr ?rep" using a'(1) given by (simp add: resolve_strict)
  have tid: "template_id_of p \<noteq> []" using a(2) drop(1) by (simp add: stores_def)
  have caps: "normalize_allowlist (dict_get p ''capabilities_effective'') = Inr (sort (dedupe (at_effective a)))" using a(2) by (simp add: stores_def normalize_strs)
  have stored: "normalize_allowlist (dict_get p ''allowed_actions'') = Inr (sort (at_computed a))" using a(3) a'(3) by (simp add: normalize_strs dedupe_normal)
  note n = strict_normal(2) [OF a'(1)]
  show ?thesis
  proof (cases "at_computed a' = []")
    case True
    then have "dict_get ?rep ''ok'' = PBool False" using settle_strict(2) [OF n] by simp
    then show ?thesis unfolding evaluate_high_drift_def Let_def by (simp add: caps stored res)
  next
    case False
    then obtain ws where rep: "?rep = accepted (template_id_of p) a' ws" using settle_strict(1) [OF n, of "template_id_of p"] tid by blast
    have computed: "normalize_allowlist (str_list (at_computed a')) = Inr (sort (at_computed a'))" using n by (simp add: normalize_strs dedupe_normal)
    have "''messages.telegram.send'' \<in> set (at_computed a)" using drop(2) table_actions(2) by (auto simp: a'(3) granted_set telegram_cap_def)
    moreover have "''messages.telegram.send'' \<notin> set (at_computed a')" using table_actions(2) by (auto simp: a'(2) granted_set telegram_cap_def)
    ultimately have "minus_list (sort (at_computed a)) (sort (at_computed a')) \<noteq> []" by (auto simp: minus_list_Nil)
    moreover have "dict_get (accepted (template_id_of p) a' ws) ''ok'' = PBool True"
      "dict_get (accepted (template_id_of p) a' ws) ''allowed_actions'' = str_list (at_computed a')" by (simp_all add: accepted_def)
    ultimately show ?thesis unfolding evaluate_high_drift_def Let_def
      by (simp add: caps stored res rep computed high_drift_def no_row)
  qed
qed

text \<open>Outside slot B the specification's own list counts when no capability resolves: the policy switch is passed by.\<close>

definition remote0 :: pydict where
  "remote0 = [(''template_id'', PStr ''t1''), (''capabilities'', str_list [''cap.oracle.remote.call'']), (''allowed_actions'', str_list [''llm.remote.call''])]"

definition grants_exactly :: "py_error + pydict \<Rightarrow> string list \<Rightarrow> bool" where
  "grants_exactly r actions = (case r of Inr rep \<Rightarrow> dict_get rep ''ok'' = PBool (actions \<noteq> [])
     \<and> (actions = [] \<or> dict_get rep ''allowed_actions'' = str_list actions) | Inl _ \<Rightarrow> False)"

lemma switched_off_yet_granted:
  "grants_exactly (resolve_allowlist templates0 ''A'' remote0) [''llm.remote.call'']"
  "grants_exactly (resolve_allowlist templates0 ''B'' remote0) []"
  by code_simp+

text \<open>Without a template the policy switches are not looked at, in slot B either.\<close>

lemma raw_not_switched:
  "grants_exactly (resolve_allowlist templates0 ''B'' [(''capabilities'', str_list [''cap.messages.telegram''])]) [''messages.telegram.send'']"
  by code_simp

end
