(* ===== verification/Spec2Isabelle.thy ===== *)
theory Spec2Isabelle
  imports GlitchAdapters GlitchStore ArlLayer ArlWitness AglLayer ArqSidecar AgentQueueClaims
    CrdtConvergence P2pSync VolitionLaws ExecWindowLaws PlanLaws ProviderLaws CommLaws GarageRegistry GarageClaims
begin

text \<open>
  \<^bold>\<open>What is modelled.\<close>  Ester is an agent runtime; around its conversational core it keeps sidecars that
  decide what the runtime may rely on or do, and stores that replicas synchronise.  This library models
  those decision layers and stores, which are plain Python over dataclasses, JSON files and
  append-only logs:

    \<^item> \<open>modules/glitch_stack\<close> (theories \<open>GlitchM1\<close>, \<open>GlitchAdapters\<close>, \<open>GlitchStore\<close>): a runtime collision
      becomes a glitch node, gets a witness and a challenge window, and may yield a quarantined
      research node; guards deny authority to research, cinematic and merely signed material.
    \<^item> \<open>modules/arbitration_review\<close> (\<open>ArlLayer\<close>, \<open>ArlWitness\<close>): disputes with a state machine, standing and
      evidence decisions, review routing, and the hash-chained ledger of witness footprints.
    \<^item> \<open>modules/actor_grounding\<close> (\<open>AglLayer\<close>): how far the runtime may rely on a source.
    \<^item> \<open>modules/arq\<close> (\<open>ArqSidecar\<close>): deviation capsules and the gates of their promotion.
    \<^item> \<open>modules/garage/agent_queue.py\<close> (\<open>AgentQueue\<close>, \<open>AgentQueueLaws\<close>, \<open>AgentQueueClaims\<close>): the event-sourced
      queue of plans for agents.
    \<^item> \<open>modules/agents/plan_schema.py\<close> (\<open>PlanSchema\<close>, \<open>PlanLaws\<close>): normalisation and validation of those
      plans, and the strict mode in which the queue applies them.
    \<^item> \<open>modules/volition/volition_gate.py\<close> (\<open>VolitionGate\<close>, \<open>VolitionLaws\<close>): the gate that allows or denies each
      step the runtime wants to take, with budgets per time bucket and a fall-back slot.
    \<^item> \<open>modules/runtime/execution_window.py\<close> (\<open>ExecWindow\<close>, \<open>ExecWindowLaws\<close>): the time-boxed permission to execute.
    \<^item> \<open>modules/runtime/comm_window.py\<close> (\<open>CommWindow\<close>, \<open>CommLaws\<close>): the time-boxed permissions to talk to named hosts,
      several at a time.
    \<^item> \<open>modules/runtime/oracle_window.py\<close> (\<open>OracleWindow\<close>, \<open>OracleLaws\<close>): the time-boxed permission to call a
      remote model, and its budgets.
    \<^item> \<open>modules/runtime/oracle_requests.py\<close> (\<open>OracleRequests\<close>, \<open>RequestLaws\<close>) and
      \<open>modules/llm/providers_openai_oracle.py\<close> (\<open>OracleProvider\<close>, \<open>ProviderLaws\<close>): the approval of such calls
      for agents, and the provider that asks window and request before it posts.
    \<^item> \<open>modules/runtime/evidence_signing.py\<close> (\<open>EvidenceSigning\<close>, \<open>EvidenceLaws\<close>): signed evidence packets.
    \<^item> \<open>modules/runtime/l4w_witness.py\<close> (\<open>L4wWitness\<close>, \<open>L4wChain\<close>, \<open>L4wLaws\<close>): signed envelopes that witness the
      clearing of a quarantine, salted commitments to what the reviewer wrote and their disclosure, and the
      hash chain of envelopes per agent.
    \<^item> \<open>modules/runtime/drift_quarantine.py\<close> (\<open>QuarState\<close>, \<open>QuarDrift\<close>, \<open>QuarClear\<close>, \<open>QuarStatus\<close>; lemmas in
      \<open>QuarStore\<close>, \<open>QuarSpec\<close>, \<open>QuarLaws\<close>): agents whose stored allowlist drifts from the one their template gives are
      quarantined, and a quarantine ends by a clear that needs signed evidence and an envelope.
    \<^item> \<open>modules/garage/templates/registry.py\<close> (\<open>GarageTemplates\<close>), \<open>modules/garage/agent_factory.py\<close> and
      \<open>agent_spec.py\<close> (\<open>GarageFactory\<close>; lemmas in \<open>GarageLaws\<close>, \<open>GarageRegistry\<close>, \<open>GarageClaims\<close>): from the capabilities of a
      template to the allowlist of an agent, and the registry of agents.
    \<^item> \<open>crdt\<close>, \<open>merkle\<close>, \<open>p2p\<close> (\<open>CrdtLww\<close>, \<open>CrdtConvergence\<close>, \<open>MerkleTree\<close>, \<open>P2pSync\<close>): the replicated
      last-writer-wins set, the hash tree over its entries, the content-addressed store and the
      comparison of two replicas.

  \<open>PlanSchema\<close> is the plan check \<open>AgentQueue\<close> takes as an argument (\<open>enqueue_plan\<close> puts the two together).
  \<open>OracleProvider\<close> calls \<open>OracleWindow\<close> and \<open>OracleRequests\<close>, whose approvals open oracle windows.
  \<open>QuarClear\<close> calls \<open>EvidenceSigning\<close>, \<open>L4wWitness\<close> and \<open>L4wChain\<close>; its rows are what \<open>GlitchAdapters\<close> reads.
  \<open>GarageFactory\<close> cancels in \<open>AgentQueue\<close> what a disabled agent has queued; \<open>GarageClaims\<close> puts its registry and its allowlists into the
  parameters of \<open>QuarDrift\<close>.
  \<open>GlitchM1\<close> feeds \<open>GlitchAdapters\<close> (a drift quarantine row in, a bundle out) and \<open>GlitchStore\<close> (a bundle
  onto disk); \<open>ArlLayer\<close> events feed \<open>ArlWitness\<close>; \<open>CrdtLww\<close> entries are the leaves of \<open>P2pSync\<close>, hashed
  by \<open>MerkleTree\<close>.

  \<^bold>\<open>How the code is rendered.\<close>  A frozen dataclass is a \<^theory_text>\<open>record\<close> (field prefixes name the class), an
  \<open>Enum\<close> a \<^theory_text>\<open>datatype\<close> with its string values as a function, an exception the left side of a sum, an
  operation that changes files a function from \<open>files\<close> to \<open>files\<close>, an operation on the queue a function
  from the lines of its log to a reply and new lines.  Untyped dictionaries are association lists over
  \<open>pyval\<close> (\<open>PyBase\<close>): every \<open>row.get(k) or ...\<close>, \<open>str(...)\<close>, \<open>.strip()\<close> is a function of the prelude.
  The wall clock, \<open>uuid4().hex\<close> and environment variables are arguments.  \<open>LwwEntry\<close> objects are mutable
  and shared between sets by \<open>merge\<close>, so \<open>CrdtLww\<close> has an explicit heap.  All definitions compute; every
  loop is structural, or terminates by the measure given (\<open>merkle_levels\<close>: the length of a level halves).  Fuel is used once, by
  \<open>merkle_loop\<close>, the loop of \<open>Merkle.build\<close> as it is written, with the exact number of rounds it needs (C39).

  \<^bold>\<open>Prelude.\<close>  \<open>PyBase\<close> (values, strings, the error monad \<open>bindE\<close>, runs \<open>run_ops\<close>, and the locales of
  state machines: \<open>guarded_machine\<close>, \<open>invariant_machine\<close>, \<open>validating_machine\<close>), \<open>PyConv\<close> (conversions that
  raise), \<open>PyState\<close> (operations that change a state and may raise half way),
  \<open>PyFiles\<close> (files, \<open>_write_json\<close> with its temporary file and \<open>os.replace\<close>, and the locales
  \<open>append_log\<close> and \<open>document_store\<close>), \<open>PyJson\<close> (\<open>json.dumps\<close> with sorted keys and the proof that it
  determines the value), \<open>PyCodec\<close> (the ASCII escapes of \<open>json.dumps\<close>, hexadecimal digests, base 64 and paths, with the
  round trips of each).  Every store of the model interprets \<open>append_log\<close> and \<open>document_store\<close>; every
  state machine interprets one of the machine locales; \<open>replica_merge\<close> (\<open>CrdtLww\<close>) is interpreted on the
  views of the replicated set.

  \<^bold>\<open>Parameters.\<close>  SHA-256 is \<open>sha\<close> or \<open>digest\<close>; hypotheses on it are only that it yields 64 characters
  (hexadecimal ones where the ledger checks them), and statements about integrity offer as the alternative that two
  different ones of the byte strings that were hashed (a definition lists them) have the same digest.  \<open>float()\<close> and \<open>datetime.fromtimestamp\<close> (\<open>GlitchAdapters\<close>), the JSON text of a float
  (\<open>ArqSidecar\<close>), the agent registry, the template table and the plan check (\<open>AgentQueue\<close>), the registered actions,
  the reader of plan files and the nesting that \<open>json.dumps\<close> can follow (\<open>PlanSchema\<close>), the HTTP post, the vault and the texts of
  exceptions (\<open>OracleProvider\<close>) are arguments
  of the definitions that call them.  The signature library is the record \<open>crypto\<close> (\<open>EvidenceSigning\<close>); the hypothesis
  \<open>crypto_ok\<close> on it says that a key that was written is read back and that a signature verifies under its own key.
  Of the drift quarantine the record \<open>quar_env\<close> (\<open>QuarState\<close>) holds the parameters: the agent registry and the allowlist it
  resolves for a specification, the evidence and envelope files and the JSON reader, \<open>last_seen.json\<close>, the clock and the
  texts of exceptions; its file and event log are part of the state.
  The record \<open>template_env\<close> (\<open>GarageTemplates\<close>) holds the table of templates, the identifiers of the registered actions and SHA-256;
  \<open>garage_env\<close> (\<open>GarageFactory\<close>) the clock, the environment and the integrity guard; the hypotheses \<open>honest_guard\<close> and \<open>exact_guard\<close>
  say that a write it reports was made, and that it writes exactly when it reports so.
  The random salts and the key a generator returns are arguments, as is the reply of the roster log (\<open>L4wWitness\<close>).

  \<^bold>\<open>What the lemmas show.\<close>
    \<^item> Glitch stack: validity of every node that leaves a reducer over any run (C1), quarantine of research
      (lemma \<open>derive_research_quarantined\<close>), the lanes through which authority can be reached, and that two allowed steps together grant
      what one forbids (lemma \<open>runtime_only_through_witness\<close>, lemma \<open>research_laundering\<close>), evidence and authority (lemma \<open>evidence_authority\<close>), the adapter (lemma \<open>adapter_bundle\<close>, lemma \<open>adapter_decision\<close>) and its store (lemma \<open>persist_bundle_roundtrip\<close>, C2).
    \<^item> Arbitration: consistency of record and event log over any run (C3), holds (lemma \<open>arl_hold_kept\<close>), routing (C4), the
      ways around the guards (lemma \<open>arl_hold_evaded\<close>), the store (lemma \<open>dispute_store_roundtrip\<close>), the ledger: canonical bytes (lemma \<open>canonical_bytes_order\<close>), completeness (C5),
      binding (C6), and truncation, which it does not notice (lemma \<open>ledger_truncation\<close>).
    \<^item> Grounding: commit eligibility (C7), bounds on reliance (lemma \<open>agl_reliance_bound\<close>), no widening along a chain (lemma \<open>agl_chain_never_widens\<close>).
    \<^item> ARQ: the promotion gates (C8) and the pipeline from detection to promotion (lemma \<open>arq_pipeline\<close>).
    \<^item> Queue: refinement of an abstract map from ids to statuses (C9), the life of an item (lemma \<open>queue_item_life\<close>, lemma \<open>queue_terminal_final\<close>), no
      exception on its own log (C10), what is selected (lemma \<open>select_next_best\<close>), exclusive claims between whole operations
      and double claims when check and append interleave (C11, C12), re-enqueueing (lemma \<open>reenqueue_resets\<close>), enqueueing (lemma \<open>enqueue_waits\<close>).
    \<^item> Volition gate: what one decision allows and counts (C13), the budget over any run (C14), what
      exceptions of the core do (lemma \<open>gate_rollback\<close>), and how alternating window lengths evade the budget (lemma \<open>gate_window_switch\<close>).
    \<^item> Execution window: refinement of a machine with at most one live window (C15), no revival
      (lemma \<open>window_never_revives\<close>, from the locale \<open>lease\<close>), repeated expiry events (lemma \<open>window_expires_again\<close>) and budgets that are
      counted but not enforced (lemma \<open>window_usage_unbounded\<close>).
    \<^item> Communication windows: refinement of a map of live windows (C20), each a lease that stays closed
      (lemma \<open>comm_closed_for_good\<close>).
    \<^item> Plans: what validation accepts (C16), normal forms (C17), what strict mode lets through
      (lemma \<open>strict_mode_admits\<close>) and how it is worn out (C18).
    \<^item> Oracle window: refinement of a machine with at most one live window and its usage (C19), the budgets of
      calls and input tokens over any run (lemma \<open>oracle_budget_kept\<close>), the output budget that concurrent calls exceed (lemma \<open>oracle_output_overshoot\<close>).
    \<^item> Requests and provider: refinement of a map of requests beside the live window (C21), one window for one
      request (C22), exactly when a call posts (C23), and how many posts a window carries
      (C24).
    \<^item> Evidence: what is signed verifies (lemma \<open>sign_then_verify\<close>), and whose packets are accepted (C28).
    \<^item> Envelopes: what is built and signed is accepted with its disclosure (C25), an accepted one
      binds its content (C26), the chains stay linked (C27), and how a commitment can
      be opened (lemma \<open>commit_opening\<close>).
    \<^item> Drift quarantine: refinement of a map from agents to the active event and the last cleared one
      (C29), a quarantine ends only by a clear (C30) that in slot B comes with
      accepted evidence (C31), and how refused clears wear the enforcement out (C32).
    \<^item> Agents: what slot B grants (C33), the registry as a map (C35), that the drift guard
      finds a tampered list of actions and leaves a fresh agent alone (C34), and where the allowlist gives way
      (lemma \<open>telegram_agent_suspect\<close>, lemma \<open>switched_off_yet_granted\<close>, lemma \<open>raw_not_switched\<close>, lemma \<open>resolve_raises\<close>).
    \<^item> Replication: order of merges (C36), local operations (C37), imports that outrun the clock (lemma \<open>import_outruns_remove\<close>),
      snapshots (lemma \<open>snapshot_restores\<close>), the hash tree and its loop (C38, C39), the content-addressed store (lemma \<open>cas_get_back\<close>), the difference of two
      replicas (C40) and branches (lemma \<open>branch_answers_window\<close>).

  \<^bold>\<open>What is not modelled.\<close>  Characters above 255, floating point arithmetic, directories, partially written
  lines of a log, and the time zone of timestamps.  Of the characters at which \<open>str.splitlines\<close> cuts a line and
  \<open>json.dumps\<close> writes as they are, U+0085 is one of the model: a row of a log that holds it cannot be read back
  (\<open>line_of\<close>, \<open>line_safe\<close> in \<open>PyFiles\<close>; the laws \<open>load_append\<close>, \<open>load_cut\<close> and \<open>load_stuck\<close> of \<open>append_log\<close>).  Threads: an
  operation is one step, also where the code takes its lock more than once (\<open>VolitionGate.decide\<close> checks the budget and
  counts under separate acquisitions), except in C12.  \<open>dict(...)\<close> of a list of pairs is an error of the model
  (\<open>dict_arg\<close>).  Recursion of the interpreter on values nested a thousand deep is represented by the depth that
  \<open>json.dumps\<close> can follow only (\<open>PlanSchema\<close>); \<open>str()\<close> of such a value is total here.  Of the modelled files: in \<open>agent_queue.py\<close> the path
  helpers; in \<open>l4w_witness.py\<close> the indented files of envelopes and disclosures and the audit \<open>verify_agent_chain\<close>; in \<open>drift_quarantine.py\<close> saves that fail, symbolic links below the evidence root, keys of a stored row that
  the program does not know and blank lines of the event log; in \<open>registry.py\<close> \<open>create_agent_from_template\<close> and in
  \<open>agent_factory.py\<close> \<open>garage_maintenance\<close>, which run whole operations of other modules; in \<open>p2p_crdt_routes.py\<close> the HTTP
  handlers.  Of the repository: the web and Telegram interfaces, the language-model providers, memory and
  retrieval, and the scheduling of
  agents.
\<close>

end
